(* ===== verification/Jid.thy ===== *)
theory Jid
  imports Prelude
begin

text \<open>
  The WhatsApp address syntax of \<^verbatim>\<open>crates/wa-binary/src/jid.rs\<close>:
  \<^verbatim>\<open>user[_agent][:device]@server\<close>, its parser, its printer and the two derived comparisons.
\<close>

section \<open>Domains and servers\<close>

datatype WaJidDomain = DomWhatsApp | DomLid | DomHosted | DomHostedLid

text \<open>The \<open>repr(u8)\<close> discriminants.\<close>

fun domain_code :: "WaJidDomain \<Rightarrow> nat" where
  "domain_code DomWhatsApp = 0"
| "domain_code DomLid = 1"
| "domain_code DomHosted = 128"
| "domain_code DomHostedLid = 129"

datatype JidServer = CUs | GUs | Broadcast | SWhatsAppNet | Call | Lid | Newsletter | Bot
  | Hosted | HostedLid | Other

fun domain_server :: "WaJidDomain \<Rightarrow> JidServer \<Rightarrow> JidServer" where
  "domain_server DomWhatsApp fallback = fallback"
| "domain_server DomLid fallback = Lid"
| "domain_server DomHosted fallback = Hosted"
| "domain_server DomHostedLid fallback = HostedLid"

fun server_str :: "JidServer \<Rightarrow> string" where
  "server_str CUs = ''c.us''"
| "server_str GUs = ''g.us''"
| "server_str Broadcast = ''broadcast''"
| "server_str SWhatsAppNet = ''s.whatsapp.net''"
| "server_str Call = ''call''"
| "server_str Lid = ''lid''"
| "server_str Newsletter = ''newsletter''"
| "server_str Bot = ''bot''"
| "server_str Hosted = ''hosted''"
| "server_str HostedLid = ''hosted.lid''"
| "server_str Other = ''''"

definition from_server_str :: "string \<Rightarrow> JidServer" where
  "from_server_str v =
     (if v = ''c.us'' then CUs
      else if v = ''g.us'' then GUs
      else if v = ''broadcast'' then Broadcast
      else if v = ''s.whatsapp.net'' then SWhatsAppNet
      else if v = ''call'' then Call
      else if v = ''lid'' then Lid
      else if v = ''newsletter'' then Newsletter
      else if v = ''bot'' then Bot
      else if v = ''hosted'' then Hosted
      else if v = ''hosted.lid'' then HostedLid
      else Other)"

fun domain_type :: "JidServer \<Rightarrow> u16 option \<Rightarrow> WaJidDomain" where
  "domain_type Lid agent = DomLid"
| "domain_type Hosted agent = DomHosted"
| "domain_type HostedLid agent = DomHostedLid"
| "domain_type _ agent =
     (if agent = Some (of_nat (domain_code DomLid)) then DomLid
      else if agent = Some (of_nat (domain_code DomHosted)) then DomHosted
      else if agent = Some (of_nat (domain_code DomHostedLid)) then DomHostedLid
      else DomWhatsApp)"

section \<open>Parsing and printing\<close>

record FullJid =
  jid_user :: string
  jid_server :: JidServer
  jid_server_raw :: string
  jid_device :: "u16 option"
  jid_agent :: "u16 option"
  jid_domain_type :: WaJidDomain

text \<open>\<open>str::split_once\<close> and \<open>str::parse::<u16>().ok()\<close>.\<close>

fun split_once :: "char \<Rightarrow> string \<Rightarrow> (string \<times> string) option" where
  "split_once c [] = None"
| "split_once c (x # xs) =
     (if x = c then Some ([], xs)
      else case split_once c xs of None \<Rightarrow> None | Some (l, r) \<Rightarrow> Some (x # l, r))"

definition parse_u16 :: "string \<Rightarrow> u16 option" where
  "parse_u16 s = map_option of_nat (parse_nat_max 65535 s)"

definition show_u16 :: "u16 \<Rightarrow> string" where
  "show_u16 w = show_nat (unat w)"

definition jid_encode :: "string \<Rightarrow> JidServer \<Rightarrow> u16 option \<Rightarrow> u16 option \<Rightarrow> string" where
  "jid_encode user server device agent =
     (let agent' = (case agent of None \<Rightarrow> [] | Some v \<Rightarrow> ''_'' @ show_u16 v);
          device' = (case device of None \<Rightarrow> [] | Some v \<Rightarrow> '':'' @ show_u16 v)
      in user @ agent' @ device' @ ''@'' @ server_str server)"

definition jid_decode :: "string \<Rightarrow> FullJid option" where
  "jid_decode jid =
     (case split_once CHR ''@'' jid of
        None \<Rightarrow> None
      | Some (user_combined, server_raw) \<Rightarrow>
          (let (user_agent, device_raw) =
                 (case split_once CHR '':'' user_combined of
                    Some (user_agent, device) \<Rightarrow> (user_agent, Some device)
                  | None \<Rightarrow> (user_combined, None));
               (user, agent_raw) =
                 (case split_once CHR ''_'' user_agent of
                    Some (user, agent) \<Rightarrow> (user, Some agent)
                  | None \<Rightarrow> (user_agent, None));
               device = Option.bind device_raw parse_u16;
               agent = Option.bind agent_raw parse_u16;
               server = from_server_str server_raw
           in Some \<lparr>jid_user = user, jid_server = server, jid_server_raw = server_raw,
                    jid_device = device, jid_agent = agent,
                    jid_domain_type = domain_type server agent\<rparr>))"

definition jid_normalized_user :: "string \<Rightarrow> string option" where
  "jid_normalized_user jid =
     (case jid_decode jid of
        None \<Rightarrow> None
      | Some decoded \<Rightarrow>
          (let server = (if jid_server decoded = CUs then SWhatsAppNet else jid_server decoded)
           in Some (jid_encode (jid_user decoded) server None None)))"

definition are_jids_same_user :: "string \<Rightarrow> string \<Rightarrow> bool" where
  "are_jids_same_user left right =
     (case (jid_decode left, jid_decode right) of
        (Some l, Some r) \<Rightarrow> jid_user l = jid_user r
      | _ \<Rightarrow> False)"

section \<open>Lemmas\<close>

lemma split_once_append [simp]: "c \<notin> set xs \<Longrightarrow> split_once c (xs @ c # ys) = Some (xs, ys)"
  by (induction xs) auto

lemma split_once_None_iff: "split_once c xs = None \<longleftrightarrow> c \<notin> set xs"
  by (induction xs) (auto split: option.splits)

lemma split_once_None [simp]: "c \<notin> set xs \<Longrightarrow> split_once c xs = None"
  by (simp add: split_once_None_iff)

lemma split_once_Some:
  "split_once c xs = Some (l, r) \<longleftrightarrow> xs = l @ c # r \<and> c \<notin> set l"
proof
  show "split_once c xs = Some (l, r) \<Longrightarrow> xs = l @ c # r \<and> c \<notin> set l"
    by (induction xs arbitrary: l) (auto split: option.splits if_splits)
qed auto

lemma from_server_str_server_str [simp]: "from_server_str (server_str s) = s"
  by (cases s) (simp_all add: from_server_str_def)

lemma server_str_inject [simp]: "server_str s = server_str t \<longleftrightarrow> s = t"
  by (metis from_server_str_server_str)

lemma parse_show_u16 [simp]: "parse_u16 (show_u16 w) = Some w"
proof -
  show ?thesis by (simp add: parse_u16_def show_u16_def parse_nat_max_show unat_u16_le)
qed

lemma not_in_show_u16 [simp]:
  "CHR ''@'' \<notin> set (show_u16 w)" "CHR '':'' \<notin> set (show_u16 w)" "CHR ''_'' \<notin> set (show_u16 w)"
  unfolding show_u16_def by (rule not_in_show_nat, simp)+

text \<open>A user part that the syntax can carry: none of the three separators.\<close>

definition plain_user :: "string \<Rightarrow> bool" where
  "plain_user u \<longleftrightarrow> CHR ''@'' \<notin> set u \<and> CHR '':'' \<notin> set u \<and> CHR ''_'' \<notin> set u"

lemma jid_decode_encode:
  assumes "plain_user u"
  shows "jid_decode (jid_encode u s d a) =
     Some \<lparr>jid_user = u, jid_server = s, jid_server_raw = server_str s,
           jid_device = d, jid_agent = a, jid_domain_type = domain_type s a\<rparr>"
proof -
  have u: "CHR ''@'' \<notin> set u" "CHR '':'' \<notin> set u" "CHR ''_'' \<notin> set u"
    using assms by (simp_all add: plain_user_def)
  show ?thesis
    using u
      split_once_append [of "CHR ''@''" "u @ (case a of None \<Rightarrow> [] | Some v \<Rightarrow> ''_'' @ show_u16 v) @
        (case d of None \<Rightarrow> [] | Some v \<Rightarrow> '':'' @ show_u16 v)" "server_str s"]
      split_once_append [of "CHR '':''" "u @ (case a of None \<Rightarrow> [] | Some v \<Rightarrow> ''_'' @ show_u16 v)"]
      split_once_append [of "CHR ''_''" u]
    by (cases a; cases d) (simp_all add: jid_decode_def jid_encode_def Let_def)
qed

lemma jid_decode_plain_user: "jid_decode j = Some d \<Longrightarrow> plain_user (jid_user d)"
  by (auto simp: jid_decode_def plain_user_def split_once_Some split_once_None_iff Let_def
      split: option.splits prod.splits)

lemma jid_decode_server: "jid_decode j = Some d \<Longrightarrow> jid_server d = from_server_str (jid_server_raw d)"
  by (auto simp: jid_decode_def Let_def split: option.splits prod.splits)

lemma jid_decode_None_iff: "jid_decode j = None \<longleftrightarrow> CHR ''@'' \<notin> set j"
  by (auto simp: jid_decode_def split_once_None_iff [symmetric] Let_def split: option.splits prod.splits)

lemma plain_user_Nil [simp]: "plain_user []"
  by (simp add: plain_user_def)

lemma jid_normalized_user_encode:
  "plain_user u \<Longrightarrow> jid_normalized_user (jid_encode u s d a) =
     Some (jid_encode u (if s = CUs then SWhatsAppNet else s) None None)"
  by (simp add: jid_normalized_user_def jid_decode_encode)

text \<open>
  Parsing what the printer wrote gives back every field, for every user part free of the
  three separators and every server, device and agent; the parsed domain is the server's.
\<close>

theorem jid_decode_encode_roundtrip:
  assumes "plain_user u"
  shows "jid_decode (jid_encode u s d a) =
     Some \<lparr>jid_user = u, jid_server = s, jid_server_raw = server_str s,
           jid_device = d, jid_agent = a, jid_domain_type = domain_type s a\<rparr>"
  using assms by (rule jid_decode_encode)

theorem jid_decode_encode_roundtrip_witness:
  "jid_decode (jid_encode ''12345'' SWhatsAppNet (Some 7) None) =
     Some \<lparr>jid_user = ''12345'', jid_server = SWhatsAppNet, jid_server_raw = ''s.whatsapp.net'',
           jid_device = Some 7, jid_agent = None, jid_domain_type = DomWhatsApp\<rparr>"
  using jid_decode_encode_roundtrip [of "''12345''" SWhatsAppNet "Some 7" None]
  by (simp add: plain_user_def)

text \<open>
  Normalising is idempotent, and what it returns never carries a device, an agent or the
  legacy server \<^verbatim>\<open>c.us\<close>.
\<close>

theorem jid_normalized_user_idempotent:
  assumes "jid_normalized_user j = Some n"
  shows "jid_normalized_user n = Some n \<and>
    (\<exists>d. jid_decode n = Some d \<and> jid_device d = None \<and> jid_agent d = None \<and> jid_server d \<noteq> CUs)"
proof -
  obtain d where d: "jid_decode j = Some d"
    and n: "n = jid_encode (jid_user d)
      (if jid_server d = CUs then SWhatsAppNet else jid_server d) None None"
    using assms by (auto simp: jid_normalized_user_def Let_def split: option.splits)
  from d have u: "plain_user (jid_user d)" by (rule jid_decode_plain_user)
  show ?thesis
    unfolding n by (auto simp: jid_normalized_user_encode [OF u] jid_decode_encode [OF u])
qed

theorem jid_normalized_user_idempotent_witness:
  "jid_normalized_user ''12345@s.whatsapp.net'' = Some ''12345@s.whatsapp.net''"
proof -
  have "jid_normalized_user ''12345:7@c.us'' = Some ''12345@s.whatsapp.net''"
    by (simp add: jid_normalized_user_def jid_decode_def jid_encode_def from_server_str_def Let_def)
  then show ?thesis by (rule jid_normalized_user_idempotent [THEN conjunct1])
qed

end
