(* ===== verification/Node.thy ===== *)
theory Node
  imports Prelude "HOL-Library.List_Lexorder" "HOL-Library.Char_ord"
begin

text \<open>
  The stanza tree of \<^verbatim>\<open>crates/wa-binary/src/node.rs\<close> and the two error enums of
  \<^verbatim>\<open>crates/wa-binary/src/codec.rs\<close>. A \<open>BTreeMap\<close> is its list of entries in key order; strings
  are ordered byte by byte, as Rust orders them.
\<close>

section \<open>Ordered maps\<close>

type_synonym ('k, 'v) btree = "('k \<times> 'v) list"

fun btree_insert :: "'k::linorder \<Rightarrow> 'v \<Rightarrow> ('k, 'v) btree \<Rightarrow> ('k, 'v) btree" where
  "btree_insert k v [] = [(k, v)]"
| "btree_insert k v ((k', v') # kvs) =
     (if k < k' then (k, v) # (k', v') # kvs
      else if k = k' then (k, v) # kvs
      else (k', v') # btree_insert k v kvs)"

definition btree_ok :: "('k::linorder, 'v) btree \<Rightarrow> bool" where
  "btree_ok kvs \<longleftrightarrow> sorted_wrt (<) (map fst kvs)"

lemma btree_ok_Nil [simp]: "btree_ok []"
  by (simp add: btree_ok_def)

lemma btree_ok_Cons: "btree_ok (kv # kvs) \<longleftrightarrow> (\<forall>k\<in>set (map fst kvs). fst kv < k) \<and> btree_ok kvs"
  by (auto simp: btree_ok_def)

lemma set_btree_insert: "fst ` set (btree_insert k v kvs) = insert k (fst ` set kvs)"
  by (induction k v kvs rule: btree_insert.induct) auto

lemma btree_ok_insert [simp]: "btree_ok kvs \<Longrightarrow> btree_ok (btree_insert k v kvs)"
proof (induction k v kvs rule: btree_insert.induct)
  case (2 k v k' v' kvs)
  then show ?case
    by (auto simp: btree_ok_Cons set_btree_insert dest: order.strict_trans)
qed (simp add: btree_ok_def)

lemma map_of_btree_insert [simp]:
  "btree_ok kvs \<Longrightarrow> map_of (btree_insert k v kvs) = (map_of kvs)(k \<mapsto> v)"
  by (induction k v kvs rule: btree_insert.induct) (auto simp: fun_eq_iff btree_ok_Cons)

lemma btree_insert_last:
  "\<forall>k'\<in>fst ` set kvs. k' < k \<Longrightarrow> btree_insert k v kvs = kvs @ [(k, v)]"
  by (induction k v kvs rule: btree_insert.induct) auto

text \<open>Inserting the entries of an ordered list one after the other rebuilds the list.\<close>

lemma fold_btree_insert:
  "btree_ok (acc @ kvs) \<Longrightarrow> fold (\<lambda>(k, v). btree_insert k v) kvs acc = acc @ kvs"
proof (induction kvs arbitrary: acc)
  case (Cons kv kvs)
  obtain k v where kv: "kv = (k, v)" by force
  with Cons.prems have "\<forall>k'\<in>fst ` set acc. k' < k"
    by (auto simp: btree_ok_def sorted_wrt_append)
  then have "btree_insert k v acc = acc @ [(k, v)]" by (rule btree_insert_last)
  with Cons kv show ?case by simp
qed simp

text \<open>\<open>BTreeMap::remove\<close>\<close>

definition btree_remove :: "'k \<Rightarrow> ('k, 'v) btree \<Rightarrow> ('k, 'v) btree" where
  "btree_remove k kvs = filter (\<lambda>(k', _). k' \<noteq> k) kvs"

text \<open>\<open>entry(key).and_modify(\<dots>).or_insert(\<dots>)\<close>\<close>

definition entry_merge :: "('v \<Rightarrow> 'v \<Rightarrow> 'v) \<Rightarrow> 'k::linorder \<Rightarrow> 'v \<Rightarrow> ('k, 'v) btree \<Rightarrow> ('k, 'v) btree" where
  "entry_merge join key val kvs = (case map_of kvs key of
     Some existing \<Rightarrow> btree_insert key (join existing val) kvs
   | None \<Rightarrow> btree_insert key val kvs)"

lemma btree_keys_greater: "btree_ok kvs \<Longrightarrow> \<forall>(k', v)\<in>set kvs. k < k' \<Longrightarrow> map_of kvs k = None"
  by (auto simp: map_of_eq_None_iff)

lemma map_of_btree_remove: "map_of (btree_remove k kvs) = (map_of kvs)(k := None)"
  by (induction kvs) (auto simp: btree_remove_def fun_eq_iff)

lemma btree_ok_remove: "btree_ok kvs \<Longrightarrow> btree_ok (btree_remove k kvs)"
  by (induction kvs) (auto simp: btree_remove_def btree_ok_Cons)

lemma btree_remove_absent: "map_of kvs k = None \<Longrightarrow> btree_remove k kvs = kvs"
  by (induction kvs) (auto simp: btree_remove_def split: if_splits)

lemma btree_unique: "btree_ok xs \<Longrightarrow> btree_ok ys \<Longrightarrow> map_of xs = map_of ys \<Longrightarrow> xs = ys"
proof (induction xs arbitrary: ys)
  case Nil
  then show ?case by (cases ys) (auto simp: fun_eq_iff split: if_splits)
next
  case (Cons x xs)
  obtain k v where x: "x = (k, v)" by force
  from Cons.prems(3) x have "map_of ys k = Some v" by (metis map_of_Cons_code(2))
  then obtain l w zs where ys: "ys = (l, w) # zs" by (cases ys) auto
  have "\<not> l < k"
  proof
    assume lk: "l < k"
    with Cons.prems(1) x have "map_of xs l = None"
      by (intro btree_keys_greater) (auto simp: btree_ok_Cons dest: order.strict_trans)
    with lk x have "map_of (x # xs) l = None" by simp
    with fun_cong [OF Cons.prems(3), of l] ys show False by simp
  qed
  moreover have "\<not> k < l"
  proof
    assume kl: "k < l"
    with Cons.prems(2) ys have "map_of zs k = None"
      by (intro btree_keys_greater) (auto simp: btree_ok_Cons dest: order.strict_trans)
    with kl ys have "map_of ys k = None" by simp
    with \<open>map_of ys k = Some v\<close> show False by simp
  qed
  ultimately have l: "l = k" by simp
  with \<open>map_of ys k = Some v\<close> ys have w: "w = v" by simp
  have none: "map_of xs k = None" "map_of zs k = None"
    using Cons.prems(1,2) x ys l by (auto intro!: btree_keys_greater simp: btree_ok_Cons)
  have maps: "map_of xs = map_of zs"
  proof
    fix z show "map_of xs z = map_of zs z"
      using fun_cong [OF Cons.prems(3), of z] x ys l w none by (cases "z = k") auto
  qed
  have "btree_ok xs" "btree_ok zs" using Cons.prems(1,2) ys by (simp_all add: btree_ok_Cons)
  from Cons.IH [OF this maps] show ?case using x ys l w by simp
qed

section \<open>Nodes\<close>

datatype BinaryNode =
    BinaryNode (node_tag: string) (node_attrs: "(string, string) btree")
      (node_content: "BinaryNodeContent option")
and BinaryNodeContent =
    Nodes "BinaryNode list"
  | Text string
  | Bytes bytes

definition node_new :: "string \<Rightarrow> BinaryNode" where
  "node_new tag = BinaryNode tag [] None"

definition with_attr :: "string \<Rightarrow> string \<Rightarrow> BinaryNode \<Rightarrow> BinaryNode" where
  "with_attr key val node =
     BinaryNode (node_tag node) (btree_insert key val (node_attrs node)) (node_content node)"

definition with_content :: "BinaryNodeContent \<Rightarrow> BinaryNode \<Rightarrow> BinaryNode" where
  "with_content content node = BinaryNode (node_tag node) (node_attrs node) (Some content)"

definition attr :: "string \<Rightarrow> BinaryNode \<Rightarrow> string option" where
  "attr key node = map_of (node_attrs node) key"

lemma node_new_simps [simp]:
  "node_tag (node_new t) = t" "node_attrs (node_new t) = []" "node_content (node_new t) = None"
  by (simp_all add: node_new_def)

lemma with_attr_simps [simp]:
  "node_tag (with_attr k v n) = node_tag n"
  "node_attrs (with_attr k v n) = btree_insert k v (node_attrs n)"
  "node_content (with_attr k v n) = node_content n"
  by (simp_all add: with_attr_def)

lemma with_content_simps [simp]:
  "node_tag (with_content c n) = node_tag n"
  "node_attrs (with_content c n) = node_attrs n"
  "node_content (with_content c n) = Some c"
  by (simp_all add: with_content_def)

section \<open>Codec errors\<close>

datatype BinaryEncodeError = EmptyTag | StringTooLarge nat | ListTooLarge nat
  | InvalidNibble char | InvalidHex char

text \<open>The payloads of the two wrapped foreign errors are their message texts.\<close>

datatype BinaryDecodeError = EndOfStream | InvalidListTag u8 | InvalidNode | InvalidStringTag u8
  | InvalidPackedByte | InvalidJidPair | InvalidUtf8 | Decompression string

end
