(* ===== verification/Store.thy ===== *)
theory Store
  imports Prelude
begin

text \<open>
  The key-value store under every component: \<^verbatim>\<open>crates/wa-store/src/traits.rs\<close> (the namespaces, the
  errors and the transaction interface) and \<^verbatim>\<open>crates/wa-store/src/memory.rs\<close> (the in-memory store
  and its all-or-nothing transactions). The interface is the locale \<open>store_tx\<close>; the lemmas a
  client needs are proved in it, and it is interpreted on the in-memory transaction.
\<close>

section \<open>Namespaces and errors\<close>

datatype KeyNamespace =
  NsCredentials | NsPreKey | NsSession | NsSenderKey | NsSenderKeyMemory | NsAppStateSyncKey
  | NsAppStateSyncBlocked | NsAppStateSyncVersion | NsAccountSettingsEvent |
  NsAccountReachoutTimelock | NsDefaultDisappearingMode | NsBusinessNotificationEvent |
  NsCallEvent | NsChatEvent | NsContactEvent | NsGroupEvent | NsLabelAssociation |
  NsLabelEvent | NsLidMapping | NsDeviceList | NsPendingMediaRetry | NsMediaRetryEvent |
  NsMessageCappingInfo | NsMessageEvent | NsMessageUpdate | NsNewsletterParticipantEvent |
  NsNewsletterReactionEvent | NsNewsletterSettingsEvent | NsNewsletterViewEvent |
  NsQuickReplyEvent | NsPresenceEvent | NsRecentStickerEvent | NsReceiptEvent |
  NsReactionEvent | NsSignalProviderIdentity | NsSignalProviderPreKey |
  NsSignalProviderSenderKey | NsSignalProviderSenderKeyMemory | NsSignalProviderSession |
  NsSignalProviderSignedPreKey | NsTcToken | NsIdentityKey

fun namespace_str :: "KeyNamespace \<Rightarrow> string" where
  "namespace_str NsCredentials = ''credentials''"
| "namespace_str NsPreKey = ''pre-key''"
| "namespace_str NsSession = ''session''"
| "namespace_str NsSenderKey = ''sender-key''"
| "namespace_str NsSenderKeyMemory = ''sender-key-memory''"
| "namespace_str NsAppStateSyncKey = ''app-state-sync-key''"
| "namespace_str NsAppStateSyncBlocked = ''app-state-sync-blocked''"
| "namespace_str NsAppStateSyncVersion = ''app-state-sync-version''"
| "namespace_str NsAccountSettingsEvent = ''account-settings-event''"
| "namespace_str NsAccountReachoutTimelock = ''account-reachout-timelock''"
| "namespace_str NsDefaultDisappearingMode = ''default-disappearing-mode''"
| "namespace_str NsBusinessNotificationEvent = ''business-notification-event''"
| "namespace_str NsCallEvent = ''call-event''"
| "namespace_str NsChatEvent = ''chat-event''"
| "namespace_str NsContactEvent = ''contact-event''"
| "namespace_str NsGroupEvent = ''group-event''"
| "namespace_str NsLabelAssociation = ''label-association''"
| "namespace_str NsLabelEvent = ''label-event''"
| "namespace_str NsLidMapping = ''lid-mapping''"
| "namespace_str NsDeviceList = ''device-list''"
| "namespace_str NsPendingMediaRetry = ''pending-media-retry''"
| "namespace_str NsMediaRetryEvent = ''media-retry-event''"
| "namespace_str NsMessageCappingInfo = ''message-capping-info''"
| "namespace_str NsMessageEvent = ''message-event''"
| "namespace_str NsMessageUpdate = ''message-update''"
| "namespace_str NsNewsletterParticipantEvent = ''newsletter-participant-event''"
| "namespace_str NsNewsletterReactionEvent = ''newsletter-reaction-event''"
| "namespace_str NsNewsletterSettingsEvent = ''newsletter-settings-event''"
| "namespace_str NsNewsletterViewEvent = ''newsletter-view-event''"
| "namespace_str NsQuickReplyEvent = ''quick-reply-event''"
| "namespace_str NsPresenceEvent = ''presence-event''"
| "namespace_str NsRecentStickerEvent = ''recent-sticker-event''"
| "namespace_str NsReceiptEvent = ''receipt-event''"
| "namespace_str NsReactionEvent = ''reaction-event''"
| "namespace_str NsSignalProviderIdentity = ''signal-provider-identity''"
| "namespace_str NsSignalProviderPreKey = ''signal-provider-pre-key''"
| "namespace_str NsSignalProviderSenderKey = ''signal-provider-sender-key''"
| "namespace_str NsSignalProviderSenderKeyMemory = ''signal-provider-sender-key-memory''"
| "namespace_str NsSignalProviderSession = ''signal-provider-session''"
| "namespace_str NsSignalProviderSignedPreKey = ''signal-provider-signed-pre-key''"
| "namespace_str NsTcToken = ''tctoken''"
| "namespace_str NsIdentityKey = ''identity-key''"

datatype StoreError = Sqlite string | Join string | MissingParent | InvalidData string

section \<open>The in-memory store and its transactions\<close>

type_synonym store_map = "KeyNamespace \<times> string \<Rightarrow> bytes option"

text \<open>
  A transaction body is a function of the snapshot: it returns its result and the snapshot as
  it left it. \<open>tx_bind\<close> is the statement sequence with \<open>?\<close> on the store's own result.
\<close>

type_synonym ('s, 'a) tx = "'s \<Rightarrow> (StoreError + 'a) \<times> 's"

definition tx_return :: "'a \<Rightarrow> ('s, 'a) tx" where
  "tx_return x s = (Ok x, s)"

definition tx_fail :: "StoreError \<Rightarrow> ('s, 'a) tx" where
  "tx_fail e s = (Err e, s)"

definition tx_bind :: "('s, 'a) tx \<Rightarrow> ('a \<Rightarrow> ('s, 'b) tx) \<Rightarrow> ('s, 'b) tx" where
  "tx_bind f g s = (case f s of (Inl e, s') \<Rightarrow> (Inl e, s') | (Inr x, s') \<Rightarrow> g x s')"

definition mem_get :: "KeyNamespace \<Rightarrow> string \<Rightarrow> (store_map, bytes option) tx" where
  "mem_get ns key m = (Ok (m (ns, key)), m)"

definition mem_set :: "KeyNamespace \<Rightarrow> string \<Rightarrow> bytes \<Rightarrow> (store_map, unit) tx" where
  "mem_set ns key val m = (Ok (), m((ns, key) \<mapsto> val))"

definition mem_delete :: "KeyNamespace \<Rightarrow> string \<Rightarrow> (store_map, unit) tx" where
  "mem_delete ns key m = (Ok (), m((ns, key) := None))"

text \<open>
  \<open>MemoryAuthStore\<close>: the map behind a mutex. A panic while the lock is held poisons it, and from
  then on every operation fails with the poison error's text.
\<close>

record MemoryAuthStore =
  entries :: store_map
  poisoned :: bool

definition memory_new :: MemoryAuthStore where
  "memory_new = \<lparr>entries = (\<lambda>_. None), poisoned = False\<rparr>"

definition with_entries ::
  "MemoryAuthStore \<Rightarrow> (store_map, 'r) tx \<Rightarrow> (StoreError + 'r) \<times> MemoryAuthStore" where
  "with_entries st exec =
     (if poisoned st then (Err (Join ''poisoned lock: another task failed inside''), st)
      else (let (r, m) = exec (entries st) in (r, st\<lparr>entries := m\<rparr>)))"

definition memory_get ::
  "MemoryAuthStore \<Rightarrow> KeyNamespace \<Rightarrow> string \<Rightarrow> (StoreError + bytes option) \<times> MemoryAuthStore" where
  "memory_get st ns key = with_entries st (mem_get ns key)"

definition memory_set ::
  "MemoryAuthStore \<Rightarrow> KeyNamespace \<Rightarrow> string \<Rightarrow> bytes \<Rightarrow> (StoreError + unit) \<times> MemoryAuthStore" where
  "memory_set st ns key val = with_entries st (mem_set ns key val)"

definition memory_delete ::
  "MemoryAuthStore \<Rightarrow> KeyNamespace \<Rightarrow> string \<Rightarrow> (StoreError + unit) \<times> MemoryAuthStore" where
  "memory_delete st ns key = with_entries st (mem_delete ns key)"

text \<open>\<open>transaction\<close>: the body runs on a clone, which replaces the entries only when it returns \<open>Ok\<close>.\<close>

definition commit_on_ok :: "(store_map, 'r) tx \<Rightarrow> (store_map, 'r) tx" where
  "commit_on_ok exec m =
     (case exec m of (Inl e, snapshot) \<Rightarrow> (Inl e, m) | (Inr r, snapshot) \<Rightarrow> (Inr r, snapshot))"

definition memory_transaction ::
  "MemoryAuthStore \<Rightarrow> (store_map, 'r) tx \<Rightarrow> (StoreError + 'r) \<times> MemoryAuthStore" where
  "memory_transaction st exec = with_entries st (commit_on_ok exec)"

section \<open>Lemmas on transaction bodies\<close>

named_theorems tx_simps \<open>evaluation of transaction bodies\<close>

lemma tx_bind_return [tx_simps]: "tx_bind (tx_return x) g = g x"
  by (rule ext) (simp add: tx_bind_def tx_return_def)

lemma tx_return_apply [tx_simps]: "tx_return x s = (Inr x, s)"
  by (simp add: tx_return_def)

lemma tx_fail_apply [tx_simps]: "tx_fail e s = (Inl e, s)"
  by (simp add: tx_fail_def)

lemma tx_bind_fail [tx_simps]: "tx_bind (tx_fail e) g = tx_fail e"
  by (rule ext) (simp add: tx_bind_def tx_fail_def)

lemma tx_bind_mem [tx_simps]:
  "tx_bind (mem_get ns key) g m = g (m (ns, key)) m"
  "tx_bind (mem_set ns key v) h m = h () (m((ns, key) \<mapsto> v))"
  "tx_bind (mem_delete ns key) h m = h () (m((ns, key) := None))"
  by (simp_all add: tx_bind_def mem_get_def mem_set_def mem_delete_def)

lemma mem_apply [tx_simps]:
  "mem_get ns key m = (Inr (m (ns, key)), m)"
  "mem_set ns key v m = (Inr (), m((ns, key) \<mapsto> v))"
  "mem_delete ns key m = (Inr (), m((ns, key) := None))"
  by (simp_all add: mem_get_def mem_set_def mem_delete_def)

section \<open>The transaction interface\<close>

text \<open>
  The trait \<open>StoreTransaction\<close> with what its callers rely on: reads return the last write, the
  other keys are untouched. \<open>abs\<close> is the map a state stands for.
\<close>

locale store_tx =
  fixes get :: "KeyNamespace \<Rightarrow> string \<Rightarrow> ('s, bytes option) tx"
    and set :: "KeyNamespace \<Rightarrow> string \<Rightarrow> bytes \<Rightarrow> ('s, unit) tx"
    and delete :: "KeyNamespace \<Rightarrow> string \<Rightarrow> ('s, unit) tx"
    and abs :: "'s \<Rightarrow> store_map"
  assumes get_ok: "get ns key s = (Inr (abs s (ns, key)), s)"
    and set_ok: "\<exists>s'. set ns key v s = (Inr (), s') \<and> abs s' = (abs s)((ns, key) \<mapsto> v)"
    and delete_ok: "\<exists>s'. delete ns key s = (Inr (), s') \<and> abs s' = (abs s)((ns, key) := None)"
begin

lemma get_after_set: "\<exists>s'. tx_bind (set ns key v) (\<lambda>_. get ns' key') s =
    (Inr (if (ns', key') = (ns, key) then Some v else abs s (ns', key')), s')"
proof -
  obtain s' where s': "set ns key v s = (Inr (), s')" "abs s' = (abs s)((ns, key) \<mapsto> v)"
    using set_ok by blast
  then show ?thesis by (auto simp: tx_bind_def get_ok)
qed

lemma get_after_delete: "\<exists>s'. tx_bind (delete ns key) (\<lambda>_. get ns' key') s =
    (Inr (if (ns', key') = (ns, key) then None else abs s (ns', key')), s')"
proof -
  obtain s' where s': "delete ns key s = (Inr (), s')" "abs s' = (abs s)((ns, key) := None)"
    using delete_ok by blast
  then show ?thesis by (auto simp: tx_bind_def get_ok)
qed

text \<open>Moving a record: copy it to the new place, then delete the old one.\<close>

lemma copy_then_delete:
  "\<exists>s'. tx_bind (set ns' key' v) (\<lambda>_. delete ns key) s = (Inr (), s') \<and>
    abs s' = (abs s)((ns', key') \<mapsto> v, (ns, key) := None)"
proof -
  obtain s1 where s1: "set ns' key' v s = (Inr (), s1)" "abs s1 = (abs s)((ns', key') \<mapsto> v)"
    using set_ok by blast
  obtain s2 where s2: "delete ns key s1 = (Inr (), s2)" "abs s2 = (abs s1)((ns, key) := None)"
    using delete_ok by blast
  from s1 s2 show ?thesis by (simp add: tx_bind_def)
qed

end

interpretation mem: store_tx mem_get mem_set mem_delete "\<lambda>m. m"
  by unfold_locales (simp_all add: tx_simps)

text \<open>The store's own operations, as a fresh reader sees them.\<close>

lemma memory_transaction_Err:
  "memory_transaction st exec = (Inl e, st') \<Longrightarrow> st' = st"
  by (auto simp: memory_transaction_def with_entries_def commit_on_ok_def split: if_splits sum.splits
      prod.splits)

lemma memory_transaction_Ok:
  "memory_transaction st exec = (Inr r, st') \<Longrightarrow>
     \<not> poisoned st \<and> exec (entries st) = (Inr r, entries st') \<and> \<not> poisoned st'"
  by (auto simp: memory_transaction_def with_entries_def commit_on_ok_def split: if_splits sum.splits
      prod.splits)

text \<open>
  A transaction is atomic. When its body fails, the store is exactly as before, whatever
  the body had written; when it succeeds, the store holds exactly the body's final snapshot.
\<close>

theorem memory_transaction_atomic:
  assumes "\<not> poisoned st"
  shows "case exec (entries st) of
     (Inl e, _) \<Rightarrow> memory_transaction st exec = (Inl e, st)
   | (Inr r, m) \<Rightarrow> memory_transaction st exec = (Inr r, st\<lparr>entries := m\<rparr>)"
  using assms
  by (auto simp: memory_transaction_def with_entries_def commit_on_ok_def split: sum.splits prod.splits)

theorem memory_transaction_atomic_witness:
  "memory_transaction memory_new
     (tx_bind (mem_set NsSession ''jid'' [1]) (\<lambda>_. tx_fail (Join ''fail''))) =
   (Inl (Join ''fail'') :: StoreError + unit, memory_new)"
  using memory_transaction_atomic [of memory_new
      "tx_bind (mem_set NsSession ''jid'' [1]) (\<lambda>_. tx_fail (Join ''fail'')) :: (store_map, unit) tx"]
  by (simp add: memory_new_def tx_simps)

lemma memory_get_after_set:
  "\<not> poisoned st \<Longrightarrow> fst (memory_get (snd (memory_set st ns key v)) ns' key') =
      Inr (if ns' = ns \<and> key' = key then Some v else entries st (ns', key'))"
  by (auto simp: memory_get_def memory_set_def with_entries_def tx_simps)

lemma memory_get_after_delete:
  "\<not> poisoned st \<Longrightarrow> fst (memory_get (snd (memory_delete st ns key)) ns' key') =
      Inr (if ns' = ns \<and> key' = key then None else entries st (ns', key'))"
  by (auto simp: memory_get_def memory_delete_def with_entries_def tx_simps)

end
