(* ===== verification/Core.thy ===== *)
theory Core
  imports Node Store
begin

text \<open>
  The error type of \<^verbatim>\<open>crates/wa-core/src/error.rs\<close>, the external functions the model is
  parameterised by, and the wrappers of \<^verbatim>\<open>crates/wa-crypto/src/primitives.rs\<close> and
  \<^verbatim>\<open>crates/wa-crypto/src/keys.rs\<close> around them.
\<close>

section \<open>Errors\<close>

datatype CryptoError = InvalidKeyLength | InvalidIvLength | InvalidInput string
  | CiphertextTooShort | Encrypt | Decrypt | Kdf

fun crypto_error_text :: "CryptoError \<Rightarrow> string" where
  "crypto_error_text InvalidKeyLength = ''invalid key length''"
| "crypto_error_text InvalidIvLength = ''invalid iv length''"
| "crypto_error_text (InvalidInput e) = ''invalid input: '' @ e"
| "crypto_error_text CiphertextTooShort = ''ciphertext is too short''"
| "crypto_error_text Encrypt = ''encryption failed''"
| "crypto_error_text Decrypt = ''decryption failed''"
| "crypto_error_text Kdf = ''key derivation failed''"

text \<open>Errors of foreign crates are carried as their message texts.\<close>

datatype CoreError =
    StoreErr StoreError
  | BinaryDecode BinaryDecodeError
  | BinaryEncode BinaryEncodeError
  | ProtobufDecode string
  | ConnectionClosed
  | Io string
  | DuplicateQueryTag string
  | TimedOut
  | Payload string
  | Protocol string
  | Crypto CryptoError
  | Task string
  | Http string
  | Noise string
  | WebSocket string

type_synonym 'a core_result = "CoreError + 'a"

section \<open>External functions\<close>

text \<open>
  The wire structures of the Signal messages as \<^verbatim>\<open>prost\<close> sees them: what its derived encoder
  takes and its derived decoder returns.
\<close>

record SignalWireWhisperMessage =
  w_ephemeral_key :: bytes
  w_counter :: "u32 option"
  w_previous_counter :: "u32 option"
  w_ciphertext :: bytes

record SignalWirePreKeyWhisperMessage =
  w_pre_key_id :: "u32 option"
  w_base_key :: bytes
  w_identity_key :: bytes
  w_message :: bytes
  w_registration_id :: "u32 option"
  w_signed_pre_key_id :: "u32 option"

record ProtoSenderKeyDistributionMessage =
  d_id :: "u32 option"
  d_iteration :: "u32 option"
  d_chain_key :: "bytes option"
  d_signing_key :: "bytes option"

record ProtoSenderKeyMessage =
  m_id :: "u32 option"
  m_iteration :: "u32 option"
  m_ciphertext :: "bytes option"

record SenderChainKeyStructure =
  c_iteration :: "u32 option"
  c_seed :: "bytes option"

record SenderSigningKeyStructure =
  k_public :: "bytes option"
  k_private :: "bytes option"

record SenderMessageKeyStructure =
  mk_iteration :: "u32 option"
  mk_seed :: "bytes option"

record SenderKeyStateStructure =
  s_sender_key_id :: "u32 option"
  s_sender_chain_key :: "SenderChainKeyStructure option"
  s_sender_signing_key :: "SenderSigningKeyStructure option"
  s_sender_message_keys :: "SenderMessageKeyStructure list"

text \<open>
  One record holds every function that is not under \<^verbatim>\<open>src/\<close>: HMAC, HKDF, AES-CBC, X25519 and
  XEdDSA of the RustCrypto and dalek crates, and the encoders and decoders \<^verbatim>\<open>prost\<close> derives. A
  \<open>None\<close> is the crate's error; a decoder's error is its text.
\<close>

record ext =
  x_hmac_sha256 :: "bytes \<Rightarrow> bytes \<Rightarrow> bytes option"
  x_hkdf_sha256 :: "bytes \<Rightarrow> bytes \<Rightarrow> bytes \<Rightarrow> nat \<Rightarrow> bytes option"
  x_aes_cbc_encrypt :: "bytes \<Rightarrow> bytes \<Rightarrow> bytes \<Rightarrow> bytes"
  x_aes_cbc_decrypt :: "bytes \<Rightarrow> bytes \<Rightarrow> bytes \<Rightarrow> bytes option"
  x_public :: "bytes \<Rightarrow> bytes"
  x_diffie_hellman :: "bytes \<Rightarrow> bytes \<Rightarrow> bytes"
  x_xed_sign :: "bytes \<Rightarrow> bytes \<Rightarrow> bytes \<Rightarrow> bytes"
  enc_whisper :: "SignalWireWhisperMessage \<Rightarrow> bytes"
  dec_whisper :: "bytes \<Rightarrow> string + SignalWireWhisperMessage"
  enc_pre_key_whisper :: "SignalWirePreKeyWhisperMessage \<Rightarrow> bytes"
  dec_pre_key_whisper :: "bytes \<Rightarrow> string + SignalWirePreKeyWhisperMessage"
  enc_sender_distribution :: "ProtoSenderKeyDistributionMessage \<Rightarrow> bytes"
  dec_sender_distribution :: "bytes \<Rightarrow> string + ProtoSenderKeyDistributionMessage"
  enc_sender_message :: "ProtoSenderKeyMessage \<Rightarrow> bytes"
  dec_sender_message :: "bytes \<Rightarrow> string + ProtoSenderKeyMessage"
  enc_sender_record :: "SenderKeyStateStructure list \<Rightarrow> bytes"
  dec_sender_record :: "bytes \<Rightarrow> string + SenderKeyStateStructure list"

text \<open>
  What the code relies on: HMAC takes a key of any length and returns 32 bytes; HKDF-SHA256
  returns as many bytes as asked for, up to 255 blocks; a CBC ciphertext is never empty and
  decrypts under the same key and IV; X25519 keys and agreements have 32 bytes and the two
  sides agree; a signature has 64 bytes; a decoder reads back what its encoder wrote, and a
  message with a field that is not the default is not encoded as nothing; an encoded message holds
  the bytes of its byte fields.
\<close>

definition ext_ok :: "ext \<Rightarrow> bool" where
  "ext_ok X \<longleftrightarrow>
     (\<forall>k m. \<exists>t. x_hmac_sha256 X k m = Some t \<and> length t = 32) \<and>
     (\<forall>salt ikm info n. n \<le> 255 * 32 \<longrightarrow>
        (\<exists>out. x_hkdf_sha256 X salt ikm info n = Some out \<and> length out = n)) \<and>
     (\<forall>k iv p. x_aes_cbc_encrypt X k iv p \<noteq> [] \<and>
        x_aes_cbc_decrypt X k iv (x_aes_cbc_encrypt X k iv p) = Some p) \<and>
     (\<forall>a. length a = 32 \<longrightarrow> length (x_public X a) = 32) \<and>
     (\<forall>a b. length a = 32 \<and> length b = 32 \<longrightarrow>
        length (x_diffie_hellman X a b) = 32 \<and>
        x_diffie_hellman X a (x_public X b) = x_diffie_hellman X b (x_public X a)) \<and>
     (\<forall>k m r. length (x_xed_sign X k m r) = 64) \<and>
     (\<forall>v. dec_whisper X (enc_whisper X v) = Inr v) \<and>
     (\<forall>v. w_ciphertext v \<noteq> [] \<longrightarrow> enc_whisper X v \<noteq> []) \<and>
     (\<forall>v. dec_pre_key_whisper X (enc_pre_key_whisper X v) = Inr v) \<and>
     (\<forall>v. dec_sender_distribution X (enc_sender_distribution X v) = Inr v) \<and>
     (\<forall>v. dec_sender_message X (enc_sender_message X v) = Inr v) \<and>
     (\<forall>v. dec_sender_record X (enc_sender_record X v) = Inr v) \<and>
     (\<forall>v c s. d_chain_key v = Some c \<and> d_signing_key v = Some s \<longrightarrow>
        length c + length s \<le> length (enc_sender_distribution X v))"

lemma ext_hmac:
  assumes "ext_ok X"
  obtains t where "x_hmac_sha256 X k m = Some t" "length t = 32"
proof -
  from assms have "\<forall>k m. \<exists>t. x_hmac_sha256 X k m = Some t \<and> length t = 32"
    unfolding ext_ok_def by (rule conjunct1)
  then obtain t where "x_hmac_sha256 X k m = Some t \<and> length t = 32" by metis
  then show thesis using that by simp
qed

lemma ext_hkdf:
  assumes "ext_ok X" "n \<le> 8160"
  obtains out where "x_hkdf_sha256 X salt ikm info n = Some out" "length out = n"
proof -
  have "\<forall>salt ikm info n. n \<le> 255 * 32 \<longrightarrow>
      (\<exists>out. x_hkdf_sha256 X salt ikm info n = Some out \<and> length out = n)"
    using assms(1) unfolding ext_ok_def by (elim conjE)
  moreover have "n \<le> 255 * 32" using assms(2) by simp
  ultimately show thesis using that by blast
qed

lemma ext_aes:
  assumes "ext_ok X"
  shows "x_aes_cbc_encrypt X k iv p \<noteq> []"
    and "x_aes_cbc_decrypt X k iv (x_aes_cbc_encrypt X k iv p) = Some p"
  using assms unfolding ext_ok_def by blast+

lemma ext_keys:
  assumes "ext_ok X"
  shows "length a = 32 \<Longrightarrow> length (x_public X a) = 32"
    and "length a = 32 \<Longrightarrow> length b = 32 \<Longrightarrow> length (x_diffie_hellman X a b) = 32"
    and "length a = 32 \<Longrightarrow> length b = 32 \<Longrightarrow>
      x_diffie_hellman X a (x_public X b) = x_diffie_hellman X b (x_public X a)"
    and "length (x_xed_sign X k m r) = 64"
  using assms unfolding ext_ok_def by blast+

lemma ext_wire:
  assumes "ext_ok X"
  shows "dec_whisper X (enc_whisper X v1) = Inr v1"
    and "dec_pre_key_whisper X (enc_pre_key_whisper X v2) = Inr v2"
    and "dec_sender_distribution X (enc_sender_distribution X v3) = Inr v3"
    and "dec_sender_message X (enc_sender_message X v4) = Inr v4"
    and "dec_sender_record X (enc_sender_record X v5) = Inr v5"
  using assms unfolding ext_ok_def by blast+

lemma ext_whisper_nonempty: "ext_ok X \<Longrightarrow> w_ciphertext v \<noteq> [] \<Longrightarrow> enc_whisper X v \<noteq> []"
  unfolding ext_ok_def by blast

lemma ext_distribution_length:
  "ext_ok X \<Longrightarrow> d_chain_key v = Some c \<Longrightarrow> d_signing_key v = Some s \<Longrightarrow>
    length c + length s \<le> length (enc_sender_distribution X v)"
  unfolding ext_ok_def by blast

section \<open>Crypto wrappers\<close>

definition validate_len :: "nat \<Rightarrow> bytes \<Rightarrow> CryptoError \<Rightarrow> CryptoError + bytes" where
  "validate_len n input e = (if length input = n then Ok input else Err e)"

definition aes_256_cbc_encrypt_with_iv ::
  "ext \<Rightarrow> bytes \<Rightarrow> bytes \<Rightarrow> bytes \<Rightarrow> CryptoError + bytes" where
  "aes_256_cbc_encrypt_with_iv X plaintext key iv =
     and_then (validate_len 32 key InvalidKeyLength) (\<lambda>key.
     and_then (validate_len 16 iv InvalidIvLength) (\<lambda>iv.
     Ok (x_aes_cbc_encrypt X key iv plaintext)))"

definition aes_256_cbc_decrypt_with_iv ::
  "ext \<Rightarrow> bytes \<Rightarrow> bytes \<Rightarrow> bytes \<Rightarrow> CryptoError + bytes" where
  "aes_256_cbc_decrypt_with_iv X ciphertext key iv =
     and_then (validate_len 32 key InvalidKeyLength) (\<lambda>key.
     and_then (validate_len 16 iv InvalidIvLength) (\<lambda>iv.
     ok_or (x_aes_cbc_decrypt X key iv ciphertext) Decrypt))"

definition hmac_sha256 :: "ext \<Rightarrow> bytes \<Rightarrow> bytes \<Rightarrow> CryptoError + bytes" where
  "hmac_sha256 X input key = ok_or (x_hmac_sha256 X key input) InvalidKeyLength"

definition hkdf_sha256 :: "ext \<Rightarrow> bytes \<Rightarrow> nat \<Rightarrow> bytes \<Rightarrow> bytes \<Rightarrow> CryptoError + bytes" where
  "hkdf_sha256 X ikm len salt info = ok_or (x_hkdf_sha256 X salt ikm info len) Kdf"

text \<open>\<open>SecretBytes\<close> is its byte string; the arrays \<open>[u8; 32]\<close> are byte strings of that length.\<close>

record KeyPair =
  kp_public :: bytes
  kp_private :: bytes

definition SIGNAL_PUBLIC_KEY_VERSION :: u8 where
  "SIGNAL_PUBLIC_KEY_VERSION = 5"

definition public_key_from_private :: "ext \<Rightarrow> bytes \<Rightarrow> bytes" where
  "public_key_from_private X private_key = x_public X private_key"

text \<open>\<open>generate_key_pair\<close> with the random private key it drew as its argument.\<close>

definition generate_key_pair :: "ext \<Rightarrow> bytes \<Rightarrow> KeyPair" where
  "generate_key_pair X private_bytes =
     \<lparr>kp_public = public_key_from_private X private_bytes, kp_private = private_bytes\<rparr>"

definition shared_key :: "ext \<Rightarrow> bytes \<Rightarrow> bytes \<Rightarrow> bytes" where
  "shared_key X private_key public_key = x_diffie_hellman X private_key public_key"

definition prefixed_signal_public_key :: "bytes \<Rightarrow> bytes" where
  "prefixed_signal_public_key public_key = SIGNAL_PUBLIC_KEY_VERSION # public_key"

text \<open>\<open>sign_x25519\<close>; \<open>rnd\<close> is the signer's randomness.\<close>

definition sign_x25519 :: "ext \<Rightarrow> bytes \<Rightarrow> bytes \<Rightarrow> bytes \<Rightarrow> CryptoError + bytes" where
  "sign_x25519 X rnd private_key message =
     and_then (validate_len 32 private_key InvalidKeyLength) (\<lambda>private_key.
     Ok (x_xed_sign X private_key message rnd))"

type_synonym verifier = "bytes \<Rightarrow> bytes \<Rightarrow> bytes \<Rightarrow> bool"

text \<open>The verifier accepts what \<open>sign_x25519\<close> signs.\<close>

definition verifier_ok :: "ext \<Rightarrow> verifier \<Rightarrow> bool" where
  "verifier_ok X V \<longleftrightarrow> (\<forall>k m r. length k = 32 \<longrightarrow> V (x_public X k) m (x_xed_sign X k m r))"

lemma validate_len_Ok [result_simps]: "validate_len n xs e = Inr ys \<longleftrightarrow> length xs = n \<and> ys = xs"
  by (auto simp: validate_len_def)

lemma validate_len_eq [simp]: "length xs = n \<Longrightarrow> validate_len n xs e = Inr xs"
  by (simp add: validate_len_def)

lemma hmac_sha256_total:
  assumes "ext_ok X"
  shows "\<exists>t. hmac_sha256 X input key = Inr t \<and> length t = 32"
proof -
  obtain t where "x_hmac_sha256 X key input = Some t" "length t = 32" by (rule ext_hmac [OF assms])
  then show ?thesis by (simp add: hmac_sha256_def)
qed

lemma hkdf_sha256_total:
  assumes "ext_ok X" "n \<le> 8160"
  shows "\<exists>out. hkdf_sha256 X ikm n salt info = Inr out \<and> length out = n"
proof -
  obtain out where "x_hkdf_sha256 X salt ikm info n = Some out" "length out = n"
    by (rule ext_hkdf [OF assms])
  then show ?thesis by (simp add: hkdf_sha256_def)
qed

lemma aes_256_cbc_roundtrip:
  assumes "ext_ok X" "length key = 32" "length iv = 16"
  shows "\<exists>c. aes_256_cbc_encrypt_with_iv X p key iv = Inr c \<and> c \<noteq> [] \<and>
    aes_256_cbc_decrypt_with_iv X c key iv = Inr p"
  using assms ext_aes
  by (simp add: aes_256_cbc_encrypt_with_iv_def aes_256_cbc_decrypt_with_iv_def)

lemma length_prefixed [simp]: "length (prefixed_signal_public_key k) = Suc (length k)"
  by (simp add: prefixed_signal_public_key_def)

end
