(* ===== verification/SignalKeys.thy ===== *)
theory SignalKeys
  imports Jid Core
begin

text \<open>
  Constants, key material and addresses of \<^verbatim>\<open>crates/wa-core/src/signal.rs\<close>: the records the
  session and sender-key code share, the two normalisations of a public key, the constant-time
  comparison, and the maps from a JID to the store keys its sessions live under.
\<close>

section \<open>Constants\<close>

abbreviation SIGNAL_MESSAGE_KEY_LEN :: nat where "SIGNAL_MESSAGE_KEY_LEN \<equiv> 32"
abbreviation SIGNAL_MESSAGE_IV_LEN :: nat where "SIGNAL_MESSAGE_IV_LEN \<equiv> 16"
abbreviation SIGNAL_MESSAGE_MAC_LEN :: nat where "SIGNAL_MESSAGE_MAC_LEN \<equiv> 8"
abbreviation SIGNAL_MESSAGE_DERIVED_KEY_LEN :: nat where "SIGNAL_MESSAGE_DERIVED_KEY_LEN \<equiv> 80"
abbreviation SIGNAL_ROOT_DERIVED_KEY_LEN :: nat where "SIGNAL_ROOT_DERIVED_KEY_LEN \<equiv> 64"
abbreviation SIGNAL_PRE_KEY_DERIVED_KEY_LEN :: nat where "SIGNAL_PRE_KEY_DERIVED_KEY_LEN \<equiv> 64"
abbreviation SIGNAL_PRE_KEY_SECRET_INPUT_3DH_LEN :: nat where
  "SIGNAL_PRE_KEY_SECRET_INPUT_3DH_LEN \<equiv> 128"
abbreviation SIGNAL_PRE_KEY_SECRET_INPUT_4DH_LEN :: nat where
  "SIGNAL_PRE_KEY_SECRET_INPUT_4DH_LEN \<equiv> 160"
abbreviation SIGNAL_SENDER_MESSAGE_DERIVED_KEY_LEN :: nat where
  "SIGNAL_SENDER_MESSAGE_DERIVED_KEY_LEN \<equiv> 48"
abbreviation SIGNAL_SENDER_KEY_SIGNATURE_LEN :: nat where "SIGNAL_SENDER_KEY_SIGNATURE_LEN \<equiv> 64"
abbreviation SIGNAL_MAX_SENDER_KEY_STATES :: nat where "SIGNAL_MAX_SENDER_KEY_STATES \<equiv> 5"
abbreviation SIGNAL_MAX_SENDER_MESSAGE_KEYS :: nat where "SIGNAL_MAX_SENDER_MESSAGE_KEYS \<equiv> 2000"
abbreviation SIGNAL_MAX_PROVIDER_MESSAGE_KEYS :: nat where
  "SIGNAL_MAX_PROVIDER_MESSAGE_KEYS \<equiv> 2000"
abbreviation SIGNAL_MAX_MESSAGE_FORWARD_JUMPS :: u32 where
  "SIGNAL_MAX_MESSAGE_FORWARD_JUMPS \<equiv> 25000"
abbreviation SIGNAL_MAX_SENDER_FORWARD_JUMPS :: u32 where
  "SIGNAL_MAX_SENDER_FORWARD_JUMPS \<equiv> 25000"

definition SIGNAL_MESSAGE_KEYS_INFO :: bytes where
  "SIGNAL_MESSAGE_KEYS_INFO = bytes_of ''WhisperMessageKeys''"
definition SIGNAL_MESSAGE_KEYS_SALT :: bytes where
  "SIGNAL_MESSAGE_KEYS_SALT = replicate 32 0"
definition SIGNAL_MESSAGE_KEY_SEED :: bytes where "SIGNAL_MESSAGE_KEY_SEED = [1]"
definition SIGNAL_CHAIN_KEY_SEED :: bytes where "SIGNAL_CHAIN_KEY_SEED = [2]"
definition SIGNAL_ROOT_RATCHET_INFO :: bytes where
  "SIGNAL_ROOT_RATCHET_INFO = bytes_of ''WhisperRatchet''"
definition SIGNAL_PRE_KEY_INFO :: bytes where "SIGNAL_PRE_KEY_INFO = bytes_of ''WhisperText''"
definition SIGNAL_X3DH_DISCONTINUITY :: bytes where
  "SIGNAL_X3DH_DISCONTINUITY = replicate 32 255"
definition SIGNAL_SENDER_MESSAGE_KEYS_INFO :: bytes where
  "SIGNAL_SENDER_MESSAGE_KEYS_INFO = bytes_of ''WhisperGroup''"
definition SIGNAL_SENDER_MESSAGE_KEY_SEED :: bytes where "SIGNAL_SENDER_MESSAGE_KEY_SEED = [1]"
definition SIGNAL_SENDER_CHAIN_KEY_SEED :: bytes where "SIGNAL_SENDER_CHAIN_KEY_SEED = [2]"
definition SIGNAL_WIRE_CURRENT_VERSION :: u8 where "SIGNAL_WIRE_CURRENT_VERSION = 3"
definition SIGNAL_WHISPER_MESSAGE_VERSION :: u8 where
  "SIGNAL_WHISPER_MESSAGE_VERSION = push_bit 4 SIGNAL_WIRE_CURRENT_VERSION OR SIGNAL_WIRE_CURRENT_VERSION"

section \<open>Addresses and key material\<close>

record SignalAddress =
  addr_name :: string
  addr_device_id :: u16

definition address_string :: "SignalAddress \<Rightarrow> string" where
  "address_string a = addr_name a @ ''.'' @ show_u16 (addr_device_id a)"

record SignalPreKey =
  pk_key_id :: u32
  pk_public_key :: bytes

record SignalSignedPreKey =
  spk_key_id :: u32
  spk_public_key :: bytes
  spk_signature :: bytes

record SignalSession =
  ses_registration_id :: u32
  ses_identity_key :: bytes
  ses_signed_pre_key :: SignalSignedPreKey
  ses_pre_key :: "SignalPreKey option"

record SignalLocalIdentity =
  li_key_pair :: KeyPair
  li_public_key :: bytes

record SignalLocalSignedPreKey =
  ls_key_id :: u32
  ls_key_pair :: KeyPair
  ls_public_key :: bytes
  ls_signature :: bytes

record SignalLocalPreKey =
  lp_key_id :: u32
  lp_key_pair :: KeyPair
  lp_public_key :: bytes

record SignalLocalKeyMaterial =
  lk_registration_id :: u32
  lk_identity :: SignalLocalIdentity
  lk_signed_pre_key :: SignalLocalSignedPreKey

section \<open>Public and private key bytes\<close>

definition normalize_signal_public_key :: "bytes \<Rightarrow> bytes core_result" where
  "normalize_signal_public_key key =
     (if length key = 32 then Ok (SIGNAL_PUBLIC_KEY_VERSION # key)
      else if length key = 33 \<and> key ! 0 = SIGNAL_PUBLIC_KEY_VERSION then Ok key
      else Err (Protocol (''invalid signal public key length: '' @ show_nat (length key))))"

definition signal_private_key_bytes :: "bytes \<Rightarrow> bytes core_result" where
  "signal_private_key_bytes private_key =
     (if length private_key = 32 then Ok private_key
      else Err (Protocol (''Signal private key must be '' @ show_nat SIGNAL_MESSAGE_KEY_LEN @ '' bytes'')))"

definition signal_public_key_bytes :: "bytes \<Rightarrow> bytes core_result" where
  "signal_public_key_bytes public_key =
     (if length public_key = 32 then Ok public_key
      else if length public_key = 33 \<and> public_key ! 0 = SIGNAL_PUBLIC_KEY_VERSION
        then Ok (drop 1 public_key)
      else Err (Protocol (''invalid signal public key length: '' @ show_nat (length public_key))))"

text \<open>The comparison that looks at every byte, whatever the first difference.\<close>

definition constant_time_eq :: "bytes \<Rightarrow> bytes \<Rightarrow> bool" where
  "constant_time_eq left right =
     (if length left \<noteq> length right then False
      else fold (\<lambda>(l, r) acc. acc OR (l XOR r)) (zip left right) 0 = 0)"

lemma fold_or_zero:
  "fold (\<lambda>(l, r) acc. acc OR (l XOR r)) ps (a :: u8) = 0 \<longleftrightarrow> a = 0 \<and> (\<forall>(l, r)\<in>set ps. l = r)"
proof (induction ps arbitrary: a)
  case (Cons p ps)
  have or0: "x OR y = 0 \<longleftrightarrow> x = 0 \<and> y = 0" for x y :: u8
    by (rule or_eq_0_iff)
  have xor0: "x XOR y = 0 \<longleftrightarrow> x = y" for x y :: u8
  proof
    assume "x XOR y = 0"
    then have "(x XOR y) XOR y = y" by simp
    then show "x = y" by (simp only: xor.assoc xor_self_eq xor.right_neutral)
  qed simp
  obtain l r where p: "p = (l, r)" by force
  show ?case by (auto simp: p Cons.IH or0 xor0)
qed simp

lemma constant_time_eq_iff: "constant_time_eq left right \<longleftrightarrow> left = right"
proof (cases "length left = length right")
  case True
  then show ?thesis
    by (auto simp: constant_time_eq_def fold_or_zero set_zip list_eq_iff_nth_eq)
qed (auto simp: constant_time_eq_def)

lemma normalize_key_cases:
  "normalize_signal_public_key key = Inr k \<longleftrightarrow>
     (length key = 32 \<and> k = prefixed_signal_public_key key) \<or>
     (length key = 33 \<and> hd key = SIGNAL_PUBLIC_KEY_VERSION \<and> k = key)"
  by (cases key) (auto simp: normalize_signal_public_key_def prefixed_signal_public_key_def)

lemma normalize_key_length:
  "normalize_signal_public_key key = Inr k \<Longrightarrow> length k = 33 \<and> hd k = SIGNAL_PUBLIC_KEY_VERSION"
  by (auto simp: normalize_key_cases prefixed_signal_public_key_def)

lemma normalize_key_idem:
  "normalize_signal_public_key key = Inr k \<Longrightarrow> normalize_signal_public_key k = Inr k"
  by (auto simp: normalize_key_cases prefixed_signal_public_key_def)

lemma normalize_prefixed [simp]:
  "length k = 32 \<Longrightarrow> normalize_signal_public_key (prefixed_signal_public_key k) =
     Inr (prefixed_signal_public_key k)"
  by (auto simp: normalize_key_cases prefixed_signal_public_key_def)

lemma public_bytes_prefixed [simp]:
  "length k = 32 \<Longrightarrow> signal_public_key_bytes (prefixed_signal_public_key k) = Inr k"
  by (simp add: signal_public_key_bytes_def prefixed_signal_public_key_def)

lemma public_bytes_of_normalized:
  "normalize_signal_public_key key = Inr k \<Longrightarrow>
     \<exists>p. length p = 32 \<and> signal_public_key_bytes key = Inr p \<and> signal_public_key_bytes k = Inr p \<and>
       k = prefixed_signal_public_key p"
proof -
  assume "normalize_signal_public_key key = Inr k"
  then consider "length key = 32" "k = prefixed_signal_public_key key" |
    "length key = 33" "hd key = SIGNAL_PUBLIC_KEY_VERSION" "k = key"
    by (auto simp: normalize_key_cases)
  then show ?thesis
  proof cases
    case 1
    then show ?thesis by (simp add: signal_public_key_bytes_def prefixed_signal_public_key_def)
  next
    case 2
    then show ?thesis
      by (cases key) (auto simp: signal_public_key_bytes_def prefixed_signal_public_key_def)
  qed
qed

lemma private_bytes_Ok [result_simps]:
  "signal_private_key_bytes k = Inr k' \<longleftrightarrow> length k = 32 \<and> k' = k"
  by (auto simp: signal_private_key_bytes_def)

lemma private_bytes_simp [simp]: "length k = 32 \<Longrightarrow> signal_private_key_bytes k = Inr k"
  by (simp add: signal_private_key_bytes_def)

section \<open>From a JID to a store key\<close>

definition signal_protocol_address :: "string \<Rightarrow> SignalAddress core_result" where
  "signal_protocol_address jid =
     and_then (ok_or (jid_decode jid) (Protocol (''invalid JID for signal address: '' @ jid))) (\<lambda>decoded.
     if jid_user decoded = [] then Err (Protocol ''JID user is empty for signal address'')
     else if jid_device decoded = Some 99 \<and> jid_server decoded \<noteq> Hosted \<and> jid_server decoded \<noteq> HostedLid
       then Err (Protocol ''device 99 is only valid for hosted JIDs'')
     else Ok \<lparr>addr_name =
                (if jid_domain_type decoded = DomWhatsApp then jid_user decoded
                 else jid_user decoded @ ''_'' @ show_nat (domain_code (jid_domain_type decoded))),
              addr_device_id = (case jid_device decoded of None \<Rightarrow> 0 | Some d \<Rightarrow> d)\<rparr>)"

definition normalize_signal_session_jid :: "string \<Rightarrow> string core_result" where
  "normalize_signal_session_jid jid =
     and_then (ok_or (jid_decode jid) (Protocol (''invalid Signal session JID: '' @ jid))) (\<lambda>decoded.
     if jid_user decoded = []
       then Err (Protocol (''Signal session JID user must not be empty: '' @ jid))
     else if jid_server decoded \<noteq> CUs then Ok jid
     else Ok (jid_encode (jid_user decoded) SWhatsAppNet
       (case jid_device decoded of Some d \<Rightarrow> if d \<noteq> 0 then Some d else None | None \<Rightarrow> None)
       (jid_agent decoded)))"

definition validate_sender_key_jid :: "string \<Rightarrow> string \<Rightarrow> unit core_result" where
  "validate_sender_key_jid label jid =
     and_then (ok_or (jid_decode jid) (Protocol (''invalid '' @ label @ '': '' @ jid))) (\<lambda>decoded.
     if jid_user decoded = [] \<or> jid_server_raw decoded = []
       then Err (Protocol (''invalid '' @ label @ '': '' @ jid))
     else Ok ())"

definition sender_key_store_key :: "string \<Rightarrow> string \<Rightarrow> string core_result" where
  "sender_key_store_key author_jid group_jid =
     and_then (normalize_signal_session_jid author_jid) (\<lambda>author_jid.
     and_then (validate_sender_key_jid ''sender-key author JID'' author_jid) (\<lambda>_.
     and_then (ok_or (jid_decode group_jid)
       (Protocol (''invalid sender-key group JID: '' @ group_jid))) (\<lambda>decoded_group.
     if jid_server decoded_group \<noteq> GUs
       then Err (Protocol (''sender-key group JID must use group server: '' @ group_jid))
     else Ok (group_jid @ ''|'' @ author_jid))))"

definition is_lid_signal_jid :: "string \<Rightarrow> bool core_result" where
  "is_lid_signal_jid jid =
     and_then (ok_or (jid_decode jid) (Protocol (''invalid JID for LID check: '' @ jid))) (\<lambda>decoded.
     Ok (jid_domain_type decoded = DomLid \<or> jid_domain_type decoded = DomHostedLid))"

definition mapped_lid_session_jid :: "string \<Rightarrow> string \<Rightarrow> string core_result" where
  "mapped_lid_session_jid pn_jid lid_user =
     and_then (ok_or (jid_decode pn_jid) (Protocol (''invalid PN JID for LID mapping: '' @ pn_jid))) (\<lambda>decoded.
     if lid_user = [] then Err (Protocol ''mapped LID user must not be empty'')
     else
       (let server = (if jid_domain_type decoded = DomHosted \<or> jid_domain_type decoded = DomHostedLid
                        \<or> jid_server decoded = Hosted then HostedLid else Lid)
        in Ok (jid_encode lid_user server
             (case jid_device decoded of Some d \<Rightarrow> if d \<noteq> 0 then Some d else None | None \<Rightarrow> None)
             None)))"

text \<open>The keys of the mutation locks.\<close>

definition provider_session_mutation_lock_key :: "string \<Rightarrow> string" where
  "provider_session_mutation_lock_key address = ''signal-provider-session:'' @ address"

definition provider_sender_key_mutation_lock_key :: "string \<Rightarrow> string" where
  "provider_sender_key_mutation_lock_key key = ''signal-provider-sender-key:'' @ key"

section \<open>Addresses do not collide\<close>

lemma last_separator:
  fixes c :: char
  assumes "c \<notin> set ys" "c \<notin> set ys'"
  shows "xs @ c # ys = xs' @ c # ys' \<longleftrightarrow> xs = xs' \<and> ys = ys'"
proof
  assume "xs @ c # ys = xs' @ c # ys'"
  then have "rev (xs @ c # ys) = rev (xs' @ c # ys')" by simp
  then have "split_once c (rev ys @ c # rev xs) = split_once c (rev ys' @ c # rev xs')" by simp
  then show "xs = xs' \<and> ys = ys'" using assms by simp
qed simp

lemma dot_not_in_show_u16 [simp]: "CHR ''.'' \<notin> set (show_u16 w)"
  unfolding show_u16_def by (rule not_in_show_nat) simp

lemma show_u16_inject [simp]: "show_u16 v = show_u16 w \<longleftrightarrow> v = w"
  by (simp add: show_u16_def show_nat_inj word_unat_eq_iff)

lemma address_string_inject [simp]: "address_string a = address_string b \<longleftrightarrow> a = b"
  by (cases a; cases b) (auto simp: address_string_def last_separator)

lemma domain_code_inject [simp]: "domain_code d = domain_code e \<longleftrightarrow> d = e"
  by (cases d; cases e) simp_all

lemma address_name_inject:
  assumes "CHR ''_'' \<notin> set u" "CHR ''_'' \<notin> set v"
  shows "(if d = DomWhatsApp then u else u @ ''_'' @ show_nat (domain_code d)) =
         (if e = DomWhatsApp then v else v @ ''_'' @ show_nat (domain_code e)) \<longleftrightarrow> u = v \<and> d = e"
proof -
  have "CHR ''_'' \<notin> set (show_nat n)" for n by (rule not_in_show_nat) simp
  with assms show ?thesis
    by (auto simp: last_separator show_nat_inj)
qed

text \<open>
  Two JIDs share a Signal session address, the store key of their sessions, exactly when they
  agree on user, domain and device; no choice of user names makes two different devices collide.
\<close>

theorem signal_address_injective:
  assumes "signal_protocol_address j = Inr a" "signal_protocol_address j' = Inr a'"
    and "jid_decode j = Some d" "jid_decode j' = Some d'"
  shows "address_string a = address_string a' \<longleftrightarrow>
    jid_user d = jid_user d' \<and> jid_domain_type d = jid_domain_type d' \<and>
    (case jid_device d of None \<Rightarrow> 0 | Some n \<Rightarrow> n) = (case jid_device d' of None \<Rightarrow> 0 | Some n \<Rightarrow> n)"
proof -
  have u: "CHR ''_'' \<notin> set (jid_user d)" "CHR ''_'' \<notin> set (jid_user d')"
    using assms(3,4) by (auto dest: jid_decode_plain_user simp: plain_user_def)
  have "addr_name a = (if jid_domain_type d = DomWhatsApp then jid_user d
      else jid_user d @ ''_'' @ show_nat (domain_code (jid_domain_type d)))"
    "addr_name a' = (if jid_domain_type d' = DomWhatsApp then jid_user d'
      else jid_user d' @ ''_'' @ show_nat (domain_code (jid_domain_type d')))"
    "addr_device_id a = (case jid_device d of None \<Rightarrow> 0 | Some n \<Rightarrow> n)"
    "addr_device_id a' = (case jid_device d' of None \<Rightarrow> 0 | Some n \<Rightarrow> n)"
    using assms by (auto simp: signal_protocol_address_def split: if_splits)
  moreover have "a = a' \<longleftrightarrow> addr_name a = addr_name a' \<and> addr_device_id a = addr_device_id a'"
    by (cases a; cases a') simp
  ultimately show ?thesis
    unfolding address_string_inject using address_name_inject [OF u] by simp
qed

theorem signal_address_injective_witness:
  "address_string \<lparr>addr_name = ''77'', addr_device_id = 2\<rparr> \<noteq>
   address_string \<lparr>addr_name = ''77_1'', addr_device_id = 2\<rparr>"
proof -
  have d: "jid_decode ''77:2@s.whatsapp.net'' = Some \<lparr>jid_user = ''77'', jid_server = SWhatsAppNet,
      jid_server_raw = ''s.whatsapp.net'', jid_device = Some 2, jid_agent = None,
      jid_domain_type = DomWhatsApp\<rparr>"
    "jid_decode ''77:2@lid'' = Some \<lparr>jid_user = ''77'', jid_server = Lid,
      jid_server_raw = ''lid'', jid_device = Some 2, jid_agent = None,
      jid_domain_type = DomLid\<rparr>"
    by (simp_all add: jid_decode_def from_server_str_def parse_u16_def parse_nat_max_def digit_val_def
        Let_def)
  have s: "show_nat (Suc 0) = ''1''" by code_simp
  have a: "signal_protocol_address ''77:2@s.whatsapp.net'' = Inr \<lparr>addr_name = ''77'', addr_device_id = 2\<rparr>"
    "signal_protocol_address ''77:2@lid'' = Inr \<lparr>addr_name = ''77_1'', addr_device_id = 2\<rparr>"
    by (simp_all add: signal_protocol_address_def d s)
  show ?thesis using signal_address_injective [OF a d] by simp
qed

end
