(* ===== verification/SignalRatchet.thy ===== *)
theory SignalRatchet
  imports SignalKeys
begin

text \<open>
  The key schedule of the one-to-one sessions in \<^verbatim>\<open>crates/wa-core/src/signal.rs\<close>: message keys, the
  symmetric chain, the Diffie-Hellman ratchet, and the X3DH bootstrap of both sides. The locale
  \<open>key_chain\<close> is the contract a chain with a counter keeps; the sender chains of the groups meet
  it too.
\<close>

section \<open>Chains with a counter\<close>

text \<open>
  \<open>step\<close> takes a chain to the key of its current index and the chain of the next index; \<open>good\<close>
  chains can take the step unless the index is the last one.
\<close>

locale key_chain =
  fixes step :: "'c \<Rightarrow> ('k \<times> 'c) core_result"
    and index :: "'c \<Rightarrow> u32"
    and good :: "'c \<Rightarrow> bool"
  assumes step_index: "step c = Inr (k, c') \<Longrightarrow> index c \<noteq> - 1 \<and> index c' = index c + 1"
    and step_good: "good c \<Longrightarrow> step c = Inr (k, c') \<Longrightarrow> good c'"
    and step_total: "good c \<Longrightarrow> index c \<noteq> - 1 \<Longrightarrow> \<exists>k c'. step c = Inr (k, c')"
begin

fun run :: "nat \<Rightarrow> 'c \<Rightarrow> ('k list \<times> 'c) core_result" where
  "run 0 c = Ok ([], c)"
| "run (Suc n) c = and_then (step c) (\<lambda>(k, c'). and_then (run n c') (\<lambda>(ks, d). Ok (k # ks, d)))"

lemma unat_step: "step c = Inr (k, c') \<Longrightarrow> unat (index c') = Suc (unat (index c))"
  using step_index [of c k c'] unat_Suc_u32 by auto

lemma run_index:
  "run n c = Inr (ks, d) \<Longrightarrow> unat (index d) = unat (index c) + n \<and> length ks = n"
  by (induction n arbitrary: c ks) (auto simp: result_simps dest!: unat_step)

lemma run_good: "good c \<Longrightarrow> run n c = Inr (ks, d) \<Longrightarrow> good d"
  by (induction n arbitrary: c ks) (auto simp: result_simps dest: step_good)

lemma run_total:
  "good c \<Longrightarrow> unat (index c) + n < 4294967296 \<Longrightarrow> \<exists>ks d. run n c = Inr (ks, d)"
proof (induction n arbitrary: c)
  case (Suc n)
  from Suc.prems have "index c \<noteq> - 1" by (auto simp: u32_max_iff)
  then obtain k c' where s: "step c = Inr (k, c')" using step_total Suc.prems by blast
  with Suc obtain ks d where "run n c' = Inr (ks, d)"
    using step_good unat_step by fastforce
  with s show ?case by simp
qed simp

lemma run_add:
  "run (m + n) c = and_then (run m c) (\<lambda>(ks, d). and_then (run n d) (\<lambda>(ls, e). Ok (ks @ ls, e)))"
proof (induction m arbitrary: c)
  case 0
  show ?case by (cases "run n c") auto
next
  case (Suc m)
  show ?case
  proof (cases "step c")
    case (Inr kc)
    obtain k c' where kc: "kc = (k, c')" by force
    show ?thesis
    proof (cases "run m c'")
      case (Inr r)
      then show ?thesis using \<open>step c = Inr kc\<close> Suc [of c'] kc
        by (cases r; cases "run n (snd r)") auto
    qed (use \<open>step c = Inr kc\<close> Suc [of c'] kc in simp)
  qed simp
qed

lemma run_snoc:
  "run n c = Inr (ks, d) \<Longrightarrow> step d = Inr (k, e) \<Longrightarrow> run (Suc n) c = Inr (ks @ [k], e)"
  using run_add [of n 1 c] by simp

lemma run_counter:
  assumes "run n c = Inr (ks, d)" "i \<le> n"
  shows "unat (index c + word_of_nat i) = unat (index c) + i"
proof -
  have "unat (index d) = unat (index c) + n" using run_index [OF assms(1)] by blast
  then show ?thesis using assms(2) unat_u32_less [of "index d"] by (intro word_add_nat) simp
qed

lemma run_counter_inject:
  assumes "run n c = Inr (ks, d)" "i \<le> n" "j \<le> n"
  shows "index c + word_of_nat i = index c + word_of_nat j \<longleftrightarrow> i = j"
  using run_counter [OF assms(1,2)] run_counter [OF assms(1,3)] by (auto simp: word_unat_eq_iff)

lemma run_index_word:
  assumes "run n c = Inr (ks, d)"
  shows "index d = index c + word_of_nat n"
  using run_index [OF assms] run_counter [OF assms order_refl] by (simp add: word_unat_eq_iff)

text \<open>The key of index \<open>i\<close> does not depend on how the chain was advanced to it.\<close>

lemma run_prefix:
  "run n c = Inr (ks, d) \<Longrightarrow> m \<le> n \<Longrightarrow>
     \<exists>e. run m c = Inr (take m ks, e) \<and> run (n - m) e = Inr (drop m ks, d)"
proof -
  assume r: "run n c = Inr (ks, d)" and "m \<le> n"
  then have "run (m + (n - m)) c = Inr (ks, d)" by simp
  then obtain as e bs where "run m c = Inr (as, e)" "run (n - m) e = Inr (bs, d)" "ks = as @ bs"
    unfolding run_add by (auto simp: result_simps)
  then show ?thesis using run_index by fastforce
qed

end

section \<open>Message keys and the message chain\<close>

record SignalMessageKeyMaterial =
  mkm_cipher_key :: bytes
  mkm_mac_key :: bytes
  mkm_iv :: bytes

record SignalMessageChainKey =
  mck_key :: bytes
  mck_counter :: u32

record SignalMessageChainStep =
  mcs_message_counter :: u32
  mcs_message_keys :: SignalMessageKeyMaterial
  mcs_next_chain_key :: SignalMessageChainKey

record SignalRootRatchetStep =
  rrs_root_key :: bytes
  rrs_chain_key :: SignalMessageChainKey

record SignalPreKeyBootstrap =
  pkb_root_key :: bytes
  pkb_chain_key :: SignalMessageChainKey
  pkb_used_one_time_pre_key :: bool

definition validate_signal_message_chain_key :: "bytes \<Rightarrow> unit core_result" where
  "validate_signal_message_chain_key chain_key =
     (if length chain_key \<noteq> SIGNAL_MESSAGE_KEY_LEN
      then Err (Protocol (''Signal message chain key must be '' @ show_nat SIGNAL_MESSAGE_KEY_LEN @ '' bytes''))
      else Ok ())"

definition derive_signal_message_keys :: "ext \<Rightarrow> bytes \<Rightarrow> SignalMessageKeyMaterial core_result" where
  "derive_signal_message_keys X message_key_seed =
     (if length message_key_seed \<noteq> SIGNAL_MESSAGE_KEY_LEN
      then Err (Protocol (''Signal message key seed must be '' @ show_nat SIGNAL_MESSAGE_KEY_LEN @ '' bytes''))
      else
        and_then (map_err Crypto (hkdf_sha256 X message_key_seed SIGNAL_MESSAGE_DERIVED_KEY_LEN
          SIGNAL_MESSAGE_KEYS_SALT SIGNAL_MESSAGE_KEYS_INFO)) (\<lambda>expanded.
        Ok \<lparr>mkm_cipher_key = take 32 expanded,
            mkm_mac_key = take 32 (drop 32 expanded),
            mkm_iv = take 16 (drop 64 expanded)\<rparr>))"

definition derive_signal_message_key_seed :: "ext \<Rightarrow> bytes \<Rightarrow> bytes core_result" where
  "derive_signal_message_key_seed X chain_key =
     and_then (validate_signal_message_chain_key chain_key) (\<lambda>_.
     map_err Crypto (hmac_sha256 X SIGNAL_MESSAGE_KEY_SEED chain_key))"

definition advance_signal_message_chain_key :: "ext \<Rightarrow> bytes \<Rightarrow> bytes core_result" where
  "advance_signal_message_chain_key X chain_key =
     and_then (validate_signal_message_chain_key chain_key) (\<lambda>_.
     map_err Crypto (hmac_sha256 X SIGNAL_CHAIN_KEY_SEED chain_key))"

definition ratchet_signal_message_chain ::
  "ext \<Rightarrow> SignalMessageChainKey \<Rightarrow> SignalMessageChainStep core_result" where
  "ratchet_signal_message_chain X chain_key =
     (let message_counter = mck_counter chain_key in
      and_then (ok_or (checked_add_u32 message_counter 1)
        (Protocol ''Signal message chain counter overflow'')) (\<lambda>next_counter.
      and_then (derive_signal_message_key_seed X (mck_key chain_key)) (\<lambda>message_key_seed.
      and_then (derive_signal_message_keys X message_key_seed) (\<lambda>message_keys.
      and_then (advance_signal_message_chain_key X (mck_key chain_key)) (\<lambda>next_key.
      Ok \<lparr>mcs_message_counter = message_counter,
          mcs_message_keys = message_keys,
          mcs_next_chain_key = \<lparr>mck_key = next_key, mck_counter = next_counter\<rparr>\<rparr>)))))"

section \<open>The root ratchet\<close>

definition validate_signal_root_key :: "bytes \<Rightarrow> unit core_result" where
  "validate_signal_root_key root_key =
     (if length root_key \<noteq> SIGNAL_MESSAGE_KEY_LEN
      then Err (Protocol (''Signal root key must be '' @ show_nat SIGNAL_MESSAGE_KEY_LEN @ '' bytes''))
      else Ok ())"

definition validate_signal_shared_secret :: "bytes \<Rightarrow> unit core_result" where
  "validate_signal_shared_secret shared_secret =
     (if length shared_secret \<noteq> SIGNAL_MESSAGE_KEY_LEN
      then Err (Protocol (''Signal root shared secret must be '' @ show_nat SIGNAL_MESSAGE_KEY_LEN @ '' bytes''))
      else if list_all (\<lambda>byte. byte = 0) shared_secret
      then Err (Protocol ''Signal root shared secret must not be all zero'')
      else Ok ())"

definition derive_signal_root_chain_keys ::
  "ext \<Rightarrow> bytes \<Rightarrow> bytes \<Rightarrow> SignalRootRatchetStep core_result" where
  "derive_signal_root_chain_keys X root_key shared_secret =
     and_then (validate_signal_root_key root_key) (\<lambda>_.
     and_then (validate_signal_shared_secret shared_secret) (\<lambda>_.
     and_then (map_err Crypto (hkdf_sha256 X shared_secret SIGNAL_ROOT_DERIVED_KEY_LEN
       root_key SIGNAL_ROOT_RATCHET_INFO)) (\<lambda>expanded.
     Ok \<lparr>rrs_root_key = take 32 expanded,
         rrs_chain_key = \<lparr>mck_key = take 32 (drop 32 expanded), mck_counter = 0\<rparr>\<rparr>)))"

definition ratchet_signal_root_key ::
  "ext \<Rightarrow> bytes \<Rightarrow> bytes \<Rightarrow> bytes \<Rightarrow> SignalRootRatchetStep core_result" where
  "ratchet_signal_root_key X root_key local_private_key remote_public_key =
     and_then (signal_private_key_bytes local_private_key) (\<lambda>local_private_key.
     and_then (signal_public_key_bytes remote_public_key) (\<lambda>remote_public_key.
     derive_signal_root_chain_keys X root_key (shared_key X local_private_key remote_public_key)))"

section \<open>The X3DH bootstrap\<close>

function chunks_exact_32 :: "bytes \<Rightarrow> bytes list" where
  "chunks_exact_32 xs = (if length xs < 32 then [] else take 32 xs # chunks_exact_32 (drop 32 xs))"
  by pat_completeness auto
termination
  by (relation "measure length") auto

declare chunks_exact_32.simps [simp del]

definition validate_signal_pre_key_secret_input :: "bytes \<Rightarrow> unit core_result" where
  "validate_signal_pre_key_secret_input secret_input =
     (if length secret_input \<noteq> SIGNAL_PRE_KEY_SECRET_INPUT_3DH_LEN
         \<and> length secret_input \<noteq> SIGNAL_PRE_KEY_SECRET_INPUT_4DH_LEN
      then Err (Protocol (''Signal pre-key secret input must be '' @
        show_nat SIGNAL_PRE_KEY_SECRET_INPUT_3DH_LEN @ '' or '' @
        show_nat SIGNAL_PRE_KEY_SECRET_INPUT_4DH_LEN @ '' bytes''))
      else if take SIGNAL_MESSAGE_KEY_LEN secret_input \<noteq> SIGNAL_X3DH_DISCONTINUITY
      then Err (Protocol ''Signal pre-key secret input missing X3DH discontinuity bytes'')
      else for_each validate_signal_shared_secret
        (chunks_exact_32 (drop SIGNAL_MESSAGE_KEY_LEN secret_input)))"

definition derive_signal_pre_key_root_chain_keys ::
  "ext \<Rightarrow> bytes \<Rightarrow> SignalRootRatchetStep core_result" where
  "derive_signal_pre_key_root_chain_keys X secret_input =
     and_then (validate_signal_pre_key_secret_input secret_input) (\<lambda>_.
     and_then (map_err Crypto (hkdf_sha256 X secret_input SIGNAL_PRE_KEY_DERIVED_KEY_LEN
       [] SIGNAL_PRE_KEY_INFO)) (\<lambda>expanded.
     Ok \<lparr>rrs_root_key = take 32 expanded,
         rrs_chain_key = \<lparr>mck_key = take 32 (drop 32 expanded), mck_counter = 0\<rparr>\<rparr>))"

definition signal_pre_key_secret_input :: bytes where
  "signal_pre_key_secret_input = SIGNAL_X3DH_DISCONTINUITY"

definition append_signal_agreement ::
  "ext \<Rightarrow> bytes \<Rightarrow> bytes \<Rightarrow> bytes \<Rightarrow> bytes core_result" where
  "append_signal_agreement X secret_input local_private_key remote_public_key =
     and_then (signal_private_key_bytes local_private_key) (\<lambda>local_private_key.
     and_then (signal_public_key_bytes remote_public_key) (\<lambda>remote_public_key.
     let agreement = shared_key X local_private_key remote_public_key in
     and_then (validate_signal_shared_secret agreement) (\<lambda>_.
     Ok (secret_input @ agreement))))"

definition signal_pre_key_bootstrap :: "SignalRootRatchetStep \<Rightarrow> bool \<Rightarrow> SignalPreKeyBootstrap" where
  "signal_pre_key_bootstrap step used_one_time_pre_key =
     \<lparr>pkb_root_key = rrs_root_key step, pkb_chain_key = rrs_chain_key step,
      pkb_used_one_time_pre_key = used_one_time_pre_key\<rparr>"

definition derive_signal_outbound_pre_key_root_chain_keys ::
  "ext \<Rightarrow> SignalLocalKeyMaterial \<Rightarrow> KeyPair \<Rightarrow> SignalSession \<Rightarrow> SignalPreKeyBootstrap core_result" where
  "derive_signal_outbound_pre_key_root_chain_keys X local_key_material local_base_key remote_session =
     and_then (append_signal_agreement X signal_pre_key_secret_input
       (kp_private (li_key_pair (lk_identity local_key_material)))
       (spk_public_key (ses_signed_pre_key remote_session))) (\<lambda>secret_input.
     and_then (append_signal_agreement X secret_input
       (kp_private local_base_key) (ses_identity_key remote_session)) (\<lambda>secret_input.
     and_then (append_signal_agreement X secret_input
       (kp_private local_base_key) (spk_public_key (ses_signed_pre_key remote_session))) (\<lambda>secret_input.
     and_then (case ses_pre_key remote_session of
         Some pre_key \<Rightarrow>
           and_then (append_signal_agreement X secret_input
             (kp_private local_base_key) (pk_public_key pre_key)) (\<lambda>secret_input.
           Ok (secret_input, True))
       | None \<Rightarrow> Ok (secret_input, False)) (\<lambda>(secret_input, used_one_time_pre_key).
     and_then (derive_signal_pre_key_root_chain_keys X secret_input) (\<lambda>step.
     Ok (signal_pre_key_bootstrap step used_one_time_pre_key))))))"

definition derive_signal_inbound_pre_key_root_chain_keys ::
  "ext \<Rightarrow> SignalLocalKeyMaterial \<Rightarrow> SignalLocalPreKey option \<Rightarrow> bytes \<Rightarrow> bytes \<Rightarrow>
     SignalPreKeyBootstrap core_result" where
  "derive_signal_inbound_pre_key_root_chain_keys X local_key_material local_one_time_pre_key
       remote_identity_key remote_base_key =
     and_then (append_signal_agreement X signal_pre_key_secret_input
       (kp_private (ls_key_pair (lk_signed_pre_key local_key_material)))
       remote_identity_key) (\<lambda>secret_input.
     and_then (append_signal_agreement X secret_input
       (kp_private (li_key_pair (lk_identity local_key_material))) remote_base_key) (\<lambda>secret_input.
     and_then (append_signal_agreement X secret_input
       (kp_private (ls_key_pair (lk_signed_pre_key local_key_material))) remote_base_key) (\<lambda>secret_input.
     and_then (case local_one_time_pre_key of
         Some pre_key \<Rightarrow>
           and_then (append_signal_agreement X secret_input
             (kp_private (lp_key_pair pre_key)) remote_base_key) (\<lambda>secret_input.
           Ok (secret_input, True))
       | None \<Rightarrow> Ok (secret_input, False)) (\<lambda>(secret_input, used_one_time_pre_key).
     and_then (derive_signal_pre_key_root_chain_keys X secret_input) (\<lambda>step.
     Ok (signal_pre_key_bootstrap step used_one_time_pre_key))))))"

definition verify_signal_signed_pre_key :: "verifier \<Rightarrow> SignalSession \<Rightarrow> unit core_result" where
  "verify_signal_signed_pre_key verify_signature remote_session =
     and_then (signal_public_key_bytes (ses_identity_key remote_session)) (\<lambda>identity_key.
     and_then (normalize_signal_public_key
       (spk_public_key (ses_signed_pre_key remote_session))) (\<lambda>signed_pre_key.
     if length (spk_signature (ses_signed_pre_key remote_session)) \<noteq> 64
     then Err (Protocol (''invalid Signal signed pre-key signature length: '' @
       show_nat (length (spk_signature (ses_signed_pre_key remote_session)))))
     else if verify_signature identity_key signed_pre_key
       (spk_signature (ses_signed_pre_key remote_session)) then Ok ()
     else Err (Protocol ''invalid Signal signed pre-key signature'')))"

definition derive_verified_signal_outbound_pre_key_root_chain_keys ::
  "ext \<Rightarrow> verifier \<Rightarrow> SignalLocalKeyMaterial \<Rightarrow> KeyPair \<Rightarrow> SignalSession \<Rightarrow>
     SignalPreKeyBootstrap core_result" where
  "derive_verified_signal_outbound_pre_key_root_chain_keys X V local_key_material local_base_key
       remote_session =
     and_then (verify_signal_signed_pre_key V remote_session) (\<lambda>_.
     derive_signal_outbound_pre_key_root_chain_keys X local_key_material local_base_key remote_session)"

section \<open>Lemmas\<close>

lemma chain_key_Ok [result_simps]: "validate_signal_message_chain_key k = Inr u \<longleftrightarrow> length k = 32"
  by (auto simp: validate_signal_message_chain_key_def)

lemma root_key_Ok [result_simps]: "validate_signal_root_key k = Inr u \<longleftrightarrow> length k = 32"
  by (auto simp: validate_signal_root_key_def)

lemma shared_secret_Ok [result_simps]:
  "validate_signal_shared_secret k = Inr u \<longleftrightarrow> length k = 32 \<and> (\<exists>b\<in>set k. b \<noteq> 0)"
  by (auto simp: validate_signal_shared_secret_def list_all_iff)

definition message_keys_ok :: "SignalMessageKeyMaterial \<Rightarrow> bool" where
  "message_keys_ok k \<longleftrightarrow> length (mkm_cipher_key k) = 32 \<and> length (mkm_mac_key k) = 32 \<and>
     length (mkm_iv k) = 16"

lemma derive_message_keys_total:
  assumes "ext_ok X" "length seed = 32"
  obtains k where "derive_signal_message_keys X seed = Inr k" "message_keys_ok k"
proof -
  obtain out where "hkdf_sha256 X seed 80 SIGNAL_MESSAGE_KEYS_SALT SIGNAL_MESSAGE_KEYS_INFO = Inr out"
    "length out = 80"
    using hkdf_sha256_total [OF assms(1), of 80] by force
  with assms(2) that show thesis
    by (simp add: derive_signal_message_keys_def message_keys_ok_def)
qed

lemma derive_message_keys_ok:
  assumes "ext_ok X" "derive_signal_message_keys X seed = Inr k"
  shows "message_keys_ok k"
proof -
  have "length seed = 32" using assms(2) by (auto simp: derive_signal_message_keys_def split: if_splits)
  then show ?thesis using derive_message_keys_total [OF assms(1)] assms(2) by (metis sum.inject(2))
qed

lemma chain_seeds_total:
  assumes "ext_ok X" "length k = 32"
  obtains s n where "derive_signal_message_key_seed X k = Inr s" "length s = 32"
    "advance_signal_message_chain_key X k = Inr n" "length n = 32"
proof -
  obtain s where "hmac_sha256 X SIGNAL_MESSAGE_KEY_SEED k = Inr s" "length s = 32"
    using hmac_sha256_total [OF assms(1)] by blast
  moreover obtain n where "hmac_sha256 X SIGNAL_CHAIN_KEY_SEED k = Inr n" "length n = 32"
    using hmac_sha256_total [OF assms(1)] by blast
  ultimately show thesis using that assms(2)
    by (simp add: derive_signal_message_key_seed_def advance_signal_message_chain_key_def
        validate_signal_message_chain_key_def)
qed

lemma ratchet_message_step:
  "ratchet_signal_message_chain X c = Inr s \<Longrightarrow>
     mcs_message_counter s = mck_counter c \<and> mck_counter c \<noteq> - 1 \<and>
     mck_counter (mcs_next_chain_key s) = mck_counter c + 1"
  by (auto simp: ratchet_signal_message_chain_def Let_def result_simps checked_add_one_Some)

lemma ratchet_message_total:
  assumes "ext_ok X" "length (mck_key c) = 32" "mck_counter c \<noteq> - 1"
  obtains s where "ratchet_signal_message_chain X c = Inr s" "message_keys_ok (mcs_message_keys s)"
    "length (mck_key (mcs_next_chain_key s)) = 32"
proof -
  obtain sd n where sn: "derive_signal_message_key_seed X (mck_key c) = Inr sd" "length sd = 32"
    "advance_signal_message_chain_key X (mck_key c) = Inr n" "length n = 32"
    by (rule chain_seeds_total [OF assms(1,2)])
  obtain k where "derive_signal_message_keys X sd = Inr k" "message_keys_ok k"
    by (rule derive_message_keys_total [OF assms(1) sn(2)])
  moreover have "checked_add_u32 (mck_counter c) 1 = Some (mck_counter c + 1)"
    using assms(3) by (simp add: checked_add_one_Some)
  ultimately show thesis using sn that
    by (simp add: ratchet_signal_message_chain_def Let_def)
qed

lemma ratchet_message_lengths:
  assumes "ext_ok X" "ratchet_signal_message_chain X c = Inr s"
  shows "length (mck_key c) = 32" "message_keys_ok (mcs_message_keys s)"
    "length (mck_key (mcs_next_chain_key s)) = 32"
proof -
  show l: "length (mck_key c) = 32"
    using assms(2) by (auto simp: ratchet_signal_message_chain_def Let_def result_simps
        derive_signal_message_key_seed_def)
  have "mck_counter c \<noteq> - 1" using ratchet_message_step [OF assms(2)] by simp
  then obtain s' where "ratchet_signal_message_chain X c = Inr s'"
    "message_keys_ok (mcs_message_keys s')" "length (mck_key (mcs_next_chain_key s')) = 32"
    by (rule ratchet_message_total [OF assms(1) l])
  then show "message_keys_ok (mcs_message_keys s)" "length (mck_key (mcs_next_chain_key s)) = 32"
    using assms(2) by simp_all
qed

text \<open>The message chain meets the chain contract.\<close>

definition message_step ::
  "ext \<Rightarrow> SignalMessageChainKey \<Rightarrow> (SignalMessageKeyMaterial \<times> SignalMessageChainKey) core_result" where
  "message_step X c = and_then (ratchet_signal_message_chain X c)
     (\<lambda>s. Ok (mcs_message_keys s, mcs_next_chain_key s))"

definition message_good :: "ext \<Rightarrow> SignalMessageChainKey \<Rightarrow> bool" where
  "message_good X c \<longleftrightarrow> ext_ok X \<and> length (mck_key c) = 32"

interpretation message_chain: key_chain "message_step X" mck_counter "message_good X" for X
proof unfold_locales
  fix c k c'
  assume s: "message_step X c = Inr (k, c')"
  then show "mck_counter c \<noteq> - 1 \<and> mck_counter c' = mck_counter c + 1"
    by (auto simp: message_step_def result_simps dest: ratchet_message_step)
  show "message_good X c \<Longrightarrow> message_good X c'"
    using s by (auto simp: message_good_def message_step_def result_simps dest: ratchet_message_lengths)
next
  fix c
  assume "message_good X c" "mck_counter c \<noteq> - 1"
  then obtain s where "ratchet_signal_message_chain X c = Inr s"
    unfolding message_good_def by (metis ratchet_message_total)
  then show "\<exists>k c'. message_step X c = Inr (k, c')" by (simp add: message_step_def)
qed

end
