(* ===== verification/ExtInstance.thy ===== *)
theory ExtInstance
  imports Core
begin

text \<open>
  A concrete instance of the external functions, on which the witnesses evaluate: it satisfies
  every assumption of \<^const>\<open>ext_ok\<close>. The ciphers are not meant to be secure and the encodings are
  not protobuf; only the laws the model relies on matter here. The encodings are built from
  parts that each meet the contract \<open>byte_codec\<close>.
\<close>

section \<open>Self-delimiting encodings\<close>

locale byte_codec =
  fixes put :: "'a \<Rightarrow> bytes"
    and get :: "bytes \<Rightarrow> 'a \<times> bytes"
  assumes get_put: "get (put a @ rest) = (a, rest)"
begin

lemma put_inject: "put a @ r = put b @ s \<longleftrightarrow> a = b \<and> r = s"
  by (metis get_put prod.inject)

lemma get_put_end: "get (put a) = (a, [])"
  using get_put [of a "[]"] by simp

end

interpretation u16_codec: byte_codec put_u16 get_u16
  by unfold_locales (simp add: wire_simps)

interpretation u32_codec: byte_codec put_u32 get_u32
  by unfold_locales (simp add: wire_simps)

fun put_str :: "bytes \<Rightarrow> bytes" where
  "put_str [] = [0]"
| "put_str (b # bs) = 1 # b # put_str bs"

fun get_str :: "bytes \<Rightarrow> bytes \<times> bytes" where
  "get_str (t # b # rest) =
     (if t = 1 then (let (bs, r) = get_str rest in (b # bs, r)) else ([], b # rest))"
| "get_str [t] = ([], [])"
| "get_str [] = ([], [])"

interpretation str_codec: byte_codec put_str get_str
proof
  fix a rest show "get_str (put_str a @ rest) = (a, rest)"
    by (induction a) (cases rest; simp)+
qed

lemma length_put_str: "length bs \<le> length (put_str bs)"
  by (induction bs) simp_all

fun put_opt :: "('a \<Rightarrow> bytes) \<Rightarrow> 'a option \<Rightarrow> bytes" where
  "put_opt p None = [0]"
| "put_opt p (Some x) = 1 # p x"

fun get_opt :: "(bytes \<Rightarrow> 'a \<times> bytes) \<Rightarrow> bytes \<Rightarrow> 'a option \<times> bytes" where
  "get_opt g (t # rest) = (if t = 1 then (let (x, r) = g rest in (Some x, r)) else (None, rest))"
| "get_opt g [] = (None, [])"

lemma byte_codec_opt: "byte_codec p g \<Longrightarrow> byte_codec (put_opt p) (get_opt g)"
proof
  fix a rest assume "byte_codec p g"
  then show "get_opt g (put_opt p a @ rest) = (a, rest)"
    by (cases a) (simp_all add: byte_codec.get_put)
qed

fun put_list :: "('a \<Rightarrow> bytes) \<Rightarrow> 'a list \<Rightarrow> bytes" where
  "put_list p [] = [0]"
| "put_list p (x # xs) = 1 # p x @ put_list p xs"

text \<open>The decoder of a list spends one unit of fuel per element; its input's length is enough.\<close>

fun get_list_fuel :: "nat \<Rightarrow> (bytes \<Rightarrow> 'a \<times> bytes) \<Rightarrow> bytes \<Rightarrow> 'a list \<times> bytes" where
  "get_list_fuel (Suc n) g (t # rest) =
     (if t = 1 then (let (x, r) = g rest; (xs, r') = get_list_fuel n g r in (x # xs, r'))
      else ([], rest))"
| "get_list_fuel _ g bs = ([], bs)"

definition get_list :: "(bytes \<Rightarrow> 'a \<times> bytes) \<Rightarrow> bytes \<Rightarrow> 'a list \<times> bytes" where
  "get_list g bs = get_list_fuel (length bs) g bs"

lemma get_list_fuel_put:
  assumes "byte_codec p g"
  shows "length (put_list p xs) \<le> n \<Longrightarrow> get_list_fuel n g (put_list p xs @ rest) = (xs, rest)"
proof (induction xs arbitrary: n)
  case Nil
  then show ?case by (cases n) simp_all
next
  case (Cons x xs)
  then obtain m where "n = Suc m" by (cases n) auto
  with Cons show ?case by (simp add: byte_codec.get_put [OF assms])
qed

lemma byte_codec_list: "byte_codec p g \<Longrightarrow> byte_codec (put_list p) (get_list g)"
  by unfold_locales (simp add: get_list_def get_list_fuel_put)

lemmas codec_parts = u32_codec.get_put str_codec.get_put
  byte_codec.get_put [OF byte_codec_opt [OF u32_codec.byte_codec_axioms]]
  byte_codec.get_put [OF byte_codec_opt [OF str_codec.byte_codec_axioms]]

section \<open>The wire structures\<close>

definition put_whisper :: "SignalWireWhisperMessage \<Rightarrow> bytes" where
  "put_whisper w = put_str (w_ephemeral_key w) @ put_opt put_u32 (w_counter w) @
     put_opt put_u32 (w_previous_counter w) @ put_str (w_ciphertext w)"

definition get_whisper :: "bytes \<Rightarrow> string + SignalWireWhisperMessage" where
  "get_whisper bs0 =
     (let (a, bs1) = get_str bs0; (b, bs2) = get_opt get_u32 bs1; (c, bs3) = get_opt get_u32 bs2;
          (d, _) = get_str bs3
      in Ok \<lparr>w_ephemeral_key = a, w_counter = b, w_previous_counter = c, w_ciphertext = d\<rparr>)"

definition put_pre_key_whisper :: "SignalWirePreKeyWhisperMessage \<Rightarrow> bytes" where
  "put_pre_key_whisper w = put_opt put_u32 (w_pre_key_id w) @ put_str (w_base_key w) @
     put_str (w_identity_key w) @ put_str (w_message w) @
     put_opt put_u32 (w_registration_id w) @ put_opt put_u32 (w_signed_pre_key_id w)"

definition get_pre_key_whisper :: "bytes \<Rightarrow> string + SignalWirePreKeyWhisperMessage" where
  "get_pre_key_whisper bs0 =
     (let (a, bs1) = get_opt get_u32 bs0; (b, bs2) = get_str bs1; (c, bs3) = get_str bs2;
          (d, bs4) = get_str bs3; (e, bs5) = get_opt get_u32 bs4; (f, _) = get_opt get_u32 bs5
      in Ok \<lparr>w_pre_key_id = a, w_base_key = b, w_identity_key = c, w_message = d,
             w_registration_id = e, w_signed_pre_key_id = f\<rparr>)"

definition put_distribution :: "ProtoSenderKeyDistributionMessage \<Rightarrow> bytes" where
  "put_distribution w = put_opt put_u32 (d_id w) @ put_opt put_u32 (d_iteration w) @
     put_opt put_str (d_chain_key w) @ put_opt put_str (d_signing_key w)"

definition get_distribution :: "bytes \<Rightarrow> string + ProtoSenderKeyDistributionMessage" where
  "get_distribution bs0 =
     (let (a, bs1) = get_opt get_u32 bs0; (b, bs2) = get_opt get_u32 bs1;
          (c, bs3) = get_opt get_str bs2; (d, _) = get_opt get_str bs3
      in Ok \<lparr>d_id = a, d_iteration = b, d_chain_key = c, d_signing_key = d\<rparr>)"

definition put_sender_message :: "ProtoSenderKeyMessage \<Rightarrow> bytes" where
  "put_sender_message w = put_opt put_u32 (m_id w) @ put_opt put_u32 (m_iteration w) @
     put_opt put_str (m_ciphertext w)"

definition get_sender_message :: "bytes \<Rightarrow> string + ProtoSenderKeyMessage" where
  "get_sender_message bs0 =
     (let (a, bs1) = get_opt get_u32 bs0; (b, bs2) = get_opt get_u32 bs1;
          (c, _) = get_opt get_str bs2
      in Ok \<lparr>m_id = a, m_iteration = b, m_ciphertext = c\<rparr>)"

definition put_chain :: "SenderChainKeyStructure \<Rightarrow> bytes" where
  "put_chain w = put_opt put_u32 (c_iteration w) @ put_opt put_str (c_seed w)"

definition get_chain :: "bytes \<Rightarrow> SenderChainKeyStructure \<times> bytes" where
  "get_chain bs0 = (let (a, bs1) = get_opt get_u32 bs0; (b, bs2) = get_opt get_str bs1
     in (\<lparr>c_iteration = a, c_seed = b\<rparr>, bs2))"

definition put_signing :: "SenderSigningKeyStructure \<Rightarrow> bytes" where
  "put_signing w = put_opt put_str (k_public w) @ put_opt put_str (k_private w)"

definition get_signing :: "bytes \<Rightarrow> SenderSigningKeyStructure \<times> bytes" where
  "get_signing bs0 = (let (a, bs1) = get_opt get_str bs0; (b, bs2) = get_opt get_str bs1
     in (\<lparr>k_public = a, k_private = b\<rparr>, bs2))"

definition put_mk :: "SenderMessageKeyStructure \<Rightarrow> bytes" where
  "put_mk w = put_opt put_u32 (mk_iteration w) @ put_opt put_str (mk_seed w)"

definition get_mk :: "bytes \<Rightarrow> SenderMessageKeyStructure \<times> bytes" where
  "get_mk bs0 = (let (a, bs1) = get_opt get_u32 bs0; (b, bs2) = get_opt get_str bs1
     in (\<lparr>mk_iteration = a, mk_seed = b\<rparr>, bs2))"

interpretation chain_codec: byte_codec put_chain get_chain
  by unfold_locales (simp add: put_chain_def get_chain_def codec_parts)

interpretation signing_codec: byte_codec put_signing get_signing
  by unfold_locales (simp add: put_signing_def get_signing_def codec_parts)

interpretation mk_codec: byte_codec put_mk get_mk
  by unfold_locales (simp add: put_mk_def get_mk_def codec_parts)

definition put_state :: "SenderKeyStateStructure \<Rightarrow> bytes" where
  "put_state w = put_opt put_u32 (s_sender_key_id w) @ put_opt put_chain (s_sender_chain_key w) @
     put_opt put_signing (s_sender_signing_key w) @ put_list put_mk (s_sender_message_keys w)"

definition get_state :: "bytes \<Rightarrow> SenderKeyStateStructure \<times> bytes" where
  "get_state bs0 =
     (let (a, bs1) = get_opt get_u32 bs0; (b, bs2) = get_opt get_chain bs1;
          (c, bs3) = get_opt get_signing bs2; (d, bs4) = get_list get_mk bs3
      in (\<lparr>s_sender_key_id = a, s_sender_chain_key = b, s_sender_signing_key = c,
           s_sender_message_keys = d\<rparr>, bs4))"

interpretation state_codec: byte_codec put_state get_state
  by unfold_locales (simp add: put_state_def get_state_def codec_parts
      byte_codec.get_put [OF byte_codec_opt [OF chain_codec.byte_codec_axioms]]
      byte_codec.get_put [OF byte_codec_opt [OF signing_codec.byte_codec_axioms]]
      byte_codec.get_put [OF byte_codec_list [OF mk_codec.byte_codec_axioms]])

interpretation record_codec: byte_codec "put_list put_state" "get_list get_state"
  by (rule byte_codec_list) (rule state_codec.byte_codec_axioms)

section \<open>The instance\<close>

definition toy :: ext where
  "toy = \<lparr>
     x_hmac_sha256 = (\<lambda>k m. Some (take 32 (m @ k @ replicate 32 0))),
     x_hkdf_sha256 = (\<lambda>salt ikm info n.
        if n \<le> 8160 then Some (take n (ikm @ salt @ info @ replicate n 0)) else None),
     x_aes_cbc_encrypt = (\<lambda>k iv p. p @ [1]),
     x_aes_cbc_decrypt = (\<lambda>k iv c. if c = [] then None else Some (butlast c)),
     x_public = (\<lambda>a. a),
     x_diffie_hellman = map2 (+),
     x_xed_sign = (\<lambda>k m r. take 64 (k @ m @ r @ replicate 64 0)),
     enc_whisper = put_whisper, dec_whisper = get_whisper,
     enc_pre_key_whisper = put_pre_key_whisper, dec_pre_key_whisper = get_pre_key_whisper,
     enc_sender_distribution = put_distribution, dec_sender_distribution = get_distribution,
     enc_sender_message = put_sender_message, dec_sender_message = get_sender_message,
     enc_sender_record = put_list put_state,
     dec_sender_record = (\<lambda>bs. Ok (fst (get_list get_state bs)))\<rparr>"

lemma map2_plus_commute: "length a = length b \<Longrightarrow> map2 (+) a b = map2 (+) b (a :: bytes)"
  by (induction a b rule: list_induct2) (auto simp: add.commute)

lemma toy_ok: "ext_ok toy"
proof -
  note end_parts = codec_parts [where rest = "[]", simplified]
  have "get_whisper (put_whisper v) = Inr v" for v
    by (simp add: get_whisper_def put_whisper_def codec_parts end_parts)
  moreover have "get_pre_key_whisper (put_pre_key_whisper v) = Inr v" for v
    by (simp add: get_pre_key_whisper_def put_pre_key_whisper_def codec_parts end_parts)
  moreover have "get_distribution (put_distribution v) = Inr v" for v
    by (simp add: get_distribution_def put_distribution_def codec_parts end_parts)
  moreover have "get_sender_message (put_sender_message v) = Inr v" for v
    by (simp add: get_sender_message_def put_sender_message_def codec_parts end_parts)
  moreover have "put_whisper v \<noteq> []" for v
    by (cases "w_ephemeral_key v") (simp_all add: put_whisper_def)
  moreover have "length c + length s \<le> length (put_distribution v)"
    if "d_chain_key v = Some c" "d_signing_key v = Some s" for v c s
    using that length_put_str [of c] length_put_str [of s] by (simp add: put_distribution_def)
  ultimately show ?thesis
    by (auto simp add: ext_ok_def toy_def record_codec.get_put_end map2_plus_commute min_def)
qed

lemma toy_verifier_ok: "verifier_ok toy (\<lambda>_ _ _. True)"
  by (simp add: verifier_ok_def)

end
