(* ===== verification/SignalAgreement.thy ===== *)
theory SignalAgreement
  imports SignalRatchet ExtInstance
begin

text \<open>
  The two sides of the key agreements in \<^verbatim>\<open>crates/wa-core/src/signal.rs\<close> compute the same keys:
  the X3DH bootstrap of \<open>derive_signal_outbound_pre_key_root_chain_keys\<close> against
  \<open>derive_signal_inbound_pre_key_root_chain_keys\<close>, and one Diffie-Hellman ratchet step.
\<close>

section \<open>Well-formed key material\<close>

definition key_pair_ok :: "ext \<Rightarrow> KeyPair \<Rightarrow> bool" where
  "key_pair_ok X kp \<longleftrightarrow> length (kp_private kp) = 32 \<and> kp_public kp = x_public X (kp_private kp)"

definition local_material_ok :: "ext \<Rightarrow> SignalLocalKeyMaterial \<Rightarrow> bool" where
  "local_material_ok X m \<longleftrightarrow>
     key_pair_ok X (li_key_pair (lk_identity m)) \<and>
     li_public_key (lk_identity m) = prefixed_signal_public_key (kp_public (li_key_pair (lk_identity m))) \<and>
     key_pair_ok X (ls_key_pair (lk_signed_pre_key m)) \<and>
     ls_public_key (lk_signed_pre_key m) =
       prefixed_signal_public_key (kp_public (ls_key_pair (lk_signed_pre_key m)))"

definition local_pre_key_ok :: "ext \<Rightarrow> SignalLocalPreKey \<Rightarrow> bool" where
  "local_pre_key_ok X p \<longleftrightarrow> key_pair_ok X (lp_key_pair p) \<and>
     lp_public_key p = prefixed_signal_public_key (kp_public (lp_key_pair p))"

text \<open>The bundle a device publishes: what its peers hold as their \<open>SignalSession\<close> for it.\<close>

definition published_session :: "SignalLocalKeyMaterial \<Rightarrow> SignalLocalPreKey option \<Rightarrow> SignalSession" where
  "published_session m p =
     \<lparr>ses_registration_id = lk_registration_id m,
      ses_identity_key = li_public_key (lk_identity m),
      ses_signed_pre_key = \<lparr>spk_key_id = ls_key_id (lk_signed_pre_key m),
        spk_public_key = ls_public_key (lk_signed_pre_key m),
        spk_signature = ls_signature (lk_signed_pre_key m)\<rparr>,
      ses_pre_key = map_option (\<lambda>k. \<lparr>pk_key_id = lp_key_id k, pk_public_key = lp_public_key k\<rparr>) p\<rparr>"

lemma key_pair_public_length:
  "ext_ok X \<Longrightarrow> key_pair_ok X kp \<Longrightarrow> length (kp_public kp) = 32"
  by (simp add: key_pair_ok_def ext_keys)

lemma shared_key_commute:
  assumes "ext_ok X" "key_pair_ok X a" "key_pair_ok X b"
  shows "shared_key X (kp_private a) (kp_public b) = shared_key X (kp_private b) (kp_public a)"
  using assms ext_keys(3) by (simp add: shared_key_def key_pair_ok_def)

lemma append_agreement_commute:
  assumes "ext_ok X" "key_pair_ok X a" "key_pair_ok X b"
  shows "append_signal_agreement X s (kp_private a) (prefixed_signal_public_key (kp_public b)) =
    append_signal_agreement X s (kp_private b) (prefixed_signal_public_key (kp_public a))"
proof -
  have "length (kp_private a) = 32" "length (kp_private b) = 32"
    using assms by (simp_all add: key_pair_ok_def)
  then show ?thesis
    using assms by (simp add: append_signal_agreement_def key_pair_public_length shared_key_commute)
qed

lemma ratchet_root_commute:
  assumes "ext_ok X" "key_pair_ok X a" "key_pair_ok X b"
  shows "ratchet_signal_root_key X root (kp_private a) (prefixed_signal_public_key (kp_public b)) =
    ratchet_signal_root_key X root (kp_private b) (prefixed_signal_public_key (kp_public a))"
proof -
  have "length (kp_private a) = 32" "length (kp_private b) = 32"
    using assms by (simp_all add: key_pair_ok_def)
  then show ?thesis
    using assms by (simp add: ratchet_signal_root_key_def key_pair_public_length shared_key_commute)
qed

section \<open>X3DH\<close>

lemma x3dh_keys_agree:
  assumes "ext_ok X" "local_material_ok X alice" "local_material_ok X bob"
    and "key_pair_ok X base" "\<And>p. pre = Some p \<Longrightarrow> local_pre_key_ok X p"
  shows "derive_signal_outbound_pre_key_root_chain_keys X alice base (published_session bob pre) =
    derive_signal_inbound_pre_key_root_chain_keys X bob pre
      (li_public_key (lk_identity alice)) (prefixed_signal_public_key (kp_public base))"
proof -
  note commute = append_agreement_commute [OF assms(1)]
  have alice: "key_pair_ok X (li_key_pair (lk_identity alice))"
    and bob: "key_pair_ok X (li_key_pair (lk_identity bob))"
      "key_pair_ok X (ls_key_pair (lk_signed_pre_key bob))"
    using assms(2,3) by (simp_all add: local_material_ok_def)
  have keys: "li_public_key (lk_identity alice) =
      prefixed_signal_public_key (kp_public (li_key_pair (lk_identity alice)))"
    "li_public_key (lk_identity bob) =
      prefixed_signal_public_key (kp_public (li_key_pair (lk_identity bob)))"
    "ls_public_key (lk_signed_pre_key bob) =
      prefixed_signal_public_key (kp_public (ls_key_pair (lk_signed_pre_key bob)))"
    using assms(2,3) by (simp_all add: local_material_ok_def)
  note agree = commute [OF alice bob(2)] commute [OF assms(4) bob(1)] commute [OF assms(4) bob(2)]
  show ?thesis
  proof (cases pre)
    case None
    then show ?thesis
      by (simp add: derive_signal_outbound_pre_key_root_chain_keys_def
          derive_signal_inbound_pre_key_root_chain_keys_def published_session_def keys agree)
  next
    case (Some p)
    then have p: "key_pair_ok X (lp_key_pair p)"
      "lp_public_key p = prefixed_signal_public_key (kp_public (lp_key_pair p))"
      using assms(5) by (simp_all add: local_pre_key_ok_def)
    show ?thesis
      by (simp add: derive_signal_outbound_pre_key_root_chain_keys_def Some
          derive_signal_inbound_pre_key_root_chain_keys_def published_session_def keys agree p(2)
          commute [OF assms(4) p(1)])
  qed
qed

text \<open>
  The X3DH bootstrap agrees. What the initiator derives from the bundle a responder published
  (root key, chain key, use of a one-time pre-key, or the very same error) is what the responder
  derives from the identity and base keys the initiator sends, with or without a one-time pre-key.
\<close>

theorem x3dh_agreement:
  assumes "ext_ok X" "local_material_ok X alice" "local_material_ok X bob"
    and "key_pair_ok X base" "\<And>p. pre = Some p \<Longrightarrow> local_pre_key_ok X p"
  shows "derive_signal_outbound_pre_key_root_chain_keys X alice base (published_session bob pre) =
    derive_signal_inbound_pre_key_root_chain_keys X bob pre
      (li_public_key (lk_identity alice)) (prefixed_signal_public_key (kp_public base))"
  by (rule x3dh_keys_agree [OF assms])

text \<open>Devices to evaluate the model on.\<close>

definition sample_pair :: "u8 \<Rightarrow> KeyPair" where
  "sample_pair b = generate_key_pair toy (replicate 32 b)"

definition sample_material :: "u8 \<Rightarrow> SignalLocalKeyMaterial" where
  "sample_material b =
     \<lparr>lk_registration_id = 1,
      lk_identity = \<lparr>li_key_pair = sample_pair b,
        li_public_key = prefixed_signal_public_key (kp_public (sample_pair b))\<rparr>,
      lk_signed_pre_key = \<lparr>ls_key_id = 2, ls_key_pair = sample_pair (b + 1),
        ls_public_key = prefixed_signal_public_key (kp_public (sample_pair (b + 1))),
        ls_signature = replicate 64 0\<rparr>\<rparr>"

definition sample_pre_key :: "u8 \<Rightarrow> SignalLocalPreKey" where
  "sample_pre_key b = \<lparr>lp_key_id = 3, lp_key_pair = sample_pair b,
     lp_public_key = prefixed_signal_public_key (kp_public (sample_pair b))\<rparr>"

lemma sample_pair_ok: "key_pair_ok toy (sample_pair b)"
  by (simp add: key_pair_ok_def sample_pair_def generate_key_pair_def public_key_from_private_def)

lemma sample_material_ok: "local_material_ok toy (sample_material b)"
  by (simp add: local_material_ok_def sample_material_def sample_pair_ok)

lemma sample_pre_key_ok: "local_pre_key_ok toy (sample_pre_key b)"
  by (simp add: local_pre_key_ok_def sample_pre_key_def sample_pair_ok)

theorem x3dh_agreement_witness:
  "derive_signal_outbound_pre_key_root_chain_keys toy (sample_material 1) (sample_pair 5)
     (published_session (sample_material 9) (Some (sample_pre_key 7))) =
   derive_signal_inbound_pre_key_root_chain_keys toy (sample_material 9) (Some (sample_pre_key 7))
     (li_public_key (lk_identity (sample_material 1)))
     (prefixed_signal_public_key (kp_public (sample_pair 5)))"
  by (rule x3dh_agreement [OF toy_ok sample_material_ok sample_material_ok sample_pair_ok])
    (auto simp: sample_pre_key_ok)

end
