(* ===== verification/SignalWire.thy ===== *)
theory SignalWire
  imports SignalAgreement
begin

text \<open>
  The wire messages of the one-to-one sessions in \<^verbatim>\<open>crates/wa-core/src/signal.rs\<close>: the
  authenticated frame of a \<open>WhisperMessage\<close> (version byte, protobuf, truncated HMAC over both
  identities and the frame), the \<open>PreKeyWhisperMessage\<close> around it, and the message body's
  cipher. The lemmas show that every encoded message is read back and that nothing but the frame
  with the right MAC is accepted.
\<close>

section \<open>Messages and their validation\<close>

record SignalWhisperMessage =
  wm_ephemeral_key :: bytes
  wm_counter :: u32
  wm_previous_counter :: u32
  wm_ciphertext :: bytes

record SignalPreKeyWhisperMessage =
  pm_registration_id :: u32
  pm_pre_key_id :: "u32 option"
  pm_signed_pre_key_id :: u32
  pm_base_key :: bytes
  pm_identity_key :: bytes
  pm_message :: SignalWhisperMessage

record SignalWhisperMessageFrame =
  wf_message :: SignalWhisperMessage
  wf_serialized :: bytes
  wf_mac :: bytes

definition wire_of_whisper :: "SignalWhisperMessage \<Rightarrow> SignalWireWhisperMessage" where
  "wire_of_whisper m =
     \<lparr>w_ephemeral_key = wm_ephemeral_key m, w_counter = Some (wm_counter m),
      w_previous_counter = Some (wm_previous_counter m), w_ciphertext = wm_ciphertext m\<rparr>"

definition whisper_of_wire :: "SignalWireWhisperMessage \<Rightarrow> SignalWhisperMessage core_result" where
  "whisper_of_wire v =
     and_then (normalize_signal_public_key (w_ephemeral_key v)) (\<lambda>ephemeral_key.
     and_then (ok_or (w_counter v) (Protocol ''Signal whisper message missing counter'')) (\<lambda>counter.
     Ok \<lparr>wm_ephemeral_key = ephemeral_key, wm_counter = counter,
         wm_previous_counter = (case w_previous_counter v of None \<Rightarrow> 0 | Some p \<Rightarrow> p),
         wm_ciphertext = w_ciphertext v\<rparr>))"

definition validate_signal_whisper_message ::
  "SignalWhisperMessage \<Rightarrow> SignalWhisperMessage core_result" where
  "validate_signal_whisper_message m =
     (if wm_ciphertext m = []
      then Err (Protocol ''Signal whisper message ciphertext must not be empty'')
      else
        and_then (normalize_signal_public_key (wm_ephemeral_key m)) (\<lambda>ephemeral_key.
        Ok \<lparr>wm_ephemeral_key = ephemeral_key, wm_counter = wm_counter m,
            wm_previous_counter = wm_previous_counter m, wm_ciphertext = wm_ciphertext m\<rparr>))"

definition validate_signal_pre_key_whisper_message ::
  "SignalPreKeyWhisperMessage \<Rightarrow> SignalPreKeyWhisperMessage core_result" where
  "validate_signal_pre_key_whisper_message m =
     and_then (normalize_signal_public_key (pm_base_key m)) (\<lambda>base_key.
     and_then (validate_signal_whisper_message (pm_message m)) (\<lambda>inner_message.
     and_then (normalize_signal_public_key (pm_identity_key m)) (\<lambda>identity_key.
     Ok \<lparr>pm_registration_id = pm_registration_id m, pm_pre_key_id = pm_pre_key_id m,
         pm_signed_pre_key_id = pm_signed_pre_key_id m, pm_base_key = base_key,
         pm_identity_key = identity_key, pm_message = inner_message\<rparr>)))"

section \<open>Frames\<close>

definition signal_whisper_message_version :: "u8 \<Rightarrow> u8 core_result" where
  "signal_whisper_message_version version_byte =
     (let message_version = drop_bit 4 version_byte; ciphertext_version = version_byte AND 15 in
      if message_version \<noteq> SIGNAL_WIRE_CURRENT_VERSION
      then Err (Protocol (''unsupported Signal whisper message version: '' @
        show_nat (unat message_version)))
      else if ciphertext_version \<noteq> SIGNAL_WIRE_CURRENT_VERSION
      then Err (Protocol (''unsupported Signal whisper ciphertext version: '' @
        show_nat (unat ciphertext_version)))
      else Ok message_version)"

definition prefixed_signal_public_key_owned :: "bytes \<Rightarrow> bytes core_result" where
  "prefixed_signal_public_key_owned key = normalize_signal_public_key key"

definition signal_whisper_message_mac ::
  "ext \<Rightarrow> bytes \<Rightarrow> bytes \<Rightarrow> bytes \<Rightarrow> bytes \<Rightarrow> bytes core_result" where
  "signal_whisper_message_mac X mac_key sender_id_pub receiver_id_pub serialized =
     and_then (prefixed_signal_public_key_owned sender_id_pub) (\<lambda>sender.
     and_then (prefixed_signal_public_key_owned receiver_id_pub) (\<lambda>receiver.
     and_then (map_err Crypto (hmac_sha256 X (sender @ receiver @ serialized) mac_key)) (\<lambda>full.
     Ok (take SIGNAL_MESSAGE_MAC_LEN full))))"

definition encode_signal_whisper_message ::
  "ext \<Rightarrow> SignalWhisperMessage \<Rightarrow> bytes \<Rightarrow> bytes \<Rightarrow> bytes \<Rightarrow> bytes core_result" where
  "encode_signal_whisper_message X message mac_key sender_id_pub receiver_id_pub =
     and_then (validate_signal_whisper_message message) (\<lambda>message.
     let proto = enc_whisper X (wire_of_whisper message);
         serialized = SIGNAL_WHISPER_MESSAGE_VERSION # proto in
     and_then (signal_whisper_message_mac X mac_key sender_id_pub receiver_id_pub serialized) (\<lambda>mac.
     Ok (serialized @ mac)))"

definition split_signal_whisper_message_frame ::
  "ext \<Rightarrow> bytes \<Rightarrow> SignalWhisperMessageFrame core_result" where
  "split_signal_whisper_message_frame X input =
     (if length input \<le> 1 + SIGNAL_MESSAGE_MAC_LEN
      then Err (Protocol (''Signal whisper message is too short: '' @ show_nat (length input)))
      else
        and_then (signal_whisper_message_version (input ! 0)) (\<lambda>_.
        let serialized = take (length input - SIGNAL_MESSAGE_MAC_LEN) input;
            mac = drop (length input - SIGNAL_MESSAGE_MAC_LEN) input in
        and_then (map_err (\<lambda>err. Protocol (''invalid Signal whisper message: '' @ err))
          (dec_whisper X (drop 1 serialized))) (\<lambda>decoded.
        and_then (whisper_of_wire decoded) (\<lambda>decoded.
        and_then (validate_signal_whisper_message decoded) (\<lambda>message.
        Ok \<lparr>wf_message = message, wf_serialized = serialized, wf_mac = mac\<rparr>)))))"

definition to_framed_bytes :: "SignalWhisperMessageFrame \<Rightarrow> bytes" where
  "to_framed_bytes frame = wf_serialized frame @ wf_mac frame"

definition verify_signal_whisper_message_frame ::
  "ext \<Rightarrow> SignalWhisperMessageFrame \<Rightarrow> bytes \<Rightarrow> bytes \<Rightarrow> bytes \<Rightarrow> unit core_result" where
  "verify_signal_whisper_message_frame X frame mac_key sender_id_pub receiver_id_pub =
     and_then (signal_whisper_message_mac X mac_key sender_id_pub receiver_id_pub
       (wf_serialized frame)) (\<lambda>expected_mac.
     if \<not> constant_time_eq expected_mac (wf_mac frame) then Err (Crypto Decrypt) else Ok ())"

definition decode_signal_whisper_message ::
  "ext \<Rightarrow> bytes \<Rightarrow> bytes \<Rightarrow> bytes \<Rightarrow> bytes \<Rightarrow> SignalWhisperMessage core_result" where
  "decode_signal_whisper_message X input mac_key sender_id_pub receiver_id_pub =
     and_then (split_signal_whisper_message_frame X input) (\<lambda>frame.
     and_then (verify_signal_whisper_message_frame X frame mac_key sender_id_pub receiver_id_pub) (\<lambda>_.
     Ok (wf_message frame)))"

section \<open>The pre-key message\<close>

definition encode_signal_pre_key_whisper_message_with_inner ::
  "ext \<Rightarrow> SignalPreKeyWhisperMessage \<Rightarrow> bytes \<Rightarrow> bytes core_result" where
  "encode_signal_pre_key_whisper_message_with_inner X message inner_message_bytes =
     and_then (validate_signal_pre_key_whisper_message message) (\<lambda>message.
     Ok (SIGNAL_WHISPER_MESSAGE_VERSION # enc_pre_key_whisper X
       \<lparr>w_pre_key_id = pm_pre_key_id message, w_base_key = pm_base_key message,
        w_identity_key = pm_identity_key message, w_message = inner_message_bytes,
        w_registration_id = Some (pm_registration_id message),
        w_signed_pre_key_id = Some (pm_signed_pre_key_id message)\<rparr>))"

definition encode_signal_pre_key_whisper_message ::
  "ext \<Rightarrow> SignalPreKeyWhisperMessage \<Rightarrow> bytes \<Rightarrow> bytes \<Rightarrow> bytes \<Rightarrow> bytes core_result" where
  "encode_signal_pre_key_whisper_message X message mac_key sender_id_pub receiver_id_pub =
     and_then (encode_signal_whisper_message X (pm_message message) mac_key
       sender_id_pub receiver_id_pub) (\<lambda>inner.
     encode_signal_pre_key_whisper_message_with_inner X message inner)"

definition decode_signal_pre_key_whisper_message_frame ::
  "ext \<Rightarrow> bytes \<Rightarrow> (SignalPreKeyWhisperMessage \<times> SignalWhisperMessageFrame) core_result" where
  "decode_signal_pre_key_whisper_message_frame X input =
     (if input = [] then Err (Protocol ''Signal pre-key whisper message is empty'')
      else
        and_then (signal_whisper_message_version (input ! 0)) (\<lambda>_.
        and_then (map_err (\<lambda>err. Protocol (''invalid Signal pre-key whisper message: '' @ err))
          (dec_pre_key_whisper X (drop 1 input))) (\<lambda>decoded.
        if w_message decoded = []
        then Err (Protocol ''Signal pre-key whisper message missing inner message'')
        else
          and_then (ok_or (w_registration_id decoded)
            (Protocol ''Signal pre-key whisper message missing registration id'')) (\<lambda>registration_id.
          and_then (ok_or (w_signed_pre_key_id decoded)
            (Protocol ''Signal pre-key whisper message missing signed pre-key id'')) (\<lambda>signed_pre_key_id.
          and_then (split_signal_whisper_message_frame X (w_message decoded)) (\<lambda>inner_frame.
          and_then (normalize_signal_public_key (w_base_key decoded)) (\<lambda>base_key.
          and_then (normalize_signal_public_key (w_identity_key decoded)) (\<lambda>identity_key.
          and_then (validate_signal_pre_key_whisper_message
            \<lparr>pm_registration_id = registration_id, pm_pre_key_id = w_pre_key_id decoded,
             pm_signed_pre_key_id = signed_pre_key_id, pm_base_key = base_key,
             pm_identity_key = identity_key, pm_message = wf_message inner_frame\<rparr>) (\<lambda>message.
          Ok (message, inner_frame))))))))))"

definition decode_signal_pre_key_whisper_message ::
  "ext \<Rightarrow> bytes \<Rightarrow> SignalPreKeyWhisperMessage core_result" where
  "decode_signal_pre_key_whisper_message X input =
     and_then (decode_signal_pre_key_whisper_message_frame X input) (\<lambda>(m, _). Ok m)"

section \<open>The message body\<close>

definition encrypt_signal_message_body ::
  "ext \<Rightarrow> bytes \<Rightarrow> SignalMessageKeyMaterial \<Rightarrow> bytes core_result" where
  "encrypt_signal_message_body X plaintext keys =
     map_err Crypto (aes_256_cbc_encrypt_with_iv X plaintext (mkm_cipher_key keys) (mkm_iv keys))"

definition decrypt_signal_message_body ::
  "ext \<Rightarrow> bytes \<Rightarrow> SignalMessageKeyMaterial \<Rightarrow> bytes core_result" where
  "decrypt_signal_message_body X ciphertext keys =
     map_err Crypto (aes_256_cbc_decrypt_with_iv X ciphertext (mkm_cipher_key keys) (mkm_iv keys))"

section \<open>Lemmas\<close>

lemma version_current [simp]:
  "signal_whisper_message_version SIGNAL_WHISPER_MESSAGE_VERSION = Inr 3"
  by (simp add: signal_whisper_message_version_def SIGNAL_WHISPER_MESSAGE_VERSION_def
      SIGNAL_WIRE_CURRENT_VERSION_def Let_def)

lemma validate_whisper_Ok [result_simps]:
  "validate_signal_whisper_message m = Inr m' \<longleftrightarrow>
     wm_ciphertext m \<noteq> [] \<and> (\<exists>k. normalize_signal_public_key (wm_ephemeral_key m) = Inr k \<and>
       m' = m\<lparr>wm_ephemeral_key := k\<rparr>)"
  by (cases m) (auto simp: validate_signal_whisper_message_def result_simps)

lemma validate_whisper_idem:
  "validate_signal_whisper_message m = Inr m' \<Longrightarrow> validate_signal_whisper_message m' = Inr m'"
  by (cases m) (auto simp: validate_whisper_Ok dest: normalize_key_idem)

lemma whisper_of_wire_of:
  "validate_signal_whisper_message m = Inr m' \<Longrightarrow> whisper_of_wire (wire_of_whisper m') = Inr m'"
  by (cases m) (auto simp: whisper_of_wire_def wire_of_whisper_def validate_whisper_Ok
      dest: normalize_key_idem)

lemma mac_Ok [result_simps]:
  "signal_whisper_message_mac X k s r bs = Inr t \<longleftrightarrow>
     (\<exists>s' r' full. normalize_signal_public_key s = Inr s' \<and> normalize_signal_public_key r = Inr r' \<and>
       hmac_sha256 X (s' @ r' @ bs) k = Inr full \<and> t = take 8 full)"
  by (auto simp: signal_whisper_message_mac_def prefixed_signal_public_key_owned_def result_simps)

lemma hmac_sha256_length: "ext_ok X \<Longrightarrow> hmac_sha256 X m k = Inr t \<Longrightarrow> length t = 32"
  using hmac_sha256_total [of X m k] by auto

lemma mac_length: "ext_ok X \<Longrightarrow> signal_whisper_message_mac X k s r bs = Inr t \<Longrightarrow> length t = 8"
  by (auto simp: mac_Ok dest: hmac_sha256_length)

lemma mac_total:
  assumes "ext_ok X" "normalize_signal_public_key s = Inr s'" "normalize_signal_public_key r = Inr r'"
  shows "\<exists>t. signal_whisper_message_mac X k s r bs = Inr t"
  using assms hmac_sha256_total [OF assms(1)] by (fastforce simp: result_simps)

lemma mac_normalized:
  assumes "normalize_signal_public_key s = Inr s'" "normalize_signal_public_key r = Inr r'"
  shows "signal_whisper_message_mac X k s r bs = signal_whisper_message_mac X k s' r' bs"
  using assms by (simp add: signal_whisper_message_mac_def prefixed_signal_public_key_owned_def
      normalize_key_idem [OF assms(1)] normalize_key_idem [OF assms(2)])

lemma encode_whisper_total:
  assumes "ext_ok X" "normalize_signal_public_key s = Inr s'" "normalize_signal_public_key r = Inr r'"
    and "validate_signal_whisper_message m = Inr m'"
  shows "\<exists>bs. encode_signal_whisper_message X m k s r = Inr bs"
  using assms(4) mac_total [OF assms(1-3)]
  by (auto simp: encode_signal_whisper_message_def Let_def result_simps)

text \<open>An encoded message splits into the frame that carries it, and the frame verifies.\<close>

lemma split_encoded:
  assumes "ext_ok X" "encode_signal_whisper_message X m k s r = Inr bs"
  shows "\<exists>f. split_signal_whisper_message_frame X bs = Inr f \<and> to_framed_bytes f = bs \<and>
    validate_signal_whisper_message m = Inr (wf_message f) \<and>
    signal_whisper_message_mac X k s r (wf_serialized f) = Inr (wf_mac f)"
proof -
  from assms(2) obtain m' t where m': "validate_signal_whisper_message m = Inr m'"
    and t: "signal_whisper_message_mac X k s r
      (SIGNAL_WHISPER_MESSAGE_VERSION # enc_whisper X (wire_of_whisper m')) = Inr t"
    and bs: "bs = (SIGNAL_WHISPER_MESSAGE_VERSION # enc_whisper X (wire_of_whisper m')) @ t"
    by (auto simp: encode_signal_whisper_message_def Let_def and_then_eq_Ok)
  let ?p = "enc_whisper X (wire_of_whisper m')"
  have len: "length t = 8" by (rule mac_length [OF assms(1) t])
  have "w_ciphertext (wire_of_whisper m') \<noteq> []"
    using m' by (auto simp: wire_of_whisper_def result_simps)
  then have ne: "?p \<noteq> []" by (rule ext_whisper_nonempty [OF assms(1)])
  have "split_signal_whisper_message_frame X bs =
      Inr \<lparr>wf_message = m', wf_serialized = SIGNAL_WHISPER_MESSAGE_VERSION # ?p, wf_mac = t\<rparr>"
    using ne by (simp add: split_signal_whisper_message_frame_def bs len Let_def
        ext_wire(1) [OF assms(1)] whisper_of_wire_of [OF m'] validate_whisper_idem [OF m'])
  then show ?thesis using m' t bs by (simp add: to_framed_bytes_def)
qed

text \<open>What a split frame is, whoever made it.\<close>

lemma split_frame:
  assumes "split_signal_whisper_message_frame X bs = Inr f"
  shows "to_framed_bytes f = bs" "length (wf_mac f) = 8" "length bs > 9"
    "validate_signal_whisper_message (wf_message f) = Inr (wf_message f)"
    "wf_serialized f = take (length bs - 8) bs"
    "\<exists>v. dec_whisper X (tl (wf_serialized f)) = Inr v \<and> w_counter v = Some (wm_counter (wf_message f)) \<and>
       w_ciphertext v = wm_ciphertext (wf_message f)"
  using assms
  by (auto simp: split_signal_whisper_message_frame_def Let_def and_then_eq_Ok map_err_eq_Ok
      to_framed_bytes_def drop_Suc whisper_of_wire_def ok_or_eq_Ok validate_whisper_Ok dest: normalize_key_idem split: if_splits)

lemma verify_frame_iff [result_simps]:
  "verify_signal_whisper_message_frame X f k s r = Inr u \<longleftrightarrow>
     signal_whisper_message_mac X k s r (wf_serialized f) = Inr (wf_mac f)"
  by (auto simp: verify_signal_whisper_message_frame_def and_then_eq_Ok constant_time_eq_iff)

lemma version_byte_iff:
  "(\<exists>v. signal_whisper_message_version b = Inr v) \<longleftrightarrow> b = SIGNAL_WHISPER_MESSAGE_VERSION"
proof
  assume "\<exists>v. signal_whisper_message_version b = Inr v"
  then have hi: "drop_bit 4 b = 3" and lo: "b AND 15 = 3"
    by (auto simp: signal_whisper_message_version_def Let_def SIGNAL_WIRE_CURRENT_VERSION_def
        split: if_splits)
  have "take_bit 4 b = 3" using lo by (simp add: take_bit_eq_mask mask_eq_exp_minus_1)
  with hi have "b = push_bit 4 3 + 3" using bits_ident [of 4 b] by simp
  then show "b = SIGNAL_WHISPER_MESSAGE_VERSION"
    by (simp add: SIGNAL_WHISPER_MESSAGE_VERSION_def SIGNAL_WIRE_CURRENT_VERSION_def)
qed auto

lemma split_frame_version:
  assumes "split_signal_whisper_message_frame X bs = Inr f"
  shows "\<exists>body. wf_serialized f = SIGNAL_WHISPER_MESSAGE_VERSION # body \<and> body \<noteq> []"
proof -
  have len: "length bs > 9" by (rule split_frame(3) [OF assms])
  have "\<exists>v. signal_whisper_message_version (bs ! 0) = Inr v"
    using assms by (auto simp: split_signal_whisper_message_frame_def and_then_eq_Ok split: if_splits)
  then have "bs ! 0 = SIGNAL_WHISPER_MESSAGE_VERSION" by (simp add: version_byte_iff)
  moreover obtain b body where "bs = b # body" using len by (cases bs) auto
  ultimately show ?thesis using len split_frame(5) [OF assms] by (auto simp: take_Cons')
qed

lemma decode_encode_whisper:
  assumes "ext_ok X" "normalize_signal_public_key s = Inr s'" "normalize_signal_public_key r = Inr r'"
    and "validate_signal_whisper_message m = Inr m'"
  shows "\<exists>bs. encode_signal_whisper_message X m k s r = Inr bs \<and>
    decode_signal_whisper_message X bs k s r = Inr m'"
proof -
  obtain bs where bs: "encode_signal_whisper_message X m k s r = Inr bs"
    using encode_whisper_total [OF assms] by blast
  then show ?thesis using split_encoded [OF assms(1) bs] assms(4)
    by (auto simp: decode_signal_whisper_message_def and_then_eq_Ok verify_frame_iff)
qed

text \<open>
  Every message with a ciphertext and well-formed keys is encoded, and what
  \<open>encode_signal_whisper_message\<close> returns is decoded, under the same MAC key and identities, to the
  message with its ephemeral key in the 33-byte form.
\<close>

theorem whisper_message_roundtrip:
  assumes "ext_ok X" "normalize_signal_public_key s = Inr s'" "normalize_signal_public_key r = Inr r'"
    and "wm_ciphertext m \<noteq> []" "normalize_signal_public_key (wm_ephemeral_key m) = Inr e"
  shows "\<exists>bs. encode_signal_whisper_message X m k s r = Inr bs \<and>
    decode_signal_whisper_message X bs k s r = Inr (m\<lparr>wm_ephemeral_key := e\<rparr>)"
  using decode_encode_whisper [OF assms(1-3)] assms(4,5) by (simp add: validate_whisper_Ok)

definition sample_whisper :: SignalWhisperMessage where
  "sample_whisper = \<lparr>wm_ephemeral_key = prefixed_signal_public_key (replicate 32 9), wm_counter = 4,
     wm_previous_counter = 0, wm_ciphertext = [1, 2, 3]\<rparr>"

lemma sample_whisper_ok:
  "wm_ciphertext sample_whisper \<noteq> []"
  "normalize_signal_public_key (wm_ephemeral_key sample_whisper) =
     Inr (prefixed_signal_public_key (replicate 32 9))"
  by (simp_all add: sample_whisper_def)

lemma sample_key_ok:
  "normalize_signal_public_key (replicate 32 b) = Inr (prefixed_signal_public_key (replicate 32 b))"
  by (simp add: normalize_key_cases)

theorem whisper_message_roundtrip_witness:
  "\<exists>bs. encode_signal_whisper_message toy sample_whisper (replicate 32 3) (replicate 32 1) (replicate 32 2)
      = Inr bs \<and>
    decode_signal_whisper_message toy bs (replicate 32 3) (replicate 32 1) (replicate 32 2) =
      Inr (sample_whisper\<lparr>wm_ephemeral_key := prefixed_signal_public_key (replicate 32 9)\<rparr>)"
  by (rule whisper_message_roundtrip [OF toy_ok sample_key_ok sample_key_ok sample_whisper_ok])

text \<open>
  Only authenticated frames are accepted. A byte string decodes exactly when it is the version
  byte, a protobuf that reads as a whisper message, and the truncated HMAC of both identities and
  the two; so of all byte strings with the same contents, only one trailer is accepted.
\<close>

theorem whisper_message_authentic:
  assumes "decode_signal_whisper_message X bs k s r = Inr m"
  shows "(\<exists>body mac. bs = SIGNAL_WHISPER_MESSAGE_VERSION # body @ mac \<and> length mac = 8 \<and>
      signal_whisper_message_mac X k s r (SIGNAL_WHISPER_MESSAGE_VERSION # body) = Inr mac \<and>
      (\<exists>v. dec_whisper X body = Inr v \<and> w_counter v = Some (wm_counter m) \<and>
        w_ciphertext v = wm_ciphertext m)) \<and>
    (\<forall>bs' m'. length bs' = length bs \<and> take (length bs - 8) bs' = take (length bs - 8) bs \<and>
      decode_signal_whisper_message X bs' k s r = Inr m' \<longrightarrow> bs' = bs)"
proof -
  have frame: "\<exists>f. split_signal_whisper_message_frame X c = Inr f \<and> wf_message f = n \<and>
      signal_whisper_message_mac X k s r (wf_serialized f) = Inr (wf_mac f)"
    if "decode_signal_whisper_message X c k s r = Inr n" for c n
    using that by (auto simp: decode_signal_whisper_message_def and_then_eq_Ok verify_frame_iff)
  obtain f where f: "split_signal_whisper_message_frame X bs = Inr f" "wf_message f = m"
    "signal_whisper_message_mac X k s r (wf_serialized f) = Inr (wf_mac f)"
    using frame [OF assms] by blast
  obtain body where body: "wf_serialized f = SIGNAL_WHISPER_MESSAGE_VERSION # body"
    using split_frame_version [OF f(1)] by blast
  have "bs = SIGNAL_WHISPER_MESSAGE_VERSION # body @ wf_mac f"
    using split_frame(1) [OF f(1)] body by (simp add: to_framed_bytes_def)
  then have "\<exists>body mac. bs = SIGNAL_WHISPER_MESSAGE_VERSION # body @ mac \<and> length mac = 8 \<and>
      signal_whisper_message_mac X k s r (SIGNAL_WHISPER_MESSAGE_VERSION # body) = Inr mac \<and>
      (\<exists>v. dec_whisper X body = Inr v \<and> w_counter v = Some (wm_counter m) \<and>
        w_ciphertext v = wm_ciphertext m)"
    using split_frame(2,6) [OF f(1)] f(2,3) body by auto
  moreover have "bs' = bs" if same: "length bs' = length bs"
      "take (length bs - 8) bs' = take (length bs - 8) bs"
    and dec: "decode_signal_whisper_message X bs' k s r = Inr m'" for bs' m'
  proof -
    obtain f' where f': "split_signal_whisper_message_frame X bs' = Inr f'"
    "signal_whisper_message_mac X k s r (wf_serialized f') = Inr (wf_mac f')"
      using frame [OF dec] by blast
    have "wf_serialized f' = wf_serialized f"
      using split_frame(5) [OF f(1)] split_frame(5) [OF f'(1)] same by simp
    then show ?thesis
      using f(3) f'(2) split_frame(1) [OF f(1)] split_frame(1) [OF f'(1)]
      by (simp add: to_framed_bytes_def)
  qed
  ultimately show ?thesis by blast
qed

theorem whisper_message_authentic_witness:
  "\<exists>bs m body mac. decode_signal_whisper_message toy bs (replicate 32 3) (replicate 32 1) (replicate 32 2)
      = Inr m \<and> bs = SIGNAL_WHISPER_MESSAGE_VERSION # body @ mac \<and> length mac = 8"
proof -
  have "validate_signal_whisper_message sample_whisper = Inr (sample_whisper\<lparr>wm_ephemeral_key :=
      prefixed_signal_public_key (replicate 32 9)\<rparr>)"
    by (simp add: validate_whisper_Ok sample_whisper_ok)
  then obtain bs m where "decode_signal_whisper_message toy bs (replicate 32 3) (replicate 32 1)
      (replicate 32 2) = Inr m"
    using decode_encode_whisper [OF toy_ok sample_key_ok sample_key_ok] by blast
  then show ?thesis using whisper_message_authentic by blast
qed

section \<open>Round trip of the pre-key message\<close>

lemma validate_pre_key_whisper_Ok [result_simps]:
  "validate_signal_pre_key_whisper_message m = Inr m' \<longleftrightarrow>
     (\<exists>b w i. normalize_signal_public_key (pm_base_key m) = Inr b \<and>
       validate_signal_whisper_message (pm_message m) = Inr w \<and>
       normalize_signal_public_key (pm_identity_key m) = Inr i \<and>
       m' = m\<lparr>pm_base_key := b, pm_identity_key := i, pm_message := w\<rparr>)"
  by (cases m) (auto simp: validate_signal_pre_key_whisper_message_def and_then_eq_Ok)

lemma pre_key_frame_roundtrip:
  assumes "ext_ok X" "encode_signal_whisper_message X (pm_message m) k s r = Inr inner"
    and "validate_signal_pre_key_whisper_message m = Inr m'"
    and "encode_signal_pre_key_whisper_message_with_inner X m inner = Inr bs"
  shows "\<exists>f. decode_signal_pre_key_whisper_message_frame X bs = Inr (m', f) \<and>
    split_signal_whisper_message_frame X inner = Inr f"
proof -
  obtain f where f: "split_signal_whisper_message_frame X inner = Inr f" "to_framed_bytes f = inner"
    "validate_signal_whisper_message (pm_message m) = Inr (wf_message f)"
    using split_encoded [OF assms(1,2)] by blast
  from assms(3) f(3) obtain b i where b: "normalize_signal_public_key (pm_base_key m) = Inr b"
    and i: "normalize_signal_public_key (pm_identity_key m) = Inr i"
    and m': "m' = m\<lparr>pm_base_key := b, pm_identity_key := i, pm_message := wf_message f\<rparr>"
    by (auto simp: validate_pre_key_whisper_Ok)
  have ne: "inner \<noteq> []" using split_frame(3) [OF f(1)] by auto
  have inner: "validate_signal_whisper_message (wf_message f) = Inr (wf_message f)"
    by (rule split_frame(4) [OF f(1)])
  have again: "validate_signal_pre_key_whisper_message
      \<lparr>pm_registration_id = pm_registration_id m, pm_pre_key_id = pm_pre_key_id m,
       pm_signed_pre_key_id = pm_signed_pre_key_id m, pm_base_key = b, pm_identity_key = i,
       pm_message = wf_message f\<rparr> = Inr m'"
    using normalize_key_idem [OF b] normalize_key_idem [OF i] inner
    by (cases m) (simp add: validate_pre_key_whisper_Ok m')
  then have "decode_signal_pre_key_whisper_message_frame X bs = Inr (m', f)"
    using assms(4) ne f(1) normalize_key_idem [OF b] normalize_key_idem [OF i]
    by (auto simp: encode_signal_pre_key_whisper_message_with_inner_def assms(3) m' again [unfolded m']
        decode_signal_pre_key_whisper_message_frame_def ext_wire(2) [OF assms(1)])
  then show ?thesis using f(1) by blast
qed

lemma message_body_roundtrip:
  assumes "ext_ok X" "message_keys_ok ks"
  shows "\<exists>c. encrypt_signal_message_body X p ks = Inr c \<and> c \<noteq> [] \<and>
    decrypt_signal_message_body X c ks = Inr p"
  using aes_256_cbc_roundtrip [OF assms(1), of "mkm_cipher_key ks" "mkm_iv ks" p] assms(2)
  by (auto simp: message_keys_ok_def encrypt_signal_message_body_def decrypt_signal_message_body_def)

end
