(* ===== verification/SignalRecord.thy ===== *)
theory SignalRecord
  imports SignalWire
begin

text \<open>
  The stored state of a one-to-one session in \<^verbatim>\<open>crates/wa-core/src/signal.rs\<close>: the record, the
  check \<open>validate_signal_provider_session_record\<close> that every read and write makes, and its binary
  encoding. The lemmas characterise the check as a predicate and show that encoding a record it
  accepts loses nothing but the unprefixed form of its keys.
\<close>

section \<open>The record\<close>

record SignalProviderStoredMessageKey =
  sk_ratchet_key :: bytes
  sk_counter :: u32
  sk_message_keys :: SignalMessageKeyMaterial

record SignalProviderSessionRecord =
  sr_remote_registration_id :: u32
  sr_remote_identity_key :: bytes
  sr_root_key :: bytes
  sr_sending_chain :: SignalMessageChainKey
  sr_receiving_chain :: "SignalMessageChainKey option"
  sr_remote_ratchet_key :: "bytes option"
  sr_local_ratchet_key_pair :: KeyPair
  sr_previous_counter :: u32
  sr_message_keys :: "SignalProviderStoredMessageKey list"
  sr_inbound_base_key :: "bytes option"

definition PROVIDER_SESSION_VERSION :: u8 where "PROVIDER_SESSION_VERSION = 1"
definition PROVIDER_SESSION_RECORD_KIND :: u8 where "PROVIDER_SESSION_RECORD_KIND = 2"

section \<open>Validation\<close>

definition validate_signal_provider_stored_message_key ::
  "SignalProviderStoredMessageKey \<Rightarrow> unit core_result" where
  "validate_signal_provider_stored_message_key message_key =
     and_then (normalize_signal_public_key (sk_ratchet_key message_key)) (\<lambda>_.
     and_then (validate_signal_message_chain_key (mkm_cipher_key (sk_message_keys message_key))) (\<lambda>_.
     and_then (validate_signal_message_chain_key (mkm_mac_key (sk_message_keys message_key))) (\<lambda>_.
     if length (mkm_iv (sk_message_keys message_key)) \<noteq> SIGNAL_MESSAGE_IV_LEN
     then Err (Protocol (''Signal provider skipped message IV must be '' @
       show_nat SIGNAL_MESSAGE_IV_LEN @ '' bytes''))
     else Ok ())))"

text \<open>The loop over the skipped keys, with the hash set it fills.\<close>

fun validate_skipped_message_keys ::
  "(bytes \<times> u32) option \<Rightarrow> (bytes \<times> u32) set \<Rightarrow> SignalProviderStoredMessageKey list \<Rightarrow>
     unit core_result" where
  "validate_skipped_message_keys active skipped [] = Ok ()"
| "validate_skipped_message_keys active skipped (message_key # rest) =
     and_then (validate_signal_provider_stored_message_key message_key) (\<lambda>_.
     and_then (normalize_signal_public_key (sk_ratchet_key message_key)) (\<lambda>ratchet_key.
     if (case active of Some (active_ratchet_key, active_counter) \<Rightarrow>
           ratchet_key = active_ratchet_key \<and> sk_counter message_key \<ge> active_counter
         | None \<Rightarrow> False)
     then Err (Protocol
       ''Signal provider skipped message counter must be below active receiving counter'')
     else if (ratchet_key, sk_counter message_key) \<in> skipped
     then Err (Protocol ''duplicate Signal provider skipped message key'')
     else validate_skipped_message_keys active
       (insert (ratchet_key, sk_counter message_key) skipped) rest))"

definition validate_signal_provider_session_record ::
  "ext \<Rightarrow> SignalProviderSessionRecord \<Rightarrow> unit core_result" where
  "validate_signal_provider_session_record X r =
     and_then (normalize_signal_public_key (sr_remote_identity_key r)) (\<lambda>_.
     and_then (validate_signal_root_key (sr_root_key r)) (\<lambda>_.
     and_then (validate_signal_message_chain_key (mck_key (sr_sending_chain r))) (\<lambda>_.
     and_then (case sr_receiving_chain r of
         Some chain \<Rightarrow> validate_signal_message_chain_key (mck_key chain) | None \<Rightarrow> Ok ()) (\<lambda>_.
     and_then (case sr_remote_ratchet_key r of
         Some key \<Rightarrow> and_then (normalize_signal_public_key key) (\<lambda>_. Ok ()) | None \<Rightarrow> Ok ()) (\<lambda>_.
     if (sr_receiving_chain r \<noteq> None) \<noteq> (sr_remote_ratchet_key r \<noteq> None)
     then Err (Protocol
       ''Signal provider session receiving chain and remote ratchet key must be stored together'')
     else
       and_then (signal_public_key_bytes
         (prefixed_signal_public_key (kp_public (sr_local_ratchet_key_pair r)))) (\<lambda>_.
       and_then (signal_private_key_bytes (kp_private (sr_local_ratchet_key_pair r))) (\<lambda>local_private_key.
       if public_key_from_private X local_private_key \<noteq> kp_public (sr_local_ratchet_key_pair r)
       then Err (Protocol
         ''Signal provider session local ratchet public key does not match private key'')
       else if length (sr_message_keys r) > SIGNAL_MAX_PROVIDER_MESSAGE_KEYS
       then Err (Protocol (''Signal provider session must contain at most '' @
         show_nat SIGNAL_MAX_PROVIDER_MESSAGE_KEYS @ '' skipped message keys''))
       else if sr_message_keys r \<noteq> [] \<and> sr_remote_ratchet_key r = None
       then Err (Protocol ''Signal provider skipped message keys require remote ratchet key'')
       else
         and_then (case (sr_remote_ratchet_key r, sr_receiving_chain r) of
             (Some ratchet_key, Some chain) \<Rightarrow>
               and_then (normalize_signal_public_key ratchet_key) (\<lambda>k. Ok (Some (k, mck_counter chain)))
           | _ \<Rightarrow> Ok None) (\<lambda>active_receiving_chain.
         validate_skipped_message_keys active_receiving_chain {} (sr_message_keys r)))))))))"

section \<open>The byte fields\<close>

definition put_bytes :: "bytes \<Rightarrow> bytes \<Rightarrow> bytes core_result" where
  "put_bytes out val =
     (if length val \<le> 65535 then Ok (out @ put_u16 (word_of_nat (length val)) @ val)
      else Err (Protocol ''stored session field too large''))"

definition take_signal_provider_session_flag :: "bytes \<Rightarrow> string \<Rightarrow> (u8 \<times> bytes) core_result" where
  "take_signal_provider_session_flag input name =
     (case input of [] \<Rightarrow> Err (Protocol (''stored Signal provider session missing '' @ name @ '' flag''))
      | b # rest \<Rightarrow> Ok (b, rest))"

definition take_signal_provider_session_u32 :: "bytes \<Rightarrow> string \<Rightarrow> (u32 \<times> bytes) core_result" where
  "take_signal_provider_session_u32 input name =
     (if length input < 4 then Err (Protocol (''stored Signal provider session missing '' @ name))
      else Ok (get_u32 input))"

definition take_signal_provider_session_bytes ::
  "bytes \<Rightarrow> string \<Rightarrow> (bytes \<times> bytes) core_result" where
  "take_signal_provider_session_bytes input name =
     (if length input < 2
      then Err (Protocol (''stored Signal provider session missing '' @ name @ '' length''))
      else
        let (w, rest) = get_u16 input; len = unat w in
        if length rest < len
        then Err (Protocol (''stored Signal provider session '' @ name @ '' is truncated''))
        else Ok (take len rest, drop len rest))"

section \<open>Encoding\<close>

fun put_message_keys :: "bytes \<Rightarrow> SignalProviderStoredMessageKey list \<Rightarrow> bytes core_result" where
  "put_message_keys out [] = Ok out"
| "put_message_keys out (message_key # rest) =
     and_then (normalize_signal_public_key (sk_ratchet_key message_key)) (\<lambda>key.
     and_then (put_bytes out key) (\<lambda>out.
     and_then (put_bytes (out @ put_u32 (sk_counter message_key))
       (mkm_cipher_key (sk_message_keys message_key))) (\<lambda>out.
     and_then (put_bytes out (mkm_mac_key (sk_message_keys message_key))) (\<lambda>out.
     and_then (put_bytes out (mkm_iv (sk_message_keys message_key))) (\<lambda>out.
     put_message_keys out rest)))))"

text \<open>A presence flag and, if present, the normalised key.\<close>

definition put_optional_key :: "bytes \<Rightarrow> bytes option \<Rightarrow> bytes core_result" where
  "put_optional_key out key =
     (case key of
        Some key \<Rightarrow> and_then (normalize_signal_public_key key) (\<lambda>key. put_bytes (out @ [1]) key)
      | None \<Rightarrow> Ok (out @ [0]))"

definition encode_signal_provider_session_record ::
  "ext \<Rightarrow> SignalProviderSessionRecord \<Rightarrow> bytes core_result" where
  "encode_signal_provider_session_record X r =
     and_then (validate_signal_provider_session_record X r) (\<lambda>_.
     let out = [PROVIDER_SESSION_VERSION, PROVIDER_SESSION_RECORD_KIND] @
       put_u32 (sr_remote_registration_id r) in
     and_then (normalize_signal_public_key (sr_remote_identity_key r)) (\<lambda>key.
     and_then (put_bytes out key) (\<lambda>out.
     and_then (put_bytes out (sr_root_key r)) (\<lambda>out.
     and_then (put_bytes (out @ put_u32 (mck_counter (sr_sending_chain r)))
       (mck_key (sr_sending_chain r))) (\<lambda>out.
     and_then (put_bytes out
       (prefixed_signal_public_key (kp_public (sr_local_ratchet_key_pair r)))) (\<lambda>out.
     and_then (put_bytes out (kp_private (sr_local_ratchet_key_pair r))) (\<lambda>out.
     let out = out @ put_u32 (sr_previous_counter r) in
     and_then (case sr_receiving_chain r of
         Some chain \<Rightarrow> put_bytes (out @ [1] @ put_u32 (mck_counter chain)) (mck_key chain)
       | None \<Rightarrow> Ok (out @ [0])) (\<lambda>out.
     and_then (put_optional_key out (sr_remote_ratchet_key r)) (\<lambda>out.
     if length (sr_message_keys r) > 4294967295
     then Err (Protocol ''too many Signal provider skipped message keys'')
     else
       and_then (put_message_keys (out @ put_u32 (word_of_nat (length (sr_message_keys r))))
         (sr_message_keys r)) (\<lambda>out.
       put_optional_key out (sr_inbound_base_key r)))))))))))"

section \<open>Decoding\<close>

fun take_message_keys ::
  "nat \<Rightarrow> bytes \<Rightarrow> (SignalProviderStoredMessageKey list \<times> bytes) core_result" where
  "take_message_keys 0 input = Ok ([], input)"
| "take_message_keys (Suc n) input =
     and_then (take_signal_provider_session_bytes input ''skipped message ratchet key'') (\<lambda>(key, input).
     and_then (normalize_signal_public_key key) (\<lambda>ratchet_key.
     and_then (take_signal_provider_session_u32 input ''skipped message counter'') (\<lambda>(counter, input).
     and_then (take_signal_provider_session_bytes input ''skipped message cipher key'') (\<lambda>(cipher_key, input).
     and_then (validate_signal_message_chain_key cipher_key) (\<lambda>_.
     and_then (take_signal_provider_session_bytes input ''skipped message mac key'') (\<lambda>(mac_key, input).
     and_then (validate_signal_message_chain_key mac_key) (\<lambda>_.
     and_then (take_signal_provider_session_bytes input ''skipped message iv'') (\<lambda>(iv, input).
     if length iv \<noteq> SIGNAL_MESSAGE_IV_LEN
     then Err (Protocol (''Signal provider skipped message IV must be '' @
       show_nat SIGNAL_MESSAGE_IV_LEN @ '' bytes''))
     else
       and_then (take_message_keys n input) (\<lambda>(rest, input).
       Ok (\<lparr>sk_ratchet_key = ratchet_key, sk_counter = counter,
            sk_message_keys = \<lparr>mkm_cipher_key = cipher_key, mkm_mac_key = mac_key, mkm_iv = iv\<rparr>\<rparr> # rest,
           input))))))))))"

definition take_receiving_chain :: "bytes \<Rightarrow> (SignalMessageChainKey option \<times> bytes) core_result" where
  "take_receiving_chain input =
     and_then (take_signal_provider_session_flag input ''receiving-chain'') (\<lambda>(flag, input).
     if flag = 0 then Ok (None, input)
     else if flag = 1 then
       and_then (take_signal_provider_session_u32 input ''receiving-chain counter'') (\<lambda>(counter, input).
       and_then (take_signal_provider_session_bytes input ''receiving-chain key'') (\<lambda>(key, input).
       and_then (validate_signal_message_chain_key key) (\<lambda>_.
       Ok (Some \<lparr>mck_key = key, mck_counter = counter\<rparr>, input))))
     else Err (Protocol ''stored Signal provider session has invalid receiving-chain flag''))"

definition take_optional_key ::
  "bytes \<Rightarrow> string \<Rightarrow> string \<Rightarrow> string \<Rightarrow> (bytes option \<times> bytes) core_result" where
  "take_optional_key input flag_name key_name flag_error =
     and_then (take_signal_provider_session_flag input flag_name) (\<lambda>(flag, input).
     if flag = 0 then Ok (None, input)
     else if flag = 1 then
       and_then (take_signal_provider_session_bytes input key_name) (\<lambda>(key, input).
       and_then (normalize_signal_public_key key) (\<lambda>key. Ok (Some key, input)))
     else Err (Protocol flag_error))"

text \<open>The section older records end before: chain, ratchet key and skipped keys.\<close>

definition take_optional_section ::
  "bytes \<Rightarrow> (SignalMessageChainKey option \<times> bytes option \<times>
     SignalProviderStoredMessageKey list \<times> bytes) core_result" where
  "take_optional_section input =
     (if input = [] then Ok (None, None, [], input)
      else
        and_then (take_receiving_chain input) (\<lambda>(receiving_chain, input).
        and_then (take_optional_key input ''remote-ratchet'' ''remote ratchet key''
          ''stored Signal provider session has invalid remote-ratchet flag'') (\<lambda>(remote_ratchet_key, input).
        if length input < 4
        then Err (Protocol ''stored Signal provider session missing skipped-key count'')
        else
          and_then (take_signal_provider_session_u32 input ''skipped-key count'') (\<lambda>(count, input).
          if unat count > SIGNAL_MAX_PROVIDER_MESSAGE_KEYS
          then Err (Protocol (''Signal provider session must contain at most '' @
            show_nat SIGNAL_MAX_PROVIDER_MESSAGE_KEYS @ '' skipped message keys''))
          else
            and_then (take_message_keys (unat count) input) (\<lambda>(message_keys, input).
            Ok (receiving_chain, remote_ratchet_key, message_keys, input))))))"

definition decode_signal_provider_session_record ::
  "ext \<Rightarrow> bytes \<Rightarrow> SignalProviderSessionRecord core_result" where
  "decode_signal_provider_session_record X input =
     (case input of
        version # kind # input \<Rightarrow>
          if version \<noteq> PROVIDER_SESSION_VERSION \<or> kind \<noteq> PROVIDER_SESSION_RECORD_KIND
          then Err (Protocol ''unsupported Signal provider session version'')
          else if length input < 4
          then Err (Protocol ''stored Signal provider session missing registration id'')
          else
            (let (remote_registration_id, input) = get_u32 input in
            and_then (take_signal_provider_session_bytes input ''remote identity key'') (\<lambda>(key, input).
            and_then (normalize_signal_public_key key) (\<lambda>remote_identity_key.
            and_then (take_signal_provider_session_bytes input ''root key'') (\<lambda>(root_key, input).
            and_then (validate_signal_root_key root_key) (\<lambda>_.
            and_then (take_signal_provider_session_u32 input ''sending counter'') (\<lambda>(sending_counter, input).
            and_then (take_signal_provider_session_bytes input ''sending chain key'')
              (\<lambda>(sending_chain_key, input).
            and_then (validate_signal_message_chain_key sending_chain_key) (\<lambda>_.
            and_then (take_signal_provider_session_bytes input ''local ratchet public key'')
              (\<lambda>(key, input).
            and_then (normalize_signal_public_key key) (\<lambda>local_public_key.
            and_then (take_signal_provider_session_bytes input ''local ratchet private key'')
              (\<lambda>(key, input).
            and_then (signal_private_key_bytes key) (\<lambda>local_private_key.
            and_then (take_signal_provider_session_u32 input ''previous counter'')
              (\<lambda>(previous_counter, input).
            and_then (take_optional_section input)
              (\<lambda>(receiving_chain, remote_ratchet_key, message_keys, input).
            and_then (if input \<noteq> []
                then take_optional_key input ''inbound-base-key'' ''inbound base key''
                  ''stored Signal provider session has invalid inbound-base-key flag''
                else Ok (None, input)) (\<lambda>(inbound_base_key, input).
            if input \<noteq> []
            then Err (Protocol ''stored Signal provider session has trailing bytes'')
            else
              and_then (signal_public_key_bytes local_public_key) (\<lambda>local_public.
              let r = \<lparr>sr_remote_registration_id = remote_registration_id,
                sr_remote_identity_key = remote_identity_key, sr_root_key = root_key,
                sr_sending_chain = \<lparr>mck_key = sending_chain_key, mck_counter = sending_counter\<rparr>,
                sr_receiving_chain = receiving_chain, sr_remote_ratchet_key = remote_ratchet_key,
                sr_local_ratchet_key_pair = \<lparr>kp_public = local_public, kp_private = local_private_key\<rparr>,
                sr_previous_counter = previous_counter, sr_message_keys = message_keys,
                sr_inbound_base_key = inbound_base_key\<rparr> in
              and_then (validate_signal_provider_session_record X r) (\<lambda>_. Ok r)))))))))))))))))
      | _ \<Rightarrow> Err (Protocol ''stored Signal provider session is truncated''))"

section \<open>The check as a predicate\<close>

definition stored_key_ok :: "SignalProviderStoredMessageKey \<Rightarrow> bool" where
  "stored_key_ok e \<longleftrightarrow> is_ok (normalize_signal_public_key (sk_ratchet_key e)) \<and>
     message_keys_ok (sk_message_keys e)"

lemma stored_key_Ok [result_simps]:
  "validate_signal_provider_stored_message_key e = Inr u \<longleftrightarrow> stored_key_ok e"
  by (auto simp: validate_signal_provider_stored_message_key_def stored_key_ok_def message_keys_ok_def
      and_then_eq_Ok chain_key_Ok is_ok_iff)

text \<open>
  A record in the form the decoder returns: every public key has its prefix. On such records the
  check is the conjunction below.
\<close>

definition key_normal :: "bytes \<Rightarrow> bool" where
  "key_normal k \<longleftrightarrow> normalize_signal_public_key k = Inr k"

definition record_normal :: "SignalProviderSessionRecord \<Rightarrow> bool" where
  "record_normal r \<longleftrightarrow> key_normal (sr_remote_identity_key r) \<and>
     (\<forall>k. sr_remote_ratchet_key r = Some k \<longrightarrow> key_normal k) \<and>
     (\<forall>k. sr_inbound_base_key r = Some k \<longrightarrow> key_normal k) \<and>
     (\<forall>e\<in>set (sr_message_keys r). key_normal (sk_ratchet_key e))"

definition skip_id :: "SignalProviderStoredMessageKey \<Rightarrow> bytes \<times> u32" where
  "skip_id e = (sk_ratchet_key e, sk_counter e)"

definition below_active :: "SignalProviderSessionRecord \<Rightarrow> SignalProviderStoredMessageKey \<Rightarrow> bool" where
  "below_active r e \<longleftrightarrow> (\<forall>c. sr_receiving_chain r = Some c \<and>
     sr_remote_ratchet_key r = Some (sk_ratchet_key e) \<longrightarrow> sk_counter e < mck_counter c)"

definition record_ok :: "ext \<Rightarrow> SignalProviderSessionRecord \<Rightarrow> bool" where
  "record_ok X r \<longleftrightarrow> record_normal r \<and>
     length (sr_root_key r) = 32 \<and> length (mck_key (sr_sending_chain r)) = 32 \<and>
     (\<forall>c. sr_receiving_chain r = Some c \<longrightarrow> length (mck_key c) = 32) \<and>
     (sr_receiving_chain r = None \<longleftrightarrow> sr_remote_ratchet_key r = None) \<and>
     length (kp_public (sr_local_ratchet_key_pair r)) = 32 \<and>
     length (kp_private (sr_local_ratchet_key_pair r)) = 32 \<and>
     x_public X (kp_private (sr_local_ratchet_key_pair r)) = kp_public (sr_local_ratchet_key_pair r) \<and>
     length (sr_message_keys r) \<le> 2000 \<and>
     (sr_remote_ratchet_key r = None \<longrightarrow> sr_message_keys r = []) \<and>
     (\<forall>e\<in>set (sr_message_keys r). stored_key_ok e \<and> below_active r e) \<and>
     distinct (map skip_id (sr_message_keys r))"

lemma key_normal_length: "key_normal k \<Longrightarrow> length k = 33"
  by (auto simp: key_normal_def dest: normalize_key_length)

lemma key_normalize [simp]: "key_normal k \<Longrightarrow> normalize_signal_public_key k = Inr k"
  by (simp add: key_normal_def)

lemma key_normalI: "normalize_signal_public_key k = Inr k' \<Longrightarrow> key_normal k'"
  unfolding key_normal_def by (rule normalize_key_idem)

lemma validate_skipped_Ok:
  assumes "\<forall>e\<in>set es. key_normal (sk_ratchet_key e)"
  shows "validate_skipped_message_keys active seen es = Inr () \<longleftrightarrow>
    (\<forall>e\<in>set es. stored_key_ok e \<and> skip_id e \<notin> seen \<and>
      (\<forall>k c. active = Some (k, c) \<and> sk_ratchet_key e = k \<longrightarrow> sk_counter e < c)) \<and>
    distinct (map skip_id es)"
  using assms
proof (induction es arbitrary: seen)
  case (Cons e es)
  have id: "(sk_ratchet_key e, sk_counter e) = skip_id e" by (simp add: skip_id_def)
  have "validate_skipped_message_keys active seen (e # es) = Inr () \<longleftrightarrow>
      stored_key_ok e \<and> skip_id e \<notin> seen \<and>
      (\<forall>k c. active = Some (k, c) \<and> sk_ratchet_key e = k \<longrightarrow> sk_counter e < c) \<and>
      validate_skipped_message_keys active (insert (skip_id e) seen) es = Inr ()"
    using Cons.prems
    by (cases active) (auto simp: and_then_eq_Ok stored_key_Ok id not_le)
  moreover have "skip_id e \<notin> skip_id ` set es \<longleftrightarrow> (\<forall>x\<in>set es. skip_id x \<noteq> skip_id e)"
    by (auto simp: image_iff)
  ultimately show ?case using Cons by (auto simp del: validate_skipped_message_keys.simps)
qed simp

lemma public_prefixed_Ok:
  "signal_public_key_bytes (prefixed_signal_public_key k) = Inr k' \<longleftrightarrow>
     (length k = 32 \<and> k' = k) \<or> (length k = 31 \<and> k' = prefixed_signal_public_key k)"
  by (auto simp: signal_public_key_bytes_def prefixed_signal_public_key_def)

theorem validate_record_iff:
  assumes "record_normal r" "length (kp_public (sr_local_ratchet_key_pair r)) = 32"
  shows "validate_signal_provider_session_record X r = Inr () \<longleftrightarrow> record_ok X r"
proof -
  define active where "active = (case (sr_remote_ratchet_key r, sr_receiving_chain r) of
    (Some k, Some c) \<Rightarrow> Some (k, mck_counter c) | _ \<Rightarrow> None)"
  have norm: "key_normal (sr_remote_identity_key r)"
    "\<forall>k. sr_remote_ratchet_key r = Some k \<longrightarrow> key_normal k"
    "\<forall>e\<in>set (sr_message_keys r). key_normal (sk_ratchet_key e)"
    using assms(1) by (simp_all add: record_normal_def)
  have act: "(case (sr_remote_ratchet_key r, sr_receiving_chain r) of
      (Some ratchet_key, Some chain) \<Rightarrow>
        and_then (normalize_signal_public_key ratchet_key) (\<lambda>k. Ok (Some (k, mck_counter chain)))
    | _ \<Rightarrow> Ok None) = (Inr active :: (bytes \<times> u32) option core_result)"
    using norm(2) by (auto simp: active_def split: option.split)
  have below: "(\<forall>k c. active = Some (k, c) \<and> sk_ratchet_key e = k \<longrightarrow> sk_counter e < c) \<longleftrightarrow>
      below_active r e" for e
    by (auto simp: active_def below_active_def split: option.split)
  have chain: "(case sr_receiving_chain r of
        Some chain \<Rightarrow> validate_signal_message_chain_key (mck_key chain) | None \<Rightarrow> Ok ()) = Inr () \<longleftrightarrow>
      (\<forall>c. sr_receiving_chain r = Some c \<longrightarrow> length (mck_key c) = 32)"
    by (auto simp: chain_key_Ok split: option.split)
  have remote: "(case sr_remote_ratchet_key r of
        Some key \<Rightarrow> and_then (normalize_signal_public_key key) (\<lambda>_. Ok ()) | None \<Rightarrow> Ok ()) =
      (Inr () :: unit core_result)"
    using norm(2) by (auto split: option.split)
  have skipped: "validate_skipped_message_keys active {} (sr_message_keys r) = Inr () \<longleftrightarrow>
      (\<forall>e\<in>set (sr_message_keys r). stored_key_ok e \<and> below_active r e) \<and>
      distinct (map skip_id (sr_message_keys r))"
    unfolding validate_skipped_Ok [OF norm(3)] below by simp
  show ?thesis
    unfolding validate_signal_provider_session_record_def act remote record_ok_def
    using assms norm chain skipped
    by (cases "sr_receiving_chain r"; cases "sr_remote_ratchet_key r")
      (auto simp: and_then_eq_Ok root_key_Ok chain_key_Ok private_bytes_Ok public_key_from_private_def)
qed

lemma record_ok_validates: "record_ok X r \<Longrightarrow> validate_signal_provider_session_record X r = Inr ()"
  by (rule validate_record_iff [THEN iffD2]) (auto simp: record_ok_def)

section \<open>Round trip\<close>

definition field :: "bytes \<Rightarrow> bytes" where
  "field v = put_u16 (word_of_nat (length v)) @ v"

lemma put_bytes_field: "length v \<le> 65535 \<Longrightarrow> put_bytes out v = Inr (out @ field v)"
  by (simp add: put_bytes_def field_def)

lemma take_field [wire_simps]:
  assumes "length v \<le> 65535"
  shows "take_signal_provider_session_bytes (field v @ rest) name = Inr (v, rest)"
proof -
  have "unat (word_of_nat (length v) :: u16) = length v"
    using assms by (simp add: unat_of_nat take_bit_nat_eq_self)
  then show ?thesis
    by (simp add: take_signal_provider_session_bytes_def field_def get_put_u16 Let_def)
qed

lemma take_u32 [wire_simps]: "take_signal_provider_session_u32 (put_u32 w @ rest) name = Inr (w, rest)"
  by (simp add: take_signal_provider_session_u32_def get_put_u32)

lemma take_flag [wire_simps]: "take_signal_provider_session_flag (b # rest) name = Inr (b, rest)"
  by (simp add: take_signal_provider_session_flag_def)

definition stored_key_bytes :: "SignalProviderStoredMessageKey \<Rightarrow> bytes" where
  "stored_key_bytes e = field (sk_ratchet_key e) @ put_u32 (sk_counter e) @
     field (mkm_cipher_key (sk_message_keys e)) @ field (mkm_mac_key (sk_message_keys e)) @
     field (mkm_iv (sk_message_keys e))"

definition optional_key_bytes :: "bytes option \<Rightarrow> bytes" where
  "optional_key_bytes k = (case k of None \<Rightarrow> [0] | Some k \<Rightarrow> 1 # field k)"

definition receiving_chain_bytes :: "SignalMessageChainKey option \<Rightarrow> bytes" where
  "receiving_chain_bytes c = (case c of None \<Rightarrow> [0]
     | Some c \<Rightarrow> 1 # put_u32 (mck_counter c) @ field (mck_key c))"

lemma stored_key_lengths:
  "stored_key_ok e \<Longrightarrow> key_normal (sk_ratchet_key e) \<Longrightarrow>
     length (sk_ratchet_key e) = 33 \<and> length (mkm_cipher_key (sk_message_keys e)) = 32 \<and>
     length (mkm_mac_key (sk_message_keys e)) = 32 \<and> length (mkm_iv (sk_message_keys e)) = 16"
  by (auto simp: stored_key_ok_def message_keys_ok_def key_normal_length)

lemma put_message_keys_bytes:
  "\<forall>e\<in>set es. stored_key_ok e \<and> key_normal (sk_ratchet_key e) \<Longrightarrow>
     put_message_keys out es = Inr (out @ concat (map stored_key_bytes es))"
  by (induction es arbitrary: out)
    (simp_all add: put_bytes_field stored_key_bytes_def stored_key_lengths)

lemma take_message_keys_bytes:
  "\<forall>e\<in>set es. stored_key_ok e \<and> key_normal (sk_ratchet_key e) \<Longrightarrow>
     take_message_keys (length es) (concat (map stored_key_bytes es) @ rest) = Inr (es, rest)"
proof (induction es)
  case (Cons e es)
  then have "length (sk_ratchet_key e) = 33" "length (mkm_cipher_key (sk_message_keys e)) = 32"
    "length (mkm_mac_key (sk_message_keys e)) = 32" "length (mkm_iv (sk_message_keys e)) = 16"
    using stored_key_lengths by auto
  then show ?case using Cons
    by (simp add: stored_key_bytes_def wire_simps validate_signal_message_chain_key_def)
qed simp

lemma put_optional_key_bytes:
  "(\<And>k. key = Some k \<Longrightarrow> key_normal k) \<Longrightarrow>
     put_optional_key out key = Inr (out @ optional_key_bytes key)"
  by (cases key)
    (simp_all add: put_optional_key_def optional_key_bytes_def put_bytes_field key_normal_length)

lemma take_optional_key_bytes:
  "(\<And>k. key = Some k \<Longrightarrow> key_normal k) \<Longrightarrow>
     take_optional_key (optional_key_bytes key @ rest) n1 n2 n3 = Inr (key, rest)"
  by (cases key)
    (simp_all add: take_optional_key_def optional_key_bytes_def wire_simps key_normal_length)

lemma take_receiving_chain_bytes:
  "(\<And>c. chain = Some c \<Longrightarrow> length (mck_key c) = 32) \<Longrightarrow>
     take_receiving_chain (receiving_chain_bytes chain @ rest) = Inr (chain, rest)"
  by (cases chain)
    (simp_all add: take_receiving_chain_def receiving_chain_bytes_def wire_simps
      validate_signal_message_chain_key_def)

definition section_bytes :: "SignalProviderSessionRecord \<Rightarrow> bytes" where
  "section_bytes r = receiving_chain_bytes (sr_receiving_chain r) @
     optional_key_bytes (sr_remote_ratchet_key r) @
     put_u32 (word_of_nat (length (sr_message_keys r))) @
     concat (map stored_key_bytes (sr_message_keys r))"

definition record_bytes :: "SignalProviderSessionRecord \<Rightarrow> bytes" where
  "record_bytes r =
     PROVIDER_SESSION_VERSION # PROVIDER_SESSION_RECORD_KIND # put_u32 (sr_remote_registration_id r) @
     field (sr_remote_identity_key r) @ field (sr_root_key r) @
     put_u32 (mck_counter (sr_sending_chain r)) @ field (mck_key (sr_sending_chain r)) @
     field (prefixed_signal_public_key (kp_public (sr_local_ratchet_key_pair r))) @
     field (kp_private (sr_local_ratchet_key_pair r)) @ put_u32 (sr_previous_counter r) @
     section_bytes r @ optional_key_bytes (sr_inbound_base_key r)"

lemma encode_record_bytes:
  assumes "record_ok X r"
  shows "encode_signal_provider_session_record X r = Inr (record_bytes r)"
proof -
  have v: "validate_signal_provider_session_record X r = Inr ()"
    by (rule record_ok_validates [OF assms])
  have n: "key_normal (sr_remote_identity_key r)" "length (sr_remote_identity_key r) = 33"
    "\<And>k. sr_remote_ratchet_key r = Some k \<Longrightarrow> key_normal k"
    "\<And>k. sr_inbound_base_key r = Some k \<Longrightarrow> key_normal k"
    "\<forall>e\<in>set (sr_message_keys r). stored_key_ok e \<and> key_normal (sk_ratchet_key e)"
    using assms by (simp_all add: record_ok_def record_normal_def key_normal_length)
  have l: "length (sr_root_key r) = 32" "length (mck_key (sr_sending_chain r)) = 32"
    "length (kp_public (sr_local_ratchet_key_pair r)) = 32"
    "length (kp_private (sr_local_ratchet_key_pair r)) = 32"
    "length (sr_message_keys r) \<le> 2000"
    using assms unfolding record_ok_def by blast+
  have chain: "(case sr_receiving_chain r of
         Some chain \<Rightarrow> put_bytes (out @ [1] @ put_u32 (mck_counter chain)) (mck_key chain)
       | None \<Rightarrow> Ok (out @ [0])) = Inr (out @ receiving_chain_bytes (sr_receiving_chain r))" for out
    using assms by (cases "sr_receiving_chain r")
      (simp_all add: receiving_chain_bytes_def put_bytes_field record_ok_def)
  show ?thesis
    unfolding encode_signal_provider_session_record_def v chain
    by (simp add: n l put_bytes_field put_optional_key_bytes put_message_keys_bytes Let_def
        record_bytes_def section_bytes_def not_less le_trans [OF l(5)])
qed

lemma take_section_bytes:
  assumes "record_ok X r"
  shows "take_optional_section (section_bytes r @ rest) =
    Inr (sr_receiving_chain r, sr_remote_ratchet_key r, sr_message_keys r, rest)"
proof -
  have n: "\<And>k. sr_remote_ratchet_key r = Some k \<Longrightarrow> key_normal k"
    "\<And>c. sr_receiving_chain r = Some c \<Longrightarrow> length (mck_key c) = 32"
    "\<forall>e\<in>set (sr_message_keys r). stored_key_ok e \<and> key_normal (sk_ratchet_key e)"
    "length (sr_message_keys r) \<le> 2000"
    using assms by (simp_all add: record_ok_def record_normal_def)
  have "receiving_chain_bytes (sr_receiving_chain r) \<noteq> []"
    by (simp add: receiving_chain_bytes_def split: option.split)
  moreover have "unat (word_of_nat (length (sr_message_keys r)) :: u32) = length (sr_message_keys r)"
    using n(4) by (simp add: unat_of_nat take_bit_nat_eq_self)
  ultimately show ?thesis using n(4)
    by (simp add: take_optional_section_def section_bytes_def take_receiving_chain_bytes n(1,2)
        take_optional_key_bytes take_u32 take_message_keys_bytes [OF n(3)])
qed

lemma chain_eta: "\<lparr>mck_key = mck_key c, mck_counter = mck_counter c\<rparr> = c"
  by simp

lemma key_pair_eta: "\<lparr>kp_public = kp_public p, kp_private = kp_private p\<rparr> = p"
  by simp

lemma record_eta:
  "\<lparr>sr_remote_registration_id = sr_remote_registration_id r,
    sr_remote_identity_key = sr_remote_identity_key r, sr_root_key = sr_root_key r,
    sr_sending_chain = sr_sending_chain r, sr_receiving_chain = sr_receiving_chain r,
    sr_remote_ratchet_key = sr_remote_ratchet_key r,
    sr_local_ratchet_key_pair = sr_local_ratchet_key_pair r,
    sr_previous_counter = sr_previous_counter r, sr_message_keys = sr_message_keys r,
    sr_inbound_base_key = sr_inbound_base_key r\<rparr> = r"
  by simp

lemma encode_decode_record:
  assumes "record_ok X r"
  shows "\<exists>bs. encode_signal_provider_session_record X r = Inr bs \<and>
    decode_signal_provider_session_record X bs = Inr r"
proof -
  have v: "validate_signal_provider_session_record X r = Inr ()"
    by (rule record_ok_validates [OF assms])
  have n: "key_normal (sr_remote_identity_key r)" "length (sr_remote_identity_key r) = 33"
    "\<And>k. sr_inbound_base_key r = Some k \<Longrightarrow> key_normal k"
    using assms by (simp_all add: record_ok_def record_normal_def key_normal_length)
  have l: "length (sr_root_key r) = 32" "length (mck_key (sr_sending_chain r)) = 32"
    "length (kp_public (sr_local_ratchet_key_pair r)) = 32"
    "length (kp_private (sr_local_ratchet_key_pair r)) = 32"
    using assms unfolding record_ok_def by blast+
  have ne: "optional_key_bytes (sr_inbound_base_key r) \<noteq> []"
    by (simp add: optional_key_bytes_def split: option.split)
  have tail: "take_optional_key (optional_key_bytes (sr_inbound_base_key r)) n1 n2 n3 =
      Inr (sr_inbound_base_key r, [])" for n1 n2 n3
    using take_optional_key_bytes [of "sr_inbound_base_key r" "[]"] n(3) by simp
  have "decode_signal_provider_session_record X (record_bytes r) = Inr r"
    by (simp add: decode_signal_provider_session_record_def record_bytes_def get_put_u32 wire_simps
        n(1,2) l take_section_bytes [OF assms] ne tail v Let_def
        validate_signal_message_chain_key_def validate_signal_root_key_def
        chain_eta key_pair_eta record_eta)
  then show ?thesis using encode_record_bytes [OF assms] by blast
qed


lemma decode_encoded_record:
  "record_ok X r \<Longrightarrow> encode_signal_provider_session_record X r = Inr bs \<Longrightarrow>
     decode_signal_provider_session_record X bs = Inr r"
  using encode_decode_record by fastforce

text \<open>
  A session record survives storage. Every record the check accepts is encoded, and decoding
  the bytes gives back exactly that record: both chains, the ratchet keys, every skipped message
  key with its counter, and the base key that recognises replays.
\<close>

theorem session_record_roundtrip:
  assumes "record_ok X r"
  shows "\<exists>bs. encode_signal_provider_session_record X r = Inr bs \<and>
    decode_signal_provider_session_record X bs = Inr r"
  by (rule encode_decode_record [OF assms])

definition sample_record :: SignalProviderSessionRecord where
  "sample_record =
     \<lparr>sr_remote_registration_id = 7,
      sr_remote_identity_key = prefixed_signal_public_key (replicate 32 1),
      sr_root_key = replicate 32 2,
      sr_sending_chain = \<lparr>mck_key = replicate 32 3, mck_counter = 0\<rparr>,
      sr_receiving_chain = Some \<lparr>mck_key = replicate 32 4, mck_counter = 3\<rparr>,
      sr_remote_ratchet_key = Some (prefixed_signal_public_key (replicate 32 5)),
      sr_local_ratchet_key_pair = sample_pair 6,
      sr_previous_counter = 0,
      sr_message_keys =
        [\<lparr>sk_ratchet_key = prefixed_signal_public_key (replicate 32 5), sk_counter = 1,
          sk_message_keys = \<lparr>mkm_cipher_key = replicate 32 1, mkm_mac_key = replicate 32 2,
            mkm_iv = replicate 16 3\<rparr>\<rparr>],
      sr_inbound_base_key = None\<rparr>"

lemma sample_record_ok: "record_ok toy sample_record"
  using sample_pair_ok [of 6] key_pair_public_length [OF toy_ok sample_pair_ok, of 6]
  by (simp add: record_ok_def sample_record_def record_normal_def key_normal_def key_pair_ok_def
      stored_key_ok_def message_keys_ok_def below_active_def)

theorem session_record_roundtrip_witness:
  "\<exists>bs. encode_signal_provider_session_record toy sample_record = Inr bs \<and>
    decode_signal_provider_session_record toy bs = Inr sample_record"
  by (rule session_record_roundtrip [OF sample_record_ok])

text \<open>What the decoder returns passes the check and is in normal form.\<close>

lemma take_message_keys_normal:
  "take_message_keys n input = Inr (es, rest) \<Longrightarrow> \<forall>e\<in>set es. key_normal (sk_ratchet_key e)"
proof (induction n arbitrary: input es)
  case (Suc n)
  from Suc.prems obtain k k' c m ae inp where "normalize_signal_public_key k = Inr k'"
    "take_message_keys n inp = Inr (ae, rest)"
    "es = \<lparr>sk_ratchet_key = k', sk_counter = c, sk_message_keys = m\<rparr> # ae"
    by (auto simp add: and_then_eq_Ok split_beta split: if_splits)
  then show ?case using Suc.IH [of inp ae] key_normalI [of k k'] by simp
qed simp

lemma take_optional_key_normal:
  "take_optional_key input n1 n2 n3 = Inr (Some k, rest) \<Longrightarrow> key_normal k"
  by (auto simp: take_optional_key_def and_then_eq_Ok split: if_splits prod.splits elim: key_normalI)

lemma take_section_normal:
  "take_optional_section input = Inr (c, k, es, rest) \<Longrightarrow>
     (\<forall>e\<in>set es. key_normal (sk_ratchet_key e)) \<and> (\<forall>k'. k = Some k' \<longrightarrow> key_normal k')"
  by (auto simp: take_optional_section_def and_then_eq_Ok split: if_splits prod.splits
      dest: take_message_keys_normal take_optional_key_normal)

lemma public_bytes_length: "signal_public_key_bytes k = Inr p \<Longrightarrow> length p = 32"
  by (auto simp: signal_public_key_bytes_def split: if_splits)

lemma decoded_record_ok:
  assumes "decode_signal_provider_session_record X bs = Inr r"
  shows "record_ok X r"
proof -
  have "record_normal r \<and> length (kp_public (sr_local_ratchet_key_pair r)) = 32 \<and>
      validate_signal_provider_session_record X r = Inr ()"
    using assms
    by (auto simp: decode_signal_provider_session_record_def and_then_eq_Ok Let_def record_normal_def
        split: list.splits if_splits prod.splits
        intro: key_normalI dest: take_section_normal take_optional_key_normal public_bytes_length)
  then show ?thesis using validate_record_iff by blast
qed

end
