(* ===== verification/SignalSession.thy ===== *)
theory SignalSession
  imports SignalRecord
begin

text \<open>
  Encryption and decryption in a one-to-one session of \<^verbatim>\<open>crates/wa-core/src/signal.rs\<close>: the
  skipped message keys, the lazily opened sending chain, the Diffie-Hellman ratchet on a new remote
  key, and the pre-key messages that start a session on both sides. The functions that take
  \<open>&mut SignalProviderSessionRecord\<close> return the new record with their result; on an error their
  callers drop the record, so an error carries none.
\<close>

section \<open>Skipped message keys\<close>

definition push_signal_provider_stored_message_key ::
  "SignalProviderStoredMessageKey list \<Rightarrow> SignalProviderStoredMessageKey \<Rightarrow>
     SignalProviderStoredMessageKey list core_result" where
  "push_signal_provider_stored_message_key skipped message_key =
     and_then (validate_signal_provider_stored_message_key message_key) (\<lambda>_.
     if list_ex (\<lambda>existing. sk_ratchet_key existing = sk_ratchet_key message_key \<and>
          sk_counter existing = sk_counter message_key) skipped
     then Ok skipped
     else
       let skipped = skipped @ [message_key] in
       if length skipped > SIGNAL_MAX_PROVIDER_MESSAGE_KEYS
       then Ok (drop (length skipped - SIGNAL_MAX_PROVIDER_MESSAGE_KEYS) skipped)
       else Ok skipped)"

fun find_signal_provider_stored_message_key_index ::
  "SignalProviderStoredMessageKey list \<Rightarrow> bytes \<Rightarrow> u32 \<Rightarrow> nat option" where
  "find_signal_provider_stored_message_key_index [] ratchet_key counter = None"
| "find_signal_provider_stored_message_key_index (message_key # rest) ratchet_key counter =
     (if sk_ratchet_key message_key = ratchet_key \<and> sk_counter message_key = counter then Some 0
      else map_option Suc (find_signal_provider_stored_message_key_index rest ratchet_key counter))"

lemma ratchet_message_measure:
  "ratchet_signal_message_chain X c = Inr s \<Longrightarrow>
     4294967296 - unat (mck_counter (mcs_next_chain_key s)) < 4294967296 - unat (mck_counter c)"
  using ratchet_message_step [of X c s] unat_u32_less [of "mck_counter c + 1"]
  by (auto simp: unat_Suc_u32)

text \<open>The loop of \<open>signal_message_keys_for_counter\<close>, each turn one step of the chain.\<close>

function message_keys_loop ::
  "ext \<Rightarrow> SignalProviderStoredMessageKey list \<Rightarrow> bytes \<Rightarrow> SignalMessageChainKey \<Rightarrow> u32 \<Rightarrow>
     (SignalMessageKeyMaterial \<times> SignalProviderStoredMessageKey list \<times> SignalMessageChainKey) core_result"
  where
  "message_keys_loop X skipped ratchet_key chain_key counter =
     and_then (ratchet_signal_message_chain X chain_key) (\<lambda>step.
     if mcs_message_counter step = counter
     then Ok (mcs_message_keys step, skipped, mcs_next_chain_key step)
     else
       and_then (push_signal_provider_stored_message_key skipped
         \<lparr>sk_ratchet_key = ratchet_key, sk_counter = mcs_message_counter step,
          sk_message_keys = mcs_message_keys step\<rparr>) (\<lambda>skipped.
       message_keys_loop X skipped ratchet_key (mcs_next_chain_key step) counter))"
  by pat_completeness auto

termination
  by (relation "measure (\<lambda>(X, skipped, ratchet_key, chain_key, counter).
      4294967296 - unat (mck_counter chain_key))")
    (auto simp: ratchet_message_measure)

declare message_keys_loop.simps [simp del]

definition signal_message_keys_for_counter ::
  "ext \<Rightarrow> SignalProviderStoredMessageKey list \<Rightarrow> bytes \<Rightarrow> SignalMessageChainKey \<Rightarrow> u32 \<Rightarrow>
     (SignalMessageKeyMaterial \<times> SignalProviderStoredMessageKey list \<times> SignalMessageChainKey) core_result"
  where
  "signal_message_keys_for_counter X skipped ratchet_key chain_key counter =
     (if counter < mck_counter chain_key
      then Err (Protocol (''duplicate or old Signal message counter: '' @ show_nat (unat counter)))
      else
        let jump = counter - mck_counter chain_key in
        if jump > SIGNAL_MAX_MESSAGE_FORWARD_JUMPS
        then Err (Protocol (''Signal message is too far in the future: '' @ show_nat (unat jump)))
        else message_keys_loop X skipped ratchet_key chain_key counter)"

function skip_loop ::
  "ext \<Rightarrow> SignalProviderStoredMessageKey list \<Rightarrow> bytes \<Rightarrow> SignalMessageChainKey \<Rightarrow> u32 \<Rightarrow>
     (SignalProviderStoredMessageKey list \<times> SignalMessageChainKey) core_result" where
  "skip_loop X skipped ratchet_key chain_key counter =
     (if mck_counter chain_key \<le> counter then
        and_then (ratchet_signal_message_chain X chain_key) (\<lambda>step.
        and_then (push_signal_provider_stored_message_key skipped
          \<lparr>sk_ratchet_key = ratchet_key, sk_counter = mcs_message_counter step,
           sk_message_keys = mcs_message_keys step\<rparr>) (\<lambda>skipped.
        skip_loop X skipped ratchet_key (mcs_next_chain_key step) counter))
      else Ok (skipped, chain_key))"
  by pat_completeness auto
termination
  by (relation "measure (\<lambda>(X, skipped, ratchet_key, chain_key, counter).
      4294967296 - unat (mck_counter chain_key))")
    (auto simp: ratchet_message_measure)

declare skip_loop.simps [simp del]

definition skip_signal_provider_message_keys_until ::
  "ext \<Rightarrow> SignalProviderStoredMessageKey list \<Rightarrow> bytes \<Rightarrow> SignalMessageChainKey \<Rightarrow> u32 \<Rightarrow>
     (SignalProviderStoredMessageKey list \<times> SignalMessageChainKey) core_result" where
  "skip_signal_provider_message_keys_until X skipped ratchet_key chain_key counter =
     (if mck_counter chain_key > counter then Ok (skipped, chain_key)
      else
        let jump = counter - mck_counter chain_key in
        if jump > SIGNAL_MAX_MESSAGE_FORWARD_JUMPS
        then Err (Protocol (''Signal previous chain is too far in the future: '' @ show_nat (unat jump)))
        else skip_loop X skipped ratchet_key chain_key counter)"

section \<open>The sending chain\<close>

definition uninitialized_signal_message_chain :: SignalMessageChainKey where
  "uninitialized_signal_message_chain = \<lparr>mck_key = replicate 32 0, mck_counter = 0\<rparr>"

definition is_uninitialized_signal_message_chain :: "SignalMessageChainKey \<Rightarrow> bool" where
  "is_uninitialized_signal_message_chain chain \<longleftrightarrow>
     mck_counter chain = 0 \<and> list_all (\<lambda>byte. byte = 0) (mck_key chain)"

text \<open>\<open>rnd\<close> is the private key \<open>generate_key_pair\<close> draws.\<close>

definition ensure_signal_provider_sending_chain ::
  "ext \<Rightarrow> bytes \<Rightarrow> SignalProviderSessionRecord \<Rightarrow> SignalProviderSessionRecord core_result" where
  "ensure_signal_provider_sending_chain X rnd r =
     (if \<not> is_uninitialized_signal_message_chain (sr_sending_chain r) then Ok r
      else
        and_then (ok_or (sr_remote_ratchet_key r)
          (Protocol ''missing Signal remote ratchet key for send chain'')) (\<lambda>remote_ratchet_key.
        let local_ratchet_key_pair = generate_key_pair X rnd in
        and_then (ratchet_signal_root_key X (sr_root_key r) (kp_private local_ratchet_key_pair)
          remote_ratchet_key) (\<lambda>step.
        Ok (r\<lparr>sr_root_key := rrs_root_key step, sr_sending_chain := rrs_chain_key step,
              sr_local_ratchet_key_pair := local_ratchet_key_pair\<rparr>))))"

definition encrypt_signal_provider_session_record_plaintext ::
  "ext \<Rightarrow> bytes \<Rightarrow> SignalProviderSessionRecord \<Rightarrow> bytes \<Rightarrow> bytes \<Rightarrow> bytes \<Rightarrow>
     (SignalWhisperMessage \<times> bytes \<times> SignalProviderSessionRecord) core_result" where
  "encrypt_signal_provider_session_record_plaintext X rnd r plaintext sender_id_pub receiver_id_pub =
     and_then (validate_signal_provider_session_record X r) (\<lambda>_.
     and_then (ensure_signal_provider_sending_chain X rnd r) (\<lambda>r.
     and_then (ratchet_signal_message_chain X (sr_sending_chain r)) (\<lambda>step.
     and_then (encrypt_signal_message_body X plaintext (mcs_message_keys step)) (\<lambda>ciphertext.
     let message = \<lparr>wm_ephemeral_key =
             prefixed_signal_public_key (kp_public (sr_local_ratchet_key_pair r)),
           wm_counter = mcs_message_counter step,
           wm_previous_counter = sr_previous_counter r,
           wm_ciphertext = ciphertext\<rparr> in
     and_then (encode_signal_whisper_message X message (mkm_mac_key (mcs_message_keys step))
       sender_id_pub receiver_id_pub) (\<lambda>message_bytes.
     Ok (message, message_bytes, r\<lparr>sr_sending_chain := mcs_next_chain_key step\<rparr>))))))"

section \<open>Decryption\<close>

text \<open>\<open>u32::saturating_sub(1)\<close>.\<close>

definition saturating_pred :: "u32 \<Rightarrow> u32" where
  "saturating_pred w = (if w = 0 then 0 else w - 1)"

text \<open>
  The branch of \<open>decrypt_signal_provider_session_record_ciphertext\<close> for a ratchet key that is not
  the current remote one: finish the old receiving chain, then one Diffie-Hellman ratchet step.
\<close>

definition receive_new_ratchet ::
  "ext \<Rightarrow> SignalProviderSessionRecord \<Rightarrow> SignalWhisperMessage \<Rightarrow> bytes \<Rightarrow>
     SignalProviderSessionRecord core_result" where
  "receive_new_ratchet X r message message_ratchet_key =
     (let stored = map sk_counter (filter (\<lambda>k. sk_ratchet_key k = message_ratchet_key)
        (sr_message_keys r)) in
      if sr_remote_ratchet_key r \<noteq> Some message_ratchet_key \<and> stored \<noteq> [] \<and>
         wm_counter message < Min (set stored)
      then Err (Protocol (''Signal previous chain counter moved backwards: message '' @
        show_nat (unat (wm_counter message)) @ '', current '' @ show_nat (unat (Min (set stored)))))
      else
        and_then (case (sr_remote_ratchet_key r, sr_receiving_chain r) of
            (Some previous_ratchet_key, Some receiving_chain) \<Rightarrow>
              and_then (skip_signal_provider_message_keys_until X (sr_message_keys r)
                previous_ratchet_key receiving_chain (wm_previous_counter message)) (\<lambda>(skipped, chain).
              Ok (r\<lparr>sr_message_keys := skipped, sr_receiving_chain := Some chain\<rparr>))
          | _ \<Rightarrow> Ok r) (\<lambda>r.
        let r = r\<lparr>sr_previous_counter := saturating_pred (mck_counter (sr_sending_chain r))\<rparr> in
        and_then (ratchet_signal_root_key X (sr_root_key r)
          (kp_private (sr_local_ratchet_key_pair r)) message_ratchet_key) (\<lambda>step.
        Ok (r\<lparr>sr_root_key := rrs_root_key step, sr_receiving_chain := Some (rrs_chain_key step),
              sr_remote_ratchet_key := Some message_ratchet_key,
              sr_sending_chain := uninitialized_signal_message_chain\<rparr>))))"

definition decrypt_signal_provider_session_record_ciphertext ::
  "ext \<Rightarrow> SignalProviderSessionRecord \<Rightarrow> SignalWhisperMessageFrame \<Rightarrow> bytes \<Rightarrow> bytes \<Rightarrow>
     (bytes \<times> SignalProviderSessionRecord) core_result" where
  "decrypt_signal_provider_session_record_ciphertext X r frame sender_id_pub receiver_id_pub =
     and_then (validate_signal_provider_session_record X r) (\<lambda>_.
     let message = wf_message frame in
     and_then (normalize_signal_public_key (wm_ephemeral_key message)) (\<lambda>message_ratchet_key.
     case find_signal_provider_stored_message_key_index (sr_message_keys r) message_ratchet_key
            (wm_counter message) of
       Some index \<Rightarrow>
         let message_keys = sk_message_keys (sr_message_keys r ! index) in
         and_then (verify_signal_whisper_message_frame X frame (mkm_mac_key message_keys)
           sender_id_pub receiver_id_pub) (\<lambda>_.
         and_then (decrypt_signal_message_body X (wm_ciphertext message) message_keys) (\<lambda>plaintext.
         Ok (plaintext, r\<lparr>sr_message_keys :=
           take index (sr_message_keys r) @ drop (Suc index) (sr_message_keys r)\<rparr>)))
     | None \<Rightarrow>
         and_then (if sr_remote_ratchet_key r \<noteq> Some message_ratchet_key \<or> sr_receiving_chain r = None
             then receive_new_ratchet X r message message_ratchet_key else Ok r) (\<lambda>r.
         and_then (ok_or (sr_receiving_chain r) (Protocol ''missing Signal receiving chain''))
           (\<lambda>receiving_chain.
         and_then (signal_message_keys_for_counter X (sr_message_keys r) message_ratchet_key
           receiving_chain (wm_counter message)) (\<lambda>(message_keys, skipped, chain).
         let r = r\<lparr>sr_message_keys := skipped, sr_receiving_chain := Some chain\<rparr> in
         and_then (verify_signal_whisper_message_frame X frame (mkm_mac_key message_keys)
           sender_id_pub receiver_id_pub) (\<lambda>_.
         and_then (decrypt_signal_message_body X (wm_ciphertext message) message_keys) (\<lambda>plaintext.
         Ok (plaintext, r))))))))"

section \<open>Messages against a stored record\<close>

record SignalProviderSessionEncryption =
  se_record :: bytes
  se_message :: SignalWhisperMessage
  se_message_bytes :: bytes

record SignalProviderSessionDecryption =
  sd_record :: bytes
  sd_message :: SignalWhisperMessage
  sd_plaintext :: bytes

record SignalProviderPreKeySessionEncryption =
  pe_record :: bytes
  pe_message :: SignalPreKeyWhisperMessage
  pe_message_bytes :: bytes
  pe_used_one_time_pre_key :: bool

record SignalProviderPreKeySessionDecryption =
  pd_record :: bytes
  pd_message :: SignalPreKeyWhisperMessage
  pd_plaintext :: bytes
  pd_used_one_time_pre_key :: bool

definition encrypt_signal_provider_session_record_message ::
  "ext \<Rightarrow> bytes \<Rightarrow> bytes \<Rightarrow> bytes \<Rightarrow> bytes \<Rightarrow> SignalProviderSessionEncryption core_result" where
  "encrypt_signal_provider_session_record_message X rnd stored plaintext local_identity_pub =
     and_then (decode_signal_provider_session_record X stored) (\<lambda>r.
     let receiver_id_pub = sr_remote_identity_key r in
     and_then (encrypt_signal_provider_session_record_plaintext X rnd r plaintext
       local_identity_pub receiver_id_pub) (\<lambda>(message, message_bytes, r).
     and_then (encode_signal_provider_session_record X r) (\<lambda>stored.
     Ok \<lparr>se_record = stored, se_message = message, se_message_bytes = message_bytes\<rparr>)))"

definition decrypt_signal_provider_session_record_message ::
  "ext \<Rightarrow> bytes \<Rightarrow> bytes \<Rightarrow> bytes \<Rightarrow> SignalProviderSessionDecryption core_result" where
  "decrypt_signal_provider_session_record_message X stored message local_identity_pub =
     and_then (decode_signal_provider_session_record X stored) (\<lambda>r.
     let sender_id_pub = sr_remote_identity_key r in
     and_then (split_signal_whisper_message_frame X message) (\<lambda>frame.
     and_then (decrypt_signal_provider_session_record_ciphertext X r frame
       sender_id_pub local_identity_pub) (\<lambda>(plaintext, r).
     and_then (encode_signal_provider_session_record X r) (\<lambda>stored.
     Ok \<lparr>sd_record = stored, sd_message = wf_message frame, sd_plaintext = plaintext\<rparr>))))"

section \<open>Pre-key messages\<close>

definition encrypt_signal_outbound_pre_key_session_message_with_sending_ratchet ::
  "ext \<Rightarrow> verifier \<Rightarrow> bytes \<Rightarrow> SignalLocalKeyMaterial \<Rightarrow> KeyPair \<Rightarrow> KeyPair \<Rightarrow> SignalSession \<Rightarrow> bytes \<Rightarrow>
     SignalProviderPreKeySessionEncryption core_result" where
  "encrypt_signal_outbound_pre_key_session_message_with_sending_ratchet X V rnd local_key_material
       local_base_key sending_ratchet_key_pair remote_session plaintext =
     and_then (derive_verified_signal_outbound_pre_key_root_chain_keys X V local_key_material
       local_base_key remote_session) (\<lambda>bootstrap.
     and_then (normalize_signal_public_key (ses_identity_key remote_session)) (\<lambda>remote_identity_key.
     let local_identity_pub = li_public_key (lk_identity local_key_material) in
     and_then (normalize_signal_public_key (spk_public_key (ses_signed_pre_key remote_session)))
       (\<lambda>remote_signed_pre_key.
     and_then (ratchet_signal_root_key X (pkb_root_key bootstrap)
       (kp_private sending_ratchet_key_pair) remote_signed_pre_key) (\<lambda>sending_step.
     let r = \<lparr>sr_remote_registration_id = ses_registration_id remote_session,
        sr_remote_identity_key = remote_identity_key, sr_root_key = rrs_root_key sending_step,
        sr_sending_chain = rrs_chain_key sending_step, sr_receiving_chain = None,
        sr_remote_ratchet_key = None, sr_local_ratchet_key_pair = sending_ratchet_key_pair,
        sr_previous_counter = 0, sr_message_keys = [], sr_inbound_base_key = None\<rparr> in
     and_then (encrypt_signal_provider_session_record_plaintext X rnd r plaintext
       local_identity_pub remote_identity_key) (\<lambda>(message, inner_message_bytes, r).
     let pre_key_message = \<lparr>pm_registration_id = lk_registration_id local_key_material,
        pm_pre_key_id = map_option pk_key_id (ses_pre_key remote_session),
        pm_signed_pre_key_id = spk_key_id (ses_signed_pre_key remote_session),
        pm_base_key = prefixed_signal_public_key (kp_public local_base_key),
        pm_identity_key = local_identity_pub, pm_message = message\<rparr> in
     and_then (encode_signal_pre_key_whisper_message_with_inner X pre_key_message
       inner_message_bytes) (\<lambda>message_bytes.
     and_then (encode_signal_provider_session_record X r) (\<lambda>stored.
     Ok \<lparr>pe_record = stored, pe_message = pre_key_message, pe_message_bytes = message_bytes,
         pe_used_one_time_pre_key = pkb_used_one_time_pre_key bootstrap\<rparr>)))))))"

text \<open>The public entry point draws the sending ratchet pair from \<open>ratchet_rnd\<close>.\<close>

definition encrypt_signal_outbound_pre_key_session_message ::
  "ext \<Rightarrow> verifier \<Rightarrow> bytes \<Rightarrow> bytes \<Rightarrow> SignalLocalKeyMaterial \<Rightarrow> KeyPair \<Rightarrow> SignalSession \<Rightarrow> bytes \<Rightarrow>
     SignalProviderPreKeySessionEncryption core_result" where
  "encrypt_signal_outbound_pre_key_session_message X V ratchet_rnd rnd local_key_material
       local_base_key remote_session plaintext =
     encrypt_signal_outbound_pre_key_session_message_with_sending_ratchet X V rnd local_key_material
       local_base_key (generate_key_pair X ratchet_rnd) remote_session plaintext"

definition decrypt_signal_inbound_pre_key_session_decoded ::
  "ext \<Rightarrow> SignalLocalKeyMaterial \<Rightarrow> SignalLocalPreKey option \<Rightarrow> SignalPreKeyWhisperMessage \<Rightarrow>
     SignalWhisperMessageFrame \<Rightarrow> SignalProviderPreKeySessionDecryption core_result" where
  "decrypt_signal_inbound_pre_key_session_decoded X local_key_material local_one_time_pre_key
       message inner_frame =
     and_then (normalize_signal_public_key (pm_base_key message)) (\<lambda>base_key.
     if (pm_pre_key_id message \<noteq> None) \<noteq> (local_one_time_pre_key \<noteq> None)
     then Err (Protocol ''Signal pre-key message one-time pre-key state mismatch'')
     else if (case (pm_pre_key_id message, local_one_time_pre_key) of
          (Some message_pre_key_id, Some local_pre_key) \<Rightarrow> message_pre_key_id \<noteq> lp_key_id local_pre_key
        | _ \<Rightarrow> False)
     then Err (Protocol (''Signal pre-key id mismatch: message '' @
       show_nat (unat (the (pm_pre_key_id message))) @ '', local '' @
       show_nat (unat (lp_key_id (the local_one_time_pre_key)))))
     else if pm_signed_pre_key_id message \<noteq> ls_key_id (lk_signed_pre_key local_key_material)
     then Err (Protocol (''Signal signed pre-key id mismatch: message '' @
       show_nat (unat (pm_signed_pre_key_id message)) @ '', local '' @
       show_nat (unat (ls_key_id (lk_signed_pre_key local_key_material)))))
     else
       and_then (derive_signal_inbound_pre_key_root_chain_keys X local_key_material
         local_one_time_pre_key (pm_identity_key message) base_key) (\<lambda>bootstrap.
       and_then (normalize_signal_public_key (pm_identity_key message)) (\<lambda>remote_identity_key.
       let r = \<lparr>sr_remote_registration_id = pm_registration_id message,
          sr_remote_identity_key = remote_identity_key, sr_root_key = pkb_root_key bootstrap,
          sr_sending_chain = uninitialized_signal_message_chain, sr_receiving_chain = None,
          sr_remote_ratchet_key = None,
          sr_local_ratchet_key_pair = ls_key_pair (lk_signed_pre_key local_key_material),
          sr_previous_counter = 0, sr_message_keys = [], sr_inbound_base_key = Some base_key\<rparr> in
       and_then (decrypt_signal_provider_session_record_ciphertext X r inner_frame
         (pm_identity_key message) (li_public_key (lk_identity local_key_material))) (\<lambda>(plaintext, r).
       and_then (encode_signal_provider_session_record X r) (\<lambda>stored.
       Ok \<lparr>pd_record = stored, pd_message = message, pd_plaintext = plaintext,
           pd_used_one_time_pre_key = pkb_used_one_time_pre_key bootstrap\<rparr>)))))"

definition decrypt_signal_inbound_pre_key_session_message ::
  "ext \<Rightarrow> SignalLocalKeyMaterial \<Rightarrow> SignalLocalPreKey option \<Rightarrow> bytes \<Rightarrow>
     SignalProviderPreKeySessionDecryption core_result" where
  "decrypt_signal_inbound_pre_key_session_message X local_key_material local_one_time_pre_key message =
     and_then (decode_signal_pre_key_whisper_message_frame X message) (\<lambda>(message, inner_frame).
     decrypt_signal_inbound_pre_key_session_decoded X local_key_material local_one_time_pre_key
       message inner_frame)"

end
