(* ===== verification/SignalDelivery.thy ===== *)
theory SignalDelivery
  imports SignalSession
begin

text \<open>
  What the session code of \<^verbatim>\<open>crates/wa-core/src/signal.rs\<close> guarantees. The loops over the message
  chain are runs of the chain contract \<open>key_chain\<close>, and the skipped keys are the keys of the run;
  from this follow delivery in any order, rejection of replays, and the invariant of the stored
  record.
\<close>

section \<open>The store of skipped keys\<close>

lemma find_None_iff:
  "find_signal_provider_stored_message_key_index es rk i = None \<longleftrightarrow> (rk, i) \<notin> skip_id ` set es"
  by (induction es) (auto simp: skip_id_def)

lemma find_SomeD:
  "find_signal_provider_stored_message_key_index es rk i = Some n \<Longrightarrow>
     n < length es \<and> skip_id (es ! n) = (rk, i)"
  by (induction es arbitrary: n) (auto simp: skip_id_def split: if_splits)

lemma push_fresh:
  assumes "stored_key_ok e" "skip_id e \<notin> skip_id ` set sk" "length sk < 2000"
  shows "push_signal_provider_stored_message_key sk e = Inr (sk @ [e])"
proof -
  have "\<not> list_ex (\<lambda>x. sk_ratchet_key x = sk_ratchet_key e \<and> sk_counter x = sk_counter e) sk"
    using assms(2) by (auto simp: list_ex_iff skip_id_def image_iff)
  moreover have "validate_signal_provider_stored_message_key e = Inr ()"
    using assms(1) by (simp add: stored_key_Ok)
  ultimately show ?thesis
    using assms(3) by (simp add: push_signal_provider_stored_message_key_def)
qed

lemma push_cases:
  assumes "push_signal_provider_stored_message_key sk e = Inr sk'"
  shows "stored_key_ok e" "sk' = sk \<or> (skip_id e \<notin> skip_id ` set sk \<and> (\<exists>n. sk' = drop n (sk @ [e])))"
    "length sk \<le> 2000 \<Longrightarrow> length sk' \<le> 2000"
  using assms
  by (auto simp: push_signal_provider_stored_message_key_def and_then_eq_Ok stored_key_Ok Let_def
      list_ex_iff skip_id_def image_iff split: if_splits intro: exI [of _ 0] exI [of _ "length sk - 1999"])

text \<open>The entries a run of the chain stores, and storing them one by one.\<close>

fun stored_entries :: "bytes \<Rightarrow> u32 \<Rightarrow> SignalMessageKeyMaterial list \<Rightarrow>
    SignalProviderStoredMessageKey list" where
  "stored_entries rk i [] = []"
| "stored_entries rk i (k # ks) =
     \<lparr>sk_ratchet_key = rk, sk_counter = i, sk_message_keys = k\<rparr> # stored_entries rk (i + 1) ks"

fun push_entries :: "SignalProviderStoredMessageKey list \<Rightarrow> SignalProviderStoredMessageKey list \<Rightarrow>
    SignalProviderStoredMessageKey list core_result" where
  "push_entries sk [] = Ok sk"
| "push_entries sk (e # es) =
     and_then (push_signal_provider_stored_message_key sk e) (\<lambda>sk. push_entries sk es)"

lemma length_stored_entries [simp]: "length (stored_entries rk i ks) = length ks"
  by (induction ks arbitrary: i) simp_all

lemma nth_stored_entries:
  "j < length ks \<Longrightarrow> stored_entries rk i ks ! j =
     \<lparr>sk_ratchet_key = rk, sk_counter = i + word_of_nat j, sk_message_keys = ks ! j\<rparr>"
proof (induction ks arbitrary: i j)
  case (Cons k ks)
  then show ?case by (cases j) (simp_all add: ac_simps)
qed simp

lemma set_stored_entries:
  "e \<in> set (stored_entries rk i ks) \<longleftrightarrow> (\<exists>j<length ks. e =
     \<lparr>sk_ratchet_key = rk, sk_counter = i + word_of_nat j, sk_message_keys = ks ! j\<rparr>)"
  by (auto simp: in_set_conv_nth nth_stored_entries)

lemma push_entries_fresh:
  "\<forall>e\<in>set es. stored_key_ok e \<Longrightarrow> distinct (map skip_id (sk @ es)) \<Longrightarrow>
     length sk + length es \<le> 2000 \<Longrightarrow> push_entries sk es = Inr (sk @ es)"
proof (induction es arbitrary: sk)
  case (Cons e es)
  then have "push_signal_provider_stored_message_key sk e = Inr (sk @ [e])"
    by (intro push_fresh) auto
  then show ?case using Cons by simp
qed simp

lemma push_entries_total:
  "\<forall>e\<in>set es. stored_key_ok e \<Longrightarrow> \<exists>sk'. push_entries sk es = Inr sk'"
proof (induction es arbitrary: sk)
  case (Cons e es)
  then have "validate_signal_provider_stored_message_key e = Inr ()" by (simp add: stored_key_Ok)
  then have "\<exists>sk'. push_signal_provider_stored_message_key sk e = Inr sk'"
    by (simp add: push_signal_provider_stored_message_key_def Let_def)
  with Cons show ?case by auto
qed simp

lemma push_entries_inv:
  "push_entries sk es = Inr sk' \<Longrightarrow> distinct (map skip_id sk) \<Longrightarrow> length sk \<le> 2000 \<Longrightarrow>
     distinct (map skip_id sk') \<and> length sk' \<le> 2000 \<and> set sk' \<subseteq> set sk \<union> set es \<and>
     (\<forall>e\<in>set es. stored_key_ok e)"
proof (induction es arbitrary: sk)
  case (Cons e es)
  then obtain sk1 where sk1: "push_signal_provider_stored_message_key sk e = Inr sk1"
    and rest: "push_entries sk1 es = Inr sk'"
    by (auto simp: and_then_eq_Ok)
  note push = push_cases [OF sk1]
  have "distinct (map skip_id sk1) \<and> set sk1 \<subseteq> insert e (set sk)"
  proof (cases "sk1 = sk")
    case True
    then show ?thesis using Cons.prems by auto
  next
    case False
    then obtain n where "skip_id e \<notin> skip_id ` set sk" and n: "sk1 = drop n (sk @ [e])"
      using push(2) by blast
    then have "distinct (map skip_id (sk @ [e]))" using Cons.prems by simp
    then have "distinct (map skip_id sk1)" unfolding n drop_map [symmetric] by (rule distinct_drop)
    moreover have "set sk1 \<subseteq> set (sk @ [e])" unfolding n by (rule set_drop_subset)
    ultimately show ?thesis by auto
  qed
  with Cons.IH [OF rest] push(1,3) Cons.prems show ?case by auto
qed simp

section \<open>The loops are runs of the chain\<close>

lemma message_step_iff:
  "message_step X c = Inr (k, d) \<longleftrightarrow>
     (\<exists>s. ratchet_signal_message_chain X c = Inr s \<and> k = mcs_message_keys s \<and> d = mcs_next_chain_key s)"
  by (auto simp: message_step_def and_then_eq_Ok)

lemma message_keys_loop_run:
  "message_keys_loop X sk rk c i = Inr (k, sk', d) \<Longrightarrow> mck_counter c \<le> i \<Longrightarrow>
     \<exists>ks. message_chain.run X (Suc (unat i - unat (mck_counter c))) c = Inr (ks @ [k], d) \<and>
       push_entries sk (stored_entries rk (mck_counter c) ks) = Inr sk'"
proof (induction X sk rk c i rule: message_keys_loop.induct)
  case (1 X sk rk c i)
  from "1.prems"(1) obtain s where s: "ratchet_signal_message_chain X c = Inr s"
    by (subst (asm) message_keys_loop.simps) (auto simp: and_then_eq_Ok)
  note st = ratchet_message_step [OF s]
  have step: "message_step X c = Inr (mcs_message_keys s, mcs_next_chain_key s)"
    using s by (simp add: message_step_def)
  show ?case
  proof (cases "mcs_message_counter s = i")
    case True
    then have "k = mcs_message_keys s" "sk' = sk" "d = mcs_next_chain_key s"
      using "1.prems"(1) s by (subst (asm) message_keys_loop.simps, simp)+
    then show ?thesis using True st step by (auto intro: exI [of _ "[]"])
  next
    case False
    let ?e = "\<lparr>sk_ratchet_key = rk, sk_counter = mcs_message_counter s,
      sk_message_keys = mcs_message_keys s\<rparr>"
    from "1.prems"(1) s False obtain sk1 where
      p: "push_signal_provider_stored_message_key sk ?e = Inr sk1"
      and rest: "message_keys_loop X sk1 rk (mcs_next_chain_key s) i = Inr (k, sk', d)"
      by (subst (asm) message_keys_loop.simps) (auto simp: and_then_eq_Ok)
    have le: "mck_counter (mcs_next_chain_key s) \<le> i"
      and n: "unat i - unat (mck_counter c) = Suc (unat i - unat (mck_counter (mcs_next_chain_key s)))"
      using u32_less_Suc [OF "1.prems"(2)] False st by auto
    obtain ks where "message_chain.run X (Suc (unat i - unat (mck_counter (mcs_next_chain_key s))))
        (mcs_next_chain_key s) = Inr (ks @ [k], d)"
      "push_entries sk1 (stored_entries rk (mck_counter (mcs_next_chain_key s)) ks) = Inr sk'"
      using "1.IH" [OF s False p rest le] by blast
    then show ?thesis using p st
      by (intro exI [of _ "mcs_message_keys s # ks"]) (simp add: n step)
  qed
qed

text \<open>The other direction: the run exists, so does the result of the loop.\<close>

lemma message_keys_loop_total:
  "message_chain.run X (Suc n) c = Inr (ks @ [k], d) \<Longrightarrow> i = mck_counter c + word_of_nat n \<Longrightarrow>
     push_entries sk (stored_entries rk (mck_counter c) ks) = Inr sk' \<Longrightarrow>
     message_keys_loop X sk rk c i = Inr (k, sk', d)"
proof (induction n arbitrary: c ks sk)
  case 0
  then have ks: "ks = []" using message_chain.run_index [OF "0.prems"(1)] by simp
  with 0 obtain s where s: "ratchet_signal_message_chain X c = Inr s"
    "k = mcs_message_keys s" "d = mcs_next_chain_key s"
    by (auto simp: and_then_eq_Ok message_step_iff)
  then show ?case using 0 ks ratchet_message_step [OF s(1)]
    by (subst message_keys_loop.simps) simp
next
  case (Suc n)
  from Suc.prems(1) obtain s rest where s: "ratchet_signal_message_chain X c = Inr s"
    and run: "message_chain.run X (Suc n) (mcs_next_chain_key s) = Inr (rest, d)"
    and ks: "ks @ [k] = mcs_message_keys s # rest"
    by (auto simp: and_then_eq_Ok message_step_iff simp del: message_chain.run.simps(2)
        simp: message_chain.run.simps(2) [of X "Suc n" c])
  have "length rest = Suc n" using message_chain.run_index [OF run] by simp
  then obtain ks' where rest: "rest = ks' @ [k]" and ks': "ks = mcs_message_keys s # ks'"
    using ks by (cases ks) auto
  note st = ratchet_message_step [OF s]
  have bound: "unat (mck_counter c) + Suc (Suc n) < 4294967296"
    using message_chain.run_index [OF Suc.prems(1)] unat_u32_less [of "mck_counter d"] by simp
  have ne: "mck_counter c \<noteq> i"
  proof
    assume "mck_counter c = i"
    then have "(word_of_nat (Suc n) :: u32) = 0" using Suc.prems(2) by simp
    then have "unat (word_of_nat (Suc n) :: u32) = 0" by simp
    then show False using bound unat_of_nat_u32 [of "Suc n"] by simp
  qed
  from Suc.prems(3) ks' st obtain sk1 where
    p: "push_signal_provider_stored_message_key sk \<lparr>sk_ratchet_key = rk,
      sk_counter = mcs_message_counter s, sk_message_keys = mcs_message_keys s\<rparr> = Inr sk1"
    and ps: "push_entries sk1 (stored_entries rk (mck_counter (mcs_next_chain_key s)) ks') = Inr sk'"
    by (auto simp: and_then_eq_Ok)
  have "i = mck_counter (mcs_next_chain_key s) + word_of_nat n"
    using Suc.prems(2) st by (simp add: ac_simps)
  then have "message_keys_loop X sk1 rk (mcs_next_chain_key s) i = Inr (k, sk', d)"
    using Suc.IH [OF run [unfolded rest] _ ps] by blast
  then show ?case using s p ne st by (subst message_keys_loop.simps) simp
qed

lemma skip_loop_run:
  "skip_loop X sk rk c i = Inr (sk', d) \<Longrightarrow> mck_counter c \<le> i \<Longrightarrow>
     \<exists>ks. message_chain.run X (Suc (unat i - unat (mck_counter c))) c = Inr (ks, d) \<and>
       push_entries sk (stored_entries rk (mck_counter c) ks) = Inr sk'"
proof (induction X sk rk c i rule: skip_loop.induct)
  case (1 X sk rk c i)
  from "1.prems" obtain s sk1 where s: "ratchet_signal_message_chain X c = Inr s"
    and p: "push_signal_provider_stored_message_key sk \<lparr>sk_ratchet_key = rk,
      sk_counter = mcs_message_counter s, sk_message_keys = mcs_message_keys s\<rparr> = Inr sk1"
    and rest: "skip_loop X sk1 rk (mcs_next_chain_key s) i = Inr (sk', d)"
    by (subst (asm) skip_loop.simps) (auto simp: and_then_eq_Ok)
  note st = ratchet_message_step [OF s]
  have step: "message_step X c = Inr (mcs_message_keys s, mcs_next_chain_key s)"
    using s by (simp add: message_step_def)
  show ?case
  proof (cases "mck_counter c = i")
    case True
    then have "\<not> mck_counter (mcs_next_chain_key s) \<le> i"
      using st unat_Suc_u32 [of "mck_counter c"] by (simp add: word_le_nat_alt)
    then have "sk' = sk1" "d = mcs_next_chain_key s"
      using rest by (subst (asm) skip_loop.simps, simp)+
    then show ?thesis using True st step p by (auto intro!: exI [of _ "[mcs_message_keys s]"])
  next
    case False
    have le: "mck_counter (mcs_next_chain_key s) \<le> i"
      and n: "unat i - unat (mck_counter c) = Suc (unat i - unat (mck_counter (mcs_next_chain_key s)))"
      using u32_less_Suc [OF "1.prems"(2) False] st by auto
    obtain ks where "message_chain.run X (Suc (unat i - unat (mck_counter (mcs_next_chain_key s))))
        (mcs_next_chain_key s) = Inr (ks, d)"
      "push_entries sk1 (stored_entries rk (mck_counter (mcs_next_chain_key s)) ks) = Inr sk'"
      using "1.IH" [OF "1.prems"(2) s p rest le] by blast
    then show ?thesis using p st
      by (intro exI [of _ "mcs_message_keys s # ks"]) (simp add: n step)
  qed
qed

text \<open>Every key of a run is well formed, so every entry can be stored.\<close>

lemma run_keys_ok:
  "ext_ok X \<Longrightarrow> message_chain.run X n c = Inr (ks, d) \<Longrightarrow> \<forall>k\<in>set ks. message_keys_ok k"
proof (induction n arbitrary: c ks)
  case (Suc n)
  then show ?case
    by (auto simp: and_then_eq_Ok message_step_iff dest: ratchet_message_lengths)
qed simp

lemma stored_entries_ok:
  "\<forall>k\<in>set ks. message_keys_ok k \<Longrightarrow> key_normal rk \<Longrightarrow> \<forall>e\<in>set (stored_entries rk i ks). stored_key_ok e"
  by (auto simp: set_stored_entries stored_key_ok_def)

lemma run_length_key:
  assumes "ext_ok X" "message_chain.run X (Suc n) c = Inr (ks, d)"
  shows "length (mck_key d) = 32"
proof -
  from assms(2) obtain s where "ratchet_signal_message_chain X c = Inr s"
    by (auto simp: and_then_eq_Ok message_step_iff)
  then have "message_good X c"
    using ratchet_message_lengths(1) [OF assms(1)] assms(1) by (simp add: message_good_def)
  then show ?thesis using message_chain.run_good [OF _ assms(2)] by (simp add: message_good_def)
qed

section \<open>Decryption on the current chain\<close>

text \<open>A frame that carries plaintext \<open>p\<close> under the message keys \<open>k\<close>.\<close>

definition frame_for ::
  "ext \<Rightarrow> SignalMessageKeyMaterial \<Rightarrow> bytes \<Rightarrow> u32 \<Rightarrow> bytes \<Rightarrow> bytes \<Rightarrow> bytes \<Rightarrow>
     SignalWhisperMessageFrame \<Rightarrow> bool" where
  "frame_for X k rk i p s t f \<longleftrightarrow>
     normalize_signal_public_key (wm_ephemeral_key (wf_message f)) = Inr rk \<and>
     wm_counter (wf_message f) = i \<and>
     signal_whisper_message_mac X (mkm_mac_key k) s t (wf_serialized f) = Inr (wf_mac f) \<and>
     decrypt_signal_message_body X (wm_ciphertext (wf_message f)) k = Inr p"

lemma frame_verifies:
  "frame_for X k rk i p s t f \<Longrightarrow>
     verify_signal_whisper_message_frame X f (mkm_mac_key k) s t = Inr ()"
  by (simp add: frame_for_def verify_frame_iff)

lemma decrypt_stored:
  assumes "record_ok X r"
    and "find_signal_provider_stored_message_key_index (sr_message_keys r) rk i = Some n"
    and "frame_for X (sk_message_keys (sr_message_keys r ! n)) rk i p s t f"
  shows "decrypt_signal_provider_session_record_ciphertext X r f s t =
    Inr (p, r\<lparr>sr_message_keys := take n (sr_message_keys r) @ drop (Suc n) (sr_message_keys r)\<rparr>)"
  using assms(2,3) frame_verifies [OF assms(3)] record_ok_validates [OF assms(1)]
  by (simp add: decrypt_signal_provider_session_record_ciphertext_def frame_for_def Let_def)

lemma decrypt_current:
  assumes "record_ok X r" "sr_remote_ratchet_key r = Some rk" "sr_receiving_chain r = Some c"
    and "find_signal_provider_stored_message_key_index (sr_message_keys r) rk i = None"
    and "signal_message_keys_for_counter X (sr_message_keys r) rk c i = Inr (k, sk', d)"
    and "frame_for X k rk i p s t f"
  shows "decrypt_signal_provider_session_record_ciphertext X r f s t =
    Inr (p, r\<lparr>sr_message_keys := sk', sr_receiving_chain := Some d\<rparr>)"
  using assms(2-6) frame_verifies [OF assms(6)] record_ok_validates [OF assms(1)]
  by (simp add: decrypt_signal_provider_session_record_ciphertext_def frame_for_def Let_def)

text \<open>What the keys of a counter are, and that drawing them keeps the record well formed.\<close>

lemma keys_for_counter_run:
  assumes "signal_message_keys_for_counter X sk rk c i = Inr (k, sk', d)"
  shows "mck_counter c \<le> i" "unat i - unat (mck_counter c) \<le> 25000"
    "\<exists>ks. message_chain.run X (Suc (unat i - unat (mck_counter c))) c = Inr (ks @ [k], d) \<and>
       push_entries sk (stored_entries rk (mck_counter c) ks) = Inr sk'"
proof -
  have le: "mck_counter c \<le> i" and "\<not> i - mck_counter c > 25000"
    and loop: "message_keys_loop X sk rk c i = Inr (k, sk', d)"
    using assms by (auto simp: signal_message_keys_for_counter_def Let_def not_less split: if_splits)
  then show "mck_counter c \<le> i" "unat i - unat (mck_counter c) \<le> 25000"
    by (simp_all add: word_less_nat_alt unat_sub)
  show "\<exists>ks. message_chain.run X (Suc (unat i - unat (mck_counter c))) c = Inr (ks @ [k], d) \<and>
       push_entries sk (stored_entries rk (mck_counter c) ks) = Inr sk'"
    by (rule message_keys_loop_run [OF loop le])
qed

lemma record_ok_current:
  assumes X: "ext_ok X" and r: "record_ok X r"
    and rk: "sr_remote_ratchet_key r = Some rk" and c: "sr_receiving_chain r = Some c"
    and keys: "signal_message_keys_for_counter X (sr_message_keys r) rk c i = Inr (k, sk', d)"
  shows "record_ok X (r\<lparr>sr_message_keys := sk', sr_receiving_chain := Some d\<rparr>)"
proof -
  obtain ks where run: "message_chain.run X (Suc (unat i - unat (mck_counter c))) c = Inr (ks @ [k], d)"
    and push: "push_entries (sr_message_keys r) (stored_entries rk (mck_counter c) ks) = Inr sk'"
    using keys_for_counter_run(3) [OF keys] by blast
  have len: "length ks = unat i - unat (mck_counter c)"
    and cd: "unat (mck_counter d) = unat (mck_counter c) + Suc (unat i - unat (mck_counter c))"
    using message_chain.run_index [OF run] by auto
  have d: "length (mck_key d) = 32" by (rule run_length_key [OF X run])
  have n: "record_normal r" "distinct (map skip_id (sr_message_keys r))"
    "length (sr_message_keys r) \<le> 2000" "key_normal rk"
    and old: "\<forall>e\<in>set (sr_message_keys r). stored_key_ok e \<and> below_active r e \<and> key_normal (sk_ratchet_key e)"
    using r rk unfolding record_ok_def record_normal_def by blast+
  note inv = push_entries_inv [OF push n(2,3)]
  have new: "stored_key_ok e \<and> key_normal (sk_ratchet_key e) \<and>
      (sk_ratchet_key e = rk \<longrightarrow> sk_counter e < mck_counter d)" if "e \<in> set sk'" for e
  proof (cases "e \<in> set (sr_message_keys r)")
    case True
    then show ?thesis using old c rk cd
      by (fastforce simp: below_active_def word_less_nat_alt)
  next
    case False
    then have e: "e \<in> set (stored_entries rk (mck_counter c) ks)" using inv that by auto
    then obtain j where "j < length ks" "sk_counter e = mck_counter c + word_of_nat j"
      "sk_ratchet_key e = rk"
      by (auto simp: set_stored_entries)
    moreover from this have "unat (mck_counter c + word_of_nat j) = unat (mck_counter c) + j"
      using cd len unat_u32_less [of "mck_counter d"] by (intro word_add_nat) simp
    ultimately show ?thesis using e inv n(4) cd len by (auto simp: word_less_nat_alt)
  qed
  show ?thesis
    using r rk c d inv new unfolding record_ok_def
    by (auto simp: record_normal_def below_active_def)
qed

lemma skip_id_split:
  "distinct (map skip_id (xs @ e # ys)) \<Longrightarrow> distinct (map skip_id (xs @ ys)) \<and>
     skip_id ` set (xs @ ys) = skip_id ` set (xs @ e # ys) - {skip_id e}"
  by auto

lemma skip_id_remove:
  assumes "distinct (map skip_id es)" "n < length es"
  shows "distinct (map skip_id (take n es @ drop (Suc n) es)) \<and>
    skip_id ` set (take n es @ drop (Suc n) es) = skip_id ` set es - {skip_id (es ! n)}"
  using skip_id_split [of "take n es" "es ! n" "drop (Suc n) es"] assms
  by (simp add: id_take_nth_drop [OF assms(2), symmetric])

lemma record_ok_keys:
  assumes "record_ok X r" "length es \<le> 2000" "distinct (map skip_id es)"
    and "set es \<subseteq> set (sr_message_keys r)"
  shows "record_ok X (r\<lparr>sr_message_keys := es\<rparr>)"
proof -
  have "\<forall>e\<in>set es. key_normal (sk_ratchet_key e) \<and> stored_key_ok e \<and> below_active r e"
    and "sr_remote_ratchet_key r = None \<Longrightarrow> es = []"
    using assms unfolding record_ok_def record_normal_def by auto
  then show ?thesis
    using assms(1-3) by (simp add: record_ok_def record_normal_def below_active_def)
qed

lemma record_ok_stored:
  assumes "record_ok X r" "n < length (sr_message_keys r)"
  shows "record_ok X (r\<lparr>sr_message_keys := take n (sr_message_keys r) @ drop (Suc n) (sr_message_keys r)\<rparr>)"
proof (rule record_ok_keys [OF assms(1)])
  have r: "distinct (map skip_id (sr_message_keys r))" "length (sr_message_keys r) \<le> 2000"
    using assms(1) unfolding record_ok_def by blast+
  show "length (take n (sr_message_keys r) @ drop (Suc n) (sr_message_keys r)) \<le> 2000"
    using assms(2) r(2) by simp
  show "distinct (map skip_id (take n (sr_message_keys r) @ drop (Suc n) (sr_message_keys r)))"
    using skip_id_remove [OF r(1) assms(2)] by blast
qed (auto dest: in_set_takeD in_set_dropD)

end
