(* ===== verification/Delivery.thy ===== *)
theory Delivery
  imports Prelude
begin

text \<open>
  The contract a receiver of numbered messages keeps, whatever its keys are: it has a key for a set
  of message numbers, each usable once. Delivery in any order follows from the contract; the
  one-to-one sessions and the group sessions both meet it.
\<close>

text \<open>Receiving a list of messages, one after the other.\<close>

fun recv_all :: "('r \<Rightarrow> 'm \<Rightarrow> 'e + ('p \<times> 'r)) \<Rightarrow> 'r \<Rightarrow> 'm list \<Rightarrow> 'e + ('p list \<times> 'r)" where
  "recv_all recv r [] = Ok ([], r)"
| "recv_all recv r (m # ms) =
     and_then (recv r m) (\<lambda>(p, r). and_then (recv_all recv r ms) (\<lambda>(ps, r). Ok (p # ps, r)))"

text \<open>
  \<open>awaits c P r\<close>: the receiver \<open>r\<close> still takes the messages numbered \<open>P\<close> of the chain \<open>c\<close>;
  \<open>carries c i m p\<close>: \<open>m\<close> is message \<open>i\<close> of the chain and its plaintext is \<open>p\<close>.
\<close>

locale delivery =
  fixes recv :: "'r \<Rightarrow> 'm \<Rightarrow> 'e + ('p \<times> 'r)"
    and awaits :: "'c \<Rightarrow> nat set \<Rightarrow> 'r \<Rightarrow> bool"
    and carries :: "'c \<Rightarrow> nat \<Rightarrow> 'm \<Rightarrow> 'p \<Rightarrow> bool"
    and refused :: "'e \<Rightarrow> bool"
  assumes recv_pending: "awaits c P r \<Longrightarrow> i \<in> P \<Longrightarrow> carries c i m p \<Longrightarrow>
      \<exists>r'. recv r m = Inr (p, r') \<and> awaits c (P - {i}) r'"
    and recv_used: "awaits c P r \<Longrightarrow> i \<notin> P \<Longrightarrow> carries c i m p \<Longrightarrow>
      \<exists>e. recv r m = Inl e \<and> refused e"
begin

lemma recv_all_order:
  "awaits c P r \<Longrightarrow> distinct order \<Longrightarrow> set order \<subseteq> P \<Longrightarrow>
     \<forall>i\<in>set order. carries c i (ms ! i) (ps ! i) \<Longrightarrow>
     \<exists>r'. recv_all recv r (map ((!) ms) order) = Inr (map ((!) ps) order, r') \<and>
       awaits c (P - set order) r'"
proof (induction order arbitrary: r P)
  case (Cons i order)
  then obtain r1 where r1: "recv r (ms ! i) = Inr (ps ! i, r1)" "awaits c (P - {i}) r1"
    using recv_pending [of c P r i "ms ! i" "ps ! i"] by auto
  obtain r' where "recv_all recv r1 (map ((!) ms) order) = Inr (map ((!) ps) order, r')"
    "awaits c (P - {i} - set order) r'"
    using Cons.IH [OF r1(2)] Cons.prems by auto
  moreover have "P - {i} - set order = P - set (i # order)" by auto
  ultimately show ?case using r1(1) by auto
qed auto

lemma deliver_once:
  assumes "awaits c P r" "distinct order" "set order \<subseteq> P"
    and "\<forall>i\<in>set order. carries c i (ms ! i) (ps ! i)"
  shows "\<exists>r'. recv_all recv r (map ((!) ms) order) = Inr (map ((!) ps) order, r') \<and>
    (\<forall>i\<in>set order. \<exists>e. recv r' (ms ! i) = Inl e \<and> refused e)"
  using recv_all_order [OF assms] recv_used assms(4) by blast

end

end
