(* ===== verification/SignalOrder.thy ===== *)
theory SignalOrder
  imports SignalDelivery Delivery
begin

text \<open>
  Delivery in any order for the sessions of \<^verbatim>\<open>crates/wa-core/src/signal.rs\<close>. The abstract view of
  a receiving record is the set of message indices of a sending chain that it can still decrypt;
  decryption of a message removes its index and leaves the others.
\<close>

section \<open>The messages a receiver can still decrypt\<close>

text \<open>
  The sending chain starts at \<open>c0\<close> and yields the message keys \<open>ks\<close>; \<open>pending\<close> are the indices the
  record \<open>r\<close> has a key for: those it has skipped and stored, and those its chain has not reached.
\<close>

definition stored_at :: "SignalProviderSessionRecord \<Rightarrow> bytes \<Rightarrow> u32 \<Rightarrow> bool" where
  "stored_at r rk i \<longleftrightarrow> (rk, i) \<in> skip_id ` set (sr_message_keys r)"

definition chain_run ::
  "ext \<Rightarrow> SignalMessageChainKey \<Rightarrow> SignalMessageKeyMaterial list \<Rightarrow> bool" where
  "chain_run X c0 ks \<longleftrightarrow> ext_ok X \<and> (\<exists>d. message_chain.run X (length ks) c0 = Inr (ks, d))"

definition receiving_at ::
  "ext \<Rightarrow> SignalMessageChainKey \<Rightarrow> SignalMessageKeyMaterial list \<Rightarrow> bytes \<Rightarrow> nat \<Rightarrow> nat set \<Rightarrow>
     SignalProviderSessionRecord \<Rightarrow> bool" where
  "receiving_at X c0 ks rk m pending r \<longleftrightarrow>
     record_ok X r \<and> sr_remote_ratchet_key r = Some rk \<and> m \<le> length ks \<and>
     (\<exists>c. message_chain.run X m c0 = Inr (take m ks, c) \<and> sr_receiving_chain r = Some c) \<and>
     (\<forall>e\<in>set (sr_message_keys r). \<forall>i<m. skip_id e = (rk, mck_counter c0 + word_of_nat i) \<longrightarrow>
        sk_message_keys e = ks ! i) \<and>
     length (sr_message_keys r) + (length ks - m) \<le> 2000 \<and>
     pending = {i. i < m \<and> stored_at r rk (mck_counter c0 + word_of_nat i)} \<union> {m..<length ks}"

definition receiving ::
  "ext \<Rightarrow> SignalMessageChainKey \<Rightarrow> SignalMessageKeyMaterial list \<Rightarrow> bytes \<Rightarrow> nat set \<Rightarrow>
     SignalProviderSessionRecord \<Rightarrow> bool" where
  "receiving X c0 ks rk pending r \<longleftrightarrow> (\<exists>m. receiving_at X c0 ks rk m pending r)"

lemma receiving_atI:
  assumes "record_ok X r" "sr_remote_ratchet_key r = Some rk" "m \<le> length ks"
    and "\<exists>c. message_chain.run X m c0 = Inr (take m ks, c) \<and> sr_receiving_chain r = Some c"
    and "\<forall>e\<in>set (sr_message_keys r). \<forall>i<m. skip_id e = (rk, mck_counter c0 + word_of_nat i) \<longrightarrow>
      sk_message_keys e = ks ! i"
    and "length (sr_message_keys r) + (length ks - m) \<le> 2000"
    and "pending = {i. i < m \<and> stored_at r rk (mck_counter c0 + word_of_nat i)} \<union> {m..<length ks}"
  shows "receiving_at X c0 ks rk m pending r"
  unfolding receiving_at_def using assms by blast

lemma chain_counter:
  assumes "chain_run X c0 ks" "i \<le> length ks"
  shows "unat (mck_counter c0 + word_of_nat i) = unat (mck_counter c0) + i"
  using assms message_chain.run_counter unfolding chain_run_def by blast

lemma chain_counter_inject:
  assumes "chain_run X c0 ks" "i \<le> length ks" "j \<le> length ks"
  shows "mck_counter c0 + word_of_nat i = mck_counter c0 + word_of_nat j \<longleftrightarrow> i = j"
  using assms message_chain.run_counter_inject unfolding chain_run_def by blast

text \<open>Taking a stored key.\<close>

lemma receive_stored:
  assumes run: "chain_run X c0 ks" and rec: "receiving_at X c0 ks rk m pending r"
    and i: "i < m" "i \<in> pending"
    and f: "frame_for X (ks ! i) rk (mck_counter c0 + word_of_nat i) p s t f"
  shows "\<exists>r'. decrypt_signal_provider_session_record_ciphertext X r f s t = Inr (p, r') \<and>
    receiving_at X c0 ks rk m (pending - {i}) r'"
proof -
  let ?i = "mck_counter c0 + word_of_nat i"
  have r: "record_ok X r" and m: "m \<le> length ks"
    and pend: "pending = {i. i < m \<and> stored_at r rk (mck_counter c0 + word_of_nat i)} \<union> {m..<length ks}"
    using rec unfolding receiving_at_def by blast+
  have "stored_at r rk ?i" using i pend by auto
  then obtain n where find:
    "find_signal_provider_stored_message_key_index (sr_message_keys r) rk ?i = Some n"
    by (cases "find_signal_provider_stored_message_key_index (sr_message_keys r) rk ?i")
      (auto simp: find_None_iff stored_at_def)
  note n = find_SomeD [OF find]
  have "sk_message_keys (sr_message_keys r ! n) = ks ! i"
    using rec n i(1) nth_mem unfolding receiving_at_def by blast
  then have dec: "decrypt_signal_provider_session_record_ciphertext X r f s t =
      Inr (p, r\<lparr>sr_message_keys := take n (sr_message_keys r) @ drop (Suc n) (sr_message_keys r)\<rparr>)"
    using decrypt_stored [OF r find] f by simp
  let ?r = "r\<lparr>sr_message_keys := take n (sr_message_keys r) @ drop (Suc n) (sr_message_keys r)\<rparr>"
  have ok: "record_ok X ?r" using record_ok_stored [OF r] n by blast
  have "distinct (map skip_id (sr_message_keys r))" using r unfolding record_ok_def by blast
  then have ids: "skip_id ` set (sr_message_keys ?r) = skip_id ` set (sr_message_keys r) - {(rk, ?i)}"
    using skip_id_remove [of "sr_message_keys r" n] n by simp
  have at: "stored_at ?r rk (mck_counter c0 + word_of_nat j) \<longleftrightarrow>
      stored_at r rk (mck_counter c0 + word_of_nat j) \<and> j \<noteq> i" if "j < m" for j
    using that i(1) m chain_counter_inject [OF run, of j i] unfolding stored_at_def ids by auto
  have sub: "set (sr_message_keys ?r) \<subseteq> set (sr_message_keys r)"
    by (auto dest: in_set_takeD in_set_dropD)
  have "receiving_at X c0 ks rk m (pending - {i}) ?r"
  proof (rule receiving_atI [OF ok])
    show "pending - {i} =
        {j. j < m \<and> stored_at ?r rk (mck_counter c0 + word_of_nat j)} \<union> {m..<length ks}"
      using at pend i(1) by auto
    have "length (sr_message_keys r) + (length ks - m) \<le> 2000"
      using rec unfolding receiving_at_def by blast
    then show "length (sr_message_keys ?r) + (length ks - m) \<le> 2000" using n by simp
    show "\<forall>e\<in>set (sr_message_keys ?r). \<forall>j<m. skip_id e = (rk, mck_counter c0 + word_of_nat j) \<longrightarrow>
        sk_message_keys e = ks ! j"
      using rec sub unfolding receiving_at_def by blast
  qed (use rec m in \<open>simp_all add: receiving_at_def\<close>)
  with dec show ?thesis by blast
qed

text \<open>Advancing the chain, storing the keys it passes.\<close>

lemma receive_ahead:
  assumes run: "chain_run X c0 ks" and rec: "receiving_at X c0 ks rk m pending r"
    and i: "m \<le> i" "i < length ks"
    and f: "frame_for X (ks ! i) rk (mck_counter c0 + word_of_nat i) p s t f"
  shows "\<exists>r'. decrypt_signal_provider_session_record_ciphertext X r f s t = Inr (p, r') \<and>
    receiving_at X c0 ks rk (Suc i) (pending - {i}) r'"
proof -
  let ?i = "mck_counter c0 + word_of_nat i" and ?sk = "sr_message_keys r"
  let ?new = "take (i - m) (drop m ks)"
  have X: "ext_ok X" using run by (simp add: chain_run_def)
  have r: "record_ok X r" and rk: "sr_remote_ratchet_key r = Some rk"
    and len: "length ?sk + (length ks - m) \<le> 2000"
    and pend: "pending = {i. i < m \<and> stored_at r rk (mck_counter c0 + word_of_nat i)} \<union> {m..<length ks}"
    using rec unfolding receiving_at_def by blast+
  obtain c where c: "message_chain.run X m c0 = Inr (take m ks, c)" "sr_receiving_chain r = Some c"
    using rec by (auto simp: receiving_at_def)
  have cm: "mck_counter c = mck_counter c0 + word_of_nat m"
    using message_chain.run_index [OF c(1)] chain_counter [OF run, of m] i by (simp add: word_unat_eq_iff)
  obtain d0 where all: "message_chain.run X (length ks) c0 = Inr (ks, d0)"
    using run by (auto simp: chain_run_def)
  obtain d where d: "message_chain.run X (Suc i) c0 = Inr (take (Suc i) ks, d)"
    using message_chain.run_prefix [OF all, of "Suc i"] i by auto
  have "message_chain.run X (Suc i - m) c = Inr (drop m (take (Suc i) ks), d)"
    using message_chain.run_prefix [OF d, of m] i c(1) by (auto simp: min_absorb1)
  moreover have "drop m (take (Suc i) ks) = ?new @ [ks ! i]"
    using i by (simp add: take_Suc_conv_app_nth drop_take)
  ultimately have part: "message_chain.run X (Suc (i - m)) c = Inr (?new @ [ks ! i], d)"
    using i by (simp add: Suc_diff_le del: message_chain.run.simps)
  have icm: "?i = mck_counter c + word_of_nat (i - m)"
    using i by (simp add: cm of_nat_diff)
  have below: "sk_counter e < mck_counter c" if "e \<in> set ?sk" "sk_ratchet_key e = rk" for e
    using r that rk c(2) unfolding record_ok_def below_active_def by blast
  have ent: "e \<in> set (stored_entries rk (mck_counter c) ?new) \<Longrightarrow>
      \<exists>j. m \<le> j \<and> j < i \<and> e = \<lparr>sk_ratchet_key = rk,
        sk_counter = mck_counter c0 + word_of_nat j, sk_message_keys = ks ! j\<rparr>" for e
  proof -
    assume "e \<in> set (stored_entries rk (mck_counter c) ?new)"
    then obtain j where "j < i - m" "e = \<lparr>sk_ratchet_key = rk,
        sk_counter = mck_counter c + word_of_nat j, sk_message_keys = ks ! (m + j)\<rparr>"
      using i by (auto simp: set_stored_entries)
    then show ?thesis using i by (intro exI [of _ "m + j"]) (simp add: cm ac_simps)
  qed
  have ent': "m \<le> j \<Longrightarrow> j < i \<Longrightarrow> \<lparr>sk_ratchet_key = rk,
        sk_counter = mck_counter c0 + word_of_nat j, sk_message_keys = ks ! j\<rparr> \<in>
      set (stored_entries rk (mck_counter c) ?new)" for j
    unfolding set_stored_entries using i
    by (intro exI [of _ "j - m"]) (simp add: cm of_nat_diff min_absorb2)
  have ctr: "unat (mck_counter c0 + word_of_nat j) = unat (mck_counter c0) + j" if "j \<le> length ks" for j
    using chain_counter [OF run that] .
  have inj: "(word_of_nat a :: u32) = word_of_nat b \<longleftrightarrow> a = b"
    if "a \<le> length ks" "b \<le> length ks" for a b
    using chain_counter_inject [OF run that] by simp
  have keys_ok: "\<forall>e\<in>set (stored_entries rk (mck_counter c) ?new). stored_key_ok e"
  proof (rule stored_entries_ok)
    show "\<forall>k\<in>set ?new. message_keys_ok k" using run_keys_ok [OF X part] by simp
    show "key_normal rk" using r rk unfolding record_ok_def record_normal_def by blast
  qed
  have sk: "distinct (map skip_id ?sk)" "length ?sk \<le> 2000" using r unfolding record_ok_def by blast+
  have new_distinct: "distinct (map skip_id (stored_entries rk (mck_counter c) ?new))"
    unfolding distinct_conv_nth using i inj by (auto simp: nth_stored_entries skip_id_def)
  have disjoint: "skip_id ` set ?sk \<inter> skip_id ` set (stored_entries rk (mck_counter c) ?new) = {}"
  proof -
    have False if e: "e \<in> set ?sk" and e': "e' \<in> set (stored_entries rk (mck_counter c) ?new)"
      and eq: "skip_id e = skip_id e'" for e e'
    proof -
      obtain j where j: "m \<le> j" "j < i" "skip_id e' = (rk, mck_counter c0 + word_of_nat j)"
        using ent [OF e'] by (auto simp: skip_id_def)
      then have "sk_counter e < mck_counter c" "sk_counter e = mck_counter c0 + word_of_nat j"
        using below [OF e] eq by (auto simp: skip_id_def)
      then show False using j i ctr [of j] ctr [of m] cm by (simp add: word_less_nat_alt)
    qed
    then show ?thesis by blast
  qed
  have push: "push_entries ?sk (stored_entries rk (mck_counter c) ?new) =
      Inr (?sk @ stored_entries rk (mck_counter c) ?new)"
    using keys_ok sk(1) new_distinct disjoint len i by (intro push_entries_fresh) auto
  have le: "mck_counter c \<le> ?i" using ctr [of i] ctr [of m] i cm by (simp add: word_le_nat_alt)
  have "unat (?i - mck_counter c) = i - m"
    using len i unat_of_nat_u32 [of "i - m"] unfolding icm by simp
  then have "\<not> ?i - mck_counter c > 25000" using len i by (simp add: word_less_nat_alt)
  then have draw: "signal_message_keys_for_counter X ?sk rk c ?i =
      Inr (ks ! i, ?sk @ stored_entries rk (mck_counter c) ?new, d)"
    using le message_keys_loop_total [OF part icm push]
    by (simp add: signal_message_keys_for_counter_def Let_def not_less)
  have none: "find_signal_provider_stored_message_key_index ?sk rk ?i = None"
    unfolding find_None_iff using below le by (force simp: skip_id_def)
  have old: "\<not> m \<le> j" if "e \<in> set ?sk" "skip_id e = (rk, mck_counter c0 + word_of_nat j)" "j \<le> i" for e j
    using below [OF that(1)] that(2,3) i cm ctr [of m] ctr [of j]
    by (auto simp: skip_id_def word_less_nat_alt)
  have passed: "\<exists>j'. m \<le> j' \<and> j' < i \<and> j' = j \<and> sk_message_keys e = ks ! j"
    if e: "e \<in> set (stored_entries rk (mck_counter c) ?new)"
      and id: "skip_id e = (rk, mck_counter c0 + word_of_nat j)" "j \<le> i" for e j
  proof -
    obtain j' where j': "m \<le> j'" "j' < i" "e = \<lparr>sk_ratchet_key = rk,
        sk_counter = mck_counter c0 + word_of_nat j', sk_message_keys = ks ! j'\<rparr>"
      using ent [OF e] by blast
    then have "j' = j" using id i inj [of j' j] by (simp add: skip_id_def)
    with j' show ?thesis by simp
  qed
  let ?r = "r\<lparr>sr_message_keys := ?sk @ stored_entries rk (mck_counter c) ?new,
    sr_receiving_chain := Some d\<rparr>"
  have dec: "decrypt_signal_provider_session_record_ciphertext X r f s t = Inr (p, ?r)"
    by (rule decrypt_current [OF r rk c(2) none draw f])
  have "receiving_at X c0 ks rk (Suc i) (pending - {i}) ?r"
  proof (rule receiving_atI)
    show "record_ok X ?r" by (rule record_ok_current [OF X r rk c(2) draw])
    show "\<exists>c. message_chain.run X (Suc i) c0 = Inr (take (Suc i) ks, c) \<and> sr_receiving_chain ?r = Some c"
      using d by simp
    show "\<forall>e\<in>set (sr_message_keys ?r). \<forall>j<Suc i. skip_id e = (rk, mck_counter c0 + word_of_nat j) \<longrightarrow>
        sk_message_keys e = ks ! j"
    proof (intro ballI allI impI)
      fix e j
      assume "e \<in> set (sr_message_keys ?r)" and j: "j < Suc i"
        "skip_id e = (rk, mck_counter c0 + word_of_nat j)"
      then consider "e \<in> set ?sk" | "e \<in> set (stored_entries rk (mck_counter c) ?new)" by auto
      then show "sk_message_keys e = ks ! j"
      proof cases
        case 1
        then have "j < m" using old [OF 1 j(2)] j(1) by simp
        then show ?thesis using rec 1 j(2) unfolding receiving_at_def by blast
      next
        case 2
        then show ?thesis using passed [OF 2 j(2)] j(1) by auto
      qed
    qed
    show "length (sr_message_keys ?r) + (length ks - Suc i) \<le> 2000" using len i by simp
    show "pending - {i} = {j. j < Suc i \<and> stored_at ?r rk (mck_counter c0 + word_of_nat j)} \<union>
        {Suc i..<length ks}"
    proof -
      have "stored_at ?r rk (mck_counter c0 + word_of_nat j) \<longleftrightarrow>
          (if j < m then stored_at r rk (mck_counter c0 + word_of_nat j) else j \<noteq> i)" if j: "j < Suc i" for j
      proof (cases "j < m")
        case True
        then show ?thesis using passed [of _ j] j by (force simp: stored_at_def)
      next
        case False
        have "stored_at ?r rk (mck_counter c0 + word_of_nat j)" if "j < i"
          using ent' [of j] that False by (force simp: stored_at_def skip_id_def)
        moreover have "\<not> stored_at ?r rk (mck_counter c0 + word_of_nat i)"
          using old [of _ i] passed [of _ i] i by (force simp: stored_at_def)
        ultimately show ?thesis using False j by (auto simp: less_Suc_eq)
      qed
      then show ?thesis using pend i by auto
    qed
  qed (use rk i in simp_all)
  with dec show ?thesis by blast
qed

lemma receive_pending:
  assumes "chain_run X c0 ks" "receiving X c0 ks rk pending r" "i \<in> pending"
    and "frame_for X (ks ! i) rk (mck_counter c0 + word_of_nat i) p s t f"
  shows "\<exists>r'. decrypt_signal_provider_session_record_ciphertext X r f s t = Inr (p, r') \<and>
    receiving X c0 ks rk (pending - {i}) r'"
proof -
  obtain m where m: "receiving_at X c0 ks rk m pending r" using assms(2) by (auto simp: receiving_def)
  then have i: "i < m \<or> m \<le> i \<and> i < length ks"
    using assms(3) unfolding receiving_at_def by auto
  show ?thesis
  proof (cases "i < m")
    case True
    then show ?thesis using receive_stored [OF assms(1) m True assms(3,4)] by (auto simp: receiving_def)
  next
    case False
    then show ?thesis using receive_ahead [OF assms(1) m _ _ assms(4)] i by (auto simp: receiving_def)
  qed
qed

text \<open>A message whose index is no longer pending is refused before its MAC is even looked at.\<close>

lemma receive_again:
  assumes run: "chain_run X c0 ks" and rec: "receiving X c0 ks rk pending r"
    and i: "i < length ks" "i \<notin> pending"
    and f: "normalize_signal_public_key (wm_ephemeral_key (wf_message f)) = Inr rk"
      "wm_counter (wf_message f) = mck_counter c0 + word_of_nat i"
  shows "\<exists>e. decrypt_signal_provider_session_record_ciphertext X r f s t =
    Err (Protocol (''duplicate or old Signal message counter: '' @ e))"
proof -
  obtain m where m: "receiving_at X c0 ks rk m pending r" using rec by (auto simp: receiving_def)
  then have r: "record_ok X r" "sr_remote_ratchet_key r = Some rk" and le: "m \<le> length ks"
    and pend: "pending = {i. i < m \<and> stored_at r rk (mck_counter c0 + word_of_nat i)} \<union> {m..<length ks}"
    unfolding receiving_at_def by blast+
  obtain c where c: "message_chain.run X m c0 = Inr (take m ks, c)" "sr_receiving_chain r = Some c"
    using m by (auto simp: receiving_at_def)
  have "i < m" "\<not> stored_at r rk (mck_counter c0 + word_of_nat i)" using i pend by auto
  moreover have "mck_counter c = mck_counter c0 + word_of_nat m"
    using message_chain.run_index [OF c(1)] chain_counter [OF run le] by (simp add: word_unat_eq_iff)
  ultimately have "mck_counter c0 + word_of_nat i < mck_counter c"
    using chain_counter [OF run le] chain_counter [OF run, of i] i by (simp add: word_less_nat_alt)
  moreover have "find_signal_provider_stored_message_key_index (sr_message_keys r) rk
      (mck_counter c0 + word_of_nat i) = None"
    using \<open>\<not> stored_at r rk _\<close> by (simp add: find_None_iff stored_at_def)
  ultimately show ?thesis
    using record_ok_validates [OF r(1)] r(2) c(2) f
    by (simp add: decrypt_signal_provider_session_record_ciphertext_def Let_def
        signal_message_keys_for_counter_def)
qed

section \<open>The sender\<close>

text \<open>Sending and receiving a list of messages, one after the other, on the decoded records.\<close>

fun encrypt_all ::
  "ext \<Rightarrow> bytes \<Rightarrow> SignalProviderSessionRecord \<Rightarrow> bytes list \<Rightarrow> bytes \<Rightarrow> bytes \<Rightarrow>
     (bytes list \<times> SignalProviderSessionRecord) core_result" where
  "encrypt_all X rnd r [] s t = Ok ([], r)"
| "encrypt_all X rnd r (p # ps) s t =
     and_then (encrypt_signal_provider_session_record_plaintext X rnd r p s t) (\<lambda>(_, bs, r).
     and_then (encrypt_all X rnd r ps s t) (\<lambda>(bss, r). Ok (bs # bss, r)))"

definition decrypt_one ::
  "ext \<Rightarrow> SignalProviderSessionRecord \<Rightarrow> bytes \<Rightarrow> bytes \<Rightarrow> bytes \<Rightarrow>
     (bytes \<times> SignalProviderSessionRecord) core_result" where
  "decrypt_one X r bs s t =
     and_then (split_signal_whisper_message_frame X bs) (\<lambda>f.
     decrypt_signal_provider_session_record_ciphertext X r f s t)"

fun decrypt_all ::
  "ext \<Rightarrow> SignalProviderSessionRecord \<Rightarrow> bytes list \<Rightarrow> bytes \<Rightarrow> bytes \<Rightarrow>
     (bytes list \<times> SignalProviderSessionRecord) core_result" where
  "decrypt_all X r [] s t = Ok ([], r)"
| "decrypt_all X r (bs # bss) s t =
     and_then (decrypt_one X r bs s t) (\<lambda>(p, r).
     and_then (decrypt_all X r bss s t) (\<lambda>(ps, r). Ok (p # ps, r)))"

definition sending_key :: "SignalProviderSessionRecord \<Rightarrow> bytes" where
  "sending_key r = prefixed_signal_public_key (kp_public (sr_local_ratchet_key_pair r))"

definition can_send :: "ext \<Rightarrow> SignalProviderSessionRecord \<Rightarrow> bool" where
  "can_send X r \<longleftrightarrow> record_ok X r \<and> \<not> is_uninitialized_signal_message_chain (sr_sending_chain r)"

lemma sending_key_normal: "record_ok X r \<Longrightarrow> key_normal (sending_key r)"
  unfolding sending_key_def record_ok_def by (simp add: key_normal_def)

text \<open>One message: its frame, and the record after it.\<close>

lemma encrypt_step:
  assumes X: "ext_ok X" and r: "can_send X r" and ctr: "mck_counter (sr_sending_chain r) \<noteq> - 1"
    and ids: "normalize_signal_public_key s = Inr s'" "normalize_signal_public_key t = Inr t'"
  shows "\<exists>m bs st f. ratchet_signal_message_chain X (sr_sending_chain r) = Inr st \<and>
    encrypt_signal_provider_session_record_plaintext X rnd r p s t =
      Inr (m, bs, r\<lparr>sr_sending_chain := mcs_next_chain_key st\<rparr>) \<and>
    can_send X (r\<lparr>sr_sending_chain := mcs_next_chain_key st\<rparr>) \<and>
    split_signal_whisper_message_frame X bs = Inr f \<and> wf_message f = m \<and> to_framed_bytes f = bs \<and>
    encode_signal_whisper_message X m (mkm_mac_key (mcs_message_keys st)) s t = Inr bs \<and>
    wm_previous_counter m = sr_previous_counter r \<and>
    frame_for X (mcs_message_keys st) (sending_key r) (mck_counter (sr_sending_chain r)) p s t f"
proof -
  have ok: "record_ok X r" using r by (simp add: can_send_def)
  have len: "length (mck_key (sr_sending_chain r)) = 32" using ok unfolding record_ok_def by blast
  obtain st where st: "ratchet_signal_message_chain X (sr_sending_chain r) = Inr st"
    "message_keys_ok (mcs_message_keys st)" "length (mck_key (mcs_next_chain_key st)) = 32"
    by (rule ratchet_message_total [OF X len ctr])
  note step = ratchet_message_step [OF st(1)]
  obtain c where c: "encrypt_signal_message_body X p (mcs_message_keys st) = Inr c" "c \<noteq> []"
    "decrypt_signal_message_body X c (mcs_message_keys st) = Inr p"
    using message_body_roundtrip [OF X st(2)] by blast
  let ?m = "\<lparr>wm_ephemeral_key = sending_key r, wm_counter = mcs_message_counter st,
    wm_previous_counter = sr_previous_counter r, wm_ciphertext = c\<rparr>"
  have v: "validate_signal_whisper_message ?m = Inr ?m"
    using c(2) sending_key_normal [OF ok] by (simp add: validate_whisper_Ok)
  obtain bs where bs: "encode_signal_whisper_message X ?m (mkm_mac_key (mcs_message_keys st)) s t = Inr bs"
    using encode_whisper_total [OF X ids v] by blast
  obtain f where f: "split_signal_whisper_message_frame X bs = Inr f" "to_framed_bytes f = bs"
    "wf_message f = ?m"
    "signal_whisper_message_mac X (mkm_mac_key (mcs_message_keys st)) s t (wf_serialized f) = Inr (wf_mac f)"
    using split_encoded [OF X bs] v by auto
  have "encrypt_signal_provider_session_record_plaintext X rnd r p s t =
      Inr (?m, bs, r\<lparr>sr_sending_chain := mcs_next_chain_key st\<rparr>)"
    using r st(1) c(1) bs record_ok_validates [OF ok]
    by (simp add: encrypt_signal_provider_session_record_plaintext_def can_send_def
        ensure_signal_provider_sending_chain_def Let_def sending_key_def)
  moreover have "can_send X (r\<lparr>sr_sending_chain := mcs_next_chain_key st\<rparr>)"
  proof -
    have "mck_counter (mcs_next_chain_key st) \<noteq> 0"
      using step unat_Suc_u32 [OF ctr] by (metis Zero_not_Suc unsigned_0)
    then show ?thesis using ok st(3)
      by (simp add: can_send_def is_uninitialized_signal_message_chain_def record_ok_def
          record_normal_def below_active_def)
  qed
  moreover have "frame_for X (mcs_message_keys st) (sending_key r)
      (mck_counter (sr_sending_chain r)) p s t f"
    using f(3,4) c(3) step sending_key_normal [OF ok] by (simp add: frame_for_def)
  ultimately show ?thesis using st(1) bs f(1-3) by auto
qed

lemma encrypt_all_frames:
  assumes "ext_ok X" "can_send X r"
    and "unat (mck_counter (sr_sending_chain r)) + length ps < 4294967296"
    and "normalize_signal_public_key s = Inr s'" "normalize_signal_public_key t = Inr t'"
  shows "\<exists>bss ks c. encrypt_all X rnd r ps s t = Inr (bss, r\<lparr>sr_sending_chain := c\<rparr>) \<and>
    length bss = length ps \<and> length ks = length ps \<and> can_send X (r\<lparr>sr_sending_chain := c\<rparr>) \<and>
    message_chain.run X (length ps) (sr_sending_chain r) = Inr (ks, c) \<and>
    (\<forall>i<length ps. \<exists>f. split_signal_whisper_message_frame X (bss ! i) = Inr f \<and>
       frame_for X (ks ! i) (sending_key r) (mck_counter (sr_sending_chain r) + word_of_nat i)
         (ps ! i) s t f)"
  using assms(2,3)
proof (induction ps arbitrary: r)
  case Nil
  then show ?case by (intro exI [of _ "[]"] exI [of _ "sr_sending_chain r"]) simp
next
  case (Cons p ps)
  have ctr: "mck_counter (sr_sending_chain r) \<noteq> - 1" using Cons.prems(2) by (auto simp: u32_max_iff)
  obtain m bs st f where st: "ratchet_signal_message_chain X (sr_sending_chain r) = Inr st"
    "encrypt_signal_provider_session_record_plaintext X rnd r p s t =
       Inr (m, bs, r\<lparr>sr_sending_chain := mcs_next_chain_key st\<rparr>)"
    "can_send X (r\<lparr>sr_sending_chain := mcs_next_chain_key st\<rparr>)"
    "split_signal_whisper_message_frame X bs = Inr f"
    "frame_for X (mcs_message_keys st) (sending_key r) (mck_counter (sr_sending_chain r)) p s t f"
    using encrypt_step [OF assms(1) Cons.prems(1) ctr assms(4,5)] by blast
  let ?r = "r\<lparr>sr_sending_chain := mcs_next_chain_key st\<rparr>"
  have step: "message_step X (sr_sending_chain r) = Inr (mcs_message_keys st, mcs_next_chain_key st)"
    using st(1) by (simp add: message_step_def)
  have key: "sending_key ?r = sending_key r" by (simp add: sending_key_def)
  have next_ctr: "mck_counter (mcs_next_chain_key st) = mck_counter (sr_sending_chain r) + 1"
    using ratchet_message_step [OF st(1)] by simp
  have "unat (mck_counter (sr_sending_chain ?r)) + length ps < 4294967296"
    using Cons.prems(2) next_ctr unat_Suc_u32 [OF ctr] by simp
  from Cons.IH [OF st(3) this] obtain bss ks c where
    ih: "encrypt_all X rnd ?r ps s t = Inr (bss, ?r\<lparr>sr_sending_chain := c\<rparr>)"
    "length bss = length ps" "length ks = length ps" "can_send X (?r\<lparr>sr_sending_chain := c\<rparr>)"
    "message_chain.run X (length ps) (sr_sending_chain ?r) = Inr (ks, c)"
    "\<forall>i<length ps. \<exists>f. split_signal_whisper_message_frame X (bss ! i) = Inr f \<and>
       frame_for X (ks ! i) (sending_key ?r) (mck_counter (sr_sending_chain ?r) + word_of_nat i)
         (ps ! i) s t f"
    by blast
  have "\<exists>f. split_signal_whisper_message_frame X ((bs # bss) ! i) = Inr f \<and>
      frame_for X ((mcs_message_keys st # ks) ! i) (sending_key r)
        (mck_counter (sr_sending_chain r) + word_of_nat i) ((p # ps) ! i) s t f"
    if "i < length (p # ps)" for i
    using that ih(6) st(4,5) key next_ctr by (cases i) (auto simp: ac_simps)
  then show ?case using ih st(2) step
    by (intro exI [of _ "bs # bss"] exI [of _ "mcs_message_keys st # ks"] exI [of _ c]) simp
qed

section \<open>Any order, each message once\<close>

text \<open>The receiving record follows the sending chain of the other side.\<close>

definition in_step :: "ext \<Rightarrow> SignalProviderSessionRecord \<Rightarrow> SignalProviderSessionRecord \<Rightarrow> bool" where
  "in_step X sender receiver \<longleftrightarrow> can_send X sender \<and> record_ok X receiver \<and>
     sr_remote_ratchet_key receiver = Some (sending_key sender) \<and>
     sr_receiving_chain receiver = Some (sr_sending_chain sender)"

lemma in_step_receiving:
  assumes "in_step X sender receiver" "length (sr_message_keys receiver) + length ks \<le> 2000"
  shows "receiving X (sr_sending_chain sender) ks (sending_key sender) {..<length ks} receiver"
proof -
  have "receiving_at X (sr_sending_chain sender) ks (sending_key sender) 0 {..<length ks} receiver"
    by (rule receiving_atI) (use assms in \<open>auto simp: in_step_def\<close>)
  then show ?thesis by (auto simp: receiving_def)
qed

text \<open>The receiving record meets the contract \<open>delivery\<close>.\<close>

type_synonym sending_stream = "SignalMessageChainKey \<times> SignalMessageKeyMaterial list \<times> bytes"

fun session_awaits :: "ext \<Rightarrow> sending_stream \<Rightarrow> nat set \<Rightarrow> SignalProviderSessionRecord \<Rightarrow> bool" where
  "session_awaits X (c0, ks, rk) pending r \<longleftrightarrow> chain_run X c0 ks \<and> receiving X c0 ks rk pending r"

fun session_message ::
  "ext \<Rightarrow> bytes \<Rightarrow> bytes \<Rightarrow> sending_stream \<Rightarrow> nat \<Rightarrow> bytes \<Rightarrow> bytes \<Rightarrow> bool" where
  "session_message X s t (c0, ks, rk) i bs p \<longleftrightarrow> i < length ks \<and>
     (\<exists>f. split_signal_whisper_message_frame X bs = Inr f \<and>
       frame_for X (ks ! i) rk (mck_counter c0 + word_of_nat i) p s t f)"

definition old_counter :: "CoreError \<Rightarrow> bool" where
  "old_counter e \<longleftrightarrow> (\<exists>t. e = Protocol (''duplicate or old Signal message counter: '' @ t))"

interpretation session: delivery "\<lambda>r bs. decrypt_one X r bs s t" "session_awaits X" "session_message X s t"
    old_counter for X s t
proof unfold_locales
  fix c :: sending_stream and P :: "nat set" and r i m p
  obtain c0 ks rk where c: "c = (c0, ks, rk)" by (cases c)
  assume "session_awaits X c P r" "session_message X s t c i m p"
  then have run: "chain_run X c0 ks" and rec: "receiving X c0 ks rk P r" and i: "i < length ks"
    and "\<exists>f. split_signal_whisper_message_frame X m = Inr f \<and>
      frame_for X (ks ! i) rk (mck_counter c0 + word_of_nat i) p s t f"
    by (simp_all add: c)
  then obtain f where f: "split_signal_whisper_message_frame X m = Inr f"
    "frame_for X (ks ! i) rk (mck_counter c0 + word_of_nat i) p s t f"
    by blast
  show "i \<in> P \<Longrightarrow> \<exists>r'. decrypt_one X r m s t = Inr (p, r') \<and> session_awaits X c (P - {i}) r'"
    using receive_pending [OF run rec _ f(2)] f(1) run by (auto simp: c decrypt_one_def)
  have "normalize_signal_public_key (wm_ephemeral_key (wf_message f)) = Inr rk"
    "wm_counter (wf_message f) = mck_counter c0 + word_of_nat i"
    using f(2) by (simp_all add: frame_for_def)
  note again = receive_again [OF run rec i _ this]
  show "i \<notin> P \<Longrightarrow> \<exists>e. decrypt_one X r m s t = Inl e \<and> old_counter e"
    using again f(1) unfolding decrypt_one_def old_counter_def by fastforce
qed

lemma decrypt_all_recv: "decrypt_all X r bss s t = recv_all (\<lambda>r bs. decrypt_one X r bs s t) r bss"
  by (induction bss arbitrary: r) simp_all

text \<open>
  C13: delivery in any order, exactly once. A sender encrypts any list of messages on its current
  chain; the receiver that is in step with it gets any of them, in any order, each decrypted to its
  plaintext, as long as the skipped keys it may have to store fit the limit of 2000; and every
  message delivered is refused as a duplicate when it comes again.
\<close>

theorem any_order_delivery:
  assumes "ext_ok X" "in_step X sender receiver"
    and "unat (mck_counter (sr_sending_chain sender)) + length ps < 4294967296"
    and "length (sr_message_keys receiver) + length ps \<le> 2000"
    and "normalize_signal_public_key s = Inr s'" "normalize_signal_public_key t = Inr t'"
    and "distinct order" "set order \<subseteq> {..<length ps}"
  shows "\<exists>bss sender' receiver'. encrypt_all X rnd sender ps s t = Inr (bss, sender') \<and> length bss = length ps \<and>
    decrypt_all X receiver (map ((!) bss) order) s t = Inr (map ((!) ps) order, receiver') \<and>
    (\<forall>i\<in>set order. \<exists>e. decrypt_one X receiver' (bss ! i) s t =
       Err (Protocol (''duplicate or old Signal message counter: '' @ e)))"
proof -
  have sender: "can_send X sender" using assms(2) by (simp add: in_step_def)
  obtain bss ks c where enc: "encrypt_all X rnd sender ps s t = Inr (bss, sender\<lparr>sr_sending_chain := c\<rparr>)"
    "length bss = length ps" "length ks = length ps"
    "message_chain.run X (length ps) (sr_sending_chain sender) = Inr (ks, c)"
    "\<forall>i<length ps. \<exists>f. split_signal_whisper_message_frame X (bss ! i) = Inr f \<and>
       frame_for X (ks ! i) (sending_key sender) (mck_counter (sr_sending_chain sender) + word_of_nat i)
         (ps ! i) s t f"
    using encrypt_all_frames [OF assms(1) sender assms(3,5,6)] by blast
  have run: "chain_run X (sr_sending_chain sender) ks"
    using assms(1) enc(3,4) by (simp add: chain_run_def)
  let ?c = "(sr_sending_chain sender, ks, sending_key sender)"
  have "receiving X (sr_sending_chain sender) ks (sending_key sender) {..<length ks} receiver"
    using in_step_receiving [OF assms(2), of ks] assms(4) enc(3) by simp
  then have awaits: "session_awaits X ?c {..<length ks} receiver" using run by simp
  have msgs: "\<forall>i\<in>set order. session_message X s t ?c i (bss ! i) (ps ! i)"
    using enc(3,5) assms(8) by auto
  obtain receiver' where "decrypt_all X receiver (map ((!) bss) order) s t = Inr (map ((!) ps) order, receiver')"
    "\<forall>i\<in>set order. \<exists>e. decrypt_one X receiver' (bss ! i) s t = Inl e \<and> old_counter e"
    using session.deliver_once [OF awaits assms(7) _ msgs] assms(8) enc(3)
    by (auto simp: decrypt_all_recv)
  then show ?thesis using enc(1,2) unfolding old_counter_def by blast
qed

definition sample_receiver :: SignalProviderSessionRecord where
  "sample_receiver = sample_record\<lparr>
     sr_remote_ratchet_key := Some (sending_key sample_record),
     sr_receiving_chain := Some (sr_sending_chain sample_record),
     sr_message_keys := []\<rparr>"

lemma sample_in_step: "in_step toy sample_record sample_receiver"
proof -
  have "key_normal (sending_key sample_record)" by (rule sending_key_normal [OF sample_record_ok])
  then have "record_ok toy sample_receiver"
    using sample_record_ok
    by (simp add: sample_receiver_def record_ok_def record_normal_def below_active_def)
  moreover have "can_send toy sample_record"
    using sample_record_ok
    by (simp add: can_send_def is_uninitialized_signal_message_chain_def sample_record_def list_all_iff)
  ultimately show ?thesis by (simp add: in_step_def sample_receiver_def)
qed

theorem any_order_delivery_witness:
  "\<exists>bss snd' rcv'.
    encrypt_all toy [] sample_record [[1], [2], [3]] (replicate 32 1) (replicate 32 2) = Inr (bss, snd') \<and>
    length bss = 3 \<and>
    decrypt_all toy sample_receiver (map ((!) bss) [2, 0]) (replicate 32 1) (replicate 32 2) =
      Inr ([[3], [1]], rcv')"
proof -
  let ?ps = "[[1], [2], [3]] :: bytes list"
  have fit: "unat (mck_counter (sr_sending_chain sample_record)) + length ?ps < 4294967296"
    "length (sr_message_keys sample_receiver) + length ?ps \<le> 2000"
    and order: "distinct [2 :: nat, 0]" "set [2 :: nat, 0] \<subseteq> {..<length ?ps}"
    by (simp_all add: sample_record_def sample_receiver_def)
  obtain bss snd' rcv' where
    "encrypt_all toy [] sample_record ?ps (replicate 32 1) (replicate 32 2) = Inr (bss, snd')"
    "length bss = length ?ps"
    "decrypt_all toy sample_receiver (map ((!) bss) [2, 0]) (replicate 32 1) (replicate 32 2) =
      Inr (map ((!) ?ps) [2, 0], rcv')"
    using any_order_delivery [OF toy_ok sample_in_step fit sample_key_ok sample_key_ok order] by blast
  moreover have "length ?ps = 3" "map ((!) ?ps) [2, 0] = [[3], [1]]" by simp_all
  ultimately show ?thesis by metis
qed

end
