(* ===== verification/SignalConversation.thy ===== *)
theory SignalConversation
  imports SignalOrder
begin

text \<open>
  The double ratchet of \<^verbatim>\<open>crates/wa-core/src/signal.rs\<close> across both parties: a session that one side
  opens with a pre-key message is in step on the other side, and stays in step when the direction
  of the conversation changes.
\<close>

section \<open>A message under a new ratchet key\<close>

definition finish_old_chain ::
  "ext \<Rightarrow> SignalProviderSessionRecord \<Rightarrow> u32 \<Rightarrow> SignalProviderStoredMessageKey list core_result" where
  "finish_old_chain X r prev =
     (case (sr_remote_ratchet_key r, sr_receiving_chain r) of
        (Some k, Some c) \<Rightarrow> and_then
          (skip_signal_provider_message_keys_until X (sr_message_keys r) k c prev) (\<lambda>(sk, _). Ok sk)
      | _ \<Rightarrow> Ok (sr_message_keys r))"

lemma decrypt_new_ratchet:
  assumes r: "record_ok X r" and new: "sr_remote_ratchet_key r \<noteq> Some rk"
    "\<forall>e\<in>set (sr_message_keys r). sk_ratchet_key e \<noteq> rk"
    and old: "finish_old_chain X r (wm_previous_counter (wf_message f)) = Inr sk"
    and root: "ratchet_signal_root_key X (sr_root_key r) (kp_private (sr_local_ratchet_key_pair r)) rk = Inr step"
    and chain: "ratchet_signal_message_chain X (rrs_chain_key step) = Inr st"
      "mck_counter (rrs_chain_key step) = 0"
    and f: "frame_for X (mcs_message_keys st) rk 0 p s t f"
  shows "decrypt_signal_provider_session_record_ciphertext X r f s t =
    Inr (p, r\<lparr>sr_message_keys := sk,
      sr_previous_counter := saturating_pred (mck_counter (sr_sending_chain r)),
      sr_root_key := rrs_root_key step, sr_receiving_chain := Some (mcs_next_chain_key st),
      sr_remote_ratchet_key := Some rk, sr_sending_chain := uninitialized_signal_message_chain\<rparr>)"
proof -
  have none: "find_signal_provider_stored_message_key_index (sr_message_keys r) rk 0 = None"
    using new(2) by (auto simp: find_None_iff skip_id_def)
  have stored: "filter (\<lambda>k. sk_ratchet_key k = rk) (sr_message_keys r) = []"
    using new(2) by (simp add: filter_empty_conv)
  let ?r1 = "r\<lparr>sr_message_keys := sk,
      sr_previous_counter := saturating_pred (mck_counter (sr_sending_chain r)),
      sr_root_key := rrs_root_key step, sr_receiving_chain := Some (rrs_chain_key step),
      sr_remote_ratchet_key := Some rk, sr_sending_chain := uninitialized_signal_message_chain\<rparr>"
  have recv: "receive_new_ratchet X r (wf_message f) rk = Inr ?r1"
    using old root stored
    by (cases "sr_remote_ratchet_key r"; cases "sr_receiving_chain r")
      (auto simp: receive_new_ratchet_def finish_old_chain_def Let_def and_then_eq_Ok map_err_eq_Ok)
  have "mcs_message_counter st = 0" using ratchet_message_step [OF chain(1)] chain(2) by simp
  then have draw: "signal_message_keys_for_counter X sk rk (rrs_chain_key step) 0 =
      Inr (mcs_message_keys st, sk, mcs_next_chain_key st)"
    using chain by (simp add: signal_message_keys_for_counter_def Let_def message_keys_loop.simps)
  show ?thesis
    using f new(1) none recv draw frame_verifies [OF f] record_ok_validates [OF r]
    by (simp add: decrypt_signal_provider_session_record_ciphertext_def frame_for_def Let_def)
qed

lemma root_step:
  assumes "ext_ok X" "ratchet_signal_root_key X root priv pub = Inr step"
  shows "mck_counter (rrs_chain_key step) = 0" "length (rrs_root_key step) = 32"
    "length (mck_key (rrs_chain_key step)) = 32" "length root = 32"
proof -
  obtain secret where d: "derive_signal_root_chain_keys X root secret = Inr step"
    using assms(2) by (auto simp: ratchet_signal_root_key_def and_then_eq_Ok)
  then show "length root = 32"
    by (auto simp: derive_signal_root_chain_keys_def and_then_eq_Ok root_key_Ok)
  obtain out where "hkdf_sha256 X secret 64 root SIGNAL_ROOT_RATCHET_INFO = Inr out"
    and step: "step = \<lparr>rrs_root_key = take 32 out,
      rrs_chain_key = \<lparr>mck_key = take 32 (drop 32 out), mck_counter = 0\<rparr>\<rparr>"
    using d by (auto simp: derive_signal_root_chain_keys_def and_then_eq_Ok map_err_eq_Ok)
  moreover from this have "length out = 64"
    using hkdf_sha256_total [OF assms(1), of 64 secret root SIGNAL_ROOT_RATCHET_INFO] by auto
  ultimately show "mck_counter (rrs_chain_key step) = 0" "length (rrs_root_key step) = 32"
    "length (mck_key (rrs_chain_key step)) = 32"
    by simp_all
qed

section \<open>Opening a session\<close>

text \<open>
  The sender's record after it opened the session, and the receiver's after its first message.
\<close>

definition opened_sender ::
  "SignalSession \<Rightarrow> KeyPair \<Rightarrow> SignalRootRatchetStep \<Rightarrow> SignalMessageChainKey \<Rightarrow> SignalProviderSessionRecord" where
  "opened_sender session ratchet step chain =
     \<lparr>sr_remote_registration_id = ses_registration_id session,
      sr_remote_identity_key = ses_identity_key session, sr_root_key = rrs_root_key step,
      sr_sending_chain = chain, sr_receiving_chain = None,
      sr_remote_ratchet_key = None, sr_local_ratchet_key_pair = ratchet,
      sr_previous_counter = 0, sr_message_keys = [], sr_inbound_base_key = None\<rparr>"

lemma key_pair_normal:
  "ext_ok X \<Longrightarrow> key_pair_ok X kp \<Longrightarrow> key_normal (prefixed_signal_public_key (kp_public kp))"
  by (simp add: key_normal_def key_pair_public_length)

lemma outbound_parts:
  assumes X: "ext_ok X" and bob: "local_material_ok X bob" and ratchet: "key_pair_ok X ratchet"
    and enc: "encrypt_signal_outbound_pre_key_session_message_with_sending_ratchet X V rnd alice base
      ratchet (published_session bob pre) p = Inr e"
  shows "\<exists>boot step m inner r1. 
    derive_signal_outbound_pre_key_root_chain_keys X alice base (published_session bob pre) = Inr boot \<and>
    ratchet_signal_root_key X (pkb_root_key boot) (kp_private ratchet)
      (ls_public_key (lk_signed_pre_key bob)) = Inr step \<and>
    can_send X (opened_sender (published_session bob pre) ratchet step (rrs_chain_key step)) \<and>
    encrypt_signal_provider_session_record_plaintext X rnd
      (opened_sender (published_session bob pre) ratchet step (rrs_chain_key step)) p
      (li_public_key (lk_identity alice)) (li_public_key (lk_identity bob)) = Inr (m, inner, r1) \<and>
    pe_message e = \<lparr>pm_registration_id = lk_registration_id alice, pm_pre_key_id = map_option lp_key_id pre,
      pm_signed_pre_key_id = ls_key_id (lk_signed_pre_key bob),
      pm_base_key = prefixed_signal_public_key (kp_public base),
      pm_identity_key = li_public_key (lk_identity alice), pm_message = m\<rparr> \<and>
    encode_signal_pre_key_whisper_message_with_inner X (pe_message e) inner = Inr (pe_message_bytes e) \<and>
    encode_signal_provider_session_record X r1 = Inr (pe_record e) \<and>
    pe_used_one_time_pre_key e = pkb_used_one_time_pre_key boot"
proof -
  have n: "key_normal (li_public_key (lk_identity bob))" "key_normal (ls_public_key (lk_signed_pre_key bob))"
    using bob key_pair_normal [OF X] by (auto simp: local_material_ok_def)
  from enc n obtain boot step m inner r1 where
    boot: "derive_signal_outbound_pre_key_root_chain_keys X alice base (published_session bob pre) = Inr boot"
    and step: "ratchet_signal_root_key X (pkb_root_key boot) (kp_private ratchet)
      (ls_public_key (lk_signed_pre_key bob)) = Inr step"
    and plain: "encrypt_signal_provider_session_record_plaintext X rnd
      (opened_sender (published_session bob pre) ratchet step (rrs_chain_key step)) p
      (li_public_key (lk_identity alice)) (li_public_key (lk_identity bob)) = Inr (m, inner, r1)"
    and rest: "pe_message e = \<lparr>pm_registration_id = lk_registration_id alice,
      pm_pre_key_id = map_option lp_key_id pre,
      pm_signed_pre_key_id = ls_key_id (lk_signed_pre_key bob),
      pm_base_key = prefixed_signal_public_key (kp_public base),
      pm_identity_key = li_public_key (lk_identity alice), pm_message = m\<rparr>"
    "encode_signal_pre_key_whisper_message_with_inner X (pe_message e) inner = Inr (pe_message_bytes e)"
    "encode_signal_provider_session_record X r1 = Inr (pe_record e)"
    "pe_used_one_time_pre_key e = pkb_used_one_time_pre_key boot"
    by (auto simp: encrypt_signal_outbound_pre_key_session_message_with_sending_ratchet_def Let_def
        derive_verified_signal_outbound_pre_key_root_chain_keys_def and_then_eq_Ok split_beta
        published_session_def opened_sender_def option.map_comp comp_def)
  let ?r0 = "opened_sender (published_session bob pre) ratchet step (rrs_chain_key step)"
  from plain have v: "validate_signal_provider_session_record X ?r0 = Inr ()"
    and ens: "is_ok (ensure_signal_provider_sending_chain X rnd ?r0)"
    by (auto simp: encrypt_signal_provider_session_record_plaintext_def and_then_eq_Ok)
  have "record_normal ?r0" "length (kp_public (sr_local_ratchet_key_pair ?r0)) = 32"
    using n(1) key_pair_public_length [OF X ratchet]
    by (simp_all add: opened_sender_def record_normal_def published_session_def)
  then have "record_ok X ?r0" using v validate_record_iff by blast
  moreover have "\<not> is_uninitialized_signal_message_chain (sr_sending_chain ?r0)"
    using ens by (auto simp: ensure_signal_provider_sending_chain_def opened_sender_def split: if_splits)
  ultimately have "can_send X ?r0" by (simp add: can_send_def)
  with boot step plain rest show ?thesis by blast
qed

definition opened_receiver ::
  "SignalLocalKeyMaterial \<Rightarrow> SignalPreKeyWhisperMessage \<Rightarrow> bytes \<Rightarrow> SignalProviderSessionRecord" where
  "opened_receiver bob m root =
     \<lparr>sr_remote_registration_id = pm_registration_id m,
      sr_remote_identity_key = pm_identity_key m, sr_root_key = root,
      sr_sending_chain = uninitialized_signal_message_chain, sr_receiving_chain = None,
      sr_remote_ratchet_key = None,
      sr_local_ratchet_key_pair = ls_key_pair (lk_signed_pre_key bob),
      sr_previous_counter = 0, sr_message_keys = [], sr_inbound_base_key = Some (pm_base_key m)\<rparr>"

lemma opened_receiver_ok:
  assumes "ext_ok X" "local_material_ok X bob" "key_normal (pm_identity_key m)" "key_normal (pm_base_key m)"
    and "length root = 32"
  shows "record_ok X (opened_receiver bob m root)"
  using assms key_pair_public_length [OF assms(1), of "ls_key_pair (lk_signed_pre_key bob)"]
  by (simp add: opened_receiver_def record_ok_def record_normal_def local_material_ok_def key_pair_ok_def
      uninitialized_signal_message_chain_def)

lemma inbound_decoded:
  assumes "key_normal (pm_identity_key m)" "key_normal (pm_base_key m)"
    and "pm_pre_key_id m = map_option lp_key_id pre"
    and "pm_signed_pre_key_id m = ls_key_id (lk_signed_pre_key bob)"
    and "derive_signal_inbound_pre_key_root_chain_keys X bob pre (pm_identity_key m) (pm_base_key m) = Inr boot"
    and "decrypt_signal_provider_session_record_ciphertext X
      (opened_receiver bob m (pkb_root_key boot)) f (pm_identity_key m) (li_public_key (lk_identity bob)) =
      Inr (p, r)"
    and "encode_signal_provider_session_record X r = Inr stored"
  shows "decrypt_signal_inbound_pre_key_session_decoded X bob pre m f =
    Inr \<lparr>pd_record = stored, pd_message = m, pd_plaintext = p,
      pd_used_one_time_pre_key = pkb_used_one_time_pre_key boot\<rparr>"
  using assms
  by (cases pre)
    (simp_all add: decrypt_signal_inbound_pre_key_session_decoded_def opened_receiver_def Let_def)

lemma record_ok_new_ratchet:
  assumes "record_ok X r" "key_normal rk" "length root = 32" "length (mck_key c) = 32"
    and "sr_message_keys r = []"
  shows "record_ok X (r\<lparr>sr_message_keys := [], sr_previous_counter := pc, sr_root_key := root,
    sr_receiving_chain := Some c, sr_remote_ratchet_key := Some rk,
    sr_sending_chain := uninitialized_signal_message_chain\<rparr>)"
  using assms
  by (simp add: record_ok_def record_normal_def uninitialized_signal_message_chain_def)

text \<open>The responder's keys never let the agreement degenerate: no shared secret is all zero.\<close>

definition agreement_ok :: "ext \<Rightarrow> KeyPair \<Rightarrow> KeyPair \<Rightarrow> bool" where
  "agreement_ok X a b \<longleftrightarrow> (\<exists>x\<in>set (shared_key X (kp_private a) (kp_public b)). x \<noteq> 0)"

lemma shared_secret_ok:
  assumes "ext_ok X" "key_pair_ok X a" "key_pair_ok X b" "agreement_ok X a b"
  shows "validate_signal_shared_secret (shared_key X (kp_private a) (kp_public b)) = Inr ()"
    "length (shared_key X (kp_private a) (kp_public b)) = 32"
proof -
  have "length (x_diffie_hellman X (kp_private a) (kp_public b)) = 32"
    using assms(1-3) ext_keys(1,2) by (simp add: key_pair_ok_def)
  then show "length (shared_key X (kp_private a) (kp_public b)) = 32" by (simp add: shared_key_def)
  then show "validate_signal_shared_secret (shared_key X (kp_private a) (kp_public b)) = Inr ()"
    using assms(4) by (simp add: shared_secret_Ok agreement_ok_def)
qed

lemma append_agreement_Ok:
  assumes "ext_ok X" "key_pair_ok X a" "key_pair_ok X b" "agreement_ok X a b"
  shows "append_signal_agreement X s (kp_private a) (prefixed_signal_public_key (kp_public b)) =
    Inr (s @ shared_key X (kp_private a) (kp_public b))"
  using assms shared_secret_ok [OF assms] key_pair_public_length [OF assms(1,3)]
  by (simp add: append_signal_agreement_def key_pair_ok_def Let_def)

lemma chunks_append:
  "length xs = 32 \<Longrightarrow> chunks_exact_32 (xs @ ys) = xs # chunks_exact_32 ys"
  by (subst chunks_exact_32.simps) simp

lemma chunks_one: "length xs = 32 \<Longrightarrow> chunks_exact_32 xs = [xs]"
  using chunks_append [of xs "[]"] by (simp add: chunks_exact_32.simps)

lemma pre_key_root_total:
  assumes "ext_ok X" "length s1 = 32" "length s2 = 32" "length s3 = 32"
    and "s4 = [] \<or> length s4 = 32 \<and> validate_signal_shared_secret s4 = Inr ()"
    and "\<forall>s\<in>{s1, s2, s3}. validate_signal_shared_secret s = Inr ()"
  shows "\<exists>step. derive_signal_pre_key_root_chain_keys X
      (SIGNAL_X3DH_DISCONTINUITY @ s1 @ s2 @ s3 @ s4) = Inr step \<and> length (rrs_root_key step) = 32"
proof -
  have "chunks_exact_32 [] = []" by (simp add: chunks_exact_32.simps)
  then have "validate_signal_pre_key_secret_input (SIGNAL_X3DH_DISCONTINUITY @ s1 @ s2 @ s3 @ s4) = Inr ()"
    using assms by (auto simp: validate_signal_pre_key_secret_input_def SIGNAL_X3DH_DISCONTINUITY_def
        chunks_append chunks_one)
  moreover obtain out where "hkdf_sha256 X (SIGNAL_X3DH_DISCONTINUITY @ s1 @ s2 @ s3 @ s4) 64 []
      SIGNAL_PRE_KEY_INFO = Inr out" "length out = 64"
    using hkdf_sha256_total [OF assms(1), of 64] by force
  ultimately show ?thesis by (simp add: derive_signal_pre_key_root_chain_keys_def)
qed

lemma outbound_bootstrap_total:
  assumes X: "ext_ok X" and keys: "local_material_ok X alice" "local_material_ok X bob" "key_pair_ok X base"
      "\<And>k. pre = Some k \<Longrightarrow> local_pre_key_ok X k"
    and agree: "agreement_ok X (li_key_pair (lk_identity alice)) (ls_key_pair (lk_signed_pre_key bob))"
      "agreement_ok X base (li_key_pair (lk_identity bob))"
      "agreement_ok X base (ls_key_pair (lk_signed_pre_key bob))"
      "\<And>k. pre = Some k \<Longrightarrow> agreement_ok X base (lp_key_pair k)"
  shows "\<exists>boot. derive_signal_outbound_pre_key_root_chain_keys X alice base (published_session bob pre) =
    Inr boot \<and> length (pkb_root_key boot) = 32"
proof -
  have k: "key_pair_ok X (li_key_pair (lk_identity alice))" "key_pair_ok X (li_key_pair (lk_identity bob))"
    "key_pair_ok X (ls_key_pair (lk_signed_pre_key bob))"
    "li_public_key (lk_identity bob) = prefixed_signal_public_key (kp_public (li_key_pair (lk_identity bob)))"
    "ls_public_key (lk_signed_pre_key bob) =
      prefixed_signal_public_key (kp_public (ls_key_pair (lk_signed_pre_key bob)))"
    using keys(1,2) by (simp_all add: local_material_ok_def)
  note ap = append_agreement_Ok [OF X k(1) k(3) agree(1)] append_agreement_Ok [OF X keys(3) k(2) agree(2)]
    append_agreement_Ok [OF X keys(3) k(3) agree(3)]
  note ok = shared_secret_ok [OF X k(1) k(3) agree(1)] shared_secret_ok [OF X keys(3) k(2) agree(2)]
    shared_secret_ok [OF X keys(3) k(3) agree(3)]
  show ?thesis
  proof (cases pre)
    case None
    show ?thesis
      using pre_key_root_total [OF X ok(2) ok(4) ok(6), of "[]"] ok(1,3,5)
      by (auto simp: derive_signal_outbound_pre_key_root_chain_keys_def published_session_def None k ap
          signal_pre_key_secret_input_def signal_pre_key_bootstrap_def)
  next
    case (Some p)
    have p: "key_pair_ok X (lp_key_pair p)"
      "lp_public_key p = prefixed_signal_public_key (kp_public (lp_key_pair p))"
      using keys(4) Some by (simp_all add: local_pre_key_ok_def)
    note ap4 = append_agreement_Ok [OF X keys(3) p(1) agree(4) [OF Some]]
    note ok4 = shared_secret_ok [OF X keys(3) p(1) agree(4) [OF Some]]
    show ?thesis
      using pre_key_root_total [OF X ok(2) ok(4) ok(6) disjI2 [OF conjI [OF ok4(2,1)]]] ok(1,3,5)
      by (auto simp: derive_signal_outbound_pre_key_root_chain_keys_def published_session_def Some k ap
          p(2) ap4 signal_pre_key_secret_input_def signal_pre_key_bootstrap_def)
  qed
qed

lemma ratchet_root_total:
  assumes "ext_ok X" "key_pair_ok X a" "key_pair_ok X b" "agreement_ok X a b" "length root = 32"
  shows "\<exists>step. ratchet_signal_root_key X root (kp_private a) (prefixed_signal_public_key (kp_public b)) =
    Inr step"
proof -
  obtain out where "hkdf_sha256 X (shared_key X (kp_private a) (kp_public b)) 64 root
      SIGNAL_ROOT_RATCHET_INFO = Inr out"
    using hkdf_sha256_total [OF assms(1), of 64] by force
  then show ?thesis
    using assms shared_secret_ok [OF assms(1-4)] key_pair_public_length [OF assms(1,3)]
    by (simp add: ratchet_signal_root_key_def derive_signal_root_chain_keys_def key_pair_ok_def
        validate_signal_root_key_def)
qed

text \<open>
  Opening succeeds when the signed pre-key verifies, no agreement degenerates and the first sending
  chain is not the all-zero one the code reads as unset.
\<close>

lemma outbound_total:
  assumes X: "ext_ok X" and alice: "local_material_ok X alice" and bob: "local_material_ok X bob"
    and base: "key_pair_ok X base" and ratchet: "key_pair_ok X ratchet"
    and pre: "\<And>k. pre = Some k \<Longrightarrow> local_pre_key_ok X k"
    and agree: "agreement_ok X (li_key_pair (lk_identity alice)) (ls_key_pair (lk_signed_pre_key bob))"
      "agreement_ok X base (li_key_pair (lk_identity bob))"
      "agreement_ok X base (ls_key_pair (lk_signed_pre_key bob))"
      "\<And>k. pre = Some k \<Longrightarrow> agreement_ok X base (lp_key_pair k)"
      "agreement_ok X ratchet (ls_key_pair (lk_signed_pre_key bob))"
    and chain: "\<And>boot step.
      derive_signal_outbound_pre_key_root_chain_keys X alice base (published_session bob pre) = Inr boot \<Longrightarrow>
      ratchet_signal_root_key X (pkb_root_key boot) (kp_private ratchet)
        (ls_public_key (lk_signed_pre_key bob)) = Inr step \<Longrightarrow>
      \<not> is_uninitialized_signal_message_chain (rrs_chain_key step)"
    and sig: "length (ls_signature (lk_signed_pre_key bob)) = 64"
      "V (kp_public (li_key_pair (lk_identity bob))) (ls_public_key (lk_signed_pre_key bob))
        (ls_signature (lk_signed_pre_key bob))"
  shows "\<exists>e. encrypt_signal_outbound_pre_key_session_message_with_sending_ratchet X V rnd alice base
      ratchet (published_session bob pre) p = Inr e"
proof -
  let ?session = "published_session bob pre" and ?ia = "li_public_key (lk_identity alice)"
    and ?ib = "li_public_key (lk_identity bob)" and ?spk = "ls_public_key (lk_signed_pre_key bob)"
  obtain boot where boot: "derive_signal_outbound_pre_key_root_chain_keys X alice base ?session = Inr boot"
    "length (pkb_root_key boot) = 32"
    using outbound_bootstrap_total [OF X alice bob base pre agree(1-4)] by blast
  have k: "key_pair_ok X (ls_key_pair (lk_signed_pre_key bob))" "key_pair_ok X (li_key_pair (lk_identity bob))"
    "?spk = prefixed_signal_public_key (kp_public (ls_key_pair (lk_signed_pre_key bob)))"
    "?ib = prefixed_signal_public_key (kp_public (li_key_pair (lk_identity bob)))"
    using bob by (simp_all add: local_material_ok_def)
  have n: "key_normal ?ia" "key_normal ?ib" "key_normal ?spk"
    "key_normal (prefixed_signal_public_key (kp_public base))"
    using alice bob base key_pair_normal [OF X] by (auto simp: local_material_ok_def)
  obtain step where step: "ratchet_signal_root_key X (pkb_root_key boot) (kp_private ratchet) ?spk = Inr step"
    using ratchet_root_total [OF X ratchet k(1) agree(5) boot(2)] k(3) by auto
  note rs = root_step [OF X step]
  let ?r = "opened_sender ?session ratchet step (rrs_chain_key step)"
  have "record_ok X ?r"
    using ratchet n(2) rs key_pair_public_length [OF X ratchet]
    by (simp add: opened_sender_def record_ok_def record_normal_def published_session_def key_pair_ok_def)
  then have send: "can_send X ?r" using chain [OF boot(1) step] by (simp add: can_send_def opened_sender_def)
  have ctr: "mck_counter (sr_sending_chain ?r) \<noteq> - 1" using rs(1) by (simp add: opened_sender_def)
  obtain m bs f and st :: SignalMessageChainStep where enc: "encrypt_signal_provider_session_record_plaintext X rnd ?r p ?ia ?ib =
       Inr (m, bs, ?r\<lparr>sr_sending_chain := mcs_next_chain_key st\<rparr>)"
    "can_send X (?r\<lparr>sr_sending_chain := mcs_next_chain_key st\<rparr>)"
    "split_signal_whisper_message_frame X bs = Inr f" "wf_message f = m"
    using encrypt_step [OF X send ctr key_normalize [OF n(1)] key_normalize [OF n(2)], of rnd p]
    by blast
  have m: "validate_signal_whisper_message m = Inr m" using split_frame(4) [OF enc(3)] enc(4) by simp
  have verify: "verify_signal_signed_pre_key V ?session = Inr ()"
    using sig n(3) k(4) key_pair_public_length [OF X k(2)]
    by (simp add: verify_signal_signed_pre_key_def published_session_def)
  have pk: "encode_signal_pre_key_whisper_message_with_inner X
      \<lparr>pm_registration_id = lk_registration_id alice, pm_pre_key_id = map_option lp_key_id pre,
       pm_signed_pre_key_id = ls_key_id (lk_signed_pre_key bob),
       pm_base_key = prefixed_signal_public_key (kp_public base), pm_identity_key = ?ia,
       pm_message = m\<rparr> bs \<noteq> Inl err" for err
    using n m by (simp add: encode_signal_pre_key_whisper_message_with_inner_def
        validate_signal_pre_key_whisper_message_def)
  obtain stored where "encode_signal_provider_session_record X
      (?r\<lparr>sr_sending_chain := mcs_next_chain_key st\<rparr>) = Inr stored"
    using encode_decode_record enc(2) by (auto simp: can_send_def)
  then show ?thesis
    using boot(1) verify step enc(1) n pk
    by (cases "encode_signal_pre_key_whisper_message_with_inner X
      \<lparr>pm_registration_id = lk_registration_id alice, pm_pre_key_id = map_option lp_key_id pre,
       pm_signed_pre_key_id = ls_key_id (lk_signed_pre_key bob),
       pm_base_key = prefixed_signal_public_key (kp_public base), pm_identity_key = ?ia,
       pm_message = m\<rparr> bs")
      (auto simp: encrypt_signal_outbound_pre_key_session_message_with_sending_ratchet_def Let_def
        derive_verified_signal_outbound_pre_key_root_chain_keys_def published_session_def
        opened_sender_def option.map_comp comp_def)
qed

section \<open>The state between two turns\<close>

text \<open>
  \<open>a\<close> is sending and \<open>b\<close> follows its chain; \<open>b\<close> has no sending chain yet, and both hold the root
  key the next ratchet step starts from.
\<close>

definition paired :: "ext \<Rightarrow> SignalProviderSessionRecord \<Rightarrow> SignalProviderSessionRecord \<Rightarrow> bool" where
  "paired X a b \<longleftrightarrow> in_step X a b \<and> sr_root_key a = sr_root_key b \<and>
     is_uninitialized_signal_message_chain (sr_sending_chain b)"

text \<open>
  No message is outstanding: nothing is skipped on either side, the current sender has sent on its
  chain, and has received all of the other side's previous chain.
\<close>

definition talking :: "ext \<Rightarrow> SignalProviderSessionRecord \<Rightarrow> SignalProviderSessionRecord \<Rightarrow> bool" where
  "talking X a b \<longleftrightarrow> paired X a b \<and> mck_counter (sr_sending_chain a) \<noteq> 0 \<and>
     sr_message_keys a = [] \<and> sr_message_keys b = [] \<and>
     (\<forall>c. sr_receiving_chain a = Some c \<longrightarrow> sr_previous_counter b < mck_counter c)"

lemma session_opened:
  assumes X: "ext_ok X"
    and alice: "local_material_ok X alice" and bob: "local_material_ok X bob"
    and base: "key_pair_ok X base" and ratchet: "key_pair_ok X ratchet"
    and pre: "\<And>k. pre = Some k \<Longrightarrow> local_pre_key_ok X k"
    and enc: "encrypt_signal_outbound_pre_key_session_message_with_sending_ratchet X V rnd alice base
      ratchet (published_session bob pre) p = Inr e"
  shows "\<exists>d a b.
    decrypt_signal_inbound_pre_key_session_message X bob pre (pe_message_bytes e) = Inr d \<and>
    pd_plaintext d = p \<and> pd_used_one_time_pre_key d = pe_used_one_time_pre_key e \<and>
    decode_signal_provider_session_record X (pe_record e) = Inr a \<and>
    decode_signal_provider_session_record X (pd_record d) = Inr b \<and>
    talking X a b \<and> mck_counter (sr_sending_chain a) = 1 \<and>
    sr_remote_identity_key a = li_public_key (lk_identity bob) \<and>
    sr_remote_identity_key b = li_public_key (lk_identity alice)"
proof -
  let ?session = "published_session bob pre" and ?ia = "li_public_key (lk_identity alice)"
    and ?ib = "li_public_key (lk_identity bob)"
  obtain boot step m inner r1 where
    boot: "derive_signal_outbound_pre_key_root_chain_keys X alice base ?session = Inr boot"
    and step: "ratchet_signal_root_key X (pkb_root_key boot) (kp_private ratchet)
      (ls_public_key (lk_signed_pre_key bob)) = Inr step"
    and send: "can_send X (opened_sender ?session ratchet step (rrs_chain_key step))"
    and plain: "encrypt_signal_provider_session_record_plaintext X rnd
      (opened_sender ?session ratchet step (rrs_chain_key step)) p ?ia ?ib = Inr (m, inner, r1)"
    and msg: "pe_message e = \<lparr>pm_registration_id = lk_registration_id alice,
      pm_pre_key_id = map_option lp_key_id pre,
      pm_signed_pre_key_id = ls_key_id (lk_signed_pre_key bob),
      pm_base_key = prefixed_signal_public_key (kp_public base), pm_identity_key = ?ia, pm_message = m\<rparr>"
    and outer: "encode_signal_pre_key_whisper_message_with_inner X (pe_message e) inner =
      Inr (pe_message_bytes e)"
    and stored: "encode_signal_provider_session_record X r1 = Inr (pe_record e)"
    and used: "pe_used_one_time_pre_key e = pkb_used_one_time_pre_key boot"
    using outbound_parts [OF X bob ratchet enc] by blast
  have n: "key_normal ?ia" "key_normal ?ib" "key_normal (ls_public_key (lk_signed_pre_key bob))"
    "key_normal (prefixed_signal_public_key (kp_public base))"
    "key_normal (prefixed_signal_public_key (kp_public ratchet))"
    using alice bob base ratchet key_pair_normal [OF X] by (auto simp: local_material_ok_def)
  let ?rk = "prefixed_signal_public_key (kp_public ratchet)"
  let ?afirst = "opened_sender ?session ratchet step (rrs_chain_key step)"
  note rs = root_step [OF X step]
  obtain m' bs st f where enc1: "ratchet_signal_message_chain X (rrs_chain_key step) = Inr st"
    "encrypt_signal_provider_session_record_plaintext X rnd ?afirst p ?ia ?ib =
       Inr (m', bs, ?afirst\<lparr>sr_sending_chain := mcs_next_chain_key st\<rparr>)"
    "can_send X (?afirst\<lparr>sr_sending_chain := mcs_next_chain_key st\<rparr>)"
    "split_signal_whisper_message_frame X bs = Inr f" "wf_message f = m'"
    "encode_signal_whisper_message X m' (mkm_mac_key (mcs_message_keys st)) ?ia ?ib = Inr bs"
    "frame_for X (mcs_message_keys st) (sending_key ?afirst) (mck_counter (rrs_chain_key step)) p ?ia ?ib f"
    using encrypt_step [OF X send, of ?ia ?ia ?ib ?ib rnd p] rs(1) n(1,2)
    by (auto simp: opened_sender_def)
  have m: "m' = m" "bs = inner" "r1 = ?afirst\<lparr>sr_sending_chain := mcs_next_chain_key st\<rparr>"
    using plain enc1(2) by auto
  have a_ok: "record_ok X r1" using enc1(3) m(3) by (simp add: can_send_def)
  have a: "decode_signal_provider_session_record X (pe_record e) = Inr r1"
    using decode_encoded_record [OF a_ok] stored by auto
  have "validate_signal_whisper_message m = Inr m" using split_frame(4) [OF enc1(4)] enc1(5) m(1) by simp
  then have "validate_signal_pre_key_whisper_message (pe_message e) = Inr (pe_message e)"
    using n by (simp add: validate_pre_key_whisper_Ok msg)
  moreover have "encode_signal_whisper_message X (pm_message (pe_message e))
      (mkm_mac_key (mcs_message_keys st)) ?ia ?ib = Inr inner"
    using enc1(6) m by (simp add: msg)
  ultimately have frame: "decode_signal_pre_key_whisper_message_frame X (pe_message_bytes e) =
      Inr (pe_message e, f)"
    using pre_key_frame_roundtrip [OF X _ _ outer] enc1(4) m(2) by fastforce
  text \<open>The responder's side.\<close>
  let ?spk = "ls_key_pair (lk_signed_pre_key bob)"
  let ?bfirst = "opened_receiver bob (pe_message e) (pkb_root_key boot)"
  let ?b = "?bfirst\<lparr>sr_message_keys := [], sr_previous_counter := saturating_pred 0,
      sr_root_key := rrs_root_key step, sr_receiving_chain := Some (mcs_next_chain_key st),
      sr_remote_ratchet_key := Some ?rk, sr_sending_chain := uninitialized_signal_message_chain\<rparr>"
  have spk: "key_pair_ok X ?spk" "ls_public_key (lk_signed_pre_key bob) =
      prefixed_signal_public_key (kp_public ?spk)"
    using bob by (simp_all add: local_material_ok_def)
  have inbound: "derive_signal_inbound_pre_key_root_chain_keys X bob pre (pm_identity_key (pe_message e))
      (pm_base_key (pe_message e)) = Inr boot"
    using x3dh_keys_agree [OF X alice bob base pre] boot by (simp add: msg)
  have b0: "record_ok X ?bfirst"
    by (rule opened_receiver_ok [OF X bob]) (use n rs(4) in \<open>simp_all add: msg\<close>)
  have root: "ratchet_signal_root_key X (sr_root_key ?bfirst) (kp_private (sr_local_ratchet_key_pair ?bfirst)) ?rk =
      Inr step"
    using ratchet_root_commute [OF X ratchet spk(1)] step spk(2) by (simp add: opened_receiver_def)
  have "frame_for X (mcs_message_keys st) ?rk 0 p ?ia ?ib f"
    using enc1(7) rs(1) by (simp add: sending_key_def opened_sender_def)
  then have dec: "decrypt_signal_provider_session_record_ciphertext X ?bfirst f ?ia ?ib = Inr (p, ?b)"
    using decrypt_new_ratchet [OF b0 _ _ _ root enc1(1) rs(1), where sk = "[]" and f = f]
    by (simp add: opened_receiver_def finish_old_chain_def uninitialized_signal_message_chain_def)
  have len: "length (mck_key (mcs_next_chain_key st)) = 32"
    using ratchet_message_lengths(3) [OF X enc1(1)] .
  have b_ok: "record_ok X ?b"
    using record_ok_new_ratchet [OF b0 n(5) rs(2) len] by (simp add: opened_receiver_def)
  obtain bytes where bytes: "encode_signal_provider_session_record X ?b = Inr bytes"
    "decode_signal_provider_session_record X bytes = Inr ?b"
    using encode_decode_record [OF b_ok] by blast
  have "decrypt_signal_inbound_pre_key_session_decoded X bob pre (pe_message e) f =
    Inr \<lparr>pd_record = bytes, pd_message = pe_message e, pd_plaintext = p,
      pd_used_one_time_pre_key = pkb_used_one_time_pre_key boot\<rparr>"
    by (rule inbound_decoded [OF _ _ _ _ inbound _ bytes(1)]) (use n dec in \<open>simp_all add: msg\<close>)
  then have "decrypt_signal_inbound_pre_key_session_message X bob pre (pe_message_bytes e) =
    Inr \<lparr>pd_record = bytes, pd_message = pe_message e, pd_plaintext = p,
      pd_used_one_time_pre_key = pkb_used_one_time_pre_key boot\<rparr>"
    by (simp add: decrypt_signal_inbound_pre_key_session_message_def frame)
  moreover have "in_step X r1 ?b"
    using enc1(3) m(3) b_ok by (simp add: in_step_def sending_key_def opened_sender_def)
  then have "talking X r1 ?b"
    using ratchet_message_step [OF enc1(1)] rs(1) m(3)
    by (simp add: talking_def paired_def opened_sender_def opened_receiver_def
        is_uninitialized_signal_message_chain_def uninitialized_signal_message_chain_def list_all_iff)
  moreover have "mck_counter (mcs_next_chain_key st) = 1"
    using ratchet_message_step [OF enc1(1)] rs(1) by simp
  ultimately show ?thesis using a bytes(2) m(3) used
    by (auto simp: opened_sender_def opened_receiver_def published_session_def msg)
qed

text \<open>
  C11: opening a session end to end. When the initiator encrypts a first message to the bundle the
  responder published, the responder decrypts it from its own keys alone to the same plaintext,
  both agree whether a one-time pre-key was used, and the two stored records are in step: the
  responder follows the initiator's sending chain under its ratchet key, holds the same root key,
  and no message is outstanding on either side.
\<close>

theorem session_establishment:
  assumes X: "ext_ok X"
    and alice: "local_material_ok X alice" and bob: "local_material_ok X bob"
    and base: "key_pair_ok X base" and ratchet: "key_pair_ok X ratchet"
    and pre: "\<And>k. pre = Some k \<Longrightarrow> local_pre_key_ok X k"
    and enc: "encrypt_signal_outbound_pre_key_session_message_with_sending_ratchet X V rnd alice base
      ratchet (published_session bob pre) p = Inr e"
  shows "\<exists>d a b.
    decrypt_signal_inbound_pre_key_session_message X bob pre (pe_message_bytes e) = Inr d \<and>
    pd_plaintext d = p \<and> pd_used_one_time_pre_key d = pe_used_one_time_pre_key e \<and>
    decode_signal_provider_session_record X (pe_record e) = Inr a \<and>
    decode_signal_provider_session_record X (pd_record d) = Inr b \<and>
    talking X a b \<and> mck_counter (sr_sending_chain a) = 1 \<and>
    sr_remote_identity_key a = li_public_key (lk_identity bob) \<and>
    sr_remote_identity_key b = li_public_key (lk_identity alice)"
  using session_opened [OF assms] by blast

lemma replicate_agreement:
  "shared_key toy (kp_private (sample_pair a)) (kp_public (sample_pair b)) = replicate 32 (a + b)"
proof -
  have "map2 (+) (replicate n a) (replicate n b) = replicate n (a + b)" for n by (induction n) simp_all
  then show ?thesis
    by (simp add: shared_key_def toy_def sample_pair_def generate_key_pair_def
        public_key_from_private_def)
qed

lemma sample_agreement: "a + b \<noteq> 0 \<Longrightarrow> agreement_ok toy (sample_pair a) (sample_pair b)"
  by (simp add: agreement_ok_def replicate_agreement)

text \<open>On the sample functions the root key is the discontinuity prefix, and the chain key the root key.\<close>

lemma toy_bootstrap_root:
  assumes "derive_signal_outbound_pre_key_root_chain_keys toy alice base session = Inr boot"
  shows "pkb_root_key boot = replicate 32 255"
proof -
  have root: "rrs_root_key step = replicate 32 255"
    if "derive_signal_pre_key_root_chain_keys toy s = Inr step" for s step
  proof -
    have s: "take 32 s = replicate 32 255" and st: "rrs_root_key step = take 32 (take 64 (s @ z))"
      if "z = SIGNAL_PRE_KEY_INFO @ replicate 64 0" for z
      using \<open>derive_signal_pre_key_root_chain_keys toy s = Inr step\<close> that
      by (auto simp: derive_signal_pre_key_root_chain_keys_def validate_signal_pre_key_secret_input_def
          and_then_eq_Ok map_err_eq_Ok hkdf_sha256_def toy_def SIGNAL_X3DH_DISCONTINUITY_def
          split: if_splits)
    have "length (take 32 s) = 32" unfolding s [OF refl] by simp
    then have "32 \<le> length s" by simp
    then show ?thesis using s [OF refl] st [OF refl] by simp
  qed
  from assms show ?thesis
    by (auto simp: derive_signal_outbound_pre_key_root_chain_keys_def and_then_eq_Ok root
        signal_pre_key_bootstrap_def split: option.splits)
qed

lemma toy_hkdf:
  "n \<le> 8160 \<Longrightarrow> hkdf_sha256 toy ikm n salt info = Inr (take n (ikm @ salt @ info @ replicate n 0))"
  by (simp add: hkdf_sha256_def toy_def)

lemma toy_first_chain:
  assumes "ratchet_signal_root_key toy (replicate 32 255) (kp_private (sample_pair a))
    (prefixed_signal_public_key (kp_public (sample_pair b))) = Inr step"
  shows "\<not> is_uninitialized_signal_message_chain (rrs_chain_key step)"
proof -
  have len: "length (kp_public (sample_pair b)) = 32" "length (kp_private (sample_pair a)) = 32"
    using key_pair_public_length [OF toy_ok sample_pair_ok] sample_pair_ok by (simp_all add: key_pair_ok_def)
  from assms have "derive_signal_root_chain_keys toy (replicate 32 255) (replicate 32 (a + b)) = Inr step"
    by (simp add: ratchet_signal_root_key_def len replicate_agreement and_then_eq_Ok)
  then have "mck_key (rrs_chain_key step) = replicate 32 255"
    by (auto simp: derive_signal_root_chain_keys_def and_then_eq_Ok map_err_eq_Ok toy_hkdf)
  then show ?thesis by (simp add: is_uninitialized_signal_message_chain_def list_all_iff)
qed

lemma sample_outbound:
  "\<exists>e. encrypt_signal_outbound_pre_key_session_message_with_sending_ratchet toy (\<lambda>_ _ _. True) []
      (sample_material 1) (sample_pair 5) (sample_pair 11)
      (published_session (sample_material 9) (Some (sample_pre_key 7))) [1, 2] = Inr e"
proof -
  have pre: "\<And>k. Some (sample_pre_key 7) = Some k \<Longrightarrow> local_pre_key_ok toy k"
    by (simp add: sample_pre_key_ok)
  have sample_fields: "li_key_pair (lk_identity (sample_material b)) = sample_pair b"
    "ls_key_pair (lk_signed_pre_key (sample_material b)) = sample_pair (b + 1)"
    "ls_public_key (lk_signed_pre_key (sample_material b)) =
      prefixed_signal_public_key (kp_public (sample_pair (b + 1)))"
    "ls_signature (lk_signed_pre_key (sample_material b)) = replicate 64 0" for b
    by (simp_all add: sample_material_def)
  have chain: "\<not> is_uninitialized_signal_message_chain (rrs_chain_key step)"
    if "derive_signal_outbound_pre_key_root_chain_keys toy (sample_material 1) (sample_pair 5)
        (published_session (sample_material 9) (Some (sample_pre_key 7))) = Inr boot"
      "ratchet_signal_root_key toy (pkb_root_key boot) (kp_private (sample_pair 11))
        (ls_public_key (lk_signed_pre_key (sample_material 9))) = Inr step" for boot step
    using that(2) toy_first_chain unfolding toy_bootstrap_root [OF that(1)] sample_fields by blast
  show ?thesis
    by (rule outbound_total [OF toy_ok sample_material_ok sample_material_ok sample_pair_ok
        sample_pair_ok pre])
      (use chain in \<open>auto simp: sample_pre_key_def sample_agreement sample_fields\<close>)
qed

lemma sample_pre_keys_ok: "Some (sample_pre_key 7) = Some k \<Longrightarrow> local_pre_key_ok toy k"
  using sample_pre_key_ok by auto

theorem session_establishment_witness:
  "\<exists>e d. encrypt_signal_outbound_pre_key_session_message_with_sending_ratchet toy (\<lambda>_ _ _. True) []
      (sample_material 1) (sample_pair 5) (sample_pair 11)
      (published_session (sample_material 9) (Some (sample_pre_key 7))) [1, 2] = Inr e \<and>
    decrypt_signal_inbound_pre_key_session_message toy (sample_material 9) (Some (sample_pre_key 7))
      (pe_message_bytes e) = Inr d \<and> pd_plaintext d = [1, 2]"
  using sample_outbound session_establishment [OF toy_ok sample_material_ok sample_material_ok
      sample_pair_ok sample_pair_ok sample_pre_keys_ok] by blast

lemma sample_talking: "\<exists>a b. talking toy a b \<and> mck_counter (sr_sending_chain a) = 1"
  using sample_outbound session_opened [OF toy_ok sample_material_ok sample_material_ok
      sample_pair_ok sample_pair_ok sample_pre_keys_ok] by blast

end
