(* ===== verification/SignalTurns.thy ===== *)
theory SignalTurns
  imports SignalConversation
begin

text \<open>
  Turns of a conversation in the sessions of \<^verbatim>\<open>crates/wa-core/src/signal.rs\<close>: when the receiving
  side answers, both sides take a Diffie-Hellman ratchet step, swap roles, and the messages of the
  previous chain that are still on their way stay readable.
\<close>

section \<open>Well-formedness across a turn\<close>

lemma record_key_pair: "record_ok X r \<Longrightarrow> key_pair_ok X (sr_local_ratchet_key_pair r)"
  by (simp add: record_ok_def key_pair_ok_def)

text \<open>What finishing the old chain leaves in the store of skipped keys.\<close>

lemma finish_old_chain_inv:
  assumes X: "ext_ok X" and r: "record_ok X r" and fin: "finish_old_chain X r prev = Inr sk"
  shows "distinct (map skip_id sk)" "length sk \<le> 2000"
    "\<forall>e\<in>set sk. stored_key_ok e \<and> key_normal (sk_ratchet_key e) \<and>
      (e \<in> set (sr_message_keys r) \<or> sr_remote_ratchet_key r = Some (sk_ratchet_key e))"
proof -
  have old: "distinct (map skip_id (sr_message_keys r))" "length (sr_message_keys r) \<le> 2000"
    "\<forall>e\<in>set (sr_message_keys r). stored_key_ok e \<and> key_normal (sk_ratchet_key e)"
    "\<And>k. sr_remote_ratchet_key r = Some k \<Longrightarrow> key_normal k"
    using r unfolding record_ok_def record_normal_def by blast+
  consider "sk = sr_message_keys r"
    | k c d where "sr_remote_ratchet_key r = Some k" "mck_counter c \<le> prev"
      "skip_loop X (sr_message_keys r) k c prev = Inr (sk, d)"
    using fin
    by (auto simp: finish_old_chain_def skip_signal_provider_message_keys_until_def and_then_eq_Ok Let_def
        not_less split: option.splits if_splits)
  then have "distinct (map skip_id sk) \<and> length sk \<le> 2000 \<and>
    (\<forall>e\<in>set sk. stored_key_ok e \<and> key_normal (sk_ratchet_key e) \<and>
      (e \<in> set (sr_message_keys r) \<or> sr_remote_ratchet_key r = Some (sk_ratchet_key e)))"
  proof cases
    case 1
    then show ?thesis using old by simp
  next
    case 2
    then obtain ks where "push_entries (sr_message_keys r) (stored_entries k (mck_counter c) ks) = Inr sk"
      using skip_loop_run by blast
    note inv = push_entries_inv [OF this old(1,2)]
    have "sk_ratchet_key e = k" if "e \<in> set (stored_entries k (mck_counter c) ks)" for e
      using that by (auto simp: set_stored_entries)
    then have "stored_key_ok e \<and> key_normal (sk_ratchet_key e) \<and>
        (e \<in> set (sr_message_keys r) \<or> sr_remote_ratchet_key r = Some (sk_ratchet_key e))"
      if "e \<in> set sk" for e
      using that inv old(3) old(4) [OF 2(1)] 2(1)
      by (cases "e \<in> set (sr_message_keys r)") auto
    then show ?thesis using inv by blast
  qed
  then show "distinct (map skip_id sk)" "length sk \<le> 2000"
    "\<forall>e\<in>set sk. stored_key_ok e \<and> key_normal (sk_ratchet_key e) \<and>
      (e \<in> set (sr_message_keys r) \<or> sr_remote_ratchet_key r = Some (sk_ratchet_key e))"
    by auto
qed

text \<open>The record after a ratchet step on receipt is well formed.\<close>

lemma record_ok_turn:
  assumes X: "ext_ok X" and r: "record_ok X r" and fin: "finish_old_chain X r prev = Inr sk"
    and new: "key_normal rk" "sr_remote_ratchet_key r \<noteq> Some rk"
      "\<forall>e\<in>set (sr_message_keys r). sk_ratchet_key e \<noteq> rk"
    and len: "length root = 32" "length (mck_key c) = 32"
  shows "record_ok X (r\<lparr>sr_message_keys := sk, sr_previous_counter := pc, sr_root_key := root,
    sr_receiving_chain := Some c, sr_remote_ratchet_key := Some rk,
    sr_sending_chain := uninitialized_signal_message_chain\<rparr>)"
proof -
  note inv = finish_old_chain_inv [OF X r fin]
  have "\<forall>e\<in>set sk. sk_ratchet_key e \<noteq> rk" using inv(3) new(2,3) by auto
  then show ?thesis using r inv new(1) len
    by (auto simp: record_ok_def record_normal_def below_active_def uninitialized_signal_message_chain_def)
qed

section \<open>The answer\<close>

text \<open>The answering side opens its sending chain.\<close>

definition answering_record ::
  "ext \<Rightarrow> bytes \<Rightarrow> SignalRootRatchetStep \<Rightarrow> SignalProviderSessionRecord \<Rightarrow> SignalProviderSessionRecord" where
  "answering_record X rnd step b = b\<lparr>sr_root_key := rrs_root_key step,
     sr_sending_chain := rrs_chain_key step, sr_local_ratchet_key_pair := generate_key_pair X rnd\<rparr>"

lemma generate_key_pair_ok: "length rnd = 32 \<Longrightarrow> key_pair_ok X (generate_key_pair X rnd)"
  by (simp add: key_pair_ok_def generate_key_pair_def public_key_from_private_def)

lemma answer_parts:
  assumes X: "ext_ok X" and b: "record_ok X b" "is_uninitialized_signal_message_chain (sr_sending_chain b)"
    and remote: "sr_remote_ratchet_key b = Some rk" and rnd: "length rnd = 32"
    and live: "\<And>step. ratchet_signal_root_key X (sr_root_key b) rnd rk = Inr step \<Longrightarrow>
      \<not> is_uninitialized_signal_message_chain (rrs_chain_key step)"
    and enc: "encrypt_signal_provider_session_record_plaintext X rnd b p s t = Inr r"
  shows "\<exists>step. ratchet_signal_root_key X (sr_root_key b) rnd rk = Inr step \<and>
    can_send X (answering_record X rnd step b) \<and>
    encrypt_signal_provider_session_record_plaintext X rnd (answering_record X rnd step b) p s t = Inr r"
proof -
  from enc have "is_ok (ensure_signal_provider_sending_chain X rnd b)"
    by (auto simp: encrypt_signal_provider_session_record_plaintext_def and_then_eq_Ok)
  then obtain step where step: "ratchet_signal_root_key X (sr_root_key b) rnd rk = Inr step"
    and ens: "ensure_signal_provider_sending_chain X rnd b = Inr (answering_record X rnd step b)"
    using b(2) remote
    by (auto simp: ensure_signal_provider_sending_chain_def answering_record_def generate_key_pair_def
        Let_def is_ok_iff and_then_eq_Ok)
  note rs = root_step [OF X step]
  have "record_ok X (answering_record X rnd step b)"
    using b(1) rs generate_key_pair_ok [OF rnd, of X]
      key_pair_public_length [OF X generate_key_pair_ok [OF rnd]]
    by (simp add: answering_record_def record_ok_def record_normal_def below_active_def key_pair_ok_def)
  moreover have live': "\<not> is_uninitialized_signal_message_chain
      (sr_sending_chain (answering_record X rnd step b))"
    using live [OF step] by (simp add: answering_record_def)
  moreover have "ensure_signal_provider_sending_chain X rnd (answering_record X rnd step b) =
      Inr (answering_record X rnd step b)"
    using live' by (simp add: ensure_signal_provider_sending_chain_def)
  ultimately have "can_send X (answering_record X rnd step b)"
    "encrypt_signal_provider_session_record_plaintext X rnd (answering_record X rnd step b) p s t = Inr r"
    using enc ens record_ok_validates [OF b(1)]
      record_ok_validates [of X "answering_record X rnd step b"]
    by (simp_all add: can_send_def encrypt_signal_provider_session_record_plaintext_def)
  with step show ?thesis by blast
qed

lemma answer_received:
  assumes X: "ext_ok X" and pair: "paired X a b" and rnd: "length rnd = 32"
    and ids: "normalize_signal_public_key s = Inr s'" "normalize_signal_public_key t = Inr t'"
    and live: "\<And>step. ratchet_signal_root_key X (sr_root_key b) rnd (sending_key a) = Inr step \<Longrightarrow>
      \<not> is_uninitialized_signal_message_chain (rrs_chain_key step)"
    and enc: "encrypt_signal_provider_session_record_plaintext X rnd b p s t = Inr (m, bs, b')"
    and fresh: "sr_remote_ratchet_key a \<noteq> Some (prefixed_signal_public_key (x_public X rnd))"
      "\<forall>e\<in>set (sr_message_keys a). sk_ratchet_key e \<noteq> prefixed_signal_public_key (x_public X rnd)"
    and fin: "finish_old_chain X a (sr_previous_counter b) = Inr sk"
  shows "\<exists>a'. decrypt_one X a bs s t = Inr (p, a') \<and> paired X b' a' \<and> sr_message_keys a' = sk \<and>
    sr_previous_counter a' = saturating_pred (mck_counter (sr_sending_chain a)) \<and>
    sr_receiving_chain b' = sr_receiving_chain b \<and> sr_message_keys b' = sr_message_keys b \<and>
    mck_counter (sr_sending_chain b') = 1"
proof -
  let ?pair = "generate_key_pair X rnd" and ?rk = "prefixed_signal_public_key (x_public X rnd)"
  have a: "record_ok X a" and b: "record_ok X b" "sr_remote_ratchet_key b = Some (sending_key a)"
    and root: "sr_root_key a = sr_root_key b"
    and idle: "is_uninitialized_signal_message_chain (sr_sending_chain b)"
    using pair by (auto simp: paired_def in_step_def can_send_def)
  obtain step where step: "ratchet_signal_root_key X (sr_root_key b) rnd (sending_key a) = Inr step"
    and send: "can_send X (answering_record X rnd step b)"
    and enc1: "encrypt_signal_provider_session_record_plaintext X rnd (answering_record X rnd step b) p s t =
      Inr (m, bs, b')"
    using answer_parts [OF X b(1) idle b(2) rnd live enc] by blast
  note rs = root_step [OF X step]
  let ?b = "answering_record X rnd step b"
  have ctr: "mck_counter (sr_sending_chain ?b) \<noteq> - 1" using rs(1) by (simp add: answering_record_def)
  obtain st f where st: "ratchet_signal_message_chain X (rrs_chain_key step) = Inr st"
    "b' = ?b\<lparr>sr_sending_chain := mcs_next_chain_key st\<rparr>" "can_send X b'"
    and f: "split_signal_whisper_message_frame X bs = Inr f" "wf_message f = m"
      "wm_previous_counter m = sr_previous_counter b"
      "frame_for X (mcs_message_keys st) ?rk 0 p s t f"
    using encrypt_step [OF X send ctr ids, of rnd p] enc1 rs(1)
    by (auto simp: answering_record_def sending_key_def generate_key_pair_def public_key_from_private_def)
  have kp: "key_pair_ok X ?pair" by (rule generate_key_pair_ok [OF rnd])
  have rk: "key_normal ?rk"
    using key_pair_normal [OF X kp] by (simp add: generate_key_pair_def public_key_from_private_def)
  have "ratchet_signal_root_key X (sr_root_key a) (kp_private (sr_local_ratchet_key_pair a)) ?rk = Inr step"
    using ratchet_root_commute [OF X record_key_pair [OF a] kp] step root
    by (simp add: sending_key_def generate_key_pair_def public_key_from_private_def)
  then have dec: "decrypt_signal_provider_session_record_ciphertext X a f s t =
      Inr (p, a\<lparr>sr_message_keys := sk,
        sr_previous_counter := saturating_pred (mck_counter (sr_sending_chain a)),
        sr_root_key := rrs_root_key step, sr_receiving_chain := Some (mcs_next_chain_key st),
        sr_remote_ratchet_key := Some ?rk, sr_sending_chain := uninitialized_signal_message_chain\<rparr>)"
    using decrypt_new_ratchet [OF a fresh _ _ st(1) rs(1) f(4)] fin f(2,3) by simp
  have "record_ok X (a\<lparr>sr_message_keys := sk,
        sr_previous_counter := saturating_pred (mck_counter (sr_sending_chain a)),
        sr_root_key := rrs_root_key step, sr_receiving_chain := Some (mcs_next_chain_key st),
        sr_remote_ratchet_key := Some ?rk, sr_sending_chain := uninitialized_signal_message_chain\<rparr>)"
    using record_ok_turn [OF X a fin rk fresh rs(2) ratchet_message_lengths(3) [OF X st(1)]] .
  with st f(1) dec show ?thesis
    using ratchet_message_step [OF st(1)] rs(1)
    by (auto simp: decrypt_one_def paired_def in_step_def answering_record_def sending_key_def
        generate_key_pair_def public_key_from_private_def uninitialized_signal_message_chain_def
        is_uninitialized_signal_message_chain_def list_all_iff)
qed


text \<open>
  The answer. After a turn, the side that followed sends its first message under a fresh ratchet
  key; the other side finishes the old receiving chain, takes the matching Diffie-Hellman step,
  decrypts the message, and the two records are paired again with the roles swapped and a new
  common root key.
\<close>

theorem answer_delivery:
  assumes X: "ext_ok X" and pair: "paired X a b" and rnd: "length rnd = 32"
    and ids: "normalize_signal_public_key s = Inr s'" "normalize_signal_public_key t = Inr t'"
    and live: "\<And>step. ratchet_signal_root_key X (sr_root_key b) rnd (sending_key a) = Inr step \<Longrightarrow>
      \<not> is_uninitialized_signal_message_chain (rrs_chain_key step)"
    and enc: "encrypt_signal_provider_session_record_plaintext X rnd b p s t = Inr (m, bs, b')"
    and fresh: "sr_remote_ratchet_key a \<noteq> Some (prefixed_signal_public_key (x_public X rnd))"
      "\<forall>e\<in>set (sr_message_keys a). sk_ratchet_key e \<noteq> prefixed_signal_public_key (x_public X rnd)"
    and fin: "finish_old_chain X a (sr_previous_counter b) = Inr sk"
  shows "\<exists>a'. decrypt_one X a bs s t = Inr (p, a') \<and> paired X b' a' \<and> sr_message_keys a' = sk"
  using answer_received [OF assms] by blast

section \<open>Saying and answering without end\<close>

text \<open>
  The state of a conversation: the record of the side that is sending, the record of the other, and
  their identity keys.
\<close>

type_synonym conversation = "SignalProviderSessionRecord \<times> SignalProviderSessionRecord \<times> bytes \<times> bytes"

text \<open>
  One exchange. \<open>Say\<close>: the sending side encrypts one more message and the other decrypts what
  arrives. \<open>Answer\<close>: the other side encrypts with a fresh ratchet key drawn from \<open>rnd\<close>, and roles
  swap. The step carries what was sent and what was read; a step exists only when decryption does.
\<close>

definition fresh_ratchet :: "ext \<Rightarrow> bytes \<Rightarrow> SignalProviderSessionRecord \<Rightarrow> SignalProviderSessionRecord \<Rightarrow> bool" where
  "fresh_ratchet X rnd a b \<longleftrightarrow> length rnd = 32 \<and>
     sr_remote_ratchet_key a \<noteq> Some (prefixed_signal_public_key (x_public X rnd)) \<and>
     (\<forall>step. ratchet_signal_root_key X (sr_root_key b) rnd (sending_key a) = Inr step \<longrightarrow>
        \<not> is_uninitialized_signal_message_chain (rrs_chain_key step))"

inductive exchange :: "ext \<Rightarrow> conversation \<Rightarrow> bytes \<Rightarrow> bytes \<Rightarrow> conversation \<Rightarrow> bool" for X where
  Say: "encrypt_signal_provider_session_record_plaintext X rnd a p s t = Inr (m, bs, a') \<Longrightarrow>
    decrypt_one X b bs s t = Inr (q, b') \<Longrightarrow> exchange X (a, b, s, t) p q (a', b', s, t)"
| Answer: "fresh_ratchet X rnd a b \<Longrightarrow>
    encrypt_signal_provider_session_record_plaintext X rnd b p t s = Inr (m, bs, b') \<Longrightarrow>
    decrypt_one X a bs t s = Inr (q, a') \<Longrightarrow> exchange X (a, b, s, t) p q (b', a', t, s)"

inductive_cases exchangeE: "exchange X (a, b, s, t) p q c"

inductive conversing :: "ext \<Rightarrow> conversation \<Rightarrow> conversation \<Rightarrow> bool" for X where
  start: "conversing X c c"
| step: "conversing X c d \<Longrightarrow> exchange X d p q e \<Longrightarrow> conversing X c e"

lemma say_received:
  assumes X: "ext_ok X" and talk: "talking X a b"
    and ids: "normalize_signal_public_key s = Inr s'" "normalize_signal_public_key t = Inr t'"
    and enc: "encrypt_signal_provider_session_record_plaintext X rnd a p s t = Inr (m, bs, a')"
  shows "\<exists>b'. decrypt_one X b bs s t = Inr (p, b') \<and> talking X a' b'"
proof -
  have a: "can_send X a" "mck_counter (sr_sending_chain a) \<noteq> 0"
    and b: "record_ok X b" "sr_remote_ratchet_key b = Some (sending_key a)"
      "sr_receiving_chain b = Some (sr_sending_chain a)" "sr_message_keys b = []"
    using talk by (auto simp: talking_def paired_def in_step_def)
  obtain st where st: "ratchet_signal_message_chain X (sr_sending_chain a) = Inr st"
    using enc a(1) by (auto simp: encrypt_signal_provider_session_record_plaintext_def and_then_eq_Ok
        ensure_signal_provider_sending_chain_def can_send_def)
  note step = ratchet_message_step [OF st]
  have ctr: "mck_counter (sr_sending_chain a) \<noteq> - 1" using step by simp
  obtain f where f: "split_signal_whisper_message_frame X bs = Inr f"
    "frame_for X (mcs_message_keys st) (sending_key a) (mck_counter (sr_sending_chain a)) p s t f"
    and a': "a' = a\<lparr>sr_sending_chain := mcs_next_chain_key st\<rparr>" "can_send X a'"
    using encrypt_step [OF X a(1) ctr ids, of rnd p] enc st by auto
  have draw: "signal_message_keys_for_counter X (sr_message_keys b) (sending_key a) (sr_sending_chain a)
      (mck_counter (sr_sending_chain a)) = Inr (mcs_message_keys st, [], mcs_next_chain_key st)"
    using st step b(4) by (simp add: signal_message_keys_for_counter_def Let_def message_keys_loop.simps)
  have none: "find_signal_provider_stored_message_key_index (sr_message_keys b) (sending_key a)
      (mck_counter (sr_sending_chain a)) = None"
    using b(4) by simp
  note dec = decrypt_current [OF b(1-3) none draw f(2)]
  note ok = record_ok_current [OF X b(1-3) draw]
  have "mck_counter (mcs_next_chain_key st) \<noteq> 0"
    using step unat_Suc_u32 [OF ctr] by (metis Zero_not_Suc unsigned_0)
  then show ?thesis
    using talk f(1) dec ok a'
    by (auto simp: decrypt_one_def talking_def paired_def in_step_def sending_key_def)
qed

lemma answer_received_talking:
  assumes X: "ext_ok X" and talk: "talking X a b" and fresh: "fresh_ratchet X rnd a b"
    and ids: "normalize_signal_public_key s = Inr s'" "normalize_signal_public_key t = Inr t'"
    and enc: "encrypt_signal_provider_session_record_plaintext X rnd b p s t = Inr (m, bs, b')"
  shows "\<exists>a'. decrypt_one X a bs s t = Inr (p, a') \<and> talking X b' a'"
proof -
  have pair: "paired X a b" and empty: "sr_message_keys a = []" "sr_message_keys b = []"
    and ctr: "mck_counter (sr_sending_chain a) \<noteq> 0"
    and caught: "\<And>c. sr_receiving_chain a = Some c \<Longrightarrow> sr_previous_counter b < mck_counter c"
    and recv: "sr_receiving_chain b = Some (sr_sending_chain a)"
    using talk by (auto simp: talking_def paired_def in_step_def)
  have fin: "finish_old_chain X a (sr_previous_counter b) = Inr []"
    using caught empty(1)
    by (auto simp: finish_old_chain_def skip_signal_provider_message_keys_until_def split: option.splits)
  have rnd: "length rnd = 32" and live: "\<And>step. ratchet_signal_root_key X (sr_root_key b) rnd (sending_key a) =
      Inr step \<Longrightarrow> \<not> is_uninitialized_signal_message_chain (rrs_chain_key step)"
    and new: "sr_remote_ratchet_key a \<noteq> Some (prefixed_signal_public_key (x_public X rnd))"
    using fresh by (auto simp: fresh_ratchet_def)
  obtain a' where a': "decrypt_one X a bs s t = Inr (p, a')" "paired X b' a'" "sr_message_keys a' = []"
    "sr_previous_counter a' = saturating_pred (mck_counter (sr_sending_chain a))"
    "sr_receiving_chain b' = sr_receiving_chain b" "sr_message_keys b' = sr_message_keys b"
    "mck_counter (sr_sending_chain b') = 1"
    using answer_received [OF X pair rnd ids live enc new _ fin] empty(1) by auto
  have "saturating_pred (mck_counter (sr_sending_chain a)) < mck_counter (sr_sending_chain a)"
    using ctr by (simp add: saturating_pred_def word_less_nat_alt unat_minus_one unat_gt_0)
  then have "talking X b' a'" using a' empty recv by (simp add: talking_def)
  with a'(1) show ?thesis by blast
qed

text \<open>The invariant of every reachable state.\<close>

definition conversation_ok :: "ext \<Rightarrow> conversation \<Rightarrow> bool" where
  "conversation_ok X c = (case c of (a, b, s, t) \<Rightarrow> talking X a b \<and>
     is_ok (normalize_signal_public_key s) \<and> is_ok (normalize_signal_public_key t))"

lemma exchange_faithful:
  assumes X: "ext_ok X" and ex: "exchange X c p q d" and ok: "conversation_ok X c"
  shows "q = p \<and> conversation_ok X d"
  using ex ok
proof cases
  case (Say rnd a s t m bs a' b b')
  then show ?thesis using ok say_received [OF X _ _ _ Say(3)] Say(4)
    by (fastforce simp: conversation_ok_def is_ok_iff)
next
  case (Answer rnd a b t s m bs b' a')
  then show ?thesis using ok answer_received_talking [OF X _ Answer(3) _ _ Answer(4)] Answer(5)
    by (fastforce simp: conversation_ok_def is_ok_iff)
qed

lemma conversing_ok: "conversing X c d \<Longrightarrow> ext_ok X \<Longrightarrow> conversation_ok X c \<Longrightarrow> conversation_ok X d"
  by (induction rule: conversing.induct) (auto dest: exchange_faithful)

text \<open>The answer is encrypted unless the agreement of the two ratchet keys is all zero.\<close>

lemma answer_total:
  assumes X: "ext_ok X" and pair: "paired X a b" and rnd: "length rnd = 32"
    and agree: "agreement_ok X (generate_key_pair X rnd) (sr_local_ratchet_key_pair a)"
    and live: "\<And>step. ratchet_signal_root_key X (sr_root_key b) rnd (sending_key a) = Inr step \<Longrightarrow>
      \<not> is_uninitialized_signal_message_chain (rrs_chain_key step)"
    and ids: "normalize_signal_public_key s = Inr s'" "normalize_signal_public_key t = Inr t'"
  shows "\<exists>m bs b'. encrypt_signal_provider_session_record_plaintext X rnd b p s t = Inr (m, bs, b')"
proof -
  have a: "record_ok X a" and b: "record_ok X b" "sr_remote_ratchet_key b = Some (sending_key a)"
    and idle: "is_uninitialized_signal_message_chain (sr_sending_chain b)"
    using pair by (auto simp: paired_def in_step_def can_send_def)
  have "length (sr_root_key b) = 32" using b(1) unfolding record_ok_def by blast
  then obtain step where step: "ratchet_signal_root_key X (sr_root_key b) rnd (sending_key a) = Inr step"
    using ratchet_root_total [OF X generate_key_pair_ok [OF rnd] record_key_pair [OF a] agree]
    by (auto simp: generate_key_pair_def sending_key_def)
  note rs = root_step [OF X step]
  let ?b = "answering_record X rnd step b"
  have ok: "record_ok X ?b"
    using b(1) rs generate_key_pair_ok [OF rnd, of X]
      key_pair_public_length [OF X generate_key_pair_ok [OF rnd]]
    by (simp add: answering_record_def record_ok_def record_normal_def below_active_def key_pair_ok_def)
  then have send: "can_send X ?b"
    using live [OF step] by (simp add: can_send_def answering_record_def)
  have ctr: "mck_counter (sr_sending_chain ?b) \<noteq> - 1" using rs(1) by (simp add: answering_record_def)
  obtain r where "encrypt_signal_provider_session_record_plaintext X rnd ?b p s t = Inr r"
    using encrypt_step [OF X send ctr ids, of rnd p] by blast
  moreover have "ensure_signal_provider_sending_chain X rnd b = Inr ?b"
    using idle b(2) step by (simp add: ensure_signal_provider_sending_chain_def Let_def
        answering_record_def generate_key_pair_def)
  moreover have "ensure_signal_provider_sending_chain X rnd ?b = Inr ?b"
    using send by (simp add: ensure_signal_provider_sending_chain_def can_send_def)
  ultimately have "encrypt_signal_provider_session_record_plaintext X rnd b p s t = Inr r"
    using record_ok_validates [OF b(1)] record_ok_validates [OF ok]
    by (simp add: encrypt_signal_provider_session_record_plaintext_def)
  then show ?thesis by (cases r) blast
qed

text \<open>
  C12: the double ratchet never loses the thread. From a session as it is opened, after any number of
  messages and answers in any pattern: the sending side can encrypt until its 32-bit counter is
  used up, and the other side decrypts to the same plaintext; the other side can answer under a
  fresh ratchet key whose agreement with the key of the sending side is not all zero; whatever it
  answers under a fresh key is decrypted to the same plaintext; and every exchange reads exactly
  what was written.
\<close>

theorem conversation_in_sync:
  assumes "ext_ok X" "talking X a0 b0" "is_ok (normalize_signal_public_key s0)"
    "is_ok (normalize_signal_public_key t0)"
    and "conversing X (a0, b0, s0, t0) (a, b, s, t)"
  shows "(\<forall>rnd p. mck_counter (sr_sending_chain a) \<noteq> - 1 \<longrightarrow>
      (\<exists>m bs a' b'. encrypt_signal_provider_session_record_plaintext X rnd a p s t = Inr (m, bs, a') \<and>
        decrypt_one X b bs s t = Inr (p, b'))) \<and>
    (\<forall>rnd p. fresh_ratchet X rnd a b \<and>
      agreement_ok X (generate_key_pair X rnd) (sr_local_ratchet_key_pair a) \<longrightarrow>
      (\<exists>m bs b' a'. encrypt_signal_provider_session_record_plaintext X rnd b p t s = Inr (m, bs, b') \<and>
        decrypt_one X a bs t s = Inr (p, a'))) \<and>
    (\<forall>rnd p m bs b'. fresh_ratchet X rnd a b \<and>
      encrypt_signal_provider_session_record_plaintext X rnd b p t s = Inr (m, bs, b') \<longrightarrow>
      (\<exists>a'. decrypt_one X a bs t s = Inr (p, a'))) \<and>
    (\<forall>p q d. exchange X (a, b, s, t) p q d \<longrightarrow> q = p)"
proof -
  have ok: "conversation_ok X (a, b, s, t)"
    using conversing_ok [OF assms(5,1)] assms(2-4) by (simp add: conversation_ok_def)
  then obtain s' t' where ids: "normalize_signal_public_key s = Inr s'" "normalize_signal_public_key t = Inr t'"
    and talk: "talking X a b"
    by (auto simp: conversation_ok_def is_ok_iff)
  have send: "can_send X a" and pair: "paired X a b" using talk by (auto simp: talking_def paired_def in_step_def)
  have "\<exists>m bs a' b'. encrypt_signal_provider_session_record_plaintext X rnd a p s t = Inr (m, bs, a') \<and>
      decrypt_one X b bs s t = Inr (p, b')" if "mck_counter (sr_sending_chain a) \<noteq> - 1" for rnd p
    using encrypt_step [OF assms(1) send that ids, of rnd p] say_received [OF assms(1) talk ids]
    by blast
  moreover have dec: "\<exists>a'. decrypt_one X a bs t s = Inr (p, a')"
    if "fresh_ratchet X rnd a b" "encrypt_signal_provider_session_record_plaintext X rnd b p t s = Inr (m, bs, b')"
    for rnd p m bs b'
    using answer_received_talking [OF assms(1) talk that(1) ids(2,1) that(2)] by blast
  moreover have "\<exists>m bs b' a'. encrypt_signal_provider_session_record_plaintext X rnd b p t s = Inr (m, bs, b') \<and>
      decrypt_one X a bs t s = Inr (p, a')"
    if fresh: "fresh_ratchet X rnd a b"
      and agree: "agreement_ok X (generate_key_pair X rnd) (sr_local_ratchet_key_pair a)" for rnd p
  proof -
    have "length rnd = 32" and live: "\<And>step. ratchet_signal_root_key X (sr_root_key b) rnd (sending_key a) = Inr step \<Longrightarrow>
      \<not> is_uninitialized_signal_message_chain (rrs_chain_key step)"
      using fresh by (auto simp: fresh_ratchet_def)
    then obtain m bs b' where "encrypt_signal_provider_session_record_plaintext X rnd b p t s = Inr (m, bs, b')"
      using answer_total [OF assms(1) pair _ agree live ids(2,1), of p] by blast
    with dec [OF fresh this] show ?thesis by blast
  qed
  moreover have "q = p" if "exchange X (a, b, s, t) p q d" for p q d
    using exchange_faithful [OF assms(1) that ok] by simp
  ultimately show ?thesis by blast
qed

section \<open>A turn on the sample functions\<close>

definition sample_idle :: SignalProviderSessionRecord where
  "sample_idle = sample_receiver\<lparr>sr_sending_chain := uninitialized_signal_message_chain\<rparr>"

lemma sample_paired: "paired toy sample_record sample_idle"
  using sample_in_step
  by (simp add: paired_def in_step_def sample_idle_def sample_receiver_def record_ok_def record_normal_def
      below_active_def sending_key_def uninitialized_signal_message_chain_def
      is_uninitialized_signal_message_chain_def sample_record_def list_all_iff)

lemma sample_live:
  "ratchet_signal_root_key toy (sr_root_key sample_idle) rnd pub = Inr step \<Longrightarrow>
     \<not> is_uninitialized_signal_message_chain (rrs_chain_key step)"
  by (auto simp: ratchet_signal_root_key_def derive_signal_root_chain_keys_def and_then_eq_Ok
      map_err_eq_Ok toy_hkdf shared_secret_Ok is_uninitialized_signal_message_chain_def
      sample_idle_def sample_receiver_def sample_record_def list_all_iff)

theorem answer_delivery_witness:
  "\<exists>m bs b' a'. encrypt_signal_provider_session_record_plaintext toy (replicate 32 8) sample_idle [7]
      (replicate 32 1) (replicate 32 2) = Inr (m, bs, b') \<and>
    decrypt_one toy sample_record bs (replicate 32 1) (replicate 32 2) = Inr ([7], a')"
proof -
  have "generate_key_pair toy (replicate 32 8) = sample_pair 8" by (simp add: sample_pair_def)
  then have "agreement_ok toy (generate_key_pair toy (replicate 32 8)) (sr_local_ratchet_key_pair sample_record)"
    by (simp add: sample_record_def sample_agreement)
  then obtain m bs b' where enc: "encrypt_signal_provider_session_record_plaintext toy (replicate 32 8)
      sample_idle [7] (replicate 32 1) (replicate 32 2) = Inr (m, bs, b')"
    using answer_total [OF toy_ok sample_paired _ _ sample_live sample_key_ok sample_key_ok,
        where rnd = "replicate 32 8"] by fastforce
  have fin: "finish_old_chain toy sample_record (sr_previous_counter sample_idle) =
      Inr (sr_message_keys sample_record)"
    by (simp add: finish_old_chain_def skip_signal_provider_message_keys_until_def sample_record_def
        sample_idle_def sample_receiver_def)
  have fresh: "sr_remote_ratchet_key sample_record \<noteq> Some (prefixed_signal_public_key (x_public toy (replicate 32 8)))"
    "\<forall>e\<in>set (sr_message_keys sample_record). sk_ratchet_key e \<noteq>
       prefixed_signal_public_key (x_public toy (replicate 32 8))"
    by (simp_all add: sample_record_def toy_def prefixed_signal_public_key_def)
  show ?thesis
    using answer_delivery [OF toy_ok sample_paired _ sample_key_ok sample_key_ok sample_live enc fresh fin] enc
    by fastforce
qed


text \<open>Two records in the middle of a conversation.\<close>

definition sample_talker :: SignalProviderSessionRecord where
  "sample_talker = sample_record\<lparr>sr_message_keys := [], sr_sending_chain := \<lparr>mck_key = replicate 32 3, mck_counter = 1\<rparr>\<rparr>"

definition sample_listener :: SignalProviderSessionRecord where
  "sample_listener = sample_idle\<lparr>sr_receiving_chain := Some (sr_sending_chain sample_talker)\<rparr>"

lemma sample_pair_talking: "talking toy sample_talker sample_listener"
  using sample_paired
  by (auto simp: talking_def paired_def in_step_def can_send_def record_ok_def record_normal_def below_active_def
      sample_talker_def sample_listener_def sample_idle_def sample_receiver_def sending_key_def sample_record_def
      is_uninitialized_signal_message_chain_def uninitialized_signal_message_chain_def list_all_iff)

lemma toy_live:
  "ratchet_signal_root_key toy root rnd pub = Inr step \<Longrightarrow> root = replicate 32 2 \<Longrightarrow>
     \<not> is_uninitialized_signal_message_chain (rrs_chain_key step)"
  using sample_live [of rnd pub step] by (simp add: sample_idle_def sample_receiver_def sample_record_def)

theorem conversation_in_sync_witness:
  "\<exists>m bs a1 b1. encrypt_signal_provider_session_record_plaintext toy [] sample_talker [7] (replicate 32 1) (replicate 32 2) =
      Inr (m, bs, a1) \<and> decrypt_one toy sample_listener bs (replicate 32 1) (replicate 32 2) = Inr ([7], b1) \<and>
    (\<exists>m bs b2 a2. encrypt_signal_provider_session_record_plaintext toy (replicate 32 8) b1 [9] (replicate 32 2) (replicate 32 1) =
      Inr (m, bs, b2) \<and> decrypt_one toy a1 bs (replicate 32 2) (replicate 32 1) = Inr ([9], a2))"
proof -
  let ?s = "replicate 32 1 :: bytes" and ?t = "replicate 32 2 :: bytes"
  have ids: "is_ok (normalize_signal_public_key ?s)" "is_ok (normalize_signal_public_key ?t)"
    by (simp_all add: sample_key_ok)
  note sync = conversation_in_sync [OF toy_ok sample_pair_talking ids]
  have ctr: "mck_counter (sr_sending_chain sample_talker) \<noteq> - 1" by (simp add: sample_talker_def)
  from sync [OF conversing.start] ctr obtain m bs a1 b1 where
    say: "encrypt_signal_provider_session_record_plaintext toy [] sample_talker [7] ?s ?t = Inr (m, bs, a1)"
      "decrypt_one toy sample_listener bs ?s ?t = Inr ([7], b1)" by blast
  have send: "can_send toy sample_talker" using sample_pair_talking by (auto simp: talking_def paired_def in_step_def)
  from encrypt_step [OF toy_ok send ctr sample_key_ok [of 1] sample_key_ok [of 2], where rnd = "[]" and p = "[7]"]
  obtain m' bs' c where "encrypt_signal_provider_session_record_plaintext toy [] sample_talker [7] ?s ?t =
    Inr (m', bs', sample_talker\<lparr>sr_sending_chain := c\<rparr>)" by blast
  with say(1) have a1: "a1 = sample_talker\<lparr>sr_sending_chain := c\<rparr>" by simp
  have conv: "conversing toy (sample_talker, sample_listener, ?s, ?t) (a1, b1, ?s, ?t)"
    by (rule conversing.step [OF conversing.start exchange.Say [OF say]])
  have "talking toy a1 b1"
    using conversing_ok [OF conv toy_ok] sample_pair_talking ids by (simp add: conversation_ok_def)
  then have root: "sr_root_key b1 = sr_root_key a1" by (simp add: talking_def paired_def in_step_def)
  have parts: "sr_root_key a1 = replicate 32 2" "sr_remote_ratchet_key a1 = Some (prefixed_signal_public_key (replicate 32 5))"
    "sr_local_ratchet_key_pair a1 = sample_pair 6"
    by (simp_all add: a1 sample_talker_def sample_record_def)
  have "fresh_ratchet toy (replicate 32 8) a1 b1"
    using toy_live [of "sr_root_key b1"] root parts
    by (simp add: fresh_ratchet_def toy_def prefixed_signal_public_key_def)
  moreover have "generate_key_pair toy (replicate 32 8) = sample_pair 8" by (simp add: sample_pair_def)
  then have "agreement_ok toy (generate_key_pair toy (replicate 32 8)) (sr_local_ratchet_key_pair a1)"
    by (simp add: parts sample_agreement)
  ultimately have "\<exists>m bs b2 a2. encrypt_signal_provider_session_record_plaintext toy (replicate 32 8) b1 [9] ?t ?s = Inr (m, bs, b2) \<and>
      decrypt_one toy a1 bs ?t ?s = Inr ([9], a2)"
    using sync [OF conv] by blast
  with say show ?thesis by blast
qed

end
