(* ===== verification/SignalInvariant.thy ===== *)
theory SignalInvariant
  imports SignalTurns
begin

text \<open>
  The invariant of the stored sessions of \<^verbatim>\<open>crates/wa-core/src/signal.rs\<close>: whatever sequence of
  encryptions and decryptions a session goes through, each on bytes an attacker may choose, the
  record written back is one the decoder accepts.
\<close>

section \<open>What a decryption does to the record\<close>

lemma receive_new_ratchet_parts:
  assumes "receive_new_ratchet X r m rk = Inr r1"
  shows "\<exists>sk step. finish_old_chain X r (wm_previous_counter m) = Inr sk \<and>
    ratchet_signal_root_key X (sr_root_key r) (kp_private (sr_local_ratchet_key_pair r)) rk = Inr step \<and>
    r1 = r\<lparr>sr_message_keys := sk,
      sr_previous_counter := saturating_pred (mck_counter (sr_sending_chain r)),
      sr_root_key := rrs_root_key step, sr_receiving_chain := Some (rrs_chain_key step),
      sr_remote_ratchet_key := Some rk, sr_sending_chain := uninitialized_signal_message_chain\<rparr>"
  using assms
  by (cases "sr_remote_ratchet_key r"; cases "sr_receiving_chain r")
    (auto simp: receive_new_ratchet_def finish_old_chain_def Let_def and_then_eq_Ok split: if_splits)

lemma decrypt_parts:
  assumes "decrypt_signal_provider_session_record_ciphertext X r f s t = Inr (p, r')"
  shows "\<exists>rk. normalize_signal_public_key (wm_ephemeral_key (wf_message f)) = Inr rk \<and>
    ((\<exists>n<length (sr_message_keys r). r' = r\<lparr>sr_message_keys :=
        take n (sr_message_keys r) @ drop (Suc n) (sr_message_keys r)\<rparr>) \<or>
     (\<exists>r1 c k sk d. (r1 = r \<and> sr_remote_ratchet_key r = Some rk \<or>
          receive_new_ratchet X r (wf_message f) rk = Inr r1) \<and>
        sr_receiving_chain r1 = Some c \<and>
        signal_message_keys_for_counter X (sr_message_keys r1) rk c (wm_counter (wf_message f)) =
          Inr (k, sk, d) \<and>
        r' = r1\<lparr>sr_message_keys := sk, sr_receiving_chain := Some d\<rparr>))"
proof -
  obtain rk where rk: "normalize_signal_public_key (wm_ephemeral_key (wf_message f)) = Inr rk"
    using assms by (auto simp: decrypt_signal_provider_session_record_ciphertext_def Let_def and_then_eq_Ok)
  show ?thesis
  proof (cases "find_signal_provider_stored_message_key_index (sr_message_keys r) rk
      (wm_counter (wf_message f))")
    case (Some n)
    then show ?thesis using assms rk find_SomeD [OF Some]
      by (auto simp: decrypt_signal_provider_session_record_ciphertext_def Let_def and_then_eq_Ok)
  next
    case None
    then show ?thesis using assms rk
      by (fastforce simp: decrypt_signal_provider_session_record_ciphertext_def Let_def and_then_eq_Ok
          ok_or_eq_Ok split: if_splits)
  qed
qed

lemma keys_for_counter_store:
  assumes "signal_message_keys_for_counter X sk rk c i = Inr (k, sk', d)"
    and "distinct (map skip_id sk)" "length sk \<le> 2000"
  shows "\<forall>e\<in>set sk'. e \<in> set sk \<or> sk_ratchet_key e = rk"
proof -
  obtain ks where "push_entries sk (stored_entries rk (mck_counter c) ks) = Inr sk'"
    using keys_for_counter_run(3) [OF assms(1)] by blast
  note inv = push_entries_inv [OF this assms(2,3)]
  have "sk_ratchet_key e = rk" if "e \<in> set (stored_entries rk (mck_counter c) ks)" for e
    using that by (auto simp: set_stored_entries)
  then show ?thesis using inv by blast
qed

text \<open>
  Every decryption keeps the record in normal form and its key pair, so that what it writes back is
  either refused by the encoder's check or decodes again.
\<close>

lemma decrypt_normal:
  assumes X: "ext_ok X" and r: "record_ok X r"
    and dec: "decrypt_signal_provider_session_record_ciphertext X r f s t = Inr (p, r')"
  shows "record_normal r' \<and> sr_local_ratchet_key_pair r' = sr_local_ratchet_key_pair r"
proof -
  have n: "record_normal r" "distinct (map skip_id (sr_message_keys r))" "length (sr_message_keys r) \<le> 2000"
    using r unfolding record_ok_def by blast+
  obtain rk where rk: "normalize_signal_public_key (wm_ephemeral_key (wf_message f)) = Inr rk"
    and cases: "(\<exists>n<length (sr_message_keys r). r' = r\<lparr>sr_message_keys :=
        take n (sr_message_keys r) @ drop (Suc n) (sr_message_keys r)\<rparr>) \<or>
     (\<exists>r1 c k sk d. (r1 = r \<and> sr_remote_ratchet_key r = Some rk \<or>
          receive_new_ratchet X r (wf_message f) rk = Inr r1) \<and>
        sr_receiving_chain r1 = Some c \<and>
        signal_message_keys_for_counter X (sr_message_keys r1) rk c (wm_counter (wf_message f)) =
          Inr (k, sk, d) \<and>
        r' = r1\<lparr>sr_message_keys := sk, sr_receiving_chain := Some d\<rparr>)"
    using decrypt_parts [OF dec] by blast
  have rk_normal: "key_normal rk" by (rule key_normalI [OF rk])
  from cases show ?thesis
  proof (elim disjE exE conjE)
    fix m
    assume "r' = r\<lparr>sr_message_keys := take m (sr_message_keys r) @ drop (Suc m) (sr_message_keys r)\<rparr>"
    then show ?thesis using n(1) by (auto simp: record_normal_def dest: in_set_takeD in_set_dropD)
  next
    fix r1 c k sk d
    assume "r1 = r" and r': "r' = r1\<lparr>sr_message_keys := sk, sr_receiving_chain := Some d\<rparr>"
      and "signal_message_keys_for_counter X (sr_message_keys r1) rk c (wm_counter (wf_message f)) =
        Inr (k, sk, d)"
    then show ?thesis using keys_for_counter_store n rk_normal by (fastforce simp: record_normal_def)
  next
    fix r1 c k sk d
    assume new: "receive_new_ratchet X r (wf_message f) rk = Inr r1"
      and r': "r' = r1\<lparr>sr_message_keys := sk, sr_receiving_chain := Some d\<rparr>"
      and keys: "signal_message_keys_for_counter X (sr_message_keys r1) rk c (wm_counter (wf_message f)) =
        Inr (k, sk, d)"
    obtain sk1 and step :: SignalRootRatchetStep where fin: "finish_old_chain X r (wm_previous_counter (wf_message f)) = Inr sk1"
      and r1: "r1 = r\<lparr>sr_message_keys := sk1,
        sr_previous_counter := saturating_pred (mck_counter (sr_sending_chain r)),
        sr_root_key := rrs_root_key step, sr_receiving_chain := Some (rrs_chain_key step),
        sr_remote_ratchet_key := Some rk, sr_sending_chain := uninitialized_signal_message_chain\<rparr>"
      using receive_new_ratchet_parts [OF new] by blast
    note inv = finish_old_chain_inv [OF X r fin]
    have "\<forall>e\<in>set sk. e \<in> set sk1 \<or> sk_ratchet_key e = rk"
      using keys_for_counter_store [OF keys] inv(1,2) by (simp add: r1)
    then have "\<forall>e\<in>set sk. key_normal (sk_ratchet_key e)" using inv(3) rk_normal by auto
    then show ?thesis using n(1) rk_normal by (simp add: r' r1 record_normal_def)
  qed
qed

lemma encrypt_normal:
  assumes X: "ext_ok X" and r: "record_ok X r" and rnd: "length rnd = 32"
    and enc: "encrypt_signal_provider_session_record_plaintext X rnd r p s t = Inr (m, bs, r')"
  shows "record_normal r' \<and> length (kp_public (sr_local_ratchet_key_pair r')) = 32"
proof -
  have n: "record_normal r" "length (kp_public (sr_local_ratchet_key_pair r)) = 32"
    using r unfolding record_ok_def by blast+
  have "length (kp_public (generate_key_pair X rnd)) = 32"
    by (rule key_pair_public_length [OF X generate_key_pair_ok [OF rnd]])
  then show ?thesis using enc n
    by (auto simp: encrypt_signal_provider_session_record_plaintext_def
        ensure_signal_provider_sending_chain_def Let_def and_then_eq_Ok record_normal_def split: if_splits)
qed

lemma encoded_normal_decodes:
  assumes "encode_signal_provider_session_record X r = Inr bs" "record_normal r"
    and "length (kp_public (sr_local_ratchet_key_pair r)) = 32"
  shows "record_ok X r \<and> decode_signal_provider_session_record X bs = Inr r"
proof -
  have "validate_signal_provider_session_record X r = Inr ()"
    using assms(1) by (auto simp: encode_signal_provider_session_record_def and_then_eq_Ok)
  then have "record_ok X r" using validate_record_iff assms(2,3) by blast
  then show ?thesis using decode_encoded_record [OF _ assms(1)] by blast
qed

section \<open>The life of a stored session\<close>

text \<open>
  Every way the stored bytes of an open session change: encrypting with any random key, and
  decrypting any byte string at all.
\<close>

inductive session_step :: "ext \<Rightarrow> bytes \<Rightarrow> bytes \<Rightarrow> bytes \<Rightarrow> bool" for X local_identity_pub where
  Encrypt: "length rnd = 32 \<Longrightarrow>
    encrypt_signal_provider_session_record_message X rnd stored p local_identity_pub = Inr e \<Longrightarrow>
    session_step X local_identity_pub stored (se_record e)"
| Decrypt: "decrypt_signal_provider_session_record_message X stored bs local_identity_pub = Inr d \<Longrightarrow>
    session_step X local_identity_pub stored (sd_record d)"

inductive session_life :: "ext \<Rightarrow> bytes \<Rightarrow> bytes \<Rightarrow> bytes \<Rightarrow> bool" for X local_identity_pub where
  open_session: "session_life X local_identity_pub stored stored"
| use_session: "session_life X local_identity_pub stored0 stored \<Longrightarrow>
    session_step X local_identity_pub stored stored' \<Longrightarrow>
    session_life X local_identity_pub stored0 stored'"

lemma session_step_ok:
  assumes X: "ext_ok X" and step: "session_step X lid stored stored'"
  shows "\<exists>r. decode_signal_provider_session_record X stored' = Inr r \<and> record_ok X r"
  using step
proof cases
  case (Encrypt rnd p e)
  then obtain r m bs r' where r: "decode_signal_provider_session_record X stored = Inr r"
    and enc: "encrypt_signal_provider_session_record_plaintext X rnd r p lid (sr_remote_identity_key r) =
      Inr (m, bs, r')"
    and out: "encode_signal_provider_session_record X r' = Inr (se_record e)"
    by (auto simp: encrypt_signal_provider_session_record_message_def Let_def and_then_eq_Ok)
  show ?thesis
    using encoded_normal_decodes [OF out] encrypt_normal [OF X decoded_record_ok [OF r] Encrypt(2) enc]
      Encrypt(1) by blast
next
  case (Decrypt bs d)
  then obtain r f p r' where r: "decode_signal_provider_session_record X stored = Inr r"
    and dec: "decrypt_signal_provider_session_record_ciphertext X r f (sr_remote_identity_key r) lid =
      Inr (p, r')"
    and out: "encode_signal_provider_session_record X r' = Inr (sd_record d)"
    by (auto simp: decrypt_signal_provider_session_record_message_def Let_def and_then_eq_Ok)
  have ok: "record_ok X r" by (rule decoded_record_ok [OF r])
  then have "length (kp_public (sr_local_ratchet_key_pair r)) = 32" unfolding record_ok_def by blast
  then show ?thesis
    using encoded_normal_decodes [OF out] decrypt_normal [OF X ok dec] Decrypt(1) by auto
qed

lemma session_life_ok:
  assumes X: "ext_ok X" and life: "session_life X lid stored0 stored"
    and start: "decode_signal_provider_session_record X stored0 = Inr r0"
  shows "\<exists>r. decode_signal_provider_session_record X stored = Inr r \<and> record_ok X r"
  using life start
proof (induction rule: session_life.induct)
  case open_session
  then show ?case using decoded_record_ok by blast
next
  case use_session
  then show ?case using session_step_ok [OF X] by blast
qed

text \<open>
  C23: the stored record is always sound. After any sequence of encryptions and of decryptions of
  arbitrary bytes, the stored session decodes, its two receiving fields are set together, its local
  ratchet pair matches, and it holds at most 2000 skipped message keys, no two for the same ratchet
  key and counter, and none at or above the counter of the receiving chain.
\<close>

theorem stored_session_invariant:
  assumes "ext_ok X" "decode_signal_provider_session_record X stored0 = Inr r0"
    and "session_life X lid stored0 stored"
  shows "\<exists>r. decode_signal_provider_session_record X stored = Inr r \<and>
    (sr_receiving_chain r = None \<longleftrightarrow> sr_remote_ratchet_key r = None) \<and>
    x_public X (kp_private (sr_local_ratchet_key_pair r)) = kp_public (sr_local_ratchet_key_pair r) \<and>
    length (sr_message_keys r) \<le> 2000 \<and>
    distinct (map skip_id (sr_message_keys r)) \<and>
    (\<forall>e\<in>set (sr_message_keys r). below_active r e)"
proof -
  obtain r where "decode_signal_provider_session_record X stored = Inr r" and "record_ok X r"
    using session_life_ok [OF assms(1,3,2)] by blast
  then show ?thesis unfolding record_ok_def by (intro exI [of _ r]) simp
qed

lemma stored_session_invariant_witness:
  "\<exists>stored r. session_life toy [] stored stored \<and>
    decode_signal_provider_session_record toy stored = Inr r \<and>
    length (sr_message_keys r) \<le> 2000 \<and> distinct (map skip_id (sr_message_keys r))"
proof -
  obtain bs where enc: "encode_signal_provider_session_record toy sample_record = Inr bs"
    and dec: "decode_signal_provider_session_record toy bs = Inr sample_record"
    using encode_decode_record [OF sample_record_ok] by blast
  have life: "session_life toy [] bs bs" by (rule session_life.open_session)
  show ?thesis using stored_session_invariant [OF toy_ok dec life] life by blast
qed

end
