(* ===== verification/SenderKey.thy ===== *)
theory SenderKey
  imports SignalRecord
begin

text \<open>
  The sender keys of group messages in \<^verbatim>\<open>crates/wa-core/src/signal.rs\<close>: the sender chain, the
  distribution message that hands it to the members, and the stored record with its states. The
  chain meets the contract \<open>key_chain\<close>, as the chains of the one-to-one sessions do.
\<close>

section \<open>The sender chain\<close>

record SignalSenderChainKey =
  sck_key :: bytes
  sck_iteration :: u32

record SignalSenderMessageKeyMaterial =
  smk_iteration :: u32
  smk_seed :: bytes
  smk_cipher_key :: bytes
  smk_iv :: bytes

record SignalSenderChainStep =
  scs_message_key :: SignalSenderMessageKeyMaterial
  scs_next_chain_key :: SignalSenderChainKey

definition validate_signal_sender_chain_key :: "bytes \<Rightarrow> unit core_result" where
  "validate_signal_sender_chain_key chain_key =
     (if length chain_key \<noteq> SIGNAL_MESSAGE_KEY_LEN
      then Err (Protocol (''Signal sender chain key must be '' @ show_nat SIGNAL_MESSAGE_KEY_LEN @ '' bytes''))
      else Ok ())"

definition derive_signal_sender_message_key_seed :: "ext \<Rightarrow> bytes \<Rightarrow> bytes core_result" where
  "derive_signal_sender_message_key_seed X chain_key =
     and_then (validate_signal_sender_chain_key chain_key) (\<lambda>_.
     map_err Crypto (hmac_sha256 X SIGNAL_SENDER_MESSAGE_KEY_SEED chain_key))"

definition advance_signal_sender_chain_key :: "ext \<Rightarrow> bytes \<Rightarrow> bytes core_result" where
  "advance_signal_sender_chain_key X chain_key =
     and_then (validate_signal_sender_chain_key chain_key) (\<lambda>_.
     map_err Crypto (hmac_sha256 X SIGNAL_SENDER_CHAIN_KEY_SEED chain_key))"

definition derive_signal_sender_message_keys ::
  "ext \<Rightarrow> u32 \<Rightarrow> bytes \<Rightarrow> SignalSenderMessageKeyMaterial core_result" where
  "derive_signal_sender_message_keys X iteration message_key_seed =
     (if length message_key_seed \<noteq> SIGNAL_MESSAGE_KEY_LEN
      then Err (Protocol (''Signal sender message key seed must be '' @
        show_nat SIGNAL_MESSAGE_KEY_LEN @ '' bytes''))
      else
        and_then (map_err Crypto (hkdf_sha256 X message_key_seed
          SIGNAL_SENDER_MESSAGE_DERIVED_KEY_LEN [] SIGNAL_SENDER_MESSAGE_KEYS_INFO)) (\<lambda>expanded.
        Ok \<lparr>smk_iteration = iteration, smk_seed = message_key_seed,
            smk_cipher_key = take 32 (drop 16 expanded), smk_iv = take 16 expanded\<rparr>))"

definition ratchet_signal_sender_chain ::
  "ext \<Rightarrow> SignalSenderChainKey \<Rightarrow> SignalSenderChainStep core_result" where
  "ratchet_signal_sender_chain X chain_key =
     and_then (ok_or (checked_add_u32 (sck_iteration chain_key) 1)
       (Protocol ''Signal sender chain iteration overflow'')) (\<lambda>next_iteration.
     and_then (derive_signal_sender_message_key_seed X (sck_key chain_key)) (\<lambda>message_key_seed.
     and_then (derive_signal_sender_message_keys X (sck_iteration chain_key) message_key_seed) (\<lambda>message_key.
     and_then (advance_signal_sender_chain_key X (sck_key chain_key)) (\<lambda>next_key.
     Ok \<lparr>scs_message_key = message_key,
         scs_next_chain_key = \<lparr>sck_key = next_key, sck_iteration = next_iteration\<rparr>\<rparr>))))"

definition encrypt_signal_sender_message_body ::
  "ext \<Rightarrow> bytes \<Rightarrow> SignalSenderMessageKeyMaterial \<Rightarrow> bytes core_result" where
  "encrypt_signal_sender_message_body X plaintext keys =
     map_err Crypto (aes_256_cbc_encrypt_with_iv X plaintext (smk_cipher_key keys) (smk_iv keys))"

definition decrypt_signal_sender_message_body ::
  "ext \<Rightarrow> bytes \<Rightarrow> SignalSenderMessageKeyMaterial \<Rightarrow> bytes core_result" where
  "decrypt_signal_sender_message_body X ciphertext keys =
     map_err Crypto (aes_256_cbc_decrypt_with_iv X ciphertext (smk_cipher_key keys) (smk_iv keys))"

section \<open>Distribution messages\<close>

record SignalSenderKeyDistributionMessage =
  sdm_message_version :: u8
  sdm_key_id :: u32
  sdm_iteration :: u32
  sdm_chain_key :: bytes
  sdm_signing_key :: bytes

definition validate_signal_sender_key_message_version :: "u8 \<Rightarrow> unit core_result" where
  "validate_signal_sender_key_message_version version =
     (if version \<noteq> SIGNAL_WIRE_CURRENT_VERSION
      then Err (Protocol (''unsupported Signal sender-key message version: '' @ show_nat (unat version)))
      else Ok ())"

definition signal_sender_key_message_version :: "u8 \<Rightarrow> u8 core_result" where
  "signal_sender_key_message_version version_byte =
     (let message_version = drop_bit 4 version_byte; ciphertext_version = version_byte AND 15 in
      and_then (validate_signal_sender_key_message_version message_version) (\<lambda>_.
      if ciphertext_version \<noteq> SIGNAL_WIRE_CURRENT_VERSION
      then Err (Protocol (''unsupported Signal sender-key ciphertext version: '' @
        show_nat (unat ciphertext_version)))
      else Ok message_version))"

definition validate_signal_sender_signing_key_wire_public :: "bytes \<Rightarrow> unit core_result" where
  "validate_signal_sender_signing_key_wire_public signing_key =
     (if length signing_key \<noteq> SIGNAL_MESSAGE_KEY_LEN + 1 \<or>
         (case signing_key of b # _ \<Rightarrow> b \<noteq> SIGNAL_PUBLIC_KEY_VERSION | [] \<Rightarrow> True)
      then Err (Protocol (''Signal sender-key signing public key must be '' @
        show_nat (SIGNAL_MESSAGE_KEY_LEN + 1) @ '' prefixed bytes''))
      else Ok ())"

definition validate_signal_sender_key_distribution_message ::
  "SignalSenderKeyDistributionMessage \<Rightarrow> unit core_result" where
  "validate_signal_sender_key_distribution_message message =
     and_then (validate_signal_sender_key_message_version (sdm_message_version message)) (\<lambda>_.
     and_then (validate_signal_sender_chain_key (sdm_chain_key message)) (\<lambda>_.
     and_then (normalize_signal_public_key (sdm_signing_key message)) (\<lambda>signing_key.
     validate_signal_sender_signing_key_wire_public signing_key)))"

definition build_signal_sender_key_distribution_message ::
  "u32 \<Rightarrow> u32 \<Rightarrow> bytes \<Rightarrow> bytes \<Rightarrow> SignalSenderKeyDistributionMessage core_result" where
  "build_signal_sender_key_distribution_message key_id iteration chain_key signing_public_key =
     and_then (validate_signal_sender_chain_key chain_key) (\<lambda>_.
     and_then (normalize_signal_public_key signing_public_key) (\<lambda>signing_key.
     Ok \<lparr>sdm_message_version = SIGNAL_WIRE_CURRENT_VERSION, sdm_key_id = key_id,
         sdm_iteration = iteration, sdm_chain_key = chain_key, sdm_signing_key = signing_key\<rparr>))"

definition encode_signal_sender_key_distribution_message ::
  "ext \<Rightarrow> SignalSenderKeyDistributionMessage \<Rightarrow> bytes core_result" where
  "encode_signal_sender_key_distribution_message X message =
     and_then (validate_signal_sender_key_distribution_message message) (\<lambda>_.
     and_then (normalize_signal_public_key (sdm_signing_key message)) (\<lambda>signing_key.
     let proto = \<lparr>d_id = Some (sdm_key_id message), d_iteration = Some (sdm_iteration message),
           d_chain_key = Some (sdm_chain_key message), d_signing_key = Some signing_key\<rparr> in
     Ok ((push_bit 4 (sdm_message_version message) OR SIGNAL_WIRE_CURRENT_VERSION) #
       enc_sender_distribution X proto)))"

definition decode_signal_sender_key_distribution_message ::
  "ext \<Rightarrow> bytes \<Rightarrow> SignalSenderKeyDistributionMessage core_result" where
  "decode_signal_sender_key_distribution_message X input =
     (if length input < 1 + SIGNAL_MESSAGE_KEY_LEN + 33
      then Err (Protocol (''Signal sender-key distribution message is too short: '' @
        show_nat (length input)))
      else
        and_then (signal_sender_key_message_version (input ! 0)) (\<lambda>message_version.
        and_then (map_err (\<lambda>err. Protocol (''invalid Signal sender-key distribution message: '' @ err))
          (dec_sender_distribution X (drop 1 input))) (\<lambda>decoded.
        and_then (ok_or (d_chain_key decoded)
          (Protocol ''Signal sender-key distribution missing chain key'')) (\<lambda>chain_key.
        and_then (validate_signal_sender_chain_key chain_key) (\<lambda>_.
        and_then (ok_or (d_signing_key decoded)
          (Protocol ''Signal sender-key distribution missing signing key'')) (\<lambda>signing_key.
        and_then (validate_signal_sender_signing_key_wire_public signing_key) (\<lambda>_.
        and_then (ok_or (d_id decoded)
          (Protocol ''Signal sender-key distribution missing id'')) (\<lambda>key_id.
        and_then (ok_or (d_iteration decoded)
          (Protocol ''Signal sender-key distribution missing iteration'')) (\<lambda>iteration.
        Ok \<lparr>sdm_message_version = message_version, sdm_key_id = key_id,
            sdm_iteration = iteration, sdm_chain_key = chain_key,
            sdm_signing_key = signing_key\<rparr>)))))))))"

definition should_replace_cached_signal_sender_key_distribution ::
  "ext \<Rightarrow> bytes option \<Rightarrow> bytes \<Rightarrow> bool core_result" where
  "should_replace_cached_signal_sender_key_distribution X existing incoming =
     and_then (decode_signal_sender_key_distribution_message X incoming) (\<lambda>incoming.
     case Option.bind existing (\<lambda>existing. ok (decode_signal_sender_key_distribution_message X existing)) of
       Some existing \<Rightarrow>
         Ok (\<not> (sdm_key_id existing = sdm_key_id incoming \<and>
                sdm_signing_key existing = sdm_signing_key incoming \<and>
                sdm_iteration existing > sdm_iteration incoming))
     | None \<Rightarrow> Ok True)"

section \<open>The stored record\<close>

record SignalSenderStoredMessageKey =
  ssk_iteration :: u32
  ssk_seed :: bytes

record SignalSenderKeyState =
  sks_key_id :: u32
  sks_chain_key :: SignalSenderChainKey
  sks_signing_public_key :: bytes
  sks_signing_private_key :: "bytes option"
  sks_message_keys :: "SignalSenderStoredMessageKey list"

text \<open>The record has one field, \<open>states\<close>.\<close>

type_synonym SignalSenderKeyRecord = "SignalSenderKeyState list"

text \<open>The loop over the skipped message keys of a state, with the set of the iterations it saw.\<close>

fun validate_sender_message_keys ::
  "u32 \<Rightarrow> u32 set \<Rightarrow> SignalSenderStoredMessageKey list \<Rightarrow> unit core_result" where
  "validate_sender_message_keys chain_iteration stored_iterations [] = Ok ()"
| "validate_sender_message_keys chain_iteration stored_iterations (message_key # rest) =
     (if ssk_iteration message_key \<ge> chain_iteration
      then Err (Protocol ''Signal sender-key skipped iteration must be below chain iteration'')
      else if ssk_iteration message_key \<in> stored_iterations
      then Err (Protocol ''duplicate Signal sender-key skipped message iteration'')
      else
        and_then (validate_signal_sender_chain_key (ssk_seed message_key)) (\<lambda>_.
        validate_sender_message_keys chain_iteration
          (insert (ssk_iteration message_key) stored_iterations) rest))"

definition validate_signal_sender_key_state :: "ext \<Rightarrow> SignalSenderKeyState \<Rightarrow> unit core_result" where
  "validate_signal_sender_key_state X state =
     and_then (validate_signal_sender_chain_key (sck_key (sks_chain_key state))) (\<lambda>_.
     and_then (normalize_signal_public_key (sks_signing_public_key state)) (\<lambda>signing_public_key.
     and_then (case sks_signing_private_key state of
         Some private_key \<Rightarrow>
           and_then (signal_private_key_bytes private_key) (\<lambda>private_key.
           let expected_public_key =
             prefixed_signal_public_key (public_key_from_private X private_key) in
           if signing_public_key \<noteq> expected_public_key
           then Err (Protocol ''Signal sender-key signing public key does not match private key'')
           else Ok ())
       | None \<Rightarrow> Ok ()) (\<lambda>_.
     if length (sks_message_keys state) > SIGNAL_MAX_SENDER_MESSAGE_KEYS
     then Err (Protocol (''Signal sender-key state must contain at most '' @
       show_nat SIGNAL_MAX_SENDER_MESSAGE_KEYS @ '' message keys''))
     else validate_sender_message_keys (sck_iteration (sks_chain_key state)) {}
       (sks_message_keys state))))"

fun validate_sender_states ::
  "ext \<Rightarrow> (u32 \<times> bytes) set \<Rightarrow> SignalSenderKeyState list \<Rightarrow> unit core_result" where
  "validate_sender_states X state_keys [] = Ok ()"
| "validate_sender_states X state_keys (state # rest) =
     and_then (validate_signal_sender_key_state X state) (\<lambda>_.
     and_then (normalize_signal_public_key (sks_signing_public_key state)) (\<lambda>signing_public_key.
     if (sks_key_id state, signing_public_key) \<in> state_keys
     then Err (Protocol ''duplicate Signal sender-key state'')
     else validate_sender_states X (insert (sks_key_id state, signing_public_key) state_keys) rest))"

definition validate_signal_sender_key_record :: "ext \<Rightarrow> SignalSenderKeyRecord \<Rightarrow> unit core_result" where
  "validate_signal_sender_key_record X states =
     (if length states > SIGNAL_MAX_SENDER_KEY_STATES
      then Err (Protocol (''Signal sender-key record must contain at most '' @
        show_nat SIGNAL_MAX_SENDER_KEY_STATES @ '' states''))
      else validate_sender_states X {} states)"

definition signal_sender_key_state_structure ::
  "ext \<Rightarrow> SignalSenderKeyState \<Rightarrow> SenderKeyStateStructure core_result" where
  "signal_sender_key_state_structure X state =
     and_then (validate_signal_sender_key_state X state) (\<lambda>_.
     and_then (normalize_signal_public_key (sks_signing_public_key state)) (\<lambda>public_key.
     and_then (collect (\<lambda>message_key.
         and_then (validate_signal_sender_chain_key (ssk_seed message_key)) (\<lambda>_.
         Ok \<lparr>mk_iteration = Some (ssk_iteration message_key), mk_seed = Some (ssk_seed message_key)\<rparr>))
       (sks_message_keys state)) (\<lambda>message_keys.
     Ok \<lparr>s_sender_key_id = Some (sks_key_id state),
         s_sender_chain_key = Some \<lparr>c_iteration = Some (sck_iteration (sks_chain_key state)),
           c_seed = Some (sck_key (sks_chain_key state))\<rparr>,
         s_sender_signing_key = Some \<lparr>k_public = Some public_key,
           k_private = sks_signing_private_key state\<rparr>,
         s_sender_message_keys = message_keys\<rparr>)))"

definition sender_message_key_from_structure ::
  "SenderMessageKeyStructure \<Rightarrow> SignalSenderStoredMessageKey core_result" where
  "sender_message_key_from_structure message_key =
     and_then (ok_or (mk_seed message_key)
       (Protocol ''Signal sender-key message key missing seed'')) (\<lambda>seed.
     and_then (validate_signal_sender_chain_key seed) (\<lambda>_.
     and_then (ok_or (mk_iteration message_key)
       (Protocol ''Signal sender-key message key missing iteration'')) (\<lambda>iteration.
     Ok \<lparr>ssk_iteration = iteration, ssk_seed = seed\<rparr>)))"

definition signal_sender_key_state_from_structure ::
  "ext \<Rightarrow> SenderKeyStateStructure \<Rightarrow> SignalSenderKeyState core_result" where
  "signal_sender_key_state_from_structure X state =
     and_then (ok_or (s_sender_chain_key state)
       (Protocol ''Signal sender-key state missing chain key'')) (\<lambda>sender_chain_key.
     and_then (ok_or (c_seed sender_chain_key)
       (Protocol ''Signal sender-key state missing chain key seed'')) (\<lambda>chain_key.
     and_then (validate_signal_sender_chain_key chain_key) (\<lambda>_.
     and_then (ok_or (s_sender_signing_key state)
       (Protocol ''Signal sender-key state missing signing key'')) (\<lambda>sender_signing_key.
     and_then (ok_or (k_public sender_signing_key)
       (Protocol ''Signal sender-key state missing signing public key'')) (\<lambda>signing_public_key.
     and_then (validate_signal_sender_signing_key_wire_public signing_public_key) (\<lambda>_.
     and_then (case k_private sender_signing_key of
         Some private_key \<Rightarrow> and_then (signal_private_key_bytes private_key) (\<lambda>_. Ok ())
       | None \<Rightarrow> Ok ()) (\<lambda>_.
     and_then (collect sender_message_key_from_structure (s_sender_message_keys state)) (\<lambda>message_keys.
     and_then (ok_or (s_sender_key_id state)
       (Protocol ''Signal sender-key state missing id'')) (\<lambda>key_id.
     and_then (ok_or (c_iteration sender_chain_key)
       (Protocol ''Signal sender-key state missing chain iteration'')) (\<lambda>iteration.
     let decoded = \<lparr>sks_key_id = key_id,
           sks_chain_key = \<lparr>sck_key = chain_key, sck_iteration = iteration\<rparr>,
           sks_signing_public_key = signing_public_key,
           sks_signing_private_key = k_private sender_signing_key,
           sks_message_keys = message_keys\<rparr> in
     and_then (validate_signal_sender_key_state X decoded) (\<lambda>_. Ok decoded)))))))))))"

definition encode_signal_sender_key_record :: "ext \<Rightarrow> SignalSenderKeyRecord \<Rightarrow> bytes core_result" where
  "encode_signal_sender_key_record X states =
     and_then (validate_signal_sender_key_record X states) (\<lambda>_.
     and_then (collect (signal_sender_key_state_structure X) states) (\<lambda>sender_key_states.
     Ok (enc_sender_record X sender_key_states)))"

definition decode_signal_sender_key_record :: "ext \<Rightarrow> bytes \<Rightarrow> SignalSenderKeyRecord core_result" where
  "decode_signal_sender_key_record X input =
     and_then (map_err (\<lambda>err. Protocol (''invalid Signal sender-key record: '' @ err))
       (dec_sender_record X input)) (\<lambda>decoded.
     and_then (collect (signal_sender_key_state_from_structure X) decoded) (\<lambda>states.
     and_then (validate_signal_sender_key_record X states) (\<lambda>_. Ok states)))"

section \<open>The sender chain is a chain with a counter\<close>

lemma sender_chain_key_Ok [result_simps]: "validate_signal_sender_chain_key k = Inr u \<longleftrightarrow> length k = 32"
  by (auto simp: validate_signal_sender_chain_key_def)

lemma wire_public_Ok [result_simps]:
  "validate_signal_sender_signing_key_wire_public k = Inr u \<longleftrightarrow> key_normal k"
  by (cases k) (auto simp: validate_signal_sender_signing_key_wire_public_def key_normal_def
      normalize_key_cases prefixed_signal_public_key_def)

lemma sender_version_Ok [result_simps]:
  "validate_signal_sender_key_message_version v = Inr u \<longleftrightarrow> v = SIGNAL_WIRE_CURRENT_VERSION"
  by (auto simp: validate_signal_sender_key_message_version_def)

lemma sender_version_byte:
  "signal_sender_key_message_version (push_bit 4 SIGNAL_WIRE_CURRENT_VERSION OR SIGNAL_WIRE_CURRENT_VERSION) =
     Inr SIGNAL_WIRE_CURRENT_VERSION"
  by (simp add: signal_sender_key_message_version_def SIGNAL_WIRE_CURRENT_VERSION_def
      validate_signal_sender_key_message_version_def)

lemma sender_version_byte_Ok:
  "signal_sender_key_message_version b = Inr v \<Longrightarrow> v = SIGNAL_WIRE_CURRENT_VERSION"
  by (auto simp: signal_sender_key_message_version_def Let_def and_then_eq_Ok sender_version_Ok split: if_splits)

definition sender_keys_ok :: "SignalSenderMessageKeyMaterial \<Rightarrow> bool" where
  "sender_keys_ok k \<longleftrightarrow> length (smk_seed k) = 32 \<and> length (smk_cipher_key k) = 32 \<and> length (smk_iv k) = 16"

lemma derive_sender_keys_total:
  assumes "ext_ok X" "length seed = 32"
  shows "\<exists>k. derive_signal_sender_message_keys X i seed = Inr k \<and> sender_keys_ok k \<and>
    smk_iteration k = i \<and> smk_seed k = seed"
proof -
  obtain out where "hkdf_sha256 X seed 48 [] SIGNAL_SENDER_MESSAGE_KEYS_INFO = Inr out" "length out = 48"
    using hkdf_sha256_total [OF assms(1), of 48] by force
  with assms(2) show ?thesis by (simp add: derive_signal_sender_message_keys_def sender_keys_ok_def)
qed

lemma sender_seeds_total:
  assumes "ext_ok X" "length k = 32"
  shows "\<exists>s. derive_signal_sender_message_key_seed X k = Inr s \<and> length s = 32"
    and "\<exists>n. advance_signal_sender_chain_key X k = Inr n \<and> length n = 32"
  using hmac_sha256_total [OF assms(1), of SIGNAL_SENDER_MESSAGE_KEY_SEED k]
    hmac_sha256_total [OF assms(1), of SIGNAL_SENDER_CHAIN_KEY_SEED k] assms(2)
  by (auto simp: derive_signal_sender_message_key_seed_def advance_signal_sender_chain_key_def
      validate_signal_sender_chain_key_def)

lemma ratchet_sender_total:
  assumes "ext_ok X" "length (sck_key c) = 32" "sck_iteration c \<noteq> - 1"
  shows "\<exists>s. ratchet_signal_sender_chain X c = Inr s \<and> sender_keys_ok (scs_message_key s) \<and>
    length (sck_key (scs_next_chain_key s)) = 32"
proof -
  obtain sd n where "derive_signal_sender_message_key_seed X (sck_key c) = Inr sd" "length sd = 32"
    and "advance_signal_sender_chain_key X (sck_key c) = Inr n" "length n = 32"
    using sender_seeds_total [OF assms(1,2)] by blast
  moreover from this obtain k where
    "derive_signal_sender_message_keys X (sck_iteration c) sd = Inr k" "sender_keys_ok k"
    using derive_sender_keys_total [OF assms(1)] by blast
  moreover have "checked_add_u32 (sck_iteration c) 1 = Some (sck_iteration c + 1)"
    using assms(3) by (simp add: checked_add_one_Some)
  ultimately show ?thesis by (simp add: ratchet_signal_sender_chain_def)
qed

lemma ratchet_sender_step:
  assumes "ratchet_signal_sender_chain X c = Inr s"
  shows "sck_iteration c \<noteq> - 1 \<and> sck_iteration (scs_next_chain_key s) = sck_iteration c + 1 \<and>
    smk_iteration (scs_message_key s) = sck_iteration c \<and> length (sck_key c) = 32"
  using assms
  by (auto simp: ratchet_signal_sender_chain_def result_simps checked_add_one_Some
      derive_signal_sender_message_keys_def derive_signal_sender_message_key_seed_def split: if_splits)

lemma ratchet_sender_lengths:
  assumes "ext_ok X" "ratchet_signal_sender_chain X c = Inr s"
  shows "sender_keys_ok (scs_message_key s)" "length (sck_key (scs_next_chain_key s)) = 32"
  using ratchet_sender_total [OF assms(1), of c] ratchet_sender_step [OF assms(2)] assms(2) by auto

text \<open>The key stored for a skipped iteration is its seed, from which the key is derived again.\<close>

lemma ratchet_sender_derive:
  "ratchet_signal_sender_chain X c = Inr s \<Longrightarrow>
     derive_signal_sender_message_keys X (smk_iteration (scs_message_key s)) (smk_seed (scs_message_key s)) =
       Inr (scs_message_key s)"
  by (auto simp: ratchet_signal_sender_chain_def result_simps derive_signal_sender_message_keys_def
      split: if_splits)

definition sender_step ::
  "ext \<Rightarrow> SignalSenderChainKey \<Rightarrow> (SignalSenderMessageKeyMaterial \<times> SignalSenderChainKey) core_result" where
  "sender_step X c = and_then (ratchet_signal_sender_chain X c)
     (\<lambda>s. Ok (scs_message_key s, scs_next_chain_key s))"

definition sender_good :: "ext \<Rightarrow> SignalSenderChainKey \<Rightarrow> bool" where
  "sender_good X c \<longleftrightarrow> ext_ok X \<and> length (sck_key c) = 32"

lemma sender_step_iff:
  "sender_step X c = Inr (k, d) \<longleftrightarrow>
     (\<exists>s. ratchet_signal_sender_chain X c = Inr s \<and> k = scs_message_key s \<and> d = scs_next_chain_key s)"
  by (auto simp: sender_step_def and_then_eq_Ok)

interpretation sender_chain: key_chain "sender_step X" sck_iteration "sender_good X" for X
proof unfold_locales
  fix c k c'
  assume "sender_step X c = Inr (k, c')"
  then obtain s where s: "ratchet_signal_sender_chain X c = Inr s" "c' = scs_next_chain_key s"
    by (auto simp: sender_step_iff)
  then show "sck_iteration c \<noteq> - 1 \<and> sck_iteration c' = sck_iteration c + 1"
    using ratchet_sender_step by blast
  show "sender_good X c \<Longrightarrow> sender_good X c'"
    using s ratchet_sender_lengths by (auto simp: sender_good_def)
next
  fix c
  assume "sender_good X c" "sck_iteration c \<noteq> - 1"
  then obtain s where "ratchet_signal_sender_chain X c = Inr s"
    using ratchet_sender_total unfolding sender_good_def by blast
  then show "\<exists>k c'. sender_step X c = Inr (k, c')" by (simp add: sender_step_def)
qed

lemma sender_body_roundtrip:
  assumes "ext_ok X" "sender_keys_ok k"
  shows "\<exists>c. encrypt_signal_sender_message_body X p k = Inr c \<and> c \<noteq> [] \<and>
    decrypt_signal_sender_message_body X c k = Inr p"
  using aes_256_cbc_roundtrip [OF assms(1), of "smk_cipher_key k" "smk_iv k" p] assms(2)
  by (auto simp: encrypt_signal_sender_message_body_def decrypt_signal_sender_message_body_def
      sender_keys_ok_def)

section \<open>Well-formed states and records\<close>

definition sender_state_ok :: "ext \<Rightarrow> SignalSenderKeyState \<Rightarrow> bool" where
  "sender_state_ok X st \<longleftrightarrow> length (sck_key (sks_chain_key st)) = 32 \<and>
     key_normal (sks_signing_public_key st) \<and>
     (\<forall>k. sks_signing_private_key st = Some k \<longrightarrow> length k = 32 \<and>
        prefixed_signal_public_key (x_public X k) = sks_signing_public_key st) \<and>
     length (sks_message_keys st) \<le> 2000 \<and>
     (\<forall>e\<in>set (sks_message_keys st). ssk_iteration e < sck_iteration (sks_chain_key st) \<and>
        length (ssk_seed e) = 32) \<and>
     distinct (map ssk_iteration (sks_message_keys st))"

definition state_id :: "SignalSenderKeyState \<Rightarrow> u32 \<times> bytes" where
  "state_id st = (sks_key_id st, sks_signing_public_key st)"

definition sender_record_ok :: "ext \<Rightarrow> SignalSenderKeyRecord \<Rightarrow> bool" where
  "sender_record_ok X states \<longleftrightarrow> length states \<le> 5 \<and> (\<forall>st\<in>set states. sender_state_ok X st) \<and>
     distinct (map state_id states)"

lemma validate_sender_message_keys_Ok:
  "validate_sender_message_keys n seen es = Inr u \<longleftrightarrow>
     (\<forall>e\<in>set es. ssk_iteration e < n \<and> length (ssk_seed e) = 32 \<and> ssk_iteration e \<notin> seen) \<and>
     distinct (map ssk_iteration es)"
  by (induction es arbitrary: seen) (auto simp: and_then_eq_Ok sender_chain_key_Ok not_le image_iff)

lemma validate_sender_state_iff:
  assumes "key_normal (sks_signing_public_key st)"
  shows "validate_signal_sender_key_state X st = Inr u \<longleftrightarrow> sender_state_ok X st"
proof -
  have "(case sks_signing_private_key st of
         Some private_key \<Rightarrow>
           and_then (signal_private_key_bytes private_key) (\<lambda>private_key.
           let expected_public_key =
             prefixed_signal_public_key (public_key_from_private X private_key) in
           if sks_signing_public_key st \<noteq> expected_public_key
           then Err (Protocol ''Signal sender-key signing public key does not match private key'')
           else Ok ())
       | None \<Rightarrow> Ok ()) = Inr () \<longleftrightarrow>
     (\<forall>k. sks_signing_private_key st = Some k \<longrightarrow> length k = 32 \<and>
        prefixed_signal_public_key (x_public X k) = sks_signing_public_key st)"
    by (auto simp: and_then_eq_Ok private_bytes_Ok public_key_from_private_def Let_def
        split: option.split)
  then show ?thesis
    using assms by (auto simp: validate_signal_sender_key_state_def and_then_eq_Ok sender_chain_key_Ok
        validate_sender_message_keys_Ok sender_state_ok_def)
qed

lemma sender_state_ok_normal: "sender_state_ok X st \<Longrightarrow> key_normal (sks_signing_public_key st)"
  by (simp add: sender_state_ok_def)

lemma validate_sender_states_Ok:
  assumes "\<forall>st\<in>set states. key_normal (sks_signing_public_key st)"
  shows "validate_sender_states X seen states = Inr u \<longleftrightarrow>
    (\<forall>st\<in>set states. sender_state_ok X st \<and> state_id st \<notin> seen) \<and> distinct (map state_id states)"
  using assms
proof (induction states arbitrary: seen)
  case (Cons st states)
  have id: "(sks_key_id st, sks_signing_public_key st) = state_id st" by (simp add: state_id_def)
  have "validate_sender_states X seen (st # states) = Inr u \<longleftrightarrow>
      sender_state_ok X st \<and> state_id st \<notin> seen \<and>
      validate_sender_states X (insert (state_id st) seen) states = Inr u"
    using Cons.prems by (auto simp: and_then_eq_Ok validate_sender_state_iff id)
  then show ?case using Cons by (auto simp del: validate_sender_states.simps simp: image_iff)
qed simp

lemma validate_sender_record_iff:
  assumes "\<forall>st\<in>set states. key_normal (sks_signing_public_key st)"
  shows "validate_signal_sender_key_record X states = Inr u \<longleftrightarrow> sender_record_ok X states"
  by (auto simp: validate_signal_sender_key_record_def validate_sender_states_Ok [OF assms]
      sender_record_ok_def)

lemma sender_record_ok_validates:
  "sender_record_ok X states \<Longrightarrow> validate_signal_sender_key_record X states = Inr ()"
  by (subst validate_sender_record_iff) (auto simp: sender_record_ok_def sender_state_ok_normal)

section \<open>Round trips\<close>

lemma collect_roundtrip:
  assumes "\<And>x. x \<in> set xs \<Longrightarrow> \<exists>y. f x = Inr y \<and> g y = Inr x"
  shows "\<exists>ys. collect f xs = Inr ys \<and> collect g ys = Inr xs"
  using assms
proof (induction xs)
  case (Cons x xs)
  then obtain y ys where "f x = Inr y" "g y = Inr x" "collect f xs = Inr ys" "collect g ys = Inr xs"
    by fastforce
  then show ?case by (intro exI [of _ "y # ys"]) simp
qed simp

lemma sender_eta:
  "\<lparr>sck_key = sck_key c, sck_iteration = sck_iteration c\<rparr> = c"
  "\<lparr>sks_key_id = sks_key_id st, sks_chain_key = sks_chain_key st,
    sks_signing_public_key = sks_signing_public_key st,
    sks_signing_private_key = sks_signing_private_key st, sks_message_keys = sks_message_keys st\<rparr> = st"
  by simp_all

lemma sender_state_roundtrip:
  assumes "sender_state_ok X st"
  shows "\<exists>s. signal_sender_key_state_structure X st = Inr s \<and>
    signal_sender_key_state_from_structure X s = Inr st"
proof -
  have normal: "key_normal (sks_signing_public_key st)" by (rule sender_state_ok_normal [OF assms])
  have valid: "validate_signal_sender_key_state X st = Inr ()"
    using validate_sender_state_iff [OF normal] assms by blast
  have parts: "length (sck_key (sks_chain_key st)) = 32"
    "\<forall>k. sks_signing_private_key st = Some k \<longrightarrow> length k = 32"
    "\<forall>e\<in>set (sks_message_keys st). length (ssk_seed e) = 32"
    using assms by (auto simp: sender_state_ok_def)
  obtain mks where mks: "collect (\<lambda>message_key.
         and_then (validate_signal_sender_chain_key (ssk_seed message_key)) (\<lambda>_.
         Ok \<lparr>mk_iteration = Some (ssk_iteration message_key), mk_seed = Some (ssk_seed message_key)\<rparr>))
       (sks_message_keys st) = Inr mks"
    "collect sender_message_key_from_structure mks = Inr (sks_message_keys st)"
    using collect_roundtrip [of "sks_message_keys st" "\<lambda>message_key.
         and_then (validate_signal_sender_chain_key (ssk_seed message_key)) (\<lambda>_.
         Ok \<lparr>mk_iteration = Some (ssk_iteration message_key), mk_seed = Some (ssk_seed message_key)\<rparr>)"
        sender_message_key_from_structure] parts(3)
    by (auto simp: validate_signal_sender_chain_key_def sender_message_key_from_structure_def)
  have "(case sks_signing_private_key st of
         Some private_key \<Rightarrow> and_then (signal_private_key_bytes private_key) (\<lambda>_. Ok ())
       | None \<Rightarrow> Ok ()) = (Inr () :: unit core_result)"
    using parts(2) by (auto split: option.split)
  moreover have "validate_signal_sender_signing_key_wire_public (sks_signing_public_key st) = Inr ()"
    using normal by (simp add: wire_public_Ok)
  moreover have "validate_signal_sender_chain_key (sck_key (sks_chain_key st)) = Inr ()"
    using parts(1) by (simp add: sender_chain_key_Ok)
  ultimately show ?thesis
    using mks valid normal
    by (simp add: signal_sender_key_state_structure_def signal_sender_key_state_from_structure_def Let_def sender_eta)
qed

lemma sender_record_encoded:
  assumes "ext_ok X" "sender_record_ok X states"
  shows "\<exists>bs. encode_signal_sender_key_record X states = Inr bs \<and>
    decode_signal_sender_key_record X bs = Inr states"
proof -
  have "\<exists>ss. collect (signal_sender_key_state_structure X) states = Inr ss \<and>
      collect (signal_sender_key_state_from_structure X) ss = Inr states"
    using assms(2) sender_state_roundtrip by (intro collect_roundtrip) (auto simp: sender_record_ok_def)
  then obtain ss where "collect (signal_sender_key_state_structure X) states = Inr ss"
    "collect (signal_sender_key_state_from_structure X) ss = Inr states"
    by blast
  then show ?thesis
    using sender_record_ok_validates [OF assms(2)] ext_wire(5) [OF assms(1)]
    by (simp add: encode_signal_sender_key_record_def decode_signal_sender_key_record_def)
qed

lemma sender_state_from_structure_ok:
  assumes "signal_sender_key_state_from_structure X s = Inr st"
  shows "sender_state_ok X st"
proof -
  have "key_normal (sks_signing_public_key st)" "validate_signal_sender_key_state X st = Inr ()"
    using assms
    by (auto simp: signal_sender_key_state_from_structure_def Let_def and_then_eq_Ok wire_public_Ok)
  then show ?thesis using validate_sender_state_iff by blast
qed

lemma decoded_sender_record_ok:
  assumes "decode_signal_sender_key_record X bs = Inr states"
  shows "sender_record_ok X states"
proof -
  obtain ss where ss: "collect (signal_sender_key_state_from_structure X) ss = Inr states"
    and valid: "validate_signal_sender_key_record X states = Inr ()"
    using assms by (auto simp: decode_signal_sender_key_record_def and_then_eq_Ok)
  have "\<forall>st\<in>set states. sender_state_ok X st"
  proof
    fix st
    assume "st \<in> set states"
    then obtain s where "signal_sender_key_state_from_structure X s = Inr st"
      using ss by (auto simp: collect_Ok_iff list_all2_conv_all_nth in_set_conv_nth)
    then show "sender_state_ok X st" by (rule sender_state_from_structure_ok)
  qed
  then show ?thesis using valid validate_sender_record_iff sender_state_ok_normal by blast
qed

lemma encoded_sender_record_ok:
  assumes "ext_ok X" "encode_signal_sender_key_record X states = Inr bs"
    and "\<forall>st\<in>set states. key_normal (sks_signing_public_key st)"
  shows "sender_record_ok X states \<and> decode_signal_sender_key_record X bs = Inr states"
proof -
  have "sender_record_ok X states"
    using assms(2) validate_sender_record_iff [OF assms(3)]
    by (auto simp: encode_signal_sender_key_record_def and_then_eq_Ok)
  then show ?thesis using sender_record_encoded [OF assms(1)] assms(2) by fastforce
qed

end
