(* ===== verification/SenderMessage.thy ===== *)
theory SenderMessage
  imports SenderKey
begin

text \<open>
  Group messages in \<^verbatim>\<open>crates/wa-core/src/signal.rs\<close>: signing, encoding and verifying a sender-key
  message, taking in a distribution message, and encrypting and decrypting against a stored
  sender-key record.
\<close>

section \<open>Messages\<close>

record SignalSenderKeyMessage =
  skm_message_version :: u8
  skm_key_id :: u32
  skm_iteration :: u32
  skm_ciphertext :: bytes
  skm_signature :: bytes

definition validate_signal_sender_key_message :: "SignalSenderKeyMessage \<Rightarrow> unit core_result" where
  "validate_signal_sender_key_message message =
     and_then (validate_signal_sender_key_message_version (skm_message_version message)) (\<lambda>_.
     if skm_ciphertext message = []
     then Err (Protocol ''Signal sender-key message ciphertext must not be empty'')
     else if length (skm_signature message) \<noteq> SIGNAL_SENDER_KEY_SIGNATURE_LEN
     then Err (Protocol (''invalid Signal sender-key message signature length: '' @
       show_nat (length (skm_signature message))))
     else Ok ())"

definition encode_signal_sender_key_message_payload ::
  "ext \<Rightarrow> SignalSenderKeyMessage \<Rightarrow> bytes core_result" where
  "encode_signal_sender_key_message_payload X message =
     and_then (validate_signal_sender_key_message_version (skm_message_version message)) (\<lambda>_.
     if skm_ciphertext message = []
     then Err (Protocol ''Signal sender-key message ciphertext must not be empty'')
     else
       let proto = \<lparr>m_id = Some (skm_key_id message), m_iteration = Some (skm_iteration message),
             m_ciphertext = Some (skm_ciphertext message)\<rparr> in
       Ok ((push_bit 4 (skm_message_version message) OR SIGNAL_WIRE_CURRENT_VERSION) #
         enc_sender_message X proto))"

text \<open>\<open>rnd\<close> is the randomness of the signature.\<close>

definition sign_signal_sender_key_message ::
  "ext \<Rightarrow> bytes \<Rightarrow> u32 \<Rightarrow> u32 \<Rightarrow> bytes \<Rightarrow> bytes \<Rightarrow> SignalSenderKeyMessage core_result" where
  "sign_signal_sender_key_message X rnd key_id iteration ciphertext signing_private_key =
     (let message = \<lparr>skm_message_version = SIGNAL_WIRE_CURRENT_VERSION, skm_key_id = key_id,
            skm_iteration = iteration, skm_ciphertext = ciphertext, skm_signature = []\<rparr> in
      and_then (encode_signal_sender_key_message_payload X message) (\<lambda>signed_payload.
      and_then (map_err Crypto (sign_x25519 X rnd signing_private_key signed_payload)) (\<lambda>signature.
      Ok (message\<lparr>skm_signature := signature\<rparr>))))"

definition encode_signal_sender_key_message :: "ext \<Rightarrow> SignalSenderKeyMessage \<Rightarrow> bytes core_result" where
  "encode_signal_sender_key_message X message =
     and_then (validate_signal_sender_key_message message) (\<lambda>_.
     and_then (encode_signal_sender_key_message_payload X message) (\<lambda>signed_payload.
     Ok (signed_payload @ skm_signature message)))"

definition decode_signal_sender_key_message :: "ext \<Rightarrow> bytes \<Rightarrow> SignalSenderKeyMessage core_result" where
  "decode_signal_sender_key_message X input =
     (if length input \<le> SIGNAL_SENDER_KEY_SIGNATURE_LEN
      then Err (Protocol (''Signal sender-key message is too short: '' @ show_nat (length input)))
      else
        and_then (signal_sender_key_message_version (input ! 0)) (\<lambda>message_version.
        let proto_end = length input - SIGNAL_SENDER_KEY_SIGNATURE_LEN in
        and_then (map_err (\<lambda>err. Protocol (''invalid Signal sender-key message: '' @ err))
          (dec_sender_message X (drop 1 (take proto_end input)))) (\<lambda>decoded.
        and_then (ok_or (m_id decoded) (Protocol ''Signal sender-key message missing id'')) (\<lambda>key_id.
        and_then (ok_or (m_iteration decoded)
          (Protocol ''Signal sender-key message missing iteration'')) (\<lambda>iteration.
        and_then (ok_or (m_ciphertext decoded)
          (Protocol ''Signal sender-key message missing ciphertext'')) (\<lambda>ciphertext.
        let message = \<lparr>skm_message_version = message_version, skm_key_id = key_id,
              skm_iteration = iteration, skm_ciphertext = ciphertext,
              skm_signature = drop proto_end input\<rparr> in
        and_then (validate_signal_sender_key_message message) (\<lambda>_. Ok message)))))))"

definition verify_signal_sender_key_signature ::
  "verifier \<Rightarrow> bytes \<Rightarrow> bytes \<Rightarrow> bytes \<Rightarrow> unit core_result" where
  "verify_signal_sender_key_signature verify_signature signing_public_key signed_payload signature =
     (if length signature \<noteq> SIGNAL_SENDER_KEY_SIGNATURE_LEN
      then Err (Protocol (''invalid Signal sender-key message signature length: '' @
        show_nat (length signature)))
      else if verify_signature signing_public_key signed_payload signature then Ok ()
      else Err (Protocol ''invalid Signal sender-key message signature''))"

definition verify_signal_sender_key_message ::
  "ext \<Rightarrow> verifier \<Rightarrow> SignalSenderKeyMessage \<Rightarrow> bytes \<Rightarrow> unit core_result" where
  "verify_signal_sender_key_message X V message signing_public_key =
     and_then (validate_signal_sender_key_message message) (\<lambda>_.
     and_then (signal_public_key_bytes signing_public_key) (\<lambda>signing_public_key.
     and_then (encode_signal_sender_key_message_payload X message) (\<lambda>signed_payload.
     verify_signal_sender_key_signature V signing_public_key signed_payload (skm_signature message))))"

definition verify_signal_sender_key_message_bytes ::
  "ext \<Rightarrow> verifier \<Rightarrow> bytes \<Rightarrow> bytes \<Rightarrow> SignalSenderKeyMessage core_result" where
  "verify_signal_sender_key_message_bytes X V input signing_public_key =
     and_then (decode_signal_sender_key_message X input) (\<lambda>message.
     and_then (verify_signal_sender_key_message X V message signing_public_key) (\<lambda>_. Ok message))"

section \<open>Taking in a distribution message\<close>

definition apply_signal_sender_key_distribution ::
  "ext \<Rightarrow> SignalSenderKeyRecord \<Rightarrow> SignalSenderKeyDistributionMessage \<Rightarrow>
     SignalSenderKeyRecord core_result" where
  "apply_signal_sender_key_distribution X states distribution =
     and_then (validate_signal_sender_key_record X states) (\<lambda>_.
     and_then (validate_signal_sender_key_distribution_message distribution) (\<lambda>_.
     and_then (normalize_signal_public_key (sdm_signing_key distribution)) (\<lambda>signing_key.
     let index = position (\<lambda>state. sks_key_id state = sdm_key_id distribution \<and>
           (case normalize_signal_public_key (sks_signing_public_key state) of
              Inr public_key \<Rightarrow> public_key = signing_key | Inl _ \<Rightarrow> False)) states;
         existing = map_option (\<lambda>i. states ! i) index;
         states = (case index of Some i \<Rightarrow> remove_at i states | None \<Rightarrow> states);
         states = filter (\<lambda>state. sks_key_id state \<noteq> sdm_key_id distribution) states;
         state = (case existing of
           Some state \<Rightarrow>
             if sdm_iteration distribution > sck_iteration (sks_chain_key state)
             then state\<lparr>sks_chain_key := \<lparr>sck_key = sdm_chain_key distribution,
                    sck_iteration = sdm_iteration distribution\<rparr>\<rparr>
             else state
         | None \<Rightarrow>
             \<lparr>sks_key_id = sdm_key_id distribution,
              sks_chain_key = \<lparr>sck_key = sdm_chain_key distribution,
                sck_iteration = sdm_iteration distribution\<rparr>,
              sks_signing_public_key = signing_key, sks_signing_private_key = None,
              sks_message_keys = []\<rparr>);
         states = take SIGNAL_MAX_SENDER_KEY_STATES (state # states) in
     and_then (validate_signal_sender_key_record X states) (\<lambda>_. Ok states))))"

definition process_signal_sender_key_distribution_record ::
  "ext \<Rightarrow> bytes option \<Rightarrow> SignalSenderKeyDistributionMessage \<Rightarrow> bytes core_result" where
  "process_signal_sender_key_distribution_record X existing_record distribution =
     (let states = (case Option.bind existing_record (\<lambda>r. ok (decode_signal_sender_key_record X r)) of
          Some states \<Rightarrow> states | None \<Rightarrow> []) in
      and_then (apply_signal_sender_key_distribution X states distribution) (\<lambda>states.
      encode_signal_sender_key_record X states))"

section \<open>The local sender key\<close>

record SignalSenderKeyDistributionRecord =
  sdr_key :: string
  sdr_record :: bytes
  sdr_distribution :: SignalSenderKeyDistributionMessage
  sdr_distribution_bytes :: bytes
  sdr_created :: bool

text \<open>\<open>key_id\<close>, \<open>chain_key\<close> and \<open>signing_rnd\<close> are what the random generator returns.\<close>

definition create_signal_sender_key_distribution_record ::
  "ext \<Rightarrow> u32 \<Rightarrow> bytes \<Rightarrow> bytes \<Rightarrow> string \<Rightarrow> SignalSenderKeyDistributionRecord core_result" where
  "create_signal_sender_key_distribution_record X key_id chain_key signing_rnd key =
     (let signing_key = generate_key_pair X signing_rnd in
      and_then (build_signal_sender_key_distribution_message key_id 0 chain_key
        (kp_public signing_key)) (\<lambda>distribution.
      and_then (encode_signal_sender_key_record X
        [\<lparr>sks_key_id = key_id, sks_chain_key = \<lparr>sck_key = chain_key, sck_iteration = 0\<rparr>,
          sks_signing_public_key = sdm_signing_key distribution,
          sks_signing_private_key = Some (kp_private signing_key), sks_message_keys = []\<rparr>])
        (\<lambda>r.
      and_then (encode_signal_sender_key_distribution_message X distribution) (\<lambda>distribution_bytes.
      Ok \<lparr>sdr_key = key, sdr_record = r, sdr_distribution = distribution,
          sdr_distribution_bytes = distribution_bytes, sdr_created = True\<rparr>))))"

definition signal_sender_key_distribution_record_from_encoded ::
  "ext \<Rightarrow> string \<Rightarrow> bytes \<Rightarrow> bool \<Rightarrow> SignalSenderKeyDistributionRecord core_result" where
  "signal_sender_key_distribution_record_from_encoded X key encoded created =
     and_then (decode_signal_sender_key_record X encoded) (\<lambda>states.
     case states of
       [] \<Rightarrow> Err (Protocol ''Signal sender-key record has no state'')
     | state # _ \<Rightarrow>
         if sks_signing_private_key state = None
         then Err (Protocol ''local Signal sender-key state missing signing private key'')
         else
           and_then (build_signal_sender_key_distribution_message (sks_key_id state)
             (sck_iteration (sks_chain_key state)) (sck_key (sks_chain_key state))
             (sks_signing_public_key state)) (\<lambda>distribution.
           and_then (encode_signal_sender_key_distribution_message X distribution) (\<lambda>distribution_bytes.
           Ok \<lparr>sdr_key = key, sdr_record = encoded, sdr_distribution = distribution,
               sdr_distribution_bytes = distribution_bytes, sdr_created = created\<rparr>)))"

section \<open>Encrypting\<close>

record SignalSenderKeyEncryption =
  ske_record :: bytes
  ske_message :: SignalSenderKeyMessage
  ske_message_bytes :: bytes

record SignalSenderKeyDecryption =
  skd_record :: bytes
  skd_message :: SignalSenderKeyMessage
  skd_plaintext :: bytes

definition encrypt_signal_sender_key_record_message ::
  "ext \<Rightarrow> bytes \<Rightarrow> bytes \<Rightarrow> bytes \<Rightarrow> SignalSenderKeyEncryption core_result" where
  "encrypt_signal_sender_key_record_message X rnd encoded plaintext =
     and_then (decode_signal_sender_key_record X encoded) (\<lambda>states.
     case states of
       [] \<Rightarrow> Err (Protocol ''Signal sender-key record has no state'')
     | state # older \<Rightarrow>
         and_then (ok_or (sks_signing_private_key state)
           (Protocol ''Signal sender-key state missing signing private key'')) (\<lambda>signing_private_key.
         and_then (ratchet_signal_sender_chain X (sks_chain_key state)) (\<lambda>step.
         and_then (encrypt_signal_sender_message_body X plaintext (scs_message_key step)) (\<lambda>ciphertext.
         and_then (sign_signal_sender_key_message X rnd (sks_key_id state)
           (smk_iteration (scs_message_key step)) ciphertext signing_private_key) (\<lambda>message.
         and_then (encode_signal_sender_key_message X message) (\<lambda>message_bytes.
         and_then (encode_signal_sender_key_record X
           (state\<lparr>sks_chain_key := scs_next_chain_key step\<rparr> # older)) (\<lambda>r.
         Ok \<lparr>ske_record = r, ske_message = message, ske_message_bytes = message_bytes\<rparr>)))))))"

section \<open>Decrypting\<close>

definition push_signal_sender_stored_message_key ::
  "SignalSenderKeyState \<Rightarrow> SignalSenderStoredMessageKey \<Rightarrow> SignalSenderKeyState core_result" where
  "push_signal_sender_stored_message_key state message_key =
     and_then (validate_signal_sender_chain_key (ssk_seed message_key)) (\<lambda>_.
     let keys = sks_message_keys state @ [message_key] in
     if length keys > SIGNAL_MAX_SENDER_MESSAGE_KEYS
     then Ok (state\<lparr>sks_message_keys := drop (length keys - SIGNAL_MAX_SENDER_MESSAGE_KEYS) keys\<rparr>)
     else Ok (state\<lparr>sks_message_keys := keys\<rparr>))"

lemma push_sender_chain [simp]:
  "push_signal_sender_stored_message_key st e = Inr st' \<Longrightarrow> sks_chain_key st' = sks_chain_key st"
  by (auto simp: push_signal_sender_stored_message_key_def Let_def and_then_eq_Ok split: if_splits)

text \<open>The \<open>while\<close> loop of \<open>signal_sender_message_key_for_iteration\<close>.\<close>

function store_sender_keys_until ::
  "ext \<Rightarrow> SignalSenderKeyState \<Rightarrow> u32 \<Rightarrow> SignalSenderKeyState core_result" where
  "store_sender_keys_until X state iteration =
     (if sck_iteration (sks_chain_key state) < iteration then
        and_then (ratchet_signal_sender_chain X (sks_chain_key state)) (\<lambda>step.
        and_then (push_signal_sender_stored_message_key state
          \<lparr>ssk_iteration = smk_iteration (scs_message_key step),
           ssk_seed = smk_seed (scs_message_key step)\<rparr>) (\<lambda>pushed.
        store_sender_keys_until X (pushed\<lparr>sks_chain_key := scs_next_chain_key step\<rparr>) iteration))
      else Ok state)"
  by pat_completeness auto
termination
  by (relation "measure (\<lambda>(X, state, iteration). unat iteration - unat (sck_iteration (sks_chain_key state)))")
    (auto simp: word_less_nat_alt unat_Suc_u32 dest!: ratchet_sender_step)

declare store_sender_keys_until.simps [simp del]

datatype SignalSenderMessageKeyLookup =
    Current SignalSenderMessageKeyMaterial
  | Stored nat SignalSenderMessageKeyMaterial

fun lookup_message_key :: "SignalSenderMessageKeyLookup \<Rightarrow> SignalSenderMessageKeyMaterial" where
  "lookup_message_key (Current message_key) = message_key"
| "lookup_message_key (Stored index message_key) = message_key"

definition signal_sender_message_key_for_iteration ::
  "ext \<Rightarrow> SignalSenderKeyState \<Rightarrow> u32 \<Rightarrow> (SignalSenderMessageKeyLookup \<times> SignalSenderKeyState) core_result"
  where
  "signal_sender_message_key_for_iteration X state iteration =
     and_then (validate_signal_sender_key_state X state) (\<lambda>_.
     if sck_iteration (sks_chain_key state) > iteration then
       and_then (ok_or (position (\<lambda>message_key. ssk_iteration message_key = iteration) (sks_message_keys state))
         (Protocol (''duplicate Signal sender-key message iteration: '' @ show_nat (unat iteration)))) (\<lambda>index.
       and_then (derive_signal_sender_message_keys X iteration
         (ssk_seed (sks_message_keys state ! index))) (\<lambda>message_key.
       Ok (Stored index message_key, state)))
     else
       let jump = iteration - sck_iteration (sks_chain_key state) in
       if jump > SIGNAL_MAX_SENDER_FORWARD_JUMPS
       then Err (Protocol (''Signal sender-key message is too far in the future: '' @ show_nat (unat jump)))
       else
         and_then (store_sender_keys_until X state iteration) (\<lambda>state.
         and_then (ratchet_signal_sender_chain X (sks_chain_key state)) (\<lambda>step.
         Ok (Current (scs_message_key step), state\<lparr>sks_chain_key := scs_next_chain_key step\<rparr>))))"

text \<open>
  The loop over the states with the message's key id: the first whose key verifies the message,
  with its index; otherwise the last verification error, if any state had the id.
\<close>

fun verify_with_states ::
  "ext \<Rightarrow> verifier \<Rightarrow> bytes \<Rightarrow> u32 \<Rightarrow> nat \<Rightarrow> CoreError option \<Rightarrow> SignalSenderKeyState list \<Rightarrow>
     CoreError option + (nat \<times> SignalSenderKeyMessage)" where
  "verify_with_states X V message key_id index verify_error [] = Inl verify_error"
| "verify_with_states X V message key_id index verify_error (state # rest) =
     (if sks_key_id state = key_id then
        (case verify_signal_sender_key_message_bytes X V message (sks_signing_public_key state) of
           Inr verified \<Rightarrow> Inr (index, verified)
         | Inl err \<Rightarrow> verify_with_states X V message key_id (Suc index) (Some err) rest)
      else verify_with_states X V message key_id (Suc index) verify_error rest)"

definition decrypt_signal_sender_key_record_message ::
  "ext \<Rightarrow> verifier \<Rightarrow> bytes \<Rightarrow> bytes \<Rightarrow> SignalSenderKeyDecryption core_result" where
  "decrypt_signal_sender_key_record_message X V encoded message =
     and_then (decode_signal_sender_key_record X encoded) (\<lambda>states.
     and_then (decode_signal_sender_key_message X message) (\<lambda>decoded_message.
     case verify_with_states X V message (skm_key_id decoded_message) 0 None states of
       Inl (Some err) \<Rightarrow> Err err
     | Inl None \<Rightarrow> Err (Protocol (''Signal sender-key record missing state for key id '' @
         show_nat (unat (skm_key_id decoded_message))))
     | Inr (state_index, verified_message) \<Rightarrow>
         and_then (signal_sender_message_key_for_iteration X (states ! state_index)
           (skm_iteration verified_message)) (\<lambda>(message_key, state).
         and_then (decrypt_signal_sender_message_body X (skm_ciphertext verified_message)
           (lookup_message_key message_key)) (\<lambda>plaintext.
         let state = (case message_key of
               Stored index _ \<Rightarrow> state\<lparr>sks_message_keys := remove_at index (sks_message_keys state)\<rparr>
             | Current _ \<Rightarrow> state) in
         and_then (encode_signal_sender_key_record X (states[state_index := state])) (\<lambda>r.
         Ok \<lparr>skd_record = r, skd_message = verified_message, skd_plaintext = plaintext\<rparr>)))))"

end
