(* ===== verification/SenderDelivery.thy ===== *)
theory SenderDelivery
  imports SenderMessage Delivery
begin

text \<open>
  What the group messages of \<^verbatim>\<open>crates/wa-core/src/signal.rs\<close> guarantee: a signed message is
  accepted under the key of its sender, a member that took in the distribution message decrypts
  what the sender sends after it, in any order and once, and the stored records stay sound.
\<close>

section \<open>Signed messages\<close>

text \<open>The bytes \<open>bs\<close> are the message of iteration \<open>i\<close> that carries \<open>p\<close> under the message key \<open>k\<close>.\<close>

definition group_message ::
  "ext \<Rightarrow> verifier \<Rightarrow> u32 \<Rightarrow> bytes \<Rightarrow> SignalSenderMessageKeyMaterial \<Rightarrow> u32 \<Rightarrow> bytes \<Rightarrow> bytes \<Rightarrow> bool" where
  "group_message X V key_id signing_key k i p bs \<longleftrightarrow>
     (\<exists>m. decode_signal_sender_key_message X bs = Inr m \<and> skm_key_id m = key_id \<and> skm_iteration m = i \<and>
       verify_signal_sender_key_message_bytes X V bs signing_key = Inr m \<and>
       decrypt_signal_sender_message_body X (skm_ciphertext m) k = Inr p)"

lemma signed_message:
  assumes X: "ext_ok X" and V: "verifier_ok X V" and k: "length k = 32" and c: "c \<noteq> []"
  shows "\<exists>m bs. sign_signal_sender_key_message X rnd key_id i c k = Inr m \<and>
    encode_signal_sender_key_message X m = Inr bs \<and> decode_signal_sender_key_message X bs = Inr m \<and>
    verify_signal_sender_key_message_bytes X V bs (prefixed_signal_public_key (x_public X k)) = Inr m \<and>
    skm_key_id m = key_id \<and> skm_iteration m = i \<and> skm_ciphertext m = c"
proof -
  let ?proto = "\<lparr>m_id = Some key_id, m_iteration = Some i, m_ciphertext = Some c\<rparr>"
  let ?v = "push_bit 4 SIGNAL_WIRE_CURRENT_VERSION OR SIGNAL_WIRE_CURRENT_VERSION"
  let ?payload = "?v # enc_sender_message X ?proto"
  define sig where "sig = x_xed_sign X k ?payload rnd"
  have sig: "length sig = 64" unfolding sig_def by (rule ext_keys(4) [OF X])
  let ?m = "\<lparr>skm_message_version = SIGNAL_WIRE_CURRENT_VERSION, skm_key_id = key_id,
    skm_iteration = i, skm_ciphertext = c, skm_signature = sig\<rparr>"
  have valid: "validate_signal_sender_key_message ?m = Inr ()"
    using sig c by (simp add: validate_signal_sender_key_message_def validate_signal_sender_key_message_version_def)
  have payload: "encode_signal_sender_key_message_payload X (?m\<lparr>skm_signature := s\<rparr>) = Inr ?payload" for s
    using c by (simp add: encode_signal_sender_key_message_payload_def validate_signal_sender_key_message_version_def)
  have sign: "sign_signal_sender_key_message X rnd key_id i c k = Inr ?m"
    using payload [of "[]"] k
    by (simp add: sign_signal_sender_key_message_def sign_x25519_def sig_def)
  have enc: "encode_signal_sender_key_message X ?m = Inr (?payload @ sig)"
    using valid payload [of sig] by (simp add: encode_signal_sender_key_message_def)
  have dec: "decode_signal_sender_key_message X (?payload @ sig) = Inr ?m"
    using sig valid sender_version_byte ext_wire(4) [OF X]
    by (simp add: decode_signal_sender_key_message_def Let_def)
  have "length (x_public X k) = 32" by (rule ext_keys(1) [OF X k])
  moreover have "V (x_public X k) ?payload sig" using V k unfolding verifier_ok_def sig_def by blast
  ultimately have "verify_signal_sender_key_message_bytes X V (?payload @ sig)
      (prefixed_signal_public_key (x_public X k)) = Inr ?m"
    using valid dec payload [of sig] sig
    by (simp add: verify_signal_sender_key_message_bytes_def verify_signal_sender_key_message_def
        verify_signal_sender_key_signature_def)
  with sign enc dec show ?thesis by auto
qed

section \<open>The sender\<close>

lemma sender_state_advanced:
  assumes X: "ext_ok X" and st: "sender_state_ok X st"
    and step: "ratchet_signal_sender_chain X (sks_chain_key st) = Inr s"
  shows "sender_state_ok X (st\<lparr>sks_chain_key := scs_next_chain_key s\<rparr>)"
proof -
  have "sck_iteration (sks_chain_key st) \<noteq> - 1"
    and next_it: "sck_iteration (scs_next_chain_key s) = sck_iteration (sks_chain_key st) + 1"
    using ratchet_sender_step [OF step] by auto
  then have "sck_iteration (sks_chain_key st) < sck_iteration (scs_next_chain_key s)"
    by (simp add: word_less_nat_alt unat_Suc_u32)
  moreover have "\<forall>e\<in>set (sks_message_keys st). ssk_iteration e < sck_iteration (sks_chain_key st)"
    using st by (simp add: sender_state_ok_def)
  ultimately have "\<forall>e\<in>set (sks_message_keys st). ssk_iteration e < sck_iteration (scs_next_chain_key s)"
    using less_trans by blast
  then show ?thesis
    using st ratchet_sender_lengths(2) [OF X step] by (simp add: sender_state_ok_def)
qed

lemma sender_record_update:
  assumes "sender_record_ok X states" "sender_state_ok X st" "i < length states"
    and "state_id st = state_id (states ! i)"
  shows "sender_record_ok X (states[i := st])"
proof -
  have "map state_id (states[i := st]) = map state_id states"
    using assms(3,4) by (simp add: map_update list_update_same_conv)
  moreover have "\<forall>x\<in>set (states[i := st]). sender_state_ok X x"
    using set_update_subset_insert [of states i st] assms(1,2) unfolding sender_record_ok_def by blast
  ultimately show ?thesis using assms(1) by (simp add: sender_record_ok_def)
qed

text \<open>What a sender can do with its stored record: its first state has the private key.\<close>

definition can_send_group :: "ext \<Rightarrow> bytes \<Rightarrow> SignalSenderKeyState \<Rightarrow> SignalSenderKeyState list \<Rightarrow> bool" where
  "can_send_group X stored st older \<longleftrightarrow>
     decode_signal_sender_key_record X stored = Inr (st # older) \<and> sks_signing_private_key st \<noteq> None"

lemma encrypt_group_step:
  assumes X: "ext_ok X" and V: "verifier_ok X V" and snd: "can_send_group X stored st older"
    and it: "sck_iteration (sks_chain_key st) \<noteq> - 1"
  shows "\<exists>e k c. encrypt_signal_sender_key_record_message X rnd stored p = Inr e \<and>
    sender_step X (sks_chain_key st) = Inr (k, c) \<and>
    can_send_group X (ske_record e) (st\<lparr>sks_chain_key := c\<rparr>) older \<and>
    group_message X V (sks_key_id st) (sks_signing_public_key st) k
      (sck_iteration (sks_chain_key st)) p (ske_message_bytes e)"
proof -
  have dec: "decode_signal_sender_key_record X stored = Inr (st # older)"
    using snd by (simp add: can_send_group_def)
  obtain k where k: "sks_signing_private_key st = Some k" using snd by (auto simp: can_send_group_def)
  have rec: "sender_record_ok X (st # older)" by (rule decoded_sender_record_ok [OF dec])
  then have st: "sender_state_ok X st" by (simp add: sender_record_ok_def)
  have key: "length k = 32" "prefixed_signal_public_key (x_public X k) = sks_signing_public_key st"
    and chain: "length (sck_key (sks_chain_key st)) = 32"
    using st k by (auto simp: sender_state_ok_def)
  obtain s where s: "ratchet_signal_sender_chain X (sks_chain_key st) = Inr s"
    "sender_keys_ok (scs_message_key s)"
    using ratchet_sender_total [OF X chain it] by blast
  obtain c where c: "encrypt_signal_sender_message_body X p (scs_message_key s) = Inr c" "c \<noteq> []"
    "decrypt_signal_sender_message_body X c (scs_message_key s) = Inr p"
    using sender_body_roundtrip [OF X s(2)] by blast
  obtain m bs where m: "sign_signal_sender_key_message X rnd (sks_key_id st)
      (smk_iteration (scs_message_key s)) c k = Inr m" "encode_signal_sender_key_message X m = Inr bs"
    "decode_signal_sender_key_message X bs = Inr m"
    "verify_signal_sender_key_message_bytes X V bs (sks_signing_public_key st) = Inr m"
    "skm_key_id m = sks_key_id st" "skm_iteration m = smk_iteration (scs_message_key s)"
    "skm_ciphertext m = c"
    using signed_message [OF X V key(1) c(2)] key(2) by metis
  let ?st = "st\<lparr>sks_chain_key := scs_next_chain_key s\<rparr>"
  have "sender_record_ok X ((st # older)[0 := ?st])"
    by (rule sender_record_update [OF rec sender_state_advanced [OF X st s(1)]])
      (simp_all add: state_id_def)
  then obtain r where r: "encode_signal_sender_key_record X (?st # older) = Inr r"
    "decode_signal_sender_key_record X r = Inr (?st # older)"
    using sender_record_encoded [OF X] by fastforce
  have "encrypt_signal_sender_key_record_message X rnd stored p =
      Inr \<lparr>ske_record = r, ske_message = m, ske_message_bytes = bs\<rparr>"
    using dec k s(1) c(1) m(1,2) r(1) by (simp add: encrypt_signal_sender_key_record_message_def)
  moreover have "sender_step X (sks_chain_key st) = Inr (scs_message_key s, scs_next_chain_key s)"
    using s(1) by (simp add: sender_step_def)
  moreover have "can_send_group X r ?st older" using r(2) k by (simp add: can_send_group_def)
  moreover have "group_message X V (sks_key_id st) (sks_signing_public_key st) (scs_message_key s)
      (sck_iteration (sks_chain_key st)) p bs"
    using m(3-) c(3) ratchet_sender_step [OF s(1)] by (simp add: group_message_def)
  ultimately show ?thesis
    by (intro exI [of _ "\<lparr>ske_record = r, ske_message = m, ske_message_bytes = bs\<rparr>"]
        exI [of _ "scs_message_key s"] exI [of _ "scs_next_chain_key s"]) simp
qed

section \<open>The messages a member can still decrypt\<close>

text \<open>
  The sender's chain yields the message keys \<open>ks\<close> from \<open>c0\<close> on; the member's chain has reached
  index \<open>m\<close>, and \<open>pending\<close> are the indices it has a key for.
\<close>

definition sender_run ::
  "ext \<Rightarrow> SignalSenderChainKey \<Rightarrow> SignalSenderMessageKeyMaterial list \<Rightarrow> bool" where
  "sender_run X c0 ks \<longleftrightarrow> ext_ok X \<and> (\<exists>d. sender_chain.run X (length ks) c0 = Inr (ks, d))"

definition follows_at ::
  "ext \<Rightarrow> SignalSenderChainKey \<Rightarrow> SignalSenderMessageKeyMaterial list \<Rightarrow> nat \<Rightarrow> nat set \<Rightarrow>
     SignalSenderKeyState \<Rightarrow> bool" where
  "follows_at X c0 ks m pending st \<longleftrightarrow> sender_state_ok X st \<and> m \<le> length ks \<and>
     sender_chain.run X m c0 = Inr (take m ks, sks_chain_key st) \<and>
     (\<forall>e\<in>set (sks_message_keys st). \<forall>i<m. ssk_iteration e = sck_iteration c0 + word_of_nat i \<longrightarrow>
        ssk_seed e = smk_seed (ks ! i)) \<and>
     length (sks_message_keys st) + (length ks - m) \<le> 2000 \<and>
     pending = {i. i < m \<and> sck_iteration c0 + word_of_nat i \<in> ssk_iteration ` set (sks_message_keys st)} \<union>
       {m..<length ks}"

lemma follows_atD:
  assumes "follows_at X c0 ks m pending st"
  shows "sender_state_ok X st" "m \<le> length ks"
    "sender_chain.run X m c0 = Inr (take m ks, sks_chain_key st)"
    "length (sks_message_keys st) + (length ks - m) \<le> 2000"
    "e \<in> set (sks_message_keys st) \<Longrightarrow> i < m \<Longrightarrow>
       ssk_iteration e = sck_iteration c0 + word_of_nat i \<Longrightarrow> ssk_seed e = smk_seed (ks ! i)"
    "pending = {i. i < m \<and> sck_iteration c0 + word_of_nat i \<in> ssk_iteration ` set (sks_message_keys st)} \<union>
       {m..<length ks}"
  using assms unfolding follows_at_def by blast+

text \<open>The keys of a run carry their iterations and can be derived again from their seeds.\<close>

lemma sender_run_keys:
  "sender_chain.run X n c = Inr (ks, d) \<Longrightarrow> i < n \<Longrightarrow>
     smk_iteration (ks ! i) = sck_iteration c + word_of_nat i \<and> length (smk_seed (ks ! i)) = 32 \<and>
     derive_signal_sender_message_keys X (sck_iteration c + word_of_nat i) (smk_seed (ks ! i)) = Inr (ks ! i)"
proof (induction n arbitrary: c ks i)
  case (Suc n)
  from Suc.prems(1) obtain s rest where s: "ratchet_signal_sender_chain X c = Inr s"
    and run: "sender_chain.run X n (scs_next_chain_key s) = Inr (rest, d)"
    and ks: "ks = scs_message_key s # rest"
    by (auto simp: and_then_eq_Ok sender_step_iff)
  note step = ratchet_sender_step [OF s] ratchet_sender_derive [OF s]
  have len: "length (smk_seed (scs_message_key s)) = 32"
    using step(2) by (auto simp: derive_signal_sender_message_keys_def split: if_splits)
  show ?case
  proof (cases i)
    case 0
    then show ?thesis using step len ks by simp
  next
    case (Suc j)
    then show ?thesis using Suc.IH [OF run, of j] Suc.prems(2) step(1) ks by (simp add: ac_simps)
  qed
qed simp

definition entry_of :: "SignalSenderMessageKeyMaterial \<Rightarrow> SignalSenderStoredMessageKey" where
  "entry_of k = \<lparr>ssk_iteration = smk_iteration k, ssk_seed = smk_seed k\<rparr>"

text \<open>The loop stores the keys of the run, as long as they fit.\<close>

lemma store_until_run:
  "sender_chain.run X n (sks_chain_key st) = Inr (ks, d) \<Longrightarrow>
     length (sks_message_keys st) + n \<le> 2000 \<Longrightarrow>
     store_sender_keys_until X st (sck_iteration (sks_chain_key st) + word_of_nat n) =
       Inr (st\<lparr>sks_message_keys := sks_message_keys st @ map entry_of ks, sks_chain_key := d\<rparr>)"
proof (induction n arbitrary: st ks)
  case 0
  then show ?case by (subst store_sender_keys_until.simps) simp
next
  case (Suc n)
  let ?c = "sks_chain_key st"
  from Suc.prems(1) obtain s rest where s: "ratchet_signal_sender_chain X ?c = Inr s"
    and run: "sender_chain.run X n (scs_next_chain_key s) = Inr (rest, d)"
    and ks: "ks = scs_message_key s # rest"
    by (auto simp: and_then_eq_Ok sender_step_iff)
  have seed: "length (smk_seed (scs_message_key s)) = 32"
    using sender_run_keys [OF Suc.prems(1), of 0] ks by simp
  let ?st = "st\<lparr>sks_message_keys := sks_message_keys st @ [entry_of (scs_message_key s)],
    sks_chain_key := scs_next_chain_key s\<rparr>"
  have push: "push_signal_sender_stored_message_key st
      \<lparr>ssk_iteration = smk_iteration (scs_message_key s), ssk_seed = smk_seed (scs_message_key s)\<rparr> =
      Inr (st\<lparr>sks_message_keys := sks_message_keys st @ [entry_of (scs_message_key s)]\<rparr>)"
    using seed Suc.prems(2)
    by (simp add: push_signal_sender_stored_message_key_def validate_signal_sender_chain_key_def entry_of_def)
  have "unat (sck_iteration ?c + word_of_nat (Suc n)) = unat (sck_iteration ?c) + Suc n"
    by (rule sender_chain.run_counter [OF Suc.prems(1) order_refl])
  then have less: "sck_iteration ?c < sck_iteration ?c + word_of_nat (Suc n)"
    by (simp add: word_less_nat_alt del: of_nat_Suc)
  have it: "sck_iteration ?c + word_of_nat (Suc n) = sck_iteration (sks_chain_key ?st) + word_of_nat n"
    using ratchet_sender_step [OF s] by (simp add: ac_simps)
  have "store_sender_keys_until X ?st (sck_iteration (sks_chain_key ?st) + word_of_nat n) =
      Inr (?st\<lparr>sks_message_keys := sks_message_keys ?st @ map entry_of rest, sks_chain_key := d\<rparr>)"
    by (rule Suc.IH) (use run Suc.prems(2) in simp_all)
  moreover have "store_sender_keys_until X st (sck_iteration ?c + word_of_nat (Suc n)) =
      store_sender_keys_until X ?st (sck_iteration ?c + word_of_nat (Suc n))"
    using less s push by (subst store_sender_keys_until.simps) (simp del: of_nat_Suc)
  ultimately show ?case by (simp add: it ks del: of_nat_Suc)
qed

lemma follows_position:
  assumes run: "sender_run X c0 ks" and f: "follows_at X c0 ks m pending st" and i: "i < m"
  shows "(\<exists>n. position (\<lambda>e. ssk_iteration e = sck_iteration c0 + word_of_nat i) (sks_message_keys st) = Some n)
    \<longleftrightarrow> i \<in> pending"
proof -
  have "i \<in> pending \<longleftrightarrow> sck_iteration c0 + word_of_nat i \<in> ssk_iteration ` set (sks_message_keys st)"
    using i unfolding follows_atD(6) [OF f] by auto
  moreover have "sck_iteration c0 + word_of_nat i \<in> ssk_iteration ` set (sks_message_keys st)"
    if "position (\<lambda>e. ssk_iteration e = sck_iteration c0 + word_of_nat i) (sks_message_keys st) = Some n" for n
    using position_SomeD [OF that] by (metis imageI nth_mem)
  ultimately show ?thesis
    using position_None_iff [of "\<lambda>e. ssk_iteration e = sck_iteration c0 + word_of_nat i" "sks_message_keys st"]
    by (cases "position (\<lambda>e. ssk_iteration e = sck_iteration c0 + word_of_nat i) (sks_message_keys st)") auto
qed

lemma follows_below:
  assumes run: "sender_run X c0 ks" and f: "follows_at X c0 ks m pending st" and i: "i < length ks"
  shows "sck_iteration c0 + word_of_nat i < sck_iteration (sks_chain_key st) \<longleftrightarrow> i < m"
proof -
  obtain d where d: "sender_chain.run X (length ks) c0 = Inr (ks, d)" using run by (auto simp: sender_run_def)
  have "sck_iteration (sks_chain_key st) = sck_iteration c0 + word_of_nat m"
    by (rule sender_chain.run_index_word [OF follows_atD(3) [OF f]])
  then show ?thesis
    using sender_chain.run_counter [OF d, of i] sender_chain.run_counter [OF d follows_atD(2) [OF f]] i
    by (simp add: word_less_nat_alt)
qed

lemma valid_state: "sender_state_ok X st \<Longrightarrow> validate_signal_sender_key_state X st = Inr ()"
  using validate_sender_state_iff sender_state_ok_normal by blast

text \<open>Taking a stored key.\<close>

lemma lookup_stored:
  assumes run: "sender_run X c0 ks" and f: "follows_at X c0 ks m pending st" and i: "i < m" "i \<in> pending"
  shows "\<exists>n. signal_sender_message_key_for_iteration X st (sck_iteration c0 + word_of_nat i) =
      Inr (Stored n (ks ! i), st) \<and>
    follows_at X c0 ks m (pending - {i})
      (st\<lparr>sks_message_keys := remove_at n (sks_message_keys st)\<rparr>)"
proof -
  let ?i = "sck_iteration c0 + word_of_nat i" and ?mks = "sks_message_keys st"
  obtain d where d: "sender_chain.run X (length ks) c0 = Inr (ks, d)" using run by (auto simp: sender_run_def)
  have ilen: "i < length ks" using i(1) follows_atD(2) [OF f] by simp
  have ok: "sender_state_ok X st" by (rule follows_atD(1) [OF f])
  obtain n where n: "position (\<lambda>e. ssk_iteration e = ?i) ?mks = Some n"
    using follows_position [OF run f i(1)] i(2) by blast
  note pos = position_SomeD [OF n]
  have "ssk_seed (?mks ! n) = smk_seed (ks ! i)"
    using follows_atD(5) [OF f _ i(1)] pos by simp
  then have "derive_signal_sender_message_keys X ?i (ssk_seed (?mks ! n)) = Inr (ks ! i)"
    using sender_run_keys [OF d ilen] by simp
  moreover have "?i < sck_iteration (sks_chain_key st)" using follows_below [OF run f ilen] i(1) by simp
  ultimately have look: "signal_sender_message_key_for_iteration X st ?i = Inr (Stored n (ks ! i), st)"
    using valid_state [OF ok] n by (simp add: signal_sender_message_key_for_iteration_def)
  let ?st = "st\<lparr>sks_message_keys := remove_at n ?mks\<rparr>"
  have dist: "distinct (map ssk_iteration ?mks)" using ok by (simp add: sender_state_ok_def)
  have its: "ssk_iteration ` set (remove_at n ?mks) = ssk_iteration ` set ?mks - {?i}"
    using set_remove_at [OF dist, of n] pos by (simp flip: map_remove_at set_map)
  have "distinct (map ssk_iteration (remove_at n ?mks))"
    unfolding map_remove_at by (rule distinct_remove_at [OF dist])
  then have "sender_state_ok X ?st"
    using ok set_remove_at_subset [of n ?mks] pos unfolding sender_state_ok_def by auto
  moreover have "pending - {i} =
      {j. j < m \<and> sck_iteration c0 + word_of_nat j \<in> ssk_iteration ` set (sks_message_keys ?st)} \<union> {m..<length ks}"
  proof -
    have "sck_iteration c0 + word_of_nat j = ?i \<longleftrightarrow> j = i" if "j < m" for j
      using sender_chain.run_counter_inject [OF d, of j i] that i(1) follows_atD(2) [OF f] by simp
    then show ?thesis using i(1) by (auto simp: its follows_atD(6) [OF f])
  qed
  moreover have "length (sks_message_keys ?st) + (length ks - m) \<le> 2000"
    using follows_atD(4) [OF f] pos by simp
  moreover have "\<forall>e\<in>set (sks_message_keys ?st). \<forall>j<m. ssk_iteration e = sck_iteration c0 + word_of_nat j \<longrightarrow>
      ssk_seed e = smk_seed (ks ! j)"
    using follows_atD(5) [OF f] set_remove_at_subset [of n ?mks] by auto
  ultimately have "follows_at X c0 ks m (pending - {i}) ?st"
    using follows_atD(2,3) [OF f] by (simp add: follows_at_def)
  with look show ?thesis by blast
qed

text \<open>Advancing the chain, storing the keys it passes.\<close>

lemma advanced_entries:
  assumes run: "sender_run X c0 ks" and f: "follows_at X c0 ks m pending st"
    and i: "m \<le> i" "i < length ks"
    and e: "e \<in> set (map entry_of (take (i - m) (drop m ks)))"
  shows "\<exists>j. m \<le> j \<and> j < i \<and> e = entry_of (ks ! j) \<and>
    ssk_iteration e = sck_iteration c0 + word_of_nat j \<and> length (ssk_seed e) = 32"
proof -
  obtain d where d: "sender_chain.run X (length ks) c0 = Inr (ks, d)" using run by (auto simp: sender_run_def)
  obtain j where "j < i - m" "e = entry_of (ks ! (m + j))"
    using e i by (auto simp: in_set_conv_nth)
  then show ?thesis
    using sender_run_keys [OF d, of "m + j"] i by (intro exI [of _ "m + j"]) (simp add: entry_of_def)
qed

lemma lookup_ahead:
  assumes run: "sender_run X c0 ks" and f: "follows_at X c0 ks m pending st"
    and i: "m \<le> i" "i < length ks"
  shows "\<exists>c. signal_sender_message_key_for_iteration X st (sck_iteration c0 + word_of_nat i) =
      Inr (Current (ks ! i), st\<lparr>sks_message_keys := sks_message_keys st @
        map entry_of (take (i - m) (drop m ks)), sks_chain_key := c\<rparr>) \<and>
    sender_chain.run X (Suc i) c0 = Inr (take (Suc i) ks, c)"
proof -
  let ?i = "sck_iteration c0 + word_of_nat i" and ?c = "sks_chain_key st"
  let ?new = "take (i - m) (drop m ks)"
  obtain d0 where all: "sender_chain.run X (length ks) c0 = Inr (ks, d0)" using run by (auto simp: sender_run_def)
  obtain d where d: "sender_chain.run X i c0 = Inr (take i ks, d)"
    using sender_chain.run_prefix [OF all, of i] i by auto
  have part: "sender_chain.run X (i - m) ?c = Inr (?new, d)"
    using sender_chain.run_prefix [OF d i(1)] follows_atD(3) [OF f] i by (auto simp: min_absorb1 drop_take)
  obtain c where c: "sender_chain.run X (Suc i) c0 = Inr (take (Suc i) ks, c)"
    using sender_chain.run_prefix [OF all, of "Suc i"] i by auto
  then have "sender_chain.run X 1 d = Inr ([ks ! i], c)"
    using sender_chain.run_prefix [OF c, of i] d i by (auto simp: take_Suc_conv_app_nth)
  then obtain s where s: "ratchet_signal_sender_chain X d = Inr s" "scs_message_key s = ks ! i"
    "scs_next_chain_key s = c"
    by (auto simp: and_then_eq_Ok sender_step_iff)
  have cm: "sck_iteration ?c = sck_iteration c0 + word_of_nat m"
    by (rule sender_chain.run_index_word [OF follows_atD(3) [OF f]])
  have it: "?i = sck_iteration ?c + word_of_nat (i - m)" using i by (simp add: cm of_nat_diff)
  have fit: "length (sks_message_keys st) + (i - m) \<le> 2000" using follows_atD(4) [OF f] i by simp
  have "store_sender_keys_until X st ?i =
      Inr (st\<lparr>sks_message_keys := sks_message_keys st @ map entry_of ?new, sks_chain_key := d\<rparr>)"
    unfolding it by (rule store_until_run [OF part fit])
  moreover have "\<not> ?i < sck_iteration ?c" using follows_below [OF run f i(2)] i(1) by simp
  moreover have "\<not> ?i - sck_iteration ?c > 25000"
    using fit unat_of_nat_u32 [of "i - m"] by (simp add: it word_less_nat_alt)
  ultimately have "signal_sender_message_key_for_iteration X st ?i =
      Inr (Current (ks ! i), st\<lparr>sks_message_keys := sks_message_keys st @ map entry_of ?new,
        sks_chain_key := c\<rparr>)"
    using valid_state [OF follows_atD(1) [OF f]] s
    by (simp add: signal_sender_message_key_for_iteration_def Let_def)
  with c show ?thesis by blast
qed

lemma pending_ahead:
  assumes i: "m \<le> i" "i < n" and its: "\<And>j. j \<le> i \<Longrightarrow> A j \<longleftrightarrow> (if j < m then B j else j < i)"
  shows "({j. j < m \<and> B j} \<union> {m..<n}) - {i} = {j. j < Suc i \<and> A j} \<union> {Suc i..<n}"
proof -
  have "j \<in> ({j. j < m \<and> B j} \<union> {m..<n}) - {i} \<longleftrightarrow> j \<in> {j. j < Suc i \<and> A j} \<union> {Suc i..<n}" for j
    using its [of j] i by (cases "j \<le> i"; cases "j < m") auto
  then show ?thesis by blast
qed

lemma sender_index_less:
  assumes "sender_run X c0 ks" "a \<le> length ks" "b \<le> length ks"
  shows "sck_iteration c0 + word_of_nat a < sck_iteration c0 + word_of_nat b \<longleftrightarrow> a < b"
proof -
  obtain d where d: "sender_chain.run X (length ks) c0 = Inr (ks, d)"
    using assms(1) by (auto simp: sender_run_def)
  show ?thesis
    using sender_chain.run_counter [OF d assms(2)] sender_chain.run_counter [OF d assms(3)]
    by (simp add: word_less_nat_alt)
qed

lemma sender_index_eq:
  assumes "sender_run X c0 ks" "a \<le> length ks" "b \<le> length ks"
  shows "sck_iteration c0 + word_of_nat a = sck_iteration c0 + word_of_nat b \<longleftrightarrow> a = b"
  using sender_index_less [OF assms] sender_index_less [OF assms(1,3,2)] by auto

lemma follows_old:
  assumes "follows_at X c0 ks m pending st" "e \<in> set (sks_message_keys st)"
  shows "ssk_iteration e < sck_iteration c0 + word_of_nat m"
  using follows_atD(1) [OF assms(1)] assms(2) sender_chain.run_index_word [OF follows_atD(3) [OF assms(1)]]
  by (auto simp: sender_state_ok_def)

lemma ahead_iterations:
  assumes run: "sender_run X c0 ks" and f: "follows_at X c0 ks m pending st"
    and i: "m \<le> i" "i < length ks"
    and j: "j \<le> i"
  shows "sck_iteration c0 + word_of_nat j \<in> ssk_iteration ` set (sks_message_keys st @
      map entry_of (take (i - m) (drop m ks))) \<longleftrightarrow>
    (if j < m then sck_iteration c0 + word_of_nat j \<in> ssk_iteration ` set (sks_message_keys st) else j < i)"
proof -
  let ?new = "map entry_of (take (i - m) (drop m ks))" and ?mks = "sks_message_keys st"
  let ?it = "\<lambda>j. sck_iteration c0 + (word_of_nat j :: u32)"
  obtain d where d: "sender_chain.run X (length ks) c0 = Inr (ks, d)" using run by (auto simp: sender_run_def)
  note less = sender_index_less [OF run] and eq = sender_index_eq [OF run]
  note old = follows_old [OF f] and new = advanced_entries [OF run f i]
  have has: "?it j \<in> ssk_iteration ` set ?new" if "m \<le> j" "j < i" for j
  proof -
    have "ks ! j \<in> set (take (i - m) (drop m ks))"
      unfolding in_set_conv_nth using that i by (intro exI [of _ "j - m"]) simp
    then show ?thesis using sender_run_keys [OF d, of j] that i by (force simp: entry_of_def image_iff)
  qed
  show ?thesis
  proof (cases "j < m")
    case True
    have "?it j \<notin> ssk_iteration ` set ?new"
    proof
      assume "?it j \<in> ssk_iteration ` set ?new"
      then obtain e where "?it j = ssk_iteration e" "e \<in> set ?new" by (rule imageE)
      then obtain j' where "m \<le> j'" "j' < i" "?it j = ?it j'" using new by metis
      then show False using eq [of j j'] j i True by simp
    qed
    then show ?thesis using True by auto
  next
    case False
    have A: "?it j \<notin> ssk_iteration ` set ?mks" using old less [of j m] False j i by fastforce
    have B: "?it j \<in> ssk_iteration ` set ?new \<longleftrightarrow> j < i"
    proof
      assume "?it j \<in> ssk_iteration ` set ?new"
      then obtain e where "?it j = ssk_iteration e" "e \<in> set ?new" by (rule imageE)
      then obtain j' where "m \<le> j'" "j' < i" "?it j = ?it j'" using new by metis
      then show "j < i" using eq [of j j'] j i by simp
    next
      assume "j < i"
      then show "?it j \<in> ssk_iteration ` set ?new" using has False not_less by blast
    qed
    show ?thesis
      unfolding set_append image_Un Un_iff using A B False by (simp only: if_False simp_thms)
  qed
qed

lemma ahead_distinct:
  assumes run: "sender_run X c0 ks" and f: "follows_at X c0 ks m pending st"
    and i: "m \<le> i" "i < length ks"
  shows "distinct (map ssk_iteration (sks_message_keys st @ map entry_of (take (i - m) (drop m ks))))"
proof -
  let ?new = "map entry_of (take (i - m) (drop m ks))" and ?mks = "sks_message_keys st"
  let ?it = "\<lambda>j. sck_iteration c0 + (word_of_nat j :: u32)"
  obtain d where d: "sender_chain.run X (length ks) c0 = Inr (ks, d)" using run by (auto simp: sender_run_def)
  note less = sender_index_less [OF run] and eq = sender_index_eq [OF run]
  note old = follows_old [OF f] and new = advanced_entries [OF run f i]
  have ok: "distinct (map ssk_iteration ?mks)"
    using follows_atD(1) [OF f] by (simp add: sender_state_ok_def)
  have "map ssk_iteration ?new = map ?it [m..<i]"
    by (rule nth_equalityI) (use i sender_run_keys [OF d] in \<open>auto simp: entry_of_def\<close>)
  moreover have "distinct (map ?it [m..<i])"
    unfolding distinct_map using eq i by (auto simp: inj_on_def)
  ultimately have fresh: "distinct (map ssk_iteration ?new)" by simp
  have "ssk_iteration e \<noteq> ssk_iteration e'" if e: "e \<in> set ?mks" "e' \<in> set ?new" for e e'
  proof -
    obtain j where j: "m \<le> j" "j < i" "ssk_iteration e' = ?it j" using new [OF e(2)] by blast
    then have "\<not> ssk_iteration e' < ?it m" using less [of j m] i by simp
    then show ?thesis using old [OF e(1)] by auto
  qed
  then have "ssk_iteration ` set ?mks \<inter> ssk_iteration ` set ?new = {}" by blast
  then show ?thesis
    using ok fresh unfolding map_append distinct_append set_map by (simp only: simp_thms)
qed

lemma ahead_state_ok:
  assumes run: "sender_run X c0 ks" and f: "follows_at X c0 ks m pending st"
    and i: "m \<le> i" "i < length ks"
    and c: "sender_chain.run X (Suc i) c0 = Inr (take (Suc i) ks, c)"
  shows "sender_state_ok X (st\<lparr>sks_message_keys := sks_message_keys st @
    map entry_of (take (i - m) (drop m ks)), sks_chain_key := c\<rparr>)"
proof -
  let ?new = "map entry_of (take (i - m) (drop m ks))" and ?mks = "sks_message_keys st"
  let ?it = "\<lambda>j. sck_iteration c0 + (word_of_nat j :: u32)"
  note less = sender_index_less [OF run] and eq = sender_index_eq [OF run]
  note old = follows_old [OF f] and new = advanced_entries [OF run f i]
  note ok = follows_atD(1) [OF f, unfolded sender_state_ok_def]
  have X: "ext_ok X" using run by (simp add: sender_run_def)
  have ci: "sck_iteration c = ?it (Suc i)" by (rule sender_chain.run_index_word [OF c])
  have "sender_good X c0"
    using run i by (cases ks) (auto simp: sender_run_def and_then_eq_Ok sender_step_iff sender_good_def
        dest: ratchet_sender_step)
  then have "length (sck_key c) = 32"
    using sender_chain.run_good [OF _ c] by (simp add: sender_good_def)
  moreover have "\<forall>e\<in>set (?mks @ ?new). ssk_iteration e < sck_iteration c \<and> length (ssk_seed e) = 32"
  proof
    fix e
    assume "e \<in> set (?mks @ ?new)"
    then consider "e \<in> set ?mks" | "e \<in> set ?new" by auto
    then show "ssk_iteration e < sck_iteration c \<and> length (ssk_seed e) = 32"
    proof cases
      case 1
      then show ?thesis using ok old [OF 1] less [of m "Suc i"] i ci by auto
    next
      case 2
      then show ?thesis using new [OF 2] less [of _ "Suc i"] i ci by fastforce
    qed
  qed
  moreover have "length (?mks @ ?new) \<le> 2000" using follows_atD(4) [OF f] i by simp
  ultimately show ?thesis using ok ahead_distinct [OF run f i] by (simp add: sender_state_ok_def)
qed

lemma follows_ahead:
  assumes run: "sender_run X c0 ks" and f: "follows_at X c0 ks m pending st"
    and i: "m \<le> i" "i < length ks"
    and c: "sender_chain.run X (Suc i) c0 = Inr (take (Suc i) ks, c)"
  shows "follows_at X c0 ks (Suc i) (pending - {i})
    (st\<lparr>sks_message_keys := sks_message_keys st @ map entry_of (take (i - m) (drop m ks)),
       sks_chain_key := c\<rparr>)"
proof -
  let ?new = "map entry_of (take (i - m) (drop m ks))" and ?mks = "sks_message_keys st"
  let ?it = "\<lambda>j. sck_iteration c0 + (word_of_nat j :: u32)"
  note less = sender_index_less [OF run] and eq = sender_index_eq [OF run]
  note old = follows_old [OF f] and new = advanced_entries [OF run f i]
  have "sender_state_ok X (st\<lparr>sks_message_keys := ?mks @ ?new, sks_chain_key := c\<rparr>)"
    by (rule ahead_state_ok [OF run f i c])
  moreover have "\<forall>e\<in>set (?mks @ ?new). \<forall>j<Suc i. ssk_iteration e = ?it j \<longrightarrow> ssk_seed e = smk_seed (ks ! j)"
  proof (intro ballI allI impI)
    fix e j
    assume "e \<in> set (?mks @ ?new)" and j: "j < Suc i" "ssk_iteration e = ?it j"
    then consider "e \<in> set ?mks" | "e \<in> set ?new" by auto
    then show "ssk_seed e = smk_seed (ks ! j)"
    proof cases
      case 1
      then have "j < m" using old [OF 1] j less [of j m] i by simp
      then show ?thesis using follows_atD(5) [OF f 1 _ j(2)] by blast
    next
      case 2
      then obtain j' where "e = entry_of (ks ! j')" "?it j' = ?it j" "j' < i" using new [OF 2] j(2) by auto
      then show ?thesis using eq [of j' j] j(1) i by (simp add: entry_of_def)
    qed
  qed
  moreover have "length (?mks @ ?new) + (length ks - Suc i) \<le> 2000" using follows_atD(4) [OF f] i by simp
  moreover have "pending - {i} = {j. j < Suc i \<and> ?it j \<in> ssk_iteration ` set (?mks @ ?new)} \<union> {Suc i..<length ks}"
    unfolding follows_atD(6) [OF f] by (rule pending_ahead [OF i]) (rule ahead_iterations [OF run f i])
  ultimately show ?thesis using c i by (simp add: follows_at_def)
qed

lemma lookup_again:
  assumes run: "sender_run X c0 ks" and f: "follows_at X c0 ks m pending st"
    and i: "i < length ks" "i \<notin> pending"
  shows "\<exists>t. signal_sender_message_key_for_iteration X st (sck_iteration c0 + word_of_nat i) =
    Err (Protocol (''duplicate Signal sender-key message iteration: '' @ t))"
proof -
  have m: "i < m" using i unfolding follows_atD(6) [OF f] by auto
  then have "position (\<lambda>e. ssk_iteration e = sck_iteration c0 + word_of_nat i) (sks_message_keys st) = None"
    using follows_position [OF run f m] i(2) by (meson not_None_eq)
  then show ?thesis
    using valid_state [OF follows_atD(1) [OF f]] follows_below [OF run f i(1)] m
    by (simp add: signal_sender_message_key_for_iteration_def)
qed

end
