(* ===== verification/GroupDelivery.thy ===== *)
theory GroupDelivery
  imports SenderDelivery
begin

text \<open>
  Group messages from the sender's stored record to the member's, in \<^verbatim>\<open>crates/wa-core/src/signal.rs\<close>:
  a member that takes in the distribution message follows the sender's chain, and the contract
  \<open>delivery\<close> holds of its stored record.
\<close>

section \<open>The member's stored record\<close>

lemma verify_with_states_unique:
  "j < length states \<Longrightarrow> sks_key_id (states ! j) = key_id \<Longrightarrow>
     \<forall>j'<length states. sks_key_id (states ! j') = key_id \<longrightarrow> j' = j \<Longrightarrow>
     verify_signal_sender_key_message_bytes X V bs (sks_signing_public_key (states ! j)) = Inr m \<Longrightarrow>
     verify_with_states X V bs key_id n err states = Inr (n + j, m)"
proof (induction states arbitrary: n j err)
  case (Cons st states)
  show ?case
  proof (cases j)
    case 0
    then show ?thesis using Cons.prems by simp
  next
    case (Suc i)
    have "sks_key_id st \<noteq> key_id" using Cons.prems(3) [rule_format, of 0] Suc by auto
    moreover have uniq: "\<forall>j'<length states. sks_key_id (states ! j') = key_id \<longrightarrow> j' = i"
    proof (intro allI impI)
      fix j'
      assume "j' < length states" "sks_key_id (states ! j') = key_id"
      then show "j' = i" using Cons.prems(3) [rule_format, of "Suc j'"] Suc by simp
    qed
    have "verify_with_states X V bs key_id (Suc n) err states = Inr (Suc n + i, m)"
      by (rule Cons.IH [OF _ _ uniq]) (use Cons.prems(1,2,4) Suc in simp_all)
    ultimately show ?thesis using Suc by simp
  qed
qed simp

text \<open>The chain a member follows: its key id and signing key, where it starts, and its keys.\<close>

type_synonym sender_stream = "u32 \<times> bytes \<times> SignalSenderChainKey \<times> SignalSenderMessageKeyMaterial list"

fun member_awaits :: "ext \<Rightarrow> sender_stream \<Rightarrow> nat set \<Rightarrow> bytes \<Rightarrow> bool" where
  "member_awaits X (key_id, signing_key, c0, ks) pending stored \<longleftrightarrow> sender_run X c0 ks \<and>
     (\<exists>states j m. decode_signal_sender_key_record X stored = Inr states \<and> j < length states \<and>
       sks_key_id (states ! j) = key_id \<and> sks_signing_public_key (states ! j) = signing_key \<and>
       (\<forall>j'<length states. sks_key_id (states ! j') = key_id \<longrightarrow> j' = j) \<and>
       follows_at X c0 ks m pending (states ! j))"

fun stream_message :: "ext \<Rightarrow> verifier \<Rightarrow> sender_stream \<Rightarrow> nat \<Rightarrow> bytes \<Rightarrow> bytes \<Rightarrow> bool" where
  "stream_message X V (key_id, signing_key, c0, ks) i bs p \<longleftrightarrow> i < length ks \<and>
     group_message X V key_id signing_key (ks ! i) (sck_iteration c0 + word_of_nat i) p bs"

definition duplicate_iteration :: "CoreError \<Rightarrow> bool" where
  "duplicate_iteration e \<longleftrightarrow>
     (\<exists>t. e = Protocol (''duplicate Signal sender-key message iteration: '' @ t))"

definition decrypt_group ::
  "ext \<Rightarrow> verifier \<Rightarrow> bytes \<Rightarrow> bytes \<Rightarrow> (bytes \<times> bytes) core_result" where
  "decrypt_group X V stored bs = and_then (decrypt_signal_sender_key_record_message X V stored bs)
     (\<lambda>d. Ok (skd_plaintext d, skd_record d))"

text \<open>The member finds a key of the chain in its state, and writes the state back.\<close>

lemma member_writes_back:
  assumes X: "ext_ok X" and dec: "decode_signal_sender_key_record X stored = Inr states"
    and j: "j < length states"
    and uniq: "\<forall>j'<length states. sks_key_id (states ! j') = sks_key_id (states ! j) \<longrightarrow> j' = j"
    and look: "signal_sender_message_key_for_iteration X (states ! j) i = Inr (l, st1)"
    and st: "st = (case l of
        Stored n _ \<Rightarrow> st1\<lparr>sks_message_keys := remove_at n (sks_message_keys st1)\<rparr> | Current _ \<Rightarrow> st1)"
    and ok: "sender_state_ok X st" and id: "state_id st = state_id (states ! j)"
    and bs: "group_message X V (sks_key_id (states ! j)) (sks_signing_public_key (states ! j))
      (lookup_message_key l) i p bs"
  shows "\<exists>stored'. decrypt_group X V stored bs = Inr (p, stored') \<and>
    decode_signal_sender_key_record X stored' = Inr (states[j := st])"
proof -
  obtain m where m: "decode_signal_sender_key_message X bs = Inr m" "skm_key_id m = sks_key_id (states ! j)"
    "skm_iteration m = i"
    "verify_signal_sender_key_message_bytes X V bs (sks_signing_public_key (states ! j)) = Inr m"
    "decrypt_signal_sender_message_body X (skm_ciphertext m) (lookup_message_key l) = Inr p"
    using bs by (auto simp: group_message_def)
  have find: "verify_with_states X V bs (sks_key_id (states ! j)) 0 None states = Inr (j, m)"
    using verify_with_states_unique [OF j refl uniq m(4), of 0 None] by simp
  have "sender_record_ok X (states[j := st])"
    by (rule sender_record_update [OF decoded_sender_record_ok [OF dec] ok j id])
  then obtain r where r: "encode_signal_sender_key_record X (states[j := st]) = Inr r"
    "decode_signal_sender_key_record X r = Inr (states[j := st])"
    using sender_record_encoded [OF X] by blast
  have "decrypt_signal_sender_key_record_message X V stored bs =
      Inr \<lparr>skd_record = r, skd_message = m, skd_plaintext = p\<rparr>"
    using dec m find look r(1) unfolding st
    by (simp add: decrypt_signal_sender_key_record_message_def Let_def)
  then show ?thesis using r(2) by (simp add: decrypt_group_def)
qed

lemma member_awaits_update:
  assumes "sender_run X c0 ks" "decode_signal_sender_key_record X stored' = Inr (states[j := st])"
    and "j < length states" "state_id st = state_id (states ! j)"
    and "\<forall>j'<length states. sks_key_id (states ! j') = sks_key_id (states ! j) \<longrightarrow> j' = j"
    and "follows_at X c0 ks m pending st"
  shows "member_awaits X (sks_key_id (states ! j), sks_signing_public_key (states ! j), c0, ks) pending stored'"
proof -
  have "\<forall>j'<length (states[j := st]). sks_key_id (states[j := st] ! j') = sks_key_id (states ! j) \<longrightarrow> j' = j"
  proof (intro allI impI)
    fix j'
    assume "j' < length (states[j := st])" "sks_key_id (states[j := st] ! j') = sks_key_id (states ! j)"
    then show "j' = j" using assms(5) by (cases "j' = j") auto
  qed
  then show ?thesis
    using assms(1-4,6) unfolding member_awaits.simps
    by (intro conjI exI [of _ "states[j := st]"] exI [of _ j] exI [of _ m]) (simp_all add: state_id_def)
qed

lemma member_awaitsE:
  assumes "member_awaits X s pending stored"
  obtains states j m c0 ks where
    "s = (sks_key_id (states ! j), sks_signing_public_key (states ! j), c0, ks)" "sender_run X c0 ks"
    "decode_signal_sender_key_record X stored = Inr states" "j < length states"
    "\<forall>j'<length states. sks_key_id (states ! j') = sks_key_id (states ! j) \<longrightarrow> j' = j"
    "follows_at X c0 ks m pending (states ! j)"
proof -
  obtain key_id signing_key c0 ks where s: "s = (key_id, signing_key, c0, ks)" by (cases s)
  from assms [unfolded s member_awaits.simps] s that show thesis by blast
qed

lemma member_pending:
  assumes awaits: "member_awaits X s pending stored" and i: "i \<in> pending"
    and msg: "stream_message X V s i bs p"
  shows "\<exists>stored'. decrypt_group X V stored bs = Inr (p, stored') \<and> member_awaits X s (pending - {i}) stored'"
proof -
  obtain states j m c0 ks where
    s: "s = (sks_key_id (states ! j), sks_signing_public_key (states ! j), c0, ks)"
    and run: "sender_run X c0 ks"
    and dec: "decode_signal_sender_key_record X stored = Inr states" and j: "j < length states"
    and uniq: "\<forall>j'<length states. sks_key_id (states ! j') = sks_key_id (states ! j) \<longrightarrow> j' = j"
    and f: "follows_at X c0 ks m pending (states ! j)"
    by (rule member_awaitsE [OF awaits])
  have X: "ext_ok X" using run by (simp add: sender_run_def)
  have ilen: "i < length ks" and bs: "group_message X V (sks_key_id (states ! j))
      (sks_signing_public_key (states ! j)) (ks ! i) (sck_iteration c0 + word_of_nat i) p bs"
    using msg by (simp_all add: s)
  have "\<exists>l st1 st m'. signal_sender_message_key_for_iteration X (states ! j)
        (sck_iteration c0 + word_of_nat i) = Inr (l, st1) \<and> lookup_message_key l = ks ! i \<and>
      st = (case l of Stored n _ \<Rightarrow> st1\<lparr>sks_message_keys := remove_at n (sks_message_keys st1)\<rparr>
        | Current _ \<Rightarrow> st1) \<and>
      state_id st = state_id (states ! j) \<and> follows_at X c0 ks m' (pending - {i}) st"
  proof (cases "i < m")
    case True
    then obtain n where "signal_sender_message_key_for_iteration X (states ! j)
        (sck_iteration c0 + word_of_nat i) = Inr (Stored n (ks ! i), states ! j)"
      "follows_at X c0 ks m (pending - {i})
        ((states ! j)\<lparr>sks_message_keys := remove_at n (sks_message_keys (states ! j))\<rparr>)"
      using lookup_stored [OF run f True i] by blast
    then show ?thesis
      by (intro exI [of _ "Stored n (ks ! i)"] exI [of _ "states ! j"]
          exI [of _ "(states ! j)\<lparr>sks_message_keys := remove_at n (sks_message_keys (states ! j))\<rparr>"]
          exI [of _ m]) (simp add: state_id_def)
  next
    case False
    then have mi: "m \<le> i" by simp
    let ?st = "\<lambda>c. (states ! j)\<lparr>sks_message_keys := sks_message_keys (states ! j) @
      map entry_of (take (i - m) (drop m ks)), sks_chain_key := c\<rparr>"
    obtain c where look: "signal_sender_message_key_for_iteration X (states ! j)
        (sck_iteration c0 + word_of_nat i) = Inr (Current (ks ! i), ?st c)"
      and c: "sender_chain.run X (Suc i) c0 = Inr (take (Suc i) ks, c)"
      using lookup_ahead [OF run f mi ilen] by blast
    then show ?thesis using follows_ahead [OF run f mi ilen c]
      by (intro exI [of _ "Current (ks ! i)"] exI [of _ "?st c"] exI [of _ "Suc i"])
        (simp add: state_id_def)
  qed
  then obtain l st1 st m' where l: "signal_sender_message_key_for_iteration X (states ! j)
        (sck_iteration c0 + word_of_nat i) = Inr (l, st1)" "lookup_message_key l = ks ! i"
      "st = (case l of Stored n _ \<Rightarrow> st1\<lparr>sks_message_keys := remove_at n (sks_message_keys st1)\<rparr>
        | Current _ \<Rightarrow> st1)"
      "state_id st = state_id (states ! j)" "follows_at X c0 ks m' (pending - {i}) st"
    by blast
  obtain stored' where "decrypt_group X V stored bs = Inr (p, stored')"
    "decode_signal_sender_key_record X stored' = Inr (states[j := st])"
    using member_writes_back [OF X dec j uniq l(1,3) follows_atD(1) [OF l(5)] l(4), unfolded l(2), OF bs] by blast
  then show ?thesis
    using member_awaits_update [OF run _ j l(4) uniq l(5)] unfolding s by blast
qed

lemma member_used:
  assumes awaits: "member_awaits X s pending stored" and i: "i \<notin> pending"
    and msg: "stream_message X V s i bs p"
  shows "\<exists>e. decrypt_group X V stored bs = Inl e \<and> duplicate_iteration e"
proof -
  obtain states j m c0 ks where
    s: "s = (sks_key_id (states ! j), sks_signing_public_key (states ! j), c0, ks)"
    and run: "sender_run X c0 ks"
    and dec: "decode_signal_sender_key_record X stored = Inr states" and j: "j < length states"
    and uniq: "\<forall>j'<length states. sks_key_id (states ! j') = sks_key_id (states ! j) \<longrightarrow> j' = j"
    and f: "follows_at X c0 ks m pending (states ! j)"
    by (rule member_awaitsE [OF awaits])
  obtain msg where m: "decode_signal_sender_key_message X bs = Inr msg" "skm_key_id msg = sks_key_id (states ! j)"
    "skm_iteration msg = sck_iteration c0 + word_of_nat i"
    "verify_signal_sender_key_message_bytes X V bs (sks_signing_public_key (states ! j)) = Inr msg"
    using msg by (auto simp: s group_message_def)
  have "verify_with_states X V bs (sks_key_id (states ! j)) 0 None states = Inr (j, msg)"
    using verify_with_states_unique [OF j refl uniq m(4), of 0 None] by simp
  moreover obtain t where "signal_sender_message_key_for_iteration X (states ! j) (sck_iteration c0 + word_of_nat i) =
      Err (Protocol (''duplicate Signal sender-key message iteration: '' @ t))"
    using lookup_again [OF run f _ i] msg by (auto simp: s)
  ultimately show ?thesis
    using dec m by (simp add: decrypt_group_def decrypt_signal_sender_key_record_message_def
        duplicate_iteration_def)
qed

interpretation group_member: delivery "decrypt_group X V" "member_awaits X" "stream_message X V"
    duplicate_iteration for X V
  by unfold_locales (rule member_pending member_used; assumption)+

section \<open>Taking in the distribution message\<close>

definition distribution_ok :: "SignalSenderKeyDistributionMessage \<Rightarrow> bool" where
  "distribution_ok d \<longleftrightarrow> sdm_message_version d = SIGNAL_WIRE_CURRENT_VERSION \<and>
     length (sdm_chain_key d) = 32 \<and> key_normal (sdm_signing_key d)"

lemma distribution_ok_valid:
  "distribution_ok d \<Longrightarrow> validate_signal_sender_key_distribution_message d = Inr ()"
  by (simp add: distribution_ok_def validate_signal_sender_key_distribution_message_def
      validate_signal_sender_key_message_version_def sender_chain_key_Ok wire_public_Ok
      validate_signal_sender_chain_key_def)

lemma distribution_roundtrip:
  assumes X: "ext_ok X" and d: "distribution_ok d"
  shows "\<exists>bs. encode_signal_sender_key_distribution_message X d = Inr bs \<and>
    decode_signal_sender_key_distribution_message X bs = Inr d"
proof -
  let ?proto = "\<lparr>d_id = Some (sdm_key_id d), d_iteration = Some (sdm_iteration d),
    d_chain_key = Some (sdm_chain_key d), d_signing_key = Some (sdm_signing_key d)\<rparr>"
  let ?v = "push_bit 4 SIGNAL_WIRE_CURRENT_VERSION OR SIGNAL_WIRE_CURRENT_VERSION"
  have parts: "sdm_message_version d = SIGNAL_WIRE_CURRENT_VERSION" "length (sdm_chain_key d) = 32"
    "key_normal (sdm_signing_key d)"
    using d by (simp_all add: distribution_ok_def)
  have enc: "encode_signal_sender_key_distribution_message X d = Inr (?v # enc_sender_distribution X ?proto)"
    using distribution_ok_valid [OF d] parts
    by (simp add: encode_signal_sender_key_distribution_message_def)
  have "65 \<le> length (enc_sender_distribution X ?proto)"
    using ext_distribution_length [OF X, of ?proto "sdm_chain_key d" "sdm_signing_key d"] parts(2)
      key_normal_length [OF parts(3)] by simp
  moreover have "validate_signal_sender_signing_key_wire_public (sdm_signing_key d) = Inr ()"
    using parts(3) by (simp add: wire_public_Ok)
  moreover have "\<lparr>sdm_message_version = SIGNAL_WIRE_CURRENT_VERSION, sdm_key_id = sdm_key_id d,
      sdm_iteration = sdm_iteration d, sdm_chain_key = sdm_chain_key d,
      sdm_signing_key = sdm_signing_key d\<rparr> = d"
    using parts(1) by (cases d) simp
  ultimately have "decode_signal_sender_key_distribution_message X (?v # enc_sender_distribution X ?proto) = Inr d"
    using parts(2) ext_wire(3) [OF X] sender_version_byte
    by (simp add: decode_signal_sender_key_distribution_message_def validate_signal_sender_chain_key_def)
  with enc show ?thesis by blast
qed

text \<open>A key the member does not know yet becomes its first state; others of its id go.\<close>

definition new_state :: "SignalSenderKeyDistributionMessage \<Rightarrow> SignalSenderKeyState" where
  "new_state d = \<lparr>sks_key_id = sdm_key_id d,
     sks_chain_key = \<lparr>sck_key = sdm_chain_key d, sck_iteration = sdm_iteration d\<rparr>,
     sks_signing_public_key = sdm_signing_key d, sks_signing_private_key = None, sks_message_keys = []\<rparr>"

lemma sender_record_ok_take_new:
  assumes "sender_record_ok X states" "sender_state_ok X st"
    and "\<forall>x\<in>set states'. x \<in> set states \<and> sks_key_id x \<noteq> sks_key_id st"
    and "distinct (map state_id states')"
  shows "sender_record_ok X (take 5 (st # states'))"
proof -
  have "distinct (map state_id (st # states'))" using assms(3,4) by (auto simp: state_id_def)
  then have "distinct (map state_id (take 5 (st # states')))" unfolding take_map [symmetric] by (rule distinct_take)
  moreover have "\<forall>x\<in>set (take 5 (st # states')). sender_state_ok X x"
    using assms(1-3) set_take_subset [of 5 "st # states'"] unfolding sender_record_ok_def by fastforce
  ultimately show ?thesis by (simp add: sender_record_ok_def)
qed

lemma distinct_state_id_filter: "distinct (map state_id states) \<Longrightarrow> distinct (map state_id (filter P states))"
  by (induction states) auto

lemma apply_new_distribution:
  assumes rec: "sender_record_ok X states" and d: "distribution_ok d"
    and new: "\<forall>st\<in>set states. state_id st \<noteq> (sdm_key_id d, sdm_signing_key d)"
  shows "apply_signal_sender_key_distribution X states d =
      Inr (take 5 (new_state d # filter (\<lambda>st. sks_key_id st \<noteq> sdm_key_id d) states))" (is "_ = Inr ?out")
    and "sender_record_ok X (take 5 (new_state d # filter (\<lambda>st. sks_key_id st \<noteq> sdm_key_id d) states))"
proof -
  have key: "normalize_signal_public_key (sdm_signing_key d) = Inr (sdm_signing_key d)"
    using d by (simp add: distribution_ok_def)
  have "sender_state_ok X (new_state d)"
    using d by (simp add: distribution_ok_def sender_state_ok_def new_state_def)
  moreover have "distinct (map state_id (filter (\<lambda>st. sks_key_id st \<noteq> sdm_key_id d) states))"
    using rec by (simp add: sender_record_ok_def distinct_state_id_filter)
  ultimately show ok: "sender_record_ok X ?out"
    by (intro sender_record_ok_take_new [OF rec]) (auto simp: new_state_def)
  have "\<not> (sks_key_id st = sdm_key_id d \<and> (case normalize_signal_public_key (sks_signing_public_key st) of
              Inr public_key \<Rightarrow> public_key = sdm_signing_key d | Inl _ \<Rightarrow> False))" if "st \<in> set states" for st
  proof -
    have "sender_state_ok X st" using that rec by (simp add: sender_record_ok_def)
    then have "key_normal (sks_signing_public_key st)" by (rule sender_state_ok_normal)
    then show ?thesis using new that by (simp add: state_id_def)
  qed
  then have "position (\<lambda>state. sks_key_id state = sdm_key_id d \<and>
      (case normalize_signal_public_key (sks_signing_public_key state) of
         Inr public_key \<Rightarrow> public_key = sdm_signing_key d | Inl _ \<Rightarrow> False)) states = None"
    unfolding position_None_iff by blast
  then show "apply_signal_sender_key_distribution X states d = Inr ?out"
    using sender_record_ok_validates [OF rec] sender_record_ok_validates [OF ok] distribution_ok_valid [OF d] key
    by (simp add: apply_signal_sender_key_distribution_def Let_def new_state_def)
qed

text \<open>The states a member starts from: those of its old record, if it has one that decodes.\<close>

definition known_states :: "ext \<Rightarrow> bytes option \<Rightarrow> SignalSenderKeyState list" where
  "known_states X old = (case Option.bind old (\<lambda>r. ok (decode_signal_sender_key_record X r)) of
     Some states \<Rightarrow> states | None \<Rightarrow> [])"

lemma known_states_ok: "sender_record_ok X (known_states X old)"
proof (cases old)
  case (Some r)
  then show ?thesis
    by (cases "decode_signal_sender_key_record X r")
      (auto simp: known_states_def ok_def sender_record_ok_def dest: decoded_sender_record_ok)
qed (simp add: known_states_def sender_record_ok_def)

lemma member_starts:
  assumes X: "ext_ok X" and d: "distribution_ok d" and run: "sender_run X (sks_chain_key (new_state d)) ks"
    and len: "length ks \<le> 2000"
    and new: "\<forall>st\<in>set (known_states X old). state_id st \<noteq> (sdm_key_id d, sdm_signing_key d)"
  shows "\<exists>member. process_signal_sender_key_distribution_record X old d = Inr member \<and>
    member_awaits X (sdm_key_id d, sdm_signing_key d, sks_chain_key (new_state d), ks) {..<length ks} member"
proof -
  let ?states = "take 5 (new_state d # filter (\<lambda>st. sks_key_id st \<noteq> sdm_key_id d) (known_states X old))"
  note app = apply_new_distribution [OF known_states_ok [of X old] d new]
  obtain member where m: "encode_signal_sender_key_record X ?states = Inr member"
    "decode_signal_sender_key_record X member = Inr ?states"
    using sender_record_encoded [OF X app(2)] by blast
  have "process_signal_sender_key_distribution_record X old d = Inr member"
    using app(1) m(1) by (simp add: process_signal_sender_key_distribution_record_def known_states_def)
  moreover have "follows_at X (sks_chain_key (new_state d)) ks 0 {..<length ks} (new_state d)"
    using d len by (auto simp: follows_at_def sender_state_ok_def distribution_ok_def new_state_def)
  moreover have "j' = 0" if "j' < length ?states" "sks_key_id (?states ! j') = sdm_key_id d" for j'
  proof (cases j')
    case (Suc j)
    then have "?states ! j' \<in> set (filter (\<lambda>st. sks_key_id st \<noteq> sdm_key_id d) (known_states X old))"
      using that(1) by (auto dest: nth_mem in_set_takeD)
    then show ?thesis using that(2) by simp
  qed
  ultimately show ?thesis
    using m(2) run unfolding member_awaits.simps
    by (intro exI [of _ member] conjI exI [of _ ?states] exI [of _ 0]) (simp_all add: new_state_def)
qed

section \<open>From sender to member\<close>

fun encrypt_group_all ::
  "ext \<Rightarrow> bytes \<Rightarrow> bytes \<Rightarrow> bytes list \<Rightarrow> (bytes list \<times> bytes) core_result" where
  "encrypt_group_all X rnd stored [] = Ok ([], stored)"
| "encrypt_group_all X rnd stored (p # ps) =
     and_then (encrypt_signal_sender_key_record_message X rnd stored p) (\<lambda>e.
     and_then (encrypt_group_all X rnd (ske_record e) ps) (\<lambda>(bss, stored).
     Ok (ske_message_bytes e # bss, stored)))"

lemma encrypt_group_messages:
  assumes X: "ext_ok X" and V: "verifier_ok X V"
  shows "can_send_group X stored st older \<Longrightarrow>
    unat (sck_iteration (sks_chain_key st)) + length ps < 4294967296 \<Longrightarrow>
    \<exists>bss stored' ks c. encrypt_group_all X rnd stored ps = Inr (bss, stored') \<and> length bss = length ps \<and>
      length ks = length ps \<and> sender_chain.run X (length ps) (sks_chain_key st) = Inr (ks, c) \<and>
      (\<forall>i<length ps. group_message X V (sks_key_id st) (sks_signing_public_key st) (ks ! i)
        (sck_iteration (sks_chain_key st) + word_of_nat i) (ps ! i) (bss ! i))"
proof (induction ps arbitrary: stored st)
  case Nil
  then show ?case by (intro exI [of _ "[]"] exI [of _ stored] exI [of _ "sks_chain_key st"]) simp
next
  case (Cons p ps)
  have it: "sck_iteration (sks_chain_key st) \<noteq> - 1" using Cons.prems(2) by (auto simp: u32_max_iff)
  obtain e k c where e: "encrypt_signal_sender_key_record_message X rnd stored p = Inr e"
    "sender_step X (sks_chain_key st) = Inr (k, c)"
    "can_send_group X (ske_record e) (st\<lparr>sks_chain_key := c\<rparr>) older"
    "group_message X V (sks_key_id st) (sks_signing_public_key st) k
      (sck_iteration (sks_chain_key st)) p (ske_message_bytes e)"
    using encrypt_group_step [OF X V Cons.prems(1) it] by blast
  have ci: "sck_iteration c = sck_iteration (sks_chain_key st) + 1"
    using sender_chain.step_index [OF e(2)] by simp
  have "unat (sck_iteration (sks_chain_key (st\<lparr>sks_chain_key := c\<rparr>))) + length ps < 4294967296"
    using Cons.prems(2) ci unat_Suc_u32 [OF it] by simp
  from Cons.IH [OF e(3) this] obtain bss stored' ks c' where
    ih: "encrypt_group_all X rnd (ske_record e) ps = Inr (bss, stored')" "length bss = length ps"
    "length ks = length ps" "sender_chain.run X (length ps) c = Inr (ks, c')"
    "\<forall>i<length ps. group_message X V (sks_key_id st) (sks_signing_public_key st) (ks ! i)
        (sck_iteration c + word_of_nat i) (ps ! i) (bss ! i)"
    by auto
  have "group_message X V (sks_key_id st) (sks_signing_public_key st) ((k # ks) ! i)
      (sck_iteration (sks_chain_key st) + word_of_nat i) ((p # ps) ! i) ((ske_message_bytes e # bss) ! i)"
    if "i < length (p # ps)" for i
    using that ih(5) e(4) ci by (cases i) (auto simp: ac_simps)
  then show ?case using e(1,2) ih(1-4)
    by (intro exI [of _ "ske_message_bytes e # bss"] exI [of _ stored'] exI [of _ "k # ks"] exI [of _ c']) simp
qed

end
