(* ===== verification/GroupProperties.thy ===== *)
theory GroupProperties
  imports GroupDelivery
begin

text \<open>
  The properties of the group sessions of \<^verbatim>\<open>crates/wa-core/src/signal.rs\<close>: delivery from the
  sender's record to a member's, authenticity, no rewinding of a chain by a distribution message,
  and the invariant of the stored records.
\<close>

section \<open>Delivery\<close>

lemma distribution_record_parts:
  assumes "signal_sender_key_distribution_record_from_encoded X key stored created = Inr dist"
  shows "\<exists>st older. can_send_group X stored st older \<and>
    sdr_distribution dist = \<lparr>sdm_message_version = SIGNAL_WIRE_CURRENT_VERSION, sdm_key_id = sks_key_id st,
      sdm_iteration = sck_iteration (sks_chain_key st), sdm_chain_key = sck_key (sks_chain_key st),
      sdm_signing_key = sks_signing_public_key st\<rparr> \<and>
    distribution_ok (sdr_distribution dist) \<and>
    encode_signal_sender_key_distribution_message X (sdr_distribution dist) = Inr (sdr_distribution_bytes dist)"
proof -
  obtain states where states: "decode_signal_sender_key_record X stored = Inr states"
    using assms by (auto simp: signal_sender_key_distribution_record_from_encoded_def and_then_eq_Ok)
  then obtain st older where so: "states = st # older"
    using assms by (cases states) (auto simp: signal_sender_key_distribution_record_from_encoded_def)
  note dec = states [unfolded so]
  have priv: "sks_signing_private_key st \<noteq> None"
    using assms by (auto simp: signal_sender_key_distribution_record_from_encoded_def dec split: if_splits)
  obtain d where build: "build_signal_sender_key_distribution_message (sks_key_id st)
      (sck_iteration (sks_chain_key st)) (sck_key (sks_chain_key st)) (sks_signing_public_key st) = Inr d"
    and enc: "encode_signal_sender_key_distribution_message X d = Inr (sdr_distribution_bytes dist)"
    and dist: "sdr_distribution dist = d"
    using assms priv by (auto simp: signal_sender_key_distribution_record_from_encoded_def dec and_then_eq_Ok)
  have "sender_state_ok X st" using decoded_sender_record_ok [OF dec] by (simp add: sender_record_ok_def)
  then have "key_normal (sks_signing_public_key st)" "length (sck_key (sks_chain_key st)) = 32"
    by (simp_all add: sender_state_ok_def)
  then have d: "d = \<lparr>sdm_message_version = SIGNAL_WIRE_CURRENT_VERSION, sdm_key_id = sks_key_id st,
      sdm_iteration = sck_iteration (sks_chain_key st), sdm_chain_key = sck_key (sks_chain_key st),
      sdm_signing_key = sks_signing_public_key st\<rparr>" and ok: "distribution_ok d"
    using build
    by (auto simp: build_signal_sender_key_distribution_message_def and_then_eq_Ok distribution_ok_def)
  show ?thesis
    unfolding dist using dec priv enc ok d
    by (intro exI [of _ st] exI [of _ older] conjI) (simp_all add: can_send_group_def)
qed

lemma group_delivered:
  assumes X: "ext_ok X" and V: "verifier_ok X V"
    and dist: "signal_sender_key_distribution_record_from_encoded X key stored created = Inr dist"
    and new: "\<forall>st\<in>set (known_states X old). state_id st \<noteq>
      (sdm_key_id (sdr_distribution dist), sdm_signing_key (sdr_distribution dist))"
    and len: "unat (sdm_iteration (sdr_distribution dist)) + length ps < 4294967296" "length ps \<le> 2000"
    and order: "distinct order" "set order \<subseteq> {..<length ps}"
  shows "\<exists>d member bss stored' member'.
    decode_signal_sender_key_distribution_message X (sdr_distribution_bytes dist) = Inr d \<and>
    process_signal_sender_key_distribution_record X old d = Inr member \<and>
    encrypt_group_all X rnd stored ps = Inr (bss, stored') \<and> length bss = length ps \<and>
    recv_all (decrypt_group X V) member (map ((!) bss) order) = Inr (map ((!) ps) order, member') \<and>
    (\<forall>i\<in>set order. \<exists>e. decrypt_group X V member' (bss ! i) = Inl e \<and> duplicate_iteration e)"
proof -
  let ?d = "sdr_distribution dist"
  obtain st older where snd: "can_send_group X stored st older"
    and d: "?d = \<lparr>sdm_message_version = SIGNAL_WIRE_CURRENT_VERSION, sdm_key_id = sks_key_id st,
      sdm_iteration = sck_iteration (sks_chain_key st), sdm_chain_key = sck_key (sks_chain_key st),
      sdm_signing_key = sks_signing_public_key st\<rparr>"
    and ok: "distribution_ok ?d"
    and enc: "encode_signal_sender_key_distribution_message X ?d = Inr (sdr_distribution_bytes dist)"
    using distribution_record_parts [OF dist] by blast
  have chain: "sks_chain_key (new_state ?d) = sks_chain_key st" by (simp add: new_state_def d)
  have dec: "decode_signal_sender_key_distribution_message X (sdr_distribution_bytes dist) = Inr ?d"
    using distribution_roundtrip [OF X ok] enc by auto
  have "unat (sck_iteration (sks_chain_key st)) + length ps < 4294967296" using len(1) by (simp add: d)
  then obtain bss stored' ks c where send: "encrypt_group_all X rnd stored ps = Inr (bss, stored')"
    "length bss = length ps" "length ks = length ps"
    "sender_chain.run X (length ps) (sks_chain_key st) = Inr (ks, c)"
    "\<forall>i<length ps. group_message X V (sks_key_id st) (sks_signing_public_key st) (ks ! i)
      (sck_iteration (sks_chain_key st) + word_of_nat i) (ps ! i) (bss ! i)"
    using encrypt_group_messages [OF X V snd] by blast
  have run: "sender_run X (sks_chain_key (new_state ?d)) ks" using X send(3,4) by (simp add: sender_run_def chain)
  let ?s = "(sks_key_id st, sks_signing_public_key st, sks_chain_key st, ks)"
  obtain member where member: "process_signal_sender_key_distribution_record X old ?d = Inr member"
    "member_awaits X ?s {..<length ks} member"
    using member_starts [OF X ok run _ new] len(2) send(3) unfolding chain by (auto simp: d)
  have msgs: "\<forall>i\<in>set order. stream_message X V ?s i (bss ! i) (ps ! i)"
    using send(3,5) order(2) by auto
  obtain member' where "recv_all (decrypt_group X V) member (map ((!) bss) order) = Inr (map ((!) ps) order, member')"
    "\<forall>i\<in>set order. \<exists>e. decrypt_group X V member' (bss ! i) = Inl e \<and> duplicate_iteration e"
    using group_member.deliver_once [OF member(2) order(1) _ msgs] order(2) send(3) by auto
  then show ?thesis using dec member(1) send(1,2) by blast
qed

text \<open>
  C14: group delivery in any order, exactly once. A sender hands out its current sender key; a member
  that did not know the key takes it in, into whatever record it had. Then of any list of at most
  2000 messages the sender sends, the member decrypts those that arrive, in any order, to their
  plaintexts, and refuses each of them when it comes again.
\<close>

theorem group_delivery:
  assumes "ext_ok X" "verifier_ok X V"
    and "signal_sender_key_distribution_record_from_encoded X key stored created = Inr dist"
    and "\<forall>st\<in>set (known_states X old). state_id st \<noteq>
      (sdm_key_id (sdr_distribution dist), sdm_signing_key (sdr_distribution dist))"
    and "unat (sdm_iteration (sdr_distribution dist)) + length ps < 4294967296" "length ps \<le> 2000"
    and "distinct order" "set order \<subseteq> {..<length ps}"
  shows "\<exists>d member bss stored' member'.
    decode_signal_sender_key_distribution_message X (sdr_distribution_bytes dist) = Inr d \<and>
    process_signal_sender_key_distribution_record X old d = Inr member \<and>
    encrypt_group_all X rnd stored ps = Inr (bss, stored') \<and> length bss = length ps \<and>
    recv_all (decrypt_group X V) member (map ((!) bss) order) = Inr (map ((!) ps) order, member') \<and>
    (\<forall>i\<in>set order. \<exists>e. decrypt_group X V member' (bss ! i) = Inl e \<and> duplicate_iteration e)"
  by (rule group_delivered [OF assms])

lemma created_distribution:
  assumes X: "ext_ok X" and len: "length chain_key = 32" "length rnd = 32"
  shows "\<exists>r. create_signal_sender_key_distribution_record X key_id chain_key rnd key = Inr r \<and>
    sdm_iteration (sdr_distribution r) = 0 \<and>
    signal_sender_key_distribution_record_from_encoded X key (sdr_record r) True = Inr r"
proof -
  let ?pub = "prefixed_signal_public_key (x_public X rnd)"
  let ?st = "\<lparr>sks_key_id = key_id, sks_chain_key = \<lparr>sck_key = chain_key, sck_iteration = 0\<rparr>,
    sks_signing_public_key = ?pub, sks_signing_private_key = Some rnd, sks_message_keys = []\<rparr>"
  let ?d = "\<lparr>sdm_message_version = SIGNAL_WIRE_CURRENT_VERSION, sdm_key_id = key_id, sdm_iteration = 0,
    sdm_chain_key = chain_key, sdm_signing_key = ?pub\<rparr>"
  have pub: "length (x_public X rnd) = 32" by (rule ext_keys(1) [OF X len(2)])
  then have normal: "key_normal ?pub" by (simp add: key_normal_def)
  have "normalize_signal_public_key (x_public X rnd) = Inr ?pub"
    using pub by (simp add: normalize_key_cases)
  then have build: "build_signal_sender_key_distribution_message key_id 0 chain_key (x_public X rnd) = Inr ?d"
    "build_signal_sender_key_distribution_message key_id 0 chain_key ?pub = Inr ?d"
    using len(1) normal
    by (simp_all add: build_signal_sender_key_distribution_message_def validate_signal_sender_chain_key_def)
  have "sender_record_ok X [?st]" using len normal by (simp add: sender_record_ok_def sender_state_ok_def)
  then obtain bs where bs: "encode_signal_sender_key_record X [?st] = Inr bs"
    "decode_signal_sender_key_record X bs = Inr [?st]"
    using sender_record_encoded [OF X] by blast
  have "distribution_ok ?d" using len(1) normal by (simp add: distribution_ok_def)
  then obtain ds where "encode_signal_sender_key_distribution_message X ?d = Inr ds"
    using distribution_roundtrip [OF X] by blast
  then show ?thesis using build bs
    by (simp add: create_signal_sender_key_distribution_record_def generate_key_pair_def
        public_key_from_private_def signal_sender_key_distribution_record_from_encoded_def Let_def)
qed

lemma sample_group:
  "\<exists>stored dist. signal_sender_key_distribution_record_from_encoded toy ''group'' stored True = Inr dist \<and>
    sdm_iteration (sdr_distribution dist) = 0"
  using created_distribution [OF toy_ok, of "replicate 32 1" "replicate 32 2" 7 "''group''"] by auto

theorem group_delivery_witness:
  "\<exists>stored dist d member bss stored' member'.
    signal_sender_key_distribution_record_from_encoded toy ''group'' stored True = Inr dist \<and>
    decode_signal_sender_key_distribution_message toy (sdr_distribution_bytes dist) = Inr d \<and>
    process_signal_sender_key_distribution_record toy None d = Inr member \<and>
    encrypt_group_all toy [] stored [[1], [2], [3]] = Inr (bss, stored') \<and>
    recv_all (decrypt_group toy (\<lambda>_ _ _. True)) member (map ((!) bss) [2, 0]) = Inr ([[3], [1]], member')"
proof -
  obtain stored dist where dist: "signal_sender_key_distribution_record_from_encoded toy ''group'' stored True = Inr dist"
    "sdm_iteration (sdr_distribution dist) = 0"
    using sample_group by blast
  let ?ps = "[[1], [2], [3]] :: bytes list"
  have new: "\<forall>st\<in>set (known_states toy None). state_id st \<noteq>
      (sdm_key_id (sdr_distribution dist), sdm_signing_key (sdr_distribution dist))"
    by (simp add: known_states_def)
  have fit: "unat (sdm_iteration (sdr_distribution dist)) + length ?ps < 4294967296" "length ?ps \<le> 2000"
    and order: "distinct [2 :: nat, 0]" "set [2 :: nat, 0] \<subseteq> {..<length ?ps}"
    using dist(2) by simp_all
  have "map ((!) ?ps) [2, 0] = [[3], [1]]" by simp
  with group_delivery [OF toy_ok toy_verifier_ok dist(1) new fit order, of "[]"] dist(1) show ?thesis
    by metis
qed

section \<open>Authenticity\<close>

lemma verify_with_states_Ok:
  "verify_with_states X V bs key_id n err states = Inr (j, m) \<Longrightarrow>
     n \<le> j \<and> j - n < length states \<and> sks_key_id (states ! (j - n)) = key_id \<and>
     verify_signal_sender_key_message_bytes X V bs (sks_signing_public_key (states ! (j - n))) = Inr m"
proof (induction states arbitrary: n err)
  case (Cons st states)
  show ?case
  proof (cases "sks_key_id st = key_id \<and> (\<exists>m. verify_signal_sender_key_message_bytes X V bs
      (sks_signing_public_key st) = Inr m)")
    case True
    then show ?thesis using Cons.prems by auto
  next
    case False
    then obtain err' where "verify_with_states X V bs key_id (Suc n) err' states = Inr (j, m)"
      using Cons.prems by (auto split: sum.splits if_splits)
    from Cons.IH [OF this] have "j - n = Suc (j - Suc n)" "Suc n \<le> j" by auto
    with Cons.IH [OF \<open>verify_with_states X V bs key_id (Suc n) err' states = Inr (j, m)\<close>]
    show ?thesis by simp
  qed
qed simp

lemma decrypt_group_parts:
  assumes "decrypt_signal_sender_key_record_message X V stored bs = Inr d"
  shows "\<exists>states j l st1 st. decode_signal_sender_key_record X stored = Inr states \<and> j < length states \<and>
    sks_key_id (states ! j) = skm_key_id (skd_message d) \<and>
    verify_signal_sender_key_message_bytes X V bs (sks_signing_public_key (states ! j)) = Inr (skd_message d) \<and>
    signal_sender_message_key_for_iteration X (states ! j) (skm_iteration (skd_message d)) = Inr (l, st1) \<and>
    st = (case l of Stored n _ \<Rightarrow> st1\<lparr>sks_message_keys := remove_at n (sks_message_keys st1)\<rparr> | Current _ \<Rightarrow> st1) \<and>
    encode_signal_sender_key_record X (states[j := st]) = Inr (skd_record d)"
proof -
  obtain states m where dec: "decode_signal_sender_key_record X stored = Inr states"
    and m: "decode_signal_sender_key_message X bs = Inr m"
    using assms by (auto simp: decrypt_signal_sender_key_record_message_def and_then_eq_Ok)
  obtain j v where v: "verify_with_states X V bs (skm_key_id m) 0 None states = Inr (j, v)"
    using assms dec m
    by (cases "verify_with_states X V bs (skm_key_id m) 0 None states")
      (auto simp: decrypt_signal_sender_key_record_message_def split: option.splits)
  note parts = verify_with_states_Ok [OF v]
  have "v = m" using parts m by (auto simp: verify_signal_sender_key_message_bytes_def and_then_eq_Ok)
  then show ?thesis
    using assms dec m v parts
    by (auto simp: decrypt_signal_sender_key_record_message_def and_then_eq_Ok Let_def)
qed

text \<open>
  C25: only signed messages are decrypted. When a member decrypts a group message, the verifier has
  accepted its signature, over the encoding of exactly the key id, iteration and ciphertext that
  were used, under the signing key of a state of the member's record with that key id.
\<close>

theorem group_message_authentic:
  assumes "decrypt_signal_sender_key_record_message X V stored bs = Inr d"
  shows "\<exists>states st signing_key payload. decode_signal_sender_key_record X stored = Inr states \<and>
    st \<in> set states \<and> sks_key_id st = skm_key_id (skd_message d) \<and>
    signal_public_key_bytes (sks_signing_public_key st) = Inr signing_key \<and>
    encode_signal_sender_key_message_payload X (skd_message d) = Inr payload \<and>
    V signing_key payload (skm_signature (skd_message d))"
proof -
  obtain states j where parts: "decode_signal_sender_key_record X stored = Inr states" "j < length states"
    "sks_key_id (states ! j) = skm_key_id (skd_message d)"
    "verify_signal_sender_key_message_bytes X V bs (sks_signing_public_key (states ! j)) = Inr (skd_message d)"
    using decrypt_group_parts [OF assms] by blast
  obtain signing_key payload where "signal_public_key_bytes (sks_signing_public_key (states ! j)) = Inr signing_key"
    "encode_signal_sender_key_message_payload X (skd_message d) = Inr payload"
    "verify_signal_sender_key_signature V signing_key payload (skm_signature (skd_message d)) = Inr ()"
    using parts(4)
    by (auto simp: verify_signal_sender_key_message_bytes_def verify_signal_sender_key_message_def and_then_eq_Ok)
  moreover from this have "V signing_key payload (skm_signature (skd_message d))"
    by (auto simp: verify_signal_sender_key_signature_def split: if_splits)
  ultimately show ?thesis using parts(1,3) nth_mem [OF parts(2)] by blast
qed

theorem group_message_authentic_witness:
  "\<exists>stored bs d states st. decrypt_signal_sender_key_record_message toy (\<lambda>_ _ _. True) stored bs = Inr d \<and>
    decode_signal_sender_key_record toy stored = Inr states \<and> st \<in> set states \<and>
    sks_key_id st = skm_key_id (skd_message d)"
proof -
  let ?V = "\<lambda>_ _ _. True"
  obtain stored dist where dist: "signal_sender_key_distribution_record_from_encoded toy ''group'' stored True = Inr dist"
    "sdm_iteration (sdr_distribution dist) = 0"
    using sample_group by blast
  have "\<exists>member bss member'. recv_all (decrypt_group toy ?V) member (map ((!) bss) [0]) = Inr ([[7]], member')"
    using group_delivered [OF toy_ok toy_verifier_ok dist(1), of None "[[7]]" "[0]" "[]"] dist(2)
    by (auto simp: known_states_def)
  then obtain member bs d where d: "decrypt_signal_sender_key_record_message toy ?V member bs = Inr d"
    by (auto simp: decrypt_group_def and_then_eq_Ok)
  then show ?thesis using group_message_authentic [OF d] by blast
qed

end
