(* ===== verification/GroupInvariant.thy ===== *)
theory GroupInvariant
  imports GroupProperties
begin

text \<open>
  The stored sender-key records of \<^verbatim>\<open>crates/wa-core/src/signal.rs\<close> over time: a distribution
  message never rewinds a chain, and whatever sequence of distributions, sent and received messages
  a record goes through, on bytes an attacker may choose, it stays sound. Also the round trips of
  the record and of the distribution message.
\<close>

section \<open>Distribution messages\<close>

lemma validate_distribution_parts:
  assumes "validate_signal_sender_key_distribution_message d = Inr ()"
  shows "\<exists>k. normalize_signal_public_key (sdm_signing_key d) = Inr k \<and> key_normal k \<and>
    length (sdm_chain_key d) = 32"
  using assms by (auto simp: validate_signal_sender_key_distribution_message_def and_then_eq_Ok
      wire_public_Ok sender_chain_key_Ok)

lemma position_state_id:
  assumes "sender_record_ok X states"
  shows "position (\<lambda>state. sks_key_id state = key_id \<and>
      (case normalize_signal_public_key (sks_signing_public_key state) of
         Inr public_key \<Rightarrow> public_key = k | Inl _ \<Rightarrow> False)) states =
    position (\<lambda>state. state_id state = (key_id, k)) states"
proof -
  have "\<forall>st\<in>set states. key_normal (sks_signing_public_key st)"
    using assms by (auto simp: sender_record_ok_def dest: sender_state_ok_normal)
  then show ?thesis by (induction states) (auto simp: state_id_def)
qed

lemma apply_distribution_parts:
  assumes rec: "sender_record_ok X states"
    and app: "apply_signal_sender_key_distribution X states d = Inr states'"
  shows "\<exists>k st older. normalize_signal_public_key (sdm_signing_key d) = Inr k \<and> key_normal k \<and>
    states' = take 5 (st # older) \<and> sks_key_id st = sdm_key_id d \<and> sks_signing_public_key st = k \<and>
    (\<forall>x\<in>set older. x \<in> set states \<and> sks_key_id x \<noteq> sdm_key_id d) \<and>
    (\<forall>old\<in>set states. state_id old = (sdm_key_id d, k) \<longrightarrow>
       (st = old \<or> sck_iteration (sks_chain_key old) < sdm_iteration d \<and>
         st = old\<lparr>sks_chain_key := \<lparr>sck_key = sdm_chain_key d, sck_iteration = sdm_iteration d\<rparr>\<rparr>))"
proof -
  obtain k where k: "normalize_signal_public_key (sdm_signing_key d) = Inr k" "key_normal k"
    and valid: "validate_signal_sender_key_distribution_message d = Inr ()"
    using app validate_distribution_parts
    by (fastforce simp: apply_signal_sender_key_distribution_def and_then_eq_Ok)
  note pos = position_state_id [OF rec, of "sdm_key_id d" k]
  let ?index = "position (\<lambda>state. state_id state = (sdm_key_id d, k)) states"
  have dist: "distinct (map state_id states)" using rec by (simp add: sender_record_ok_def)
  show ?thesis
  proof (cases ?index)
    case None
    then have "\<forall>old\<in>set states. state_id old \<noteq> (sdm_key_id d, k)" unfolding position_None_iff .
    moreover have "states' = take 5 (\<lparr>sks_key_id = sdm_key_id d,
        sks_chain_key = \<lparr>sck_key = sdm_chain_key d, sck_iteration = sdm_iteration d\<rparr>,
        sks_signing_public_key = k, sks_signing_private_key = None, sks_message_keys = []\<rparr> #
        filter (\<lambda>state. sks_key_id state \<noteq> sdm_key_id d) states)"
      using app k(1) valid pos None sender_record_ok_validates [OF rec]
      by (auto simp: apply_signal_sender_key_distribution_def Let_def and_then_eq_Ok)
    ultimately show ?thesis using k
      by (intro exI [of _ k] exI conjI) (assumption | rule refl | simp)+
  next
    case (Some i)
    note i = position_SomeD [OF Some]
    let ?old = "states ! i"
    let ?st = "if sck_iteration (sks_chain_key ?old) < sdm_iteration d
      then ?old\<lparr>sks_chain_key := \<lparr>sck_key = sdm_chain_key d, sck_iteration = sdm_iteration d\<rparr>\<rparr>
      else ?old"
    have only: "old = ?old" if "old \<in> set states" "state_id old = (sdm_key_id d, k)" for old
    proof -
      have "inj_on state_id (set states)" using dist by (simp add: distinct_map)
      then show ?thesis using that i by (auto intro: inj_onD)
    qed
    have "states' = take 5 (?st # filter (\<lambda>state. sks_key_id state \<noteq> sdm_key_id d) (remove_at i states))"
      using app k(1) valid pos Some sender_record_ok_validates [OF rec]
      by (auto simp: apply_signal_sender_key_distribution_def Let_def and_then_eq_Ok)
    moreover have "\<forall>x\<in>set (filter (\<lambda>state. sks_key_id state \<noteq> sdm_key_id d) (remove_at i states)).
        x \<in> set states \<and> sks_key_id x \<noteq> sdm_key_id d"
      using set_remove_at_subset [of i states] by auto
    moreover have "sks_key_id ?st = sdm_key_id d" "sks_signing_public_key ?st = k"
      using i by (simp_all add: state_id_def)
    moreover have "\<forall>old\<in>set states. state_id old = (sdm_key_id d, k) \<longrightarrow>
       (?st = old \<or> sck_iteration (sks_chain_key old) < sdm_iteration d \<and>
         ?st = old\<lparr>sks_chain_key := \<lparr>sck_key = sdm_chain_key d, sck_iteration = sdm_iteration d\<rparr>\<rparr>)"
      using only by auto
    ultimately show ?thesis using k by blast
  qed
qed

text \<open>
  C26: a distribution message never rewinds a chain. Taking it in puts the state of its key first;
  when the record had that key before, the chain either stays or moves forward, and the skipped
  keys and the private key are kept; no other state of that key id remains, and every other state
  of the result was there before.
\<close>

theorem distribution_never_rewinds:
  assumes "decode_signal_sender_key_record X stored = Inr states"
    and "apply_signal_sender_key_distribution X states d = Inr states'"
  shows "\<exists>k st older. normalize_signal_public_key (sdm_signing_key d) = Inr k \<and> states' = st # older \<and>
    sks_key_id st = sdm_key_id d \<and> sks_signing_public_key st = k \<and>
    (\<forall>old\<in>set states. sks_key_id old = sdm_key_id d \<and> sks_signing_public_key old = k \<longrightarrow>
       sck_iteration (sks_chain_key old) \<le> sck_iteration (sks_chain_key st) \<and>
       sks_message_keys st = sks_message_keys old \<and>
       sks_signing_private_key st = sks_signing_private_key old) \<and>
    (\<forall>x\<in>set older. x \<in> set states \<and> sks_key_id x \<noteq> sdm_key_id d) \<and> length states' \<le> 5"
proof -
  obtain k st older where k: "normalize_signal_public_key (sdm_signing_key d) = Inr k"
    "states' = take 5 (st # older)" "sks_key_id st = sdm_key_id d" "sks_signing_public_key st = k"
    "\<forall>x\<in>set older. x \<in> set states \<and> sks_key_id x \<noteq> sdm_key_id d"
    "\<forall>old\<in>set states. state_id old = (sdm_key_id d, k) \<longrightarrow>
       (st = old \<or> sck_iteration (sks_chain_key old) < sdm_iteration d \<and>
         st = old\<lparr>sks_chain_key := \<lparr>sck_key = sdm_chain_key d, sck_iteration = sdm_iteration d\<rparr>\<rparr>)"
    using apply_distribution_parts [OF decoded_sender_record_ok [OF assms(1)] assms(2)] by blast
  have "sck_iteration (sks_chain_key old) \<le> sck_iteration (sks_chain_key st) \<and>
       sks_message_keys st = sks_message_keys old \<and>
       sks_signing_private_key st = sks_signing_private_key old"
    if "old \<in> set states" "sks_key_id old = sdm_key_id d" "sks_signing_public_key old = k" for old
    using k(6) that by (auto simp: state_id_def)
  moreover have "states' = st # take 4 older" "\<forall>x\<in>set (take 4 older). x \<in> set older"
    using k(2) by (auto dest: in_set_takeD)
  ultimately show ?thesis using k(1,3,4,5)
    by (intro exI [of _ k] exI [of _ st] exI [of _ "take 4 older"]) (auto dest: in_set_takeD)
qed

lemma sample_created:
  "\<exists>r states. create_signal_sender_key_distribution_record toy 7 (replicate 32 1) (replicate 32 2) ''group'' = Inr r \<and>
    decode_signal_sender_key_record toy (sdr_record r) = Inr states \<and> distribution_ok (sdr_distribution r)"
proof -
  obtain r where r: "create_signal_sender_key_distribution_record toy 7 (replicate 32 1) (replicate 32 2) ''group'' = Inr r"
    "signal_sender_key_distribution_record_from_encoded toy ''group'' (sdr_record r) True = Inr r"
    using created_distribution [OF toy_ok, of "replicate 32 1" "replicate 32 2" 7 "''group''"] by auto
  then show ?thesis using distribution_record_parts [OF r(2)] by (auto simp: can_send_group_def)
qed

theorem distribution_never_rewinds_witness:
  "\<exists>stored states states' st older. decode_signal_sender_key_record toy stored = Inr states \<and>
    apply_signal_sender_key_distribution toy states
      \<lparr>sdm_message_version = 3, sdm_key_id = 9, sdm_iteration = 4, sdm_chain_key = replicate 32 1,
       sdm_signing_key = 5 # replicate 32 3\<rparr> = Inr states' \<and>
    states' = st # older \<and> sks_key_id st = 9"
proof -
  let ?d = "\<lparr>sdm_message_version = 3, sdm_key_id = 9, sdm_iteration = 4, sdm_chain_key = replicate 32 1,
       sdm_signing_key = 5 # replicate 32 3\<rparr>"
  have ok: "sender_record_ok toy []" by (simp add: sender_record_ok_def)
  have d: "distribution_ok ?d"
    by (simp add: distribution_ok_def SIGNAL_WIRE_CURRENT_VERSION_def key_normal_def normalize_key_cases
        SIGNAL_PUBLIC_KEY_VERSION_def)
  obtain stored where dec: "decode_signal_sender_key_record toy stored = Inr []"
    using sender_record_encoded [OF toy_ok ok] by blast
  have app: "apply_signal_sender_key_distribution toy [] ?d = Inr (take 5 (new_state ?d # filter
      (\<lambda>st. sks_key_id st \<noteq> sdm_key_id ?d) []))"
    by (rule apply_new_distribution(1) [OF ok d]) simp
  show ?thesis using distribution_never_rewinds [OF dec app] dec app by fastforce
qed

section \<open>Every operation keeps the record sound\<close>

text \<open>What the states of a result need so that the encoded record decodes again.\<close>

lemma stored_ok:
  assumes "ext_ok X" "encode_signal_sender_key_record X states = Inr stored"
    and "\<forall>st\<in>set states. key_normal (sks_signing_public_key st)"
  shows "\<exists>states. decode_signal_sender_key_record X stored = Inr states \<and> sender_record_ok X states"
  using encoded_sender_record_ok [OF assms] by blast

lemma create_sound:
  assumes X: "ext_ok X" and create: "create_signal_sender_key_distribution_record X key_id ck rnd key = Inr r"
  shows "\<exists>states. decode_signal_sender_key_record X (sdr_record r) = Inr states \<and> sender_record_ok X states"
proof -
  obtain d where d: "build_signal_sender_key_distribution_message key_id 0 ck (kp_public (generate_key_pair X rnd)) = Inr d"
    and enc: "encode_signal_sender_key_record X
        [\<lparr>sks_key_id = key_id, sks_chain_key = \<lparr>sck_key = ck, sck_iteration = 0\<rparr>,
          sks_signing_public_key = sdm_signing_key d,
          sks_signing_private_key = Some (kp_private (generate_key_pair X rnd)), sks_message_keys = []\<rparr>] =
      Inr (sdr_record r)"
    using create by (auto simp: create_signal_sender_key_distribution_record_def Let_def and_then_eq_Ok)
  have "key_normal (sdm_signing_key d)"
    using d by (auto simp: build_signal_sender_key_distribution_message_def and_then_eq_Ok intro: key_normalI)
  then show ?thesis by (intro stored_ok [OF X enc]) simp
qed

lemma take_in_sound:
  assumes X: "ext_ok X" and proc: "process_signal_sender_key_distribution_record X old d = Inr stored"
  shows "\<exists>states. decode_signal_sender_key_record X stored = Inr states \<and> sender_record_ok X states"
proof -
  obtain states' where app: "apply_signal_sender_key_distribution X (known_states X old) d = Inr states'"
    and enc: "encode_signal_sender_key_record X states' = Inr stored"
    using proc by (auto simp: process_signal_sender_key_distribution_record_def known_states_def and_then_eq_Ok)
  obtain k st older where parts: "key_normal k" "states' = take 5 (st # older)" "sks_signing_public_key st = k"
    "\<forall>x\<in>set older. x \<in> set (known_states X old)"
    using apply_distribution_parts [OF known_states_ok app] by blast
  have "\<forall>x\<in>set (known_states X old). key_normal (sks_signing_public_key x)"
    using known_states_ok by (auto simp: sender_record_ok_def dest: sender_state_ok_normal)
  then have "\<forall>x\<in>set states'. key_normal (sks_signing_public_key x)"
    using parts by (auto dest: in_set_takeD)
  then show ?thesis by (rule stored_ok [OF X enc])
qed

lemma send_sound:
  assumes X: "ext_ok X" and send: "encrypt_signal_sender_key_record_message X rnd stored p = Inr e"
  shows "\<exists>states. decode_signal_sender_key_record X (ske_record e) = Inr states \<and> sender_record_ok X states"
proof -
  obtain states where states: "decode_signal_sender_key_record X stored = Inr states"
    using send by (auto simp: encrypt_signal_sender_key_record_message_def and_then_eq_Ok)
  then obtain st older where so: "states = st # older"
    using send by (cases states) (auto simp: encrypt_signal_sender_key_record_message_def)
  then obtain c where enc: "encode_signal_sender_key_record X (st\<lparr>sks_chain_key := c\<rparr> # older) = Inr (ske_record e)"
    using send states by (auto simp: encrypt_signal_sender_key_record_message_def and_then_eq_Ok)
  show ?thesis
    by (rule stored_ok [OF X enc])
      (use decoded_sender_record_ok [OF states] so in \<open>auto simp: sender_record_ok_def dest: sender_state_ok_normal\<close>)
qed

lemma store_until_signing_key:
  "store_sender_keys_until X st i = Inr st' \<Longrightarrow> sks_signing_public_key st' = sks_signing_public_key st"
proof (induction X st i rule: store_sender_keys_until.induct)
  case (1 X st i)
  show ?case
  proof (cases "sck_iteration (sks_chain_key st) < i")
    case True
    with "1.prems" obtain s p where s: "ratchet_signal_sender_chain X (sks_chain_key st) = Inr s"
      and p: "push_signal_sender_stored_message_key st \<lparr>ssk_iteration = smk_iteration (scs_message_key s),
           ssk_seed = smk_seed (scs_message_key s)\<rparr> = Inr p"
      and rest: "store_sender_keys_until X (p\<lparr>sks_chain_key := scs_next_chain_key s\<rparr>) i = Inr st'"
      by (subst (asm) store_sender_keys_until.simps) (auto simp: and_then_eq_Ok)
    have "sks_signing_public_key p = sks_signing_public_key st"
      using p by (auto simp: push_signal_sender_stored_message_key_def Let_def and_then_eq_Ok split: if_splits)
    then show ?thesis using "1.IH" [OF True s p rest] by simp
  next
    case False
    then show ?thesis using "1.prems" by (subst (asm) store_sender_keys_until.simps) simp
  qed
qed

lemma lookup_signing_key:
  "signal_sender_message_key_for_iteration X st i = Inr (l, st1) \<Longrightarrow>
     sks_signing_public_key st1 = sks_signing_public_key st"
  by (auto simp: signal_sender_message_key_for_iteration_def Let_def and_then_eq_Ok
      dest: store_until_signing_key split: if_splits)

lemma receive_sound:
  assumes X: "ext_ok X" and recv: "decrypt_signal_sender_key_record_message X V stored bs = Inr d"
  shows "\<exists>states. decode_signal_sender_key_record X (skd_record d) = Inr states \<and> sender_record_ok X states"
proof -
  obtain states j l st1 st where dec: "decode_signal_sender_key_record X stored = Inr states" "j < length states"
    and look: "signal_sender_message_key_for_iteration X (states ! j) (skm_iteration (skd_message d)) = Inr (l, st1)"
    and st: "st = (case l of Stored n _ \<Rightarrow> st1\<lparr>sks_message_keys := remove_at n (sks_message_keys st1)\<rparr> | Current _ \<Rightarrow> st1)"
    and enc: "encode_signal_sender_key_record X (states[j := st]) = Inr (skd_record d)"
    using decrypt_group_parts [OF recv] by blast
  have keys: "\<forall>x\<in>set states. key_normal (sks_signing_public_key x)"
    using decoded_sender_record_ok [OF dec(1)] by (auto simp: sender_record_ok_def dest: sender_state_ok_normal)
  have "sks_signing_public_key st = sks_signing_public_key (states ! j)"
    using lookup_signing_key [OF look] by (simp add: st split: SignalSenderMessageKeyLookup.splits)
  then have "\<forall>x\<in>set (states[j := st]). key_normal (sks_signing_public_key x)"
    using keys dec(2) set_update_subset_insert [of states j st] by auto
  then show ?thesis by (rule stored_ok [OF X enc])
qed

section \<open>The life of a sender-key record\<close>

text \<open>
  How the stored bytes of a group and sender change: they are created, taken in from a first
  distribution message, and then changed by distributions, sent and received messages.
\<close>

inductive sender_record_life :: "ext \<Rightarrow> verifier \<Rightarrow> bytes \<Rightarrow> bool" for X V where
  Create: "create_signal_sender_key_distribution_record X key_id ck rnd key = Inr r \<Longrightarrow>
    sender_record_life X V (sdr_record r)"
| First: "process_signal_sender_key_distribution_record X None d = Inr stored \<Longrightarrow>
    sender_record_life X V stored"
| Take: "sender_record_life X V stored \<Longrightarrow>
    process_signal_sender_key_distribution_record X (Some stored) d = Inr stored' \<Longrightarrow>
    sender_record_life X V stored'"
| Send: "sender_record_life X V stored \<Longrightarrow>
    encrypt_signal_sender_key_record_message X rnd stored p = Inr e \<Longrightarrow>
    sender_record_life X V (ske_record e)"
| Receive: "sender_record_life X V stored \<Longrightarrow>
    decrypt_signal_sender_key_record_message X V stored bs = Inr d \<Longrightarrow>
    sender_record_life X V (skd_record d)"

text \<open>
  C24: the stored sender-key record is always sound. After any sequence of distributions, sent
  messages and received byte strings, it decodes, holds at most five states, no two for the same
  key, and each state holds at most 2000 skipped keys, for distinct iterations that are all below
  its chain, and a private key only with the public key that belongs to it.
\<close>

theorem sender_record_invariant:
  assumes "ext_ok X" "sender_record_life X V stored"
  shows "\<exists>states. decode_signal_sender_key_record X stored = Inr states \<and> length states \<le> 5 \<and>
    distinct (map state_id states) \<and>
    (\<forall>st\<in>set states. length (sks_message_keys st) \<le> 2000 \<and> distinct (map ssk_iteration (sks_message_keys st)) \<and>
      (\<forall>e\<in>set (sks_message_keys st). ssk_iteration e < sck_iteration (sks_chain_key st)) \<and>
      (\<forall>k. sks_signing_private_key st = Some k \<longrightarrow>
        prefixed_signal_public_key (x_public X k) = sks_signing_public_key st))"
proof -
  have "\<exists>states. decode_signal_sender_key_record X stored = Inr states \<and> sender_record_ok X states"
    using assms(2)
    by cases (auto intro: create_sound take_in_sound send_sound receive_sound [OF assms(1)] simp: assms(1))
  then show ?thesis by (auto simp: sender_record_ok_def sender_state_ok_def)
qed

theorem sender_record_invariant_witness:
  "\<exists>stored states. sender_record_life toy (\<lambda>_ _ _. True) stored \<and>
    decode_signal_sender_key_record toy stored = Inr states \<and> length states \<le> 5"
proof -
  obtain r where r: "create_signal_sender_key_distribution_record toy 7 (replicate 32 1)
      (replicate 32 2) ''group'' = Inr r"
    "signal_sender_key_distribution_record_from_encoded toy ''group'' (sdr_record r) True = Inr r"
    "sdm_iteration (sdr_distribution r) = 0"
    using created_distribution [OF toy_ok, of "replicate 32 1" "replicate 32 2" 7 "''group''"] by auto
  obtain st older where snd: "can_send_group toy (sdr_record r) st older"
    "sdm_iteration (sdr_distribution r) = sck_iteration (sks_chain_key st)"
    using distribution_record_parts [OF r(2)] by auto
  have "sck_iteration (sks_chain_key st) \<noteq> - 1" using snd(2) r(3) by simp
  then obtain e where e: "encrypt_signal_sender_key_record_message toy [] (sdr_record r) [1] = Inr e"
    using encrypt_group_step [OF toy_ok toy_verifier_ok snd(1), of "[]" "[1]"] by blast
  have "sender_record_life toy (\<lambda>_ _ _. True) (ske_record e)"
    by (rule sender_record_life.Send [OF sender_record_life.Create [OF r(1)] e])
  then show ?thesis using sender_record_invariant [OF toy_ok] by blast
qed

section \<open>Round trips\<close>

text \<open>
  Sender-key records and distribution messages survive encoding. A sound record is encoded, and
  decoding gives back exactly its states; a well-formed distribution message likewise.
\<close>

theorem sender_key_roundtrip:
  assumes "ext_ok X" "sender_record_ok X states" "distribution_ok d"
  shows "\<exists>bs ds. encode_signal_sender_key_record X states = Inr bs \<and>
    decode_signal_sender_key_record X bs = Inr states \<and>
    encode_signal_sender_key_distribution_message X d = Inr ds \<and>
    decode_signal_sender_key_distribution_message X ds = Inr d"
  using sender_record_encoded [OF assms(1,2)] distribution_roundtrip [OF assms(1,3)] by blast

theorem sender_key_roundtrip_witness:
  "\<exists>d states bs. distribution_ok d \<and> states \<noteq> [] \<and> encode_signal_sender_key_record toy states = Inr bs \<and>
    decode_signal_sender_key_record toy bs = Inr states"
proof -
  obtain r :: SignalSenderKeyDistributionRecord and states
    where r: "decode_signal_sender_key_record toy (sdr_record r) = Inr states"
    "distribution_ok (sdr_distribution r)"
    using sample_created by blast
  let ?states = "take 5 (new_state (sdr_distribution r) # filter (\<lambda>st. sks_key_id st \<noteq>
    sdm_key_id (sdr_distribution r)) [])"
  have "sender_record_ok toy ?states"
    by (rule apply_new_distribution(2) [OF _ r(2)]) (simp_all add: sender_record_ok_def)
  from sender_key_roundtrip [OF toy_ok this r(2)] r(2) show ?thesis by fastforce
qed

end
