(* ===== verification/StdText.thy ===== *)
theory StdText
  imports Prelude
begin

text \<open>
  The parts of Rust's standard library that turn input into text and numbers, with their errors:
  \<open>String::from_utf8\<close> with the index and the length of the error it reports, \<open>str::parse\<close> of an
  unsigned integer with its three errors, and the \<open>Debug\<close> text of bytes.
\<close>

section \<open>Validation\<close>

text \<open>A continuation byte is \<open>0x80..=0xBF\<close>, that is \<open>(b as i8) < -64\<close>.\<close>

definition utf8_continuation :: "u8 \<Rightarrow> bool" where
  "utf8_continuation b \<longleftrightarrow> 128 \<le> unat b \<and> unat b \<le> 191"

definition utf8_char_width :: "u8 \<Rightarrow> nat" where
  "utf8_char_width b = (let n = unat b in
     if n < 128 then 1 else if n < 194 then 0 else if n < 224 then 2 else if n < 240 then 3
     else if n < 245 then 4 else 0)"

text \<open>Which second byte may follow the first one of three or four: no overlong form, no surrogate.\<close>

definition utf8_second :: "u8 \<Rightarrow> u8 \<Rightarrow> bool" where
  "utf8_second first second =
     (let f = unat first; s = unat second in
      utf8_continuation second \<and> (f = 224 \<longrightarrow> 160 \<le> s) \<and> (f = 237 \<longrightarrow> s \<le> 159) \<and>
      (f = 240 \<longrightarrow> 144 \<le> s) \<and> (f = 244 \<longrightarrow> s \<le> 143))"

text \<open>
  The sequence at the front: its width, or the error's length (\<^term>\<open>None\<close> where the input ends
  inside the sequence).
\<close>

fun utf8_tail :: "nat \<Rightarrow> nat \<Rightarrow> bytes \<Rightarrow> nat option + unit" where
  "utf8_tail 0 n bs = Ok ()"
| "utf8_tail (Suc k) n [] = Err None"
| "utf8_tail (Suc k) n (b # bs) =
     (if utf8_continuation b then utf8_tail k (Suc n) bs else Err (Some n))"

definition utf8_sequence :: "u8 \<Rightarrow> bytes \<Rightarrow> nat option + nat" where
  "utf8_sequence first rest = (let w = utf8_char_width first in
     if w = 0 then Err (Some 1)
     else if w = 1 then Ok 1
     else if w = 2 then and_then (utf8_tail 1 1 rest) (\<lambda>_. Ok 2)
     else (case rest of [] \<Rightarrow> Err None
       | second # rest' \<Rightarrow> if utf8_second first second
           then and_then (utf8_tail (w - 2) 2 rest') (\<lambda>_. Ok w) else Err (Some 1)))"

function utf8_error :: "nat \<Rightarrow> bytes \<Rightarrow> (nat \<times> nat option) option" where
  "utf8_error offset [] = None"
| "utf8_error offset (b # bs) =
     (case utf8_sequence b bs of Inl e \<Rightarrow> Some (offset, e)
      | Inr w \<Rightarrow> utf8_error (offset + w) (drop (w - 1) bs))"
  by pat_completeness auto
termination by (relation "measure (\<lambda>(offset, bs). length bs)") auto

definition utf8_error_text :: "nat \<times> nat option \<Rightarrow> string" where
  "utf8_error_text e = (case e of
     (i, Some n) \<Rightarrow> ''invalid utf-8 sequence of '' @ show_nat n @ '' bytes from index '' @ show_nat i
   | (i, None) \<Rightarrow> ''incomplete utf-8 byte sequence from index '' @ show_nat i)"

definition string_from_utf8 :: "bytes \<Rightarrow> string + string" where
  "string_from_utf8 bs = (case utf8_error 0 bs of
     None \<Rightarrow> Ok (string_of_bytes bs) | Some e \<Rightarrow> Err (utf8_error_text e))"

text \<open>The strings of the program: those whose bytes are UTF-8.\<close>

definition str_ok :: "string \<Rightarrow> bool" where
  "str_ok s \<longleftrightarrow> utf8_error 0 (bytes_of s) = None"

section \<open>Facts\<close>

lemma string_from_utf8_bytes_of [simp]: "str_ok s \<Longrightarrow> string_from_utf8 (bytes_of s) = Inr s"
  by (simp add: string_from_utf8_def str_ok_def)

lemma string_from_utf8_Ok: "string_from_utf8 bs = Inr s \<longleftrightarrow> str_ok s \<and> bs = bytes_of s"
  by (auto simp: string_from_utf8_def str_ok_def split: option.splits)

lemma utf8_error_shift: "utf8_error n bs = None \<longleftrightarrow> utf8_error m bs = None"
proof (induction "length bs" arbitrary: bs n m rule: less_induct)
  case less
  show ?case
  proof (cases bs)
    case (Cons b cs)
    have "utf8_error i (drop k cs) = None \<longleftrightarrow> utf8_error j (drop k cs) = None" for i j k
      by (rule less) (simp add: Cons)
    then show ?thesis by (auto simp: Cons split: sum.splits)
  qed simp
qed

lemma utf8_error_ascii: "\<forall>b\<in>set bs. unat b < 128 \<Longrightarrow> utf8_error n bs = None"
  by (induction bs arbitrary: n) (auto simp: utf8_sequence_def utf8_char_width_def Let_def)

lemma str_ok_ascii: "\<forall>c\<in>set s. (of_char c :: nat) < 128 \<Longrightarrow> str_ok s"
  unfolding str_ok_def
  by (rule utf8_error_ascii)
    (auto simp: bytes_of_def byte_of_char_def unat_of_nat take_bit_nat_eq_self)

lemma str_ok_Nil [simp]: "str_ok []"
  by (simp add: str_ok_def bytes_of_def)

lemma str_ok_show_nat [simp]: "str_ok (show_nat n)"
  by (rule str_ok_ascii) (use show_nat_chars in force)

section \<open>Parsing an unsigned integer\<close>

text \<open>
  \<open>parse_uint m s\<close> is \<open>s.parse()\<close> for the type whose maximum is \<open>m\<close>. A digit that makes the value
  exceed \<open>m\<close> and a character that is no digit are reported in the order they come.
\<close>

fun parse_uint_digits :: "nat \<Rightarrow> nat \<Rightarrow> string \<Rightarrow> string + nat" where
  "parse_uint_digits m acc [] = Ok acc"
| "parse_uint_digits m acc (c # cs) =
     (case digit_val c of
        None \<Rightarrow> Err ''invalid digit found in string''
      | Some d \<Rightarrow> if 10 * acc + d \<le> m then parse_uint_digits m (10 * acc + d) cs
          else Err ''number too large to fit in target type'')"

definition parse_uint :: "nat \<Rightarrow> string \<Rightarrow> string + nat" where
  "parse_uint m s =
     (if s = [] then Err ''cannot parse integer from empty string''
      else if s = ''+'' \<or> s = ''-'' then Err ''invalid digit found in string''
      else parse_uint_digits m 0 (if hd s = CHR ''+'' then tl s else s))"

lemma digits_mono: "parse_digits acc cs = Some n \<Longrightarrow> acc \<le> n"
  by (induction acc cs rule: parse_digits.induct) (fastforce split: option.splits)+

lemma parse_uint_digits_Ok:
  "acc \<le> m \<Longrightarrow> parse_uint_digits m acc cs = Inr n \<longleftrightarrow> parse_digits acc cs = Some n \<and> n \<le> m"
  by (induction acc cs rule: parse_digits.induct)
    (auto split: option.splits dest: digits_mono)

lemma parse_uint_show: "n \<le> m \<Longrightarrow> parse_uint m (show_nat n) = Inr n"
proof -
  assume n: "n \<le> m"
  have "CHR ''+'' \<notin> set (show_nat n)" "CHR ''-'' \<notin> set (show_nat n)"
    by (simp_all add: not_in_show_nat)
  then have "hd (show_nat n) \<noteq> CHR ''+''" "show_nat n \<noteq> ''+''" "show_nat n \<noteq> ''-''"
    using hd_in_set [of "show_nat n"] by (auto simp del: hd_in_set)
  then show ?thesis
    using n by (simp add: parse_uint_def parse_uint_digits_Ok parse_show_nat)
qed

section \<open>The \<open>Debug\<close> text of a byte vector\<close>

fun show_bytes_rest :: "bytes \<Rightarrow> string" where
  "show_bytes_rest [] = '']''"
| "show_bytes_rest (b # bs) = '', '' @ show_nat (unat b) @ show_bytes_rest bs"

fun show_bytes :: "bytes \<Rightarrow> string" where
  "show_bytes [] = ''[]''"
| "show_bytes (b # bs) = ''['' @ show_nat (unat b) @ show_bytes_rest bs"

end
