(* ===== verification/Credentials.thy ===== *)
theory Credentials
  imports StdText SignalAgreement
begin

text \<open>
  The device's credentials, \<^verbatim>\<open>crates/wa-core/src/auth.rs\<close>: their creation, the fields of the
  credentials namespace they are stored in, and the readers and writers of those fields, inside a
  store transaction (the functions ending in \<open>_tx\<close>) and on the store itself (those ending in
  \<open>_async\<close>).
\<close>

section \<open>The credentials\<close>

record SignedPreKey =
  sp_key_id :: u32
  sp_key_pair :: KeyPair
  sp_signature :: bytes

record AuthCredentials =
  noise_key :: KeyPair
  pairing_ephemeral_key_pair :: KeyPair
  signed_identity_key :: KeyPair
  signed_pre_key :: SignedPreKey
  registration_id :: u32
  adv_secret_key :: bytes
  next_pre_key_id :: u32
  first_unuploaded_pre_key_id :: u32
  registered :: bool
  account_jid :: "string option"
  account_lid :: "string option"
  account_name :: "string option"
  account_platform :: "string option"
  account_signature_key :: "bytes option"
  signed_device_identity :: "bytes option"
  pairing_code :: "string option"
  routing_info :: "bytes option"

record CredentialLoad =
  cl_credentials :: AuthCredentials
  cl_initialized :: bool

text \<open>The fields a registration payload takes from the credentials (\<^verbatim>\<open>payload.rs\<close>).\<close>

record RegistrationPayloadKeys =
  rp_registration_id :: u32
  rp_signed_identity_public :: bytes
  rp_signed_pre_key_id :: u32
  rp_signed_pre_key_public :: bytes
  rp_signed_pre_key_signature :: bytes

definition registration_payload_keys :: "AuthCredentials \<Rightarrow> RegistrationPayloadKeys" where
  "registration_payload_keys c =
     \<lparr>rp_registration_id = registration_id c,
      rp_signed_identity_public = kp_public (signed_identity_key c),
      rp_signed_pre_key_id = sp_key_id (signed_pre_key c),
      rp_signed_pre_key_public = kp_public (sp_key_pair (signed_pre_key c)),
      rp_signed_pre_key_signature = sp_signature (signed_pre_key c)\<rparr>"

section \<open>Creation\<close>

text \<open>The random values the creation draws, in the order it draws them.\<close>

record credential_randomness =
  rnd_identity :: bytes
  rnd_pre_key :: bytes
  rnd_signature :: bytes
  rnd_adv :: bytes
  rnd_noise :: bytes
  rnd_pairing :: bytes
  rnd_registration :: u16

definition create_signed_pre_key ::
  "ext \<Rightarrow> bytes \<Rightarrow> bytes \<Rightarrow> KeyPair \<Rightarrow> u32 \<Rightarrow> SignedPreKey core_result" where
  "create_signed_pre_key X rnd_key rnd_sign identity_key key_id =
     (let key_pair = generate_key_pair X rnd_key;
          prefixed_public = prefixed_signal_public_key (kp_public key_pair) in
      and_then (map_err Crypto (sign_x25519 X rnd_sign (kp_private identity_key) prefixed_public))
        (\<lambda>signature. Ok \<lparr>sp_key_id = key_id, sp_key_pair = key_pair, sp_signature = signature\<rparr>))"

definition generate_registration_id :: "u16 \<Rightarrow> u32" where
  "generate_registration_id rnd = ucast rnd AND 0x3fff"

definition create_initial_credentials ::
  "ext \<Rightarrow> credential_randomness \<Rightarrow> AuthCredentials core_result" where
  "create_initial_credentials X rnd =
     (let identity = generate_key_pair X (rnd_identity rnd) in
      and_then (create_signed_pre_key X (rnd_pre_key rnd) (rnd_signature rnd) identity 1)
        (\<lambda>pre_key. Ok
          \<lparr>noise_key = generate_key_pair X (rnd_noise rnd),
           pairing_ephemeral_key_pair = generate_key_pair X (rnd_pairing rnd),
           signed_identity_key = identity,
           signed_pre_key = pre_key,
           registration_id = generate_registration_id (rnd_registration rnd),
           adv_secret_key = rnd_adv rnd,
           next_pre_key_id = 1,
           first_unuploaded_pre_key_id = 1,
           registered = False,
           account_jid = None, account_lid = None, account_name = None, account_platform = None,
           account_signature_key = None, signed_device_identity = None, pairing_code = None,
           routing_info = None\<rparr>))"

definition build_device_identity_node :: "AuthCredentials \<Rightarrow> BinaryNode option core_result" where
  "build_device_identity_node c =
     (case signed_device_identity c of
        None \<Rightarrow> Ok None
      | Some identity \<Rightarrow>
          if identity = [] then Err (Payload ''stored device identity must not be empty'')
          else Ok (Some (with_content (Bytes identity) (node_new ''device-identity''))))"

section \<open>Field names\<close>

definition SCHEMA_VERSION_KEY :: string where "SCHEMA_VERSION_KEY = ''schema-version''"
definition SCHEMA_VERSION :: bytes where "SCHEMA_VERSION = [1]"
definition NOISE_PUBLIC_KEY :: string where "NOISE_PUBLIC_KEY = ''noise-public''"
definition NOISE_PRIVATE_KEY :: string where "NOISE_PRIVATE_KEY = ''noise-private''"
definition PAIRING_PUBLIC_KEY :: string where
  "PAIRING_PUBLIC_KEY = ''pairing-ephemeral-public''"
definition PAIRING_PRIVATE_KEY :: string where
  "PAIRING_PRIVATE_KEY = ''pairing-ephemeral-private''"
definition IDENTITY_PUBLIC_KEY :: string where "IDENTITY_PUBLIC_KEY = ''identity-public''"
definition IDENTITY_PRIVATE_KEY :: string where "IDENTITY_PRIVATE_KEY = ''identity-private''"
definition SIGNED_PRE_KEY_ID :: string where "SIGNED_PRE_KEY_ID = ''signed-pre-key-id''"
definition SIGNED_PRE_KEY_PUBLIC :: string where
  "SIGNED_PRE_KEY_PUBLIC = ''signed-pre-key-public''"
definition SIGNED_PRE_KEY_PRIVATE :: string where
  "SIGNED_PRE_KEY_PRIVATE = ''signed-pre-key-private''"
definition SIGNED_PRE_KEY_SIGNATURE :: string where
  "SIGNED_PRE_KEY_SIGNATURE = ''signed-pre-key-signature''"
definition REGISTRATION_ID :: string where "REGISTRATION_ID = ''registration-id''"
definition ADV_SECRET_KEY :: string where "ADV_SECRET_KEY = ''adv-secret-key''"
definition NEXT_PRE_KEY_ID :: string where "NEXT_PRE_KEY_ID = ''next-pre-key-id''"
definition FIRST_UNUPLOADED_PRE_KEY_ID :: string where
  "FIRST_UNUPLOADED_PRE_KEY_ID = ''first-unuploaded-pre-key-id''"
definition REGISTERED :: string where "REGISTERED = ''registered''"
definition ACCOUNT_JID :: string where "ACCOUNT_JID = ''account-jid''"
definition ACCOUNT_LID :: string where "ACCOUNT_LID = ''account-lid''"
definition ACCOUNT_NAME :: string where "ACCOUNT_NAME = ''account-name''"
definition ACCOUNT_PLATFORM :: string where "ACCOUNT_PLATFORM = ''account-platform''"
definition ACCOUNT_SIGNATURE_KEY :: string where
  "ACCOUNT_SIGNATURE_KEY = ''account-signature-key''"
definition SIGNED_DEVICE_IDENTITY :: string where
  "SIGNED_DEVICE_IDENTITY = ''signed-device-identity''"
definition PAIRING_CODE :: string where "PAIRING_CODE = ''pairing-code''"
definition ROUTING_INFO :: string where "ROUTING_INFO = ''routing-info''"

lemmas field_names =
  SCHEMA_VERSION_KEY_def NOISE_PUBLIC_KEY_def NOISE_PRIVATE_KEY_def PAIRING_PUBLIC_KEY_def
  PAIRING_PRIVATE_KEY_def IDENTITY_PUBLIC_KEY_def IDENTITY_PRIVATE_KEY_def SIGNED_PRE_KEY_ID_def
  SIGNED_PRE_KEY_PUBLIC_def SIGNED_PRE_KEY_PRIVATE_def SIGNED_PRE_KEY_SIGNATURE_def
  REGISTRATION_ID_def ADV_SECRET_KEY_def NEXT_PRE_KEY_ID_def FIRST_UNUPLOADED_PRE_KEY_ID_def
  REGISTERED_def ACCOUNT_JID_def ACCOUNT_LID_def ACCOUNT_NAME_def ACCOUNT_PLATFORM_def
  ACCOUNT_SIGNATURE_KEY_def SIGNED_DEVICE_IDENTITY_def PAIRING_CODE_def ROUTING_INFO_def

end
