(* ===== verification/CredentialStore.thy ===== *)
theory CredentialStore
  imports Credentials
begin

text \<open>
  Reading and writing the credentials of \<^verbatim>\<open>crates/wa-core/src/auth.rs\<close>. A transaction body is a
  function of the snapshot; the functions on the store itself read one key after the other.
\<close>

section \<open>Reading a field in a transaction\<close>

definition tx_lift :: "StoreError + 'a \<Rightarrow> ('s, 'a) tx" where
  "tx_lift r s = (r, s)"

definition vec_to_array :: "nat \<Rightarrow> bytes \<Rightarrow> string \<Rightarrow> StoreError + bytes" where
  "vec_to_array n val key =
     (if length val = n then Ok val
      else Err (InvalidData (''invalid credential field length for '' @ key @ '': '' @
             show_nat (length val))))"

definition read_required_tx :: "string \<Rightarrow> (store_map, bytes) tx" where
  "read_required_tx key =
     tx_bind (mem_get NsCredentials key) (\<lambda>val.
     tx_lift (ok_or val (InvalidData (''missing credential field: '' @ key))))"

definition read_exact_tx :: "nat \<Rightarrow> string \<Rightarrow> (store_map, bytes) tx" where
  "read_exact_tx n key = tx_bind (read_required_tx key) (\<lambda>val. tx_lift (vec_to_array n val key))"

definition read_u32_tx :: "string \<Rightarrow> (store_map, u32) tx" where
  "read_u32_tx key = tx_bind (read_exact_tx 4 key) (\<lambda>val. tx_return (fst (get_u32 val)))"

definition bool_of_field :: "string \<Rightarrow> bytes \<Rightarrow> StoreError + bool" where
  "bool_of_field key val =
     (if val = [0] then Ok False else if val = [1] then Ok True
      else Err (InvalidData (''invalid boolean credential field: '' @ key)))"

definition read_bool_tx :: "string \<Rightarrow> (store_map, bool) tx" where
  "read_bool_tx key = tx_bind (read_required_tx key) (\<lambda>val. tx_lift (bool_of_field key val))"

definition read_key_pair_tx :: "string \<Rightarrow> string \<Rightarrow> (store_map, KeyPair) tx" where
  "read_key_pair_tx public_key private_key =
     tx_bind (read_exact_tx 32 public_key) (\<lambda>public.
     tx_bind (read_exact_tx 32 private_key) (\<lambda>private.
     tx_return \<lparr>kp_public = public, kp_private = private\<rparr>))"

definition string_of_field :: "string \<Rightarrow> bytes option \<Rightarrow> StoreError + string option" where
  "string_of_field key val =
     (case val of None \<Rightarrow> Ok None
      | Some v \<Rightarrow> map_err (\<lambda>err. InvalidData (''invalid UTF-8 in '' @ key @ '': '' @ err))
          (and_then (string_from_utf8 v) (\<lambda>s. Ok (Some s))))"

definition read_optional_string_tx :: "string \<Rightarrow> (store_map, string option) tx" where
  "read_optional_string_tx key =
     tx_bind (mem_get NsCredentials key) (\<lambda>val. tx_lift (string_of_field key val))"

definition read_optional_bytes_tx :: "string \<Rightarrow> (store_map, bytes option) tx" where
  "read_optional_bytes_tx key = mem_get NsCredentials key"

section \<open>Writing a field\<close>

definition write_key_pair_tx :: "string \<Rightarrow> string \<Rightarrow> KeyPair \<Rightarrow> (store_map, unit) tx" where
  "write_key_pair_tx public_key private_key key_pair =
     tx_bind (mem_set NsCredentials public_key (kp_public key_pair)) (\<lambda>_.
     mem_set NsCredentials private_key (kp_private key_pair))"

definition write_u32_tx :: "string \<Rightarrow> u32 \<Rightarrow> (store_map, unit) tx" where
  "write_u32_tx key val = mem_set NsCredentials key (put_u32 val)"

definition write_optional_tx :: "string \<Rightarrow> bytes option \<Rightarrow> (store_map, unit) tx" where
  "write_optional_tx key val =
     (case val of Some v \<Rightarrow> mem_set NsCredentials key v | None \<Rightarrow> mem_delete NsCredentials key)"

section \<open>The credentials in a transaction\<close>

definition unsupported_version :: "bytes \<Rightarrow> StoreError" where
  "unsupported_version version =
     InvalidData (''unsupported credential schema version: '' @ show_bytes version)"

definition read_credentials_from_tx :: "(store_map, AuthCredentials option) tx" where
  "read_credentials_from_tx =
     tx_bind (mem_get NsCredentials SCHEMA_VERSION_KEY) (\<lambda>version.
       case version of
         None \<Rightarrow> tx_return None
       | Some version \<Rightarrow>
           if version \<noteq> SCHEMA_VERSION then tx_fail (unsupported_version version)
           else
             tx_bind (read_key_pair_tx NOISE_PUBLIC_KEY NOISE_PRIVATE_KEY) (\<lambda>noise.
             tx_bind (read_key_pair_tx PAIRING_PUBLIC_KEY PAIRING_PRIVATE_KEY) (\<lambda>pairing.
             tx_bind (read_key_pair_tx IDENTITY_PUBLIC_KEY IDENTITY_PRIVATE_KEY) (\<lambda>identity.
             tx_bind (read_u32_tx SIGNED_PRE_KEY_ID) (\<lambda>spk_id.
             tx_bind (read_key_pair_tx SIGNED_PRE_KEY_PUBLIC SIGNED_PRE_KEY_PRIVATE) (\<lambda>spk_pair.
             tx_bind (read_required_tx SIGNED_PRE_KEY_SIGNATURE) (\<lambda>spk_signature.
             tx_bind (read_u32_tx REGISTRATION_ID) (\<lambda>registration.
             tx_bind (read_exact_tx 32 ADV_SECRET_KEY) (\<lambda>adv.
             tx_bind (read_u32_tx NEXT_PRE_KEY_ID) (\<lambda>next_id.
             tx_bind (read_u32_tx FIRST_UNUPLOADED_PRE_KEY_ID) (\<lambda>first_id.
             tx_bind (read_bool_tx REGISTERED) (\<lambda>reg.
             tx_bind (read_optional_string_tx ACCOUNT_JID) (\<lambda>jid.
             tx_bind (read_optional_string_tx ACCOUNT_LID) (\<lambda>lid.
             tx_bind (read_optional_string_tx ACCOUNT_NAME) (\<lambda>name.
             tx_bind (read_optional_string_tx ACCOUNT_PLATFORM) (\<lambda>platform.
             tx_bind (read_optional_bytes_tx ACCOUNT_SIGNATURE_KEY) (\<lambda>signature_key.
             tx_bind (read_optional_bytes_tx SIGNED_DEVICE_IDENTITY) (\<lambda>device_identity.
             tx_bind (read_optional_string_tx PAIRING_CODE) (\<lambda>code.
             tx_bind (read_optional_bytes_tx ROUTING_INFO) (\<lambda>routing.
             tx_return (Some
               \<lparr>noise_key = noise, pairing_ephemeral_key_pair = pairing,
                signed_identity_key = identity,
                signed_pre_key = \<lparr>sp_key_id = spk_id, sp_key_pair = spk_pair, sp_signature = spk_signature\<rparr>,
                registration_id = registration, adv_secret_key = adv, next_pre_key_id = next_id,
                first_unuploaded_pre_key_id = first_id, registered = reg, account_jid = jid,
                account_lid = lid, account_name = name, account_platform = platform,
                account_signature_key = signature_key, signed_device_identity = device_identity,
                pairing_code = code, routing_info = routing\<rparr>)))))))))))))))))))))"


definition write_credentials_to_tx :: "AuthCredentials \<Rightarrow> (store_map, unit) tx" where
  "write_credentials_to_tx c =
     tx_bind (mem_set NsCredentials SCHEMA_VERSION_KEY SCHEMA_VERSION) (\<lambda>_.
     tx_bind (write_key_pair_tx NOISE_PUBLIC_KEY NOISE_PRIVATE_KEY (noise_key c)) (\<lambda>_.
     tx_bind (write_key_pair_tx PAIRING_PUBLIC_KEY PAIRING_PRIVATE_KEY (pairing_ephemeral_key_pair c)) (\<lambda>_.
     tx_bind (write_key_pair_tx IDENTITY_PUBLIC_KEY IDENTITY_PRIVATE_KEY (signed_identity_key c)) (\<lambda>_.
     tx_bind (write_u32_tx SIGNED_PRE_KEY_ID (sp_key_id (signed_pre_key c))) (\<lambda>_.
     tx_bind (write_key_pair_tx SIGNED_PRE_KEY_PUBLIC SIGNED_PRE_KEY_PRIVATE (sp_key_pair (signed_pre_key c))) (\<lambda>_.
     tx_bind (mem_set NsCredentials SIGNED_PRE_KEY_SIGNATURE (sp_signature (signed_pre_key c))) (\<lambda>_.
     tx_bind (write_u32_tx REGISTRATION_ID (registration_id c)) (\<lambda>_.
     tx_bind (mem_set NsCredentials ADV_SECRET_KEY (adv_secret_key c)) (\<lambda>_.
     tx_bind (write_u32_tx NEXT_PRE_KEY_ID (next_pre_key_id c)) (\<lambda>_.
     tx_bind (write_u32_tx FIRST_UNUPLOADED_PRE_KEY_ID (first_unuploaded_pre_key_id c)) (\<lambda>_.
     tx_bind (mem_set NsCredentials REGISTERED [if registered c then 1 else 0]) (\<lambda>_.
     tx_bind (write_optional_tx ACCOUNT_JID (map_option bytes_of (account_jid c))) (\<lambda>_.
     tx_bind (write_optional_tx ACCOUNT_LID (map_option bytes_of (account_lid c))) (\<lambda>_.
     tx_bind (write_optional_tx ACCOUNT_NAME (map_option bytes_of (account_name c))) (\<lambda>_.
     tx_bind (write_optional_tx ACCOUNT_PLATFORM (map_option bytes_of (account_platform c))) (\<lambda>_.
     tx_bind (write_optional_tx ACCOUNT_SIGNATURE_KEY (account_signature_key c)) (\<lambda>_.
     tx_bind (write_optional_tx SIGNED_DEVICE_IDENTITY (signed_device_identity c)) (\<lambda>_.
     tx_bind (write_optional_tx PAIRING_CODE (map_option bytes_of (pairing_code c))) (\<lambda>_.
     tx_bind (write_optional_tx ROUTING_INFO (routing_info c)) (\<lambda>_.
     tx_return ()))))))))))))))))))))"

section \<open>Reading from the store itself\<close>

text \<open>A \<open>get\<close> leaves the store as it is: only its result matters.\<close>

definition store_get :: "MemoryAuthStore \<Rightarrow> KeyNamespace \<Rightarrow> string \<Rightarrow> StoreError + bytes option" where
  "store_get st ns key = fst (memory_get st ns key)"

definition read_required_async :: "MemoryAuthStore \<Rightarrow> string \<Rightarrow> StoreError + bytes" where
  "read_required_async st key =
     and_then (store_get st NsCredentials key) (\<lambda>val.
     ok_or val (InvalidData (''missing credential field: '' @ key)))"

definition read_exact_async :: "MemoryAuthStore \<Rightarrow> nat \<Rightarrow> string \<Rightarrow> StoreError + bytes" where
  "read_exact_async st n key =
     and_then (read_required_async st key) (\<lambda>val. vec_to_array n val key)"

definition read_u32_async :: "MemoryAuthStore \<Rightarrow> string \<Rightarrow> StoreError + u32" where
  "read_u32_async st key = and_then (read_exact_async st 4 key) (\<lambda>val. Ok (fst (get_u32 val)))"

definition read_bool_async :: "MemoryAuthStore \<Rightarrow> string \<Rightarrow> StoreError + bool" where
  "read_bool_async st key = and_then (read_required_async st key) (bool_of_field key)"

definition read_key_pair_async :: "MemoryAuthStore \<Rightarrow> string \<Rightarrow> string \<Rightarrow> StoreError + KeyPair" where
  "read_key_pair_async st public_key private_key =
     and_then (read_exact_async st 32 public_key) (\<lambda>public.
     and_then (read_exact_async st 32 private_key) (\<lambda>private.
     Ok \<lparr>kp_public = public, kp_private = private\<rparr>))"

definition read_optional_string_async :: "MemoryAuthStore \<Rightarrow> string \<Rightarrow> StoreError + string option" where
  "read_optional_string_async st key =
     and_then (store_get st NsCredentials key) (string_of_field key)"

definition read_optional_bytes_async :: "MemoryAuthStore \<Rightarrow> string \<Rightarrow> StoreError + bytes option" where
  "read_optional_bytes_async st key = store_get st NsCredentials key"

definition load_credentials :: "MemoryAuthStore \<Rightarrow> AuthCredentials option core_result" where
  "load_credentials st =
     map_err StoreErr (and_then (store_get st NsCredentials SCHEMA_VERSION_KEY) (\<lambda>version.
       case version of
         None \<Rightarrow> Ok None
       | Some version \<Rightarrow>
           if version \<noteq> SCHEMA_VERSION then Err (unsupported_version version)
           else
             and_then (read_key_pair_async st NOISE_PUBLIC_KEY NOISE_PRIVATE_KEY) (\<lambda>noise.
             and_then (read_key_pair_async st PAIRING_PUBLIC_KEY PAIRING_PRIVATE_KEY) (\<lambda>pairing.
             and_then (read_key_pair_async st IDENTITY_PUBLIC_KEY IDENTITY_PRIVATE_KEY) (\<lambda>identity.
             and_then (read_u32_async st SIGNED_PRE_KEY_ID) (\<lambda>spk_id.
             and_then (read_key_pair_async st SIGNED_PRE_KEY_PUBLIC SIGNED_PRE_KEY_PRIVATE) (\<lambda>spk_pair.
             and_then (read_required_async st SIGNED_PRE_KEY_SIGNATURE) (\<lambda>spk_signature.
             and_then (read_u32_async st REGISTRATION_ID) (\<lambda>registration.
             and_then (read_exact_async st 32 ADV_SECRET_KEY) (\<lambda>adv.
             and_then (read_u32_async st NEXT_PRE_KEY_ID) (\<lambda>next_id.
             and_then (read_u32_async st FIRST_UNUPLOADED_PRE_KEY_ID) (\<lambda>first_id.
             and_then (read_bool_async st REGISTERED) (\<lambda>reg.
             and_then (read_optional_string_async st ACCOUNT_JID) (\<lambda>jid.
             and_then (read_optional_string_async st ACCOUNT_LID) (\<lambda>lid.
             and_then (read_optional_string_async st ACCOUNT_NAME) (\<lambda>name.
             and_then (read_optional_string_async st ACCOUNT_PLATFORM) (\<lambda>platform.
             and_then (read_optional_bytes_async st ACCOUNT_SIGNATURE_KEY) (\<lambda>signature_key.
             and_then (read_optional_bytes_async st SIGNED_DEVICE_IDENTITY) (\<lambda>device_identity.
             and_then (read_optional_string_async st PAIRING_CODE) (\<lambda>code.
             and_then (read_optional_bytes_async st ROUTING_INFO) (\<lambda>routing.
             Ok (Some
               \<lparr>noise_key = noise, pairing_ephemeral_key_pair = pairing,
                signed_identity_key = identity,
                signed_pre_key = \<lparr>sp_key_id = spk_id, sp_key_pair = spk_pair, sp_signature = spk_signature\<rparr>,
                registration_id = registration, adv_secret_key = adv, next_pre_key_id = next_id,
                first_unuploaded_pre_key_id = first_id, registered = reg, account_jid = jid,
                account_lid = lid, account_name = name, account_platform = platform,
                account_signature_key = signature_key, signed_device_identity = device_identity,
                pairing_code = code, routing_info = routing\<rparr>))))))))))))))))))))))"

definition save_credentials ::
  "MemoryAuthStore \<Rightarrow> AuthCredentials \<Rightarrow> unit core_result \<times> MemoryAuthStore" where
  "save_credentials st c = (case memory_transaction st (write_credentials_to_tx c) of
     (r, st') \<Rightarrow> (map_err StoreErr r, st'))"

text \<open>\<open>load_or_init_credentials\<close>; \<open>rnd\<close> is the randomness of the credentials it generates first.\<close>

definition load_or_init_credentials ::
  "ext \<Rightarrow> credential_randomness \<Rightarrow> MemoryAuthStore \<Rightarrow> CredentialLoad core_result \<times> MemoryAuthStore" where
  "load_or_init_credentials X rnd st =
     (case create_initial_credentials X rnd of
        Inl e \<Rightarrow> (Err e, st)
      | Inr generated \<Rightarrow>
          (case memory_transaction st
             (tx_bind read_credentials_from_tx (\<lambda>stored.
                case stored of
                  Some c \<Rightarrow> tx_return \<lparr>cl_credentials = c, cl_initialized = False\<rparr>
                | None \<Rightarrow> tx_bind (write_credentials_to_tx generated) (\<lambda>_.
                    tx_return \<lparr>cl_credentials = generated, cl_initialized = True\<rparr>)))
           of (r, st') \<Rightarrow> (map_err StoreErr r, st')))"

section \<open>Reads are pure, writes are a list of entries\<close>

lemma tx_lift_simps [tx_simps]:
  "tx_lift r m = (r, m)"
  "tx_bind (tx_lift (Inr x)) g = g x"
  "tx_bind (tx_lift (Inl e)) g = tx_fail e"
  by (simp_all add: tx_lift_def tx_bind_def tx_fail_def fun_eq_iff)

text \<open>A transaction step that reads only: it returns \<open>r\<close> and leaves the snapshot \<open>m\<close> as it is.\<close>

definition tx_reads :: "('s, 'a) tx \<Rightarrow> 's \<Rightarrow> StoreError + 'a \<Rightarrow> bool" where
  "tx_reads f m r \<longleftrightarrow> f m = (r, m)"

named_theorems tx_reads_intros \<open>transaction steps that only read\<close>

lemma tx_reads_bind [tx_reads_intros]:
  "tx_reads f m r \<Longrightarrow> (\<And>x. tx_reads (g x) m (h x)) \<Longrightarrow> tx_reads (tx_bind f g) m (and_then r h)"
  by (cases r) (simp_all add: tx_reads_def tx_bind_def)

lemma tx_reads_basic [tx_reads_intros]:
  "tx_reads (tx_return x) m (Inr x)"
  "tx_reads (tx_fail e) m (Inl e)"
  "tx_reads (tx_lift r) m r"
  by (simp_all add: tx_reads_def tx_lift_def tx_simps)

lemma tx_reads_get: "tx_reads (mem_get ns key) m (Inr (m (ns, key)))"
  by (simp add: tx_reads_def tx_simps)

lemma tx_reads_if [tx_reads_intros]:
  "tx_reads f m r \<Longrightarrow> tx_reads g m r' \<Longrightarrow> tx_reads (if b then f else g) m (if b then r else r')"
  by simp

lemma tx_reads_option [tx_reads_intros]:
  "tx_reads f m r \<Longrightarrow> (\<And>x. tx_reads (g x) m (h x)) \<Longrightarrow>
    tx_reads (case v of None \<Rightarrow> f | Some x \<Rightarrow> g x) m (case v of None \<Rightarrow> r | Some x \<Rightarrow> h x)"
  by (cases v) simp_all

lemma store_get_open: "\<not> poisoned st \<Longrightarrow> store_get st ns key = Inr (entries st (ns, key))"
  by (simp add: store_get_def memory_get_def with_entries_def tx_simps)

lemma tx_reads_store_get:
  "\<not> poisoned st \<Longrightarrow> tx_reads (mem_get ns key) (entries st) (store_get st ns key)"
  by (simp add: store_get_open tx_reads_get)

text \<open>Every reader in a transaction returns what its counterpart on the store returns.\<close>

lemma read_required_pure:
  "\<not> poisoned st \<Longrightarrow> tx_reads (read_required_tx key) (entries st) (read_required_async st key)"
  unfolding read_required_tx_def read_required_async_def
  by (intro tx_reads_intros tx_reads_store_get)

lemma read_exact_pure:
  "\<not> poisoned st \<Longrightarrow> tx_reads (read_exact_tx n key) (entries st) (read_exact_async st n key)"
  unfolding read_exact_tx_def read_exact_async_def
  by (intro tx_reads_intros read_required_pure)

lemma read_u32_pure:
  "\<not> poisoned st \<Longrightarrow> tx_reads (read_u32_tx key) (entries st) (read_u32_async st key)"
  unfolding read_u32_tx_def read_u32_async_def
  by (intro tx_reads_intros read_exact_pure)

lemma read_bool_pure:
  "\<not> poisoned st \<Longrightarrow> tx_reads (read_bool_tx key) (entries st) (read_bool_async st key)"
  unfolding read_bool_tx_def read_bool_async_def
  by (intro tx_reads_intros read_required_pure)

lemma read_key_pair_pure:
  "\<not> poisoned st \<Longrightarrow> tx_reads (read_key_pair_tx k1 k2) (entries st) (read_key_pair_async st k1 k2)"
  unfolding read_key_pair_tx_def read_key_pair_async_def
  by (intro tx_reads_intros read_exact_pure)

lemma read_optional_string_pure:
  "\<not> poisoned st \<Longrightarrow>
    tx_reads (read_optional_string_tx key) (entries st) (read_optional_string_async st key)"
  unfolding read_optional_string_tx_def read_optional_string_async_def
  by (intro tx_reads_intros tx_reads_store_get)

lemma read_optional_bytes_pure:
  "\<not> poisoned st \<Longrightarrow>
    tx_reads (read_optional_bytes_tx key) (entries st) (read_optional_bytes_async st key)"
  unfolding read_optional_bytes_tx_def read_optional_bytes_async_def
  by (rule tx_reads_store_get)

lemmas read_pure =
  read_required_pure read_exact_pure read_u32_pure read_bool_pure read_key_pair_pure
  read_optional_string_pure read_optional_bytes_pure

lemma read_credentials_pure:
  assumes "\<not> poisoned st"
  shows "\<exists>r. tx_reads read_credentials_from_tx (entries st) r \<and>
    load_credentials st = map_err StoreErr r"
  unfolding read_credentials_from_tx_def load_credentials_def
  by (intro exI conjI, (rule tx_reads_intros read_pure tx_reads_store_get assms)+) (rule refl)

end
