(* ===== verification/PreKeys.thy ===== *)
theory PreKeys
  imports CredentialStore
begin

text \<open>
  One-time pre-keys, \<^verbatim>\<open>crates/wa-core/src/pre_keys.rs\<close>: the keys are generated and stored in ranges
  of ids, uploaded, confirmed, and their counters are kept with the credentials. Also the
  big-endian fields of \<^verbatim>\<open>crates/wa-core/src/payload.rs\<close> the upload is made of.
\<close>

section \<open>Loops in a transaction and ranges of ids\<close>

fun tx_for_each :: "('a \<Rightarrow> ('s, unit) tx) \<Rightarrow> 'a list \<Rightarrow> ('s, unit) tx" where
  "tx_for_each f [] = tx_return ()"
| "tx_for_each f (x # xs) = tx_bind (f x) (\<lambda>_. tx_for_each f xs)"

fun tx_collect :: "('a \<Rightarrow> ('s, 'b) tx) \<Rightarrow> 'a list \<Rightarrow> ('s, 'b list) tx" where
  "tx_collect f [] = tx_return []"
| "tx_collect f (x # xs) = tx_bind (f x) (\<lambda>y. tx_bind (tx_collect f xs) (\<lambda>ys. tx_return (y # ys)))"

text \<open>\<open>a..b\<close> and \<open>a..=b\<close>.\<close>

definition range_u32 :: "u32 \<Rightarrow> u32 \<Rightarrow> u32 list" where
  "range_u32 a b = map word_of_nat [unat a..<unat b]"

definition range_inclusive_u32 :: "u32 \<Rightarrow> u32 \<Rightarrow> u32 list" where
  "range_inclusive_u32 a b = map word_of_nat [unat a..<Suc (unat b)]"

definition checked_sub_u32 :: "u32 \<Rightarrow> u32 \<Rightarrow> u32 option" where
  "checked_sub_u32 a b = (if unat b \<le> unat a then Some (a - b) else None)"

definition saturating_sub_u32 :: "u32 \<Rightarrow> u32 \<Rightarrow> u32" where
  "saturating_sub_u32 a b = (if unat b \<le> unat a then a - b else 0)"

definition u32_try_from :: "nat \<Rightarrow> u32 option" where
  "u32_try_from n = (if n < 4294967296 then Some (word_of_nat n) else None)"

section \<open>Big-endian fields\<close>

definition KEY_BUNDLE_TYPE :: bytes where
  "KEY_BUNDLE_TYPE = [5]"

definition encode_big_endian :: "u32 \<Rightarrow> nat \<Rightarrow> bytes core_result" where
  "encode_big_endian val width =
     (if width = 0 \<or> width > 4
      then Err (Payload (''invalid big-endian width: '' @ show_nat width))
      else let max = (if width = 4 then - 1 else push_bit (width * 8) 1 - 1) in
        if val > max
        then Err (Payload (''value '' @ show_nat (unat val) @ '' does not fit in '' @
               show_nat width @ '' bytes''))
        else Ok (map (\<lambda>index. ucast (drop_bit ((width - 1 - index) * 8) val AND 0xff)) [0..<width]))"

section \<open>Stored pre-keys\<close>

definition SERVER_JID :: string where
  "SERVER_JID = ''@s.whatsapp.net''"

record StoredPreKey =
  st_key_id :: u32
  st_key_pair :: KeyPair

record PreparedPreKeys =
  pp_credentials :: AuthCredentials
  pp_pre_keys :: "StoredPreKey list"

record PreKeyUpload =
  pu_node :: BinaryNode
  pu_credentials :: AuthCredentials
  pu_pre_key_ids :: "u32 list"

record SignedPreKeyRotation =
  rot_node :: BinaryNode
  rot_signed_pre_key :: SignedPreKey

record CurrentPreKeyStatus =
  cs_current_pre_key_id :: u32
  cs_exists :: bool

definition pre_key_name :: "u32 \<Rightarrow> string" where
  "pre_key_name key_id = show_nat (unat key_id)"

definition write_pre_key_to_tx :: "u32 \<Rightarrow> KeyPair \<Rightarrow> (store_map, unit) tx" where
  "write_pre_key_to_tx key_id key_pair =
     mem_set NsPreKey (pre_key_name key_id) (kp_public key_pair @ kp_private key_pair)"

definition read_optional_pre_key_from_tx :: "u32 \<Rightarrow> (store_map, KeyPair option) tx" where
  "read_optional_pre_key_from_tx key_id =
     tx_bind (mem_get NsPreKey (pre_key_name key_id)) (\<lambda>val.
       case val of
         None \<Rightarrow> tx_return None
       | Some v \<Rightarrow>
           if length v \<noteq> 64
           then tx_fail (InvalidData (''invalid pre-key '' @ pre_key_name key_id @ '' length: '' @
                  show_nat (length v)))
           else tx_return (Some \<lparr>kp_public = take 32 v, kp_private = drop 32 v\<rparr>))"

definition read_pre_key_from_tx :: "u32 \<Rightarrow> (store_map, KeyPair) tx" where
  "read_pre_key_from_tx key_id =
     tx_bind (read_optional_pre_key_from_tx key_id) (\<lambda>key.
     tx_lift (ok_or key (InvalidData (''missing pre-key '' @ pre_key_name key_id))))"

section \<open>Preparing and confirming an upload\<close>

text \<open>\<open>rnd key_id\<close> is the random private key \<open>generate_key_pair\<close> draws for that id.\<close>

definition prepare_pre_keys_in_tx ::
  "ext \<Rightarrow> (u32 \<Rightarrow> bytes) \<Rightarrow> AuthCredentials \<Rightarrow> nat \<Rightarrow> (store_map, PreparedPreKeys) tx" where
  "prepare_pre_keys_in_tx X rnd c count =
     tx_bind (tx_lift (ok_or (u32_try_from count)
       (InvalidData ''pre-key upload count exceeds u32''))) (\<lambda>requested.
     if first_unuploaded_pre_key_id c > next_pre_key_id c
     then tx_fail (InvalidData ''first unuploaded pre-key id is ahead of next pre-key id'')
     else
       let first = first_unuploaded_pre_key_id c;
           available = next_pre_key_id c - first_unuploaded_pre_key_id c;
           remaining = saturating_sub_u32 requested available in
       tx_bind (tx_lift (ok_or
         (Option.bind
           (if remaining = 0 then checked_add_u32 first requested
            else checked_add_u32 (next_pre_key_id c) remaining)
           (\<lambda>val. checked_sub_u32 val 1))
         (InvalidData ''pre-key id overflow''))) (\<lambda>last.
       tx_bind (if remaining > 0
         then tx_for_each (\<lambda>key_id. write_pre_key_to_tx key_id (generate_key_pair X (rnd key_id)))
                (range_inclusive_u32 (next_pre_key_id c) last)
         else tx_return ()) (\<lambda>_.
       tx_bind (tx_lift (ok_or (checked_add_u32 first requested)
         (InvalidData ''pre-key range overflow''))) (\<lambda>end_id.
       tx_bind (tx_collect (\<lambda>key_id. tx_bind (read_pre_key_from_tx key_id) (\<lambda>pair.
           tx_return \<lparr>st_key_id = key_id, st_key_pair = pair\<rparr>)) (range_u32 first end_id)) (\<lambda>pre_keys.
       tx_bind (tx_lift (ok_or (checked_add_u32 last 1)
         (InvalidData ''pre-key id overflow''))) (\<lambda>next_after_generated.
       let c' = c\<lparr>next_pre_key_id := max (next_pre_key_id c) next_after_generated\<rparr> in
       tx_bind (write_credentials_to_tx c') (\<lambda>_.
       tx_return \<lparr>pp_credentials = c', pp_pre_keys = pre_keys\<rparr>)))))))"

definition confirm_pre_key_upload_in_tx ::
  "AuthCredentials \<Rightarrow> u32 list \<Rightarrow> (store_map, AuthCredentials) tx" where
  "confirm_pre_key_upload_in_tx c pre_key_ids =
     (if first_unuploaded_pre_key_id c > next_pre_key_id c
      then tx_fail (InvalidData ''first unuploaded pre-key id is ahead of next pre-key id'')
      else
        tx_bind (tx_lift (ok_or (if pre_key_ids = [] then None else Some (Max (set pre_key_ids)))
          (InvalidData ''pre-key upload id list is empty''))) (\<lambda>max_uploaded.
        tx_bind (tx_lift (ok_or (checked_add_u32 max_uploaded 1)
          (InvalidData ''pre-key id overflow''))) (\<lambda>next_unuploaded.
        if next_unuploaded > next_pre_key_id c
        then tx_fail (InvalidData ''confirmed pre-key upload is ahead of generated pre-key state'')
        else
          let c' = c\<lparr>first_unuploaded_pre_key_id :=
                max (first_unuploaded_pre_key_id c) next_unuploaded\<rparr> in
          tx_bind (write_credentials_to_tx c') (\<lambda>_. tx_return c'))))"

section \<open>Nodes\<close>

definition xmpp_signed_pre_key :: "SignedPreKey \<Rightarrow> BinaryNode core_result" where
  "xmpp_signed_pre_key key =
     and_then (encode_big_endian (sp_key_id key) 3) (\<lambda>id.
     Ok (with_content (Nodes
       [with_content (Bytes id) (node_new ''id''),
        with_content (Bytes (kp_public (sp_key_pair key))) (node_new ''value''),
        with_content (Bytes (sp_signature key)) (node_new ''signature'')]) (node_new ''skey'')))"

definition xmpp_pre_key :: "KeyPair \<Rightarrow> u32 \<Rightarrow> BinaryNode core_result" where
  "xmpp_pre_key pair key_id =
     and_then (encode_big_endian key_id 3) (\<lambda>id.
     Ok (with_content (Nodes
       [with_content (Bytes id) (node_new ''id''),
        with_content (Bytes (kp_public pair)) (node_new ''value'')]) (node_new ''key'')))"

definition build_pre_key_upload_node ::
  "AuthCredentials \<Rightarrow> StoredPreKey list \<Rightarrow> string \<Rightarrow> BinaryNode core_result" where
  "build_pre_key_upload_node c pre_keys tag =
     and_then (collect (\<lambda>k. xmpp_pre_key (st_key_pair k) (st_key_id k)) pre_keys) (\<lambda>key_nodes.
     and_then (encode_big_endian (registration_id c) 4) (\<lambda>registration.
     and_then (xmpp_signed_pre_key (signed_pre_key c)) (\<lambda>signed.
     Ok (with_content (Nodes
         [with_content (Bytes registration) (node_new ''registration''),
          with_content (Bytes KEY_BUNDLE_TYPE) (node_new ''type''),
          with_content (Bytes (kp_public (signed_identity_key c))) (node_new ''identity''),
          with_content (Nodes key_nodes) (node_new ''list''),
          signed])
       (with_attr ''to'' SERVER_JID (with_attr ''type'' ''set'' (with_attr ''xmlns'' ''encrypt''
         (with_attr ''id'' tag (node_new ''iq'')))))))))"

definition prepare_pre_key_upload ::
  "ext \<Rightarrow> (u32 \<Rightarrow> bytes) \<Rightarrow> MemoryAuthStore \<Rightarrow> AuthCredentials \<Rightarrow> nat \<Rightarrow> string \<Rightarrow>
     PreKeyUpload core_result \<times> MemoryAuthStore" where
  "prepare_pre_key_upload X rnd st credentials count tag =
     (if count = 0 then (Err (Payload ''pre-key upload count must be greater than zero''), st)
      else case memory_transaction st
          (tx_bind read_credentials_from_tx (\<lambda>stored.
             prepare_pre_keys_in_tx X rnd (case stored of Some c \<Rightarrow> c | None \<Rightarrow> credentials) count))
        of (r, st') \<Rightarrow>
          (and_then (map_err StoreErr r) (\<lambda>prepared.
           and_then (build_pre_key_upload_node (pp_credentials prepared) (pp_pre_keys prepared) tag) (\<lambda>node.
           Ok \<lparr>pu_node = node, pu_credentials = pp_credentials prepared,
              pu_pre_key_ids = map st_key_id (pp_pre_keys prepared)\<rparr>)), st'))"

definition confirm_pre_key_upload ::
  "MemoryAuthStore \<Rightarrow> AuthCredentials \<Rightarrow> u32 list \<Rightarrow> AuthCredentials core_result \<times> MemoryAuthStore" where
  "confirm_pre_key_upload st credentials pre_key_ids =
     (if pre_key_ids = []
      then (Err (Payload ''confirmed pre-key upload must include at least one key id''), st)
      else case memory_transaction st
          (tx_bind read_credentials_from_tx (\<lambda>stored.
             confirm_pre_key_upload_in_tx (case stored of Some c \<Rightarrow> c | None \<Rightarrow> credentials) pre_key_ids))
        of (r, st') \<Rightarrow> (map_err StoreErr r, st'))"

definition current_pre_key_status ::
  "MemoryAuthStore \<Rightarrow> AuthCredentials \<Rightarrow> CurrentPreKeyStatus core_result" where
  "current_pre_key_status st c =
     (case checked_sub_u32 (next_pre_key_id c) 1 of
        None \<Rightarrow> Ok \<lparr>cs_current_pre_key_id = 0, cs_exists = False\<rparr>
      | Some current \<Rightarrow>
          if current = 0 then Ok \<lparr>cs_current_pre_key_id = current, cs_exists = False\<rparr>
          else and_then (map_err StoreErr (store_get st NsPreKey (pre_key_name current))) (\<lambda>val.
            Ok \<lparr>cs_current_pre_key_id = current, cs_exists = (val \<noteq> None)\<rparr>))"

section \<open>Rotation of the signed pre-key\<close>

definition build_signed_pre_key_rotation ::
  "ext \<Rightarrow> bytes \<Rightarrow> bytes \<Rightarrow> AuthCredentials \<Rightarrow> string \<Rightarrow> SignedPreKeyRotation core_result" where
  "build_signed_pre_key_rotation X rnd_key rnd_sign c tag =
     and_then (ok_or (checked_add_u32 (sp_key_id (signed_pre_key c)) 1)
       (Payload ''signed pre-key id overflow during rotation'')) (\<lambda>new_id.
     and_then (create_signed_pre_key X rnd_key rnd_sign (signed_identity_key c) new_id) (\<lambda>new_key.
     and_then (xmpp_signed_pre_key new_key) (\<lambda>node.
     Ok \<lparr>rot_node = with_content (Nodes [with_content (Nodes [node]) (node_new ''rotate'')])
          (with_attr ''xmlns'' ''encrypt'' (with_attr ''type'' ''set'' (with_attr ''to'' SERVER_JID
            (with_attr ''id'' tag (node_new ''iq''))))),
        rot_signed_pre_key = new_key\<rparr>)))"

definition credentials_with_rotated_signed_pre_key ::
  "AuthCredentials \<Rightarrow> SignedPreKey \<Rightarrow> AuthCredentials" where
  "credentials_with_rotated_signed_pre_key c new_key = c\<lparr>signed_pre_key := new_key\<rparr>"

section \<open>Queries and their responses\<close>

definition child_node :: "string \<Rightarrow> BinaryNode \<Rightarrow> BinaryNode option" where
  "child_node tag node = (case node_content node of
     Some (Nodes children) \<Rightarrow> List.find (\<lambda>child. node_tag child = tag) children
   | _ \<Rightarrow> None)"

definition or_else :: "'a option \<Rightarrow> 'a option \<Rightarrow> 'a option" where
  "or_else a b = (case a of None \<Rightarrow> b | Some x \<Rightarrow> Some x)"

definition unwrap_or :: "'a option \<Rightarrow> 'a \<Rightarrow> 'a" where
  "unwrap_or a d = (case a of None \<Rightarrow> d | Some x \<Rightarrow> x)"

definition encrypt_error_from_result :: "BinaryNode \<Rightarrow> string \<Rightarrow> CoreError option" where
  "encrypt_error_from_result node operation =
     (let error_node = child_node ''error'' node in
      if attr ''type'' node \<noteq> Some ''error'' \<and> error_node = None then None
      else
        let code = unwrap_or (or_else (Option.bind error_node (attr ''code''))
              (or_else (attr ''code'' node) (attr ''error'' node))) ''500'';
            message = unwrap_or (or_else (Option.bind error_node (attr ''text''))
              (or_else (attr ''text'' node) (attr ''reason'' node))) ''encrypt query failed'' in
        Some (Protocol (operation @ '' failed ('' @ code @ ''): '' @ message)))"

definition build_pre_key_count_query :: "string \<Rightarrow> BinaryNode" where
  "build_pre_key_count_query tag =
     with_content (Nodes [node_new ''count''])
       (with_attr ''to'' SERVER_JID (with_attr ''type'' ''get'' (with_attr ''xmlns'' ''encrypt''
         (with_attr ''id'' tag (node_new ''iq'')))))"

text \<open>\<open>usize\<close> has 64 bits.\<close>

definition parse_pre_key_count_response :: "BinaryNode \<Rightarrow> nat core_result" where
  "parse_pre_key_count_response node =
     (case encrypt_error_from_result node ''pre-key count query'' of
        Some e \<Rightarrow> Err e
      | None \<Rightarrow>
          and_then (ok_or (Option.bind (child_node ''count'' node) (attr ''value''))
            (Protocol ''pre-key count response missing value'')) (\<lambda>count.
          map_err (\<lambda>err. Protocol (''invalid pre-key count response value: '' @ err))
            (parse_uint 18446744073709551615 count)))"

definition build_key_bundle_digest_query :: "string \<Rightarrow> BinaryNode" where
  "build_key_bundle_digest_query tag =
     with_content (Nodes [node_new ''digest''])
       (with_attr ''xmlns'' ''encrypt'' (with_attr ''type'' ''get'' (with_attr ''to'' SERVER_JID
         (with_attr ''id'' tag (node_new ''iq'')))))"

definition has_key_bundle_digest :: "BinaryNode \<Rightarrow> bool" where
  "has_key_bundle_digest node = (child_node ''digest'' node \<noteq> None)"

definition parse_key_bundle_digest_response :: "BinaryNode \<Rightarrow> unit core_result" where
  "parse_key_bundle_digest_response node =
     (case encrypt_error_from_result node ''key-bundle digest query'' of
        Some e \<Rightarrow> Err e
      | None \<Rightarrow> if has_key_bundle_digest node then Ok ()
          else Err (Protocol ''key-bundle digest response missing digest node''))"

definition parse_encrypt_ack_result :: "BinaryNode \<Rightarrow> string \<Rightarrow> unit core_result" where
  "parse_encrypt_ack_result node operation =
     (case encrypt_error_from_result node operation of
        Some e \<Rightarrow> Err e
      | None \<Rightarrow>
          if node_tag node \<noteq> ''iq'' then Err (Protocol (operation @ '' response must be an iq node''))
          else (case attr ''type'' node of
              None \<Rightarrow> Err (Protocol (operation @ '' response missing type''))
            | Some val \<Rightarrow> if val = ''result'' then Ok ()
                else Err (Protocol (operation @ '' response has unexpected type: '' @ val))))"

definition parse_pre_key_upload_response :: "BinaryNode \<Rightarrow> unit core_result" where
  "parse_pre_key_upload_response node = parse_encrypt_ack_result node ''pre-key upload''"

definition parse_signed_pre_key_rotation_response :: "BinaryNode \<Rightarrow> unit core_result" where
  "parse_signed_pre_key_rotation_response node =
     parse_encrypt_ack_result node ''signed pre-key rotation''"

end
