(* ===== verification/CredentialProperties.thy ===== *)
theory CredentialProperties
  imports CredentialStore ExtInstance
begin

text \<open>
  What the credential store promises: credentials that were saved are loaded back, a
  transaction and a reader outside one see the same credentials, and initialisation never
  replaces credentials that are there. Every write of the credentials is one list of entries.
\<close>

section \<open>Writes as a list of entries\<close>

definition credential_entries :: "AuthCredentials \<Rightarrow> (string \<times> bytes option) list" where
  "credential_entries c =
     [(SCHEMA_VERSION_KEY, Some SCHEMA_VERSION),
      (NOISE_PUBLIC_KEY, Some (kp_public (noise_key c))),
      (NOISE_PRIVATE_KEY, Some (kp_private (noise_key c))),
      (PAIRING_PUBLIC_KEY, Some (kp_public (pairing_ephemeral_key_pair c))),
      (PAIRING_PRIVATE_KEY, Some (kp_private (pairing_ephemeral_key_pair c))),
      (IDENTITY_PUBLIC_KEY, Some (kp_public (signed_identity_key c))),
      (IDENTITY_PRIVATE_KEY, Some (kp_private (signed_identity_key c))),
      (SIGNED_PRE_KEY_ID, Some (put_u32 (sp_key_id (signed_pre_key c)))),
      (SIGNED_PRE_KEY_PUBLIC, Some (kp_public (sp_key_pair (signed_pre_key c)))),
      (SIGNED_PRE_KEY_PRIVATE, Some (kp_private (sp_key_pair (signed_pre_key c)))),
      (SIGNED_PRE_KEY_SIGNATURE, Some (sp_signature (signed_pre_key c))),
      (REGISTRATION_ID, Some (put_u32 (registration_id c))),
      (ADV_SECRET_KEY, Some (adv_secret_key c)),
      (NEXT_PRE_KEY_ID, Some (put_u32 (next_pre_key_id c))),
      (FIRST_UNUPLOADED_PRE_KEY_ID, Some (put_u32 (first_unuploaded_pre_key_id c))),
      (REGISTERED, Some [if registered c then 1 else 0]),
      (ACCOUNT_JID, map_option bytes_of (account_jid c)),
      (ACCOUNT_LID, map_option bytes_of (account_lid c)),
      (ACCOUNT_NAME, map_option bytes_of (account_name c)),
      (ACCOUNT_PLATFORM, map_option bytes_of (account_platform c)),
      (ACCOUNT_SIGNATURE_KEY, account_signature_key c),
      (SIGNED_DEVICE_IDENTITY, signed_device_identity c),
      (PAIRING_CODE, map_option bytes_of (pairing_code c)),
      (ROUTING_INFO, routing_info c)]"

fun write_entries :: "(string \<times> bytes option) list \<Rightarrow> store_map \<Rightarrow> store_map" where
  "write_entries [] m = m"
| "write_entries ((k, v) # es) m = write_entries es (m((NsCredentials, k) := v))"

lemma tx_bind_write_optional [tx_simps]:
  "tx_bind (write_optional_tx k v) g m = g () (m((NsCredentials, k) := v))"
  by (cases v) (simp_all add: write_optional_tx_def tx_simps)

lemma tx_bind_write_u32 [tx_simps]:
  "tx_bind (write_u32_tx k v) g m = g () (m((NsCredentials, k) \<mapsto> put_u32 v))"
  by (simp add: write_u32_tx_def tx_simps)

lemma tx_bind_write_key_pair [tx_simps]:
  "tx_bind (write_key_pair_tx k1 k2 v) g m =
     g () (m((NsCredentials, k1) \<mapsto> kp_public v, (NsCredentials, k2) \<mapsto> kp_private v))"
  by (simp add: write_key_pair_tx_def tx_simps tx_bind_def)

lemma write_credentials_entries:
  "write_credentials_to_tx c m = (Inr (), write_entries (credential_entries c) m)"
  by (simp add: write_credentials_to_tx_def credential_entries_def tx_simps)

lemma write_entries_frame:
  "ns \<noteq> NsCredentials \<or> k \<notin> fst ` set es \<Longrightarrow> write_entries es m (ns, k) = m (ns, k)"
  by (induction es m rule: write_entries.induct) auto

lemma write_entries_lookup:
  "distinct (map fst es) \<Longrightarrow> (k, v) \<in> set es \<Longrightarrow> write_entries es m (NsCredentials, k) = v"
  by (induction es m rule: write_entries.induct)
    (auto simp: write_entries_frame image_iff)

lemma distinct_credential_entries: "distinct (map fst (credential_entries c))"
  by (simp add: credential_entries_def field_names)

text \<open>The fields of the stored credentials, one by one.\<close>

definition holds_credentials :: "store_map \<Rightarrow> AuthCredentials \<Rightarrow> bool" where
  "holds_credentials m c \<longleftrightarrow> (\<forall>(k, v) \<in> set (credential_entries c). m (NsCredentials, k) = v)"

lemma write_holds: "holds_credentials (write_entries (credential_entries c) m) c"
  by (auto simp: holds_credentials_def write_entries_lookup [OF distinct_credential_entries])

section \<open>Reading back\<close>

text \<open>The types of the fields: keys of 32 bytes and strings in UTF-8.\<close>

definition key_pair_sized :: "KeyPair \<Rightarrow> bool" where
  "key_pair_sized k \<longleftrightarrow> length (kp_public k) = 32 \<and> length (kp_private k) = 32"

definition credentials_ok :: "AuthCredentials \<Rightarrow> bool" where
  "credentials_ok c \<longleftrightarrow>
     key_pair_sized (noise_key c) \<and> key_pair_sized (pairing_ephemeral_key_pair c) \<and>
     key_pair_sized (signed_identity_key c) \<and> key_pair_sized (sp_key_pair (signed_pre_key c)) \<and>
     length (adv_secret_key c) = 32 \<and>
     pred_option str_ok (account_jid c) \<and> pred_option str_ok (account_lid c) \<and>
     pred_option str_ok (account_name c) \<and> pred_option str_ok (account_platform c) \<and>
     pred_option str_ok (pairing_code c)"

lemma read_exact_entry:
  assumes "\<not> poisoned st" "entries st (NsCredentials, k) = Some v" "length v = n"
  shows "read_exact_async st n k = Inr v"
  using assms
  by (simp add: read_exact_async_def read_required_async_def store_get_open vec_to_array_def)

lemma read_required_entry:
  assumes "\<not> poisoned st" "entries st (NsCredentials, k) = Some v"
  shows "read_required_async st k = Inr v"
  using assms by (simp add: read_required_async_def store_get_open)

lemma read_u32_entry:
  assumes "\<not> poisoned st" "entries st (NsCredentials, k) = Some (put_u32 v)"
  shows "read_u32_async st k = Inr v"
  using get_put_u32 [of v "[]"]
  by (simp add: read_u32_async_def read_exact_entry [OF assms])

lemma read_bool_entry:
  assumes "\<not> poisoned st" "entries st (NsCredentials, k) = Some [if b then 1 else 0]"
  shows "read_bool_async st k = Inr b"
  using assms by (simp add: read_bool_async_def read_required_entry bool_of_field_def)

lemma read_key_pair_entry:
  assumes "\<not> poisoned st" "entries st (NsCredentials, k1) = Some (kp_public p)"
    "entries st (NsCredentials, k2) = Some (kp_private p)" "key_pair_sized p"
  shows "read_key_pair_async st k1 k2 = Inr p"
  using assms by (simp add: read_key_pair_async_def read_exact_entry key_pair_sized_def)

lemma read_optional_string_entry:
  assumes "\<not> poisoned st" "entries st (NsCredentials, k) = map_option bytes_of v"
    "pred_option str_ok v"
  shows "read_optional_string_async st k = Inr v"
  using assms
  by (cases v) (simp_all add: read_optional_string_async_def store_get_open string_of_field_def)

lemma read_optional_bytes_entry:
  assumes "\<not> poisoned st" "entries st (NsCredentials, k) = v"
  shows "read_optional_bytes_async st k = Inr v"
  using assms by (simp add: read_optional_bytes_async_def store_get_open)

lemma load_holds:
  assumes "\<not> poisoned st" "holds_credentials (entries st) c" "credentials_ok c"
  shows "load_credentials st = Inr (Some c)"
proof -
  note h = assms(2) [unfolded holds_credentials_def credential_entries_def, simplified]
  note o = assms(3) [unfolded credentials_ok_def]
  show ?thesis
    unfolding load_credentials_def
    using h o
    by (simp add: store_get_open [OF assms(1)] read_key_pair_entry [OF assms(1)]
        read_u32_entry [OF assms(1)] read_exact_entry [OF assms(1)]
        read_required_entry [OF assms(1)] read_bool_entry [OF assms(1)]
        read_optional_string_entry [OF assms(1)] read_optional_bytes_entry [OF assms(1)])
qed

text \<open>Conversely, what was loaded has the types of the fields.\<close>

lemma read_exact_Ok: "read_exact_async st n k = Inr v \<Longrightarrow> length v = n"
  by (auto simp: read_exact_async_def vec_to_array_def result_simps split: if_splits)

lemma read_key_pair_Ok: "read_key_pair_async st k1 k2 = Inr p \<Longrightarrow> key_pair_sized p"
  by (auto simp: read_key_pair_async_def result_simps key_pair_sized_def dest: read_exact_Ok)

lemma read_optional_string_Ok: "read_optional_string_async st k = Inr s \<Longrightarrow> pred_option str_ok s"
  by (auto simp: read_optional_string_async_def string_of_field_def result_simps string_from_utf8_Ok
      split: option.splits)

lemma and_then_OkE:
  "and_then r f = Inr y \<Longrightarrow> (\<And>x. r = Inr x \<Longrightarrow> f x = Inr y \<Longrightarrow> P) \<Longrightarrow> P"
  by (auto simp: and_then_eq_Ok)

lemma load_credentials_ok:
  assumes "load_credentials st = Inr (Some c)"
  shows "credentials_ok c"
proof (cases "store_get st NsCredentials SCHEMA_VERSION_KEY")
  case (Inr version)
  from assms show ?thesis
    unfolding load_credentials_def map_err_eq_Ok Inr and_then_simps
    apply (cases version)
     apply simp
    apply (simp only: option.case split: if_splits)
    apply simp
    apply (elim and_then_OkE)
    apply (drule read_exact_Ok read_key_pair_Ok read_optional_string_Ok)+
    apply (drule sum.inject(2) [THEN iffD1], drule option.inject [THEN iffD1])
    apply (simp only: credentials_ok_def)
    apply hypsubst
    apply simp
    done
qed (use assms in \<open>simp add: load_credentials_def\<close>)

text \<open>Only the credentials namespace matters.\<close>

lemma load_credentials_cong:
  assumes "\<And>k. entries st' (NsCredentials, k) = entries st (NsCredentials, k)"
    and "poisoned st' = poisoned st"
  shows "load_credentials st' = load_credentials st"
proof -
  have "store_get st' NsCredentials = store_get st NsCredentials"
    using assms by (auto simp: store_get_def memory_get_def with_entries_def tx_simps)
  then show ?thesis
    unfolding load_credentials_def read_key_pair_async_def read_exact_async_def
      read_required_async_def read_u32_async_def read_bool_async_def
      read_optional_string_async_def read_optional_bytes_async_def
    by (simp only:)
qed

lemma read_stored_credentials:
  assumes "\<not> poisoned st" "load_credentials st = Inr (Some c)"
  shows "read_credentials_from_tx (entries st) = (Inr (Some c), entries st)"
proof -
  obtain r where "read_credentials_from_tx (entries st) = (r, entries st)"
      "load_credentials st = map_err StoreErr r"
    using read_credentials_pure [OF assms(1)] by (auto simp: tx_reads_def)
  with assms(2) show ?thesis by (cases r) auto
qed

section \<open>Creation\<close>

definition randomness_ok :: "credential_randomness \<Rightarrow> bool" where
  "randomness_ok r \<longleftrightarrow> length (rnd_identity r) = 32 \<and> length (rnd_pre_key r) = 32 \<and>
     length (rnd_adv r) = 32 \<and> length (rnd_noise r) = 32 \<and> length (rnd_pairing r) = 32"

lemma generated_key_pair_sized:
  "ext_ok X \<Longrightarrow> length k = 32 \<Longrightarrow> key_pair_sized (generate_key_pair X k)"
  by (simp add: key_pair_sized_def generate_key_pair_def public_key_from_private_def ext_keys(1))

text \<open>A signed pre-key of a sound identity: what it is, and that peers will accept its signature.\<close>

definition signed_pre_key_session :: "KeyPair \<Rightarrow> SignedPreKey \<Rightarrow> u32 \<Rightarrow> SignalSession" where
  "signed_pre_key_session identity pre_key reg =
     \<lparr>ses_registration_id = reg, ses_identity_key = kp_public identity,
      ses_signed_pre_key = \<lparr>spk_key_id = sp_key_id pre_key,
        spk_public_key = kp_public (sp_key_pair pre_key), spk_signature = sp_signature pre_key\<rparr>,
      ses_pre_key = None\<rparr>"

lemma create_signed_pre_key_verified:
  assumes X: "ext_ok X" and V: "verifier_ok X V"
    and identity: "identity = generate_key_pair X i" "length i = 32" and k: "length k = 32"
  obtains pre_key where "create_signed_pre_key X k r identity key_id = Inr pre_key"
    "sp_key_id pre_key = key_id" "sp_key_pair pre_key = generate_key_pair X k"
    "verify_signal_signed_pre_key V (signed_pre_key_session identity pre_key reg) = Inr ()"
proof
  let ?pre_key = "\<lparr>sp_key_id = key_id, sp_key_pair = generate_key_pair X k,
     sp_signature = x_xed_sign X i (prefixed_signal_public_key (x_public X k)) r\<rparr>"
  have len: "length (x_public X i) = 32" "length (x_public X k) = 32"
    using X identity k by (simp_all add: ext_keys(1))
  have "V (x_public X i) (prefixed_signal_public_key (x_public X k)) (sp_signature ?pre_key)"
    using V identity(2) by (simp add: verifier_ok_def)
  then show "verify_signal_signed_pre_key V (signed_pre_key_session identity ?pre_key reg) = Inr ()"
    using len ext_keys(4) [OF X]
    by (simp add: verify_signal_signed_pre_key_def signed_pre_key_session_def identity(1)
        generate_key_pair_def public_key_from_private_def signal_public_key_bytes_def
        normalize_signal_public_key_def prefixed_signal_public_key_def)
  show "create_signed_pre_key X k r identity key_id = Inr ?pre_key"
    by (simp add: create_signed_pre_key_def Let_def sign_x25519_def identity
        generate_key_pair_def public_key_from_private_def)
qed simp_all

lemma registration_id_bound: "unat (generate_registration_id r) \<le> 16383"
proof -
  have "generate_registration_id r \<le> 0x3fff"
    unfolding generate_registration_id_def by (rule word_and_le1)
  then show ?thesis by (simp add: word_le_nat_alt)
qed

lemma initial_credentials:
  assumes X: "ext_ok X" and r: "randomness_ok r"
  obtains c where "create_initial_credentials X r = Inr c" "credentials_ok c"
    "signed_identity_key c = generate_key_pair X (rnd_identity r)"
    "create_signed_pre_key X (rnd_pre_key r) (rnd_signature r) (signed_identity_key c) 1 =
      Inr (signed_pre_key c)"
    "registration_id c = generate_registration_id (rnd_registration r)"
    "next_pre_key_id c = 1" "first_unuploaded_pre_key_id c = 1"
proof -
  have len: "length (rnd_identity r) = 32" "length (rnd_pre_key r) = 32"
    using r by (simp_all add: randomness_ok_def)
  obtain pre_key where p: "create_signed_pre_key X (rnd_pre_key r) (rnd_signature r)
        (generate_key_pair X (rnd_identity r)) 1 = Inr pre_key"
      "sp_key_pair pre_key = generate_key_pair X (rnd_pre_key r)"
    using len
    by (simp add: create_signed_pre_key_def Let_def sign_x25519_def generate_key_pair_def)
  obtain c where "create_initial_credentials X r = Inr c" using p(1)
    by (simp add: create_initial_credentials_def Let_def)
  then show thesis
    by (rule that) (use p r generated_key_pair_sized [OF X] \<open>create_initial_credentials X r = Inr c\<close> in
      \<open>auto simp: create_initial_credentials_def Let_def credentials_ok_def randomness_ok_def\<close>)
qed

section \<open>Properties\<close>

lemma save_credentials_open:
  "\<not> poisoned st \<Longrightarrow> save_credentials st c =
     (Inr (), st\<lparr>entries := write_entries (credential_entries c) (entries st)\<rparr>)"
  by (simp add: save_credentials_def memory_transaction_def with_entries_def commit_on_ok_def
      write_credentials_entries)

text \<open>
  C30: saved credentials are loaded back. Whatever the credentials namespace held before (older
  credentials with other optional fields included), after a save a load returns exactly the
  credentials that were saved, and no key of another namespace has changed.
\<close>

theorem credentials_roundtrip:
  assumes "\<not> poisoned st" and "credentials_ok c"
  shows "\<exists>st'. save_credentials st c = (Inr (), st') \<and> load_credentials st' = Inr (Some c) \<and>
    \<not> poisoned st' \<and> (\<forall>ns k. ns \<noteq> NsCredentials \<longrightarrow> entries st' (ns, k) = entries st (ns, k))"
  using assms
  by (simp add: save_credentials_open load_holds write_holds write_entries_frame)

definition sample_randomness :: credential_randomness where
  "sample_randomness = \<lparr>rnd_identity = replicate 32 1, rnd_pre_key = replicate 32 2,
     rnd_signature = replicate 64 3, rnd_adv = replicate 32 4, rnd_noise = replicate 32 5,
     rnd_pairing = replicate 32 6, rnd_registration = 0xFFFF\<rparr>"

lemma sample_randomness_ok: "randomness_ok sample_randomness"
  by (simp add: randomness_ok_def sample_randomness_def)

theorem credentials_roundtrip_witness:
  "\<exists>c st'. create_initial_credentials toy sample_randomness = Inr c \<and>
    save_credentials memory_new (c\<lparr>account_name := Some ''Ada''\<rparr>) = (Inr (), st') \<and>
    load_credentials st' = Inr (Some (c\<lparr>account_name := Some ''Ada''\<rparr>))"
proof -
  obtain c where c: "create_initial_credentials toy sample_randomness = Inr c" "credentials_ok c"
    using initial_credentials [OF toy_ok sample_randomness_ok] by blast
  have "str_ok ''Ada''" by (rule str_ok_ascii) simp
  then have "credentials_ok (c\<lparr>account_name := Some ''Ada''\<rparr>)"
    using c(2) by (simp add: credentials_ok_def)
  then show ?thesis
    using credentials_roundtrip [of memory_new "c\<lparr>account_name := Some ''Ada''\<rparr>"] c(1)
    by (fastforce simp: memory_new_def)
qed

text \<open>
  The two ways of reading the credentials agree. On a store whose lock is sound, the reader
  inside a transaction returns what \<open>load_credentials\<close> returns, the same error included, and
  changes nothing.
\<close>

theorem credential_readers_agree:
  assumes "\<not> poisoned st"
  shows "\<exists>r. read_credentials_from_tx (entries st) = (r, entries st) \<and>
    load_credentials st = map_err StoreErr r"
  using read_credentials_pure [OF assms] by (simp add: tx_reads_def)

theorem credential_readers_agree_witness:
  "\<exists>r. read_credentials_from_tx (entries (snd (memory_set memory_new NsCredentials ''schema-version'' [2]))) =
      (r, entries (snd (memory_set memory_new NsCredentials ''schema-version'' [2]))) \<and>
    load_credentials (snd (memory_set memory_new NsCredentials ''schema-version'' [2])) = map_err StoreErr r"
  using credential_readers_agree [of "snd (memory_set memory_new NsCredentials ''schema-version'' [2])"]
  by (simp add: memory_set_def with_entries_def memory_new_def tx_simps)

lemma load_none_iff:
  assumes "\<not> poisoned st"
  shows "load_credentials st = Inr None \<longleftrightarrow> entries st (NsCredentials, SCHEMA_VERSION_KEY) = None"
  by (auto simp: load_credentials_def store_get_open [OF assms] result_simps split: option.splits if_splits)

lemma load_or_init_cases:
  assumes open_store: "\<not> poisoned st" and c: "create_initial_credentials X rnd = Inr c"
  shows "load_or_init_credentials X rnd st = (case load_credentials st of
      Inl e \<Rightarrow> (Inl e, st)
    | Inr (Some d) \<Rightarrow> (Inr \<lparr>cl_credentials = d, cl_initialized = False\<rparr>, st)
    | Inr None \<Rightarrow> (Inr \<lparr>cl_credentials = c, cl_initialized = True\<rparr>,
        st\<lparr>entries := write_entries (credential_entries c) (entries st)\<rparr>))"
proof -
  obtain r where r: "read_credentials_from_tx (entries st) = (r, entries st)"
      "load_credentials st = map_err StoreErr r"
    using read_credentials_pure [OF open_store] by (auto simp: tx_reads_def)
  consider (err) e where "r = Inl e" | (none) "r = Inr None" | (some) d where "r = Inr (Some d)"
    by (metis not_None_eq sum.exhaust)
  then show ?thesis
    by cases (simp_all add: load_or_init_credentials_def c r open_store memory_transaction_def
        with_entries_def commit_on_ok_def tx_bind_def tx_simps write_credentials_entries)
qed

text \<open>
  C29: initialisation never replaces an identity. If the store has credentials, or credentials it
  cannot read, \<open>load_or_init_credentials\<close> returns them, or the error, and leaves the store as it
  is; if it has none, new credentials are stored, with a registration id of at most 16383, both
  pre-key counters at 1 and a signed pre-key whose signature peers accept, and every later
  initialisation returns them.
\<close>

theorem initialisation_safe:
  assumes "ext_ok X" and "verifier_ok X V" and "randomness_ok rnd" and "\<not> poisoned st"
  shows "case load_credentials st of
      Inl e \<Rightarrow> load_or_init_credentials X rnd st = (Inl e, st)
    | Inr (Some d) \<Rightarrow>
        load_or_init_credentials X rnd st = (Inr \<lparr>cl_credentials = d, cl_initialized = False\<rparr>, st)
    | Inr None \<Rightarrow> (\<exists>c st'.
        load_or_init_credentials X rnd st = (Inr \<lparr>cl_credentials = c, cl_initialized = True\<rparr>, st') \<and>
        unat (registration_id c) \<le> 16383 \<and> next_pre_key_id c = 1 \<and>
        first_unuploaded_pre_key_id c = 1 \<and>
        verify_signal_signed_pre_key V (signed_pre_key_session (signed_identity_key c)
          (signed_pre_key c) (registration_id c)) = Inr () \<and>
        (\<forall>rnd'. randomness_ok rnd' \<longrightarrow> load_or_init_credentials X rnd' st' =
          (Inr \<lparr>cl_credentials = c, cl_initialized = False\<rparr>, st')))"
proof -
  note X = assms(1) and open_store = assms(4)
  obtain c where c: "create_initial_credentials X rnd = Inr c" "credentials_ok c"
      "signed_identity_key c = generate_key_pair X (rnd_identity rnd)"
      "create_signed_pre_key X (rnd_pre_key rnd) (rnd_signature rnd) (signed_identity_key c) 1 =
        Inr (signed_pre_key c)"
      "registration_id c = generate_registration_id (rnd_registration rnd)"
      "next_pre_key_id c = 1" "first_unuploaded_pre_key_id c = 1"
    by (rule initial_credentials [OF X assms(3)])
  let ?st' = "st\<lparr>entries := write_entries (credential_entries c) (entries st)\<rparr>"
  have verified: "verify_signal_signed_pre_key V (signed_pre_key_session (signed_identity_key c)
          (signed_pre_key c) (registration_id c)) = Inr ()"
  proof -
    have len: "length (rnd_identity rnd) = 32" "length (rnd_pre_key rnd) = 32"
      using assms(3) by (simp_all add: randomness_ok_def)
    show ?thesis
      by (rule create_signed_pre_key_verified [OF X assms(2) c(3) len,
            where r = "rnd_signature rnd" and key_id = 1 and reg = "registration_id c"])
        (use c(4) in simp)
  qed
  have loaded: "load_credentials ?st' = Inr (Some c)"
    by (rule load_holds) (use open_store c(2) write_holds in simp_all)
  have later: "load_or_init_credentials X rnd' ?st' =
      (Inr \<lparr>cl_credentials = c, cl_initialized = False\<rparr>, ?st')" if rnd': "randomness_ok rnd'" for rnd'
  proof -
    obtain c' where "create_initial_credentials X rnd' = Inr c'"
      by (rule initial_credentials [OF X rnd'])
    then show ?thesis using load_or_init_cases [of ?st'] loaded open_store by simp
  qed
  show ?thesis
    using load_or_init_cases [OF open_store c(1)] verified later c(5-7) registration_id_bound
    by (auto split: sum.split option.split intro!: exI [of _ c])
qed

theorem initialisation_safe_witness:
  "\<exists>c st'. load_or_init_credentials toy sample_randomness memory_new =
      (Inr \<lparr>cl_credentials = c, cl_initialized = True\<rparr>, st') \<and>
    load_or_init_credentials toy sample_randomness st' =
      (Inr \<lparr>cl_credentials = c, cl_initialized = False\<rparr>, st')"
proof -
  have "load_credentials memory_new = Inr None"
    using load_none_iff [of memory_new] by (simp add: memory_new_def)
  then show ?thesis
    using initialisation_safe [OF toy_ok toy_verifier_ok sample_randomness_ok, of memory_new]
      sample_randomness_ok
    by (fastforce simp: memory_new_def)
qed

end
