(* ===== verification/PreKeyProperties.thy ===== *)
theory PreKeyProperties
  imports PreKeys CredentialProperties
begin

text \<open>
  What the pre-key counters and ranges of \<^verbatim>\<open>crates/wa-core/src/pre_keys.rs\<close> guarantee: an upload
  takes a contiguous range of ids, generates the keys it misses and no other, can be repeated
  until it is confirmed, and no id is uploaded again once it is.
\<close>

section \<open>Big-endian fields\<close>

definition be_value :: "bytes \<Rightarrow> nat" where
  "be_value bs = foldl (\<lambda>n b. 256 * n + unat b) 0 bs"

lemma ucast_and_ff: "(ucast (w AND 0xff) :: u8) = ucast (w :: u32)"
proof -
  have "(ucast (w AND mask 8) :: u8) = ucast w"
    by (intro bit_word_eqI) (auto simp: bit_ucast_iff bit_and_iff bit_mask_iff)
  then show ?thesis by (simp add: mask_eq_exp_minus_1)
qed

lemma big_endian_max:
  "(if w = 4 then - 1 else push_bit (w * 8) 1 - 1 :: u32) < v \<longleftrightarrow> 256 ^ w \<le> unat v"
  if "1 \<le> w" "w \<le> 4"
proof -
  from that consider "w = 1" | "w = 2" | "w = 3" | "w = 4" by linarith
  then show ?thesis
  proof cases
    case 4
    then show ?thesis using unat_u32_less [of v] by (simp add: word_less_nat_alt unat_max_u32)
  qed (auto simp: word_less_nat_alt push_bit_eq_mult)
qed

lemma encode_big_endian_cases:
  "encode_big_endian v w =
     (if w = 0 \<or> 4 < w then Inl (Payload (''invalid big-endian width: '' @ show_nat w))
      else if 256 ^ w \<le> unat v
        then Inl (Payload (''value '' @ show_nat (unat v) @ '' does not fit in '' @ show_nat w @ '' bytes''))
      else Inr (drop (4 - w) (put_u32 v)))"
proof (cases "w = 0 \<or> 4 < w")
  case False
  then have w: "1 \<le> w" "w \<le> 4" by auto
  have "map (\<lambda>index. ucast (drop_bit ((w - 1 - index) * 8) v AND 0xff)) [0..<w] =
      drop (4 - w) (put_u32 v)"
  proof -
    from w consider "w = 1" | "w = 2" | "w = 3" | "w = 4" by linarith
    then show ?thesis
      by cases (simp_all add: put_u32_def ucast_and_ff upt_rec numeral_2_eq_2 numeral_3_eq_3)
  qed
  then show ?thesis using False big_endian_max [OF w]
    by (simp add: encode_big_endian_def Let_def)
qed (simp add: encode_big_endian_def)

lemma unat_byte: "unat (ucast (drop_bit n (v :: u32)) :: u8) = unat v div 2 ^ n mod 256"
  unfolding unsigned_ucast_eq unat_drop_bit_eq by (simp add: drop_bit_eq_div take_bit_eq_mod)

lemma be_value_big_endian:
  assumes "1 \<le> w" "w \<le> 4"
  shows "be_value (drop (4 - w) (put_u32 v)) = unat v mod 256 ^ w"
proof -
  define n where "n = unat v"
  have b: "unat (ucast (drop_bit 24 v) :: u8) = n div 16777216 mod 256"
    "unat (ucast (drop_bit 16 v) :: u8) = n div 65536 mod 256"
    "unat (ucast (drop_bit 8 v) :: u8) = n div 256 mod 256" "unat (ucast v :: u8) = n mod 256"
    using unat_byte [of 24 v] unat_byte [of 16 v] unat_byte [of 8 v] unat_byte [of 0 v]
    by (simp_all add: n_def)
  have split: "n mod 65536 = 256 * (n div 256 mod 256) + n mod 256"
    "n mod 16777216 = 65536 * (n div 65536 mod 256) + n mod 65536"
    "n mod 4294967296 = 16777216 * (n div 16777216 mod 256) + n mod 16777216"
    using mod_mult2_eq [of n 256 256] mod_mult2_eq [of n 65536 256] mod_mult2_eq [of n 16777216 256]
    by simp_all
  from assms consider "w = 1" | "w = 2" | "w = 3" | "w = 4" by linarith
  then show ?thesis
    by cases (simp_all add: be_value_def put_u32_def b split n_def [symmetric])
qed

text \<open>
  The fixed-width integer fields are exact. A value is encoded exactly when the width is one
  to four bytes and the value fits in it; the field then has that width and its big-endian value
  is the number. Otherwise the result is an error and no truncated number is sent.
\<close>

theorem big_endian_exact:
  "case encode_big_endian v w of
     Inr bs \<Rightarrow> 1 \<le> w \<and> w \<le> 4 \<and> length bs = w \<and> be_value bs = unat v
   | Inl e \<Rightarrow> w = 0 \<or> 4 < w \<or> 256 ^ w \<le> unat v"
  using be_value_big_endian [of w v] by (auto simp: encode_big_endian_cases)

section \<open>Ranges of ids\<close>

lemma range_inclusive_u32_Suc:
  "b \<noteq> - 1 \<Longrightarrow> range_inclusive_u32 a b = range_u32 a (b + 1)"
  by (simp add: range_inclusive_u32_def range_u32_def unat_Suc_u32)

lemma set_range_u32: "set (range_u32 a b) = {i. a \<le> i \<and> i < b}"
proof (intro set_eqI iffI)
  fix i
  assume "i \<in> set (range_u32 a b)"
  then obtain n where n: "i = word_of_nat n" "unat a \<le> n" "n < unat b"
    by (auto simp: range_u32_def)
  then have "unat i = n" using unat_u32_less [of b] by (simp add: unat_of_nat_u32)
  then show "i \<in> {i. a \<le> i \<and> i < b}" using n by (simp add: word_le_nat_alt word_less_nat_alt)
next
  fix i
  assume "i \<in> {i. a \<le> i \<and> i < b}"
  then show "i \<in> set (range_u32 a b)"
    by (auto simp: range_u32_def word_le_nat_alt word_less_nat_alt intro!: image_eqI [of _ _ "unat i"])
qed

lemma range_u32_empty: "b \<le> a \<Longrightarrow> range_u32 a b = []"
  by (simp add: range_u32_def word_le_nat_alt)

lemma length_range_u32 [simp]: "length (range_u32 a b) = unat b - unat a"
  by (simp add: range_u32_def)

section \<open>The store of pre-keys\<close>

definition pre_key_at :: "store_map \<Rightarrow> u32 \<Rightarrow> KeyPair option" where
  "pre_key_at m i = (case m (NsPreKey, pre_key_name i) of None \<Rightarrow> None
     | Some v \<Rightarrow> if length v = 64 then Some \<lparr>kp_public = take 32 v, kp_private = drop 32 v\<rparr> else None)"

fun write_pre_keys :: "(u32 \<Rightarrow> KeyPair) \<Rightarrow> u32 list \<Rightarrow> store_map \<Rightarrow> store_map" where
  "write_pre_keys f [] m = m"
| "write_pre_keys f (i # is) m = write_pre_keys f is
     (m((NsPreKey, pre_key_name i) \<mapsto> kp_public (f i) @ kp_private (f i)))"

lemma pre_key_name_inject [simp]: "pre_key_name i = pre_key_name j \<longleftrightarrow> i = j"
  by (simp add: pre_key_name_def show_nat_inj word_unat_eq_iff)

lemma tx_for_each_write_pre_keys:
  "tx_for_each (\<lambda>i. write_pre_key_to_tx i (f i)) is m = (Inr (), write_pre_keys f is m)"
  by (induction "is" arbitrary: m) (simp_all add: tx_simps write_pre_key_to_tx_def)

lemma write_pre_keys_frame:
  "ns \<noteq> NsPreKey \<Longrightarrow> write_pre_keys f is m (ns, k) = m (ns, k)"
  by (induction f "is" m rule: write_pre_keys.induct) auto

lemma write_pre_keys_other:
  "i \<notin> set is \<Longrightarrow> write_pre_keys f is m (NsPreKey, pre_key_name i) = m (NsPreKey, pre_key_name i)"
  by (induction f "is" m rule: write_pre_keys.induct) auto

lemma write_pre_keys_in:
  "i \<in> set is \<Longrightarrow> write_pre_keys f is m (NsPreKey, pre_key_name i) =
     Some (kp_public (f i) @ kp_private (f i))"
  by (induction f "is" m rule: write_pre_keys.induct)
    (auto simp: write_pre_keys_other, metis fun_upd_same write_pre_keys_other)

lemma pre_key_at_written:
  "\<forall>i. key_pair_sized (f i) \<Longrightarrow>
    pre_key_at (write_pre_keys f is m) i = (if i \<in> set is then Some (f i) else pre_key_at m i)"
  by (simp add: pre_key_at_def write_pre_keys_in write_pre_keys_other key_pair_sized_def)

lemma pre_key_at_credentials: "pre_key_at (write_entries es m) i = pre_key_at m i"
  by (simp add: pre_key_at_def write_entries_frame)

lemma read_pre_key:
  "pre_key_at m i = Some k \<Longrightarrow> read_pre_key_from_tx i m = (Inr k, m)"
  by (auto simp: pre_key_at_def read_pre_key_from_tx_def read_optional_pre_key_from_tx_def tx_simps
      tx_bind_def split: option.splits if_splits)

lemma tx_collect_read:
  "\<forall>i\<in>set is. pre_key_at m i \<noteq> None \<Longrightarrow>
    tx_collect (\<lambda>i. tx_bind (read_pre_key_from_tx i) (\<lambda>pair.
      tx_return \<lparr>st_key_id = i, st_key_pair = pair\<rparr>)) is m =
    (Inr (map (\<lambda>i. \<lparr>st_key_id = i, st_key_pair = the (pre_key_at m i)\<rparr>) is), m)"
proof (induction "is")
  case (Cons i "is")
  then obtain k where "pre_key_at m i = Some k" by auto
  with Cons show ?case by (simp add: tx_bind_def read_pre_key tx_simps)
qed (simp add: tx_simps)

section \<open>The counters\<close>

text \<open>
  What must hold between the counters and the stored keys: every id that was generated and is not
  confirmed as uploaded has its key.
\<close>

definition pre_keys_ok :: "store_map \<Rightarrow> AuthCredentials \<Rightarrow> bool" where
  "pre_keys_ok m c \<longleftrightarrow> first_unuploaded_pre_key_id c \<le> next_pre_key_id c \<and>
     (\<forall>i. first_unuploaded_pre_key_id c \<le> i \<and> i < next_pre_key_id c \<longrightarrow> pre_key_at m i \<noteq> None)"

text \<open>The state after an upload of the ids up to \<open>e\<close> was prepared.\<close>

definition prepared_credentials :: "AuthCredentials \<Rightarrow> u32 \<Rightarrow> AuthCredentials" where
  "prepared_credentials c e = c\<lparr>next_pre_key_id := max (next_pre_key_id c) e\<rparr>"

definition generated_keys :: "ext \<Rightarrow> (u32 \<Rightarrow> bytes) \<Rightarrow> AuthCredentials \<Rightarrow> u32 \<Rightarrow> store_map \<Rightarrow> store_map" where
  "generated_keys X rnd c e = write_pre_keys (\<lambda>i. generate_key_pair X (rnd i)) (range_u32 (next_pre_key_id c) e)"

definition stored_keys :: "store_map \<Rightarrow> u32 list \<Rightarrow> StoredPreKey list" where
  "stored_keys m is = map (\<lambda>i. \<lparr>st_key_id = i, st_key_pair = the (pre_key_at m i)\<rparr>) is"

lemma requested_range:
  assumes "0 < count" "unat a + count < 4294967296"
  shows "checked_add_u32 a (word_of_nat count) = Some (a + word_of_nat count)"
    and "unat (a + word_of_nat count) = unat a + count"
    and "unat (a + word_of_nat count - 1) = unat a + count - 1"
    and "checked_sub_u32 (a + word_of_nat count) 1 = Some (a + word_of_nat count - 1)"
    and "checked_add_u32 (a + word_of_nat count - 1) 1 = Some (a + word_of_nat count)"
    and "a + word_of_nat count - 1 \<noteq> - 1"
proof -
  show u: "unat (a + word_of_nat count) = unat a + count"
    using assms by (simp add: word_add_nat)
  show "checked_add_u32 a (word_of_nat count) = Some (a + word_of_nat count)"
    using assms by (simp add: checked_add_u32_def unat_of_nat_u32)
  show v: "unat (a + word_of_nat count - 1) = unat a + count - 1"
    using u assms(1) by (subst unat_sub) (simp_all add: word_le_nat_alt)
  show "checked_sub_u32 (a + word_of_nat count) 1 = Some (a + word_of_nat count - 1)"
    using u assms(1) by (simp add: checked_sub_u32_def)
  show "a + word_of_nat count - 1 \<noteq> - 1"
    using v assms by (simp add: u32_max_iff)
  then show "checked_add_u32 (a + word_of_nat count - 1) 1 = Some (a + word_of_nat count)"
    using checked_add_one_Some by simp
qed

lemma remaining_range:
  assumes le: "(f :: u32) \<le> n" and count: "0 < count" "unat f + count < 4294967296"
  defines "r \<equiv> saturating_sub_u32 (word_of_nat count) (n - f)" and "e \<equiv> f + word_of_nat count"
  shows "Option.bind (if r = 0 then checked_add_u32 f (word_of_nat count) else checked_add_u32 n r)
      (\<lambda>val. checked_sub_u32 val 1) = Some (e - 1)"
    and "0 < r \<longleftrightarrow> n < e"
proof -
  note q = requested_range [OF count]
  have len: "unat (word_of_nat count :: u32) = count" "unat (n - f) = unat n - unat f"
    using count le by (simp_all add: unat_of_nat_u32 unat_sub word_le_nat_alt)
  have r: "unat r = count - (unat n - unat f)"
    using len count(1) le
    by (auto simp: r_def saturating_sub_u32_def unat_sub word_le_nat_alt)
  have e: "unat e = unat f + count" unfolding e_def by (rule q(2))
  have rz: "r = 0 \<longleftrightarrow> count \<le> unat n - unat f" using r by (simp add: unat_eq_0 [symmetric])
  then show "0 < r \<longleftrightarrow> n < e"
    using e le by (auto simp: word_less_nat_alt word_le_nat_alt unat_eq_0 [symmetric] r)
  have "checked_add_u32 n r = Some e" if "r \<noteq> 0"
  proof -
    have "unat n + unat r = unat e" using r rz that e le by (auto simp: word_le_nat_alt)
    then have "unat (n + r) = unat e" using unat_u32_less [of e] by (simp add: unat_word_ariths)
    then show ?thesis
      using \<open>unat n + unat r = unat e\<close> unat_u32_less [of e]
      by (simp add: checked_add_u32_def word_unat_eq_iff)
  qed
  then show "Option.bind (if r = 0 then checked_add_u32 f (word_of_nat count) else checked_add_u32 n r)
      (\<lambda>val. checked_sub_u32 val 1) = Some (e - 1)"
    using q(1,4) by (simp add: e_def)
qed

lemma generated_keys_at:
  assumes "ext_ok X" "\<forall>i. length (rnd i) = 32"
  shows "pre_key_at (generated_keys X rnd c e m) i =
    (if next_pre_key_id c \<le> i \<and> i < e then Some (generate_key_pair X (rnd i)) else pre_key_at m i)"
  using assms
  by (simp add: generated_keys_def pre_key_at_written generated_key_pair_sized set_range_u32)

lemma pre_keys_ok_generated:
  assumes X: "ext_ok X" "\<forall>i. length (rnd i) = 32" and ok: "pre_keys_ok m c"
    and e: "first_unuploaded_pre_key_id c \<le> e"
  shows "pre_keys_ok (generated_keys X rnd c e m) (prepared_credentials c e)"
  using ok
  by (auto simp: pre_keys_ok_def prepared_credentials_def generated_keys_at [OF X] max_def
      intro: order.trans order.strict_trans2)

lemma prepare_in_tx:
  assumes X: "ext_ok X" "\<forall>i. length (rnd i) = 32" and ok: "pre_keys_ok m c"
    and count: "0 < count" "unat (first_unuploaded_pre_key_id c) + count < 4294967296"
  defines "e \<equiv> first_unuploaded_pre_key_id c + word_of_nat count"
  defines "m1 \<equiv> generated_keys X rnd c e m"
  shows "prepare_pre_keys_in_tx X rnd c count m =
    (Inr \<lparr>pp_credentials = prepared_credentials c e,
       pp_pre_keys = stored_keys m1 (range_u32 (first_unuploaded_pre_key_id c) e)\<rparr>,
     write_entries (credential_entries (prepared_credentials c e)) m1)"
proof -
  let ?f = "first_unuploaded_pre_key_id c" and ?n = "next_pre_key_id c"
  have le: "?f \<le> ?n" using ok by (simp add: pre_keys_ok_def)
  note q = requested_range [OF count] and r = remaining_range [OF le count]
  have fe: "?f \<le> e" using q(2) by (simp add: e_def word_le_nat_alt)
  have gen: "(if 0 < saturating_sub_u32 (word_of_nat count) (?n - ?f)
         then tx_for_each (\<lambda>i. write_pre_key_to_tx i (generate_key_pair X (rnd i)))
                (range_inclusive_u32 ?n (e - 1))
         else tx_return ()) m = (Inr (), m1)"
    using q(6) r(2) range_u32_empty [of e ?n]
    by (auto simp: tx_for_each_write_pre_keys tx_simps m1_def generated_keys_def e_def
        range_inclusive_u32_Suc not_less)
  have "\<forall>i\<in>set (range_u32 ?f e). pre_key_at m1 i \<noteq> None"
    using pre_keys_ok_generated [OF X ok fe]
    by (auto simp: pre_keys_ok_def prepared_credentials_def set_range_u32 m1_def less_max_iff_disj)
  note read = tx_collect_read [OF this]
  have "u32_try_from count = Some (word_of_nat count)"
    using count by (simp add: u32_try_from_def)
  then show ?thesis
    using le q(1) r(1) q(5) read gen
    by (simp add: prepare_pre_keys_in_tx_def tx_simps Let_def e_def [symmetric] not_less tx_bind_def
        write_credentials_entries prepared_credentials_def stored_keys_def)
qed

section \<open>The upload node\<close>

text \<open>What a reader of the upload node finds in its list: the ids and the public keys.\<close>

definition content_bytes :: "BinaryNode option \<Rightarrow> bytes" where
  "content_bytes node = (case Option.bind node node_content of Some (Bytes bs) \<Rightarrow> bs | _ \<Rightarrow> [])"

definition uploaded_keys :: "BinaryNode \<Rightarrow> (nat \<times> bytes) list" where
  "uploaded_keys node = (case Option.bind (child_node ''list'' node) node_content of
     Some (Nodes keys) \<Rightarrow>
       map (\<lambda>k. (be_value (content_bytes (child_node ''id'' k)), content_bytes (child_node ''value'' k))) keys
   | _ \<Rightarrow> [])"

definition pre_key_node :: "StoredPreKey \<Rightarrow> BinaryNode" where
  "pre_key_node k = with_content (Nodes
     [with_content (Bytes (drop 1 (put_u32 (st_key_id k)))) (node_new ''id''),
      with_content (Bytes (kp_public (st_key_pair k))) (node_new ''value'')]) (node_new ''key'')"

lemma xmpp_pre_key_Ok:
  "unat (st_key_id k) < 16777216 \<Longrightarrow> xmpp_pre_key (st_key_pair k) (st_key_id k) = Inr (pre_key_node k)"
  by (simp add: xmpp_pre_key_def encode_big_endian_cases pre_key_node_def)

lemma upload_node:
  assumes "\<forall>k\<in>set keys. unat (st_key_id k) < 16777216" "unat (sp_key_id (signed_pre_key c)) < 16777216"
  obtains node where "build_pre_key_upload_node c keys tag = Inr node"
    "uploaded_keys node = map (\<lambda>k. (unat (st_key_id k), kp_public (st_key_pair k))) keys"
proof -
  have keys: "collect (\<lambda>k. xmpp_pre_key (st_key_pair k) (st_key_id k)) keys = Inr (map pre_key_node keys)"
    by (rule collect_map_Ok) (use assms(1) xmpp_pre_key_Ok in blast)
  have reg: "\<not> 4294967296 \<le> unat (registration_id c)"
    using unat_u32_less [of "registration_id c"] by simp
  have ids: "be_value (drop 1 (put_u32 (st_key_id k))) = unat (st_key_id k)" if "k \<in> set keys" for k
    using be_value_big_endian [of 3 "st_key_id k"] assms(1) that by simp
  note build = build_pre_key_upload_node_def keys encode_big_endian_cases xmpp_signed_pre_key_def
  obtain node where node: "build_pre_key_upload_node c keys tag = Inr node"
    using assms(2) reg by (simp add: build)
  then have "uploaded_keys node = map (\<lambda>k. (unat (st_key_id k), kp_public (st_key_pair k))) keys"
    using assms(2) reg ids
    by (auto simp: build uploaded_keys_def child_node_def pre_key_node_def content_bytes_def)
  with node show thesis by (rule that)
qed

section \<open>Uploads\<close>

lemma prepare_upload_step:
  assumes X: "ext_ok X" "\<forall>i. length (rnd i) = 32" and st: "\<not> poisoned st"
    and c: "load_credentials st = Inr (Some c)" and ok: "pre_keys_ok (entries st) c"
    and signed: "unat (sp_key_id (signed_pre_key c)) < 16777216"
    and count: "0 < count" "unat (first_unuploaded_pre_key_id c) + count \<le> 16777216"
  defines "e \<equiv> first_unuploaded_pre_key_id c + word_of_nat count"
  defines "m1 \<equiv> generated_keys X rnd c e (entries st)"
  defines "m2 \<equiv> write_entries (credential_entries (prepared_credentials c e)) m1"
  obtains node where "prepare_pre_key_upload X rnd st c0 count tag =
      (Inr \<lparr>pu_node = node, pu_credentials = prepared_credentials c e,
         pu_pre_key_ids = range_u32 (first_unuploaded_pre_key_id c) e\<rparr>, st\<lparr>entries := m2\<rparr>)"
    "build_pre_key_upload_node (prepared_credentials c e)
       (stored_keys m1 (range_u32 (first_unuploaded_pre_key_id c) e)) tag = Inr node"
    "uploaded_keys node = map (\<lambda>i. (unat i, kp_public (the (pre_key_at m2 i))))
       (range_u32 (first_unuploaded_pre_key_id c) e)"
    "load_credentials (st\<lparr>entries := m2\<rparr>) = Inr (Some (prepared_credentials c e))"
    "pre_keys_ok m2 (prepared_credentials c e)"
proof -
  let ?f = "first_unuploaded_pre_key_id c" and ?c = "prepared_credentials c e"
  let ?ids = "range_u32 (first_unuploaded_pre_key_id c) e"
  have fit: "unat ?f + count < 4294967296" using count by simp
  have prep: "prepare_pre_keys_in_tx X rnd c count (entries st) =
      (Inr \<lparr>pp_credentials = ?c, pp_pre_keys = stored_keys m1 ?ids\<rparr>, m2)"
    unfolding m2_def m1_def e_def by (rule prepare_in_tx [OF X ok count(1) fit])
  have ue: "unat e = unat ?f + count" unfolding e_def by (rule requested_range(2) [OF count(1) fit])
  have small: "\<forall>k\<in>set (stored_keys m1 ?ids). unat (st_key_id k) < 16777216"
    using ue count(2) by (auto simp: stored_keys_def set_range_u32 word_less_nat_alt)
  have signed': "unat (sp_key_id (signed_pre_key ?c)) < 16777216"
    using signed by (simp add: prepared_credentials_def)
  obtain node where node: "build_pre_key_upload_node ?c (stored_keys m1 ?ids) tag = Inr node"
      "uploaded_keys node = map (\<lambda>k. (unat (st_key_id k), kp_public (st_key_pair k))) (stored_keys m1 ?ids)"
    by (rule upload_node [OF small signed'])
  have ids: "map st_key_id (stored_keys m1 ?ids) = ?ids"
    by (simp add: stored_keys_def comp_def)
  show thesis
  proof (rule that [OF _ node(1)])
    show "prepare_pre_key_upload X rnd st c0 count tag =
      (Inr \<lparr>pu_node = node, pu_credentials = ?c, pu_pre_key_ids = ?ids\<rparr>, st\<lparr>entries := m2\<rparr>)"
      using count(1) st node(1) ids
      by (simp add: prepare_pre_key_upload_def memory_transaction_def with_entries_def commit_on_ok_def
          tx_bind_def read_stored_credentials [OF st c] prep)
    show "uploaded_keys node = map (\<lambda>i. (unat i, kp_public (the (pre_key_at m2 i)))) ?ids"
      using node(2) by (simp add: stored_keys_def m2_def pre_key_at_credentials)
    have "credentials_ok ?c"
      using load_credentials_ok [OF c] by (simp add: credentials_ok_def prepared_credentials_def)
    then show "load_credentials (st\<lparr>entries := m2\<rparr>) = Inr (Some ?c)"
      using st by (intro load_holds) (simp_all add: m2_def write_holds)
    have "?f \<le> e" using ue by (simp add: word_le_nat_alt)
    then have "pre_keys_ok m1 ?c" unfolding m1_def by (rule pre_keys_ok_generated [OF X ok])
    then show "pre_keys_ok m2 ?c" by (simp add: pre_keys_ok_def m2_def pre_key_at_credentials)
  qed
qed

end
