(* ===== verification/PreKeyUploads.thy ===== *)
theory PreKeyUploads
  imports PreKeyProperties
begin

text \<open>
  The life of the one-time pre-keys of \<^verbatim>\<open>crates/wa-core/src/pre_keys.rs\<close>: preparing an upload,
  repeating it, confirming it, and the invariant of the counters over all of these.
\<close>

section \<open>Preparing\<close>

text \<open>
  Preparing an upload. From credentials in the store whose unconfirmed ids have their keys,
  an upload of \<open>count\<close> keys takes the ids from the first unconfirmed one on. The credentials it
  returns are the stored ones, with the next id moved past the range; the node lists every id with
  the public key the store then holds under it; a key that was there is not replaced; and the
  counters are sound again.
\<close>

theorem pre_key_upload:
  assumes "ext_ok X" and "\<forall>i. length (rnd i) = 32" and "\<not> poisoned st"
    and "load_credentials st = Inr (Some c)" and "pre_keys_ok (entries st) c"
    and "unat (sp_key_id (signed_pre_key c)) < 16777216"
    and "0 < count" and "unat (first_unuploaded_pre_key_id c) + count \<le> 16777216"
  shows "\<exists>u st'. prepare_pre_key_upload X rnd st c0 count tag = (Inr u, st') \<and>
    map unat (pu_pre_key_ids u) =
      [unat (first_unuploaded_pre_key_id c)..<unat (first_unuploaded_pre_key_id c) + count] \<and>
    load_credentials st' = Inr (Some (pu_credentials u)) \<and>
    pu_credentials u = c\<lparr>next_pre_key_id := max (next_pre_key_id c)
      (first_unuploaded_pre_key_id c + word_of_nat count)\<rparr> \<and>
    uploaded_keys (pu_node u) =
      map (\<lambda>i. (unat i, kp_public (the (pre_key_at (entries st') i)))) (pu_pre_key_ids u) \<and>
    (\<forall>i. i < next_pre_key_id c \<longrightarrow> pre_key_at (entries st') i = pre_key_at (entries st) i) \<and>
    pre_keys_ok (entries st') (pu_credentials u) \<and> \<not> poisoned st'"
proof -
  let ?f = "first_unuploaded_pre_key_id c"
  let ?e = "?f + word_of_nat count"
  let ?m1 = "generated_keys X rnd c ?e (entries st)"
  let ?st' = "st\<lparr>entries := write_entries (credential_entries (prepared_credentials c ?e)) ?m1\<rparr>"
  obtain node where node: "prepare_pre_key_upload X rnd st c0 count tag =
      (Inr \<lparr>pu_node = node, pu_credentials = prepared_credentials c ?e,
         pu_pre_key_ids = range_u32 ?f ?e\<rparr>, ?st')"
    "uploaded_keys node = map (\<lambda>i. (unat i, kp_public (the (pre_key_at (entries ?st') i)))) (range_u32 ?f ?e)"
    "load_credentials ?st' = Inr (Some (prepared_credentials c ?e))"
    "pre_keys_ok (entries ?st') (prepared_credentials c ?e)"
    by (rule prepare_upload_step [OF assms, where ?c0.0 = c0 and tag = tag]) simp
  have fit: "unat ?f + count < 4294967296" using assms(8) by simp
  have ue: "unat ?e = unat ?f + count" by (rule requested_range(2) [OF assms(7) fit])
  have "map unat (range_u32 ?f ?e) = [unat ?f..<unat ?f + count]"
  proof -
    have "unat (word_of_nat n :: u32) = n" if "n \<in> set [unat ?f..<unat ?f + count]" for n
      using that fit by (simp add: unat_of_nat_u32)
    then show ?thesis unfolding range_u32_def ue map_map by (intro map_idI) simp
  qed
  moreover have "\<forall>i. i < next_pre_key_id c \<longrightarrow>
      pre_key_at (entries ?st') i = pre_key_at (entries st) i"
    by (auto simp: pre_key_at_credentials generated_keys_at [OF assms(1,2)] dest: leD)
  ultimately show ?thesis
    using node assms(3) unfolding prepared_credentials_def
    by (intro exI [of _ "\<lparr>pu_node = node, pu_credentials = _, pu_pre_key_ids = _\<rparr>"] exI [of _ ?st'] conjI)
      (simp_all add: prepared_credentials_def)
qed

section \<open>Confirming\<close>

lemma confirm_upload_step:
  assumes st: "\<not> poisoned st" and c: "load_credentials st = Inr (Some c)"
    and ok: "pre_keys_ok (entries st) c" and ids: "ids \<noteq> []"
  defines "c' \<equiv> c\<lparr>first_unuploaded_pre_key_id := max (first_unuploaded_pre_key_id c) (Max (set ids) + 1)\<rparr>"
  shows "if Max (set ids) < next_pre_key_id c
    then confirm_pre_key_upload st c0 ids =
      (Inr c', st\<lparr>entries := write_entries (credential_entries c') (entries st)\<rparr>)
    else \<exists>e. confirm_pre_key_upload st c0 ids = (Inl e, st)"
proof -
  let ?max = "Max (set ids)"
  have le: "\<not> next_pre_key_id c < first_unuploaded_pre_key_id c"
    using ok by (simp add: pre_keys_ok_def not_less)
  note run = confirm_pre_key_upload_def memory_transaction_def with_entries_def commit_on_ok_def
    tx_bind_def read_stored_credentials [OF st c] confirm_pre_key_upload_in_tx_def
  show ?thesis
  proof (cases "?max = - 1")
    case True
    then have "\<not> ?max < next_pre_key_id c" by (simp add: not_less)
    moreover have "checked_add_u32 ?max 1 = None" using True by (simp add: checked_add_u32_def unat_max_u32)
    ultimately show ?thesis using ids le st by (simp add: run tx_simps)
  next
    case False
    then have add: "checked_add_u32 ?max 1 = Some (?max + 1)" by (simp add: checked_add_one_Some)
    have "next_pre_key_id c < ?max + 1 \<longleftrightarrow> \<not> ?max < next_pre_key_id c"
      using unat_Suc_u32 [OF False] by (simp add: word_less_nat_alt) linarith
    then show ?thesis using ids le st add
      by (simp add: run tx_simps Let_def write_credentials_entries c'_def)
  qed
qed

lemma confirmed_sound:
  assumes st: "\<not> poisoned st" and c: "load_credentials st = Inr (Some c)"
    and ok: "pre_keys_ok (entries st) c" and ids: "ids \<noteq> []" "Max (set ids) < next_pre_key_id c"
  defines "c' \<equiv> c\<lparr>first_unuploaded_pre_key_id := max (first_unuploaded_pre_key_id c) (Max (set ids) + 1)\<rparr>"
  defines "m \<equiv> write_entries (credential_entries c') (entries st)"
  shows "load_credentials (st\<lparr>entries := m\<rparr>) = Inr (Some c')" "pre_keys_ok m c'"
proof -
  have "credentials_ok c'" using load_credentials_ok [OF c] by (simp add: credentials_ok_def c'_def)
  then show "load_credentials (st\<lparr>entries := m\<rparr>) = Inr (Some c')"
    using st by (intro load_holds) (simp_all add: m_def write_holds)
  have "Max (set ids) + 1 \<le> next_pre_key_id c"
    using ids(2) by (metis add.commute inc_le)
  then show "pre_keys_ok m c'"
    using ok by (auto simp: pre_keys_ok_def m_def c'_def pre_key_at_credentials)
qed

section \<open>Repeating an upload\<close>

lemma write_entries_same:
  "\<forall>(k, v)\<in>set es. m (NsCredentials, k) = v \<Longrightarrow> write_entries es m = m"
  by (induction es) (auto simp: fun_upd_idem)

lemma write_entries_twice:
  "distinct (map fst es) \<Longrightarrow> write_entries es (write_entries es m) = write_entries es m"
  by (rule write_entries_same) (auto simp: write_entries_lookup)

text \<open>
  An upload can be repeated. As long as it was not confirmed, preparing it again (as after a
  lost connection) returns the same upload, with the same ids, keys and node, and does not change
  the store: no key is generated, whatever the randomness.
\<close>

theorem pre_key_upload_retry:
  assumes "ext_ok X" and "\<forall>i. length (rnd i) = 32" and "\<not> poisoned st"
    and "load_credentials st = Inr (Some c)" and "pre_keys_ok (entries st) c"
    and "unat (sp_key_id (signed_pre_key c)) < 16777216"
    and "0 < count" and "unat (first_unuploaded_pre_key_id c) + count \<le> 16777216"
    and "\<forall>i. length (rnd' i) = 32"
  shows "\<exists>u st'. prepare_pre_key_upload X rnd st c0 count tag = (Inr u, st') \<and>
    prepare_pre_key_upload X rnd' st' c1 count tag = (Inr u, st')"
proof -
  let ?f = "first_unuploaded_pre_key_id c"
  let ?e = "?f + word_of_nat count"
  let ?c' = "prepared_credentials c ?e"
  let ?m1 = "generated_keys X rnd c ?e (entries st)"
  let ?m2 = "write_entries (credential_entries ?c') ?m1"
  let ?st' = "st\<lparr>entries := ?m2\<rparr>"
  obtain node where node: "prepare_pre_key_upload X rnd st c0 count tag =
      (Inr \<lparr>pu_node = node, pu_credentials = ?c', pu_pre_key_ids = range_u32 ?f ?e\<rparr>, ?st')"
    "build_pre_key_upload_node ?c' (stored_keys ?m1 (range_u32 ?f ?e)) tag = Inr node"
    "load_credentials ?st' = Inr (Some ?c')" "pre_keys_ok (entries ?st') ?c'"
    by (rule prepare_upload_step [OF assms(1-8), where ?c0.0 = c0 and tag = tag]) simp
  have st': "\<not> poisoned ?st'" and same: "first_unuploaded_pre_key_id ?c' = ?f"
    "signed_pre_key ?c' = signed_pre_key c" "prepared_credentials ?c' ?e = ?c'"
    using assms(3) by (simp_all add: prepared_credentials_def)
  have none: "generated_keys X rnd' ?c' ?e ?m2 = ?m2"
    by (simp add: generated_keys_def prepared_credentials_def range_u32_empty)
  have twice: "write_entries (credential_entries ?c') ?m2 = ?m2"
    by (rule write_entries_twice [OF distinct_credential_entries])
  have keys: "stored_keys ?m2 is = stored_keys ?m1 is" for "is"
    by (simp add: stored_keys_def pre_key_at_credentials)
  note step = prepare_upload_step [OF assms(1) assms(9) st' node(3,4), unfolded same,
      OF assms(6-8), where ?c0.0 = c1 and tag = tag]
  obtain node' where node': "prepare_pre_key_upload X rnd' ?st' c1 count tag =
      (Inr \<lparr>pu_node = node', pu_credentials = ?c', pu_pre_key_ids = range_u32 ?f ?e\<rparr>, ?st')"
    "build_pre_key_upload_node ?c' (stored_keys ?m1 (range_u32 ?f ?e)) tag = Inr node'"
    by (rule step) (simp add: none twice keys same)
  with node show ?thesis by simp
qed

text \<open>
  C28: no id is uploaded twice. After an upload was confirmed, the next upload takes ids beyond all
  the ids of the confirmed one, as many as it was asked for.
\<close>

theorem pre_key_ids_never_reused:
  assumes "ext_ok X" and "\<forall>i. length (rnd i) = 32" and "\<not> poisoned st"
    and "load_credentials st = Inr (Some c)" and "pre_keys_ok (entries st) c"
    and "unat (sp_key_id (signed_pre_key c)) < 16777216"
    and "0 < count" and "0 < count'" and "\<forall>i. length (rnd' i) = 32"
    and "unat (first_unuploaded_pre_key_id c) + count + count' \<le> 16777216"
  shows "\<exists>u st1 d st2 u' st3. prepare_pre_key_upload X rnd st c0 count tag = (Inr u, st1) \<and>
    confirm_pre_key_upload st1 c0 (pu_pre_key_ids u) = (Inr d, st2) \<and>
    prepare_pre_key_upload X rnd' st2 c0 count' tag' = (Inr u', st3) \<and>
    length (pu_pre_key_ids u) = count \<and> length (pu_pre_key_ids u') = count' \<and>
    (\<forall>i\<in>set (pu_pre_key_ids u). \<forall>j\<in>set (pu_pre_key_ids u'). i < j)"
proof -
  let ?f = "first_unuploaded_pre_key_id c"
  let ?e = "?f + word_of_nat count"
  let ?c1 = "prepared_credentials c ?e"
  let ?m1 = "generated_keys X rnd c ?e (entries st)"
  let ?st1 = "st\<lparr>entries := write_entries (credential_entries ?c1) ?m1\<rparr>"
  let ?ids = "range_u32 ?f ?e"
  have bound: "unat ?f + count \<le> 16777216" and fit: "unat ?f + count < 4294967296"
    using assms(10) by simp_all
  obtain node where node: "prepare_pre_key_upload X rnd st c0 count tag =
      (Inr \<lparr>pu_node = node, pu_credentials = ?c1, pu_pre_key_ids = ?ids\<rparr>, ?st1)"
    "load_credentials ?st1 = Inr (Some ?c1)" "pre_keys_ok (entries ?st1) ?c1"
    by (rule prepare_upload_step [OF assms(1-7) bound, where ?c0.0 = c0 and tag = tag]) simp
  note range = requested_range [OF assms(7) fit]
  have ids: "set ?ids = {i. ?f \<le> i \<and> i < ?e}" by (rule set_range_u32)
  have last: "?e - 1 \<in> set ?ids"
    using range(2,3) assms(7) by (simp add: ids word_le_nat_alt word_less_nat_alt)
  have max: "Max (set ?ids) = ?e - 1"
  proof (rule Max_eqI [OF _ _ last])
    fix i assume "i \<in> set ?ids"
    then show "i \<le> ?e - 1" using range(2,3) by (simp add: ids word_le_nat_alt word_less_nat_alt) linarith
  qed simp
  have ne: "?ids \<noteq> []" using last by auto
  have st1: "\<not> poisoned ?st1" using assms(3) by simp
  have "?e - 1 < ?e" using range(2,3) assms(7) by (simp add: word_less_nat_alt)
  then have lt: "Max (set ?ids) < next_pre_key_id ?c1"
    unfolding max by (simp add: prepared_credentials_def less_max_iff_disj)
  define d where "d = ?c1\<lparr>first_unuploaded_pre_key_id :=
      max (first_unuploaded_pre_key_id ?c1) (Max (set ?ids) + 1)\<rparr>"
  let ?st2 = "?st1\<lparr>entries := write_entries (credential_entries d) (entries ?st1)\<rparr>"
  have confirm: "confirm_pre_key_upload ?st1 c0 ?ids = (Inr d, ?st2)"
    using confirm_upload_step [OF st1 node(2,3) ne, of c0] lt by (simp add: d_def)
  have sound: "load_credentials ?st2 = Inr (Some d)" "pre_keys_ok (entries ?st2) d"
    using confirmed_sound [OF st1 node(2,3) ne lt] by (simp_all add: d_def)
  have "?f \<le> ?e" using range(2) by (simp add: word_le_nat_alt)
  then have first: "first_unuploaded_pre_key_id d = ?e"
    by (simp add: d_def max prepared_credentials_def)
  have signed: "unat (sp_key_id (signed_pre_key d)) < 16777216"
    using assms(6) by (simp add: d_def prepared_credentials_def)
  have bound': "unat (first_unuploaded_pre_key_id d) + count' \<le> 16777216"
    using assms(10) range(2) by (simp add: first)
  have st2: "\<not> poisoned ?st2" using assms(3) by simp
  have ext: "\<exists>u' st3. prepare_pre_key_upload X rnd' ?st2 c0 count' tag' = (Inr u', st3) \<and>
      pu_pre_key_ids u' = range_u32 ?e (?e + word_of_nat count')"
    by (rule prepare_upload_step [OF assms(1,9) st2 sound signed assms(8) bound',
          where ?c0.0 = c0 and tag = tag']) (simp add: first)
  have fit': "unat ?e + count' < 4294967296" using bound' by (simp add: first)
  have "unat (?e + word_of_nat count') = unat ?e + count'"
    by (rule requested_range(2) [OF assms(8) fit'])
  then have "length (range_u32 ?e (?e + word_of_nat count')) = count'" "length ?ids = count"
    using range(2) by simp_all
  moreover have "\<forall>i\<in>set ?ids. \<forall>j\<in>set (range_u32 ?e (?e + word_of_nat count')). i < j"
    by (auto simp: set_range_u32)
  ultimately show ?thesis using node(1) confirm ext by fastforce
qed

section \<open>The life of the pre-keys\<close>

text \<open>
  The operations on the pre-keys of one device, from its first start on: preparing and confirming
  uploads, with whatever arguments and results, and the removal of a key whose upload was
  confirmed (as when a peer has used it).
\<close>

inductive pre_key_life :: "ext \<Rightarrow> MemoryAuthStore \<Rightarrow> bool" for X where
  start: "randomness_ok rnd \<Longrightarrow>
    load_or_init_credentials X rnd memory_new = (Inr load, st) \<Longrightarrow> pre_key_life X st"
| prepare: "pre_key_life X st \<Longrightarrow> \<forall>i. length (rnd i) = 32 \<Longrightarrow>
    prepare_pre_key_upload X rnd st c0 count tag = (r, st') \<Longrightarrow> pre_key_life X st'"
| confirm: "pre_key_life X st \<Longrightarrow>
    confirm_pre_key_upload st c0 ids = (r', st') \<Longrightarrow> pre_key_life X st'"
| consume: "pre_key_life X st \<Longrightarrow> load_credentials st = Inr (Some c) \<Longrightarrow>
    i < first_unuploaded_pre_key_id c \<Longrightarrow>
    memory_delete st NsPreKey (pre_key_name i) = (r'', st') \<Longrightarrow> pre_key_life X st'"

definition pre_key_store_ok :: "MemoryAuthStore \<Rightarrow> bool" where
  "pre_key_store_ok st \<longleftrightarrow> \<not> poisoned st \<and>
     (\<exists>c. load_credentials st = Inr (Some c) \<and> pre_keys_ok (entries st) c)"

lemma started_store:
  assumes X: "ext_ok X" and rnd: "randomness_ok rnd"
  shows "\<exists>c st. load_or_init_credentials X rnd memory_new =
      (Inr \<lparr>cl_credentials = c, cl_initialized = True\<rparr>, st) \<and> \<not> poisoned st \<and>
    load_credentials st = Inr (Some c) \<and> pre_keys_ok (entries st) c \<and>
    first_unuploaded_pre_key_id c = 1 \<and> sp_key_id (signed_pre_key c) = 1"
proof -
  obtain c where c: "create_initial_credentials X rnd = Inr c" "credentials_ok c"
      "create_signed_pre_key X (rnd_pre_key rnd) (rnd_signature rnd) (signed_identity_key c) 1 =
        Inr (signed_pre_key c)" "next_pre_key_id c = 1" "first_unuploaded_pre_key_id c = 1"
    by (rule initial_credentials [OF X rnd])
  have new: "\<not> poisoned memory_new" by (simp add: memory_new_def)
  have "load_credentials memory_new = Inr None"
    using load_none_iff [OF new] by (simp add: memory_new_def)
  then have load: "load_or_init_credentials X rnd memory_new =
      (Inr \<lparr>cl_credentials = c, cl_initialized = True\<rparr>,
       memory_new\<lparr>entries := write_entries (credential_entries c) (entries memory_new)\<rparr>)"
    using load_or_init_cases [OF new c(1)] by simp
  have "sp_key_id (signed_pre_key c) = 1"
    using c(3) by (auto simp: create_signed_pre_key_def Let_def result_simps
        dest!: sym [of _ "signed_pre_key c"])
  then show ?thesis
    using load new c(2,4,5)
    by (auto simp: load_holds write_holds pre_keys_ok_def)
qed

text \<open>Preparing fails as a whole where the range does not fit in 32 bits.\<close>

lemma tx_bind_fails:
  assumes "\<And>x m. r = Inr x \<Longrightarrow> \<exists>e m'. g x m = (Inl e, m')" "f m0 = (r, m1)"
  shows "\<exists>e m'. tx_bind f g m0 = (Inl e, m')"
  using assms by (cases r) (auto simp: tx_bind_def)

lemma prepare_too_far:
  assumes "4294967296 \<le> unat (first_unuploaded_pre_key_id c) + count"
  shows "\<exists>e m'. prepare_pre_keys_in_tx X rnd c count m = (Inl e, m')"
proof (cases "u32_try_from count")
  case None
  then show ?thesis by (simp add: prepare_pre_keys_in_tx_def tx_simps)
next
  case (Some requested)
  then have "unat requested = count" "requested = word_of_nat count"
    by (auto simp: u32_try_from_def unat_of_nat_u32 split: if_splits)
  then have none: "checked_add_u32 (first_unuploaded_pre_key_id c) requested = None"
    using assms by (simp add: checked_add_u32_def)
  show ?thesis
  proof (cases "next_pre_key_id c < first_unuploaded_pre_key_id c")
    case True
    then show ?thesis by (simp add: prepare_pre_keys_in_tx_def Some tx_simps)
  next
    case False
    show ?thesis
      unfolding prepare_pre_keys_in_tx_def Some ok_or_simps tx_lift_simps(2,3) none Let_def if_not_P [OF False]
      by (rule tx_bind_fails [OF _ tx_lift_simps(1)], rule tx_bind_fails [OF _ prod.collapse [symmetric]])
        (simp add: tx_simps)
  qed
qed

lemma prepare_keeps_sound:
  assumes X: "ext_ok X" and rnd: "\<forall>i. length (rnd i) = 32" and ok: "pre_key_store_ok st"
    and run: "prepare_pre_key_upload X rnd st c0 count tag = (r, st')"
  shows "pre_key_store_ok st'"
proof -
  obtain c where st: "\<not> poisoned st" and c: "load_credentials st = Inr (Some c)" "pre_keys_ok (entries st) c"
    using ok by (auto simp: pre_key_store_ok_def)
  let ?body = "tx_bind read_credentials_from_tx (\<lambda>stored.
      prepare_pre_keys_in_tx X rnd (case stored of Some c \<Rightarrow> c | None \<Rightarrow> c0) count)"
  have body: "?body (entries st) = prepare_pre_keys_in_tx X rnd c count (entries st)"
    by (simp add: tx_bind_def read_stored_credentials [OF st c(1)])
  have tx: "count \<noteq> 0 \<Longrightarrow> st' = snd (memory_transaction st ?body)"
    using run by (auto simp: prepare_pre_key_upload_def split: prod.splits)
  consider "count = 0" | "4294967296 \<le> unat (first_unuploaded_pre_key_id c) + count" "count \<noteq> 0" |
    "0 < count" "unat (first_unuploaded_pre_key_id c) + count < 4294967296"
    by linarith
  then show ?thesis
  proof cases
    case 1
    then show ?thesis using run ok by (simp add: prepare_pre_key_upload_def)
  next
    case 2
    obtain e m where "?body (entries st) = (Inl e, m)"
      using prepare_too_far [OF 2(1), of X rnd "entries st"] body by auto
    then show ?thesis
      using tx [OF 2(2)] st ok by (simp add: memory_transaction_def with_entries_def commit_on_ok_def)
  next
    case 3
    let ?e = "first_unuploaded_pre_key_id c + word_of_nat count"
    let ?c = "prepared_credentials c ?e" and ?m1 = "generated_keys X rnd c ?e (entries st)"
    have st': "st' = st\<lparr>entries := write_entries (credential_entries ?c) ?m1\<rparr>"
      using tx 3(1) st body prepare_in_tx [OF X rnd c(2) 3]
      by (simp add: memory_transaction_def with_entries_def commit_on_ok_def)
    have "first_unuploaded_pre_key_id c \<le> ?e"
      using requested_range(2) [OF 3] by (simp add: word_le_nat_alt)
    then have "pre_keys_ok ?m1 ?c" by (rule pre_keys_ok_generated [OF X rnd c(2)])
    moreover have "credentials_ok ?c"
      using load_credentials_ok [OF c(1)] by (simp add: credentials_ok_def prepared_credentials_def)
    ultimately show ?thesis
      using st unfolding pre_key_store_ok_def
      by (intro conjI exI [of _ ?c])
        (simp_all add: st' load_holds write_holds pre_keys_ok_def pre_key_at_credentials)
  qed
qed

lemma confirm_keeps_sound:
  assumes ok: "pre_key_store_ok st" and run: "confirm_pre_key_upload st c0 ids = (r, st')"
  shows "pre_key_store_ok st'"
proof -
  obtain c where st: "\<not> poisoned st" and c: "load_credentials st = Inr (Some c)" "pre_keys_ok (entries st) c"
    using ok by (auto simp: pre_key_store_ok_def)
  show ?thesis
  proof (cases "ids = [] \<or> \<not> Max (set ids) < next_pre_key_id c")
    case True
    then have "st' = st"
      using run confirm_upload_step [OF st c, of ids c0] by (auto simp: confirm_pre_key_upload_def split: if_splits)
    then show ?thesis using ok by simp
  next
    case False
    then have ids: "ids \<noteq> []" "Max (set ids) < next_pre_key_id c" by auto
    show ?thesis
      using run confirm_upload_step [OF st c ids(1), of c0] confirmed_sound [OF st c ids] ids(2) st
      by (auto simp: pre_key_store_ok_def)
  qed
qed

text \<open>
  C27: the counters stay sound. Through any sequence of preparations and confirmations, with any
  arguments and whether they succeed or fail, and any removal of confirmed keys, the device's
  credentials stay readable, the first unconfirmed id never passes the next id, and every id
  between the two has its key in the store.
\<close>

theorem pre_key_counters_sound:
  assumes "ext_ok X" and "pre_key_life X st"
  shows "\<exists>c. load_credentials st = Inr (Some c) \<and>
    first_unuploaded_pre_key_id c \<le> next_pre_key_id c \<and>
    (\<forall>i. first_unuploaded_pre_key_id c \<le> i \<and> i < next_pre_key_id c \<longrightarrow> pre_key_at (entries st) i \<noteq> None)"
proof -
  from assms(2) have "pre_key_store_ok st"
  proof induction
    case (start rnd load st)
    then show ?case using started_store [OF assms(1) start(1)] by (auto simp: pre_key_store_ok_def)
  next
    case (prepare st rnd c0 count tag r st')
    then show ?case using prepare_keeps_sound [OF assms(1)] by blast
  next
    case (confirm st c0 ids r' st')
    then show ?case using confirm_keeps_sound by blast
  next
    case (consume st c i r'' st')
    then have st: "\<not> poisoned st" by (simp add: pre_key_store_ok_def)
    have st': "st' = st\<lparr>entries := (entries st)((NsPreKey, pre_key_name i) := None)\<rparr>"
      using consume(4) st by (simp add: memory_delete_def with_entries_def tx_simps)
    have "load_credentials st' = load_credentials st"
      by (rule load_credentials_cong) (simp_all add: st')
    moreover have "pre_key_at (entries st') j = pre_key_at (entries st) j" if "j \<noteq> i" for j
      using that by (simp add: st' pre_key_at_def)
    moreover have "\<not> first_unuploaded_pre_key_id c \<le> i" using consume(3) by (simp add: not_le)
    ultimately show ?case using consume(2,5) st
      by (auto simp: pre_key_store_ok_def pre_keys_ok_def st')
  qed
  then show ?thesis by (auto simp: pre_key_store_ok_def pre_keys_ok_def)
qed

section \<open>A missing key\<close>

lemma tx_collect_missing:
  assumes "i \<in> set is" "m (NsPreKey, pre_key_name i) = None"
  shows "\<exists>e. tx_collect (\<lambda>i. tx_bind (read_pre_key_from_tx i) (\<lambda>pair.
      tx_return \<lparr>st_key_id = i, st_key_pair = pair\<rparr>)) is m = (Inl e, m)"
  using assms(1)
proof (induction "is")
  case (Cons j "is")
  have missing: "\<exists>e. read_pre_key_from_tx i m = (Inl e, m)"
    using assms(2) by (simp add: read_pre_key_from_tx_def read_optional_pre_key_from_tx_def tx_bind_def tx_simps)
  have "\<exists>r. tx_reads (read_pre_key_from_tx j) m r"
    unfolding read_pre_key_from_tx_def read_optional_pre_key_from_tx_def
    by (rule exI, (rule tx_reads_intros tx_reads_get)+)
  then obtain r where r: "read_pre_key_from_tx j m = (r, m)" by (auto simp: tx_reads_def)
  show ?case
  proof (cases r)
    case (Inr k)
    then have "i \<noteq> j" using missing r by auto
    then show ?thesis using Cons Inr r by (auto simp: tx_bind_def tx_simps)
  qed (use r in \<open>simp add: tx_bind_def\<close>)
qed simp

lemma prepare_missing:
  assumes i: "first_unuploaded_pre_key_id c \<le> i" "i < next_pre_key_id c"
    and count: "0 < count" "unat i < unat (first_unuploaded_pre_key_id c) + count"
    and gone: "m (NsPreKey, pre_key_name i) = None"
  shows "\<exists>e m'. prepare_pre_keys_in_tx X rnd c count m = (Inl e, m')"
proof (cases "unat (first_unuploaded_pre_key_id c) + count < 4294967296")
  case False
  then show ?thesis by (intro prepare_too_far) simp
next
  case True
  let ?f = "first_unuploaded_pre_key_id c" and ?n = "next_pre_key_id c"
  let ?e = "?f + word_of_nat count"
  let ?m1 = "generated_keys X rnd c ?e m"
  have le: "?f \<le> ?n" using i by (meson order.trans less_imp_le)
  note q = requested_range [OF count(1) True] and r = remaining_range [OF le count(1) True]
  have gen: "(if 0 < saturating_sub_u32 (word_of_nat count) (?n - ?f)
         then tx_for_each (\<lambda>i. write_pre_key_to_tx i (generate_key_pair X (rnd i)))
                (range_inclusive_u32 ?n (?e - 1))
         else tx_return ()) m = (Inr (), ?m1)"
    using q(6) r(2) range_u32_empty [of ?e ?n]
    by (auto simp: tx_for_each_write_pre_keys tx_simps generated_keys_def
        range_inclusive_u32_Suc not_less)
  have "i \<in> set (range_u32 ?f ?e)"
    using i(1) count(2) q(2) by (simp add: set_range_u32 word_less_nat_alt)
  moreover have "?m1 (NsPreKey, pre_key_name i) = None"
    using gone i(2) by (simp add: generated_keys_def write_pre_keys_other set_range_u32 not_le)
  ultimately obtain err where read: "tx_collect (\<lambda>i. tx_bind (read_pre_key_from_tx i) (\<lambda>pair.
      tx_return \<lparr>st_key_id = i, st_key_pair = pair\<rparr>)) (range_u32 ?f ?e) ?m1 = (Inl err, ?m1)"
    using tx_collect_missing by blast
  have "u32_try_from count = Some (word_of_nat count)"
    using True by (simp add: u32_try_from_def)
  then show ?thesis
    using le q(1) r(1) read gen
    by (simp add: prepare_pre_keys_in_tx_def tx_simps Let_def not_less tx_bind_def)
qed

text \<open>
  C37: an upload never skips a key. If a key of an unconfirmed id is missing from the store, every
  upload that reaches the id fails and leaves the store as it is. No shorter or patched list is
  sent, and the counters do not move past the id.
\<close>

theorem pre_key_missing_blocks_upload:
  assumes "\<not> poisoned st" and "load_credentials st = Inr (Some c)"
    and "first_unuploaded_pre_key_id c \<le> i" and "i < next_pre_key_id c"
    and "entries st (NsPreKey, pre_key_name i) = None"
    and "unat i < unat (first_unuploaded_pre_key_id c) + count" and "0 < count"
  shows "\<exists>e. prepare_pre_key_upload X rnd st c0 count tag = (Inl e, st)"
proof -
  obtain e m where "prepare_pre_keys_in_tx X rnd c count (entries st) = (Inl e, m)"
    using prepare_missing [OF assms(3,4,7,6), of "entries st"] assms(5) by blast
  then show ?thesis
    using assms(1,7) by (simp add: prepare_pre_key_upload_def memory_transaction_def with_entries_def
        commit_on_ok_def tx_bind_def read_stored_credentials [OF assms(1,2)])
qed

section \<open>Sample runs\<close>

definition sample_rnd :: "u32 \<Rightarrow> bytes" where
  "sample_rnd i = replicate 32 (ucast i)"

lemma sample_store:
  obtains c st where "load_or_init_credentials toy sample_randomness memory_new =
      (Inr \<lparr>cl_credentials = c, cl_initialized = True\<rparr>, st)" "\<not> poisoned st"
    "load_credentials st = Inr (Some c)" "pre_keys_ok (entries st) c"
    "first_unuploaded_pre_key_id c = 1" "unat (sp_key_id (signed_pre_key c)) < 16777216"
  using started_store [OF toy_ok sample_randomness_ok] by auto

theorem pre_key_upload_witness:
  "\<exists>st c u st'. prepare_pre_key_upload toy sample_rnd st c 3 ''t1'' = (Inr u, st') \<and>
    map unat (pu_pre_key_ids u) = [1, 2, 3]"
proof -
  obtain c st where s: "\<not> poisoned st" "load_credentials st = Inr (Some c)" "pre_keys_ok (entries st) c"
      "unat (sp_key_id (signed_pre_key c)) < 16777216" "first_unuploaded_pre_key_id c = 1"
    by (rule sample_store)
  have rnd: "\<forall>i. length (sample_rnd i) = 32" by (simp add: sample_rnd_def)
  have "unat (first_unuploaded_pre_key_id c) + 3 \<le> 16777216" by (simp add: s(5))
  with pre_key_upload [OF toy_ok rnd s(1-4) _ this, of c "''t1''"]
  obtain u st' where u: "prepare_pre_key_upload toy sample_rnd st c 3 ''t1'' = (Inr u, st')"
    "map unat (pu_pre_key_ids u) = [1..<1 + 3]"
    unfolding s(5) by auto
  have "[1..<1 + 3] = [1, 2, 3 :: nat]" by code_simp
  with u have "prepare_pre_key_upload toy sample_rnd st c 3 ''t1'' = (Inr u, st') \<and>
      map unat (pu_pre_key_ids u) = [1, 2, 3]" by (simp only: simp_thms)
  then show ?thesis by (intro exI)
qed

theorem pre_key_upload_retry_witness:
  "\<exists>st c u st'. prepare_pre_key_upload toy sample_rnd st c 3 ''t1'' = (Inr u, st') \<and>
    prepare_pre_key_upload toy (\<lambda>i. replicate 32 9) st' c 3 ''t1'' = (Inr u, st')"
proof -
  obtain c st where s: "\<not> poisoned st" "load_credentials st = Inr (Some c)" "pre_keys_ok (entries st) c"
      "unat (sp_key_id (signed_pre_key c)) < 16777216" "first_unuploaded_pre_key_id c = 1"
    by (rule sample_store)
  have rnd: "\<forall>i. length (sample_rnd i) = 32" by (simp add: sample_rnd_def)
  have "unat (first_unuploaded_pre_key_id c) + 3 \<le> 16777216" by (simp add: s(5))
  from pre_key_upload_retry [OF toy_ok rnd s(1-4) _ this, of "\<lambda>i. replicate 32 9" c "''t1''" c] show ?thesis
    by auto
qed

theorem pre_key_ids_never_reused_witness:
  "\<exists>st c u st1 d st2 u' st3. prepare_pre_key_upload toy sample_rnd st c 2 ''t1'' = (Inr u, st1) \<and>
    confirm_pre_key_upload st1 c (pu_pre_key_ids u) = (Inr d, st2) \<and>
    prepare_pre_key_upload toy sample_rnd st2 c 4 ''t2'' = (Inr u', st3) \<and>
    (\<forall>i\<in>set (pu_pre_key_ids u). \<forall>j\<in>set (pu_pre_key_ids u'). i < j)"
proof -
  obtain c st where s: "\<not> poisoned st" "load_credentials st = Inr (Some c)" "pre_keys_ok (entries st) c"
      "unat (sp_key_id (signed_pre_key c)) < 16777216" "first_unuploaded_pre_key_id c = 1"
    by (rule sample_store)
  have rnd: "\<forall>i. length (sample_rnd i) = 32" by (simp add: sample_rnd_def)
  have "unat (first_unuploaded_pre_key_id c) + 2 + 4 \<le> 16777216" by (simp add: s(5))
  from pre_key_ids_never_reused [OF toy_ok rnd s(1-4) _ _ rnd this, of c "''t1''" "''t2''"] show ?thesis
    by fastforce
qed

theorem pre_key_counters_sound_witness:
  "\<exists>st c d. pre_key_life toy st \<and> load_credentials st = Inr (Some c) \<and>
    first_unuploaded_pre_key_id c \<le> next_pre_key_id c"
proof -
  obtain c st where s: "load_or_init_credentials toy sample_randomness memory_new =
      (Inr \<lparr>cl_credentials = c, cl_initialized = True\<rparr>, st)"
    by (rule sample_store)
  have rnd: "\<forall>i. length (sample_rnd i) = 32" by (simp add: sample_rnd_def)
  have "pre_key_life toy st" by (rule pre_key_life.start [OF sample_randomness_ok s])
  then have "pre_key_life toy (snd (prepare_pre_key_upload toy sample_rnd st c 5 ''t''))"
    by (rule pre_key_life.prepare [OF _ rnd prod.collapse [symmetric]])
  with pre_key_counters_sound [OF toy_ok this] show ?thesis by blast
qed

theorem pre_key_missing_blocks_upload_witness:
  "\<exists>st c e. prepare_pre_key_upload toy sample_rnd st c 5 ''t2'' = (Inl e, st)"
proof -
  obtain c st where s: "\<not> poisoned st" "load_credentials st = Inr (Some c)" "pre_keys_ok (entries st) c"
      "unat (sp_key_id (signed_pre_key c)) < 16777216" "first_unuploaded_pre_key_id c = 1"
    by (rule sample_store)
  have rnd: "\<forall>i. length (sample_rnd i) = 32" by (simp add: sample_rnd_def)
  have bound: "unat (first_unuploaded_pre_key_id c) + 2 \<le> 16777216" by (simp add: s(5))
  let ?e = "first_unuploaded_pre_key_id c + word_of_nat 2" let ?c = "prepared_credentials c ?e"
  have "\<exists>st1. load_credentials st1 = Inr (Some ?c) \<and> \<not> poisoned st1"
    by (rule prepare_upload_step [OF toy_ok rnd s(1-4) _ bound, where ?c0.0 = c and tag = "''t''"])
      (simp, rule exI, rule conjI, assumption, simp add: s(1))
  then obtain st1 where st1: "\<not> poisoned st1" "load_credentials st1 = Inr (Some ?c)" by blast
  let ?st2 = "snd (memory_delete st1 NsPreKey (pre_key_name 2))"
  have st2: "?st2 = st1\<lparr>entries := (entries st1)((NsPreKey, pre_key_name 2) := None)\<rparr>"
    using st1(1) by (simp add: memory_delete_def with_entries_def tx_simps)
  have "load_credentials ?st2 = Inr (Some ?c)"
    using st1(2) load_credentials_cong [of ?st2 st1] by (simp add: st2)
  moreover have "first_unuploaded_pre_key_id ?c \<le> 2" "2 < next_pre_key_id ?c"
    "unat (2 :: u32) < unat (first_unuploaded_pre_key_id ?c) + 5"
    by (simp_all add: prepared_credentials_def s(5) less_max_iff_disj)
  ultimately show ?thesis
    using pre_key_missing_blocks_upload [of ?st2 ?c 2 5 toy sample_rnd c "''t2''"] st1(1)
    by (auto simp: st2)
qed

end
