(* ===== verification/SignalStore.thy ===== *)
theory SignalStore
  imports PreKeys SignalSession SenderMessage
begin

text \<open>
  \<open>SignalProviderStateStore\<close> of \<^verbatim>\<open>crates/wa-core/src/signal.rs\<close>: the sessions, identities, sender
  keys and pre-keys of the Signal provider as records of the key-value store. An operation is a
  function of the store that returns its result and the store it leaves. The locks that
  serialise the operations on one record are not modelled: every operation here is one
  transaction.
\<close>

section \<open>Transactions that return a result of their own\<close>

text \<open>
  A body of type \<open>StoreResult<CoreResult<T>>\<close>: \<open>return Ok(Err(err))\<close> ends it with an error but
  commits what was written, so that the model keeps the two levels apart.
\<close>

definition signal_transaction ::
  "MemoryAuthStore \<Rightarrow> (store_map, 'a core_result) tx \<Rightarrow> 'a core_result \<times> MemoryAuthStore" where
  "signal_transaction st body = (case memory_transaction st body of
     (Inl e, st') \<Rightarrow> (Err (StoreErr e), st') | (Inr r, st') \<Rightarrow> (r, st'))"

definition plain_transaction ::
  "MemoryAuthStore \<Rightarrow> (store_map, 'a) tx \<Rightarrow> 'a core_result \<times> MemoryAuthStore" where
  "plain_transaction st body = (case memory_transaction st body of (r, st') \<Rightarrow> (map_err StoreErr r, st'))"

text \<open>\<open>match r { Ok(x) => \<dots>, Err(err) => return Ok(Err(err)) }\<close>\<close>

definition or_return ::
  "'a core_result \<Rightarrow> ('a \<Rightarrow> (store_map, 'b core_result) tx) \<Rightarrow> (store_map, 'b core_result) tx" where
  "or_return r f = (case r of Inl e \<Rightarrow> tx_return (Err e) | Inr x \<Rightarrow> f x)"

text \<open>An operation on a JID works on the record under its address.\<close>

definition at_address ::
  "MemoryAuthStore \<Rightarrow> string \<Rightarrow> (string \<Rightarrow> 'a core_result \<times> MemoryAuthStore) \<Rightarrow>
     'a core_result \<times> MemoryAuthStore" where
  "at_address st jid f = (case signal_protocol_address jid of
     Inl e \<Rightarrow> (Err e, st) | Inr a \<Rightarrow> f (address_string a))"

definition checked :: "unit core_result \<Rightarrow> MemoryAuthStore \<Rightarrow> ('a core_result \<times> MemoryAuthStore) \<Rightarrow>
     'a core_result \<times> MemoryAuthStore" where
  "checked r st k = (case r of Inl e \<Rightarrow> (Err e, st) | Inr _ \<Rightarrow> k)"

section \<open>Kinds of records\<close>

datatype SignalProviderRecordKind =
  KindIdentity | KindPreKey | KindSenderKey | KindSenderKeyMemory | KindSession | KindSignedPreKey

fun record_namespace :: "SignalProviderRecordKind \<Rightarrow> KeyNamespace" where
  "record_namespace KindIdentity = NsSignalProviderIdentity"
| "record_namespace KindPreKey = NsSignalProviderPreKey"
| "record_namespace KindSenderKey = NsSignalProviderSenderKey"
| "record_namespace KindSenderKeyMemory = NsSignalProviderSenderKeyMemory"
| "record_namespace KindSession = NsSignalProviderSession"
| "record_namespace KindSignedPreKey = NsSignalProviderSignedPreKey"

definition validate_provider_record_key :: "string \<Rightarrow> unit core_result" where
  "validate_provider_record_key key =
     (if key = [] then Err (Protocol ''signal provider record key must not be empty'') else Ok ())"

definition validate_provider_record_value :: "bytes \<Rightarrow> unit core_result" where
  "validate_provider_record_value val =
     (if val = [] then Err (Protocol ''signal provider record value must not be empty'') else Ok ())"

section \<open>Checks of sessions against identities\<close>

definition identity_changed :: "string \<Rightarrow> CoreError" where
  "identity_changed address = Protocol (''Signal provider identity changed for '' @ address)"

definition validate_provider_identity_transition_in_tx ::
  "string \<Rightarrow> bytes \<Rightarrow> (store_map, unit core_result) tx" where
  "validate_provider_identity_transition_in_tx address identity_record =
     tx_bind (mem_get NsSignalProviderIdentity address) (\<lambda>existing.
       case existing of
         None \<Rightarrow> tx_return (Ok ())
       | Some existing \<Rightarrow>
           if existing = identity_record then tx_return (Ok ())
           else (case (normalize_signal_public_key existing, normalize_signal_public_key identity_record) of
               (Inr existing, Inr next) \<Rightarrow>
                 if existing \<noteq> next then tx_return (Err (identity_changed address)) else tx_return (Ok ())
             | _ \<Rightarrow> tx_return (Err (identity_changed address))))"

definition validate_decodable_provider_session_identity ::
  "ext \<Rightarrow> bytes \<Rightarrow> bytes \<Rightarrow> unit core_result" where
  "validate_decodable_provider_session_identity X session_record identity_record =
     (case decode_signal_provider_session_record X session_record of
        Inl _ \<Rightarrow> Ok ()
      | Inr r \<Rightarrow> and_then (normalize_signal_public_key identity_record) (\<lambda>identity.
          if identity \<noteq> sr_remote_identity_key r
          then Err (Protocol ''provider session identity mismatch'') else Ok ()))"

definition validate_provider_session_identity_in_tx ::
  "string \<Rightarrow> SignalProviderSessionRecord \<Rightarrow> (store_map, unit core_result) tx" where
  "validate_provider_session_identity_in_tx address r =
     tx_bind (mem_get NsSignalProviderIdentity address) (\<lambda>identity.
       case identity of
         None \<Rightarrow> tx_return (Err (Protocol ''no provider identity''))
       | Some identity \<Rightarrow>
           or_return (normalize_signal_public_key identity) (\<lambda>identity.
             if identity \<noteq> sr_remote_identity_key r
             then tx_return (Err (Protocol ''provider identity mismatch'')) else tx_return (Ok ())))"

section \<open>Local keys\<close>

definition local_key_pair_public_key :: "KeyPair \<Rightarrow> bytes" where
  "local_key_pair_public_key key_pair = prefixed_signal_public_key (kp_public key_pair)"

definition signal_local_key_material :: "AuthCredentials \<Rightarrow> SignalLocalKeyMaterial" where
  "signal_local_key_material c =
     \<lparr>lk_registration_id = registration_id c,
      lk_identity = \<lparr>li_key_pair = signed_identity_key c,
        li_public_key = local_key_pair_public_key (signed_identity_key c)\<rparr>,
      lk_signed_pre_key = \<lparr>ls_key_id = sp_key_id (signed_pre_key c),
        ls_key_pair = sp_key_pair (signed_pre_key c),
        ls_public_key = local_key_pair_public_key (sp_key_pair (signed_pre_key c)),
        ls_signature = sp_signature (signed_pre_key c)\<rparr>\<rparr>"

definition signal_local_pre_key :: "u32 \<Rightarrow> KeyPair \<Rightarrow> SignalLocalPreKey" where
  "signal_local_pre_key key_id key_pair =
     \<lparr>lp_key_id = key_id, lp_key_pair = key_pair, lp_public_key = local_key_pair_public_key key_pair\<rparr>"

text \<open>Its result is a \<open>CoreResult\<close>: a failure of the store is an error of the caller's result.\<close>

definition local_signal_identity_public_key_from_tx :: "(store_map, bytes core_result) tx" where
  "local_signal_identity_public_key_from_tx m = (case read_credentials_from_tx m of
     (Inl e, m') \<Rightarrow> (Ok (Err (StoreErr e)), m')
   | (Inr None, m') \<Rightarrow>
       (Ok (Err (Protocol ''missing local Signal credentials for 1:1 message authentication'')), m')
   | (Inr (Some c), m') \<Rightarrow> (Ok (Ok (local_key_pair_public_key (signed_identity_key c))), m'))"

section \<open>Raw records\<close>

definition load_record ::
  "MemoryAuthStore \<Rightarrow> SignalProviderRecordKind \<Rightarrow> string \<Rightarrow> bytes option core_result" where
  "load_record st kind key =
     and_then (validate_provider_record_key key) (\<lambda>_.
     map_err StoreErr (store_get st (record_namespace kind) key))"

text \<open>The two checked writes, which several operations share.\<close>

definition set_session_in_tx :: "ext \<Rightarrow> string \<Rightarrow> bytes \<Rightarrow> (store_map, unit core_result) tx" where
  "set_session_in_tx X key session =
     tx_bind (mem_get NsSignalProviderIdentity key) (\<lambda>identity.
     or_return (case identity of None \<Rightarrow> Ok ()
         | Some identity \<Rightarrow> validate_decodable_provider_session_identity X session identity) (\<lambda>_.
     tx_bind (mem_set NsSignalProviderSession key session) (\<lambda>_. tx_return (Ok ()))))"

definition set_identity_in_tx :: "ext \<Rightarrow> string \<Rightarrow> bytes \<Rightarrow> (store_map, unit core_result) tx" where
  "set_identity_in_tx X key identity =
     tx_bind (validate_provider_identity_transition_in_tx key identity) (\<lambda>r. or_return r (\<lambda>_.
     tx_bind (mem_get NsSignalProviderSession key) (\<lambda>session.
     or_return (case session of None \<Rightarrow> Ok ()
         | Some session \<Rightarrow> validate_decodable_provider_session_identity X session identity) (\<lambda>_.
     tx_bind (mem_set NsSignalProviderIdentity key identity) (\<lambda>_. tx_return (Ok ()))))))"

definition store_record ::
  "ext \<Rightarrow> MemoryAuthStore \<Rightarrow> SignalProviderRecordKind \<Rightarrow> string \<Rightarrow> bytes \<Rightarrow> unit core_result \<times> MemoryAuthStore" where
  "store_record X st kind key val =
     checked (validate_provider_record_key key) st (checked (validate_provider_record_value val) st
       (if kind = KindSession then signal_transaction st (set_session_in_tx X key val)
        else if kind = KindIdentity then signal_transaction st (set_identity_in_tx X key val)
        else (case memory_set st (record_namespace kind) key val of
          (r, st') \<Rightarrow> (map_err StoreErr r, st'))))"

definition delete_provider_identity_record_in_tx :: "ext \<Rightarrow> string \<Rightarrow> (store_map, bool) tx" where
  "delete_provider_identity_record_in_tx X key =
     tx_bind (mem_get NsSignalProviderIdentity key) (\<lambda>identity.
     if identity = None then tx_return False
     else
       tx_bind (mem_delete NsSignalProviderIdentity key) (\<lambda>_.
       tx_bind (mem_get NsSignalProviderSession key) (\<lambda>session.
       tx_bind (case session of None \<Rightarrow> tx_return ()
           | Some s \<Rightarrow> if is_ok (decode_signal_provider_session_record X s)
               then mem_delete NsSignalProviderSession key else tx_return ()) (\<lambda>_.
       tx_return True))))"

definition delete_provider_session_record_in_tx :: "ext \<Rightarrow> string \<Rightarrow> (store_map, bool) tx" where
  "delete_provider_session_record_in_tx X key =
     tx_bind (mem_get NsSignalProviderSession key) (\<lambda>session.
       case session of
         None \<Rightarrow> tx_return False
       | Some s \<Rightarrow>
           tx_bind (mem_delete NsSignalProviderSession key) (\<lambda>_.
           tx_bind (if is_ok (decode_signal_provider_session_record X s)
             then mem_delete NsSignalProviderIdentity key else tx_return ()) (\<lambda>_.
           tx_return True)))"

definition delete_provider_record ::
  "MemoryAuthStore \<Rightarrow> KeyNamespace \<Rightarrow> string \<Rightarrow> bool core_result \<times> MemoryAuthStore" where
  "delete_provider_record st ns key = (case store_get st ns key of
     Inl e \<Rightarrow> (Err (StoreErr e), st)
   | Inr existed \<Rightarrow> (case memory_delete st ns key of
       (Inl e, st') \<Rightarrow> (Err (StoreErr e), st') | (Inr _, st') \<Rightarrow> (Ok (existed \<noteq> None), st')))"

definition delete_record ::
  "ext \<Rightarrow> MemoryAuthStore \<Rightarrow> SignalProviderRecordKind \<Rightarrow> string \<Rightarrow> bool core_result \<times> MemoryAuthStore" where
  "delete_record X st kind key =
     checked (validate_provider_record_key key) st
       (if kind = KindSession then plain_transaction st (delete_provider_session_record_in_tx X key)
        else if kind = KindIdentity then plain_transaction st (delete_provider_identity_record_in_tx X key)
        else delete_provider_record st (record_namespace kind) key)"

end
