(* ===== verification/SignalStoreOps.thy ===== *)
theory SignalStoreOps
  imports SignalStore
begin

text \<open>
  The operations of \<open>SignalProviderStateStore\<close> on sessions, identities, sender keys and local keys,
  each one transaction (\<^verbatim>\<open>crates/wa-core/src/signal.rs\<close>).
\<close>

section \<open>The text of an error\<close>

fun store_error_text :: "StoreError \<Rightarrow> string" where
  "store_error_text (Sqlite e) = ''sqlite error: '' @ e"
| "store_error_text (Join e) = ''store task failed: '' @ e"
| "store_error_text MissingParent = ''store path has no parent directory''"
| "store_error_text (InvalidData e) = ''invalid store data: '' @ e"

fun encode_error_text :: "BinaryEncodeError \<Rightarrow> string" where
  "encode_error_text EmptyTag = ''node tag cannot be empty''"
| "encode_error_text (StringTooLarge n) = ''string too large to encode: '' @ show_nat n"
| "encode_error_text (ListTooLarge n) = ''list too large to encode: '' @ show_nat n"
| "encode_error_text (InvalidNibble c) = ''invalid nibble character: '' @ [c]"
| "encode_error_text (InvalidHex c) = ''invalid hex character: '' @ [c]"

fun decode_error_text :: "BinaryDecodeError \<Rightarrow> string" where
  "decode_error_text EndOfStream = ''end of stream''"
| "decode_error_text (InvalidListTag b) = ''invalid list tag: '' @ show_nat (unat b)"
| "decode_error_text InvalidNode = ''invalid node''"
| "decode_error_text (InvalidStringTag b) = ''invalid string tag: '' @ show_nat (unat b)"
| "decode_error_text InvalidPackedByte = ''invalid packed byte''"
| "decode_error_text InvalidJidPair = ''invalid jid pair''"
| "decode_error_text InvalidUtf8 = ''invalid utf-8''"
| "decode_error_text (Decompression e) = ''decompression failed''"

fun core_error_text :: "CoreError \<Rightarrow> string" where
  "core_error_text (StoreErr e) = ''store error: '' @ store_error_text e"
| "core_error_text (BinaryDecode e) = ''binary decode error: '' @ decode_error_text e"
| "core_error_text (BinaryEncode e) = ''binary encode error: '' @ encode_error_text e"
| "core_error_text (ProtobufDecode e) = ''protobuf decode error: '' @ e"
| "core_error_text ConnectionClosed = ''connection is closed''"
| "core_error_text (Io e) = ''io error: '' @ e"
| "core_error_text (DuplicateQueryTag t) = ''duplicate query tag: '' @ t"
| "core_error_text TimedOut = ''operation timed out''"
| "core_error_text (Payload e) = ''payload error: '' @ e"
| "core_error_text (Protocol e) = ''protocol error: '' @ e"
| "core_error_text (Crypto e) = ''crypto error: '' @ crypto_error_text e"
| "core_error_text (Task e) = ''task failed: '' @ e"
| "core_error_text (Http e) = ''http error: '' @ e"
| "core_error_text (Noise e) = ''noise error: '' @ e"
| "core_error_text (WebSocket e) = ''websocket error: '' @ e"

section \<open>Sessions and identities\<close>

record SignalProviderSessionInfo =
  psi_address :: SignalAddress
  psi_base_key :: bytes
  psi_registration_id :: u32

record SignalSessionValidation =
  sv_exists :: bool
  sv_reason :: "string option"

definition load_session_record :: "MemoryAuthStore \<Rightarrow> string \<Rightarrow> bytes option core_result" where
  "load_session_record st jid =
     and_then (signal_protocol_address jid) (\<lambda>a. load_record st KindSession (address_string a))"

definition load_session_info ::
  "ext \<Rightarrow> MemoryAuthStore \<Rightarrow> string \<Rightarrow> SignalProviderSessionInfo option core_result \<times> MemoryAuthStore" where
  "load_session_info X st jid = (case signal_protocol_address jid of
     Inl e \<Rightarrow> (Err e, st)
   | Inr address \<Rightarrow>
       signal_transaction st
         (tx_bind (mem_get NsSignalProviderSession (address_string address)) (\<lambda>stored.
         case Option.bind stored (\<lambda>s. ok (decode_signal_provider_session_record X s)) of
           None \<Rightarrow> tx_return (Ok None)
         | Some r \<Rightarrow>
             tx_bind (mem_get NsSignalProviderIdentity (address_string address)) (\<lambda>identity.
             case Option.bind identity (\<lambda>i. ok (normalize_signal_public_key i)) of
               None \<Rightarrow> tx_return (Ok None)
             | Some identity \<Rightarrow>
                 if identity \<noteq> sr_remote_identity_key r then tx_return (Ok None)
                 else tx_return (Ok (Some
                   \<lparr>psi_address = address,
                    psi_base_key = prefixed_signal_public_key (kp_public (sr_local_ratchet_key_pair r)),
                    psi_registration_id = sr_remote_registration_id r\<rparr>))))))"

definition invalid_session :: "string \<Rightarrow> SignalSessionValidation" where
  "invalid_session reason = \<lparr>sv_exists = False, sv_reason = Some reason\<rparr>"

definition validate_session_record ::
  "ext \<Rightarrow> MemoryAuthStore \<Rightarrow> string \<Rightarrow> SignalSessionValidation core_result \<times> MemoryAuthStore" where
  "validate_session_record X st jid = at_address st jid (\<lambda>key.
     plain_transaction st
       (tx_bind (mem_get NsSignalProviderSession key) (\<lambda>stored.
       case stored of
         None \<Rightarrow> tx_return (invalid_session ''no provider session'')
       | Some s \<Rightarrow> (case decode_signal_provider_session_record X s of
           Inl e \<Rightarrow> tx_return (invalid_session (core_error_text e))
         | Inr r \<Rightarrow>
             tx_bind (mem_get NsSignalProviderIdentity key) (\<lambda>identity.
             case identity of
               None \<Rightarrow> tx_return (invalid_session ''no provider identity'')
             | Some i \<Rightarrow> (case normalize_signal_public_key i of
                 Inl e \<Rightarrow> tx_return (invalid_session (core_error_text e))
               | Inr identity \<Rightarrow>
                   if identity \<noteq> sr_remote_identity_key r
                   then tx_return (invalid_session ''provider identity mismatch'')
                   else tx_return \<lparr>sv_exists = True, sv_reason = None\<rparr>))))))"

definition store_session_record ::
  "ext \<Rightarrow> MemoryAuthStore \<Rightarrow> string \<Rightarrow> bytes \<Rightarrow> unit core_result \<times> MemoryAuthStore" where
  "store_session_record X st jid val = at_address st jid (\<lambda>key.
     checked (validate_provider_record_value val) st
       (signal_transaction st (set_session_in_tx X key val)))"

text \<open>\<open>rnd\<close> is the private ratchet key drawn when a new sending chain starts.\<close>

definition encrypt_existing_session_record_message ::
  "ext \<Rightarrow> bytes \<Rightarrow> MemoryAuthStore \<Rightarrow> string \<Rightarrow> bytes \<Rightarrow>
     SignalProviderSessionEncryption option core_result \<times> MemoryAuthStore" where
  "encrypt_existing_session_record_message X rnd st jid plaintext = at_address st jid (\<lambda>address.
     signal_transaction st
       (tx_bind (mem_get NsSignalProviderSession address) (\<lambda>stored.
       case stored of
         None \<Rightarrow> tx_return (Ok None)
       | Some s \<Rightarrow> (case decode_signal_provider_session_record X s of
           Inl _ \<Rightarrow> tx_return (Ok None)
         | Inr decoded \<Rightarrow>
             tx_bind (validate_provider_session_identity_in_tx address decoded) (\<lambda>v.
             case v of
               Inl e \<Rightarrow> if e = Protocol ''no provider identity'' then tx_return (Ok None)
                 else tx_return (Err e)
             | Inr _ \<Rightarrow>
                 tx_bind local_signal_identity_public_key_from_tx (\<lambda>local.
                 or_return local (\<lambda>local_identity_pub.
                 or_return (encrypt_signal_provider_session_record_message X rnd s plaintext
                   local_identity_pub) (\<lambda>encrypted.
                 tx_bind (mem_set NsSignalProviderSession address (se_record encrypted)) (\<lambda>_.
                 tx_return (Ok (Some encrypted)))))))))))"

definition decrypt_session_record_message ::
  "ext \<Rightarrow> MemoryAuthStore \<Rightarrow> string \<Rightarrow> bytes \<Rightarrow>
     SignalProviderSessionDecryption core_result \<times> MemoryAuthStore" where
  "decrypt_session_record_message X st jid message = at_address st jid (\<lambda>address.
     signal_transaction st
       (tx_bind (mem_get NsSignalProviderSession address) (\<lambda>stored.
       case stored of
         None \<Rightarrow> tx_return (Err (Protocol (''missing Signal provider session for sender: '' @ jid)))
       | Some s \<Rightarrow>
           or_return (decode_signal_provider_session_record X s) (\<lambda>decoded.
           tx_bind (validate_provider_session_identity_in_tx address decoded) (\<lambda>v. or_return v (\<lambda>_.
           tx_bind local_signal_identity_public_key_from_tx (\<lambda>local.
           or_return local (\<lambda>local_identity_pub.
           or_return (decrypt_signal_provider_session_record_message X s message
             local_identity_pub) (\<lambda>decrypted.
           tx_bind (mem_set NsSignalProviderSession address (sd_record decrypted)) (\<lambda>_.
           tx_return (Ok decrypted)))))))))))"

definition delete_session_record ::
  "ext \<Rightarrow> MemoryAuthStore \<Rightarrow> string \<Rightarrow> bool core_result \<times> MemoryAuthStore" where
  "delete_session_record X st jid = at_address st jid (\<lambda>key. delete_record X st KindSession key)"

definition store_session_and_identity_records ::
  "ext \<Rightarrow> MemoryAuthStore \<Rightarrow> string \<Rightarrow> bytes \<Rightarrow> bytes \<Rightarrow> unit core_result \<times> MemoryAuthStore" where
  "store_session_and_identity_records X st jid session identity = at_address st jid (\<lambda>address.
     checked (validate_provider_record_value session) st
     (checked (validate_provider_record_value identity) st
       (signal_transaction st
         (tx_bind (validate_provider_identity_transition_in_tx address identity) (\<lambda>v. or_return v (\<lambda>_.
         or_return (validate_decodable_provider_session_identity X session identity) (\<lambda>_.
         tx_bind (mem_set NsSignalProviderSession address session) (\<lambda>_.
         tx_bind (mem_set NsSignalProviderIdentity address identity) (\<lambda>_.
         tx_return (Ok ()))))))))))"

definition store_inbound_pre_key_session_records ::
  "ext \<Rightarrow> MemoryAuthStore \<Rightarrow> string \<Rightarrow> u32 option \<Rightarrow> bytes \<Rightarrow> bytes \<Rightarrow> unit core_result \<times> MemoryAuthStore" where
  "store_inbound_pre_key_session_records X st jid pre_key_id session identity = at_address st jid (\<lambda>address.
     checked (validate_provider_record_value session) st
     (checked (validate_provider_record_value identity) st
       (case signal_transaction st
         (tx_bind (validate_provider_identity_transition_in_tx address identity) (\<lambda>v. or_return v (\<lambda>_.
         or_return (validate_decodable_provider_session_identity X session identity) (\<lambda>_.
         tx_bind (case pre_key_id of None \<Rightarrow> tx_return True
           | Some i \<Rightarrow> tx_bind (read_optional_pre_key_from_tx i) (\<lambda>key.
               if key = None then tx_return False
               else tx_bind (mem_delete NsPreKey (pre_key_name i)) (\<lambda>_. tx_return True))) (\<lambda>present.
         if \<not> present then tx_return (Ok False)
         else
           tx_bind (mem_set NsSignalProviderSession address session) (\<lambda>_.
           tx_bind (mem_set NsSignalProviderIdentity address identity) (\<lambda>_.
           tx_return (Ok True))))))))
        of (Inl e, st') \<Rightarrow> (Err e, st')
         | (Inr stored, st') \<Rightarrow>
             (if \<not> stored
              then Err (Protocol (''missing local Signal one-time pre-key '' @ pre_key_name (the pre_key_id)))
              else Ok (), st'))))"

definition load_identity_record :: "MemoryAuthStore \<Rightarrow> string \<Rightarrow> bytes option core_result" where
  "load_identity_record st jid =
     and_then (signal_protocol_address jid) (\<lambda>a. load_record st KindIdentity (address_string a))"

definition store_identity_record ::
  "ext \<Rightarrow> MemoryAuthStore \<Rightarrow> string \<Rightarrow> bytes \<Rightarrow> unit core_result \<times> MemoryAuthStore" where
  "store_identity_record X st jid val = at_address st jid (\<lambda>key.
     checked (validate_provider_record_value val) st
       (signal_transaction st (set_identity_in_tx X key val)))"

definition delete_identity_record ::
  "ext \<Rightarrow> MemoryAuthStore \<Rightarrow> string \<Rightarrow> bool core_result \<times> MemoryAuthStore" where
  "delete_identity_record X st jid = at_address st jid (\<lambda>key.
     plain_transaction st (delete_provider_identity_record_in_tx X key))"

section \<open>Pre-key records\<close>

definition load_pre_key_record :: "MemoryAuthStore \<Rightarrow> u32 \<Rightarrow> bytes option core_result" where
  "load_pre_key_record st key_id = load_record st KindPreKey (pre_key_name key_id)"

definition store_pre_key_record ::
  "ext \<Rightarrow> MemoryAuthStore \<Rightarrow> u32 \<Rightarrow> bytes \<Rightarrow> unit core_result \<times> MemoryAuthStore" where
  "store_pre_key_record X st key_id val = store_record X st KindPreKey (pre_key_name key_id) val"

definition delete_pre_key_record ::
  "ext \<Rightarrow> MemoryAuthStore \<Rightarrow> u32 \<Rightarrow> bool core_result \<times> MemoryAuthStore" where
  "delete_pre_key_record X st key_id = delete_record X st KindPreKey (pre_key_name key_id)"

definition load_signed_pre_key_record :: "MemoryAuthStore \<Rightarrow> u32 \<Rightarrow> bytes option core_result" where
  "load_signed_pre_key_record st key_id = load_record st KindSignedPreKey (pre_key_name key_id)"

definition store_signed_pre_key_record ::
  "ext \<Rightarrow> MemoryAuthStore \<Rightarrow> u32 \<Rightarrow> bytes \<Rightarrow> unit core_result \<times> MemoryAuthStore" where
  "store_signed_pre_key_record X st key_id val =
     store_record X st KindSignedPreKey (pre_key_name key_id) val"

definition delete_signed_pre_key_record ::
  "ext \<Rightarrow> MemoryAuthStore \<Rightarrow> u32 \<Rightarrow> bool core_result \<times> MemoryAuthStore" where
  "delete_signed_pre_key_record X st key_id = delete_record X st KindSignedPreKey (pre_key_name key_id)"

section \<open>Sender keys\<close>

definition load_sender_key_record :: "MemoryAuthStore \<Rightarrow> string \<Rightarrow> bytes option core_result" where
  "load_sender_key_record st key = load_record st KindSenderKey key"

definition store_sender_key_record ::
  "ext \<Rightarrow> MemoryAuthStore \<Rightarrow> string \<Rightarrow> bytes \<Rightarrow> unit core_result \<times> MemoryAuthStore" where
  "store_sender_key_record X st key val = store_record X st KindSenderKey key val"

definition process_sender_key_distribution_record ::
  "ext \<Rightarrow> MemoryAuthStore \<Rightarrow> string \<Rightarrow> SignalSenderKeyDistributionMessage \<Rightarrow>
     bytes core_result \<times> MemoryAuthStore" where
  "process_sender_key_distribution_record X st key distribution =
     checked (validate_provider_record_key key) st
       (signal_transaction st
         (tx_bind (mem_get NsSignalProviderSenderKey key) (\<lambda>existing.
         or_return (process_signal_sender_key_distribution_record X existing distribution) (\<lambda>updated.
         tx_bind (mem_set NsSignalProviderSenderKey key updated) (\<lambda>_. tx_return (Ok updated))))))"

text \<open>\<open>key_id\<close>, \<open>chain_key\<close> and \<open>signing_rnd\<close> are the random values of a sender key that is created.\<close>

definition load_or_create_sender_key_distribution_record ::
  "ext \<Rightarrow> u32 \<Rightarrow> bytes \<Rightarrow> bytes \<Rightarrow> MemoryAuthStore \<Rightarrow> string \<Rightarrow> string \<Rightarrow>
     SignalSenderKeyDistributionRecord core_result \<times> MemoryAuthStore" where
  "load_or_create_sender_key_distribution_record X key_id chain_key signing_rnd st author_jid group_jid =
     (case sender_key_store_key author_jid group_jid of
        Inl e \<Rightarrow> (Err e, st)
      | Inr key \<Rightarrow>
          signal_transaction st
            (tx_bind (mem_get NsSignalProviderSenderKey key) (\<lambda>stored.
            case Option.bind stored (\<lambda>s.
                ok (signal_sender_key_distribution_record_from_encoded X key s False)) of
              Some distribution \<Rightarrow> tx_return (Ok distribution)
            | None \<Rightarrow>
                or_return (create_signal_sender_key_distribution_record X key_id chain_key
                  signing_rnd key) (\<lambda>distribution.
                tx_bind (mem_set NsSignalProviderSenderKey (sdr_key distribution) (sdr_record distribution))
                  (\<lambda>_. tx_return (Ok distribution))))))"

definition encrypt_sender_key_record_message ::
  "ext \<Rightarrow> bytes \<Rightarrow> MemoryAuthStore \<Rightarrow> string \<Rightarrow> bytes \<Rightarrow>
     SignalSenderKeyEncryption core_result \<times> MemoryAuthStore" where
  "encrypt_sender_key_record_message X rnd st key plaintext =
     checked (validate_provider_record_key key) st
       (signal_transaction st
         (tx_bind (mem_get NsSignalProviderSenderKey key) (\<lambda>stored.
         case stored of
           None \<Rightarrow> tx_return (Err (Protocol ''missing Signal sender-key record''))
         | Some s \<Rightarrow>
             or_return (encrypt_signal_sender_key_record_message X rnd s plaintext) (\<lambda>encrypted.
             tx_bind (mem_set NsSignalProviderSenderKey key (ske_record encrypted)) (\<lambda>_.
             tx_return (Ok encrypted))))))"

definition decrypt_sender_key_record_message ::
  "ext \<Rightarrow> verifier \<Rightarrow> MemoryAuthStore \<Rightarrow> string \<Rightarrow> bytes \<Rightarrow>
     SignalSenderKeyDecryption core_result \<times> MemoryAuthStore" where
  "decrypt_sender_key_record_message X V st key message =
     checked (validate_provider_record_key key) st
       (signal_transaction st
         (tx_bind (mem_get NsSignalProviderSenderKey key) (\<lambda>stored.
         case stored of
           None \<Rightarrow> tx_return (Err (Protocol ''missing Signal sender-key record''))
         | Some s \<Rightarrow>
             or_return (decrypt_signal_sender_key_record_message X V s message) (\<lambda>decrypted.
             tx_bind (mem_set NsSignalProviderSenderKey key (skd_record decrypted)) (\<lambda>_.
             tx_return (Ok decrypted))))))"

definition starts_with :: "string \<Rightarrow> string \<Rightarrow> bool" where
  "starts_with s p \<longleftrightarrow> take (length p) s = p"

definition sender_key_decrypt_error_can_retry_distribution :: "CoreError \<Rightarrow> bool" where
  "sender_key_decrypt_error_can_retry_distribution e = (case e of
     Protocol message \<Rightarrow> message = ''invalid Signal sender-key message signature'' \<or>
       starts_with message ''Signal sender-key record missing state for key id ''
   | Crypto c \<Rightarrow> c = Decrypt
   | _ \<Rightarrow> False)"

definition decrypt_sender_key_record_message_with_distribution_retry ::
  "ext \<Rightarrow> verifier \<Rightarrow> MemoryAuthStore \<Rightarrow> string \<Rightarrow> bytes \<Rightarrow> SignalSenderKeyDistributionMessage \<Rightarrow>
     SignalSenderKeyDecryption core_result \<times> MemoryAuthStore" where
  "decrypt_sender_key_record_message_with_distribution_retry X V st key message distribution =
     (let write = (\<lambda>decrypted. tx_bind (mem_set NsSignalProviderSenderKey key (skd_record decrypted))
            (\<lambda>_. tx_return (Ok decrypted)));
          retry = (\<lambda>existing.
            or_return (process_signal_sender_key_distribution_record X existing distribution) (\<lambda>updated.
            or_return (decrypt_signal_sender_key_record_message X V updated message) write)) in
      checked (validate_provider_record_key key) st
        (signal_transaction st
          (tx_bind (mem_get NsSignalProviderSenderKey key) (\<lambda>existing.
          case existing of
            None \<Rightarrow> retry existing
          | Some s \<Rightarrow> (case decrypt_signal_sender_key_record_message X V s message of
              Inr decrypted \<Rightarrow> write decrypted
            | Inl e \<Rightarrow>
                if is_ok (decode_signal_sender_key_record X s) \<and>
                  \<not> sender_key_decrypt_error_can_retry_distribution e
                then tx_return (Err e) else retry existing)))))"

definition delete_sender_key_record ::
  "ext \<Rightarrow> MemoryAuthStore \<Rightarrow> string \<Rightarrow> bool core_result \<times> MemoryAuthStore" where
  "delete_sender_key_record X st key = delete_record X st KindSenderKey key"

definition load_sender_key_memory_record :: "MemoryAuthStore \<Rightarrow> string \<Rightarrow> bytes option core_result" where
  "load_sender_key_memory_record st key = load_record st KindSenderKeyMemory key"

definition store_sender_key_memory_record ::
  "ext \<Rightarrow> MemoryAuthStore \<Rightarrow> string \<Rightarrow> bytes \<Rightarrow> unit core_result \<times> MemoryAuthStore" where
  "store_sender_key_memory_record X st key val = store_record X st KindSenderKeyMemory key val"

definition delete_sender_key_memory_record ::
  "ext \<Rightarrow> MemoryAuthStore \<Rightarrow> string \<Rightarrow> bool core_result \<times> MemoryAuthStore" where
  "delete_sender_key_memory_record X st key = delete_record X st KindSenderKeyMemory key"

section \<open>Local keys\<close>

definition load_local_key_material ::
  "MemoryAuthStore \<Rightarrow> SignalLocalKeyMaterial option core_result \<times> MemoryAuthStore" where
  "load_local_key_material st =
     plain_transaction st (tx_bind read_credentials_from_tx (\<lambda>c.
       tx_return (map_option signal_local_key_material c)))"

definition load_local_pre_key ::
  "MemoryAuthStore \<Rightarrow> u32 \<Rightarrow> SignalLocalPreKey option core_result \<times> MemoryAuthStore" where
  "load_local_pre_key st key_id =
     plain_transaction st (tx_bind (read_optional_pre_key_from_tx key_id) (\<lambda>key.
       tx_return (map_option (signal_local_pre_key key_id) key)))"

definition consume_local_pre_key ::
  "MemoryAuthStore \<Rightarrow> u32 \<Rightarrow> SignalLocalPreKey option core_result \<times> MemoryAuthStore" where
  "consume_local_pre_key st key_id =
     plain_transaction st (tx_bind (read_optional_pre_key_from_tx key_id) (\<lambda>key.
       case key of
         None \<Rightarrow> tx_return None
       | Some key_pair \<Rightarrow>
           tx_bind (mem_delete NsPreKey (pre_key_name key_id)) (\<lambda>_.
           tx_return (Some (signal_local_pre_key key_id key_pair)))))"

end
