(* ===== verification/SignalStoreTrust.thy ===== *)
theory SignalStoreTrust
  imports SignalStoreOps SignalInvariant
begin

text \<open>
  The trust rules of the Signal store: a session never disagrees with the identity stored beside
  it, an identity that is stored does not silently become another key, and an operation that fails
  leaves the store as it is. One lemma per operation says what it may write; the properties follow
  from these.
\<close>

section \<open>What a store may turn into\<close>

text \<open>A session record and an identity record that may stand side by side.\<close>

definition pair_ok :: "ext \<Rightarrow> bytes option \<Rightarrow> bytes option \<Rightarrow> bool" where
  "pair_ok X session identity = (case (session, identity) of
     (Some s, Some i) \<Rightarrow> validate_decodable_provider_session_identity X s i = Inr ()
   | _ \<Rightarrow> True)"

definition provider_ok :: "ext \<Rightarrow> store_map \<Rightarrow> bool" where
  "provider_ok X m \<longleftrightarrow>
     (\<forall>a. pair_ok X (m (NsSignalProviderSession, a)) (m (NsSignalProviderIdentity, a)))"

text \<open>The key an identity record stands for, and the identity records that may follow one.\<close>

definition same_identity :: "bytes \<Rightarrow> bytes \<Rightarrow> bool" where
  "same_identity i j \<longleftrightarrow> i = j \<or> (\<exists>k. normalize_signal_public_key i = Inr k \<and>
     normalize_signal_public_key j = Inr k)"

definition identities_kept :: "store_map \<Rightarrow> store_map \<Rightarrow> bool" where
  "identities_kept m m' \<longleftrightarrow> (\<forall>a i j. m (NsSignalProviderIdentity, a) = Some i \<longrightarrow>
     m' (NsSignalProviderIdentity, a) = Some j \<longrightarrow> same_identity i j)"

definition trusted_step :: "ext \<Rightarrow> store_map \<Rightarrow> store_map \<Rightarrow> bool" where
  "trusted_step X m m' \<longleftrightarrow> (provider_ok X m \<longrightarrow> provider_ok X m') \<and> identities_kept m m'"

lemma same_identity_refl [simp]: "same_identity i i"
  by (simp add: same_identity_def)

lemma trusted_step_refl [simp]: "trusted_step X m m"
  by (simp add: trusted_step_def identities_kept_def)

text \<open>The five writes that keep the rules.\<close>

lemma trusted_other:
  assumes "\<And>a. m' (NsSignalProviderSession, a) = m (NsSignalProviderSession, a)"
    "\<And>a. m' (NsSignalProviderIdentity, a) = m (NsSignalProviderIdentity, a)"
  shows "trusted_step X m m'"
  using assms by (simp add: trusted_step_def provider_ok_def identities_kept_def)

lemma trusted_at:
  assumes "\<And>b. b \<noteq> a \<Longrightarrow> m' (NsSignalProviderSession, b) = m (NsSignalProviderSession, b) \<and>
      m' (NsSignalProviderIdentity, b) = m (NsSignalProviderIdentity, b)"
    and "pair_ok X (m (NsSignalProviderSession, a)) (m (NsSignalProviderIdentity, a)) \<Longrightarrow>
      pair_ok X (m' (NsSignalProviderSession, a)) (m' (NsSignalProviderIdentity, a))"
    and "\<And>i j. m (NsSignalProviderIdentity, a) = Some i \<Longrightarrow> m' (NsSignalProviderIdentity, a) = Some j \<Longrightarrow>
      same_identity i j"
  shows "trusted_step X m m'"
proof -
  have "identities_kept m m'"
    unfolding identities_kept_def
  proof (intro allI impI)
    fix b i j
    assume "m (NsSignalProviderIdentity, b) = Some i" "m' (NsSignalProviderIdentity, b) = Some j"
    then show "same_identity i j" using assms(1,3) by (cases "b = a") auto
  qed
  moreover have "provider_ok X m'" if "provider_ok X m"
    unfolding provider_ok_def
  proof
    fix b
    show "pair_ok X (m' (NsSignalProviderSession, b)) (m' (NsSignalProviderIdentity, b))"
      using that assms(1,2) by (cases "b = a") (auto simp: provider_ok_def)
  qed
  ultimately show ?thesis by (simp add: trusted_step_def)
qed

section \<open>Transactions\<close>

text \<open>
  A body that keeps the rules: when it ends with a result, the snapshot is one the store may turn
  into, and it is unchanged when that result is an error.
\<close>

definition trusted_body :: "ext \<Rightarrow> (store_map, 'a core_result) tx \<Rightarrow> bool" where
  "trusted_body X body \<longleftrightarrow> (\<forall>m r m'. body m = (Inr r, m') \<longrightarrow>
     trusted_step X m m' \<and> (\<not> is_ok r \<longrightarrow> m' = m))"

text \<open>What an operation does to the store: it succeeds with a trusted step, or changes nothing.\<close>

definition trusted_op :: "ext \<Rightarrow> MemoryAuthStore \<Rightarrow> 'a core_result \<times> MemoryAuthStore \<Rightarrow> bool" where
  "trusted_op X st out \<longleftrightarrow> poisoned (snd out) = poisoned st \<and>
     trusted_step X (entries st) (entries (snd out)) \<and> (\<not> is_ok (fst out) \<longrightarrow> snd out = st)"

lemma trusted_opI [intro]: "trusted_op X st (Inl e, st)" "trusted_op X st (Inr x, st)"
  by (simp_all add: trusted_op_def)

lemma signal_transaction_trusted:
  assumes "trusted_body X body"
  shows "trusted_op X st (signal_transaction st body)"
proof (cases "body (entries st)")
  case (Pair r m)
  then show ?thesis
  proof (cases r)
    case (Inr x)
    then show ?thesis using assms Pair
      by (auto simp: trusted_body_def trusted_op_def signal_transaction_def memory_transaction_def
          with_entries_def commit_on_ok_def)
  qed (simp add: trusted_op_def signal_transaction_def memory_transaction_def with_entries_def commit_on_ok_def)
qed

lemma plain_transaction_trusted:
  assumes "\<And>m r m'. body m = (Inr r, m') \<Longrightarrow> trusted_step X m m'"
  shows "trusted_op X st (plain_transaction st body)"
proof (cases "body (entries st)")
  case (Pair r m)
  then show ?thesis
  proof (cases r)
    case (Inr x)
    then show ?thesis using assms Pair
      by (auto simp: trusted_op_def plain_transaction_def memory_transaction_def
          with_entries_def commit_on_ok_def)
  qed (simp add: trusted_op_def plain_transaction_def memory_transaction_def with_entries_def commit_on_ok_def)
qed

lemma at_address_trusted: "(\<And>a. trusted_op X st (f a)) \<Longrightarrow> trusted_op X st (at_address st jid f)"
  by (auto simp: at_address_def split: sum.split)

lemma checked_trusted: "trusted_op X st k \<Longrightarrow> trusted_op X st (checked r st k)"
  by (auto simp: checked_def split: sum.split)

section \<open>Sessions and identities\<close>

lemma transition_Ok:
  "validate_provider_identity_transition_in_tx a i m = (Inr (Inr u), m') \<Longrightarrow>
     m' = m \<and> (\<forall>j. m (NsSignalProviderIdentity, a) = Some j \<longrightarrow> same_identity j i)"
  by (auto simp: validate_provider_identity_transition_in_tx_def same_identity_def tx_simps
      split: option.splits sum.splits if_splits)

lemma transition_reads:
  "\<exists>v. validate_provider_identity_transition_in_tx a i m = (Inr v, m)"
  by (auto simp: validate_provider_identity_transition_in_tx_def tx_simps
      split: option.splits sum.splits if_splits)

lemma session_identity_reads:
  "\<exists>v. validate_provider_session_identity_in_tx a r m = (Inr v, m)"
  by (auto simp: validate_provider_session_identity_in_tx_def or_return_def tx_simps
      split: option.splits sum.splits if_splits)

lemma session_identity_Ok:
  "validate_provider_session_identity_in_tx a r m = (Inr (Inr u), m') \<Longrightarrow>
     \<exists>i. m (NsSignalProviderIdentity, a) = Some i \<and>
       normalize_signal_public_key i = Inr (sr_remote_identity_key r)"
  by (auto simp: validate_provider_session_identity_in_tx_def or_return_def tx_simps
      split: option.splits sum.splits if_splits)

lemma set_session_trusted: "trusted_body X (set_session_in_tx X a s)"
  unfolding trusted_body_def set_session_in_tx_def
  by (auto simp: tx_simps or_return_def pair_ok_def split: option.splits sum.splits
      intro!: trusted_at [of a])

lemma set_identity_trusted: "trusted_body X (set_identity_in_tx X a i)"
proof -
  have "trusted_step X m m' \<and> (\<not> is_ok r \<longrightarrow> m' = m)"
    if run: "set_identity_in_tx X a i m = (Inr r, m')" for m r m'
  proof -
    obtain v where v: "validate_provider_identity_transition_in_tx a i m = (Inr v, m)"
      using transition_reads by blast
    show ?thesis
    proof (cases v)
      case (Inr u)
      note same = conjunct2 [OF transition_Ok [OF v [unfolded Inr]]]
      show ?thesis using run v Inr same
        by (auto simp: set_identity_in_tx_def tx_bind_def or_return_def tx_simps pair_ok_def is_ok_unit
            split: option.splits sum.splits intro!: trusted_at [of a])
    qed (use run v in \<open>auto simp: set_identity_in_tx_def tx_bind_def or_return_def tx_simps\<close>)
  qed
  then show ?thesis by (simp add: trusted_body_def)
qed

lemma delete_identity_trusted:
  "delete_provider_identity_record_in_tx X a m = (Inr r, m') \<Longrightarrow> trusted_step X m m'"
  by (auto simp: delete_provider_identity_record_in_tx_def tx_simps tx_bind_def pair_ok_def
      validate_decodable_provider_session_identity_def is_ok_def
      split: option.splits if_splits sum.splits intro!: trusted_at [of a])

lemma delete_session_trusted:
  "delete_provider_session_record_in_tx X a m = (Inr r, m') \<Longrightarrow> trusted_step X m m'"
  by (auto simp: delete_provider_session_record_in_tx_def tx_simps tx_bind_def pair_ok_def
      split: option.splits if_splits intro!: trusted_at [of a])

text \<open>Encrypting and decrypting keep the identity the session was made for.\<close>

lemma encrypted_identity:
  assumes X: "ext_ok X" and rnd: "length rnd = 32"
    and enc: "encrypt_signal_provider_session_record_message X rnd stored p lid = Inr e"
    and r: "decode_signal_provider_session_record X stored = Inr r"
  shows "\<exists>r'. decode_signal_provider_session_record X (se_record e) = Inr r' \<and>
    sr_remote_identity_key r' = sr_remote_identity_key r"
proof -
  obtain m bs r' where out: "encrypt_signal_provider_session_record_plaintext X rnd r p lid
      (sr_remote_identity_key r) = Inr (m, bs, r')"
    "encode_signal_provider_session_record X r' = Inr (se_record e)"
    using enc r by (auto simp: encrypt_signal_provider_session_record_message_def Let_def and_then_eq_Ok)
  note n = encrypt_normal [OF X decoded_record_ok [OF r] rnd out(1)]
  have "sr_remote_identity_key r' = sr_remote_identity_key r"
    using out(1) by (auto simp: encrypt_signal_provider_session_record_plaintext_def
        ensure_signal_provider_sending_chain_def Let_def and_then_eq_Ok split: if_splits)
  then show ?thesis using encoded_normal_decodes [OF out(2)] n by blast
qed

lemma decrypted_identity:
  assumes X: "ext_ok X"
    and dec: "decrypt_signal_provider_session_record_message X stored bs lid = Inr d"
    and r: "decode_signal_provider_session_record X stored = Inr r"
  shows "\<exists>r'. decode_signal_provider_session_record X (sd_record d) = Inr r' \<and>
    sr_remote_identity_key r' = sr_remote_identity_key r"
proof -
  obtain f p r' where out: "decrypt_signal_provider_session_record_ciphertext X r f
      (sr_remote_identity_key r) lid = Inr (p, r')"
    "encode_signal_provider_session_record X r' = Inr (sd_record d)"
    using dec r by (auto simp: decrypt_signal_provider_session_record_message_def Let_def and_then_eq_Ok)
  have ok: "record_ok X r" by (rule decoded_record_ok [OF r])
  then have len: "length (kp_public (sr_local_ratchet_key_pair r)) = 32" unfolding record_ok_def by blast
  note n = decrypt_normal [OF X ok out(1)]
  have "sr_remote_identity_key r' = sr_remote_identity_key r"
    using decrypt_parts [OF out(1)] by (auto dest!: receive_new_ratchet_parts)
  then show ?thesis using encoded_normal_decodes [OF out(2)] n len by auto
qed

lemma replaced_session_trusted:
  assumes s: "m (NsSignalProviderSession, a) = Some s" "decode_signal_provider_session_record X s = Inr r"
    and i: "m (NsSignalProviderIdentity, a) = Some i"
    "normalize_signal_public_key i = Inr (sr_remote_identity_key r)"
    and s': "decode_signal_provider_session_record X s' = Inr r'"
    "sr_remote_identity_key r' = sr_remote_identity_key r"
  shows "trusted_step X m (m((NsSignalProviderSession, a) \<mapsto> s'))"
  using assms
  by (intro trusted_at [of a])
    (auto simp: pair_ok_def validate_decodable_provider_session_identity_def)

lemma read_credentials_reads: "\<exists>r. read_credentials_from_tx m = (r, m)"
proof -
  have "\<exists>r. tx_reads read_credentials_from_tx (entries \<lparr>entries = m, poisoned = False\<rparr>) r"
    using read_credentials_pure [of "\<lparr>entries = m, poisoned = False\<rparr>"] by auto
  then show ?thesis by (simp add: tx_reads_def)
qed

lemma local_identity_reads: "\<exists>r. local_signal_identity_public_key_from_tx m = (Inr r, m)"
  using read_credentials_reads [of m]
  by (auto simp: local_signal_identity_public_key_from_tx_def split: sum.split option.split)

lemma encrypt_existing_trusted:
  assumes X: "ext_ok X" and rnd: "length rnd = 32"
  shows "trusted_op X st (encrypt_existing_session_record_message X rnd st jid p)"
  unfolding encrypt_existing_session_record_message_def
proof (intro at_address_trusted signal_transaction_trusted, unfold trusted_body_def, intro allI impI,
    goal_cases)
  case (1 a m out m')
  show ?case
  proof (cases "m (NsSignalProviderSession, a)")
    case (Some s)
    show ?thesis
    proof (cases "decode_signal_provider_session_record X s")
      case (Inr r)
      obtain v where v: "validate_provider_session_identity_in_tx a r m = (Inr v, m)"
        using session_identity_reads by blast
      obtain l where l: "local_signal_identity_public_key_from_tx m = (Inr l, m)"
        using local_identity_reads by blast
      show ?thesis
      proof (cases "\<exists>u lid e. v = Inr u \<and> l = Inr lid \<and>
          encrypt_signal_provider_session_record_message X rnd s p lid = Inr e")
        case True
        then obtain u lid e where e: "v = Inr u" "l = Inr lid"
          "encrypt_signal_provider_session_record_message X rnd s p lid = Inr e" by blast
        obtain i where i: "m (NsSignalProviderIdentity, a) = Some i"
          "normalize_signal_public_key i = Inr (sr_remote_identity_key r)"
          using session_identity_Ok [OF v [unfolded e(1)]] by blast
        obtain r' where "decode_signal_provider_session_record X (se_record e) = Inr r'"
          "sr_remote_identity_key r' = sr_remote_identity_key r"
          using encrypted_identity [OF X rnd e(3) Inr] by blast
        note step = replaced_session_trusted [OF Some Inr i this]
        show ?thesis using 1 Some Inr v l e step
          by (auto simp: tx_simps tx_bind_def or_return_def)
      qed (use 1 Some Inr v l in \<open>auto simp: tx_simps tx_bind_def or_return_def
          split: sum.splits if_splits\<close>)
    qed (use 1 Some in \<open>simp add: tx_simps\<close>)
  qed (use 1 in \<open>simp add: tx_simps\<close>)
qed

lemma decrypt_trusted:
  assumes X: "ext_ok X"
  shows "trusted_op X st (decrypt_session_record_message X st jid message)"
  unfolding decrypt_session_record_message_def
proof (intro at_address_trusted signal_transaction_trusted, unfold trusted_body_def, intro allI impI,
    goal_cases)
  case (1 a m out m')
  show ?case
  proof (cases "m (NsSignalProviderSession, a)")
    case (Some s)
    show ?thesis
    proof (cases "decode_signal_provider_session_record X s")
      case (Inr r)
      obtain v where v: "validate_provider_session_identity_in_tx a r m = (Inr v, m)"
        using session_identity_reads by blast
      obtain l where l: "local_signal_identity_public_key_from_tx m = (Inr l, m)"
        using local_identity_reads by blast
      show ?thesis
      proof (cases "\<exists>u lid d. v = Inr u \<and> l = Inr lid \<and>
          decrypt_signal_provider_session_record_message X s message lid = Inr d")
        case True
        then obtain u lid d where d: "v = Inr u" "l = Inr lid"
          "decrypt_signal_provider_session_record_message X s message lid = Inr d" by blast
        obtain i where i: "m (NsSignalProviderIdentity, a) = Some i"
          "normalize_signal_public_key i = Inr (sr_remote_identity_key r)"
          using session_identity_Ok [OF v [unfolded d(1)]] by blast
        obtain r' where "decode_signal_provider_session_record X (sd_record d) = Inr r'"
          "sr_remote_identity_key r' = sr_remote_identity_key r"
          using decrypted_identity [OF X d(3) Inr] by blast
        note step = replaced_session_trusted [OF Some Inr i this]
        have "out = Inr d" "m' = m((NsSignalProviderSession, a) \<mapsto> sd_record d)"
          using 1 Some Inr v l d by (simp_all add: tx_simps tx_bind_def or_return_def)
        then show ?thesis using step by simp
      qed (use 1 Some Inr v l in \<open>auto simp: tx_simps tx_bind_def or_return_def split: sum.splits\<close>)
    qed (use 1 Some in \<open>simp add: tx_simps or_return_def\<close>)
  qed (use 1 in \<open>simp add: tx_simps\<close>)
qed

lemma read_pre_key_reads: "\<exists>r. read_optional_pre_key_from_tx i m = (r, m)"
proof -
  have "\<exists>r. tx_reads (read_optional_pre_key_from_tx i) m r"
    unfolding read_optional_pre_key_from_tx_def by (rule exI, (rule tx_reads_intros tx_reads_get)+)
  then show ?thesis by (simp add: tx_reads_def)
qed

text \<open>Both records are written together: the identity may follow the old one, and the session fits it.\<close>

lemma both_records_trusted:
  assumes "\<forall>j. m (NsSignalProviderIdentity, a) = Some j \<longrightarrow> same_identity j i"
    and "validate_decodable_provider_session_identity X s i = Inr ()"
    and "\<And>b. m1 (NsSignalProviderSession, b) = m (NsSignalProviderSession, b)"
    "\<And>b. m1 (NsSignalProviderIdentity, b) = m (NsSignalProviderIdentity, b)"
  shows "trusted_step X m (m1((NsSignalProviderSession, a) \<mapsto> s, (NsSignalProviderIdentity, a) \<mapsto> i))"
  using assms by (intro trusted_at [of a]) (auto simp: pair_ok_def)

lemma store_pair_trusted:
  "trusted_op X st (store_session_and_identity_records X st jid s i)"
  unfolding store_session_and_identity_records_def
proof (intro at_address_trusted checked_trusted signal_transaction_trusted, unfold trusted_body_def,
    intro allI impI, goal_cases)
  case (1 a m out m')
  obtain v where v: "validate_provider_identity_transition_in_tx a i m = (Inr v, m)"
    using transition_reads by blast
  show ?case
  proof (cases "\<exists>u w. v = Inr u \<and> validate_decodable_provider_session_identity X s i = Inr w")
    case True
    then obtain u where u: "v = Inr u" "validate_decodable_provider_session_identity X s i = Inr ()" by auto
    note same = conjunct2 [OF transition_Ok [OF v [unfolded u(1)]]]
    show ?thesis using 1 v u both_records_trusted [of m a i X s m, OF same u(2)]
      by (auto simp: tx_bind_def or_return_def tx_simps is_ok_iff)
  qed (use 1 v in \<open>auto simp: tx_bind_def or_return_def tx_simps split: sum.splits\<close>)
qed

lemma take_pre_key:
  "\<exists>out m1. (case pk of None \<Rightarrow> tx_return True
      | Some i \<Rightarrow> tx_bind (read_optional_pre_key_from_tx i) (\<lambda>key.
          if key = None then tx_return False
          else tx_bind (mem_delete NsPreKey (pre_key_name i)) (\<lambda>_. tx_return True))) m = (out, m1) \<and>
    (out = Inr False \<longrightarrow> m1 = m) \<and>
    (\<forall>b. m1 (NsSignalProviderSession, b) = m (NsSignalProviderSession, b)) \<and>
    (\<forall>b. m1 (NsSignalProviderIdentity, b) = m (NsSignalProviderIdentity, b))"
proof (cases pk)
  case (Some n)
  obtain k where k: "read_optional_pre_key_from_tx n m = (k, m)" using read_pre_key_reads by blast
  consider (err) e where "k = Inl e" | (gone) "k = Inr None" | (key) x where "k = Inr (Some x)"
    by (metis not_None_eq sum.exhaust)
  then show ?thesis using k Some by cases (simp_all add: tx_bind_def tx_simps)
qed (simp add: tx_simps)

lemma store_inbound_trusted:
  "trusted_op X st (store_inbound_pre_key_session_records X st jid pk s i)"
proof -
  let ?take = "case pk of None \<Rightarrow> tx_return True
      | Some i \<Rightarrow> tx_bind (read_optional_pre_key_from_tx i) (\<lambda>key.
          if key = None then tx_return False
          else tx_bind (mem_delete NsPreKey (pre_key_name i)) (\<lambda>_. tx_return True))"
  let ?body = "\<lambda>a. tx_bind (validate_provider_identity_transition_in_tx a i) (\<lambda>v. or_return v (\<lambda>_.
         or_return (validate_decodable_provider_session_identity X s i) (\<lambda>_.
         tx_bind ?take (\<lambda>present.
         if \<not> present then tx_return (Ok False)
         else
           tx_bind (mem_set NsSignalProviderSession a s) (\<lambda>_.
           tx_bind (mem_set NsSignalProviderIdentity a i) (\<lambda>_.
           tx_return (Ok True)))))))"
  have body: "trusted_step X m m' \<and> (out \<noteq> Inr True \<longrightarrow> m' = m)" if run: "?body a m = (Inr out, m')" for a m out m'
  proof -
    obtain v where v: "validate_provider_identity_transition_in_tx a i m = (Inr v, m)"
      using transition_reads by blast
    show ?thesis
    proof (cases "\<exists>u w. v = Inr u \<and> validate_decodable_provider_session_identity X s i = Inr w")
      case True
      then obtain u where u: "v = Inr u" "validate_decodable_provider_session_identity X s i = Inr ()" by auto
      note same = conjunct2 [OF transition_Ok [OF v [unfolded u(1)]]]
      obtain t m1 where t: "?take m = (t, m1)" "t = Inr False \<longrightarrow> m1 = m"
        "\<And>b. m1 (NsSignalProviderSession, b) = m (NsSignalProviderSession, b)"
        "\<And>b. m1 (NsSignalProviderIdentity, b) = m (NsSignalProviderIdentity, b)"
        using take_pre_key by blast
      note step = both_records_trusted [of m a i X s m1, OF same u(2) t(3,4)]
      have run': "(case t of Inl e \<Rightarrow> (Inl e, m1) | Inr present \<Rightarrow>
          if \<not> present then (Inr (Inr False), m1)
          else (Inr (Inr True), m1((NsSignalProviderSession, a) \<mapsto> s, (NsSignalProviderIdentity, a) \<mapsto> i)))
        = (Inr out, m')"
        using run unfolding tx_bind_def v prod.case sum.case u or_return_def t(1)
        by (cases t) (simp_all add: tx_simps tx_bind_def split: if_splits)
      show ?thesis using run' t(2) step by (auto split: sum.splits if_splits)
    next
      case False
      then consider (transition) e where "v = Inl e" |
        (session) u e where "v = Inr u" "validate_decodable_provider_session_identity X s i = Inl e"
        by (cases v; cases "validate_decodable_provider_session_identity X s i") auto
      then have "\<exists>e. ?body a m = (Inr (Inl e), m)"
        by cases (simp_all only: tx_bind_def v prod.case sum.case or_return_def tx_return_def, simp_all)
      then have "\<exists>e. out = Inl e \<and> m' = m" using run by simp
      then show ?thesis by auto
    qed
  qed
  have "trusted_op X st (case signal_transaction st (?body a) of (Inl e, st') \<Rightarrow> (Inl e, st')
      | (Inr stored, st') \<Rightarrow> (if \<not> stored then Inl e' else Inr (), st'))" for a e'
  proof (cases "poisoned st")
    case False
    obtain r m where r: "?body a (entries st) = (r, m)" by (rule prod.exhaust)
    show ?thesis
    proof (cases r)
      case (Inr out)
      then show ?thesis using body [OF r [unfolded Inr]] r False
        by (cases out) (auto simp: trusted_op_def signal_transaction_def memory_transaction_def
            with_entries_def commit_on_ok_def)
    qed (use r False in \<open>auto simp: trusted_op_def signal_transaction_def memory_transaction_def
        with_entries_def commit_on_ok_def\<close>)
  qed (simp add: trusted_op_def signal_transaction_def memory_transaction_def with_entries_def)
  then show ?thesis
    unfolding store_inbound_pre_key_session_records_def
    by (intro at_address_trusted checked_trusted)
qed

end
