(* ===== verification/SignalRepository.thy ===== *)
theory SignalRepository
  imports SignalStoreTrust
begin

text \<open>
  \<open>StoreSignalRepository\<close> of \<^verbatim>\<open>crates/wa-core/src/signal.rs\<close>: the pre-key bundles fetched for a peer
  (\<open>SignalSession\<close>, stored until a first message uses them), the identities seen for an address,
  the move of a peer's records to another address, the cached sender-key distributions, and the
  mapping between phone-number and LID users.
\<close>

section \<open>Stored bundles\<close>

definition STORED_SESSION_VERSION :: u8 where "STORED_SESSION_VERSION = 1"
definition SESSION_RECORD_KIND :: u8 where "SESSION_RECORD_KIND = 1"

definition encode_stored_session :: "SignalSession \<Rightarrow> bytes core_result" where
  "encode_stored_session session =
     and_then (normalize_signal_public_key (ses_identity_key session)) (\<lambda>identity_key.
     and_then (normalize_signal_public_key (spk_public_key (ses_signed_pre_key session))) (\<lambda>signed_public.
     if length (spk_signature (ses_signed_pre_key session)) \<noteq> 64
     then Err (Protocol (''invalid signed pre-key signature length: '' @
       show_nat (length (spk_signature (ses_signed_pre_key session)))))
     else
       and_then (put_bytes ([STORED_SESSION_VERSION, SESSION_RECORD_KIND] @
         put_u32 (ses_registration_id session)) identity_key) (\<lambda>out.
       and_then (put_bytes (out @ put_u32 (spk_key_id (ses_signed_pre_key session))) signed_public) (\<lambda>out.
       and_then (put_bytes out (spk_signature (ses_signed_pre_key session))) (\<lambda>out.
       case ses_pre_key session of
         Some pre_key \<Rightarrow>
           and_then (normalize_signal_public_key (pk_public_key pre_key)) (\<lambda>key.
           put_bytes (out @ [1] @ put_u32 (pk_key_id pre_key)) key)
       | None \<Rightarrow> Ok (out @ [0]))))))"

definition take_stored_signal_session_u32 :: "bytes \<Rightarrow> string \<Rightarrow> (u32 \<times> bytes) core_result" where
  "take_stored_signal_session_u32 input name =
     (if length input < 4 then Err (Protocol (''stored signal session missing '' @ name))
      else Ok (get_u32 input))"

definition take_stored_signal_session_bytes :: "bytes \<Rightarrow> string \<Rightarrow> (bytes \<times> bytes) core_result" where
  "take_stored_signal_session_bytes input name =
     (if length input < 2
      then Err (Protocol (''stored signal session missing '' @ name @ '' length''))
      else
        let (w, rest) = get_u16 input; len = unat w in
        if length rest < len
        then Err (Protocol (''stored signal session '' @ name @ '' is truncated''))
        else Ok (take len rest, drop len rest))"

definition take_stored_pre_key :: "bytes \<Rightarrow> (SignalPreKey option \<times> bytes) core_result" where
  "take_stored_pre_key input =
     (case input of
        [] \<Rightarrow> Err (Protocol ''stored signal session missing pre-key flag'')
      | flag # input \<Rightarrow>
          if flag = 0 then Ok (None, input)
          else if flag = 1 then
            and_then (take_stored_signal_session_u32 input ''pre-key id'') (\<lambda>(key_id, input).
            and_then (take_stored_signal_session_bytes input ''pre-key public key'') (\<lambda>(key, input).
            and_then (normalize_signal_public_key key) (\<lambda>key.
            Ok (Some \<lparr>pk_key_id = key_id, pk_public_key = key\<rparr>, input))))
          else Err (Protocol ''invalid stored signal session pre-key flag''))"

definition decode_stored_session :: "bytes \<Rightarrow> SignalSession core_result" where
  "decode_stored_session input =
     (case input of
        version # kind # input \<Rightarrow>
          if version \<noteq> STORED_SESSION_VERSION \<or> kind \<noteq> SESSION_RECORD_KIND
          then Err (Protocol ''unsupported stored signal session version'')
          else if length input < 4
          then Err (Protocol ''stored signal session missing registration id'')
          else
            (let (reg, input) = get_u32 input in
            and_then (take_stored_signal_session_bytes input ''identity key'') (\<lambda>(key, input).
            and_then (normalize_signal_public_key key) (\<lambda>identity_key.
            and_then (take_stored_signal_session_u32 input ''signed pre-key id'') (\<lambda>(signed_key_id, input).
            and_then (take_stored_signal_session_bytes input ''signed pre-key public key'')
              (\<lambda>(key, input).
            and_then (normalize_signal_public_key key) (\<lambda>signed_public.
            and_then (take_stored_signal_session_bytes input ''signed pre-key signature'')
              (\<lambda>(signature, input).
            if length signature \<noteq> 64
            then Err (Protocol (''invalid stored signed pre-key signature length: '' @
              show_nat (length signature)))
            else
              and_then (take_stored_pre_key input) (\<lambda>(pre_key, input).
              if input \<noteq> [] then Err (Protocol ''stored signal session has trailing bytes'')
              else Ok \<lparr>ses_registration_id = reg, ses_identity_key = identity_key,
                ses_signed_pre_key = \<lparr>spk_key_id = signed_key_id, spk_public_key = signed_public,
                  spk_signature = signature\<rparr>,
                ses_pre_key = pre_key\<rparr>))))))))
      | _ \<Rightarrow> Err (Protocol ''stored signal session is truncated''))"

section \<open>Sessions\<close>

record SessionInjection =
  inj_jid :: string
  inj_session :: SignalSession

record SignalSessionInfo =
  si_address :: SignalAddress
  si_base_key :: bytes
  si_registration_id :: u32
  si_session :: SignalSession

definition inject_e2e_session ::
  "MemoryAuthStore \<Rightarrow> SessionInjection \<Rightarrow> unit core_result \<times> MemoryAuthStore" where
  "inject_e2e_session st injection = at_address st (inj_jid injection) (\<lambda>address.
     case normalize_signal_public_key (ses_identity_key (inj_session injection)) of
       Inl e \<Rightarrow> (Err e, st)
     | Inr identity_key \<Rightarrow>
         (case encode_stored_session (inj_session injection\<lparr>ses_identity_key := identity_key\<rparr>) of
            Inl e \<Rightarrow> (Err e, st)
          | Inr encoded \<Rightarrow>
              plain_transaction st
                (tx_bind (mem_set NsIdentityKey address identity_key) (\<lambda>_.
                 tx_bind (mem_set NsSession address encoded) (\<lambda>_.
                 tx_bind (mem_delete NsSignalProviderSession address) (\<lambda>_.
                 tx_bind (mem_delete NsSignalProviderIdentity address) (\<lambda>_.
                 tx_return ())))))))"

definition get_session_info ::
  "MemoryAuthStore \<Rightarrow> string \<Rightarrow> SignalSessionInfo option core_result \<times> MemoryAuthStore" where
  "get_session_info st jid = (case signal_protocol_address jid of
     Inl e \<Rightarrow> (Err e, st)
   | Inr address \<Rightarrow>
       signal_transaction st
         (tx_bind (mem_get NsSession (address_string address)) (\<lambda>stored.
         case Option.bind stored (\<lambda>s. ok (decode_stored_session s)) of
           None \<Rightarrow> tx_return (Ok None)
         | Some session \<Rightarrow>
             tx_bind (mem_get NsIdentityKey (address_string address)) (\<lambda>identity.
             case Option.bind identity (\<lambda>i. ok (normalize_signal_public_key i)) of
               None \<Rightarrow> tx_return (Ok None)
             | Some identity \<Rightarrow>
                 if identity \<noteq> ses_identity_key session then tx_return (Ok None)
                 else tx_return (Ok (Some
                   \<lparr>si_address = address,
                    si_base_key = (case ses_pre_key session of Some pre_key \<Rightarrow> pk_public_key pre_key
                      | None \<Rightarrow> spk_public_key (ses_signed_pre_key session)),
                    si_registration_id = ses_registration_id session,
                    si_session = session\<rparr>))))))"

definition validate_session ::
  "MemoryAuthStore \<Rightarrow> string \<Rightarrow> SignalSessionValidation core_result \<times> MemoryAuthStore" where
  "validate_session st jid = at_address st jid (\<lambda>address.
     plain_transaction st
       (tx_bind (mem_get NsSession address) (\<lambda>stored.
       case stored of
         None \<Rightarrow> tx_return (invalid_session ''no session'')
       | Some s \<Rightarrow> (case decode_stored_session s of
           Inl e \<Rightarrow> tx_return (invalid_session (core_error_text e))
         | Inr session \<Rightarrow>
             tx_bind (mem_get NsIdentityKey address) (\<lambda>identity.
             case identity of
               None \<Rightarrow> tx_return (invalid_session ''no identity'')
             | Some i \<Rightarrow> (case normalize_signal_public_key i of
                 Inl e \<Rightarrow> tx_return (invalid_session (core_error_text e))
               | Inr identity \<Rightarrow>
                   if identity \<noteq> ses_identity_key session
                   then tx_return (invalid_session ''identity mismatch'')
                   else tx_return \<lparr>sv_exists = True, sv_reason = None\<rparr>))))))"

definition delete_sessions ::
  "MemoryAuthStore \<Rightarrow> string list \<Rightarrow> unit core_result \<times> MemoryAuthStore" where
  "delete_sessions st jids =
     (case collect (\<lambda>jid. and_then (signal_protocol_address jid) (\<lambda>a. Ok (address_string a))) jids of
        Inl e \<Rightarrow> (Err e, st)
      | Inr addresses \<Rightarrow>
          plain_transaction st (tx_for_each (\<lambda>address.
            tx_bind (mem_delete NsSession address) (\<lambda>_.
            tx_bind (mem_delete NsSignalProviderSession address) (\<lambda>_.
            mem_delete NsSignalProviderIdentity address))) addresses))"

section \<open>Migration\<close>

record SignalSessionMigration =
  mig_migrated :: nat
  mig_skipped :: nat
  mig_total :: nat

definition add_migrated :: "nat \<Rightarrow> SignalSessionMigration \<Rightarrow> SignalSessionMigration" where
  "add_migrated n c = c\<lparr>mig_migrated := mig_migrated c + n, mig_total := mig_total c + n\<rparr>"

definition add_skipped :: "nat \<Rightarrow> SignalSessionMigration \<Rightarrow> SignalSessionMigration" where
  "add_skipped n c = c\<lparr>mig_skipped := mig_skipped c + n, mig_total := mig_total c + n\<rparr>"

definition native_signal_session_pair_valid :: "bytes \<Rightarrow> bytes \<Rightarrow> bool" where
  "native_signal_session_pair_valid session identity =
     (case (decode_stored_session session, normalize_signal_public_key identity) of
        (Inr session, Inr identity) \<Rightarrow> identity = ses_identity_key session
      | _ \<Rightarrow> False)"

text \<open>Copy a record to its new address and delete the old one.\<close>

definition move_record :: "KeyNamespace \<Rightarrow> string \<Rightarrow> string \<Rightarrow> bytes \<Rightarrow> (store_map, unit) tx" where
  "move_record ns from_key to_key val =
     tx_bind (mem_set ns to_key val) (\<lambda>_. mem_delete ns from_key)"

text \<open>The pair is written first, in the order session and identity, then the old pair deleted.\<close>

definition move_pair ::
  "KeyNamespace \<Rightarrow> KeyNamespace \<Rightarrow> string \<Rightarrow> string \<Rightarrow> bytes \<Rightarrow> bytes \<Rightarrow> (store_map, unit) tx" where
  "move_pair ns_session ns_identity from_key to_key session identity =
     tx_bind (mem_set ns_session to_key session) (\<lambda>_.
     tx_bind (mem_set ns_identity to_key identity) (\<lambda>_.
     tx_bind (mem_delete ns_session from_key) (\<lambda>_.
     mem_delete ns_identity from_key)))"

definition migrate_native_signal_records_in_tx ::
  "string \<Rightarrow> string \<Rightarrow> SignalSessionMigration \<Rightarrow> (store_map, SignalSessionMigration) tx" where
  "migrate_native_signal_records_in_tx from_key to_key c =
     tx_bind (mem_get NsSession from_key) (\<lambda>from_session.
     tx_bind (mem_get NsIdentityKey from_key) (\<lambda>from_identity.
     tx_bind (mem_get NsSession to_key) (\<lambda>to_session.
     tx_bind (mem_get NsIdentityKey to_key) (\<lambda>to_identity.
     let destination_empty = (to_session = None \<and> to_identity = None) in
     case (from_session, from_identity) of
       (Some session, Some identity) \<Rightarrow>
         if \<not> destination_empty \<or> \<not> native_signal_session_pair_valid session identity
         then tx_return (add_skipped 2 c)
         else tx_bind (move_pair NsSession NsIdentityKey from_key to_key session identity) (\<lambda>_.
           tx_return (add_migrated 2 c))
     | (Some session, None) \<Rightarrow> tx_return (add_skipped 1 c)
     | (None, Some identity) \<Rightarrow>
         if \<not> destination_empty then tx_return (add_skipped 1 c)
         else tx_bind (move_record NsIdentityKey from_key to_key identity) (\<lambda>_.
           tx_return (add_migrated 1 c))
     | (None, None) \<Rightarrow> tx_return c))))"

definition migrate_signal_provider_records_in_tx ::
  "ext \<Rightarrow> string \<Rightarrow> string \<Rightarrow> SignalSessionMigration \<Rightarrow> (store_map, SignalSessionMigration) tx" where
  "migrate_signal_provider_records_in_tx X from_key to_key c =
     tx_bind (mem_get NsSignalProviderSession from_key) (\<lambda>from_session.
     tx_bind (mem_get NsSignalProviderIdentity from_key) (\<lambda>from_identity.
     tx_bind (mem_get NsSignalProviderSession to_key) (\<lambda>to_session.
     tx_bind (mem_get NsSignalProviderIdentity to_key) (\<lambda>to_identity.
     let destination_empty = (to_session = None \<and> to_identity = None) in
     case (from_session, from_identity) of
       (Some session, Some identity) \<Rightarrow>
         if \<not> destination_empty \<or>
           \<not> is_ok (validate_decodable_provider_session_identity X session identity)
         then tx_return (add_skipped 2 c)
         else tx_bind (move_pair NsSignalProviderSession NsSignalProviderIdentity from_key to_key
             session identity) (\<lambda>_. tx_return (add_migrated 2 c))
     | (Some session, None) \<Rightarrow>
         if \<not> destination_empty \<or> is_ok (decode_signal_provider_session_record X session)
         then tx_return (add_skipped 1 c)
         else tx_bind (move_record NsSignalProviderSession from_key to_key session) (\<lambda>_.
           tx_return (add_migrated 1 c))
     | (None, Some identity) \<Rightarrow>
         if \<not> destination_empty then tx_return (add_skipped 1 c)
         else tx_bind (move_record NsSignalProviderIdentity from_key to_key identity) (\<lambda>_.
           tx_return (add_migrated 1 c))
     | (None, None) \<Rightarrow> tx_return c))))"

definition migrate_session ::
  "ext \<Rightarrow> MemoryAuthStore \<Rightarrow> string \<Rightarrow> string \<Rightarrow> SignalSessionMigration core_result \<times> MemoryAuthStore" where
  "migrate_session X st from_jid to_jid = at_address st from_jid (\<lambda>from_key. at_address st to_jid (\<lambda>to_key.
     plain_transaction st
       (tx_bind (migrate_native_signal_records_in_tx from_key to_key
         \<lparr>mig_migrated = 0, mig_skipped = 0, mig_total = 0\<rparr>) (\<lambda>c.
        tx_bind (migrate_signal_provider_records_in_tx X from_key to_key c) (\<lambda>c.
        if mig_total c = 0
        then tx_return \<lparr>mig_migrated = 0, mig_skipped = 1, mig_total = 1\<rparr>
        else tx_return c)))))"

section \<open>Identities\<close>

definition save_identity_in_tx :: "string \<Rightarrow> bytes \<Rightarrow> (store_map, bool) tx" where
  "save_identity_in_tx address identity_key =
     tx_bind (mem_get NsIdentityKey address) (\<lambda>existing.
     if existing = Some identity_key then tx_return False
     else
       tx_bind (if existing \<noteq> None then
           tx_bind (mem_delete NsSession address) (\<lambda>_.
           tx_bind (mem_delete NsSignalProviderSession address) (\<lambda>_.
           mem_delete NsSignalProviderIdentity address))
         else tx_return ()) (\<lambda>_.
       tx_bind (mem_set NsIdentityKey address identity_key) (\<lambda>_.
       tx_return (existing \<noteq> None))))"

definition save_identity ::
  "MemoryAuthStore \<Rightarrow> string \<Rightarrow> bytes \<Rightarrow> bool core_result \<times> MemoryAuthStore" where
  "save_identity st jid identity_key = at_address st jid (\<lambda>address.
     case normalize_signal_public_key identity_key of
       Inl e \<Rightarrow> (Err e, st)
     | Inr key \<Rightarrow> plain_transaction st (save_identity_in_tx address key))"

section \<open>Cached distributions\<close>

definition store_sender_key_distribution ::
  "ext \<Rightarrow> MemoryAuthStore \<Rightarrow> string \<Rightarrow> string \<Rightarrow> bytes \<Rightarrow> unit core_result \<times> MemoryAuthStore" where
  "store_sender_key_distribution X st author_jid group_jid distribution =
     (if distribution = [] then (Err (Protocol ''sender-key distribution must not be empty''), st)
      else case sender_key_store_key author_jid group_jid of
        Inl e \<Rightarrow> (Err e, st)
      | Inr key \<Rightarrow>
          (case and_then (map_err StoreErr (store_get st NsSenderKey key)) (\<lambda>existing.
              should_replace_cached_signal_sender_key_distribution X existing distribution) of
             Inl e \<Rightarrow> (Err e, st)
           | Inr replace \<Rightarrow>
               if \<not> replace then (Ok (), st)
               else (case memory_set st NsSenderKey key distribution of
                 (r, st') \<Rightarrow> (map_err StoreErr r, st'))))"

definition get_sender_key_distribution ::
  "MemoryAuthStore \<Rightarrow> string \<Rightarrow> string \<Rightarrow> bytes option core_result" where
  "get_sender_key_distribution st author_jid group_jid =
     and_then (sender_key_store_key author_jid group_jid) (\<lambda>key.
     map_err StoreErr (store_get st NsSenderKey key))"

definition clear_sender_key_memory ::
  "MemoryAuthStore \<Rightarrow> string \<Rightarrow> bool core_result \<times> MemoryAuthStore" where
  "clear_sender_key_memory st group_jid = (case jid_decode group_jid of
     None \<Rightarrow> (Err (Protocol (''invalid sender-key group JID: '' @ group_jid)), st)
   | Some decoded \<Rightarrow>
       if jid_server decoded \<noteq> GUs
       then (Err (Protocol (''sender-key group JID must use group server: '' @ group_jid)), st)
       else plain_transaction st
         (tx_bind (mem_get NsSenderKeyMemory group_jid) (\<lambda>legacy.
          tx_bind (mem_get NsSignalProviderSenderKeyMemory group_jid) (\<lambda>provider.
          tx_bind (mem_delete NsSenderKeyMemory group_jid) (\<lambda>_.
          tx_bind (mem_delete NsSignalProviderSenderKeyMemory group_jid) (\<lambda>_.
          tx_return (legacy \<noteq> None \<or> provider \<noteq> None)))))))"

section \<open>Phone numbers and LIDs\<close>

record LidPnMapping =
  map_pn :: string
  map_lid :: string

definition store_mappings ::
  "MemoryAuthStore \<Rightarrow> LidPnMapping list \<Rightarrow> unit core_result \<times> MemoryAuthStore" where
  "store_mappings st mappings =
     (case collect (\<lambda>mapping.
         and_then (ok_or (jid_decode (map_pn mapping)) (Protocol ''invalid PN mapping JID'')) (\<lambda>pn.
         and_then (ok_or (jid_decode (map_lid mapping)) (Protocol ''invalid LID mapping JID'')) (\<lambda>lid.
         Ok (jid_user pn, jid_user lid)))) mappings of
        Inl e \<Rightarrow> (Err e, st)
      | Inr pairs \<Rightarrow>
          plain_transaction st (tx_for_each (\<lambda>(pn_user, lid_user).
            tx_bind (mem_set NsLidMapping (''pn:'' @ pn_user) (bytes_of lid_user)) (\<lambda>_.
            mem_set NsLidMapping (''lid:'' @ lid_user) (bytes_of pn_user))) pairs))"

definition read_mapping :: "MemoryAuthStore \<Rightarrow> string \<Rightarrow> string option core_result" where
  "read_mapping st key =
     and_then (map_err StoreErr (store_get st NsLidMapping key)) (\<lambda>val.
     case val of
       None \<Rightarrow> Ok None
     | Some v \<Rightarrow> map_err (\<lambda>err. Protocol (''invalid mapping UTF-8: '' @ err))
         (and_then (string_from_utf8 v) (\<lambda>s. Ok (Some s))))"

definition lid_for_pn :: "MemoryAuthStore \<Rightarrow> string \<Rightarrow> string option core_result" where
  "lid_for_pn st pn =
     and_then (ok_or (jid_decode pn) (Protocol ''invalid PN lookup JID'')) (\<lambda>decoded.
     read_mapping st (''pn:'' @ jid_user decoded))"

definition pn_for_lid :: "MemoryAuthStore \<Rightarrow> string \<Rightarrow> string option core_result" where
  "pn_for_lid st lid =
     and_then (ok_or (jid_decode lid) (Protocol ''invalid LID lookup JID'')) (\<lambda>decoded.
     read_mapping st (''lid:'' @ jid_user decoded))"

end
