(* ===== verification/SignalOperations.thy ===== *)
theory SignalOperations
  imports SignalRepository ExtInstance
begin

text \<open>
  The Signal state of a device under all the operations of its store and its repository, in any
  order and with any arguments: the trust rules hold throughout, and an operation that fails
  changes nothing.
\<close>

section \<open>The remaining operations keep the rules\<close>

lemma other_namespace_trusted:
  assumes "ns \<noteq> NsSignalProviderSession" "ns \<noteq> NsSignalProviderIdentity"
  shows "trusted_step X m (m((ns, k) := v))"
  using assms by (intro trusted_other) auto

lemma memory_set_trusted:
  assumes "ns \<noteq> NsSignalProviderSession" "ns \<noteq> NsSignalProviderIdentity"
  shows "trusted_op X st (case memory_set st ns k v of (r, st') \<Rightarrow> (map_err StoreErr r, st'))"
  using other_namespace_trusted [OF assms, of X "entries st" k "Some v"]
  by (auto simp: trusted_op_def memory_set_def with_entries_def tx_simps)

lemma delete_other_trusted:
  assumes "ns \<noteq> NsSignalProviderSession" "ns \<noteq> NsSignalProviderIdentity"
  shows "trusted_op X st (delete_provider_record st ns k)"
  using other_namespace_trusted [OF assms, of X "entries st" k None]
  by (auto simp: trusted_op_def delete_provider_record_def store_get_def memory_get_def
      memory_delete_def with_entries_def tx_simps)

lemma store_record_trusted: "trusted_op X st (store_record X st kind key val)"
  unfolding store_record_def
  by (intro checked_trusted, cases kind)
    (simp_all add: signal_transaction_trusted set_session_trusted set_identity_trusted memory_set_trusted)

lemma delete_record_trusted: "trusted_op X st (delete_record X st kind key)"
  unfolding delete_record_def
  by (intro checked_trusted, cases kind)
    (simp_all add: plain_transaction_trusted delete_session_trusted delete_identity_trusted
      delete_other_trusted)

lemma delete_identity_record_trusted: "trusted_op X st (delete_identity_record X st jid)"
  unfolding delete_identity_record_def
  by (intro at_address_trusted plain_transaction_trusted delete_identity_trusted)

text \<open>A sender-key operation writes one record of its own namespace, and only on success.\<close>

lemma process_distribution_trusted:
  "trusted_op X st (process_sender_key_distribution_record X st key d)"
  unfolding process_sender_key_distribution_record_def
  by (intro checked_trusted signal_transaction_trusted)
    (auto simp: trusted_body_def tx_simps or_return_def split: sum.splits intro!: other_namespace_trusted)

lemma load_or_create_trusted:
  "trusted_op X st (load_or_create_sender_key_distribution_record X i c r st a g)"
  unfolding load_or_create_sender_key_distribution_record_def
  by (cases "sender_key_store_key a g")
    (auto intro!: signal_transaction_trusted other_namespace_trusted
      simp: trusted_body_def tx_simps or_return_def split: sum.splits option.splits)

lemma encrypt_sender_key_trusted:
  "trusted_op X st (encrypt_sender_key_record_message X rnd st key p)"
  unfolding encrypt_sender_key_record_message_def
  by (intro checked_trusted signal_transaction_trusted)
    (auto simp: trusted_body_def tx_simps or_return_def split: sum.splits option.splits
      intro!: other_namespace_trusted)

lemma decrypt_sender_key_trusted:
  "trusted_op X st (decrypt_sender_key_record_message X V st key message)"
  unfolding decrypt_sender_key_record_message_def
  by (intro checked_trusted signal_transaction_trusted)
    (auto simp: trusted_body_def tx_simps or_return_def split: sum.splits option.splits
      intro!: other_namespace_trusted)

lemma decrypt_sender_key_retry_trusted:
  "trusted_op X st (decrypt_sender_key_record_message_with_distribution_retry X V st key message d)"
  unfolding decrypt_sender_key_record_message_with_distribution_retry_def Let_def
  by (intro checked_trusted signal_transaction_trusted)
    (auto simp: trusted_body_def tx_simps or_return_def split: sum.splits option.splits if_splits
      intro!: other_namespace_trusted)

lemma consume_trusted: "trusted_op X st (consume_local_pre_key st i)"
  unfolding consume_local_pre_key_def
proof (rule plain_transaction_trusted)
  fix m r m'
  assume run: "tx_bind (read_optional_pre_key_from_tx i) (\<lambda>key. case key of None \<Rightarrow> tx_return None
    | Some key_pair \<Rightarrow> tx_bind (mem_delete NsPreKey (pre_key_name i)) (\<lambda>_.
        tx_return (Some (signal_local_pre_key i key_pair)))) m = (Inr r, m')"
  obtain k where "read_optional_pre_key_from_tx i m = (k, m)" using read_pre_key_reads by blast
  then show "trusted_step X m m'" using run
    by (auto simp: tx_bind_def tx_simps split: sum.splits option.splits intro!: other_namespace_trusted)
qed

section \<open>The repository\<close>

lemma drop_records_trusted:
  assumes "m' (NsSignalProviderSession, a) = None"
    and "\<And>b. b \<noteq> a \<Longrightarrow> m' (NsSignalProviderSession, b) = m (NsSignalProviderSession, b) \<and>
      m' (NsSignalProviderIdentity, b) = m (NsSignalProviderIdentity, b)"
    and "m' (NsSignalProviderIdentity, a) = None \<or>
      m' (NsSignalProviderIdentity, a) = m (NsSignalProviderIdentity, a)"
  shows "trusted_step X m m'"
  using assms by (intro trusted_at [of a]) (auto simp: pair_ok_def)

lemma trusted_step_trans:
  assumes "trusted_step X m m1" "trusted_step X m1 m2"
    and "\<And>a. m2 (NsSignalProviderIdentity, a) = None \<or>
      m1 (NsSignalProviderIdentity, a) = m (NsSignalProviderIdentity, a) \<or>
      m2 (NsSignalProviderIdentity, a) = m1 (NsSignalProviderIdentity, a)"
  shows "trusted_step X m m2"
proof -
  have "same_identity i j" if "m (NsSignalProviderIdentity, a) = Some i"
    "m2 (NsSignalProviderIdentity, a) = Some j" for a i j
    using assms(3) [of a] assms(1,2) that by (auto simp: trusted_step_def identities_kept_def)
  then show ?thesis using assms(1,2) by (auto simp: trusted_step_def identities_kept_def)
qed

lemma inject_trusted: "trusted_op X st (inject_e2e_session st injection)"
  unfolding inject_e2e_session_def
  by (rule at_address_trusted)
    (auto simp: tx_simps split: sum.split intro!: plain_transaction_trusted drop_records_trusted)

lemma tx_bind_Inr: "f m = (Inr x, m1) \<Longrightarrow> tx_bind f g m = g x m1"
  by (simp add: tx_bind_def)

lemma delete_sessions_trusted: "trusted_op X st (delete_sessions st jids)"
proof -
  let ?drop = "\<lambda>address. tx_bind (mem_delete NsSession address) (\<lambda>_.
            tx_bind (mem_delete NsSignalProviderSession address) (\<lambda>_.
            mem_delete NsSignalProviderIdentity address))"
  have "tx_for_each ?drop as m = (Inr r, m') \<Longrightarrow> trusted_step X m m' \<and>
      (\<forall>a. m' (NsSignalProviderIdentity, a) = None \<or>
        m' (NsSignalProviderIdentity, a) = m (NsSignalProviderIdentity, a))" for as m r m'
  proof (induction as arbitrary: m)
    case (Cons a as)
    let ?m = "m((NsSession, a) := None, (NsSignalProviderSession, a) := None,
        (NsSignalProviderIdentity, a) := None)"
    have "?drop a m = (Inr (), ?m)" by (simp add: tx_simps)
    then have "tx_for_each ?drop as ?m = (Inr r, m')" using Cons.prems by (simp add: tx_bind_Inr)
    note rest = Cons.IH [OF this]
    have "trusted_step X m ?m" by (rule drop_records_trusted [of _ a]) auto
    then have "trusted_step X m m'"
      by (rule trusted_step_trans [OF _ conjunct1 [OF rest]]) (use conjunct2 [OF rest] in blast)
    moreover have "m' (NsSignalProviderIdentity, b) = None \<or>
        m' (NsSignalProviderIdentity, b) = m (NsSignalProviderIdentity, b)" for b
      using conjunct2 [OF rest] by (cases "b = a") auto
    ultimately show ?case by blast
  qed (simp add: tx_simps)
  then show ?thesis
    unfolding delete_sessions_def
    by (auto split: sum.split intro!: plain_transaction_trusted)
qed

lemma save_identity_trusted: "trusted_op X st (save_identity st jid key)"
  unfolding save_identity_def
proof (rule at_address_trusted)
  fix a
  have "save_identity_in_tx a k m = (Inr r, m') \<Longrightarrow> trusted_step X m m'" for k m r m'
    by (cases "m (NsIdentityKey, a) = None")
      (auto simp: save_identity_in_tx_def tx_simps tx_bind_def split: if_splits
        intro: drop_records_trusted [of _ a] trusted_other)
  then show "trusted_op X st (case normalize_signal_public_key key of Inl e \<Rightarrow> (Inl e, st)
      | Inr key \<Rightarrow> plain_transaction st (save_identity_in_tx a key))"
    by (auto split: sum.split intro!: plain_transaction_trusted)
qed

text \<open>Moving records: what the two halves of a migration do to the snapshot.\<close>

lemma migrate_native_keeps:
  "\<exists>c' m'. migrate_native_signal_records_in_tx f t c m = (Inr c', m') \<and>
    (\<forall>ns k. ns \<noteq> NsSession \<and> ns \<noteq> NsIdentityKey \<longrightarrow> m' (ns, k) = m (ns, k))"
  by (auto simp: migrate_native_signal_records_in_tx_def tx_simps Let_def tx_bind_def move_pair_def
      move_record_def split: option.split)

lemma migrate_provider_trusted:
  "\<exists>c' m'. migrate_signal_provider_records_in_tx X f t c m = (Inr c', m') \<and> trusted_step X m m'"
proof -
  let ?s = "m (NsSignalProviderSession, f)" and ?i = "m (NsSignalProviderIdentity, f)"
  let ?empty = "m (NsSignalProviderSession, t) = None \<and> m (NsSignalProviderIdentity, t) = None"
  have identities: "identities_kept m m'"
    if "?empty" "\<And>a. a \<noteq> t \<Longrightarrow> m' (NsSignalProviderIdentity, a) = None \<or>
      m' (NsSignalProviderIdentity, a) = m (NsSignalProviderIdentity, a)" for m'
    unfolding identities_kept_def
  proof (intro allI impI)
    fix a i j
    assume "m (NsSignalProviderIdentity, a) = Some i" "m' (NsSignalProviderIdentity, a) = Some j"
    then show "same_identity i j" using that by (cases "a = t") (auto dest!: that(2))
  qed
  have "\<exists>c' m'. migrate_signal_provider_records_in_tx X f t c m = (Inr c', m') \<and>
    (m' = m \<or> ?empty \<and> (\<forall>a. a \<noteq> t \<longrightarrow> m' (NsSignalProviderIdentity, a) = None \<or>
        m' (NsSignalProviderIdentity, a) = m (NsSignalProviderIdentity, a)) \<and>
      (provider_ok X m \<longrightarrow> provider_ok X m'))"
    by (cases ?s; cases ?i)
      (auto simp: migrate_signal_provider_records_in_tx_def tx_simps Let_def tx_bind_def move_pair_def
        move_record_def provider_ok_def pair_ok_def is_ok_unit split: option.splits)
  then obtain c' m' where m': "migrate_signal_provider_records_in_tx X f t c m = (Inr c', m')"
    "m' = m \<or> ?empty \<and> (\<forall>a. a \<noteq> t \<longrightarrow> m' (NsSignalProviderIdentity, a) = None \<or>
        m' (NsSignalProviderIdentity, a) = m (NsSignalProviderIdentity, a)) \<and>
      (provider_ok X m \<longrightarrow> provider_ok X m')" by blast
  have "trusted_step X m m'"
    using m'(2)
  proof
    assume "?empty \<and> (\<forall>a. a \<noteq> t \<longrightarrow> m' (NsSignalProviderIdentity, a) = None \<or>
        m' (NsSignalProviderIdentity, a) = m (NsSignalProviderIdentity, a)) \<and>
      (provider_ok X m \<longrightarrow> provider_ok X m')"
    then show ?thesis using identities [of m'] by (auto simp: trusted_step_def)
  qed simp
  with m'(1) show ?thesis by blast
qed

lemma migrate_trusted: "trusted_op X st (migrate_session X st f t)"
  unfolding migrate_session_def
proof (intro at_address_trusted plain_transaction_trusted, goal_cases)
  case (1 a b m r m')
  let ?c = "\<lparr>mig_migrated = 0, mig_skipped = 0, mig_total = 0\<rparr> :: SignalSessionMigration"
  obtain c1 m1 where m1: "migrate_native_signal_records_in_tx a b ?c m = (Inr c1, m1)"
    "\<forall>ns k. ns \<noteq> NsSession \<and> ns \<noteq> NsIdentityKey \<longrightarrow> m1 (ns, k) = m (ns, k)"
    using migrate_native_keeps by blast
  obtain c2 m2 where m2: "migrate_signal_provider_records_in_tx X a b c1 m1 = (Inr c2, m2)"
    "trusted_step X m1 m2"
    using migrate_provider_trusted by blast
  have "tx_bind (migrate_native_signal_records_in_tx a b ?c) g m = g c1 m1"
    "tx_bind (migrate_signal_provider_records_in_tx X a b c1) h m1 = h c2 m2"
    for g h :: "SignalSessionMigration \<Rightarrow> (store_map, SignalSessionMigration) tx"
    by (rule tx_bind_Inr, rule m1(1), rule tx_bind_Inr, rule m2(1))
  then have "m' = m2" using 1 by (auto simp: tx_simps split: if_splits)
  moreover have "trusted_step X m m1" using m1(2) by (intro trusted_other) auto
  ultimately show ?case using m2(2) m1(2) by (auto intro: trusted_step_trans)
qed

lemma store_session_trusted: "trusted_op X st (store_session_record X st jid val)"
  unfolding store_session_record_def
  by (intro at_address_trusted checked_trusted signal_transaction_trusted set_session_trusted)

lemma store_identity_trusted: "trusted_op X st (store_identity_record X st jid val)"
  unfolding store_identity_record_def
  by (intro at_address_trusted checked_trusted signal_transaction_trusted set_identity_trusted)

lemma delete_session_record_trusted: "trusted_op X st (delete_session_record X st jid)"
  unfolding delete_session_record_def by (intro at_address_trusted delete_record_trusted)

lemma cache_distribution_trusted: "trusted_op X st (store_sender_key_distribution X st a g d)"
  unfolding store_sender_key_distribution_def
  by (auto split: sum.split intro!: memory_set_trusted [simplified])

lemma clear_memory_trusted: "trusted_op X st (clear_sender_key_memory st g)"
  unfolding clear_sender_key_memory_def
  by (auto simp: tx_simps split: option.split intro!: plain_transaction_trusted trusted_other)

lemma store_mappings_trusted: "trusted_op X st (store_mappings st mappings)"
proof -
  let ?put = "\<lambda>(pn_user, lid_user). tx_bind (mem_set NsLidMapping (''pn:'' @ pn_user) (bytes_of lid_user))
      (\<lambda>_. mem_set NsLidMapping (''lid:'' @ lid_user) (bytes_of pn_user))"
  have "tx_for_each ?put ps m = (Inr r, m') \<Longrightarrow>
      (\<forall>ns k. ns \<noteq> NsLidMapping \<longrightarrow> m' (ns, k) = m (ns, k))" for ps m r m'
  proof (induction ps arbitrary: m)
    case (Cons p ps)
    obtain pn lid where p: "p = (pn, lid)" by force
    have "?put p m = (Inr (), m((NsLidMapping, ''pn:'' @ pn) \<mapsto> bytes_of lid,
        (NsLidMapping, ''lid:'' @ lid) \<mapsto> bytes_of pn))"
      by (simp add: p tx_simps)
    then have "tx_for_each ?put ps (m((NsLidMapping, ''pn:'' @ pn) \<mapsto> bytes_of lid,
        (NsLidMapping, ''lid:'' @ lid) \<mapsto> bytes_of pn)) = (Inr r, m')"
      using Cons.prems by (simp add: tx_bind_Inr)
    from Cons.IH [OF this] show ?case by simp
  qed (simp add: tx_simps)
  then show ?thesis
    unfolding store_mappings_def
    by (auto split: sum.split intro!: plain_transaction_trusted trusted_other)
qed

section \<open>All operations\<close>

text \<open>
  One operation of the store or of the repository, with any arguments: the store before, whether it
  succeeded, and the store after. \<open>rnd\<close> stands for random values, \<open>V\<close> for the signature check.
\<close>

inductive signal_op :: "ext \<Rightarrow> verifier \<Rightarrow> MemoryAuthStore \<Rightarrow> bool \<Rightarrow> MemoryAuthStore \<Rightarrow> bool" for X V where
  StoreRecord: "store_record X st kind key val = (r, st') \<Longrightarrow>
    signal_op X V st (is_ok r) st'"
| DeleteRecord: "delete_record X st kind key = (r, st') \<Longrightarrow>
    signal_op X V st (is_ok r) st'"
| StoreSession: "store_session_record X st jid val = (r, st') \<Longrightarrow>
    signal_op X V st (is_ok r) st'"
| Encrypt: "length rnd = 32 \<Longrightarrow>
    encrypt_existing_session_record_message X rnd st jid val = (r, st') \<Longrightarrow>
    signal_op X V st (is_ok r) st'"
| Decrypt: "decrypt_session_record_message X st jid val = (r, st') \<Longrightarrow>
    signal_op X V st (is_ok r) st'"
| DeleteSession: "delete_session_record X st jid = (r, st') \<Longrightarrow>
    signal_op X V st (is_ok r) st'"
| StorePair: "store_session_and_identity_records X st jid session identity = (r, st') \<Longrightarrow>
    signal_op X V st (is_ok r) st'"
| StoreInbound: "store_inbound_pre_key_session_records X st jid pre_key_id session identity = (r, st') \<Longrightarrow>
    signal_op X V st (is_ok r) st'"
| StoreIdentity: "store_identity_record X st jid val = (r, st') \<Longrightarrow>
    signal_op X V st (is_ok r) st'"
| DeleteIdentity: "delete_identity_record X st jid = (r, st') \<Longrightarrow>
    signal_op X V st (is_ok r) st'"
| ProcessDistribution: "process_sender_key_distribution_record X st key distribution = (r, st') \<Longrightarrow>
    signal_op X V st (is_ok r) st'"
| CreateDistribution: "load_or_create_sender_key_distribution_record X key_id chain_key rnd st author_jid group_jid = (r, st') \<Longrightarrow>
    signal_op X V st (is_ok r) st'"
| EncryptGroup: "encrypt_sender_key_record_message X rnd st key val = (r, st') \<Longrightarrow>
    signal_op X V st (is_ok r) st'"
| DecryptGroup: "decrypt_sender_key_record_message X V st key val = (r, st') \<Longrightarrow>
    signal_op X V st (is_ok r) st'"
| DecryptGroupRetry: "decrypt_sender_key_record_message_with_distribution_retry X V st key val distribution = (r, st') \<Longrightarrow>
    signal_op X V st (is_ok r) st'"
| ConsumePreKey: "consume_local_pre_key st i = (r, st') \<Longrightarrow>
    signal_op X V st (is_ok r) st'"
| Inject: "inject_e2e_session st injection = (r, st') \<Longrightarrow>
    signal_op X V st (is_ok r) st'"
| DeleteSessions: "delete_sessions st jids = (r, st') \<Longrightarrow>
    signal_op X V st (is_ok r) st'"
| Migrate: "migrate_session X st jid jid2 = (r, st') \<Longrightarrow>
    signal_op X V st (is_ok r) st'"
| SaveIdentity: "save_identity st jid val = (r, st') \<Longrightarrow>
    signal_op X V st (is_ok r) st'"
| CacheDistribution: "store_sender_key_distribution X st author_jid group_jid val = (r, st') \<Longrightarrow>
    signal_op X V st (is_ok r) st'"
| ClearMemory: "clear_sender_key_memory st group_jid = (r, st') \<Longrightarrow>
    signal_op X V st (is_ok r) st'"
| StoreMappings: "store_mappings st mappings = (r, st') \<Longrightarrow>
    signal_op X V st (is_ok r) st'"

lemma trusted_op_step:
  "out = (r, st') \<Longrightarrow> b = is_ok r \<Longrightarrow> trusted_op X st out \<Longrightarrow>
    trusted_step X (entries st) (entries st') \<and> (\<not> b \<longrightarrow> st' = st)"
  by (simp add: trusted_op_def)

lemmas all_trusted =
  store_record_trusted
  delete_record_trusted
  store_session_trusted
  encrypt_existing_trusted
  decrypt_trusted
  delete_session_record_trusted
  store_pair_trusted
  store_inbound_trusted
  store_identity_trusted
  delete_identity_record_trusted
  process_distribution_trusted
  load_or_create_trusted
  encrypt_sender_key_trusted
  decrypt_sender_key_trusted
  decrypt_sender_key_retry_trusted
  consume_trusted
  inject_trusted
  delete_sessions_trusted
  migrate_trusted
  save_identity_trusted
  cache_distribution_trusted
  clear_memory_trusted
  store_mappings_trusted

lemma signal_op_trusted:
  assumes X: "ext_ok X" and run: "signal_op X V st b st'"
  shows "trusted_step X (entries st) (entries st') \<and> (\<not> b \<longrightarrow> st' = st)"
  using run
  by cases (rule trusted_op_step, assumption, assumption, rule all_trusted, ((rule X | assumption)+)?)+

section \<open>Properties\<close>

definition reaches :: "ext \<Rightarrow> verifier \<Rightarrow> MemoryAuthStore \<Rightarrow> MemoryAuthStore \<Rightarrow> bool" where
  "reaches X V = (\<lambda>st st'. \<exists>b. signal_op X V st b st')\<^sup>*\<^sup>*"

lemma reaches_provider_ok:
  assumes X: "ext_ok X" and run: "reaches X V st st'" and start: "provider_ok X (entries st)"
  shows "provider_ok X (entries st')"
  using run start unfolding reaches_def
  by (induction rule: rtranclp_induct) (auto dest: signal_op_trusted [OF X] simp: trusted_step_def)

text \<open>
  C32: a session is only ever kept beside the identity it was made with. Whatever sequence of
  operations runs from an empty Signal state, with any arguments, an address that has both a
  session record that decodes and an identity record has the session of that identity.
\<close>

theorem session_matches_identity:
  assumes "ext_ok X" and "provider_ok X (entries st)" and "reaches X V st st'"
    and "entries st' (NsSignalProviderSession, a) = Some s"
    and "decode_signal_provider_session_record X s = Inr r"
    and "entries st' (NsSignalProviderIdentity, a) = Some i"
  shows "normalize_signal_public_key i = Inr (sr_remote_identity_key r)"
proof -
  have "pair_ok X (entries st' (NsSignalProviderSession, a)) (entries st' (NsSignalProviderIdentity, a))"
    using reaches_provider_ok [OF assms(1,3,2)] by (simp add: provider_ok_def)
  then show ?thesis
    using assms(4-6) by (auto simp: pair_ok_def validate_decodable_provider_session_identity_def
        and_then_eq_Ok split: if_splits)
qed

text \<open>
  C33: an identity is pinned. No single operation replaces the identity record of an address by the
  record of another key: it stays the same key, in one of its two encodings, or it is removed.
\<close>

theorem identity_pinned:
  assumes "ext_ok X" and "signal_op X V st b st'"
    and "entries st (NsSignalProviderIdentity, a) = Some i"
    and "entries st' (NsSignalProviderIdentity, a) = Some j"
  shows "i = j \<or> (\<exists>k. normalize_signal_public_key i = Inr k \<and> normalize_signal_public_key j = Inr k)"
  using signal_op_trusted [OF assms(1,2)] assms(3,4)
  unfolding trusted_step_def identities_kept_def same_identity_def by blast

text \<open>
  C34: an operation that fails changes nothing. Whenever an operation of the Signal store or of the
  repository returns an error, from the store, the codecs, the cryptography or its own checks, the
  store is exactly as before.
\<close>

theorem failed_operation_changes_nothing:
  assumes "ext_ok X" and "signal_op X V st False st'"
  shows "st' = st"
  using signal_op_trusted [OF assms] by simp

section \<open>A sample run\<close>

lemma sample_address:
  "at_address st ''77:2@s.whatsapp.net'' f = f ''77.2''"
proof -
  have "jid_decode ''77:2@s.whatsapp.net'' = Some \<lparr>jid_user = ''77'', jid_server = SWhatsAppNet,
      jid_server_raw = ''s.whatsapp.net'', jid_device = Some 2, jid_agent = None,
      jid_domain_type = DomWhatsApp\<rparr>"
    by (simp add: jid_decode_def from_server_str_def parse_u16_def parse_nat_max_def digit_val_def Let_def)
  moreover have "show_nat 2 = ''2''" by code_simp
  ultimately show ?thesis
    by (simp add: at_address_def signal_protocol_address_def address_string_def show_u16_def)
qed

definition pinned_store :: "bytes \<Rightarrow> MemoryAuthStore" where
  "pinned_store i = memory_new\<lparr>entries := (entries memory_new)((NsSignalProviderIdentity, ''77.2'') \<mapsto> i)\<rparr>"

lemma sample_pin:
  assumes "length k = 32"
  shows "store_identity_record toy memory_new ''77:2@s.whatsapp.net'' k = (Inr (), pinned_store k)"
    and "store_identity_record toy (pinned_store k) ''77:2@s.whatsapp.net'' (prefixed_signal_public_key k) =
      (Inr (), pinned_store (prefixed_signal_public_key k))"
proof -
  have "k \<noteq> []" using assms by auto
  note run = store_identity_record_def sample_address checked_def validate_provider_record_value_def
    signal_transaction_def memory_transaction_def with_entries_def commit_on_ok_def
    set_identity_in_tx_def validate_provider_identity_transition_in_tx_def tx_simps tx_bind_def
    or_return_def memory_new_def pinned_store_def
  show "store_identity_record toy memory_new ''77:2@s.whatsapp.net'' k = (Inr (), pinned_store k)"
    using \<open>k \<noteq> []\<close> by (simp add: run)
  have "normalize_signal_public_key k = Inr (prefixed_signal_public_key k)"
    "normalize_signal_public_key (prefixed_signal_public_key k) = Inr (prefixed_signal_public_key k)"
    "k \<noteq> prefixed_signal_public_key k"
    using assms by (simp_all add: normalize_signal_public_key_def prefixed_signal_public_key_def)
  then show "store_identity_record toy (pinned_store k) ''77:2@s.whatsapp.net''
      (prefixed_signal_public_key k) = (Inr (), pinned_store (prefixed_signal_public_key k))"
    by (simp add: run prefixed_signal_public_key_def)
qed

theorem session_matches_identity_witness:
  "\<exists>st' s r i. reaches toy (\<lambda>_ _ _. True) memory_new st' \<and>
    entries st' (NsSignalProviderSession, ''77.2'') = Some s \<and>
    decode_signal_provider_session_record toy s = Inr r \<and>
    entries st' (NsSignalProviderIdentity, ''77.2'') = Some i \<and>
    normalize_signal_public_key i = Inr (sr_remote_identity_key r)"
proof -
  obtain s where s: "decode_signal_provider_session_record toy s = Inr sample_record"
    using encode_decode_record [OF sample_record_ok] by blast
  let ?i = "sr_remote_identity_key sample_record"
  have "record_normal sample_record" using sample_record_ok unfolding record_ok_def by blast
  then have norm: "normalize_signal_public_key ?i = Inr ?i" by (simp add: record_normal_def key_normal_def)
  have ne: "s \<noteq> []" "?i \<noteq> []"
    using s norm by (auto simp: decode_signal_provider_session_record_def normalize_signal_public_key_def)
  define st1 where "st1 = memory_new\<lparr>entries := (entries memory_new)
    ((NsSignalProviderSession, ''77.2'') \<mapsto> s, (NsSignalProviderIdentity, ''77.2'') \<mapsto> ?i)\<rparr>"
  have run: "store_session_and_identity_records toy memory_new ''77:2@s.whatsapp.net'' s ?i = (Inr (), st1)"
    using ne s norm
    by (simp add: store_session_and_identity_records_def sample_address checked_def
        validate_provider_record_value_def signal_transaction_def memory_transaction_def
        with_entries_def commit_on_ok_def validate_provider_identity_transition_in_tx_def tx_simps
        tx_bind_def or_return_def memory_new_def st1_def validate_decodable_provider_session_identity_def)
  then have "signal_op toy (\<lambda>_ _ _. True) memory_new (is_ok (Inr () :: unit core_result)) st1"
    by (rule signal_op.StorePair)
  then have reach: "reaches toy (\<lambda>_ _ _. True) memory_new st1"
    unfolding reaches_def by (intro r_into_rtranclp exI)
  have start: "provider_ok toy (entries memory_new)"
    by (simp add: provider_ok_def pair_ok_def memory_new_def)
  have e: "entries st1 (NsSignalProviderSession, ''77.2'') = Some s"
    "entries st1 (NsSignalProviderIdentity, ''77.2'') = Some ?i"
    by (simp_all add: st1_def)
  show ?thesis
    using session_matches_identity [OF toy_ok start reach e(1) s e(2)] reach e s by blast
qed

theorem identity_pinned_witness:
  "\<exists>st b st' i j. signal_op toy (\<lambda>_ _ _. True) st b st' \<and>
    entries st (NsSignalProviderIdentity, ''77.2'') = Some i \<and>
    entries st' (NsSignalProviderIdentity, ''77.2'') = Some j \<and> i \<noteq> j \<and>
    (\<exists>k. normalize_signal_public_key i = Inr k \<and> normalize_signal_public_key j = Inr k)"
proof -
  let ?k = "replicate 32 (9 :: u8)"
  let ?st = "pinned_store ?k" and ?st' = "pinned_store (prefixed_signal_public_key ?k)"
  have op: "signal_op toy (\<lambda>_ _ _. True) ?st (is_ok (Inr () :: unit core_result)) ?st'"
    by (rule signal_op.StoreIdentity, rule sample_pin(2)) simp
  have e: "entries (pinned_store i) (NsSignalProviderIdentity, ''77.2'') = Some i" for i
    by (simp add: pinned_store_def)
  have ne: "?k \<noteq> prefixed_signal_public_key ?k"
    by (simp add: prefixed_signal_public_key_def)
  have "?k = prefixed_signal_public_key ?k \<or> (\<exists>k. normalize_signal_public_key ?k = Inr k \<and>
      normalize_signal_public_key (prefixed_signal_public_key ?k) = Inr k)"
    by (rule identity_pinned [OF toy_ok op e e])
  with ne have "\<exists>k. normalize_signal_public_key ?k = Inr k \<and>
      normalize_signal_public_key (prefixed_signal_public_key ?k) = Inr k"
    by blast
  then have "signal_op toy (\<lambda>_ _ _. True) ?st (is_ok (Inr () :: unit core_result)) ?st' \<and>
    entries ?st (NsSignalProviderIdentity, ''77.2'') = Some ?k \<and>
    entries ?st' (NsSignalProviderIdentity, ''77.2'') = Some (prefixed_signal_public_key ?k) \<and>
    ?k \<noteq> prefixed_signal_public_key ?k \<and>
    (\<exists>k. normalize_signal_public_key ?k = Inr k \<and>
      normalize_signal_public_key (prefixed_signal_public_key ?k) = Inr k)"
    by (intro conjI op e ne)
  then show ?thesis by (intro exI)
qed

theorem failed_operation_changes_nothing_witness:
  "\<exists>st'. signal_op toy (\<lambda>_ _ _. True) memory_new False st' \<and> st' = memory_new"
proof -
  have "store_record toy memory_new KindSession [] [1] =
      (Inl (Protocol ''signal provider record key must not be empty''), memory_new)"
    by (simp add: store_record_def checked_def validate_provider_record_key_def)
  from signal_op.StoreRecord [OF this, of "\<lambda>_ _ _. True"]
  have "signal_op toy (\<lambda>_ _ _. True) memory_new False memory_new" by simp
  then show ?thesis using failed_operation_changes_nothing [OF toy_ok] by blast
qed

end
