(* ===== verification/SignalProvider.thy ===== *)
theory SignalProvider
  imports SignalRepository
begin

text \<open>
  The message layer of \<^verbatim>\<open>crates/wa-core/src/signal.rs\<close>: \<open>StoreSignalSenderKeyProvider\<close> chooses between
  an open session, a stored bundle and a sender key, and \<open>SignalMessageCodec\<close> is the facade the
  client calls. Each call is a sequence of store operations.
\<close>

section \<open>Ciphertexts and requests\<close>

datatype SignalCiphertextType = SigMessage | SigPreKey | SigSenderKey
datatype MessageCiphertextType = MsgMessage | MsgPreKey | MsgSenderKey
datatype InboundCiphertextType = InMessage | InPreKey | InSenderKey

fun as_wire_type :: "SignalCiphertextType \<Rightarrow> string" where
  "as_wire_type SigMessage = ''msg''"
| "as_wire_type SigPreKey = ''pkmsg''"
| "as_wire_type SigSenderKey = ''skmsg''"

fun message_type_of_signal :: "SignalCiphertextType \<Rightarrow> MessageCiphertextType" where
  "message_type_of_signal SigMessage = MsgMessage"
| "message_type_of_signal SigPreKey = MsgPreKey"
| "message_type_of_signal SigSenderKey = MsgSenderKey"

fun signal_type_of_inbound :: "InboundCiphertextType \<Rightarrow> SignalCiphertextType" where
  "signal_type_of_inbound InMessage = SigMessage"
| "signal_type_of_inbound InPreKey = SigPreKey"
| "signal_type_of_inbound InSenderKey = SigSenderKey"

record SignalCiphertext =
  sc_type :: SignalCiphertextType
  sc_ciphertext :: bytes

record MessageEncryption =
  me_type :: MessageCiphertextType
  me_ciphertext :: bytes

record InboundEncryptedPayload =
  ip_sender_jid :: string
  ip_chat_jid :: string
  ip_type :: InboundCiphertextType
  ip_ciphertext :: bytes

record SignalEncryptionRequest =
  er_recipient_jid :: string
  er_plaintext :: bytes
  er_session :: "SignalSessionInfo option"

record SignalDecryptionRequest =
  dr_payload :: InboundEncryptedPayload
  dr_session :: "SignalSessionInfo option"
  dr_sender_key_distribution :: "bytes option"

record SignalSenderKeyDistribution =
  sd_author_jid :: string
  sd_group_jid :: string
  sd_distribution :: bytes

text \<open>The provider without its store: the signature check and the own JID for group messages.\<close>

record StoreSignalSenderKeyProvider =
  pv_verifier :: verifier
  pv_local_sender_jid :: "string option"

definition with_local_sender_jid ::
  "StoreSignalSenderKeyProvider \<Rightarrow> string \<Rightarrow> StoreSignalSenderKeyProvider core_result" where
  "with_local_sender_jid P local_sender_jid =
     and_then (normalize_signal_session_jid local_sender_jid) (\<lambda>local_sender_jid.
     and_then (validate_sender_key_jid ''local sender-key sender JID'' local_sender_jid) (\<lambda>_.
     Ok (P\<lparr>pv_local_sender_jid := Some local_sender_jid\<rparr>)))"

text \<open>The random values one encryption may draw.\<close>

record message_randomness =
  mr_base :: bytes
  mr_ratchet :: bytes
  mr_sending :: bytes
  mr_signature :: bytes

text \<open>One \<open>await?\<close> after another: the store is threaded, the first error ends the call.\<close>

definition step_then ::
  "'a core_result \<times> MemoryAuthStore \<Rightarrow> ('a \<Rightarrow> MemoryAuthStore \<Rightarrow> 'b core_result \<times> MemoryAuthStore) \<Rightarrow>
     'b core_result \<times> MemoryAuthStore" where
  "step_then out f = (case out of (Inl e, st) \<Rightarrow> (Inl e, st) | (Inr x, st) \<Rightarrow> f x st)"

lemma step_then_simps [simp]:
  "step_then (Inl e, st) f = (Inl e, st)" "step_then (Inr x, st) f = f x st"
  by (simp_all add: step_then_def)

section \<open>Direct messages\<close>

definition encrypt_direct_signal_message ::
  "ext \<Rightarrow> StoreSignalSenderKeyProvider \<Rightarrow> message_randomness \<Rightarrow> MemoryAuthStore \<Rightarrow> string \<Rightarrow> bytes \<Rightarrow>
     SignalSessionInfo option \<Rightarrow> SignalCiphertext core_result \<times> MemoryAuthStore" where
  "encrypt_direct_signal_message X P rnd st recipient_jid plaintext session =
     step_then (encrypt_existing_session_record_message X (mr_sending rnd) st recipient_jid plaintext)
       (\<lambda>existing st. case existing of
         Some encrypted \<Rightarrow> (Ok \<lparr>sc_type = SigMessage, sc_ciphertext = se_message_bytes encrypted\<rparr>, st)
       | None \<Rightarrow>
     step_then (ok_or session (Protocol
         (''missing Signal session for one-to-one recipient: '' @ recipient_jid)), st) (\<lambda>session st.
     step_then (load_local_key_material st) (\<lambda>material st.
     step_then (ok_or material
         (Protocol ''missing local Signal key material for one-to-one encryption''), st) (\<lambda>material st.
     step_then (encrypt_signal_outbound_pre_key_session_message X (pv_verifier P) (mr_ratchet rnd)
         (mr_sending rnd) material (generate_key_pair X (mr_base rnd)) (si_session session) plaintext, st)
       (\<lambda>encrypted st.
     step_then (store_session_and_identity_records X st recipient_jid (pe_record encrypted)
         (ses_identity_key (si_session session))) (\<lambda>_ st.
     (Ok \<lparr>sc_type = SigPreKey, sc_ciphertext = pe_message_bytes encrypted\<rparr>, st)))))))"

definition validate_replay_signed_pre_key_id ::
  "MemoryAuthStore \<Rightarrow> SignalPreKeyWhisperMessage \<Rightarrow> unit core_result \<times> MemoryAuthStore" where
  "validate_replay_signed_pre_key_id st m =
     step_then (load_local_key_material st) (\<lambda>material st. case material of
       None \<Rightarrow> (Ok (), st)
     | Some k \<Rightarrow>
         if pm_signed_pre_key_id m \<noteq> ls_key_id (lk_signed_pre_key k)
         then (Err (Protocol (''Signal signed pre-key id mismatch: message '' @
           show_nat (unat (pm_signed_pre_key_id m)) @ '', local '' @
           show_nat (unat (ls_key_id (lk_signed_pre_key k))))), st)
         else (Ok (), st))"

text \<open>
  A pre-key message that belongs to a session that is already open: the inner message is decrypted
  in that session. The source has this function twice, for a one-time pre-key that is gone and for
  a bundle without one; the two bodies are the same.
\<close>

definition decrypt_with_existing_session ::
  "ext \<Rightarrow> MemoryAuthStore \<Rightarrow> string \<Rightarrow> SignalPreKeyWhisperMessage \<Rightarrow> bytes \<Rightarrow>
     bytes option core_result \<times> MemoryAuthStore" where
  "decrypt_with_existing_session X st sender_jid m inner_message_bytes =
     step_then (load_session_record st sender_jid, st) (\<lambda>stored st.
     case Option.bind stored (\<lambda>s. ok (decode_signal_provider_session_record X s)) of
       None \<Rightarrow> (Ok None, st)
     | Some r \<Rightarrow>
         step_then (normalize_signal_public_key (pm_base_key m), st) (\<lambda>base_key st.
         if sr_inbound_base_key r \<noteq> Some base_key then (Ok None, st)
         else
           step_then (load_identity_record st sender_jid, st) (\<lambda>identity st.
           step_then (ok_or identity (Protocol ''no provider identity''), st) (\<lambda>identity st.
           step_then (normalize_signal_public_key identity, st) (\<lambda>stored_identity st.
           step_then (normalize_signal_public_key (pm_identity_key m), st) (\<lambda>message_identity st.
           if stored_identity \<noteq> message_identity
           then step_then (signal_protocol_address sender_jid, st) (\<lambda>address st.
             (Err (identity_changed (address_string address)), st))
           else
             step_then (validate_replay_signed_pre_key_id st m) (\<lambda>_ st.
             step_then (decrypt_session_record_message X st sender_jid inner_message_bytes) (\<lambda>d st.
             (Ok (Some (sd_plaintext d)), st)))))))))"

definition decrypt_missing_pre_key_with_existing_session ::
  "ext \<Rightarrow> MemoryAuthStore \<Rightarrow> string \<Rightarrow> SignalPreKeyWhisperMessage \<Rightarrow> bytes \<Rightarrow>
     bytes option core_result \<times> MemoryAuthStore" where
  "decrypt_missing_pre_key_with_existing_session = decrypt_with_existing_session"

definition decrypt_signed_pre_key_replay_with_existing_session ::
  "ext \<Rightarrow> MemoryAuthStore \<Rightarrow> string \<Rightarrow> SignalPreKeyWhisperMessage \<Rightarrow> bytes \<Rightarrow>
     bytes option core_result \<times> MemoryAuthStore" where
  "decrypt_signed_pre_key_replay_with_existing_session = decrypt_with_existing_session"

text \<open>The part of \<open>decrypt_direct_signal_message\<close> that opens a new session.\<close>

definition decrypt_new_session ::
  "ext \<Rightarrow> MemoryAuthStore \<Rightarrow> string \<Rightarrow> SignalLocalPreKey option \<Rightarrow> SignalPreKeyWhisperMessage \<Rightarrow>
     SignalWhisperMessageFrame \<Rightarrow> bytes core_result \<times> MemoryAuthStore" where
  "decrypt_new_session X st sender_jid pre_key m frame =
     step_then (load_local_key_material st) (\<lambda>material st.
     step_then (ok_or material (Protocol ''missing local Signal key material for pre-key decrypt''), st)
       (\<lambda>material st.
     step_then (decrypt_signal_inbound_pre_key_session_decoded X material pre_key m frame, st) (\<lambda>d st.
     step_then (store_inbound_pre_key_session_records X st sender_jid (pm_pre_key_id (pd_message d))
       (pd_record d) (pm_identity_key (pd_message d))) (\<lambda>_ st.
     (Ok (pd_plaintext d), st)))))"

definition decrypt_direct_signal_message ::
  "ext \<Rightarrow> MemoryAuthStore \<Rightarrow> InboundEncryptedPayload \<Rightarrow> bytes core_result \<times> MemoryAuthStore" where
  "decrypt_direct_signal_message X st payload = (case ip_type payload of
     InMessage \<Rightarrow>
       step_then (decrypt_session_record_message X st (ip_sender_jid payload) (ip_ciphertext payload))
         (\<lambda>d st. (Ok (sd_plaintext d), st))
   | InPreKey \<Rightarrow>
       step_then (decode_signal_pre_key_whisper_message_frame X (ip_ciphertext payload), st)
         (\<lambda>(m, frame) st. case pm_pre_key_id m of
           Some pre_key_id \<Rightarrow>
             step_then (load_local_pre_key st pre_key_id) (\<lambda>pre_key st. case pre_key of
               Some pre_key \<Rightarrow> decrypt_new_session X st (ip_sender_jid payload) (Some pre_key) m frame
             | None \<Rightarrow>
                 step_then (decrypt_missing_pre_key_with_existing_session X st (ip_sender_jid payload) m
                   (to_framed_bytes frame)) (\<lambda>plaintext st. case plaintext of
                   Some p \<Rightarrow> (Ok p, st)
                 | None \<Rightarrow> (Err (Protocol (''missing local Signal one-time pre-key '' @
                     pre_key_name pre_key_id)), st)))
         | None \<Rightarrow>
             step_then (decrypt_signed_pre_key_replay_with_existing_session X st (ip_sender_jid payload) m
               (to_framed_bytes frame)) (\<lambda>plaintext st. case plaintext of
               Some p \<Rightarrow> (Ok p, st)
             | None \<Rightarrow> decrypt_new_session X st (ip_sender_jid payload) None m frame))
   | InSenderKey \<Rightarrow> (Err (Protocol ''direct Signal decrypt received sender-key payload''), st))"

section \<open>The provider\<close>

definition load_or_create_sender_key_distribution ::
  "ext \<Rightarrow> u32 \<Rightarrow> bytes \<Rightarrow> bytes \<Rightarrow> StoreSignalSenderKeyProvider \<Rightarrow> MemoryAuthStore \<Rightarrow> string \<Rightarrow>
     SignalSenderKeyDistributionRecord core_result \<times> MemoryAuthStore" where
  "load_or_create_sender_key_distribution X key_id chain_key signing_rnd P st group_jid =
     step_then (ok_or (pv_local_sender_jid P)
       (Protocol ''store sender-key provider requires local sender JID for distribution''), st)
       (\<lambda>local_sender_jid st.
     load_or_create_sender_key_distribution_record X key_id chain_key signing_rnd st local_sender_jid group_jid)"

definition encrypt_signal_message ::
  "ext \<Rightarrow> StoreSignalSenderKeyProvider \<Rightarrow> message_randomness \<Rightarrow> MemoryAuthStore \<Rightarrow>
     SignalEncryptionRequest \<Rightarrow> SignalCiphertext core_result \<times> MemoryAuthStore" where
  "encrypt_signal_message X P rnd st request =
     step_then (normalize_signal_session_jid (er_recipient_jid request), st) (\<lambda>recipient_jid st.
     step_then (ok_or (jid_decode recipient_jid)
       (Protocol (''invalid Signal recipient JID: '' @ recipient_jid)), st) (\<lambda>decoded st.
     if jid_server decoded \<noteq> GUs
     then encrypt_direct_signal_message X P rnd st recipient_jid (er_plaintext request) (er_session request)
     else
       step_then (ok_or (pv_local_sender_jid P)
         (Protocol ''store sender-key provider requires local sender JID for group encryption''), st)
         (\<lambda>local_sender_jid st.
       step_then (sender_key_store_key local_sender_jid recipient_jid, st) (\<lambda>key st.
       step_then (encrypt_sender_key_record_message X (mr_signature rnd) st key (er_plaintext request))
         (\<lambda>e st. (Ok \<lparr>sc_type = SigSenderKey, sc_ciphertext = ske_message_bytes e\<rparr>, st))))))"

definition decrypt_signal_message ::
  "ext \<Rightarrow> StoreSignalSenderKeyProvider \<Rightarrow> MemoryAuthStore \<Rightarrow> SignalDecryptionRequest \<Rightarrow>
     bytes core_result \<times> MemoryAuthStore" where
  "decrypt_signal_message X P st request =
     step_then (normalize_signal_session_jid (ip_sender_jid (dr_payload request)), st) (\<lambda>sender_jid st.
     let payload = dr_payload request\<lparr>ip_sender_jid := sender_jid\<rparr> in
     if ip_type payload \<noteq> InSenderKey then decrypt_direct_signal_message X st payload
     else
       step_then (sender_key_store_key sender_jid (ip_chat_jid payload), st) (\<lambda>key st.
       case decrypt_sender_key_record_message X (pv_verifier P) st key (ip_ciphertext payload) of
         (Inr d, st) \<Rightarrow> (Ok (skd_plaintext d), st)
       | (Inl e, st) \<Rightarrow>
           (case Option.bind (dr_sender_key_distribution request)
               (\<lambda>d. ok (decode_signal_sender_key_distribution_message X d)) of
              None \<Rightarrow> (Err e, st)
            | Some distribution \<Rightarrow>
                step_then (decrypt_sender_key_record_message_with_distribution_retry X (pv_verifier P)
                  st key (ip_ciphertext payload) distribution) (\<lambda>d st. (Ok (skd_plaintext d), st)))))"

definition provider_process_distribution ::
  "ext \<Rightarrow> MemoryAuthStore \<Rightarrow> SignalSenderKeyDistribution \<Rightarrow> unit core_result \<times> MemoryAuthStore" where
  "provider_process_distribution X st distribution =
     step_then (normalize_signal_session_jid (sd_author_jid distribution), st) (\<lambda>author_jid st.
     step_then (sender_key_store_key author_jid (sd_group_jid distribution), st) (\<lambda>key st.
     step_then (decode_signal_sender_key_distribution_message X (sd_distribution distribution), st)
       (\<lambda>d st.
     step_then (process_sender_key_distribution_record X st key d) (\<lambda>_ st. (Ok (), st)))))"

section \<open>The facade\<close>

definition encrypt_message ::
  "ext \<Rightarrow> StoreSignalSenderKeyProvider \<Rightarrow> message_randomness \<Rightarrow> MemoryAuthStore \<Rightarrow> string \<Rightarrow> bytes \<Rightarrow>
     MessageEncryption core_result \<times> MemoryAuthStore" where
  "encrypt_message X P rnd st recipient_jid plaintext =
     step_then (normalize_signal_session_jid recipient_jid, st) (\<lambda>recipient_jid st.
     step_then
       (if (case jid_decode recipient_jid of None \<Rightarrow> False | Some jid \<Rightarrow> jid_server jid = GUs)
        then (Ok None, st) else get_session_info st recipient_jid) (\<lambda>session st.
     step_then (encrypt_signal_message X P rnd st \<lparr>er_recipient_jid = recipient_jid,
       er_plaintext = plaintext, er_session = session\<rparr>) (\<lambda>e st.
     (Ok \<lparr>me_type = message_type_of_signal (sc_type e), me_ciphertext = sc_ciphertext e\<rparr>, st))))"

definition decrypt_inbound_message ::
  "ext \<Rightarrow> StoreSignalSenderKeyProvider \<Rightarrow> MemoryAuthStore \<Rightarrow> InboundEncryptedPayload \<Rightarrow>
     bytes core_result \<times> MemoryAuthStore" where
  "decrypt_inbound_message X P st payload =
     step_then (normalize_signal_session_jid (ip_sender_jid payload), st) (\<lambda>sender_jid st.
     let payload = payload\<lparr>ip_sender_jid := sender_jid\<rparr> in
     step_then (if ip_type payload = InSenderKey then (Ok None, st)
       else get_session_info st (ip_sender_jid payload)) (\<lambda>session st.
     step_then (if ip_type payload = InSenderKey
       then get_sender_key_distribution st (ip_sender_jid payload) (ip_chat_jid payload)
       else Ok None, st) (\<lambda>distribution st.
     decrypt_signal_message X P st \<lparr>dr_payload = payload, dr_session = session,
       dr_sender_key_distribution = distribution\<rparr>)))"

text \<open>The protobuf message that carries a distribution: its group and its payload.\<close>

record SenderKeyDistributionMessage =
  dm_group_id :: "string option"
  dm_axolotl :: "bytes option"

definition process_sender_key_distribution ::
  "ext \<Rightarrow> MemoryAuthStore \<Rightarrow> string \<Rightarrow> SenderKeyDistributionMessage \<Rightarrow>
     unit core_result \<times> MemoryAuthStore" where
  "process_sender_key_distribution X st author_jid message =
     step_then (normalize_signal_session_jid author_jid, st) (\<lambda>author_jid st.
     step_then (ok_or (dm_group_id message) (Protocol ''sender-key distribution missing group id''), st)
       (\<lambda>group_jid st.
     step_then (ok_or (dm_axolotl message) (Protocol ''sender-key distribution missing payload''), st)
       (\<lambda>distribution st.
     step_then (provider_process_distribution X st \<lparr>sd_author_jid = author_jid,
       sd_group_jid = group_jid, sd_distribution = distribution\<rparr>) (\<lambda>_ st.
     store_sender_key_distribution X st author_jid group_jid distribution))))"

end
