(* ===== verification/Utf8.thy ===== *)
theory Utf8
  imports StdText
begin

text \<open>
  How UTF-8 text splits and joins: the parts of a valid string around an ASCII separator are valid,
  and so is a concatenation of valid strings. The parsers of the program cut strings at such
  separators and never meet a broken one.
\<close>

abbreviation utf8 :: "bytes \<Rightarrow> bool" where
  "utf8 bs \<equiv> utf8_error 0 bs = None"

lemma utf8_Cons: "utf8 (b # bs) \<longleftrightarrow> (\<exists>w. utf8_sequence b bs = Inr w \<and> utf8 (drop (w - 1) bs))"
proof (cases "utf8_sequence b bs")
  case (Inr w)
  then show ?thesis using utf8_error_shift [of "0 + w" "drop (w - 1) bs" 0] by simp
qed simp

lemma utf8_tail_append:
  "utf8_tail k n xs = Inr () \<Longrightarrow> utf8_tail k n (xs @ ys) = Inr () \<and> k \<le> length xs"
  by (induction k n xs rule: utf8_tail.induct) (auto split: if_splits)

lemma utf8_tail_cut:
  "utf8_tail k n (xs @ c # ys) = Inr () \<Longrightarrow> \<not> utf8_continuation c \<Longrightarrow>
     utf8_tail k n xs = Inr () \<and> k \<le> length xs"
proof (induction k arbitrary: n xs)
  case (Suc k)
  then show ?case by (cases xs) (auto split: if_splits)
qed simp

lemma utf8_char_width_cases: "utf8_char_width b \<in> {0, 1, 2, 3, 4}"
  by (simp add: utf8_char_width_def Let_def)

lemma utf8_sequence_append:
  assumes "utf8_sequence b xs = Inr w"
  shows "utf8_sequence b (xs @ ys) = Inr w" "w - 1 \<le> length xs"
proof -
  have "utf8_sequence b (xs @ ys) = Inr w \<and> w - 1 \<le> length xs"
    using utf8_char_width_cases [of b] assms
    by (cases xs) (auto simp: utf8_sequence_def Let_def and_then_eq_Ok numeral_2_eq_2 numeral_3_eq_3
        dest: utf8_tail_append split: if_splits)
  then show "utf8_sequence b (xs @ ys) = Inr w" "w - 1 \<le> length xs" by auto
qed

lemma utf8_sequence_cut:
  assumes "utf8_sequence b (xs @ c # ys) = Inr w" "\<not> utf8_continuation c"
  shows "utf8_sequence b xs = Inr w"
  using utf8_char_width_cases [of b] assms
  by (cases xs) (auto simp: utf8_sequence_def utf8_second_def Let_def and_then_eq_Ok numeral_2_eq_2
      numeral_3_eq_3 dest: utf8_tail_cut split: if_splits)

lemma utf8_append: "utf8 xs \<Longrightarrow> utf8 (xs @ ys) \<longleftrightarrow> utf8 ys"
proof (induction "length xs" arbitrary: xs rule: less_induct)
  case less
  show ?case
  proof (cases xs)
    case (Cons b bs)
    with less.prems obtain w where w: "utf8_sequence b bs = Inr w" "utf8 (drop (w - 1) bs)"
      by (auto simp only: utf8_Cons)
    then have "utf8 (drop (w - 1) bs @ ys) \<longleftrightarrow> utf8 ys"
      using less.hyps Cons by simp
    then show ?thesis
      using utf8_sequence_append(1) [OF w(1), of ys] utf8_sequence_append(2) [OF w(1)] Cons by (simp del: utf8_error.simps add: utf8_Cons)
  qed simp
qed

lemma utf8_cut: "utf8 (xs @ c # ys) \<Longrightarrow> \<not> utf8_continuation c \<Longrightarrow> utf8 xs"
proof (induction "length xs" arbitrary: xs rule: less_induct)
  case less
  show ?case
  proof (cases xs)
    case (Cons b bs)
    with less.prems obtain w where w: "utf8_sequence b (bs @ c # ys) = Inr w" "utf8 (drop (w - 1) (bs @ c # ys))"
      by (auto simp only: utf8_Cons append_Cons)
    from utf8_sequence_cut [OF w(1) less.prems(2)] have s: "utf8_sequence b bs = Inr w" .
    with w(2) utf8_sequence_append(2) [OF s] have "utf8 (drop (w - 1) bs @ c # ys)"
      by simp
    with less.hyps less.prems(2) Cons have "utf8 (drop (w - 1) bs)" by simp
    with s Cons show ?thesis by (simp del: utf8_error.simps add: utf8_Cons)
  qed simp
qed

lemma bytes_of_append [simp]: "bytes_of (s @ t) = bytes_of s @ bytes_of t"
  by (simp add: bytes_of_def)

lemma bytes_of_Cons [simp]: "bytes_of (c # s) = byte_of_char c # bytes_of s"
  by (simp add: bytes_of_def)

lemma str_ok_append: "str_ok s \<Longrightarrow> str_ok (s @ t) \<longleftrightarrow> str_ok t"
  by (simp add: str_ok_def utf8_append)

lemma str_ok_split:
  assumes "(of_char c :: nat) < 128"
  shows "str_ok (s @ c # t) \<longleftrightarrow> str_ok s \<and> str_ok t"
proof -
  have u: "unat (byte_of_char c) < 128"
    using assms by (simp add: byte_of_char_def unat_of_nat take_bit_nat_eq_self)
  then have c: "\<not> utf8_continuation (byte_of_char c)" by (simp add: utf8_continuation_def)
  have one: "utf8 (byte_of_char c # bs) \<longleftrightarrow> utf8 bs" for bs
    using u by (simp add: utf8_Cons utf8_sequence_def utf8_char_width_def Let_def del: utf8_error.simps)
  show ?thesis
  proof
    assume "str_ok (s @ c # t)"
    then have all: "utf8 (bytes_of s @ byte_of_char c # bytes_of t)" by (simp add: str_ok_def del: utf8_error.simps)
    then have "utf8 (bytes_of s)" using c by (rule utf8_cut)
    with all show "str_ok s \<and> str_ok t"
      by (simp add: str_ok_def utf8_append one del: utf8_error.simps)
  next
    assume "str_ok s \<and> str_ok t"
    then show "str_ok (s @ c # t)"
      by (simp add: str_ok_def utf8_append one del: utf8_error.simps)
  qed
qed

lemma str_ok_Cons: "(of_char c :: nat) < 128 \<Longrightarrow> str_ok (c # t) \<longleftrightarrow> str_ok t"
  using str_ok_split [of c "[]" t] by simp

end
