(* ===== verification/Codec.thy ===== *)
theory Codec
  imports Tokens Jid Utf8
begin

unbundle bit_operations_syntax

text \<open>
  The stanza codec of \<^verbatim>\<open>crates/wa-binary/src/codec.rs\<close>. The encoder returns the bytes it appends;
  the decoder's \<open>Cursor\<close> is the list of bytes it has still to read. Decompression is a foreign
  library and a parameter, \<open>inflate\<close>.
\<close>

definition LIST_EMPTY :: u8 where "LIST_EMPTY = 0"
definition AD_JID :: u8 where "AD_JID = 247"
definition DICTIONARY_0 :: u8 where "DICTIONARY_0 = 236"
definition DICTIONARY_3 :: u8 where "DICTIONARY_3 = 239"
definition LIST_8 :: u8 where "LIST_8 = 248"
definition LIST_16 :: u8 where "LIST_16 = 249"
definition JID_PAIR :: u8 where "JID_PAIR = 250"
definition HEX_8 :: u8 where "HEX_8 = 251"
definition BINARY_8 :: u8 where "BINARY_8 = 252"
definition BINARY_20 :: u8 where "BINARY_20 = 253"
definition BINARY_32 :: u8 where "BINARY_32 = 254"
definition NIBBLE_8 :: u8 where "NIBBLE_8 = 255"
definition PACKED_MAX :: nat where "PACKED_MAX = 127"

lemmas tag_defs = LIST_EMPTY_def AD_JID_def DICTIONARY_0_def DICTIONARY_3_def LIST_8_def LIST_16_def
  JID_PAIR_def HEX_8_def BINARY_8_def BINARY_20_def BINARY_32_def NIBBLE_8_def

section \<open>Encoding\<close>

definition write_list_start :: "nat \<Rightarrow> BinaryEncodeError + bytes" where
  "write_list_start len =
     (if len = 0 then Ok [LIST_EMPTY]
      else if len < 256 then Ok [LIST_8, word_of_nat len]
      else if len \<le> 65535 then Ok (LIST_16 # put_u16 (word_of_nat len))
      else Err (ListTooLarge len))"

definition write_byte_length :: "nat \<Rightarrow> BinaryEncodeError + bytes" where
  "write_byte_length len =
     (if len \<ge> 4294967295 then Err (StringTooLarge len)
      else if len \<ge> 2 ^ 20 then Ok (BINARY_32 # put_u32 (word_of_nat len))
      else if len \<ge> 256 then
        Ok [BINARY_20, word_of_nat (drop_bit 16 len AND 15), word_of_nat (drop_bit 8 len AND 255),
            word_of_nat (len AND 255)]
      else Ok [BINARY_8, word_of_nat len])"

definition write_raw_string :: "string \<Rightarrow> BinaryEncodeError + bytes" where
  "write_raw_string v = and_then (write_byte_length (length v)) (\<lambda>len. Ok (len @ bytes_of v))"

datatype PackedKind = Nibble | Hex

definition is_ascii_digit :: "char \<Rightarrow> bool" where
  "is_ascii_digit c \<longleftrightarrow> 48 \<le> (of_char c :: nat) \<and> (of_char c :: nat) \<le> 57"

definition is_nibble :: "string \<Rightarrow> bool" where
  "is_nibble v \<longleftrightarrow> length v \<le> PACKED_MAX \<and>
     list_all (\<lambda>c. is_ascii_digit c \<or> c = CHR ''-'' \<or> c = CHR ''.'') v"

definition is_hex :: "string \<Rightarrow> bool" where
  "is_hex v \<longleftrightarrow> length v \<le> PACKED_MAX \<and>
     list_all (\<lambda>c. is_ascii_digit c \<or> (65 \<le> (of_char c :: nat) \<and> (of_char c :: nat) \<le> 70)) v"

definition pack_nibble :: "char \<Rightarrow> BinaryEncodeError + u8" where
  "pack_nibble c =
     (if c = CHR ''-'' then Ok 10
      else if c = CHR ''.'' then Ok 11
      else if c = CHR 0x00 then Ok 15
      else if is_ascii_digit c then Ok (byte_of_char c - 48)
      else Err (InvalidNibble c))"

definition pack_hex :: "char \<Rightarrow> BinaryEncodeError + u8" where
  "pack_hex c = (let n = (of_char c :: nat) in
     if is_ascii_digit c then Ok (byte_of_char c - 48)
     else if 65 \<le> n \<and> n \<le> 70 then Ok (10 + byte_of_char c - 65)
     else if 97 \<le> n \<and> n \<le> 102 then Ok (10 + byte_of_char c - 97)
     else if c = CHR 0x00 then Ok 15
     else Err (InvalidHex c))"

fun pack_char :: "PackedKind \<Rightarrow> char \<Rightarrow> BinaryEncodeError + u8" where
  "pack_char Nibble = pack_nibble"
| "pack_char Hex = pack_hex"

definition pack_pair :: "PackedKind \<Rightarrow> char \<Rightarrow> char \<Rightarrow> BinaryEncodeError + u8" where
  "pack_pair kind first second =
     and_then (pack_char kind first) (\<lambda>a. and_then (pack_char kind second) (\<lambda>b. Ok (push_bit 4 a OR b)))"

text \<open>The loop over the characters two by two; an odd last one is paired with the zero character.\<close>

fun pack_chars :: "PackedKind \<Rightarrow> string \<Rightarrow> BinaryEncodeError + bytes" where
  "pack_chars kind [] = Ok []"
| "pack_chars kind [first] = and_then (pack_pair kind first (CHR 0x00)) (\<lambda>b. Ok [b])"
| "pack_chars kind (first # second # rest) =
     and_then (pack_pair kind first second) (\<lambda>b. and_then (pack_chars kind rest) (\<lambda>bs. Ok (b # bs)))"

definition write_packed :: "string \<Rightarrow> PackedKind \<Rightarrow> BinaryEncodeError + bytes" where
  "write_packed v kind =
     (if length v > PACKED_MAX then write_raw_string v
      else
        let tag = (case kind of Nibble \<Rightarrow> NIBBLE_8 | Hex \<Rightarrow> HEX_8);
            rounded = word_of_nat ((length v + 1) div 2);
            rounded = (if odd (length v) then rounded OR 128 else rounded)
        in and_then (pack_chars kind v) (\<lambda>bs. Ok (tag # rounded # bs)))"

lemma jid_decode_shorter: "jid_decode v = Some jid \<Longrightarrow> length (jid_user jid) < length v"
  by (auto simp: jid_decode_def split_once_Some Let_def split: option.splits prod.splits)

function write_string :: "string \<Rightarrow> BinaryEncodeError + bytes" where
  "write_string v =
     (if v = [] then write_raw_string v
      else case token_for v of
        Some token \<Rightarrow>
          (case tk_dict token of Some dict \<Rightarrow> Ok [DICTIONARY_0 + dict, tk_index token]
           | None \<Rightarrow> Ok [tk_index token])
      | None \<Rightarrow>
          if is_nibble v then write_packed v Nibble
          else if is_hex v then write_packed v Hex
          else (case jid_decode v of
            Some jid \<Rightarrow>
              (case jid_device jid of
                 Some device \<Rightarrow> and_then (write_string (jid_user jid)) (\<lambda>user.
                   Ok ([AD_JID, word_of_nat (domain_code (jid_domain_type jid)), ucast device] @ user))
               | None \<Rightarrow>
                   and_then (if jid_user jid = [] then Ok [LIST_EMPTY] else write_string (jid_user jid))
                     (\<lambda>user. and_then (write_raw_string (jid_server_raw jid)) (\<lambda>server.
                   Ok (JID_PAIR # user @ server))))
          | None \<Rightarrow> write_raw_string v))"
  by pat_completeness auto
termination by (relation "measure length") (auto dest: jid_decode_shorter)

declare write_string.simps [simp del]

fun write_attrs :: "(string, string) btree \<Rightarrow> BinaryEncodeError + bytes" where
  "write_attrs [] = Ok []"
| "write_attrs ((key, val) # attrs) =
     and_then (write_string key) (\<lambda>k. and_then (write_string val) (\<lambda>v.
     and_then (write_attrs attrs) (\<lambda>rest. Ok (k @ v @ rest))))"

definition write_byte_content :: "bytes \<Rightarrow> BinaryEncodeError + bytes" where
  "write_byte_content v = and_then (write_byte_length (length v)) (\<lambda>len. Ok (len @ v))"

fun encode_node_inner :: "BinaryNode \<Rightarrow> BinaryEncodeError + bytes"
  and encode_content :: "BinaryNodeContent option \<Rightarrow> BinaryEncodeError + bytes"
  and encode_children :: "BinaryNode list \<Rightarrow> BinaryEncodeError + bytes" where
  "encode_node_inner (BinaryNode tag attrs content) =
     (if tag = [] then Err EmptyTag
      else
        and_then (write_list_start (1 + length attrs * 2 + (if content = None then 0 else 1))) (\<lambda>start.
        and_then (write_string tag) (\<lambda>t.
        and_then (write_attrs attrs) (\<lambda>a.
        and_then (encode_content content) (\<lambda>c. Ok (start @ t @ a @ c))))))"
| "encode_content None = Ok []"
| "encode_content (Some (Nodes nodes)) =
     and_then (write_list_start (length nodes)) (\<lambda>start.
     and_then (encode_children nodes) (\<lambda>children. Ok (start @ children)))"
| "encode_content (Some (Text v)) = write_string v"
| "encode_content (Some (Bytes v)) = write_byte_content v"
| "encode_children [] = Ok []"
| "encode_children (node # nodes) =
     and_then (encode_node_inner node) (\<lambda>n. and_then (encode_children nodes) (\<lambda>ns. Ok (n @ ns)))"

definition encode_binary_node :: "BinaryNode \<Rightarrow> BinaryEncodeError + bytes" where
  "encode_binary_node node = and_then (encode_node_inner node) (\<lambda>bs. Ok (0 # bs))"

end
