(* ===== verification/CodecDecode.thy ===== *)
theory CodecDecode
  imports Codec
begin

text \<open>
  The decoder of \<^verbatim>\<open>crates/wa-binary/src/codec.rs\<close>. A reader takes the bytes from the cursor on and
  returns its value with the bytes that are left. The two recursive readers, of strings and of
  nodes, are shown to end on every input: each call they make starts after at least one more byte.
\<close>

type_synonym 'a read_result = "BinaryDecodeError + 'a \<times> bytes"

section \<open>The cursor\<close>

fun read_u8 :: "bytes \<Rightarrow> u8 read_result" where
  "read_u8 [] = Err EndOfStream"
| "read_u8 (b # bs) = Ok (b, bs)"

definition read_bytes :: "nat \<Rightarrow> bytes \<Rightarrow> bytes read_result" where
  "read_bytes len bs = (if len \<le> length bs then Ok (take len bs, drop len bs) else Err EndOfStream)"

fun read_int_loop :: "nat \<Rightarrow> nat \<Rightarrow> bytes \<Rightarrow> nat read_result" where
  "read_int_loop 0 acc bs = Ok (acc, bs)"
| "read_int_loop (Suc n) acc bs =
     and_then (read_u8 bs) (\<lambda>(b, bs). read_int_loop n (push_bit 8 acc OR unat b) bs)"

definition read_int :: "nat \<Rightarrow> bytes \<Rightarrow> nat read_result" where
  "read_int len bs = read_int_loop len 0 bs"

definition read_int20 :: "bytes \<Rightarrow> nat read_result" where
  "read_int20 bs =
     and_then (read_u8 bs) (\<lambda>(b1, bs).
     and_then (read_u8 bs) (\<lambda>(b2, bs).
     and_then (read_u8 bs) (\<lambda>(b3, bs).
     Ok (push_bit 16 (unat (b1 AND 15)) OR push_bit 8 (unat b2) OR unat b3, bs))))"

definition is_list_tag :: "u8 \<Rightarrow> bool" where
  "is_list_tag tag \<longleftrightarrow> tag \<in> {LIST_EMPTY, LIST_8, LIST_16}"

definition is_binary_tag :: "u8 \<Rightarrow> bool" where
  "is_binary_tag tag \<longleftrightarrow> tag \<in> {BINARY_8, BINARY_20, BINARY_32}"

definition read_list_size :: "u8 \<Rightarrow> bytes \<Rightarrow> nat read_result" where
  "read_list_size tag bs =
     (if tag = LIST_EMPTY then Ok (0, bs)
      else if tag = LIST_8 then and_then (read_u8 bs) (\<lambda>(n, bs). Ok (unat n, bs))
      else if tag = LIST_16 then read_int 2 bs
      else Err (InvalidListTag tag))"

definition read_binary_for_tag :: "u8 \<Rightarrow> bytes \<Rightarrow> bytes read_result" where
  "read_binary_for_tag tag bs =
     and_then
       (if tag = BINARY_8 then and_then (read_u8 bs) (\<lambda>(n, bs). Ok (unat n, bs))
        else if tag = BINARY_20 then read_int20 bs
        else if tag = BINARY_32 then read_int 4 bs
        else Err (InvalidStringTag tag))
       (\<lambda>(len, bs). read_bytes len bs)"

section \<open>Packed strings\<close>

definition unpack_byte :: "u8 \<Rightarrow> u8 \<Rightarrow> BinaryDecodeError + char" where
  "unpack_byte tag v =
     (if tag = NIBBLE_8 then
        (if v \<le> 9 then Ok (char_of_byte (48 + v))
         else if v = 10 then Ok (CHR ''-'')
         else if v = 11 then Ok (CHR ''.'')
         else if v = 15 then Ok (CHR 0x00)
         else Err InvalidPackedByte)
      else if tag = HEX_8 then
        (if v \<le> 9 then Ok (char_of_byte (48 + v))
         else if 10 \<le> v \<and> v \<le> 15 then Ok (char_of_byte (65 + v - 10))
         else Err InvalidPackedByte)
      else Err InvalidPackedByte)"

fun read_packed_loop :: "u8 \<Rightarrow> nat \<Rightarrow> bytes \<Rightarrow> string read_result" where
  "read_packed_loop tag 0 bs = Ok ([], bs)"
| "read_packed_loop tag (Suc n) bs =
     and_then (read_u8 bs) (\<lambda>(byte, bs).
     and_then (unpack_byte tag (drop_bit 4 (byte AND 240))) (\<lambda>hi.
     and_then (unpack_byte tag (byte AND 15)) (\<lambda>lo.
     and_then (read_packed_loop tag n bs) (\<lambda>(out, bs). Ok (hi # lo # out, bs)))))"

definition read_packed :: "u8 \<Rightarrow> bytes \<Rightarrow> string read_result" where
  "read_packed tag bs =
     and_then (read_u8 bs) (\<lambda>(start, bs).
     and_then (read_packed_loop tag (unat (start AND 127)) bs) (\<lambda>(out, bs).
     Ok (if drop_bit 7 start \<noteq> 0 then butlast out else out, bs)))"

section \<open>How much a reader reads\<close>

named_theorems read_shorter

lemma read_u8_Ok: "read_u8 bs = Inr (b, rest) \<longleftrightarrow> bs = b # rest"
  by (cases bs) auto

lemma read_u8_shorter [read_shorter]: "read_u8 bs = Inr (b, rest) \<Longrightarrow> length rest < length bs"
  by (auto simp: read_u8_Ok)

lemma read_bytes_shorter [read_shorter]: "read_bytes n bs = Inr (v, rest) \<Longrightarrow> length rest \<le> length bs"
  by (auto simp: read_bytes_def split: if_splits)

lemma read_int_loop_shorter: "read_int_loop n acc bs = Inr (v, rest) \<Longrightarrow> length rest \<le> length bs"
  by (induction n arbitrary: acc bs) (fastforce simp: and_then_eq_Ok read_u8_Ok)+

lemma read_list_size_shorter [read_shorter]:
  "read_list_size tag bs = Inr (v, rest) \<Longrightarrow> length rest \<le> length bs"
  by (auto simp: read_list_size_def read_int_def and_then_eq_Ok read_u8_Ok
      dest: read_int_loop_shorter split: if_splits)

lemma read_binary_shorter [read_shorter]:
  assumes "read_binary_for_tag tag bs = Inr (v, rest)"
  shows "length rest \<le> length bs"
proof -
  from assms obtain len mid where
    len: "(if tag = BINARY_8 then and_then (read_u8 bs) (\<lambda>(n, bs). Ok (unat n, bs))
        else if tag = BINARY_20 then read_int20 bs
        else if tag = BINARY_32 then read_int 4 bs
        else Err (InvalidStringTag tag)) = Inr (len, mid)" and "read_bytes len mid = Inr (v, rest)"
    by (auto simp: read_binary_for_tag_def and_then_eq_Ok)
  then have "length rest \<le> length mid" by (auto dest: read_shorter)
  also have "length mid \<le> length bs"
    using len by (auto simp: read_int20_def read_int_def and_then_eq_Ok read_u8_Ok
        dest: read_int_loop_shorter split: if_splits)
  finally show ?thesis .
qed

lemma read_packed_loop_shorter: "read_packed_loop tag n bs = Inr (v, rest) \<Longrightarrow> length rest \<le> length bs"
  by (induction n arbitrary: bs v) (fastforce simp: and_then_eq_Ok read_u8_Ok)+

lemma read_packed_shorter [read_shorter]: "read_packed tag bs = Inr (v, rest) \<Longrightarrow> length rest \<le> length bs"
  by (auto simp: read_packed_def and_then_eq_Ok read_u8_Ok dest: read_packed_loop_shorter)

section \<open>Strings\<close>

definition ad_jid_domain :: "u8 \<Rightarrow> WaJidDomain" where
  "ad_jid_domain domain =
     (if domain = 1 then DomLid else if domain = 128 then DomHosted
      else if domain = 129 then DomHostedLid else DomWhatsApp)"

text \<open>\<open>read_string\<close> with \<open>read_jid_pair\<close> and \<open>read_ad_jid\<close>, which call it back.\<close>

function read_string :: "u8 \<Rightarrow> bytes \<Rightarrow> string read_result"
  and read_jid_pair :: "bytes \<Rightarrow> string read_result"
  and read_ad_jid :: "bytes \<Rightarrow> string read_result" where
  "read_string tag bs =
     (case if 1 \<le> tag then single_token tag else None of
        Some token \<Rightarrow> Ok (token, bs)
      | None \<Rightarrow>
          if DICTIONARY_0 \<le> tag \<and> tag \<le> DICTIONARY_3 then
            and_then (read_u8 bs) (\<lambda>(index, bs).
            and_then (ok_or (double_token (tag - DICTIONARY_0) index) (InvalidStringTag tag)) (\<lambda>token.
            Ok (token, bs)))
          else if tag = LIST_EMPTY then Ok ([], bs)
          else if is_binary_tag tag then
            and_then (read_binary_for_tag tag bs) (\<lambda>(v, bs).
            and_then (map_err (\<lambda>_. InvalidUtf8) (string_from_utf8 v)) (\<lambda>s. Ok (s, bs)))
          else if tag = JID_PAIR then read_jid_pair bs
          else if tag = AD_JID then read_ad_jid bs
          else if tag = HEX_8 \<or> tag = NIBBLE_8 then read_packed tag bs
          else Err (InvalidStringTag tag))"
| "read_jid_pair bs =
     and_then (read_u8 bs) (\<lambda>(user_tag, bs).
     and_then (read_string user_tag bs) (\<lambda>(user, bs).
     and_then (read_u8 bs) (\<lambda>(server_tag, bs).
     and_then (read_string server_tag bs) (\<lambda>(server, bs).
     if server = [] then Err InvalidJidPair else Ok (user @ ''@'' @ server, bs)))))"
| "read_ad_jid bs =
     and_then (read_u8 bs) (\<lambda>(domain, bs).
     and_then (read_u8 bs) (\<lambda>(device, bs).
     and_then (read_u8 bs) (\<lambda>(user_tag, bs).
     and_then (read_string user_tag bs) (\<lambda>(user, bs).
     Ok (jid_encode user (domain_server (ad_jid_domain domain) SWhatsAppNet) (Some (ucast device)) None,
         bs)))))"
  by pat_completeness auto

lemma read_string_shorter_dom:
  "read_string_read_jid_pair_read_ad_jid_dom (Inl (tag, bs)) \<Longrightarrow>
     read_string tag bs = Inr (v, rest) \<Longrightarrow> length rest \<le> length bs"
  "read_string_read_jid_pair_read_ad_jid_dom (Inr (Inl bs)) \<Longrightarrow>
     read_jid_pair bs = Inr (v, rest) \<Longrightarrow> length rest \<le> length bs"
  "read_string_read_jid_pair_read_ad_jid_dom (Inr (Inr bs)) \<Longrightarrow>
     read_ad_jid bs = Inr (v, rest) \<Longrightarrow> length rest \<le> length bs"
proof (induction tag bs and bs and bs arbitrary: v rest and v rest and v rest
    rule: read_string_read_jid_pair_read_ad_jid.pinduct)
  case (1 tag bs)
  then show ?case
    by (auto simp: read_string.psimps and_then_eq_Ok result_simps dest: read_shorter
        split: option.splits if_splits)
next
  case (2 bs)
  from 2(4) obtain t bs1 user bs2 t' bs3 server where
    r: "read_u8 bs = Inr (t, bs1)" "read_string t bs1 = Inr (user, bs2)" "read_u8 bs2 = Inr (t', bs3)"
      "read_string t' bs3 = Inr (server, rest)"
    by (auto simp: read_jid_pair.psimps [OF 2(1)] and_then_eq_Ok split: if_splits)
  from 2(2) [OF r(1) refl r(2)] 2(3) [OF r(1) refl r(2) refl r(3) refl r(4)] r(1,3)
  show ?case by (auto simp: read_u8_Ok)
next
  case (3 bs)
  from 3(3) obtain d bs1 e bs2 t bs3 user where
    r: "read_u8 bs = Inr (d, bs1)" "read_u8 bs1 = Inr (e, bs2)" "read_u8 bs2 = Inr (t, bs3)"
      "read_string t bs3 = Inr (user, rest)"
    by (auto simp: read_ad_jid.psimps [OF 3(1)] and_then_eq_Ok)
  from 3(2) [OF r(1) refl r(2) refl r(3) refl r(4)] r(1,2,3)
  show ?case by (auto simp: read_u8_Ok)
qed

lemma read_string_dom: "All read_string_read_jid_pair_read_ad_jid_dom"
  by (relation "measure (\<lambda>x. case x of Inl (tag, bs) \<Rightarrow> 2 * length bs + 1
      | Inr (Inl bs) \<Rightarrow> 2 * length bs | Inr (Inr bs) \<Rightarrow> 2 * length bs)")
    (auto simp: read_u8_Ok dest!: read_string_shorter_dom(1))

termination read_string by (rule read_string_dom)

declare read_string.simps [simp del] read_jid_pair.simps [simp del] read_ad_jid.simps [simp del]

lemma read_string_shorter [read_shorter]: "read_string tag bs = Inr (v, rest) \<Longrightarrow> length rest \<le> length bs"
  by (rule read_string_shorter_dom(1) [OF spec [OF read_string_dom]])

section \<open>Nodes\<close>

text \<open>\<open>let t = self.read_u8()?; self.read_string(t)?\<close>\<close>

definition read_tagged_string :: "bytes \<Rightarrow> string read_result" where
  "read_tagged_string bs = and_then (read_u8 bs) (\<lambda>(tag, bs). read_string tag bs)"

lemma read_tagged_string_shorter [read_shorter]:
  "read_tagged_string bs = Inr (v, rest) \<Longrightarrow> length rest < length bs"
  by (fastforce simp: read_tagged_string_def and_then_eq_Ok read_u8_Ok dest: read_string_shorter)

fun read_attrs :: "nat \<Rightarrow> bytes \<Rightarrow> (string, string) btree \<Rightarrow> (string, string) btree read_result" where
  "read_attrs 0 bs attrs = Ok (attrs, bs)"
| "read_attrs (Suc n) bs attrs =
     and_then (read_tagged_string bs) (\<lambda>(key, bs).
     and_then (read_tagged_string bs) (\<lambda>(val, bs).
     read_attrs n bs (btree_insert key val attrs)))"

lemma read_attrs_shorter [read_shorter]:
  "read_attrs n bs attrs = Inr (v, rest) \<Longrightarrow> length rest \<le> length bs"
  by (induction n arbitrary: bs attrs) (fastforce simp: and_then_eq_Ok dest!: read_tagged_string_shorter)+

text \<open>The head of a node: its size, its tag and its attributes.\<close>

definition read_node_head :: "bytes \<Rightarrow> (nat \<times> string \<times> (string, string) btree) read_result" where
  "read_node_head bs =
     and_then (read_u8 bs) (\<lambda>(list_tag, bs).
     and_then (read_list_size list_tag bs) (\<lambda>(list_size, bs).
     and_then (read_tagged_string bs) (\<lambda>(tag, bs).
     if list_size = 0 \<or> tag = [] then Err InvalidNode
     else
       and_then (read_attrs (drop_bit 1 (list_size - 1)) bs []) (\<lambda>(attrs, bs).
       Ok ((list_size, tag, attrs), bs)))))"

lemma read_node_head_shorter [read_shorter]:
  assumes "read_node_head bs = Inr (v, rest)"
  shows "length rest < length bs"
proof -
  from assms obtain t b1 n b2 tag b3 attrs where
    "read_u8 bs = Inr (t, b1)" "read_list_size t b1 = Inr (n, b2)"
    "read_tagged_string b2 = Inr (tag, b3)" "read_attrs (drop_bit 1 (n - 1)) b3 [] = Inr (attrs, rest)"
    by (auto simp: read_node_head_def and_then_eq_Ok split: if_splits)
  from read_u8_shorter [OF this(1)] read_list_size_shorter [OF this(2)]
    read_tagged_string_shorter [OF this(3)] read_attrs_shorter [OF this(4)]
  show ?thesis by linarith
qed

function decode_node_inner :: "bytes \<Rightarrow> BinaryNode read_result"
  and decode_children :: "nat \<Rightarrow> bytes \<Rightarrow> BinaryNode list read_result" where
  "decode_node_inner bs =
     and_then (read_node_head bs) (\<lambda>(head, bs). case head of (list_size, tag, attrs) \<Rightarrow>
     if even list_size then
       and_then (read_u8 bs) (\<lambda>(content_tag, bs).
       if is_list_tag content_tag then
         and_then (read_list_size content_tag bs) (\<lambda>(child_count, bs).
         and_then (decode_children child_count bs) (\<lambda>(children, bs).
         Ok (BinaryNode tag attrs (Some (Nodes children)), bs)))
       else if is_binary_tag content_tag then
         and_then (read_binary_for_tag content_tag bs) (\<lambda>(v, bs).
         Ok (BinaryNode tag attrs (Some (Bytes v)), bs))
       else
         and_then (read_string content_tag bs) (\<lambda>(v, bs).
         Ok (BinaryNode tag attrs (Some (Text v)), bs)))
     else Ok (BinaryNode tag attrs None, bs))"
| "decode_children 0 bs = Ok ([], bs)"
| "decode_children (Suc n) bs =
     and_then (decode_node_inner bs) (\<lambda>(node, bs).
     and_then (decode_children n bs) (\<lambda>(nodes, bs). Ok (node # nodes, bs)))"
  by pat_completeness auto

lemma decode_node_shorter_dom:
  "decode_node_inner_decode_children_dom (Inl bs) \<Longrightarrow>
     decode_node_inner bs = Inr (node, rest) \<Longrightarrow> length rest < length bs"
  "decode_node_inner_decode_children_dom (Inr (n, bs)) \<Longrightarrow>
     decode_children n bs = Inr (nodes, rest) \<Longrightarrow> length rest \<le> length bs"
proof (induction bs and n bs arbitrary: node rest and nodes rest
    rule: decode_node_inner_decode_children.pinduct)
  case (1 bs)
  from 1(3) obtain size tag attrs b1 where head: "read_node_head bs = Inr ((size, tag, attrs), b1)"
    by (auto simp: decode_node_inner.psimps [OF 1(1)] and_then_eq_Ok)
  have less: "length b1 < length bs" using head by (rule read_node_head_shorter)
  show ?case
  proof (cases "even size")
    case True
    with 1(3) head obtain t b2 where t: "read_u8 b1 = Inr (t, b2)"
      by (auto simp: decode_node_inner.psimps [OF 1(1)] and_then_eq_Ok)
    then have less2: "length b2 < length b1" by (rule read_u8_shorter)
    show ?thesis
    proof (cases "is_list_tag t")
      case l: True
      with 1(3) head True t obtain c b3 children where
        c: "read_list_size t b2 = Inr (c, b3)" "decode_children c b3 = Inr (children, rest)"
        by (auto simp: decode_node_inner.psimps [OF 1(1)] and_then_eq_Ok)
      from 1(2) [OF head refl refl refl True t refl l c(1) refl c(2)] read_list_size_shorter [OF c(1)]
      show ?thesis using less less2 by simp
    next
      case False
      with 1(3) head True t have "length rest \<le> length b2"
        by (auto simp: decode_node_inner.psimps [OF 1(1)] and_then_eq_Ok
            dest: read_binary_shorter read_string_shorter split: if_splits)
      with less less2 show ?thesis by simp
    qed
  next
    case False
    with 1(3) head less show ?thesis by (auto simp: decode_node_inner.psimps [OF 1(1)])
  qed
next
  case (2 bs)
  then show ?case by (simp add: decode_children.psimps)
next
  case (3 n bs)
  from 3(4) obtain node b1 ns where
    r: "decode_node_inner bs = Inr (node, b1)" "decode_children n b1 = Inr (ns, rest)"
    by (auto simp: decode_children.psimps(2) [OF 3(1)] and_then_eq_Ok)
  from 3(2) [OF r(1)] 3(3) [OF r(1) refl r(2)] show ?case by simp
qed

lemma decode_node_dom: "All decode_node_inner_decode_children_dom"
proof (relation "inv_image (less_than <*lex*> less_than)
    (\<lambda>x. case x of Inl bs \<Rightarrow> (length bs, 0) | Inr (n, bs) \<Rightarrow> (length bs, Suc n))", goal_cases)
  case (2 bs x head b1 size q tag attrs y t b2 z c b3)
  then show ?case
    by (auto dest!: read_node_head_shorter read_u8_shorter read_list_size_shorter)
next
  case (4 n bs r node b1)
  then have "length b1 < length bs" by (auto dest: decode_node_shorter_dom(1))
  then show ?case by simp
qed auto

termination decode_node_inner by (rule decode_node_dom)

lemma decode_node_shorter [read_shorter]:
  "decode_node_inner bs = Inr (node, rest) \<Longrightarrow> length rest < length bs"
  by (rule decode_node_shorter_dom(1) [OF spec [OF decode_node_dom]])

declare decode_node_inner.simps [simp del]

definition decompress_if_required :: "(bytes \<Rightarrow> string + bytes) \<Rightarrow> bytes \<Rightarrow> BinaryDecodeError + bytes" where
  "decompress_if_required inflate input = (case input of
     [] \<Rightarrow> Err EndOfStream
   | prefix # rest \<Rightarrow>
       if prefix AND 2 = 2 then map_err Decompression (inflate rest) else Ok rest)"

definition decode_binary_node :: "(bytes \<Rightarrow> string + bytes) \<Rightarrow> bytes \<Rightarrow> BinaryDecodeError + BinaryNode" where
  "decode_binary_node inflate input =
     and_then (decompress_if_required inflate input) (\<lambda>bs.
     and_then (decode_node_inner bs) (\<lambda>(node, _). Ok node))"

end
