(* ===== verification/CodecStrings.thy ===== *)
theory CodecStrings
  imports CodecDecode
begin

text \<open>
  Lengths and strings of the stanza codec: what the encoder writes, the decoder reads back, with
  the rest of the input left for the next reader. A JID is written in one of two shortened forms,
  which do not keep all of it; \<open>wire_string\<close> is the string that arrives.
\<close>

section \<open>Lengths\<close>

lemma nat_low_byte: "drop_bit 8 n AND 255 = (n div 256) mod 256" "n AND 255 = n mod 256"
    "drop_bit 16 n AND 15 = (n div 65536) mod 16" for n :: nat
  using take_bit_eq_mask [of 8 n] take_bit_eq_mask [of 8 "drop_bit 8 n"] take_bit_eq_mask [of 4 "drop_bit 16 n"]
  by (simp_all add: take_bit_eq_mod drop_bit_eq_div mask_eq_exp_minus_1)

lemma or_eq_add_nat: "b < 2 ^ k \<Longrightarrow> push_bit k a OR b = a * 2 ^ k + b" for a b :: nat
proof -
  assume "b < 2 ^ k"
  then have "bit b n \<Longrightarrow> n < k" for n by (metis bit_take_bit_iff take_bit_nat_eq_self)
  then have "push_bit k a AND b = 0"
    by (intro bit_eqI) (fastforce simp: bit_and_iff bit_push_bit_iff)
  then have "push_bit k a OR b = push_bit k a + b" by (simp add: disjunctive_add_eq_or)
  then show ?thesis by (simp add: push_bit_eq_mult)
qed

lemma or_byte: "push_bit 8 a OR unat (b :: u8) = a * 256 + unat b"
  using or_eq_add_nat [of "unat b" 8 a] unat_u8_less [of b] by simp

lemma unat_low_byte:
  "unat (ucast w :: u8) = unat w mod 256" for w :: "'a::len word"
  by (simp add: unsigned_ucast_eq take_bit_eq_mod)

lemma unat_drop_bit: "unat (drop_bit n w) = unat w div 2 ^ n" for w :: "'a::len word"
proof -
  have "unat (drop_bit n w) = drop_bit n (unat w)"
    by (metis unsigned_drop_bit_eq unsigned_take_bit_eq take_bit_length_eq)
  then show ?thesis by (simp add: drop_bit_eq_div)
qed

lemma join_bytes:
  "n < 65536 \<Longrightarrow> n div 256 mod 256 * 256 + n mod 256 = n"
  "m = n div 256 \<Longrightarrow> m * 256 + n mod 256 = n" for n :: nat
  by (simp_all add: less_mult_imp_div_less)

lemma and_15: "k < 16 \<Longrightarrow> (word_of_nat k :: u8) AND 15 = word_of_nat k"
proof -
  assume k: "k < 16"
  have "(word_of_nat k :: u8) AND 15 = take_bit 4 (word_of_nat k)"
    by (simp add: take_bit_eq_mask mask_eq_exp_minus_1)
  also have "unat \<dots> = take_bit 4 (unat (word_of_nat k :: u8))"
    by (simp add: unsigned_take_bit_eq)
  finally show ?thesis using k by (simp add: word_unat_eq_iff unat_of_nat_u8 take_bit_nat_eq_self)
qed

lemma read_int_u16: "read_int 2 (put_u16 w @ rest) = Inr (unat w, rest)"
proof -
  have "unat w < 65536" using unat_u16_le [of w] by simp
  then have "unat w div 256 mod 256 * 256 + unat w mod 256 = unat w" by (rule join_bytes)
  moreover have "read_int 2 bs = read_int_loop (Suc (Suc 0)) 0 bs" for bs
    by (simp add: read_int_def numeral_2_eq_2)
  ultimately show ?thesis by (simp add: put_u16_def or_byte unat_low_byte unat_drop_bit)
qed

lemma read_int_u32: "read_int 4 (put_u32 w @ rest) = Inr (unat w, rest)"
proof -
  have top: "unat w div 16777216 < 256"
    using unat_u32_less [of w] by (simp add: less_mult_imp_div_less)
  then have "(unat w div 16777216 mod 256) * 256 + unat w div 65536 mod 256 = unat w div 256 div 256"
    using join_bytes(2) [of "unat w div 16777216" "unat w div 65536"]
    by (simp add: div_mult2_eq [symmetric])
  then have "(((unat w div 16777216 mod 256) * 256 + unat w div 65536 mod 256) * 256 +
      unat w div 256 mod 256) * 256 + unat w mod 256 = unat w"
    by (intro join_bytes(2))
  moreover have "read_int 4 bs = read_int_loop (Suc (Suc (Suc (Suc 0)))) 0 bs" for bs
    by (simp add: read_int_def eval_nat_numeral)
  ultimately show ?thesis using top by (simp add: put_u32_def or_byte unat_low_byte unat_drop_bit)
qed

lemma power2_256: "(2 :: nat) ^ 8 = 256"
  by simp

lemma read_int20_bytes:
  assumes "n < 2 ^ 20"
  shows "read_int20 (word_of_nat (drop_bit 16 n AND 15) # word_of_nat (drop_bit 8 n AND 255) #
    word_of_nat (n AND 255) # rest) = Inr (n, rest)"
proof -
  have "n div 65536 < 16" using assms by (simp add: less_mult_imp_div_less)
  then have "n div 65536 mod 16 * 256 + n div 256 mod 256 = n div 256"
    using join_bytes(2) [of "n div 65536" "n div 256"] by (simp add: div_mult2_eq [symmetric])
  then have all: "((n div 65536 mod 16) * 256 + n div 256 mod 256) * 256 + n mod 256 = n"
    by (rule join_bytes(2))
  have "push_bit 16 (n div 65536 mod 16) OR push_bit 8 (n div 256 mod 256) =
      push_bit 8 ((n div 65536 mod 16) * 256 + n div 256 mod 256)"
    using or_eq_add_nat [of "push_bit 8 (n div 256 mod 256)" 16 "n div 65536 mod 16"]
    by (simp add: push_bit_eq_mult algebra_simps)
  moreover have "push_bit 8 ((n div 65536 mod 16) * 256 + n div 256 mod 256) OR n mod 256 = n"
    using or_eq_add_nat [of "n mod 256" 8 "(n div 65536 mod 16) * 256 + n div 256 mod 256"]
    unfolding power2_256 all by simp
  moreover have "n div 65536 mod 16 < 256" "n div 65536 mod 16 < 16" "n div 256 mod 256 < 256" "n mod 256 < 256"
    by (simp_all add: order.strict_trans2 [of _ 16])
  then have "unat (word_of_nat (n div 65536 mod 16) AND 15 :: u8) = n div 65536 mod 16"
    "unat (word_of_nat (n div 256 mod 256) :: u8) = n div 256 mod 256"
    "unat (word_of_nat (n mod 256) :: u8) = n mod 256"
    by (simp_all only: and_15 unat_of_nat_u8)
  ultimately show ?thesis
    unfolding nat_low_byte(1,3) unfolding nat_low_byte(2)
      read_int20_def read_u8.simps and_then_simps prod.case
    by (simp only: or.assoc [symmetric])
qed

lemma tags_distinct [simp]:
  "is_list_tag LIST_EMPTY" "is_list_tag LIST_8" "is_list_tag LIST_16"
  "is_binary_tag BINARY_8" "is_binary_tag BINARY_20" "is_binary_tag BINARY_32"
  by (simp_all add: is_list_tag_def is_binary_tag_def)

lemma is_binary_not_list [simp]: "is_binary_tag t \<Longrightarrow> \<not> is_list_tag t"
  by (auto simp: is_list_tag_def is_binary_tag_def tag_defs)

lemma read_write_list:
  assumes "write_list_start n = Inr bs"
  shows "\<exists>t r. bs = t # r \<and> is_list_tag t \<and> (\<forall>rest. read_list_size t (r @ rest) = Inr (n, rest))"
  using assms
  by (auto simp: write_list_start_def read_list_size_def tag_defs unat_of_nat_u8 is_list_tag_def
      read_int_u16 unat_of_nat take_bit_nat_eq_self split: if_splits)

lemma read_write_length:
  assumes "write_byte_length (length v) = Inr bs"
  shows "\<exists>t r. bs = t # r \<and> is_binary_tag t \<and> (\<forall>rest. read_binary_for_tag t (r @ v @ rest) = Inr (v, rest))"
  using assms
  by (auto simp: write_byte_length_def read_binary_for_tag_def tag_defs unat_of_nat_u8 is_binary_tag_def
      read_int_u32 read_int20_bytes unat_of_nat_u32 read_bytes_def split: if_splits)

section \<open>Packed strings\<close>

fun packed_tag :: "PackedKind \<Rightarrow> u8" where
  "packed_tag Nibble = NIBBLE_8"
| "packed_tag Hex = HEX_8"

fun packed_char :: "PackedKind \<Rightarrow> char \<Rightarrow> bool" where
  "packed_char Nibble c \<longleftrightarrow> is_ascii_digit c \<or> c = CHR ''-'' \<or> c = CHR ''.''"
| "packed_char Hex c \<longleftrightarrow> is_ascii_digit c \<or> (65 \<le> (of_char c :: nat) \<and> (of_char c :: nat) \<le> 70)"

lemma unat_byte_of_char [simp]: "unat (byte_of_char c) = of_char c"
  by (simp add: byte_of_char_def unat_of_nat take_bit_nat_eq_self nat_of_char_less_256)

lemma unat_minus_byte: "n \<le> of_char c \<Longrightarrow> n < 256 \<Longrightarrow>
    unat (byte_of_char c - word_of_nat n) = of_char c - n"
  by (simp add: unat_sub word_le_nat_alt unat_of_nat_u8)

lemma digit_byte:
  assumes "is_ascii_digit c"
  shows "unat (byte_of_char c - 48) \<le> 9"
proof -
  have c: "48 \<le> (of_char c :: nat)" "(of_char c :: nat) \<le> 57" using assms by (auto simp: is_ascii_digit_def)
  then have "unat (byte_of_char c - 48) = of_char c - 48" using unat_minus_byte [of 48 c] by simp
  with c(2) show ?thesis by linarith
qed

lemma pack_char_Ok:
  assumes "packed_char k c"
  shows "\<exists>x. pack_char k c = Inr x \<and> x \<le> 15 \<and> unpack_byte (packed_tag k) x = Inr c"
proof (cases "is_ascii_digit c")
  case True
  let ?x = "byte_of_char c - 48"
  have le: "?x \<le> 9" using digit_byte [OF True] by (simp add: word_le_nat_alt)
  then have "?x \<le> 15" by (simp add: word_le_nat_alt)
  moreover have "c \<noteq> CHR ''-''" "c \<noteq> CHR ''.''" "c \<noteq> CHR 0x00" using True by (auto simp: is_ascii_digit_def)
  ultimately show ?thesis
    using True le by (cases k) (auto simp: pack_nibble_def pack_hex_def unpack_byte_def tag_defs)
next
  case False
  then show ?thesis
  proof (cases k)
    case Nibble
    with False assms show ?thesis
      by (auto simp: pack_nibble_def unpack_byte_def tag_defs is_ascii_digit_def)
  next
    case Hex
    with False assms have c: "65 \<le> (of_char c :: nat)" "(of_char c :: nat) \<le> 70" by auto
    have u: "unat (byte_of_char c - 55) = of_char c - 55" using unat_minus_byte [of 55 c] c by simp
    have "10 + byte_of_char c - 65 = byte_of_char c - 55" by simp
    moreover have "10 \<le> byte_of_char c - 55" "byte_of_char c - 55 \<le> 15" "\<not> byte_of_char c - 55 \<le> 9"
      using c u by (simp_all add: word_le_nat_alt)
    ultimately show ?thesis
      using Hex False c by (auto simp: pack_hex_def unpack_byte_def tag_defs Let_def)
  qed
qed

lemma nibbles_of_byte:
  assumes "(a :: u8) \<le> 15" "b \<le> 15"
  shows "drop_bit 4 ((push_bit 4 a OR b) AND 240) = a" "(push_bit 4 a OR b) AND 15 = b"
proof -
  have low: "bit x n \<Longrightarrow> n < 4" if "x \<le> 15" for x :: u8 and n
  proof -
    assume "bit x n"
    moreover have "take_bit 4 x = x"
      using that by (simp add: word_unat_eq_iff unsigned_take_bit_eq take_bit_nat_eq_self word_le_nat_alt)
    ultimately show "n < 4" by (metis bit_take_bit_iff)
  qed
  have m: "240 = push_bit 4 (mask 4 :: u8)" "15 = (mask 4 :: u8)"
    by (simp_all add: mask_eq_exp_minus_1 push_bit_eq_mult)
  show "drop_bit 4 ((push_bit 4 a OR b) AND 240) = a"
    unfolding m by (rule bit_word_eqI)
      (auto simp: bit_simps dest: low [OF assms(1)] low [OF assms(2)])
  show "(push_bit 4 a OR b) AND 15 = b"
    unfolding m by (rule bit_word_eqI)
      (auto simp: bit_simps dest: low [OF assms(1)] low [OF assms(2)])
qed

lemma pad_char: "\<exists>x c. pack_char k (CHR 0x00) = Inr x \<and> x \<le> 15 \<and> unpack_byte (packed_tag k) x = Inr c"
  by (cases k) (auto simp: pack_nibble_def pack_hex_def unpack_byte_def tag_defs is_ascii_digit_def Let_def)

lemma read_packed_pair:
  assumes "pack_char k a = Inr x" "x \<le> 15" "unpack_byte (packed_tag k) x = Inr a'"
    and "pack_char k b = Inr y" "y \<le> 15" "unpack_byte (packed_tag k) y = Inr b'"
  shows "pack_pair k a b = Inr (push_bit 4 x OR y)"
    "read_packed_loop (packed_tag k) (Suc n) ((push_bit 4 x OR y) # bs) =
      and_then (read_packed_loop (packed_tag k) n bs) (\<lambda>(out, bs). Ok (a' # b' # out, bs))"
proof -
  show "pack_pair k a b = Inr (push_bit 4 x OR y)" using assms by (simp add: pack_pair_def)
  show "read_packed_loop (packed_tag k) (Suc n) ((push_bit 4 x OR y) # bs) =
      and_then (read_packed_loop (packed_tag k) n bs) (\<lambda>(out, bs). Ok (a' # b' # out, bs))"
    unfolding read_packed_loop.simps read_u8.simps and_then_simps prod.case
      nibbles_of_byte [OF assms(2,5)] assms(3,6) by (rule refl)
qed

lemma read_pack_chars:
  assumes "list_all (packed_char k) v"
  shows "\<exists>bs pad. pack_chars k v = Inr bs \<and> length bs = (length v + 1) div 2 \<and>
    length pad = length v mod 2 \<and>
    (\<forall>rest. read_packed_loop (packed_tag k) ((length v + 1) div 2) (bs @ rest) = Inr (v @ pad, rest))"
  using assms
proof (induction k v rule: pack_chars.induct)
  case (2 k a)
  obtain x where x: "pack_char k a = Inr x" "x \<le> 15" "unpack_byte (packed_tag k) x = Inr a"
    using pack_char_Ok 2 by fastforce
  obtain y c where y: "pack_char k (CHR 0x00) = Inr y" "y \<le> 15" "unpack_byte (packed_tag k) y = Inr c"
    using pad_char by blast
  show ?case
    by (rule exI [of _ "[push_bit 4 x OR y]"], rule exI [of _ "[c]"])
      (simp add: read_packed_pair(1) [OF x y] read_packed_pair(2) [OF x y, of 0, simplified read_packed_loop.simps(1)]
        del: read_packed_loop.simps(2))
next
  case (3 k a b v)
  obtain x where x: "pack_char k a = Inr x" "x \<le> 15" "unpack_byte (packed_tag k) x = Inr a"
    using pack_char_Ok 3 by fastforce
  obtain y where y: "pack_char k b = Inr y" "y \<le> 15" "unpack_byte (packed_tag k) y = Inr b"
    using pack_char_Ok 3 by fastforce
  obtain bs pad where bs: "pack_chars k v = Inr bs" "length bs = (length v + 1) div 2"
    "length pad = length v mod 2"
    "\<forall>rest. read_packed_loop (packed_tag k) ((length v + 1) div 2) (bs @ rest) = Inr (v @ pad, rest)"
    using 3 read_packed_pair(1) [OF x y] by auto
  show ?case
    by (rule exI [of _ "(push_bit 4 x OR y) # bs"], rule exI [of _ pad])
      (use bs in \<open>simp add: read_packed_pair [OF x y] del: read_packed_loop.simps(2)\<close>)
qed simp

lemma packed_start:
  assumes "n \<le> 64"
  shows "unat ((word_of_nat n :: u8) AND 127) = n" "drop_bit 7 (word_of_nat n :: u8) = 0"
    "unat ((word_of_nat n OR 128 :: u8) AND 127) = n" "drop_bit 7 (word_of_nat n OR 128 :: u8) \<noteq> 0"
proof -
  have m: "127 = (mask 7 :: u8)" by (simp add: mask_eq_exp_minus_1)
  have "(word_of_nat n OR 128 :: u8) AND 127 = word_of_nat n AND 127"
    unfolding bit.conj_disj_distrib2 by simp
  moreover show low: "unat ((word_of_nat n :: u8) AND 127) = n"
    unfolding m take_bit_eq_mask [symmetric]
    using assms by (simp add: unsigned_take_bit_eq unat_of_nat_u8 take_bit_nat_eq_self)
  ultimately show "unat ((word_of_nat n OR 128 :: u8) AND 127) = n" by simp
  show zero: "drop_bit 7 (word_of_nat n :: u8) = 0"
    using assms by (simp add: word_unat_eq_iff unat_drop_bit unat_of_nat_u8)
  have "drop_bit 7 (128 :: u8) = 1" by simp
  then show "drop_bit 7 (word_of_nat n OR 128 :: u8) \<noteq> 0" using zero by simp
qed

lemma read_write_packed:
  assumes "list_all (packed_char k) v" "length v \<le> PACKED_MAX"
  shows "\<exists>r. write_packed v k = Inr (packed_tag k # r) \<and>
    (\<forall>rest. read_packed (packed_tag k) (r @ rest) = Inr (v, rest))"
proof -
  obtain bs pad where bs: "pack_chars k v = Inr bs" "length pad = length v mod 2"
    and read: "read_packed_loop (packed_tag k) ((length v + 1) div 2) (bs @ rest) = Inr (v @ pad, rest)" for rest
    using read_pack_chars [OF assms(1)] by blast
  have n: "(length v + 1) div 2 \<le> 64" using assms(2) by (simp add: PACKED_MAX_def)
  let ?n = "word_of_nat ((length v + 1) div 2) :: u8"
  let ?start = "if odd (length v) then ?n OR 128 else ?n"
  have "write_packed v k = Inr (packed_tag k # ?start # bs)"
    using assms(2) bs(1) by (cases k) (simp_all add: write_packed_def Let_def)
  moreover have "read_packed (packed_tag k) ((?start # bs) @ rest) = Inr (v, rest)" for rest
  proof (cases "odd (length v)")
    case True
    then have "butlast (v @ pad) = v" using bs(2) by (cases pad) (auto simp: odd_iff_mod_2_eq_one butlast_append)
    then show ?thesis
      using True read packed_start(3,4) [OF n] unfolding read_packed_def by simp
  next
    case False
    then have "pad = []" using bs(2) by simp
    then show ?thesis
      using False read packed_start(1,2) [OF n] unfolding read_packed_def by simp
  qed
  ultimately show ?thesis by blast
qed

end
