(* ===== verification/CodecRoundtrip.thy ===== *)
theory CodecRoundtrip
  imports CodecStrings
begin

text \<open>
  Encoding a node and decoding it again. The decoded node is the written one with every string
  replaced by \<open>wire_string\<close> of it and raw text by its bytes; on the strings of the protocol that
  changes nothing.
\<close>

section \<open>Strings\<close>

text \<open>The strings that are written with a length and their bytes.\<close>

definition is_raw :: "string \<Rightarrow> bool" where
  "is_raw v \<longleftrightarrow> v = [] \<or>
     (token_for v = None \<and> \<not> is_nibble v \<and> \<not> is_hex v \<and> jid_decode v = None)"

definition wire_string :: "string \<Rightarrow> string" where
  "wire_string v =
     (if v = [] \<or> token_for v \<noteq> None \<or> is_nibble v \<or> is_hex v then v
      else case jid_decode v of None \<Rightarrow> v
        | Some jid \<Rightarrow> (case jid_device jid of
            Some device \<Rightarrow> jid_encode (jid_user jid) (domain_server (jid_domain_type jid) SWhatsAppNet)
              (Some (ucast (ucast device :: u8))) None
          | None \<Rightarrow> jid_user jid @ ''@'' @ jid_server_raw jid))"

text \<open>A JID without a device must name a server.\<close>

definition has_server :: "string \<Rightarrow> bool" where
  "has_server v = (case jid_decode v of None \<Rightarrow> True
     | Some jid \<Rightarrow> jid_device jid \<noteq> None \<or> jid_server_raw jid \<noteq> [])"

lemma jid_decode_str_ok:
  assumes "jid_decode v = Some jid" "str_ok v"
  shows "str_ok (jid_user jid)" "str_ok (jid_server_raw jid)"
  using assms
  by (auto simp: jid_decode_def split_once_Some str_ok_split Let_def split: option.splits prod.splits)

lemma jid_decode_user [simp]: "jid_decode v = Some jid \<Longrightarrow> jid_decode (jid_user jid) = None"
  using jid_decode_plain_user [of v jid] by (simp add: jid_decode_None_iff plain_user_def)

lemma ad_jid_domain_code [simp]: "ad_jid_domain (word_of_nat (domain_code d)) = d"
  by (cases d) (simp_all add: ad_jid_domain_def)

lemma single_token_tag: "236 \<le> unat t \<Longrightarrow> (if 1 \<le> t then single_token t else None) = None"
  by simp

lemma high_tags [simp]:
  "236 \<le> unat LIST_EMPTY \<longleftrightarrow> False" "236 \<le> unat LIST_8" "236 \<le> unat LIST_16" "236 \<le> unat JID_PAIR"
  "236 \<le> unat AD_JID" "236 \<le> unat HEX_8" "236 \<le> unat NIBBLE_8"
  "is_binary_tag t \<Longrightarrow> 236 \<le> unat t"
  by (auto simp: tag_defs is_binary_tag_def)

lemma read_string_binary:
  assumes "is_binary_tag t" "read_binary_for_tag t bs = Inr (bytes_of s, rest)" "str_ok s"
  shows "read_string t bs = Inr (s, rest)"
proof -
  have "\<not> (DICTIONARY_0 \<le> t \<and> t \<le> DICTIONARY_3)" "t \<noteq> LIST_EMPTY"
    using assms(1) by (auto simp: is_binary_tag_def tag_defs)
  with assms show ?thesis by (auto simp: read_string.simps)
qed

lemma read_string_tags [simp]:
  "read_string LIST_EMPTY bs = Inr ([], bs)"
  "read_string JID_PAIR bs = read_jid_pair bs"
  "read_string AD_JID bs = read_ad_jid bs"
  "read_string (packed_tag k) bs = read_packed (packed_tag k) bs"
proof -
  show "read_string (packed_tag k) bs = read_packed (packed_tag k) bs"
    by (cases k) (simp_all add: read_string.simps tag_defs is_binary_tag_def)
qed (simp_all add: read_string.simps tag_defs is_binary_tag_def)

lemma read_string_single:
  assumes "single_token t = Some v" "t \<noteq> 0"
  shows "read_string t bs = Inr (v, bs)"
proof -
  have "1 \<le> t" using assms(2) by (simp add: word_le_nat_alt Suc_leI unat_gt_0)
  with assms show ?thesis by (simp add: read_string.simps)
qed

lemma dictionary_tag:
  assumes "unat d < 4"
  shows "236 \<le> unat (DICTIONARY_0 + d)" "DICTIONARY_0 \<le> DICTIONARY_0 + d" "DICTIONARY_0 + d \<le> DICTIONARY_3"
    "\<not> is_list_tag (DICTIONARY_0 + d)" "\<not> is_binary_tag (DICTIONARY_0 + d)"
proof -
  have u: "unat (DICTIONARY_0 + d) = 236 + unat d"
    using assms by (simp add: DICTIONARY_0_def unat_word_ariths)
  then show "236 \<le> unat (DICTIONARY_0 + d)" "DICTIONARY_0 \<le> DICTIONARY_0 + d"
    "DICTIONARY_0 + d \<le> DICTIONARY_3"
    using assms by (simp_all add: word_le_nat_alt) (simp_all add: tag_defs)
  show "\<not> is_list_tag (DICTIONARY_0 + d)" "\<not> is_binary_tag (DICTIONARY_0 + d)"
    using u assms by (auto simp: is_list_tag_def is_binary_tag_def word_unat_eq_iff) (auto simp: tag_defs)
qed

lemma read_string_double:
  assumes "double_token d i = Some v" "unat d < 4"
  shows "read_string (DICTIONARY_0 + d) (i # bs) = Inr (v, bs)"
  using assms dictionary_tag [OF assms(2)] by (simp add: read_string.simps)

text \<open>What the encoder writes for a string, seen by the two readers that may meet it.\<close>

definition reads_string :: "string \<Rightarrow> bytes \<Rightarrow> bool" where
  "reads_string v bs \<longleftrightarrow> (\<exists>t r. bs = t # r \<and> \<not> is_list_tag t \<and> (is_binary_tag t \<longleftrightarrow> is_raw v) \<and>
     (\<forall>rest. read_string t (r @ rest) = Inr (wire_string v, rest)) \<and>
     (is_raw v \<longrightarrow> (\<forall>rest. read_binary_for_tag t (r @ rest) = Inr (bytes_of v, rest))))"

lemma wire_string_raw [simp]: "is_raw v \<Longrightarrow> wire_string v = v"
  by (auto simp: is_raw_def wire_string_def)

lemma reads_raw_string:
  assumes "write_raw_string v = Inr bs" "str_ok v"
  shows "\<exists>t r. bs = t # r \<and> is_binary_tag t \<and> (\<forall>rest. read_string t (r @ rest) = Inr (v, rest)) \<and>
    (\<forall>rest. read_binary_for_tag t (r @ rest) = Inr (bytes_of v, rest))"
proof -
  from assms(1) obtain len where len: "write_byte_length (length (bytes_of v)) = Inr len" "bs = len @ bytes_of v"
    by (auto simp: write_raw_string_def and_then_eq_Ok)
  from read_write_length [OF len(1)] obtain t r where t: "len = t # r" "is_binary_tag t"
    "\<forall>rest. read_binary_for_tag t (r @ bytes_of v @ rest) = Inr (bytes_of v, rest)"
    by blast
  then have "read_string t ((r @ bytes_of v) @ rest) = Inr (v, rest)" for rest
    using assms(2) by (intro read_string_binary) simp_all
  with t len(2) show ?thesis by auto
qed

lemma raw_reads_string:
  assumes "write_raw_string v = Inr bs" "str_ok v" "is_raw v"
  shows "reads_string v bs"
  using reads_raw_string [OF assms(1,2)] assms(3)
  unfolding reads_string_def by (metis is_binary_not_list wire_string_raw)

lemma read_tagged_user:
  assumes "reads_string u bs" "jid_decode u = None"
  shows "\<exists>t r. bs = t # r \<and> (\<forall>rest. read_string t (r @ rest) = Inr (u, rest))"
proof -
  have "wire_string u = u" using assms(2) by (simp add: wire_string_def)
  with assms(1) show ?thesis unfolding reads_string_def by auto
qed

lemma is_nibble_packed: "is_nibble v \<longleftrightarrow> length v \<le> PACKED_MAX \<and> list_all (packed_char Nibble) v"
  and is_hex_packed: "is_hex v \<longleftrightarrow> length v \<le> PACKED_MAX \<and> list_all (packed_char Hex) v"
  by (simp_all add: is_nibble_def is_hex_def list_all_iff)

lemma packed_reads_string:
  assumes "write_packed v k = Inr bs" "list_all (packed_char k) v" "length v \<le> PACKED_MAX"
    and "v \<noteq> []" "wire_string v = v" "\<not> is_raw v"
  shows "reads_string v bs"
proof -
  have "\<not> is_list_tag (packed_tag k)" "\<not> is_binary_tag (packed_tag k)"
    by (cases k; simp add: is_list_tag_def is_binary_tag_def tag_defs)+
  with read_write_packed [OF assms(2,3)] assms show ?thesis
    unfolding reads_string_def by auto
qed

lemma write_string_reads:
  "write_string v = Inr bs \<Longrightarrow> str_ok v \<Longrightarrow> has_server v \<Longrightarrow> reads_string v bs"
proof (induction v arbitrary: bs rule: write_string.induct)
  case (1 v)
  show ?case
  proof (cases "v = []")
    case True
    with 1 show ?thesis by (auto simp: write_string.simps [of "[]"] is_raw_def intro: raw_reads_string)
  next
    case ne: False
    show ?thesis
    proof (cases "token_for v")
      case (Some token)
      then have raw: "\<not> is_raw v" and wire: "wire_string v = v" using ne by (auto simp: is_raw_def wire_string_def)
      show ?thesis
      proof (cases "tk_dict token")
        case None
        from token_for_single [OF Some None] ne
        have t: "single_token (tk_index token) = Some v" "tk_index token \<noteq> 0" "unat (tk_index token) < 236" by auto
        have "\<not> is_list_tag (tk_index token)" "\<not> is_binary_tag (tk_index token)"
          using t(2,3) by (auto simp: is_list_tag_def is_binary_tag_def tag_defs)
        with 1 ne Some None raw wire t show ?thesis
          by (auto simp: write_string.simps [of v] reads_string_def read_string_single)
      next
        case d: (Some d)
        from token_for_double [OF Some d] dictionary_tag [of d] 1 ne Some d raw wire
        show ?thesis by (auto simp: write_string.simps [of v] reads_string_def read_string_double)
      qed
    next
      case tok: None
      consider "is_nibble v" | "\<not> is_nibble v" "is_hex v" | "\<not> is_nibble v" "\<not> is_hex v" by blast
      then show ?thesis
      proof cases
        case 1
        with ne tok \<open>write_string v = Inr bs\<close> show ?thesis
          by (intro packed_reads_string [of v Nibble])
            (auto simp: write_string.simps [of v] is_nibble_packed is_raw_def wire_string_def)
      next
        case 2
        with ne tok \<open>write_string v = Inr bs\<close> show ?thesis
          by (intro packed_reads_string [of v Hex])
            (auto simp: write_string.simps [of v] is_hex_packed is_raw_def wire_string_def)
      next
        case plain: 3
        show ?thesis
        proof (cases "jid_decode v")
          case None
          with plain ne tok 1 show ?thesis
            by (auto simp: write_string.simps [of v] is_raw_def intro: raw_reads_string)
        next
          case (Some jid)
          have raw: "\<not> is_raw v" using Some ne by (simp add: is_raw_def)
          have ok: "str_ok (jid_user jid)" "str_ok (jid_server_raw jid)" "has_server (jid_user jid)"
            using jid_decode_str_ok [OF Some "1.prems"(2)] Some by (simp_all add: has_server_def)
          show ?thesis
          proof (cases "jid_device jid")
            case dev: (Some device)
            from "1.prems"(1) ne tok plain Some dev obtain ub where
              ub: "write_string (jid_user jid) = Inr ub"
              "bs = [AD_JID, word_of_nat (domain_code (jid_domain_type jid)), ucast device] @ ub"
              by (auto simp: write_string.simps [of v] and_then_eq_Ok)
            from read_tagged_user [OF "1.IH"(2) [OF ne tok plain Some dev ub(1) ok(1,3)]] Some
            obtain t r where t: "ub = t # r" "\<forall>rest. read_string t (r @ rest) = Inr (jid_user jid, rest)" by auto
            with ub(2) raw show ?thesis using ne tok plain Some dev
              by (auto simp: reads_string_def read_ad_jid.simps wire_string_def is_list_tag_def
                  is_binary_tag_def) (auto simp: tag_defs)
          next
            case dev: None
            with "1.prems"(3) Some have server: "jid_server_raw jid \<noteq> []" by (simp add: has_server_def)
            from "1.prems"(1) ne tok plain Some dev obtain ub sb where
              ub: "(if jid_user jid = [] then Ok [LIST_EMPTY] else write_string (jid_user jid)) = Inr ub"
              and sb: "write_raw_string (jid_server_raw jid) = Inr sb" and bs: "bs = JID_PAIR # ub @ sb"
              by (auto simp: write_string.simps [of v] and_then_eq_Ok simp del: if_split_asm)
            obtain t r where t: "ub = t # r" "\<forall>rest. read_string t (r @ rest) = Inr (jid_user jid, rest)"
            proof (cases "jid_user jid = []")
              case True
              with ub that show ?thesis by auto
            next
              case False
              from read_tagged_user [OF "1.IH"(1) [OF ne tok plain Some dev False _ ok(1,3)]] ub False Some that
              show ?thesis by auto
            qed
            from reads_raw_string [OF sb ok(2)] obtain t' r' where
              t': "sb = t' # r'" "\<forall>rest. read_string t' (r' @ rest) = Inr (jid_server_raw jid, rest)" by blast
            from t t' bs raw server show ?thesis using ne tok plain Some dev
              by (auto simp: reads_string_def read_jid_pair.simps wire_string_def is_list_tag_def
                  is_binary_tag_def) (auto simp: tag_defs)
          qed
        qed
      qed
    qed
  qed
qed

section \<open>Nodes\<close>

definition wire_attrs :: "(string, string) btree \<Rightarrow> (string, string) btree" where
  "wire_attrs attrs = fold (\<lambda>(k, v). btree_insert (wire_string k) (wire_string v)) attrs []"

fun wire_node :: "BinaryNode \<Rightarrow> BinaryNode"
  and wire_content :: "BinaryNodeContent \<Rightarrow> BinaryNodeContent"
  and wire_nodes :: "BinaryNode list \<Rightarrow> BinaryNode list" where
  "wire_node (BinaryNode tag attrs None) = BinaryNode (wire_string tag) (wire_attrs attrs) None"
| "wire_node (BinaryNode tag attrs (Some c)) =
     BinaryNode (wire_string tag) (wire_attrs attrs) (Some (wire_content c))"
| "wire_content (Nodes nodes) = Nodes (wire_nodes nodes)"
| "wire_content (Text v) = (if is_raw v then Bytes (bytes_of v) else Text (wire_string v))"
| "wire_content (Bytes v) = Bytes v"
| "wire_nodes [] = []"
| "wire_nodes (n # ns) = wire_node n # wire_nodes ns"

text \<open>A property of every string of a node, and one of every list of attributes.\<close>

fun node_all :: "(string \<Rightarrow> bool) \<Rightarrow> ((string, string) btree \<Rightarrow> bool) \<Rightarrow> (string \<Rightarrow> bool) \<Rightarrow> BinaryNode \<Rightarrow> bool"
  and content_all :: "(string \<Rightarrow> bool) \<Rightarrow> ((string, string) btree \<Rightarrow> bool) \<Rightarrow> (string \<Rightarrow> bool) \<Rightarrow> BinaryNodeContent \<Rightarrow> bool"
  and nodes_all :: "(string \<Rightarrow> bool) \<Rightarrow> ((string, string) btree \<Rightarrow> bool) \<Rightarrow> (string \<Rightarrow> bool) \<Rightarrow> BinaryNode list \<Rightarrow> bool"
  where
  "node_all T A S (BinaryNode tag attrs None) \<longleftrightarrow> T tag \<and> A attrs"
| "node_all T A S (BinaryNode tag attrs (Some c)) \<longleftrightarrow> T tag \<and> A attrs \<and> content_all T A S c"
| "content_all T A S (Nodes nodes) \<longleftrightarrow> nodes_all T A S nodes"
| "content_all T A S (Text v) \<longleftrightarrow> S v"
| "content_all T A S (Bytes v) \<longleftrightarrow> True"
| "nodes_all T A S [] \<longleftrightarrow> True"
| "nodes_all T A S (n # ns) \<longleftrightarrow> node_all T A S n \<and> nodes_all T A S ns"

definition readable :: "string \<Rightarrow> bool" where
  "readable v \<longleftrightarrow> str_ok v \<and> has_server v"

definition readable_attrs :: "(string, string) btree \<Rightarrow> bool" where
  "readable_attrs attrs \<longleftrightarrow> (\<forall>(k, v)\<in>set attrs. readable k \<and> readable v)"

definition readable_node :: "BinaryNode \<Rightarrow> bool" where
  "readable_node = node_all readable readable_attrs readable"

lemma readable_reads: "write_string v = Inr bs \<Longrightarrow> readable v \<Longrightarrow> reads_string v bs"
  by (simp add: readable_def write_string_reads)

lemma reads_tagged: "reads_string v bs \<Longrightarrow> read_tagged_string (bs @ rest) = Inr (wire_string v, rest)"
  by (auto simp: reads_string_def read_tagged_string_def)

lemma wire_string_nonempty: "v \<noteq> [] \<Longrightarrow> wire_string v \<noteq> []"
  by (auto simp: wire_string_def jid_encode_def Let_def split: option.splits)

lemma read_write_attrs:
  "write_attrs attrs = Inr bs \<Longrightarrow> readable_attrs attrs \<Longrightarrow>
     read_attrs (length attrs) (bs @ rest) acc =
       Inr (fold (\<lambda>(k, v). btree_insert (wire_string k) (wire_string v)) attrs acc, rest)"
proof (induction attrs arbitrary: bs acc rule: write_attrs.induct)
  case (2 key val attrs)
  from 2(2) obtain k v a where w: "write_string key = Inr k" "write_string val = Inr v"
    "write_attrs attrs = Inr a" "bs = k @ v @ a"
    by (auto simp: and_then_eq_Ok)
  with 2 show ?case
    by (simp add: readable_attrs_def reads_tagged [OF readable_reads])
qed simp

lemma read_written_head:
  assumes "write_list_start (1 + length attrs * 2 + c) = Inr start" "write_string tag = Inr t"
    and "write_attrs attrs = Inr a" "tag \<noteq> []" "readable tag" "readable_attrs attrs" "c \<le> 1"
  shows "read_node_head (start @ t @ a @ rest) =
    Inr ((1 + length attrs * 2 + c, wire_string tag, wire_attrs attrs), rest)"
proof -
  from read_write_list [OF assms(1)] obtain s r where s: "start = s # r"
    "\<forall>rest. read_list_size s (r @ rest) = Inr (1 + length attrs * 2 + c, rest)" by blast
  moreover have "drop_bit 1 (length attrs * 2 + c) = length attrs"
    using assms(7) by (simp add: drop_bit_eq_div)
  ultimately show ?thesis
    using reads_tagged [OF readable_reads [OF assms(2,5)]] read_write_attrs [OF assms(3,6)]
      wire_string_nonempty [OF assms(4)]
    by (simp add: read_node_head_def wire_attrs_def)
qed

text \<open>The part of \<open>decode_node_inner\<close> that reads the content.\<close>

definition read_content :: "string \<Rightarrow> (string, string) btree \<Rightarrow> u8 \<Rightarrow> bytes \<Rightarrow> BinaryNode read_result" where
  "read_content tag attrs content_tag bs =
     (if is_list_tag content_tag then
         and_then (read_list_size content_tag bs) (\<lambda>(child_count, bs).
         and_then (decode_children child_count bs) (\<lambda>(children, bs).
         Ok (BinaryNode tag attrs (Some (Nodes children)), bs)))
       else if is_binary_tag content_tag then
         and_then (read_binary_for_tag content_tag bs) (\<lambda>(v, bs).
         Ok (BinaryNode tag attrs (Some (Bytes v)), bs))
       else
         and_then (read_string content_tag bs) (\<lambda>(v, bs).
         Ok (BinaryNode tag attrs (Some (Text v)), bs)))"

lemma decode_node_inner_unfold:
  "decode_node_inner bs =
     and_then (read_node_head bs) (\<lambda>((list_size, tag, attrs), bs).
       if even list_size then and_then (read_u8 bs) (\<lambda>(t, bs). read_content tag attrs t bs)
       else Ok (BinaryNode tag attrs None, bs))"
  by (subst decode_node_inner.simps) (auto simp: read_content_def and_then_def split: sum.split)

definition reads_content :: "BinaryNodeContent \<Rightarrow> bytes \<Rightarrow> bool" where
  "reads_content c bs \<longleftrightarrow> (\<exists>t r. bs = t # r \<and>
     (\<forall>tag attrs rest. read_content tag attrs t (r @ rest) =
        Inr (BinaryNode tag attrs (Some (wire_content c)), rest)))"

lemma text_reads_content: "reads_string v bs \<Longrightarrow> reads_content (Text v) bs"
  by (cases "is_raw v") (auto simp: reads_string_def reads_content_def read_content_def)

lemma bytes_read_content: "write_byte_content v = Inr bs \<Longrightarrow> reads_content (Bytes v) bs"
  using read_write_length [of v]
  by (fastforce simp: write_byte_content_def and_then_eq_Ok reads_content_def read_content_def)

lemma decode_encoded:
  "encode_node_inner n = Inr bs \<Longrightarrow> readable_node n \<Longrightarrow>
     decode_node_inner (bs @ rest) = Inr (wire_node n, rest)"
  "encode_content oc = Inr bs \<Longrightarrow> oc = Some c \<Longrightarrow> content_all readable readable_attrs readable c \<Longrightarrow>
     reads_content c bs"
  "encode_children ns = Inr bs \<Longrightarrow> nodes_all readable readable_attrs readable ns \<Longrightarrow>
     decode_children (length ns) (bs @ rest) = Inr (wire_nodes ns, rest)"
proof (induction n and oc and ns arbitrary: bs rest and bs c and bs rest
    rule: encode_node_inner_encode_content_encode_children.induct)
  case (1 tag attrs content)
  let ?c = "if content = None then 0 else 1 :: nat"
  from 1(2) obtain start t a cb where w: "tag \<noteq> []"
    "write_list_start (1 + length attrs * 2 + ?c) = Inr start" "write_string tag = Inr t"
    "write_attrs attrs = Inr a" "encode_content content = Inr cb" "bs = start @ t @ a @ cb"
    by (auto simp: and_then_eq_Ok split: if_splits)
  have r: "readable tag" "readable_attrs attrs"
    using 1(3) by (cases content; simp add: readable_node_def)+
  have head: "read_node_head (start @ t @ a @ more) =
      Inr ((1 + length attrs * 2 + ?c, wire_string tag, wire_attrs attrs), more)" for more
    using w r by (intro read_written_head) simp_all
  show ?case
  proof (cases content)
    case None
    with w head show ?thesis by (simp add: decode_node_inner_unfold)
  next
    case (Some c)
    with 1(3) have "content_all readable readable_attrs readable c" by (simp add: readable_node_def)
    from 1(1) [OF w(1-5) Some this] obtain u r where "cb = u # r"
      "\<forall>tag attrs rest. read_content tag attrs u (r @ rest) =
        Inr (BinaryNode tag attrs (Some (wire_content c)), rest)"
      unfolding reads_content_def by blast
    with w(6) head Some show ?thesis by (simp add: decode_node_inner_unfold)
  qed
next
  case (3 nodes)
  from 3(2) obtain start ch where w: "write_list_start (length nodes) = Inr start"
    "encode_children nodes = Inr ch" "bs = start @ ch"
    by (auto simp: and_then_eq_Ok)
  from read_write_list [OF w(1)] obtain t r where t: "start = t # r" "is_list_tag t"
    "\<forall>rest. read_list_size t (r @ rest) = Inr (length nodes, rest)" by blast
  from 3 have "nodes_all readable readable_attrs readable nodes" "c = Nodes nodes" by auto
  with 3(1) [OF w(1,2)] t w(3) show ?case by (auto simp: reads_content_def read_content_def)
next
  case (4 v)
  then show ?case by (auto intro!: text_reads_content simp: readable_reads)
next
  case (5 v)
  then show ?case by (auto intro: bytes_read_content)
next
  case (7 node nodes)
  from 7(3) obtain n ns where w: "encode_node_inner node = Inr n" "encode_children nodes = Inr ns" "bs = n @ ns"
    by (auto simp: and_then_eq_Ok)
  with 7 show ?case by (simp add: readable_node_def)
qed simp_all

section \<open>Nodes that fit\<close>

definition short :: "string \<Rightarrow> bool" where
  "short v \<longleftrightarrow> length v < 4294967295"

lemma write_byte_length_short: "n < 4294967295 \<Longrightarrow> \<exists>bs. write_byte_length n = Inr bs"
  by (auto simp: write_byte_length_def)

lemma write_raw_short: "short v \<Longrightarrow> \<exists>bs. write_raw_string v = Inr bs"
  using write_byte_length_short [of "length v"] by (auto simp: write_raw_string_def short_def)

lemma jid_server_shorter: "jid_decode v = Some jid \<Longrightarrow> length (jid_server_raw jid) < length v"
  by (auto simp: jid_decode_def split_once_Some Let_def split: option.splits prod.splits)

lemma write_string_short: "short v \<Longrightarrow> \<exists>bs. write_string v = Inr bs"
proof (induction v rule: write_string.induct)
  case (1 v)
  have user: "short (jid_user jid)" "short (jid_server_raw jid)" if "jid_decode v = Some jid" for jid
    using 1(3) jid_decode_shorter [OF that] jid_server_shorter [OF that] by (auto simp: short_def)
  have packed: "\<exists>bs. write_packed v k = Inr bs" if "list_all (packed_char k) v" "length v \<le> PACKED_MAX" for k
    using read_write_packed [OF that] by blast
  consider "v = []" | t where "v \<noteq> []" "token_for v = Some t"
    | "v \<noteq> []" "token_for v = None" "is_nibble v \<or> is_hex v"
    | "v \<noteq> []" "token_for v = None" "\<not> is_nibble v" "\<not> is_hex v" by blast
  then show ?case
  proof cases
    case 1
    then show ?thesis using write_raw_short \<open>short v\<close> by (simp add: write_string.simps)
  next
    case 2
    then show ?thesis by (auto simp: write_string.simps [of v] split: option.split)
  next
    case 3
    then show ?thesis using packed by (auto simp: write_string.simps [of v] is_nibble_packed is_hex_packed)
  next
    case 4
    show ?thesis
    proof (cases "jid_decode v")
      case None
      with 4 show ?thesis using write_raw_short \<open>short v\<close> by (simp add: write_string.simps [of v])
    next
      case (Some jid)
      obtain server where server: "write_raw_string (jid_server_raw jid) = Inr server"
        using write_raw_short user(2) [OF Some] by blast
      show ?thesis
      proof (cases "jid_device jid")
        case None
        have "\<exists>ub. (if jid_user jid = [] then Ok [LIST_EMPTY] else write_string (jid_user jid)) = Inr ub"
          using 1(1) [OF 4 Some None _ user(1) [OF Some]] by simp
        with 4 Some None server show ?thesis by (auto simp: write_string.simps [of v])
      next
        case (Some device)
        obtain ub where "write_string (jid_user jid) = Inr ub"
          using 1(2) [OF 4 \<open>jid_decode v = Some jid\<close> Some user(1) [OF \<open>jid_decode v = Some jid\<close>]] by blast
        with 4 Some \<open>jid_decode v = Some jid\<close> show ?thesis by (simp add: write_string.simps [of v])
      qed
    qed
  qed
qed

lemma write_list_start_fits: "n \<le> 65535 \<Longrightarrow> \<exists>bs. write_list_start n = Inr bs"
  by (auto simp: write_list_start_def)

text \<open>Tags are not empty, lists hold at most 65535 items and strings are shorter than 4 GiB.\<close>

definition attrs_fit :: "(string, string) btree \<Rightarrow> bool" where
  "attrs_fit attrs \<longleftrightarrow> 2 + length attrs * 2 \<le> 65535 \<and> (\<forall>(k, v)\<in>set attrs. short k \<and> short v)"

fun node_fits :: "BinaryNode \<Rightarrow> bool"
  and content_fits :: "BinaryNodeContent option \<Rightarrow> bool"
  and nodes_fit :: "BinaryNode list \<Rightarrow> bool" where
  "node_fits (BinaryNode tag attrs content) \<longleftrightarrow>
     tag \<noteq> [] \<and> short tag \<and> attrs_fit attrs \<and> content_fits content"
| "content_fits None \<longleftrightarrow> True"
| "content_fits (Some (Nodes nodes)) \<longleftrightarrow> length nodes \<le> 65535 \<and> nodes_fit nodes"
| "content_fits (Some (Text v)) \<longleftrightarrow> short v"
| "content_fits (Some (Bytes v)) \<longleftrightarrow> length v < 4294967295"
| "nodes_fit [] \<longleftrightarrow> True"
| "nodes_fit (n # ns) \<longleftrightarrow> node_fits n \<and> nodes_fit ns"

lemma write_attrs_fit: "\<forall>(k, v)\<in>set attrs. short k \<and> short v \<Longrightarrow> \<exists>bs. write_attrs attrs = Inr bs"
proof (induction attrs rule: write_attrs.induct)
  case (2 key val attrs)
  then obtain k v where kv: "write_string key = Inr k" "write_string val = Inr v"
    using write_string_short by fastforce
  then have "\<exists>bs. write_attrs attrs = Inr bs" using 2 by auto
  with kv show ?case by auto
qed simp

lemma encode_fits:
  "node_fits n \<Longrightarrow> \<exists>bs. encode_node_inner n = Inr bs"
  "content_fits c \<Longrightarrow> \<exists>bs. encode_content c = Inr bs"
  "nodes_fit ns \<Longrightarrow> \<exists>bs. encode_children ns = Inr bs"
proof (induction n and c and ns rule: node_fits_content_fits_nodes_fit.induct)
  case (1 tag attrs content)
  then have fits: "tag \<noteq> []" "short tag" "2 + length attrs * 2 \<le> 65535"
    "\<forall>(k, v)\<in>set attrs. short k \<and> short v" "content_fits content"
    by (auto simp: attrs_fit_def)
  have "1 + length attrs * 2 + (if content = None then 0 else 1) \<le> 65535" using fits(3) by simp
  then obtain start where "write_list_start (1 + length attrs * 2 + (if content = None then 0 else 1)) = Inr start"
    using write_list_start_fits by blast
  moreover obtain t where "write_string tag = Inr t" using write_string_short fits(2) by blast
  moreover obtain a where "write_attrs attrs = Inr a" using write_attrs_fit fits(4) by blast
  moreover obtain c where "encode_content content = Inr c" using 1(1) fits(5) by blast
  ultimately show ?case using fits(1) by simp
next
  case (3 nodes)
  then obtain ns where "encode_children nodes = Inr ns" by auto
  moreover obtain start where "write_list_start (length nodes) = Inr start"
    using write_list_start_fits 3 by auto
  ultimately show ?case by simp
next
  case (5 v)
  then show ?case using write_byte_length_short [of "length v"] by (auto simp: write_byte_content_def)
qed (auto dest: write_string_short)

section \<open>Strings of the protocol\<close>

definition protocol_string :: "string \<Rightarrow> bool" where
  "protocol_string v \<longleftrightarrow> CHR ''@'' \<notin> set v \<or>
     (\<exists>u s. plain_user u \<and> s \<noteq> Other \<and> v = jid_encode u s None None) \<or>
     (\<exists>u s d. plain_user u \<and> s \<in> {SWhatsAppNet, Lid, Hosted, HostedLid} \<and> unat d < 256 \<and>
        v = jid_encode u s (Some d) None)"

definition protocol_attrs :: "(string, string) btree \<Rightarrow> bool" where
  "protocol_attrs attrs \<longleftrightarrow> btree_ok attrs \<and> (\<forall>(k, v)\<in>set attrs. protocol_string k \<and> protocol_string v)"

definition protocol_node :: "BinaryNode \<Rightarrow> bool" where
  "protocol_node = node_all protocol_string protocol_attrs (\<lambda>v. protocol_string v \<and> \<not> is_raw v)"

lemma ucast_device: "unat d < 256 \<Longrightarrow> (ucast (ucast (d :: u16) :: u8) :: u16) = d"
  by (simp add: word_unat_eq_iff unsigned_ucast_eq unsigned_take_bit_eq take_bit_nat_eq_self)

lemma jid_without_device: "jid_encode u s None None = u @ ''@'' @ server_str s"
  by (simp add: jid_encode_def)

lemma wire_protocol_string [simp]: "protocol_string v \<Longrightarrow> wire_string v = v"
proof -
  assume v: "protocol_string v"
  show "wire_string v = v"
  proof (cases "v = [] \<or> token_for v \<noteq> None \<or> is_nibble v \<or> is_hex v")
    case True
    then show ?thesis by (simp only: wire_string_def if_True)
  next
    case False
    from v consider "CHR ''@'' \<notin> set v"
      | u s where "plain_user u" "s \<noteq> Other" "v = jid_encode u s None None"
      | u s d where "plain_user u" "s \<in> {SWhatsAppNet, Lid, Hosted, HostedLid}" "unat d < 256"
        "v = jid_encode u s (Some d) None"
      unfolding protocol_string_def by blast
    then show ?thesis
    proof cases
      case 1
      then have "jid_decode v = None" by (simp add: jid_decode_None_iff)
      with False show ?thesis by (simp add: wire_string_def)
    next
      case 2
      then have "jid_decode v = Some \<lparr>jid_user = u, jid_server = s, jid_server_raw = server_str s,
          jid_device = None, jid_agent = None, jid_domain_type = domain_type s None\<rparr>"
        using jid_decode_encode by simp
      with False 2(3) show ?thesis by (simp add: wire_string_def jid_without_device)
    next
      case 3
      then have "domain_server (domain_type s None) SWhatsAppNet = s" by auto
      with 3 False show ?thesis by (auto simp: wire_string_def jid_decode_encode ucast_device)
    qed
  qed
qed

lemma wire_protocol_attrs [simp]: "protocol_attrs attrs \<Longrightarrow> wire_attrs attrs = attrs"
proof -
  assume a: "protocol_attrs attrs"
  have "fold (\<lambda>(k, v). btree_insert (wire_string k) (wire_string v)) attrs [] =
      fold (\<lambda>(k, v). btree_insert k v) attrs []"
    using a by (intro List.fold_cong) (auto simp: protocol_attrs_def)
  also have "\<dots> = attrs" using a fold_btree_insert [of "[]" attrs] by (simp add: protocol_attrs_def)
  finally show ?thesis by (simp add: wire_attrs_def)
qed

lemma wire_protocol:
  "node_all protocol_string protocol_attrs (\<lambda>v. protocol_string v \<and> \<not> is_raw v) n \<Longrightarrow> wire_node n = n"
  "content_all protocol_string protocol_attrs (\<lambda>v. protocol_string v \<and> \<not> is_raw v) c \<Longrightarrow> wire_content c = c"
  "nodes_all protocol_string protocol_attrs (\<lambda>v. protocol_string v \<and> \<not> is_raw v) ns \<Longrightarrow> wire_nodes ns = ns"
  by (induction n and c and ns rule: wire_node_wire_content_wire_nodes.induct) simp_all

end
