(* ===== verification/CodecSafety.thy ===== *)
theory CodecSafety
  imports CodecRoundtrip
begin

text \<open>
  What the decoder returns on arbitrary bytes: always a result, since both recursions end, and if
  it is a node, a well-formed one whose size is bounded by the input. Then the round trip at a
  concrete stanza, and the JIDs that do not survive it.
\<close>

section \<open>Characters of the dictionaries\<close>

definition token_chars :: "string list \<Rightarrow> bool" where
  "token_chars = list_all (list_all (\<lambda>c. (of_char c :: nat) < 128 \<and> c \<noteq> CHR ''@''))"

lemma token_chars_single: "token_chars SINGLE_BYTE_TOKENS"
  by (simp add: SINGLE_BYTE_TOKENS_def token_chars_def)

lemma token_chars_double: "list_all token_chars DOUBLE_BYTE_TOKENS"
  by (simp add: DOUBLE_BYTE_TOKENS_def DOUBLE_BYTE_TOKENS_0_def
      DOUBLE_BYTE_TOKENS_1_def DOUBLE_BYTE_TOKENS_2_def DOUBLE_BYTE_TOKENS_3_def token_chars_def)

lemma str_ok_list_all: "list_all (\<lambda>c. (of_char c :: nat) < 128) s \<Longrightarrow> str_ok s"
  by (rule str_ok_ascii) (simp add: list_all_iff)

lemma token_chars_str_ok: "token_chars ts \<Longrightarrow> t \<in> set ts \<Longrightarrow> str_ok t \<and> CHR ''@'' \<notin> set t"
  by (auto simp: token_chars_def list_all_iff intro!: str_ok_ascii)

lemma single_token_plain: "single_token i = Some t \<Longrightarrow> str_ok t \<and> CHR ''@'' \<notin> set t"
  by (auto simp: single_token_def list_get_def split: if_splits
      intro!: token_chars_str_ok [OF token_chars_single])

lemma double_token_plain: "double_token d i = Some t \<Longrightarrow> str_ok t \<and> CHR ''@'' \<notin> set t"
proof -
  assume "double_token d i = Some t"
  then have d: "unat d < length DOUBLE_BYTE_TOKENS" "unat i < length (DOUBLE_BYTE_TOKENS ! unat d)"
    "t = DOUBLE_BYTE_TOKENS ! unat d ! unat i"
    by (auto simp: double_token_def list_get_def bind_eq_Some_conv split: if_splits)
  have "token_chars (DOUBLE_BYTE_TOKENS ! unat d)"
    using token_chars_double nth_mem [OF d(1)] by (simp add: list_all_iff)
  then show ?thesis using nth_mem [OF d(2)] d(3) by (simp add: token_chars_str_ok)
qed

lemma token_for_jid: "CHR ''@'' \<in> set v \<Longrightarrow> token_for v = None"
proof (rule ccontr)
  assume at: "CHR ''@'' \<in> set v" and "token_for v \<noteq> None"
  then obtain t where t: "token_for v = Some t" by blast
  show False
  proof (cases "tk_dict t")
    case None
    with token_for_single [OF t] single_token_plain at show False by blast
  next
    case (Some d)
    with token_for_double [OF t] double_token_plain at show False by blast
  qed
qed

section \<open>Strings that are read are UTF-8\<close>

lemma char_of_byte_ascii: "unat b < 128 \<Longrightarrow> (of_char (char_of_byte b) :: nat) < 128"
  by (simp add: char_of_byte_def)

lemma unpack_byte_ascii: "unpack_byte tag v = Inr c \<Longrightarrow> (of_char c :: nat) < 128"
proof -
  assume u: "unpack_byte tag v = Inr c"
  have "(of_char (char_of_byte (48 + v)) :: nat) < 128" if "v \<le> 9"
    using that by (intro char_of_byte_ascii) (simp add: word_le_nat_alt unat_word_ariths)
  moreover have "(of_char (char_of_byte (65 + v - 10)) :: nat) < 128" if "v \<le> 15"
  proof -
    have "65 + v - 10 = 55 + v" by simp
    with that show ?thesis by (intro char_of_byte_ascii) (simp add: word_le_nat_alt unat_word_ariths)
  qed
  ultimately show ?thesis using u by (auto simp: unpack_byte_def split: if_splits)
qed

lemma read_packed_loop_ascii:
  "read_packed_loop tag n bs = Inr (v, rest) \<Longrightarrow> \<forall>c\<in>set v. (of_char c :: nat) < 128"
  by (induction n arbitrary: bs v) (fastforce simp: and_then_eq_Ok dest: unpack_byte_ascii)+

lemma read_packed_str_ok: "read_packed tag bs = Inr (v, rest) \<Longrightarrow> str_ok v"
  by (auto simp: read_packed_def and_then_eq_Ok dest: read_packed_loop_ascii in_set_butlastD
      intro!: str_ok_ascii split: if_splits)

lemma str_ok_server [simp]: "str_ok (server_str s)"
  by (cases s) (simp_all add: str_ok_list_all)

lemma str_ok_jid_encode: "str_ok u \<Longrightarrow> str_ok (jid_encode u s d a)"
  by (auto simp: jid_encode_def show_u16_def str_ok_append str_ok_Cons split: option.split)

lemma read_string_str_ok:
  "read_string tag bs = Inr (v, rest) \<Longrightarrow> str_ok v"
  "read_jid_pair bs = Inr (v, rest) \<Longrightarrow> str_ok v"
  "read_ad_jid bs = Inr (v, rest) \<Longrightarrow> str_ok v"
proof (induction tag bs and bs and bs arbitrary: v rest and v rest and v rest
    rule: read_string_read_jid_pair_read_ad_jid.induct)
  case (1 tag bs)
  then show ?case
    by (auto simp: read_string.simps and_then_eq_Ok result_simps string_from_utf8_Ok
        dest: single_token_plain double_token_plain read_packed_str_ok split: option.splits if_splits)
next
  case (2 bs)
  from 2(3) obtain t b1 user b2 t' b3 server where
    r: "read_u8 bs = Inr (t, b1)" "read_string t b1 = Inr (user, b2)" "read_u8 b2 = Inr (t', b3)"
      "read_string t' b3 = Inr (server, rest)" "v = user @ ''@'' @ server"
    by (auto simp: read_jid_pair.simps and_then_eq_Ok split: if_splits)
  from 2(1) [OF r(1) refl r(2)] 2(2) [OF r(1) refl r(2) refl r(3) refl r(4)] r(5)
  show ?case by (simp add: str_ok_split)
next
  case (3 bs)
  from 3(2) obtain d b1 e b2 t b3 user s x where
    r: "read_u8 bs = Inr (d, b1)" "read_u8 b1 = Inr (e, b2)" "read_u8 b2 = Inr (t, b3)"
      "read_string t b3 = Inr (user, rest)" "v = jid_encode user s x None"
    by (auto simp: read_ad_jid.simps and_then_eq_Ok)
  from 3(1) [OF r(1) refl r(2) refl r(3) refl r(4)] r(5) show ?case by (simp add: str_ok_jid_encode)
qed

lemma read_tagged_str_ok: "read_tagged_string bs = Inr (v, rest) \<Longrightarrow> str_ok v"
  by (auto simp: read_tagged_string_def and_then_eq_Ok dest: read_string_str_ok)

section \<open>Nodes that are read are well-formed\<close>

definition attrs_ok :: "(string, string) btree \<Rightarrow> bool" where
  "attrs_ok attrs \<longleftrightarrow> btree_ok attrs \<and> (\<forall>(k, v)\<in>set attrs. str_ok k \<and> str_ok v)"

definition node_ok :: "BinaryNode \<Rightarrow> bool" where
  "node_ok = node_all (\<lambda>tag. tag \<noteq> [] \<and> str_ok tag) attrs_ok str_ok"

fun node_count :: "BinaryNode \<Rightarrow> nat"
  and content_count :: "BinaryNodeContent option \<Rightarrow> nat"
  and nodes_count :: "BinaryNode list \<Rightarrow> nat" where
  "node_count (BinaryNode tag attrs content) = Suc (content_count content)"
| "content_count None = 0"
| "content_count (Some (Nodes nodes)) = nodes_count nodes"
| "content_count (Some (Text v)) = 0"
| "content_count (Some (Bytes v)) = 0"
| "nodes_count [] = 0"
| "nodes_count (n # ns) = node_count n + nodes_count ns"

lemma attrs_ok_insert: "attrs_ok attrs \<Longrightarrow> str_ok k \<Longrightarrow> str_ok v \<Longrightarrow> attrs_ok (btree_insert k v attrs)"
proof -
  have "set (btree_insert k v attrs) \<subseteq> insert (k, v) (set attrs)"
    by (induction k v attrs rule: btree_insert.induct) auto
  then show "attrs_ok attrs \<Longrightarrow> str_ok k \<Longrightarrow> str_ok v \<Longrightarrow> attrs_ok (btree_insert k v attrs)"
    by (auto simp: attrs_ok_def)
qed

lemma read_attrs_ok: "read_attrs n bs attrs = Inr (v, rest) \<Longrightarrow> attrs_ok attrs \<Longrightarrow> attrs_ok v"
  by (induction n arbitrary: bs attrs)
    (fastforce simp: and_then_eq_Ok dest: read_tagged_str_ok intro: attrs_ok_insert)+

lemma read_node_head_ok:
  "read_node_head bs = Inr ((sz, tag, attrs), rest) \<Longrightarrow> tag \<noteq> [] \<and> str_ok tag \<and> attrs_ok attrs"
  by (auto simp: read_node_head_def and_then_eq_Ok dest: read_tagged_str_ok split: if_splits
      elim!: read_attrs_ok) (auto simp: attrs_ok_def)

lemma decode_ok:
  "decode_node_inner bs = Inr (n, rest) \<Longrightarrow> node_ok n \<and> node_count n + length rest \<le> length bs"
  "decode_children k bs = Inr (ns, rest) \<Longrightarrow>
     nodes_all (\<lambda>tag. tag \<noteq> [] \<and> str_ok tag) attrs_ok str_ok ns \<and> nodes_count ns + length rest \<le> length bs"
proof (induction bs and k bs arbitrary: n rest and ns rest rule: decode_node_inner_decode_children.induct)
  case (1 bs)
  from 1(2) obtain size tag attrs b1 where head: "read_node_head bs = Inr ((size, tag, attrs), b1)"
    by (auto simp: decode_node_inner.simps [of bs] and_then_eq_Ok)
  from read_node_head_ok [OF head] read_node_head_shorter [OF head]
  have h: "tag \<noteq> []" "str_ok tag" "attrs_ok attrs" "length b1 < length bs" by auto
  show ?case
  proof (cases "even size")
    case True
    with 1(2) head obtain t b2 where t: "read_u8 b1 = Inr (t, b2)"
      by (auto simp: decode_node_inner.simps [of bs] and_then_eq_Ok)
    then have less: "length b2 < length b1" by (rule read_u8_shorter)
    consider "is_list_tag t" | "\<not> is_list_tag t" "is_binary_tag t" | "\<not> is_list_tag t" "\<not> is_binary_tag t"
      by blast
    then show ?thesis
    proof cases
      case l: 1
      with 1(2) head True t obtain c b3 ch where
        c: "read_list_size t b2 = Inr (c, b3)" "decode_children c b3 = Inr (ch, rest)"
          "n = BinaryNode tag attrs (Some (Nodes ch))"
        by (auto simp: decode_node_inner.simps [of bs] and_then_eq_Ok)
      from 1(1) [OF head refl refl refl True t refl l c(1) refl c(2)] read_list_size_shorter [OF c(1)] c(3) h less
      show ?thesis by (simp add: node_ok_def)
    next
      case 2
      with 1(2) head True t h less show ?thesis
        by (auto simp: decode_node_inner.simps [of bs] and_then_eq_Ok node_ok_def dest: read_binary_shorter)
    next
      case 3
      with 1(2) head True t h less show ?thesis
        by (auto simp: decode_node_inner.simps [of bs] and_then_eq_Ok node_ok_def
            dest: read_string_str_ok read_string_shorter)
    qed
  next
    case False
    with 1(2) head h show ?thesis by (auto simp: decode_node_inner.simps [of bs] node_ok_def)
  qed
next
  case (3 k bs)
  from 3(3) obtain m b1 ms where
    r: "decode_node_inner bs = Inr (m, b1)" "decode_children k b1 = Inr (ms, rest)" "ns = m # ms"
    by (auto simp: and_then_eq_Ok)
  from 3(1) [OF r(1)] 3(2) [OF r(1) refl r(2)] r(3) show ?case by (auto simp: node_ok_def)
qed simp

text \<open>
  C38: whatever bytes arrive, compressed or not, decoding gives an error or a well-formed node: no
  empty tag, attributes in key order with distinct keys, and every tag, key, value and text valid
  UTF-8. It has at most as many nodes as the decompressed input has bytes.
\<close>

theorem decoded_node_well_formed:
  assumes "decode_binary_node inflate input = Inr n"
  shows "node_ok n \<and> (\<exists>bs. decompress_if_required inflate input = Inr bs \<and> node_count n \<le> length bs)"
proof -
  from assms obtain bs rest where "decompress_if_required inflate input = Inr bs"
    "decode_node_inner bs = Inr (n, rest)"
    by (auto simp: decode_binary_node_def and_then_eq_Ok)
  with decode_ok(1) [of bs n rest] show ?thesis by auto
qed

section \<open>The round trip\<close>

text \<open>
  C31: a stanza survives the wire. Every node whose tags are not empty, whose lists hold at most
  65535 items and whose strings are shorter than 4 GiB is encoded; if its strings are UTF-8 and
  every JID in it without a device names a server, decoding the bytes gives back the node, up to
  raw text, which arrives as bytes, and to the JIDs, which arrive shortened. If every string is a
  plain one or a JID of the protocol and no text is raw, it is the node itself.
\<close>

theorem stanza_roundtrip:
  assumes "node_fits n" and "readable_node n"
  shows "\<exists>bs. encode_binary_node n = Inr bs \<and> decode_binary_node inflate bs = Inr (wire_node n) \<and>
    (protocol_node n \<longrightarrow> wire_node n = n)"
proof -
  obtain bs where bs: "encode_node_inner n = Inr bs" using encode_fits(1) [OF assms(1)] by blast
  with decode_encoded(1) [OF bs assms(2), of "[]"] wire_protocol(1) [of n] show ?thesis
    by (auto simp: encode_binary_node_def decode_binary_node_def decompress_if_required_def protocol_node_def)
qed


definition sample_stanza :: BinaryNode where
  "sample_stanza = BinaryNode ''iq'' [(''to'', ''123:4@s.whatsapp.net''), (''type'', ''get'')]
     (Some (Nodes [BinaryNode ''ping'' [] None]))"

lemma show_u16_4: "show_u16 4 = ''4''"
  by code_simp

lemma sample_jid: "''123:4@s.whatsapp.net'' = jid_encode ''123'' SWhatsAppNet (Some 4) None"
  by (simp add: jid_encode_def show_u16_4)

lemma has_server_plain: "CHR ''@'' \<notin> set v \<Longrightarrow> has_server v"
  using jid_decode_None_iff [of v] by (simp add: has_server_def)

lemma sample_stanza_ok: "node_fits sample_stanza" "readable_node sample_stanza" "protocol_node sample_stanza"
proof -
  have jid: "protocol_string ''123:4@s.whatsapp.net''"
    unfolding sample_jid protocol_string_def
    by (intro disjI2 exI [of _ "''123''"] exI [of _ SWhatsAppNet] exI [of _ 4]) (simp add: plain_user_def)
  have "jid_decode ''123:4@s.whatsapp.net'' \<noteq> None \<and>
      jid_device (the (jid_decode ''123:4@s.whatsapp.net'')) \<noteq> None"
    unfolding sample_jid using jid_decode_encode [of "''123''"] by (simp add: plain_user_def)
  then have server: "has_server ''123:4@s.whatsapp.net''"
    by (auto simp: has_server_def)
  show "node_fits sample_stanza" by (simp add: sample_stanza_def attrs_fit_def short_def)
  show "readable_node sample_stanza"
    by (simp add: sample_stanza_def readable_node_def readable_attrs_def readable_def server
        has_server_plain str_ok_list_all)
  show "protocol_node sample_stanza"
    using jid by (simp add: sample_stanza_def protocol_node_def protocol_attrs_def protocol_string_def
        btree_ok_def)
qed

theorem stanza_roundtrip_witness:
  "\<exists>bs. encode_binary_node sample_stanza = Inr bs \<and> decode_binary_node (\<lambda>_. Inl []) bs = Inr sample_stanza"
  using stanza_roundtrip [OF sample_stanza_ok(1,2), of "\<lambda>_. Inl []"] sample_stanza_ok(3) by auto

theorem decoded_node_well_formed_witness:
  "\<exists>input. decode_binary_node (\<lambda>_. Inl []) input = Inr sample_stanza \<and> node_ok sample_stanza"
proof -
  obtain bs where "encode_node_inner sample_stanza = Inr bs"
    using encode_fits(1) [OF sample_stanza_ok(1)] by blast
  with decode_encoded(1) [OF this sample_stanza_ok(2), of "[]"] wire_protocol(1) [of sample_stanza]
    sample_stanza_ok(3)
  have dec: "decode_binary_node (\<lambda>_. Inl []) (0 # bs) = Inr sample_stanza"
    by (simp add: decode_binary_node_def decompress_if_required_def protocol_node_def)
  from decoded_node_well_formed [OF this] dec show ?thesis by blast
qed

section \<open>JIDs that do not arrive\<close>

text \<open>
  The device is cut to eight bits and the agent and the server of a JID with a device are dropped;
  a JID with an empty server is encoded and then refused by the decoder.
\<close>

lemma jid_not_packed: "CHR ''@'' \<in> set v \<Longrightarrow> \<not> is_nibble v \<and> \<not> is_hex v"
  by (auto simp: is_nibble_def is_hex_def list_all_iff is_ascii_digit_def intro!: bexI [of _ "CHR ''@''"])

lemma jid_has_at: "jid_decode v = Some jid \<Longrightarrow> CHR ''@'' \<in> set v"
  using jid_decode_None_iff [of v] by auto

lemma write_jid:
  assumes "jid_decode v = Some jid"
  shows "write_string v = (case jid_device jid of
     Some device \<Rightarrow> and_then (write_string (jid_user jid)) (\<lambda>user.
       Ok ([AD_JID, word_of_nat (domain_code (jid_domain_type jid)), ucast device] @ user))
   | None \<Rightarrow>
       and_then (if jid_user jid = [] then Ok [LIST_EMPTY] else write_string (jid_user jid))
         (\<lambda>user. and_then (write_raw_string (jid_server_raw jid)) (\<lambda>server.
       Ok (JID_PAIR # user @ server))))"
  using assms jid_has_at [OF assms] jid_not_packed [of v] token_for_jid [of v]
  by (subst write_string.simps) auto

lemma wire_jid_device:
  assumes "jid_decode v = Some jid" "jid_device jid = Some device"
  shows "wire_string v = jid_encode (jid_user jid) (domain_server (jid_domain_type jid) SWhatsAppNet)
    (Some (ucast (ucast device :: u8))) None"
  using assms jid_has_at [OF assms(1)] jid_not_packed [of v] token_for_jid [of v]
  by (auto simp: wire_string_def)

text \<open>Printed JIDs differ when a part of them does.\<close>

lemma jid_encode_inject:
  assumes "plain_user u"
  shows "jid_encode u s d a = jid_encode u s' d' a' \<longleftrightarrow> s = s' \<and> d = d' \<and> a = a'"
proof
  assume "jid_encode u s d a = jid_encode u s' d' a'"
  then have "jid_decode (jid_encode u s d a) = jid_decode (jid_encode u s' d' a')" by (rule arg_cong)
  then show "s = s' \<and> d = d' \<and> a = a'" unfolding jid_decode_encode [OF assms] by simp
qed simp

lemma device_kept: "ucast (ucast (d :: u16) :: u8) = d \<longleftrightarrow> unat d < 256"
proof
  assume "ucast (ucast d :: u8) = d"
  then have "unat d = unat (ucast (ucast d :: u8) :: u16)" by simp
  also have "\<dots> = unat (ucast d :: u8)" by (simp add: unsigned_ucast_eq unsigned_take_bit_eq take_bit_take_bit)
  finally show "unat d < 256" using unsigned_less [of "ucast d :: u8"] by simp
qed (rule ucast_device)

lemma domain_server_kept:
  "domain_server (domain_type s None) SWhatsAppNet = s \<longleftrightarrow> s \<in> {SWhatsAppNet, Lid, Hosted, HostedLid}"
  by (cases s) simp_all

lemma reads_user:
  assumes "jid_decode v = Some jid" "str_ok v" "short v"
  shows "\<exists>ub t r. (if jid_user jid = [] then Ok [LIST_EMPTY] else write_string (jid_user jid)) = Inr ub \<and>
    ub = t # r \<and> (\<forall>rest. read_string t (r @ rest) = Inr (jid_user jid, rest))"
proof (cases "jid_user jid = []")
  case True
  then show ?thesis by simp
next
  case False
  have none: "jid_decode (jid_user jid) = None" by (rule jid_decode_user [OF assms(1)])
  have "short (jid_user jid)" using jid_decode_shorter [OF assms(1)] assms(3) by (simp add: short_def)
  then obtain ub where ub: "write_string (jid_user jid) = Inr ub" using write_string_short by blast
  have "reads_string (jid_user jid) ub"
    using write_string_reads [OF ub jid_decode_str_ok(1) [OF assms(1,2)]] none by (simp add: has_server_def)
  from read_tagged_user [OF this none] ub False show ?thesis by auto
qed

text \<open>
  C39: not every JID survives. A printed JID with a device is read back without its agent, with the
  low eight bits of its device, and with the server of its domain for its own, always without an
  error: it is the same JID exactly when it had no agent, the device is below 256 and the server
  is one of the four that a domain stands for. Every string that parses as a JID with no device and
  with nothing after the separator is written, in a form that the decoder refuses.
\<close>

theorem jids_lost_on_the_wire:
  "(plain_user u \<and> str_ok u \<and> short (jid_encode u s (Some d) a) \<longrightarrow>
      (\<exists>bs. write_string (jid_encode u s (Some d) a) = Inr bs \<and>
        read_tagged_string bs = Inr (jid_encode u (domain_server (domain_type s a) SWhatsAppNet)
          (Some (ucast (ucast d :: u8))) None, []) \<and>
        (read_tagged_string bs = Inr (jid_encode u s (Some d) a, []) \<longleftrightarrow>
          a = None \<and> unat d < 256 \<and> s \<in> {SWhatsAppNet, Lid, Hosted, HostedLid}))) \<and>
   (str_ok v \<and> short v \<and> jid_decode v = Some jid \<and> jid_device jid = None \<and> jid_server_raw jid = [] \<longrightarrow>
      (\<exists>bs. write_string v = Inr bs \<and> read_tagged_string bs = Inl InvalidJidPair))"
proof (intro conjI impI)
  assume "plain_user u \<and> str_ok u \<and> short (jid_encode u s (Some d) a)"
  then have u: "plain_user u" "str_ok u" "short (jid_encode u s (Some d) a)" by simp_all
  note dec = jid_decode_encode [OF u(1), of s "Some d" a]
  obtain bs where bs: "write_string (jid_encode u s (Some d) a) = Inr bs" using write_string_short [OF u(3)] by blast
  have "has_server (jid_encode u s (Some d) a)" by (simp add: has_server_def dec)
  from reads_tagged [OF write_string_reads [OF bs str_ok_jid_encode [OF u(2)] this], of "[]"] wire_jid_device [OF dec]
  have read: "read_tagged_string bs = Inr (jid_encode u (domain_server (domain_type s a) SWhatsAppNet)
      (Some (ucast (ucast d :: u8))) None, [])" by simp
  moreover have "read_tagged_string bs = Inr (jid_encode u s (Some d) a, []) \<longleftrightarrow>
      a = None \<and> unat d < 256 \<and> s \<in> {SWhatsAppNet, Lid, Hosted, HostedLid}"
    using device_kept [of d] domain_server_kept [of s] by (auto simp: read jid_encode_inject [OF u(1)])
  ultimately show "\<exists>bs. write_string (jid_encode u s (Some d) a) = Inr bs \<and>
        read_tagged_string bs = Inr (jid_encode u (domain_server (domain_type s a) SWhatsAppNet)
          (Some (ucast (ucast d :: u8))) None, []) \<and>
        (read_tagged_string bs = Inr (jid_encode u s (Some d) a, []) \<longleftrightarrow>
          a = None \<and> unat d < 256 \<and> s \<in> {SWhatsAppNet, Lid, Hosted, HostedLid})"
    using bs by blast
next
  assume "str_ok v \<and> short v \<and> jid_decode v = Some jid \<and> jid_device jid = None \<and> jid_server_raw jid = []"
  then have v: "str_ok v" "short v" "jid_decode v = Some jid" "jid_device jid = None" "jid_server_raw jid = []" by simp_all
  from reads_user [OF v(3,1,2)] obtain ub t r where
    ub: "(if jid_user jid = [] then Ok [LIST_EMPTY] else write_string (jid_user jid)) = Inr ub" "ub = t # r"
      "\<forall>rest. read_string t (r @ rest) = Inr (jid_user jid, rest)" by blast
  have raw: "write_raw_string [] = Inr [BINARY_8, 0]"
    by (simp add: write_raw_string_def write_byte_length_def bytes_of_def)
  have "write_string v = Inr (JID_PAIR # ub @ [BINARY_8, 0])"
    using ub(1) by (simp add: write_jid [OF v(3)] v(4,5) raw del: if_split)
  moreover have "read_string BINARY_8 [0] = Inr ([], [])"
    by (rule read_string_binary [OF tags_distinct(4)])
      (simp_all add: read_binary_for_tag_def read_bytes_def bytes_of_def tag_defs)
  with ub(2,3) have "read_tagged_string (JID_PAIR # ub @ [BINARY_8, 0]) = Inl InvalidJidPair"
    by (simp add: read_tagged_string_def read_jid_pair.simps)
  ultimately show "\<exists>bs. write_string v = Inr bs \<and> read_tagged_string bs = Inl InvalidJidPair" by blast
qed

theorem jids_lost_on_the_wire_witness:
  "(\<exists>bs. write_string ''7_2:300@g.us'' = Inr bs \<and> read_tagged_string bs = Inr (''7:44@s.whatsapp.net'', [])) \<and>
   (\<exists>bs. write_string ''7@'' = Inr bs \<and> read_tagged_string bs = Inl InvalidJidPair)"
proof
  have show_parts: "show_u16 2 = ''2''" "show_u16 300 = ''300''" "show_u16 (ucast (ucast (300 :: u16) :: u8)) = ''44''"
    by code_simp+
  then have v: "jid_encode ''7'' GUs (Some 300) (Some 2) = ''7_2:300@g.us''"
    "jid_encode ''7'' SWhatsAppNet (Some (ucast (ucast (300 :: u16) :: u8))) None = ''7:44@s.whatsapp.net''"
    by (simp_all add: jid_encode_def)
  have "plain_user ''7''" "str_ok ''7''" "short ''7_2:300@g.us''"
    by (simp_all add: plain_user_def str_ok_list_all short_def)
  then show "\<exists>bs. write_string ''7_2:300@g.us'' = Inr bs \<and> read_tagged_string bs = Inr (''7:44@s.whatsapp.net'', [])"
    using jids_lost_on_the_wire [of "''7''" GUs 300 "Some 2"] v by auto
next
  let ?jid = "\<lparr>jid_user = ''7'', jid_server = Other, jid_server_raw = [],
      jid_device = None, jid_agent = None, jid_domain_type = DomWhatsApp\<rparr>"
  have "jid_decode ''7@'' = Some ?jid"
    by (simp add: jid_decode_def from_server_str_def Let_def)
  moreover have "str_ok ''7@''" "short ''7@''" by (simp_all add: str_ok_list_all short_def)
  ultimately show "\<exists>bs. write_string ''7@'' = Inr bs \<and> read_tagged_string bs = Inl InvalidJidPair"
    using jids_lost_on_the_wire [of "[]" GUs 0 None "''7@''" ?jid] by simp
qed

end
