(* ===== verification/AppStateHash.thy ===== *)
theory AppStateHash
  imports SignalStore
begin

text \<open>
  The cryptography of the app-state sync, \<^verbatim>\<open>crates/wa-crypto/src/app_state.rs\<close>: the keys derived from
  a sync key, the MACs of mutations, snapshots and patches, and the hash of a collection. The hash
  is a vector of 64 words of 16 bits to which the expansion of every value MAC is added; the lemmas
  show that it depends on nothing but the value MACs it was built from.
\<close>

section \<open>External functions\<close>

text \<open>
  The functions of foreign crates that the app state uses beside those of \<^typ>\<open>ext\<close>: HMAC-SHA512,
  Base64, the JSON of a mutation's index, and the protobuf messages of a sync action and of a sync
  key. \<open>'v\<close> is the generated type \<open>SyncActionValue\<close>.
\<close>

record 'v SyncActionData =
  sa_index :: "bytes option"
  sa_value :: "'v option"
  sa_padding :: "bytes option"
  sa_version :: "i32 option"

text \<open>
  The protobuf messages of snapshots and patches, with the generated types that no modelled code
  looks into carried as their encodings.
\<close>

record SyncdVersion =
  sv_version :: "u64 option"

record SyncdIndex =
  si_blob :: "bytes option"

record SyncdValue =
  sval_blob :: "bytes option"

record KeyId =
  ki_id :: "bytes option"

record SyncdRecord =
  sr_index :: "SyncdIndex option"
  sr_value :: "SyncdValue option"
  sr_key_id :: "KeyId option"

record SyncdMutation =
  sm_operation :: "i32 option"
  sm_record :: "SyncdRecord option"

record SyncdPatch =
  sp_version :: "SyncdVersion option"
  sp_mutations :: "SyncdMutation list"
  sp_external_mutations :: "bytes option"
  sp_snapshot_mac :: "bytes option"
  sp_patch_mac :: "bytes option"
  sp_key_id :: "KeyId option"
  sp_exit_code :: "bytes option"
  sp_device_index :: "u32 option"
  sp_client_debug_data :: "bytes option"

record SyncdSnapshot =
  ss_version :: "SyncdVersion option"
  ss_records :: "SyncdRecord list"
  ss_mac :: "bytes option"
  ss_key_id :: "KeyId option"

text \<open>The fingerprint of a key is carried as its encoding.\<close>

record AppStateSyncKeyData =
  kd_key_data :: "bytes option"
  kd_fingerprint :: "bytes option"
  kd_timestamp :: "i64 option"

record 'v app_ext =
  a_hmac_sha512 :: "bytes \<Rightarrow> bytes \<Rightarrow> bytes option"
  a_base64_encode :: "bytes \<Rightarrow> string"
  a_base64_decode :: "string \<Rightarrow> string + bytes"
  a_json_encode :: "string list \<Rightarrow> string + bytes"
  a_json_decode :: "bytes \<Rightarrow> string + string list"
  a_enc_action :: "'v SyncActionData \<Rightarrow> bytes"
  a_dec_action :: "bytes \<Rightarrow> string + 'v SyncActionData"
  a_enc_patch :: "SyncdPatch \<Rightarrow> bytes"
  a_enc_key_data :: "AppStateSyncKeyData \<Rightarrow> bytes"
  a_dec_key_data :: "bytes \<Rightarrow> string + AppStateSyncKeyData"

text \<open>
  What the code relies on: the MAC has 64 bytes, Base64, JSON and the protobuf messages are read
  back as they were written.
\<close>

definition app_ext_ok :: "'v app_ext \<Rightarrow> bool" where
  "app_ext_ok A \<longleftrightarrow>
     (\<forall>k m. \<exists>t. a_hmac_sha512 A k m = Some t \<and> length t = 64) \<and>
     (\<forall>bs. a_base64_decode A (a_base64_encode A bs) = Inr bs) \<and>
     (\<forall>xs bs. a_json_encode A xs = Inr bs \<longrightarrow> a_json_decode A bs = Inr xs) \<and>
     (\<forall>v. a_dec_action A (a_enc_action A v) = Inr v) \<and>
     (\<forall>v. a_dec_key_data A (a_enc_key_data A v) = Inr v)"

section \<open>Keys and MACs\<close>

definition APP_STATE_KEY_LEN :: nat where "APP_STATE_KEY_LEN = 32"
definition APP_STATE_EXPANDED_KEY_LEN :: nat where "APP_STATE_EXPANDED_KEY_LEN = 160"
definition APP_STATE_LT_HASH_LEN :: nat where "APP_STATE_LT_HASH_LEN = 128"
definition APP_STATE_MAC_LEN :: nat where "APP_STATE_MAC_LEN = 32"
definition APP_STATE_INFO :: bytes where "APP_STATE_INFO = bytes_of ''WhatsApp App State Keys''"
definition APP_STATE_LT_HASH_INFO :: bytes where
  "APP_STATE_LT_HASH_INFO = bytes_of ''WhatsApp Patch Integrity''"

datatype AppStateMutationOperation = MutSet | MutRemove

fun mac_byte :: "AppStateMutationOperation \<Rightarrow> u8" where
  "mac_byte MutSet = 1"
| "mac_byte MutRemove = 2"

record AppStateKeyMaterial =
  index_key :: bytes
  value_encryption_key :: bytes
  value_mac_key :: bytes
  snapshot_mac_key :: bytes
  patch_mac_key :: bytes

text \<open>\<open>&bs[a..b]\<close>\<close>

definition slice :: "nat \<Rightarrow> nat \<Rightarrow> 'a list \<Rightarrow> 'a list" where
  "slice a b bs = take (b - a) (drop a bs)"

definition derive_app_state_keys :: "ext \<Rightarrow> bytes \<Rightarrow> CryptoError + AppStateKeyMaterial" where
  "derive_app_state_keys X key_data =
     (if length key_data \<noteq> APP_STATE_KEY_LEN then Err InvalidKeyLength
      else and_then (hkdf_sha256 X key_data APP_STATE_EXPANDED_KEY_LEN [] APP_STATE_INFO) (\<lambda>expanded.
        Ok \<lparr>index_key = slice 0 32 expanded, value_encryption_key = slice 32 64 expanded,
            value_mac_key = slice 64 96 expanded, snapshot_mac_key = slice 96 128 expanded,
            patch_mac_key = slice 128 160 expanded\<rparr>))"

text \<open>\<open>aes_256_cbc_encrypt\<close> and \<open>aes_256_cbc_decrypt\<close>: the IV goes before the ciphertext.\<close>

definition aes_256_cbc_encrypt :: "ext \<Rightarrow> bytes \<Rightarrow> bytes \<Rightarrow> bytes \<Rightarrow> CryptoError + bytes" where
  "aes_256_cbc_encrypt X plaintext key iv =
     and_then (aes_256_cbc_encrypt_with_iv X plaintext key iv) (\<lambda>encrypted. Ok (iv @ encrypted))"

definition aes_256_cbc_decrypt :: "ext \<Rightarrow> bytes \<Rightarrow> bytes \<Rightarrow> CryptoError + bytes" where
  "aes_256_cbc_decrypt X ciphertext_with_iv key =
     (if length ciphertext_with_iv < 16 then Err CiphertextTooShort
      else aes_256_cbc_decrypt_with_iv X (drop 16 ciphertext_with_iv) key (take 16 ciphertext_with_iv))"

definition hmac_sha512 :: "'v app_ext \<Rightarrow> bytes \<Rightarrow> bytes \<Rightarrow> CryptoError + bytes" where
  "hmac_sha512 A input key = ok_or (a_hmac_sha512 A key input) InvalidKeyLength"

definition encrypt_app_state_value_with_iv ::
  "ext \<Rightarrow> bytes \<Rightarrow> AppStateKeyMaterial \<Rightarrow> bytes \<Rightarrow> CryptoError + bytes" where
  "encrypt_app_state_value_with_iv X plaintext keys iv =
     aes_256_cbc_encrypt X plaintext (value_encryption_key keys) iv"

definition decrypt_app_state_value :: "ext \<Rightarrow> bytes \<Rightarrow> AppStateKeyMaterial \<Rightarrow> CryptoError + bytes" where
  "decrypt_app_state_value X ciphertext_with_iv keys =
     aes_256_cbc_decrypt X ciphertext_with_iv (value_encryption_key keys)"

definition app_state_index_mac :: "ext \<Rightarrow> bytes \<Rightarrow> AppStateKeyMaterial \<Rightarrow> CryptoError + bytes" where
  "app_state_index_mac X index keys = hmac_sha256 X index (index_key keys)"

definition app_state_mutation_mac ::
  "'v app_ext \<Rightarrow> AppStateMutationOperation \<Rightarrow> bytes \<Rightarrow> bytes \<Rightarrow> bytes \<Rightarrow> CryptoError + bytes" where
  "app_state_mutation_mac A operation content key_id key =
     (if key_id = [] then Err (InvalidInput ''app-state key id'')
      else
        let key_context = mac_byte operation # key_id in
        and_then (hmac_sha512 A (key_context @ content @ put_u64 (word_of_nat (length key_context))) key)
          (\<lambda>mac. Ok (take APP_STATE_MAC_LEN mac)))"

definition app_state_value_mac ::
  "'v app_ext \<Rightarrow> AppStateMutationOperation \<Rightarrow> bytes \<Rightarrow> bytes \<Rightarrow> AppStateKeyMaterial \<Rightarrow> CryptoError + bytes" where
  "app_state_value_mac A operation encrypted_value key_id keys =
     app_state_mutation_mac A operation encrypted_value key_id (value_mac_key keys)"

definition validate_collection_name :: "string \<Rightarrow> CryptoError + unit" where
  "validate_collection_name collection_name =
     (if collection_name = [] then Err (InvalidInput ''app-state collection name'') else Ok ())"

definition validate_mac :: "bytes \<Rightarrow> string \<Rightarrow> CryptoError + unit" where
  "validate_mac mac label = (if length mac \<noteq> APP_STATE_MAC_LEN then Err (InvalidInput label) else Ok ())"

definition app_state_snapshot_mac ::
  "ext \<Rightarrow> bytes \<Rightarrow> u64 \<Rightarrow> string \<Rightarrow> AppStateKeyMaterial \<Rightarrow> CryptoError + bytes" where
  "app_state_snapshot_mac X lthash version collection_name keys =
     and_then (validate_collection_name collection_name) (\<lambda>_.
     hmac_sha256 X (lthash @ put_u64 version @ bytes_of collection_name) (snapshot_mac_key keys))"

definition app_state_patch_mac ::
  "ext \<Rightarrow> bytes \<Rightarrow> bytes list \<Rightarrow> u64 \<Rightarrow> string \<Rightarrow> AppStateKeyMaterial \<Rightarrow> CryptoError + bytes" where
  "app_state_patch_mac X snapshot_mac value_macs version collection_name keys =
     and_then (validate_mac snapshot_mac ''snapshot mac'') (\<lambda>_.
     and_then (validate_collection_name collection_name) (\<lambda>_.
     and_then (for_each (\<lambda>mac. validate_mac mac ''value mac'') value_macs) (\<lambda>_.
     hmac_sha256 X (snapshot_mac @ concat value_macs @ put_u64 version @ bytes_of collection_name)
       (patch_mac_key keys))))"

section \<open>The hash of a collection\<close>

definition le_u16 :: "u8 \<Rightarrow> u8 \<Rightarrow> u16" where
  "le_u16 lo hi = ucast lo OR push_bit 8 (ucast hi)"

definition put_le_u16 :: "u16 \<Rightarrow> bytes" where
  "put_le_u16 w = [ucast w, ucast (drop_bit 8 w)]"

text \<open>The loop over the pairs of bytes of both operands.\<close>

fun combine_pairs :: "bool \<Rightarrow> bytes \<Rightarrow> bytes \<Rightarrow> bytes" where
  "combine_pairs subtract (b0 # b1 # base) (i0 # i1 # input) =
     (let x = le_u16 b0 b1; y = le_u16 i0 i1
      in put_le_u16 (if subtract then x - y else x + y) @ combine_pairs subtract base input)"
| "combine_pairs subtract base input = base"

definition apply_lt_hash_operand :: "ext \<Rightarrow> bytes \<Rightarrow> bytes \<Rightarrow> bool \<Rightarrow> CryptoError + bytes" where
  "apply_lt_hash_operand X base input subtract =
     and_then (hkdf_sha256 X input APP_STATE_LT_HASH_LEN [] APP_STATE_LT_HASH_INFO) (\<lambda>expanded.
     Ok (combine_pairs subtract base expanded))"

definition validate_lt_hash :: "bytes \<Rightarrow> CryptoError + bytes" where
  "validate_lt_hash hash =
     (if length hash = APP_STATE_LT_HASH_LEN then Ok hash else Err (InvalidInput ''app-state lt hash''))"

fun apply_lt_hash_operands :: "ext \<Rightarrow> bool \<Rightarrow> bytes list \<Rightarrow> bytes \<Rightarrow> CryptoError + bytes" where
  "apply_lt_hash_operands X subtract [] output = Ok output"
| "apply_lt_hash_operands X subtract (item # items) output =
     and_then (apply_lt_hash_operand X output item subtract) (\<lambda>output.
     apply_lt_hash_operands X subtract items output)"

definition app_state_lt_hash_subtract_then_add ::
  "ext \<Rightarrow> bytes \<Rightarrow> bytes list \<Rightarrow> bytes list \<Rightarrow> CryptoError + bytes" where
  "app_state_lt_hash_subtract_then_add X base subtract add =
     and_then (validate_lt_hash base) (\<lambda>output.
     and_then (apply_lt_hash_operands X True subtract output) (\<lambda>output.
     apply_lt_hash_operands X False add output))"

section \<open>The hash as a vector\<close>

fun le_words :: "bytes \<Rightarrow> u16 list" where
  "le_words (a # b # bs) = le_u16 a b # le_words bs"
| "le_words bs = []"

lemma length_le_words: "length (le_words bs) = length bs div 2"
  by (induction bs rule: le_words.induct) auto

lemma le_put_u16 [simp]: "le_u16 (ucast w) (ucast (drop_bit 8 w)) = w"
  unfolding le_u16_def
  by (rule bit_word_eqI) (auto simp: bit_simps)

lemma put_le_u16_bytes [simp]: "put_le_u16 (le_u16 a b) = [a, b]"
proof -
  have "ucast (le_u16 a b) = a"
    unfolding le_u16_def by (rule bit_word_eqI) (auto simp: bit_simps)
  moreover have "ucast (drop_bit 8 (le_u16 a b)) = b"
    unfolding le_u16_def by (rule bit_word_eqI) (auto simp: bit_simps dest: bit_imp_le_length)
  ultimately show ?thesis by (simp add: put_le_u16_def)
qed

lemma le_words_put [simp]: "le_words (put_le_u16 w @ bs) = w # le_words bs"
  by (simp add: put_le_u16_def)

lemma le_words_inject: "even (length xs) \<Longrightarrow> length xs = length ys \<Longrightarrow> le_words xs = le_words ys \<longleftrightarrow> xs = ys"
proof (induction xs arbitrary: ys rule: le_words.induct)
  case (1 a b bs)
  then obtain c d cs where ys: "ys = c # d # cs" by (cases ys rule: le_words.cases) auto
  have "le_u16 a b = le_u16 c d \<longleftrightarrow> a = c \<and> b = d"
    by (metis put_le_u16_bytes list.inject)
  with 1 ys show ?case by simp
qed auto

lemma length_combine_pairs [simp]: "length (combine_pairs s base input) = length base"
  by (induction s base input rule: combine_pairs.induct) (auto simp: put_le_u16_def Let_def)

lemma le_words_combine:
  "length base = length input \<Longrightarrow> le_words (combine_pairs s base input) =
     map2 (\<lambda>x y. if s then x - y else x + y) (le_words base) (le_words input)"
  by (induction s base input rule: combine_pairs.induct) (auto simp: Let_def length_Suc_conv)

text \<open>The vector a value MAC stands for, and the sum of the vectors of a list of value MACs.\<close>

definition lt_vector :: "ext \<Rightarrow> bytes \<Rightarrow> u16 list" where
  "lt_vector X mac = (case hkdf_sha256 X mac APP_STATE_LT_HASH_LEN [] APP_STATE_LT_HASH_INFO of
     Inl e \<Rightarrow> [] | Inr expanded \<Rightarrow> le_words expanded)"

definition lt_sum :: "ext \<Rightarrow> bytes list \<Rightarrow> nat \<Rightarrow> u16" where
  "lt_sum X macs i = sum_list (map (\<lambda>mac. lt_vector X mac ! i) macs)"

text \<open>The hash is the sum of the vectors.\<close>

definition is_lt_hash :: "ext \<Rightarrow> bytes \<Rightarrow> bytes list \<Rightarrow> bool" where
  "is_lt_hash X hash macs \<longleftrightarrow> length hash = APP_STATE_LT_HASH_LEN \<and>
     (\<forall>i<64. le_words hash ! i = lt_sum X macs i)"

lemma lt_sum_simps [simp]:
  "lt_sum X [] i = 0" "lt_sum X (m # ms) i = lt_vector X m ! i + lt_sum X ms i"
  "lt_sum X (ms @ ns) i = lt_sum X ms i + lt_sum X ns i"
  by (simp_all add: lt_sum_def)

lemma apply_operand:
  assumes "ext_ok X" "length base = 128"
  shows "\<exists>h. apply_lt_hash_operand X base m s = Inr h \<and> length h = 128 \<and>
    (\<forall>i<64. le_words h ! i = (if s then le_words base ! i - lt_vector X m ! i
      else le_words base ! i + lt_vector X m ! i))"
proof -
  obtain e where e: "hkdf_sha256 X m APP_STATE_LT_HASH_LEN [] APP_STATE_LT_HASH_INFO = Inr e" "length e = 128"
    using hkdf_sha256_total [OF assms(1), of 128 m "[]" APP_STATE_LT_HASH_INFO]
    by (auto simp: APP_STATE_LT_HASH_LEN_def)
  have "le_words (combine_pairs s base e) ! i = (if s then le_words base ! i - lt_vector X m ! i
      else le_words base ! i + lt_vector X m ! i)" if "i < 64" for i
    using that e assms(2) by (simp add: le_words_combine length_le_words lt_vector_def)
  with e assms(2) show ?thesis by (simp add: apply_lt_hash_operand_def)
qed

lemma apply_operands:
  assumes "ext_ok X" "length base = 128"
  shows "\<exists>h. apply_lt_hash_operands X s ms base = Inr h \<and> length h = 128 \<and>
    (\<forall>i<64. le_words h ! i = (if s then le_words base ! i - lt_sum X ms i
      else le_words base ! i + lt_sum X ms i))"
  using assms(2)
proof (induction ms arbitrary: base)
  case (Cons m ms)
  from apply_operand [OF assms(1) Cons.prems] obtain b where b:
    "apply_lt_hash_operand X base m s = Inr b" "length b = 128"
    "\<forall>i<64. le_words b ! i = (if s then le_words base ! i - lt_vector X m ! i
      else le_words base ! i + lt_vector X m ! i)" by blast
  from Cons.IH [OF b(2)] b show ?case by auto
qed simp

lemma subtract_then_add:
  assumes "ext_ok X" "length base = 128"
  shows "\<exists>h. app_state_lt_hash_subtract_then_add X base subs adds = Inr h \<and> length h = 128 \<and>
    (\<forall>i<64. le_words h ! i = le_words base ! i - lt_sum X subs i + lt_sum X adds i)"
proof -
  from apply_operands [OF assms, of True subs] obtain b where b:
    "apply_lt_hash_operands X True subs base = Inr b" "length b = 128"
    "\<forall>i<64. le_words b ! i = le_words base ! i - lt_sum X subs i" by auto
  from apply_operands [OF assms(1) b(2), of False adds] b assms(2) show ?thesis
    by (auto simp: app_state_lt_hash_subtract_then_add_def validate_lt_hash_def APP_STATE_LT_HASH_LEN_def)
qed

text \<open>The hash does not depend on the order of the value MACs.\<close>

lemma is_lt_hash_unique:
  assumes "is_lt_hash X h ms" "is_lt_hash X h' ms'" "\<forall>i<64. lt_sum X ms i = lt_sum X ms' i"
  shows "h = h'"
proof -
  have "le_words h = le_words h'"
    using assms by (intro nth_equalityI) (auto simp: is_lt_hash_def APP_STATE_LT_HASH_LEN_def length_le_words)
  with assms show ?thesis
    by (subst (asm) le_words_inject) (auto simp: is_lt_hash_def APP_STATE_LT_HASH_LEN_def)
qed

lemma is_lt_hash_empty: "is_lt_hash X (replicate 128 0) []"
proof -
  have zero: "le_words (replicate (2 * n) 0) = replicate n 0" for n
    by (induction n) (simp_all add: le_u16_def)
  show ?thesis using zero [of 64] by (simp add: is_lt_hash_def APP_STATE_LT_HASH_LEN_def)
qed

end
