(* ===== verification/Account.thy ===== *)
theory Account
  imports Prelude
begin

text \<open>
  The restrictions of an account that the server announces, \<^verbatim>\<open>crates/wa-core/src/account.rs\<close>: the
  time lock on reaching out to strangers and the cap on new chats, with the names of their
  variants on the wire.
\<close>

datatype ReachoutTimelockEnforcementType =
  BizCommerceViolationAlcohol
| BizCommerceViolationAdult
| BizCommerceViolationAnimals
| BizCommerceViolationBodyPartsFluids
| BizCommerceViolationDating
| BizCommerceViolationDigitalServicesProducts
| BizCommerceViolationDrugs
| BizCommerceViolationDrugsOnlyOtc
| BizCommerceViolationGambling
| BizCommerceViolationHealthcare
| BizCommerceViolationRealFakeCurrency
| BizCommerceViolationSupplements
| BizCommerceViolationTobacco
| BizCommerceViolationViolentContent
| BizCommerceViolationWeapons
| BizQuality
| EnforcementDefault
| WebCompanionOnly
| EnforcementUnknown string

fun reachout_type_as_wire_str :: "ReachoutTimelockEnforcementType \<Rightarrow> string" where
  "reachout_type_as_wire_str BizCommerceViolationAlcohol = ''BIZ_COMMERCE_VIOLATION_ALCOHOL''"
| "reachout_type_as_wire_str BizCommerceViolationAdult = ''BIZ_COMMERCE_VIOLATION_ADULT''"
| "reachout_type_as_wire_str BizCommerceViolationAnimals = ''BIZ_COMMERCE_VIOLATION_ANIMALS''"
| "reachout_type_as_wire_str BizCommerceViolationBodyPartsFluids = ''BIZ_COMMERCE_VIOLATION_BODY_PARTS_FLUIDS''"
| "reachout_type_as_wire_str BizCommerceViolationDating = ''BIZ_COMMERCE_VIOLATION_DATING''"
| "reachout_type_as_wire_str BizCommerceViolationDigitalServicesProducts = ''BIZ_COMMERCE_VIOLATION_DIGITAL_SERVICES_PRODUCTS''"
| "reachout_type_as_wire_str BizCommerceViolationDrugs = ''BIZ_COMMERCE_VIOLATION_DRUGS''"
| "reachout_type_as_wire_str BizCommerceViolationDrugsOnlyOtc = ''BIZ_COMMERCE_VIOLATION_DRUGS_ONLY_OTC''"
| "reachout_type_as_wire_str BizCommerceViolationGambling = ''BIZ_COMMERCE_VIOLATION_GAMBLING''"
| "reachout_type_as_wire_str BizCommerceViolationHealthcare = ''BIZ_COMMERCE_VIOLATION_HEALTHCARE''"
| "reachout_type_as_wire_str BizCommerceViolationRealFakeCurrency = ''BIZ_COMMERCE_VIOLATION_REAL_FAKE_CURRENCY''"
| "reachout_type_as_wire_str BizCommerceViolationSupplements = ''BIZ_COMMERCE_VIOLATION_SUPPLEMENTS''"
| "reachout_type_as_wire_str BizCommerceViolationTobacco = ''BIZ_COMMERCE_VIOLATION_TOBACCO''"
| "reachout_type_as_wire_str BizCommerceViolationViolentContent = ''BIZ_COMMERCE_VIOLATION_VIOLENT_CONTENT''"
| "reachout_type_as_wire_str BizCommerceViolationWeapons = ''BIZ_COMMERCE_VIOLATION_WEAPONS''"
| "reachout_type_as_wire_str BizQuality = ''BIZ_QUALITY''"
| "reachout_type_as_wire_str EnforcementDefault = ''DEFAULT''"
| "reachout_type_as_wire_str WebCompanionOnly = ''WEB_COMPANION_ONLY''"
| "reachout_type_as_wire_str (EnforcementUnknown v) = v"

definition reachout_type_from_wire :: "string \<Rightarrow> ReachoutTimelockEnforcementType" where
  "reachout_type_from_wire v =
     (if v = ''BIZ_COMMERCE_VIOLATION_ALCOHOL'' then BizCommerceViolationAlcohol
      else if v = ''BIZ_COMMERCE_VIOLATION_ADULT'' then BizCommerceViolationAdult
      else if v = ''BIZ_COMMERCE_VIOLATION_ANIMALS'' then BizCommerceViolationAnimals
      else if v = ''BIZ_COMMERCE_VIOLATION_BODY_PARTS_FLUIDS'' then BizCommerceViolationBodyPartsFluids
      else if v = ''BIZ_COMMERCE_VIOLATION_DATING'' then BizCommerceViolationDating
      else if v = ''BIZ_COMMERCE_VIOLATION_DIGITAL_SERVICES_PRODUCTS'' then BizCommerceViolationDigitalServicesProducts
      else if v = ''BIZ_COMMERCE_VIOLATION_DRUGS'' then BizCommerceViolationDrugs
      else if v = ''BIZ_COMMERCE_VIOLATION_DRUGS_ONLY_OTC'' then BizCommerceViolationDrugsOnlyOtc
      else if v = ''BIZ_COMMERCE_VIOLATION_GAMBLING'' then BizCommerceViolationGambling
      else if v = ''BIZ_COMMERCE_VIOLATION_HEALTHCARE'' then BizCommerceViolationHealthcare
      else if v = ''BIZ_COMMERCE_VIOLATION_REAL_FAKE_CURRENCY'' then BizCommerceViolationRealFakeCurrency
      else if v = ''BIZ_COMMERCE_VIOLATION_SUPPLEMENTS'' then BizCommerceViolationSupplements
      else if v = ''BIZ_COMMERCE_VIOLATION_TOBACCO'' then BizCommerceViolationTobacco
      else if v = ''BIZ_COMMERCE_VIOLATION_VIOLENT_CONTENT'' then BizCommerceViolationViolentContent
      else if v = ''BIZ_COMMERCE_VIOLATION_WEAPONS'' then BizCommerceViolationWeapons
      else if v = ''BIZ_QUALITY'' then BizQuality
      else if v = ''DEFAULT'' then EnforcementDefault
      else if v = ''WEB_COMPANION_ONLY'' then WebCompanionOnly
      else EnforcementUnknown v)"

lemma reachout_type_wire [simp]: "reachout_type_as_wire_str (reachout_type_from_wire v) = v"
  by (simp add: reachout_type_from_wire_def)

text \<open>What \<open>from_wire\<close> yields: an unknown value is none of the known ones.\<close>

definition reachout_type_canonical :: "ReachoutTimelockEnforcementType \<Rightarrow> bool" where
  "reachout_type_canonical t \<longleftrightarrow> reachout_type_from_wire (reachout_type_as_wire_str t) = t"

lemma reachout_type_canonical_from_wire [simp]: "reachout_type_canonical (reachout_type_from_wire v)"
  by (simp add: reachout_type_canonical_def)

datatype MessageCappingStatus =
  CappingNone
| CappingFirstWarning
| CappingSecondWarning
| CappingCapped
| CappingUnknown string

fun capping_status_as_wire_str :: "MessageCappingStatus \<Rightarrow> string" where
  "capping_status_as_wire_str CappingNone = ''NONE''"
| "capping_status_as_wire_str CappingFirstWarning = ''FIRST_WARNING''"
| "capping_status_as_wire_str CappingSecondWarning = ''SECOND_WARNING''"
| "capping_status_as_wire_str CappingCapped = ''CAPPED''"
| "capping_status_as_wire_str (CappingUnknown v) = v"

definition capping_status_from_wire :: "string \<Rightarrow> MessageCappingStatus" where
  "capping_status_from_wire v =
     (if v = ''NONE'' then CappingNone
      else if v = ''FIRST_WARNING'' then CappingFirstWarning
      else if v = ''SECOND_WARNING'' then CappingSecondWarning
      else if v = ''CAPPED'' then CappingCapped
      else CappingUnknown v)"

lemma capping_status_wire [simp]: "capping_status_as_wire_str (capping_status_from_wire v) = v"
  by (simp add: capping_status_from_wire_def)

text \<open>What \<open>from_wire\<close> yields: an unknown value is none of the known ones.\<close>

definition capping_status_canonical :: "MessageCappingStatus \<Rightarrow> bool" where
  "capping_status_canonical t \<longleftrightarrow> capping_status_from_wire (capping_status_as_wire_str t) = t"

lemma capping_status_canonical_from_wire [simp]: "capping_status_canonical (capping_status_from_wire v)"
  by (simp add: capping_status_canonical_def)

datatype MessageCappingMultiVariationStatus =
  MultiNotEligible
| MultiNotActive
| MultiActive
| MultiActiveUpgradeAvailable
| MultiUnknown string

fun multi_variation_as_wire_str :: "MessageCappingMultiVariationStatus \<Rightarrow> string" where
  "multi_variation_as_wire_str MultiNotEligible = ''NOT_ELIGIBLE''"
| "multi_variation_as_wire_str MultiNotActive = ''NOT_ACTIVE''"
| "multi_variation_as_wire_str MultiActive = ''ACTIVE''"
| "multi_variation_as_wire_str MultiActiveUpgradeAvailable = ''ACTIVE_UPGRADE_AVAILABLE''"
| "multi_variation_as_wire_str (MultiUnknown v) = v"

definition multi_variation_from_wire :: "string \<Rightarrow> MessageCappingMultiVariationStatus" where
  "multi_variation_from_wire v =
     (if v = ''NOT_ELIGIBLE'' then MultiNotEligible
      else if v = ''NOT_ACTIVE'' then MultiNotActive
      else if v = ''ACTIVE'' then MultiActive
      else if v = ''ACTIVE_UPGRADE_AVAILABLE'' then MultiActiveUpgradeAvailable
      else MultiUnknown v)"

lemma multi_variation_wire [simp]: "multi_variation_as_wire_str (multi_variation_from_wire v) = v"
  by (simp add: multi_variation_from_wire_def)

text \<open>What \<open>from_wire\<close> yields: an unknown value is none of the known ones.\<close>

definition multi_variation_canonical :: "MessageCappingMultiVariationStatus \<Rightarrow> bool" where
  "multi_variation_canonical t \<longleftrightarrow> multi_variation_from_wire (multi_variation_as_wire_str t) = t"

lemma multi_variation_canonical_from_wire [simp]: "multi_variation_canonical (multi_variation_from_wire v)"
  by (simp add: multi_variation_canonical_def)

datatype MessageCappingOneTimeExtensionStatus =
  ExtensionNotEligible
| ExtensionEligible
| ExtensionActiveInCurrentCycle
| ExtensionExhausted
| ExtensionUnknown string

fun one_time_extension_as_wire_str :: "MessageCappingOneTimeExtensionStatus \<Rightarrow> string" where
  "one_time_extension_as_wire_str ExtensionNotEligible = ''NOT_ELIGIBLE''"
| "one_time_extension_as_wire_str ExtensionEligible = ''ELIGIBLE''"
| "one_time_extension_as_wire_str ExtensionActiveInCurrentCycle = ''ACTIVE_IN_CURRENT_CYCLE''"
| "one_time_extension_as_wire_str ExtensionExhausted = ''EXHAUSTED''"
| "one_time_extension_as_wire_str (ExtensionUnknown v) = v"

definition one_time_extension_from_wire :: "string \<Rightarrow> MessageCappingOneTimeExtensionStatus" where
  "one_time_extension_from_wire v =
     (if v = ''NOT_ELIGIBLE'' then ExtensionNotEligible
      else if v = ''ELIGIBLE'' then ExtensionEligible
      else if v = ''ACTIVE_IN_CURRENT_CYCLE'' then ExtensionActiveInCurrentCycle
      else if v = ''EXHAUSTED'' then ExtensionExhausted
      else ExtensionUnknown v)"

lemma one_time_extension_wire [simp]: "one_time_extension_as_wire_str (one_time_extension_from_wire v) = v"
  by (simp add: one_time_extension_from_wire_def)

text \<open>What \<open>from_wire\<close> yields: an unknown value is none of the known ones.\<close>

definition one_time_extension_canonical :: "MessageCappingOneTimeExtensionStatus \<Rightarrow> bool" where
  "one_time_extension_canonical t \<longleftrightarrow> one_time_extension_from_wire (one_time_extension_as_wire_str t) = t"

lemma one_time_extension_canonical_from_wire [simp]: "one_time_extension_canonical (one_time_extension_from_wire v)"
  by (simp add: one_time_extension_canonical_def)

record ReachoutTimelockState =
  rt_is_active :: bool
  rt_time_enforcement_ends :: "u64 option"
  rt_enforcement_type :: ReachoutTimelockEnforcementType

record MessageCappingInfo =
  mc_total_quota :: "u64 option"
  mc_used_quota :: "u64 option"
  mc_cycle_start_timestamp :: "u64 option"
  mc_cycle_end_timestamp :: "u64 option"
  mc_server_sent_timestamp :: "u64 option"
  mc_one_time_extension_status :: "MessageCappingOneTimeExtensionStatus option"
  mc_multi_variation_status :: "MessageCappingMultiVariationStatus option"
  mc_capping_status :: "MessageCappingStatus option"

end
