(* ===== verification/Events.thy ===== *)
theory Events
  imports Core StdText Account "HOL-Library.Product_Lexorder" "HOL-Library.Option_ord"
begin

text \<open>
  The events of the client, \<^verbatim>\<open>crates/wa-core/src/event.rs\<close>: what the application is told about
  messages, chats, contacts, labels, groups, receipts, calls and the account, with the keys by
  which the event buffer and the store tell them apart.
\<close>

section \<open>Ordered keys\<close>

text \<open>
  The keys of the buffer's \<open>BTreeMap\<close>s are structs with the derived order, which is that of the
  tuple of their fields. A \<open>BTreeSet\<close> is a \<^typ>\<open>('k, unit) btree\<close>.
\<close>

type_synonym 'k btree_set = "('k, unit) btree"

type_synonym fields = "(string, string) btree"

datatype MessageEventKey =
  MessageEventKey (key_remote_jid: string) (key_message_id: string) (key_participant: "string option")

definition message_key_tuple :: "MessageEventKey \<Rightarrow> string \<times> string \<times> string option" where
  "message_key_tuple k = (key_remote_jid k, key_message_id k, key_participant k)"

lemma message_key_tuple_inject: "message_key_tuple a = message_key_tuple b \<longleftrightarrow> a = b"
  by (cases a; cases b) (simp add: message_key_tuple_def)

instantiation MessageEventKey :: linorder
begin

definition less_eq_MessageEventKey :: "MessageEventKey \<Rightarrow> MessageEventKey \<Rightarrow> bool" where
  "less_eq_MessageEventKey a b \<longleftrightarrow> message_key_tuple a \<le> message_key_tuple b"

definition less_MessageEventKey :: "MessageEventKey \<Rightarrow> MessageEventKey \<Rightarrow> bool" where
  "less_MessageEventKey a b \<longleftrightarrow> message_key_tuple a < message_key_tuple b"

instance
  by standard (auto simp: less_eq_MessageEventKey_def less_MessageEventKey_def less_le message_key_tuple_inject)

end

datatype PresenceBufferKey =
  PresenceBufferKey (presence_key_jid: string) (presence_key_participant: "string option")

definition presence_key_tuple :: "PresenceBufferKey \<Rightarrow> string \<times> string option" where
  "presence_key_tuple k = (presence_key_jid k, presence_key_participant k)"

lemma presence_key_tuple_inject: "presence_key_tuple a = presence_key_tuple b \<longleftrightarrow> a = b"
  by (cases a; cases b) (simp add: presence_key_tuple_def)

instantiation PresenceBufferKey :: linorder
begin

definition less_eq_PresenceBufferKey :: "PresenceBufferKey \<Rightarrow> PresenceBufferKey \<Rightarrow> bool" where
  "less_eq_PresenceBufferKey a b \<longleftrightarrow> presence_key_tuple a \<le> presence_key_tuple b"

definition less_PresenceBufferKey :: "PresenceBufferKey \<Rightarrow> PresenceBufferKey \<Rightarrow> bool" where
  "less_PresenceBufferKey a b \<longleftrightarrow> presence_key_tuple a < presence_key_tuple b"

instance
  by standard (auto simp: less_eq_PresenceBufferKey_def less_PresenceBufferKey_def less_le presence_key_tuple_inject)

end

datatype LabelAssociationTarget =
  TargetChat (target_chat_jid: string)
| TargetMessage (target_chat_jid: string) (target_message_id: string)

datatype LabelAssociationBufferKey =
  LabelAssociationBufferKey (assoc_label_id: string) (assoc_target: LabelAssociationTarget)

fun target_tuple :: "LabelAssociationTarget \<Rightarrow> nat \<times> string \<times> string" where
  "target_tuple (TargetChat chat_jid) = (0, chat_jid, [])"
| "target_tuple (TargetMessage chat_jid message_id) = (1, chat_jid, message_id)"

definition association_key_tuple :: "LabelAssociationBufferKey \<Rightarrow> string \<times> nat \<times> string \<times> string" where
  "association_key_tuple k = (assoc_label_id k, target_tuple (assoc_target k))"

lemma association_key_tuple_inject: "association_key_tuple a = association_key_tuple b \<longleftrightarrow> a = b"
  by (cases a; cases b; cases "assoc_target a"; cases "assoc_target b")
    (auto simp: association_key_tuple_def)

instantiation LabelAssociationBufferKey :: linorder
begin

definition less_eq_LabelAssociationBufferKey ::
  "LabelAssociationBufferKey \<Rightarrow> LabelAssociationBufferKey \<Rightarrow> bool" where
  "less_eq_LabelAssociationBufferKey a b \<longleftrightarrow> association_key_tuple a \<le> association_key_tuple b"

definition less_LabelAssociationBufferKey ::
  "LabelAssociationBufferKey \<Rightarrow> LabelAssociationBufferKey \<Rightarrow> bool" where
  "less_LabelAssociationBufferKey a b \<longleftrightarrow> association_key_tuple a < association_key_tuple b"

instance
  by standard (auto simp: less_eq_LabelAssociationBufferKey_def less_LabelAssociationBufferKey_def
      less_le association_key_tuple_inject)

end

datatype ReceiptBufferKey =
  ReceiptBufferKey (receipt_key: MessageEventKey) (receipt_key_type: string)
    (receipt_key_participant: "string option")

definition receipt_key_tuple :: "ReceiptBufferKey \<Rightarrow> MessageEventKey \<times> string \<times> string option" where
  "receipt_key_tuple k = (receipt_key k, receipt_key_type k, receipt_key_participant k)"

lemma receipt_key_tuple_inject: "receipt_key_tuple a = receipt_key_tuple b \<longleftrightarrow> a = b"
  by (cases a; cases b) (simp add: receipt_key_tuple_def)

instantiation ReceiptBufferKey :: linorder
begin

definition less_eq_ReceiptBufferKey :: "ReceiptBufferKey \<Rightarrow> ReceiptBufferKey \<Rightarrow> bool" where
  "less_eq_ReceiptBufferKey a b \<longleftrightarrow> receipt_key_tuple a \<le> receipt_key_tuple b"

definition less_ReceiptBufferKey :: "ReceiptBufferKey \<Rightarrow> ReceiptBufferKey \<Rightarrow> bool" where
  "less_ReceiptBufferKey a b \<longleftrightarrow> receipt_key_tuple a < receipt_key_tuple b"

instance
  by standard (auto simp: less_eq_ReceiptBufferKey_def less_ReceiptBufferKey_def less_le receipt_key_tuple_inject)

end

datatype ReactionBufferKey =
  ReactionBufferKey (reaction_key: MessageEventKey) (reaction_key_from: string)

definition reaction_key_tuple :: "ReactionBufferKey \<Rightarrow> MessageEventKey \<times> string" where
  "reaction_key_tuple k = (reaction_key k, reaction_key_from k)"

lemma reaction_key_tuple_inject: "reaction_key_tuple a = reaction_key_tuple b \<longleftrightarrow> a = b"
  by (cases a; cases b) (simp add: reaction_key_tuple_def)

instantiation ReactionBufferKey :: linorder
begin

definition less_eq_ReactionBufferKey :: "ReactionBufferKey \<Rightarrow> ReactionBufferKey \<Rightarrow> bool" where
  "less_eq_ReactionBufferKey a b \<longleftrightarrow> reaction_key_tuple a \<le> reaction_key_tuple b"

definition less_ReactionBufferKey :: "ReactionBufferKey \<Rightarrow> ReactionBufferKey \<Rightarrow> bool" where
  "less_ReactionBufferKey a b \<longleftrightarrow> reaction_key_tuple a < reaction_key_tuple b"

instance
  by standard (auto simp: less_eq_ReactionBufferKey_def less_ReactionBufferKey_def less_le reaction_key_tuple_inject)

end

section \<open>The events\<close>

datatype ConnectionState = Connecting | Open | Closed

record MessageEvent =
  me_key :: MessageEventKey
  me_timestamp :: "u64 option"
  me_payload :: "bytes option"
  me_fields :: fields

record MessageUpdate =
  mu_key :: MessageEventKey
  mu_timestamp :: "u64 option"
  mu_fields :: fields

record ChatEvent =
  ce_jid :: string
  ce_fields :: fields

record ContactEvent =
  co_jid :: string
  co_fields :: fields

record PresenceEvent =
  pe_jid :: string
  pe_presence_type :: string
  pe_participant :: "string option"
  pe_timestamp :: "u64 option"
  pe_fields :: fields

datatype BlocklistAction = Block | Unblock

record BlocklistUpdateEvent =
  be_jid :: string
  be_action :: BlocklistAction

record DefaultDisappearingMode =
  dd_duration_seconds :: u32
  dd_timestamp :: "u64 option"

record AccountSettingsEvent =
  as_id :: string
  as_fields :: fields

record LabelEvent =
  le_id :: string
  le_fields :: fields

record LabelAssociationEvent =
  la_label_id :: string
  la_target :: LabelAssociationTarget
  la_labeled :: bool

record QuickReplyEvent =
  qr_id :: string
  qr_fields :: fields

record GroupUpdateEvent =
  gu_jid :: string
  gu_fields :: fields

record ReceiptEvent =
  re_key :: MessageEventKey
  re_receipt_type :: string
  re_participant :: "string option"
  re_timestamp :: "u64 option"

record ReactionEvent =
  rx_key :: MessageEventKey
  rx_from_jid :: string
  rx_text :: "string option"
  rx_timestamp :: "u64 option"

record MediaRetryEvent =
  mr_key :: MessageEventKey
  mr_from_me :: bool
  mr_encrypted_payload :: "bytes option"
  mr_iv :: "bytes option"
  mr_error_code :: "u16 option"
  mr_error_text :: "string option"
  mr_status_code :: "u16 option"

record RecentStickerEvent =
  rs_id :: string
  rs_file_sha256 :: "bytes option"
  rs_file_enc_sha256 :: "bytes option"
  rs_media_key :: "bytes option"
  rs_fields :: fields

record LidMappingEvent =
  lm_lid_jid :: string
  lm_pn_jid :: string

record BusinessNotificationEvent =
  bn_from :: string
  bn_notification_id :: string
  bn_event_type :: string
  bn_fields :: fields

record NewsletterReactionEvent =
  nr_id :: string
  nr_server_id :: string
  nr_code :: "string option"
  nr_count :: "u64 option"
  nr_removed :: bool

record NewsletterViewEvent =
  nv_id :: string
  nv_server_id :: string
  nv_count :: u64

record NewsletterParticipantUpdateEvent =
  np_id :: string
  np_author :: string
  np_user :: string
  np_action :: string
  np_new_role :: string

record NewsletterSettingsUpdateEvent =
  ns_id :: string
  ns_fields :: fields

record CallEvent =
  cl_id :: string
  cl_from :: string
  cl_event_type :: string
  cl_call_id :: "string option"
  cl_participant :: "string option"
  cl_timestamp :: "u64 option"
  cl_fields :: fields

record HistorySetEvent =
  hs_chats :: "ChatEvent list"
  hs_contacts :: "ContactEvent list"
  hs_messages :: "MessageEvent list"
  hs_is_latest :: bool

definition history_pending_items :: "HistorySetEvent \<Rightarrow> nat" where
  "history_pending_items h = length (hs_chats h) + length (hs_contacts h) + length (hs_messages h)"

record EventBatch =
  eb_history :: "HistorySetEvent option"
  eb_messages_upsert :: "MessageEvent list"
  eb_messages_update :: "MessageUpdate list"
  eb_messages_delete :: "MessageEventKey list"
  eb_chats_upsert :: "ChatEvent list"
  eb_chats_update :: "ChatEvent list"
  eb_chats_delete :: "string list"
  eb_contacts_upsert :: "ContactEvent list"
  eb_contacts_update :: "ContactEvent list"
  eb_contacts_delete :: "string list"
  eb_labels_edit :: "LabelEvent list"
  eb_labels_association :: "LabelAssociationEvent list"
  eb_quick_replies_update :: "QuickReplyEvent list"
  eb_groups_update :: "GroupUpdateEvent list"
  eb_receipts_update :: "ReceiptEvent list"
  eb_reactions_update :: "ReactionEvent list"
  eb_media_retry :: "MediaRetryEvent list"
  eb_recent_stickers :: "RecentStickerEvent list"
  eb_account_settings :: "AccountSettingsEvent list"
  eb_business_notifications :: "BusinessNotificationEvent list"
  eb_calls_update :: "CallEvent list"
  eb_presence_update :: "PresenceEvent list"

text \<open>\<open>EventBatch::default\<close>\<close>

definition empty_batch :: EventBatch where
  "empty_batch = \<lparr>eb_history = None, eb_messages_upsert = [], eb_messages_update = [],
     eb_messages_delete = [], eb_chats_upsert = [], eb_chats_update = [], eb_chats_delete = [],
     eb_contacts_upsert = [], eb_contacts_update = [], eb_contacts_delete = [], eb_labels_edit = [],
     eb_labels_association = [], eb_quick_replies_update = [], eb_groups_update = [],
     eb_receipts_update = [], eb_reactions_update = [], eb_media_retry = [], eb_recent_stickers = [],
     eb_account_settings = [], eb_business_notifications = [], eb_calls_update = [],
     eb_presence_update = []\<rparr>"

definition batch_pending_items :: "EventBatch \<Rightarrow> nat" where
  "batch_pending_items b =
     (case eb_history b of None \<Rightarrow> 0 | Some h \<Rightarrow> history_pending_items h) +
     length (eb_messages_upsert b) + length (eb_messages_update b) + length (eb_messages_delete b) +
     length (eb_chats_upsert b) + length (eb_chats_update b) + length (eb_chats_delete b) +
     length (eb_contacts_upsert b) + length (eb_contacts_update b) + length (eb_contacts_delete b) +
     length (eb_labels_edit b) + length (eb_labels_association b) +
     length (eb_quick_replies_update b) + length (eb_groups_update b) +
     length (eb_receipts_update b) + length (eb_reactions_update b) + length (eb_media_retry b) +
     length (eb_recent_stickers b) + length (eb_account_settings b) +
     length (eb_business_notifications b) + length (eb_calls_update b) + length (eb_presence_update b)"

definition batch_is_empty :: "EventBatch \<Rightarrow> bool" where
  "batch_is_empty b \<longleftrightarrow> batch_pending_items b = 0"

section \<open>Collections of the app state\<close>

datatype AppStateCollection =
  Regular | RegularHigh | RegularLow | CriticalBlock | CriticalUnblock | CriticalUnblockLow
  | CriticalIdentity

definition all_collections :: "AppStateCollection list" where
  "all_collections = [Regular, RegularHigh, RegularLow, CriticalBlock, CriticalUnblock,
     CriticalUnblockLow, CriticalIdentity]"

fun collection_name :: "AppStateCollection \<Rightarrow> string" where
  "collection_name Regular = ''regular''"
| "collection_name RegularHigh = ''regular_high''"
| "collection_name RegularLow = ''regular_low''"
| "collection_name CriticalBlock = ''critical_block''"
| "collection_name CriticalUnblock = ''critical_unblock''"
| "collection_name CriticalUnblockLow = ''critical_unblock_low''"
| "collection_name CriticalIdentity = ''critical_identity''"

definition collection_from_name :: "string \<Rightarrow> AppStateCollection core_result" where
  "collection_from_name name =
     (if name = ''regular'' then Ok Regular
      else if name = ''regular_high'' then Ok RegularHigh
      else if name = ''regular_low'' then Ok RegularLow
      else if name = ''critical_block'' then Ok CriticalBlock
      else if name = ''critical_unblock'' then Ok CriticalUnblock
      else if name = ''critical_unblock_low'' then Ok CriticalUnblockLow
      else if name = ''critical_identity'' then Ok CriticalIdentity
      else Err (Protocol (''unknown app-state collection: '' @ name)))"

section \<open>Keys of the buffer and of the store\<close>

definition bar :: "string \<Rightarrow> string \<Rightarrow> string" where
  "bar s t = s @ ''|'' @ t"

definition message_event_store_key :: "MessageEventKey \<Rightarrow> string" where
  "message_event_store_key k = (case key_participant k of
     Some participant \<Rightarrow> bar (bar (key_remote_jid k) (key_message_id k)) participant
   | None \<Rightarrow> bar (key_remote_jid k) (key_message_id k))"

definition receipt_event_store_key :: "ReceiptEvent \<Rightarrow> string" where
  "receipt_event_store_key e = (case re_participant e of
     Some participant \<Rightarrow> bar (bar (message_event_store_key (re_key e)) (re_receipt_type e)) participant
   | None \<Rightarrow> bar (message_event_store_key (re_key e)) (re_receipt_type e))"

definition reaction_event_store_key :: "ReactionEvent \<Rightarrow> string" where
  "reaction_event_store_key e = bar (message_event_store_key (rx_key e)) (rx_from_jid e)"

definition business_notification_event_store_key :: "BusinessNotificationEvent \<Rightarrow> string" where
  "business_notification_event_store_key e =
     bar (bar (bn_from e) (bn_notification_id e)) (bn_event_type e)"

definition call_event_store_key :: "CallEvent \<Rightarrow> string" where
  "call_event_store_key e = (case cl_call_id e of
     Some call_id \<Rightarrow> bar (bar (bar (cl_from e) (cl_id e)) (cl_event_type e)) call_id
   | None \<Rightarrow> bar (bar (cl_from e) (cl_id e)) (cl_event_type e))"

definition presence_event_store_key :: "PresenceEvent \<Rightarrow> string" where
  "presence_event_store_key e = (case pe_participant e of
     Some participant \<Rightarrow> bar (pe_jid e) participant | None \<Rightarrow> pe_jid e)"

definition label_association_store_key :: "LabelAssociationEvent \<Rightarrow> string" where
  "label_association_store_key e = (case la_target e of
     TargetChat chat_jid \<Rightarrow> bar (bar (la_label_id e) ''chat'') chat_jid
   | TargetMessage chat_jid message_id \<Rightarrow>
       bar (bar (bar (la_label_id e) ''message'') chat_jid) message_id)"

definition presence_buffer_key :: "PresenceEvent \<Rightarrow> PresenceBufferKey" where
  "presence_buffer_key e = PresenceBufferKey (pe_jid e) (pe_participant e)"

definition label_association_buffer_key :: "LabelAssociationEvent \<Rightarrow> LabelAssociationBufferKey" where
  "label_association_buffer_key e = LabelAssociationBufferKey (la_label_id e) (la_target e)"

definition receipt_buffer_key :: "ReceiptEvent \<Rightarrow> ReceiptBufferKey" where
  "receipt_buffer_key e = ReceiptBufferKey (re_key e) (re_receipt_type e) (re_participant e)"

definition reaction_buffer_key :: "ReactionEvent \<Rightarrow> ReactionBufferKey" where
  "reaction_buffer_key e = ReactionBufferKey (rx_key e) (rx_from_jid e)"

definition call_buffer_key :: "CallEvent \<Rightarrow> string" where
  "call_buffer_key e = call_event_store_key e"

end
