(* ===== verification/AppStatePatch.thy ===== *)
theory AppStatePatch
  imports AppStateHash Events
begin

text \<open>
  The collections of the app state, \<^verbatim>\<open>crates/wa-core/src/app_state.rs\<close>: the state of a collection,
  its version, its hash and the value MAC of every index, and the patches and snapshots that
  change it. A patch is built by the device that makes a change and decoded by the others.
\<close>

section \<open>Operations\<close>

datatype AppStatePatchOperation = OpSet | OpRemove

fun proto_value :: "AppStatePatchOperation \<Rightarrow> i32" where
  "proto_value OpSet = 0"
| "proto_value OpRemove = 1"

definition show_int :: "int \<Rightarrow> string" where
  "show_int i = (if i < 0 then ''-'' @ show_nat (nat (- i)) else show_nat (nat i))"

definition from_proto_value :: "i32 \<Rightarrow> AppStatePatchOperation core_result" where
  "from_proto_value v =
     (if v = 0 then Ok OpSet else if v = 1 then Ok OpRemove
      else Err (Protocol (''unknown app-state patch operation: '' @ show_int (sint v))))"

fun crypto_operation :: "AppStatePatchOperation \<Rightarrow> AppStateMutationOperation" where
  "crypto_operation OpSet = MutSet"
| "crypto_operation OpRemove = MutRemove"

section \<open>The state of a collection\<close>

definition APP_STATE_HASH_LEN :: nat where "APP_STATE_HASH_LEN = 128"

definition validate_app_state_hash :: "bytes \<Rightarrow> unit core_result" where
  "validate_app_state_hash hash =
     (if length hash \<noteq> APP_STATE_HASH_LEN then Err (Payload ''app-state hash must be 128 bytes'') else Ok ())"

definition validate_app_state_mac :: "string \<Rightarrow> bytes \<Rightarrow> unit core_result" where
  "validate_app_state_mac label mac =
     (if length mac \<noteq> APP_STATE_MAC_LEN then Err (Payload (label @ '' must be 32 bytes'')) else Ok ())"

definition index_mac_key :: "'v app_ext \<Rightarrow> bytes \<Rightarrow> string core_result" where
  "index_mac_key A index_mac =
     and_then (validate_app_state_mac ''app-state index mac'' index_mac) (\<lambda>_.
     Ok (a_base64_encode A index_mac))"

record AppStateHashMutation =
  hm_operation :: AppStatePatchOperation
  hm_index_mac :: bytes
  hm_value_mac :: bytes

definition hash_mutation_new ::
  "AppStatePatchOperation \<Rightarrow> bytes \<Rightarrow> bytes \<Rightarrow> AppStateHashMutation core_result" where
  "hash_mutation_new operation index_mac val_mac =
     and_then (validate_app_state_mac ''app-state index mac'' index_mac) (\<lambda>_.
     and_then (validate_app_state_mac ''app-state value mac'' val_mac) (\<lambda>_.
     Ok \<lparr>hm_operation = operation, hm_index_mac = index_mac, hm_value_mac = val_mac\<rparr>))"

record AppStatePatchState =
  ps_version :: u64
  ps_hash :: bytes
  ps_index_value_macs :: "(string, bytes) btree"

definition patch_state_empty :: AppStatePatchState where
  "patch_state_empty =
     \<lparr>ps_version = 0, ps_hash = replicate APP_STATE_HASH_LEN 0, ps_index_value_macs = []\<rparr>"

fun insert_entries :: "'v app_ext \<Rightarrow> (bytes \<times> bytes) list \<Rightarrow> (string, bytes) btree \<Rightarrow>
    (string, bytes) btree core_result" where
  "insert_entries A [] index_value_macs = Ok index_value_macs"
| "insert_entries A ((index_mac, val_mac) # rest) index_value_macs =
     and_then (validate_app_state_mac ''app-state index mac'' index_mac) (\<lambda>_.
     and_then (validate_app_state_mac ''app-state value mac'' val_mac) (\<lambda>_.
     and_then (index_mac_key A index_mac) (\<lambda>key.
     insert_entries A rest (btree_insert key val_mac index_value_macs))))"

definition from_index_value_macs ::
  "'v app_ext \<Rightarrow> u64 \<Rightarrow> bytes \<Rightarrow> (bytes \<times> bytes) list \<Rightarrow> AppStatePatchState core_result" where
  "from_index_value_macs A version hash macs =
     and_then (validate_app_state_hash hash) (\<lambda>_.
     and_then (insert_entries A macs []) (\<lambda>index_value_macs.
     Ok \<lparr>ps_version = version, ps_hash = hash, ps_index_value_macs = index_value_macs\<rparr>))"

definition patch_state_new :: "'v app_ext \<Rightarrow> u64 \<Rightarrow> bytes \<Rightarrow> AppStatePatchState core_result" where
  "patch_state_new A version hash = from_index_value_macs A version hash []"

definition value_mac_for_index_mac ::
  "'v app_ext \<Rightarrow> AppStatePatchState \<Rightarrow> bytes \<Rightarrow> bytes option core_result" where
  "value_mac_for_index_mac A st index_mac =
     and_then (index_mac_key A index_mac) (\<lambda>key. Ok (map_of (ps_index_value_macs st) key))"

text \<open>The loop over the mutations: the map, the MACs to add and the MACs to subtract.\<close>

fun hash_mutations_loop ::
  "'v app_ext \<Rightarrow> AppStateHashMutation list \<Rightarrow> (string, bytes) btree \<times> bytes list \<times> bytes list \<Rightarrow>
     ((string, bytes) btree \<times> bytes list \<times> bytes list) core_result" where
  "hash_mutations_loop A [] acc = Ok acc"
| "hash_mutations_loop A (mutation # mutations) (macs, add, subtract) =
     and_then (index_mac_key A (hm_index_mac mutation)) (\<lambda>key.
     case hm_operation mutation of
       OpSet \<Rightarrow> hash_mutations_loop A mutations
         (btree_insert key (hm_value_mac mutation) macs, add @ [hm_value_mac mutation],
          case map_of macs key of None \<Rightarrow> subtract | Some previous \<Rightarrow> subtract @ [previous])
     | OpRemove \<Rightarrow> (case map_of macs key of
         None \<Rightarrow> hash_mutations_loop A mutations (macs, add, subtract)
       | Some previous \<Rightarrow>
           hash_mutations_loop A mutations (btree_remove key macs, add, subtract @ [previous])))"

definition apply_hash_mutations_at_version ::
  "ext \<Rightarrow> 'v app_ext \<Rightarrow> AppStatePatchState \<Rightarrow> u64 \<Rightarrow> AppStateHashMutation list \<Rightarrow>
     AppStatePatchState core_result" where
  "apply_hash_mutations_at_version X A st version mutations =
     and_then (hash_mutations_loop A mutations (ps_index_value_macs st, [], [])) (\<lambda>(macs, add, subtract).
     and_then (map_err Crypto (app_state_lt_hash_subtract_then_add X (ps_hash st) subtract add)) (\<lambda>hash.
     Ok \<lparr>ps_version = version, ps_hash = hash, ps_index_value_macs = macs\<rparr>))"

text \<open>\<open>u64::checked_add(1)\<close>\<close>

definition next_version :: "u64 \<Rightarrow> u64 core_result" where
  "next_version version = (if version = - 1 then Err (Payload ''app-state patch version overflow'')
     else Ok (version + 1))"

definition advance_with_hash_mutations ::
  "ext \<Rightarrow> 'v app_ext \<Rightarrow> AppStatePatchState \<Rightarrow> AppStateHashMutation list \<Rightarrow> AppStatePatchState core_result" where
  "advance_with_hash_mutations X A st mutations =
     and_then (next_version (ps_version st)) (\<lambda>version.
     apply_hash_mutations_at_version X A st version mutations)"

section \<open>Building patches\<close>

record 'v ChatMutationPatch =
  cm_collection :: AppStateCollection
  cm_operation :: AppStatePatchOperation
  cm_api_version :: i32
  cm_index :: "string list"
  cm_value :: 'v

definition chat_mutation_patch_new ::
  "AppStateCollection \<Rightarrow> i32 \<Rightarrow> string list \<Rightarrow> 'v \<Rightarrow> 'v ChatMutationPatch" where
  "chat_mutation_patch_new collection api_version index val =
     \<lparr>cm_collection = collection, cm_operation = OpSet, cm_api_version = api_version,
      cm_index = index, cm_value = val\<rparr>"

definition with_operation :: "'v ChatMutationPatch \<Rightarrow> AppStatePatchOperation \<Rightarrow> 'v ChatMutationPatch" where
  "with_operation patch operation = patch\<lparr>cm_operation := operation\<rparr>"

definition build_sync_action_data ::
  "'v app_ext \<Rightarrow> 'v ChatMutationPatch \<Rightarrow> 'v SyncActionData core_result" where
  "build_sync_action_data A patch =
     (if cm_index patch = [] then Err (Protocol ''sync action index must not be empty'')
      else if sint (cm_api_version patch) \<le> 0 then Err (Protocol ''sync action API version must be positive'')
      else and_then (map_err (\<lambda>e. Payload (''failed to encode sync action index: '' @ e))
          (a_json_encode A (cm_index patch))) (\<lambda>index.
        Ok \<lparr>sa_index = Some index, sa_value = Some (cm_value patch), sa_padding = Some [],
            sa_version = Some (cm_api_version patch)\<rparr>))"

definition encode_sync_action_data :: "'v app_ext \<Rightarrow> 'v ChatMutationPatch \<Rightarrow> bytes core_result" where
  "encode_sync_action_data A patch =
     and_then (build_sync_action_data A patch) (\<lambda>action. Ok (a_enc_action A action))"

record EncryptedAppStateMutation =
  em_index_mac :: bytes
  em_value_mac :: bytes
  em_encrypted_value :: bytes
  em_mutation :: SyncdMutation

definition encrypt_chat_mutation_patch_with_iv ::
  "ext \<Rightarrow> 'v app_ext \<Rightarrow> 'v ChatMutationPatch \<Rightarrow> bytes \<Rightarrow> bytes \<Rightarrow> bytes \<Rightarrow>
     EncryptedAppStateMutation core_result" where
  "encrypt_chat_mutation_patch_with_iv X A patch key_id key_data iv =
     (if key_id = [] then Err (Protocol ''app-state mutation key id must not be empty'')
      else
        and_then (build_sync_action_data A patch) (\<lambda>sync_action.
        and_then (ok_or (sa_index sync_action) (Protocol ''sync action index missing'')) (\<lambda>index.
        let encoded = a_enc_action A sync_action in
        and_then (map_err Crypto (derive_app_state_keys X key_data)) (\<lambda>keys.
        and_then (map_err Crypto (encrypt_app_state_value_with_iv X encoded keys iv)) (\<lambda>encrypted_value.
        and_then (map_err Crypto (app_state_value_mac A (crypto_operation (cm_operation patch))
            encrypted_value key_id keys)) (\<lambda>val_mac.
        and_then (map_err Crypto (app_state_index_mac X index keys)) (\<lambda>index_mac.
        Ok \<lparr>em_index_mac = index_mac, em_value_mac = val_mac, em_encrypted_value = encrypted_value,
            em_mutation = \<lparr>sm_operation = Some (proto_value (cm_operation patch)),
              sm_record = Some \<lparr>sr_index = Some \<lparr>si_blob = Some index_mac\<rparr>,
                sr_value = Some \<lparr>sval_blob = Some (encrypted_value @ val_mac)\<rparr>,
                sr_key_id = Some \<lparr>ki_id = Some key_id\<rparr>\<rparr>\<rparr>\<rparr>)))))))"

definition hash_mutation_from_encrypted ::
  "EncryptedAppStateMutation \<Rightarrow> AppStateHashMutation core_result" where
  "hash_mutation_from_encrypted mutation =
     and_then (ok_or (sm_operation (em_mutation mutation))
       (Protocol ''app-state mutation is missing operation'')) (\<lambda>v.
     and_then (from_proto_value v) (\<lambda>operation.
     hash_mutation_new operation (em_index_mac mutation) (em_value_mac mutation)))"

definition mutation_key_id :: "SyncdRecord \<Rightarrow> bytes option" where
  "mutation_key_id record = Option.bind (sr_key_id record) ki_id"

definition validate_mutation_key_id :: "SyncdMutation \<Rightarrow> bytes \<Rightarrow> unit core_result" where
  "validate_mutation_key_id mutation key_id =
     and_then (ok_or (Option.bind (sm_record mutation) mutation_key_id)
       (Protocol ''app-state mutation is missing key id'')) (\<lambda>actual.
     if actual \<noteq> key_id then Err (Protocol ''app-state mutation key id does not match patch key id'')
     else Ok ())"

record AppStatePatchBundle =
  pb_collection :: AppStateCollection
  pb_previous_version :: u64
  pb_next_state :: AppStatePatchState
  pb_patch :: SyncdPatch
  pb_encoded_patch :: bytes

definition build_app_state_patch_bundle ::
  "ext \<Rightarrow> 'v app_ext \<Rightarrow> AppStateCollection \<Rightarrow> AppStatePatchState \<Rightarrow> bytes \<Rightarrow> bytes \<Rightarrow>
     EncryptedAppStateMutation list \<Rightarrow> AppStatePatchBundle core_result" where
  "build_app_state_patch_bundle X A collection previous_state key_id key_data mutations =
     (if key_id = [] then Err (Protocol ''app-state patch key id must not be empty'')
      else if mutations = [] then Err (Protocol ''app-state patch requires at least one mutation'')
      else
        and_then (for_each (\<lambda>m. validate_mutation_key_id (em_mutation m) key_id) mutations) (\<lambda>_.
        and_then (collect hash_mutation_from_encrypted mutations) (\<lambda>hash_mutations.
        and_then (advance_with_hash_mutations X A previous_state hash_mutations) (\<lambda>next_state.
        and_then (map_err Crypto (derive_app_state_keys X key_data)) (\<lambda>keys.
        and_then (map_err Crypto (app_state_snapshot_mac X (ps_hash next_state) (ps_version next_state)
            (collection_name collection) keys)) (\<lambda>snapshot_mac.
        and_then (map_err Crypto (app_state_patch_mac X snapshot_mac (map em_value_mac mutations)
            (ps_version next_state) (collection_name collection) keys)) (\<lambda>patch_mac.
        let patch = \<lparr>sp_version = Some \<lparr>sv_version = Some (ps_version next_state)\<rparr>,
              sp_mutations = map em_mutation mutations, sp_external_mutations = None,
              sp_snapshot_mac = Some snapshot_mac, sp_patch_mac = Some patch_mac,
              sp_key_id = Some \<lparr>ki_id = Some key_id\<rparr>, sp_exit_code = None,
              sp_device_index = None, sp_client_debug_data = None\<rparr> in
        Ok \<lparr>pb_collection = collection, pb_previous_version = ps_version previous_state,
            pb_next_state = next_state, pb_patch = patch, pb_encoded_patch = a_enc_patch A patch\<rparr>)))))))"

section \<open>Decoding patches and snapshots\<close>

record 'v DecodedAppStateMutation =
  dm_operation :: AppStatePatchOperation
  dm_key_id :: bytes
  dm_index_mac :: bytes
  dm_value_mac :: bytes
  dm_encrypted_value :: bytes
  dm_index :: "string list"
  dm_sync_action :: "'v SyncActionData"

definition decode_app_state_record ::
  "ext \<Rightarrow> 'v app_ext \<Rightarrow> AppStatePatchOperation \<Rightarrow> SyncdRecord \<Rightarrow> AppStateKeyMaterial \<Rightarrow>
     'v DecodedAppStateMutation core_result" where
  "decode_app_state_record X A operation record keys =
     and_then (ok_or (Option.bind (sr_index record) si_blob)
       (Protocol ''app-state mutation is missing index MAC'')) (\<lambda>index_mac.
     and_then (validate_app_state_mac ''app-state index mac'' index_mac) (\<lambda>_.
     and_then (ok_or (mutation_key_id record) (Protocol ''app-state mutation is missing key id'')) (\<lambda>key_id.
     if key_id = [] then Err (Protocol ''app-state mutation key id must not be empty'')
     else
     and_then (ok_or (Option.bind (sr_value record) sval_blob)
       (Protocol ''app-state mutation is missing value'')) (\<lambda>value_blob.
     if length value_blob \<le> APP_STATE_MAC_LEN then Err (Payload ''app-state mutation value is too short'')
     else
     let encrypted_value = take (length value_blob - APP_STATE_MAC_LEN) value_blob;
         val_mac = drop (length value_blob - APP_STATE_MAC_LEN) value_blob in
     and_then (validate_app_state_mac ''app-state value mac'' val_mac) (\<lambda>_.
     and_then (map_err Crypto (app_state_value_mac A (crypto_operation operation) encrypted_value key_id keys))
       (\<lambda>expected_value_mac.
     if \<not> constant_time_eq expected_value_mac val_mac
     then Err (Protocol ''app-state value MAC verification failed'')
     else
     and_then (map_err Crypto (decrypt_app_state_value X encrypted_value keys)) (\<lambda>plaintext.
     and_then (map_err ProtobufDecode (a_dec_action A plaintext)) (\<lambda>sync_action.
     and_then (ok_or (sa_index sync_action) (Protocol ''sync action is missing index'')) (\<lambda>index_bytes.
     and_then (map_err Crypto (app_state_index_mac X index_bytes keys)) (\<lambda>expected_index_mac.
     if \<not> constant_time_eq expected_index_mac index_mac
     then Err (Protocol ''app-state index MAC verification failed'')
     else
     and_then (map_err (\<lambda>e. Payload (''failed to decode app-state mutation index: '' @ e))
       (a_json_decode A index_bytes)) (\<lambda>index.
     Ok \<lparr>dm_operation = operation, dm_key_id = key_id, dm_index_mac = index_mac, dm_value_mac = val_mac,
         dm_encrypted_value = encrypted_value, dm_index = index, dm_sync_action = sync_action\<rparr>)))))))))))"

definition decode_app_state_mutation ::
  "ext \<Rightarrow> 'v app_ext \<Rightarrow> SyncdMutation \<Rightarrow> AppStateKeyMaterial \<Rightarrow> 'v DecodedAppStateMutation core_result" where
  "decode_app_state_mutation X A mutation keys =
     and_then (from_proto_value (case sm_operation mutation of None \<Rightarrow> proto_value OpSet | Some v \<Rightarrow> v))
       (\<lambda>operation.
     and_then (ok_or (sm_record mutation) (Protocol ''app-state mutation is missing record'')) (\<lambda>record.
     decode_app_state_record X A operation record keys))"

definition key_id_of :: "string \<Rightarrow> KeyId option \<Rightarrow> bytes core_result" where
  "key_id_of kind key_id =
     and_then (ok_or (Option.bind key_id ki_id)
       (Protocol (''app-state '' @ kind @ '' is missing key id''))) (\<lambda>key_id.
     if key_id = [] then Err (Protocol (''app-state '' @ kind @ '' key id must not be empty'')) else Ok key_id)"

definition patch_key_id :: "SyncdPatch \<Rightarrow> bytes core_result" where
  "patch_key_id patch = key_id_of ''patch'' (sp_key_id patch)"

definition snapshot_key_id :: "SyncdSnapshot \<Rightarrow> bytes core_result" where
  "snapshot_key_id snapshot = key_id_of ''snapshot'' (ss_key_id snapshot)"

record 'v DecodedAppStatePatch =
  dp_collection :: AppStateCollection
  dp_previous_version :: u64
  dp_next_state :: AppStatePatchState
  dp_patch :: SyncdPatch
  dp_mutations :: "'v DecodedAppStateMutation list"

definition hash_mutation_of_decoded :: "'v DecodedAppStateMutation \<Rightarrow> AppStateHashMutation core_result" where
  "hash_mutation_of_decoded m = hash_mutation_new (dm_operation m) (dm_index_mac m) (dm_value_mac m)"

definition decode_app_state_patch ::
  "ext \<Rightarrow> 'v app_ext \<Rightarrow> AppStateCollection \<Rightarrow> AppStatePatchState \<Rightarrow> SyncdPatch \<Rightarrow> bytes \<Rightarrow>
     'v DecodedAppStatePatch core_result" where
  "decode_app_state_patch X A collection previous_state patch key_data =
     (if sp_mutations patch = [] then Err (Protocol ''app-state patch requires at least one mutation'')
      else
     and_then (ok_or (Option.bind (sp_version patch) sv_version)
       (Protocol ''app-state patch is missing version'')) (\<lambda>version.
     and_then (next_version (ps_version previous_state)) (\<lambda>expected_version.
     if version \<noteq> expected_version
     then Err (Protocol (''app-state patch version '' @ show_nat (unat version) @
       '' does not follow previous version '' @ show_nat (unat (ps_version previous_state))))
     else
     and_then (patch_key_id patch) (\<lambda>patch_key_id.
     and_then (ok_or (sp_snapshot_mac patch) (Protocol ''app-state patch is missing snapshot MAC''))
       (\<lambda>snapshot_mac.
     and_then (validate_app_state_mac ''app-state snapshot mac'' snapshot_mac) (\<lambda>_.
     and_then (ok_or (sp_patch_mac patch) (Protocol ''app-state patch is missing patch MAC'')) (\<lambda>patch_mac.
     and_then (validate_app_state_mac ''app-state patch mac'' patch_mac) (\<lambda>_.
     and_then (map_err Crypto (derive_app_state_keys X key_data)) (\<lambda>keys.
     and_then (collect (\<lambda>m. decode_app_state_mutation X A m keys) (sp_mutations patch)) (\<lambda>decoded.
     and_then (for_each (\<lambda>m. if dm_key_id m \<noteq> patch_key_id
         then Err (Protocol ''app-state mutation key id does not match patch key id'') else Ok ()) decoded) (\<lambda>_.
     and_then (map_err Crypto (app_state_patch_mac X snapshot_mac (map dm_value_mac decoded) version
         (collection_name collection) keys)) (\<lambda>expected_patch_mac.
     if \<not> constant_time_eq expected_patch_mac patch_mac
     then Err (Protocol ''app-state patch MAC verification failed'')
     else
     and_then (collect hash_mutation_of_decoded decoded) (\<lambda>hash_mutations.
     and_then (advance_with_hash_mutations X A previous_state hash_mutations) (\<lambda>next_state.
     and_then (map_err Crypto (app_state_snapshot_mac X (ps_hash next_state) version
         (collection_name collection) keys)) (\<lambda>expected_snapshot_mac.
     if \<not> constant_time_eq expected_snapshot_mac snapshot_mac
     then Err (Protocol ''app-state snapshot MAC verification failed'')
     else Ok \<lparr>dp_collection = collection, dp_previous_version = ps_version previous_state,
       dp_next_state = next_state, dp_patch = patch, dp_mutations = decoded\<rparr>)))))))))))))))"

record 'v DecodedAppStateSnapshot =
  ds_collection :: AppStateCollection
  ds_version :: u64
  ds_state :: AppStatePatchState
  ds_snapshot :: SyncdSnapshot
  ds_mutations :: "'v DecodedAppStateMutation list"

definition decode_app_state_snapshot ::
  "ext \<Rightarrow> 'v app_ext \<Rightarrow> AppStateCollection \<Rightarrow> SyncdSnapshot \<Rightarrow> bytes \<Rightarrow>
     'v DecodedAppStateSnapshot core_result" where
  "decode_app_state_snapshot X A collection snapshot key_data =
     and_then (ok_or (Option.bind (ss_version snapshot) sv_version)
       (Protocol ''app-state snapshot is missing version'')) (\<lambda>version.
     and_then (snapshot_key_id snapshot) (\<lambda>snapshot_key_id.
     and_then (ok_or (ss_mac snapshot) (Protocol ''app-state snapshot is missing MAC'')) (\<lambda>snapshot_mac.
     and_then (validate_app_state_mac ''app-state snapshot mac'' snapshot_mac) (\<lambda>_.
     and_then (map_err Crypto (derive_app_state_keys X key_data)) (\<lambda>keys.
     and_then (collect (\<lambda>r. decode_app_state_record X A OpSet r keys) (ss_records snapshot)) (\<lambda>decoded.
     and_then (for_each (\<lambda>m. if dm_key_id m \<noteq> snapshot_key_id
         then Err (Protocol ''app-state snapshot record key id does not match snapshot key id'') else Ok ())
         decoded) (\<lambda>_.
     and_then (collect hash_mutation_of_decoded decoded) (\<lambda>hash_mutations.
     and_then (apply_hash_mutations_at_version X A patch_state_empty version hash_mutations) (\<lambda>state.
     and_then (map_err Crypto (app_state_snapshot_mac X (ps_hash state) version
         (collection_name collection) keys)) (\<lambda>expected_snapshot_mac.
     if \<not> constant_time_eq expected_snapshot_mac snapshot_mac
     then Err (Protocol ''app-state snapshot MAC verification failed'')
     else Ok \<lparr>ds_collection = collection, ds_version = version, ds_state = state,
       ds_snapshot = snapshot, ds_mutations = decoded\<rparr>))))))))))"

end
