(* ===== verification/AppStateInstance.thy ===== *)
theory AppStateInstance
  imports AppStateHash ExtInstance
begin

text \<open>
  A concrete instance of the external functions of the app state, on which the witnesses
  evaluate. Actions carry a string of bytes.
\<close>

definition put_text :: "string \<Rightarrow> bytes" where
  "put_text s = put_str (map of_char s)"

definition get_text :: "bytes \<Rightarrow> string \<times> bytes" where
  "get_text bs = (let (s, r) = get_str bs in (map (\<lambda>b. char_of (unat b)) s, r))"

lemma unat_of_char: "unat (of_char c :: u8) = (of_char c :: nat)"
  using nat_of_char_less_256 [of c]
  by (subst of_nat_of_char [symmetric])
    (simp del: of_nat_of_char add: unsigned_of_nat take_bit_nat_eq_self)

lemma char_of_byte: "char_of (unat (of_char c :: u8)) = (c :: char)"
  by (simp add: unat_of_char)

lemma byte_of_char: "of_char (char_of (unat b) :: char) = (b :: u8)"
proof -
  have "unat b < 256" using unsigned_less [of b] by simp
  then have "unat (of_char (char_of (unat b) :: char) :: u8) = unat b"
    by (simp add: unat_of_char)
  then show ?thesis by (simp only: word_unat_eq_iff)
qed

interpretation text_codec: byte_codec put_text get_text
  by unfold_locales (simp add: put_text_def get_text_def str_codec.get_put char_of_byte comp_def)

interpretation texts_codec: byte_codec "put_list put_text" "get_list get_text"
  by (rule byte_codec_list) (rule text_codec.byte_codec_axioms)

interpretation u64_codec: byte_codec put_u64 get_u64
  by unfold_locales (rule get_put_u64)

definition put_action :: "('v \<Rightarrow> bytes) \<Rightarrow> 'v SyncActionData \<Rightarrow> bytes" where
  "put_action p v = put_opt put_str (sa_index v) @ put_opt p (sa_value v) @
     put_opt put_str (sa_padding v) @ put_opt put_u32 (sa_version v)"

definition get_action :: "(bytes \<Rightarrow> 'v \<times> bytes) \<Rightarrow> bytes \<Rightarrow> string + 'v SyncActionData" where
  "get_action g bs0 =
     (let (a, bs1) = get_opt get_str bs0; (b, bs2) = get_opt g bs1;
          (c, bs3) = get_opt get_str bs2; (d, _) = get_opt get_u32 bs3
      in Ok \<lparr>sa_index = a, sa_value = b, sa_padding = c, sa_version = d\<rparr>)"

definition put_key_data :: "AppStateSyncKeyData \<Rightarrow> bytes" where
  "put_key_data v = put_opt put_str (kd_key_data v) @ put_opt put_str (kd_fingerprint v) @
     put_opt put_u64 (kd_timestamp v)"

definition get_key_data :: "bytes \<Rightarrow> string + AppStateSyncKeyData" where
  "get_key_data bs0 =
     (let (a, bs1) = get_opt get_str bs0; (b, bs2) = get_opt get_str bs1;
          (c, _) = get_opt get_u64 bs2
      in Ok \<lparr>kd_key_data = a, kd_fingerprint = b, kd_timestamp = c\<rparr>)"

text \<open>The instance for any encoding of the actions.\<close>

definition toy_app_with :: "('v \<Rightarrow> bytes) \<Rightarrow> (bytes \<Rightarrow> 'v \<times> bytes) \<Rightarrow> 'v app_ext" where
  "toy_app_with p g = \<lparr>
     a_hmac_sha512 = (\<lambda>k m. Some (take 64 (m @ k @ replicate 64 0))),
     a_base64_encode = map (\<lambda>b. char_of (unat b)),
     a_base64_decode = (\<lambda>s. Ok (map of_char s)),
     a_json_encode = (\<lambda>xs. Ok (put_list put_text xs)),
     a_json_decode = (\<lambda>bs. Ok (fst (get_list get_text bs))),
     a_enc_action = put_action p, a_dec_action = get_action g,
     a_enc_patch = (\<lambda>p. []),
     a_enc_key_data = put_key_data, a_dec_key_data = get_key_data\<rparr>"

lemma toy_app_with_ok:
  assumes "byte_codec p g"
  shows "app_ext_ok (toy_app_with p g)"
proof -
  note parts = codec_parts byte_codec.get_put [OF byte_codec_opt [OF u64_codec.byte_codec_axioms]]
    byte_codec.get_put [OF byte_codec_opt [OF assms]]
  note end_parts = parts [where rest = "[]", simplified]
  have "get_action g (put_action p v) = Inr v" for v
    by (simp add: get_action_def put_action_def parts end_parts)
  moreover have "get_key_data (put_key_data v) = Inr v" for v
    by (simp add: get_key_data_def put_key_data_def parts end_parts)
  ultimately show ?thesis
    by (simp add: app_ext_ok_def toy_app_with_def texts_codec.get_put_end byte_of_char comp_def min_def)
qed

definition toy_app :: "bytes app_ext" where
  "toy_app = toy_app_with put_str get_str"

lemma toy_app_ok: "app_ext_ok toy_app"
  unfolding toy_app_def by (rule toy_app_with_ok) (rule str_codec.byte_codec_axioms)

lemma toy_app_json: "a_json_encode toy_app xs = Ok (put_list put_text xs)"
  by (simp add: toy_app_def toy_app_with_def)

end
