(* ===== verification/AppStateRefinement.thy ===== *)
theory AppStateRefinement
  imports AppStatePatch AppStateInstance
begin

text \<open>
  The state of a collection against its specification: a map from index MACs to value MACs, on
  which a mutation sets or removes one entry. The incremental hash of the code is a function of
  that map alone, so that devices that hold the same entries agree on the hash however they got
  there.
\<close>

section \<open>The abstract collection\<close>

definition macs_of :: "'v app_ext \<Rightarrow> AppStatePatchState \<Rightarrow> bytes \<Rightarrow> bytes option" where
  "macs_of A st index_mac = (if length index_mac = 32
     then map_of (ps_index_value_macs st) (a_base64_encode A index_mac) else None)"

definition mutate :: "AppStateHashMutation \<Rightarrow> (bytes \<Rightarrow> bytes option) \<Rightarrow> bytes \<Rightarrow> bytes option" where
  "mutate m macs = (case hm_operation m of
     OpSet \<Rightarrow> macs(hm_index_mac m \<mapsto> hm_value_mac m)
   | OpRemove \<Rightarrow> macs(hm_index_mac m := None))"

lemma mutate_simps [simp]:
  "hm_operation m = OpSet \<Longrightarrow> mutate m macs = macs(hm_index_mac m \<mapsto> hm_value_mac m)"
  "hm_operation m = OpRemove \<Longrightarrow> mutate m macs = macs(hm_index_mac m := None)"
  by (simp_all add: mutate_def)

text \<open>A state whose keys are index MACs, whose values are MACs and whose hash is that of its values.\<close>

definition macs_ok :: "'v app_ext \<Rightarrow> (string, bytes) btree \<Rightarrow> bool" where
  "macs_ok A macs \<longleftrightarrow> btree_ok macs \<and>
     (\<forall>(k, v)\<in>set macs. length v = 32 \<and> (\<exists>i. length i = 32 \<and> k = a_base64_encode A i))"

definition sound_state :: "ext \<Rightarrow> 'v app_ext \<Rightarrow> AppStatePatchState \<Rightarrow> bool" where
  "sound_state X A st \<longleftrightarrow> macs_ok A (ps_index_value_macs st) \<and>
     is_lt_hash X (ps_hash st) (map snd (ps_index_value_macs st))"

definition mutation_ok :: "AppStateHashMutation \<Rightarrow> bool" where
  "mutation_ok m \<longleftrightarrow> length (hm_index_mac m) = 32 \<and> length (hm_value_mac m) = 32"

section \<open>Maps\<close>

lemma base64_inject: "app_ext_ok A \<Longrightarrow> a_base64_encode A xs = a_base64_encode A ys \<longleftrightarrow> xs = ys"
  unfolding app_ext_ok_def by (metis sum.inject(2))

lemma lt_sum_insert:
  "btree_ok kvs \<Longrightarrow> lt_sum X (map snd (btree_insert k v kvs)) i =
     lt_sum X (map snd kvs) i + lt_vector X v ! i -
     (case map_of kvs k of None \<Rightarrow> 0 | Some old \<Rightarrow> lt_vector X old ! i)"
proof (induction k v kvs rule: btree_insert.induct)
  case (2 k v k' v' kvs)
  show ?case
  proof (cases "k < k'")
    case True
    with 2(2) have "map_of kvs k = None"
      by (intro btree_keys_greater) (force simp: btree_ok_Cons)+
    with True show ?thesis by auto
  next
    case False
    with 2 show ?thesis by (auto simp: btree_ok_Cons split: option.split)
  qed
qed simp

lemma lt_sum_remove:
  "btree_ok kvs \<Longrightarrow> map_of kvs k = Some old \<Longrightarrow>
     lt_sum X (map snd (btree_remove k kvs)) i = lt_sum X (map snd kvs) i - lt_vector X old ! i"
proof (induction kvs)
  case (Cons kv kvs)
  obtain k' v where kv: "kv = (k', v)" by force
  show ?case
  proof (cases "k' = k")
    case True
    with Cons.prems(1) kv have "map_of kvs k = None"
      by (intro btree_keys_greater) (force simp: btree_ok_Cons)+
    then have "btree_remove k kvs = kvs" by (rule btree_remove_absent)
    with True kv Cons.prems show ?thesis by (simp add: btree_remove_def)
  next
    case False
    with Cons kv show ?thesis by (simp add: btree_remove_def btree_ok_Cons)
  qed
qed simp

section \<open>The loop over the mutations\<close>

definition map_spec :: "'v app_ext \<Rightarrow> (string, bytes) btree \<Rightarrow> bytes \<Rightarrow> bytes option" where
  "map_spec A macs i = (if length i = 32 then map_of macs (a_base64_encode A i) else None)"

lemma hash_mutations_loop_spec:
  assumes "app_ext_ok A" "list_all mutation_ok ms" "macs_ok A macs"
  shows "\<exists>macs' add' subtract'. hash_mutations_loop A ms (macs, add, subtract) = Inr (macs', add', subtract') \<and>
    macs_ok A macs' \<and> map_spec A macs' = fold mutate ms (map_spec A macs) \<and>
    (\<forall>i. lt_sum X (map snd macs') i - lt_sum X add' i + lt_sum X subtract' i =
       lt_sum X (map snd macs) i - lt_sum X add i + lt_sum X subtract i)"
  using assms(2,3)
proof (induction ms arbitrary: macs add subtract)
  case (Cons m ms)
  let ?k = "a_base64_encode A (hm_index_mac m)"
  from Cons.prems have m: "mutation_ok m" and ms: "list_all mutation_ok ms" by simp_all
  then have len: "length (hm_index_mac m) = 32" "length (hm_value_mac m) = 32" by (auto simp: mutation_ok_def)
  have key: "index_mac_key A (hm_index_mac m) = Inr ?k"
    using len by (simp add: index_mac_key_def validate_app_state_mac_def APP_STATE_MAC_LEN_def)
  have ok: "btree_ok macs" using Cons.prems(2) by (simp add: macs_ok_def)
  have inj: "length i = 32 \<Longrightarrow> a_base64_encode A i = ?k \<longleftrightarrow> i = hm_index_mac m" for i
    using base64_inject [OF assms(1)] by blast
  show ?case
  proof (cases "hm_operation m")
    case OpSet
    let ?macs = "btree_insert ?k (hm_value_mac m) macs"
    have "set ?macs \<subseteq> insert (?k, hm_value_mac m) (set macs)"
      by (induction ?k "hm_value_mac m" macs rule: btree_insert.induct) auto
    then have "macs_ok A ?macs"
      using Cons.prems(2) len unfolding macs_ok_def by auto
    from Cons.IH [OF ms this, of "add @ [hm_value_mac m]" "case map_of macs ?k of None \<Rightarrow> subtract
        | Some previous \<Rightarrow> subtract @ [previous]"]
    obtain macs' add' subtract' where r:
      "hash_mutations_loop A ms (?macs, add @ [hm_value_mac m], case map_of macs ?k of None \<Rightarrow> subtract
        | Some previous \<Rightarrow> subtract @ [previous]) = Inr (macs', add', subtract')"
      "macs_ok A macs'" "map_spec A macs' = fold mutate ms (map_spec A ?macs)"
      "\<forall>i. lt_sum X (map snd macs') i - lt_sum X add' i + lt_sum X subtract' i =
        lt_sum X (map snd ?macs) i - lt_sum X (add @ [hm_value_mac m]) i +
        lt_sum X (case map_of macs ?k of None \<Rightarrow> subtract | Some previous \<Rightarrow> subtract @ [previous]) i"
      by blast
    have "map_spec A ?macs = mutate m (map_spec A macs)"
      using OpSet ok len inj by (auto simp: map_spec_def fun_eq_iff)
    moreover have "lt_sum X (map snd ?macs) i - lt_sum X (add @ [hm_value_mac m]) i +
        lt_sum X (case map_of macs ?k of None \<Rightarrow> subtract | Some previous \<Rightarrow> subtract @ [previous]) i =
        lt_sum X (map snd macs) i - lt_sum X add i + lt_sum X subtract i" for i
      using lt_sum_insert [OF ok, of X ?k "hm_value_mac m" i] by (auto split: option.split)
    ultimately have "\<forall>i. lt_sum X (map snd macs') i - lt_sum X add' i + lt_sum X subtract' i =
        lt_sum X (map snd macs) i - lt_sum X add i + lt_sum X subtract i"
      "map_spec A macs' = fold mutate (m # ms) (map_spec A macs)"
      using r(3,4) by (simp_all only: fold_simps simp_thms)
    with OpSet key r(1,2) show ?thesis by (intro exI) auto
  next
    case OpRemove
    show ?thesis
    proof (cases "map_of macs ?k")
      case None
      have "map_spec A macs = mutate m (map_spec A macs)"
        using OpRemove None len by (auto simp: map_spec_def fun_eq_iff)
      with Cons.IH [OF ms Cons.prems(2)] OpRemove None key show ?thesis by simp
    next
      case (Some previous)
      let ?macs = "btree_remove ?k macs"
      have "set ?macs \<subseteq> set macs" by (auto simp: btree_remove_def)
      then have "macs_ok A ?macs"
        using Cons.prems(2) unfolding macs_ok_def by (auto simp: btree_ok_remove)
      from Cons.IH [OF ms this, of add "subtract @ [previous]"]
      obtain macs' add' subtract' where r:
        "hash_mutations_loop A ms (?macs, add, subtract @ [previous]) = Inr (macs', add', subtract')"
        "macs_ok A macs'" "map_spec A macs' = fold mutate ms (map_spec A ?macs)"
        "\<forall>i. lt_sum X (map snd macs') i - lt_sum X add' i + lt_sum X subtract' i =
          lt_sum X (map snd ?macs) i - lt_sum X add i + lt_sum X (subtract @ [previous]) i"
        by blast
      have "map_spec A ?macs = mutate m (map_spec A macs)"
        using OpRemove len inj by (auto simp: map_spec_def fun_eq_iff map_of_btree_remove)
      with r OpRemove Some key lt_sum_remove [OF ok Some, of X] show ?thesis by simp
    qed
  qed
qed simp

lemma macs_of_spec: "macs_of A st = map_spec A (ps_index_value_macs st)"
  by (simp add: fun_eq_iff macs_of_def map_spec_def)

lemma apply_hash_mutations_spec:
  assumes "ext_ok X" "app_ext_ok A" "sound_state X A st" "list_all mutation_ok ms"
  shows "\<exists>st'. apply_hash_mutations_at_version X A st v ms = Inr st' \<and> ps_version st' = v \<and>
    sound_state X A st' \<and> macs_of A st' = fold mutate ms (macs_of A st)"
proof -
  from assms(3) have macs: "macs_ok A (ps_index_value_macs st)" and len: "length (ps_hash st) = 128"
    and hash: "\<And>i. i < 64 \<Longrightarrow> le_words (ps_hash st) ! i = lt_sum X (map snd (ps_index_value_macs st)) i"
    by (auto simp: sound_state_def is_lt_hash_def APP_STATE_LT_HASH_LEN_def)
  from hash_mutations_loop_spec [OF assms(2,4) macs, of "[]" "[]" X] obtain macs' add subtract where r:
    "hash_mutations_loop A ms (ps_index_value_macs st, [], []) = Inr (macs', add, subtract)"
    "macs_ok A macs'" "map_spec A macs' = fold mutate ms (map_spec A (ps_index_value_macs st))"
    "\<And>i. lt_sum X (map snd macs') i - lt_sum X add i + lt_sum X subtract i =
       lt_sum X (map snd (ps_index_value_macs st)) i"
    by auto
  from subtract_then_add [OF assms(1) len, of subtract add] obtain h where h:
    "app_state_lt_hash_subtract_then_add X (ps_hash st) subtract add = Inr h" "length h = 128"
    "\<forall>i<64. le_words h ! i = le_words (ps_hash st) ! i - lt_sum X subtract i + lt_sum X add i" by blast
  have "le_words h ! i = lt_sum X (map snd macs') i" if "i < 64" for i
    using h(3) that by (simp add: hash [OF that] r(4) [of i, symmetric])
  with h r show ?thesis
    by (simp add: apply_hash_mutations_at_version_def sound_state_def is_lt_hash_def
        APP_STATE_LT_HASH_LEN_def macs_of_spec)
qed

lemma sound_state_unique:
  assumes "app_ext_ok A" "sound_state X A st" "sound_state X A st'" "macs_of A st = macs_of A st'"
  shows "ps_hash st = ps_hash st' \<and> ps_index_value_macs st = ps_index_value_macs st'"
proof -
  let ?m = "ps_index_value_macs st" and ?m' = "ps_index_value_macs st'"
  have ok: "macs_ok A ?m" "macs_ok A ?m'" using assms(2,3) by (auto simp: sound_state_def)
  have key: "\<exists>i. length i = 32 \<and> k = a_base64_encode A i" if "macs_ok A m" "map_of m k = Some v" for m k v
    using that map_of_SomeD [OF that(2)] by (auto simp: macs_ok_def)
  have enc: "map_of ?m (a_base64_encode A i) = map_of ?m' (a_base64_encode A i)" if "length i = 32" for i
    using fun_cong [OF assms(4), of i] that by (simp add: macs_of_def)
  have "map_of ?m = map_of ?m'"
  proof
    fix k show "map_of ?m k = map_of ?m' k"
      using key [OF ok(1), of k] key [OF ok(2), of k] enc
      by (cases "map_of ?m k"; cases "map_of ?m' k") (fastforce simp: enc)+
  qed
  with ok have same: "?m = ?m'" by (intro btree_unique) (auto simp: macs_ok_def)
  with assms(2,3) show ?thesis by (auto simp: sound_state_def intro: is_lt_hash_unique)
qed

lemma empty_state_sound: "sound_state X A patch_state_empty" "macs_of A patch_state_empty = (\<lambda>_. None)"
  using is_lt_hash_empty [of X]
  by (auto simp: sound_state_def patch_state_empty_def macs_ok_def APP_STATE_HASH_LEN_def macs_of_def)

text \<open>
  C16: the state of a collection refines a map. Applying mutations to a sound state at any version
  succeeds; the entries of the new state are the old ones with the mutations made on them one by
  one, its hash is the sum of the vectors of its value MACs, and any other sound state with the
  same entries, whatever patches or snapshot it came from, has the same hash and stored entries.
\<close>

theorem collection_state_refines:
  assumes "ext_ok X" and "app_ext_ok A" and "sound_state X A st" and "list_all mutation_ok ms"
  shows "\<exists>st'. apply_hash_mutations_at_version X A st v ms = Inr st' \<and> ps_version st' = v \<and>
    sound_state X A st' \<and> macs_of A st' = fold mutate ms (macs_of A st) \<and>
    (\<forall>other. sound_state X A other \<and> macs_of A other = macs_of A st' \<longrightarrow>
       ps_hash other = ps_hash st' \<and> ps_index_value_macs other = ps_index_value_macs st')"
  using apply_hash_mutations_spec [OF assms] sound_state_unique [OF assms(2)] by blast

theorem collection_state_refines_witness:
  "\<exists>st'. apply_hash_mutations_at_version toy toy_app patch_state_empty 1
      [\<lparr>hm_operation = OpSet, hm_index_mac = replicate 32 5, hm_value_mac = replicate 32 6\<rparr>] = Inr st' \<and>
    sound_state toy toy_app st' \<and> macs_of toy_app st' (replicate 32 5) = Some (replicate 32 6)"
  using collection_state_refines [OF toy_ok toy_app_ok empty_state_sound(1),
      of "[\<lparr>hm_operation = OpSet, hm_index_mac = replicate 32 5, hm_value_mac = replicate 32 6\<rparr>]" 1]
  by (auto simp: mutation_ok_def)

end
