(* ===== verification/AppStateDelivery.thy ===== *)
theory AppStateDelivery
  imports AppStateRefinement
begin

text \<open>
  A patch from the device that builds it to a device that decodes it: the encrypted mutations are
  read back, the MACs verify, and both devices end in the same state of the collection.
\<close>

section \<open>One mutation\<close>

lemma ext_hmac512: "app_ext_ok A \<Longrightarrow> \<exists>t. a_hmac_sha512 A k m = Some t \<and> length t = 64"
  unfolding app_ext_ok_def by (elim conjE) blast

lemma app_ext_codecs:
  assumes "app_ext_ok A"
  shows "a_base64_decode A (a_base64_encode A bs) = Inr bs"
    and "a_json_encode A xs = Inr js \<Longrightarrow> a_json_decode A js = Inr xs"
    and "a_dec_action A (a_enc_action A v) = Inr v"
    and "a_dec_key_data A (a_enc_key_data A k) = Inr k"
  using assms unfolding app_ext_ok_def by blast+

lemma value_mac_total:
  assumes "app_ext_ok A" "key_id \<noteq> []"
  shows "\<exists>mac. app_state_value_mac A operation v key_id keys = Inr mac \<and> length mac = 32"
proof -
  let ?in = "(mac_byte operation # key_id) @ v @ put_u64 (word_of_nat (length (mac_byte operation # key_id)))"
  obtain t where "a_hmac_sha512 A (value_mac_key keys) ?in = Some t" "length t = 64"
    using ext_hmac512 [OF assms(1)] by blast
  then show ?thesis
    using assms(2) by (simp add: app_state_value_mac_def app_state_mutation_mac_def hmac_sha512_def
        APP_STATE_MAC_LEN_def Let_def)
qed

lemma index_mac_total: "ext_ok X \<Longrightarrow> \<exists>mac. app_state_index_mac X index keys = Inr mac \<and> length mac = 32"
  using hmac_sha256_total [of X] by (auto simp: app_state_index_mac_def)

lemma value_roundtrip:
  assumes "ext_ok X" "encrypt_app_state_value_with_iv X p keys iv = Inr c"
  shows "decrypt_app_state_value X c keys = Inr p \<and> c \<noteq> []"
proof -
  from assms(2) obtain e where e: "aes_256_cbc_encrypt_with_iv X p (value_encryption_key keys) iv = Inr e"
    "c = iv @ e" by (auto simp: encrypt_app_state_value_with_iv_def aes_256_cbc_encrypt_def and_then_eq_Ok)
  then have len: "length (value_encryption_key keys) = 32" "length iv = 16"
    by (auto simp: aes_256_cbc_encrypt_with_iv_def result_simps)
  from aes_256_cbc_roundtrip [OF assms(1) len, of p] e len show ?thesis
    by (auto simp: decrypt_app_state_value_def aes_256_cbc_decrypt_def)
qed

text \<open>What a device reads of a mutation: its operation, its index and its action.\<close>

definition reads_mutation ::
  "'v app_ext \<Rightarrow> bytes \<Rightarrow> 'v ChatMutationPatch \<Rightarrow> EncryptedAppStateMutation \<Rightarrow> 'v DecodedAppStateMutation \<Rightarrow> bool" where
  "reads_mutation A key_id p em d \<longleftrightarrow>
     dm_operation d = cm_operation p \<and> dm_key_id d = key_id \<and> dm_index_mac d = em_index_mac em \<and>
     dm_value_mac d = em_value_mac em \<and> dm_index d = cm_index p \<and>
     build_sync_action_data A p = Inr (dm_sync_action d) \<and>
     length (em_index_mac em) = 32 \<and> length (em_value_mac em) = 32 \<and>
     sm_operation (em_mutation em) = Some (proto_value (cm_operation p)) \<and>
     Option.bind (sm_record (em_mutation em)) mutation_key_id = Some key_id"

lemma decode_encrypted:
  assumes "ext_ok X" "app_ext_ok A"
    and "encrypt_chat_mutation_patch_with_iv X A p key_id key_data iv = Inr em"
    and "derive_app_state_keys X key_data = Inr keys"
  shows "\<exists>d. decode_app_state_mutation X A (em_mutation em) keys = Inr d \<and> reads_mutation A key_id p em d"
proof -
  from assms(3,4) obtain action index c vm im where e:
    "key_id \<noteq> []" "build_sync_action_data A p = Inr action" "sa_index action = Some index"
    "encrypt_app_state_value_with_iv X (a_enc_action A action) keys iv = Inr c"
    "app_state_value_mac A (crypto_operation (cm_operation p)) c key_id keys = Inr vm"
    "app_state_index_mac X index keys = Inr im"
    "em = \<lparr>em_index_mac = im, em_value_mac = vm, em_encrypted_value = c,
            em_mutation = \<lparr>sm_operation = Some (proto_value (cm_operation p)),
              sm_record = Some \<lparr>sr_index = Some \<lparr>si_blob = Some im\<rparr>,
                sr_value = Some \<lparr>sval_blob = Some (c @ vm)\<rparr>,
                sr_key_id = Some \<lparr>ki_id = Some key_id\<rparr>\<rparr>\<rparr>\<rparr>"
    by (auto simp: encrypt_chat_mutation_patch_with_iv_def result_simps Let_def split: if_splits)
  have len: "length vm = 32" "length im = 32"
    using value_mac_total [OF assms(2) e(1), of "crypto_operation (cm_operation p)" c keys] e(5)
      index_mac_total [OF assms(1), of index keys] e(6) by auto
  from value_roundtrip [OF assms(1) e(4)] have c: "decrypt_app_state_value X c keys = Inr (a_enc_action A action)"
    "c \<noteq> []" by auto
  from e(2,3) have json: "a_json_decode A index = Inr (cm_index p)"
    using app_ext_codecs(2) [OF assms(2)]
    by (auto simp: build_sync_action_data_def result_simps split: if_splits)
  have op: "from_proto_value (proto_value (cm_operation p)) = Inr (cm_operation p)"
    by (cases "cm_operation p") (simp_all add: from_proto_value_def)
  show ?thesis
    using e len c json op app_ext_codecs(3) [OF assms(2), of action]
    by (simp add: decode_app_state_mutation_def decode_app_state_record_def reads_mutation_def
        mutation_key_id_def validate_app_state_mac_def APP_STATE_MAC_LEN_def Let_def
        constant_time_eq_iff)
qed

section \<open>A patch\<close>

definition hash_mutation :: "'v ChatMutationPatch \<Rightarrow> EncryptedAppStateMutation \<Rightarrow> AppStateHashMutation" where
  "hash_mutation p em = \<lparr>hm_operation = cm_operation p, hm_index_mac = em_index_mac em,
     hm_value_mac = em_value_mac em\<rparr>"

lemma reads_hash_mutation:
  assumes "reads_mutation A key_id p em d"
  shows "hash_mutation_from_encrypted em = Inr (hash_mutation p em)"
    and "hash_mutation_of_decoded d = Inr (hash_mutation p em)"
    and "mutation_ok (hash_mutation p em)"
    and "validate_mutation_key_id (em_mutation em) key_id = Inr ()"
proof -
  have op: "from_proto_value (proto_value (cm_operation p)) = Inr (cm_operation p)"
    by (cases "cm_operation p") (simp_all add: from_proto_value_def)
  show "hash_mutation_from_encrypted em = Inr (hash_mutation p em)"
    "hash_mutation_of_decoded d = Inr (hash_mutation p em)"
    "mutation_ok (hash_mutation p em)" "validate_mutation_key_id (em_mutation em) key_id = Inr ()"
    using assms op
    by (simp_all add: reads_mutation_def hash_mutation_def hash_mutation_from_encrypted_def
        hash_mutation_of_decoded_def hash_mutation_new_def validate_app_state_mac_def
        APP_STATE_MAC_LEN_def mutation_ok_def validate_mutation_key_id_def)
qed

text \<open>The encrypted mutations of a list of patches, each with its own initialisation vector.\<close>

definition encrypt_all ::
  "ext \<Rightarrow> 'v app_ext \<Rightarrow> bytes \<Rightarrow> bytes \<Rightarrow> ('v ChatMutationPatch \<times> bytes) list \<Rightarrow>
     EncryptedAppStateMutation list core_result" where
  "encrypt_all X A key_id key_data =
     collect (\<lambda>(p, iv). encrypt_chat_mutation_patch_with_iv X A p key_id key_data iv)"

lemma decode_encrypted_all:
  assumes "ext_ok X" "app_ext_ok A" "derive_app_state_keys X key_data = Inr keys"
  shows "encrypt_all X A key_id key_data ps = Inr ems \<Longrightarrow>
    \<exists>ds. collect (\<lambda>m. decode_app_state_mutation X A m keys) (map em_mutation ems) = Inr ds \<and>
      list_all2 (\<lambda>(p, em) d. reads_mutation A key_id p em d) (zip (map fst ps) ems) ds \<and>
      length ems = length ps"
proof (induction ps arbitrary: ems)
  case (Cons x ps)
  obtain p iv where x: "x = (p, iv)" by force
  with Cons.prems obtain em rest where em: "encrypt_chat_mutation_patch_with_iv X A p key_id key_data iv = Inr em"
    "encrypt_all X A key_id key_data ps = Inr rest" "ems = em # rest"
    by (auto simp: encrypt_all_def and_then_eq_Ok)
  from decode_encrypted [OF assms(1,2) em(1) assms(3)] Cons.IH [OF em(2)] em(3) x
  show ?case by fastforce
qed (simp add: encrypt_all_def)

lemma collect_reads:
  assumes "list_all2 (\<lambda>(p, em) d. reads_mutation A key_id p em d) pes ds"
  shows "collect hash_mutation_from_encrypted (map snd pes) = Inr (map (\<lambda>(p, em). hash_mutation p em) pes)"
    and "collect hash_mutation_of_decoded ds = Inr (map (\<lambda>(p, em). hash_mutation p em) pes)"
    and "list_all mutation_ok (map (\<lambda>(p, em). hash_mutation p em) pes)"
    and "for_each (\<lambda>m. validate_mutation_key_id (em_mutation m) key_id) (map snd pes) = Inr ()"
    and "map dm_value_mac ds = map (em_value_mac \<circ> snd) pes"
    and "for_each (\<lambda>m. if dm_key_id m \<noteq> key_id then Err e else Ok ()) ds = Inr ()"
    and "map dm_operation ds = map (cm_operation \<circ> fst) pes"
    and "map dm_index ds = map (cm_index \<circ> fst) pes"
    and "map (\<lambda>d. Inr (dm_sync_action d)) ds = map (build_sync_action_data A \<circ> fst) pes"
    and "list_all (\<lambda>pe. length (em_value_mac (snd pe)) = 32) pes"
  using assms
proof (induction pes ds rule: list_all2_induct)
  case (Cons pe pes d ds)
  obtain p em where pe: "pe = (p, em)" by force
  with Cons.hyps(1) have r: "reads_mutation A key_id p em d" by simp
  { case 1 then show ?case using Cons reads_hash_mutation [OF r] pe by simp }
  { case 2 then show ?case using Cons reads_hash_mutation [OF r] pe by simp }
  { case 3 then show ?case using Cons reads_hash_mutation [OF r] pe by simp }
  { case 4 then show ?case using Cons reads_hash_mutation [OF r] pe by simp }
  { case 5 then show ?case using Cons r pe by (simp add: reads_mutation_def) }
  { case 6 then show ?case using Cons r pe by (simp add: reads_mutation_def) }
  { case 7 then show ?case using Cons r pe by (simp add: reads_mutation_def) }
  { case 8 then show ?case using Cons r pe by (simp add: reads_mutation_def) }
  { case 9 then show ?case using Cons r pe by (simp add: reads_mutation_def) }
  { case 10 then show ?case using Cons r pe by (simp add: reads_mutation_def) }
qed simp_all

lemma snapshot_mac_total:
  "ext_ok X \<Longrightarrow> \<exists>mac. app_state_snapshot_mac X h v (collection_name c) keys = Inr mac \<and> length mac = 32"
  using hmac_sha256_total [of X]
  by (cases c) (simp_all add: app_state_snapshot_mac_def validate_collection_name_def)

lemma patch_mac_total:
  assumes "ext_ok X" "length smac = 32" "\<forall>m\<in>set macs. length m = 32"
  shows "\<exists>mac. app_state_patch_mac X smac macs v (collection_name c) keys = Inr mac \<and> length mac = 32"
proof -
  have "for_each (\<lambda>mac. validate_mac mac ''value mac'') macs = Inr ()"
    using assms(3) by (simp add: for_each_Ok_iff validate_mac_def APP_STATE_MAC_LEN_def)
  then show ?thesis
    using assms hmac_sha256_total [of X]
    by (cases c) (simp_all add: app_state_patch_mac_def validate_mac_def APP_STATE_MAC_LEN_def
        validate_collection_name_def)
qed

lemma encrypt_all_keys:
  assumes "encrypt_all X A key_id key_data ps = Inr ems" "ps \<noteq> []"
  shows "key_id \<noteq> [] \<and> (\<exists>keys. derive_app_state_keys X key_data = Inr keys)"
  using assms
  by (cases ps) (auto simp: encrypt_all_def encrypt_chat_mutation_patch_with_iv_def Let_def result_simps
      split: if_splits)

lemma patch_built_and_decoded:
  assumes X: "ext_ok X" and A: "app_ext_ok A"
    and enc: "encrypt_all X A key_id key_data ps = Inr ems" and ne: "ps \<noteq> []"
    and st: "sound_state X A st" and v: "ps_version st \<noteq> - 1"
  shows "\<exists>b d. build_app_state_patch_bundle X A c st key_id key_data ems = Inr b \<and>
    decode_app_state_patch X A c st (pb_patch b) key_data = Inr d \<and>
    dp_next_state d = pb_next_state b \<and> sound_state X A (pb_next_state b) \<and>
    ps_version (pb_next_state b) = ps_version st + 1 \<and>
    map dm_operation (dp_mutations d) = map (cm_operation \<circ> fst) ps \<and>
    map dm_index (dp_mutations d) = map (cm_index \<circ> fst) ps \<and>
    map (\<lambda>d. Inr (dm_sync_action d)) (dp_mutations d) = map (build_sync_action_data A \<circ> fst) ps"
proof -
  obtain keys where key_id: "key_id \<noteq> []" and keys: "derive_app_state_keys X key_data = Inr keys"
    using encrypt_all_keys [OF enc ne] by blast
  let ?pes = "zip (map fst ps) ems"
  from decode_encrypted_all [OF X A keys enc] obtain ds where
    ds: "collect (\<lambda>m. decode_app_state_mutation X A m keys) (map em_mutation ems) = Inr ds"
    and reads: "list_all2 (\<lambda>(p, em) d. reads_mutation A key_id p em d) ?pes ds"
    and len: "length ems = length ps" by blast
  have fst_snd: "map fst ?pes = map fst ps" "map snd ?pes = ems" using len by simp_all
  then have comp: "map (f \<circ> fst) ?pes = map (f \<circ> fst) ps" "map (g \<circ> snd) ?pes = map g ems" for f g
    by (simp_all only: map_map [symmetric])
  note r = collect_reads [OF reads, unfolded fst_snd comp]
  let ?hms = "map (\<lambda>(p, em). hash_mutation p em) ?pes"
  obtain st' where st': "apply_hash_mutations_at_version X A st (ps_version st + 1) ?hms = Inr st'"
    "ps_version st' = ps_version st + 1" "sound_state X A st'"
    using apply_hash_mutations_spec [OF X A st r(3)] by blast
  have adv: "advance_with_hash_mutations X A st ?hms = Inr st'"
    using st'(1) v by (simp add: advance_with_hash_mutations_def next_version_def)
  obtain smac where smac: "app_state_snapshot_mac X (ps_hash st') (ps_version st + 1) (collection_name c) keys = Inr smac"
    "length smac = 32" using snapshot_mac_total [OF X] by blast
  have "list_all (\<lambda>em. length (em_value_mac em) = 32) (map snd ?pes)"
    using collect_reads(10) [OF reads] by (simp add: list.pred_map comp_def)
  then have "\<forall>m\<in>set (map em_value_mac ems). length m = 32"
    by (simp add: fst_snd(2) list_all_iff)
  then obtain pmac where pmac: "app_state_patch_mac X smac (map em_value_mac ems) (ps_version st + 1)
      (collection_name c) keys = Inr pmac" "length pmac = 32"
    using patch_mac_total [OF X smac(2)] by blast
  have "ems \<noteq> []" using ne len by auto
  define patch where "patch = \<lparr>sp_version = Some \<lparr>sv_version = Some (ps_version st + 1)\<rparr>,
              sp_mutations = map em_mutation ems, sp_external_mutations = None,
              sp_snapshot_mac = Some smac, sp_patch_mac = Some pmac,
              sp_key_id = Some \<lparr>ki_id = Some key_id\<rparr>, sp_exit_code = None,
              sp_device_index = None, sp_client_debug_data = None\<rparr>"
  have build: "build_app_state_patch_bundle X A c st key_id key_data ems =
      Inr \<lparr>pb_collection = c, pb_previous_version = ps_version st, pb_next_state = st',
        pb_patch = patch, pb_encoded_patch = a_enc_patch A patch\<rparr>"
    using key_id \<open>ems \<noteq> []\<close> r(1,4) adv keys smac pmac st'(2)
    by (simp add: build_app_state_patch_bundle_def patch_def Let_def)
  have dec: "decode_app_state_patch X A c st patch key_data =
      Inr \<lparr>dp_collection = c, dp_previous_version = ps_version st, dp_next_state = st',
        dp_patch = patch, dp_mutations = ds\<rparr>"
    using key_id \<open>ems \<noteq> []\<close> r(2,5) adv keys smac pmac ds v
    by (simp add: decode_app_state_patch_def patch_def next_version_def patch_key_id_def r(6) key_id_of_def
        validate_app_state_mac_def APP_STATE_MAC_LEN_def constant_time_eq_iff)
  from build dec r(7,8,9) st'(2,3) show ?thesis by simp
qed

section \<open>Two devices\<close>

lemma derived_keys:
  assumes "ext_ok X" "length key_data = 32"
  shows "\<exists>keys. derive_app_state_keys X key_data = Inr keys \<and> length (value_encryption_key keys) = 32"
proof -
  obtain e where "hkdf_sha256 X key_data 160 [] APP_STATE_INFO = Inr e" "length e = 160"
    using hkdf_sha256_total [OF assms(1), of 160 key_data "[]" APP_STATE_INFO] by auto
  then show ?thesis
    using assms(2) by (simp add: derive_app_state_keys_def APP_STATE_KEY_LEN_def
        APP_STATE_EXPANDED_KEY_LEN_def slice_def)
qed

lemma encrypt_total:
  assumes X: "ext_ok X" and A: "app_ext_ok A" and id: "key_id \<noteq> []" and len: "length key_data = 32"
    and iv: "length iv = 16" and action: "build_sync_action_data A p = Inr action"
  shows "\<exists>em. encrypt_chat_mutation_patch_with_iv X A p key_id key_data iv = Inr em"
proof -
  obtain keys where keys: "derive_app_state_keys X key_data = Inr keys" "length (value_encryption_key keys) = 32"
    using derived_keys [OF X len] by blast
  obtain c where c: "encrypt_app_state_value_with_iv X (a_enc_action A action) keys iv = Inr c"
    using aes_256_cbc_roundtrip [OF X keys(2) iv, of "a_enc_action A action"]
    by (auto simp: encrypt_app_state_value_with_iv_def aes_256_cbc_encrypt_def)
  obtain index where index: "sa_index action = Some index"
    using action by (auto simp: build_sync_action_data_def result_simps split: if_splits)
  show ?thesis
    using id action index keys(1) c value_mac_total [OF A id, of "crypto_operation (cm_operation p)" c keys]
      index_mac_total [OF X, of index keys]
    by (auto simp: encrypt_chat_mutation_patch_with_iv_def)
qed

lemma encrypt_all_total:
  assumes "ext_ok X" "app_ext_ok A" "key_id \<noteq> []" "length key_data = 32"
  shows "\<forall>(p, iv)\<in>set ps. length iv = 16 \<and> (\<exists>a. build_sync_action_data A p = Inr a) \<Longrightarrow>
    \<exists>ems. encrypt_all X A key_id key_data ps = Inr ems"
proof (induction ps)
  case (Cons x ps)
  obtain p iv where x: "x = (p, iv)" by force
  with Cons encrypt_total [OF assms, of iv p] show ?case by (force simp: encrypt_all_def)
qed (simp add: encrypt_all_def)

text \<open>
  C15: a patch reaches the other devices. When two devices hold the same entries of a collection at
  the same version, in sound states however they were reached, then any valid changes are
  encrypted and bundled into a patch that the other device accepts: it reads the same operations,
  indexes and actions in order, and both devices end in the same state, one version later. Neither
  the MAC checks nor the hashes can stop an honest patch.
\<close>

theorem patch_delivery:
  assumes "ext_ok X" and "app_ext_ok A" and "key_id \<noteq> []" and "length key_data = 32"
    and "ps \<noteq> []"
    and "\<forall>(p, iv)\<in>set ps. length iv = 16 \<and> (\<exists>a. build_sync_action_data A p = Inr a)"
    and "sound_state X A sender" and "sound_state X A receiver"
    and "ps_version sender = ps_version receiver" and "macs_of A sender = macs_of A receiver"
    and "ps_version sender \<noteq> - 1"
  shows "\<exists>ems b d. encrypt_all X A key_id key_data ps = Inr ems \<and>
    build_app_state_patch_bundle X A c sender key_id key_data ems = Inr b \<and>
    decode_app_state_patch X A c receiver (pb_patch b) key_data = Inr d \<and>
    dp_next_state d = pb_next_state b \<and> sound_state X A (pb_next_state b) \<and>
    ps_version (pb_next_state b) = ps_version sender + 1 \<and>
    map dm_operation (dp_mutations d) = map (cm_operation \<circ> fst) ps \<and>
    map dm_index (dp_mutations d) = map (cm_index \<circ> fst) ps \<and>
    map (\<lambda>m. Inr (dm_sync_action m)) (dp_mutations d) = map (build_sync_action_data A \<circ> fst) ps"
proof -
  have "receiver = sender"
    using sound_state_unique [OF assms(2,7,8,10)] assms(9) by (intro AppStatePatchState.equality) simp_all
  then show ?thesis
    using encrypt_all_total [OF assms(1-4,6)] patch_built_and_decoded [OF assms(1,2) _ assms(5,7,11)]
    by metis
qed

theorem patch_delivery_witness:
  "\<exists>ems b d. encrypt_all toy toy_app [1] (replicate 32 7)
      [(chat_mutation_patch_new Regular 2 [''archive'', ''a@b''] [9], replicate 16 0)] = Inr ems \<and>
    build_app_state_patch_bundle toy toy_app Regular patch_state_empty [1] (replicate 32 7) ems = Inr b \<and>
    decode_app_state_patch toy toy_app Regular patch_state_empty (pb_patch b) (replicate 32 7) = Inr d \<and>
    map dm_index (dp_mutations d) = [[''archive'', ''a@b'']]"
  using patch_delivery [OF toy_ok toy_app_ok, of "[1]" "replicate 32 7"
      "[(chat_mutation_patch_new Regular 2 [''archive'', ''a@b''] [9], replicate 16 0)]"
      patch_state_empty patch_state_empty Regular] empty_state_sound(1) [of toy toy_app]
  by (fastforce simp: chat_mutation_patch_new_def build_sync_action_data_def toy_app_json patch_state_empty_def)

end
