(* ===== verification/Coalescing.thy ===== *)
theory Coalescing
  imports Node
begin

text \<open>
  The contracts behind the event buffer. A buffer that keeps one pending item per key and merges
  later ones into it is invisible to a reader that merges the items one by one, provided merging is
  associative (\<open>merging\<close>); the same holds for the three maps of pending insertions, updates and
  deletions of one kind of object (\<open>replacing\<close>). Both are interpreted on every kind of event.
\<close>

section \<open>What a reader of the events sees\<close>

definition view_merge :: "('e \<Rightarrow> 'k) \<Rightarrow> ('e \<Rightarrow> 'e \<Rightarrow> 'e) \<Rightarrow> 'e \<Rightarrow> ('k \<Rightarrow> 'e option) \<Rightarrow> 'k \<Rightarrow> 'e option" where
  "view_merge key join e v = v(key e \<mapsto> (case v (key e) of None \<Rightarrow> e | Some old \<Rightarrow> join old e))"

definition view_upsert :: "('e \<Rightarrow> 'k) \<Rightarrow> 'e \<Rightarrow> ('k \<Rightarrow> 'e option) \<Rightarrow> 'k \<Rightarrow> 'e option" where
  "view_upsert key e v = v(key e \<mapsto> e)"

definition view_update ::
  "('u \<Rightarrow> 'k) \<Rightarrow> ('e \<Rightarrow> 'u \<Rightarrow> 'e) \<Rightarrow> 'u \<Rightarrow> ('k \<Rightarrow> 'e option) \<Rightarrow> 'k \<Rightarrow> 'e option" where
  "view_update ukey into u v = v(ukey u := map_option (\<lambda>e. into e u) (v (ukey u)))"

definition view_delete :: "'k \<Rightarrow> ('k \<Rightarrow> 'e option) \<Rightarrow> 'k \<Rightarrow> 'e option" where
  "view_delete k v = v(k := None)"

definition view_all :: "('e \<Rightarrow> bool) \<Rightarrow> ('k \<Rightarrow> 'e option) \<Rightarrow> bool" where
  "view_all e_ok v \<longleftrightarrow> (\<forall>k e. v k = Some e \<longrightarrow> e_ok e)"

section \<open>Pending items\<close>

definition pending :: "('e \<Rightarrow> 'e \<Rightarrow> 'e) \<Rightarrow> ('k, 'e) btree \<Rightarrow> ('k \<Rightarrow> 'e option) \<Rightarrow> 'k \<Rightarrow> 'e option" where
  "pending join m v k = (case map_of m k of None \<Rightarrow> v k
     | Some e \<Rightarrow> Some (case v k of None \<Rightarrow> e | Some old \<Rightarrow> join old e))"

definition keyed :: "('e \<Rightarrow> 'k::linorder) \<Rightarrow> ('e \<Rightarrow> bool) \<Rightarrow> ('k, 'e) btree \<Rightarrow> bool" where
  "keyed key e_ok m \<longleftrightarrow> btree_ok m \<and> (\<forall>k e. map_of m k = Some e \<longrightarrow> key e = k \<and> e_ok e)"

lemma keyed_Nil [simp]: "keyed key e_ok []"
  by (simp add: keyed_def)

lemma keyed_insert [intro]: "keyed key e_ok m \<Longrightarrow> key e = k \<Longrightarrow> e_ok e \<Longrightarrow> keyed key e_ok (btree_insert k e m)"
  by (auto simp: keyed_def)

lemma keyed_remove [intro]: "keyed key e_ok m \<Longrightarrow> keyed key e_ok (btree_remove k m)"
  by (auto simp: keyed_def btree_ok_remove map_of_btree_remove)

lemma keyed_Cons:
  "keyed key e_ok ((k, e) # m) \<Longrightarrow> key e = k \<and> e_ok e \<and> keyed key e_ok m \<and> map_of m k = None"
proof -
  assume *: "keyed key e_ok ((k, e) # m)"
  then have ok: "btree_ok m" and none: "map_of m k = None"
    by (auto simp: keyed_def btree_ok_Cons intro!: btree_keys_greater)
  have "key e' = k' \<and> e_ok e'" if "map_of m k' = Some e'" for k' e'
  proof -
    have "map_of ((k, e) # m) k' = Some e'" using that none by auto
    with * show ?thesis unfolding keyed_def by blast
  qed
  moreover have "map_of ((k, e) # m) k = Some e" by simp
  then have "key e = k \<and> e_ok e" using * unfolding keyed_def by blast
  ultimately show ?thesis using ok none by (simp add: keyed_def)
qed

text \<open>A component of a larger state, with its reader and its writer.\<close>

locale part_of_state =
  fixes get :: "'s \<Rightarrow> 'a"
    and put :: "'a \<Rightarrow> 's \<Rightarrow> 's"
  assumes get_put: "get (put a s) = a"
    and put_put: "put a (put b s) = put a s"
    and put_get: "put (get s) s = s"
begin

lemma fold_part:
  assumes "\<And>x s. step x s = put (local_step x (get s)) s"
  shows "fold step xs s = put (fold local_step xs (get s)) s"
  by (induction xs arbitrary: s) (simp_all add: assms get_put put_put put_get)

end

locale merging =
  fixes key :: "'e \<Rightarrow> 'k::linorder"
    and join :: "'e \<Rightarrow> 'e \<Rightarrow> 'e"
    and e_ok :: "'e \<Rightarrow> bool"
  assumes key_join: "key a = key b \<Longrightarrow> key (join a b) = key a"
    and ok_join: "e_ok a \<Longrightarrow> e_ok b \<Longrightarrow> e_ok (join a b)"
    and join_assoc: "e_ok a \<Longrightarrow> e_ok b \<Longrightarrow> e_ok c \<Longrightarrow> join (join a b) c = join a (join b c)"
begin

lemma keyed_merge: "keyed key e_ok m \<Longrightarrow> e_ok e \<Longrightarrow> keyed key e_ok (entry_merge join (key e) e m)"
  by (auto simp: entry_merge_def keyed_def key_join ok_join split: option.split)

lemma pending_merge:
  assumes "keyed key e_ok m" "view_all e_ok v" "e_ok e"
  shows "pending join (entry_merge join (key e) e m) v = view_merge key join e (pending join m v)"
  using assms
  by (auto simp: fun_eq_iff pending_def entry_merge_def view_merge_def keyed_def view_all_def join_assoc
      split: option.split)

lemma pending_all: "keyed key e_ok m \<Longrightarrow> view_all e_ok v \<Longrightarrow> view_all e_ok (pending join m v)"
  by (auto simp: pending_def view_all_def keyed_def ok_join split: option.splits)

lemma view_merge_drained:
  "keyed key e_ok m \<Longrightarrow> fold (view_merge key join) (map snd m) v = pending join m v"
proof (induction m arbitrary: v)
  case (Cons kv m)
  obtain k e where kv: "kv = (k, e)" by force
  from keyed_Cons [OF Cons.prems [unfolded kv]]
  have *: "key e = k" "keyed key e_ok m" "map_of m k = None" by auto
  have "fold (view_merge key join) (map snd m) (view_merge key join e v) =
      pending join m (view_merge key join e v)" by (rule Cons.IH [OF *(2)])
  also have "\<dots> = pending join (kv # m) v"
    using * kv by (auto simp: fun_eq_iff pending_def view_merge_def split: option.split)
  finally show ?case by (simp add: kv)
qed (simp add: pending_def fun_eq_iff)

lemma fold_merge:
  assumes "keyed key e_ok m" "view_all e_ok v" "list_all e_ok es"
  shows "keyed key e_ok (fold (\<lambda>e m. entry_merge join (key e) e m) es m) \<and>
    pending join (fold (\<lambda>e m. entry_merge join (key e) e m) es m) v =
      fold (view_merge key join) es (pending join m v)"
  using assms
proof (induction es arbitrary: m)
  case (Cons e es)
  then show ?case using keyed_merge [of m e] pending_merge [of m v e] by simp
qed simp

end

section \<open>Pending insertions, updates and deletions\<close>

type_synonym ('k, 'e, 'u) slots = "('k, 'e) btree \<times> ('k, 'u) btree \<times> ('k, unit) btree"

definition slot_upsert :: "('e \<Rightarrow> 'k::linorder) \<Rightarrow> 'e \<Rightarrow> ('k, 'e, 'u) slots \<Rightarrow> ('k, 'e, 'u) slots" where
  "slot_upsert key e = (\<lambda>(ups, upd, del).
     (btree_insert (key e) e ups, btree_remove (key e) upd, btree_remove (key e) del))"

definition slot_update ::
  "('u \<Rightarrow> 'k::linorder) \<Rightarrow> ('e \<Rightarrow> 'u \<Rightarrow> 'e) \<Rightarrow> ('u \<Rightarrow> 'u \<Rightarrow> 'u) \<Rightarrow> 'u \<Rightarrow> ('k, 'e, 'u) slots \<Rightarrow> ('k, 'e, 'u) slots" where
  "slot_update ukey into join u = (\<lambda>(ups, upd, del).
     case map_of ups (ukey u) of
       Some e \<Rightarrow> (btree_insert (ukey u) (into e u) ups, upd, del)
     | None \<Rightarrow> if map_of del (ukey u) = None then (ups, entry_merge join (ukey u) u upd, del)
              else (ups, upd, del))"

definition slot_delete :: "'k::linorder \<Rightarrow> ('k, 'e, 'u) slots \<Rightarrow> ('k, 'e, 'u) slots" where
  "slot_delete k = (\<lambda>(ups, upd, del). (btree_remove k ups, btree_remove k upd, btree_insert k () del))"

definition pending_slots ::
  "('e \<Rightarrow> 'u \<Rightarrow> 'e) \<Rightarrow> ('k, 'e, 'u) slots \<Rightarrow> ('k \<Rightarrow> 'e option) \<Rightarrow> 'k \<Rightarrow> 'e option" where
  "pending_slots into = (\<lambda>(ups, upd, del) v k. case map_of ups k of
     Some e \<Rightarrow> Some e
   | None \<Rightarrow> (case map_of upd k of
       Some u \<Rightarrow> map_option (\<lambda>e. into e u) (v k)
     | None \<Rightarrow> if map_of del k = None then v k else None))"

definition slots_ok :: "('e \<Rightarrow> 'k::linorder) \<Rightarrow> ('u \<Rightarrow> 'k) \<Rightarrow> ('e \<Rightarrow> bool) \<Rightarrow> ('u \<Rightarrow> bool) \<Rightarrow> ('k, 'e, 'u) slots \<Rightarrow> bool" where
  "slots_ok key ukey e_ok u_ok = (\<lambda>(ups, upd, del).
     keyed key e_ok ups \<and> keyed ukey u_ok upd \<and> btree_ok del \<and>
     (\<forall>k. map_of ups k \<noteq> None \<longrightarrow> map_of upd k = None \<and> map_of del k = None) \<and>
     (\<forall>k. map_of upd k \<noteq> None \<longrightarrow> map_of del k = None))"

locale replacing =
  fixes key :: "'e \<Rightarrow> 'k::linorder"
    and ukey :: "'u \<Rightarrow> 'k"
    and into :: "'e \<Rightarrow> 'u \<Rightarrow> 'e"
    and join :: "'u \<Rightarrow> 'u \<Rightarrow> 'u"
    and e_ok :: "'e \<Rightarrow> bool"
    and u_ok :: "'u \<Rightarrow> bool"
  assumes key_into: "key (into e u) = key e"
    and ok_into: "e_ok e \<Longrightarrow> u_ok u \<Longrightarrow> e_ok (into e u)"
    and ukey_join: "ukey (join u w) = ukey u"
    and u_ok_join: "u_ok u \<Longrightarrow> u_ok w \<Longrightarrow> u_ok (join u w)"
    and into_join: "e_ok e \<Longrightarrow> u_ok u \<Longrightarrow> u_ok w \<Longrightarrow> into (into e u) w = into e (join u w)"
begin

lemma slots_ok_upsert:
  "slots_ok key ukey e_ok u_ok s \<Longrightarrow> e_ok e \<Longrightarrow> slots_ok key ukey e_ok u_ok (slot_upsert key e s)"
  by (cases s) (auto simp: slots_ok_def slot_upsert_def keyed_def btree_ok_remove map_of_btree_remove)

lemma slots_ok_update:
  assumes "slots_ok key ukey e_ok u_ok s" "u_ok u"
  shows "slots_ok key ukey e_ok u_ok (slot_update ukey into join u s)"
proof -
  obtain ups upd del where s: "s = (ups, upd, del)" by (cases s)
  show ?thesis
    using assms unfolding s slots_ok_def slot_update_def prod.case
    by (auto simp: keyed_def entry_merge_def key_into ok_into ukey_join u_ok_join split: option.split)
qed

lemma slots_ok_delete:
  "slots_ok key ukey e_ok u_ok s \<Longrightarrow> slots_ok key ukey e_ok u_ok (slot_delete k s)"
  by (cases s) (auto simp: slots_ok_def slot_delete_def keyed_def btree_ok_remove map_of_btree_remove)

lemma pending_upsert:
  "slots_ok key ukey e_ok u_ok s \<Longrightarrow>
     pending_slots into (slot_upsert key e s) v = view_upsert key e (pending_slots into s v)"
  by (cases s) (auto simp: fun_eq_iff pending_slots_def slot_upsert_def view_upsert_def slots_ok_def
      keyed_def map_of_btree_remove split: option.split)

lemma pending_update:
  assumes "slots_ok key ukey e_ok u_ok s" "view_all e_ok v" "u_ok u"
  shows "pending_slots into (slot_update ukey into join u s) v = view_update ukey into u (pending_slots into s v)"
proof -
  obtain ups upd del where s: "s = (ups, upd, del)" by (cases s)
  show ?thesis
    using assms unfolding s slots_ok_def slot_update_def prod.case
    by (auto simp: fun_eq_iff pending_slots_def view_update_def keyed_def entry_merge_def view_all_def
        into_join option.map_comp comp_def split: option.split intro!: option.map_cong)
qed

lemma pending_delete:
  "slots_ok key ukey e_ok u_ok s \<Longrightarrow>
     pending_slots into (slot_delete k s) v = view_delete k (pending_slots into s v)"
  by (cases s) (auto simp: fun_eq_iff pending_slots_def slot_delete_def view_delete_def slots_ok_def
      keyed_def map_of_btree_remove split: option.split)

lemma view_drained:
  assumes "slots_ok key ukey e_ok u_ok (ups, upd, del)"
  shows "fold view_delete (map fst del) (fold (view_update ukey into) (map snd upd)
    (fold (view_upsert key) (map snd ups) v)) = pending_slots into (ups, upd, del) v"
proof -
  have ups: "fold (view_upsert key) (map snd ups) v = (\<lambda>k. case map_of ups k of Some e \<Rightarrow> Some e | None \<Rightarrow> v k)"
    if "keyed key e_ok ups" for ups v
    using that
  proof (induction ups arbitrary: v)
    case (Cons kv ups)
    obtain k e where kv: "kv = (k, e)" by force
    from keyed_Cons [OF Cons.prems [unfolded kv]] Cons.IH kv show ?case
      by (auto simp: fun_eq_iff view_upsert_def split: option.split)
  qed simp
  have upd: "fold (view_update ukey into) (map snd upd) v =
      (\<lambda>k. case map_of upd k of Some u \<Rightarrow> map_option (\<lambda>e. into e u) (v k) | None \<Rightarrow> v k)"
    if "keyed ukey u_ok upd" for upd v
    using that
  proof (induction upd arbitrary: v)
    case (Cons kv upd)
    obtain k u where kv: "kv = (k, u)" by force
    from keyed_Cons [OF Cons.prems [unfolded kv]] Cons.IH kv show ?case
      by (auto simp: fun_eq_iff view_update_def split: option.split)
  qed simp
  have del: "fold view_delete (map fst del) v = (\<lambda>k. if map_of del k = None then v k else None)"
    for del :: "('k \<times> unit) list" and v :: "'k \<Rightarrow> 'e option"
    by (induction del arbitrary: v) (auto simp: fun_eq_iff view_delete_def)
  from assms have "keyed key e_ok ups" "keyed ukey u_ok upd"
    "\<And>k. map_of ups k \<noteq> None \<Longrightarrow> map_of upd k = None \<and> map_of del k = None"
    "\<And>k. map_of upd k \<noteq> None \<Longrightarrow> map_of del k = None" by (auto simp: slots_ok_def)
  then show ?thesis
    by (auto simp: fun_eq_iff ups upd del pending_slots_def split: option.split)
qed

lemma fold_upsert:
  "slots_ok key ukey e_ok u_ok s \<Longrightarrow> list_all e_ok es \<Longrightarrow>
     slots_ok key ukey e_ok u_ok (fold (slot_upsert key) es s) \<and>
     pending_slots into (fold (slot_upsert key) es s) v = fold (view_upsert key) es (pending_slots into s v)"
proof (induction es arbitrary: s)
  case (Cons e es)
  then show ?case using slots_ok_upsert [of s e] pending_upsert [of s e v] by simp
qed simp

lemma fold_update:
  "slots_ok key ukey e_ok u_ok s \<Longrightarrow> view_all e_ok v \<Longrightarrow> list_all u_ok us \<Longrightarrow>
     slots_ok key ukey e_ok u_ok (fold (slot_update ukey into join) us s) \<and>
     pending_slots into (fold (slot_update ukey into join) us s) v =
       fold (view_update ukey into) us (pending_slots into s v)"
proof (induction us arbitrary: s)
  case (Cons u us)
  then show ?case using slots_ok_update [of s u] pending_update [of s v u] by simp
qed simp

lemma fold_delete:
  "slots_ok key ukey e_ok u_ok s \<Longrightarrow>
     slots_ok key ukey e_ok u_ok (fold slot_delete ks s) \<and>
     pending_slots into (fold slot_delete ks s) v = fold view_delete ks (pending_slots into s v)"
proof (induction ks arbitrary: s)
  case (Cons k ks)
  then show ?case using slots_ok_delete [of s k] pending_delete [of s k v] by simp
qed simp

end

end
