(* ===== verification/EventBuffer.thy ===== *)
theory EventBuffer
  imports Events Coalescing
begin

text \<open>
  The event buffer of \<^verbatim>\<open>crates/wa-core/src/event.rs\<close>: events wait in one ordered map per kind,
  where later ones replace or are merged into earlier ones, until they are flushed as one batch.
  The number of waiting items is bounded.
\<close>

section \<open>State\<close>

text \<open>
  \<open>'o\<close> is the outcome of a processed media retry, which the buffer only passes on.
\<close>

datatype 'o Event =
  ConnectionUpdate ConnectionState
| Frame bytes
| RawNode BinaryNode
| NodeEvent BinaryNode
| Qr string
| CredentialsUpdated
| Batch EventBatch
| HistorySet HistorySetEvent
| MessagesUpsert "MessageEvent list"
| MessagesUpdate "MessageUpdate list"
| MessagesDelete "MessageEventKey list"
| ChatsUpsert "ChatEvent list"
| ChatsUpdate "ChatEvent list"
| ChatsDelete "string list"
| ContactsUpsert "ContactEvent list"
| ContactsUpdate "ContactEvent list"
| ContactsDelete "string list"
| LabelsEdit "LabelEvent list"
| LabelsAssociation "LabelAssociationEvent list"
| QuickRepliesUpdate "QuickReplyEvent list"
| GroupsUpdate "GroupUpdateEvent list"
| ReceiptsUpdate "ReceiptEvent list"
| ReactionsUpdate "ReactionEvent list"
| MediaRetry "MediaRetryEvent list"
| RecentStickersUpdate "RecentStickerEvent list"
| MediaRetryProcessed 'o
| LidMappingUpdate "LidMappingEvent list"
| AccountSettingsUpdate "AccountSettingsEvent list"
| BusinessNotificationUpdate "BusinessNotificationEvent list"
| NewsletterReactionUpdate "NewsletterReactionEvent list"
| NewsletterViewUpdate "NewsletterViewEvent list"
| NewsletterParticipantsUpdate "NewsletterParticipantUpdateEvent list"
| NewsletterSettingsUpdate "NewsletterSettingsUpdateEvent list"
| ReachoutTimelockUpdate ReachoutTimelockState
| MessageCappingUpdate MessageCappingInfo
| DefaultDisappearingModeUpdate DefaultDisappearingMode
| BlocklistUpdate "BlocklistUpdateEvent list"
| ServerSyncCollections "AppStateCollection list"
| CallsUpdate "CallEvent list"
| PresenceUpdate "PresenceEvent list"

record EventBufferConfig =
  max_pending_items :: nat

definition default_buffer_config :: EventBufferConfig where
  "default_buffer_config = \<lparr>max_pending_items = 4096\<rparr>"

record 'o EventBuffer =
  b_config :: EventBufferConfig
  b_history :: "HistorySetEvent option"
  b_messages_upsert :: "(MessageEventKey, MessageEvent) btree"
  b_messages_update :: "(MessageEventKey, MessageUpdate) btree"
  b_messages_delete :: "MessageEventKey btree_set"
  b_chats_upsert :: "(string, ChatEvent) btree"
  b_chats_update :: "(string, ChatEvent) btree"
  b_chats_delete :: "string btree_set"
  b_contacts_upsert :: "(string, ContactEvent) btree"
  b_contacts_update :: "(string, ContactEvent) btree"
  b_contacts_delete :: "string btree_set"
  b_labels_edit :: "(string, LabelEvent) btree"
  b_labels_association :: "(LabelAssociationBufferKey, LabelAssociationEvent) btree"
  b_quick_replies_update :: "(string, QuickReplyEvent) btree"
  b_groups_update :: "(string, GroupUpdateEvent) btree"
  b_receipts_update :: "(ReceiptBufferKey, ReceiptEvent) btree"
  b_reactions_update :: "(ReactionBufferKey, ReactionEvent) btree"
  b_media_retry :: "(MessageEventKey, MediaRetryEvent) btree"
  b_recent_stickers :: "(string, RecentStickerEvent) btree"
  b_account_settings :: "(string, AccountSettingsEvent) btree"
  b_business_notifications :: "(string, BusinessNotificationEvent) btree"
  b_calls_update :: "(string, CallEvent) btree"
  b_presence_update :: "(PresenceBufferKey, PresenceEvent) btree"
  b_immediate :: "'o Event list"

definition buffer_new :: "EventBufferConfig \<Rightarrow> 'o EventBuffer" where
  "buffer_new config = \<lparr>b_config = config, b_history = None,
     b_messages_upsert = [], b_messages_update = [], b_messages_delete = [],
     b_chats_upsert = [], b_chats_update = [], b_chats_delete = [],
     b_contacts_upsert = [], b_contacts_update = [], b_contacts_delete = [],
     b_labels_edit = [], b_labels_association = [], b_quick_replies_update = [],
     b_groups_update = [], b_receipts_update = [], b_reactions_update = [],
     b_media_retry = [], b_recent_stickers = [], b_account_settings = [],
     b_business_notifications = [], b_calls_update = [], b_presence_update = [],
     b_immediate = []\<rparr>"

definition buffer_pending_items :: "'o EventBuffer \<Rightarrow> nat" where
  "buffer_pending_items b =
     (case b_history b of None \<Rightarrow> 0 | Some h \<Rightarrow> history_pending_items h) +
     length (b_messages_upsert b) + length (b_messages_update b) + length (b_messages_delete b) +
     length (b_chats_upsert b) + length (b_chats_update b) + length (b_chats_delete b) +
     length (b_contacts_upsert b) + length (b_contacts_update b) + length (b_contacts_delete b) +
     length (b_labels_edit b) + length (b_labels_association b) + length (b_quick_replies_update b) +
     length (b_groups_update b) + length (b_receipts_update b) + length (b_reactions_update b) +
     length (b_media_retry b) + length (b_recent_stickers b) + length (b_account_settings b) +
     length (b_business_notifications b) + length (b_calls_update b) + length (b_presence_update b) +
     length (b_immediate b)"

definition buffer_is_empty :: "'o EventBuffer \<Rightarrow> bool" where
  "buffer_is_empty b \<longleftrightarrow> buffer_pending_items b = 0"

section \<open>Merging\<close>

fun merge_fields :: "fields \<Rightarrow> fields \<Rightarrow> fields" where
  "merge_fields target [] = target"
| "merge_fields target ((key, val) # update) = merge_fields (btree_insert key val target) update"

text \<open>\<open>existing\<close> is updated when the newer value is there.\<close>

definition newer :: "'a option \<Rightarrow> 'a option \<Rightarrow> 'a option" where
  "newer existing update = (if update \<noteq> None then update else existing)"

definition join_message_update :: "MessageUpdate \<Rightarrow> MessageUpdate \<Rightarrow> MessageUpdate" where
  "join_message_update existing update =
     existing\<lparr>mu_fields := merge_fields (mu_fields existing) (mu_fields update),
       mu_timestamp := newer (mu_timestamp existing) (mu_timestamp update)\<rparr>"

definition merge_message_update ::
  "(MessageEventKey, MessageUpdate) btree \<Rightarrow> MessageUpdate \<Rightarrow> (MessageEventKey, MessageUpdate) btree" where
  "merge_message_update updates update = entry_merge join_message_update (mu_key update) update updates"

definition join_chat :: "ChatEvent \<Rightarrow> ChatEvent \<Rightarrow> ChatEvent" where
  "join_chat existing event =
     existing\<lparr>ce_fields := merge_fields (ce_fields existing) (ce_fields event)\<rparr>"

definition merge_chat_event :: "(string, ChatEvent) btree \<Rightarrow> ChatEvent \<Rightarrow> (string, ChatEvent) btree" where
  "merge_chat_event events event = entry_merge join_chat (ce_jid event) event events"

definition join_contact :: "ContactEvent \<Rightarrow> ContactEvent \<Rightarrow> ContactEvent" where
  "join_contact existing event =
     existing\<lparr>co_fields := merge_fields (co_fields existing) (co_fields event)\<rparr>"

definition merge_contact_event :: "(string, ContactEvent) btree \<Rightarrow> ContactEvent \<Rightarrow> (string, ContactEvent) btree" where
  "merge_contact_event events event = entry_merge join_contact (co_jid event) event events"

definition join_label :: "LabelEvent \<Rightarrow> LabelEvent \<Rightarrow> LabelEvent" where
  "join_label existing event =
     existing\<lparr>le_fields := merge_fields (le_fields existing) (le_fields event)\<rparr>"

definition merge_label_event :: "(string, LabelEvent) btree \<Rightarrow> LabelEvent \<Rightarrow> (string, LabelEvent) btree" where
  "merge_label_event events event = entry_merge join_label (le_id event) event events"

definition join_quick_reply :: "QuickReplyEvent \<Rightarrow> QuickReplyEvent \<Rightarrow> QuickReplyEvent" where
  "join_quick_reply existing event =
     existing\<lparr>qr_fields := merge_fields (qr_fields existing) (qr_fields event)\<rparr>"

definition merge_quick_reply_event :: "(string, QuickReplyEvent) btree \<Rightarrow> QuickReplyEvent \<Rightarrow> (string, QuickReplyEvent) btree" where
  "merge_quick_reply_event events event = entry_merge join_quick_reply (qr_id event) event events"

definition join_group :: "GroupUpdateEvent \<Rightarrow> GroupUpdateEvent \<Rightarrow> GroupUpdateEvent" where
  "join_group existing event =
     existing\<lparr>gu_fields := merge_fields (gu_fields existing) (gu_fields event)\<rparr>"

definition merge_group_event :: "(string, GroupUpdateEvent) btree \<Rightarrow> GroupUpdateEvent \<Rightarrow> (string, GroupUpdateEvent) btree" where
  "merge_group_event events event = entry_merge join_group (gu_jid event) event events"

definition join_recent_sticker :: "RecentStickerEvent \<Rightarrow> RecentStickerEvent \<Rightarrow> RecentStickerEvent" where
  "join_recent_sticker existing event =
     existing\<lparr>rs_fields := merge_fields (rs_fields existing) (rs_fields event),
       rs_file_sha256 := newer (rs_file_sha256 existing) (rs_file_sha256 event),
       rs_file_enc_sha256 := newer (rs_file_enc_sha256 existing) (rs_file_enc_sha256 event),
       rs_media_key := newer (rs_media_key existing) (rs_media_key event)\<rparr>"

definition merge_recent_sticker_event ::
  "(string, RecentStickerEvent) btree \<Rightarrow> RecentStickerEvent \<Rightarrow> (string, RecentStickerEvent) btree" where
  "merge_recent_sticker_event events event = entry_merge join_recent_sticker (rs_id event) event events"

definition join_account_settings :: "AccountSettingsEvent \<Rightarrow> AccountSettingsEvent \<Rightarrow> AccountSettingsEvent" where
  "join_account_settings existing event =
     existing\<lparr>as_fields := merge_fields (as_fields existing) (as_fields event)\<rparr>"

definition merge_account_settings_event :: "(string, AccountSettingsEvent) btree \<Rightarrow> AccountSettingsEvent \<Rightarrow> (string, AccountSettingsEvent) btree" where
  "merge_account_settings_event events event = entry_merge join_account_settings (as_id event) event events"

definition join_business_notification :: "BusinessNotificationEvent \<Rightarrow> BusinessNotificationEvent \<Rightarrow> BusinessNotificationEvent" where
  "join_business_notification existing event =
     existing\<lparr>bn_fields := merge_fields (bn_fields existing) (bn_fields event)\<rparr>"

definition merge_business_notification_event :: "(string, BusinessNotificationEvent) btree \<Rightarrow> BusinessNotificationEvent \<Rightarrow> (string, BusinessNotificationEvent) btree" where
  "merge_business_notification_event events event = entry_merge join_business_notification (business_notification_event_store_key event) event events"

definition join_call :: "CallEvent \<Rightarrow> CallEvent \<Rightarrow> CallEvent" where
  "join_call existing event =
     existing\<lparr>cl_fields := merge_fields (cl_fields existing) (cl_fields event),
       cl_participant := newer (cl_participant existing) (cl_participant event),
       cl_timestamp := newer (cl_timestamp existing) (cl_timestamp event)\<rparr>"

definition merge_call_event :: "(string, CallEvent) btree \<Rightarrow> CallEvent \<Rightarrow> (string, CallEvent) btree" where
  "merge_call_event events event = entry_merge join_call (call_buffer_key event) event events"

section \<open>Applying an event\<close>

text \<open>The bodies of the loops of \<open>apply\<close>, one per kind of event.\<close>

definition upsert_message :: "MessageEvent \<Rightarrow> 'o EventBuffer \<Rightarrow> 'o EventBuffer" where
  "upsert_message message b = b\<lparr>
     b_messages_delete := btree_remove (me_key message) (b_messages_delete b),
     b_messages_update := btree_remove (me_key message) (b_messages_update b),
     b_messages_upsert := btree_insert (me_key message) message (b_messages_upsert b)\<rparr>"

definition update_message_event :: "MessageEvent \<Rightarrow> MessageUpdate \<Rightarrow> MessageEvent" where
  "update_message_event message update =
     message\<lparr>me_fields := merge_fields (me_fields message) (mu_fields update),
       me_timestamp := newer (me_timestamp message) (mu_timestamp update)\<rparr>"

definition update_message :: "MessageUpdate \<Rightarrow> 'o EventBuffer \<Rightarrow> 'o EventBuffer" where
  "update_message update b = (case map_of (b_messages_upsert b) (mu_key update) of
     Some message \<Rightarrow> b\<lparr>b_messages_upsert :=
       btree_insert (mu_key update) (update_message_event message update) (b_messages_upsert b)\<rparr>
   | None \<Rightarrow>
       if map_of (b_messages_delete b) (mu_key update) = None
       then b\<lparr>b_messages_update := merge_message_update (b_messages_update b) update\<rparr>
       else b)"

definition delete_message :: "MessageEventKey \<Rightarrow> 'o EventBuffer \<Rightarrow> 'o EventBuffer" where
  "delete_message key b = b\<lparr>
     b_messages_upsert := btree_remove key (b_messages_upsert b),
     b_messages_update := btree_remove key (b_messages_update b),
     b_messages_delete := btree_insert key () (b_messages_delete b)\<rparr>"

definition upsert_chat :: "ChatEvent \<Rightarrow> 'o EventBuffer \<Rightarrow> 'o EventBuffer" where
  "upsert_chat chat b = b\<lparr>
     b_chats_delete := btree_remove (ce_jid chat) (b_chats_delete b),
     b_chats_update := btree_remove (ce_jid chat) (b_chats_update b),
     b_chats_upsert := btree_insert (ce_jid chat) chat (b_chats_upsert b)\<rparr>"

definition update_chat :: "ChatEvent \<Rightarrow> 'o EventBuffer \<Rightarrow> 'o EventBuffer" where
  "update_chat chat b = (case map_of (b_chats_upsert b) (ce_jid chat) of
     Some existing \<Rightarrow> b\<lparr>b_chats_upsert :=
       btree_insert (ce_jid chat) (join_chat existing chat) (b_chats_upsert b)\<rparr>
   | None \<Rightarrow>
       if map_of (b_chats_delete b) (ce_jid chat) = None
       then b\<lparr>b_chats_update := merge_chat_event (b_chats_update b) chat\<rparr>
       else b)"

definition delete_chat :: "string \<Rightarrow> 'o EventBuffer \<Rightarrow> 'o EventBuffer" where
  "delete_chat jid b = b\<lparr>
     b_chats_upsert := btree_remove jid (b_chats_upsert b),
     b_chats_update := btree_remove jid (b_chats_update b),
     b_chats_delete := btree_insert jid () (b_chats_delete b)\<rparr>"

definition upsert_contact :: "ContactEvent \<Rightarrow> 'o EventBuffer \<Rightarrow> 'o EventBuffer" where
  "upsert_contact contact b = b\<lparr>
     b_contacts_delete := btree_remove (co_jid contact) (b_contacts_delete b),
     b_contacts_update := btree_remove (co_jid contact) (b_contacts_update b),
     b_contacts_upsert := btree_insert (co_jid contact) contact (b_contacts_upsert b)\<rparr>"

definition update_contact :: "ContactEvent \<Rightarrow> 'o EventBuffer \<Rightarrow> 'o EventBuffer" where
  "update_contact contact b = (case map_of (b_contacts_upsert b) (co_jid contact) of
     Some existing \<Rightarrow> b\<lparr>b_contacts_upsert :=
       btree_insert (co_jid contact) (join_contact existing contact) (b_contacts_upsert b)\<rparr>
   | None \<Rightarrow>
       if map_of (b_contacts_delete b) (co_jid contact) = None
       then b\<lparr>b_contacts_update := merge_contact_event (b_contacts_update b) contact\<rparr>
       else b)"

definition delete_contact :: "string \<Rightarrow> 'o EventBuffer \<Rightarrow> 'o EventBuffer" where
  "delete_contact jid b = b\<lparr>
     b_contacts_upsert := btree_remove jid (b_contacts_upsert b),
     b_contacts_update := btree_remove jid (b_contacts_update b),
     b_contacts_delete := btree_insert jid () (b_contacts_delete b)\<rparr>"

definition edit_label :: "LabelEvent \<Rightarrow> 'o EventBuffer \<Rightarrow> 'o EventBuffer" where
  "edit_label label b = b\<lparr>b_labels_edit := merge_label_event (b_labels_edit b) label\<rparr>"

definition associate_label :: "LabelAssociationEvent \<Rightarrow> 'o EventBuffer \<Rightarrow> 'o EventBuffer" where
  "associate_label association b = b\<lparr>b_labels_association := 
     btree_insert (label_association_buffer_key association) association (b_labels_association b)\<rparr>"

definition update_quick_reply :: "QuickReplyEvent \<Rightarrow> 'o EventBuffer \<Rightarrow> 'o EventBuffer" where
  "update_quick_reply reply b = b\<lparr>b_quick_replies_update := 
     merge_quick_reply_event (b_quick_replies_update b) reply\<rparr>"

definition update_group :: "GroupUpdateEvent \<Rightarrow> 'o EventBuffer \<Rightarrow> 'o EventBuffer" where
  "update_group update b = b\<lparr>b_groups_update := merge_group_event (b_groups_update b) update\<rparr>"

definition update_receipt :: "ReceiptEvent \<Rightarrow> 'o EventBuffer \<Rightarrow> 'o EventBuffer" where
  "update_receipt receipt b = b\<lparr>b_receipts_update := 
     btree_insert (receipt_buffer_key receipt) receipt (b_receipts_update b)\<rparr>"

definition update_reaction :: "ReactionEvent \<Rightarrow> 'o EventBuffer \<Rightarrow> 'o EventBuffer" where
  "update_reaction reaction b = b\<lparr>b_reactions_update := 
     btree_insert (reaction_buffer_key reaction) reaction (b_reactions_update b)\<rparr>"

definition retry_media :: "MediaRetryEvent \<Rightarrow> 'o EventBuffer \<Rightarrow> 'o EventBuffer" where
  "retry_media update b = b\<lparr>b_media_retry := btree_insert (mr_key update) update (b_media_retry b)\<rparr>"

definition update_sticker :: "RecentStickerEvent \<Rightarrow> 'o EventBuffer \<Rightarrow> 'o EventBuffer" where
  "update_sticker sticker b = b\<lparr>b_recent_stickers := 
     merge_recent_sticker_event (b_recent_stickers b) sticker\<rparr>"

definition update_setting :: "AccountSettingsEvent \<Rightarrow> 'o EventBuffer \<Rightarrow> 'o EventBuffer" where
  "update_setting setting b = b\<lparr>b_account_settings := 
     merge_account_settings_event (b_account_settings b) setting\<rparr>"

definition update_business :: "BusinessNotificationEvent \<Rightarrow> 'o EventBuffer \<Rightarrow> 'o EventBuffer" where
  "update_business update b = b\<lparr>b_business_notifications := 
     merge_business_notification_event (b_business_notifications b) update\<rparr>"

definition update_call :: "CallEvent \<Rightarrow> 'o EventBuffer \<Rightarrow> 'o EventBuffer" where
  "update_call call b = b\<lparr>b_calls_update := merge_call_event (b_calls_update b) call\<rparr>"

definition update_presence :: "PresenceEvent \<Rightarrow> 'o EventBuffer \<Rightarrow> 'o EventBuffer" where
  "update_presence update b = b\<lparr>b_presence_update := 
     btree_insert (presence_buffer_key update) update (b_presence_update b)\<rparr>"

definition set_history :: "HistorySetEvent \<Rightarrow> 'o EventBuffer \<Rightarrow> 'o EventBuffer" where
  "set_history history b = b\<lparr>b_history := Some history\<rparr>"

text \<open>\<open>apply_batch\<close> applies the parts of the batch in this order.\<close>

definition apply_batch :: "EventBatch \<Rightarrow> 'o EventBuffer \<Rightarrow> 'o EventBuffer" where
  "apply_batch batch b0 =
     (let b = (case eb_history batch of Some history \<Rightarrow> set_history history b0 | None \<Rightarrow> b0);
          b = fold upsert_message (eb_messages_upsert batch) b;
          b = fold update_message (eb_messages_update batch) b;
          b = fold delete_message (eb_messages_delete batch) b;
          b = fold upsert_chat (eb_chats_upsert batch) b;
          b = fold update_chat (eb_chats_update batch) b;
          b = fold delete_chat (eb_chats_delete batch) b;
          b = fold upsert_contact (eb_contacts_upsert batch) b;
          b = fold update_contact (eb_contacts_update batch) b;
          b = fold delete_contact (eb_contacts_delete batch) b;
          b = fold edit_label (eb_labels_edit batch) b;
          b = fold associate_label (eb_labels_association batch) b;
          b = fold update_quick_reply (eb_quick_replies_update batch) b;
          b = fold update_group (eb_groups_update batch) b;
          b = fold update_receipt (eb_receipts_update batch) b;
          b = fold update_reaction (eb_reactions_update batch) b;
          b = fold retry_media (eb_media_retry batch) b;
          b = fold update_sticker (eb_recent_stickers batch) b;
          b = fold update_setting (eb_account_settings batch) b;
          b = fold update_business (eb_business_notifications batch) b;
          b = fold update_call (eb_calls_update batch) b;
          b = fold update_presence (eb_presence_update batch) b
      in b)"

fun apply_event :: "'o Event \<Rightarrow> 'o EventBuffer \<Rightarrow> 'o EventBuffer" where
  "apply_event (Batch batch) b = apply_batch batch b"
| "apply_event (HistorySet history) b = set_history history b"
| "apply_event (MessagesUpsert xs) b = fold upsert_message xs b"
| "apply_event (MessagesUpdate xs) b = fold update_message xs b"
| "apply_event (MessagesDelete xs) b = fold delete_message xs b"
| "apply_event (ChatsUpsert xs) b = fold upsert_chat xs b"
| "apply_event (ChatsUpdate xs) b = fold update_chat xs b"
| "apply_event (ChatsDelete xs) b = fold delete_chat xs b"
| "apply_event (ContactsUpsert xs) b = fold upsert_contact xs b"
| "apply_event (ContactsUpdate xs) b = fold update_contact xs b"
| "apply_event (ContactsDelete xs) b = fold delete_contact xs b"
| "apply_event (LabelsEdit xs) b = fold edit_label xs b"
| "apply_event (LabelsAssociation xs) b = fold associate_label xs b"
| "apply_event (QuickRepliesUpdate xs) b = fold update_quick_reply xs b"
| "apply_event (GroupsUpdate xs) b = fold update_group xs b"
| "apply_event (ReceiptsUpdate xs) b = fold update_receipt xs b"
| "apply_event (ReactionsUpdate xs) b = fold update_reaction xs b"
| "apply_event (MediaRetry xs) b = fold retry_media xs b"
| "apply_event (RecentStickersUpdate xs) b = fold update_sticker xs b"
| "apply_event (AccountSettingsUpdate xs) b = fold update_setting xs b"
| "apply_event (BusinessNotificationUpdate xs) b = fold update_business xs b"
| "apply_event (CallsUpdate xs) b = fold update_call xs b"
| "apply_event (PresenceUpdate xs) b = fold update_presence xs b"
| "apply_event event b = b\<lparr>b_immediate := b_immediate b @ [event]\<rparr>"

section \<open>Pushing and flushing\<close>

definition buffer_push :: "'o Event \<Rightarrow> 'o EventBuffer \<Rightarrow> unit core_result \<times> 'o EventBuffer" where
  "buffer_push event b =
     (let snapshot = b; b = apply_event event b
      in if buffer_pending_items b > max_pending_items (b_config b)
         then (Err (Protocol (''event buffer limit exceeded: '' @ show_nat (buffer_pending_items snapshot) @
                 '' pending items exceeds '' @ show_nat (max_pending_items (b_config snapshot)))), snapshot)
         else (Ok (), b))"

definition drain_map_values :: "('k, 'v) btree \<Rightarrow> 'v list" where
  "drain_map_values kvs = map snd kvs"

definition drain_set_values :: "'k btree_set \<Rightarrow> 'k list" where
  "drain_set_values kvs = map fst kvs"

definition drained_batch :: "'o EventBuffer \<Rightarrow> EventBatch" where
  "drained_batch b = \<lparr>eb_history = b_history b,
     eb_messages_upsert = drain_map_values (b_messages_upsert b),
     eb_messages_update = drain_map_values (b_messages_update b),
     eb_messages_delete = drain_set_values (b_messages_delete b),
     eb_chats_upsert = drain_map_values (b_chats_upsert b),
     eb_chats_update = drain_map_values (b_chats_update b),
     eb_chats_delete = drain_set_values (b_chats_delete b),
     eb_contacts_upsert = drain_map_values (b_contacts_upsert b),
     eb_contacts_update = drain_map_values (b_contacts_update b),
     eb_contacts_delete = drain_set_values (b_contacts_delete b),
     eb_labels_edit = drain_map_values (b_labels_edit b),
     eb_labels_association = drain_map_values (b_labels_association b),
     eb_quick_replies_update = drain_map_values (b_quick_replies_update b),
     eb_groups_update = drain_map_values (b_groups_update b),
     eb_receipts_update = drain_map_values (b_receipts_update b),
     eb_reactions_update = drain_map_values (b_reactions_update b),
     eb_media_retry = drain_map_values (b_media_retry b),
     eb_recent_stickers = drain_map_values (b_recent_stickers b),
     eb_account_settings = drain_map_values (b_account_settings b),
     eb_business_notifications = drain_map_values (b_business_notifications b),
     eb_calls_update = drain_map_values (b_calls_update b),
     eb_presence_update = drain_map_values (b_presence_update b)\<rparr>"

definition buffer_flush :: "'o EventBuffer \<Rightarrow> EventBatch option \<times> 'o EventBuffer" where
  "buffer_flush b =
     (let batch = drained_batch b;
          b = (buffer_new (b_config b))\<lparr>b_immediate := b_immediate b\<rparr>
      in (if batch_is_empty batch then None else Some batch, b))"

definition drain_events :: "'o EventBuffer \<Rightarrow> 'o Event list \<times> 'o EventBuffer" where
  "drain_events b =
     (let events = b_immediate b; b = b\<lparr>b_immediate := []\<rparr>; (batch, b) = buffer_flush b
      in case batch of Some batch \<Rightarrow> (events @ [Batch batch], b) | None \<Rightarrow> (events, b))"

end
