(* ===== verification/EventBufferRefinement.thy ===== *)
theory EventBufferRefinement
  imports EventBuffer
begin

text \<open>
  The event buffer against what a reader sees. A reader keeps the current messages, chats, contacts
  and so on, and takes in one event after the other; the buffer's maps are the pending effect of
  the events it holds. Every kind of event meets one of the contracts of \<open>Coalescing\<close>.
\<close>

section \<open>Merging of fields\<close>

definition fields_ok :: "('e \<Rightarrow> fields) \<Rightarrow> 'e \<Rightarrow> bool" where
  "fields_ok f e \<longleftrightarrow> btree_ok (f e)"

definition latest :: "'e \<Rightarrow> 'e \<Rightarrow> 'e" where
  "latest existing event = event"

lemma btree_ok_merge_fields: "btree_ok t \<Longrightarrow> btree_ok (merge_fields t u)"
  by (induction t u rule: merge_fields.induct) simp_all

lemma map_of_merge_fields:
  "btree_ok t \<Longrightarrow> btree_ok u \<Longrightarrow> map_of (merge_fields t u) = map_of t ++ map_of u"
proof (induction t u rule: merge_fields.induct)
  case (2 target key val update)
  from "2.prems"(2) have none: "map_of update key = None"
    by (intro btree_keys_greater) (auto simp: btree_ok_Cons)
  from "2" show ?case
    by (auto simp: btree_ok_Cons fun_eq_iff map_add_def none split: option.split)
qed simp

lemma merge_fields_assoc:
  assumes "btree_ok t" "btree_ok u" "btree_ok w"
  shows "merge_fields (merge_fields t u) w = merge_fields t (merge_fields u w)"
  using assms by (intro btree_unique) (simp_all add: btree_ok_merge_fields map_of_merge_fields)

lemma newer_assoc [simp]: "newer (newer a b) c = newer a (newer b c)"
  by (cases c) (auto simp: newer_def)

lemma btree_insert_latest: "btree_insert k e m = entry_merge latest k e m"
  by (simp add: entry_merge_def latest_def split: option.split)

lemmas join_defs = join_message_update_def update_message_event_def join_chat_def join_contact_def
  join_label_def join_quick_reply_def join_group_def join_recent_sticker_def join_account_settings_def
  join_business_notification_def join_call_def latest_def

lemma key_of_joined [simp]:
  "business_notification_event_store_key (join_business_notification a b) =
     business_notification_event_store_key a"
  "call_buffer_key (join_call c d) = call_buffer_key c"
  by (simp_all add: business_notification_event_store_key_def join_business_notification_def
      call_buffer_key_def call_event_store_key_def join_call_def split: option.split)

lemmas merging_simps = fields_ok_def btree_ok_merge_fields merge_fields_assoc

section \<open>The contracts, kind by kind\<close>

interpretation messages: replacing me_key mu_key update_message_event join_message_update "fields_ok me_fields" "fields_ok mu_fields"
  by unfold_locales (simp_all add: join_defs merging_simps)

interpretation chats: replacing ce_jid ce_jid join_chat join_chat "fields_ok ce_fields" "fields_ok ce_fields"
  by unfold_locales (simp_all add: join_defs merging_simps)

interpretation contacts: replacing co_jid co_jid join_contact join_contact "fields_ok co_fields" "fields_ok co_fields"
  by unfold_locales (simp_all add: join_defs merging_simps)

interpretation labels: merging le_id join_label "fields_ok le_fields"
  by unfold_locales ((simp_all only: key_of_joined)?, simp_all add: join_defs merging_simps)

interpretation associations: merging label_association_buffer_key latest "(\<lambda>_. True)"
  by unfold_locales ((simp_all only: key_of_joined)?, simp_all add: join_defs merging_simps)

interpretation quick_replies: merging qr_id join_quick_reply "fields_ok qr_fields"
  by unfold_locales ((simp_all only: key_of_joined)?, simp_all add: join_defs merging_simps)

interpretation groups: merging gu_jid join_group "fields_ok gu_fields"
  by unfold_locales ((simp_all only: key_of_joined)?, simp_all add: join_defs merging_simps)

interpretation receipts: merging receipt_buffer_key latest "(\<lambda>_. True)"
  by unfold_locales ((simp_all only: key_of_joined)?, simp_all add: join_defs merging_simps)

interpretation reactions: merging reaction_buffer_key latest "(\<lambda>_. True)"
  by unfold_locales ((simp_all only: key_of_joined)?, simp_all add: join_defs merging_simps)

interpretation media_retries: merging mr_key latest "(\<lambda>_. True)"
  by unfold_locales ((simp_all only: key_of_joined)?, simp_all add: join_defs merging_simps)

interpretation stickers: merging rs_id join_recent_sticker "fields_ok rs_fields"
  by unfold_locales ((simp_all only: key_of_joined)?, simp_all add: join_defs merging_simps)

interpretation settings: merging as_id join_account_settings "fields_ok as_fields"
  by unfold_locales ((simp_all only: key_of_joined)?, simp_all add: join_defs merging_simps)

interpretation notifications: merging business_notification_event_store_key join_business_notification "fields_ok bn_fields"
  by unfold_locales ((simp_all only: key_of_joined)?, simp_all add: join_defs merging_simps)

interpretation calls: merging call_buffer_key join_call "fields_ok cl_fields"
  by unfold_locales ((simp_all only: key_of_joined)?, simp_all add: join_defs merging_simps)

interpretation presences: merging presence_buffer_key latest "(\<lambda>_. True)"
  by unfold_locales ((simp_all only: key_of_joined)?, simp_all add: join_defs merging_simps)

section \<open>The reader\<close>

record view =
  v_messages :: "MessageEventKey \<Rightarrow> MessageEvent option"
  v_chats :: "string \<Rightarrow> ChatEvent option"
  v_contacts :: "string \<Rightarrow> ContactEvent option"
  v_labels_edit :: "string \<Rightarrow> LabelEvent option"
  v_labels_association :: "LabelAssociationBufferKey \<Rightarrow> LabelAssociationEvent option"
  v_quick_replies_update :: "string \<Rightarrow> QuickReplyEvent option"
  v_groups_update :: "string \<Rightarrow> GroupUpdateEvent option"
  v_receipts_update :: "ReceiptBufferKey \<Rightarrow> ReceiptEvent option"
  v_reactions_update :: "ReactionBufferKey \<Rightarrow> ReactionEvent option"
  v_media_retry :: "MessageEventKey \<Rightarrow> MediaRetryEvent option"
  v_recent_stickers :: "string \<Rightarrow> RecentStickerEvent option"
  v_account_settings :: "string \<Rightarrow> AccountSettingsEvent option"
  v_business_notifications :: "string \<Rightarrow> BusinessNotificationEvent option"
  v_calls_update :: "string \<Rightarrow> CallEvent option"
  v_presence_update :: "PresenceBufferKey \<Rightarrow> PresenceEvent option"

text \<open>What each kind of event changes.\<close>

definition view_messages_upsert :: "MessageEvent list \<Rightarrow> view \<Rightarrow> view" where
  "view_messages_upsert xs v = v\<lparr>v_messages := fold (view_upsert me_key) xs (v_messages v)\<rparr>"

definition view_messages_update :: "MessageUpdate list \<Rightarrow> view \<Rightarrow> view" where
  "view_messages_update xs v = v\<lparr>v_messages := fold (view_update mu_key update_message_event) xs (v_messages v)\<rparr>"

definition view_messages_delete :: "MessageEventKey list \<Rightarrow> view \<Rightarrow> view" where
  "view_messages_delete xs v = v\<lparr>v_messages := fold view_delete xs (v_messages v)\<rparr>"

definition view_chats_upsert :: "ChatEvent list \<Rightarrow> view \<Rightarrow> view" where
  "view_chats_upsert xs v = v\<lparr>v_chats := fold (view_upsert ce_jid) xs (v_chats v)\<rparr>"

definition view_chats_update :: "ChatEvent list \<Rightarrow> view \<Rightarrow> view" where
  "view_chats_update xs v = v\<lparr>v_chats := fold (view_update ce_jid join_chat) xs (v_chats v)\<rparr>"

definition view_chats_delete :: "string list \<Rightarrow> view \<Rightarrow> view" where
  "view_chats_delete xs v = v\<lparr>v_chats := fold view_delete xs (v_chats v)\<rparr>"

definition view_contacts_upsert :: "ContactEvent list \<Rightarrow> view \<Rightarrow> view" where
  "view_contacts_upsert xs v = v\<lparr>v_contacts := fold (view_upsert co_jid) xs (v_contacts v)\<rparr>"

definition view_contacts_update :: "ContactEvent list \<Rightarrow> view \<Rightarrow> view" where
  "view_contacts_update xs v = v\<lparr>v_contacts := fold (view_update co_jid join_contact) xs (v_contacts v)\<rparr>"

definition view_contacts_delete :: "string list \<Rightarrow> view \<Rightarrow> view" where
  "view_contacts_delete xs v = v\<lparr>v_contacts := fold view_delete xs (v_contacts v)\<rparr>"

definition view_labels_edit :: "LabelEvent list \<Rightarrow> view \<Rightarrow> view" where
  "view_labels_edit xs v = v\<lparr>v_labels_edit := fold (view_merge le_id join_label) xs (v_labels_edit v)\<rparr>"

definition view_labels_association :: "LabelAssociationEvent list \<Rightarrow> view \<Rightarrow> view" where
  "view_labels_association xs v = v\<lparr>v_labels_association := fold (view_merge label_association_buffer_key latest) xs (v_labels_association v)\<rparr>"

definition view_quick_replies_update :: "QuickReplyEvent list \<Rightarrow> view \<Rightarrow> view" where
  "view_quick_replies_update xs v = v\<lparr>v_quick_replies_update := fold (view_merge qr_id join_quick_reply) xs (v_quick_replies_update v)\<rparr>"

definition view_groups_update :: "GroupUpdateEvent list \<Rightarrow> view \<Rightarrow> view" where
  "view_groups_update xs v = v\<lparr>v_groups_update := fold (view_merge gu_jid join_group) xs (v_groups_update v)\<rparr>"

definition view_receipts_update :: "ReceiptEvent list \<Rightarrow> view \<Rightarrow> view" where
  "view_receipts_update xs v = v\<lparr>v_receipts_update := fold (view_merge receipt_buffer_key latest) xs (v_receipts_update v)\<rparr>"

definition view_reactions_update :: "ReactionEvent list \<Rightarrow> view \<Rightarrow> view" where
  "view_reactions_update xs v = v\<lparr>v_reactions_update := fold (view_merge reaction_buffer_key latest) xs (v_reactions_update v)\<rparr>"

definition view_media_retry :: "MediaRetryEvent list \<Rightarrow> view \<Rightarrow> view" where
  "view_media_retry xs v = v\<lparr>v_media_retry := fold (view_merge mr_key latest) xs (v_media_retry v)\<rparr>"

definition view_recent_stickers :: "RecentStickerEvent list \<Rightarrow> view \<Rightarrow> view" where
  "view_recent_stickers xs v = v\<lparr>v_recent_stickers := fold (view_merge rs_id join_recent_sticker) xs (v_recent_stickers v)\<rparr>"

definition view_account_settings :: "AccountSettingsEvent list \<Rightarrow> view \<Rightarrow> view" where
  "view_account_settings xs v = v\<lparr>v_account_settings := fold (view_merge as_id join_account_settings) xs (v_account_settings v)\<rparr>"

definition view_business_notifications :: "BusinessNotificationEvent list \<Rightarrow> view \<Rightarrow> view" where
  "view_business_notifications xs v = v\<lparr>v_business_notifications := fold (view_merge business_notification_event_store_key join_business_notification) xs (v_business_notifications v)\<rparr>"

definition view_calls_update :: "CallEvent list \<Rightarrow> view \<Rightarrow> view" where
  "view_calls_update xs v = v\<lparr>v_calls_update := fold (view_merge call_buffer_key join_call) xs (v_calls_update v)\<rparr>"

definition view_presence_update :: "PresenceEvent list \<Rightarrow> view \<Rightarrow> view" where
  "view_presence_update xs v = v\<lparr>v_presence_update := fold (view_merge presence_buffer_key latest) xs (v_presence_update v)\<rparr>"

definition view_batch :: "EventBatch \<Rightarrow> view \<Rightarrow> view" where
  "view_batch batch v =
     (view_presence_update (eb_presence_update batch)
     (view_calls_update (eb_calls_update batch)
     (view_business_notifications (eb_business_notifications batch)
     (view_account_settings (eb_account_settings batch)
     (view_recent_stickers (eb_recent_stickers batch)
     (view_media_retry (eb_media_retry batch)
     (view_reactions_update (eb_reactions_update batch)
     (view_receipts_update (eb_receipts_update batch)
     (view_groups_update (eb_groups_update batch)
     (view_quick_replies_update (eb_quick_replies_update batch)
     (view_labels_association (eb_labels_association batch)
     (view_labels_edit (eb_labels_edit batch)
     (view_contacts_delete (eb_contacts_delete batch)
     (view_contacts_update (eb_contacts_update batch)
     (view_contacts_upsert (eb_contacts_upsert batch)
     (view_chats_delete (eb_chats_delete batch)
     (view_chats_update (eb_chats_update batch)
     (view_chats_upsert (eb_chats_upsert batch)
     (view_messages_delete (eb_messages_delete batch)
     (view_messages_update (eb_messages_update batch)
     (view_messages_upsert (eb_messages_upsert batch) v)))))))))))))))))))))"

text \<open>Every other event says nothing about these objects; \<open>read_event\<close> below adds the history sets.\<close>

fun view_event :: "'o Event \<Rightarrow> view \<Rightarrow> view" where
  "view_event (Batch batch) v = view_batch batch v"
| "view_event (MessagesUpsert xs) v = view_messages_upsert xs v"
| "view_event (MessagesUpdate xs) v = view_messages_update xs v"
| "view_event (MessagesDelete xs) v = view_messages_delete xs v"
| "view_event (ChatsUpsert xs) v = view_chats_upsert xs v"
| "view_event (ChatsUpdate xs) v = view_chats_update xs v"
| "view_event (ChatsDelete xs) v = view_chats_delete xs v"
| "view_event (ContactsUpsert xs) v = view_contacts_upsert xs v"
| "view_event (ContactsUpdate xs) v = view_contacts_update xs v"
| "view_event (ContactsDelete xs) v = view_contacts_delete xs v"
| "view_event (LabelsEdit xs) v = view_labels_edit xs v"
| "view_event (LabelsAssociation xs) v = view_labels_association xs v"
| "view_event (QuickRepliesUpdate xs) v = view_quick_replies_update xs v"
| "view_event (GroupsUpdate xs) v = view_groups_update xs v"
| "view_event (ReceiptsUpdate xs) v = view_receipts_update xs v"
| "view_event (ReactionsUpdate xs) v = view_reactions_update xs v"
| "view_event (MediaRetry xs) v = view_media_retry xs v"
| "view_event (RecentStickersUpdate xs) v = view_recent_stickers xs v"
| "view_event (AccountSettingsUpdate xs) v = view_account_settings xs v"
| "view_event (BusinessNotificationUpdate xs) v = view_business_notifications xs v"
| "view_event (CallsUpdate xs) v = view_calls_update xs v"
| "view_event (PresenceUpdate xs) v = view_presence_update xs v"
| "view_event event v = v"

text \<open>
  A history set is a piece of the past with its own chats, contacts and messages. The reader keeps the
  sets it gets, in order, beside the current state; a batch may carry one.
\<close>

record reader =
  rd_view :: view
  rd_history :: "HistorySetEvent list"

fun event_history :: "'o Event \<Rightarrow> HistorySetEvent option" where
  "event_history (HistorySet history) = Some history"
| "event_history (Batch batch) = eb_history batch"
| "event_history event = None"

definition read_event :: "'o Event \<Rightarrow> reader \<Rightarrow> reader" where
  "read_event event r = \<lparr>rd_view = view_event event (rd_view r),
     rd_history = rd_history r @ (case event_history event of None \<Rightarrow> [] | Some history \<Rightarrow> [history])\<rparr>"

definition histories :: "'o Event list \<Rightarrow> HistorySetEvent list" where
  "histories es = List.map_filter event_history es"

lemma histories_simps [simp]:
  "histories [] = []"
  "histories (e # es) = (case event_history e of None \<Rightarrow> [] | Some history \<Rightarrow> [history]) @ histories es"
  "histories (es @ fs) = histories es @ histories fs"
  by (simp_all add: histories_def map_filter_def split: option.split)

lemma read_events:
  "rd_view (fold read_event es r) = fold view_event es (rd_view r)"
  "rd_history (fold read_event es r) = rd_history r @ histories es"
  by (induction es arbitrary: r) (simp_all add: read_event_def)

section \<open>The pending effect of a buffer\<close>

definition message_slots :: "'o EventBuffer \<Rightarrow> (MessageEventKey, MessageEvent, MessageUpdate) slots" where
  "message_slots b = (b_messages_upsert b, b_messages_update b, b_messages_delete b)"

definition put_message_slots :: "(MessageEventKey, MessageEvent, MessageUpdate) slots \<Rightarrow> 'o EventBuffer \<Rightarrow> 'o EventBuffer" where
  "put_message_slots s b = b\<lparr>b_messages_upsert := fst s, b_messages_update := fst (snd s), b_messages_delete := snd (snd s)\<rparr>"

interpretation message_part: part_of_state message_slots put_message_slots
  by unfold_locales (simp_all add: message_slots_def put_message_slots_def)

definition chat_slots :: "'o EventBuffer \<Rightarrow> (string, ChatEvent, ChatEvent) slots" where
  "chat_slots b = (b_chats_upsert b, b_chats_update b, b_chats_delete b)"

definition put_chat_slots :: "(string, ChatEvent, ChatEvent) slots \<Rightarrow> 'o EventBuffer \<Rightarrow> 'o EventBuffer" where
  "put_chat_slots s b = b\<lparr>b_chats_upsert := fst s, b_chats_update := fst (snd s), b_chats_delete := snd (snd s)\<rparr>"

interpretation chat_part: part_of_state chat_slots put_chat_slots
  by unfold_locales (simp_all add: chat_slots_def put_chat_slots_def)

definition contact_slots :: "'o EventBuffer \<Rightarrow> (string, ContactEvent, ContactEvent) slots" where
  "contact_slots b = (b_contacts_upsert b, b_contacts_update b, b_contacts_delete b)"

definition put_contact_slots :: "(string, ContactEvent, ContactEvent) slots \<Rightarrow> 'o EventBuffer \<Rightarrow> 'o EventBuffer" where
  "put_contact_slots s b = b\<lparr>b_contacts_upsert := fst s, b_contacts_update := fst (snd s), b_contacts_delete := snd (snd s)\<rparr>"

interpretation contact_part: part_of_state contact_slots put_contact_slots
  by unfold_locales (simp_all add: contact_slots_def put_contact_slots_def)

interpretation label_part: part_of_state b_labels_edit "\<lambda>x b. b\<lparr>b_labels_edit := x\<rparr>"
  by unfold_locales simp_all

interpretation association_part: part_of_state b_labels_association "\<lambda>x b. b\<lparr>b_labels_association := x\<rparr>"
  by unfold_locales simp_all

interpretation quick_reply_part: part_of_state b_quick_replies_update "\<lambda>x b. b\<lparr>b_quick_replies_update := x\<rparr>"
  by unfold_locales simp_all

interpretation group_part: part_of_state b_groups_update "\<lambda>x b. b\<lparr>b_groups_update := x\<rparr>"
  by unfold_locales simp_all

interpretation receipt_part: part_of_state b_receipts_update "\<lambda>x b. b\<lparr>b_receipts_update := x\<rparr>"
  by unfold_locales simp_all

interpretation reaction_part: part_of_state b_reactions_update "\<lambda>x b. b\<lparr>b_reactions_update := x\<rparr>"
  by unfold_locales simp_all

interpretation media_part: part_of_state b_media_retry "\<lambda>x b. b\<lparr>b_media_retry := x\<rparr>"
  by unfold_locales simp_all

interpretation sticker_part: part_of_state b_recent_stickers "\<lambda>x b. b\<lparr>b_recent_stickers := x\<rparr>"
  by unfold_locales simp_all

interpretation setting_part: part_of_state b_account_settings "\<lambda>x b. b\<lparr>b_account_settings := x\<rparr>"
  by unfold_locales simp_all

interpretation business_part: part_of_state b_business_notifications "\<lambda>x b. b\<lparr>b_business_notifications := x\<rparr>"
  by unfold_locales simp_all

interpretation call_part: part_of_state b_calls_update "\<lambda>x b. b\<lparr>b_calls_update := x\<rparr>"
  by unfold_locales simp_all

interpretation presence_part: part_of_state b_presence_update "\<lambda>x b. b\<lparr>b_presence_update := x\<rparr>"
  by unfold_locales simp_all

definition pending_view :: "'o EventBuffer \<Rightarrow> view \<Rightarrow> view" where
  "pending_view b v = \<lparr>
     v_messages = pending_slots update_message_event (message_slots b) (v_messages v),
     v_chats = pending_slots join_chat (chat_slots b) (v_chats v),
     v_contacts = pending_slots join_contact (contact_slots b) (v_contacts v),
     v_labels_edit = pending join_label (b_labels_edit b) (v_labels_edit v),
     v_labels_association = pending latest (b_labels_association b) (v_labels_association v),
     v_quick_replies_update = pending join_quick_reply (b_quick_replies_update b) (v_quick_replies_update v),
     v_groups_update = pending join_group (b_groups_update b) (v_groups_update v),
     v_receipts_update = pending latest (b_receipts_update b) (v_receipts_update v),
     v_reactions_update = pending latest (b_reactions_update b) (v_reactions_update v),
     v_media_retry = pending latest (b_media_retry b) (v_media_retry v),
     v_recent_stickers = pending join_recent_sticker (b_recent_stickers b) (v_recent_stickers v),
     v_account_settings = pending join_account_settings (b_account_settings b) (v_account_settings v),
     v_business_notifications = pending join_business_notification (b_business_notifications b) (v_business_notifications v),
     v_calls_update = pending join_call (b_calls_update b) (v_calls_update v),
     v_presence_update = pending latest (b_presence_update b) (v_presence_update v)\<rparr>"

definition buffer_ok :: "'o EventBuffer \<Rightarrow> bool" where
  "buffer_ok b \<longleftrightarrow>
     slots_ok me_key mu_key (fields_ok me_fields) (fields_ok mu_fields) (message_slots b) \<and>
     slots_ok ce_jid ce_jid (fields_ok ce_fields) (fields_ok ce_fields) (chat_slots b) \<and>
     slots_ok co_jid co_jid (fields_ok co_fields) (fields_ok co_fields) (contact_slots b) \<and>
     keyed le_id (fields_ok le_fields) (b_labels_edit b) \<and>
     keyed label_association_buffer_key ((\<lambda>_. True)) (b_labels_association b) \<and>
     keyed qr_id (fields_ok qr_fields) (b_quick_replies_update b) \<and>
     keyed gu_jid (fields_ok gu_fields) (b_groups_update b) \<and>
     keyed receipt_buffer_key ((\<lambda>_. True)) (b_receipts_update b) \<and>
     keyed reaction_buffer_key ((\<lambda>_. True)) (b_reactions_update b) \<and>
     keyed mr_key ((\<lambda>_. True)) (b_media_retry b) \<and>
     keyed rs_id (fields_ok rs_fields) (b_recent_stickers b) \<and>
     keyed as_id (fields_ok as_fields) (b_account_settings b) \<and>
     keyed business_notification_event_store_key (fields_ok bn_fields) (b_business_notifications b) \<and>
     keyed call_buffer_key (fields_ok cl_fields) (b_calls_update b) \<and>
     keyed presence_buffer_key ((\<lambda>_. True)) (b_presence_update b)"

definition view_ok :: "view \<Rightarrow> bool" where
  "view_ok v \<longleftrightarrow>
     view_all (fields_ok me_fields) (v_messages v) \<and>
     view_all (fields_ok ce_fields) (v_chats v) \<and>
     view_all (fields_ok co_fields) (v_contacts v) \<and>
     view_all (fields_ok le_fields) (v_labels_edit v) \<and>
     view_all ((\<lambda>_. True)) (v_labels_association v) \<and>
     view_all (fields_ok qr_fields) (v_quick_replies_update v) \<and>
     view_all (fields_ok gu_fields) (v_groups_update v) \<and>
     view_all ((\<lambda>_. True)) (v_receipts_update v) \<and>
     view_all ((\<lambda>_. True)) (v_reactions_update v) \<and>
     view_all ((\<lambda>_. True)) (v_media_retry v) \<and>
     view_all (fields_ok rs_fields) (v_recent_stickers v) \<and>
     view_all (fields_ok as_fields) (v_account_settings v) \<and>
     view_all (fields_ok bn_fields) (v_business_notifications v) \<and>
     view_all (fields_ok cl_fields) (v_calls_update v) \<and>
     view_all ((\<lambda>_. True)) (v_presence_update v)"

text \<open>Events whose fields are ordered maps.\<close>

definition batch_ok :: "EventBatch \<Rightarrow> bool" where
  "batch_ok batch \<longleftrightarrow>
     list_all (fields_ok me_fields) (eb_messages_upsert batch) \<and>
     list_all (fields_ok mu_fields) (eb_messages_update batch) \<and>
     list_all (fields_ok ce_fields) (eb_chats_upsert batch) \<and>
     list_all (fields_ok ce_fields) (eb_chats_update batch) \<and>
     list_all (fields_ok co_fields) (eb_contacts_upsert batch) \<and>
     list_all (fields_ok co_fields) (eb_contacts_update batch) \<and>
     list_all (fields_ok le_fields) (eb_labels_edit batch) \<and>
     list_all (fields_ok qr_fields) (eb_quick_replies_update batch) \<and>
     list_all (fields_ok gu_fields) (eb_groups_update batch) \<and>
     list_all (fields_ok rs_fields) (eb_recent_stickers batch) \<and>
     list_all (fields_ok as_fields) (eb_account_settings batch) \<and>
     list_all (fields_ok bn_fields) (eb_business_notifications batch) \<and>
     list_all (fields_ok cl_fields) (eb_calls_update batch)"

fun event_ok :: "'o Event \<Rightarrow> bool" where
  "event_ok (Batch batch) \<longleftrightarrow> batch_ok batch"
| "event_ok (MessagesUpsert xs) \<longleftrightarrow> list_all (fields_ok me_fields) xs"
| "event_ok (MessagesUpdate xs) \<longleftrightarrow> list_all (fields_ok mu_fields) xs"
| "event_ok (ChatsUpsert xs) \<longleftrightarrow> list_all (fields_ok ce_fields) xs"
| "event_ok (ChatsUpdate xs) \<longleftrightarrow> list_all (fields_ok ce_fields) xs"
| "event_ok (ContactsUpsert xs) \<longleftrightarrow> list_all (fields_ok co_fields) xs"
| "event_ok (ContactsUpdate xs) \<longleftrightarrow> list_all (fields_ok co_fields) xs"
| "event_ok (LabelsEdit xs) \<longleftrightarrow> list_all (fields_ok le_fields) xs"
| "event_ok (QuickRepliesUpdate xs) \<longleftrightarrow> list_all (fields_ok qr_fields) xs"
| "event_ok (GroupsUpdate xs) \<longleftrightarrow> list_all (fields_ok gu_fields) xs"
| "event_ok (RecentStickersUpdate xs) \<longleftrightarrow> list_all (fields_ok rs_fields) xs"
| "event_ok (AccountSettingsUpdate xs) \<longleftrightarrow> list_all (fields_ok as_fields) xs"
| "event_ok (BusinessNotificationUpdate xs) \<longleftrightarrow> list_all (fields_ok bn_fields) xs"
| "event_ok (CallsUpdate xs) \<longleftrightarrow> list_all (fields_ok cl_fields) xs"
| "event_ok event \<longleftrightarrow> True"

section \<open>Every step keeps the effect\<close>

lemmas buffer_step_defs = slot_upsert_def slot_update_def slot_delete_def merge_message_update_def
  merge_chat_event_def merge_contact_event_def

lemmas view_step_defs = buffer_ok_def pending_view_def view_ok_def

lemma step_messages_upsert:
  assumes "buffer_ok b" "view_ok v" "list_all (fields_ok me_fields) xs"
  shows "buffer_ok (fold upsert_message xs b) \<and>
    pending_view (fold upsert_message xs b) v = view_messages_upsert xs (pending_view b v)"
proof -
  have "upsert_message x b = put_message_slots (slot_upsert me_key x (message_slots b)) b" for x and b :: "'a EventBuffer"
    by (simp add: upsert_message_def message_slots_def put_message_slots_def buffer_step_defs split: option.split)
  from message_part.fold_part [of upsert_message, OF this]
  have "fold upsert_message xs b = put_message_slots (fold (slot_upsert me_key) xs (message_slots b)) b" .
  with assms messages.fold_upsert [of "message_slots b" xs "v_messages v"]
  show ?thesis
    by (simp add: view_step_defs view_messages_upsert_def message_part.get_put) (simp add: put_message_slots_def message_slots_def chat_slots_def contact_slots_def)
qed

lemma step_messages_update:
  assumes "buffer_ok b" "view_ok v" "list_all (fields_ok mu_fields) xs"
  shows "buffer_ok (fold update_message xs b) \<and>
    pending_view (fold update_message xs b) v = view_messages_update xs (pending_view b v)"
proof -
  have "update_message x b = put_message_slots (slot_update mu_key update_message_event join_message_update x (message_slots b)) b" for x and b :: "'a EventBuffer"
    by (simp add: update_message_def message_slots_def put_message_slots_def buffer_step_defs split: option.split)
  from message_part.fold_part [of update_message, OF this]
  have "fold update_message xs b = put_message_slots (fold (slot_update mu_key update_message_event join_message_update) xs (message_slots b)) b" .
  with assms messages.fold_update [of "message_slots b" "v_messages v" xs]
  show ?thesis
    by (simp add: view_step_defs view_messages_update_def message_part.get_put) (simp add: put_message_slots_def message_slots_def chat_slots_def contact_slots_def)
qed

lemma step_messages_delete:
  assumes "buffer_ok b" "view_ok v" "True"
  shows "buffer_ok (fold delete_message xs b) \<and>
    pending_view (fold delete_message xs b) v = view_messages_delete xs (pending_view b v)"
proof -
  have "delete_message x b = put_message_slots (slot_delete x (message_slots b)) b" for x and b :: "'a EventBuffer"
    by (simp add: delete_message_def message_slots_def put_message_slots_def buffer_step_defs split: option.split)
  from message_part.fold_part [of delete_message, OF this]
  have "fold delete_message xs b = put_message_slots (fold (slot_delete) xs (message_slots b)) b" .
  with assms messages.fold_delete [of "message_slots b" xs "v_messages v"]
  show ?thesis
    by (simp add: view_step_defs view_messages_delete_def message_part.get_put) (simp add: put_message_slots_def message_slots_def chat_slots_def contact_slots_def)
qed

lemma step_chats_upsert:
  assumes "buffer_ok b" "view_ok v" "list_all (fields_ok ce_fields) xs"
  shows "buffer_ok (fold upsert_chat xs b) \<and>
    pending_view (fold upsert_chat xs b) v = view_chats_upsert xs (pending_view b v)"
proof -
  have "upsert_chat x b = put_chat_slots (slot_upsert ce_jid x (chat_slots b)) b" for x and b :: "'a EventBuffer"
    by (simp add: upsert_chat_def chat_slots_def put_chat_slots_def buffer_step_defs split: option.split)
  from chat_part.fold_part [of upsert_chat, OF this]
  have "fold upsert_chat xs b = put_chat_slots (fold (slot_upsert ce_jid) xs (chat_slots b)) b" .
  with assms chats.fold_upsert [of "chat_slots b" xs "v_chats v"]
  show ?thesis
    by (simp add: view_step_defs view_chats_upsert_def chat_part.get_put) (simp add: put_chat_slots_def message_slots_def chat_slots_def contact_slots_def)
qed

lemma step_chats_update:
  assumes "buffer_ok b" "view_ok v" "list_all (fields_ok ce_fields) xs"
  shows "buffer_ok (fold update_chat xs b) \<and>
    pending_view (fold update_chat xs b) v = view_chats_update xs (pending_view b v)"
proof -
  have "update_chat x b = put_chat_slots (slot_update ce_jid join_chat join_chat x (chat_slots b)) b" for x and b :: "'a EventBuffer"
    by (simp add: update_chat_def chat_slots_def put_chat_slots_def buffer_step_defs split: option.split)
  from chat_part.fold_part [of update_chat, OF this]
  have "fold update_chat xs b = put_chat_slots (fold (slot_update ce_jid join_chat join_chat) xs (chat_slots b)) b" .
  with assms chats.fold_update [of "chat_slots b" "v_chats v" xs]
  show ?thesis
    by (simp add: view_step_defs view_chats_update_def chat_part.get_put) (simp add: put_chat_slots_def message_slots_def chat_slots_def contact_slots_def)
qed

lemma step_chats_delete:
  assumes "buffer_ok b" "view_ok v" "True"
  shows "buffer_ok (fold delete_chat xs b) \<and>
    pending_view (fold delete_chat xs b) v = view_chats_delete xs (pending_view b v)"
proof -
  have "delete_chat x b = put_chat_slots (slot_delete x (chat_slots b)) b" for x and b :: "'a EventBuffer"
    by (simp add: delete_chat_def chat_slots_def put_chat_slots_def buffer_step_defs split: option.split)
  from chat_part.fold_part [of delete_chat, OF this]
  have "fold delete_chat xs b = put_chat_slots (fold (slot_delete) xs (chat_slots b)) b" .
  with assms chats.fold_delete [of "chat_slots b" xs "v_chats v"]
  show ?thesis
    by (simp add: view_step_defs view_chats_delete_def chat_part.get_put) (simp add: put_chat_slots_def message_slots_def chat_slots_def contact_slots_def)
qed

lemma step_contacts_upsert:
  assumes "buffer_ok b" "view_ok v" "list_all (fields_ok co_fields) xs"
  shows "buffer_ok (fold upsert_contact xs b) \<and>
    pending_view (fold upsert_contact xs b) v = view_contacts_upsert xs (pending_view b v)"
proof -
  have "upsert_contact x b = put_contact_slots (slot_upsert co_jid x (contact_slots b)) b" for x and b :: "'a EventBuffer"
    by (simp add: upsert_contact_def contact_slots_def put_contact_slots_def buffer_step_defs split: option.split)
  from contact_part.fold_part [of upsert_contact, OF this]
  have "fold upsert_contact xs b = put_contact_slots (fold (slot_upsert co_jid) xs (contact_slots b)) b" .
  with assms contacts.fold_upsert [of "contact_slots b" xs "v_contacts v"]
  show ?thesis
    by (simp add: view_step_defs view_contacts_upsert_def contact_part.get_put) (simp add: put_contact_slots_def message_slots_def chat_slots_def contact_slots_def)
qed

lemma step_contacts_update:
  assumes "buffer_ok b" "view_ok v" "list_all (fields_ok co_fields) xs"
  shows "buffer_ok (fold update_contact xs b) \<and>
    pending_view (fold update_contact xs b) v = view_contacts_update xs (pending_view b v)"
proof -
  have "update_contact x b = put_contact_slots (slot_update co_jid join_contact join_contact x (contact_slots b)) b" for x and b :: "'a EventBuffer"
    by (simp add: update_contact_def contact_slots_def put_contact_slots_def buffer_step_defs split: option.split)
  from contact_part.fold_part [of update_contact, OF this]
  have "fold update_contact xs b = put_contact_slots (fold (slot_update co_jid join_contact join_contact) xs (contact_slots b)) b" .
  with assms contacts.fold_update [of "contact_slots b" "v_contacts v" xs]
  show ?thesis
    by (simp add: view_step_defs view_contacts_update_def contact_part.get_put) (simp add: put_contact_slots_def message_slots_def chat_slots_def contact_slots_def)
qed

lemma step_contacts_delete:
  assumes "buffer_ok b" "view_ok v" "True"
  shows "buffer_ok (fold delete_contact xs b) \<and>
    pending_view (fold delete_contact xs b) v = view_contacts_delete xs (pending_view b v)"
proof -
  have "delete_contact x b = put_contact_slots (slot_delete x (contact_slots b)) b" for x and b :: "'a EventBuffer"
    by (simp add: delete_contact_def contact_slots_def put_contact_slots_def buffer_step_defs split: option.split)
  from contact_part.fold_part [of delete_contact, OF this]
  have "fold delete_contact xs b = put_contact_slots (fold (slot_delete) xs (contact_slots b)) b" .
  with assms contacts.fold_delete [of "contact_slots b" xs "v_contacts v"]
  show ?thesis
    by (simp add: view_step_defs view_contacts_delete_def contact_part.get_put) (simp add: put_contact_slots_def message_slots_def chat_slots_def contact_slots_def)
qed

lemma step_labels_edit:
  assumes "buffer_ok b" "view_ok v" "list_all (fields_ok le_fields) xs"
  shows "buffer_ok (fold edit_label xs b) \<and>
    pending_view (fold edit_label xs b) v = view_labels_edit xs (pending_view b v)"
proof -
  have "edit_label x b = b\<lparr>b_labels_edit := entry_merge join_label (le_id x) x (b_labels_edit b)\<rparr>" for x and b :: "'a EventBuffer"
    by (simp add: edit_label_def merge_label_event_def)
  from label_part.fold_part [of edit_label, OF this]
  have "fold edit_label xs b = b\<lparr>b_labels_edit := fold (\<lambda>x. entry_merge join_label (le_id x) x) xs (b_labels_edit b)\<rparr>" .
  with assms labels.fold_merge [of "b_labels_edit b" "v_labels_edit v" xs]
  show ?thesis
    by (simp add: view_step_defs view_labels_edit_def message_slots_def chat_slots_def contact_slots_def)
qed

lemma step_labels_association:
  assumes "buffer_ok b" "view_ok v" "list_all ((\<lambda>_. True)) xs"
  shows "buffer_ok (fold associate_label xs b) \<and>
    pending_view (fold associate_label xs b) v = view_labels_association xs (pending_view b v)"
proof -
  have "associate_label x b = b\<lparr>b_labels_association := entry_merge latest (label_association_buffer_key x) x (b_labels_association b)\<rparr>" for x and b :: "'a EventBuffer"
    by (simp add: associate_label_def btree_insert_latest)
  from association_part.fold_part [of associate_label, OF this]
  have "fold associate_label xs b = b\<lparr>b_labels_association := fold (\<lambda>x. entry_merge latest (label_association_buffer_key x) x) xs (b_labels_association b)\<rparr>" .
  with assms associations.fold_merge [of "b_labels_association b" "v_labels_association v" xs]
  show ?thesis
    by (simp add: view_step_defs view_labels_association_def message_slots_def chat_slots_def contact_slots_def)
qed

lemma step_quick_replies_update:
  assumes "buffer_ok b" "view_ok v" "list_all (fields_ok qr_fields) xs"
  shows "buffer_ok (fold update_quick_reply xs b) \<and>
    pending_view (fold update_quick_reply xs b) v = view_quick_replies_update xs (pending_view b v)"
proof -
  have "update_quick_reply x b = b\<lparr>b_quick_replies_update := entry_merge join_quick_reply (qr_id x) x (b_quick_replies_update b)\<rparr>" for x and b :: "'a EventBuffer"
    by (simp add: update_quick_reply_def merge_quick_reply_event_def)
  from quick_reply_part.fold_part [of update_quick_reply, OF this]
  have "fold update_quick_reply xs b = b\<lparr>b_quick_replies_update := fold (\<lambda>x. entry_merge join_quick_reply (qr_id x) x) xs (b_quick_replies_update b)\<rparr>" .
  with assms quick_replies.fold_merge [of "b_quick_replies_update b" "v_quick_replies_update v" xs]
  show ?thesis
    by (simp add: view_step_defs view_quick_replies_update_def message_slots_def chat_slots_def contact_slots_def)
qed

lemma step_groups_update:
  assumes "buffer_ok b" "view_ok v" "list_all (fields_ok gu_fields) xs"
  shows "buffer_ok (fold update_group xs b) \<and>
    pending_view (fold update_group xs b) v = view_groups_update xs (pending_view b v)"
proof -
  have "update_group x b = b\<lparr>b_groups_update := entry_merge join_group (gu_jid x) x (b_groups_update b)\<rparr>" for x and b :: "'a EventBuffer"
    by (simp add: update_group_def merge_group_event_def)
  from group_part.fold_part [of update_group, OF this]
  have "fold update_group xs b = b\<lparr>b_groups_update := fold (\<lambda>x. entry_merge join_group (gu_jid x) x) xs (b_groups_update b)\<rparr>" .
  with assms groups.fold_merge [of "b_groups_update b" "v_groups_update v" xs]
  show ?thesis
    by (simp add: view_step_defs view_groups_update_def message_slots_def chat_slots_def contact_slots_def)
qed

lemma step_receipts_update:
  assumes "buffer_ok b" "view_ok v" "list_all ((\<lambda>_. True)) xs"
  shows "buffer_ok (fold update_receipt xs b) \<and>
    pending_view (fold update_receipt xs b) v = view_receipts_update xs (pending_view b v)"
proof -
  have "update_receipt x b = b\<lparr>b_receipts_update := entry_merge latest (receipt_buffer_key x) x (b_receipts_update b)\<rparr>" for x and b :: "'a EventBuffer"
    by (simp add: update_receipt_def btree_insert_latest)
  from receipt_part.fold_part [of update_receipt, OF this]
  have "fold update_receipt xs b = b\<lparr>b_receipts_update := fold (\<lambda>x. entry_merge latest (receipt_buffer_key x) x) xs (b_receipts_update b)\<rparr>" .
  with assms receipts.fold_merge [of "b_receipts_update b" "v_receipts_update v" xs]
  show ?thesis
    by (simp add: view_step_defs view_receipts_update_def message_slots_def chat_slots_def contact_slots_def)
qed

lemma step_reactions_update:
  assumes "buffer_ok b" "view_ok v" "list_all ((\<lambda>_. True)) xs"
  shows "buffer_ok (fold update_reaction xs b) \<and>
    pending_view (fold update_reaction xs b) v = view_reactions_update xs (pending_view b v)"
proof -
  have "update_reaction x b = b\<lparr>b_reactions_update := entry_merge latest (reaction_buffer_key x) x (b_reactions_update b)\<rparr>" for x and b :: "'a EventBuffer"
    by (simp add: update_reaction_def btree_insert_latest)
  from reaction_part.fold_part [of update_reaction, OF this]
  have "fold update_reaction xs b = b\<lparr>b_reactions_update := fold (\<lambda>x. entry_merge latest (reaction_buffer_key x) x) xs (b_reactions_update b)\<rparr>" .
  with assms reactions.fold_merge [of "b_reactions_update b" "v_reactions_update v" xs]
  show ?thesis
    by (simp add: view_step_defs view_reactions_update_def message_slots_def chat_slots_def contact_slots_def)
qed

lemma step_media_retry:
  assumes "buffer_ok b" "view_ok v" "list_all ((\<lambda>_. True)) xs"
  shows "buffer_ok (fold retry_media xs b) \<and>
    pending_view (fold retry_media xs b) v = view_media_retry xs (pending_view b v)"
proof -
  have "retry_media x b = b\<lparr>b_media_retry := entry_merge latest (mr_key x) x (b_media_retry b)\<rparr>" for x and b :: "'a EventBuffer"
    by (simp add: retry_media_def btree_insert_latest)
  from media_part.fold_part [of retry_media, OF this]
  have "fold retry_media xs b = b\<lparr>b_media_retry := fold (\<lambda>x. entry_merge latest (mr_key x) x) xs (b_media_retry b)\<rparr>" .
  with assms media_retries.fold_merge [of "b_media_retry b" "v_media_retry v" xs]
  show ?thesis
    by (simp add: view_step_defs view_media_retry_def message_slots_def chat_slots_def contact_slots_def)
qed

lemma step_recent_stickers:
  assumes "buffer_ok b" "view_ok v" "list_all (fields_ok rs_fields) xs"
  shows "buffer_ok (fold update_sticker xs b) \<and>
    pending_view (fold update_sticker xs b) v = view_recent_stickers xs (pending_view b v)"
proof -
  have "update_sticker x b = b\<lparr>b_recent_stickers := entry_merge join_recent_sticker (rs_id x) x (b_recent_stickers b)\<rparr>" for x and b :: "'a EventBuffer"
    by (simp add: update_sticker_def merge_recent_sticker_event_def)
  from sticker_part.fold_part [of update_sticker, OF this]
  have "fold update_sticker xs b = b\<lparr>b_recent_stickers := fold (\<lambda>x. entry_merge join_recent_sticker (rs_id x) x) xs (b_recent_stickers b)\<rparr>" .
  with assms stickers.fold_merge [of "b_recent_stickers b" "v_recent_stickers v" xs]
  show ?thesis
    by (simp add: view_step_defs view_recent_stickers_def message_slots_def chat_slots_def contact_slots_def)
qed

lemma step_account_settings:
  assumes "buffer_ok b" "view_ok v" "list_all (fields_ok as_fields) xs"
  shows "buffer_ok (fold update_setting xs b) \<and>
    pending_view (fold update_setting xs b) v = view_account_settings xs (pending_view b v)"
proof -
  have "update_setting x b = b\<lparr>b_account_settings := entry_merge join_account_settings (as_id x) x (b_account_settings b)\<rparr>" for x and b :: "'a EventBuffer"
    by (simp add: update_setting_def merge_account_settings_event_def)
  from setting_part.fold_part [of update_setting, OF this]
  have "fold update_setting xs b = b\<lparr>b_account_settings := fold (\<lambda>x. entry_merge join_account_settings (as_id x) x) xs (b_account_settings b)\<rparr>" .
  with assms settings.fold_merge [of "b_account_settings b" "v_account_settings v" xs]
  show ?thesis
    by (simp add: view_step_defs view_account_settings_def message_slots_def chat_slots_def contact_slots_def)
qed

lemma step_business_notifications:
  assumes "buffer_ok b" "view_ok v" "list_all (fields_ok bn_fields) xs"
  shows "buffer_ok (fold update_business xs b) \<and>
    pending_view (fold update_business xs b) v = view_business_notifications xs (pending_view b v)"
proof -
  have "update_business x b = b\<lparr>b_business_notifications := entry_merge join_business_notification (business_notification_event_store_key x) x (b_business_notifications b)\<rparr>" for x and b :: "'a EventBuffer"
    by (simp add: update_business_def merge_business_notification_event_def)
  from business_part.fold_part [of update_business, OF this]
  have "fold update_business xs b = b\<lparr>b_business_notifications := fold (\<lambda>x. entry_merge join_business_notification (business_notification_event_store_key x) x) xs (b_business_notifications b)\<rparr>" .
  with assms notifications.fold_merge [of "b_business_notifications b" "v_business_notifications v" xs]
  show ?thesis
    by (simp add: view_step_defs view_business_notifications_def message_slots_def chat_slots_def contact_slots_def)
qed

lemma step_calls_update:
  assumes "buffer_ok b" "view_ok v" "list_all (fields_ok cl_fields) xs"
  shows "buffer_ok (fold update_call xs b) \<and>
    pending_view (fold update_call xs b) v = view_calls_update xs (pending_view b v)"
proof -
  have "update_call x b = b\<lparr>b_calls_update := entry_merge join_call (call_buffer_key x) x (b_calls_update b)\<rparr>" for x and b :: "'a EventBuffer"
    by (simp add: update_call_def merge_call_event_def)
  from call_part.fold_part [of update_call, OF this]
  have "fold update_call xs b = b\<lparr>b_calls_update := fold (\<lambda>x. entry_merge join_call (call_buffer_key x) x) xs (b_calls_update b)\<rparr>" .
  with assms calls.fold_merge [of "b_calls_update b" "v_calls_update v" xs]
  show ?thesis
    by (simp add: view_step_defs view_calls_update_def message_slots_def chat_slots_def contact_slots_def)
qed

lemma step_presence_update:
  assumes "buffer_ok b" "view_ok v" "list_all ((\<lambda>_. True)) xs"
  shows "buffer_ok (fold update_presence xs b) \<and>
    pending_view (fold update_presence xs b) v = view_presence_update xs (pending_view b v)"
proof -
  have "update_presence x b = b\<lparr>b_presence_update := entry_merge latest (presence_buffer_key x) x (b_presence_update b)\<rparr>" for x and b :: "'a EventBuffer"
    by (simp add: update_presence_def btree_insert_latest)
  from presence_part.fold_part [of update_presence, OF this]
  have "fold update_presence xs b = b\<lparr>b_presence_update := fold (\<lambda>x. entry_merge latest (presence_buffer_key x) x) xs (b_presence_update b)\<rparr>" .
  with assms presences.fold_merge [of "b_presence_update b" "v_presence_update v" xs]
  show ?thesis
    by (simp add: view_step_defs view_presence_update_def message_slots_def chat_slots_def contact_slots_def)
qed

lemmas steps = step_messages_upsert step_messages_update step_messages_delete step_chats_upsert
  step_chats_update step_chats_delete step_contacts_upsert step_contacts_update
  step_contacts_delete step_labels_edit step_labels_association step_quick_replies_update
  step_groups_update step_receipts_update step_reactions_update step_media_retry
  step_recent_stickers step_account_settings step_business_notifications step_calls_update
  step_presence_update

lemma step_history:
  "buffer_ok (set_history h b) = buffer_ok b" "pending_view (set_history h b) v = pending_view b v"
  by (simp_all add: view_step_defs set_history_def message_slots_def chat_slots_def contact_slots_def)

lemma step_immediate:
  "buffer_ok (b\<lparr>b_immediate := es\<rparr>) = buffer_ok b"
  "pending_view (b\<lparr>b_immediate := es\<rparr>) v = pending_view b v"
  by (simp_all add: view_step_defs message_slots_def chat_slots_def contact_slots_def)

lemma step_batch:
  assumes "buffer_ok b" "view_ok v" "batch_ok batch"
  shows "buffer_ok (apply_batch batch b) \<and>
    pending_view (apply_batch batch b) v = view_batch batch (pending_view b v)"
proof -
  have all: "list_all (\<lambda>_. True) xs" for xs :: "'x list" by (simp add: list_all_iff)
  have "buffer_ok (case eb_history batch of Some h \<Rightarrow> set_history h b | None \<Rightarrow> b)"
    "pending_view (case eb_history batch of Some h \<Rightarrow> set_history h b | None \<Rightarrow> b) v = pending_view b v"
    using assms(1) by (simp_all add: step_history split: option.split)
  then show ?thesis
    using assms(2,3) by (simp add: apply_batch_def view_batch_def batch_ok_def steps all)
qed

lemma step_event:
  assumes "buffer_ok b" "view_ok v" "event_ok event"
  shows "buffer_ok (apply_event event b) \<and>
    pending_view (apply_event event b) v = view_event event (pending_view b v)"
proof -
  have all: "list_all (\<lambda>_. True) xs" for xs :: "'x list" by (simp add: list_all_iff)
  show ?thesis
    using assms by (cases event) (simp_all add: steps all step_batch step_history step_immediate)
qed

section \<open>Flushing\<close>

lemma view_drained_batch:
  assumes "buffer_ok b"
  shows "view_batch (drained_batch b) v = pending_view b v"
  using assms
  by (simp add: view_batch_def drained_batch_def drain_map_values_def drain_set_values_def buffer_ok_def
      pending_view_def message_slots_def chat_slots_def contact_slots_def
      view_messages_upsert_def view_messages_update_def view_messages_delete_def
      view_chats_upsert_def view_chats_update_def view_chats_delete_def
      view_contacts_upsert_def view_contacts_update_def view_contacts_delete_def
      view_labels_edit_def view_labels_association_def view_quick_replies_update_def
      view_groups_update_def view_receipts_update_def view_reactions_update_def
      view_media_retry_def view_recent_stickers_def view_account_settings_def
      view_business_notifications_def view_calls_update_def view_presence_update_def
      messages.view_drained chats.view_drained contacts.view_drained
      labels.view_merge_drained associations.view_merge_drained quick_replies.view_merge_drained
      groups.view_merge_drained receipts.view_merge_drained reactions.view_merge_drained
      media_retries.view_merge_drained stickers.view_merge_drained settings.view_merge_drained
      notifications.view_merge_drained calls.view_merge_drained presences.view_merge_drained)

section \<open>The buffer is invisible\<close>

text \<open>Pushing events one after the other; the first error ends the run, as with \<open>?\<close>.\<close>

fun push_all :: "'o Event list \<Rightarrow> 'o EventBuffer \<Rightarrow> 'o EventBuffer core_result" where
  "push_all [] b = Ok b"
| "push_all (event # events) b =
     (case buffer_push event b of (Inl e, b') \<Rightarrow> Err e | (Inr _, b') \<Rightarrow> push_all events b')"

text \<open>The events that go to the application as they are.\<close>

fun immediate :: "'o Event \<Rightarrow> bool" where
  "immediate CredentialsUpdated \<longleftrightarrow> True"
| "immediate (ConnectionUpdate x) \<longleftrightarrow> True"
| "immediate (Frame x) \<longleftrightarrow> True"
| "immediate (RawNode x) \<longleftrightarrow> True"
| "immediate (NodeEvent x) \<longleftrightarrow> True"
| "immediate (Qr x) \<longleftrightarrow> True"
| "immediate (MediaRetryProcessed x) \<longleftrightarrow> True"
| "immediate (LidMappingUpdate x) \<longleftrightarrow> True"
| "immediate (NewsletterReactionUpdate x) \<longleftrightarrow> True"
| "immediate (NewsletterViewUpdate x) \<longleftrightarrow> True"
| "immediate (NewsletterParticipantsUpdate x) \<longleftrightarrow> True"
| "immediate (NewsletterSettingsUpdate x) \<longleftrightarrow> True"
| "immediate (ReachoutTimelockUpdate x) \<longleftrightarrow> True"
| "immediate (MessageCappingUpdate x) \<longleftrightarrow> True"
| "immediate (DefaultDisappearingModeUpdate x) \<longleftrightarrow> True"
| "immediate (BlocklistUpdate x) \<longleftrightarrow> True"
| "immediate (ServerSyncCollections x) \<longleftrightarrow> True"
| "immediate event \<longleftrightarrow> False"

lemma view_immediate: "immediate event \<Longrightarrow> view_event event v = v"
  by (cases event) simp_all

lemma histories_immediate: "list_all immediate es \<Longrightarrow> histories es = []"
proof (induction es)
  case (Cons e es)
  then show ?case by (cases e) simp_all
qed simp

lemma fold_view_immediate: "list_all immediate es \<Longrightarrow> fold view_event es v = v"
  by (induction es) (simp_all add: view_immediate)

end
