(* ===== verification/EventBufferTheorems.thy ===== *)
theory EventBufferTheorems
  imports EventBufferRefinement
begin

text \<open>
  What the application may rely on: the buffer delivers what was pushed, in one batch, and holds no
  more than its limit. One event is an exception: a history set replaces an earlier one.
\<close>

lemma fold_keeps: "(\<And>x b. f (step x b) = f b) \<Longrightarrow> f (fold step xs b) = f b"
  by (induction xs arbitrary: b) simp_all

lemma steps_keep:
  "b_immediate (upsert_message x0 b) = b_immediate b" "b_config (upsert_message x0 b) = b_config b"
  "b_immediate (update_message x1 b) = b_immediate b" "b_config (update_message x1 b) = b_config b"
  "b_immediate (delete_message x2 b) = b_immediate b" "b_config (delete_message x2 b) = b_config b"
  "b_immediate (upsert_chat x3 b) = b_immediate b" "b_config (upsert_chat x3 b) = b_config b"
  "b_immediate (update_chat x4 b) = b_immediate b" "b_config (update_chat x4 b) = b_config b"
  "b_immediate (delete_chat x5 b) = b_immediate b" "b_config (delete_chat x5 b) = b_config b"
  "b_immediate (upsert_contact x6 b) = b_immediate b" "b_config (upsert_contact x6 b) = b_config b"
  "b_immediate (update_contact x7 b) = b_immediate b" "b_config (update_contact x7 b) = b_config b"
  "b_immediate (delete_contact x8 b) = b_immediate b" "b_config (delete_contact x8 b) = b_config b"
  "b_immediate (edit_label x9 b) = b_immediate b" "b_config (edit_label x9 b) = b_config b"
  "b_immediate (associate_label x10 b) = b_immediate b" "b_config (associate_label x10 b) = b_config b"
  "b_immediate (update_quick_reply x11 b) = b_immediate b" "b_config (update_quick_reply x11 b) = b_config b"
  "b_immediate (update_group x12 b) = b_immediate b" "b_config (update_group x12 b) = b_config b"
  "b_immediate (update_receipt x13 b) = b_immediate b" "b_config (update_receipt x13 b) = b_config b"
  "b_immediate (update_reaction x14 b) = b_immediate b" "b_config (update_reaction x14 b) = b_config b"
  "b_immediate (retry_media x15 b) = b_immediate b" "b_config (retry_media x15 b) = b_config b"
  "b_immediate (update_sticker x16 b) = b_immediate b" "b_config (update_sticker x16 b) = b_config b"
  "b_immediate (update_setting x17 b) = b_immediate b" "b_config (update_setting x17 b) = b_config b"
  "b_immediate (update_business x18 b) = b_immediate b" "b_config (update_business x18 b) = b_config b"
  "b_immediate (update_call x19 b) = b_immediate b" "b_config (update_call x19 b) = b_config b"
  "b_immediate (update_presence x20 b) = b_immediate b" "b_config (update_presence x20 b) = b_config b"
  "b_immediate (set_history x21 b) = b_immediate b" "b_config (set_history x21 b) = b_config b"
  by (simp_all add: upsert_message_def update_message_def delete_message_def upsert_chat_def
      update_chat_def delete_chat_def upsert_contact_def update_contact_def
      delete_contact_def edit_label_def associate_label_def update_quick_reply_def
      update_group_def update_receipt_def update_reaction_def retry_media_def
      update_sticker_def update_setting_def update_business_def update_call_def
      update_presence_def set_history_def
      split: option.split)

lemma folds_keep:
  "b_immediate (fold upsert_message y0 b) = b_immediate b" "b_config (fold upsert_message y0 b) = b_config b"
  "b_immediate (fold update_message y1 b) = b_immediate b" "b_config (fold update_message y1 b) = b_config b"
  "b_immediate (fold delete_message y2 b) = b_immediate b" "b_config (fold delete_message y2 b) = b_config b"
  "b_immediate (fold upsert_chat y3 b) = b_immediate b" "b_config (fold upsert_chat y3 b) = b_config b"
  "b_immediate (fold update_chat y4 b) = b_immediate b" "b_config (fold update_chat y4 b) = b_config b"
  "b_immediate (fold delete_chat y5 b) = b_immediate b" "b_config (fold delete_chat y5 b) = b_config b"
  "b_immediate (fold upsert_contact y6 b) = b_immediate b" "b_config (fold upsert_contact y6 b) = b_config b"
  "b_immediate (fold update_contact y7 b) = b_immediate b" "b_config (fold update_contact y7 b) = b_config b"
  "b_immediate (fold delete_contact y8 b) = b_immediate b" "b_config (fold delete_contact y8 b) = b_config b"
  "b_immediate (fold edit_label y9 b) = b_immediate b" "b_config (fold edit_label y9 b) = b_config b"
  "b_immediate (fold associate_label y10 b) = b_immediate b" "b_config (fold associate_label y10 b) = b_config b"
  "b_immediate (fold update_quick_reply y11 b) = b_immediate b" "b_config (fold update_quick_reply y11 b) = b_config b"
  "b_immediate (fold update_group y12 b) = b_immediate b" "b_config (fold update_group y12 b) = b_config b"
  "b_immediate (fold update_receipt y13 b) = b_immediate b" "b_config (fold update_receipt y13 b) = b_config b"
  "b_immediate (fold update_reaction y14 b) = b_immediate b" "b_config (fold update_reaction y14 b) = b_config b"
  "b_immediate (fold retry_media y15 b) = b_immediate b" "b_config (fold retry_media y15 b) = b_config b"
  "b_immediate (fold update_sticker y16 b) = b_immediate b" "b_config (fold update_sticker y16 b) = b_config b"
  "b_immediate (fold update_setting y17 b) = b_immediate b" "b_config (fold update_setting y17 b) = b_config b"
  "b_immediate (fold update_business y18 b) = b_immediate b" "b_config (fold update_business y18 b) = b_config b"
  "b_immediate (fold update_call y19 b) = b_immediate b" "b_config (fold update_call y19 b) = b_config b"
  "b_immediate (fold update_presence y20 b) = b_immediate b" "b_config (fold update_presence y20 b) = b_config b"
  by (intro fold_keeps steps_keep)+

lemma apply_event_keeps:
  "b_immediate (apply_event event b) = b_immediate b @ (if immediate event then [event] else [])"
  "b_config (apply_event event b) = b_config b"
  by (cases event; simp add: folds_keep steps_keep apply_batch_def split: option.split)+

lemma history_steps:
  "b_history (upsert_message x0 b) = b_history b"
  "b_history (update_message x1 b) = b_history b"
  "b_history (delete_message x2 b) = b_history b"
  "b_history (upsert_chat x3 b) = b_history b"
  "b_history (update_chat x4 b) = b_history b"
  "b_history (delete_chat x5 b) = b_history b"
  "b_history (upsert_contact x6 b) = b_history b"
  "b_history (update_contact x7 b) = b_history b"
  "b_history (delete_contact x8 b) = b_history b"
  "b_history (edit_label x9 b) = b_history b"
  "b_history (associate_label x10 b) = b_history b"
  "b_history (update_quick_reply x11 b) = b_history b"
  "b_history (update_group x12 b) = b_history b"
  "b_history (update_receipt x13 b) = b_history b"
  "b_history (update_reaction x14 b) = b_history b"
  "b_history (retry_media x15 b) = b_history b"
  "b_history (update_sticker x16 b) = b_history b"
  "b_history (update_setting x17 b) = b_history b"
  "b_history (update_business x18 b) = b_history b"
  "b_history (update_call x19 b) = b_history b"
  "b_history (update_presence x20 b) = b_history b"
  by (simp_all add: upsert_message_def update_message_def delete_message_def upsert_chat_def
      update_chat_def delete_chat_def upsert_contact_def update_contact_def
      delete_contact_def edit_label_def associate_label_def update_quick_reply_def
      update_group_def update_receipt_def update_reaction_def retry_media_def
      update_sticker_def update_setting_def update_business_def update_call_def
      update_presence_def
      split: option.split)

lemma history_folds:
  "b_history (fold upsert_message x0 b) = b_history b"
  "b_history (fold update_message x1 b) = b_history b"
  "b_history (fold delete_message x2 b) = b_history b"
  "b_history (fold upsert_chat x3 b) = b_history b"
  "b_history (fold update_chat x4 b) = b_history b"
  "b_history (fold delete_chat x5 b) = b_history b"
  "b_history (fold upsert_contact x6 b) = b_history b"
  "b_history (fold update_contact x7 b) = b_history b"
  "b_history (fold delete_contact x8 b) = b_history b"
  "b_history (fold edit_label x9 b) = b_history b"
  "b_history (fold associate_label x10 b) = b_history b"
  "b_history (fold update_quick_reply x11 b) = b_history b"
  "b_history (fold update_group x12 b) = b_history b"
  "b_history (fold update_receipt x13 b) = b_history b"
  "b_history (fold update_reaction x14 b) = b_history b"
  "b_history (fold retry_media x15 b) = b_history b"
  "b_history (fold update_sticker x16 b) = b_history b"
  "b_history (fold update_setting x17 b) = b_history b"
  "b_history (fold update_business x18 b) = b_history b"
  "b_history (fold update_call x19 b) = b_history b"
  "b_history (fold update_presence x20 b) = b_history b"
  by (intro fold_keeps history_steps)+

text \<open>The buffer holds the last history set that was pushed.\<close>

lemma apply_event_history:
  "b_history (apply_event event b) = (case event_history event of None \<Rightarrow> b_history b | Some history \<Rightarrow> Some history)"
  by (cases event; simp add: history_steps history_folds apply_batch_def set_history_def split: option.split)

lemma buffer_push_cases:
  "buffer_push event b = (Inr u, b') \<Longrightarrow> b' = apply_event event b"
  "buffer_push event b = (Inl e, b') \<Longrightarrow> b' = b"
  by (auto simp: buffer_push_def Let_def split: if_splits)

lemma push_all_spec:
  assumes "view_ok v"
  shows "push_all es b = Inr b' \<Longrightarrow> buffer_ok b \<Longrightarrow> list_all event_ok es \<Longrightarrow>
    buffer_ok b' \<and> pending_view b' v = fold view_event es (pending_view b v) \<and>
    b_immediate b' = b_immediate b @ filter immediate es \<and> b_config b' = b_config b \<and>
    b_history b' = (if histories es = [] then b_history b else Some (last (histories es)))"
proof (induction es arbitrary: b)
  case (Cons event es)
  obtain r b1 where p: "buffer_push event b = (r, b1)" by (rule prod.exhaust)
  with Cons.prems(1) obtain u where "r = Inr u" by (cases r) auto
  with p have b1: "b1 = apply_event event b" by (auto dest: buffer_push_cases)
  have "push_all es b1 = Inr b'" using Cons.prems(1) p \<open>r = Inr u\<close> by simp
  moreover have "buffer_ok b1 \<and> pending_view b1 v = view_event event (pending_view b v)"
    using step_event [OF Cons.prems(2) assms] Cons.prems(3) b1 by simp
  ultimately show ?case
    using Cons.IH [of b1] Cons.prems(3) b1 by (simp add: apply_event_keeps apply_event_history split: option.split)
qed simp

lemma pending_empty: "pending join [] v = v" "pending_slots into ([], [], []) v = v"
  by (simp_all add: fun_eq_iff pending_def pending_slots_def)

lemma buffer_new_spec:
  "buffer_ok (buffer_new c)" "pending_view (buffer_new c) v = v" "b_immediate (buffer_new c) = []"
  "b_config (buffer_new c) = c" "b_history (buffer_new c) = None"
  by (cases v; simp add: buffer_new_def buffer_ok_def slots_ok_def message_slots_def chat_slots_def
      contact_slots_def pending_view_def pending_empty)+

lemma drained_events:
  "fst (drain_events b) = b_immediate b @ (if batch_is_empty (drained_batch b) then [] else [Batch (drained_batch b)])"
  "snd (drain_events b) = buffer_new (b_config b)"
proof -
  have "drained_batch (b\<lparr>b_immediate := []\<rparr>) = drained_batch b" by (simp add: drained_batch_def)
  then show "fst (drain_events b) = b_immediate b @ (if batch_is_empty (drained_batch b) then [] else [Batch (drained_batch b)])"
    "snd (drain_events b) = buffer_new (b_config b)"
    by (simp_all add: drain_events_def buffer_flush_def Let_def buffer_new_def)
qed

lemma view_empty_batch: "batch_is_empty batch \<Longrightarrow> view_batch batch v = v"
  by (simp add: batch_is_empty_def batch_pending_items_def view_batch_def
      view_messages_upsert_def view_messages_update_def view_messages_delete_def
      view_chats_upsert_def view_chats_update_def view_chats_delete_def
      view_contacts_upsert_def view_contacts_update_def view_contacts_delete_def
      view_labels_edit_def view_labels_association_def view_quick_replies_update_def
      view_groups_update_def view_receipts_update_def view_reactions_update_def
      view_media_retry_def view_recent_stickers_def view_account_settings_def
      view_business_notifications_def view_calls_update_def view_presence_update_def)

lemma view_drained_events:
  assumes "buffer_ok b" "list_all immediate (b_immediate b)"
  shows "fold view_event (fst (drain_events b)) v = pending_view b v"
  using view_drained_batch [OF assms(1), of v] view_empty_batch [of "drained_batch b" v] assms(2)
  by (simp add: drained_events fold_view_immediate)

text \<open>
  C20: the buffer is invisible, but for history sets. A reader keeps the messages, chats, contacts,
  labels, groups, receipts and so on, and the history sets it is given. Whether it takes in every
  event as it comes or the few events that the buffer delivers for them (every event that is not
  kept back, in order, and then at most one batch), it ends with the same messages, chats and so on.
  Of the history sets only the last one is delivered, with the batch; there is no batch only if
  nothing was pending, so that a last history set with any item is delivered. The buffer is empty
  again afterwards.
\<close>

theorem buffer_transparent:
  assumes "view_ok (rd_view r)" and "list_all event_ok es" and "push_all es (buffer_new config) = Inr b"
  shows "\<exists>batches. fst (drain_events b) = filter immediate es @ map Batch batches \<and> length batches \<le> 1 \<and>
    rd_view (fold read_event (fst (drain_events b)) r) = rd_view (fold read_event es r) \<and>
    rd_history (fold read_event (fst (drain_events b)) r) =
      rd_history r @ (if batches = [] then [] else take 1 (rev (histories es))) \<and>
    (histories es \<noteq> [] \<and> 0 < history_pending_items (last (histories es)) \<longrightarrow> batches \<noteq> []) \<and>
    snd (drain_events b) = buffer_new config"
proof -
  note b = push_all_spec [OF assms(1,3) buffer_new_spec(1) assms(2)]
  then have imm: "b_immediate b = filter immediate es" "b_config b = config"
    and hist: "b_history b = (if histories es = [] then None else Some (last (histories es)))"
    by (simp_all add: buffer_new_spec)
  let ?batches = "if batch_is_empty (drained_batch b) then [] else [drained_batch b]"
  have drained: "fst (drain_events b) = filter immediate es @ map Batch ?batches"
    by (simp add: drained_events imm)
  have view: "rd_view (fold read_event (fst (drain_events b)) r) = rd_view (fold read_event es r)"
    using view_drained_events [of b "rd_view r"] b by (simp add: read_events imm buffer_new_spec list_all_iff)
  have "histories (filter immediate es) = []" by (rule histories_immediate) (simp add: list_all_iff)
  moreover have "eb_history (drained_batch b) = b_history b" by (simp add: drained_batch_def)
  ultimately have history: "rd_history (fold read_event (fst (drain_events b)) r) =
      rd_history r @ (if ?batches = [] then [] else take 1 (rev (histories es)))"
    unfolding drained read_events using hist by (cases "histories es" rule: rev_cases) simp_all
  have "?batches \<noteq> []" if "histories es \<noteq> []" "0 < history_pending_items (last (histories es))"
    using that hist by (auto simp: batch_is_empty_def batch_pending_items_def drained_batch_def)
  then show ?thesis
    using drained view history imm by (intro exI [of _ ?batches]) (simp add: drained_events(2))
qed

definition empty_view :: view where
  "empty_view = \<lparr>v_messages = (\<lambda>_. None), v_chats = (\<lambda>_. None), v_contacts = (\<lambda>_. None),
     v_labels_edit = (\<lambda>_. None), v_labels_association = (\<lambda>_. None), v_quick_replies_update = (\<lambda>_. None),
     v_groups_update = (\<lambda>_. None), v_receipts_update = (\<lambda>_. None), v_reactions_update = (\<lambda>_. None),
     v_media_retry = (\<lambda>_. None), v_recent_stickers = (\<lambda>_. None), v_account_settings = (\<lambda>_. None),
     v_business_notifications = (\<lambda>_. None), v_calls_update = (\<lambda>_. None), v_presence_update = (\<lambda>_. None)\<rparr>"

definition sample_history :: HistorySetEvent where
  "sample_history = \<lparr>hs_chats = [\<lparr>ce_jid = ''a@g.us'', ce_fields = []\<rparr>], hs_contacts = [], hs_messages = [],
     hs_is_latest = False\<rparr>"

theorem buffer_transparent_witness:
  "let key = MessageEventKey ''a@g.us'' ''m1'' None;
       es = [MessagesUpsert [\<lparr>me_key = key, me_timestamp = None, me_payload = None, me_fields = []\<rparr>],
         CredentialsUpdated,
         MessagesUpdate [\<lparr>mu_key = key, mu_timestamp = Some 7, mu_fields = [(''status'', ''read'')]\<rparr>],
         HistorySet sample_history];
       b = fold (\<lambda>event b. snd (buffer_push event b)) es (buffer_new default_buffer_config :: unit EventBuffer);
       r = fold read_event (fst (drain_events b)) \<lparr>rd_view = empty_view, rd_history = []\<rparr>
   in v_messages (rd_view r) key =
        Some \<lparr>me_key = key, me_timestamp = Some 7, me_payload = None, me_fields = [(''status'', ''read'')]\<rparr> \<and>
      rd_history r = [sample_history] \<and> filter immediate (fst (drain_events b)) = [CredentialsUpdated]"
proof -
  define key where "key = MessageEventKey ''a@g.us'' ''m1'' None"
  define es :: "unit Event list" where
    "es = [MessagesUpsert [\<lparr>me_key = key, me_timestamp = None, me_payload = None, me_fields = []\<rparr>],
         CredentialsUpdated,
         MessagesUpdate [\<lparr>mu_key = key, mu_timestamp = Some 7, mu_fields = [(''status'', ''read'')]\<rparr>],
         HistorySet sample_history]"
  define b where "b = fold (\<lambda>event b. snd (buffer_push event b)) es (buffer_new default_buffer_config :: unit EventBuffer)"
  define r0 where "r0 = \<lparr>rd_view = empty_view, rd_history = []\<rparr>"
  have run: "push_all es (buffer_new default_buffer_config) = Inr b"
    by (simp add: b_def es_def buffer_push_def Let_def upsert_message_def update_message_def set_history_def
        buffer_pending_items_def buffer_new_def default_buffer_config_def btree_remove_def
        history_pending_items_def sample_history_def)
  have ok: "view_ok (rd_view r0)" "list_all event_ok es"
    by (simp_all add: view_ok_def view_all_def empty_view_def es_def fields_ok_def btree_ok_def r0_def)
  from buffer_transparent [OF ok run] obtain batches where d:
    "fst (drain_events b) = filter immediate es @ map Batch batches"
    "rd_view (fold read_event (fst (drain_events b)) r0) = rd_view (fold read_event es r0)"
    "rd_history (fold read_event (fst (drain_events b)) r0) =
      rd_history r0 @ (if batches = [] then [] else take 1 (rev (histories es)))"
    "histories es \<noteq> [] \<and> 0 < history_pending_items (last (histories es)) \<longrightarrow> batches \<noteq> []"
    by blast
  have hist: "histories es = [sample_history]" "0 < history_pending_items sample_history"
    by (simp_all add: es_def sample_history_def history_pending_items_def)
  with d(3,4) have "rd_history (fold read_event (fst (drain_events b)) r0) = [sample_history]" by (simp add: r0_def)
  moreover have "filter immediate (fst (drain_events b)) = [CredentialsUpdated]"
    unfolding d(1) by (simp add: es_def filter_empty_conv)
  moreover have "v_messages (rd_view (fold read_event es r0)) key =
      Some \<lparr>me_key = key, me_timestamp = Some 7, me_payload = None, me_fields = [(''status'', ''read'')]\<rparr>"
    unfolding read_events
    by (simp add: es_def view_messages_upsert_def view_messages_update_def empty_view_def r0_def
        view_upsert_def view_update_def update_message_event_def newer_def)
  ultimately show ?thesis
    unfolding Let_def key_def [symmetric] es_def [symmetric] b_def [symmetric] r0_def [symmetric] d(2) by blast
qed

text \<open>
  C21: the buffer is bounded. After any pushes, rejected ones included, it holds no more items than
  its limit; a push is rejected exactly when it would exceed the limit and then changes nothing.
  The message of the error is built after the buffer was restored: the count it gives is never
  above the limit it says was exceeded.
\<close>

theorem buffer_bounded:
  "let b = fold (\<lambda>event b. snd (buffer_push event b)) es (buffer_new config) in
    buffer_pending_items b \<le> max_pending_items config \<and> b_config b = config \<and>
    (case buffer_push event b of
       (Inr _, b') \<Rightarrow> b' = apply_event event b \<and> buffer_pending_items b' \<le> max_pending_items config
     | (Inl e, b') \<Rightarrow> b' = b \<and> buffer_pending_items (apply_event event b) > max_pending_items config \<and>
         e = Protocol (''event buffer limit exceeded: '' @ show_nat (buffer_pending_items b) @
           '' pending items exceeds '' @ show_nat (max_pending_items config)))"
proof -
  have step: "buffer_pending_items (snd (buffer_push event b)) \<le> max_pending_items config \<and>
      b_config (snd (buffer_push event b)) = config"
    if "buffer_pending_items b \<le> max_pending_items config" "b_config b = config" for event and b :: "'a EventBuffer"
    using that by (simp add: buffer_push_def Let_def apply_event_keeps)
  have run: "buffer_pending_items (fold (\<lambda>event b. snd (buffer_push event b)) es b) \<le> max_pending_items config \<and>
      b_config (fold (\<lambda>event b. snd (buffer_push event b)) es b) = config"
    if "buffer_pending_items b \<le> max_pending_items config" "b_config b = config" for b :: "'a EventBuffer"
    using that by (induction es arbitrary: b) (simp_all add: step)
  have "buffer_pending_items (buffer_new config) \<le> max_pending_items config"
    by (simp add: buffer_pending_items_def buffer_new_def)
  from run [OF this] show ?thesis
    by (simp add: Let_def buffer_push_def buffer_new_spec apply_event_keeps)
qed

text \<open>
  A history set that waits in the buffer is replaced by the next one: of two that are pushed
  before a flush the first is lost without an error, even when the second is empty.
\<close>

theorem history_overwritten:
  assumes "history_pending_items h1 \<le> max_pending_items config"
    and "history_pending_items h2 \<le> max_pending_items config"
  shows "\<exists>b. push_all [HistorySet h1, HistorySet h2] (buffer_new config) = Inr b \<and>
    fst (drain_events b) =
      (if history_pending_items h2 = 0 then [] else [Batch (empty_batch\<lparr>eb_history := Some h2\<rparr>)])"
  using assms
  by (simp add: buffer_push_def Let_def set_history_def buffer_pending_items_def buffer_new_def
      drained_events drained_batch_def drain_map_values_def drain_set_values_def batch_is_empty_def
      batch_pending_items_def empty_batch_def)

theorem history_overwritten_witness:
  "\<exists>b. push_all [HistorySet \<lparr>hs_chats = [\<lparr>ce_jid = ''a@g.us'', ce_fields = []\<rparr>], hs_contacts = [],
        hs_messages = [], hs_is_latest = False\<rparr>,
      HistorySet \<lparr>hs_chats = [], hs_contacts = [], hs_messages = [], hs_is_latest = True\<rparr>]
      (buffer_new default_buffer_config :: unit EventBuffer) = Inr b \<and> fst (drain_events b) = []"
  using history_overwritten [of "\<lparr>hs_chats = [\<lparr>ce_jid = ''a@g.us'', ce_fields = []\<rparr>], hs_contacts = [],
      hs_messages = [], hs_is_latest = False\<rparr>" default_buffer_config
      "\<lparr>hs_chats = [], hs_contacts = [], hs_messages = [], hs_is_latest = True\<rparr>"]
  by (simp add: default_buffer_config_def history_pending_items_def)

end
