(* ===== verification/StoredEvents.thy ===== *)
theory StoredEvents
  imports Events
begin

text \<open>
  The records in which events are kept in the store,
    \<^verbatim>\<open>crates/wa-core/src/event.rs\<close>: a magic number
  and a version, then the fields, strings and payloads behind their lengths. Writing checks the
  size of each field, reading that of the whole record too.
\<close>

section \<open>Constants\<close>

definition STORED_MESSAGE_EVENT_MAGIC :: bytes where "STORED_MESSAGE_EVENT_MAGIC = bytes_of ''MSEV''"
definition STORED_MESSAGE_UPDATE_MAGIC :: bytes where "STORED_MESSAGE_UPDATE_MAGIC = bytes_of ''MSUP''"
definition STORED_CHAT_EVENT_MAGIC :: bytes where "STORED_CHAT_EVENT_MAGIC = bytes_of ''CHTE''"
definition STORED_CONTACT_EVENT_MAGIC :: bytes where "STORED_CONTACT_EVENT_MAGIC = bytes_of ''CNTE''"
definition STORED_GROUP_EVENT_MAGIC :: bytes where "STORED_GROUP_EVENT_MAGIC = bytes_of ''GRPE''"
definition STORED_BUSINESS_NOTIFICATION_EVENT_MAGIC :: bytes where "STORED_BUSINESS_NOTIFICATION_EVENT_MAGIC = bytes_of ''BZNF''"
definition STORED_NEWSLETTER_REACTION_EVENT_MAGIC :: bytes where "STORED_NEWSLETTER_REACTION_EVENT_MAGIC = bytes_of ''NLRC''"
definition STORED_NEWSLETTER_VIEW_EVENT_MAGIC :: bytes where "STORED_NEWSLETTER_VIEW_EVENT_MAGIC = bytes_of ''NLVW''"
definition STORED_NEWSLETTER_PARTICIPANT_EVENT_MAGIC :: bytes where "STORED_NEWSLETTER_PARTICIPANT_EVENT_MAGIC = bytes_of ''NLPT''"
definition STORED_NEWSLETTER_SETTINGS_EVENT_MAGIC :: bytes where "STORED_NEWSLETTER_SETTINGS_EVENT_MAGIC = bytes_of ''NLST''"
definition STORED_REACHOUT_TIMELOCK_MAGIC :: bytes where "STORED_REACHOUT_TIMELOCK_MAGIC = bytes_of ''RTLK''"
definition STORED_MESSAGE_CAPPING_INFO_MAGIC :: bytes where "STORED_MESSAGE_CAPPING_INFO_MAGIC = bytes_of ''MCAP''"
definition STORED_DEFAULT_DISAPPEARING_MODE_MAGIC :: bytes where "STORED_DEFAULT_DISAPPEARING_MODE_MAGIC = bytes_of ''DDMD''"
definition STORED_ACCOUNT_SETTINGS_EVENT_MAGIC :: bytes where "STORED_ACCOUNT_SETTINGS_EVENT_MAGIC = bytes_of ''ACST''"
definition STORED_LABEL_EVENT_MAGIC :: bytes where "STORED_LABEL_EVENT_MAGIC = bytes_of ''LBLE''"
definition STORED_LABEL_ASSOCIATION_MAGIC :: bytes where "STORED_LABEL_ASSOCIATION_MAGIC = bytes_of ''LBLA''"
definition STORED_QUICK_REPLY_EVENT_MAGIC :: bytes where "STORED_QUICK_REPLY_EVENT_MAGIC = bytes_of ''QRPE''"
definition STORED_RECEIPT_EVENT_MAGIC :: bytes where "STORED_RECEIPT_EVENT_MAGIC = bytes_of ''RCPT''"
definition STORED_REACTION_EVENT_MAGIC :: bytes where "STORED_REACTION_EVENT_MAGIC = bytes_of ''RCTN''"
definition STORED_MEDIA_RETRY_EVENT_MAGIC :: bytes where "STORED_MEDIA_RETRY_EVENT_MAGIC = bytes_of ''MDRT''"
definition STORED_RECENT_STICKER_EVENT_MAGIC :: bytes where "STORED_RECENT_STICKER_EVENT_MAGIC = bytes_of ''RSTK''"
definition STORED_CALL_EVENT_MAGIC :: bytes where "STORED_CALL_EVENT_MAGIC = bytes_of ''CALL''"
definition STORED_PRESENCE_EVENT_MAGIC :: bytes where "STORED_PRESENCE_EVENT_MAGIC = bytes_of ''PRES''"
definition STORED_EVENT_RECORD_VERSION :: u8 where "STORED_EVENT_RECORD_VERSION = 1"
definition MAX_STORED_EVENT_RECORD_BYTES :: nat where "MAX_STORED_EVENT_RECORD_BYTES = 8 * 1024 * 1024"
definition MAX_STORED_EVENT_PAYLOAD_BYTES :: nat where "MAX_STORED_EVENT_PAYLOAD_BYTES = 8 * 1024 * 1024"
definition MAX_STORED_EVENT_STRING_BYTES :: nat where "MAX_STORED_EVENT_STRING_BYTES = 64 * 1024"
definition MAX_STORED_EVENT_FIELD_COUNT :: nat where "MAX_STORED_EVENT_FIELD_COUNT = 1024"

section \<open>Writing fields\<close>

definition put_len_prefixed_bytes :: "bytes \<Rightarrow> nat \<Rightarrow> bytes core_result" where
  "put_len_prefixed_bytes v max_len =
     (if length v > max_len
      then Err (Protocol (''stored message record field exceeds '' @ show_nat max_len @ '' bytes''))
      else if length v \<ge> 2 ^ 32
      then Err (Protocol ''stored message field length does not fit u32'')
      else Ok (put_u32 (word_of_nat (length v)) @ v))"

definition stored_put_bytes :: "bytes \<Rightarrow> bytes core_result" where
  "stored_put_bytes v = put_len_prefixed_bytes v MAX_STORED_EVENT_STRING_BYTES"

definition stored_put_string :: "string \<Rightarrow> bytes core_result" where
  "stored_put_string s = stored_put_bytes (bytes_of s)"

definition put_optional_u64 :: "u64 option \<Rightarrow> bytes" where
  "put_optional_u64 v = (case v of Some v \<Rightarrow> 1 # put_u64 v | None \<Rightarrow> [0])"

definition put_optional_u16 :: "u16 option \<Rightarrow> bytes" where
  "put_optional_u16 v = (case v of Some v \<Rightarrow> 1 # put_u16 v | None \<Rightarrow> [0])"

definition put_optional_string :: "string option \<Rightarrow> bytes core_result" where
  "put_optional_string v = (case v of
     Some v \<Rightarrow> and_then (stored_put_string v) (\<lambda>bs. Ok (1 # bs)) | None \<Rightarrow> Ok [0])"

definition put_optional_bytes :: "bytes option \<Rightarrow> bytes core_result" where
  "put_optional_bytes v = (case v of
     Some v \<Rightarrow> and_then (put_len_prefixed_bytes v MAX_STORED_EVENT_PAYLOAD_BYTES) (\<lambda>bs. Ok (1 # bs))
   | None \<Rightarrow> Ok [0])"

fun put_fields :: "fields \<Rightarrow> bytes core_result" where
  "put_fields [] = Ok []"
| "put_fields ((key, val) # kvs) =
     and_then (stored_put_string key) (\<lambda>k. and_then (stored_put_string val) (\<lambda>v.
     and_then (put_fields kvs) (\<lambda>rest. Ok (k @ v @ rest))))"

definition put_string_map :: "fields \<Rightarrow> bytes core_result" where
  "put_string_map kvs =
     (if length kvs > MAX_STORED_EVENT_FIELD_COUNT
      then Err (Protocol (''stored message record has too many fields: '' @ show_nat (length kvs)))
      else if length kvs \<ge> 2 ^ 32
      then Err (Protocol ''stored message field count does not fit u32'')
      else and_then (put_fields kvs) (\<lambda>bs. Ok (put_u32 (word_of_nat (length kvs)) @ bs)))"

definition put_message_event_key :: "MessageEventKey \<Rightarrow> bytes core_result" where
  "put_message_event_key key =
     and_then (stored_put_string (key_remote_jid key)) (\<lambda>jid.
     and_then (stored_put_string (key_message_id key)) (\<lambda>i.
     and_then (put_optional_string (key_participant key)) (\<lambda>p. Ok (jid @ i @ p))))"

text \<open>\<open>u8::from(b)\<close>\<close>

definition flag_byte :: "bool \<Rightarrow> u8" where
  "flag_byte b = (if b then 1 else 0)"

definition put_label_target :: "LabelAssociationTarget \<Rightarrow> bytes core_result" where
  "put_label_target target = (case target of
     TargetChat chat_jid \<Rightarrow> and_then (stored_put_string chat_jid) (\<lambda>c. Ok (0 # c))
   | TargetMessage chat_jid message_id \<Rightarrow>
       and_then (stored_put_string chat_jid) (\<lambda>c.
       and_then (stored_put_string message_id) (\<lambda>m. Ok (1 # c @ m))))"

text \<open>
  The encoders append to one buffer: the magic, the version and the fields in order; the first
  error ends the encoding.
\<close>

fun put_parts :: "bytes core_result list \<Rightarrow> bytes core_result" where
  "put_parts [] = Ok []"
| "put_parts (p # ps) = and_then p (\<lambda>bs. and_then (put_parts ps) (\<lambda>rest. Ok (bs @ rest)))"

definition put_record :: "bytes \<Rightarrow> bytes core_result list \<Rightarrow> bytes core_result" where
  "put_record magic parts =
     and_then (put_parts parts) (\<lambda>bs. Ok (magic @ STORED_EVENT_RECORD_VERSION # bs))"

section \<open>Reading fields\<close>

text \<open>A reader returns the value and the rest of the input.\<close>

type_synonym 'a stored_read = "('a \<times> bytes) core_result"

definition validate_stored_record_len :: "bytes \<Rightarrow> unit core_result" where
  "validate_stored_record_len bs =
     (if length bs > MAX_STORED_EVENT_RECORD_BYTES
      then Err (Protocol (''stored message record exceeds '' @ show_nat MAX_STORED_EVENT_RECORD_BYTES @
        '' bytes''))
      else Ok ())"

definition read_len_prefixed_bytes :: "bytes \<Rightarrow> nat \<Rightarrow> bytes stored_read" where
  "read_len_prefixed_bytes input max_len =
     (if length input < 4 then Err (Protocol ''stored message record missing byte length'')
      else
        let (len, input) = get_u32 input in
        if unat len > max_len
        then Err (Protocol (''stored message record field exceeds '' @ show_nat max_len @ '' bytes''))
        else if length input < unat len then Err (Protocol ''stored message record has truncated bytes'')
        else Ok (take (unat len) input, drop (unat len) input))"

definition stored_read_bytes :: "bytes \<Rightarrow> bytes stored_read" where
  "stored_read_bytes input = read_len_prefixed_bytes input MAX_STORED_EVENT_STRING_BYTES"

definition stored_read_string :: "bytes \<Rightarrow> string stored_read" where
  "stored_read_string input =
     and_then (stored_read_bytes input) (\<lambda>(v, input).
     and_then (map_err (\<lambda>_. Protocol ''stored message record contains invalid UTF-8'') (string_from_utf8 v))
       (\<lambda>s. Ok (s, input)))"

text \<open>The three readers of optional fields share the shape of the tag.\<close>

definition read_optional :: "string \<Rightarrow> string \<Rightarrow> (bytes \<Rightarrow> 'a stored_read) \<Rightarrow> bytes \<Rightarrow> 'a option stored_read" where
  "read_optional owner kind read input = (case input of
     [] \<Rightarrow> Err (Protocol (''stored '' @ owner @ '' record missing optional '' @ kind @ '' tag''))
   | tag # input \<Rightarrow>
       if tag = 0 then Ok (None, input)
       else if tag = 1 then and_then (read input) (\<lambda>(v, input). Ok (Some v, input))
       else Err (Protocol (''stored '' @ owner @ '' record has invalid optional '' @ kind @ '' tag '' @
         show_nat (unat tag))))"

definition read_optional_u64 :: "bytes \<Rightarrow> u64 option stored_read" where
  "read_optional_u64 = read_optional ''message'' ''u64'' (\<lambda>input.
     if length input < 8 then Err (Protocol ''stored message record has truncated u64'')
     else Ok (get_u64 input))"

definition read_optional_u16 :: "bytes \<Rightarrow> u16 option stored_read" where
  "read_optional_u16 = read_optional ''event'' ''u16'' (\<lambda>input.
     if length input < 2 then Err (Protocol ''stored event record has truncated u16'')
     else Ok (get_u16 input))"

definition read_optional_string :: "bytes \<Rightarrow> string option stored_read" where
  "read_optional_string = read_optional ''message'' ''string'' stored_read_string"

definition read_optional_bytes :: "bytes \<Rightarrow> bytes option stored_read" where
  "read_optional_bytes = read_optional ''message'' ''bytes''
     (\<lambda>input. read_len_prefixed_bytes input MAX_STORED_EVENT_PAYLOAD_BYTES)"

fun read_fields :: "nat \<Rightarrow> bytes \<Rightarrow> fields \<Rightarrow> fields stored_read" where
  "read_fields 0 input kvs = Ok (kvs, input)"
| "read_fields (Suc n) input kvs =
     and_then (stored_read_string input) (\<lambda>(key, input).
     and_then (stored_read_string input) (\<lambda>(val, input).
     read_fields n input (btree_insert key val kvs)))"

definition read_string_map :: "bytes \<Rightarrow> fields stored_read" where
  "read_string_map input =
     (if length input < 4 then Err (Protocol ''stored message record missing field count'')
      else
        let (count, input) = get_u32 input in
        if unat count > MAX_STORED_EVENT_FIELD_COUNT
        then Err (Protocol (''stored message record has too many fields: '' @ show_nat (unat count)))
        else read_fields (unat count) input [])"

definition read_message_event_key :: "bytes \<Rightarrow> MessageEventKey stored_read" where
  "read_message_event_key input =
     and_then (stored_read_string input) (\<lambda>(remote_jid, input).
     and_then (stored_read_string input) (\<lambda>(i, input).
     and_then (read_optional_string input) (\<lambda>(participant, input).
     Ok (MessageEventKey remote_jid i participant, input))))"

text \<open>\<open>match input.get_u8()\<close> with the values 0 and 1.\<close>

definition read_flag :: "string \<Rightarrow> string \<Rightarrow> bytes \<Rightarrow> bool stored_read" where
  "read_flag label name input = (case input of
     [] \<Rightarrow> Err (Protocol (''stored '' @ label @ '' missing '' @ name))
   | v # input \<Rightarrow>
       if v = 0 then Ok (False, input) else if v = 1 then Ok (True, input)
       else Err (Protocol (''stored '' @ label @ '' has invalid '' @ name @ '' '' @ show_nat (unat v))))"

definition read_fixed_u64 :: "string \<Rightarrow> bytes \<Rightarrow> u64 stored_read" where
  "read_fixed_u64 what input =
     (if length input < 8 then Err (Protocol (''stored '' @ what)) else Ok (get_u64 input))"

definition read_fixed_u32 :: "string \<Rightarrow> bytes \<Rightarrow> u32 stored_read" where
  "read_fixed_u32 what input =
     (if length input < 4 then Err (Protocol (''stored '' @ what)) else Ok (get_u32 input))"

definition read_label_target :: "bytes \<Rightarrow> LabelAssociationTarget stored_read" where
  "read_label_target input = (case input of
     [] \<Rightarrow> Err (Protocol ''stored label association missing target type'')
   | v # input \<Rightarrow>
       if v = 0 then and_then (stored_read_string input) (\<lambda>(chat_jid, input). Ok (TargetChat chat_jid, input))
       else if v = 1 then
         and_then (stored_read_string input) (\<lambda>(chat_jid, input).
         and_then (stored_read_string input) (\<lambda>(message_id, input).
         Ok (TargetMessage chat_jid message_id, input)))
       else Err (Protocol (''stored label association has invalid target type '' @ show_nat (unat v))))"

definition read_magic :: "bytes \<Rightarrow> bytes \<Rightarrow> string \<Rightarrow> bytes core_result" where
  "read_magic input expected label =
     (if length input < 5 then Err (Protocol (''stored '' @ label @ '' record is truncated''))
      else if take 4 input \<noteq> expected
      then Err (Protocol (''stored '' @ label @ '' record has invalid magic''))
      else
        let version = input ! 4 in
        if version \<noteq> STORED_EVENT_RECORD_VERSION
        then Err (Protocol (''stored '' @ label @ '' record version '' @ show_nat (unat version) @
          '' is not supported''))
        else Ok (drop 5 input))"

definition reject_trailing_stored_bytes :: "bytes \<Rightarrow> string \<Rightarrow> unit core_result" where
  "reject_trailing_stored_bytes input label =
     (if input = [] then Ok ()
      else Err (Protocol (''stored '' @ label @ '' record has '' @ show_nat (length input) @
        '' trailing bytes'')))"

section \<open>The records\<close>

definition encode_stored_jid_fields_record :: "bytes \<Rightarrow> string \<Rightarrow> fields \<Rightarrow> bytes core_result" where
  "encode_stored_jid_fields_record magic jid kvs =
     put_record magic [stored_put_string jid, put_string_map kvs]"

definition decode_stored_jid_fields_record ::
  "bytes \<Rightarrow> bytes \<Rightarrow> string \<Rightarrow> (string \<times> fields) core_result" where
  "decode_stored_jid_fields_record bs magic label =
     and_then (validate_stored_record_len bs) (\<lambda>_.
     and_then (read_magic bs magic label) (\<lambda>input.
     and_then (stored_read_string input) (\<lambda>(jid, input).
     and_then (read_string_map input) (\<lambda>(kvs, input).
     and_then (reject_trailing_stored_bytes input label) (\<lambda>_.
     Ok (jid, kvs))))))"

definition encode_stored_message_event :: "MessageEvent \<Rightarrow> bytes core_result" where
  "encode_stored_message_event e = put_record STORED_MESSAGE_EVENT_MAGIC
     [put_message_event_key (me_key e),
      Ok (put_optional_u64 (me_timestamp e)),
      put_optional_bytes (me_payload e),
      put_string_map (me_fields e)]"

definition decode_stored_message_event :: "bytes \<Rightarrow> MessageEvent core_result" where
  "decode_stored_message_event bs =
     and_then (validate_stored_record_len bs) (\<lambda>_.
     and_then (read_magic bs STORED_MESSAGE_EVENT_MAGIC ''message event'') (\<lambda>input.
     and_then (read_message_event_key input) (\<lambda>(key, input).
     and_then (read_optional_u64 input) (\<lambda>(timestamp, input).
     and_then (read_optional_bytes input) (\<lambda>(payload, input).
     and_then (read_string_map input) (\<lambda>(kvs, input).
     and_then (reject_trailing_stored_bytes input ''message event'') (\<lambda>_.
     Ok \<lparr>me_key = key, me_timestamp = timestamp, me_payload = payload,
       me_fields = kvs\<rparr>)))))))"

definition encode_stored_message_update :: "MessageUpdate \<Rightarrow> bytes core_result" where
  "encode_stored_message_update e = put_record STORED_MESSAGE_UPDATE_MAGIC
     [put_message_event_key (mu_key e),
      Ok (put_optional_u64 (mu_timestamp e)),
      put_string_map (mu_fields e)]"

definition decode_stored_message_update :: "bytes \<Rightarrow> MessageUpdate core_result" where
  "decode_stored_message_update bs =
     and_then (validate_stored_record_len bs) (\<lambda>_.
     and_then (read_magic bs STORED_MESSAGE_UPDATE_MAGIC ''message update'') (\<lambda>input.
     and_then (read_message_event_key input) (\<lambda>(key, input).
     and_then (read_optional_u64 input) (\<lambda>(timestamp, input).
     and_then (read_string_map input) (\<lambda>(kvs, input).
     and_then (reject_trailing_stored_bytes input ''message update'') (\<lambda>_.
     Ok \<lparr>mu_key = key, mu_timestamp = timestamp, mu_fields = kvs\<rparr>))))))"

definition encode_stored_chat_event :: "ChatEvent \<Rightarrow> bytes core_result" where
  "encode_stored_chat_event e = encode_stored_jid_fields_record STORED_CHAT_EVENT_MAGIC (ce_jid e) (ce_fields e)"

definition decode_stored_chat_event :: "bytes \<Rightarrow> ChatEvent core_result" where
  "decode_stored_chat_event bs =
     and_then (decode_stored_jid_fields_record bs STORED_CHAT_EVENT_MAGIC ''chat'') (\<lambda>(jid, kvs).
     Ok \<lparr>ce_jid = jid, ce_fields = kvs\<rparr>)"

definition encode_stored_contact_event :: "ContactEvent \<Rightarrow> bytes core_result" where
  "encode_stored_contact_event e = encode_stored_jid_fields_record STORED_CONTACT_EVENT_MAGIC (co_jid e) (co_fields e)"

definition decode_stored_contact_event :: "bytes \<Rightarrow> ContactEvent core_result" where
  "decode_stored_contact_event bs =
     and_then (decode_stored_jid_fields_record bs STORED_CONTACT_EVENT_MAGIC ''contact'') (\<lambda>(jid, kvs).
     Ok \<lparr>co_jid = jid, co_fields = kvs\<rparr>)"

definition encode_stored_group_event :: "GroupUpdateEvent \<Rightarrow> bytes core_result" where
  "encode_stored_group_event e = encode_stored_jid_fields_record STORED_GROUP_EVENT_MAGIC (gu_jid e) (gu_fields e)"

definition decode_stored_group_event :: "bytes \<Rightarrow> GroupUpdateEvent core_result" where
  "decode_stored_group_event bs =
     and_then (decode_stored_jid_fields_record bs STORED_GROUP_EVENT_MAGIC ''group'') (\<lambda>(jid, kvs).
     Ok \<lparr>gu_jid = jid, gu_fields = kvs\<rparr>)"

definition encode_stored_business_notification_event :: "BusinessNotificationEvent \<Rightarrow> bytes core_result" where
  "encode_stored_business_notification_event e = put_record STORED_BUSINESS_NOTIFICATION_EVENT_MAGIC
     [stored_put_string (bn_from e),
      stored_put_string (bn_notification_id e),
      stored_put_string (bn_event_type e),
      put_string_map (bn_fields e)]"

definition decode_stored_business_notification_event :: "bytes \<Rightarrow> BusinessNotificationEvent core_result" where
  "decode_stored_business_notification_event bs =
     and_then (validate_stored_record_len bs) (\<lambda>_.
     and_then (read_magic bs STORED_BUSINESS_NOTIFICATION_EVENT_MAGIC ''business notification'') (\<lambda>input.
     and_then (stored_read_string input) (\<lambda>(sender, input).
     and_then (stored_read_string input) (\<lambda>(notification_id, input).
     and_then (stored_read_string input) (\<lambda>(event_type, input).
     and_then (read_string_map input) (\<lambda>(kvs, input).
     and_then (reject_trailing_stored_bytes input ''business notification'') (\<lambda>_.
     Ok \<lparr>bn_from = sender, bn_notification_id = notification_id, bn_event_type = event_type,
       bn_fields = kvs\<rparr>)))))))"

definition encode_stored_newsletter_reaction_event :: "NewsletterReactionEvent \<Rightarrow> bytes core_result" where
  "encode_stored_newsletter_reaction_event e = put_record STORED_NEWSLETTER_REACTION_EVENT_MAGIC
     [stored_put_string (nr_id e),
      stored_put_string (nr_server_id e),
      put_optional_string (nr_code e),
      Ok (put_optional_u64 (nr_count e)),
      Ok [flag_byte (nr_removed e)]]"

definition decode_stored_newsletter_reaction_event :: "bytes \<Rightarrow> NewsletterReactionEvent core_result" where
  "decode_stored_newsletter_reaction_event bs =
     and_then (validate_stored_record_len bs) (\<lambda>_.
     and_then (read_magic bs STORED_NEWSLETTER_REACTION_EVENT_MAGIC ''newsletter reaction'') (\<lambda>input.
     and_then (stored_read_string input) (\<lambda>(ident, input).
     and_then (stored_read_string input) (\<lambda>(server_id, input).
     and_then (read_optional_string input) (\<lambda>(code, input).
     and_then (read_optional_u64 input) (\<lambda>(count, input).
     and_then (read_flag ''newsletter reaction'' ''removed flag'' input) (\<lambda>(removed, input).
     and_then (reject_trailing_stored_bytes input ''newsletter reaction'') (\<lambda>_.
     Ok \<lparr>nr_id = ident, nr_server_id = server_id, nr_code = code, nr_count = count,
       nr_removed = removed\<rparr>))))))))"

definition encode_stored_newsletter_view_event :: "NewsletterViewEvent \<Rightarrow> bytes core_result" where
  "encode_stored_newsletter_view_event e = put_record STORED_NEWSLETTER_VIEW_EVENT_MAGIC
     [stored_put_string (nv_id e),
      stored_put_string (nv_server_id e),
      Ok (put_u64 (nv_count e))]"

definition decode_stored_newsletter_view_event :: "bytes \<Rightarrow> NewsletterViewEvent core_result" where
  "decode_stored_newsletter_view_event bs =
     and_then (validate_stored_record_len bs) (\<lambda>_.
     and_then (read_magic bs STORED_NEWSLETTER_VIEW_EVENT_MAGIC ''newsletter view'') (\<lambda>input.
     and_then (stored_read_string input) (\<lambda>(ident, input).
     and_then (stored_read_string input) (\<lambda>(server_id, input).
     and_then (read_fixed_u64 ''newsletter view has truncated count'' input) (\<lambda>(count, input).
     and_then (reject_trailing_stored_bytes input ''newsletter view'') (\<lambda>_.
     Ok \<lparr>nv_id = ident, nv_server_id = server_id, nv_count = count\<rparr>))))))"

definition encode_stored_newsletter_participant_update_event :: "NewsletterParticipantUpdateEvent \<Rightarrow> bytes core_result" where
  "encode_stored_newsletter_participant_update_event e = put_record STORED_NEWSLETTER_PARTICIPANT_EVENT_MAGIC
     [stored_put_string (np_id e),
      stored_put_string (np_author e),
      stored_put_string (np_user e),
      stored_put_string (np_action e),
      stored_put_string (np_new_role e)]"

definition decode_stored_newsletter_participant_update_event :: "bytes \<Rightarrow> NewsletterParticipantUpdateEvent core_result" where
  "decode_stored_newsletter_participant_update_event bs =
     and_then (validate_stored_record_len bs) (\<lambda>_.
     and_then (read_magic bs STORED_NEWSLETTER_PARTICIPANT_EVENT_MAGIC ''newsletter participant'') (\<lambda>input.
     and_then (stored_read_string input) (\<lambda>(ident, input).
     and_then (stored_read_string input) (\<lambda>(author, input).
     and_then (stored_read_string input) (\<lambda>(user, input).
     and_then (stored_read_string input) (\<lambda>(action, input).
     and_then (stored_read_string input) (\<lambda>(new_role, input).
     and_then (reject_trailing_stored_bytes input ''newsletter participant'') (\<lambda>_.
     Ok \<lparr>np_id = ident, np_author = author, np_user = user, np_action = action,
       np_new_role = new_role\<rparr>))))))))"

definition encode_stored_newsletter_settings_update_event :: "NewsletterSettingsUpdateEvent \<Rightarrow> bytes core_result" where
  "encode_stored_newsletter_settings_update_event e = put_record STORED_NEWSLETTER_SETTINGS_EVENT_MAGIC
     [stored_put_string (ns_id e),
      put_string_map (ns_fields e)]"

definition decode_stored_newsletter_settings_update_event :: "bytes \<Rightarrow> NewsletterSettingsUpdateEvent core_result" where
  "decode_stored_newsletter_settings_update_event bs =
     and_then (validate_stored_record_len bs) (\<lambda>_.
     and_then (read_magic bs STORED_NEWSLETTER_SETTINGS_EVENT_MAGIC ''newsletter settings'') (\<lambda>input.
     and_then (stored_read_string input) (\<lambda>(ident, input).
     and_then (read_string_map input) (\<lambda>(kvs, input).
     and_then (reject_trailing_stored_bytes input ''newsletter settings'') (\<lambda>_.
     Ok \<lparr>ns_id = ident, ns_fields = kvs\<rparr>)))))"

definition encode_stored_reachout_timelock_state :: "ReachoutTimelockState \<Rightarrow> bytes core_result" where
  "encode_stored_reachout_timelock_state e = put_record STORED_REACHOUT_TIMELOCK_MAGIC
     [Ok [flag_byte (rt_is_active e)],
      Ok (put_optional_u64 (rt_time_enforcement_ends e)),
      stored_put_string (reachout_type_as_wire_str (rt_enforcement_type e))]"

definition decode_stored_reachout_timelock_state :: "bytes \<Rightarrow> ReachoutTimelockState core_result" where
  "decode_stored_reachout_timelock_state bs =
     and_then (validate_stored_record_len bs) (\<lambda>_.
     and_then (read_magic bs STORED_REACHOUT_TIMELOCK_MAGIC ''reachout timelock'') (\<lambda>input.
     and_then (read_flag ''reachout timelock'' ''active flag'' input) (\<lambda>(is_active, input).
     and_then (read_optional_u64 input) (\<lambda>(time_enforcement_ends, input).
     and_then (stored_read_string input) (\<lambda>(enforcement_type, input).
     and_then (reject_trailing_stored_bytes input ''reachout timelock'') (\<lambda>_.
     Ok \<lparr>rt_is_active = is_active, rt_time_enforcement_ends = time_enforcement_ends,
       rt_enforcement_type = reachout_type_from_wire enforcement_type\<rparr>))))))"

definition encode_stored_message_capping_info :: "MessageCappingInfo \<Rightarrow> bytes core_result" where
  "encode_stored_message_capping_info e = put_record STORED_MESSAGE_CAPPING_INFO_MAGIC
     [Ok (put_optional_u64 (mc_total_quota e)),
      Ok (put_optional_u64 (mc_used_quota e)),
      Ok (put_optional_u64 (mc_cycle_start_timestamp e)),
      Ok (put_optional_u64 (mc_cycle_end_timestamp e)),
      Ok (put_optional_u64 (mc_server_sent_timestamp e)),
      put_optional_string (map_option one_time_extension_as_wire_str (mc_one_time_extension_status e)),
      put_optional_string (map_option multi_variation_as_wire_str (mc_multi_variation_status e)),
      put_optional_string (map_option capping_status_as_wire_str (mc_capping_status e))]"

definition decode_stored_message_capping_info :: "bytes \<Rightarrow> MessageCappingInfo core_result" where
  "decode_stored_message_capping_info bs =
     and_then (validate_stored_record_len bs) (\<lambda>_.
     and_then (read_magic bs STORED_MESSAGE_CAPPING_INFO_MAGIC ''message capping info'') (\<lambda>input.
     and_then (read_optional_u64 input) (\<lambda>(total_quota, input).
     and_then (read_optional_u64 input) (\<lambda>(used_quota, input).
     and_then (read_optional_u64 input) (\<lambda>(cycle_start_timestamp, input).
     and_then (read_optional_u64 input) (\<lambda>(cycle_end_timestamp, input).
     and_then (read_optional_u64 input) (\<lambda>(server_sent_timestamp, input).
     and_then (read_optional_string input) (\<lambda>(one_time_extension_status, input).
     and_then (read_optional_string input) (\<lambda>(multi_variation_status, input).
     and_then (read_optional_string input) (\<lambda>(capping_status, input).
     and_then (reject_trailing_stored_bytes input ''message capping info'') (\<lambda>_.
     Ok \<lparr>mc_total_quota = total_quota, mc_used_quota = used_quota,
       mc_cycle_start_timestamp = cycle_start_timestamp, mc_cycle_end_timestamp = cycle_end_timestamp,
         mc_server_sent_timestamp = server_sent_timestamp,
           mc_one_time_extension_status = map_option one_time_extension_from_wire one_time_extension_status, mc_multi_variation_status = map_option multi_variation_from_wire multi_variation_status, mc_capping_status = map_option capping_status_from_wire capping_status\<rparr>)))))))))))"

definition encode_stored_default_disappearing_mode :: "DefaultDisappearingMode \<Rightarrow> bytes core_result" where
  "encode_stored_default_disappearing_mode e = put_record STORED_DEFAULT_DISAPPEARING_MODE_MAGIC
     [Ok (put_u32 (dd_duration_seconds e)),
      Ok (put_optional_u64 (dd_timestamp e))]"

definition decode_stored_default_disappearing_mode :: "bytes \<Rightarrow> DefaultDisappearingMode core_result" where
  "decode_stored_default_disappearing_mode bs =
     and_then (validate_stored_record_len bs) (\<lambda>_.
     and_then (read_magic bs STORED_DEFAULT_DISAPPEARING_MODE_MAGIC ''default disappearing mode'') (\<lambda>input.
     and_then (read_fixed_u32 ''default disappearing mode missing duration'' input) (\<lambda>(duration_seconds, input).
     and_then (read_optional_u64 input) (\<lambda>(timestamp, input).
     and_then (reject_trailing_stored_bytes input ''default disappearing mode'') (\<lambda>_.
     Ok \<lparr>dd_duration_seconds = duration_seconds, dd_timestamp = timestamp\<rparr>)))))"

definition encode_stored_account_settings_event :: "AccountSettingsEvent \<Rightarrow> bytes core_result" where
  "encode_stored_account_settings_event e = put_record STORED_ACCOUNT_SETTINGS_EVENT_MAGIC
     [stored_put_string (as_id e),
      put_string_map (as_fields e)]"

definition decode_stored_account_settings_event :: "bytes \<Rightarrow> AccountSettingsEvent core_result" where
  "decode_stored_account_settings_event bs =
     and_then (validate_stored_record_len bs) (\<lambda>_.
     and_then (read_magic bs STORED_ACCOUNT_SETTINGS_EVENT_MAGIC ''account settings'') (\<lambda>input.
     and_then (stored_read_string input) (\<lambda>(ident, input).
     and_then (read_string_map input) (\<lambda>(kvs, input).
     and_then (reject_trailing_stored_bytes input ''account settings'') (\<lambda>_.
     Ok \<lparr>as_id = ident, as_fields = kvs\<rparr>)))))"

definition encode_stored_label_event :: "LabelEvent \<Rightarrow> bytes core_result" where
  "encode_stored_label_event e = put_record STORED_LABEL_EVENT_MAGIC
     [stored_put_string (le_id e),
      put_string_map (le_fields e)]"

definition decode_stored_label_event :: "bytes \<Rightarrow> LabelEvent core_result" where
  "decode_stored_label_event bs =
     and_then (validate_stored_record_len bs) (\<lambda>_.
     and_then (read_magic bs STORED_LABEL_EVENT_MAGIC ''label'') (\<lambda>input.
     and_then (stored_read_string input) (\<lambda>(ident, input).
     and_then (read_string_map input) (\<lambda>(kvs, input).
     and_then (reject_trailing_stored_bytes input ''label'') (\<lambda>_.
     Ok \<lparr>le_id = ident, le_fields = kvs\<rparr>)))))"

definition encode_stored_label_association_event :: "LabelAssociationEvent \<Rightarrow> bytes core_result" where
  "encode_stored_label_association_event e = put_record STORED_LABEL_ASSOCIATION_MAGIC
     [stored_put_string (la_label_id e),
      put_label_target (la_target e),
      Ok [flag_byte (la_labeled e)]]"

definition decode_stored_label_association_event :: "bytes \<Rightarrow> LabelAssociationEvent core_result" where
  "decode_stored_label_association_event bs =
     and_then (validate_stored_record_len bs) (\<lambda>_.
     and_then (read_magic bs STORED_LABEL_ASSOCIATION_MAGIC ''label association'') (\<lambda>input.
     and_then (stored_read_string input) (\<lambda>(label_id, input).
     and_then (read_label_target input) (\<lambda>(target, input).
     and_then (read_flag ''label association'' ''labeled flag'' input) (\<lambda>(labeled, input).
     and_then (reject_trailing_stored_bytes input ''label association'') (\<lambda>_.
     Ok \<lparr>la_label_id = label_id, la_target = target, la_labeled = labeled\<rparr>))))))"

definition encode_stored_quick_reply_event :: "QuickReplyEvent \<Rightarrow> bytes core_result" where
  "encode_stored_quick_reply_event e = put_record STORED_QUICK_REPLY_EVENT_MAGIC
     [stored_put_string (qr_id e),
      put_string_map (qr_fields e)]"

definition decode_stored_quick_reply_event :: "bytes \<Rightarrow> QuickReplyEvent core_result" where
  "decode_stored_quick_reply_event bs =
     and_then (validate_stored_record_len bs) (\<lambda>_.
     and_then (read_magic bs STORED_QUICK_REPLY_EVENT_MAGIC ''quick reply'') (\<lambda>input.
     and_then (stored_read_string input) (\<lambda>(ident, input).
     and_then (read_string_map input) (\<lambda>(kvs, input).
     and_then (reject_trailing_stored_bytes input ''quick reply'') (\<lambda>_.
     Ok \<lparr>qr_id = ident, qr_fields = kvs\<rparr>)))))"

definition encode_stored_receipt_event :: "ReceiptEvent \<Rightarrow> bytes core_result" where
  "encode_stored_receipt_event e = put_record STORED_RECEIPT_EVENT_MAGIC
     [put_message_event_key (re_key e),
      stored_put_string (re_receipt_type e),
      put_optional_string (re_participant e),
      Ok (put_optional_u64 (re_timestamp e))]"

definition decode_stored_receipt_event :: "bytes \<Rightarrow> ReceiptEvent core_result" where
  "decode_stored_receipt_event bs =
     and_then (validate_stored_record_len bs) (\<lambda>_.
     and_then (read_magic bs STORED_RECEIPT_EVENT_MAGIC ''receipt'') (\<lambda>input.
     and_then (read_message_event_key input) (\<lambda>(key, input).
     and_then (stored_read_string input) (\<lambda>(receipt_type, input).
     and_then (read_optional_string input) (\<lambda>(participant, input).
     and_then (read_optional_u64 input) (\<lambda>(timestamp, input).
     and_then (reject_trailing_stored_bytes input ''receipt'') (\<lambda>_.
     Ok \<lparr>re_key = key, re_receipt_type = receipt_type, re_participant = participant,
       re_timestamp = timestamp\<rparr>)))))))"

definition encode_stored_reaction_event :: "ReactionEvent \<Rightarrow> bytes core_result" where
  "encode_stored_reaction_event e = put_record STORED_REACTION_EVENT_MAGIC
     [put_message_event_key (rx_key e),
      stored_put_string (rx_from_jid e),
      put_optional_string (rx_text e),
      Ok (put_optional_u64 (rx_timestamp e))]"

definition decode_stored_reaction_event :: "bytes \<Rightarrow> ReactionEvent core_result" where
  "decode_stored_reaction_event bs =
     and_then (validate_stored_record_len bs) (\<lambda>_.
     and_then (read_magic bs STORED_REACTION_EVENT_MAGIC ''reaction'') (\<lambda>input.
     and_then (read_message_event_key input) (\<lambda>(key, input).
     and_then (stored_read_string input) (\<lambda>(from_jid, input).
     and_then (read_optional_string input) (\<lambda>(text, input).
     and_then (read_optional_u64 input) (\<lambda>(timestamp, input).
     and_then (reject_trailing_stored_bytes input ''reaction'') (\<lambda>_.
     Ok \<lparr>rx_key = key, rx_from_jid = from_jid, rx_text = text,
       rx_timestamp = timestamp\<rparr>)))))))"

definition encode_stored_media_retry_event :: "MediaRetryEvent \<Rightarrow> bytes core_result" where
  "encode_stored_media_retry_event e = put_record STORED_MEDIA_RETRY_EVENT_MAGIC
     [put_message_event_key (mr_key e),
      Ok [flag_byte (mr_from_me e)],
      put_optional_bytes (mr_encrypted_payload e),
      put_optional_bytes (mr_iv e),
      Ok (put_optional_u16 (mr_error_code e)),
      put_optional_string (mr_error_text e),
      Ok (put_optional_u16 (mr_status_code e))]"

definition decode_stored_media_retry_event :: "bytes \<Rightarrow> MediaRetryEvent core_result" where
  "decode_stored_media_retry_event bs =
     and_then (validate_stored_record_len bs) (\<lambda>_.
     and_then (read_magic bs STORED_MEDIA_RETRY_EVENT_MAGIC ''media retry'') (\<lambda>input.
     and_then (read_message_event_key input) (\<lambda>(key, input).
     and_then (read_flag ''media retry'' ''from_me flag'' input) (\<lambda>(from_me, input).
     and_then (read_optional_bytes input) (\<lambda>(encrypted_payload, input).
     and_then (read_optional_bytes input) (\<lambda>(iv, input).
     and_then (read_optional_u16 input) (\<lambda>(error_code, input).
     and_then (read_optional_string input) (\<lambda>(error_text, input).
     and_then (read_optional_u16 input) (\<lambda>(status_code, input).
     and_then (reject_trailing_stored_bytes input ''media retry'') (\<lambda>_.
     Ok \<lparr>mr_key = key, mr_from_me = from_me, mr_encrypted_payload = encrypted_payload,
       mr_iv = iv, mr_error_code = error_code, mr_error_text = error_text,
         mr_status_code = status_code\<rparr>))))))))))"

definition encode_stored_recent_sticker_event :: "RecentStickerEvent \<Rightarrow> bytes core_result" where
  "encode_stored_recent_sticker_event e = put_record STORED_RECENT_STICKER_EVENT_MAGIC
     [stored_put_string (rs_id e),
      put_optional_bytes (rs_file_sha256 e),
      put_optional_bytes (rs_file_enc_sha256 e),
      put_optional_bytes (rs_media_key e),
      put_string_map (rs_fields e)]"

definition decode_stored_recent_sticker_event :: "bytes \<Rightarrow> RecentStickerEvent core_result" where
  "decode_stored_recent_sticker_event bs =
     and_then (validate_stored_record_len bs) (\<lambda>_.
     and_then (read_magic bs STORED_RECENT_STICKER_EVENT_MAGIC ''recent sticker'') (\<lambda>input.
     and_then (stored_read_string input) (\<lambda>(ident, input).
     and_then (read_optional_bytes input) (\<lambda>(file_sha256, input).
     and_then (read_optional_bytes input) (\<lambda>(file_enc_sha256, input).
     and_then (read_optional_bytes input) (\<lambda>(media_key, input).
     and_then (read_string_map input) (\<lambda>(kvs, input).
     and_then (reject_trailing_stored_bytes input ''recent sticker'') (\<lambda>_.
     Ok \<lparr>rs_id = ident, rs_file_sha256 = file_sha256, rs_file_enc_sha256 = file_enc_sha256,
       rs_media_key = media_key, rs_fields = kvs\<rparr>))))))))"

definition encode_stored_call_event :: "CallEvent \<Rightarrow> bytes core_result" where
  "encode_stored_call_event e = put_record STORED_CALL_EVENT_MAGIC
     [stored_put_string (cl_id e),
      stored_put_string (cl_from e),
      stored_put_string (cl_event_type e),
      put_optional_string (cl_call_id e),
      put_optional_string (cl_participant e),
      Ok (put_optional_u64 (cl_timestamp e)),
      put_string_map (cl_fields e)]"

definition decode_stored_call_event :: "bytes \<Rightarrow> CallEvent core_result" where
  "decode_stored_call_event bs =
     and_then (validate_stored_record_len bs) (\<lambda>_.
     and_then (read_magic bs STORED_CALL_EVENT_MAGIC ''call'') (\<lambda>input.
     and_then (stored_read_string input) (\<lambda>(ident, input).
     and_then (stored_read_string input) (\<lambda>(sender, input).
     and_then (stored_read_string input) (\<lambda>(event_type, input).
     and_then (read_optional_string input) (\<lambda>(call_id, input).
     and_then (read_optional_string input) (\<lambda>(participant, input).
     and_then (read_optional_u64 input) (\<lambda>(timestamp, input).
     and_then (read_string_map input) (\<lambda>(kvs, input).
     and_then (reject_trailing_stored_bytes input ''call'') (\<lambda>_.
     Ok \<lparr>cl_id = ident, cl_from = sender, cl_event_type = event_type, cl_call_id = call_id,
       cl_participant = participant, cl_timestamp = timestamp, cl_fields = kvs\<rparr>))))))))))"

definition encode_stored_presence_event :: "PresenceEvent \<Rightarrow> bytes core_result" where
  "encode_stored_presence_event e = put_record STORED_PRESENCE_EVENT_MAGIC
     [stored_put_string (pe_jid e),
      stored_put_string (pe_presence_type e),
      put_optional_string (pe_participant e),
      Ok (put_optional_u64 (pe_timestamp e)),
      put_string_map (pe_fields e)]"

definition decode_stored_presence_event :: "bytes \<Rightarrow> PresenceEvent core_result" where
  "decode_stored_presence_event bs =
     and_then (validate_stored_record_len bs) (\<lambda>_.
     and_then (read_magic bs STORED_PRESENCE_EVENT_MAGIC ''presence'') (\<lambda>input.
     and_then (stored_read_string input) (\<lambda>(jid, input).
     and_then (stored_read_string input) (\<lambda>(presence_type, input).
     and_then (read_optional_string input) (\<lambda>(participant, input).
     and_then (read_optional_u64 input) (\<lambda>(timestamp, input).
     and_then (read_string_map input) (\<lambda>(kvs, input).
     and_then (reject_trailing_stored_bytes input ''presence'') (\<lambda>_.
     Ok \<lparr>pe_jid = jid, pe_presence_type = presence_type, pe_participant = participant,
       pe_timestamp = timestamp, pe_fields = kvs\<rparr>))))))))"

end
