(* ===== verification/StoredEventsRoundtrip.thy ===== *)
theory StoredEventsRoundtrip
  imports StoredEvents
begin

text \<open>
  Stored records are read back as they were written, or refused as a whole when they are too long:
  one lemma per field, used by one lemma per kind of record.
\<close>

section \<open>Fields\<close>

named_theorems stored_put \<open>when a field is written, and as what\<close>
named_theorems stored_read \<open>reading a written field\<close>

definition len_bytes :: "bytes \<Rightarrow> bytes" where
  "len_bytes v = put_u32 (word_of_nat (length v)) @ v"

definition str_bytes :: "string \<Rightarrow> bytes" where
  "str_bytes s = len_bytes (bytes_of s)"

definition opt_bytes :: "('a \<Rightarrow> bytes) \<Rightarrow> 'a option \<Rightarrow> bytes" where
  "opt_bytes p v = (case v of Some v \<Rightarrow> 1 # p v | None \<Rightarrow> [0])"

definition fields_bytes :: "fields \<Rightarrow> bytes" where
  "fields_bytes kvs = put_u32 (word_of_nat (length kvs)) @
     concat (map (\<lambda>(k, v). str_bytes k @ str_bytes v) kvs)"

definition key_bytes :: "MessageEventKey \<Rightarrow> bytes" where
  "key_bytes k = str_bytes (key_remote_jid k) @ str_bytes (key_message_id k) @ opt_bytes str_bytes (key_participant k)"

definition target_bytes :: "LabelAssociationTarget \<Rightarrow> bytes" where
  "target_bytes t = (case t of TargetChat c \<Rightarrow> 0 # str_bytes c
     | TargetMessage c m \<Rightarrow> 1 # str_bytes c @ str_bytes m)"

text \<open>A field that fits.\<close>

definition str_fits :: "string \<Rightarrow> bool" where
  "str_fits s \<longleftrightarrow> length s \<le> 65536"

definition fields_fit :: "fields \<Rightarrow> bool" where
  "fields_fit kvs \<longleftrightarrow> length kvs \<le> 1024 \<and> (\<forall>(k, v)\<in>set kvs. str_fits k \<and> str_fits v)"

definition key_fits :: "MessageEventKey \<Rightarrow> bool" where
  "key_fits k \<longleftrightarrow> str_fits (key_remote_jid k) \<and> str_fits (key_message_id k) \<and> pred_option str_fits (key_participant k)"

definition target_fits :: "LabelAssociationTarget \<Rightarrow> bool" where
  "target_fits t \<longleftrightarrow> (case t of TargetChat c \<Rightarrow> str_fits c | TargetMessage c m \<Rightarrow> str_fits c \<and> str_fits m)"

definition payload_fits :: "bytes \<Rightarrow> bool" where
  "payload_fits v \<longleftrightarrow> length v \<le> 8388608"

lemma stored_put_string_iff [stored_put]:
  "stored_put_string s = Inr bs \<longleftrightarrow> str_fits s \<and> bs = str_bytes s"
  by (auto simp: stored_put_string_def stored_put_bytes_def put_len_prefixed_bytes_def str_fits_def
      MAX_STORED_EVENT_STRING_BYTES_def str_bytes_def len_bytes_def)

lemma put_payload_iff [stored_put]:
  "put_len_prefixed_bytes v MAX_STORED_EVENT_PAYLOAD_BYTES = Inr bs \<longleftrightarrow> payload_fits v \<and> bs = len_bytes v"
  by (auto simp: put_len_prefixed_bytes_def payload_fits_def MAX_STORED_EVENT_PAYLOAD_BYTES_def len_bytes_def)

lemma put_optional_string_iff [stored_put]:
  "put_optional_string v = Inr bs \<longleftrightarrow> pred_option str_fits v \<and> bs = opt_bytes str_bytes v"
  by (cases v) (auto simp: put_optional_string_def opt_bytes_def result_simps stored_put)

lemma put_optional_bytes_iff [stored_put]:
  "put_optional_bytes v = Inr bs \<longleftrightarrow> pred_option payload_fits v \<and> bs = opt_bytes len_bytes v"
  by (cases v) (auto simp: put_optional_bytes_def opt_bytes_def result_simps stored_put)

lemma put_optional_numbers:
  "put_optional_u64 n = opt_bytes put_u64 n" "put_optional_u16 m = opt_bytes put_u16 m"
  by (simp_all add: put_optional_u64_def put_optional_u16_def opt_bytes_def)

lemma put_fields_iff:
  "put_fields kvs = Inr bs \<longleftrightarrow> (\<forall>(k, v)\<in>set kvs. str_fits k \<and> str_fits v) \<and>
     bs = concat (map (\<lambda>(k, v). str_bytes k @ str_bytes v) kvs)"
  by (induction kvs arbitrary: bs) (auto simp: result_simps stored_put)

lemma put_string_map_iff [stored_put]:
  "put_string_map kvs = Inr bs \<longleftrightarrow> fields_fit kvs \<and> bs = fields_bytes kvs"
  by (auto simp: put_string_map_def fields_fit_def fields_bytes_def put_fields_iff result_simps
      MAX_STORED_EVENT_FIELD_COUNT_def)

lemma put_message_event_key_iff [stored_put]:
  "put_message_event_key k = Inr bs \<longleftrightarrow> key_fits k \<and> bs = key_bytes k"
  by (auto simp: put_message_event_key_def key_fits_def key_bytes_def result_simps stored_put)

lemma put_label_target_iff [stored_put]:
  "put_label_target t = Inr bs \<longleftrightarrow> target_fits t \<and> bs = target_bytes t"
  by (cases t) (auto simp: put_label_target_def target_fits_def target_bytes_def result_simps stored_put)

lemma put_parts_iff [stored_put]:
  "put_parts [] = Inr bs \<longleftrightarrow> bs = []"
  "put_parts (p # ps) = Inr bs \<longleftrightarrow> (\<exists>x y. p = Inr x \<and> put_parts ps = Inr y \<and> bs = x @ y)"
  by (auto simp: result_simps)

declare put_parts.simps [simp del]

lemma put_record_iff [stored_put]:
  "put_record magic ps = Inr bs \<longleftrightarrow> (\<exists>x. put_parts ps = Inr x \<and> bs = magic @ 1 # x)"
  by (auto simp: put_record_def result_simps STORED_EVENT_RECORD_VERSION_def)

section \<open>Reading fields\<close>

lemma unat_small: "n < 2 ^ 32 \<Longrightarrow> unat (word_of_nat n :: u32) = n"
  by (simp add: unsigned_of_nat take_bit_nat_eq_self)

lemma read_len_bytes [stored_read]:
  "length v \<le> m \<Longrightarrow> m < 2 ^ 32 \<Longrightarrow> read_len_prefixed_bytes (len_bytes v @ rest) m = Inr (v, rest)"
  by (simp add: read_len_prefixed_bytes_def len_bytes_def get_put_u32 unat_small)

lemma read_str_bytes [stored_read]:
  "str_fits s \<Longrightarrow> str_ok s \<Longrightarrow> stored_read_string (str_bytes s @ rest) = Inr (s, rest)"
  by (simp add: stored_read_string_def stored_read_bytes_def str_bytes_def stored_read str_fits_def
      MAX_STORED_EVENT_STRING_BYTES_def)

definition str_opt_ok :: "string option \<Rightarrow> bool" where
  "str_opt_ok v \<longleftrightarrow> pred_option str_ok v"

lemma read_opt:
  "(\<And>x rest. v = Some x \<Longrightarrow> read (p x @ rest) = Inr (x, rest)) \<Longrightarrow>
     read_optional owner kind read (opt_bytes p v @ rest) = Inr (v, rest)"
  by (cases v) (simp_all add: read_optional_def opt_bytes_def)

lemma read_optionals [stored_read]:
  "read_optional_u64 (opt_bytes put_u64 n @ rest) = Inr (n, rest)"
  "read_optional_u16 (opt_bytes put_u16 m @ rest) = Inr (m, rest)"
  "pred_option str_fits s \<Longrightarrow> str_opt_ok s \<Longrightarrow> read_optional_string (opt_bytes str_bytes s @ rest) = Inr (s, rest)"
  "pred_option payload_fits b \<Longrightarrow> read_optional_bytes (opt_bytes len_bytes b @ rest) = Inr (b, rest)"
  unfolding read_optional_u64_def read_optional_u16_def read_optional_string_def read_optional_bytes_def
  by (rule read_opt; simp add: get_put_u64 get_put_u16 stored_read str_opt_ok_def payload_fits_def
      MAX_STORED_EVENT_PAYLOAD_BYTES_def)+

text \<open>Fields in a \<open>BTreeMap\<close> of strings.\<close>

definition fields_utf8 :: "fields \<Rightarrow> bool" where
  "fields_utf8 kvs \<longleftrightarrow> btree_ok kvs \<and> (\<forall>(k, v)\<in>set kvs. str_ok k \<and> str_ok v)"

lemma read_fields_bytes:
  "\<forall>(k, v)\<in>set kvs. str_fits k \<and> str_fits v \<and> str_ok k \<and> str_ok v \<Longrightarrow>
     read_fields (length kvs) (concat (map (\<lambda>(k, v). str_bytes k @ str_bytes v) kvs) @ rest) acc =
       Inr (fold (\<lambda>(k, v). btree_insert k v) kvs acc, rest)"
  by (induction kvs arbitrary: acc) (auto simp: stored_read)

lemma read_fields_map [stored_read]:
  assumes "fields_fit kvs" "fields_utf8 kvs"
  shows "read_string_map (fields_bytes kvs @ rest) = Inr (kvs, rest)"
proof -
  have "read_fields (length kvs) (concat (map (\<lambda>(k, v). str_bytes k @ str_bytes v) kvs) @ rest) [] =
      Inr (kvs, rest)"
    using assms read_fields_bytes [of kvs rest "[]"] fold_btree_insert [of "[]" kvs]
    by (fastforce simp: fields_fit_def fields_utf8_def)
  with assms(1) show ?thesis
    by (simp add: read_string_map_def fields_bytes_def get_put_u32 fields_fit_def unat_small
        MAX_STORED_EVENT_FIELD_COUNT_def)
qed

definition key_ok :: "MessageEventKey \<Rightarrow> bool" where
  "key_ok k \<longleftrightarrow> str_ok (key_remote_jid k) \<and> str_ok (key_message_id k) \<and> str_opt_ok (key_participant k)"

definition target_ok :: "LabelAssociationTarget \<Rightarrow> bool" where
  "target_ok t \<longleftrightarrow> (case t of TargetChat c \<Rightarrow> str_ok c | TargetMessage c m \<Rightarrow> str_ok c \<and> str_ok m)"

lemma read_key_bytes [stored_read]:
  "key_fits k \<Longrightarrow> key_ok k \<Longrightarrow> read_message_event_key (key_bytes k @ rest) = Inr (k, rest)"
  by (simp add: read_message_event_key_def key_bytes_def key_fits_def key_ok_def stored_read)

lemma read_target_bytes [stored_read]:
  "target_fits t \<Longrightarrow> target_ok t \<Longrightarrow> read_label_target (target_bytes t @ rest) = Inr (t, rest)"
  by (cases t) (simp_all add: read_label_target_def target_bytes_def target_fits_def target_ok_def stored_read)

lemma read_numbers [stored_read]:
  "read_flag label name (flag_byte b # rest) = Inr (b, rest)"
  "read_fixed_u64 what (put_u64 n @ rest) = Inr (n, rest)"
  "read_fixed_u32 what (put_u32 m @ rest) = Inr (m, rest)"
  by (simp_all add: read_flag_def flag_byte_def read_fixed_u64_def read_fixed_u32_def get_put_u64 get_put_u32)

text \<open>The last field of a record has nothing after it.\<close>

lemmas stored_read_last [stored_read] = stored_read [where rest = "[]", simplified]

lemma read_magic_record [stored_read]:
  "length magic = 4 \<Longrightarrow> read_magic (magic @ 1 # bs) magic label = Inr bs"
  by (simp add: read_magic_def STORED_EVENT_RECORD_VERSION_def nth_append)

lemma reject_nothing [stored_read]: "reject_trailing_stored_bytes [] label = Inr ()"
  by (simp add: reject_trailing_stored_bytes_def)

lemmas magic_defs = STORED_MESSAGE_EVENT_MAGIC_def STORED_MESSAGE_UPDATE_MAGIC_def
  STORED_CHAT_EVENT_MAGIC_def STORED_CONTACT_EVENT_MAGIC_def
  STORED_GROUP_EVENT_MAGIC_def STORED_BUSINESS_NOTIFICATION_EVENT_MAGIC_def
  STORED_NEWSLETTER_REACTION_EVENT_MAGIC_def STORED_NEWSLETTER_VIEW_EVENT_MAGIC_def
  STORED_NEWSLETTER_PARTICIPANT_EVENT_MAGIC_def STORED_NEWSLETTER_SETTINGS_EVENT_MAGIC_def
  STORED_REACHOUT_TIMELOCK_MAGIC_def STORED_MESSAGE_CAPPING_INFO_MAGIC_def
  STORED_DEFAULT_DISAPPEARING_MODE_MAGIC_def STORED_ACCOUNT_SETTINGS_EVENT_MAGIC_def
  STORED_LABEL_EVENT_MAGIC_def STORED_LABEL_ASSOCIATION_MAGIC_def
  STORED_QUICK_REPLY_EVENT_MAGIC_def STORED_RECEIPT_EVENT_MAGIC_def
  STORED_REACTION_EVENT_MAGIC_def STORED_MEDIA_RETRY_EVENT_MAGIC_def
  STORED_RECENT_STICKER_EVENT_MAGIC_def STORED_CALL_EVENT_MAGIC_def
  STORED_PRESENCE_EVENT_MAGIC_def

lemma magic_lengths [stored_read]:
  "length STORED_MESSAGE_EVENT_MAGIC = 4"
  "length STORED_MESSAGE_UPDATE_MAGIC = 4"
  "length STORED_CHAT_EVENT_MAGIC = 4"
  "length STORED_CONTACT_EVENT_MAGIC = 4"
  "length STORED_GROUP_EVENT_MAGIC = 4"
  "length STORED_BUSINESS_NOTIFICATION_EVENT_MAGIC = 4"
  "length STORED_NEWSLETTER_REACTION_EVENT_MAGIC = 4"
  "length STORED_NEWSLETTER_VIEW_EVENT_MAGIC = 4"
  "length STORED_NEWSLETTER_PARTICIPANT_EVENT_MAGIC = 4"
  "length STORED_NEWSLETTER_SETTINGS_EVENT_MAGIC = 4"
  "length STORED_REACHOUT_TIMELOCK_MAGIC = 4"
  "length STORED_MESSAGE_CAPPING_INFO_MAGIC = 4"
  "length STORED_DEFAULT_DISAPPEARING_MODE_MAGIC = 4"
  "length STORED_ACCOUNT_SETTINGS_EVENT_MAGIC = 4"
  "length STORED_LABEL_EVENT_MAGIC = 4"
  "length STORED_LABEL_ASSOCIATION_MAGIC = 4"
  "length STORED_QUICK_REPLY_EVENT_MAGIC = 4"
  "length STORED_RECEIPT_EVENT_MAGIC = 4"
  "length STORED_REACTION_EVENT_MAGIC = 4"
  "length STORED_MEDIA_RETRY_EVENT_MAGIC = 4"
  "length STORED_RECENT_STICKER_EVENT_MAGIC = 4"
  "length STORED_CALL_EVENT_MAGIC = 4"
  "length STORED_PRESENCE_EVENT_MAGIC = 4"
  by (simp_all add: magic_defs)

lemma magic_heads [stored_read]: "length magic = 4 \<Longrightarrow> length bs \<ge> 5 \<Longrightarrow>
    validate_stored_record_len bs = Inr () \<longleftrightarrow> length bs \<le> MAX_STORED_EVENT_RECORD_BYTES"
  by (simp add: validate_stored_record_len_def)

lemmas canonical_wires [stored_read] = reachout_type_canonical_def [THEN iffD1]
  capping_status_canonical_def [THEN iffD1] multi_variation_canonical_def [THEN iffD1]
  one_time_extension_canonical_def [THEN iffD1]

lemma canonical_options [stored_read]:
  "pred_option one_time_extension_canonical x \<Longrightarrow>
     map_option one_time_extension_from_wire (map_option one_time_extension_as_wire_str x) = x"
  "pred_option multi_variation_canonical y \<Longrightarrow>
     map_option multi_variation_from_wire (map_option multi_variation_as_wire_str y) = y"
  "pred_option capping_status_canonical z \<Longrightarrow>
     map_option capping_status_from_wire (map_option capping_status_as_wire_str z) = z"
  by ((cases x; simp add: canonical_wires), (cases y; simp add: canonical_wires), (cases z; simp add: canonical_wires))

section \<open>Records\<close>

text \<open>The contract of a kind of record.\<close>

locale stored_record =
  fixes encode :: "'e \<Rightarrow> bytes core_result"
    and decode :: "bytes \<Rightarrow> 'e core_result"
    and e_ok :: "'e \<Rightarrow> bool"
  assumes decode_encoded: "e_ok e \<Longrightarrow> encode e = Inr bs \<Longrightarrow>
    decode bs = and_then (validate_stored_record_len bs) (\<lambda>_. Ok e)"
begin

lemma roundtrip:
  "e_ok e \<Longrightarrow> encode e = Inr bs \<Longrightarrow> length bs \<le> MAX_STORED_EVENT_RECORD_BYTES \<Longrightarrow> decode bs = Inr e"
  by (simp add: decode_encoded validate_stored_record_len_def)

lemma too_long:
  "e_ok e \<Longrightarrow> encode e = Inr bs \<Longrightarrow> length bs > MAX_STORED_EVENT_RECORD_BYTES \<Longrightarrow> \<exists>err. decode bs = Inl err"
  by (simp add: decode_encoded validate_stored_record_len_def)

lemma encode_inject:
  assumes "e_ok e" "e_ok f" "encode e = Inr bs" "encode f = Inr bs"
    and "length bs \<le> MAX_STORED_EVENT_RECORD_BYTES"
  shows "e = f"
  using roundtrip [OF assms(1,3,5)] roundtrip [OF assms(2,4,5)] by simp

end

text \<open>The event as Rust's types have it: UTF-8 strings and ordered kvs.\<close>

definition stored_message_event_ok :: "MessageEvent \<Rightarrow> bool" where
  "stored_message_event_ok e \<longleftrightarrow> key_ok (me_key e) \<and>
     fields_utf8 (me_fields e)"

definition stored_message_update_ok :: "MessageUpdate \<Rightarrow> bool" where
  "stored_message_update_ok e \<longleftrightarrow> key_ok (mu_key e) \<and>
     fields_utf8 (mu_fields e)"

definition stored_chat_event_ok :: "ChatEvent \<Rightarrow> bool" where
  "stored_chat_event_ok e \<longleftrightarrow> str_ok (ce_jid e) \<and>
     fields_utf8 (ce_fields e)"

definition stored_contact_event_ok :: "ContactEvent \<Rightarrow> bool" where
  "stored_contact_event_ok e \<longleftrightarrow> str_ok (co_jid e) \<and>
     fields_utf8 (co_fields e)"

definition stored_group_event_ok :: "GroupUpdateEvent \<Rightarrow> bool" where
  "stored_group_event_ok e \<longleftrightarrow> str_ok (gu_jid e) \<and>
     fields_utf8 (gu_fields e)"

definition stored_business_notification_event_ok :: "BusinessNotificationEvent \<Rightarrow> bool" where
  "stored_business_notification_event_ok e \<longleftrightarrow> str_ok (bn_from e) \<and>
     str_ok (bn_notification_id e) \<and>
     str_ok (bn_event_type e) \<and>
     fields_utf8 (bn_fields e)"

definition stored_newsletter_reaction_event_ok :: "NewsletterReactionEvent \<Rightarrow> bool" where
  "stored_newsletter_reaction_event_ok e \<longleftrightarrow> str_ok (nr_id e) \<and>
     str_ok (nr_server_id e) \<and>
     str_opt_ok (nr_code e)"

definition stored_newsletter_view_event_ok :: "NewsletterViewEvent \<Rightarrow> bool" where
  "stored_newsletter_view_event_ok e \<longleftrightarrow> str_ok (nv_id e) \<and>
     str_ok (nv_server_id e)"

definition stored_newsletter_participant_update_event_ok :: "NewsletterParticipantUpdateEvent \<Rightarrow> bool" where
  "stored_newsletter_participant_update_event_ok e \<longleftrightarrow> str_ok (np_id e) \<and>
     str_ok (np_author e) \<and>
     str_ok (np_user e) \<and>
     str_ok (np_action e) \<and>
     str_ok (np_new_role e)"

definition stored_newsletter_settings_update_event_ok :: "NewsletterSettingsUpdateEvent \<Rightarrow> bool" where
  "stored_newsletter_settings_update_event_ok e \<longleftrightarrow> str_ok (ns_id e) \<and>
     fields_utf8 (ns_fields e)"

definition stored_reachout_timelock_state_ok :: "ReachoutTimelockState \<Rightarrow> bool" where
  "stored_reachout_timelock_state_ok e \<longleftrightarrow> str_ok (reachout_type_as_wire_str (rt_enforcement_type e)) \<and> reachout_type_canonical (rt_enforcement_type e)"

definition stored_message_capping_info_ok :: "MessageCappingInfo \<Rightarrow> bool" where
  "stored_message_capping_info_ok e \<longleftrightarrow> str_opt_ok (map_option one_time_extension_as_wire_str (mc_one_time_extension_status e)) \<and> pred_option one_time_extension_canonical (mc_one_time_extension_status e) \<and>
     str_opt_ok (map_option multi_variation_as_wire_str (mc_multi_variation_status e)) \<and> pred_option multi_variation_canonical (mc_multi_variation_status e) \<and>
     str_opt_ok (map_option capping_status_as_wire_str (mc_capping_status e)) \<and> pred_option capping_status_canonical (mc_capping_status e)"

definition stored_default_disappearing_mode_ok :: "DefaultDisappearingMode \<Rightarrow> bool" where
  "stored_default_disappearing_mode_ok e \<longleftrightarrow> True"

definition stored_account_settings_event_ok :: "AccountSettingsEvent \<Rightarrow> bool" where
  "stored_account_settings_event_ok e \<longleftrightarrow> str_ok (as_id e) \<and>
     fields_utf8 (as_fields e)"

definition stored_label_event_ok :: "LabelEvent \<Rightarrow> bool" where
  "stored_label_event_ok e \<longleftrightarrow> str_ok (le_id e) \<and>
     fields_utf8 (le_fields e)"

definition stored_label_association_event_ok :: "LabelAssociationEvent \<Rightarrow> bool" where
  "stored_label_association_event_ok e \<longleftrightarrow> str_ok (la_label_id e) \<and>
     target_ok (la_target e)"

definition stored_quick_reply_event_ok :: "QuickReplyEvent \<Rightarrow> bool" where
  "stored_quick_reply_event_ok e \<longleftrightarrow> str_ok (qr_id e) \<and>
     fields_utf8 (qr_fields e)"

definition stored_receipt_event_ok :: "ReceiptEvent \<Rightarrow> bool" where
  "stored_receipt_event_ok e \<longleftrightarrow> key_ok (re_key e) \<and>
     str_ok (re_receipt_type e) \<and>
     str_opt_ok (re_participant e)"

definition stored_reaction_event_ok :: "ReactionEvent \<Rightarrow> bool" where
  "stored_reaction_event_ok e \<longleftrightarrow> key_ok (rx_key e) \<and>
     str_ok (rx_from_jid e) \<and>
     str_opt_ok (rx_text e)"

definition stored_media_retry_event_ok :: "MediaRetryEvent \<Rightarrow> bool" where
  "stored_media_retry_event_ok e \<longleftrightarrow> key_ok (mr_key e) \<and>
     str_opt_ok (mr_error_text e)"

definition stored_recent_sticker_event_ok :: "RecentStickerEvent \<Rightarrow> bool" where
  "stored_recent_sticker_event_ok e \<longleftrightarrow> str_ok (rs_id e) \<and>
     fields_utf8 (rs_fields e)"

definition stored_call_event_ok :: "CallEvent \<Rightarrow> bool" where
  "stored_call_event_ok e \<longleftrightarrow> str_ok (cl_id e) \<and>
     str_ok (cl_from e) \<and>
     str_ok (cl_event_type e) \<and>
     str_opt_ok (cl_call_id e) \<and>
     str_opt_ok (cl_participant e) \<and>
     fields_utf8 (cl_fields e)"

definition stored_presence_event_ok :: "PresenceEvent \<Rightarrow> bool" where
  "stored_presence_event_ok e \<longleftrightarrow> str_ok (pe_jid e) \<and>
     str_ok (pe_presence_type e) \<and>
     str_opt_ok (pe_participant e) \<and>
     fields_utf8 (pe_fields e)"

lemma and_then_unit: "(\<And>u. f u = g) \<Longrightarrow> and_then r f = and_then r (\<lambda>_ :: unit. g)"
  by (cases r) simp_all

interpretation message_event: stored_record encode_stored_message_event decode_stored_message_event stored_message_event_ok
  by unfold_locales
    (auto simp: encode_stored_message_event_def decode_stored_message_event_def stored_message_event_ok_def
      stored_put stored_read put_optional_numbers intro!: and_then_unit)

interpretation message_update: stored_record encode_stored_message_update decode_stored_message_update stored_message_update_ok
  by unfold_locales
    (auto simp: encode_stored_message_update_def decode_stored_message_update_def stored_message_update_ok_def
      stored_put stored_read put_optional_numbers intro!: and_then_unit)

interpretation chat_event: stored_record encode_stored_chat_event decode_stored_chat_event stored_chat_event_ok
  by unfold_locales
    (auto simp: encode_stored_chat_event_def encode_stored_jid_fields_record_def decode_stored_chat_event_def decode_stored_jid_fields_record_def and_then_assoc stored_chat_event_ok_def
      stored_put stored_read put_optional_numbers intro!: and_then_unit)

interpretation contact_event: stored_record encode_stored_contact_event decode_stored_contact_event stored_contact_event_ok
  by unfold_locales
    (auto simp: encode_stored_contact_event_def encode_stored_jid_fields_record_def decode_stored_contact_event_def decode_stored_jid_fields_record_def and_then_assoc stored_contact_event_ok_def
      stored_put stored_read put_optional_numbers intro!: and_then_unit)

interpretation group_event: stored_record encode_stored_group_event decode_stored_group_event stored_group_event_ok
  by unfold_locales
    (auto simp: encode_stored_group_event_def encode_stored_jid_fields_record_def decode_stored_group_event_def decode_stored_jid_fields_record_def and_then_assoc stored_group_event_ok_def
      stored_put stored_read put_optional_numbers intro!: and_then_unit)

interpretation business_notification_event: stored_record encode_stored_business_notification_event decode_stored_business_notification_event stored_business_notification_event_ok
  by unfold_locales
    (auto simp: encode_stored_business_notification_event_def decode_stored_business_notification_event_def stored_business_notification_event_ok_def
      stored_put stored_read put_optional_numbers intro!: and_then_unit)

interpretation newsletter_reaction_event: stored_record encode_stored_newsletter_reaction_event decode_stored_newsletter_reaction_event stored_newsletter_reaction_event_ok
  by unfold_locales
    (auto simp: encode_stored_newsletter_reaction_event_def decode_stored_newsletter_reaction_event_def stored_newsletter_reaction_event_ok_def
      stored_put stored_read put_optional_numbers intro!: and_then_unit)

interpretation newsletter_view_event: stored_record encode_stored_newsletter_view_event decode_stored_newsletter_view_event stored_newsletter_view_event_ok
  by unfold_locales
    (auto simp: encode_stored_newsletter_view_event_def decode_stored_newsletter_view_event_def stored_newsletter_view_event_ok_def
      stored_put stored_read put_optional_numbers intro!: and_then_unit)

interpretation newsletter_participant_update_event: stored_record encode_stored_newsletter_participant_update_event decode_stored_newsletter_participant_update_event stored_newsletter_participant_update_event_ok
  by unfold_locales
    (auto simp: encode_stored_newsletter_participant_update_event_def decode_stored_newsletter_participant_update_event_def stored_newsletter_participant_update_event_ok_def
      stored_put stored_read put_optional_numbers intro!: and_then_unit)

interpretation newsletter_settings_update_event: stored_record encode_stored_newsletter_settings_update_event decode_stored_newsletter_settings_update_event stored_newsletter_settings_update_event_ok
  by unfold_locales
    (auto simp: encode_stored_newsletter_settings_update_event_def decode_stored_newsletter_settings_update_event_def stored_newsletter_settings_update_event_ok_def
      stored_put stored_read put_optional_numbers intro!: and_then_unit)

interpretation reachout_timelock_state: stored_record encode_stored_reachout_timelock_state decode_stored_reachout_timelock_state stored_reachout_timelock_state_ok
  by unfold_locales
    (auto simp: encode_stored_reachout_timelock_state_def decode_stored_reachout_timelock_state_def stored_reachout_timelock_state_ok_def
      stored_put stored_read put_optional_numbers intro!: and_then_unit)

interpretation message_capping_info: stored_record encode_stored_message_capping_info decode_stored_message_capping_info stored_message_capping_info_ok
  by unfold_locales
    (auto simp: encode_stored_message_capping_info_def decode_stored_message_capping_info_def stored_message_capping_info_ok_def
      stored_put stored_read put_optional_numbers intro!: and_then_unit)

interpretation default_disappearing_mode: stored_record encode_stored_default_disappearing_mode decode_stored_default_disappearing_mode stored_default_disappearing_mode_ok
  by unfold_locales
    (auto simp: encode_stored_default_disappearing_mode_def decode_stored_default_disappearing_mode_def stored_default_disappearing_mode_ok_def
      stored_put stored_read put_optional_numbers intro!: and_then_unit)

interpretation account_settings_event: stored_record encode_stored_account_settings_event decode_stored_account_settings_event stored_account_settings_event_ok
  by unfold_locales
    (auto simp: encode_stored_account_settings_event_def decode_stored_account_settings_event_def stored_account_settings_event_ok_def
      stored_put stored_read put_optional_numbers intro!: and_then_unit)

interpretation label_event: stored_record encode_stored_label_event decode_stored_label_event stored_label_event_ok
  by unfold_locales
    (auto simp: encode_stored_label_event_def decode_stored_label_event_def stored_label_event_ok_def
      stored_put stored_read put_optional_numbers intro!: and_then_unit)

interpretation label_association_event: stored_record encode_stored_label_association_event decode_stored_label_association_event stored_label_association_event_ok
  by unfold_locales
    (auto simp: encode_stored_label_association_event_def decode_stored_label_association_event_def stored_label_association_event_ok_def
      stored_put stored_read put_optional_numbers intro!: and_then_unit)

interpretation quick_reply_event: stored_record encode_stored_quick_reply_event decode_stored_quick_reply_event stored_quick_reply_event_ok
  by unfold_locales
    (auto simp: encode_stored_quick_reply_event_def decode_stored_quick_reply_event_def stored_quick_reply_event_ok_def
      stored_put stored_read put_optional_numbers intro!: and_then_unit)

interpretation receipt_event: stored_record encode_stored_receipt_event decode_stored_receipt_event stored_receipt_event_ok
  by unfold_locales
    (auto simp: encode_stored_receipt_event_def decode_stored_receipt_event_def stored_receipt_event_ok_def
      stored_put stored_read put_optional_numbers intro!: and_then_unit)

interpretation reaction_event: stored_record encode_stored_reaction_event decode_stored_reaction_event stored_reaction_event_ok
  by unfold_locales
    (auto simp: encode_stored_reaction_event_def decode_stored_reaction_event_def stored_reaction_event_ok_def
      stored_put stored_read put_optional_numbers intro!: and_then_unit)

interpretation media_retry_event: stored_record encode_stored_media_retry_event decode_stored_media_retry_event stored_media_retry_event_ok
  by unfold_locales
    (auto simp: encode_stored_media_retry_event_def decode_stored_media_retry_event_def stored_media_retry_event_ok_def
      stored_put stored_read put_optional_numbers intro!: and_then_unit)

interpretation recent_sticker_event: stored_record encode_stored_recent_sticker_event decode_stored_recent_sticker_event stored_recent_sticker_event_ok
  by unfold_locales
    (auto simp: encode_stored_recent_sticker_event_def decode_stored_recent_sticker_event_def stored_recent_sticker_event_ok_def
      stored_put stored_read put_optional_numbers intro!: and_then_unit)

interpretation call_event: stored_record encode_stored_call_event decode_stored_call_event stored_call_event_ok
  by unfold_locales
    (auto simp: encode_stored_call_event_def decode_stored_call_event_def stored_call_event_ok_def
      stored_put stored_read put_optional_numbers intro!: and_then_unit)

interpretation presence_event: stored_record encode_stored_presence_event decode_stored_presence_event stored_presence_event_ok
  by unfold_locales
    (auto simp: encode_stored_presence_event_def decode_stored_presence_event_def stored_presence_event_ok_def
      stored_put stored_read put_optional_numbers intro!: and_then_unit)

section \<open>All kinds\<close>

text \<open>
  Every written event is read back as it was, unless its record is longer than the limit, which
  only the reader checks.
\<close>

definition reads_back ::
  "('e \<Rightarrow> bytes core_result) \<Rightarrow> (bytes \<Rightarrow> 'e core_result) \<Rightarrow> ('e \<Rightarrow> bool) \<Rightarrow> bool" where
  "reads_back encode decode e_ok \<longleftrightarrow> (\<forall>e bs. e_ok e \<longrightarrow> encode e = Inr bs \<longrightarrow>
     decode bs = and_then (validate_stored_record_len bs) (\<lambda>_. Ok e))"

text \<open>
  C22: the stored events are read back. For each of the 23 kinds of record, decoding what was
  encoded gives the event again, or, when the record has more than eight mebibytes, the error of
  the length check and never another event.
\<close>

theorem stored_events_roundtrip:
  "reads_back encode_stored_message_event decode_stored_message_event stored_message_event_ok \<and>
   reads_back encode_stored_message_update decode_stored_message_update stored_message_update_ok \<and>
   reads_back encode_stored_chat_event decode_stored_chat_event stored_chat_event_ok \<and>
   reads_back encode_stored_contact_event decode_stored_contact_event stored_contact_event_ok \<and>
   reads_back encode_stored_group_event decode_stored_group_event stored_group_event_ok \<and>
   reads_back encode_stored_business_notification_event decode_stored_business_notification_event stored_business_notification_event_ok \<and>
   reads_back encode_stored_newsletter_reaction_event decode_stored_newsletter_reaction_event stored_newsletter_reaction_event_ok \<and>
   reads_back encode_stored_newsletter_view_event decode_stored_newsletter_view_event stored_newsletter_view_event_ok \<and>
   reads_back encode_stored_newsletter_participant_update_event decode_stored_newsletter_participant_update_event stored_newsletter_participant_update_event_ok \<and>
   reads_back encode_stored_newsletter_settings_update_event decode_stored_newsletter_settings_update_event stored_newsletter_settings_update_event_ok \<and>
   reads_back encode_stored_reachout_timelock_state decode_stored_reachout_timelock_state stored_reachout_timelock_state_ok \<and>
   reads_back encode_stored_message_capping_info decode_stored_message_capping_info stored_message_capping_info_ok \<and>
   reads_back encode_stored_default_disappearing_mode decode_stored_default_disappearing_mode stored_default_disappearing_mode_ok \<and>
   reads_back encode_stored_account_settings_event decode_stored_account_settings_event stored_account_settings_event_ok \<and>
   reads_back encode_stored_label_event decode_stored_label_event stored_label_event_ok \<and>
   reads_back encode_stored_label_association_event decode_stored_label_association_event stored_label_association_event_ok \<and>
   reads_back encode_stored_quick_reply_event decode_stored_quick_reply_event stored_quick_reply_event_ok \<and>
   reads_back encode_stored_receipt_event decode_stored_receipt_event stored_receipt_event_ok \<and>
   reads_back encode_stored_reaction_event decode_stored_reaction_event stored_reaction_event_ok \<and>
   reads_back encode_stored_media_retry_event decode_stored_media_retry_event stored_media_retry_event_ok \<and>
   reads_back encode_stored_recent_sticker_event decode_stored_recent_sticker_event stored_recent_sticker_event_ok \<and>
   reads_back encode_stored_call_event decode_stored_call_event stored_call_event_ok \<and>
   reads_back encode_stored_presence_event decode_stored_presence_event stored_presence_event_ok"
  unfolding reads_back_def
  by (intro conjI allI impI;
    (rule message_event.decode_encoded message_update.decode_encoded chat_event.decode_encoded contact_event.decode_encoded group_event.decode_encoded business_notification_event.decode_encoded newsletter_reaction_event.decode_encoded newsletter_view_event.decode_encoded newsletter_participant_update_event.decode_encoded newsletter_settings_update_event.decode_encoded reachout_timelock_state.decode_encoded message_capping_info.decode_encoded default_disappearing_mode.decode_encoded account_settings_event.decode_encoded label_event.decode_encoded label_association_event.decode_encoded quick_reply_event.decode_encoded receipt_event.decode_encoded reaction_event.decode_encoded media_retry_event.decode_encoded recent_sticker_event.decode_encoded call_event.decode_encoded presence_event.decode_encoded)?; assumption?)

text \<open>
  C40: the writer accepts records that the reader refuses. Every message that can be stored without a
  payload is also stored with a payload of the greatest size that a field may have, whatever its
  bytes; the record is then longer than the reader allows, and it is refused.
\<close>

theorem largest_payload_unreadable:
  assumes "stored_message_event_ok e" and "encode_stored_message_event (e\<lparr>me_payload := None\<rparr>) = Inr bs0"
    and "length p = MAX_STORED_EVENT_PAYLOAD_BYTES"
  shows "\<exists>bs. encode_stored_message_event (e\<lparr>me_payload := Some p\<rparr>) = Inr bs \<and>
    decode_stored_message_event bs = Inl (Protocol (''stored message record exceeds '' @
       show_nat MAX_STORED_EVENT_RECORD_BYTES @ '' bytes''))"
proof -
  let ?e = "e\<lparr>me_payload := Some p\<rparr>"
  have ok: "stored_message_event_ok ?e" using assms(1) by (simp add: stored_message_event_ok_def)
  obtain bs where bs: "encode_stored_message_event ?e = Inr bs" "length bs > 8388608"
    using assms(2,3)
    by (auto simp: encode_stored_message_event_def stored_put put_optional_numbers payload_fits_def
        opt_bytes_def len_bytes_def MAX_STORED_EVENT_PAYLOAD_BYTES_def split: if_splits)
  have "decode_stored_message_event bs = Inl (Protocol (''stored message record exceeds '' @
       show_nat MAX_STORED_EVENT_RECORD_BYTES @ '' bytes''))"
    using message_event.decode_encoded [OF ok bs(1)] bs(2)
    by (simp add: validate_stored_record_len_def MAX_STORED_EVENT_RECORD_BYTES_def)
  with bs(1) show ?thesis by blast
qed

theorem largest_payload_unreadable_witness:
  "\<exists>bs. encode_stored_message_event \<lparr>me_key = MessageEventKey ''a@g.us'' ''m1'' None, me_timestamp = None,
      me_payload = Some (replicate 8388608 7), me_fields = [(''status'', ''read'')]\<rparr> = Inr bs \<and>
    decode_stored_message_event bs = Inl (Protocol (''stored message record exceeds '' @
       show_nat MAX_STORED_EVENT_RECORD_BYTES @ '' bytes''))"
proof -
  let ?e = "\<lparr>me_key = MessageEventKey ''a@g.us'' ''m1'' None, me_timestamp = None,
      me_payload = None, me_fields = [(''status'', ''read'')]\<rparr>"
  have ok: "stored_message_event_ok ?e"
    by (simp add: stored_message_event_ok_def key_ok_def str_opt_ok_def fields_utf8_def str_ok_ascii btree_ok_def)
  moreover have "\<exists>bs0. encode_stored_message_event (?e\<lparr>me_payload := None\<rparr>) = Inr bs0"
    by (simp add: encode_stored_message_event_def stored_put put_optional_numbers key_fits_def
        str_fits_def payload_fits_def fields_fit_def opt_bytes_def len_bytes_def STORED_MESSAGE_EVENT_MAGIC_def)
  moreover have "length (replicate 8388608 (7 :: u8)) = MAX_STORED_EVENT_PAYLOAD_BYTES"
    by (simp only: length_replicate MAX_STORED_EVENT_PAYLOAD_BYTES_def)
  ultimately show ?thesis using largest_payload_unreadable [of ?e _ "replicate 8388608 7"] by auto
qed

end
