(* ===== verification/AppStateEvents.thy ===== *)
theory AppStateEvents
  imports AppStatePatch Jid
begin

text \<open>
  The events that app-state mutations give rise to, \<^verbatim>\<open>crates/wa-core/src/app_state.rs\<close>: a contact,
  a quick reply, a label, or a change of a chat or message that another device of the account made.
\<close>

section \<open>Sync actions\<close>

text \<open>
  The generated type \<open>SyncActionValue\<close>: the fields that the code looks into, and the encoding of all
  others.
\<close>

record ContactAction =
  ca_full_name :: "string option"
  ca_first_name :: "string option"
  ca_lid_jid :: "string option"
  ca_pn_jid :: "string option"
  ca_username :: "string option"

record QuickReplyAction =
  qa_shortcut :: "string option"
  qa_message :: "string option"
  qa_keywords :: "string list"
  qa_count :: "i32 option"
  qa_deleted :: "bool option"

record LabelEditAction =
  ea_name :: "string option"
  ea_color :: "i32 option"
  ea_predefined_id :: "i32 option"
  ea_deleted :: "bool option"
  ea_order_index :: "i32 option"
  ea_is_active :: "bool option"
  ea_type :: "i32 option"
  ea_is_immutable :: "bool option"
  ea_mute_end_time_ms :: "i64 option"

record MuteAction =
  ma_muted :: "bool option"
  ma_mute_end_timestamp :: "i64 option"

text \<open>The actions with one flag of interest are that flag.\<close>

record SyncActionValue =
  va_timestamp :: "i64 option"
  va_contact_action :: "ContactAction option"
  va_quick_reply_action :: "QuickReplyAction option"
  va_label_edit_action :: "LabelEditAction option"
  va_label_association_action :: "bool option option"
  va_archive_chat_action :: "bool option option"
  va_mark_chat_as_read_action :: "bool option option"
  va_mute_action :: "MuteAction option"
  va_pin_action :: "bool option option"
  va_delete_chat_action :: "unit option"
  va_star_action :: "bool option option"
  va_other :: bytes

section \<open>Building events\<close>

definition chat_event_new :: "string \<Rightarrow> ChatEvent" where
  "chat_event_new jid = \<lparr>ce_jid = jid, ce_fields = []\<rparr>"

definition chat_with_field :: "string \<Rightarrow> string \<Rightarrow> ChatEvent \<Rightarrow> ChatEvent" where
  "chat_with_field key val e = e\<lparr>ce_fields := btree_insert key val (ce_fields e)\<rparr>"

definition contact_event_new :: "string \<Rightarrow> ContactEvent" where
  "contact_event_new jid = \<lparr>co_jid = jid, co_fields = []\<rparr>"

definition contact_with_field :: "string \<Rightarrow> string \<Rightarrow> ContactEvent \<Rightarrow> ContactEvent" where
  "contact_with_field key val e = e\<lparr>co_fields := btree_insert key val (co_fields e)\<rparr>"

definition quick_reply_event_new :: "string \<Rightarrow> QuickReplyEvent" where
  "quick_reply_event_new i = \<lparr>qr_id = i, qr_fields = []\<rparr>"

definition quick_reply_with_field :: "string \<Rightarrow> string \<Rightarrow> QuickReplyEvent \<Rightarrow> QuickReplyEvent" where
  "quick_reply_with_field key val e = e\<lparr>qr_fields := btree_insert key val (qr_fields e)\<rparr>"

definition label_event_new :: "string \<Rightarrow> LabelEvent" where
  "label_event_new i = \<lparr>le_id = i, le_fields = []\<rparr>"

definition label_with_field :: "string \<Rightarrow> string \<Rightarrow> LabelEvent \<Rightarrow> LabelEvent" where
  "label_with_field key val e = e\<lparr>le_fields := btree_insert key val (le_fields e)\<rparr>"

definition message_update_new :: "MessageEventKey \<Rightarrow> MessageUpdate" where
  "message_update_new key = \<lparr>mu_key = key, mu_timestamp = None, mu_fields = []\<rparr>"

definition message_update_with_field :: "string \<Rightarrow> string \<Rightarrow> MessageUpdate \<Rightarrow> MessageUpdate" where
  "message_update_with_field key val e = e\<lparr>mu_fields := btree_insert key val (mu_fields e)\<rparr>"

definition label_association_chat :: "string \<Rightarrow> string \<Rightarrow> bool \<Rightarrow> LabelAssociationEvent" where
  "label_association_chat label_id chat_jid labeled =
     \<lparr>la_label_id = label_id, la_target = TargetChat chat_jid, la_labeled = labeled\<rparr>"

definition label_association_message ::
  "string \<Rightarrow> string \<Rightarrow> string \<Rightarrow> bool \<Rightarrow> LabelAssociationEvent" where
  "label_association_message label_id chat_jid message_id labeled =
     \<lparr>la_label_id = label_id, la_target = TargetMessage chat_jid message_id, la_labeled = labeled\<rparr>"

text \<open>\<open>if let Some(v) = field { event = event.with_field(key, v) }\<close>\<close>

definition with_some :: "(string \<Rightarrow> string \<Rightarrow> 'e \<Rightarrow> 'e) \<Rightarrow> string \<Rightarrow> ('a \<Rightarrow> string) \<Rightarrow> 'a option \<Rightarrow> 'e \<Rightarrow> 'e" where
  "with_some set_field key show v e = (case v of Some v \<Rightarrow> set_field key (show v) e | None \<Rightarrow> e)"

text \<open>\<open>bool::to_string\<close> and the text of signed integers.\<close>

definition show_bool :: "bool \<Rightarrow> string" where
  "show_bool b = (if b then ''true'' else ''false'')"

definition show_i32 :: "i32 \<Rightarrow> string" where
  "show_i32 i = show_int (sint i)"

definition show_i64 :: "i64 \<Rightarrow> string" where
  "show_i64 i = show_int (sint i)"

section \<open>Checks\<close>

text \<open>\<open>s.trim().is_empty()\<close>: only the characters with the Unicode property \<open>White_Space\<close>.\<close>

fun blank_bytes :: "nat list \<Rightarrow> bool" where
  "blank_bytes [] = True"
| "blank_bytes (a # bs) =
     (if a \<in> {9, 10, 11, 12, 13, 32} then blank_bytes bs
      else case bs of
        [] \<Rightarrow> False
      | b # cs \<Rightarrow>
          if a = 194 \<and> b \<in> {133, 160} then blank_bytes cs
          else case cs of
            [] \<Rightarrow> False
          | c # ds \<Rightarrow>
              (a = 225 \<and> b = 154 \<and> c = 128 \<or>
               a = 226 \<and> b = 128 \<and> (128 \<le> c \<and> c \<le> 138 \<or> c \<in> {168, 169, 175}) \<or>
               a = 226 \<and> b = 129 \<and> c = 159 \<or>
               a = 227 \<and> b = 128 \<and> c = 128) \<and> blank_bytes ds)"

definition blank :: "string \<Rightarrow> bool" where
  "blank s = blank_bytes (map unat (bytes_of s))"

definition validate_jid :: "string \<Rightarrow> string \<Rightarrow> string core_result" where
  "validate_jid label jid = (case jid_decode jid of
     None \<Rightarrow> Err (Protocol (''invalid '' @ label @ '': '' @ jid)) | Some _ \<Rightarrow> Ok jid)"

definition validate_non_empty :: "string \<Rightarrow> string \<Rightarrow> string core_result" where
  "validate_non_empty label val =
     (if blank val then Err (Protocol (label @ '' must not be empty'')) else Ok val)"

text \<open>\<open>Vec::get\<close>\<close>

definition get_at :: "'a list \<Rightarrow> nat \<Rightarrow> 'a option" where
  "get_at xs i = (if i < length xs then Some (xs ! i) else None)"

definition required_index_value ::
  "'v DecodedAppStateMutation \<Rightarrow> nat \<Rightarrow> string \<Rightarrow> string core_result" where
  "required_index_value mutation pos label =
     and_then (ok_or (get_at (dm_index mutation) pos)
       (Protocol (''sync action index is missing '' @ label @ '' at position '' @ show_nat pos))) (\<lambda>val.
     validate_non_empty label val)"

definition required_index_jid :: "'v DecodedAppStateMutation \<Rightarrow> nat \<Rightarrow> string \<Rightarrow> string core_result" where
  "required_index_jid mutation pos label =
     and_then (required_index_value mutation pos label) (\<lambda>jid. validate_jid label jid)"

definition first_non_empty :: "string option list \<Rightarrow> string option" where
  "first_non_empty vs = find (\<lambda>v. \<not> blank v) (map the (filter (\<lambda>v. v \<noteq> None) vs))"

definition filter_opt :: "('a \<Rightarrow> bool) \<Rightarrow> 'a option \<Rightarrow> 'a option" where
  "filter_opt p v = (case v of Some x \<Rightarrow> if p x then v else None | None \<Rightarrow> None)"

definition contact_phone_number :: "string \<Rightarrow> string option \<Rightarrow> string option core_result" where
  "contact_phone_number index_jid action_pn_jid =
     and_then (ok_or (jid_decode index_jid) (Protocol (''invalid contact chat JID: '' @ index_jid)))
       (\<lambda>decoded.
     if jid_server decoded \<in> {SWhatsAppNet, CUs} then Ok (Some index_jid)
     else case filter_opt (\<lambda>jid. \<not> blank jid) action_pn_jid of
       None \<Rightarrow> Ok None
     | Some jid \<Rightarrow> and_then (validate_jid ''contact phone JID'' jid) (\<lambda>jid. Ok (Some jid)))"

section \<open>The events of a mutation\<close>

definition push_contact_sync_event ::
  "EventBatch \<Rightarrow> SyncActionValue DecodedAppStateMutation \<Rightarrow> ContactAction \<Rightarrow> EventBatch core_result" where
  "push_contact_sync_event batch mutation action =
     and_then (required_index_jid mutation 1 ''contact chat JID'') (\<lambda>chat_jid.
     if dm_operation mutation = OpRemove
     then Ok (batch\<lparr>eb_contacts_delete := eb_contacts_delete batch @ [chat_jid]\<rparr>)
     else
       let event = contact_event_new chat_jid;
           event = with_some contact_with_field ''name'' (\<lambda>n. n)
             (first_non_empty [ca_full_name action, ca_first_name action, ca_username action]) event;
           event = with_some contact_with_field ''username'' (\<lambda>n. n)
             (filter_opt (\<lambda>v. v \<noteq> []) (ca_username action)) event in
       and_then (case filter_opt (\<lambda>v. v \<noteq> []) (ca_lid_jid action) of
           Some lid \<Rightarrow> and_then (validate_jid ''contact LID JID'' lid) (\<lambda>_.
             Ok (contact_with_field ''lid'' lid event))
         | None \<Rightarrow> Ok event) (\<lambda>event.
       and_then (contact_phone_number chat_jid (ca_pn_jid action)) (\<lambda>pn.
       let event = with_some contact_with_field ''phone_number'' (\<lambda>n. n) pn event in
       Ok (batch\<lparr>eb_contacts_upsert := eb_contacts_upsert batch @ [event]\<rparr>))))"

text \<open>\<open>serde_json::to_string\<close> of the keywords is the JSON encoder of the indexes, read as text.\<close>

definition push_quick_reply_sync_event ::
  "SyncActionValue app_ext \<Rightarrow> EventBatch \<Rightarrow> SyncActionValue DecodedAppStateMutation \<Rightarrow> QuickReplyAction \<Rightarrow>
     EventBatch core_result" where
  "push_quick_reply_sync_event A batch mutation action =
     and_then (required_index_value mutation 1 ''quick reply id'') (\<lambda>i.
     let event = quick_reply_event_new i;
         event = with_some quick_reply_with_field ''shortcut'' (\<lambda>n. n) (qa_shortcut action) event;
         event = with_some quick_reply_with_field ''message'' (\<lambda>n. n) (qa_message action) event in
     and_then (if qa_keywords action \<noteq> [] then
         and_then (map_err (\<lambda>e. Payload (''failed to encode quick reply keywords: '' @ e))
           (a_json_encode A (qa_keywords action))) (\<lambda>keywords.
         Ok (quick_reply_with_field ''keywords'' (string_of_bytes keywords) event))
       else Ok event) (\<lambda>event.
     let event = with_some quick_reply_with_field ''count'' show_i32 (qa_count action) event;
         event = with_some quick_reply_with_field ''deleted'' show_bool (qa_deleted action) event in
     Ok (batch\<lparr>eb_quick_replies_update := eb_quick_replies_update batch @ [event]\<rparr>)))"

definition push_label_edit_sync_event ::
  "EventBatch \<Rightarrow> SyncActionValue DecodedAppStateMutation \<Rightarrow> LabelEditAction \<Rightarrow> EventBatch core_result" where
  "push_label_edit_sync_event batch mutation action =
     and_then (required_index_value mutation 1 ''label id'') (\<lambda>i.
     let event = label_event_new i;
         event = with_some label_with_field ''name'' (\<lambda>n. n) (ea_name action) event;
         event = with_some label_with_field ''color'' show_i32 (ea_color action) event;
         event = with_some label_with_field ''predefined_id'' show_i32 (ea_predefined_id action) event;
         event = with_some label_with_field ''deleted'' show_bool (ea_deleted action) event;
         event = with_some label_with_field ''order_index'' show_i32 (ea_order_index action) event;
         event = with_some label_with_field ''is_active'' show_bool (ea_is_active action) event;
         event = with_some label_with_field ''list_type'' show_i32 (ea_type action) event;
         event = with_some label_with_field ''is_immutable'' show_bool (ea_is_immutable action) event;
         event = with_some label_with_field ''mute_end_time_ms'' show_i64 (ea_mute_end_time_ms action) event in
     Ok (batch\<lparr>eb_labels_edit := eb_labels_edit batch @ [event]\<rparr>))"

definition push_label_association_sync_event ::
  "EventBatch \<Rightarrow> SyncActionValue DecodedAppStateMutation \<Rightarrow> bool option \<Rightarrow> EventBatch core_result" where
  "push_label_association_sync_event batch mutation action_labeled =
     and_then (required_index_value mutation 0 ''label association type'') (\<lambda>association_type.
     and_then (required_index_value mutation 1 ''label id'') (\<lambda>label_id.
     and_then (required_index_jid mutation 2 ''label association chat JID'') (\<lambda>chat_jid.
     let labeled = (case action_labeled of Some b \<Rightarrow> b | None \<Rightarrow> False) in
     if association_type = ''label_jid''
     then Ok (batch\<lparr>eb_labels_association := eb_labels_association batch @
       [label_association_chat label_id chat_jid labeled]\<rparr>)
     else if association_type = ''label_message''
     then and_then (required_index_value mutation 3 ''label association message id'') (\<lambda>message_id.
       Ok (batch\<lparr>eb_labels_association := eb_labels_association batch @
         [label_association_message label_id chat_jid message_id labeled]\<rparr>))
     else Err (Protocol (''unknown label association type: '' @ association_type)))))"

text \<open>\<open>unwrap_or(false)\<close>\<close>

definition or_false :: "bool option \<Rightarrow> bool" where
  "or_false b = (case b of Some b \<Rightarrow> b | None \<Rightarrow> False)"

definition push_chat :: "EventBatch \<Rightarrow> ChatEvent \<Rightarrow> EventBatch" where
  "push_chat batch e = batch\<lparr>eb_chats_update := eb_chats_update batch @ [e]\<rparr>"

text \<open>\<open>if let Some(x) = opt { f(x) } else { g }\<close>\<close>

definition if_let :: "'a option \<Rightarrow> ('a \<Rightarrow> 'b) \<Rightarrow> 'b \<Rightarrow> 'b" where
  "if_let v f g = (case v of Some x \<Rightarrow> f x | None \<Rightarrow> g)"

text \<open>The first action that is set decides; a deletion counts only after the initial sync.\<close>

definition push_app_state_mutation_event ::
  "SyncActionValue app_ext \<Rightarrow> EventBatch \<Rightarrow> SyncActionValue DecodedAppStateMutation \<Rightarrow> bool \<Rightarrow>
     EventBatch core_result" where
  "push_app_state_mutation_event A batch mutation is_initial_sync =
     and_then (ok_or (sa_value (dm_sync_action mutation)) (Protocol ''sync action value is missing'')) (\<lambda>v.
     if_let (va_contact_action v) (push_contact_sync_event batch mutation)
     (if_let (va_quick_reply_action v) (push_quick_reply_sync_event A batch mutation)
     (if_let (va_label_edit_action v) (push_label_edit_sync_event batch mutation)
     (if_let (va_label_association_action v) (push_label_association_sync_event batch mutation)
     (if_let (va_archive_chat_action v) (\<lambda>archived.
         and_then (required_index_jid mutation 1 ''archive chat JID'') (\<lambda>chat_jid.
         Ok (push_chat batch (chat_with_field ''archived'' (show_bool (or_false archived)) (chat_event_new chat_jid)))))
     (if_let (va_mark_chat_as_read_action v) (\<lambda>read.
         and_then (required_index_jid mutation 1 ''mark-read chat JID'') (\<lambda>chat_jid.
         Ok (push_chat batch (chat_with_field ''unread_count'' (if or_false read then ''0'' else ''-1'')
           (chat_event_new chat_jid)))))
     (if_let (va_mute_action v) (\<lambda>action.
         and_then (required_index_jid mutation 1 ''mute chat JID'') (\<lambda>chat_jid.
         Ok (push_chat batch (with_some chat_with_field ''mute_end_timestamp'' show_i64 (ma_mute_end_timestamp action)
           (chat_with_field ''muted'' (show_bool (or_false (ma_muted action))) (chat_event_new chat_jid))))))
     (if_let (va_pin_action v) (\<lambda>pinned.
         and_then (required_index_jid mutation 1 ''pin chat JID'') (\<lambda>chat_jid.
         Ok (push_chat batch (chat_with_field ''pinned''
           (if or_false pinned then if_let (va_timestamp v) show_i64 ''true'' else ''false'')
           (chat_event_new chat_jid)))))
     (if va_delete_chat_action v \<noteq> None \<and> \<not> is_initial_sync
      then
         and_then (required_index_jid mutation 1 ''delete chat JID'') (\<lambda>chat_jid.
         Ok (batch\<lparr>eb_chats_delete := eb_chats_delete batch @ [chat_jid]\<rparr>))
      else if_let (va_star_action v) (\<lambda>starred.
         and_then (required_index_jid mutation 1 ''star chat JID'') (\<lambda>chat_jid.
         and_then (required_index_value mutation 2 ''star message id'') (\<lambda>message_id.
         Ok (batch\<lparr>eb_messages_update := eb_messages_update batch @
           [message_update_with_field ''starred'' (show_bool (or_false starred))
             (message_update_new (MessageEventKey chat_jid message_id None))]\<rparr>))))
       (Ok batch))))))))))"

fun push_mutation_events ::
  "SyncActionValue app_ext \<Rightarrow> bool \<Rightarrow> SyncActionValue DecodedAppStateMutation list \<Rightarrow> EventBatch \<Rightarrow>
     EventBatch core_result" where
  "push_mutation_events A is_initial_sync [] batch = Ok batch"
| "push_mutation_events A is_initial_sync (mutation # mutations) batch =
     and_then (push_app_state_mutation_event A batch mutation is_initial_sync) (\<lambda>batch.
     push_mutation_events A is_initial_sync mutations batch)"

definition event_batch_from_decoded_app_state_mutations ::
  "SyncActionValue app_ext \<Rightarrow> SyncActionValue DecodedAppStateMutation list \<Rightarrow> bool \<Rightarrow> EventBatch core_result" where
  "event_batch_from_decoded_app_state_mutations A mutations is_initial_sync =
     push_mutation_events A is_initial_sync mutations empty_batch"

definition event_batch_from_decoded_app_state_patch ::
  "SyncActionValue app_ext \<Rightarrow> SyncActionValue DecodedAppStatePatch \<Rightarrow> bool \<Rightarrow> EventBatch core_result" where
  "event_batch_from_decoded_app_state_patch A patch is_initial_sync =
     event_batch_from_decoded_app_state_mutations A (dp_mutations patch) is_initial_sync"

definition event_batch_from_decoded_app_state_snapshot ::
  "SyncActionValue app_ext \<Rightarrow> SyncActionValue DecodedAppStateSnapshot \<Rightarrow> EventBatch core_result" where
  "event_batch_from_decoded_app_state_snapshot A snapshot =
     event_batch_from_decoded_app_state_mutations A (ds_mutations snapshot) True"

definition decoded_app_state_mutation_from_chat_mutation_patch ::
  "SyncActionValue app_ext \<Rightarrow> SyncActionValue ChatMutationPatch \<Rightarrow>
     SyncActionValue DecodedAppStateMutation core_result" where
  "decoded_app_state_mutation_from_chat_mutation_patch A patch =
     and_then (build_sync_action_data A patch) (\<lambda>sync_action.
     Ok \<lparr>dm_operation = cm_operation patch, dm_key_id = [], dm_index_mac = [], dm_value_mac = [],
         dm_encrypted_value = [], dm_index = cm_index patch, dm_sync_action = sync_action\<rparr>)"

definition event_batch_from_chat_mutation_patch ::
  "SyncActionValue app_ext \<Rightarrow> SyncActionValue ChatMutationPatch \<Rightarrow> bool \<Rightarrow> EventBatch core_result" where
  "event_batch_from_chat_mutation_patch A patch is_initial_sync =
     and_then (decoded_app_state_mutation_from_chat_mutation_patch A patch) (\<lambda>mutation.
     event_batch_from_decoded_app_state_mutations A [mutation] is_initial_sync)"

end
