(* ===== verification/AppStateStore.thy ===== *)
theory AppStateStore
  imports AppStateEvents
begin

text \<open>
  The app state in the store, \<^verbatim>\<open>crates/wa-core/src/app_state.rs\<close>: the state of every collection in
  its binary format, the sync keys, the collections that wait for a key, and the application of the
  server's response to a sync query, collection by collection and patch by patch.
\<close>

section \<open>Operations on the store\<close>

text \<open>A function that awaits the store: an error ends it, what was written before stays.\<close>

type_synonym 'a store_op = "MemoryAuthStore \<Rightarrow> 'a core_result \<times> MemoryAuthStore"

definition op_lift :: "'a core_result \<Rightarrow> 'a store_op" where
  "op_lift r st = (r, st)"

definition op_bind :: "'a store_op \<Rightarrow> ('a \<Rightarrow> 'b store_op) \<Rightarrow> 'b store_op" where
  "op_bind f g st = (case f st of (Inl e, st') \<Rightarrow> (Inl e, st') | (Inr x, st') \<Rightarrow> g x st')"

abbreviation op_return :: "'a \<Rightarrow> 'a store_op" where
  "op_return x \<equiv> op_lift (Ok x)"

definition op_store :: "(MemoryAuthStore \<Rightarrow> (StoreError + 'a) \<times> MemoryAuthStore) \<Rightarrow> 'a store_op" where
  "op_store f st = (case f st of (r, st') \<Rightarrow> (map_err StoreErr r, st'))"

definition op_get :: "KeyNamespace \<Rightarrow> string \<Rightarrow> bytes option store_op" where
  "op_get ns key = op_store (\<lambda>st. memory_get st ns key)"

definition op_set :: "KeyNamespace \<Rightarrow> string \<Rightarrow> bytes \<Rightarrow> unit store_op" where
  "op_set ns key val = op_store (\<lambda>st. memory_set st ns key val)"

definition op_delete :: "KeyNamespace \<Rightarrow> string \<Rightarrow> unit store_op" where
  "op_delete ns key = op_store (\<lambda>st. memory_delete st ns key)"

lemma op_simps [simp]:
  "op_bind (op_lift (Inr x)) g = g x"
  "op_lift r st = (r, st)"
  by (simp_all add: op_bind_def op_lift_def fun_eq_iff)

lemma op_bind_lift: "op_bind (op_lift r) g st = (case r of Inl e \<Rightarrow> (Inl e, st) | Inr x \<Rightarrow> g x st)"
  by (simp add: op_bind_def split: sum.split)

lemma op_bind_step:
  "f st = (Inr x, st') \<Longrightarrow> op_bind f g st = g x st'" "f st = (Inl e, st') \<Longrightarrow> op_bind f g st = (Inl e, st')"
  by (simp_all add: op_bind_def)

section \<open>The binary formats\<close>

definition APP_STATE_STORE_MAGIC :: bytes where "APP_STATE_STORE_MAGIC = bytes_of ''ASPS''"
definition APP_STATE_STORE_FORMAT_VERSION :: u8 where "APP_STATE_STORE_FORMAT_VERSION = 1"
definition APP_STATE_BLOCKED_STORE_MAGIC :: bytes where "APP_STATE_BLOCKED_STORE_MAGIC = bytes_of ''ASBK''"
definition APP_STATE_BLOCKED_STORE_FORMAT_VERSION :: u8 where
  "APP_STATE_BLOCKED_STORE_FORMAT_VERSION = 1"

definition write_len_prefixed :: "bytes \<Rightarrow> bytes core_result" where
  "write_len_prefixed bs =
     (if length bs \<ge> 2 ^ 32 then Err (Payload ''app-state store field exceeds u32 length'')
      else Ok (put_u32 (word_of_nat (length bs)) @ bs))"

text \<open>
  The readers advance an offset into the bytes; here they return the rest. The offset never passes
  the length, so that adding a 32-bit length to it cannot overflow.
\<close>

definition app_read_exact :: "bytes \<Rightarrow> nat \<Rightarrow> string \<Rightarrow> (bytes \<times> bytes) core_result" where
  "app_read_exact input len label =
     (if length input < len then Err (Payload (label @ '' exceeds app-state store state length''))
      else Ok (take len input, drop len input))"

definition app_read_u8 :: "bytes \<Rightarrow> string \<Rightarrow> (u8 \<times> bytes) core_result" where
  "app_read_u8 input label = and_then (app_read_exact input 1 label) (\<lambda>(v, input). Ok (hd v, input))"

definition app_read_u32 :: "bytes \<Rightarrow> string \<Rightarrow> (u32 \<times> bytes) core_result" where
  "app_read_u32 input label =
     and_then (app_read_exact input 4 label) (\<lambda>(v, input). Ok (fst (get_u32 v), input))"

definition app_read_u64 :: "bytes \<Rightarrow> string \<Rightarrow> (u64 \<times> bytes) core_result" where
  "app_read_u64 input label =
     and_then (app_read_exact input 8 label) (\<lambda>(v, input). Ok (fst (get_u64 v), input))"

definition read_len_prefixed :: "bytes \<Rightarrow> string \<Rightarrow> (bytes \<times> bytes) core_result" where
  "read_len_prefixed input label =
     and_then (app_read_u32 input label) (\<lambda>(len, input). app_read_exact input (unat len) label)"

fun write_entries :: "'v app_ext \<Rightarrow> (string, bytes) btree \<Rightarrow> bytes core_result" where
  "write_entries A [] = Ok []"
| "write_entries A ((mac_key, val_mac) # rest) =
     and_then (map_err (\<lambda>e. Payload (''failed to decode app-state index MAC key: '' @ e))
       (a_base64_decode A mac_key)) (\<lambda>index_mac.
     and_then (validate_app_state_mac ''app-state index mac'' index_mac) (\<lambda>_.
     and_then (validate_app_state_mac ''app-state value mac'' val_mac) (\<lambda>_.
     and_then (write_len_prefixed index_mac) (\<lambda>i.
     and_then (write_len_prefixed val_mac) (\<lambda>v.
     and_then (write_entries A rest) (\<lambda>output. Ok (i @ v @ output)))))))"

definition encode_app_state_patch_state_bytes ::
  "'v app_ext \<Rightarrow> AppStatePatchState \<Rightarrow> bytes core_result" where
  "encode_app_state_patch_state_bytes A st =
     (if length (ps_index_value_macs st) \<ge> 2 ^ 32
      then Err (Payload ''app-state store has too many index/value MAC entries'')
      else
        and_then (write_len_prefixed (ps_hash st)) (\<lambda>hash.
        and_then (write_entries A (ps_index_value_macs st)) (\<lambda>macs.
        Ok (APP_STATE_STORE_MAGIC @ [APP_STATE_STORE_FORMAT_VERSION] @ put_u64 (ps_version st) @ hash @
            put_u32 (word_of_nat (length (ps_index_value_macs st))) @ macs))))"

fun read_entries :: "nat \<Rightarrow> bytes \<Rightarrow> ((bytes \<times> bytes) list \<times> bytes) core_result" where
  "read_entries 0 input = Ok ([], input)"
| "read_entries (Suc n) input =
     and_then (read_len_prefixed input ''app-state store index MAC'') (\<lambda>(index_mac, input).
     and_then (read_len_prefixed input ''app-state store value MAC'') (\<lambda>(val_mac, input).
     and_then (read_entries n input) (\<lambda>(rest, input). Ok ((index_mac, val_mac) # rest, input))))"

definition decode_app_state_patch_state_bytes ::
  "'v app_ext \<Rightarrow> bytes \<Rightarrow> AppStatePatchState core_result" where
  "decode_app_state_patch_state_bytes A input =
     and_then (app_read_exact input 4 ''app-state store magic'') (\<lambda>(magic, input).
     if magic \<noteq> APP_STATE_STORE_MAGIC then Err (Payload ''app-state store state has invalid magic'') else
     and_then (app_read_u8 input ''app-state store format version'') (\<lambda>(format_version, input).
     if format_version \<noteq> APP_STATE_STORE_FORMAT_VERSION
     then Err (Payload (''unsupported app-state store format version: '' @ show_nat (unat format_version))) else
     and_then (app_read_u64 input ''app-state store version'') (\<lambda>(version, input).
     and_then (read_len_prefixed input ''app-state store hash'') (\<lambda>(hash, input).
     and_then (app_read_u32 input ''app-state store entry count'') (\<lambda>(entry_count, input).
     and_then (read_entries (unat entry_count) input) (\<lambda>(macs, input).
     if input \<noteq> [] then Err (Payload ''app-state store state has trailing bytes'') else
     from_index_value_macs A version hash macs))))))"

record AppStateBlockedCollection =
  bc_collection :: AppStateCollection
  bc_key_id :: bytes
  bc_previous_version :: u64

definition encode_app_state_blocked_collection_bytes :: "AppStateBlockedCollection \<Rightarrow> bytes core_result" where
  "encode_app_state_blocked_collection_bytes blocked =
     (if bc_key_id blocked = [] then Err (Protocol ''app-state blocked collection key id must not be empty'')
      else and_then (write_len_prefixed (bc_key_id blocked)) (\<lambda>key_id.
        Ok (APP_STATE_BLOCKED_STORE_MAGIC @ [APP_STATE_BLOCKED_STORE_FORMAT_VERSION] @
            put_u64 (bc_previous_version blocked) @ key_id)))"

definition decode_app_state_blocked_collection_bytes ::
  "AppStateCollection \<Rightarrow> bytes \<Rightarrow> AppStateBlockedCollection core_result" where
  "decode_app_state_blocked_collection_bytes collection input =
     and_then (app_read_exact input 4 ''app-state blocked store magic'') (\<lambda>(magic, input).
     if magic \<noteq> APP_STATE_BLOCKED_STORE_MAGIC
     then Err (Payload ''app-state blocked store state has invalid magic'') else
     and_then (app_read_u8 input ''app-state blocked store format version'') (\<lambda>(format_version, input).
     if format_version \<noteq> APP_STATE_BLOCKED_STORE_FORMAT_VERSION
     then Err (Payload (''unsupported app-state blocked store format version: '' @
       show_nat (unat format_version))) else
     and_then (app_read_u64 input ''app-state blocked previous version'') (\<lambda>(previous_version, input).
     and_then (read_len_prefixed input ''app-state blocked key id'') (\<lambda>(key_id, input).
     if key_id = [] then Err (Protocol ''app-state blocked key id must not be empty'') else
     if input \<noteq> [] then Err (Payload ''app-state blocked store state has trailing bytes'') else
     Ok \<lparr>bc_collection = collection, bc_key_id = key_id, bc_previous_version = previous_version\<rparr>))))"

section \<open>Loading and saving\<close>

definition load_app_state_patch_state :: "'v app_ext \<Rightarrow> AppStateCollection \<Rightarrow> AppStatePatchState store_op" where
  "load_app_state_patch_state A collection =
     op_bind (op_get NsAppStateSyncVersion (collection_name collection)) (\<lambda>encoded.
     case encoded of None \<Rightarrow> op_return patch_state_empty
     | Some encoded \<Rightarrow> op_lift (decode_app_state_patch_state_bytes A encoded))"

definition save_app_state_patch_state ::
  "'v app_ext \<Rightarrow> AppStateCollection \<Rightarrow> AppStatePatchState \<Rightarrow> unit store_op" where
  "save_app_state_patch_state A collection state =
     op_bind (op_lift (encode_app_state_patch_state_bytes A state)) (\<lambda>encoded.
     op_set NsAppStateSyncVersion (collection_name collection) encoded)"

definition app_state_sync_key_store_id :: "'v app_ext \<Rightarrow> bytes \<Rightarrow> string core_result" where
  "app_state_sync_key_store_id A key_id =
     (if key_id = [] then Err (Protocol ''app-state sync key id must not be empty'')
      else Ok (a_base64_encode A key_id))"

definition load_app_state_sync_key_data :: "'v app_ext \<Rightarrow> bytes \<Rightarrow> bytes option store_op" where
  "load_app_state_sync_key_data A key_id =
     op_bind (op_lift (app_state_sync_key_store_id A key_id)) (\<lambda>store_id.
     op_bind (op_get NsAppStateSyncKey store_id) (\<lambda>encoded.
     case encoded of None \<Rightarrow> op_return None
     | Some encoded \<Rightarrow>
         op_bind (op_lift (map_err ProtobufDecode (a_dec_key_data A encoded))) (\<lambda>key.
         op_bind (op_lift (ok_or (filter_opt (\<lambda>d. d \<noteq> []) (kd_key_data key))
           (Protocol ''app-state sync key data is missing''))) (\<lambda>key_data.
         op_return (Some key_data)))))"

definition save_app_state_sync_key_data :: "'v app_ext \<Rightarrow> bytes \<Rightarrow> bytes \<Rightarrow> unit store_op" where
  "save_app_state_sync_key_data A key_id key_data =
     (if key_data = [] then op_lift (Err (Protocol ''app-state sync key data must not be empty''))
      else
        op_bind (op_lift (app_state_sync_key_store_id A key_id)) (\<lambda>store_id.
        op_set NsAppStateSyncKey store_id (a_enc_key_data A
          \<lparr>kd_key_data = Some key_data, kd_fingerprint = None, kd_timestamp = None\<rparr>)))"

definition save_app_state_blocked_collection :: "AppStateBlockedCollection \<Rightarrow> unit store_op" where
  "save_app_state_blocked_collection blocked =
     op_bind (op_lift (encode_app_state_blocked_collection_bytes blocked)) (\<lambda>encoded.
     op_set NsAppStateSyncBlocked (collection_name (bc_collection blocked)) encoded)"

definition load_app_state_blocked_collection ::
  "AppStateCollection \<Rightarrow> AppStateBlockedCollection option store_op" where
  "load_app_state_blocked_collection collection =
     op_bind (op_get NsAppStateSyncBlocked (collection_name collection)) (\<lambda>encoded.
     case encoded of None \<Rightarrow> op_return None
     | Some encoded \<Rightarrow>
         op_bind (op_lift (decode_app_state_blocked_collection_bytes collection encoded)) (\<lambda>blocked.
         op_return (Some blocked)))"

definition delete_app_state_blocked_collection :: "AppStateCollection \<Rightarrow> unit store_op" where
  "delete_app_state_blocked_collection collection =
     op_delete NsAppStateSyncBlocked (collection_name collection)"

text \<open>The two loops over all collections, which keep the blocked ones that pass a test.\<close>

fun blocked_collections_where ::
  "(AppStateBlockedCollection \<Rightarrow> bool store_op) \<Rightarrow> AppStateCollection list \<Rightarrow>
     AppStateBlockedCollection list store_op" where
  "blocked_collections_where test [] = op_return []"
| "blocked_collections_where test (collection # rest) =
     op_bind (load_app_state_blocked_collection collection) (\<lambda>entry.
     op_bind (case entry of None \<Rightarrow> op_return False | Some entry \<Rightarrow> test entry) (\<lambda>keep.
     op_bind (blocked_collections_where test rest) (\<lambda>blocked.
     op_return (if keep then the entry # blocked else blocked))))"

definition load_app_state_blocked_collections_for_keys ::
  "bytes list \<Rightarrow> AppStateBlockedCollection list store_op" where
  "load_app_state_blocked_collections_for_keys key_ids =
     (if key_ids = [] then op_return []
      else blocked_collections_where (\<lambda>entry. op_return (bc_key_id entry \<in> set key_ids)) all_collections)"

definition load_app_state_blocked_collections_with_store_keys ::
  "'v app_ext \<Rightarrow> AppStateBlockedCollection list store_op" where
  "load_app_state_blocked_collections_with_store_keys A =
     blocked_collections_where (\<lambda>entry.
       op_bind (load_app_state_sync_key_data A (bc_key_id entry)) (\<lambda>key. op_return (key \<noteq> None)))
       all_collections"

record AppStateSyncKeyShareItem =
  ks_key_id :: bytes
  ks_key_data :: bytes

fun save_keys :: "'v app_ext \<Rightarrow> AppStateSyncKeyShareItem list \<Rightarrow> unit store_op" where
  "save_keys A [] = op_return ()"
| "save_keys A (key # keys) =
     op_bind (save_app_state_sync_key_data A (ks_key_id key) (ks_key_data key)) (\<lambda>_. save_keys A keys)"

definition save_app_state_sync_key_share ::
  "'v app_ext \<Rightarrow> AppStateSyncKeyShareItem list \<Rightarrow> AppStateBlockedCollection list store_op" where
  "save_app_state_sync_key_share A keys =
     op_bind (save_keys A keys) (\<lambda>_.
     load_app_state_blocked_collections_for_keys (map ks_key_id keys))"

section \<open>Applying patches and snapshots\<close>

definition apply_decoded_app_state_patch_to_store ::
  "SyncActionValue app_ext \<Rightarrow> SyncActionValue DecodedAppStatePatch \<Rightarrow> bool \<Rightarrow> EventBatch store_op" where
  "apply_decoded_app_state_patch_to_store A patch is_initial_sync =
     op_bind (op_lift (event_batch_from_decoded_app_state_patch A patch is_initial_sync)) (\<lambda>batch.
     op_bind (save_app_state_patch_state A (dp_collection patch) (dp_next_state patch)) (\<lambda>_.
     op_bind (delete_app_state_blocked_collection (dp_collection patch)) (\<lambda>_.
     op_return batch)))"

definition apply_decoded_app_state_snapshot_to_store ::
  "SyncActionValue app_ext \<Rightarrow> SyncActionValue DecodedAppStateSnapshot \<Rightarrow> EventBatch store_op" where
  "apply_decoded_app_state_snapshot_to_store A snapshot =
     op_bind (op_lift (event_batch_from_decoded_app_state_snapshot A snapshot)) (\<lambda>batch.
     op_bind (save_app_state_patch_state A (ds_collection snapshot) (ds_state snapshot)) (\<lambda>_.
     op_bind (delete_app_state_blocked_collection (ds_collection snapshot)) (\<lambda>_.
     op_return batch)))"

section \<open>The response to a sync query\<close>

text \<open>The generated type \<open>ExternalBlobReference\<close> is only passed on, as its encoding.\<close>

record AppStateSyncCollection =
  sc_collection :: AppStateCollection
  sc_version :: "u64 option"
  sc_has_more_patches :: bool
  sc_snapshot :: "bytes option"
  sc_patches :: "SyncdPatch list"

record AppStateSyncResponse =
  sy_collections :: "AppStateSyncCollection list"

record AppStatePendingSnapshot =
  pn_collection :: AppStateCollection
  pn_reference :: bytes

record AppStateCollectionSyncOutcome =
  oc_collection :: AppStateCollection
  oc_response_version :: "u64 option"
  oc_final_version :: u64
  oc_applied_patches :: nat
  oc_emitted_batches :: nat
  oc_has_more_patches :: bool
  oc_snapshot_pending :: bool

record AppStateSyncApplyOutcome =
  out_batches :: "EventBatch list"
  out_collections :: "AppStateCollectionSyncOutcome list"
  out_pending_snapshots :: "AppStatePendingSnapshot list"
  out_blocked :: "AppStateBlockedCollection list"

definition empty_outcome :: AppStateSyncApplyOutcome where
  "empty_outcome = \<lparr>out_batches = [], out_collections = [], out_pending_snapshots = [], out_blocked = []\<rparr>"

definition push_batch :: "EventBatch \<Rightarrow> EventBatch list \<Rightarrow> EventBatch list" where
  "push_batch batch batches = (if batch_is_empty batch then batches else batches @ [batch])"

text \<open>The loop over the patches of a collection: the state, the patches applied and the batches.\<close>

fun apply_patches ::
  "ext \<Rightarrow> SyncActionValue app_ext \<Rightarrow> AppStateCollection \<Rightarrow> bytes \<Rightarrow> bool \<Rightarrow> SyncdPatch list \<Rightarrow>
     AppStatePatchState \<times> nat \<times> EventBatch list \<Rightarrow>
     (AppStatePatchState \<times> nat \<times> EventBatch list) store_op" where
  "apply_patches X A collection key_data is_initial_sync [] acc = op_return acc"
| "apply_patches X A collection key_data is_initial_sync (patch # patches) (state, applied, batches) =
     op_bind (op_lift (decode_app_state_patch X A collection state patch key_data)) (\<lambda>decoded.
     op_bind (apply_decoded_app_state_patch_to_store A decoded is_initial_sync) (\<lambda>batch.
     apply_patches X A collection key_data is_initial_sync patches
       (dp_next_state decoded, applied + 1, push_batch batch batches)))"

definition pending_snapshot :: "AppStateSyncCollection \<Rightarrow> AppStatePendingSnapshot list" where
  "pending_snapshot collection = (case sc_snapshot collection of None \<Rightarrow> []
     | Some reference \<Rightarrow> [\<lparr>pn_collection = sc_collection collection, pn_reference = reference\<rparr>])"

definition apply_collection ::
  "ext \<Rightarrow> SyncActionValue app_ext \<Rightarrow> bytes \<Rightarrow> bool \<Rightarrow> AppStateSyncCollection \<Rightarrow>
     AppStateSyncApplyOutcome \<Rightarrow> AppStateSyncApplyOutcome store_op" where
  "apply_collection X A key_data is_initial_sync collection outcome =
     op_bind (load_app_state_patch_state A (sc_collection collection)) (\<lambda>state.
     op_bind (apply_patches X A (sc_collection collection) key_data is_initial_sync (sc_patches collection)
       (state, 0, out_batches outcome)) (\<lambda>(state, applied_patches, batches).
     op_bind (delete_app_state_blocked_collection (sc_collection collection)) (\<lambda>_.
     op_return (outcome\<lparr>
       out_batches := batches,
       out_pending_snapshots := out_pending_snapshots outcome @ pending_snapshot collection,
       out_collections := out_collections outcome @
         [\<lparr>oc_collection = sc_collection collection, oc_response_version = sc_version collection,
           oc_final_version = ps_version state, oc_applied_patches = applied_patches,
           oc_emitted_batches = length batches - length (out_batches outcome),
           oc_has_more_patches = sc_has_more_patches collection,
           oc_snapshot_pending = (sc_snapshot collection \<noteq> None)\<rparr>]\<rparr>))))"

fun apply_collections ::
  "(AppStateSyncCollection \<Rightarrow> AppStateSyncApplyOutcome \<Rightarrow> AppStateSyncApplyOutcome store_op) \<Rightarrow>
     AppStateSyncCollection list \<Rightarrow> AppStateSyncApplyOutcome \<Rightarrow> AppStateSyncApplyOutcome store_op" where
  "apply_collections step [] outcome = op_return outcome"
| "apply_collections step (collection # collections) outcome =
     op_bind (step collection outcome) (\<lambda>outcome. apply_collections step collections outcome)"

definition apply_app_state_sync_response_to_store ::
  "ext \<Rightarrow> SyncActionValue app_ext \<Rightarrow> AppStateSyncResponse \<Rightarrow> bytes \<Rightarrow> bool \<Rightarrow>
     AppStateSyncApplyOutcome store_op" where
  "apply_app_state_sync_response_to_store X A response key_data is_initial_sync =
     apply_collections (apply_collection X A key_data is_initial_sync) (sy_collections response) empty_outcome"

text \<open>With the keys of the store, a patch whose key is missing blocks its collection.\<close>

fun apply_patches_with_keys ::
  "ext \<Rightarrow> SyncActionValue app_ext \<Rightarrow> AppStateCollection \<Rightarrow> bool \<Rightarrow> SyncdPatch list \<Rightarrow>
     AppStatePatchState \<times> nat \<times> EventBatch list \<Rightarrow>
     (AppStatePatchState \<times> nat \<times> EventBatch list \<times> AppStateBlockedCollection option) store_op" where
  "apply_patches_with_keys X A collection is_initial_sync [] (state, applied, batches) =
     op_return (state, applied, batches, None)"
| "apply_patches_with_keys X A collection is_initial_sync (patch # patches) (state, applied, batches) =
     op_bind (op_lift (patch_key_id patch)) (\<lambda>key_id.
     op_bind (load_app_state_sync_key_data A key_id) (\<lambda>key_data.
     case key_data of
       None \<Rightarrow>
         let blocked = \<lparr>bc_collection = collection, bc_key_id = key_id, bc_previous_version = ps_version state\<rparr> in
         op_bind (save_app_state_blocked_collection blocked) (\<lambda>_.
         op_return (state, applied, batches, Some blocked))
     | Some key_data \<Rightarrow>
         op_bind (op_lift (decode_app_state_patch X A collection state patch key_data)) (\<lambda>decoded.
         op_bind (apply_decoded_app_state_patch_to_store A decoded is_initial_sync) (\<lambda>batch.
         apply_patches_with_keys X A collection is_initial_sync patches
           (dp_next_state decoded, applied + 1, push_batch batch batches)))))"

definition apply_collection_with_keys ::
  "ext \<Rightarrow> SyncActionValue app_ext \<Rightarrow> bool \<Rightarrow> AppStateSyncCollection \<Rightarrow>
     AppStateSyncApplyOutcome \<Rightarrow> AppStateSyncApplyOutcome store_op" where
  "apply_collection_with_keys X A is_initial_sync collection outcome =
     op_bind (load_app_state_patch_state A (sc_collection collection)) (\<lambda>state.
     op_bind (apply_patches_with_keys X A (sc_collection collection) is_initial_sync (sc_patches collection)
       (state, 0, out_batches outcome)) (\<lambda>(state, applied_patches, batches, blocked).
     op_bind (if blocked = None then delete_app_state_blocked_collection (sc_collection collection)
       else op_return ()) (\<lambda>_.
     op_return (outcome\<lparr>
       out_batches := batches,
       out_blocked := out_blocked outcome @ (case blocked of None \<Rightarrow> [] | Some b \<Rightarrow> [b]),
       out_pending_snapshots := out_pending_snapshots outcome @
         (if blocked = None then pending_snapshot collection else []),
       out_collections := out_collections outcome @
         [\<lparr>oc_collection = sc_collection collection, oc_response_version = sc_version collection,
           oc_final_version = ps_version state, oc_applied_patches = applied_patches,
           oc_emitted_batches = length batches - length (out_batches outcome),
           oc_has_more_patches = sc_has_more_patches collection,
           oc_snapshot_pending = (blocked = None \<and> sc_snapshot collection \<noteq> None)\<rparr>]\<rparr>))))"

definition apply_app_state_sync_response_with_store_keys ::
  "ext \<Rightarrow> SyncActionValue app_ext \<Rightarrow> AppStateSyncResponse \<Rightarrow> bool \<Rightarrow> AppStateSyncApplyOutcome store_op" where
  "apply_app_state_sync_response_with_store_keys X A response is_initial_sync =
     apply_collections (apply_collection_with_keys X A is_initial_sync) (sy_collections response) empty_outcome"

end
