(* ===== verification/SyncActionInstance.thy ===== *)
theory SyncActionInstance
  imports AppStateEvents AppStateInstance
begin

text \<open>
  The concrete instance of the external functions with an encoding of \<^typ>\<open>SyncActionValue\<close>, built
  from self-delimiting parts. The witnesses on the app state in the store evaluate on it.
\<close>

section \<open>Parts\<close>

definition put_bool :: "bool \<Rightarrow> bytes" where "put_bool b = [if b then 1 else 0]"

fun get_bool :: "bytes \<Rightarrow> bool \<times> bytes" where
  "get_bool (t # rest) = (t = 1, rest)"
| "get_bool [] = (False, [])"

interpretation bool_codec: byte_codec put_bool get_bool
  by unfold_locales (simp add: put_bool_def)

definition put_unit :: "unit \<Rightarrow> bytes" where "put_unit u = []"
definition get_unit :: "bytes \<Rightarrow> unit \<times> bytes" where "get_unit bs = ((), bs)"

interpretation unit_codec: byte_codec put_unit get_unit
  by unfold_locales (simp add: put_unit_def get_unit_def)

lemmas part_codecs = text_codec.byte_codec_axioms bool_codec.byte_codec_axioms
  unit_codec.byte_codec_axioms u32_codec.byte_codec_axioms u64_codec.byte_codec_axioms

lemmas opt_codecs = part_codecs [THEN byte_codec_opt]

lemmas get_puts = byte_codec.get_put [OF texts_codec.byte_codec_axioms]
  part_codecs [THEN byte_codec.get_put] opt_codecs [THEN byte_codec.get_put]
  opt_codecs [THEN byte_codec_opt, THEN byte_codec.get_put] str_codec.get_put

section \<open>The actions\<close>

definition put_contact :: "ContactAction \<Rightarrow> bytes" where
  "put_contact v = put_opt put_text (ca_full_name v) @ put_opt put_text (ca_first_name v) @
     put_opt put_text (ca_lid_jid v) @ put_opt put_text (ca_pn_jid v) @ put_opt put_text (ca_username v)"

definition get_contact :: "bytes \<Rightarrow> ContactAction \<times> bytes" where
  "get_contact bs =
     (let (a, bs) = get_opt get_text bs; (b, bs) = get_opt get_text bs; (c, bs) = get_opt get_text bs;
          (d, bs) = get_opt get_text bs; (e, bs) = get_opt get_text bs
      in (\<lparr>ca_full_name = a, ca_first_name = b, ca_lid_jid = c, ca_pn_jid = d, ca_username = e\<rparr>, bs))"

interpretation contact_codec: byte_codec put_contact get_contact
  by unfold_locales (simp add: put_contact_def get_contact_def get_puts)

definition put_quick_reply :: "QuickReplyAction \<Rightarrow> bytes" where
  "put_quick_reply v = put_opt put_text (qa_shortcut v) @ put_opt put_text (qa_message v) @
     put_list put_text (qa_keywords v) @ put_opt put_u32 (qa_count v) @ put_opt put_bool (qa_deleted v)"

definition get_quick_reply :: "bytes \<Rightarrow> QuickReplyAction \<times> bytes" where
  "get_quick_reply bs =
     (let (a, bs) = get_opt get_text bs; (b, bs) = get_opt get_text bs; (c, bs) = get_list get_text bs;
          (d, bs) = get_opt get_u32 bs; (e, bs) = get_opt get_bool bs
      in (\<lparr>qa_shortcut = a, qa_message = b, qa_keywords = c, qa_count = d, qa_deleted = e\<rparr>, bs))"

interpretation quick_reply_codec: byte_codec put_quick_reply get_quick_reply
  by unfold_locales (simp add: put_quick_reply_def get_quick_reply_def get_puts)

definition put_label_edit :: "LabelEditAction \<Rightarrow> bytes" where
  "put_label_edit v = put_opt put_text (ea_name v) @ put_opt put_u32 (ea_color v) @
     put_opt put_u32 (ea_predefined_id v) @ put_opt put_bool (ea_deleted v) @
     put_opt put_u32 (ea_order_index v) @ put_opt put_bool (ea_is_active v) @ put_opt put_u32 (ea_type v) @
     put_opt put_bool (ea_is_immutable v) @ put_opt put_u64 (ea_mute_end_time_ms v)"

definition get_label_edit :: "bytes \<Rightarrow> LabelEditAction \<times> bytes" where
  "get_label_edit bs =
     (let (a, bs) = get_opt get_text bs; (b, bs) = get_opt get_u32 bs; (c, bs) = get_opt get_u32 bs;
          (d, bs) = get_opt get_bool bs; (e, bs) = get_opt get_u32 bs; (f, bs) = get_opt get_bool bs;
          (g, bs) = get_opt get_u32 bs; (h, bs) = get_opt get_bool bs; (i, bs) = get_opt get_u64 bs
      in (\<lparr>ea_name = a, ea_color = b, ea_predefined_id = c, ea_deleted = d, ea_order_index = e,
           ea_is_active = f, ea_type = g, ea_is_immutable = h, ea_mute_end_time_ms = i\<rparr>, bs))"

interpretation label_edit_codec: byte_codec put_label_edit get_label_edit
  by unfold_locales (simp add: put_label_edit_def get_label_edit_def get_puts)

definition put_mute :: "MuteAction \<Rightarrow> bytes" where
  "put_mute v = put_opt put_bool (ma_muted v) @ put_opt put_u64 (ma_mute_end_timestamp v)"

definition get_mute :: "bytes \<Rightarrow> MuteAction \<times> bytes" where
  "get_mute bs =
     (let (a, bs) = get_opt get_bool bs; (b, bs) = get_opt get_u64 bs
      in (\<lparr>ma_muted = a, ma_mute_end_timestamp = b\<rparr>, bs))"

interpretation mute_codec: byte_codec put_mute get_mute
  by unfold_locales (simp add: put_mute_def get_mute_def get_puts)

lemmas action_codecs = contact_codec.byte_codec_axioms quick_reply_codec.byte_codec_axioms
  label_edit_codec.byte_codec_axioms mute_codec.byte_codec_axioms

definition put_value :: "SyncActionValue \<Rightarrow> bytes" where
  "put_value v = put_opt put_u64 (va_timestamp v) @ put_opt put_contact (va_contact_action v) @
     put_opt put_quick_reply (va_quick_reply_action v) @ put_opt put_label_edit (va_label_edit_action v) @
     put_opt (put_opt put_bool) (va_label_association_action v) @
     put_opt (put_opt put_bool) (va_archive_chat_action v) @
     put_opt (put_opt put_bool) (va_mark_chat_as_read_action v) @ put_opt put_mute (va_mute_action v) @
     put_opt (put_opt put_bool) (va_pin_action v) @ put_opt put_unit (va_delete_chat_action v) @
     put_opt (put_opt put_bool) (va_star_action v) @ put_str (va_other v)"

definition get_value :: "bytes \<Rightarrow> SyncActionValue \<times> bytes" where
  "get_value bs =
     (let (a, bs) = get_opt get_u64 bs; (b, bs) = get_opt get_contact bs;
          (c, bs) = get_opt get_quick_reply bs; (d, bs) = get_opt get_label_edit bs;
          (e, bs) = get_opt (get_opt get_bool) bs; (f, bs) = get_opt (get_opt get_bool) bs;
          (g, bs) = get_opt (get_opt get_bool) bs; (h, bs) = get_opt get_mute bs;
          (i, bs) = get_opt (get_opt get_bool) bs; (j, bs) = get_opt get_unit bs;
          (k, bs) = get_opt (get_opt get_bool) bs; (l, bs) = get_str bs
      in (\<lparr>va_timestamp = a, va_contact_action = b, va_quick_reply_action = c, va_label_edit_action = d,
           va_label_association_action = e, va_archive_chat_action = f, va_mark_chat_as_read_action = g,
           va_mute_action = h, va_pin_action = i, va_delete_chat_action = j, va_star_action = k,
           va_other = l\<rparr>, bs))"

interpretation value_codec: byte_codec put_value get_value
  by unfold_locales (simp add: put_value_def get_value_def get_puts
      action_codecs [THEN byte_codec_opt, THEN byte_codec.get_put])

definition toy_sync :: "SyncActionValue app_ext" where
  "toy_sync = toy_app_with put_value get_value"

lemma toy_sync_ok: "app_ext_ok toy_sync"
  unfolding toy_sync_def by (rule toy_app_with_ok) (rule value_codec.byte_codec_axioms)

lemma toy_sync_simps:
  "a_json_encode toy_sync xs = Ok (put_list put_text xs)"
  "a_base64_encode toy_sync = map (\<lambda>b. char_of (unat b))"
  by (simp_all add: toy_sync_def toy_app_with_def)

text \<open>No action at all, and the archiving of a chat.\<close>

definition no_action :: SyncActionValue where
  "no_action = \<lparr>va_timestamp = None, va_contact_action = None, va_quick_reply_action = None,
     va_label_edit_action = None, va_label_association_action = None, va_archive_chat_action = None,
     va_mark_chat_as_read_action = None, va_mute_action = None, va_pin_action = None,
     va_delete_chat_action = None, va_star_action = None, va_other = []\<rparr>"

definition archive_action :: "bool \<Rightarrow> SyncActionValue" where
  "archive_action b = no_action\<lparr>va_archive_chat_action := Some (Some b)\<rparr>"

end
