(* ===== verification/AppStateInvariant.thy ===== *)
theory AppStateInvariant
  imports AppStateStore AppStateRefinement SyncActionInstance
begin

text \<open>
  What the app state in the store promises whatever the server sends: every stored state of a
  collection can be read back, its entries are MACs and its hash is that of its entries, and patches
  never move a collection back.
\<close>

section \<open>The bytes of a state\<close>

definition entry_bytes :: "bytes \<times> bytes \<Rightarrow> bytes" where
  "entry_bytes e = put_u32 32 @ fst e @ put_u32 32 @ snd e"

lemma base64_key:
  assumes "app_ext_ok A"
  shows "a_base64_decode A (a_base64_encode A i) = Inr i"
  using assms by (simp add: app_ext_ok_def)

lemma write_len_prefixed_32: "length bs = 32 \<Longrightarrow> write_len_prefixed bs = Inr (put_u32 32 @ bs)"
  by (simp add: write_len_prefixed_def)

lemma read_len_prefixed_put:
  assumes "length bs < 2 ^ 32"
  shows "read_len_prefixed (put_u32 (word_of_nat (length bs)) @ bs @ rest) label = Inr (bs, rest)"
proof -
  have "unat (word_of_nat (length bs) :: u32) = length bs"
    using assms by (simp add: unsigned_of_nat take_bit_nat_eq_self)
  moreover have "get_u32 (put_u32 w) = (w, [])" for w using get_put_u32 [of w "[]"] by simp
  ultimately show ?thesis
    by (simp add: read_len_prefixed_def app_read_u32_def app_read_exact_def)
qed

lemma read_len_prefixed_32:
  "length bs = 32 \<Longrightarrow> read_len_prefixed (put_u32 32 @ bs @ rest) label = Inr (bs, rest)"
  using read_len_prefixed_put [of bs rest label] by simp

lemma read_entries_bytes:
  "\<forall>(i, v)\<in>set es. length i = 32 \<and> length v = 32 \<Longrightarrow>
     read_entries (length es) (concat (map entry_bytes es) @ rest) = Inr (es, rest)"
proof (induction es)
  case (Cons e es)
  obtain i v where e: "e = (i, v)" by force
  with Cons show ?case by (simp add: entry_bytes_def read_len_prefixed_32)
qed simp

text \<open>The entries that a well-formed map stands for.\<close>

definition decoded_entries :: "'v app_ext \<Rightarrow> (string, bytes) btree \<Rightarrow> (bytes \<times> bytes) list" where
  "decoded_entries A macs = map (\<lambda>(k, v). (projr (a_base64_decode A k), v)) macs"

lemma decoded_entries_ok:
  assumes "app_ext_ok A" "macs_ok A macs"
  shows "\<forall>(i, v)\<in>set (decoded_entries A macs). length i = 32 \<and> length v = 32"
    and "map (\<lambda>(i, v). (a_base64_encode A i, v)) (decoded_entries A macs) = macs"
  using assms(2) base64_key [OF assms(1)]
  by (auto simp: decoded_entries_def macs_ok_def comp_def intro!: map_idI)

lemma write_entries_ok:
  assumes "app_ext_ok A"
  shows "\<forall>(k, v)\<in>set macs. length v = 32 \<and> (\<exists>i. length i = 32 \<and> k = a_base64_encode A i) \<Longrightarrow>
    write_entries A macs = Inr (concat (map entry_bytes (decoded_entries A macs)))"
proof (induction macs)
  case (Cons kv macs)
  obtain k v where kv: "kv = (k, v)" by force
  with Cons.prems obtain i where "length v = 32" "length i = 32" "k = a_base64_encode A i" by auto
  with Cons kv show ?case
    by (simp add: base64_key [OF assms] validate_app_state_mac_def APP_STATE_MAC_LEN_def
        write_len_prefixed_32 decoded_entries_def entry_bytes_def)
qed (simp add: decoded_entries_def)

lemma insert_entries_fold:
  "\<forall>(i, v)\<in>set es. length i = 32 \<and> length v = 32 \<Longrightarrow>
     insert_entries A es macs =
       Inr (fold (\<lambda>(k, v). btree_insert k v) (map (\<lambda>(i, v). (a_base64_encode A i, v)) es) macs)"
  by (induction es arbitrary: macs)
    (auto simp: validate_app_state_mac_def APP_STATE_MAC_LEN_def index_mac_key_def)

lemma insert_decoded_entries:
  assumes "app_ext_ok A" "macs_ok A macs"
  shows "insert_entries A (decoded_entries A macs) [] = Inr macs"
  using insert_entries_fold [OF decoded_entries_ok(1) [OF assms], of A "[]"] decoded_entries_ok(2) [OF assms]
    fold_btree_insert [of "[]" macs] assms(2)
  by (simp add: macs_ok_def)

lemma state_bytes_roundtrip:
  assumes "ext_ok X" "app_ext_ok A" "sound_state X A s"
    and "encode_app_state_patch_state_bytes A s = Inr bs"
  shows "decode_app_state_patch_state_bytes A bs = Inr s"
proof -
  let ?macs = "ps_index_value_macs s"
  from assms(3) have ok: "macs_ok A ?macs" and len: "length (ps_hash s) = 128"
    by (auto simp: sound_state_def is_lt_hash_def APP_STATE_LT_HASH_LEN_def)
  have w: "write_entries A ?macs = Inr (concat (map entry_bytes (decoded_entries A ?macs)))"
    using ok by (intro write_entries_ok [OF assms(2)]) (simp add: macs_ok_def)
  from assms(4) w have small: "length ?macs < 2 ^ 32"
    and bs: "bs = APP_STATE_STORE_MAGIC @ [APP_STATE_STORE_FORMAT_VERSION] @ put_u64 (ps_version s) @
      (put_u32 (word_of_nat (length (ps_hash s))) @ ps_hash s) @
      put_u32 (word_of_nat (length ?macs)) @ concat (map entry_bytes (decoded_entries A ?macs))"
    using len by (auto simp: encode_app_state_patch_state_bytes_def write_len_prefixed_def split: if_splits)
  have n: "unat (word_of_nat (length ?macs) :: u32) = length (decoded_entries A ?macs)"
    using small by (simp add: unsigned_of_nat take_bit_nat_eq_self decoded_entries_def)
  have magic: "length APP_STATE_STORE_MAGIC = 4" by (simp add: APP_STATE_STORE_MAGIC_def)
  have r: "read_entries (unat (word_of_nat (length ?macs) :: u32))
      (concat (map entry_bytes (decoded_entries A ?macs))) = Inr (decoded_entries A ?macs, [])"
    using read_entries_bytes [OF decoded_entries_ok(1) [OF assms(2) ok], of "[]"] by (simp only: n) simp
  have l: "read_len_prefixed (put_u32 128 @ ps_hash s @ rest) label = Inr (ps_hash s, rest)" for rest label
    using read_len_prefixed_put [of "ps_hash s" rest label] len by simp
  have u32: "app_read_u32 (put_u32 w @ rest) label = Inr (w, rest)" for w rest label
    using get_put_u32 [of w "[]"] by (simp add: app_read_u32_def app_read_exact_def)
  have u64: "app_read_u64 (put_u64 w @ rest) label = Inr (w, rest)" for w rest label
    using get_put_u64 [of w "[]"] by (simp add: app_read_u64_def app_read_exact_def put_u64_def)
  show ?thesis
    using insert_decoded_entries [OF assms(2) ok] len
    by (simp add: bs decode_app_state_patch_state_bytes_def app_read_exact_def magic app_read_u8_def
        u64 l u32 r from_index_value_macs_def validate_app_state_hash_def APP_STATE_HASH_LEN_def)
qed

section \<open>Invariants of store operations\<close>

text \<open>
  \<open>keeps I f Q\<close>: an operation that keeps \<open>I\<close>, also when it fails, and whose results satisfy \<open>Q\<close>.
\<close>

definition keeps :: "(MemoryAuthStore \<Rightarrow> bool) \<Rightarrow> 'a store_op \<Rightarrow> ('a \<Rightarrow> bool) \<Rightarrow> bool" where
  "keeps I f Q \<longleftrightarrow> (\<forall>st. I st \<longrightarrow> I (snd (f st)) \<and> (\<forall>x. fst (f st) = Inr x \<longrightarrow> Q x))"

named_theorems keeps_rules \<open>invariants of store operations\<close>

lemma keeps_lift [keeps_rules]: "(\<And>x. r = Inr x \<Longrightarrow> Q x) \<Longrightarrow> keeps I (op_lift r) Q"
  by (simp add: keeps_def)

lemma keeps_bind:
  assumes "keeps I f Q" "\<And>x. Q x \<Longrightarrow> keeps I (g x) R"
  shows "keeps I (op_bind f g) R"
  using assms unfolding keeps_def op_bind_def
  by (fastforce split: sum.splits prod.splits)

lemmas keeps_seq = keeps_bind [where Q = "\<lambda>_. True"]

lemma keeps_weaken: "keeps I f Q \<Longrightarrow> (\<And>x. Q x \<Longrightarrow> R x) \<Longrightarrow> keeps I f R"
  unfolding keeps_def by blast

lemma keeps_True: "keeps I f Q \<Longrightarrow> keeps I f (\<lambda>_. True)"
  unfolding keeps_def by blast

lemma keepsD: "keeps I f Q \<Longrightarrow> I st \<Longrightarrow> f st = (r, st') \<Longrightarrow> I st' \<and> (\<forall>x. r = Inr x \<longrightarrow> Q x)"
  unfolding keeps_def by fastforce

lemma op_access:
  "op_get ns key st = (if poisoned st then (Inl (StoreErr (Join ''poisoned lock: another task failed inside'')), st)
     else (Inr (entries st (ns, key)), st))"
  "op_set ns key v st = (if poisoned st then (Inl (StoreErr (Join ''poisoned lock: another task failed inside'')), st)
     else (Inr (), st\<lparr>entries := (entries st)((ns, key) \<mapsto> v)\<rparr>))"
  "op_delete ns key st = (if poisoned st then (Inl (StoreErr (Join ''poisoned lock: another task failed inside'')), st)
     else (Inr (), st\<lparr>entries := (entries st)((ns, key) := None)\<rparr>))"
  by (simp_all add: op_get_def op_set_def op_delete_def op_store_def memory_get_def memory_set_def
      memory_delete_def with_entries_def tx_simps)

section \<open>The stored states\<close>

definition stored_state :: "'v app_ext \<Rightarrow> MemoryAuthStore \<Rightarrow> AppStateCollection \<Rightarrow> AppStatePatchState core_result" where
  "stored_state A st c = (case entries st (NsAppStateSyncVersion, collection_name c) of
     None \<Rightarrow> Ok patch_state_empty | Some encoded \<Rightarrow> decode_app_state_patch_state_bytes A encoded)"

definition all_stored :: "'v app_ext \<Rightarrow> (AppStateCollection \<Rightarrow> AppStatePatchState \<Rightarrow> bool) \<Rightarrow> MemoryAuthStore \<Rightarrow> bool" where
  "all_stored A good st \<longleftrightarrow> (\<forall>c. \<exists>s. stored_state A st c = Inr s \<and> good c s)"

lemma collection_name_inject [simp]: "collection_name c = collection_name d \<longleftrightarrow> c = d"
  by (cases c; cases d) simp_all

lemma stored_state_frame:
  "ns \<noteq> NsAppStateSyncVersion \<Longrightarrow> stored_state A (st\<lparr>entries := (entries st)((ns, k) := v)\<rparr>) c = stored_state A st c"
  by (auto simp: stored_state_def)

lemma stored_state_update:
  "stored_state A (st\<lparr>entries := (entries st)((NsAppStateSyncVersion, collection_name c) \<mapsto> v)\<rparr>) d =
     (if d = c then decode_app_state_patch_state_bytes A v else stored_state A st d)"
  by (auto simp: stored_state_def)

lemma load_stored_state:
  "load_app_state_patch_state A c st = (if poisoned st
     then (Inl (StoreErr (Join ''poisoned lock: another task failed inside'')), st) else (stored_state A st c, st))"
  by (simp add: load_app_state_patch_state_def op_bind_def op_access stored_state_def split: option.split)

lemma keeps_load [keeps_rules]: "keeps (all_stored A good) (load_app_state_patch_state A c) (good c)"
  by (auto simp: keeps_def load_stored_state all_stored_def) (metis sum.inject(2))

lemma keeps_other [keeps_rules]:
  "keeps (all_stored A good) (op_get ns key) (\<lambda>_. True)"
  "ns \<noteq> NsAppStateSyncVersion \<Longrightarrow> keeps (all_stored A good) (op_set ns key v) (\<lambda>_. True)"
  "ns \<noteq> NsAppStateSyncVersion \<Longrightarrow> keeps (all_stored A good) (op_delete ns key) (\<lambda>_. True)"
  by (simp_all add: keeps_def op_access all_stored_def stored_state_frame)

lemma keeps_save:
  assumes "ext_ok X" "app_ext_ok A" "sound_state X A s" "good c s"
  shows "keeps (all_stored A good) (save_app_state_patch_state A c s) (\<lambda>_. True)"
proof (cases "encode_app_state_patch_state_bytes A s")
  case (Inr bs)
  then show ?thesis
    using assms(4) state_bytes_roundtrip [OF assms(1-3) Inr]
    by (simp add: keeps_def save_app_state_patch_state_def op_access all_stored_def stored_state_update)
qed (simp add: keeps_def save_app_state_patch_state_def op_bind_def)

lemma keeps_blocked [keeps_rules]:
  "keeps (all_stored A good) (delete_app_state_blocked_collection c) (\<lambda>_. True)"
  "keeps (all_stored A good) (save_app_state_blocked_collection b) (\<lambda>_. True)"
  unfolding delete_app_state_blocked_collection_def save_app_state_blocked_collection_def
  by (intro keeps_seq keeps_rules; simp)+

lemma keeps_load_key [keeps_rules]: "keeps (all_stored A good) (load_app_state_sync_key_data B k) (\<lambda>_. True)"
proof -
  have "keeps (all_stored A good) (case encoded of None \<Rightarrow> op_return None
     | Some encoded \<Rightarrow>
         op_bind (op_lift (map_err ProtobufDecode (a_dec_key_data B encoded))) (\<lambda>key.
         op_bind (op_lift (ok_or (filter_opt (\<lambda>d. d \<noteq> []) (kd_key_data key))
           (Protocol ''app-state sync key data is missing''))) (\<lambda>key_data.
         op_return (Some key_data)))) (\<lambda>_. True)" for encoded
    by (cases encoded) (simp_all add: keeps_def op_bind_def split: sum.split)
  then show ?thesis
    unfolding load_app_state_sync_key_data_def by (intro keeps_seq keeps_rules; simp)
qed

section \<open>What decoding gives\<close>

lemma hash_mutations_ok: "collect hash_mutation_of_decoded ds = Inr ms \<Longrightarrow> list_all mutation_ok ms"
proof (induction ds arbitrary: ms)
  case (Cons d ds)
  then show ?case
    by (auto simp: result_simps hash_mutation_of_decoded_def hash_mutation_new_def mutation_ok_def
        validate_app_state_mac_def APP_STATE_MAC_LEN_def split: if_splits)
qed simp

text \<open>A decoded patch takes a sound state one version further, to a sound state.\<close>

lemma decoded_patch:
  fixes A :: "'v app_ext"
  assumes "ext_ok X" "app_ext_ok A" "sound_state X A s" "decode_app_state_patch X A c s p key_data = Inr d"
  shows "sound_state X A (dp_next_state d)" "ps_version (dp_next_state d) = ps_version s + 1"
    "ps_version s < ps_version (dp_next_state d)" "dp_collection d = c"
proof -
  from assms(4) obtain decoded :: "'v DecodedAppStateMutation list" and ms
    where ms: "collect hash_mutation_of_decoded decoded = Inr ms" and adv: "advance_with_hash_mutations X A s ms = Inr (dp_next_state d)" and "dp_collection d = c"
    by (auto simp: decode_app_state_patch_def result_simps split: if_splits)
  from adv have v: "ps_version s \<noteq> - 1"
    and nxt: "apply_hash_mutations_at_version X A s (ps_version s + 1) ms = Inr (dp_next_state d)"
    by (auto simp: advance_with_hash_mutations_def next_version_def result_simps split: if_splits)
  from apply_hash_mutations_spec [OF assms(1-3) hash_mutations_ok [OF ms], of "ps_version s + 1"] nxt
  show "sound_state X A (dp_next_state d)" "ps_version (dp_next_state d) = ps_version s + 1" by auto
  moreover have "ps_version s < ps_version s + 1"
  proof -
    have "ps_version s < - 1" using v by (metis word_order.not_eq_extremum)
    then have "unat (ps_version s) < unat (- 1 :: u64)" by (simp only: word_less_nat_alt)
    moreover have "unat (- 1 :: u64) = 2 ^ 64 - 1" by (subst unsigned_minus_1_eq_mask) (simp add: mask_eq_exp_minus_1)
    ultimately have "unat (ps_version s) + 1 < 2 ^ 64" by simp
    then have "unat (ps_version s + 1) = unat (ps_version s) + 1"
      by (simp add: unat_word_ariths)
    then show ?thesis by (simp add: word_less_nat_alt)
  qed
  ultimately show "ps_version s < ps_version (dp_next_state d)" by simp
qed (use assms(4) in \<open>auto simp: decode_app_state_patch_def result_simps split: if_splits\<close>)

lemma decoded_snapshot_sound:
  fixes A :: "'v app_ext"
  assumes "ext_ok X" "app_ext_ok A" "decode_app_state_snapshot X A c snapshot key_data = Inr d"
  shows "sound_state X A (ds_state d)" "ds_collection d = c"
proof -
  from assms(3) obtain decoded :: "'v DecodedAppStateMutation list" and ms v
    where ms: "collect hash_mutation_of_decoded decoded = Inr ms" and st: "apply_hash_mutations_at_version X A patch_state_empty v ms = Inr (ds_state d)" and "ds_collection d = c"
    by (auto simp: decode_app_state_snapshot_def result_simps split: if_splits)
  from apply_hash_mutations_spec [OF assms(1,2) empty_state_sound(1) hash_mutations_ok [OF ms], of v] st
  show "sound_state X A (ds_state d)" by auto
  show "ds_collection d = c" by fact
qed

section \<open>The loops over responses\<close>

text \<open>
  What every stored state satisfies, if patches keep it: it holds of all stored states after any
  response.
\<close>

locale patch_invariant =
  fixes X :: ext and A :: "SyncActionValue app_ext"
    and good :: "AppStateCollection \<Rightarrow> AppStatePatchState \<Rightarrow> bool"
  assumes sound: "good c s \<Longrightarrow> ext_ok X \<and> app_ext_ok A \<and> sound_state X A s"
    and step: "good c s \<Longrightarrow> decode_app_state_patch X A c s p k = Inr d \<Longrightarrow> good c (dp_next_state d)"
begin

lemma keeps_decoded:
  assumes "good c s" "decode_app_state_patch X A c s p k = Inr d"
  shows "keeps (all_stored A good) (apply_decoded_app_state_patch_to_store A d is_initial) (\<lambda>_. True)"
proof -
  have "dp_collection d = c" using decoded_patch(4) sound [OF assms(1)] assms(2) by blast
  then have "keeps (all_stored A good) (save_app_state_patch_state A (dp_collection d) (dp_next_state d)) (\<lambda>_. True)"
    using sound [OF step [OF assms]] step [OF assms] by (intro keeps_save) auto
  then show ?thesis
    unfolding apply_decoded_app_state_patch_to_store_def
    by (intro keeps_seq keeps_rules) simp_all
qed

lemma keeps_apply_patches:
  "good c s \<Longrightarrow> keeps (all_stored A good) (apply_patches X A c key_data is_initial ps (s, n, bs))
     (\<lambda>(s, _). good c s)"
proof (induction ps arbitrary: s n bs)
  case Nil
  then show ?case by (simp only: apply_patches.simps) (rule keeps_lift, auto)
next
  case (Cons p ps)
  show ?case
    unfolding apply_patches.simps
  proof (rule keeps_bind [where Q = "\<lambda>d. decode_app_state_patch X A c s p key_data = Inr d"])
    show "keeps (all_stored A good) (op_lift (decode_app_state_patch X A c s p key_data))
        (\<lambda>d. decode_app_state_patch X A c s p key_data = Inr d)" by (rule keeps_lift)
  next
    fix d assume d: "decode_app_state_patch X A c s p key_data = Inr d"
    from Cons.IH [OF step [OF Cons.prems d]]
    show "keeps (all_stored A good) (op_bind (apply_decoded_app_state_patch_to_store A d is_initial)
       (\<lambda>batch. apply_patches X A c key_data is_initial ps (dp_next_state d, n + 1, push_batch batch bs)))
       (\<lambda>(s, _). good c s)"
      by (intro keeps_seq keeps_decoded [OF Cons.prems d])
  qed
qed

lemma keeps_apply_patches_with_keys:
  "good c s \<Longrightarrow> keeps (all_stored A good) (apply_patches_with_keys X A c is_initial ps (s, n, bs))
     (\<lambda>(s, _). good c s)"
proof (induction ps arbitrary: s n bs)
  case Nil
  then show ?case by (simp only: apply_patches_with_keys.simps) (rule keeps_lift, auto)
next
  case (Cons p ps)
  have some: "keeps (all_stored A good)
     (op_bind (op_lift (decode_app_state_patch X A c s p key_data)) (\<lambda>decoded.
         op_bind (apply_decoded_app_state_patch_to_store A decoded is_initial) (\<lambda>batch.
         apply_patches_with_keys X A c is_initial ps (dp_next_state decoded, Suc n, push_batch batch bs))))
     (\<lambda>(s, _). good c s)" for key_data
  proof (rule keeps_bind [where Q = "\<lambda>d. decode_app_state_patch X A c s p key_data = Inr d"])
    show "keeps (all_stored A good) (op_lift (decode_app_state_patch X A c s p key_data))
        (\<lambda>d. decode_app_state_patch X A c s p key_data = Inr d)" by (rule keeps_lift)
  next
    fix d assume d: "decode_app_state_patch X A c s p key_data = Inr d"
    from Cons.IH [OF step [OF Cons.prems d]]
    show "keeps (all_stored A good) (op_bind (apply_decoded_app_state_patch_to_store A d is_initial)
       (\<lambda>batch. apply_patches_with_keys X A c is_initial ps (dp_next_state d, Suc n, push_batch batch bs)))
       (\<lambda>(s, _). good c s)"
      by (intro keeps_seq keeps_decoded [OF Cons.prems d])
  qed
  have none: "keeps (all_stored A good) (op_bind (save_app_state_blocked_collection b) (\<lambda>_.
         op_return (s, n, bs, Some b))) (\<lambda>(s, _). good c s)" for b
    by (intro keeps_seq keeps_rules) (use Cons.prems in auto)
  show ?case
    unfolding apply_patches_with_keys.simps Let_def
    by (intro keeps_seq keeps_rules) (auto split: option.split intro: some none)
qed

lemma keeps_apply_collection:
  "keeps (all_stored A good) (apply_collection X A key_data is_initial c outcome) (\<lambda>_. True)"
  unfolding apply_collection_def
  by (rule keeps_bind [OF keeps_load], rule keeps_bind [OF keeps_apply_patches], assumption)
    (auto intro!: keeps_seq keeps_rules)

lemma keeps_apply_collection_with_keys:
  "keeps (all_stored A good) (apply_collection_with_keys X A is_initial c outcome) (\<lambda>_. True)"
proof -
  have "keeps (all_stored A good) (if b then delete_app_state_blocked_collection d else op_return ()) (\<lambda>_. True)"
    for b d by (cases b) (auto intro: keeps_rules)
  then show ?thesis
    unfolding apply_collection_with_keys_def
    by (intro keeps_bind [OF keeps_load], elim keeps_bind [OF keeps_apply_patches_with_keys])
      (auto intro!: keeps_seq keeps_lift)
qed

lemma keeps_apply_collections:
  "(\<And>c out. keeps I (f c out) (\<lambda>_. True)) \<Longrightarrow> keeps I (apply_collections f cs outcome) (\<lambda>_. True)"
  by (induction cs arbitrary: outcome) (auto simp del: op_simps intro!: keeps_seq keeps_lift)

lemma keeps_responses:
  "keeps (all_stored A good) (apply_app_state_sync_response_to_store X A response key_data is_initial) (\<lambda>_. True)"
  "keeps (all_stored A good) (apply_app_state_sync_response_with_store_keys X A response is_initial) (\<lambda>_. True)"
  unfolding apply_app_state_sync_response_to_store_def apply_app_state_sync_response_with_store_keys_def
  by (intro keeps_apply_collections keeps_apply_collection keeps_apply_collection_with_keys)+

end

section \<open>The invariants\<close>

text \<open>Patches keep the states sound, and take the version of a collection only further.\<close>

definition sound_with :: "ext \<Rightarrow> 'v app_ext \<Rightarrow> AppStatePatchState \<Rightarrow> bool" where
  "sound_with X A s \<longleftrightarrow> ext_ok X \<and> app_ext_ok A \<and> sound_state X A s"

interpretation soundness: patch_invariant X A "\<lambda>c s. sound_with X A s" for X A
  by unfold_locales (auto simp: sound_with_def dest: decoded_patch(1))

interpretation progress: patch_invariant X A "\<lambda>c s. sound_with X A s \<and> v c \<le> ps_version s"
  for X A and v :: "AppStateCollection \<Rightarrow> u64"
proof
  fix c s p k d
  assume good: "sound_with X A s \<and> v c \<le> ps_version s" and d: "decode_app_state_patch X A c s p k = Inr d"
  then have "sound_with X A (dp_next_state d)" by (blast intro: soundness.step)
  moreover have "ps_version s < ps_version (dp_next_state d)"
    using good decoded_patch(3) [OF _ _ _ d] by (simp add: sound_with_def)
  ultimately show "sound_with X A (dp_next_state d) \<and> v c \<le> ps_version (dp_next_state d)"
    using good by (blast intro: order_trans less_imp_le)
qed (simp add: sound_with_def)

abbreviation stored_sound :: "ext \<Rightarrow> 'v app_ext \<Rightarrow> MemoryAuthStore \<Rightarrow> bool" where
  "stored_sound X A \<equiv> all_stored A (\<lambda>c s. sound_with X A s)"

lemma stored_sound_new: "ext_ok X \<Longrightarrow> app_ext_ok A \<Longrightarrow> stored_sound X A memory_new"
  by (simp add: all_stored_def stored_state_def memory_new_def sound_with_def empty_state_sound)

lemma keeps_save_keys: "keeps (all_stored A good) (save_keys B ks) (\<lambda>_. True)"
proof (induction ks)
  case (Cons k ks)
  have "keeps (all_stored A good) (save_app_state_sync_key_data B i d) (\<lambda>_. True)" for i d
  proof (cases "d = []")
    case False
    then show ?thesis
      unfolding save_app_state_sync_key_data_def by (simp only: if_False) (intro keeps_seq keeps_rules; simp)
  qed (simp only: save_app_state_sync_key_data_def if_True simp_thms, rule keeps_lift, simp)
  with Cons show ?case unfolding save_keys.simps by (intro keeps_seq)
qed (simp only: save_keys.simps, rule keeps_lift, simp)

lemma keeps_blocked_where:
  "(\<And>b. keeps I (test b) (\<lambda>_. True)) \<Longrightarrow> (\<And>c. keeps I (load_app_state_blocked_collection c) (\<lambda>_. True)) \<Longrightarrow>
     keeps I (blocked_collections_where test cs) (\<lambda>_. True)"
proof (induction cs)
  case (Cons c cs)
  have "keeps I (case e of None \<Rightarrow> op_return False | Some e \<Rightarrow> test e) (\<lambda>_. True)" for e
    using Cons.prems(1) by (cases e) (simp_all del: op_simps add: keeps_lift)
  with Cons show ?case
    unfolding blocked_collections_where.simps by (intro keeps_seq keeps_lift) simp_all
qed (simp only: blocked_collections_where.simps, rule keeps_lift, simp)

lemma keeps_load_blocked [keeps_rules]: "keeps (all_stored A good) (load_app_state_blocked_collection c) (\<lambda>_. True)"
proof -
  have "keeps (all_stored A good) (case encoded of None \<Rightarrow> op_return None
     | Some encoded \<Rightarrow>
         op_bind (op_lift (decode_app_state_blocked_collection_bytes c encoded)) (\<lambda>blocked.
         op_return (Some blocked))) (\<lambda>_. True)" for encoded
    by (cases encoded) (simp_all add: keeps_def op_bind_def split: sum.split)
  then show ?thesis
    unfolding load_app_state_blocked_collection_def by (intro keeps_seq keeps_rules; simp)
qed

lemma keeps_key_share: "keeps (all_stored A good) (save_app_state_sync_key_share B ks) (\<lambda>_. True)"
  unfolding save_app_state_sync_key_share_def load_app_state_blocked_collections_for_keys_def
  by (intro keeps_seq keeps_save_keys)
    (auto simp del: op_simps intro!: keeps_lift keeps_blocked_where keeps_load_blocked)

lemma keeps_snapshot:
  assumes "ext_ok X" "app_ext_ok A"
  shows "keeps (stored_sound X A) (op_bind (op_lift (decode_app_state_snapshot X A c snapshot key_data))
    (apply_decoded_app_state_snapshot_to_store A)) (\<lambda>_. True)"
proof (rule keeps_bind [where Q = "\<lambda>d. sound_state X A (ds_state d)"])
  show "keeps (stored_sound X A) (op_lift (decode_app_state_snapshot X A c snapshot key_data))
      (\<lambda>d. sound_state X A (ds_state d))"
    using decoded_snapshot_sound(1) [OF assms] by (intro keeps_lift) blast
next
  fix d :: "SyncActionValue DecodedAppStateSnapshot"
  assume "sound_state X A (ds_state d)"
  then have "keeps (stored_sound X A) (save_app_state_patch_state A (ds_collection d) (ds_state d)) (\<lambda>_. True)"
    using assms by (intro keeps_save) (auto simp: sound_with_def)
  then show "keeps (stored_sound X A) (apply_decoded_app_state_snapshot_to_store A d) (\<lambda>_. True)"
    unfolding apply_decoded_app_state_snapshot_to_store_def by (intro keeps_seq keeps_rules) simp_all
qed

text \<open>The stores that any sequence of these operations leads to, whether they fail or not.\<close>

inductive app_state_reachable :: "ext \<Rightarrow> SyncActionValue app_ext \<Rightarrow> MemoryAuthStore \<Rightarrow> bool" for X A where
  start: "app_state_reachable X A memory_new"
| response: "app_state_reachable X A st \<Longrightarrow>
    apply_app_state_sync_response_to_store X A response key_data is_initial st = (r, st') \<Longrightarrow>
    app_state_reachable X A st'"
| response_with_keys: "app_state_reachable X A st \<Longrightarrow>
    apply_app_state_sync_response_with_store_keys X A response is_initial st = (r, st') \<Longrightarrow>
    app_state_reachable X A st'"
| snapshot: "app_state_reachable X A st \<Longrightarrow>
    op_bind (op_lift (decode_app_state_snapshot X A c snapshot key_data))
      (apply_decoded_app_state_snapshot_to_store A) st = (r', st') \<Longrightarrow>
    app_state_reachable X A st'"
| key_share: "app_state_reachable X A st \<Longrightarrow>
    save_app_state_sync_key_share A ks st = (r'', st') \<Longrightarrow> app_state_reachable X A st'"

lemma reachable_stored_sound:
  assumes "ext_ok X" "app_ext_ok A"
  shows "app_state_reachable X A st \<Longrightarrow> stored_sound X A st"
proof (induction rule: app_state_reachable.induct)
  case start
  show ?case using assms by (rule stored_sound_new)
qed (blast dest: keepsD [OF soundness.keeps_responses(1)] keepsD [OF soundness.keeps_responses(2)]
    keepsD [OF keeps_snapshot [OF assms]] keepsD [OF keeps_key_share])+

text \<open>
  C17: whatever the server sends, the app state in the store stays sound. After any sequence of
  responses applied with one key or with the keys of the store, of decoded snapshots and of key
  shares, valid or not and failing or not, every collection has a stored state that can be read
  back, whose entries are MACs and whose hash is that of its entries; a failure half way through a
  response leaves no collection with a state that does not verify.
\<close>

theorem stored_app_state_sound:
  assumes "ext_ok X" and "app_ext_ok A" and "app_state_reachable X A st"
  shows "\<exists>s. stored_state A st c = Inr s \<and> sound_state X A s"
  using reachable_stored_sound [OF assms] by (auto simp: all_stored_def sound_with_def)

theorem stored_app_state_sound_witness:
  "\<exists>s. stored_state toy_sync (snd (save_app_state_sync_key_share toy_sync
      [\<lparr>ks_key_id = [1], ks_key_data = replicate 32 7\<rparr>] memory_new)) Regular = Inr s \<and>
     sound_state toy toy_sync s"
  by (rule stored_app_state_sound [OF toy_ok toy_sync_ok],
      rule app_state_reachable.key_share [OF app_state_reachable.start], rule surjective_pairing)

text \<open>
  C18: patches never move a collection back. Applying a response, with one key or with the keys of
  the store, whether it succeeds or fails on the way, leaves every collection at its version or
  beyond. Only a snapshot can set an earlier version.
\<close>

theorem response_never_rolls_back:
  assumes "stored_sound X A st"
    and "apply_app_state_sync_response_to_store X A response key_data is_initial st = (r, st') \<or>
      apply_app_state_sync_response_with_store_keys X A response is_initial st = (r, st')"
  shows "\<exists>s s'. stored_state A st c = Inr s \<and> stored_state A st' c = Inr s' \<and> ps_version s \<le> ps_version s'"
proof -
  let ?v = "\<lambda>c. ps_version (projr (stored_state A st c))"
  have "all_stored A (\<lambda>c s. sound_with X A s \<and> ?v c \<le> ps_version s) st"
    using assms(1) by (fastforce simp: all_stored_def)
  then have "all_stored A (\<lambda>c s. sound_with X A s \<and> ?v c \<le> ps_version s) st'"
    using assms(2) keepsD [OF progress.keeps_responses(1) [where v = ?v]]
      keepsD [OF progress.keeps_responses(2) [where v = ?v]] by blast
  then show ?thesis using assms(1) unfolding all_stored_def by (metis sum.sel(2))
qed

theorem response_never_rolls_back_witness:
  "\<exists>s s'. stored_state toy_sync memory_new Regular = Inr s \<and>
     stored_state toy_sync (snd (apply_app_state_sync_response_to_store toy toy_sync
       \<lparr>sy_collections = [\<lparr>sc_collection = Regular, sc_version = Some 5, sc_has_more_patches = False,
         sc_snapshot = Some [1], sc_patches = []\<rparr>]\<rparr> [] False memory_new)) Regular = Inr s' \<and> ps_version s \<le> ps_version s'"
  using response_never_rolls_back [OF stored_sound_new [OF toy_ok toy_sync_ok] disjI1 [OF surjective_pairing]]
  by blast

end
