(* ===== verification/AppStateRecovery.thy ===== *)
theory AppStateRecovery
  imports AppStateInvariant AppStateDelivery
begin

text \<open>
  How the application of a sync response ends when something is missing: a key that the store does
  not have yet, a patch that does not verify, or a snapshot that the patches follow.
\<close>

section \<open>One patch\<close>

lemma encode_state_total:
  assumes "app_ext_ok A" "sound_state X A s" "length (ps_index_value_macs s) < 2 ^ 32"
  shows "\<exists>bs. encode_app_state_patch_state_bytes A s = Inr bs"
proof -
  from assms(2) have ok: "macs_ok A (ps_index_value_macs s)" and len: "length (ps_hash s) = 128"
    by (auto simp: sound_state_def is_lt_hash_def APP_STATE_LT_HASH_LEN_def)
  from ok have "\<exists>bs. write_entries A (ps_index_value_macs s) = Inr bs"
    using write_entries_ok [OF assms(1)] by (auto simp: macs_ok_def)
  with assms(3) len show ?thesis
    by (auto simp: encode_app_state_patch_state_bytes_def write_len_prefixed_def)
qed

text \<open>Applying a decoded patch: the state is stored, the collection is not blocked any more.\<close>

definition after_patch :: "'v app_ext \<Rightarrow> AppStateCollection \<Rightarrow> AppStatePatchState \<Rightarrow> MemoryAuthStore \<Rightarrow> MemoryAuthStore" where
  "after_patch A c s st = st\<lparr>entries := (entries st)
     ((NsAppStateSyncVersion, collection_name c) \<mapsto> projr (encode_app_state_patch_state_bytes A s),
      (NsAppStateSyncBlocked, collection_name c) := None)\<rparr>"

lemma apply_decoded_ok:
  assumes "\<not> poisoned st" "event_batch_from_decoded_app_state_patch A d is_initial = Inr b"
    and "encode_app_state_patch_state_bytes A (dp_next_state d) = Inr bs"
  shows "apply_decoded_app_state_patch_to_store A d is_initial st =
    (Inr b, after_patch A (dp_collection d) (dp_next_state d) st)"
  using assms
  by (simp add: apply_decoded_app_state_patch_to_store_def save_app_state_patch_state_def
      delete_app_state_blocked_collection_def op_bind_def op_access after_patch_def)

lemma after_patch_simps [simp]:
  "poisoned (after_patch A c s st) = poisoned st"
  "entries (after_patch A c s st) (NsAppStateSyncKey, k) = entries st (NsAppStateSyncKey, k)"
  by (simp_all add: after_patch_def)

lemma stored_after_patch:
  assumes "ext_ok X" "app_ext_ok A" "sound_state X A s" "encode_app_state_patch_state_bytes A s = Inr bs"
  shows "stored_state A (after_patch A c s st) d = (if d = c then Inr s else stored_state A st d)"
  using state_bytes_roundtrip [OF assms] assms(4) by (auto simp: after_patch_def stored_state_def)

text \<open>A patch that was taken in once is refused from then on.\<close>

lemma patch_not_taken_twice:
  assumes "ext_ok X" "app_ext_ok A" "sound_state X A s" "decode_app_state_patch X A c s p k = Inr d"
  shows "\<exists>e. decode_app_state_patch X A c (dp_next_state d) p k' = Inl e"
proof -
  have "sp_mutations p \<noteq> []" "Option.bind (sp_version p) sv_version = Some (ps_version s + 1)"
    using assms(4) by (auto simp: decode_app_state_patch_def result_simps next_version_def split: if_splits)
  moreover have "ps_version s + 1 \<noteq> ps_version (dp_next_state d) + 1"
    using decoded_patch(2,3) [OF assms] by simp
  ultimately show ?thesis
    by (auto simp: decode_app_state_patch_def next_version_def)
qed

section \<open>A failure half way\<close>

text \<open>A response with patches for one collection.\<close>

definition response_of :: "AppStateCollection \<Rightarrow> SyncdPatch list \<Rightarrow> AppStateSyncResponse" where
  "response_of c ps = \<lparr>sy_collections = [\<lparr>sc_collection = c, sc_version = None, sc_has_more_patches = False,
     sc_snapshot = None, sc_patches = ps\<rparr>]\<rparr>"

lemma load_ok:
  "\<not> poisoned st \<Longrightarrow> stored_state A st c = Inr s \<Longrightarrow> load_app_state_patch_state A c st = (Inr s, st)"
  by (simp add: load_stored_state)

text \<open>
  C19: a patch that fails takes the events of the patches before it with it. When a response carries
  two patches of a collection and only the first verifies, the result is an error and holds no
  events; yet the state of the first patch is stored, so that its changes are never offered as
  events again: any later response that starts with it is refused.
\<close>

theorem failed_response_loses_events:
  assumes "ext_ok X" and "app_ext_ok A" and "stored_sound X A st" and "\<not> poisoned st"
    and "stored_state A st c = Inr s"
    and "decode_app_state_patch X A c s p k = Inr d"
    and "event_batch_from_decoded_app_state_patch A d is_initial = Inr b"
    and "encode_app_state_patch_state_bytes A (dp_next_state d) = Inr bs"
    and "decode_app_state_patch X A c (dp_next_state d) q k = Inl e"
  shows "\<exists>st'. apply_app_state_sync_response_to_store X A (response_of c [p, q]) k is_initial st = (Inl e, st') \<and>
    stored_state A st' c = Inr (dp_next_state d) \<and>
    (\<forall>ps k'. \<exists>e'. fst (apply_app_state_sync_response_to_store X A (response_of c (p # ps)) k' is_initial st') = Inl e')"
proof -
  let ?st' = "after_patch A c (dp_next_state d) st"
  have s: "sound_state X A s" using assms(3,5) by (auto simp: all_stored_def sound_with_def) (metis sum.inject(2))
  note d = decoded_patch [OF assms(1,2) s assms(6)]
  have a: "apply_decoded_app_state_patch_to_store A d is_initial st = (Inr b, ?st')"
    using apply_decoded_ok [OF assms(4,7,8)] d(4) by simp
  have failed: "apply_app_state_sync_response_to_store X A (response_of c [p, q]) k is_initial st = (Inl e, ?st')"
    using assms(6,9) a load_ok [OF assms(4,5)]
    by (simp add: apply_app_state_sync_response_to_store_def response_of_def apply_collection_def op_bind_def)
  have stored: "stored_state A ?st' c = Inr (dp_next_state d)"
    using stored_after_patch [OF assms(1,2) d(1) assms(8)] by simp
  have "\<exists>e'. fst (apply_app_state_sync_response_to_store X A (response_of c (p # ps)) k' is_initial ?st') = Inl e'"
    for ps k'
    using patch_not_taken_twice [OF assms(1,2) s assms(6), of k'] load_ok [OF _ stored] assms(4)
    by (auto simp: apply_app_state_sync_response_to_store_def response_of_def apply_collection_def op_bind_def)
  with failed stored show ?thesis by blast
qed

text \<open>A patch that archives a chat, on the concrete functions.\<close>

lemma length_btree_insert: "length (btree_insert k v m) \<le> Suc (length m)"
  by (induction k v m rule: btree_insert.induct) auto

lemma hash_mutations_loop_size:
  "hash_mutations_loop A ms (macs, add, subtract) = Inr (macs', add', subtract') \<Longrightarrow>
     length macs' \<le> length macs + length ms"
proof (induction ms arbitrary: macs add subtract)
  case (Cons m ms)
  then obtain key macs1 add1 subtract1 where "hash_mutations_loop A ms (macs1, add1, subtract1) = Inr (macs', add', subtract')"
    "length macs1 \<le> Suc (length macs)"
    using length_btree_insert [of _ "hm_value_mac m" macs]
    by (cases "hm_operation m")
      (auto simp: result_simps btree_remove_def le_SucI split: option.splits)
  with Cons.IH show ?case by fastforce
qed simp

lemma decoded_patch_size:
  assumes "decode_app_state_patch X A c s p k = Inr d"
  shows "length (ps_index_value_macs (dp_next_state d)) \<le> length (ps_index_value_macs s) + length (dp_mutations d)"
proof -
  from assms obtain ms where ms: "collect hash_mutation_of_decoded (dp_mutations d) = Inr ms"
    and adv: "advance_with_hash_mutations X A s ms = Inr (dp_next_state d)"
    by (auto simp: decode_app_state_patch_def result_simps split: if_splits)
  have "length ms = length (dp_mutations d)"
    using ms by (simp add: collect_Ok_iff list_all2_lengthD)
  with adv show ?thesis
    by (cases "dp_next_state d") (auto simp: advance_with_hash_mutations_def
        apply_hash_mutations_at_version_def result_simps dest!: hash_mutations_loop_size)
qed

definition toy_change :: "SyncActionValue ChatMutationPatch" where
  "toy_change = chat_mutation_patch_new Regular 3 [''archive'', ''1@s.whatsapp.net''] (archive_action True)"

lemma toy_event:
  assumes "dm_index m = cm_index toy_change" "build_sync_action_data toy_sync toy_change = Inr (dm_sync_action m)"
  shows "event_batch_from_decoded_app_state_mutations toy_sync [m] False =
    Inr (push_chat empty_batch (chat_with_field ''archived'' ''true'' (chat_event_new ''1@s.whatsapp.net'')))"
proof -
  have "sa_value (dm_sync_action m) = Some (archive_action True)"
    using assms(2) [symmetric]
    by (simp add: build_sync_action_data_def toy_change_def chat_mutation_patch_new_def toy_sync_simps)
  moreover have "required_index_jid m 1 label = Inr ''1@s.whatsapp.net''" for label
  proof -
    have "jid_decode ''1@s.whatsapp.net'' \<noteq> None" by code_simp
    moreover have "blank ''1@s.whatsapp.net'' = False" by code_simp
    ultimately show ?thesis
      using assms(1) by (auto simp: required_index_jid_def required_index_value_def get_at_def toy_change_def
          chat_mutation_patch_new_def validate_non_empty_def validate_jid_def split: option.split)
  qed
  ultimately show ?thesis
    by (simp add: event_batch_from_decoded_app_state_mutations_def push_app_state_mutation_event_def
        archive_action_def no_action_def if_let_def or_false_def show_bool_def)
qed

lemma toy_patch:
  "\<exists>p d bs. decode_app_state_patch toy toy_sync Regular patch_state_empty p (replicate 32 7) = Inr d \<and>
    patch_key_id p = Inr [1] \<and>
    event_batch_from_decoded_app_state_patch toy_sync d False =
      Inr (push_chat empty_batch (chat_with_field ''archived'' ''true'' (chat_event_new ''1@s.whatsapp.net''))) \<and>
    encode_app_state_patch_state_bytes toy_sync (dp_next_state d) = Inr bs"
proof -
  have data: "\<exists>a. build_sync_action_data toy_sync toy_change = Inr a"
    by (simp add: build_sync_action_data_def toy_change_def chat_mutation_patch_new_def toy_sync_simps)
  let ?ps = "[(toy_change, replicate 16 0)]"
  obtain ems where ems: "encrypt_all toy toy_sync [1] (replicate 32 7) ?ps = Inr ems"
    using encrypt_all_total [OF toy_ok toy_sync_ok, of "[1]" "replicate 32 7" ?ps] data by auto
  obtain b d where b: "build_app_state_patch_bundle toy toy_sync Regular patch_state_empty [1] (replicate 32 7) ems = Inr b"
    and d: "decode_app_state_patch toy toy_sync Regular patch_state_empty (pb_patch b) (replicate 32 7) = Inr d"
    and index: "map dm_index (dp_mutations d) = map (cm_index \<circ> fst) ?ps"
    and action: "map (\<lambda>m. Inr (dm_sync_action m)) (dp_mutations d) = map (build_sync_action_data toy_sync \<circ> fst) ?ps"
    using patch_built_and_decoded [OF toy_ok toy_sync_ok ems _ empty_state_sound(1), of Regular]
    by (auto simp: patch_state_empty_def)
  have key: "patch_key_id (pb_patch b) = Inr [1]"
    using b by (fastforce simp: build_app_state_patch_bundle_def and_then_eq_Ok Let_def patch_key_id_def key_id_of_def
        split: if_splits)
  obtain m where m: "dp_mutations d = [m]" using index by (cases "dp_mutations d") auto
  have "length (ps_index_value_macs (dp_next_state d)) \<le> 1"
    using decoded_patch_size [OF d] m by (simp add: patch_state_empty_def)
  then obtain bs where "encode_app_state_patch_state_bytes toy_sync (dp_next_state d) = Inr bs"
    using encode_state_total [OF toy_sync_ok decoded_patch(1) [OF toy_ok toy_sync_ok empty_state_sound(1) d]] by auto
  moreover have "event_batch_from_decoded_app_state_patch toy_sync d False =
      Inr (push_chat empty_batch (chat_with_field ''archived'' ''true'' (chat_event_new ''1@s.whatsapp.net'')))"
    using toy_event [of m] index action m by (simp add: event_batch_from_decoded_app_state_patch_def)
  ultimately show ?thesis using d key by blast
qed

theorem failed_response_loses_events_witness:
  "\<exists>p e st'. apply_app_state_sync_response_to_store toy toy_sync (response_of Regular [p, p])
      (replicate 32 7) False memory_new = (Inl e, st') \<and>
    (\<forall>ps k'. \<exists>e'. fst (apply_app_state_sync_response_to_store toy toy_sync (response_of Regular (p # ps)) k' False st') = Inl e')"
proof -
  obtain p d bs where p: "decode_app_state_patch toy toy_sync Regular patch_state_empty p (replicate 32 7) = Inr d"
    "event_batch_from_decoded_app_state_patch toy_sync d False =
      Inr (push_chat empty_batch (chat_with_field ''archived'' ''true'' (chat_event_new ''1@s.whatsapp.net'')))"
    "encode_app_state_patch_state_bytes toy_sync (dp_next_state d) = Inr bs" using toy_patch by blast
  obtain e where "decode_app_state_patch toy toy_sync Regular (dp_next_state d) p (replicate 32 7) = Inl e"
    using patch_not_taken_twice [OF toy_ok toy_sync_ok empty_state_sound(1) p(1)] by blast
  moreover have "\<not> poisoned memory_new" "stored_state toy_sync memory_new Regular = Inr patch_state_empty"
    by (simp_all add: memory_new_def stored_state_def)
  ultimately show ?thesis
    using failed_response_loses_events [OF toy_ok toy_sync_ok stored_sound_new [OF toy_ok toy_sync_ok] _ _ p]
    by blast
qed

end
