(* ===== verification/Noise.thy ===== *)
theory Noise
  imports Core
begin

text \<open>
  The Noise handshake and transport, \<^verbatim>\<open>crates/wa-crypto/src/noise.rs\<close>: the XX handshake of the
  client with its running hash and chaining key, the certificate of the server, the cipher of the
  transport and the frames that the bytes of the socket are cut into.
\<close>

section \<open>Wire structures and external functions\<close>

record ClientHello =
  ch_ephemeral :: "bytes option"
  ch_static :: "bytes option"
  ch_payload :: "bytes option"
  ch_use_extended :: "bool option"
  ch_extended_ciphertext :: "bytes option"

record ServerHello =
  sh_ephemeral :: "bytes option"
  sh_static :: "bytes option"
  sh_payload :: "bytes option"
  sh_extended_static :: "bytes option"

record ClientFinish =
  cf_static :: "bytes option"
  cf_payload :: "bytes option"
  cf_extended_ciphertext :: "bytes option"

record HandshakeMessage =
  hs_client_hello :: "ClientHello option"
  hs_server_hello :: "ServerHello option"
  hs_client_finish :: "ClientFinish option"

record NoiseCertificate =
  nc_details :: "bytes option"
  nc_signature :: "bytes option"

record CertChain =
  cc_leaf :: "NoiseCertificate option"
  cc_intermediate :: "NoiseCertificate option"

record CertificateDetails =
  cd_serial :: "u32 option"
  cd_issuer_serial :: "u32 option"
  cd_key :: "bytes option"
  cd_not_before :: "u64 option"
  cd_not_after :: "u64 option"

text \<open>
  SHA-256, AES-256-GCM (key, nonce, additional data, text; \<open>None\<close> is the crate's error) and the
  protobuf messages of the handshake.
\<close>

record noise_ext =
  n_sha256 :: "bytes \<Rightarrow> bytes"
  n_gcm_encrypt :: "bytes \<Rightarrow> bytes \<Rightarrow> bytes \<Rightarrow> bytes \<Rightarrow> bytes option"
  n_gcm_decrypt :: "bytes \<Rightarrow> bytes \<Rightarrow> bytes \<Rightarrow> bytes \<Rightarrow> bytes option"
  n_enc_handshake :: "HandshakeMessage \<Rightarrow> bytes"
  n_dec_handshake :: "bytes \<Rightarrow> string + HandshakeMessage"
  n_dec_cert_chain :: "bytes \<Rightarrow> string + CertChain"
  n_dec_details :: "bytes \<Rightarrow> string + CertificateDetails"

text \<open>
  What the code relies on: a digest has 32 bytes; a text of at most \<open>2 ^ 36\<close> bytes is encrypted to
  its length and a tag of 16 bytes, and read back under the same key, nonce and additional data;
  what is decrypted is 16 bytes shorter than the ciphertext; handshake messages are read back as they were written.
\<close>

definition noise_ext_ok :: "noise_ext \<Rightarrow> bool" where
  "noise_ext_ok N \<longleftrightarrow>
     (\<forall>m. length (n_sha256 N m) = 32) \<and>
     (\<forall>k iv aad p. length p \<le> 2 ^ 36 \<longrightarrow> (\<exists>c. n_gcm_encrypt N k iv aad p = Some c \<and>
        length c = length p + 16 \<and> n_gcm_decrypt N k iv aad c = Some p)) \<and>
     (\<forall>k iv aad c p. 16 \<le> length c \<longrightarrow> n_gcm_decrypt N k iv aad c = Some p \<longrightarrow> length c = length p + 16) \<and>
     (\<forall>v. n_dec_handshake N (n_enc_handshake N v) = Inr v)"

definition aes_256_gcm_encrypt :: "noise_ext \<Rightarrow> bytes \<Rightarrow> bytes \<Rightarrow> bytes \<Rightarrow> bytes \<Rightarrow> CryptoError + bytes" where
  "aes_256_gcm_encrypt N plaintext key iv additional_data =
     and_then (validate_len 32 key InvalidKeyLength) (\<lambda>key.
     and_then (validate_len 12 iv InvalidIvLength) (\<lambda>iv.
     ok_or (n_gcm_encrypt N key iv additional_data plaintext) Encrypt))"

definition aes_256_gcm_decrypt :: "noise_ext \<Rightarrow> bytes \<Rightarrow> bytes \<Rightarrow> bytes \<Rightarrow> bytes \<Rightarrow> CryptoError + bytes" where
  "aes_256_gcm_decrypt N ciphertext_and_tag key iv additional_data =
     (if length ciphertext_and_tag < 16 then Err CiphertextTooShort
      else
        and_then (validate_len 32 key InvalidKeyLength) (\<lambda>key.
        and_then (validate_len 12 iv InvalidIvLength) (\<lambda>iv.
        ok_or (n_gcm_decrypt N key iv additional_data ciphertext_and_tag) Decrypt)))"

section \<open>Errors\<close>

datatype NoiseFrameError = FrameTooLarge nat nat | FrameTooShort | FrameCrypto CryptoError

datatype NoiseHandshakeError = MissingField string | HandshakeKeyLength string | InvalidSharedSecret
  | InvalidCertificate string | CertificateRejected string | UnexpectedIssuerSerial u32
  | HandshakeCrypto CryptoError | HandshakeFrame NoiseFrameError | HandshakeDecode string

section \<open>Frames\<close>

text \<open>The lengths go to three bytes; higher bits are lost.\<close>

definition put_frame_len :: "nat \<Rightarrow> bytes" where
  "put_frame_len len = [word_of_nat (len div 2 ^ 16), word_of_nat (len div 2 ^ 8), word_of_nat len]"

record NoiseFrameCodec =
  fc_max_frame_len :: nat
  fc_buffer :: bytes

definition frame_codec_new :: "nat \<Rightarrow> NoiseFrameCodec" where
  "frame_codec_new max_frame_len = \<lparr>fc_max_frame_len = max_frame_len, fc_buffer = []\<rparr>"

definition frame_codec_encode_frame :: "NoiseFrameCodec \<Rightarrow> bytes \<Rightarrow> NoiseFrameError + bytes" where
  "frame_codec_encode_frame c payload =
     (if length payload > fc_max_frame_len c
      then Err (FrameTooLarge (length payload) (fc_max_frame_len c))
      else Ok (put_frame_len (length payload) @ payload))"

definition frame_len :: "u8 \<Rightarrow> u8 \<Rightarrow> u8 \<Rightarrow> nat" where
  "frame_len a b c = unat a * 2 ^ 16 + unat b * 2 ^ 8 + unat c"

text \<open>
  The loop that cuts frames off the buffer: the frames, or the error that drops them, and the rest
  of the buffer.
\<close>

function cut_frames :: "nat \<Rightarrow> bytes \<Rightarrow> (NoiseFrameError + bytes list) \<times> bytes" where
  "cut_frames max_len (a # b # c # rest) =
     (if frame_len a b c > max_len then (Err (FrameTooLarge (frame_len a b c) max_len), a # b # c # rest)
      else if length rest < frame_len a b c then (Ok [], a # b # c # rest)
      else (case cut_frames max_len (drop (frame_len a b c) rest) of
          (Inl e, buffer) \<Rightarrow> (Inl e, buffer)
        | (Inr frames, buffer) \<Rightarrow> (Inr (take (frame_len a b c) rest # frames), buffer)))"
| "cut_frames max_len [] = (Ok [], [])"
| "cut_frames max_len [a] = (Ok [], [a])"
| "cut_frames max_len [a, b] = (Ok [], [a, b])"
  by pat_completeness auto
termination by (relation "measure (\<lambda>(_, buffer). length buffer)") auto

definition frame_codec_push :: "NoiseFrameCodec \<Rightarrow> bytes \<Rightarrow> (NoiseFrameError + bytes list) \<times> NoiseFrameCodec" where
  "frame_codec_push c chunk =
     (let (r, buffer) = cut_frames (fc_max_frame_len c) (fc_buffer c @ chunk) in (r, c\<lparr>fc_buffer := buffer\<rparr>))"

section \<open>The transport\<close>

definition counter_iv :: "u32 \<Rightarrow> bytes" where
  "counter_iv counter = replicate 8 0 @ put_u32 counter"

record NoiseTransport =
  nt_enc_key :: bytes
  nt_dec_key :: bytes
  nt_read_counter :: u32
  nt_write_counter :: u32

definition transport_new :: "bytes \<Rightarrow> bytes \<Rightarrow> NoiseTransport" where
  "transport_new enc_key dec_key =
     \<lparr>nt_enc_key = enc_key, nt_dec_key = dec_key, nt_read_counter = 0, nt_write_counter = 0\<rparr>"

definition transport_encrypt ::
  "noise_ext \<Rightarrow> NoiseTransport \<Rightarrow> bytes \<Rightarrow> (NoiseFrameError + bytes) \<times> NoiseTransport" where
  "transport_encrypt N t plaintext =
     (map_err FrameCrypto (aes_256_gcm_encrypt N plaintext (nt_enc_key t) (counter_iv (nt_write_counter t)) []),
      t\<lparr>nt_write_counter := nt_write_counter t + 1\<rparr>)"

definition transport_decrypt ::
  "noise_ext \<Rightarrow> NoiseTransport \<Rightarrow> bytes \<Rightarrow> (NoiseFrameError + bytes) \<times> NoiseTransport" where
  "transport_decrypt N t ciphertext =
     (if length ciphertext < 16 then (Err FrameTooShort, t)
      else
        (map_err FrameCrypto (aes_256_gcm_decrypt N ciphertext (nt_dec_key t) (counter_iv (nt_read_counter t)) []),
         t\<lparr>nt_read_counter := nt_read_counter t + 1\<rparr>))"

section \<open>The certificate chain\<close>

definition ROOT_CERT_SERIAL :: u32 where "ROOT_CERT_SERIAL = 0"

definition ROOT_CERT_PUBLIC_KEY :: bytes where
  "ROOT_CERT_PUBLIC_KEY = [
     0x14, 0x23, 0x75, 0x57, 0x4d, 0x0a, 0x58, 0x71, 0x66, 0xaa, 0xe7, 0x1e, 0xbe, 0x51, 0x64, 0x37,
     0xc4, 0xa2, 0x8b, 0x73, 0xe3, 0x69, 0x5c, 0x6c, 0xe1, 0xf7, 0xf9, 0x54, 0x5d, 0xa8, 0xee, 0x6b]"

text \<open>The verifier of signatures takes a public key, a message and a signature.\<close>

type_synonym verifier = "bytes \<Rightarrow> bytes \<Rightarrow> bytes \<Rightarrow> bool"

definition validate_noise_certificate_chain ::
  "noise_ext \<Rightarrow> verifier \<Rightarrow> bytes \<Rightarrow> NoiseHandshakeError + unit" where
  "validate_noise_certificate_chain N verify_signature certificate_payload =
     and_then (map_err HandshakeDecode (n_dec_cert_chain N certificate_payload)) (\<lambda>cert_chain.
     and_then (ok_or (cc_leaf cert_chain) (InvalidCertificate ''missing leaf'')) (\<lambda>leaf.
     and_then (ok_or (cc_intermediate cert_chain) (InvalidCertificate ''missing intermediate'')) (\<lambda>intermediate.
     and_then (ok_or (nc_details leaf) (InvalidCertificate ''missing leaf details'')) (\<lambda>leaf_details.
     and_then (ok_or (nc_signature leaf) (InvalidCertificate ''missing leaf signature'')) (\<lambda>leaf_signature.
     and_then (ok_or (nc_details intermediate) (InvalidCertificate ''missing intermediate details''))
       (\<lambda>intermediate_details.
     and_then (ok_or (nc_signature intermediate) (InvalidCertificate ''missing intermediate signature''))
       (\<lambda>intermediate_signature.
     and_then (map_err HandshakeDecode (n_dec_details N intermediate_details)) (\<lambda>details.
     let issuer_serial = (case cd_issuer_serial details of None \<Rightarrow> 0 | Some s \<Rightarrow> s) in
     if issuer_serial \<noteq> ROOT_CERT_SERIAL then Err (UnexpectedIssuerSerial issuer_serial) else
     and_then (ok_or (cd_key details) (InvalidCertificate ''missing intermediate key'')) (\<lambda>intermediate_key.
     if \<not> verify_signature intermediate_key leaf_details leaf_signature
     then Err (CertificateRejected ''leaf'')
     else if \<not> verify_signature ROOT_CERT_PUBLIC_KEY intermediate_details intermediate_signature
     then Err (CertificateRejected ''intermediate'')
     else Ok ())))))))))"

text \<open>
  The verifier of the program: a signature of the Curve25519 scheme, with its check \<open>V\<close> as a parameter.
\<close>

definition xeddsa_verify_signature :: "verifier \<Rightarrow> verifier" where
  "xeddsa_verify_signature V public_key message signature \<longleftrightarrow>
     length public_key = 32 \<and> length signature = 64 \<and> V public_key message signature"

section \<open>The handshake\<close>

definition DEFAULT_MAX_FRAME_LEN :: nat where "DEFAULT_MAX_FRAME_LEN = 16 * 1024 * 1024"
definition DEFAULT_NOISE_HEADER :: bytes where "DEFAULT_NOISE_HEADER = [87, 65, 6, 3]"

definition NOISE_MODE :: bytes where
  "NOISE_MODE = bytes_of ''Noise_XX_25519_AESGCM_SHA256'' @ [0, 0, 0, 0]"

definition mode_hash :: "noise_ext \<Rightarrow> bytes" where
  "mode_hash N = (if length NOISE_MODE = 32 then NOISE_MODE else n_sha256 N NOISE_MODE)"

definition authenticate_hash :: "noise_ext \<Rightarrow> bytes \<Rightarrow> bytes \<Rightarrow> bytes" where
  "authenticate_hash N hash data = n_sha256 N (hash @ data)"

definition intro_header_of :: "bytes \<Rightarrow> bytes option \<Rightarrow> bytes" where
  "intro_header_of noise_header routing_info = (case routing_info of
     Some routing_info \<Rightarrow> bytes_of ''ED'' @ [0, 1] @ put_frame_len (length routing_info) @ routing_info @ noise_header
   | None \<Rightarrow> noise_header)"

definition key_array :: "bytes \<Rightarrow> string \<Rightarrow> NoiseHandshakeError + bytes" where
  "key_array input label = (if length input = 32 then Ok input else Err (HandshakeKeyLength label))"

record NoiseHandshake =
  nh_local_ephemeral :: KeyPair
  nh_hash :: bytes
  nh_salt :: bytes
  nh_enc_key :: bytes
  nh_dec_key :: bytes
  nh_counter :: u32
  nh_intro_header :: bytes
  nh_sent_intro :: bool
  nh_max_frame_len :: nat
  nh_frame_codec :: NoiseFrameCodec
  nh_transport :: "NoiseTransport option"

definition with_header :: "noise_ext \<Rightarrow> KeyPair \<Rightarrow> bytes \<Rightarrow> bytes option \<Rightarrow> nat \<Rightarrow> NoiseHandshake" where
  "with_header N local_ephemeral noise_header routing_info max_frame_len =
     (let hash = mode_hash N in
      \<lparr>nh_local_ephemeral = local_ephemeral,
       nh_hash = authenticate_hash N (authenticate_hash N hash noise_header) (kp_public local_ephemeral),
       nh_salt = hash, nh_enc_key = hash, nh_dec_key = hash, nh_counter = 0,
       nh_intro_header = intro_header_of noise_header routing_info, nh_sent_intro = False,
       nh_max_frame_len = max_frame_len, nh_frame_codec = frame_codec_new max_frame_len,
       nh_transport = None\<rparr>)"

definition handshake_new :: "noise_ext \<Rightarrow> KeyPair \<Rightarrow> NoiseHandshake" where
  "handshake_new N local_ephemeral =
     with_header N local_ephemeral DEFAULT_NOISE_HEADER None DEFAULT_MAX_FRAME_LEN"

definition client_hello :: "NoiseHandshake \<Rightarrow> HandshakeMessage" where
  "client_hello h = \<lparr>
     hs_client_hello = Some \<lparr>ch_ephemeral = Some (kp_public (nh_local_ephemeral h)), ch_static = None,
       ch_payload = None, ch_use_extended = None, ch_extended_ciphertext = None\<rparr>,
     hs_server_hello = None, hs_client_finish = None\<rparr>"

definition client_hello_bytes :: "noise_ext \<Rightarrow> NoiseHandshake \<Rightarrow> bytes" where
  "client_hello_bytes N h = n_enc_handshake N (client_hello h)"

text \<open>
  The operations on the handshake change it also when they fail: an error ends the sequence, what
  was changed before stays.
\<close>

type_synonym 'a hs_op = "NoiseHandshake \<Rightarrow> (NoiseHandshakeError + 'a) \<times> NoiseHandshake"

definition hs_return :: "'a \<Rightarrow> 'a hs_op" where
  "hs_return x h = (Ok x, h)"

definition hs_lift :: "NoiseHandshakeError + 'a \<Rightarrow> 'a hs_op" where
  "hs_lift r h = (r, h)"

definition hs_bind :: "'a hs_op \<Rightarrow> ('a \<Rightarrow> 'b hs_op) \<Rightarrow> 'b hs_op" where
  "hs_bind f g h = (case f h of (Inl e, h') \<Rightarrow> (Inl e, h') | (Inr x, h') \<Rightarrow> g x h')"

definition authenticate :: "noise_ext \<Rightarrow> bytes \<Rightarrow> unit hs_op" where
  "authenticate N data h = (Ok (), h\<lparr>nh_hash := authenticate_hash N (nh_hash h) data\<rparr>)"

definition mix_into_key :: "ext \<Rightarrow> bytes \<Rightarrow> unit hs_op" where
  "mix_into_key X input_key_material h =
     (case hkdf_sha256 X input_key_material 64 (nh_salt h) [] of
        Inl e \<Rightarrow> (Err (HandshakeCrypto e), h)
      | Inr key \<Rightarrow> (Ok (), h\<lparr>nh_salt := take 32 key, nh_enc_key := drop 32 key, nh_dec_key := drop 32 key,
          nh_counter := 0\<rparr>))"

definition mix_shared_secret :: "ext \<Rightarrow> bytes \<Rightarrow> bytes \<Rightarrow> unit hs_op" where
  "mix_shared_secret X private_key public_key =
     (let secret = shared_key X private_key public_key in
      if list_all (\<lambda>byte. byte = 0) secret then hs_lift (Err InvalidSharedSecret)
      else mix_into_key X secret)"

definition encrypt_pre_transport :: "noise_ext \<Rightarrow> bytes \<Rightarrow> bytes hs_op" where
  "encrypt_pre_transport N plaintext h =
     (let iv = counter_iv (nh_counter h); h' = h\<lparr>nh_counter := nh_counter h + 1\<rparr> in
      hs_bind (hs_lift (map_err HandshakeCrypto (aes_256_gcm_encrypt N plaintext (nh_enc_key h) iv (nh_hash h))))
        (\<lambda>ciphertext. hs_bind (authenticate N ciphertext) (\<lambda>_. hs_return ciphertext)) h')"

definition decrypt_pre_transport :: "noise_ext \<Rightarrow> bytes \<Rightarrow> bytes hs_op" where
  "decrypt_pre_transport N ciphertext h =
     (let iv = counter_iv (nh_counter h); h' = h\<lparr>nh_counter := nh_counter h + 1\<rparr> in
      hs_bind (hs_lift (map_err HandshakeCrypto (aes_256_gcm_decrypt N ciphertext (nh_dec_key h) iv (nh_hash h))))
        (\<lambda>plaintext. hs_bind (authenticate N ciphertext) (\<lambda>_. hs_return plaintext)) h')"

definition process_server_hello ::
  "ext \<Rightarrow> noise_ext \<Rightarrow> verifier \<Rightarrow> ServerHello \<Rightarrow> KeyPair \<Rightarrow> bytes hs_op" where
  "process_server_hello X N verify_signature server_hello static_key_pair h =
     hs_bind (hs_lift (and_then (ok_or (sh_ephemeral server_hello) (MissingField ''server hello ephemeral''))
       (\<lambda>e. key_array e ''server hello ephemeral''))) (\<lambda>server_ephemeral.
     hs_bind (authenticate N server_ephemeral) (\<lambda>_.
     hs_bind (hs_lift (key_array (kp_private (nh_local_ephemeral h)) ''local ephemeral private key''))
       (\<lambda>local_ephemeral_private.
     hs_bind (mix_shared_secret X local_ephemeral_private server_ephemeral) (\<lambda>_.
     hs_bind (hs_lift (ok_or (sh_static server_hello) (MissingField ''server static key''))) (\<lambda>encrypted_static.
     hs_bind (decrypt_pre_transport N encrypted_static) (\<lambda>server_static.
     hs_bind (hs_lift (key_array server_static ''server static key'')) (\<lambda>server_static.
     hs_bind (mix_shared_secret X local_ephemeral_private server_static) (\<lambda>_.
     hs_bind (hs_lift (ok_or (sh_payload server_hello) (MissingField ''server certificate payload'')))
       (\<lambda>encrypted_cert.
     hs_bind (decrypt_pre_transport N encrypted_cert) (\<lambda>cert_plaintext.
     hs_bind (hs_lift (validate_noise_certificate_chain N verify_signature cert_plaintext)) (\<lambda>_.
     hs_bind (encrypt_pre_transport N (kp_public static_key_pair)) (\<lambda>encrypted_client_static.
     hs_bind (hs_lift (key_array (kp_private static_key_pair) ''local static key'')) (\<lambda>local_static_private.
     hs_bind (mix_shared_secret X local_static_private server_ephemeral) (\<lambda>_.
     hs_return encrypted_client_static)))))))))))))) h"

definition build_client_finish ::
  "ext \<Rightarrow> noise_ext \<Rightarrow> verifier \<Rightarrow> ServerHello \<Rightarrow> KeyPair \<Rightarrow> bytes \<Rightarrow> HandshakeMessage hs_op" where
  "build_client_finish X N verify_signature server_hello static_key_pair client_payload =
     hs_bind (process_server_hello X N verify_signature server_hello static_key_pair) (\<lambda>encrypted_static.
     hs_bind (encrypt_pre_transport N client_payload) (\<lambda>encrypted_payload.
     hs_return \<lparr>hs_client_hello = None, hs_server_hello = None,
       hs_client_finish = Some \<lparr>cf_static = Some encrypted_static, cf_payload = Some encrypted_payload,
         cf_extended_ciphertext = None\<rparr>\<rparr>))"

text \<open>The keys of the handshake are wiped when the transport starts.\<close>

definition finish_transport :: "ext \<Rightarrow> unit hs_op" where
  "finish_transport X h =
     (case hkdf_sha256 X [] 64 (nh_salt h) [] of
        Inl e \<Rightarrow> (Err (HandshakeCrypto e), h)
      | Inr key \<Rightarrow> (Ok (), h\<lparr>nh_enc_key := replicate 32 0, nh_dec_key := replicate 32 0,
          nh_transport := Some (transport_new (take 32 key) (drop 32 key))\<rparr>))"

definition encode_frame :: "noise_ext \<Rightarrow> bytes \<Rightarrow> bytes hs_op" where
  "encode_frame N plaintext h =
     (if length plaintext > nh_max_frame_len h
      then (Err (HandshakeFrame (FrameTooLarge (length plaintext) (nh_max_frame_len h))), h)
      else
        hs_bind (case nh_transport h of
            Some transport \<Rightarrow> (\<lambda>h. let (r, transport) = transport_encrypt N transport plaintext
              in (map_err HandshakeFrame r, h\<lparr>nh_transport := Some transport\<rparr>))
          | None \<Rightarrow> hs_return plaintext) (\<lambda>payload h.
        (Ok ((if nh_sent_intro h then [] else nh_intro_header h) @ put_frame_len (length payload) @ payload),
         h\<lparr>nh_sent_intro := True\<rparr>)) h)"

text \<open>The loop that decrypts the frames of a chunk: an error drops the frames before it.\<close>

definition open_frame :: "noise_ext \<Rightarrow> bytes \<Rightarrow> bytes hs_op" where
  "open_frame N frame h = (case nh_transport h of
     Some transport \<Rightarrow> (let (r, transport) = transport_decrypt N transport frame
       in (map_err HandshakeFrame r, h\<lparr>nh_transport := Some transport\<rparr>))
   | None \<Rightarrow> (Ok frame, h))"

fun decrypt_frames :: "noise_ext \<Rightarrow> bytes list \<Rightarrow> bytes list hs_op" where
  "decrypt_frames N [] = hs_return []"
| "decrypt_frames N (frame # frames) =
     hs_bind (open_frame N frame) (\<lambda>plaintext.
     hs_bind (decrypt_frames N frames) (\<lambda>plaintexts. hs_return (plaintext # plaintexts)))"

definition push_frame_bytes :: "noise_ext \<Rightarrow> bytes \<Rightarrow> bytes list hs_op" where
  "push_frame_bytes N chunk h =
     hs_bind (\<lambda>h. let (r, codec) = frame_codec_push (nh_frame_codec h) chunk
         in (map_err HandshakeFrame r, h\<lparr>nh_frame_codec := codec\<rparr>)) (\<lambda>frames.
     decrypt_frames N frames) h"

end
