(* ===== verification/NoiseInstance.thy ===== *)
theory NoiseInstance
  imports Noise SyncActionInstance
begin

text \<open>A concrete instance of the external functions of the Noise handshake, for the witnesses.\<close>

definition put_hello :: "ClientHello \<Rightarrow> bytes" where
  "put_hello v = put_opt put_str (ch_ephemeral v) @ put_opt put_str (ch_static v) @
     put_opt put_str (ch_payload v) @ put_opt put_bool (ch_use_extended v) @
     put_opt put_str (ch_extended_ciphertext v)"

definition get_hello :: "bytes \<Rightarrow> ClientHello \<times> bytes" where
  "get_hello bs =
     (let (a, bs) = get_opt get_str bs; (b, bs) = get_opt get_str bs; (c, bs) = get_opt get_str bs;
          (d, bs) = get_opt get_bool bs; (e, bs) = get_opt get_str bs
      in (\<lparr>ch_ephemeral = a, ch_static = b, ch_payload = c, ch_use_extended = d,
           ch_extended_ciphertext = e\<rparr>, bs))"

interpretation hello_codec: byte_codec put_hello get_hello
  by unfold_locales (simp add: put_hello_def get_hello_def get_puts codec_parts)

definition put_server :: "ServerHello \<Rightarrow> bytes" where
  "put_server v = put_opt put_str (sh_ephemeral v) @ put_opt put_str (sh_static v) @
     put_opt put_str (sh_payload v) @ put_opt put_str (sh_extended_static v)"

definition get_server :: "bytes \<Rightarrow> ServerHello \<times> bytes" where
  "get_server bs =
     (let (a, bs) = get_opt get_str bs; (b, bs) = get_opt get_str bs; (c, bs) = get_opt get_str bs;
          (d, bs) = get_opt get_str bs
      in (\<lparr>sh_ephemeral = a, sh_static = b, sh_payload = c, sh_extended_static = d\<rparr>, bs))"

interpretation server_codec: byte_codec put_server get_server
  by unfold_locales (simp add: put_server_def get_server_def codec_parts)

definition put_finish :: "ClientFinish \<Rightarrow> bytes" where
  "put_finish v = put_opt put_str (cf_static v) @ put_opt put_str (cf_payload v) @
     put_opt put_str (cf_extended_ciphertext v)"

definition get_finish :: "bytes \<Rightarrow> ClientFinish \<times> bytes" where
  "get_finish bs =
     (let (a, bs) = get_opt get_str bs; (b, bs) = get_opt get_str bs; (c, bs) = get_opt get_str bs
      in (\<lparr>cf_static = a, cf_payload = b, cf_extended_ciphertext = c\<rparr>, bs))"

interpretation finish_codec: byte_codec put_finish get_finish
  by unfold_locales (simp add: put_finish_def get_finish_def codec_parts)

definition put_handshake :: "HandshakeMessage \<Rightarrow> bytes" where
  "put_handshake v = put_opt put_hello (hs_client_hello v) @ put_opt put_server (hs_server_hello v) @
     put_opt put_finish (hs_client_finish v)"

definition get_handshake :: "bytes \<Rightarrow> string + HandshakeMessage" where
  "get_handshake bs =
     (let (a, bs) = get_opt get_hello bs; (b, bs) = get_opt get_server bs; (c, _) = get_opt get_finish bs
      in Ok \<lparr>hs_client_hello = a, hs_server_hello = b, hs_client_finish = c\<rparr>)"

text \<open>One certificate chain, whatever is decoded.\<close>

definition toy_chain :: CertChain where
  "toy_chain = \<lparr>cc_leaf = Some \<lparr>nc_details = Some [1], nc_signature = Some [2]\<rparr>,
     cc_intermediate = Some \<lparr>nc_details = Some [3], nc_signature = Some [4]\<rparr>\<rparr>"

definition toy_noise :: noise_ext where
  "toy_noise = \<lparr>
     n_sha256 = (\<lambda>m. take 32 (m @ replicate 32 0)),
     n_gcm_encrypt = (\<lambda>k iv aad p. Some (p @ replicate 16 0)),
     n_gcm_decrypt = (\<lambda>k iv aad c. Some (take (length c - 16) c)),
     n_enc_handshake = put_handshake, n_dec_handshake = get_handshake,
     n_dec_cert_chain = (\<lambda>bs. Ok toy_chain),
     n_dec_details = (\<lambda>bs. Ok \<lparr>cd_serial = None, cd_issuer_serial = None, cd_key = Some [5],
       cd_not_before = None, cd_not_after = None\<rparr>)\<rparr>"

lemma toy_noise_ok: "noise_ext_ok toy_noise"
proof -
  note parts = byte_codec.get_put [OF byte_codec_opt [OF hello_codec.byte_codec_axioms]]
    byte_codec.get_put [OF byte_codec_opt [OF server_codec.byte_codec_axioms]]
    byte_codec.get_put [OF byte_codec_opt [OF finish_codec.byte_codec_axioms]]
  note end_parts = parts [where rest = "[]", simplified]
  have "get_handshake (put_handshake v) = Inr v" for v
    by (simp add: get_handshake_def put_handshake_def parts end_parts)
  then show ?thesis by (auto simp: noise_ext_ok_def toy_noise_def)
qed

end
