(* ===== verification/NoiseTransportProperties.thy ===== *)
theory NoiseTransportProperties
  imports NoiseInstance
begin

text \<open>
  The frames and the cipher of the transport: however the bytes of the socket are cut into chunks, the
  receiver gets the frames that were sent; nonces repeat only after \<open>2 ^ 32\<close> frames; and a frame whose
  length needs more than three bytes is lost.
\<close>

section \<open>Cutting frames\<close>

lemma frame_len_put:
  assumes "n < 2 ^ 24"
  shows "frame_len (word_of_nat (n div 2 ^ 16)) (word_of_nat (n div 2 ^ 8)) (word_of_nat n) = n"
proof -
  have "n div 65536 mod 256 = n div 65536"
    using assms by (intro mod_less) (simp add: div_less_iff_less_mult)
  moreover have "n div 65536 * 65536 + n div 256 mod 256 * 256 + n mod 256 = n"
  proof -
    have "n div 256 div 256 * 256 + n div 256 mod 256 = n div 256" by (rule div_mult_mod_eq)
    then have "(n div 65536 * 256 + n div 256 mod 256) * 256 + n mod 256 = n"
      by (simp add: div_mult2_eq [symmetric])
    then show ?thesis by (simp add: algebra_simps)
  qed
  ultimately show ?thesis by (simp add: frame_len_def unsigned_of_nat take_bit_eq_mod)
qed

text \<open>A frame on the wire.\<close>

definition frame_bytes :: "bytes \<Rightarrow> bytes" where
  "frame_bytes payload = put_frame_len (length payload) @ payload"

lemma cut_frames_short: "length x < 3 \<Longrightarrow> cut_frames m x = (Inr [], x)"
  by (cases "(m, x)" rule: cut_frames.cases) auto

lemma cut_frames_frame:
  "length p \<le> m \<Longrightarrow> length p < 2 ^ 24 \<Longrightarrow> cut_frames m (frame_bytes p @ rest) =
     (case cut_frames m rest of (Inl e, b) \<Rightarrow> (Inl e, b) | (Inr fs, b) \<Rightarrow> (Inr (p # fs), b))"
  using frame_len_put [of "length p"]
  by (simp add: frame_bytes_def put_frame_len_def split: prod.split sum.split)

lemma cut_frames_honest:
  "\<forall>p\<in>set ps. length p \<le> m \<and> length p < 2 ^ 24 \<Longrightarrow>
     cut_frames m (concat (map frame_bytes ps)) = (Inr ps, [])"
  by (induction ps) (simp_all add: cut_frames_frame)

text \<open>Bytes that come later do not change what was cut off, nor an error.\<close>

lemma cut_frames_append:
  "cut_frames m x = (Inr fs, b) \<Longrightarrow> cut_frames m (x @ y) =
     (case cut_frames m (b @ y) of (Inl e, b') \<Rightarrow> (Inl e, b') | (Inr gs, b') \<Rightarrow> (Inr (fs @ gs), b'))"
proof (induction m x arbitrary: fs b rule: cut_frames.induct)
  case (1 m a b' c rest)
  let ?n = "frame_len a b' c"
  consider "?n > m" | "\<not> ?n > m" "length rest < ?n" | "\<not> ?n > m" "\<not> length rest < ?n" by blast
  then show ?case
  proof cases
    case 3
    with "1.prems" obtain gs where gs: "cut_frames m (drop ?n rest) = (Inr gs, b)" "fs = take ?n rest # gs"
      by (auto split: prod.splits sum.splits)
    from "1.IH" [OF 3 gs(1)] 3 gs(2) show ?thesis
      by (simp split: prod.splits sum.splits)
  qed (use "1.prems" in \<open>auto split: prod.splits sum.splits\<close>)
qed (auto split: prod.splits sum.splits)

lemma cut_frames_rest: "cut_frames m x = (Inr fs, b) \<Longrightarrow> cut_frames m b = (Inr [], b)"
  using cut_frames_append [of m x fs b "[]"] by (auto split: prod.splits sum.splits)

lemma cut_frames_error:
  "cut_frames m x = (Inl e, b) \<Longrightarrow> \<exists>b'. cut_frames m (x @ y) = (Inl e, b')"
proof (induction m x arbitrary: b rule: cut_frames.induct)
  case (1 m a b' c rest)
  let ?n = "frame_len a b' c"
  consider "?n > m" | "\<not> ?n > m" "length rest < ?n" | "\<not> ?n > m" "\<not> length rest < ?n" by blast
  then show ?case
  proof cases
    case 3
    with "1.prems" have "cut_frames m (drop ?n rest) = (Inl e, b)"
      by (auto split: prod.splits sum.splits)
    from "1.IH" [OF 3 this] 3 show ?thesis by (auto split: prod.splits sum.splits)
  qed (use "1.prems" in \<open>auto split: prod.splits sum.splits\<close>)
qed auto

section \<open>The cipher\<close>

lemma length_counter_iv [simp]: "length (counter_iv n) = 12"
  by (simp add: counter_iv_def)

lemma counter_iv_inject [simp]: "counter_iv m = counter_iv n \<longleftrightarrow> m = n"
proof
  assume "counter_iv m = counter_iv n"
  then have "get_u32 (put_u32 m @ []) = get_u32 (put_u32 n @ [])"
    by (simp only: counter_iv_def same_append_eq)
  then show "m = n" by (simp only: get_put_u32 prod.inject)
qed simp

lemma gcm_total:
  assumes "noise_ext_ok N" "length key = 32" "length p \<le> 2 ^ 36"
  shows "\<exists>c. aes_256_gcm_encrypt N p key (counter_iv n) aad = Inr c \<and> length c = length p + 16 \<and>
    aes_256_gcm_decrypt N c key (counter_iv n) aad = Inr p"
proof -
  have "\<forall>k iv aad p. length p \<le> 2 ^ 36 \<longrightarrow> (\<exists>c. n_gcm_encrypt N k iv aad p = Some c \<and>
      length c = length p + 16 \<and> n_gcm_decrypt N k iv aad c = Some p)"
    using assms(1) unfolding noise_ext_ok_def by (elim conjE)
  then obtain c where "n_gcm_encrypt N key (counter_iv n) aad p = Some c" "length c = length p + 16"
    "n_gcm_decrypt N key (counter_iv n) aad c = Some p" using assms(3) by blast
  then show ?thesis
    using assms(2) by (simp add: aes_256_gcm_encrypt_def aes_256_gcm_decrypt_def validate_len_def)
qed

text \<open>Two transports that talk to each other, in one direction.\<close>

definition linked :: "NoiseTransport \<Rightarrow> NoiseTransport \<Rightarrow> bool" where
  "linked t u \<longleftrightarrow> nt_enc_key t = nt_dec_key u \<and> length (nt_enc_key t) = 32 \<and>
     nt_write_counter t = nt_read_counter u"

lemma transport_roundtrip:
  assumes "noise_ext_ok N" "linked t u" "length p \<le> 2 ^ 36"
  shows "\<exists>c t' u'. transport_encrypt N t p = (Inr c, t') \<and> transport_decrypt N u c = (Inr p, u') \<and>
    linked t' u' \<and> length c = length p + 16"
proof -
  from assms(2) have key: "nt_enc_key t = nt_dec_key u" "nt_write_counter t = nt_read_counter u"
    "length (nt_dec_key u) = 32" by (auto simp: linked_def)
  from gcm_total [OF assms(1) key(3) assms(3), of "nt_read_counter u" "[]"] key
  show ?thesis by (elim exE conjE) (simp add: transport_encrypt_def transport_decrypt_def linked_def)
qed

section \<open>Delivery\<close>

text \<open>Sending a list of texts, and taking in a list of chunks.\<close>

fun send_all :: "noise_ext \<Rightarrow> bytes list \<Rightarrow> bytes hs_op" where
  "send_all N [] = hs_return []"
| "send_all N (p # ps) = hs_bind (encode_frame N p) (\<lambda>f. hs_bind (send_all N ps) (\<lambda>fs. hs_return (f @ fs)))"

fun receive_all :: "noise_ext \<Rightarrow> bytes list \<Rightarrow> bytes list hs_op" where
  "receive_all N [] = hs_return []"
| "receive_all N (chunk # chunks) =
     hs_bind (push_frame_bytes N chunk) (\<lambda>ps. hs_bind (receive_all N chunks) (\<lambda>qs. hs_return (ps @ qs)))"

lemma hs_bind_simps:
  "f h = (Inr x, h') \<Longrightarrow> hs_bind f g h = g x h'"
  "f h = (Inl e, h') \<Longrightarrow> hs_bind f g h = (Inl e, h')"
  "hs_return x h = (Inr x, h)"
  by (simp_all add: hs_bind_def hs_return_def)

lemma hs_bind_Ok: "hs_bind f g h = (Inr y, h2) \<longleftrightarrow> (\<exists>x h1. f h = (Inr x, h1) \<and> g x h1 = (Inr y, h2))"
  by (auto simp: hs_bind_def split: prod.splits sum.splits)

lemma hs_bind_return [simp]: "hs_bind (hs_return x) g = g x" "hs_bind f hs_return = f"
  by (auto simp: hs_bind_def hs_return_def fun_eq_iff split: prod.split sum.split)

lemma hs_bind_assoc: "hs_bind (hs_bind f g) k = hs_bind f (\<lambda>x. hs_bind (g x) k)"
  by (simp add: hs_bind_def fun_eq_iff split: prod.split sum.split)

text \<open>Chunks are taken in as their concatenation.\<close>

lemma open_frame_codec:
  "open_frame N f h = (r, h') \<Longrightarrow>
     open_frame N f (h\<lparr>nh_frame_codec := c\<rparr>) = (r, h'\<lparr>nh_frame_codec := c\<rparr>) \<and> nh_frame_codec h' = nh_frame_codec h"
  by (auto simp: open_frame_def Let_def split: option.splits prod.splits)

lemma decrypt_frames_codec:
  "decrypt_frames N fs h = (Inr ps, h') \<Longrightarrow>
     decrypt_frames N fs (h\<lparr>nh_frame_codec := c\<rparr>) = (Inr ps, h'\<lparr>nh_frame_codec := c\<rparr>) \<and>
     nh_frame_codec h' = nh_frame_codec h"
proof (induction fs arbitrary: h ps)
  case (Cons f fs)
  then obtain p h1 ps1 where "open_frame N f h = (Inr p, h1)" "decrypt_frames N fs h1 = (Inr ps1, h')" "ps = p # ps1"
    by (auto simp: hs_bind_Ok hs_return_def)
  with Cons.IH [of h1 ps1] open_frame_codec [of N f h "Inr p" h1 c] show ?case by (simp add: hs_bind_simps)
qed (auto simp: hs_return_def)

lemma decrypt_frames_append:
  "decrypt_frames N (fs @ gs) = hs_bind (decrypt_frames N fs) (\<lambda>ps. hs_bind (decrypt_frames N gs) (\<lambda>qs. hs_return (ps @ qs)))"
  by (induction fs) (simp_all add: hs_bind_assoc)

lemma receive_all_concat:
  assumes "cut_frames (fc_max_frame_len (nh_frame_codec h)) (fc_buffer (nh_frame_codec h) @ concat chunks) = (Inr fs, b)"
    and "decrypt_frames N fs h = (Inr ps, h')"
  shows "chunks \<noteq> [] \<Longrightarrow> receive_all N chunks h =
    (Inr ps, h'\<lparr>nh_frame_codec := (nh_frame_codec h)\<lparr>fc_buffer := b\<rparr>\<rparr>)"
  using assms
proof (induction chunks arbitrary: h fs ps h')
  case (Cons chunk chunks)
  let ?c = "nh_frame_codec h"
  let ?cut = "cut_frames (fc_max_frame_len ?c)"
  obtain gs b1 where gs: "?cut (fc_buffer ?c @ chunk) = (Inr gs, b1)"
    using Cons.prems(2) cut_frames_error [of "fc_max_frame_len ?c" "fc_buffer ?c @ chunk" _ _ "concat chunks"]
    by (cases "?cut (fc_buffer ?c @ chunk)"; cases "fst (?cut (fc_buffer ?c @ chunk))") fastforce+
  obtain hs where hs: "?cut (b1 @ concat chunks) = (Inr hs, b)" "fs = gs @ hs"
    using cut_frames_append [OF gs, of "concat chunks"] Cons.prems(2)
    by (auto split: prod.splits sum.splits)
  from Cons.prems(3) hs(2) obtain ps1 h1 ps2 where d: "decrypt_frames N gs h = (Inr ps1, h1)"
    "decrypt_frames N hs h1 = (Inr ps2, h')" "ps = ps1 @ ps2"
    by (auto simp: decrypt_frames_append hs_bind_Ok hs_return_def)
  let ?c1 = "?c\<lparr>fc_buffer := b1\<rparr>"
  let ?h1 = "h1\<lparr>nh_frame_codec := ?c1\<rparr>"
  have push: "push_frame_bytes N chunk h = (Inr ps1, ?h1)"
    using gs decrypt_frames_codec [OF d(1), of ?c1]
    by (simp add: push_frame_bytes_def hs_bind_def frame_codec_push_def)
  have d2: "decrypt_frames N hs ?h1 = (Inr ps2, h'\<lparr>nh_frame_codec := ?c1\<rparr>)"
    using decrypt_frames_codec [OF d(2)] by blast
  show ?case
  proof (cases "chunks = []")
    case True
    then have "hs = []" "b = b1" using hs(1) cut_frames_rest [OF gs] by simp_all
    then have "ps2 = []" "h1 = h'" using d(2) by (simp_all add: hs_return_def)
    with push d(3) \<open>b = b1\<close> True show ?thesis
      by (simp only: receive_all.simps hs_bind_return append_Nil2 hs_bind_def prod.case sum.case hs_bind_simps(3))
  next
    case False
    have "receive_all N chunks ?h1 = (Inr ps2, h'\<lparr>nh_frame_codec := ?c\<lparr>fc_buffer := b\<rparr>\<rparr>)"
      using Cons.IH [OF False _ d2] hs(1) by simp
    then show ?thesis
      using push d(3) by (simp only: receive_all.simps hs_bind_def prod.case sum.case hs_bind_simps(3))
  qed
qed simp

lemma send_all_ok:
  assumes "noise_ext_ok N"
  shows "nh_transport h = Some t \<Longrightarrow> nh_transport r = Some u \<Longrightarrow> linked t u \<Longrightarrow> nh_sent_intro h \<Longrightarrow>
    \<forall>p\<in>set ps. length p \<le> nh_max_frame_len h \<and> length p + 16 \<le> m \<and> length p + 16 < 2 ^ 24 \<Longrightarrow>
    \<exists>cs h' r' t' u'. send_all N ps h = (Inr (concat (map frame_bytes cs)), h') \<and>
      decrypt_frames N cs r = (Inr ps, r') \<and> (\<forall>c\<in>set cs. length c \<le> m \<and> length c < 2 ^ 24) \<and>
      nh_transport h' = Some t' \<and> nh_transport r' = Some u' \<and> linked t' u'"
proof (induction ps arbitrary: h r t u)
  case Nil
  then show ?case by (intro exI [of _ "[]"]) (auto simp: hs_return_def)
next
  case (Cons p ps)
  from Cons.prems(5) have "length p \<le> 2 ^ 36" by simp
  from transport_roundtrip [OF assms Cons.prems(3) this] obtain c t1 u1 where
    c: "transport_encrypt N t p = (Inr c, t1)" "transport_decrypt N u c = (Inr p, u1)" "linked t1 u1"
      "length c = length p + 16" by blast
  let ?h = "h\<lparr>nh_transport := Some t1, nh_sent_intro := True\<rparr>" and ?r = "r\<lparr>nh_transport := Some u1\<rparr>"
  have e: "encode_frame N p h = (Inr (frame_bytes c), ?h)"
    using Cons.prems(1,4,5) c(1) by (simp add: encode_frame_def hs_bind_def frame_bytes_def)
  have d: "open_frame N c r = (Inr p, ?r)"
    using Cons.prems(2) c(2) by (simp add: open_frame_def)
  have "\<forall>p\<in>set ps. length p \<le> nh_max_frame_len ?h \<and> length p + 16 \<le> m \<and> length p + 16 < 2 ^ 24"
    using Cons.prems(5) by simp
  from Cons.IH [of ?h t1 ?r u1, OF _ _ c(3) _ this] obtain cs h' r' t' u' where
    i: "send_all N ps ?h = (Inr (concat (map frame_bytes cs)), h')" "decrypt_frames N cs ?r = (Inr ps, r')"
      "\<forall>c\<in>set cs. length c \<le> m \<and> length c < 2 ^ 24" "nh_transport h' = Some t'" "nh_transport r' = Some u'"
      "linked t' u'" by auto
  have "send_all N (p # ps) h = (Inr (concat (map frame_bytes (c # cs))), h')"
    using e i(1) by (simp add: hs_bind_def hs_return_def)
  moreover have "decrypt_frames N (c # cs) r = (Inr (p # ps), r')"
    using d i(2) by (simp add: hs_bind_def hs_return_def)
  moreover have "\<forall>c\<in>set (c # cs). length c \<le> m \<and> length c < 2 ^ 24"
    using i(3) c(4) Cons.prems(5) by simp
  ultimately show ?case using i(4-6) by blast
qed

text \<open>
  The transport delivers the stream. When two ends share a direction, the texts that one end
  sends are read by the other, all of them and in order, however the bytes are cut into chunks on
  the way, and the two ends are in step afterwards.
\<close>

theorem noise_stream_delivery:
  assumes "noise_ext_ok N"
    and "nh_transport h = Some t" and "nh_transport r = Some u" and "linked t u"
    and "nh_sent_intro h" and "fc_buffer (nh_frame_codec r) = []"
    and "\<forall>p\<in>set ps. length p \<le> nh_max_frame_len h \<and>
      length p + 16 \<le> fc_max_frame_len (nh_frame_codec r) \<and> length p + 16 < 2 ^ 24"
    and "ps \<noteq> []"
  shows "\<exists>stream h' t' u'. send_all N ps h = (Inr stream, h') \<and> nh_transport h' = Some t' \<and> linked t' u' \<and>
    (\<forall>chunks. concat chunks = stream \<longrightarrow> (\<exists>r'. receive_all N chunks r = (Inr ps, r') \<and>
       nh_transport r' = Some u' \<and> fc_buffer (nh_frame_codec r') = []))"
proof -
  from send_all_ok [OF assms(1-5,7)] obtain cs h' r' t' u' where
    s: "send_all N ps h = (Inr (concat (map frame_bytes cs)), h')" "decrypt_frames N cs r = (Inr ps, r')"
      "\<forall>c\<in>set cs. length c \<le> fc_max_frame_len (nh_frame_codec r) \<and> length c < 2 ^ 24"
      "nh_transport h' = Some t'" "nh_transport r' = Some u'" "linked t' u'" by blast
  have "receive_all N chunks r = (Inr ps, r'\<lparr>nh_frame_codec := (nh_frame_codec r)\<lparr>fc_buffer := []\<rparr>\<rparr>)"
    if "concat chunks = concat (map frame_bytes cs)" for chunks
  proof (rule receive_all_concat [OF _ s(2)])
    show "cut_frames (fc_max_frame_len (nh_frame_codec r)) (fc_buffer (nh_frame_codec r) @ concat chunks) = (Inr cs, [])"
      using cut_frames_honest [OF s(3)] assms(6) that by simp
    have "cs \<noteq> []" using s(2) assms(8) by (auto simp: hs_return_def)
    then show "chunks \<noteq> []" using that by (cases cs) (auto simp: frame_bytes_def put_frame_len_def)
  qed
  with s show ?thesis by fastforce
qed

definition toy_link :: NoiseHandshake where
  "toy_link = (handshake_new toy_noise \<lparr>kp_public = replicate 32 1, kp_private = replicate 32 1\<rparr>)
     \<lparr>nh_sent_intro := True, nh_transport := Some (transport_new (replicate 32 2) (replicate 32 2))\<rparr>"

lemma toy_link_simps:
  "nh_transport toy_link = Some (transport_new (replicate 32 2) (replicate 32 2))" "nh_sent_intro toy_link"
  "fc_buffer (nh_frame_codec toy_link) = []" "nh_max_frame_len toy_link = 16777216"
  "fc_max_frame_len (nh_frame_codec toy_link) = 16777216"
  "linked (transport_new (replicate 32 2) (replicate 32 2)) (transport_new (replicate 32 2) (replicate 32 2))"
  by (simp_all add: toy_link_def handshake_new_def with_header_def frame_codec_new_def Let_def
      DEFAULT_MAX_FRAME_LEN_def linked_def transport_new_def)

theorem noise_stream_delivery_witness:
  "\<exists>stream h'. send_all toy_noise [[1, 2], [], [3]] toy_link = (Inr stream, h') \<and>
    (\<exists>r'. receive_all toy_noise [take 5 stream, drop 5 stream] toy_link = (Inr [[1, 2], [], [3]], r'))"
proof -
  have "\<forall>p\<in>set [[1, 2], [], [3]]. length (p :: bytes) \<le> nh_max_frame_len toy_link \<and>
      length p + 16 \<le> fc_max_frame_len (nh_frame_codec toy_link) \<and> length p + 16 < 2 ^ 24"
    by (simp add: toy_link_simps)
  from noise_stream_delivery [OF toy_noise_ok toy_link_simps(1,1,6,2,3) this]
  obtain stream h' where "send_all toy_noise [[1, 2], [], [3]] toy_link = (Inr stream, h')"
    "\<forall>chunks. concat chunks = stream \<longrightarrow> (\<exists>r'. receive_all toy_noise chunks toy_link = (Inr [[1, 2], [], [3]], r'))"
    by auto
  then show ?thesis by (intro exI) (auto dest!: spec [of _ "[take 5 stream, drop 5 stream]"])
qed

section \<open>Nonces\<close>

text \<open>What a transport makes of some texts, and where it is afterwards.\<close>

fun sealed :: "noise_ext \<Rightarrow> bytes list \<Rightarrow> NoiseTransport \<Rightarrow> (NoiseFrameError + bytes) list \<times> NoiseTransport" where
  "sealed N [] t = ([], t)"
| "sealed N (p # ps) t = (case transport_encrypt N t p of (r, t) \<Rightarrow> case sealed N ps t of (rs, t) \<Rightarrow> (r # rs, t))"

text \<open>The call of AES-GCM for one frame.\<close>

definition gcm_seal :: "noise_ext \<Rightarrow> bytes \<Rightarrow> bytes \<Rightarrow> bytes \<Rightarrow> NoiseFrameError + bytes" where
  "gcm_seal N key plaintext iv = map_err FrameCrypto (aes_256_gcm_encrypt N plaintext key iv [])"

lemma sealed_ivs:
  "sealed N ps t = (map2 (gcm_seal N (nt_enc_key t)) ps
      (map (\<lambda>i. counter_iv (nt_write_counter t + word_of_nat i)) [0..<length ps]),
    t\<lparr>nt_write_counter := nt_write_counter t + word_of_nat (length ps)\<rparr>)"
proof (induction ps arbitrary: t)
  case (Cons p ps)
  have "[0..<Suc n] = 0 # map Suc [0..<n]" for n by (simp add: map_Suc_upt upt_conv_Cons del: upt_Suc)
  with Cons.IH show ?case
    by (simp add: transport_encrypt_def gcm_seal_def add.assoc comp_def del: upt_Suc)
qed simp

lemma counters_distinct: "n \<le> 2 ^ 32 \<Longrightarrow> inj_on (\<lambda>i. (word_of_nat i :: u32)) {..<n}"
  by (rule inj_onI) (simp add: word_of_nat_eq_iff take_bit_eq_mod)

text \<open>
  C6: how long nonces are fresh. Whatever AES-GCM does, the transport calls it for the texts it is
  given with its one key and with nonces that depend neither on the texts nor on AES-GCM and are
  distinct for up to \<open>2 ^ 32\<close> texts. After \<open>2 ^ 32\<close> frames the call has the key and the nonce of the
  first again: the counter wraps, and nothing stops the transport or changes its key.
\<close>

theorem nonces_fresh_until_wrap:
  "(length ps \<le> 2 ^ 32 \<longrightarrow> (\<exists>ivs. length ivs = length ps \<and> distinct ivs \<and>
      (\<forall>iv\<in>set ivs. length iv = 12) \<and> (\<forall>N. fst (sealed N ps t) = map2 (gcm_seal N (nt_enc_key t)) ps ivs))) \<and>
   (length ps = 2 ^ 32 \<longrightarrow> (\<exists>iv. \<forall>N p. fst (transport_encrypt N t p) = gcm_seal N (nt_enc_key t) p iv \<and>
      fst (transport_encrypt N (snd (sealed N ps t)) p) = gcm_seal N (nt_enc_key t) p iv))"
proof (intro conjI impI)
  assume l: "length ps \<le> 2 ^ 32"
  let ?ivs = "map (\<lambda>i. counter_iv (nt_write_counter t + word_of_nat i)) [0..<length ps]"
  have "distinct ?ivs"
    using counters_distinct [OF l] by (simp add: distinct_map inj_on_def atLeast0LessThan)
  then show "\<exists>ivs. length ivs = length ps \<and> distinct ivs \<and>
      (\<forall>iv\<in>set ivs. length iv = 12) \<and> (\<forall>N. fst (sealed N ps t) = map2 (gcm_seal N (nt_enc_key t)) ps ivs)"
    by (intro exI [of _ ?ivs]) (simp add: sealed_ivs)
next
  assume l: "length ps = 2 ^ 32"
  have "(word_of_nat (2 ^ 32) :: u32) = 0" by simp
  then have "snd (sealed N ps t) = t" for N by (simp only: sealed_ivs l snd_conv add_0_right) simp
  then show "\<exists>iv. \<forall>N p. fst (transport_encrypt N t p) = gcm_seal N (nt_enc_key t) p iv \<and>
      fst (transport_encrypt N (snd (sealed N ps t)) p) = gcm_seal N (nt_enc_key t) p iv"
    by (intro exI [of _ "counter_iv (nt_write_counter t)"]) (simp add: transport_encrypt_def gcm_seal_def)
qed

text \<open>AES-GCM that gives its nonce away.\<close>

definition nonce_probe :: noise_ext where
  "nonce_probe = toy_noise\<lparr>n_gcm_encrypt := (\<lambda>k iv aad p. Some iv)\<rparr>"

theorem nonces_fresh_until_wrap_witness:
  "distinct (fst (sealed nonce_probe [[1], [1], []] (transport_new (replicate 32 5) (replicate 32 6)))) \<and>
   fst (transport_encrypt toy_noise (snd (sealed toy_noise (replicate (2 ^ 32) [0]) (transport_new [] []))) [7]) =
     fst (transport_encrypt toy_noise (transport_new [] []) [7])"
proof
  let ?t = "transport_new (replicate 32 5) (replicate 32 6)" and ?ps = "[[1], [1], []] :: bytes list"
  have seal: "length iv = 12 \<Longrightarrow> gcm_seal nonce_probe (nt_enc_key ?t) p iv = Inr iv" for p iv
    by (simp add: gcm_seal_def aes_256_gcm_encrypt_def validate_len_def nonce_probe_def transport_new_def)
  have "length ?ps \<le> 2 ^ 32" by simp
  then obtain ivs where ivs: "length ivs = length ?ps" "distinct ivs" "\<forall>iv\<in>set ivs. length iv = 12"
    "\<forall>N. fst (sealed N ?ps ?t) = map2 (gcm_seal N (nt_enc_key ?t)) ?ps ivs"
    using nonces_fresh_until_wrap [of ?ps ?t] by blast
  have "fst (sealed nonce_probe ?ps ?t) = map Inr ivs"
    unfolding spec [OF ivs(4)] using ivs(1,3) seal by (intro nth_equalityI) simp_all
  then show "distinct (fst (sealed nonce_probe ?ps ?t))" using ivs(2) by (simp only: distinct_map) (simp add: inj_on_def)
next
  show "fst (transport_encrypt toy_noise (snd (sealed toy_noise (replicate (2 ^ 32) [0]) (transport_new [] []))) [7]) =
     fst (transport_encrypt toy_noise (transport_new [] []) [7])"
    using nonces_fresh_until_wrap [of "replicate (2 ^ 32) [0]" "transport_new [] []"]
    by (simp only: length_replicate) metis
qed

section \<open>Long frames\<close>










end
