(* ===== verification/NoiseAgreement.thy ===== *)
theory NoiseAgreement
  imports NoiseTransportProperties
begin

text \<open>
  The client's handshake against a responder of the XX pattern: the keys of both ends agree, the
  responder learns the client's static key and payload, and what the client's acceptance rests on.
\<close>

section \<open>The responder\<close>

text \<open>
  The server of the pattern Noise XX, which the repository does not contain: it hashes what the client
  hashes, mixes the same agreements from its own keys, and takes the halves of the transport keys
  the other way round. Its state is that of the handshake.
\<close>

definition respond_hello ::
  "ext \<Rightarrow> noise_ext \<Rightarrow> KeyPair \<Rightarrow> KeyPair \<Rightarrow> bytes \<Rightarrow> bytes \<Rightarrow> ServerHello hs_op" where
  "respond_hello X N ephemeral static client_ephemeral cert =
     hs_bind (authenticate N (kp_public ephemeral)) (\<lambda>_.
     hs_bind (mix_shared_secret X (kp_private ephemeral) client_ephemeral) (\<lambda>_.
     hs_bind (encrypt_pre_transport N (kp_public static)) (\<lambda>encrypted_static.
     hs_bind (mix_shared_secret X (kp_private static) client_ephemeral) (\<lambda>_.
     hs_bind (encrypt_pre_transport N cert) (\<lambda>encrypted_cert.
     hs_return \<lparr>sh_ephemeral = Some (kp_public ephemeral), sh_static = Some encrypted_static,
       sh_payload = Some encrypted_cert, sh_extended_static = None\<rparr>)))))"

definition respond_finish ::
  "ext \<Rightarrow> noise_ext \<Rightarrow> KeyPair \<Rightarrow> bytes \<Rightarrow> bytes \<Rightarrow> (bytes \<times> bytes) hs_op" where
  "respond_finish X N ephemeral encrypted_static encrypted_payload =
     hs_bind (decrypt_pre_transport N encrypted_static) (\<lambda>client_static.
     hs_bind (mix_shared_secret X (kp_private ephemeral) client_static) (\<lambda>_.
     hs_bind (decrypt_pre_transport N encrypted_payload) (\<lambda>payload.
     hs_return (client_static, payload))))"

definition respond_transport :: "ext \<Rightarrow> NoiseHandshake \<Rightarrow> CryptoError + NoiseTransport" where
  "respond_transport X h = and_then (hkdf_sha256 X [] 64 (nh_salt h) []) (\<lambda>key.
     Ok (transport_new (drop 32 key) (take 32 key)))"

text \<open>The responder before the first message: the hash of the header and of the client's key.\<close>

definition responder_start :: "noise_ext \<Rightarrow> bytes \<Rightarrow> bytes \<Rightarrow> NoiseHandshake" where
  "responder_start N noise_header client_ephemeral =
     with_header N \<lparr>kp_public = client_ephemeral, kp_private = []\<rparr> noise_header None 0"

section \<open>Two ends in step\<close>

definition in_step :: "NoiseHandshake \<Rightarrow> NoiseHandshake \<Rightarrow> bool" where
  "in_step h s \<longleftrightarrow> nh_hash h = nh_hash s \<and> nh_salt h = nh_salt s \<and> nh_counter h = nh_counter s \<and>
     nh_enc_key h = nh_dec_key s \<and> nh_dec_key h = nh_enc_key s \<and> length (nh_enc_key h) = 32 \<and>
     length (nh_dec_key h) = 32"

lemma in_step_sym: "in_step h s \<Longrightarrow> in_step s h"
  by (auto simp: in_step_def)

lemma in_step_authenticate:
  "in_step h s \<Longrightarrow> \<exists>h' s'. authenticate N d h = (Inr (), h') \<and> authenticate N d s = (Inr (), s') \<and> in_step h' s'"
  by (auto simp: in_step_def authenticate_def)

lemma in_step_mix:
  assumes "ext_ok X" "in_step h s" "shared_key X a pb = shared_key X b pa"
    and "\<not> list_all (\<lambda>x. x = 0) (shared_key X a pb)"
  shows "\<exists>h' s'. mix_shared_secret X a pb h = (Inr (), h') \<and> mix_shared_secret X b pa s = (Inr (), s') \<and>
    in_step h' s'"
proof -
  obtain key where "hkdf_sha256 X (shared_key X a pb) 64 (nh_salt h) [] = Inr key" "length key = 64"
    using hkdf_sha256_total [OF assms(1), of 64 "shared_key X a pb" "nh_salt h" "[]"] by auto
  with assms(2-4) show ?thesis
    by (simp add: mix_shared_secret_def mix_into_key_def in_step_def)
qed

lemma in_step_crypt:
  assumes "noise_ext_ok N" "in_step h s" "length p \<le> 2 ^ 36"
  shows "\<exists>c h' s'. encrypt_pre_transport N p h = (Inr c, h') \<and> decrypt_pre_transport N c s = (Inr p, s') \<and>
    in_step h' s' \<and> length c = length p + 16"
proof -
  from assms(2) have len: "length (nh_dec_key s) = 32" and eq: "nh_enc_key h = nh_dec_key s"
    "nh_hash h = nh_hash s" "nh_counter h = nh_counter s" "nh_salt h = nh_salt s" "nh_dec_key h = nh_enc_key s"
    "length (nh_enc_key s) = 32" by (auto simp: in_step_def)
  from gcm_total [OF assms(1) len assms(3), of "nh_counter s" "nh_hash s"] obtain c where "length c = length p + 16"
    "aes_256_gcm_encrypt N p (nh_dec_key s) (counter_iv (nh_counter s)) (nh_hash s) = Inr c"
    "aes_256_gcm_decrypt N c (nh_dec_key s) (counter_iv (nh_counter s)) (nh_hash s) = Inr p" by blast
  with eq len show ?thesis
    by (simp add: encrypt_pre_transport_def decrypt_pre_transport_def hs_bind_def hs_lift_def hs_return_def
        authenticate_def in_step_def Let_def)
qed

lemma in_step_start:
  "in_step (with_header N e hdr routing m) (responder_start N hdr (kp_public e))"
  by (simp add: in_step_def with_header_def responder_start_def Let_def mode_hash_def NOISE_MODE_def)

definition key_pair_ok :: "ext \<Rightarrow> KeyPair \<Rightarrow> bool" where
  "key_pair_ok X k \<longleftrightarrow> length (kp_private k) = 32 \<and> kp_public k = public_key_from_private X (kp_private k)"

lemma shared_key_agree:
  "ext_ok X \<Longrightarrow> key_pair_ok X a \<Longrightarrow> key_pair_ok X b \<Longrightarrow>
     shared_key X (kp_private a) (kp_public b) = shared_key X (kp_private b) (kp_public a)"
  using ext_keys(3) [of X] by (simp add: key_pair_ok_def shared_key_def public_key_from_private_def)

lemma public_length: "ext_ok X \<Longrightarrow> key_pair_ok X k \<Longrightarrow> length (kp_public k) = 32"
  using ext_keys(1) [of X] by (simp add: key_pair_ok_def public_key_from_private_def)

text \<open>An agreement the code takes: not all zero.\<close>

definition contributes :: "ext \<Rightarrow> KeyPair \<Rightarrow> KeyPair \<Rightarrow> bool" where
  "contributes X a b \<longleftrightarrow> \<not> list_all (\<lambda>x. x = 0) (shared_key X (kp_private a) (kp_public b))"

section \<open>The handshake\<close>

text \<open>The messages of an honest run.\<close>

definition finish_message :: "bytes \<Rightarrow> bytes \<Rightarrow> HandshakeMessage" where
  "finish_message static payload = \<lparr>hs_client_hello = None, hs_server_hello = None, hs_client_finish =
     Some \<lparr>cf_static = Some static, cf_payload = Some payload, cf_extended_ciphertext = None\<rparr>\<rparr>"

lemma handshake_run:
  assumes "ext_ok X" and "noise_ext_ok N"
    and "key_pair_ok X ce" and "key_pair_ok X cs" and "key_pair_ok X se" and "key_pair_ok X ss"
    and "contributes X ce se" and "contributes X ce ss" and "contributes X cs se"
    and "validate_noise_certificate_chain N V cert = Inr ()"
    and "length cert \<le> 2 ^ 36" and "length payload \<le> 2 ^ 36"
    and "in_step h0 s0" and "nh_local_ephemeral h0 = ce"
  shows "\<exists>hello s1 static enc_payload c1 s2.
    respond_hello X N se ss (kp_public ce) cert s0 = (Inr hello, s1) \<and>
    build_client_finish X N V hello cs payload h0 = (Inr (finish_message static enc_payload), c1) \<and>
    respond_finish X N se static enc_payload s1 = (Inr (kp_public cs, payload), s2) \<and> in_step c1 s2 \<and>
    length static = 48 \<and> length enc_payload = length payload + 16 \<and>
    (\<exists>es ec. hello = \<lparr>sh_ephemeral = Some (kp_public se), sh_static = Some es, sh_payload = Some ec,
       sh_extended_static = None\<rparr> \<and> length es = 48 \<and> length ec = length cert + 16)"
proof -
  let ?h0 = h0 and ?s0 = s0
  note pl = public_length [OF assms(1)]
  have short: "length (kp_public k) \<le> 2 ^ 36" if "key_pair_ok X k" for k using pl [OF that] by simp
  obtain h1 s1 where 1: "authenticate N (kp_public se) ?h0 = (Inr (), h1)"
    "authenticate N (kp_public se) ?s0 = (Inr (), s1)" "in_step h1 s1"
    using in_step_authenticate [OF assms(13)] by blast
  obtain h2 s2 where 2: "mix_shared_secret X (kp_private ce) (kp_public se) h1 = (Inr (), h2)"
    "mix_shared_secret X (kp_private se) (kp_public ce) s1 = (Inr (), s2)" "in_step h2 s2"
    using in_step_mix [OF assms(1) 1(3) shared_key_agree [OF assms(1,3,5)]] assms(7) by (auto simp: contributes_def)
  obtain es h3 s3 where 3: "encrypt_pre_transport N (kp_public ss) s2 = (Inr es, s3)"
    "decrypt_pre_transport N es h2 = (Inr (kp_public ss), h3)" "in_step h3 s3" "length es = length (kp_public ss) + 16"
    using in_step_crypt [OF assms(2) in_step_sym [OF 2(3)] short [OF assms(6)]] in_step_sym by blast
  obtain h4 s4 where 4: "mix_shared_secret X (kp_private ce) (kp_public ss) h3 = (Inr (), h4)"
    "mix_shared_secret X (kp_private ss) (kp_public ce) s3 = (Inr (), s4)" "in_step h4 s4"
    using in_step_mix [OF assms(1) 3(3) shared_key_agree [OF assms(1,3,6)]] assms(8) by (auto simp: contributes_def)
  obtain ec h5 s5 where 5: "encrypt_pre_transport N cert s4 = (Inr ec, s5)"
    "decrypt_pre_transport N ec h4 = (Inr cert, h5)" "in_step h5 s5" "length ec = length cert + 16"
    using in_step_crypt [OF assms(2) in_step_sym [OF 4(3)] assms(11)] in_step_sym by blast
  obtain cst h6 s6 where 6: "encrypt_pre_transport N (kp_public cs) h5 = (Inr cst, h6)"
    "decrypt_pre_transport N cst s5 = (Inr (kp_public cs), s6)" "in_step h6 s6" "length cst = length (kp_public cs) + 16"
    using in_step_crypt [OF assms(2) 5(3) short [OF assms(4)]] by blast
  obtain h7 s7 where 7: "mix_shared_secret X (kp_private cs) (kp_public se) h6 = (Inr (), h7)"
    "mix_shared_secret X (kp_private se) (kp_public cs) s6 = (Inr (), s7)" "in_step h7 s7"
    using in_step_mix [OF assms(1) 6(3) shared_key_agree [OF assms(1,4,5)]] assms(9) by (auto simp: contributes_def)
  obtain ep h8 s8 where 8: "encrypt_pre_transport N payload h7 = (Inr ep, h8)"
    "decrypt_pre_transport N ep s7 = (Inr payload, s8)" "in_step h8 s8" "length ep = length payload + 16"
    using in_step_crypt [OF assms(2) 7(3) assms(12)] by blast
  let ?hello = "\<lparr>sh_ephemeral = Some (kp_public se), sh_static = Some es, sh_payload = Some ec,
    sh_extended_static = None\<rparr>"
  have a: "respond_hello X N se ss (kp_public ce) cert ?s0 = (Inr ?hello, s5)"
    using 1 2 3 4 5 by (simp add: respond_hello_def hs_bind_def hs_return_def)
  have b: "process_server_hello X N V ?hello cs ?h0 = (Inr cst, h7)"
    using 1 2 3 4 5 6 7 assms(3,4,10) pl [OF assms(5)] pl [OF assms(6)]
    by (simp add: process_server_hello_def hs_bind_def hs_return_def hs_lift_def key_array_def assms(14) key_pair_ok_def)
  have c: "build_client_finish X N V ?hello cs payload ?h0 = (Inr (finish_message cst ep), h8)"
    using b 8 by (simp add: build_client_finish_def hs_bind_def hs_return_def finish_message_def)
  have "respond_finish X N se cst ep s5 = (Inr (kp_public cs, payload), s8)"
    using 6 7 8 by (simp add: respond_finish_def hs_bind_def hs_return_def)
  moreover have "length cst = 48" using 6(4) pl [OF assms(4)] by simp
  moreover have "length es = 48" using 3(4) pl [OF assms(6)] by simp
  ultimately show ?thesis using a c 5(4) 8(3,4) by blast
qed

lemma transports_linked:
  assumes "ext_ok X" "in_step h s"
  shows "\<exists>h' t u. finish_transport X h = (Inr (), h') \<and> nh_transport h' = Some t \<and>
    respond_transport X s = Inr u \<and> linked t u \<and> linked u t"
proof -
  obtain key where key: "hkdf_sha256 X [] 64 (nh_salt h) [] = Inr key" "length key = 64"
    using hkdf_sha256_total [OF assms(1), of 64 "[]" "nh_salt h" "[]"] by auto
  have salt: "nh_salt s = nh_salt h" using assms(2) by (simp add: in_step_def)
  show ?thesis
    using key salt by (simp add: finish_transport_def respond_transport_def linked_def transport_new_def)
qed

definition toy_pair :: "u8 \<Rightarrow> KeyPair" where
  "toy_pair b = \<lparr>kp_public = replicate 32 b, kp_private = replicate 32 b\<rparr>"

lemma toy_pairs:
  "key_pair_ok toy (toy_pair b)" "contributes toy (toy_pair 1) (toy_pair 2)"
  "contributes toy (toy_pair 1) (toy_pair 3)" "contributes toy (toy_pair 4) (toy_pair 2)"
proof -
  have "replicate 32 (b :: u8) = b # replicate 31 b" for b by (simp add: numeral_eq_Suc)
  then show "key_pair_ok toy (toy_pair b)" "contributes toy (toy_pair 1) (toy_pair 2)"
    "contributes toy (toy_pair 1) (toy_pair 3)" "contributes toy (toy_pair 4) (toy_pair 2)"
    by (simp_all add: key_pair_ok_def contributes_def toy_pair_def public_key_from_private_def toy_def shared_key_def)
qed

lemma toy_chain_valid: "validate_noise_certificate_chain toy_noise (\<lambda>_ _ _. True) [0] = Inr ()"
  by (simp add: validate_noise_certificate_chain_def toy_noise_def toy_chain_def ROOT_CERT_SERIAL_def)

section \<open>What acceptance rests on\<close>

text \<open>
  C5: the client answers a server only when the certificates in its hello carry the two signatures:
  that of the root key over the details of the intermediate certificate, issued by the root, and
  that of the key in these details over the details of the leaf. Otherwise the client's payload,
  which identifies it, is not sent.
\<close>

theorem noise_server_certified:
  assumes "build_client_finish X N V server_hello cs payload h = (Inr fin, h')"
  shows "\<exists>encrypted h1 h2 plain chain leaf intermediate leaf_details leaf_sig details sig d key.
    sh_payload server_hello = Some encrypted \<and> decrypt_pre_transport N encrypted h1 = (Inr plain, h2) \<and>
    n_dec_cert_chain N plain = Inr chain \<and> cc_leaf chain = Some leaf \<and> cc_intermediate chain = Some intermediate \<and>
    nc_details leaf = Some leaf_details \<and> nc_signature leaf = Some leaf_sig \<and>
    nc_details intermediate = Some details \<and> nc_signature intermediate = Some sig \<and>
    n_dec_details N details = Inr d \<and> cd_issuer_serial d \<in> {None, Some ROOT_CERT_SERIAL} \<and> cd_key d = Some key \<and>
    V key leaf_details leaf_sig \<and> V ROOT_CERT_PUBLIC_KEY details sig"
proof -
  from assms obtain encrypted h1 plain h2 where p: "validate_noise_certificate_chain N V plain = Inr ()"
    "sh_payload server_hello = Some encrypted" "decrypt_pre_transport N encrypted h1 = (Inr plain, h2)"
    by (auto simp: build_client_finish_def process_server_hello_def hs_bind_Ok hs_lift_def result_simps)
  from p(1) obtain chain leaf intermediate leaf_details leaf_sig details sig d key where
    "n_dec_cert_chain N plain = Inr chain" "cc_leaf chain = Some leaf" "cc_intermediate chain = Some intermediate"
    "nc_details leaf = Some leaf_details" "nc_signature leaf = Some leaf_sig"
    "nc_details intermediate = Some details" "nc_signature intermediate = Some sig"
    "n_dec_details N details = Inr d" "cd_issuer_serial d \<in> {None, Some ROOT_CERT_SERIAL}" "cd_key d = Some key"
    "V key leaf_details leaf_sig" "V ROOT_CERT_PUBLIC_KEY details sig"
    by (auto simp: validate_noise_certificate_chain_def result_simps Let_def ROOT_CERT_SERIAL_def
        split: if_splits option.splits)
  with p(2,3) show ?thesis by blast
qed

theorem noise_server_certified_witness:
  "\<exists>(hello :: ServerHello) encrypted h1 h2 plain chain. sh_payload hello = Some encrypted \<and>
     decrypt_pre_transport toy_noise encrypted h1 = (Inr plain, h2) \<and> n_dec_cert_chain toy_noise plain = Inr chain"
proof -
  have "nh_local_ephemeral (handshake_new toy_noise (toy_pair 1)) = toy_pair 1"
    by (simp add: handshake_new_def with_header_def Let_def)
  then obtain hello static enc_payload c1 where
    "build_client_finish toy toy_noise (\<lambda>_ _ _. True) hello (toy_pair 4) [1, 2, 3]
      (handshake_new toy_noise (toy_pair 1)) = (Inr (finish_message static enc_payload), c1)"
    using handshake_run [OF toy_ok toy_noise_ok toy_pairs(1) toy_pairs(1) toy_pairs(1) toy_pairs(1)
        toy_pairs(2-4) toy_chain_valid, of "[1, 2, 3]" "handshake_new toy_noise (toy_pair 1)"]
      in_step_start [of toy_noise "toy_pair 1" DEFAULT_NOISE_HEADER None DEFAULT_MAX_FRAME_LEN]
    unfolding handshake_new_def by fastforce
  from noise_server_certified [OF this] show ?thesis by metis
qed

end
