(* ===== verification/Payload.thy ===== *)
theory Payload
  imports PreKeys
begin

text \<open>
  The payload with which a device logs in or registers, \<^verbatim>\<open>crates/wa-core/src/payload.rs\<close>, and the
  configuration of the client, \<^verbatim>\<open>crates/wa-core/src/config.rs\<close>. The generated structures are records
  with the fields the code sets; the others keep their defaults. The encoders of \<^verbatim>\<open>prost\<close> and the
  MD5 digest are parameters.
\<close>

section \<open>The configuration\<close>

record WaVersion =
  v_primary :: u32
  v_secondary :: u32
  v_tertiary :: u32

record Browser =
  b_os :: string
  b_name :: string
  b_version :: string

definition macos_chrome :: Browser where
  "macos_chrome = \<lparr>b_os = ''Mac OS'', b_name = ''Chrome'', b_version = ''14.4.1''\<rparr>"

definition macos_desktop :: Browser where
  "macos_desktop = \<lparr>b_os = ''Mac OS'', b_name = ''Desktop'', b_version = ''14.4.1''\<rparr>"

text \<open>Durations are in seconds.\<close>

record ClientConfig =
  cfg_websocket_url :: string
  cfg_connect_timeout :: nat
  cfg_default_query_timeout :: "nat option"
  cfg_keepalive_interval :: nat
  cfg_browser :: Browser
  cfg_version :: WaVersion
  cfg_mark_online_on_connect :: bool
  cfg_country_code :: string
  cfg_push_name :: "string option"
  cfg_sync_full_history :: bool
  cfg_outbound_queue_capacity :: nat
  cfg_rotate_signed_pre_key_on_connect :: bool
  cfg_lid_trusted_token_issue_to_lid :: bool

definition default_config :: ClientConfig where
  "default_config = \<lparr>
     cfg_websocket_url = ''wss://web.whatsapp.com/ws/chat'', cfg_connect_timeout = 20,
     cfg_default_query_timeout = Some 60, cfg_keepalive_interval = 30, cfg_browser = macos_chrome,
     cfg_version = \<lparr>v_primary = 2, v_secondary = 3000, v_tertiary = 1035194821\<rparr>,
     cfg_mark_online_on_connect = True, cfg_country_code = ''US'', cfg_push_name = None,
     cfg_sync_full_history = True, cfg_outbound_queue_capacity = 128,
     cfg_rotate_signed_pre_key_on_connect = False, cfg_lid_trusted_token_issue_to_lid = False\<rparr>"

section \<open>The generated structures\<close>

record AppVersion =
  av_primary :: "u32 option"
  av_secondary :: "u32 option"
  av_tertiary :: "u32 option"
  av_quaternary :: "u32 option"
  av_quinary :: "u32 option"

record UserAgent =
  ua_platform :: "i32 option"
  ua_app_version :: "AppVersion option"
  ua_mcc :: "string option"
  ua_mnc :: "string option"
  ua_os_version :: "string option"
  ua_manufacturer :: "string option"
  ua_device :: "string option"
  ua_os_build_number :: "string option"
  ua_phone_id :: "string option"
  ua_release_channel :: "i32 option"
  ua_locale_language :: "string option"
  ua_locale_country :: "string option"

record WebInfo =
  wi_ref_token :: "string option"
  wi_version :: "string option"
  wi_web_sub_platform :: "i32 option"

record DevicePairingRegistrationData =
  e_regid :: "bytes option"
  e_keytype :: "bytes option"
  e_ident :: "bytes option"
  e_skey_id :: "bytes option"
  e_skey_val :: "bytes option"
  e_skey_sig :: "bytes option"
  build_hash :: "bytes option"
  e_device_props :: "bytes option"

record HistorySyncConfig =
  hc_full_sync_days_limit :: "u32 option"
  hc_full_sync_size_mb_limit :: "u32 option"
  hc_storage_quota_mb :: "u32 option"
  hc_inline_initial_payload_in_e2_ee_msg :: "bool option"
  hc_recent_sync_days_limit :: "u32 option"
  hc_support_call_log_history :: "bool option"
  hc_support_bot_user_agent_chat_history :: "bool option"
  hc_support_cag_reactions_and_polls :: "bool option"
  hc_support_biz_hosted_msg :: "bool option"
  hc_support_recent_sync_chunk_message_count_tuning :: "bool option"
  hc_support_hosted_group_msg :: "bool option"
  hc_support_fbid_bot_chat_history :: "bool option"
  hc_support_add_on_history_sync_migration :: "bool option"
  hc_support_message_association :: "bool option"
  hc_support_group_history :: "bool option"
  hc_on_demand_ready :: "bool option"
  hc_support_guest_chat :: "bool option"
  hc_complete_on_demand_ready :: "bool option"
  hc_thumbnail_sync_days_limit :: "u32 option"

record DeviceProps =
  dv_os :: "string option"
  dv_version :: "AppVersion option"
  dv_platform_type :: "i32 option"
  dv_require_full_sync :: "bool option"
  dv_history_sync_config :: "HistorySyncConfig option"

record ClientPayload =
  cp_username :: "u64 option"
  cp_passive :: "bool option"
  cp_user_agent :: "UserAgent option"
  cp_web_info :: "WebInfo option"
  cp_push_name :: "string option"
  cp_connect_type :: "i32 option"
  cp_connect_reason :: "i32 option"
  cp_device :: "u32 option"
  cp_device_pairing_data :: "DevicePairingRegistrationData option"
  cp_pull :: "bool option"
  cp_lid_db_migrated :: "bool option"

record payload_ext =
  p_md5 :: "bytes \<Rightarrow> bytes"
  p_enc_device_props :: "DeviceProps \<Rightarrow> bytes"
  p_enc_client_payload :: "ClientPayload \<Rightarrow> bytes"

section \<open>The payloads\<close>

text \<open>\<open>PlatformType::from_str_name\<close>: the names of the values from zero on.\<close>

definition platform_names :: "string list" where
  "platform_names = [''UNKNOWN'', ''CHROME'', ''FIREFOX'', ''IE'', ''OPERA'', ''SAFARI'', ''EDGE'', ''DESKTOP'',
     ''IPAD'', ''ANDROID_TABLET'', ''OHANA'', ''ALOHA'', ''CATALINA'', ''TCL_TV'', ''IOS_PHONE'',
     ''IOS_CATALYST'', ''ANDROID_PHONE'', ''ANDROID_AMBIGUOUS'', ''WEAR_OS'', ''AR_WRIST'', ''AR_DEVICE'',
     ''UWP'', ''VR'', ''CLOUD_API'', ''SMARTGLASSES'']"

text \<open>\<open>to_ascii_uppercase\<close> of a character.\<close>

definition ascii_upper :: "char \<Rightarrow> char" where
  "ascii_upper c = (let n = of_char c :: nat in if 97 \<le> n \<and> n \<le> 122 then char_of (n - 32) else c)"

definition platform_type :: "string \<Rightarrow> i32" where
  "platform_type browser_name =
     (let normalized = map (\<lambda>c. if c = CHR ''-'' then CHR ''_'' else c) (map ascii_upper browser_name) in
      case position (\<lambda>n. n = normalized) platform_names of Some i \<Rightarrow> word_of_nat i | None \<Rightarrow> 1)"

text \<open>The values of \<open>WebSubPlatform\<close>: \<open>WebBrowser\<close>, \<open>Darwin\<close> and \<open>Win32\<close>.\<close>

definition web_sub_platform :: "Browser \<Rightarrow> bool \<Rightarrow> i32" where
  "web_sub_platform browser sync_full_history =
     (if \<not> sync_full_history \<or> b_name browser \<noteq> ''Desktop'' then 0
      else if b_os browser = ''Mac OS'' then 3 else if b_os browser = ''Windows'' then 4 else 0)"

definition user_agent :: "ClientConfig \<Rightarrow> UserAgent" where
  "user_agent config = \<lparr>
     ua_platform = Some 14,
     ua_app_version = Some \<lparr>av_primary = Some (v_primary (cfg_version config)),
       av_secondary = Some (v_secondary (cfg_version config)),
       av_tertiary = Some (v_tertiary (cfg_version config)), av_quaternary = None, av_quinary = None\<rparr>,
     ua_mcc = Some ''000'', ua_mnc = Some ''000'', ua_os_version = Some ''0.1'', ua_manufacturer = None,
     ua_device = Some ''Desktop'', ua_os_build_number = Some ''0.1'', ua_phone_id = None,
     ua_release_channel = Some 0, ua_locale_language = Some ''en'',
     ua_locale_country = Some (cfg_country_code config)\<rparr>"

definition web_info :: "ClientConfig \<Rightarrow> WebInfo" where
  "web_info config = \<lparr>wi_ref_token = None, wi_version = None,
     wi_web_sub_platform = Some (web_sub_platform (cfg_browser config) (cfg_sync_full_history config))\<rparr>"

definition build_device_props :: "ClientConfig \<Rightarrow> DeviceProps" where
  "build_device_props config = \<lparr>
     dv_os = Some (b_os (cfg_browser config)),
     dv_version = Some \<lparr>av_primary = Some 10, av_secondary = Some 15, av_tertiary = Some 7,
       av_quaternary = None, av_quinary = None\<rparr>,
     dv_platform_type = Some (platform_type (b_name (cfg_browser config))),
     dv_require_full_sync = Some (cfg_sync_full_history config),
     dv_history_sync_config = Some \<lparr>
       hc_full_sync_days_limit = None, hc_full_sync_size_mb_limit = None, hc_storage_quota_mb = Some 10240,
       hc_inline_initial_payload_in_e2_ee_msg = Some True, hc_recent_sync_days_limit = None,
       hc_support_call_log_history = Some False, hc_support_bot_user_agent_chat_history = Some True,
       hc_support_cag_reactions_and_polls = Some True, hc_support_biz_hosted_msg = Some True,
       hc_support_recent_sync_chunk_message_count_tuning = Some True, hc_support_hosted_group_msg = Some True,
       hc_support_fbid_bot_chat_history = Some True, hc_support_add_on_history_sync_migration = None,
       hc_support_message_association = Some True, hc_support_group_history = Some False,
       hc_on_demand_ready = None, hc_support_guest_chat = None, hc_complete_on_demand_ready = None,
       hc_thumbnail_sync_days_limit = None\<rparr>\<rparr>"

definition base_client_payload :: "ClientConfig \<Rightarrow> ClientPayload" where
  "base_client_payload config = \<lparr>
     cp_username = None, cp_passive = None, cp_user_agent = Some (user_agent config),
     cp_web_info = Some (web_info config), cp_push_name = cfg_push_name config, cp_connect_type = Some 1,
     cp_connect_reason = Some 1, cp_device = None, cp_device_pairing_data = None, cp_pull = None,
     cp_lid_db_migrated = None\<rparr>"

definition version_hash :: "payload_ext \<Rightarrow> WaVersion \<Rightarrow> bytes" where
  "version_hash Y version = p_md5 Y (bytes_of (show_nat (unat (v_primary version)) @ ''.'' @
     show_nat (unat (v_secondary version)) @ ''.'' @ show_nat (unat (v_tertiary version))))"

definition build_login_payload :: "string \<Rightarrow> ClientConfig \<Rightarrow> ClientPayload core_result" where
  "build_login_payload user_jid config =
     and_then (ok_or (jid_decode user_jid)
       (CoreError.Payload (''invalid user jid for login payload: '' @ user_jid))) (\<lambda>jid.
     and_then (ok_or (parse_nat_max (2 ^ 64 - 1) (jid_user jid))
       (CoreError.Payload (''invalid numeric user id for login payload: '' @ jid_user jid))) (\<lambda>username.
     Ok ((base_client_payload config)\<lparr>cp_passive := Some True, cp_pull := Some True,
       cp_username := Some (word_of_nat username), cp_device := map_option ucast (jid_device jid),
       cp_lid_db_migrated := Some False\<rparr>)))"

definition build_registration_payload ::
  "payload_ext \<Rightarrow> RegistrationPayloadKeys \<Rightarrow> ClientConfig \<Rightarrow> ClientPayload core_result" where
  "build_registration_payload Y keys config =
     and_then (encode_big_endian (rp_registration_id keys) 4) (\<lambda>regid.
     and_then (encode_big_endian (rp_signed_pre_key_id keys) 3) (\<lambda>skey_id.
     Ok ((base_client_payload config)\<lparr>cp_passive := Some False, cp_pull := Some False,
       cp_device_pairing_data := Some \<lparr>e_regid = Some regid, e_keytype = Some KEY_BUNDLE_TYPE,
         e_ident = Some (rp_signed_identity_public keys), e_skey_id = Some skey_id,
         e_skey_val = Some (rp_signed_pre_key_public keys), e_skey_sig = Some (rp_signed_pre_key_signature keys),
         build_hash = Some (version_hash Y (cfg_version config)),
         e_device_props = Some (p_enc_device_props Y (build_device_props config))\<rparr>\<rparr>)))"

end
