(* ===== verification/NoiseConnection.thy ===== *)
theory NoiseConnection
  imports Payload Noise Events
begin

text \<open>
  The validation of a connection, \<^verbatim>\<open>crates/wa-core/src/validation.rs\<close>: the frames the client sends and
  reads until the transport is ready. The stream is the list of the chunks that will arrive; the sink
  is a function that accepts or refuses a frame, given those sent before.
\<close>

section \<open>The text of errors\<close>

fun frame_error_text :: "NoiseFrameError \<Rightarrow> string" where
  "frame_error_text (FrameTooLarge actual limit) =
     ''frame is too large: '' @ show_nat actual @ '' > '' @ show_nat limit"
| "frame_error_text FrameTooShort = ''encrypted frame is too short''"
| "frame_error_text (FrameCrypto e) = ''crypto error: '' @ crypto_error_text e"

fun noise_error_text :: "NoiseHandshakeError \<Rightarrow> string" where
  "noise_error_text (MissingField s) = ''missing handshake field: '' @ s"
| "noise_error_text (HandshakeKeyLength s) = ''invalid key length: expected 32 bytes for '' @ s"
| "noise_error_text InvalidSharedSecret = ''invalid all-zero shared secret''"
| "noise_error_text (InvalidCertificate s) = ''invalid certificate chain: '' @ s"
| "noise_error_text (CertificateRejected s) = ''certificate verification failed: '' @ s"
| "noise_error_text (UnexpectedIssuerSerial n) =
     ''unexpected certificate issuer serial: '' @ show_nat (unat n)"
| "noise_error_text (HandshakeCrypto e) = ''crypto error: '' @ crypto_error_text e"
| "noise_error_text (HandshakeFrame e) = ''frame error: '' @ frame_error_text e"
| "noise_error_text (HandshakeDecode s) = ''protobuf decode error: '' @ s"

section \<open>The request\<close>

datatype ValidationPayload = Login string | Registration RegistrationPayloadKeys

record ConnectionValidation =
  cv_config :: ClientConfig
  cv_local_ephemeral :: KeyPair
  cv_static_key_pair :: KeyPair
  cv_payload :: ValidationPayload
  cv_routing_info :: "bytes option"
  cv_max_frame_len :: nat

definition connection_validation_new ::
  "ClientConfig \<Rightarrow> KeyPair \<Rightarrow> KeyPair \<Rightarrow> ValidationPayload \<Rightarrow> ConnectionValidation" where
  "connection_validation_new config local_ephemeral static_key_pair payload =
     \<lparr>cv_config = config, cv_local_ephemeral = local_ephemeral, cv_static_key_pair = static_key_pair,
      cv_payload = payload, cv_routing_info = None, cv_max_frame_len = DEFAULT_MAX_FRAME_LEN\<rparr>"

definition with_routing_info :: "bytes \<Rightarrow> ConnectionValidation \<Rightarrow> ConnectionValidation" where
  "with_routing_info routing request = request\<lparr>cv_routing_info := Some routing\<rparr>"

definition with_max_frame_len :: "nat \<Rightarrow> ConnectionValidation \<Rightarrow> ConnectionValidation" where
  "with_max_frame_len m request = request\<lparr>cv_max_frame_len := m\<rparr>"

definition from_credentials_with_ephemeral ::
  "ClientConfig \<Rightarrow> AuthCredentials \<Rightarrow> KeyPair \<Rightarrow> ConnectionValidation core_result" where
  "from_credentials_with_ephemeral config credentials local_ephemeral =
     and_then (if registered credentials
       then and_then (ok_or (account_jid credentials)
           (CoreError.Payload ''registered credentials are missing account JID'')) (\<lambda>jid. Ok (Login jid))
       else Ok (Registration (registration_payload_keys credentials))) (\<lambda>payload.
     Ok ((connection_validation_new config local_ephemeral (noise_key credentials) payload)
       \<lparr>cv_routing_info := routing_info credentials\<rparr>))"

section \<open>The exchange\<close>

text \<open>What the stream below yields, an error or the bytes of a message; at the end of the list it is closed.\<close>

type_synonym chunks = "bytes core_result list"

fun read_server_hello ::
  "noise_ext \<Rightarrow> chunks \<Rightarrow> NoiseHandshake \<Rightarrow> ServerHello core_result \<times> NoiseHandshake \<times> chunks" where
  "read_server_hello N [] h = (Err ConnectionClosed, h, [])"
| "read_server_hello N (Inl e # stream) h = (Err e, h, stream)"
| "read_server_hello N (Inr chunk # stream) h =
     (case push_frame_bytes N chunk h of
        (Inl e, h) \<Rightarrow> (Err (Noise (noise_error_text e)), h, stream)
      | (Inr frames, h) \<Rightarrow>
          if frames = [] then read_server_hello N stream h
          else if length frames > 1
          then (Err (Protocol ''server hello contained extra frames''), h, stream)
          else (and_then (map_err ProtobufDecode (n_dec_handshake N (hd frames))) (\<lambda>message.
              ok_or (hs_server_hello message) (Protocol ''missing server hello'')), h, stream))"

definition build_validation_payload ::
  "payload_ext \<Rightarrow> ValidationPayload \<Rightarrow> ClientConfig \<Rightarrow> bytes core_result" where
  "build_validation_payload Y payload config =
     and_then (case payload of
         Login user_jid \<Rightarrow> build_login_payload user_jid config
       | Registration keys \<Rightarrow> build_registration_payload Y keys config) (\<lambda>p.
     Ok (p_enc_client_payload Y p))"

text \<open>The handshake with the frames sent, and with the chunks that were not read.\<close>

type_synonym connected = "NoiseHandshake core_result \<times> bytes list \<times> chunks"

definition validate_connection_inner ::
  "ext \<Rightarrow> noise_ext \<Rightarrow> payload_ext \<Rightarrow> verifier \<Rightarrow> (bytes list \<Rightarrow> unit core_result) \<Rightarrow> chunks \<Rightarrow>
     ConnectionValidation \<Rightarrow> nat \<Rightarrow> connected" where
  "validate_connection_inner X N Y V sink stream request outbound_capacity =
     (if outbound_capacity = 0
      then (Err (Protocol ''outbound capacity must be greater than zero''), [], stream)
      else
        let h = with_header N (cv_local_ephemeral request) DEFAULT_NOISE_HEADER (cv_routing_info request)
          (cv_max_frame_len request) in
        case encode_frame N (client_hello_bytes N h) h of
          (Inl e, h) \<Rightarrow> (Err (Noise (noise_error_text e)), [], stream)
        | (Inr hello_frame, h) \<Rightarrow>
        (case sink [hello_frame] of
          Inl e \<Rightarrow> (Err e, [], stream)
        | Inr _ \<Rightarrow>
        (case read_server_hello N stream h of
          (Inl e, h, stream) \<Rightarrow> (Err e, [hello_frame], stream)
        | (Inr server_hello, h, stream) \<Rightarrow>
        (case build_validation_payload Y (cv_payload request) (cv_config request) of
          Inl e \<Rightarrow> (Err e, [hello_frame], stream)
        | Inr client_payload \<Rightarrow>
        (case build_client_finish X N V server_hello (cv_static_key_pair request) client_payload h of
          (Inl e, h) \<Rightarrow> (Err (Noise (noise_error_text e)), [hello_frame], stream)
        | (Inr client_finish, h) \<Rightarrow>
        (case encode_frame N (n_enc_handshake N client_finish) h of
          (Inl e, h) \<Rightarrow> (Err (Noise (noise_error_text e)), [hello_frame], stream)
        | (Inr finish_frame, h) \<Rightarrow>
        (case sink [hello_frame, finish_frame] of
          Inl e \<Rightarrow> (Err e, [hello_frame], stream)
        | Inr _ \<Rightarrow>
        (case finish_transport X h of
          (Inl e, h) \<Rightarrow> (Err (Noise (noise_error_text e)), [hello_frame, finish_frame], stream)
        | (Inr _, h) \<Rightarrow> (Ok h, [hello_frame, finish_frame], stream)))))))))"

text \<open>With the events it emits.\<close>

definition validate_connection ::
  "ext \<Rightarrow> noise_ext \<Rightarrow> payload_ext \<Rightarrow> verifier \<Rightarrow> (bytes list \<Rightarrow> unit core_result) \<Rightarrow> chunks \<Rightarrow>
     ConnectionValidation \<Rightarrow> nat \<Rightarrow> connected \<times> ConnectionState list" where
  "validate_connection X N Y V sink stream request outbound_capacity =
     (let c = validate_connection_inner X N Y V sink stream request outbound_capacity
      in (c, Connecting # (if is_ok (fst c) then [] else [Closed])))"

section \<open>Frames over the connection\<close>

text \<open>
  \<^verbatim>\<open>NoiseFrameSink\<close> and \<^verbatim>\<open>NoiseFrameStream\<close> of \<^verbatim>\<open>crates/wa-core/src/noise.rs\<close>, which share the handshake: a
  send encodes and hands on to the sink below, a receive returns a frame that waits or reads chunks
  until one completes a frame.
\<close>

definition noise_send ::
  "noise_ext \<Rightarrow> (bytes list \<Rightarrow> unit core_result) \<Rightarrow> bytes \<Rightarrow> NoiseHandshake \<Rightarrow> bytes list \<Rightarrow>
     unit core_result \<times> NoiseHandshake \<times> bytes list" where
  "noise_send N sink frame noise sent =
     (case encode_frame N frame noise of
        (Inl e, noise) \<Rightarrow> (Err (Noise (noise_error_text e)), noise, sent)
      | (Inr encoded, noise) \<Rightarrow>
          (case sink (sent @ [encoded]) of
             Inl e \<Rightarrow> (Err e, noise, sent)
           | Inr _ \<Rightarrow> (Ok (), noise, sent @ [encoded])))"

record NoiseFrameStream =
  nf_inner :: chunks
  nf_pending :: "bytes list"

definition noise_stream_new :: "chunks \<Rightarrow> NoiseFrameStream" where
  "noise_stream_new inner = \<lparr>nf_inner = inner, nf_pending = []\<rparr>"

fun noise_recv_loop ::
  "noise_ext \<Rightarrow> chunks \<Rightarrow> NoiseHandshake \<Rightarrow> bytes option core_result \<times> NoiseHandshake \<times> NoiseFrameStream" where
  "noise_recv_loop N [] noise = (Ok None, noise, \<lparr>nf_inner = [], nf_pending = []\<rparr>)"
| "noise_recv_loop N (Inl e # inner) noise = (Err e, noise, \<lparr>nf_inner = inner, nf_pending = []\<rparr>)"
| "noise_recv_loop N (Inr chunk # inner) noise =
     (case push_frame_bytes N chunk noise of
        (Inl e, noise) \<Rightarrow> (Err (Noise (noise_error_text e)), noise, \<lparr>nf_inner = inner, nf_pending = []\<rparr>)
      | (Inr [], noise) \<Rightarrow> noise_recv_loop N inner noise
      | (Inr (frame # frames), noise) \<Rightarrow> (Ok (Some frame), noise, \<lparr>nf_inner = inner, nf_pending = frames\<rparr>))"

definition noise_recv ::
  "noise_ext \<Rightarrow> NoiseFrameStream \<Rightarrow> NoiseHandshake \<Rightarrow> bytes option core_result \<times> NoiseHandshake \<times> NoiseFrameStream" where
  "noise_recv N st noise =
     (case nf_pending st of
        frame # frames \<Rightarrow> (Ok (Some frame), noise, st\<lparr>nf_pending := frames\<rparr>)
      | [] \<Rightarrow> noise_recv_loop N (nf_inner st) noise)"

end
