(* ===== verification/NoiseEstablished.thy ===== *)
theory NoiseEstablished
  imports NoiseAgreement NoiseConnection
begin

text \<open>
  The validation of a connection against an honest server, whose answer arrives in any chunks: the
  client sends two frames, and both ends have the transport.
\<close>

section \<open>What the handshake leaves alone\<close>

definition link_of :: "NoiseHandshake \<Rightarrow> NoiseTransport option \<times> bool \<times> bytes \<times> nat \<times> NoiseFrameCodec \<times> KeyPair" where
  "link_of h = (nh_transport h, nh_sent_intro h, nh_intro_header h, nh_max_frame_len h, nh_frame_codec h,
     nh_local_ephemeral h)"

definition keeps_link :: "'a hs_op \<Rightarrow> bool" where
  "keeps_link f \<longleftrightarrow> (\<forall>h. link_of (snd (f h)) = link_of h)"

named_theorems link_rules \<open>operations that leave the link alone\<close>

lemma keeps_link_bind [link_rules]: "keeps_link f \<Longrightarrow> (\<And>x. keeps_link (g x)) \<Longrightarrow> keeps_link (hs_bind f g)"
  by (auto simp: keeps_link_def hs_bind_def split: prod.splits sum.splits) (metis snd_conv)+

lemma keeps_link_basic [link_rules]:
  "keeps_link (hs_return x)" "keeps_link (hs_lift r)" "keeps_link (authenticate N d)" "keeps_link (mix_into_key X s)"
  by (simp_all add: keeps_link_def hs_return_def hs_lift_def authenticate_def mix_into_key_def link_of_def
      split: sum.split)

lemma keeps_link_mix [link_rules]: "keeps_link (mix_shared_secret X a b)"
  unfolding mix_shared_secret_def Let_def by (simp add: link_rules)

lemma keeps_link_apply: "keeps_link f \<Longrightarrow> link_of h = l \<Longrightarrow> link_of (snd (f h)) = l"
  by (simp add: keeps_link_def)

lemma link_counter: "link_of (h\<lparr>nh_counter := n\<rparr>) = link_of h"
  by (simp add: link_of_def)

lemma keeps_link_crypt [link_rules]: "keeps_link (encrypt_pre_transport N p)" "keeps_link (decrypt_pre_transport N c)"
  unfolding keeps_link_def encrypt_pre_transport_def decrypt_pre_transport_def Let_def
  by (intro allI keeps_link_apply keeps_link_bind link_counter; simp add: link_rules)+

lemma keeps_link_process [link_rules]: "keeps_link (process_server_hello X N V sh kp)"
  unfolding keeps_link_def process_server_hello_def
  by (intro allI keeps_link_apply keeps_link_bind refl; simp add: link_rules)

lemma keeps_link_finish: "keeps_link (build_client_finish X N V sh kp p)"
  unfolding build_client_finish_def by (intro link_rules)

section \<open>Reading the answer\<close>

lemma cut_frames_prefix:
  assumes "length p \<le> m" "length p < 2 ^ 24" "frame_bytes p = x @ y" "y \<noteq> []"
  shows "cut_frames m x = (Inr [], x)"
proof (cases "length x < 3")
  case False
  have "length (put_frame_len (length p)) = 3" by (simp add: put_frame_len_def)
  then have "take 3 (x @ y) = put_frame_len (length p)" "drop 3 (x @ y) = p"
    by (simp_all add: assms(3) [symmetric] frame_bytes_def)
  then obtain rest where x: "x = put_frame_len (length p) @ rest" "p = rest @ y"
    using False by (metis append_take_drop_id diff_is_0_eq' drop0 drop_append le_less_linear take0 take_append append_Nil2)
  then have "length rest < length p" using assms(4) by simp
  then show ?thesis
    using x(1) assms(1,2) frame_len_put [of "length p"] by (simp add: put_frame_len_def)
qed (rule cut_frames_short)

definition frame_state :: "NoiseHandshake \<Rightarrow> bytes \<Rightarrow> NoiseHandshake" where
  "frame_state h b = h\<lparr>nh_frame_codec := (nh_frame_codec h)\<lparr>fc_buffer := b\<rparr>\<rparr>"

lemma frame_state_simps [simp]:
  "nh_transport (frame_state h b) = nh_transport h" "fc_buffer (nh_frame_codec (frame_state h b)) = b"
  "fc_max_frame_len (nh_frame_codec (frame_state h b)) = fc_max_frame_len (nh_frame_codec h)"
  "frame_state (frame_state h b) c = frame_state h c"
  by (simp_all add: frame_state_def)

lemma push_plain:
  assumes "nh_transport h = None" "cut_frames (fc_max_frame_len (nh_frame_codec h)) (fc_buffer (nh_frame_codec h) @ chunk) = (Inr fs, b)"
  shows "push_frame_bytes N chunk h = (Inr fs, frame_state h b)"
proof -
  have "decrypt_frames N fs h = (Inr fs, h)" if "nh_transport h = None" for h
    using that by (induction fs) (simp_all add: hs_return_def hs_bind_def open_frame_def)
  with assms show ?thesis
    by (simp add: push_frame_bytes_def hs_bind_def frame_codec_push_def frame_state_def)
qed

lemma read_server_hello_chunks:
  assumes "noise_ext_ok N" "hs_server_hello msg = Some hello"
    and "length (n_enc_handshake N msg) < 2 ^ 24"
  shows "nh_transport h = None \<Longrightarrow> length (n_enc_handshake N msg) \<le> fc_max_frame_len (nh_frame_codec h) \<Longrightarrow>
    fc_buffer (nh_frame_codec h) @ concat chunks @ c = frame_bytes (n_enc_handshake N msg) \<Longrightarrow> c \<noteq> [] \<Longrightarrow>
    read_server_hello N (map Inr chunks @ Inr c # later) h = (Inr hello, frame_state h [], later)"
proof (induction chunks arbitrary: h)
  let ?m = "n_enc_handshake N msg"
  have dec: "n_dec_handshake N ?m = Inr msg" using assms(1) by (simp add: noise_ext_ok_def)
  {
    case Nil
    have "cut_frames (fc_max_frame_len (nh_frame_codec h)) (fc_buffer (nh_frame_codec h) @ c) = (Inr [?m], [])"
      using cut_frames_honest [of "[?m]" "fc_max_frame_len (nh_frame_codec h)"] Nil.prems(2,3) assms(3) by simp
    from push_plain [OF Nil.prems(1) this, of N] show ?case by (simp add: dec assms(2))
  next
    case (Cons chunk chunks)
    let ?b = "fc_buffer (nh_frame_codec h) @ chunk"
    have "cut_frames (fc_max_frame_len (nh_frame_codec h)) ?b = (Inr [], ?b)"
      using Cons.prems(3,4) by (intro cut_frames_prefix [OF Cons.prems(2) assms(3), of ?b "concat chunks @ c"]) auto
    from push_plain [OF Cons.prems(1) this, of N] have
      "read_server_hello N (map Inr (chunk # chunks) @ Inr c # later) h = read_server_hello N (map Inr chunks @ Inr c # later) (frame_state h ?b)"
      by simp
    also have "\<dots> = (Inr hello, frame_state (frame_state h ?b) [], later)"
      using Cons.prems by (intro Cons.IH) simp_all
    finally show ?case by simp
  }
qed

section \<open>The connection\<close>

lemma client_finish_after_hello:
  assumes "ext_ok X" and "noise_ext_ok N"
    and "key_pair_ok X ce" and "key_pair_ok X cs" and "key_pair_ok X se" and "key_pair_ok X ss"
    and "contributes X ce se" and "contributes X ce ss" and "contributes X cs se"
    and "validate_noise_certificate_chain N V cert = Inr ()"
    and "length cert \<le> 2 ^ 36" and "length payload \<le> 2 ^ 36"
    and "in_step h0 s0" and "nh_local_ephemeral h0 = ce"
    and "respond_hello X N se ss (kp_public ce) cert s0 = (Inr hello, s1)"
  shows "\<exists>static enc_payload c1 s2.
    build_client_finish X N V hello cs payload h0 = (Inr (finish_message static enc_payload), c1) \<and>
    respond_finish X N se static enc_payload s1 = (Inr (kp_public cs, payload), s2) \<and> in_step c1 s2 \<and>
    link_of c1 = link_of h0 \<and> length static = 48 \<and> length enc_payload = length payload + 16"
proof -
  from handshake_run [OF assms(1-14)] assms(15) obtain static enc_payload c1 s2 where
    r: "build_client_finish X N V hello cs payload h0 = (Inr (finish_message static enc_payload), c1)"
    "respond_finish X N se static enc_payload s1 = (Inr (kp_public cs, payload), s2)" "in_step c1 s2"
    "length static = 48" "length enc_payload = length payload + 16" by auto
  moreover have "link_of c1 = link_of h0"
    using keeps_link_apply [OF keeps_link_finish [of X N V hello cs payload] refl [of "link_of h0"]] r(1) by simp
  ultimately show ?thesis by blast
qed

definition server_message :: "ServerHello \<Rightarrow> HandshakeMessage" where
  "server_message hello = \<lparr>hs_client_hello = None, hs_server_hello = Some hello, hs_client_finish = None\<rparr>"

lemma encode_frame_plain:
  assumes "nh_transport h = None" "length p \<le> nh_max_frame_len h"
  shows "encode_frame N p h = (Inr ((if nh_sent_intro h then [] else nh_intro_header h) @ frame_bytes p), h\<lparr>nh_sent_intro := True\<rparr>)"
  using assms by (simp add: encode_frame_def frame_bytes_def)

text \<open>
  C3: a connection is established. Against an honest server of the pattern XX, with key pairs whose
  agreements are not zero and a certificate chain that passes the verification, and however the
  server's answer is cut into chunks, the client sends exactly its hello after the introduction and
  its finish message, the server reads the client's static key and payload from it, and both ends
  hold the same transport, the client's at its start with nothing left in its buffer.
\<close>

theorem connection_established:
  assumes "ext_ok X" and "noise_ext_ok N"
    and "key_pair_ok X ce" and "key_pair_ok X cs" and "key_pair_ok X se" and "key_pair_ok X ss"
    and "contributes X ce se" and "contributes X ce ss" and "contributes X cs se"
    and "validate_noise_certificate_chain N V cert = Inr ()" and "length cert \<le> 2 ^ 36"
    and "cv_local_ephemeral request = ce" and "cv_static_key_pair request = cs"
    and "build_validation_payload Y (cv_payload request) (cv_config request) = Inr payload"
    and "length payload \<le> 2 ^ 36"
    and "respond_hello X N se ss (kp_public ce) cert (responder_start N DEFAULT_NOISE_HEADER (kp_public ce)) =
      (Inr hello, s1)"
    and "length (n_enc_handshake N (server_message hello)) < 2 ^ 24"
    and "length (n_enc_handshake N (server_message hello)) \<le> cv_max_frame_len request"
    and "length (n_enc_handshake N (client_hello (with_header N ce DEFAULT_NOISE_HEADER None 0))) \<le> cv_max_frame_len request"
    and "\<forall>s p. length s = 48 \<and> length p = length payload + 16 \<longrightarrow>
      length (n_enc_handshake N (finish_message s p)) \<le> cv_max_frame_len request"
    and "concat chunks @ c = frame_bytes (n_enc_handshake N (server_message hello))" and "c \<noteq> []"
    and "\<forall>frames. sink frames = Inr ()" and "capacity \<noteq> 0"
  shows "\<exists>hello_message static enc_payload h t s2 u.
    validate_connection X N Y V sink (map Inr chunks @ Inr c # later) request capacity =
      ((Inr h, [intro_header_of DEFAULT_NOISE_HEADER (cv_routing_info request) @
          frame_bytes (n_enc_handshake N hello_message),
        frame_bytes (n_enc_handshake N (finish_message static enc_payload))], later), [Connecting]) \<and>
    Option.bind (hs_client_hello hello_message) ch_ephemeral = Some (kp_public ce) \<and>
    respond_finish X N se static enc_payload s1 = (Inr (kp_public cs, payload), s2) \<and>
    nh_transport h = Some t \<and> respond_transport X s2 = Inr u \<and> linked t u \<and> linked u t \<and>
    nh_sent_intro h \<and> fc_buffer (nh_frame_codec h) = []"
proof -
  let ?h0 = "with_header N ce DEFAULT_NOISE_HEADER (cv_routing_info request) (cv_max_frame_len request)"
  let ?hello = "client_hello ?h0"
  let ?h1 = "?h0\<lparr>nh_sent_intro := True\<rparr>" and ?h2 = "frame_state (?h0\<lparr>nh_sent_intro := True\<rparr>) []"
  have h0: "nh_transport ?h0 = None" "nh_max_frame_len ?h0 = cv_max_frame_len request" "\<not> nh_sent_intro ?h0"
    "nh_intro_header ?h0 = intro_header_of DEFAULT_NOISE_HEADER (cv_routing_info request)"
    "fc_buffer (nh_frame_codec ?h0) = []" "fc_max_frame_len (nh_frame_codec ?h0) = cv_max_frame_len request"
    "nh_local_ephemeral ?h0 = ce"
    by (simp_all add: with_header_def frame_codec_new_def Let_def)
  have e1: "encode_frame N (client_hello_bytes N ?h0) ?h0 =
      (Inr (intro_header_of DEFAULT_NOISE_HEADER (cv_routing_info request) @ frame_bytes (n_enc_handshake N ?hello)), ?h1)"
    using encode_frame_plain [OF h0(1), of "client_hello_bytes N ?h0" N] assms(19) h0
    by (simp add: client_hello_bytes_def client_hello_def with_header_def Let_def)
  have r: "read_server_hello N (map Inr chunks @ Inr c # later) ?h1 = (Inr hello, ?h2, later)"
    using assms(18,21) h0
    by (intro read_server_hello_chunks [OF assms(2) _ assms(17) _ _ _ assms(22)]) (simp_all add: server_message_def)
  have step: "in_step ?h2 (responder_start N DEFAULT_NOISE_HEADER (kp_public ce))"
    using in_step_start [of N ce DEFAULT_NOISE_HEADER "cv_routing_info request" "cv_max_frame_len request"]
    by (auto simp: in_step_def frame_state_def)
  have eph: "nh_local_ephemeral ?h2 = ce" using h0(7) by (simp add: frame_state_def)
  from client_finish_after_hello [OF assms(1-11,15) step eph assms(16)] obtain static enc_payload c1 s2 where
    f: "build_client_finish X N V hello cs payload ?h2 = (Inr (finish_message static enc_payload), c1)"
      "respond_finish X N se static enc_payload s1 = (Inr (kp_public cs, payload), s2)" "in_step c1 s2"
      "link_of c1 = link_of ?h2" "length static = 48" "length enc_payload = length payload + 16" by blast
  have c1: "nh_transport c1 = None" "nh_sent_intro c1" "nh_max_frame_len c1 = cv_max_frame_len request"
    "fc_buffer (nh_frame_codec c1) = []"
    using f(4) h0 by (auto simp: link_of_def frame_state_def)
  have e2: "encode_frame N (n_enc_handshake N (finish_message static enc_payload)) c1 =
      (Inr (frame_bytes (n_enc_handshake N (finish_message static enc_payload))), c1\<lparr>nh_sent_intro := True\<rparr>)"
    using encode_frame_plain [OF c1(1)] c1(2,3) assms(20) f(5,6) by simp
  have step2: "in_step (c1\<lparr>nh_sent_intro := True\<rparr>) s2" using f(3) by (auto simp: in_step_def)
  from transports_linked [OF assms(1) step2] obtain h t u where
    t: "finish_transport X (c1\<lparr>nh_sent_intro := True\<rparr>) = (Inr (), h)" "nh_transport h = Some t"
      "respond_transport X s2 = Inr u" "linked t u" "linked u t" by blast
  have h: "nh_sent_intro h" "fc_buffer (nh_frame_codec h) = []"
    using t(1) c1(4) by (auto simp: finish_transport_def split: sum.splits)
  have "validate_connection X N Y V sink (map Inr chunks @ Inr c # later) request capacity =
      ((Inr h, [intro_header_of DEFAULT_NOISE_HEADER (cv_routing_info request) @ frame_bytes (n_enc_handshake N ?hello),
        frame_bytes (n_enc_handshake N (finish_message static enc_payload))], later), [Connecting])"
    using assms(12-14,23,24) e1 r f(1) e2 t(1)
    by (simp add: validate_connection_def validate_connection_inner_def Let_def is_ok_def)
  moreover have "Option.bind (hs_client_hello ?hello) ch_ephemeral = Some (kp_public ce)"
    using h0(7) by (simp add: client_hello_def)
  ultimately show ?thesis using f(2) t(2-5) h by blast
qed

definition toy_payload :: payload_ext where
  "toy_payload = \<lparr>p_md5 = (\<lambda>m. []), p_enc_device_props = (\<lambda>p. []), p_enc_client_payload = (\<lambda>p. [1, 2, 3])\<rparr>"

definition toy_request :: ConnectionValidation where
  "toy_request = connection_validation_new default_config (toy_pair 1) (toy_pair 4) (Login ''123@s.whatsapp.net'')"

lemma toy_request_simps:
  "cv_local_ephemeral toy_request = toy_pair 1" "cv_static_key_pair toy_request = toy_pair 4"
  "cv_max_frame_len toy_request = 16777216"
  "build_validation_payload toy_payload (cv_payload toy_request) (cv_config toy_request) = Inr [1, 2, 3]"
proof -
  have "is_ok (build_login_payload ''123@s.whatsapp.net'' default_config)"
    by (simp add: build_login_payload_def jid_decode_def from_server_str_def parse_u16_def parse_nat_max_def
        digit_val_def Let_def)
  then obtain p where "build_login_payload ''123@s.whatsapp.net'' default_config = Inr p"
    by (cases "build_login_payload ''123@s.whatsapp.net'' default_config") (simp_all only: is_ok_simps)
  then show "build_validation_payload toy_payload (cv_payload toy_request) (cv_config toy_request) = Inr [1, 2, 3]"
    by (simp add: build_validation_payload_def toy_request_def connection_validation_new_def toy_payload_def)
qed (simp_all add: toy_request_def connection_validation_new_def DEFAULT_MAX_FRAME_LEN_def)

lemma length_put_str_eq: "length (put_str bs) = 2 * length bs + 1"
  by (induction bs) simp_all

theorem connection_established_witness:
  "\<exists>stream h sent rest. validate_connection toy toy_noise toy_payload (\<lambda>_ _ _. True) (\<lambda>_. Inr ()) stream toy_request 1 =
     ((Inr h, sent, rest), [Connecting]) \<and> length sent = 2 \<and> nh_transport h \<noteq> None"
proof -
  let ?s0 = "responder_start toy_noise DEFAULT_NOISE_HEADER (kp_public (toy_pair 1))"
  let ?h0 = "with_header toy_noise (toy_pair 1) DEFAULT_NOISE_HEADER None 0"
  have eph: "nh_local_ephemeral ?h0 = toy_pair 1" by (simp add: with_header_def Let_def)
  have cert: "length [0 :: u8] \<le> 2 ^ 36" and payload: "length [1, 2, 3 :: u8] \<le> 2 ^ 36" by simp_all
  obtain hello s1 es ec where hello:
    "respond_hello toy toy_noise (toy_pair 2) (toy_pair 3) (kp_public (toy_pair 1)) [0] ?s0 = (Inr hello, s1)"
    "hello = \<lparr>sh_ephemeral = Some (kp_public (toy_pair 2)), sh_static = Some es, sh_payload = Some ec,
       sh_extended_static = None\<rparr>" "length es = 48" "length ec = 17"
    using handshake_run [OF toy_ok toy_noise_ok toy_pairs(1) toy_pairs(1) toy_pairs(1) toy_pairs(1)
        toy_pairs(2-4) toy_chain_valid cert payload in_step_start eph] by auto
  let ?m = "n_enc_handshake toy_noise (server_message hello)"
  have key: "length (kp_public (nh_local_ephemeral ?h0)) = 32"
    by (simp only: eph) (simp add: toy_pair_def)
  have hello_len: "length (n_enc_handshake toy_noise (client_hello ?h0)) \<le> cv_max_frame_len toy_request"
    using key by (simp add: toy_noise_def put_handshake_def toy_request_simps client_hello_def put_hello_def
        length_put_str_eq)
  have enc: "n_enc_handshake toy_noise = put_handshake" by (simp add: toy_noise_def)
  have len: "length ?m < 2 ^ 24" "length ?m \<le> cv_max_frame_len toy_request"
    "\<forall>s p. length s = 48 \<and> length p = length [1, 2, 3 :: u8] + 16 \<longrightarrow>
      length (n_enc_handshake toy_noise (finish_message s p)) \<le> cv_max_frame_len toy_request"
    using hello(2-4)
    by (simp_all add: enc put_handshake_def server_message_def put_server_def length_put_str_eq toy_pair_def
        toy_request_simps finish_message_def put_finish_def)
  have stream: "concat [take 5 (frame_bytes ?m)] @ drop 5 (frame_bytes ?m) = frame_bytes ?m"
    "drop 5 (frame_bytes ?m) \<noteq> []"
    using hello(2-4) by (simp_all add: frame_bytes_def put_frame_len_def enc put_handshake_def server_message_def
        put_server_def length_put_str_eq toy_pair_def)
  have sink: "\<forall>frames. (\<lambda>_ :: bytes list. Inr () :: unit core_result) frames = Inr ()" "(1 :: nat) \<noteq> 0" by simp_all
  from connection_established [OF toy_ok toy_noise_ok toy_pairs(1) toy_pairs(1) toy_pairs(1) toy_pairs(1)
      toy_pairs(2-4) toy_chain_valid cert toy_request_simps(1,2,4) payload hello(1) len(1,2) hello_len len(3) stream sink, of "[]"]
  show ?thesis by (elim exE conjE) force
qed

end
