(* ===== verification/NoiseFrames.thy ===== *)
theory NoiseFrames
  imports NoiseTransportProperties NoiseConnection
begin

text \<open>
  The frame sink and the frame stream above a connection: what goes in at one end comes out at the
  other, frame by frame.
\<close>

section \<open>Sending and receiving several frames\<close>

fun send_frames ::
  "noise_ext \<Rightarrow> (bytes list \<Rightarrow> unit core_result) \<Rightarrow> bytes list \<Rightarrow> NoiseHandshake \<Rightarrow> bytes list \<Rightarrow>
     unit core_result \<times> NoiseHandshake \<times> bytes list" where
  "send_frames N sink [] noise sent = (Ok (), noise, sent)"
| "send_frames N sink (p # ps) noise sent =
     (case noise_send N sink p noise sent of
        (Inl e, noise, sent) \<Rightarrow> (Err e, noise, sent)
      | (Inr _, noise, sent) \<Rightarrow> send_frames N sink ps noise sent)"

primrec recv_times ::
  "noise_ext \<Rightarrow> nat \<Rightarrow> NoiseFrameStream \<Rightarrow> NoiseHandshake \<Rightarrow>
     bytes option core_result list \<times> NoiseHandshake \<times> NoiseFrameStream" where
  "recv_times N 0 st noise = ([], noise, st)"
| "recv_times N (Suc n) st noise =
     (case noise_recv N st noise of (r, noise, st) \<Rightarrow>
      case recv_times N n st noise of (rs, noise, st) \<Rightarrow> (r # rs, noise, st))"

lemma send_frames_all:
  assumes "\<forall>frames. sink frames = Inr ()"
  shows "send_all N ps h = (Inr stream, h') \<Longrightarrow>
    \<exists>encs. send_frames N sink ps h sent = (Inr (), h', sent @ encs) \<and> concat encs = stream"
proof (induction ps arbitrary: h stream sent)
  case (Cons p ps)
  then obtain enc h1 rest where "encode_frame N p h = (Inr enc, h1)" "send_all N ps h1 = (Inr rest, h')" "stream = enc @ rest"
    by (auto simp: hs_bind_Ok hs_return_def)
  moreover from Cons.IH [OF this(2), of "sent @ [enc]"] obtain encs where
    "send_frames N sink ps h1 (sent @ [enc]) = (Inr (), h', (sent @ [enc]) @ encs)" "concat encs = rest" by blast
  moreover from calculation(1) have "noise_send N sink p h sent = (Inr (), h1, sent @ [enc])"
    by (simp add: noise_send_def spec [OF assms])
  ultimately show ?case by (intro exI [of _ "enc # encs"]) simp
qed (simp add: hs_return_def)

lemma recv_loop_skip:
  "push_frame_bytes N chunk noise = (Inr [], noise') \<Longrightarrow>
     recv_times N (Suc n) \<lparr>nf_inner = Inr chunk # inner, nf_pending = []\<rparr> noise =
     recv_times N (Suc n) \<lparr>nf_inner = inner, nf_pending = []\<rparr> noise'"
  by (simp add: noise_recv_def)

lemma recv_times_all:
  "receive_all N chunks noise = (Inr ps, noise') \<Longrightarrow>
     recv_times N (Suc (length qs + length ps)) \<lparr>nf_inner = map Inr chunks, nf_pending = qs\<rparr> noise =
     (map (\<lambda>p. Inr (Some p)) (qs @ ps) @ [Inr None], noise', \<lparr>nf_inner = [], nf_pending = []\<rparr>)"
proof (induction chunks arbitrary: noise ps qs)
  case Nil
  then show ?case by (induction qs) (simp_all add: noise_recv_def hs_return_def)
next
  case (Cons chunk chunks)
  from Cons.prems obtain ps1 n1 ps2 where r: "push_frame_bytes N chunk noise = (Inr ps1, n1)"
    "receive_all N chunks n1 = (Inr ps2, noise')" "ps = ps1 @ ps2"
    by (auto simp: hs_bind_Ok hs_return_def)
  show ?case
  proof (induction qs)
    case Nil
    show ?case
    proof (cases ps1)
      case Nil
      with r have "push_frame_bytes N chunk noise = (Inr [], n1)" "ps = ps2" by simp_all
      then show ?thesis
        using recv_loop_skip [of N chunk noise n1 "length ps2" "map Inr chunks"] Cons.IH [OF r(2), of "[]"] by simp
    next
      case (Cons f fs)
      then show ?thesis
        using Cons.IH [OF r(2), of fs] r(1,3) by (simp add: noise_recv_def)
    qed
  qed (simp add: noise_recv_def)
qed

text \<open>
  C4: frames are delivered. When two ends share a direction of the transport, the frames that one
  end sends through its sink, each within the limit of the sender and, with its tag of 16 bytes,
  within that of the receiver and shorter than \<open>2 ^ 24\<close> bytes, come out of the stream of the other: exactly these, in order, and then
  the end of the stream, however the bytes are cut into chunks on the way. The two ends are in step
  afterwards.
\<close>

theorem noise_frames_delivered:
  assumes "noise_ext_ok N"
    and "nh_transport h = Some t" and "nh_transport r = Some u" and "linked t u"
    and "nh_sent_intro h" and "fc_buffer (nh_frame_codec r) = []"
    and "\<forall>p\<in>set ps. length p \<le> nh_max_frame_len h \<and>
      length p + 16 \<le> fc_max_frame_len (nh_frame_codec r) \<and> length p + 16 < 2 ^ 24"
    and "ps \<noteq> []" and "\<forall>frames. sink frames = Inr ()"
  shows "\<exists>sent h' t' u'. send_frames N sink ps h [] = (Inr (), h', sent) \<and> nh_transport h' = Some t' \<and> linked t' u' \<and>
    (\<forall>chunks. concat chunks = concat sent \<longrightarrow>
      (\<exists>r'. recv_times N (Suc (length ps)) (noise_stream_new (map Inr chunks)) r =
         (map (\<lambda>p. Inr (Some p)) ps @ [Inr None], r', noise_stream_new []) \<and>
       nh_transport r' = Some u' \<and> fc_buffer (nh_frame_codec r') = []))"
proof -
  from noise_stream_delivery [OF assms(1-8)] obtain stream h' t' u' where
    s: "send_all N ps h = (Inr stream, h')" "nh_transport h' = Some t'" "linked t' u'"
    "\<forall>chunks. concat chunks = stream \<longrightarrow> (\<exists>r'. receive_all N chunks r = (Inr ps, r') \<and>
       nh_transport r' = Some u' \<and> fc_buffer (nh_frame_codec r') = [])" by blast
  from send_frames_all [OF assms(9) s(1), of "[]"] obtain sent where
    "send_frames N sink ps h [] = (Inr (), h', sent)" "concat sent = stream" by auto
  moreover have "recv_times N (Suc (length ps)) (noise_stream_new (map Inr chunks)) r =
      (map (\<lambda>p. Inr (Some p)) ps @ [Inr None], r', noise_stream_new [])"
    if "receive_all N chunks r = (Inr ps, r')" for chunks r'
    using recv_times_all [OF that, of "[]"] by (simp add: noise_stream_new_def)
  ultimately show ?thesis using s(2-4) by metis
qed

theorem noise_frames_delivered_witness:
  "\<exists>sent h'. send_frames toy_noise (\<lambda>_. Inr ()) [[1, 2], [], [3]] toy_link [] = (Inr (), h', sent) \<and>
    (\<exists>r'. recv_times toy_noise (Suc (length [[1, 2], [], [3 :: u8]])) (noise_stream_new [Inr (take 5 (concat sent)), Inr (drop 5 (concat sent))]) toy_link =
       ([Inr (Some [1, 2]), Inr (Some []), Inr (Some [3]), Inr None], r', noise_stream_new []))"
proof -
  have b: "\<forall>p\<in>set [[1, 2], [], [3]]. length (p :: bytes) \<le> nh_max_frame_len toy_link \<and>
      length p + 16 \<le> fc_max_frame_len (nh_frame_codec toy_link) \<and> length p + 16 < 2 ^ 24"
    by (simp add: toy_link_simps)
  have ne: "[[1, 2], [], [3]] \<noteq> ([] :: bytes list)" by simp
  have si: "\<forall>frames. (\<lambda>_ :: bytes list. Inr () :: unit core_result) frames = Inr ()" by simp
  obtain sent h' u' where "send_frames toy_noise (\<lambda>_. Inr ()) [[1, 2], [], [3]] toy_link [] = (Inr (), h', sent)"
    and d: "\<forall>chunks. concat chunks = concat sent \<longrightarrow>
      (\<exists>r'. recv_times toy_noise (Suc (length [[1, 2], [], [3 :: u8]])) (noise_stream_new (map Inr chunks)) toy_link =
         (map (\<lambda>p. Inr (Some p)) [[1, 2], [], [3]] @ [Inr None], r', noise_stream_new []) \<and>
       nh_transport r' = Some u' \<and> fc_buffer (nh_frame_codec r') = [])"
    using noise_frames_delivered [OF toy_noise_ok toy_link_simps(1,1,6,2,3) b ne si] by (elim exE conjE) (rule that)
  then show ?thesis
    using spec [OF d, of "[take 5 (concat sent), drop 5 (concat sent)]"] by (auto simp del: recv_times.simps send_frames.simps)
qed

end
