(* ===== verification/Media.thy ===== *)
theory Media
  imports Noise SignalKeys
begin

text \<open>
  The encryption of media files, \<^verbatim>\<open>crates/wa-crypto/src/media.rs\<close>: the keys of a file, its encryption
  and decryption as a whole and as a stream of chunks, and the payloads of media retries.
\<close>

section \<open>Cipher block chaining\<close>

text \<open>
  PKCS7 padding and the CBC mode over a block cipher, as the \<^verbatim>\<open>cbc\<close> crate documents them. They are
  used in the laws on the foreign functions only.
\<close>

definition pkcs7_pad :: "bytes \<Rightarrow> bytes" where
  "pkcs7_pad p = (let n = 16 - length p mod 16 in p @ replicate n (word_of_nat n))"

definition pkcs7_unpad :: "bytes \<Rightarrow> bytes option" where
  "pkcs7_unpad p =
     (if p = [] then None
      else let n = unat (last p) in
        if n = 0 \<or> n > 16 \<or> n > length p \<or> drop (length p - n) p \<noteq> replicate n (last p) then None
        else Some (take (length p - n) p))"

function cbc_encrypt :: "(bytes \<Rightarrow> bytes) \<Rightarrow> bytes \<Rightarrow> bytes \<Rightarrow> bytes" where
  "cbc_encrypt E prev p =
     (if length p < 16 then []
      else let c = E (map2 (XOR) (take 16 p) prev) in c @ cbc_encrypt E c (drop 16 p))"
  by pat_completeness auto
termination by (relation "measure (\<lambda>(E, prev, p). length p)") auto

function cbc_decrypt :: "(bytes \<Rightarrow> bytes) \<Rightarrow> bytes \<Rightarrow> bytes \<Rightarrow> bytes" where
  "cbc_decrypt D prev c =
     (if length c < 16 then []
      else map2 (XOR) (D (take 16 c)) prev @ cbc_decrypt D (take 16 c) (drop 16 c))"
  by pat_completeness auto
termination by (relation "measure (\<lambda>(D, prev, c). length c)") auto

declare cbc_encrypt.simps [simp del] cbc_decrypt.simps [simp del]

section \<open>Structures and external functions\<close>

record ServerErrorReceipt =
  ser_stanza_id :: "string option"

record MediaRetryNotification =
  mrn_stanza_id :: "string option"
  mrn_direct_path :: "string option"
  mrn_result :: "i32 option"
  mrn_message_secret :: "bytes option"

datatype MediaRetryResultType = RetryGeneralError | RetrySuccess | RetryNotFound | RetryDecryptionError

text \<open>The block cipher of the \<^verbatim>\<open>aes\<close> crate (key, block) and the protobuf messages of media retries.\<close>

record media_ext =
  mx_encrypt_block :: "bytes \<Rightarrow> bytes \<Rightarrow> bytes"
  mx_decrypt_block :: "bytes \<Rightarrow> bytes \<Rightarrow> bytes"
  mx_enc_receipt :: "ServerErrorReceipt \<Rightarrow> bytes"
  mx_enc_notification :: "MediaRetryNotification \<Rightarrow> bytes"
  mx_dec_notification :: "bytes \<Rightarrow> string + MediaRetryNotification"

text \<open>
  What the code relies on: the block cipher maps blocks to blocks; \<open>x_aes_cbc_encrypt\<close> and
  \<open>x_aes_cbc_decrypt\<close> of \<open>ext\<close> are its CBC mode with PKCS7 padding; notifications are read back as
  they were written.
\<close>

definition media_ext_ok :: "ext \<Rightarrow> media_ext \<Rightarrow> bool" where
  "media_ext_ok X M \<longleftrightarrow>
     (\<forall>k b. length k = 32 \<and> length b = 16 \<longrightarrow>
        length (mx_encrypt_block M k b) = 16 \<and> length (mx_decrypt_block M k b) = 16) \<and>
     (\<forall>k iv p. length k = 32 \<and> length iv = 16 \<longrightarrow>
        x_aes_cbc_encrypt X k iv p = cbc_encrypt (mx_encrypt_block M k) iv (pkcs7_pad p)) \<and>
     (\<forall>k iv c. length k = 32 \<and> length iv = 16 \<longrightarrow>
        x_aes_cbc_decrypt X k iv c =
          (if c = [] \<or> length c mod 16 \<noteq> 0 then None else pkcs7_unpad (cbc_decrypt (mx_decrypt_block M k) iv c))) \<and>
     (\<forall>v. mx_dec_notification M (mx_enc_notification M v) = Inr v)"

section \<open>Keys\<close>

datatype MediaKind = MkAudio | MkDocument | MkGif | MkImage | MkProfilePicture | MkProduct | MkPushToTalk | MkSticker
  | MkVideo | MkThumbnailDocument | MkThumbnailImage | MkThumbnailVideo | MkThumbnailLink | MkHistorySync | MkAppState
  | MkProductCatalogImage | MkPaymentBackgroundImage | MkVideoNote | MkBusinessCoverPhoto

definition hkdf_info_key :: "MediaKind \<Rightarrow> string" where
  "hkdf_info_key kind =
     (if kind \<in> {MkAudio, MkPushToTalk} then ''WhatsApp Audio Keys''
      else if kind = MkDocument then ''WhatsApp Document Keys''
      else if kind \<in> {MkGif, MkVideo, MkVideoNote} then ''WhatsApp Video Keys''
      else if kind \<in> {MkImage, MkProduct, MkSticker, MkBusinessCoverPhoto} then ''WhatsApp Image Keys''
      else if kind \<in> {MkProfilePicture, MkProductCatalogImage} then ''WhatsApp  Keys''
      else if kind = MkThumbnailDocument then ''WhatsApp Document Thumbnail Keys''
      else if kind = MkThumbnailImage then ''WhatsApp Image Thumbnail Keys''
      else if kind = MkThumbnailVideo then ''WhatsApp Video Thumbnail Keys''
      else if kind = MkThumbnailLink then ''WhatsApp Link Thumbnail Keys''
      else if kind = MkHistorySync then ''WhatsApp History Keys''
      else if kind = MkAppState then ''WhatsApp App State Keys''
      else ''WhatsApp Payment Background Keys'')"

record MediaKeyMaterial =
  mdk_iv :: bytes
  mdk_cipher_key :: bytes
  mdk_mac_key :: bytes

definition MEDIA_KEY_LEN :: nat where "MEDIA_KEY_LEN = 32"
definition MEDIA_MAC_LEN :: nat where "MEDIA_MAC_LEN = 10"
definition MEDIA_RETRY_IV_LEN :: nat where "MEDIA_RETRY_IV_LEN = 12"
definition AES_BLOCK_LEN :: nat where "AES_BLOCK_LEN = 16"
definition MEDIA_RETRY_INFO :: bytes where "MEDIA_RETRY_INFO = bytes_of ''WhatsApp Media Retry Notification''"

definition validate_media_key :: "bytes \<Rightarrow> CryptoError + unit" where
  "validate_media_key media_key = (if length media_key \<noteq> MEDIA_KEY_LEN then Err InvalidKeyLength else Ok ())"

definition validate_retry_iv :: "bytes \<Rightarrow> CryptoError + unit" where
  "validate_retry_iv iv = (if length iv \<noteq> MEDIA_RETRY_IV_LEN then Err InvalidIvLength else Ok ())"

definition validate_media_text :: "string \<Rightarrow> string \<Rightarrow> CryptoError + unit" where
  "validate_media_text v label = (if v = [] then Err (InvalidInput label) else Ok ())"

definition slice_to_array :: "nat \<Rightarrow> bytes \<Rightarrow> CryptoError \<Rightarrow> CryptoError + bytes" where
  "slice_to_array n input e = (if length input = n then Ok input else Err e)"

definition derive_media_keys :: "ext \<Rightarrow> bytes \<Rightarrow> MediaKind \<Rightarrow> CryptoError + MediaKeyMaterial" where
  "derive_media_keys X media_key kind =
     and_then (validate_media_key media_key) (\<lambda>_.
     and_then (hkdf_sha256 X media_key 112 [] (bytes_of (hkdf_info_key kind))) (\<lambda>expanded.
     and_then (slice_to_array 16 (take 16 expanded) InvalidIvLength) (\<lambda>iv.
     Ok \<lparr>mdk_iv = iv, mdk_cipher_key = take 32 (drop 16 expanded), mdk_mac_key = take 32 (drop 48 expanded)\<rparr>)))"

section \<open>Whole files\<close>

record EncryptedMedia =
  em_media_key :: bytes
  em_ciphertext_with_mac :: bytes
  em_mac :: bytes
  em_file_sha256 :: bytes
  em_file_enc_sha256 :: bytes
  em_file_length :: u64

record MediaEncryptionMetadata =
  mm_media_key :: bytes
  mm_mac :: bytes
  mm_file_sha256 :: bytes
  mm_file_enc_sha256 :: bytes
  mm_file_length :: u64

definition media_metadata :: "EncryptedMedia \<Rightarrow> MediaEncryptionMetadata" where
  "media_metadata e = \<lparr>mm_media_key = em_media_key e, mm_mac = em_mac e, mm_file_sha256 = em_file_sha256 e,
     mm_file_enc_sha256 = em_file_enc_sha256 e, mm_file_length = em_file_length e\<rparr>"

definition media_mac :: "ext \<Rightarrow> MediaKeyMaterial \<Rightarrow> bytes \<Rightarrow> CryptoError + bytes" where
  "media_mac X keys ciphertext =
     and_then (hmac_sha256 X (mdk_iv keys @ ciphertext) (mdk_mac_key keys)) (\<lambda>full_mac.
     slice_to_array MEDIA_MAC_LEN (take MEDIA_MAC_LEN full_mac) Encrypt)"

text \<open>\<open>u64::try_from\<close> of a length.\<close>

definition u64_of_len :: "nat \<Rightarrow> u64 option" where
  "u64_of_len n = (if n < 2 ^ 64 then Some (word_of_nat n) else None)"

definition encrypt_media_bytes_with_key ::
  "ext \<Rightarrow> noise_ext \<Rightarrow> bytes \<Rightarrow> MediaKind \<Rightarrow> bytes \<Rightarrow> CryptoError + EncryptedMedia" where
  "encrypt_media_bytes_with_key X N plaintext kind media_key =
     and_then (validate_media_key media_key) (\<lambda>_.
     and_then (derive_media_keys X media_key kind) (\<lambda>keys.
     and_then (aes_256_cbc_encrypt_with_iv X plaintext (mdk_cipher_key keys) (mdk_iv keys)) (\<lambda>ciphertext.
     and_then (media_mac X keys ciphertext) (\<lambda>mac.
     let ciphertext_with_mac = ciphertext @ mac in
     and_then (ok_or (u64_of_len (length plaintext)) Encrypt) (\<lambda>file_length.
     Ok \<lparr>em_media_key = media_key, em_ciphertext_with_mac = ciphertext_with_mac, em_mac = mac,
       em_file_sha256 = n_sha256 N plaintext, em_file_enc_sha256 = n_sha256 N ciphertext_with_mac,
       em_file_length = file_length\<rparr>)))))"

definition decrypt_media_bytes :: "ext \<Rightarrow> bytes \<Rightarrow> MediaKind \<Rightarrow> bytes \<Rightarrow> CryptoError + bytes" where
  "decrypt_media_bytes X ciphertext_with_mac kind media_key =
     and_then (validate_media_key media_key) (\<lambda>_.
     if length ciphertext_with_mac \<le> MEDIA_MAC_LEN then Err CiphertextTooShort
     else
       let ciphertext_len = length ciphertext_with_mac - MEDIA_MAC_LEN;
           ciphertext = take ciphertext_len ciphertext_with_mac;
           expected_mac = drop ciphertext_len ciphertext_with_mac in
       and_then (derive_media_keys X media_key kind) (\<lambda>keys.
       and_then (media_mac X keys ciphertext) (\<lambda>actual_mac.
       if \<not> constant_time_eq actual_mac expected_mac then Err Decrypt
       else aes_256_cbc_decrypt_with_iv X ciphertext (mdk_cipher_key keys) (mdk_iv keys))))"

section \<open>Streams\<close>

text \<open>
  The state of a running hash or MAC is what it has absorbed. The constructors of HMAC take keys of
  every length, and the AES key of a file has 32 bytes.
\<close>

record MediaStreamEncryptor =
  se_media_key :: bytes
  se_cipher :: bytes
  se_previous_cipher_block :: bytes
  se_pending_plaintext :: bytes
  se_plaintext_hasher :: bytes
  se_encrypted_hasher :: bytes
  se_mac_key :: bytes
  se_mac :: bytes
  se_file_length :: u64
  se_finalized :: bool

definition stream_encryptor_with_key :: "ext \<Rightarrow> MediaKind \<Rightarrow> bytes \<Rightarrow> CryptoError + MediaStreamEncryptor" where
  "stream_encryptor_with_key X kind media_key =
     and_then (validate_media_key media_key) (\<lambda>_.
     and_then (derive_media_keys X media_key kind) (\<lambda>keys.
     and_then (validate_len 32 (mdk_cipher_key keys) InvalidKeyLength) (\<lambda>cipher.
     Ok \<lparr>se_media_key = media_key, se_cipher = cipher, se_previous_cipher_block = mdk_iv keys,
       se_pending_plaintext = [], se_plaintext_hasher = [], se_encrypted_hasher = [],
       se_mac_key = mdk_mac_key keys, se_mac = mdk_iv keys, se_file_length = 0, se_finalized = False\<rparr>)))"

function encrypt_plaintext_blocks ::
  "media_ext \<Rightarrow> bytes \<Rightarrow> MediaStreamEncryptor \<Rightarrow> bytes \<times> MediaStreamEncryptor" where
  "encrypt_plaintext_blocks M plaintext e =
     (if length plaintext < AES_BLOCK_LEN then ([], e)
      else
        let encrypted = mx_encrypt_block M (se_cipher e)
              (map2 (XOR) (take AES_BLOCK_LEN plaintext) (se_previous_cipher_block e));
            (out, e) = encrypt_plaintext_blocks M (drop AES_BLOCK_LEN plaintext)
              (e\<lparr>se_previous_cipher_block := encrypted, se_mac := se_mac e @ encrypted,
                 se_encrypted_hasher := se_encrypted_hasher e @ encrypted\<rparr>)
        in (encrypted @ out, e))"
  by pat_completeness auto
termination by (relation "measure (\<lambda>(M, p, e). length p)") (auto simp: AES_BLOCK_LEN_def)

declare encrypt_plaintext_blocks.simps [simp del]

definition checked_add_u64 :: "u64 \<Rightarrow> u64 \<Rightarrow> u64 option" where
  "checked_add_u64 a b = (if unat a + unat b < 2 ^ 64 then Some (a + b) else None)"

definition ensure_encryptor_not_finalized :: "MediaStreamEncryptor \<Rightarrow> CryptoError + unit" where
  "ensure_encryptor_not_finalized e =
     (if se_finalized e then Err (InvalidInput ''media stream already finalized'') else Ok ())"

definition stream_encryptor_update ::
  "media_ext \<Rightarrow> bytes \<Rightarrow> MediaStreamEncryptor \<Rightarrow> (CryptoError + bytes) \<times> MediaStreamEncryptor" where
  "stream_encryptor_update M plaintext e =
     (case and_then (ensure_encryptor_not_finalized e) (\<lambda>_.
           and_then (ok_or (u64_of_len (length plaintext)) Encrypt) (\<lambda>n.
           ok_or (checked_add_u64 (se_file_length e) n) Encrypt)) of
        Inl err \<Rightarrow> (Err err, e)
      | Inr file_length \<Rightarrow>
          let pending = se_pending_plaintext e @ plaintext;
              e = e\<lparr>se_file_length := file_length, se_plaintext_hasher := se_plaintext_hasher e @ plaintext,
                se_pending_plaintext := pending\<rparr>;
              full_blocks = length pending div AES_BLOCK_LEN in
          if full_blocks = 0 then (Ok [], e)
          else
            let process_len = full_blocks * AES_BLOCK_LEN;
                (out, e) = encrypt_plaintext_blocks M (take process_len pending)
                  (e\<lparr>se_pending_plaintext := drop process_len pending\<rparr>)
            in (Ok out, e))"

record MediaStreamEncryptFinal =
  mf_final_bytes :: bytes
  mf_metadata :: MediaEncryptionMetadata

definition stream_encryptor_finalize ::
  "ext \<Rightarrow> noise_ext \<Rightarrow> media_ext \<Rightarrow> MediaStreamEncryptor \<Rightarrow> CryptoError + MediaStreamEncryptFinal" where
  "stream_encryptor_finalize X N M e =
     and_then (ensure_encryptor_not_finalized e) (\<lambda>_.
     let padding = AES_BLOCK_LEN - length (se_pending_plaintext e) mod AES_BLOCK_LEN;
         padding = (if padding = 0 then AES_BLOCK_LEN else padding);
         pending = se_pending_plaintext e @ replicate padding (word_of_nat padding);
         (out, e) = encrypt_plaintext_blocks M pending (e\<lparr>se_finalized := True, se_pending_plaintext := []\<rparr>) in
     and_then (hmac_sha256 X (se_mac e) (se_mac_key e)) (\<lambda>full_mac.
     let mac = take MEDIA_MAC_LEN full_mac in
     Ok \<lparr>mf_final_bytes = out @ mac,
       mf_metadata = \<lparr>mm_media_key = se_media_key e, mm_mac = mac, mm_file_sha256 = n_sha256 N (se_plaintext_hasher e),
         mm_file_enc_sha256 = n_sha256 N (se_encrypted_hasher e @ mac), mm_file_length = se_file_length e\<rparr>\<rparr>))"

record MediaStreamDecryptor =
  sd_cipher :: bytes
  sd_previous_cipher_block :: bytes
  sd_pending :: bytes
  sd_mac_key :: bytes
  sd_mac :: bytes
  sd_finalized :: bool

definition stream_decryptor_new :: "ext \<Rightarrow> MediaKind \<Rightarrow> bytes \<Rightarrow> CryptoError + MediaStreamDecryptor" where
  "stream_decryptor_new X kind media_key =
     and_then (validate_media_key media_key) (\<lambda>_.
     and_then (derive_media_keys X media_key kind) (\<lambda>keys.
     and_then (validate_len 32 (mdk_cipher_key keys) InvalidKeyLength) (\<lambda>cipher.
     Ok \<lparr>sd_cipher = cipher, sd_previous_cipher_block = mdk_iv keys, sd_pending = [],
       sd_mac_key = mdk_mac_key keys, sd_mac = mdk_iv keys, sd_finalized = False\<rparr>)))"

function decrypt_ciphertext_blocks_without_mac ::
  "media_ext \<Rightarrow> bytes \<Rightarrow> MediaStreamDecryptor \<Rightarrow> bytes \<times> MediaStreamDecryptor" where
  "decrypt_ciphertext_blocks_without_mac M ciphertext d =
     (if length ciphertext < AES_BLOCK_LEN then ([], d)
      else
        let block = take AES_BLOCK_LEN ciphertext;
            plain = map2 (XOR) (mx_decrypt_block M (sd_cipher d) block) (sd_previous_cipher_block d);
            (out, d) = decrypt_ciphertext_blocks_without_mac M (drop AES_BLOCK_LEN ciphertext)
              (d\<lparr>sd_previous_cipher_block := block\<rparr>)
        in (plain @ out, d))"
  by pat_completeness auto
termination by (relation "measure (\<lambda>(M, c, d). length c)") (auto simp: AES_BLOCK_LEN_def)

declare decrypt_ciphertext_blocks_without_mac.simps [simp del]

definition decrypt_ciphertext_blocks ::
  "media_ext \<Rightarrow> bytes \<Rightarrow> MediaStreamDecryptor \<Rightarrow> bytes \<times> MediaStreamDecryptor" where
  "decrypt_ciphertext_blocks M ciphertext d =
     decrypt_ciphertext_blocks_without_mac M ciphertext (d\<lparr>sd_mac := sd_mac d @ ciphertext\<rparr>)"

definition ensure_decryptor_not_finalized :: "MediaStreamDecryptor \<Rightarrow> CryptoError + unit" where
  "ensure_decryptor_not_finalized d =
     (if sd_finalized d then Err (InvalidInput ''media stream already finalized'') else Ok ())"

definition stream_decryptor_update ::
  "media_ext \<Rightarrow> bytes \<Rightarrow> MediaStreamDecryptor \<Rightarrow> (CryptoError + bytes) \<times> MediaStreamDecryptor" where
  "stream_decryptor_update M ciphertext_with_mac d =
     (case ensure_decryptor_not_finalized d of
        Inl err \<Rightarrow> (Err err, d)
      | Inr _ \<Rightarrow>
          let pending = sd_pending d @ ciphertext_with_mac;
              d = d\<lparr>sd_pending := pending\<rparr> in
          if length pending \<le> MEDIA_MAC_LEN + AES_BLOCK_LEN then (Ok [], d)
          else
            let available_ciphertext = length pending - MEDIA_MAC_LEN;
                process_len = (available_ciphertext - AES_BLOCK_LEN) div AES_BLOCK_LEN * AES_BLOCK_LEN in
            if process_len = 0 then (Ok [], d)
            else
              let (out, d) = decrypt_ciphertext_blocks M (take process_len pending)
                    (d\<lparr>sd_pending := drop process_len pending\<rparr>)
              in (Ok out, d))"

definition strip_pkcs7_padding :: "bytes \<Rightarrow> CryptoError + bytes" where
  "strip_pkcs7_padding input =
     (if input = [] then Err Decrypt
      else
        let padding = unat (last input) in
        if padding = 0 \<or> padding > AES_BLOCK_LEN \<or> padding > length input then Err Decrypt
        else if \<not> list_all (\<lambda>b. unat b = padding) (drop (length input - padding) input) then Err Decrypt
        else Ok (take (length input - padding) input))"

definition stream_decryptor_finalize :: "ext \<Rightarrow> media_ext \<Rightarrow> MediaStreamDecryptor \<Rightarrow> CryptoError + bytes" where
  "stream_decryptor_finalize X M d =
     and_then (ensure_decryptor_not_finalized d) (\<lambda>_.
     if length (sd_pending d) \<le> MEDIA_MAC_LEN then Err CiphertextTooShort
     else
       let mac_offset = length (sd_pending d) - MEDIA_MAC_LEN in
       if mac_offset = 0 \<or> mac_offset mod AES_BLOCK_LEN \<noteq> 0 then Err Decrypt
       else
         let expected_mac = drop mac_offset (sd_pending d);
             remaining_ciphertext = take mac_offset (sd_pending d) in
         and_then (hmac_sha256 X (sd_mac d @ remaining_ciphertext) (sd_mac_key d)) (\<lambda>actual_mac.
         if \<not> constant_time_eq (take MEDIA_MAC_LEN actual_mac) expected_mac then Err Decrypt
         else strip_pkcs7_padding (fst (decrypt_ciphertext_blocks_without_mac M remaining_ciphertext
           (d\<lparr>sd_finalized := True, sd_pending := [], sd_mac := sd_mac d @ remaining_ciphertext\<rparr>)))))"

section \<open>Media retries\<close>

record MediaRetryPayload =
  mrp_ciphertext :: bytes
  mrp_iv :: bytes

definition derive_media_retry_key :: "ext \<Rightarrow> bytes \<Rightarrow> CryptoError + bytes" where
  "derive_media_retry_key X media_key =
     and_then (validate_media_key media_key) (\<lambda>_. hkdf_sha256 X media_key MEDIA_KEY_LEN [] MEDIA_RETRY_INFO)"

definition encrypt_media_retry_request_with_iv ::
  "ext \<Rightarrow> noise_ext \<Rightarrow> media_ext \<Rightarrow> string \<Rightarrow> bytes \<Rightarrow> bytes \<Rightarrow> CryptoError + MediaRetryPayload" where
  "encrypt_media_retry_request_with_iv X N M stanza_id media_key iv =
     and_then (validate_media_text stanza_id ''media retry stanza id'') (\<lambda>_.
     and_then (validate_retry_iv iv) (\<lambda>_.
     and_then (derive_media_retry_key X media_key) (\<lambda>retry_key.
     and_then (aes_256_gcm_encrypt N (mx_enc_receipt M \<lparr>ser_stanza_id = Some stanza_id\<rparr>) retry_key iv
       (bytes_of stanza_id)) (\<lambda>ciphertext.
     Ok \<lparr>mrp_ciphertext = ciphertext, mrp_iv = iv\<rparr>))))"

definition encrypt_media_retry_notification_with_iv ::
  "ext \<Rightarrow> noise_ext \<Rightarrow> media_ext \<Rightarrow> MediaRetryNotification \<Rightarrow> bytes \<Rightarrow> string \<Rightarrow> bytes \<Rightarrow> CryptoError + MediaRetryPayload" where
  "encrypt_media_retry_notification_with_iv X N M notification media_key stanza_id iv =
     and_then (validate_media_text stanza_id ''media retry stanza id'') (\<lambda>_.
     and_then (validate_retry_iv iv) (\<lambda>_.
     and_then (derive_media_retry_key X media_key) (\<lambda>retry_key.
     and_then (aes_256_gcm_encrypt N (mx_enc_notification M notification) retry_key iv (bytes_of stanza_id))
       (\<lambda>ciphertext.
     Ok \<lparr>mrp_ciphertext = ciphertext, mrp_iv = iv\<rparr>))))"

definition decrypt_media_retry_notification ::
  "ext \<Rightarrow> noise_ext \<Rightarrow> media_ext \<Rightarrow> MediaRetryPayload \<Rightarrow> bytes \<Rightarrow> string \<Rightarrow> CryptoError + MediaRetryNotification" where
  "decrypt_media_retry_notification X N M payload media_key stanza_id =
     and_then (validate_media_text stanza_id ''media retry stanza id'') (\<lambda>_.
     and_then (validate_retry_iv (mrp_iv payload)) (\<lambda>_.
     and_then (derive_media_retry_key X media_key) (\<lambda>retry_key.
     and_then (aes_256_gcm_decrypt N (mrp_ciphertext payload) retry_key (mrp_iv payload) (bytes_of stanza_id))
       (\<lambda>plaintext.
     map_err (\<lambda>_. Decrypt) (mx_dec_notification M plaintext)))))"

fun media_retry_status_code :: "MediaRetryResultType \<Rightarrow> u16" where
  "media_retry_status_code RetrySuccess = 200"
| "media_retry_status_code RetryDecryptionError = 412"
| "media_retry_status_code RetryNotFound = 404"
| "media_retry_status_code RetryGeneralError = 418"

end
