(* ===== verification/MediaStreams.thy ===== *)
theory MediaStreams
  imports Media NoiseInstance
begin

text \<open>
  A media stream gives what the functions on whole files give, however the file is cut into chunks,
  and what is encrypted is decrypted.
\<close>

section \<open>Chaining over parts\<close>

definition last_block :: "bytes \<Rightarrow> bytes \<Rightarrow> bytes" where
  "last_block prev c = (if length c < 16 then prev else drop (length c - 16) c)"

lemma last_block_drop: "length c mod 16 = 0 \<Longrightarrow> c \<noteq> [] \<Longrightarrow> last_block (take 16 c) (drop 16 c) = last_block prev c"
  by (cases "length c = 16") (auto simp: last_block_def)

lemma mod_blocks: "length (p :: bytes) mod 16 = 0 \<Longrightarrow> \<not> length p < 16 \<Longrightarrow> length (drop 16 p) mod 16 = 0"
  by (simp add: mod_if)

lemma block_induct [consumes 1, case_names Nil Block]:
  assumes "length (p :: bytes) mod 16 = 0" and "P []"
    and "\<And>b p. length b = 16 \<Longrightarrow> length p mod 16 = 0 \<Longrightarrow> P p \<Longrightarrow> P (b @ p)"
  shows "P p"
  using assms(1)
proof (induction "length p" arbitrary: p rule: less_induct)
  case less
  show ?case
  proof (cases "length p < 16")
    case True
    then show ?thesis using less(2) assms(2) by simp
  next
    case False
    then have "P (take 16 p @ drop 16 p)"
      using less mod_blocks [OF less(2)] by (intro assms(3) less(1)) simp_all
    then show ?thesis by simp
  qed
qed

lemma cbc_encrypt_simps:
  "cbc_encrypt E prev [] = []"
  "length b = 16 \<Longrightarrow> cbc_encrypt E prev (b @ p) =
     E (map2 (XOR) b prev) @ cbc_encrypt E (E (map2 (XOR) b prev)) p"
  by (simp_all add: cbc_encrypt.simps [of E prev] Let_def)

lemma cbc_decrypt_simps:
  "cbc_decrypt D prev [] = []"
  "length b = 16 \<Longrightarrow> cbc_decrypt D prev (b @ c) = map2 (XOR) (D b) prev @ cbc_decrypt D b c"
  by (simp_all add: cbc_decrypt.simps [of D prev])

lemma last_block_simps:
  "last_block prev [] = prev"
  "length b = 16 \<Longrightarrow> length c mod 16 = 0 \<Longrightarrow> last_block prev (b @ c) = last_block b c"
  by (auto simp: last_block_def)

text \<open>What the block ciphers do to lengths.\<close>

definition block_function :: "(bytes \<Rightarrow> bytes) \<Rightarrow> bool" where
  "block_function E \<longleftrightarrow> (\<forall>b. length b = 16 \<longrightarrow> length (E b) = 16)"

lemma block_functionD: "block_function E \<Longrightarrow> length b = 16 \<Longrightarrow> length (E b) = 16"
  by (simp add: block_function_def)

lemma cbc_encrypt_append:
  assumes "block_function E"
  shows "length p mod 16 = 0 \<Longrightarrow> length prev = 16 \<Longrightarrow>
    cbc_encrypt E prev (p @ q) = cbc_encrypt E prev p @ cbc_encrypt E (last_block prev (cbc_encrypt E prev p)) q \<and>
    length (cbc_encrypt E prev p) = length p"
proof (induction p arbitrary: prev rule: block_induct)
  case (Block b p)
  let ?c = "E (map2 (XOR) b prev)"
  have c: "length ?c = 16" using Block(1,4) by (simp add: block_functionD [OF assms])
  from Block.IH [OF c] show ?case
    by (simp add: Block(1,2) c cbc_encrypt_simps last_block_simps)
qed (simp add: cbc_encrypt_simps last_block_simps)

lemma cbc_decrypt_append:
  assumes "block_function D"
  shows "length c mod 16 = 0 \<Longrightarrow> length prev = 16 \<Longrightarrow>
    cbc_decrypt D prev (c @ d) = cbc_decrypt D prev c @ cbc_decrypt D (last_block prev c) d \<and>
    length (cbc_decrypt D prev c) = length c"
proof (induction c arbitrary: prev rule: block_induct)
  case (Block b c)
  from Block.IH [OF Block(1)] show ?case
    using block_functionD [OF assms Block(1)] Block(4)
    by (simp add: Block(1,2) cbc_decrypt_simps last_block_simps)
qed (simp add: cbc_decrypt_simps last_block_simps)

lemma length_last_block: "length prev = 16 \<Longrightarrow> length (last_block prev c) = 16"
  by (simp add: last_block_def)

section \<open>The loops over blocks\<close>

lemma encrypt_blocks_spec:
  "length p mod 16 = 0 \<Longrightarrow> length (se_previous_cipher_block e) = 16 \<Longrightarrow>
     block_function (mx_encrypt_block M (se_cipher e)) \<Longrightarrow>
     encrypt_plaintext_blocks M p e =
       (let c = cbc_encrypt (mx_encrypt_block M (se_cipher e)) (se_previous_cipher_block e) p in
        (c, e\<lparr>se_previous_cipher_block := last_block (se_previous_cipher_block e) c, se_mac := se_mac e @ c,
              se_encrypted_hasher := se_encrypted_hasher e @ c\<rparr>))"
proof (induction p arbitrary: e rule: block_induct)
  case Nil
  then show ?case
    by (simp add: encrypt_plaintext_blocks.simps [of M "[]"] AES_BLOCK_LEN_def cbc_encrypt_simps last_block_simps)
next
  case (Block b p)
  let ?E = "mx_encrypt_block M (se_cipher e)" and ?prev = "se_previous_cipher_block e"
  let ?c = "?E (map2 (XOR) b ?prev)"
  have c: "length ?c = 16" using Block(1,4,5) by (simp add: block_functionD)
  have m: "length (cbc_encrypt ?E ?c p) mod 16 = 0"
    using cbc_encrypt_append [OF Block(5,2) c, of "[]"] Block(2) by simp
  let ?e = "e\<lparr>se_previous_cipher_block := ?c, se_mac := se_mac e @ ?c, se_encrypted_hasher := se_encrypted_hasher e @ ?c\<rparr>"
  have "encrypt_plaintext_blocks M (b @ p) e = (let (out, e) = encrypt_plaintext_blocks M p ?e in (?c @ out, e))"
    by (simp add: encrypt_plaintext_blocks.simps [of M "b @ p"] AES_BLOCK_LEN_def Block(1) Let_def)
  then show ?case
    using Block.IH [of ?e] c Block(5)
    by (simp add: Let_def Block(1) cbc_encrypt_simps last_block_simps m)
qed

lemma decrypt_blocks_spec:
  "length c mod 16 = 0 \<Longrightarrow>
     decrypt_ciphertext_blocks_without_mac M c d =
       (cbc_decrypt (mx_decrypt_block M (sd_cipher d)) (sd_previous_cipher_block d) c,
        d\<lparr>sd_previous_cipher_block := last_block (sd_previous_cipher_block d) c\<rparr>)"
proof (induction c arbitrary: d rule: block_induct)
  case Nil
  then show ?case
    by (simp add: decrypt_ciphertext_blocks_without_mac.simps [of M "[]"] AES_BLOCK_LEN_def cbc_decrypt_simps
        last_block_simps)
next
  case (Block b c)
  let ?plain = "map2 (XOR) (mx_decrypt_block M (sd_cipher d) b) (sd_previous_cipher_block d)"
  have "decrypt_ciphertext_blocks_without_mac M (b @ c) d =
      (let (out, d) = decrypt_ciphertext_blocks_without_mac M c (d\<lparr>sd_previous_cipher_block := b\<rparr>) in (?plain @ out, d))"
    by (simp add: decrypt_ciphertext_blocks_without_mac.simps [of M "b @ c"] AES_BLOCK_LEN_def Block(1) Let_def)
  then show ?case
    by (simp add: Block.IH Let_def cbc_decrypt_simps(2) [OF Block(1)] last_block_simps(2) [OF Block(1,2)])
qed

section \<open>Padding\<close>

lemma strip_is_unpad: "strip_pkcs7_padding p = ok_or (pkcs7_unpad p) Decrypt"
proof -
  have eq: "unat b = unat c \<longleftrightarrow> b = c" for b c :: u8 by (rule word_eq_iff_unsigned [symmetric])
  have "list_all (\<lambda>b. unat b = unat (last p)) xs \<longleftrightarrow> xs = replicate (length xs) (last p)" for xs :: bytes
    by (induction xs) (auto simp: eq)
  then show ?thesis
    by (auto simp: strip_pkcs7_padding_def pkcs7_unpad_def AES_BLOCK_LEN_def Let_def)
qed

lemma unpad_append: "16 \<le> length q \<Longrightarrow> pkcs7_unpad (p @ q) = map_option (\<lambda>x. p @ x) (pkcs7_unpad q)"
  by (auto simp: pkcs7_unpad_def Let_def)

lemma unpad_pad: "pkcs7_unpad (pkcs7_pad p) = Some p"
proof -
  define n where "n = 16 - length p mod 16"
  then have n: "0 < n" "n \<le> 16" by simp_all
  then have "unat (word_of_nat n :: u8) = n" by (simp add: unat_of_nat)
  with n show ?thesis by (auto simp: pkcs7_unpad_def pkcs7_pad_def n_def [symmetric] Let_def)
qed

lemma length_pad: "length (pkcs7_pad p) = 16 * (length p div 16) + 16"
proof -
  have "length p = 16 * (length p div 16) + length p mod 16" "length p mod 16 < 16" by simp_all
  then show ?thesis unfolding pkcs7_pad_def Let_def length_append length_replicate by linarith
qed

lemma pad_append: "length p mod 16 = 0 \<Longrightarrow> pkcs7_pad (p @ q) = p @ pkcs7_pad q"
  by (simp add: pkcs7_pad_def mod_add_left_eq [symmetric] del: mod_add_left_eq)

section \<open>Keys and laws\<close>

lemma media_blocks:
  assumes "media_ext_ok X M" "length k = 32"
  shows "block_function (mx_encrypt_block M k)" "block_function (mx_decrypt_block M k)"
  using assms by (auto simp: media_ext_ok_def block_function_def)

lemma media_cbc:
  assumes "media_ext_ok X M" "length k = 32" "length iv = 16"
  shows "aes_256_cbc_encrypt_with_iv X p k iv = Inr (cbc_encrypt (mx_encrypt_block M k) iv (pkcs7_pad p))"
    "aes_256_cbc_decrypt_with_iv X c k iv =
      (if c = [] \<or> length c mod 16 \<noteq> 0 then Inl Decrypt
       else ok_or (pkcs7_unpad (cbc_decrypt (mx_decrypt_block M k) iv c)) Decrypt)"
  using assms by (auto simp: media_ext_ok_def aes_256_cbc_encrypt_with_iv_def aes_256_cbc_decrypt_with_iv_def validate_len_def)

lemma media_keys_total:
  assumes "ext_ok X" "length media_key = 32"
  shows "\<exists>keys. derive_media_keys X media_key kind = Inr keys \<and> length (mdk_iv keys) = 16 \<and>
    length (mdk_cipher_key keys) = 32"
proof -
  have "\<exists>out. hkdf_sha256 X media_key 112 [] (bytes_of (hkdf_info_key kind)) = Inr out \<and> length out = 112"
    by (rule hkdf_sha256_total [OF assms(1)]) simp
  with assms(2) show ?thesis
    by (auto simp: derive_media_keys_def validate_media_key_def MEDIA_KEY_LEN_def slice_to_array_def)
qed

lemma media_mac_total:
  assumes "ext_ok X"
  shows "\<exists>t. hmac_sha256 X (mdk_iv keys @ c) (mdk_mac_key keys) = Inr t \<and> media_mac X keys c = Inr (take 10 t)"
  using hmac_sha256_total [OF assms, of "mdk_iv keys @ c" "mdk_mac_key keys"]
  by (auto simp: media_mac_def slice_to_array_def MEDIA_MAC_LEN_def)

section \<open>Decryption\<close>

primrec decrypt_chunks ::
  "media_ext \<Rightarrow> bytes list \<Rightarrow> MediaStreamDecryptor \<Rightarrow> (CryptoError + bytes) \<times> MediaStreamDecryptor" where
  "decrypt_chunks M [] d = (Ok [], d)"
| "decrypt_chunks M (chunk # chunks) d =
     (case stream_decryptor_update M chunk d of
        (Inl e, d) \<Rightarrow> (Err e, d)
      | (Inr out, d) \<Rightarrow>
          (case decrypt_chunks M chunks d of
             (Inl e, d) \<Rightarrow> (Err e, d)
           | (Inr outs, d) \<Rightarrow> (Ok (out @ outs), d)))"

text \<open>A stream from its creation over its chunks to its end.\<close>

definition stream_decrypt ::
  "ext \<Rightarrow> media_ext \<Rightarrow> MediaKind \<Rightarrow> bytes \<Rightarrow> bytes list \<Rightarrow> CryptoError + bytes" where
  "stream_decrypt X M kind media_key chunks =
     and_then (stream_decryptor_new X kind media_key) (\<lambda>d.
     case decrypt_chunks M chunks d of
       (Inl e, d) \<Rightarrow> Err e
     | (Inr out, d) \<Rightarrow> and_then (stream_decryptor_finalize X M d) (\<lambda>last. Ok (out @ last)))"

text \<open>How much of the bytes so far is decrypted, and the state after them.\<close>

definition done_len :: "bytes \<Rightarrow> nat" where
  "done_len T = (length T - 26) div 16 * 16"

definition decryptor_after :: "MediaKeyMaterial \<Rightarrow> bytes \<Rightarrow> MediaStreamDecryptor" where
  "decryptor_after keys T = (let c = take (done_len T) T in
     \<lparr>sd_cipher = mdk_cipher_key keys, sd_previous_cipher_block = last_block (mdk_iv keys) c,
      sd_pending = drop (done_len T) T, sd_mac_key = mdk_mac_key keys, sd_mac = mdk_iv keys @ c,
      sd_finalized = False\<rparr>)"

definition plain_after :: "media_ext \<Rightarrow> MediaKeyMaterial \<Rightarrow> bytes \<Rightarrow> bytes" where
  "plain_after M keys T =
     cbc_decrypt (mx_decrypt_block M (mdk_cipher_key keys)) (mdk_iv keys) (take (done_len T) T)"

lemma done_len_le: "done_len T \<le> length T"
  by (simp add: done_len_def)

lemma whole_blocks_add: "16 * a \<le> n \<Longrightarrow> n div 16 * 16 = 16 * a + (n - 16 * a) div 16 * (16 :: nat)"
  by (auto dest!: le_Suc_ex simp: add_mult_distrib)

lemma done_len_step:
  "done_len (T @ chunk) = done_len T + (length (drop (done_len T) T @ chunk) - 26) div 16 * 16"
proof -
  obtain a where a: "done_len T = 16 * a" "a = (length T - 26) div 16" by (simp add: done_len_def)
  show ?thesis
  proof (cases "a = 0")
    case True
    then have z: "done_len T = 0" using a(1) by simp
    show ?thesis unfolding z by (simp add: done_len_def)
  next
    case False
    then have le: "16 * a \<le> length (T @ chunk) - 26" using a(2) by simp
    moreover from le False have "length (drop (16 * a) T @ chunk) - 26 = length (T @ chunk) - 26 - 16 * a"
      using done_len_le [of T] a(1) by simp
    ultimately show ?thesis
      unfolding a(1) using whole_blocks_add by (simp only: done_len_def)
  qed
qed

lemma decryptor_after_simps:
  "sd_cipher (decryptor_after keys T) = mdk_cipher_key keys"
  "sd_previous_cipher_block (decryptor_after keys T) = last_block (mdk_iv keys) (take (done_len T) T)"
  "sd_pending (decryptor_after keys T) = drop (done_len T) T" "sd_mac_key (decryptor_after keys T) = mdk_mac_key keys"
  "sd_mac (decryptor_after keys T) = mdk_iv keys @ take (done_len T) T" "\<not> sd_finalized (decryptor_after keys T)"
  by (simp_all add: decryptor_after_def Let_def)

lemma length_done: "length (take (done_len T) T) mod 16 = 0"
  using done_len_le [of T] by (simp add: done_len_def min_absorb2)

lemma mod_blocks_add: "m mod 16 = 0 \<Longrightarrow> n mod 16 = 0 \<Longrightarrow> (m + n) mod 16 = (0 :: nat)"
  by presburger

lemma last_block_append:
  "length a mod 16 = 0 \<Longrightarrow> length b mod 16 = 0 \<Longrightarrow> last_block (last_block prev a) b = last_block prev (a @ b)"
  by (induction a arbitrary: prev rule: block_induct) (simp_all add: last_block_simps mod_blocks_add)

lemma decryptor_update_after:
  assumes "block_function (mx_decrypt_block M (mdk_cipher_key keys))" "length (mdk_iv keys) = 16"
  shows "\<exists>out. stream_decryptor_update M chunk (decryptor_after keys T) = (Inr out, decryptor_after keys (T @ chunk)) \<and>
    plain_after M keys (T @ chunk) = plain_after M keys T @ out"
proof -
  let ?pending = "drop (done_len T) T @ chunk"
  define n where "n = (length ?pending - 26) div 16 * 16"
  have step: "done_len (T @ chunk) = done_len T + n" by (simp add: n_def done_len_step)
  have n: "n \<le> length ?pending" by (simp add: n_def)
  have all: "T @ chunk = take (done_len T) T @ ?pending" by simp
  have pre: "take (done_len T) (T @ chunk) = take (done_len T) T" "drop (done_len T) (T @ chunk) = ?pending"
    using done_len_le [of T] by simp_all
  have parts: "take (done_len (T @ chunk)) (T @ chunk) = take (done_len T) T @ take n ?pending"
    "drop (done_len (T @ chunk)) (T @ chunk) = drop n ?pending"
    unfolding step by (simp only: take_add pre) (metis add.commute drop_drop pre(2))
  have mod: "length (take n ?pending) mod 16 = 0" using n by (simp only: length_take min_absorb2) (simp add: n_def)
  let ?plain = "cbc_decrypt (mx_decrypt_block M (mdk_cipher_key keys)) (last_block (mdk_iv keys) (take (done_len T) T)) (take n ?pending)"
  have "plain_after M keys (T @ chunk) = plain_after M keys T @ ?plain"
    using cbc_decrypt_append [OF assms(1) length_done assms(2)] by (simp only: plain_after_def parts)
  moreover have "stream_decryptor_update M chunk (decryptor_after keys T) =
      (Inr (if n = 0 then [] else ?plain), decryptor_after keys (T @ chunk))"
  proof -
    let ?d = "(decryptor_after keys T)\<lparr>sd_pending := ?pending\<rparr>"
    have n_def': "n = (length ?pending - 10 - 16) div 16 * 16" by (simp only: n_def diff_diff_left) simp
    have "stream_decryptor_update M chunk (decryptor_after keys T) =
        (if length ?pending \<le> 26 then (Ok [], ?d)
         else if n = 0 then (Ok [], ?d)
         else let (out, d) = decrypt_ciphertext_blocks M (take n ?pending) (?d\<lparr>sd_pending := drop n ?pending\<rparr>) in (Ok out, d))"
      unfolding n_def' stream_decryptor_update_def ensure_decryptor_not_finalized_def MEDIA_MAC_LEN_def AES_BLOCK_LEN_def
      by (simp add: decryptor_after_simps Let_def)
    moreover have "length ?pending \<le> 26 \<Longrightarrow> n = 0" by (simp add: n_def)
    moreover have "n = 0 \<Longrightarrow> ?d = decryptor_after keys (T @ chunk)"
      by (simp add: decryptor_after_def Let_def step pre del: take_append drop_append)
    moreover have "decrypt_ciphertext_blocks M (take n ?pending) (?d\<lparr>sd_pending := drop n ?pending\<rparr>) =
        (?plain, decryptor_after keys (T @ chunk))"
      unfolding decrypt_ciphertext_blocks_def
      by (subst decrypt_blocks_spec [OF mod])
        (simp add: decryptor_after_def Let_def parts last_block_append [OF length_done mod] del: take_append drop_append)
    ultimately show ?thesis by auto
  qed
  moreover have "n = 0 \<Longrightarrow> ?plain = []" by (simp add: cbc_decrypt_simps)
  ultimately show ?thesis by auto
qed

lemma decrypt_chunks_after:
  assumes "block_function (mx_decrypt_block M (mdk_cipher_key keys))" "length (mdk_iv keys) = 16"
  shows "\<exists>out. decrypt_chunks M chunks (decryptor_after keys T) = (Inr out, decryptor_after keys (T @ concat chunks)) \<and>
    plain_after M keys (T @ concat chunks) = plain_after M keys T @ out"
proof (induction chunks arbitrary: T)
  case (Cons chunk chunks)
  obtain out where "stream_decryptor_update M chunk (decryptor_after keys T) = (Inr out, decryptor_after keys (T @ chunk))"
    "plain_after M keys (T @ chunk) = plain_after M keys T @ out"
    using decryptor_update_after [OF assms] by blast
  with Cons.IH [of "T @ chunk"] show ?case by auto
qed simp

lemma mod_less_blocks: "n \<le> m \<Longrightarrow> n mod 16 = 0 \<Longrightarrow> (m - n) mod 16 = m mod (16 :: nat)"
  by (metis add_0 le_add_diff_inverse mod_add_left_eq)

lemma decryptor_finalize_after:
  assumes "ext_ok X" "media_ext_ok X M" "length media_key = 32" "derive_media_keys X media_key kind = Inr keys"
    and "length (mdk_iv keys) = 16" "length (mdk_cipher_key keys) = 32"
  shows "and_then (stream_decryptor_finalize X M (decryptor_after keys T)) (\<lambda>last. Ok (plain_after M keys T @ last)) =
    decrypt_media_bytes X T kind media_key"
proof (cases "length T \<le> 10")
  case True
  then show ?thesis
    using assms(3) by (simp add: decrypt_media_bytes_def stream_decryptor_finalize_def ensure_decryptor_not_finalized_def
        decryptor_after_simps validate_media_key_def MEDIA_KEY_LEN_def MEDIA_MAC_LEN_def)
next
  case False
  let ?n = "done_len T" and ?m = "length T - 10"
  let ?off = "?m - ?n" and ?D = "mx_decrypt_block M (mdk_cipher_key keys)"
  have n: "?n \<le> length T - 26" "?n mod 16 = 0" by (simp_all add: done_len_def)
  have "?n + 16 \<le> length T - 10 \<or> ?n = 0" using n by (cases "?n = 0") auto
  then have off: "?off \<noteq> 0" "?n \<le> ?m" using False by auto
  have off_mod: "?off mod 16 = ?m mod 16" using mod_less_blocks [OF off(2) n(2)] .
  let ?rest = "take ?off (drop ?n T)"
  have "?n + ?off = ?m" using off(2) by simp
  then have whole: "take ?m T = take ?n T @ ?rest" using take_add [of ?n ?off T] by (simp only:)
  have len_rest: "length ?rest = ?off" by simp
  have "?off + ?n = ?m" using off(2) by simp
  then have mac: "drop ?off (drop ?n T) = drop ?m T" by (simp only: drop_drop)
  obtain t where t: "hmac_sha256 X (mdk_iv keys @ take ?m T) (mdk_mac_key keys) = Inr t"
    "media_mac X keys (take ?m T) = Inr (take 10 t)"
    using media_mac_total [OF assms(1)] by blast
  have plain: "cbc_decrypt ?D (mdk_iv keys) (take ?m T) =
      plain_after M keys T @ cbc_decrypt ?D (last_block (mdk_iv keys) (take ?n T)) ?rest"
    using cbc_decrypt_append [OF media_blocks(2) [OF assms(2,6)] length_done assms(5)]
    by (simp only: plain_after_def whole)
  have fin: "stream_decryptor_finalize X M (decryptor_after keys T) =
      (if ?m mod 16 \<noteq> 0 then Err Decrypt
       else if \<not> constant_time_eq (take 10 t) (drop ?m T) then Err Decrypt
       else strip_pkcs7_padding (cbc_decrypt ?D (last_block (mdk_iv keys) (take ?n T)) ?rest))"
  proof -
    have "fst (decrypt_ciphertext_blocks_without_mac M ?rest d) = cbc_decrypt ?D (last_block (mdk_iv keys) (take ?n T)) ?rest"
      if "?m mod 16 = 0" "sd_cipher d = mdk_cipher_key keys"
        "sd_previous_cipher_block d = last_block (mdk_iv keys) (take ?n T)" for d
    proof -
      have "length ?rest mod 16 = 0" by (simp only: len_rest off_mod that(1))
      from decrypt_blocks_spec [OF this, of M d] show ?thesis by (simp only: fst_conv that(2,3))
    qed
    moreover have "length (drop ?n T) - 10 = ?off" "\<not> length (drop ?n T) \<le> 10" using off by simp_all
    ultimately show ?thesis
      using off_mod off(1) t(1)
      by (simp only: stream_decryptor_finalize_def MEDIA_MAC_LEN_def AES_BLOCK_LEN_def ensure_decryptor_not_finalized_def
          Let_def decryptor_after_simps mac whole append_assoc if_False and_then_simps) (simp add: decryptor_after_simps)
  qed
  have "decrypt_media_bytes X T kind media_key =
      (if \<not> constant_time_eq (take 10 t) (drop ?m T) then Err Decrypt
       else aes_256_cbc_decrypt_with_iv X (take ?m T) (mdk_cipher_key keys) (mdk_iv keys))"
    using False assms(3,4) t(2)
    by (simp add: decrypt_media_bytes_def validate_media_key_def MEDIA_KEY_LEN_def MEDIA_MAC_LEN_def Let_def)
  moreover have "pkcs7_unpad (cbc_decrypt ?D (mdk_iv keys) (take ?m T)) = map_option (\<lambda>x. plain_after M keys T @ x)
      (pkcs7_unpad (cbc_decrypt ?D (last_block (mdk_iv keys) (take ?n T)) ?rest))" if "?m mod 16 = 0"
  proof -
    have "length ?rest mod 16 = 0" "16 \<le> length ?rest" using that off off_mod by auto
    then have "16 \<le> length (cbc_decrypt ?D (last_block (mdk_iv keys) (take ?n T)) ?rest)"
      using cbc_decrypt_append [OF media_blocks(2) [OF assms(2,6)], of ?rest _ "[]"] length_last_block [OF assms(5)]
      by simp
    then show ?thesis by (simp only: plain unpad_append)
  qed
  ultimately show ?thesis
    using False unfolding fin media_cbc(2) [OF assms(2,6,5)] strip_is_unpad
    by (auto simp: and_then_def ok_or_def split: option.splits)
qed

lemma stream_decrypt_bytes:
  assumes "ext_ok X" "media_ext_ok X M"
  shows "stream_decrypt X M kind media_key chunks = decrypt_media_bytes X (concat chunks) kind media_key"
proof (cases "length media_key = 32")
  case True
  with media_keys_total [OF assms(1)] obtain keys where k: "derive_media_keys X media_key kind = Inr keys"
    "length (mdk_iv keys) = 16" "length (mdk_cipher_key keys) = 32" by blast
  have "stream_decryptor_new X kind media_key = Inr (decryptor_after keys [])"
    using k True by (simp add: stream_decryptor_new_def validate_media_key_def MEDIA_KEY_LEN_def decryptor_after_def
        validate_len_def last_block_def done_len_def)
  moreover obtain out where "decrypt_chunks M chunks (decryptor_after keys []) = (Inr out, decryptor_after keys (concat chunks))"
    "plain_after M keys (concat chunks) = out"
    using decrypt_chunks_after [OF media_blocks(2) [OF assms(2) k(3)] k(2), of chunks "[]"]
    by (auto simp: plain_after_def done_len_def cbc_decrypt_simps)
  ultimately show ?thesis
    using decryptor_finalize_after [OF assms True k, of "concat chunks"] by (simp add: stream_decrypt_def)
qed (simp add: stream_decrypt_def stream_decryptor_new_def decrypt_media_bytes_def validate_media_key_def MEDIA_KEY_LEN_def)

section \<open>Encryption\<close>

primrec encrypt_chunks ::
  "media_ext \<Rightarrow> bytes list \<Rightarrow> MediaStreamEncryptor \<Rightarrow> (CryptoError + bytes) \<times> MediaStreamEncryptor" where
  "encrypt_chunks M [] e = (Ok [], e)"
| "encrypt_chunks M (chunk # chunks) e =
     (case stream_encryptor_update M chunk e of
        (Inl err, e) \<Rightarrow> (Err err, e)
      | (Inr out, e) \<Rightarrow>
          (case encrypt_chunks M chunks e of
             (Inl err, e) \<Rightarrow> (Err err, e)
           | (Inr outs, e) \<Rightarrow> (Ok (out @ outs), e)))"

definition stream_encrypt ::
  "ext \<Rightarrow> noise_ext \<Rightarrow> media_ext \<Rightarrow> MediaKind \<Rightarrow> bytes \<Rightarrow> bytes list \<Rightarrow> CryptoError + bytes \<times> MediaEncryptionMetadata" where
  "stream_encrypt X N M kind media_key chunks =
     and_then (stream_encryptor_with_key X kind media_key) (\<lambda>e.
     case encrypt_chunks M chunks e of
       (Inl err, e) \<Rightarrow> Err err
     | (Inr out, e) \<Rightarrow> and_then (stream_encryptor_finalize X N M e) (\<lambda>final.
         Ok (out @ mf_final_bytes final, mf_metadata final)))"

definition full_len :: "bytes \<Rightarrow> nat" where
  "full_len T = length T div 16 * 16"

definition cipher_after :: "media_ext \<Rightarrow> MediaKeyMaterial \<Rightarrow> bytes \<Rightarrow> bytes" where
  "cipher_after M keys T =
     cbc_encrypt (mx_encrypt_block M (mdk_cipher_key keys)) (mdk_iv keys) (take (full_len T) T)"

definition encryptor_after :: "media_ext \<Rightarrow> bytes \<Rightarrow> MediaKeyMaterial \<Rightarrow> bytes \<Rightarrow> MediaStreamEncryptor" where
  "encryptor_after M media_key keys T = (let c = cipher_after M keys T in
     \<lparr>se_media_key = media_key, se_cipher = mdk_cipher_key keys, se_previous_cipher_block = last_block (mdk_iv keys) c,
      se_pending_plaintext = drop (full_len T) T, se_plaintext_hasher = T, se_encrypted_hasher = c,
      se_mac_key = mdk_mac_key keys, se_mac = mdk_iv keys @ c, se_file_length = word_of_nat (length T),
      se_finalized = False\<rparr>)"

lemma encryptor_after_simps:
  "se_media_key (encryptor_after M k keys T) = k" "se_cipher (encryptor_after M k keys T) = mdk_cipher_key keys"
  "se_previous_cipher_block (encryptor_after M k keys T) = last_block (mdk_iv keys) (cipher_after M keys T)"
  "se_pending_plaintext (encryptor_after M k keys T) = drop (full_len T) T"
  "se_plaintext_hasher (encryptor_after M k keys T) = T"
  "se_encrypted_hasher (encryptor_after M k keys T) = cipher_after M keys T"
  "se_mac_key (encryptor_after M k keys T) = mdk_mac_key keys"
  "se_mac (encryptor_after M k keys T) = mdk_iv keys @ cipher_after M keys T"
  "se_file_length (encryptor_after M k keys T) = word_of_nat (length T)" "\<not> se_finalized (encryptor_after M k keys T)"
  by (simp_all add: encryptor_after_def Let_def)

lemma full_len_le: "full_len T \<le> length T"
  by (simp add: full_len_def)

lemma length_full: "length (take (full_len T) T) mod 16 = 0"
  using full_len_le [of T] by (simp add: full_len_def min_absorb2)

lemma full_len_step:
  "full_len (T @ chunk) = full_len T + length (drop (full_len T) T @ chunk) div 16 * 16"
  using whole_blocks_add [of "length T div 16" "length (T @ chunk)"] full_len_le [of T]
  by (simp add: full_len_def mult.commute)

lemma encryptor_update_after:
  assumes "block_function (mx_encrypt_block M (mdk_cipher_key keys))" "length (mdk_iv keys) = 16"
    and "length T < 2 ^ 64"
  shows "length (T @ chunk) < 2 ^ 64 \<Longrightarrow>
      \<exists>out. stream_encryptor_update M chunk (encryptor_after M k keys T) = (Inr out, encryptor_after M k keys (T @ chunk)) \<and>
        cipher_after M keys (T @ chunk) = cipher_after M keys T @ out"
    and "\<not> length (T @ chunk) < 2 ^ 64 \<Longrightarrow>
      stream_encryptor_update M chunk (encryptor_after M k keys T) = (Inl Encrypt, encryptor_after M k keys T)"
proof -
  have "unat (word_of_nat (length T) :: u64) = length T" using assms(3) by (simp add: unat_of_nat)
  then have len: "and_then (ensure_encryptor_not_finalized (encryptor_after M k keys T)) (\<lambda>_.
      and_then (ok_or (u64_of_len (length chunk)) Encrypt) (\<lambda>n.
      ok_or (checked_add_u64 (se_file_length (encryptor_after M k keys T)) n) Encrypt)) =
    (if length (T @ chunk) < 2 ^ 64 then Inr (word_of_nat (length (T @ chunk))) else Inl Encrypt)"
    by (simp add: ensure_encryptor_not_finalized_def encryptor_after_simps u64_of_len_def checked_add_u64_def unat_of_nat)
  show "stream_encryptor_update M chunk (encryptor_after M k keys T) = (Inl Encrypt, encryptor_after M k keys T)"
    if "\<not> length (T @ chunk) < 2 ^ 64"
    unfolding stream_encryptor_update_def len using that by simp
  show "\<exists>out. stream_encryptor_update M chunk (encryptor_after M k keys T) = (Inr out, encryptor_after M k keys (T @ chunk)) \<and>
        cipher_after M keys (T @ chunk) = cipher_after M keys T @ out" if l: "length (T @ chunk) < 2 ^ 64"
  proof -
    let ?pending = "drop (full_len T) T @ chunk" and ?E = "mx_encrypt_block M (mdk_cipher_key keys)"
    define n where "n = length ?pending div 16 * 16"
    have step: "full_len (T @ chunk) = full_len T + n" by (simp add: n_def full_len_step)
    have n: "n \<le> length ?pending" by (simp add: n_def)
    have pre: "take (full_len T) (T @ chunk) = take (full_len T) T" "drop (full_len T) (T @ chunk) = ?pending"
      using full_len_le [of T] by simp_all
    have parts: "take (full_len (T @ chunk)) (T @ chunk) = take (full_len T) T @ take n ?pending"
      "drop (full_len (T @ chunk)) (T @ chunk) = drop n ?pending"
      unfolding step by (simp only: take_add pre) (metis add.commute drop_drop pre(2))
    have mod: "length (take n ?pending) mod 16 = 0" using n by (simp only: length_take min_absorb2) (simp add: n_def)
    let ?c = "cbc_encrypt ?E (last_block (mdk_iv keys) (cipher_after M keys T)) (take n ?pending)"
    have c: "cipher_after M keys (T @ chunk) = cipher_after M keys T @ ?c"
      using cbc_encrypt_append [OF assms(1) length_full assms(2)] by (simp only: cipher_after_def parts)
    have c_mod: "length (cipher_after M keys T) mod 16 = 0" "length ?c mod 16 = 0"
      using cbc_encrypt_append [OF assms(1) length_full assms(2), of T "[]"] length_full [of T]
        cbc_encrypt_append [OF assms(1) mod length_last_block [OF assms(2)], of _ "[]"] mod
      by (simp_all only: cipher_after_def)
    let ?e = "(encryptor_after M k keys T)\<lparr>se_file_length := word_of_nat (length (T @ chunk)),
      se_plaintext_hasher := T @ chunk, se_pending_plaintext := ?pending\<rparr>"
    have "stream_encryptor_update M chunk (encryptor_after M k keys T) =
        (if length ?pending div 16 = 0 then (Ok [], ?e)
         else let (out, e) = encrypt_plaintext_blocks M (take n ?pending) (?e\<lparr>se_pending_plaintext := drop n ?pending\<rparr>) in (Ok out, e))"
      unfolding stream_encryptor_update_def len n_def AES_BLOCK_LEN_def Let_def using l
      by (simp add: encryptor_after_simps)
    moreover have "length ?pending div 16 = 0 \<Longrightarrow> n = 0" by (simp add: n_def)
    moreover have "n = 0 \<Longrightarrow> ?c = []" by (simp add: cbc_encrypt_simps)
    moreover have "n = 0 \<Longrightarrow> ?e = encryptor_after M k keys (T @ chunk)"
      by (simp add: encryptor_after_def Let_def step pre c cbc_encrypt_simps del: take_append drop_append)
    moreover have "encrypt_plaintext_blocks M (take n ?pending) (?e\<lparr>se_pending_plaintext := drop n ?pending\<rparr>) =
        (?c, encryptor_after M k keys (T @ chunk))"
      using assms(1,2)
      by (subst encrypt_blocks_spec [OF mod])
        (simp_all add: encryptor_after_def Let_def parts c length_last_block last_block_append [OF c_mod]
          del: take_append drop_append)
    ultimately show ?thesis using c by auto
  qed
qed

lemma encrypt_chunks_after:
  assumes "block_function (mx_encrypt_block M (mdk_cipher_key keys))" "length (mdk_iv keys) = 16"
  shows "length T < 2 ^ 64 \<Longrightarrow>
    if length (T @ concat chunks) < 2 ^ 64
    then \<exists>out. encrypt_chunks M chunks (encryptor_after M k keys T) = (Inr out, encryptor_after M k keys (T @ concat chunks)) \<and>
      cipher_after M keys (T @ concat chunks) = cipher_after M keys T @ out
    else fst (encrypt_chunks M chunks (encryptor_after M k keys T)) = Inl Encrypt"
proof (induction chunks arbitrary: T)
  case (Cons chunk chunks)
  show ?case
  proof (cases "length (T @ chunk) < 2 ^ 64")
    case True
    then obtain out where "stream_encryptor_update M chunk (encryptor_after M k keys T) = (Inr out, encryptor_after M k keys (T @ chunk))"
      "cipher_after M keys (T @ chunk) = cipher_after M keys T @ out"
      using encryptor_update_after(1) [OF assms Cons.prems] by blast
    with Cons.IH [OF True] show ?thesis by (auto split: prod.splits sum.splits if_splits)
  qed (simp add: encryptor_update_after(2) [OF assms Cons.prems])
qed simp

lemma encryptor_finalize_after:
  assumes "ext_ok X" "media_ext_ok X M" "length media_key = 32" "derive_media_keys X media_key kind = Inr keys"
    and "length (mdk_iv keys) = 16" "length (mdk_cipher_key keys) = 32" "length T < 2 ^ 64"
  shows "and_then (stream_encryptor_finalize X N M (encryptor_after M media_key keys T))
      (\<lambda>final. Ok (cipher_after M keys T @ mf_final_bytes final, mf_metadata final)) =
    and_then (encrypt_media_bytes_with_key X N T kind media_key) (\<lambda>e. Ok (em_ciphertext_with_mac e, media_metadata e))"
proof -
  let ?E = "mx_encrypt_block M (mdk_cipher_key keys)" and ?e = "encryptor_after M media_key keys T"
  let ?rest = "pkcs7_pad (drop (full_len T) T)"
  let ?c = "cbc_encrypt ?E (last_block (mdk_iv keys) (cipher_after M keys T)) ?rest"
  note E = media_blocks(1) [OF assms(2,6)]
  have whole: "cbc_encrypt ?E (mdk_iv keys) (pkcs7_pad T) = cipher_after M keys T @ ?c"
    using cbc_encrypt_append [OF E length_full assms(5), of T ?rest] pad_append [OF length_full, of T "drop (full_len T) T"]
    by (simp add: cipher_after_def)
  have rest: "length ?rest mod 16 = 0" by (simp add: length_pad)
  obtain t where t: "hmac_sha256 X (mdk_iv keys @ cipher_after M keys T @ ?c) (mdk_mac_key keys) = Inr t"
    "media_mac X keys (cipher_after M keys T @ ?c) = Inr (take 10 t)"
    using media_mac_total [OF assms(1)] by blast
  let ?e1 = "?e\<lparr>se_finalized := True, se_pending_plaintext := []\<rparr>"
  have "encrypt_plaintext_blocks M ?rest ?e1 =
      (?c, ?e1\<lparr>se_previous_cipher_block := last_block (se_previous_cipher_block ?e) ?c, se_mac := se_mac ?e @ ?c,
        se_encrypted_hasher := se_encrypted_hasher ?e @ ?c\<rparr>)"
    using E assms(5) by (subst encrypt_blocks_spec [OF rest]) (simp_all add: encryptor_after_simps length_last_block Let_def)
  moreover have "\<not> 16 \<le> n mod (16 :: nat)" for n by (simp add: not_le)
  ultimately have fin: "stream_encryptor_finalize X N M ?e = Inr \<lparr>mf_final_bytes = ?c @ take 10 t,
      mf_metadata = \<lparr>mm_media_key = media_key, mm_mac = take 10 t, mm_file_sha256 = n_sha256 N T,
        mm_file_enc_sha256 = n_sha256 N (cipher_after M keys T @ ?c @ take 10 t), mm_file_length = word_of_nat (length T)\<rparr>\<rparr>"
    using t(1) by (simp add: stream_encryptor_finalize_def ensure_encryptor_not_finalized_def AES_BLOCK_LEN_def
        MEDIA_MAC_LEN_def encryptor_after_simps pkcs7_pad_def Let_def)
  have "encrypt_media_bytes_with_key X N T kind media_key = Inr \<lparr>em_media_key = media_key,
      em_ciphertext_with_mac = cipher_after M keys T @ ?c @ take 10 t, em_mac = take 10 t, em_file_sha256 = n_sha256 N T,
      em_file_enc_sha256 = n_sha256 N (cipher_after M keys T @ ?c @ take 10 t), em_file_length = word_of_nat (length T)\<rparr>"
    using assms(3,4,7) t(2) media_cbc(1) [OF assms(2,6,5), of T]
    by (simp add: encrypt_media_bytes_with_key_def validate_media_key_def MEDIA_KEY_LEN_def whole u64_of_len_def Let_def)
  with fin show ?thesis by (simp add: media_metadata_def)
qed

lemma stream_encrypt_bytes:
  assumes "ext_ok X" "media_ext_ok X M"
  shows "stream_encrypt X N M kind media_key chunks =
    and_then (encrypt_media_bytes_with_key X N (concat chunks) kind media_key)
      (\<lambda>e. Ok (em_ciphertext_with_mac e, media_metadata e))"
proof (cases "length media_key = 32")
  case True
  with media_keys_total [OF assms(1)] obtain keys where k: "derive_media_keys X media_key kind = Inr keys"
    "length (mdk_iv keys) = 16" "length (mdk_cipher_key keys) = 32" by blast
  have new: "stream_encryptor_with_key X kind media_key = Inr (encryptor_after M media_key keys [])"
    using k True by (simp add: stream_encryptor_with_key_def validate_media_key_def MEDIA_KEY_LEN_def encryptor_after_def
        validate_len_def last_block_def full_len_def cipher_after_def cbc_encrypt_simps)
  have empty: "cipher_after M keys [] = []" by (simp add: cipher_after_def full_len_def cbc_encrypt_simps)
  note run = encrypt_chunks_after [OF media_blocks(1) [OF assms(2) k(3)] k(2), of "[]" chunks media_key]
  show ?thesis
  proof (cases "length (concat chunks) < 2 ^ 64")
    case l: True
    then obtain out where "encrypt_chunks M chunks (encryptor_after M media_key keys []) =
        (Inr out, encryptor_after M media_key keys (concat chunks))" "cipher_after M keys (concat chunks) = out"
      using run empty by auto
    with new show ?thesis
      using encryptor_finalize_after [OF assms True k l, of N] by (simp add: stream_encrypt_def)
  next
    case False
    moreover obtain t where "media_mac X keys (cbc_encrypt (mx_encrypt_block M (mdk_cipher_key keys)) (mdk_iv keys)
        (pkcs7_pad (concat chunks))) = Inr t"
      using media_mac_total [OF assms(1)] by blast
    ultimately show ?thesis
      using run new k(1) True media_cbc(1) [OF assms(2) k(3,2), of "concat chunks"]
      by (auto simp: stream_encrypt_def encrypt_media_bytes_with_key_def validate_media_key_def MEDIA_KEY_LEN_def
          u64_of_len_def Let_def split: prod.splits sum.splits)
  qed
qed (simp add: stream_encrypt_def stream_encryptor_with_key_def encrypt_media_bytes_with_key_def validate_media_key_def
    MEDIA_KEY_LEN_def)

text \<open>
  C1: a media stream gives what the functions on whole files give. However a file is cut into chunks,
  the encryptor returns the ciphertext, the MAC, the two hashes and the length of
  \<open>encrypt_media_bytes_with_key\<close>, and the decryptor the plaintext of \<open>decrypt_media_bytes\<close>; where the
  one fails, with a key of a wrong length, a short or damaged file or a length that does not fit, so
  does the other, with the same error.
\<close>

theorem media_streams_agree:
  assumes "ext_ok X" and "media_ext_ok X M"
  shows "stream_encrypt X N M kind media_key chunks =
      and_then (encrypt_media_bytes_with_key X N (concat chunks) kind media_key)
        (\<lambda>e. Ok (em_ciphertext_with_mac e, media_metadata e)) \<and>
    stream_decrypt X M kind media_key chunks = decrypt_media_bytes X (concat chunks) kind media_key"
  using stream_encrypt_bytes [OF assms] stream_decrypt_bytes [OF assms] by simp

text \<open>
  C2: what is encrypted is decrypted. A file of less than \<open>2 ^ 64\<close> bytes is encrypted as a stream under
  any key of 32 bytes, the metadata hold its hashes and its length, and the ciphertext is decrypted
  to the file, both cut into chunks in any way. Whatever is decrypted ends in the MAC of the bytes
  before it under the keys of the file.
\<close>

theorem media_stream_roundtrip:
  assumes "ext_ok X" and "media_ext_ok X M" and "length media_key = 32" and "length (concat chunks) < 2 ^ 64"
  shows "(\<exists>f metadata. stream_encrypt X N M kind media_key chunks = Inr (f, metadata) \<and>
      mm_file_sha256 metadata = n_sha256 N (concat chunks) \<and> mm_file_enc_sha256 metadata = n_sha256 N f \<and>
      unat (mm_file_length metadata) = length (concat chunks) \<and>
      (\<forall>parts. concat parts = f \<longrightarrow> stream_decrypt X M kind media_key parts = Inr (concat chunks))) \<and>
    (\<forall>parts p. stream_decrypt X M kind media_key parts = Inr p \<longrightarrow>
      (\<exists>keys c mac. derive_media_keys X media_key kind = Inr keys \<and> concat parts = c @ mac \<and> media_mac X keys c = Inr mac))"
proof -
  from media_keys_total [OF assms(1,3)] obtain keys where k: "derive_media_keys X media_key kind = Inr keys"
    "length (mdk_iv keys) = 16" "length (mdk_cipher_key keys) = 32" by blast
  let ?c = "x_aes_cbc_encrypt X (mdk_cipher_key keys) (mdk_iv keys) (concat chunks)"
  obtain t where t: "hmac_sha256 X (mdk_iv keys @ ?c) (mdk_mac_key keys) = Inr t" "media_mac X keys ?c = Inr (take 10 t)"
    using media_mac_total [OF assms(1)] by blast
  have len: "length (take 10 t) = 10" using hmac_sha256_total [OF assms(1), of "mdk_iv keys @ ?c" "mdk_mac_key keys"] t(1) by auto
  let ?file = "?c @ take 10 t"
  have aes: "?c \<noteq> []" "x_aes_cbc_decrypt X (mdk_cipher_key keys) (mdk_iv keys) ?c = Some (concat chunks)"
    using assms(1) by (simp_all add: ext_ok_def)
  have dec: "decrypt_media_bytes X ?file kind media_key = Inr (concat chunks)"
    using k t(2) len aes assms(3)
    by (simp add: decrypt_media_bytes_def validate_media_key_def MEDIA_KEY_LEN_def MEDIA_MAC_LEN_def Let_def
        constant_time_eq_iff aes_256_cbc_decrypt_with_iv_def validate_len_def)
  have enc: "encrypt_media_bytes_with_key X N (concat chunks) kind media_key = Inr \<lparr>em_media_key = media_key,
      em_ciphertext_with_mac = ?file, em_mac = take 10 t, em_file_sha256 = n_sha256 N (concat chunks),
      em_file_enc_sha256 = n_sha256 N ?file, em_file_length = word_of_nat (length (concat chunks))\<rparr>"
    using k t(2) assms(3,4)
    by (simp add: encrypt_media_bytes_with_key_def validate_media_key_def MEDIA_KEY_LEN_def u64_of_len_def Let_def
        aes_256_cbc_encrypt_with_iv_def validate_len_def)
  have "\<exists>keys c mac. derive_media_keys X media_key kind = Inr keys \<and> f = c @ mac \<and> media_mac X keys c = Inr mac"
    if "decrypt_media_bytes X f kind media_key = Inr p" for f p
  proof -
    let ?n = "length f - 10"
    have "media_mac X keys (take ?n f) = Inr (drop ?n f)"
      using that k(1) by (auto simp: decrypt_media_bytes_def MEDIA_MAC_LEN_def Let_def constant_time_eq_iff
          and_then_eq_Ok split: if_splits)
    with k(1) show ?thesis by (metis append_take_drop_id)
  qed
  with dec enc show ?thesis
    using assms(4) by (simp add: stream_encrypt_bytes [OF assms(1,2)] stream_decrypt_bytes [OF assms(1,2)]
        media_metadata_def unat_of_nat)
qed

text \<open>The payload of a media retry is read back with the key of the file and the id of the stanza.\<close>

lemma media_retry_roundtrip:
  assumes "ext_ok X" and "noise_ext_ok N" and "media_ext_ok X M" and "length media_key = 32" and "length iv = 12"
    and "stanza_id \<noteq> []" and "length (mx_enc_notification M notification) \<le> 2 ^ 36"
  shows "\<exists>payload. encrypt_media_retry_notification_with_iv X N M notification media_key stanza_id iv = Inr payload \<and>
    decrypt_media_retry_notification X N M payload media_key stanza_id = Inr notification"
proof -
  have "\<exists>key. hkdf_sha256 X media_key 32 [] MEDIA_RETRY_INFO = Inr key \<and> length key = 32"
    by (rule hkdf_sha256_total [OF assms(1)]) simp
  then obtain key where key: "derive_media_retry_key X media_key = Inr key" "length key = 32"
    using assms(4) by (auto simp: derive_media_retry_key_def validate_media_key_def MEDIA_KEY_LEN_def)
  obtain c where "n_gcm_encrypt N key iv (bytes_of stanza_id) (mx_enc_notification M notification) = Some c"
    "length c = length (mx_enc_notification M notification) + 16"
    "n_gcm_decrypt N key iv (bytes_of stanza_id) c = Some (mx_enc_notification M notification)"
    using assms(2,7) unfolding noise_ext_ok_def by blast
  moreover have "mx_dec_notification M (mx_enc_notification M notification) = Inr notification"
    using assms(3) by (simp add: media_ext_ok_def)
  ultimately show ?thesis
    using key assms(5,6)
    by (simp add: encrypt_media_retry_notification_with_iv_def decrypt_media_retry_notification_def validate_media_text_def
        validate_retry_iv_def MEDIA_RETRY_IV_LEN_def aes_256_gcm_encrypt_def aes_256_gcm_decrypt_def validate_len_def)
qed

text \<open>A block cipher that adds the key to the block, and CBC over it.\<close>

definition put_notification :: "MediaRetryNotification \<Rightarrow> bytes" where
  "put_notification v = put_opt put_str (map_option bytes_of (mrn_stanza_id v)) @
     put_opt put_str (map_option bytes_of (mrn_direct_path v)) @ put_opt put_u32 (mrn_result v) @
     put_opt put_str (mrn_message_secret v)"

definition get_notification :: "bytes \<Rightarrow> string + MediaRetryNotification" where
  "get_notification bs =
     (let (a, bs) = get_opt get_str bs; (b, bs) = get_opt get_str bs; (c, bs) = get_opt get_u32 bs;
          (d, _) = get_opt get_str bs
      in Ok \<lparr>mrn_stanza_id = map_option string_of_bytes a, mrn_direct_path = map_option string_of_bytes b, mrn_result = c,
        mrn_message_secret = d\<rparr>)"

definition toy_media :: media_ext where
  "toy_media = \<lparr>mx_encrypt_block = (\<lambda>k b. map2 (XOR) b (take 16 k)), mx_decrypt_block = (\<lambda>k b. map2 (XOR) b (take 16 k)),
     mx_enc_receipt = (\<lambda>r. []), mx_enc_notification = put_notification, mx_dec_notification = get_notification\<rparr>"

definition toy_cbc :: ext where
  "toy_cbc = toy\<lparr>
     x_aes_cbc_encrypt := (\<lambda>k iv p. if length k = 32 \<and> length iv = 16
       then cbc_encrypt (mx_encrypt_block toy_media k) iv (pkcs7_pad p) else 0 # p),
     x_aes_cbc_decrypt := (\<lambda>k iv c. if length k = 32 \<and> length iv = 16
       then (if c = [] \<or> length c mod 16 \<noteq> 0 then None
         else pkcs7_unpad (cbc_decrypt (mx_decrypt_block toy_media k) iv c))
       else Some (tl c))\<rparr>"

lemma xor_twice: "length a = length b \<Longrightarrow> map2 (XOR) (map2 (XOR) a b) b = (a :: bytes)"
  by (induction a b rule: list_induct2) (simp_all add: xor.assoc)

lemma cbc_roundtrip:
  assumes "block_function E" "\<And>b. length b = 16 \<Longrightarrow> D (E b) = b"
  shows "length p mod 16 = 0 \<Longrightarrow> length prev = 16 \<Longrightarrow> cbc_decrypt D prev (cbc_encrypt E prev p) = p"
proof (induction p arbitrary: prev rule: block_induct)
  case (Block b p)
  let ?x = "map2 (XOR) b prev"
  have x: "length ?x = 16" using Block(1,4) by simp
  then have c: "length (E ?x) = 16" by (rule block_functionD [OF assms(1)])
  show ?case
    using Block.IH [OF c] xor_twice [of b prev] Block(1,4)
    by (simp add: cbc_encrypt_simps(2) [OF Block(1)] cbc_decrypt_simps(2) [OF c] assms(2) [OF x])
qed (simp add: cbc_encrypt_simps cbc_decrypt_simps)

lemma toy_cbc_ok: "ext_ok toy_cbc" "media_ext_ok toy_cbc toy_media"
proof -
  note end_parts = codec_parts [where rest = "[]", simplified]
  have "get_notification (put_notification v) = Inr v" for v
    by (simp add: get_notification_def put_notification_def codec_parts end_parts option.map_comp comp_def option.map_ident)
  then show "media_ext_ok toy_cbc toy_media"
    by (simp add: media_ext_ok_def toy_cbc_def) (simp add: toy_media_def)
  have "x_aes_cbc_encrypt toy_cbc k iv p \<noteq> [] \<and> x_aes_cbc_decrypt toy_cbc k iv (x_aes_cbc_encrypt toy_cbc k iv p) = Some p" for k iv p
  proof (cases "length k = 32 \<and> length iv = 16")
    case True
    let ?E = "mx_encrypt_block toy_media k" and ?D = "mx_decrypt_block toy_media k"
    have E: "block_function ?E" "\<And>b. length b = 16 \<Longrightarrow> ?D (?E b) = b"
      using True by (simp_all add: block_function_def toy_media_def xor_twice)
    have l: "length (pkcs7_pad p) mod 16 = 0" by (simp add: length_pad)
    then have "length (cbc_encrypt ?E iv (pkcs7_pad p)) = length (pkcs7_pad p)"
      using cbc_encrypt_append [OF E(1) l, of iv "[]"] True by simp
    then show ?thesis
      using True cbc_roundtrip [of ?E ?D, OF E l, of iv] l by (auto simp: toy_cbc_def unpad_pad length_pad)
  next
    case False
    then show ?thesis by (auto simp: toy_cbc_def)
  qed
  then show "ext_ok toy_cbc"
    using toy_ok unfolding ext_ok_def by (simp add: toy_cbc_def)
qed

theorem media_streams_agree_witness:
  "stream_encrypt toy_cbc toy_noise toy_media MkImage (replicate 32 7) [[1, 2], [], [3]] =
     stream_encrypt toy_cbc toy_noise toy_media MkImage (replicate 32 7) [[1, 2, 3]] \<and>
   stream_decrypt toy_cbc toy_media MkImage [] [[1]] = Inl InvalidKeyLength"
  using media_streams_agree [OF toy_cbc_ok, of toy_noise MkImage "replicate 32 7" "[[1, 2], [], [3]]"]
    media_streams_agree [OF toy_cbc_ok, of toy_noise MkImage "replicate 32 7" "[[1, 2, 3]]"]
    media_streams_agree [OF toy_cbc_ok, of toy_noise MkImage "[]" "[[1]]"]
  by (simp add: decrypt_media_bytes_def validate_media_key_def MEDIA_KEY_LEN_def)

theorem media_stream_roundtrip_witness:
  "\<exists>f metadata. stream_encrypt toy_cbc toy_noise toy_media MkVideo (replicate 32 7) [[1, 2], [3]] = Inr (f, metadata) \<and>
     stream_decrypt toy_cbc toy_media MkVideo (replicate 32 7) [take 3 f, drop 3 f] = Inr [1, 2, 3]"
proof -
  have "length (replicate 32 (7 :: u8)) = 32" "length (concat [[1, 2], [3 :: u8]]) < 2 ^ 64" by simp_all
  from media_stream_roundtrip [OF toy_cbc_ok this, of toy_noise MkVideo] obtain f metadata where
    s: "stream_encrypt toy_cbc toy_noise toy_media MkVideo (replicate 32 7) [[1, 2], [3]] = Inr (f, metadata)"
    "\<forall>parts. concat parts = f \<longrightarrow>
      stream_decrypt toy_cbc toy_media MkVideo (replicate 32 7) parts = Inr (concat [[1, 2], [3]])" by blast
  then show ?thesis using spec [OF s(2), of "[take 3 f, drop 3 f]"] by auto
qed

end
