(* ===== verification/Query.thy ===== *)
theory Query
  imports CodecDecode Core "HOL-Library.AList"
begin

text \<open>
  The queries that wait for an answer, \<^verbatim>\<open>crates/wa-core/src/query.rs\<close>. A query is registered under a
  tag and handed a waiter, the receiving end of a one-shot channel; an answer with the tag is sent
  into the channel.
\<close>

section \<open>One-shot channels\<close>

text \<open>
  A channel of \<^verbatim>\<open>tokio::sync::oneshot\<close>: the value that was sent, and which of its ends are there. A
  value can be sent once, and only while the receiver is there.
\<close>

record oneshot =
  os_value :: "bytes option"
  os_sender :: bool
  os_receiver :: bool

definition oneshot_new :: oneshot where
  "oneshot_new = \<lparr>os_value = None, os_sender = True, os_receiver = True\<rparr>"

section \<open>The manager\<close>

text \<open>
  \<open>qi_waiters\<close> is the table from tags to senders, behind its mutex: \<open>qi_poisoned\<close> holds the error text
  once a task has panicked with the lock. The channels are numbered as they are made.
\<close>

record QueryInner =
  qi_prefix :: string
  qi_next_id :: u64
  qi_default_timeout :: "nat option"
  qi_waiters :: "(string \<times> nat) list"
  qi_poisoned :: "string option"
  qi_channels :: "oneshot list"

record QueryWaiter =
  qw_tag :: string
  qw_timeout :: "nat option"
  qw_channel :: nat

definition query_with_prefix :: "string \<Rightarrow> nat option \<Rightarrow> QueryInner" where
  "query_with_prefix prefix default_timeout =
     \<lparr>qi_prefix = prefix, qi_next_id = 1, qi_default_timeout = default_timeout, qi_waiters = [],
      qi_poisoned = None, qi_channels = []\<rparr>"

definition query_new :: "nat option \<Rightarrow> QueryInner" where
  "query_new default_timeout = query_with_prefix ''q'' default_timeout"

definition next_tag :: "QueryInner \<Rightarrow> string \<times> QueryInner" where
  "next_tag q = (qi_prefix q @ ''-'' @ show_nat (unat (qi_next_id q)), q\<lparr>qi_next_id := qi_next_id q + 1\<rparr>)"

text \<open>An end of a channel goes away.\<close>

definition drop_sender :: "nat \<Rightarrow> QueryInner \<Rightarrow> QueryInner" where
  "drop_sender c q = q\<lparr>qi_channels := (qi_channels q)[c := (qi_channels q ! c)\<lparr>os_sender := False\<rparr>]\<rparr>"

definition drop_receiver :: "nat \<Rightarrow> QueryInner \<Rightarrow> QueryInner" where
  "drop_receiver c q = q\<lparr>qi_channels := (qi_channels q)[c := (qi_channels q ! c)\<lparr>os_receiver := False\<rparr>]\<rparr>"

text \<open>\<open>HashMap::insert\<close> returns the sender that was under the tag, which is dropped then.\<close>

definition register_with_timeout ::
  "string \<Rightarrow> nat option \<Rightarrow> QueryInner \<Rightarrow> QueryWaiter core_result \<times> QueryInner" where
  "register_with_timeout tag timeout q =
     (case qi_poisoned q of
        Some e \<Rightarrow> (Err (Task e), q)
      | None \<Rightarrow>
          let c = length (qi_channels q);
              inserted = q\<lparr>qi_channels := qi_channels q @ [oneshot_new], qi_waiters := AList.update tag c (qi_waiters q)\<rparr> in
          case map_of (qi_waiters q) tag of
            Some previous \<Rightarrow> (Err (DuplicateQueryTag tag), drop_receiver c (drop_sender previous inserted))
          | None \<Rightarrow> (Ok \<lparr>qw_tag = tag, qw_timeout = timeout, qw_channel = c\<rparr>, inserted))"

definition register :: "string \<Rightarrow> QueryInner \<Rightarrow> QueryWaiter core_result \<times> QueryInner" where
  "register tag q = register_with_timeout tag (qi_default_timeout q) q"

text \<open>
  \<open>resolve\<close> takes the sender out of the table and, with the lock released, sends into its channel.
\<close>

definition resolve_take :: "string \<Rightarrow> QueryInner \<Rightarrow> nat option core_result \<times> QueryInner" where
  "resolve_take tag q =
     (case qi_poisoned q of
        Some e \<Rightarrow> (Err (Task e), q)
      | None \<Rightarrow> (Ok (map_of (qi_waiters q) tag), q\<lparr>qi_waiters := AList.delete tag (qi_waiters q)\<rparr>))"

definition resolve_send :: "nat option \<Rightarrow> bytes \<Rightarrow> QueryInner \<Rightarrow> bool \<times> QueryInner" where
  "resolve_send sender payload q =
     (case sender of
        None \<Rightarrow> (False, q)
      | Some c \<Rightarrow>
          if os_receiver (qi_channels q ! c)
          then (True, q\<lparr>qi_channels := (qi_channels q)[c := (qi_channels q ! c)\<lparr>os_value := Some payload, os_sender := False\<rparr>]\<rparr>)
          else (False, drop_sender c q))"

definition resolve :: "string \<Rightarrow> bytes \<Rightarrow> QueryInner \<Rightarrow> bool core_result \<times> QueryInner" where
  "resolve tag payload q =
     (case resolve_take tag q of
        (Inl e, q) \<Rightarrow> (Err e, q)
      | (Inr sender, q) \<Rightarrow> (let (r, q) = resolve_send sender payload q in (Ok r, q)))"

definition close_pending :: "QueryInner \<Rightarrow> nat core_result \<times> QueryInner" where
  "close_pending q =
     (case qi_poisoned q of
        Some e \<Rightarrow> (Err (Task e), q)
      | None \<Rightarrow> (Ok (length (qi_waiters q)), fold drop_sender (map snd (qi_waiters q)) (q\<lparr>qi_waiters := []\<rparr>)))"

definition pending_len :: "QueryInner \<Rightarrow> nat core_result" where
  "pending_len q = (case qi_poisoned q of Some e \<Rightarrow> Err (Task e) | None \<Rightarrow> Ok (length (qi_waiters q)))"

section \<open>The waiter\<close>

text \<open>By tag: whatever is under it, also if another query has been registered since.\<close>

definition remove_waiter :: "QueryWaiter \<Rightarrow> QueryInner \<Rightarrow> QueryInner" where
  "remove_waiter w q =
     (if qi_poisoned q \<noteq> None then q
      else case map_of (qi_waiters q) (qw_tag w) of
        None \<Rightarrow> q
      | Some c \<Rightarrow> drop_sender c (q\<lparr>qi_waiters := AList.delete (qw_tag w) (qi_waiters q)\<rparr>))"

text \<open>
  A poll of \<open>wait\<close>, with whether the timeout has elapsed: no result yet, or the result, after which
  the receiver is gone. The channel is polled before the timer.
\<close>

definition poll_wait :: "QueryWaiter \<Rightarrow> bool \<Rightarrow> QueryInner \<Rightarrow> bytes core_result option \<times> QueryInner" where
  "poll_wait w elapsed q =
     (let ch = qi_channels q ! qw_channel w in
      case os_value ch of
        Some payload \<Rightarrow> (Some (Ok payload), drop_receiver (qw_channel w) q)
      | None \<Rightarrow>
          if \<not> os_sender ch then (Some (Err ConnectionClosed), drop_receiver (qw_channel w) q)
          else if qw_timeout w \<noteq> None \<and> elapsed
          then (Some (Err TimedOut), drop_receiver (qw_channel w) (remove_waiter w q))
          else (None, q))"

text \<open>A waiter that is dropped before its wait has ended.\<close>

definition drop_waiter :: "QueryWaiter \<Rightarrow> QueryInner \<Rightarrow> QueryInner" where
  "drop_waiter w q = drop_receiver (qw_channel w) (remove_waiter w q)"

end
