(* ===== verification/Connection.thy ===== *)
theory Connection
  imports Query EventBuffer
begin

text \<open>
  The dispatch of inbound frames and the connection, \<^verbatim>\<open>crates/wa-core/src/router.rs\<close> and
  \<^verbatim>\<open>crates/wa-core/src/connection.rs\<close>: queries, the two tasks that write and read, and the ways a
  connection is closed, with every point where another task may come between as a step of its own.
\<close>

section \<open>Inbound stanzas\<close>

record InboundBinaryNode =
  in_response_tag :: "string option"
  in_node :: BinaryNode

definition response_tag :: "BinaryNode \<Rightarrow> string option" where
  "response_tag node = map_of (node_attrs node) ''id''"

definition inbound_from_node :: "BinaryNode \<Rightarrow> InboundBinaryNode" where
  "inbound_from_node node = \<lparr>in_response_tag = response_tag node, in_node = node\<rparr>"

definition inbound_encode :: "InboundBinaryNode \<Rightarrow> bytes core_result" where
  "inbound_encode inbound = map_err BinaryEncode (encode_binary_node (in_node inbound))"

definition decode_inbound_binary_node :: "(bytes \<Rightarrow> string + bytes) \<Rightarrow> bytes \<Rightarrow> InboundBinaryNode core_result" where
  "decode_inbound_binary_node inflate input =
     and_then (map_err BinaryDecode (decode_binary_node inflate input)) (\<lambda>node. Ok (inbound_from_node node))"

record InboundFrame =
  if_tag :: "string option"
  if_payload :: bytes

section \<open>State\<close>

datatype OutboundCommand = SendFrame bytes | CloseSink

text \<open>
  A query: registered with the frame to send, checked that the connection was open, waiting, and over.
  The writing task, the reading task, which may be about to send into the channel of a query, and the
  calls that close the connection, with what the swap of the flag returned.
\<close>

datatype query_state =
    NoQuery
  | Registered QueryWaiter "bytes core_result"
  | Checked QueryWaiter bytes
  | Waiting QueryWaiter
  | Finished "bytes core_result"
  | Cancelled

text \<open>A caller of \<open>send_frame\<close>, likewise.\<close>

datatype send_state = NoSend | SendChecked bytes | SendDone "unit core_result"

datatype outbound_state =
    OutRunning
  | OutWriting bytes
  | OutClosing
  | OutEnding "unit core_result"
  | OutDone "unit core_result"

datatype inbound_state =
    Reading
  | Sending "nat option" bytes "BinaryNode option"
  | InEnding "unit core_result"
  | InDone "unit core_result"

datatype closer = ByOutbound | ByInbound | ByClose nat

datatype closer_state =
    NotClosing | Swapping | Clearing bool | SendingClose bool
  | TakingOut bool | JoiningOut bool | TakingIn bool | JoiningIn bool | Emitting bool
  | CloseDone "unit core_result"

text \<open>\<open>cn_spawned\<close>: \<open>spawn\<close> has returned, so that callers have the connection.\<close>

record 'o connection =
  cn_queries :: QueryInner
  cn_events :: "'o Event list"
  cn_spawned :: bool
  cn_closed :: bool
  cn_capacity :: nat
  cn_outbound :: "OutboundCommand list"
  cn_sent :: "bytes list"
  cn_outbound_task :: outbound_state
  cn_outbound_handle :: bool
  cn_inbound_task :: inbound_state
  cn_inbound_handle :: bool
  cn_closers :: "closer \<Rightarrow> closer_state"
  cn_tasks :: "nat \<Rightarrow> query_state"
  cn_sends :: "nat \<Rightarrow> send_state"

text \<open>\<open>spawn\<close> up to the start of the two tasks; the open event comes after it, in a step of its own.\<close>

definition connection_spawn :: "QueryInner \<Rightarrow> nat \<Rightarrow> 'o connection" where
  "connection_spawn queries outbound_capacity =
     \<lparr>cn_queries = queries, cn_events = [], cn_spawned = False, cn_closed = False, cn_capacity = outbound_capacity,
      cn_outbound = [], cn_sent = [], cn_outbound_task = OutRunning, cn_outbound_handle = True,
      cn_inbound_task = Reading, cn_inbound_handle = True, cn_closers = (\<lambda>_. NotClosing), cn_tasks = (\<lambda>_. NoQuery),
      cn_sends = (\<lambda>_. NoSend)\<rparr>"

definition emit :: "'o Event \<Rightarrow> 'o connection \<Rightarrow> 'o connection" where
  "emit event s = s\<lparr>cn_events := cn_events s @ [event]\<rparr>"

definition set_task :: "nat \<Rightarrow> query_state \<Rightarrow> 'o connection \<Rightarrow> 'o connection" where
  "set_task i t s = s\<lparr>cn_tasks := (cn_tasks s)(i := t)\<rparr>"

definition set_send :: "nat \<Rightarrow> send_state \<Rightarrow> 'o connection \<Rightarrow> 'o connection" where
  "set_send k t s = s\<lparr>cn_sends := (cn_sends s)(k := t)\<rparr>"

definition set_closer :: "closer \<Rightarrow> closer_state \<Rightarrow> 'o connection \<Rightarrow> 'o connection" where
  "set_closer c t s = s\<lparr>cn_closers := (cn_closers s)(c := t)\<rparr>"

definition spawn_end :: "'o connection \<Rightarrow> 'o connection option" where
  "spawn_end s = (if cn_spawned s then None else Some (emit (ConnectionUpdate Open) (s\<lparr>cn_spawned := True\<rparr>)))"

section \<open>Queries\<close>

text \<open>\<open>query\<close> and \<open>query_node\<close> up to the registration; the latter takes the tag from the stanza or makes one.\<close>

definition query_start :: "nat \<Rightarrow> string \<Rightarrow> bytes core_result \<Rightarrow> 'o connection \<Rightarrow> 'o connection" where
  "query_start i tag frame s =
     (let (r, q) = register tag (cn_queries s) in
      set_task i (case r of Inl e \<Rightarrow> Finished (Err e) | Inr w \<Rightarrow> Registered w frame) (s\<lparr>cn_queries := q\<rparr>))"

definition query_node_tag :: "BinaryNode \<Rightarrow> QueryInner \<Rightarrow> string \<times> QueryInner" where
  "query_node_tag node q = (case response_tag node of Some tag \<Rightarrow> (tag, q) | None \<Rightarrow> next_tag q)"

definition with_id :: "string \<Rightarrow> BinaryNode \<Rightarrow> BinaryNode" where
  "with_id tag node = BinaryNode (node_tag node) (btree_insert ''id'' tag (node_attrs node)) (node_content node)"

definition query_node_start :: "nat \<Rightarrow> BinaryNode \<Rightarrow> 'o connection \<Rightarrow> 'o connection" where
  "query_node_start i node s =
     (let (tag, q) = query_node_tag node (cn_queries s) in
      query_start i tag (map_err BinaryEncode (encode_binary_node (with_id tag node))) (s\<lparr>cn_queries := q\<rparr>))"

text \<open>\<open>query_node\<close> decodes what the query returned.\<close>

definition query_node_result :: "(bytes \<Rightarrow> string + bytes) \<Rightarrow> bytes core_result \<Rightarrow> InboundBinaryNode core_result" where
  "query_node_result inflate r = and_then r (decode_inbound_binary_node inflate)"

text \<open>A query that fails on the way drops its waiter.\<close>

definition query_fail :: "nat \<Rightarrow> QueryWaiter \<Rightarrow> CoreError \<Rightarrow> 'o connection \<Rightarrow> 'o connection" where
  "query_fail i w e s = set_task i (Finished (Err e)) (s\<lparr>cn_queries := drop_waiter w (cn_queries s)\<rparr>)"

text \<open>\<open>send_frame\<close>: the check of the flag, then the send into the bounded channel of the writing task.\<close>

definition query_check :: "nat \<Rightarrow> 'o connection \<Rightarrow> 'o connection option" where
  "query_check i s =
     (case cn_tasks s i of
        Registered w (Inl e) \<Rightarrow> Some (query_fail i w e s)
      | Registered w (Inr frame) \<Rightarrow>
          Some (if cn_closed s then query_fail i w ConnectionClosed s else set_task i (Checked w frame) s)
      | _ \<Rightarrow> None)"

definition enqueue :: "OutboundCommand \<Rightarrow> 'o connection \<Rightarrow> 'o connection option" where
  "enqueue command s =
     (if length (cn_outbound s) < cn_capacity s then Some (s\<lparr>cn_outbound := cn_outbound s @ [command]\<rparr>) else None)"

fun is_out_done :: "outbound_state \<Rightarrow> bool" where
  "is_out_done (OutDone _) = True"
| "is_out_done _ = False"

definition query_enqueue :: "nat \<Rightarrow> 'o connection \<Rightarrow> 'o connection option" where
  "query_enqueue i s =
     (case cn_tasks s i of
        Checked w frame \<Rightarrow>
          if is_out_done (cn_outbound_task s) then Some (query_fail i w ConnectionClosed s)
          else map_option (set_task i (Waiting w)) (enqueue (SendFrame frame) s)
      | _ \<Rightarrow> None)"

definition query_poll :: "nat \<Rightarrow> bool \<Rightarrow> 'o connection \<Rightarrow> 'o connection option" where
  "query_poll i elapsed s =
     (case cn_tasks s i of
        Waiting w \<Rightarrow>
          (case poll_wait w elapsed (cn_queries s) of
             (Some r, q) \<Rightarrow> Some (set_task i (Finished r) (s\<lparr>cn_queries := q\<rparr>))
           | (None, _) \<Rightarrow> None)
      | _ \<Rightarrow> None)"

text \<open>The future of a query is dropped.\<close>

definition query_cancel :: "nat \<Rightarrow> 'o connection \<Rightarrow> 'o connection option" where
  "query_cancel i s =
     (case cn_tasks s i of
        Registered w _ \<Rightarrow> Some (set_task i Cancelled (s\<lparr>cn_queries := drop_waiter w (cn_queries s)\<rparr>))
      | Checked w _ \<Rightarrow> Some (set_task i Cancelled (s\<lparr>cn_queries := drop_waiter w (cn_queries s)\<rparr>))
      | Waiting w \<Rightarrow> Some (set_task i Cancelled (s\<lparr>cn_queries := drop_waiter w (cn_queries s)\<rparr>))
      | _ \<Rightarrow> None)"

text \<open>\<open>send_frame\<close> and \<open>send_node\<close> called by themselves, with the same two points.\<close>

definition send_frame_check :: "nat \<Rightarrow> bytes core_result \<Rightarrow> 'o connection \<Rightarrow> 'o connection option" where
  "send_frame_check k frame s =
     (if cn_sends s k \<noteq> NoSend \<or> \<not> cn_spawned s then None
      else Some (set_send k (case frame of
          Inl e \<Rightarrow> SendDone (Err e)
        | Inr bytes \<Rightarrow> if cn_closed s then SendDone (Err ConnectionClosed) else SendChecked bytes) s))"

definition send_frame_enqueue :: "nat \<Rightarrow> 'o connection \<Rightarrow> 'o connection option" where
  "send_frame_enqueue k s =
     (case cn_sends s k of
        SendChecked frame \<Rightarrow>
          if is_out_done (cn_outbound_task s) then Some (set_send k (SendDone (Err ConnectionClosed)) s)
          else map_option (set_send k (SendDone (Ok ()))) (enqueue (SendFrame frame) s)
      | _ \<Rightarrow> None)"

definition send_node_check :: "nat \<Rightarrow> BinaryNode \<Rightarrow> 'o connection \<Rightarrow> 'o connection option" where
  "send_node_check k node s = send_frame_check k (map_err BinaryEncode (encode_binary_node node)) s"

section \<open>The writing task\<close>

text \<open>
  \<open>run_outbound\<close>: a command is received, which frees its place in the channel, and the sink writes
  or closes. The task holds a sender of its own channel, so the loop ends only by a command or an
  error. At the end the connection is marked closed, and the task is over when that is done.
\<close>

definition outbound_recv :: "'o connection \<Rightarrow> 'o connection option" where
  "outbound_recv s =
     (case (cn_outbound_task s, cn_outbound s) of
        (OutRunning, SendFrame frame # rest) \<Rightarrow> Some (s\<lparr>cn_outbound := rest, cn_outbound_task := OutWriting frame\<rparr>)
      | (OutRunning, CloseSink # rest) \<Rightarrow> Some (s\<lparr>cn_outbound := rest, cn_outbound_task := OutClosing\<rparr>)
      | _ \<Rightarrow> None)"

definition outbound_step :: "unit core_result \<Rightarrow> 'o connection \<Rightarrow> 'o connection option" where
  "outbound_step result s =
     (case cn_outbound_task s of
        OutWriting frame \<Rightarrow>
          (case result of
             Inr _ \<Rightarrow> Some (s\<lparr>cn_sent := cn_sent s @ [frame], cn_outbound_task := OutRunning\<rparr>)
           | Inl e \<Rightarrow> Some (set_closer ByOutbound Swapping (s\<lparr>cn_outbound_task := OutEnding (Err e)\<rparr>)))
      | OutClosing \<Rightarrow> Some (set_closer ByOutbound Swapping (s\<lparr>cn_outbound_task := OutEnding result\<rparr>))
      | _ \<Rightarrow> None)"

fun is_close_done :: "closer_state \<Rightarrow> bool" where
  "is_close_done (CloseDone _) = True"
| "is_close_done _ = False"

definition outbound_end :: "'o connection \<Rightarrow> 'o connection option" where
  "outbound_end s =
     (case cn_outbound_task s of
        OutEnding r \<Rightarrow> if is_close_done (cn_closers s ByOutbound) then Some (s\<lparr>cn_outbound_task := OutDone r\<rparr>) else None
      | _ \<Rightarrow> None)"

section \<open>The reading task\<close>

text \<open>A stanza with an id is sent, encoded anew, to the query that waits for it.\<close>

definition inbound_decode :: "(bytes \<Rightarrow> string + bytes) \<Rightarrow> bytes \<Rightarrow> 'o connection \<Rightarrow> 'o connection" where
  "inbound_decode inflate payload s =
     (case decode_inbound_binary_node inflate payload of
        Inl _ \<Rightarrow> emit (Frame payload) (s\<lparr>cn_inbound_task := Reading\<rparr>)
      | Inr inbound \<Rightarrow>
          (case in_response_tag inbound of
             None \<Rightarrow> emit (RawNode (in_node inbound)) (s\<lparr>cn_inbound_task := Reading\<rparr>)
           | Some tag \<Rightarrow>
               (case inbound_encode inbound of
                  Inl e \<Rightarrow> s\<lparr>cn_inbound_task := InDone (Err e)\<rparr>
                | Inr encoded \<Rightarrow>
                    (case resolve_take tag (cn_queries s) of
                       (Inl e, q) \<Rightarrow> s\<lparr>cn_queries := q, cn_inbound_task := InDone (Err e)\<rparr>
                     | (Inr sender, q) \<Rightarrow>
                         s\<lparr>cn_queries := q, cn_inbound_task := Sending sender encoded (Some (in_node inbound))\<rparr>))))"

definition inbound_frame ::
  "(bytes \<Rightarrow> string + bytes) \<Rightarrow> InboundFrame \<Rightarrow> 'o connection \<Rightarrow> 'o connection option" where
  "inbound_frame inflate frame s =
     (if cn_inbound_task s \<noteq> Reading then None
      else Some (case if_tag frame of
          None \<Rightarrow> inbound_decode inflate (if_payload frame) s
        | Some tag \<Rightarrow>
            (case resolve_take tag (cn_queries s) of
               (Inl e, q) \<Rightarrow> s\<lparr>cn_queries := q, cn_inbound_task := InDone (Err e)\<rparr>
             | (Inr sender, q) \<Rightarrow> s\<lparr>cn_queries := q, cn_inbound_task := Sending sender (if_payload frame) None\<rparr>)))"

definition inbound_sent :: "(bytes \<Rightarrow> string + bytes) \<Rightarrow> 'o connection \<Rightarrow> 'o connection option" where
  "inbound_sent inflate s =
     (case cn_inbound_task s of
        Sending sender payload node \<Rightarrow>
          (case resolve_send sender payload (cn_queries s) of
             (True, q) \<Rightarrow> Some (s\<lparr>cn_queries := q, cn_inbound_task := Reading\<rparr>)
           | (False, q) \<Rightarrow>
               Some (case node of
                   None \<Rightarrow> inbound_decode inflate payload (s\<lparr>cn_queries := q\<rparr>)
                 | Some n \<Rightarrow> emit (RawNode n) (s\<lparr>cn_queries := q, cn_inbound_task := Reading\<rparr>)))
      | _ \<Rightarrow> None)"

definition inbound_stop :: "unit core_result \<Rightarrow> 'o connection \<Rightarrow> 'o connection option" where
  "inbound_stop result s =
     (if cn_inbound_task s \<noteq> Reading then None
      else Some (set_closer ByInbound Swapping (s\<lparr>cn_inbound_task := InEnding result\<rparr>)))"

definition inbound_end :: "'o connection \<Rightarrow> 'o connection option" where
  "inbound_end s =
     (case cn_inbound_task s of
        InEnding r \<Rightarrow> if is_close_done (cn_closers s ByInbound) then Some (s\<lparr>cn_inbound_task := InDone r\<rparr>) else None
      | _ \<Rightarrow> None)"

section \<open>Closing\<close>

text \<open>
  \<open>mark_closed\<close> of the two tasks ends when the flag was set; \<open>close\<close> goes on, and ends early when the
  writing task it joins has failed. \<open>CloseDone\<close> carries what \<open>close\<close> returns.
\<close>

definition close_start :: "nat \<Rightarrow> 'o connection \<Rightarrow> 'o connection option" where
  "close_start k s = (if cn_closers s (ByClose k) = NotClosing \<and> cn_spawned s then Some (set_closer (ByClose k) Swapping s) else None)"

definition is_mark :: "closer \<Rightarrow> bool" where
  "is_mark c \<longleftrightarrow> c = ByOutbound \<or> c = ByInbound"

definition close_swap :: "closer \<Rightarrow> 'o connection \<Rightarrow> 'o connection option" where
  "close_swap c s =
     (if cn_closers s c \<noteq> Swapping then None
      else Some (set_closer c (if is_mark c \<and> cn_closed s then CloseDone (Ok ()) else Clearing (cn_closed s)) (s\<lparr>cn_closed := True\<rparr>)))"

definition close_clear :: "closer \<Rightarrow> 'o connection \<Rightarrow> 'o connection option" where
  "close_clear c s =
     (case cn_closers s c of
        Clearing was \<Rightarrow>
          (let (r, q) = close_pending (cn_queries s) in
           Some (set_closer c (if is_mark c then Emitting was
               else case r of Inr _ \<Rightarrow> SendingClose was | Inl e \<Rightarrow> CloseDone (Err e))
             (s\<lparr>cn_queries := q\<rparr>)))
      | _ \<Rightarrow> None)"

definition close_send :: "closer \<Rightarrow> 'o connection \<Rightarrow> 'o connection option" where
  "close_send c s =
     (case cn_closers s c of
        SendingClose was \<Rightarrow>
          if is_out_done (cn_outbound_task s) then Some (set_closer c (TakingOut was) s)
          else map_option (set_closer c (TakingOut was)) (enqueue CloseSink s)
      | _ \<Rightarrow> None)"

text \<open>
  The first call to come takes the handle of the writing task and waits for its end, likewise that of
  the reading task, which it aborts: this ends a task that waits for a frame.
\<close>

definition close_join :: "closer \<Rightarrow> 'o connection \<Rightarrow> 'o connection option" where
  "close_join c s =
     (case cn_closers s c of
        TakingOut was \<Rightarrow>
          Some (if cn_outbound_handle s then set_closer c (JoiningOut was) (s\<lparr>cn_outbound_handle := False\<rparr>)
            else set_closer c (TakingIn was) s)
      | JoiningOut was \<Rightarrow>
          (case cn_outbound_task s of
             OutDone (Inr _) \<Rightarrow> Some (set_closer c (TakingIn was) s)
           | OutDone (Inl e) \<Rightarrow> Some (set_closer c (CloseDone (Err e)) s)
           | _ \<Rightarrow> None)
      | TakingIn was \<Rightarrow>
          Some (if cn_inbound_handle s then set_closer c (JoiningIn was) (s\<lparr>cn_inbound_handle := False\<rparr>)
            else set_closer c (Emitting was) s)
      | JoiningIn was \<Rightarrow>
          (case cn_inbound_task s of
             Reading \<Rightarrow> Some (set_closer c (Emitting was) (s\<lparr>cn_inbound_task := InDone (Err (Task ''task was cancelled''))\<rparr>))
           | InDone _ \<Rightarrow> Some (set_closer c (Emitting was) s)
           | _ \<Rightarrow> None)
      | _ \<Rightarrow> None)"

definition close_emit :: "closer \<Rightarrow> 'o connection \<Rightarrow> 'o connection option" where
  "close_emit c s =
     (case cn_closers s c of
        Emitting was \<Rightarrow> Some (set_closer c (CloseDone (Ok ())) (if was then s else emit (ConnectionUpdate Closed) s))
      | _ \<Rightarrow> None)"

section \<open>All steps\<close>

datatype step =
    Spawned
  | Query nat string bytes
  | QueryNode nat BinaryNode
  | Check nat
  | Enqueue nat
  | Poll nat bool
  | Cancel nat
  | Send nat bytes
  | SendNode nat BinaryNode
  | SendEnqueue nat
  | OutboundRecv
  | OutboundStep "unit core_result"
  | OutboundEnd
  | InboundFrame InboundFrame
  | InboundSent
  | InboundStop "unit core_result"
  | InboundEnd
  | CloseStart nat
  | CloseSwap closer
  | CloseClear closer
  | CloseSend closer
  | CloseJoin closer
  | CloseEmit closer

fun conn_step :: "(bytes \<Rightarrow> string + bytes) \<Rightarrow> step \<Rightarrow> 'o connection \<Rightarrow> 'o connection option" where
  "conn_step inflate Spawned s = spawn_end s"
| "conn_step inflate (Query i tag frame) s =
     (if cn_tasks s i = NoQuery \<and> cn_spawned s then Some (query_start i tag (Ok frame) s) else None)"
| "conn_step inflate (QueryNode i node) s =
     (if cn_tasks s i = NoQuery \<and> cn_spawned s then Some (query_node_start i node s) else None)"
| "conn_step inflate (Check i) s = query_check i s"
| "conn_step inflate (Enqueue i) s = query_enqueue i s"
| "conn_step inflate (Poll i elapsed) s = query_poll i elapsed s"
| "conn_step inflate (Cancel i) s = query_cancel i s"
| "conn_step inflate (Send k frame) s = send_frame_check k (Ok frame) s"
| "conn_step inflate (SendNode k node) s = send_node_check k node s"
| "conn_step inflate (SendEnqueue k) s = send_frame_enqueue k s"
| "conn_step inflate OutboundRecv s = outbound_recv s"
| "conn_step inflate (OutboundStep r) s = outbound_step r s"
| "conn_step inflate OutboundEnd s = outbound_end s"
| "conn_step inflate (InboundFrame frame) s = inbound_frame inflate frame s"
| "conn_step inflate InboundSent s = inbound_sent inflate s"
| "conn_step inflate (InboundStop r) s = inbound_stop r s"
| "conn_step inflate InboundEnd s = inbound_end s"
| "conn_step inflate (CloseStart k) s = close_start k s"
| "conn_step inflate (CloseSwap c) s = close_swap c s"
| "conn_step inflate (CloseClear c) s = close_clear c s"
| "conn_step inflate (CloseSend c) s = close_send c s"
| "conn_step inflate (CloseJoin c) s = close_join c s"
| "conn_step inflate (CloseEmit c) s = close_emit c s"

fun conn_steps :: "(bytes \<Rightarrow> string + bytes) \<Rightarrow> step list \<Rightarrow> 'o connection \<Rightarrow> 'o connection option" where
  "conn_steps inflate [] s = Some s"
| "conn_steps inflate (a # as) s = Option.bind (conn_step inflate a s) (conn_steps inflate as)"

end
