(* ===== verification/ConnectionSafety.thy ===== *)
theory ConnectionSafety
  imports Connection CodecSafety
begin

text \<open>
  What holds of a connection however its queries, its two tasks and the calls that close it
  interleave.
\<close>

section \<open>The table and the channels\<close>

abbreviation table :: "QueryInner \<Rightarrow> (string, nat) map" where
  "table q \<equiv> map_of (qi_waiters q)"

definition senders :: "QueryInner \<Rightarrow> nat set" where
  "senders q = {c. c < length (qi_channels q) \<and> os_sender (qi_channels q ! c)}"

text \<open>
  \<open>F\<close> holds the sender that the reading task has taken out of the table. Every sender is in the table,
  under one tag, or there; what has been sent came from a sender that is gone.
\<close>

definition held :: "QueryInner \<Rightarrow> nat set \<Rightarrow> bool" where
  "held q F \<longleftrightarrow> qi_poisoned q = None \<and> distinct (map fst (qi_waiters q)) \<and> senders q = ran (table q) \<union> F \<and> F \<inter> ran (table q) = {} \<and>
     inj_on (table q) (dom (table q)) \<and>
     (\<forall>c < length (qi_channels q). os_value (qi_channels q ! c) \<noteq> None \<longrightarrow> c \<notin> senders q)"

lemma ran_delete: "inj_on m (dom m) \<Longrightarrow> m k = Some c \<Longrightarrow> ran (m(k := None)) = ran m - {c}"
  by (auto simp: ran_def inj_on_def dom_def) (metis option.inject)+

lemma ran_delete_None: "m k = None \<Longrightarrow> m(k := None) = m"
  by auto

lemma inj_delete: "inj_on m (dom m) \<Longrightarrow> inj_on (m(k := None)) (dom (m(k := None)))"
  by (auto simp: inj_on_def)

lemma inj_update: "inj_on m (dom m) \<Longrightarrow> c \<notin> ran m \<Longrightarrow> inj_on (m(k \<mapsto> c)) (dom (m(k \<mapsto> c)))"
  by (auto simp: inj_on_def ran_def dom_def)

lemma ran_update: "inj_on m (dom m) \<Longrightarrow> ran (m(k \<mapsto> c)) = insert c (ran m - set_option (m k))"
proof -
  have "ran (m(k \<mapsto> c)) = insert c (ran (m(k := None)))" using ran_map_upd [of "m(k := None)" k c] by simp
  then show "inj_on m (dom m) \<Longrightarrow> ran (m(k \<mapsto> c)) = insert c (ran m - set_option (m k))"
    using ran_delete [of m k] ran_delete_None [of m k] by (cases "m k") simp_all
qed

lemma nth_list_update_below: "j < length xs \<Longrightarrow> xs[i := x] ! j = (if i = j then x else xs ! j)"
  by (cases "i = j") simp_all

lemma channel_ends [simp]:
  "qi_waiters (drop_sender c q) = qi_waiters q" "qi_waiters (drop_receiver c q) = qi_waiters q"
  "qi_poisoned (drop_sender c q) = qi_poisoned q" "qi_poisoned (drop_receiver c q) = qi_poisoned q"
  "length (qi_channels (drop_sender c q)) = length (qi_channels q)"
  "length (qi_channels (drop_receiver c q)) = length (qi_channels q)"
  "senders (drop_sender c q) = senders q - {c}" "senders (drop_receiver c q) = senders q"
  by (auto simp: drop_sender_def drop_receiver_def senders_def nth_list_update_below split: if_splits)

lemma senders_waiters [simp]: "senders (q\<lparr>qi_waiters := x\<rparr>) = senders q"
  by (simp add: senders_def)

lemma channel_parts:
  "os_value (qi_channels (drop_sender c q) ! d) = os_value (qi_channels q ! d)"
  "os_receiver (qi_channels (drop_sender c q) ! d) = os_receiver (qi_channels q ! d)"
  "os_value (qi_channels (drop_receiver c q) ! d) = os_value (qi_channels q ! d)"
  "os_sender (qi_channels (drop_receiver c q) ! d) = os_sender (qi_channels q ! d)"
  "d \<noteq> c \<Longrightarrow> qi_channels (drop_sender c q) ! d = qi_channels q ! d"
  "d \<noteq> c \<Longrightarrow> qi_channels (drop_receiver c q) ! d = qi_channels q ! d"
  by (cases "c < length (qi_channels q)"; cases "d = c";
      simp add: drop_sender_def drop_receiver_def nth_list_update list_update_beyond)+

text \<open>What an operation may do to the table and to the number of channels, with the fresh channel it may add.\<close>

definition shrinks :: "QueryInner \<Rightarrow> QueryInner \<Rightarrow> bool" where
  "shrinks q q' \<longleftrightarrow> length (qi_channels q) \<le> length (qi_channels q') \<and>
     ran (table q') \<subseteq> ran (table q) \<union> {c. length (qi_channels q) \<le> c}"

lemma shrinks_refl [simp]: "shrinks q q"
  by (simp add: shrinks_def)

lemma held_below: "held q F \<Longrightarrow> c \<in> ran (table q) \<union> F \<Longrightarrow> c < length (qi_channels q)"
  unfolding held_def senders_def by blast

lemma held_values: "held q F \<Longrightarrow> c < length (qi_channels q) \<Longrightarrow> os_value (qi_channels q ! c) \<noteq> None \<Longrightarrow> c \<notin> senders q"
  by (auto simp: held_def senders_def)

lemma held_drop_receiver: "held q F \<Longrightarrow> held (drop_receiver c q) F"
  by (auto simp: held_def channel_parts)

lemma held_remove_waiter: "held q F \<Longrightarrow> held (remove_waiter w q) F \<and> shrinks q (remove_waiter w q)"
proof -
  assume h: "held q F"
  show ?thesis
  proof (cases "table q (qw_tag w)")
    case (Some c)
    then have c: "c \<in> ran (table q)" by (rule ranI)
    have "ran ((table q)(qw_tag w := None)) = ran (table q) - {c}" using h Some by (simp add: held_def ran_delete)
    with h c Some inj_delete [of "table q" "qw_tag w"] show ?thesis
      by (auto simp: remove_waiter_def held_def shrinks_def delete_conv' distinct_delete channel_parts)
  qed (use h in \<open>auto simp: remove_waiter_def held_def\<close>)
qed

lemma held_drop_waiter: "held q F \<Longrightarrow> held (drop_waiter w q) F \<and> shrinks q (drop_waiter w q)"
  using held_remove_waiter [of q F w] by (simp add: drop_waiter_def held_drop_receiver shrinks_def)

lemma held_poll: "held q F \<Longrightarrow> poll_wait w elapsed q = (r, q') \<Longrightarrow> held q' F \<and> shrinks q q'"
  using held_remove_waiter [of q F w] by (auto simp: poll_wait_def Let_def held_drop_receiver shrinks_def split: option.splits if_splits)

lemma held_next_tag: "held q F \<Longrightarrow> next_tag q = (tag, q') \<Longrightarrow> held q' F \<and> shrinks q q' \<and> qi_waiters q' = qi_waiters q \<and>
    qi_channels q' = qi_channels q"
  by (auto simp: next_tag_def held_def shrinks_def senders_def)

lemma register_cases:
  assumes "held q F" "register_with_timeout tag t q = (r, q')"
  obtains "table q tag = None" "r = Inr \<lparr>qw_tag = tag, qw_timeout = t, qw_channel = length (qi_channels q)\<rparr>"
    "qi_channels q' = qi_channels q @ [oneshot_new]" "table q' = (table q)(tag \<mapsto> length (qi_channels q))"
    "qi_poisoned q' = None" "distinct (map fst (qi_waiters q'))"
  | previous where "table q tag = Some previous" "r = Inl (DuplicateQueryTag tag)"
    "q' = drop_receiver (length (qi_channels q)) (drop_sender previous (q\<lparr>qi_channels := qi_channels q @ [oneshot_new],
       qi_waiters := AList.update tag (length (qi_channels q)) (qi_waiters q)\<rparr>))"
  using assms by (auto simp: register_with_timeout_def held_def update_conv' distinct_update Let_def split: option.splits)

lemma senders_append: "senders (q\<lparr>qi_channels := qi_channels q @ [oneshot_new], qi_waiters := x\<rparr>) =
    insert (length (qi_channels q)) (senders q)"
  by (auto simp: senders_def nth_append oneshot_new_def less_Suc_eq split: if_splits)

lemma held_register:
  assumes h: "held q F" and r: "register_with_timeout tag t q = (r, q')"
  shows "held q' F \<and> shrinks q q' \<and> length (qi_channels q') = Suc (length (qi_channels q)) \<and>
    (\<forall>w. r = Inr w \<longrightarrow> qw_channel w = length (qi_channels q) \<and> qw_tag w = tag)"
proof -
  let ?c = "length (qi_channels q)"
  have fresh: "?c \<notin> ran (table q) \<union> F" "?c \<notin> senders q" using held_below [OF h, of ?c] by (auto simp: senders_def)
  have ran: "ran ((table q)(tag \<mapsto> ?c)) = insert ?c (ran (table q) - set_option (table q tag))"
    using h by (intro ran_update) (simp add: held_def)
  have inj: "inj_on ((table q)(tag \<mapsto> ?c)) (dom ((table q)(tag \<mapsto> ?c)))"
    using h fresh(1) by (intro inj_update) (simp_all add: held_def)
  let ?q = "q\<lparr>qi_channels := qi_channels q @ [oneshot_new], qi_waiters := AList.update tag ?c (qi_waiters q)\<rparr>"
  have vals: "os_value (qi_channels ?q ! d) \<noteq> None \<longrightarrow> d \<notin> insert ?c (senders q)" if "d < Suc ?c" for d
    using h that by (auto simp: held_def nth_append oneshot_new_def less_Suc_eq)
  from h r show ?thesis
  proof (cases rule: register_cases)
    case 1
    then have "qi_poisoned q' = None" "qi_channels q' = qi_channels ?q" "senders q' = senders ?q"
      by (simp_all add: senders_def)
    with 1 h fresh ran inj vals senders_append [where q = q and x = "AList.update tag ?c (qi_waiters q)"] show ?thesis
      by (auto simp: held_def shrinks_def)
  next
    case (2 previous)
    have p: "previous \<in> ran (table q)" using 2(1) by (rule ranI)
    then have "previous \<noteq> ?c" "previous \<notin> F" using fresh h by (auto simp: held_def)
    with 2 h fresh ran inj vals p senders_append [where q = q and x = "AList.update tag ?c (qi_waiters q)"] show ?thesis
      by (auto simp: held_def shrinks_def update_conv' distinct_update channel_parts)
  qed
qed

lemma held_take:
  assumes h: "held q {}"
  shows "\<exists>q'. resolve_take tag q = (Inr (table q tag), q') \<and> held q' (set_option (table q tag)) \<and> shrinks q q' \<and>
    qi_channels q' = qi_channels q \<and> qi_waiters q' = AList.delete tag (qi_waiters q)"
proof (cases "table q tag")
  case None
  with h ran_delete_None [of "table q" tag] show ?thesis
    by (simp add: resolve_take_def held_def shrinks_def delete_conv' senders_def distinct_delete)
next
  case (Some c)
  then have "c \<in> ran (table q)" by (rule ranI)
  with h Some inj_delete [of "table q" tag] ran_delete [of "table q" tag c] show ?thesis
    by (auto simp: resolve_take_def held_def shrinks_def delete_conv' distinct_delete)
qed

lemma held_send:
  assumes h: "held q (set_option sender)"
  shows "held (snd (resolve_send sender payload q)) {} \<and> shrinks q (snd (resolve_send sender payload q)) \<and>
    qi_waiters (snd (resolve_send sender payload q)) = qi_waiters q"
proof (cases sender)
  case (Some c)
  then have c: "c < length (qi_channels q)" using held_below [OF h] by simp
  let ?q = "q\<lparr>qi_channels := (qi_channels q)[c := (qi_channels q ! c)\<lparr>os_value := Some payload, os_sender := False\<rparr>]\<rparr>"
  have "senders ?q = senders q - {c}" by (auto simp: senders_def nth_list_update_below split: if_splits)
  moreover have "os_value (qi_channels ?q ! d) = os_value (qi_channels q ! d)" if "d \<noteq> c" for d using that by simp
  moreover have "d \<noteq> c" if "d \<in> senders q - {c}" for d using that by simp
  ultimately have "held ?q {}" using h Some unfolding held_def by (simp add: nth_list_update_below) blast
  moreover have "held (drop_sender c q) {}" using h Some by (auto simp: held_def channel_parts)
  ultimately show ?thesis using Some by (simp add: resolve_send_def shrinks_def)
qed (use h in \<open>simp add: resolve_send_def\<close>)

lemma fold_drop_sender:
  "qi_waiters (fold drop_sender cs q) = qi_waiters q \<and> qi_poisoned (fold drop_sender cs q) = qi_poisoned q \<and>
   length (qi_channels (fold drop_sender cs q)) = length (qi_channels q) \<and>
   senders (fold drop_sender cs q) = senders q - set cs \<and>
   (\<forall>d. os_value (qi_channels (fold drop_sender cs q) ! d) = os_value (qi_channels q ! d) \<and>
     os_receiver (qi_channels (fold drop_sender cs q) ! d) = os_receiver (qi_channels q ! d))"
  by (induction cs arbitrary: q) (auto simp: channel_parts)

lemma held_close:
  assumes h: "held q F"
  shows "\<exists>n q'. close_pending q = (Inr n, q') \<and> held q' F \<and> shrinks q q' \<and> qi_waiters q' = []"
proof -
  let ?q = "fold drop_sender (map snd (qi_waiters q)) (q\<lparr>qi_waiters := []\<rparr>)"
  have "ran (table q) = snd ` set (qi_waiters q)" using h by (intro ran_distinct) (simp add: held_def)
  with h have "held ?q F" using fold_drop_sender [of "map snd (qi_waiters q)" "q\<lparr>qi_waiters := []\<rparr>"]
    by (auto simp: held_def)
  moreover have "shrinks q ?q" "qi_waiters ?q = []"
    using fold_drop_sender [of "map snd (qi_waiters q)" "q\<lparr>qi_waiters := []\<rparr>"] by (simp_all add: shrinks_def)
  moreover have "qi_poisoned q = None" using h by (simp add: held_def)
  ultimately show ?thesis by (simp add: close_pending_def)
qed

section \<open>The invariant of a connection\<close>

fun in_flight :: "inbound_state \<Rightarrow> nat set" where
  "in_flight (Sending sender _ _) = set_option sender"
| "in_flight _ = {}"

fun waiter_of :: "query_state \<Rightarrow> QueryWaiter option" where
  "waiter_of (Registered w _) = Some w"
| "waiter_of (Checked w _) = Some w"
| "waiter_of (Waiting w) = Some w"
| "waiter_of _ = None"

fun past_check :: "query_state \<Rightarrow> QueryWaiter option" where
  "past_check (Checked w _) = Some w"
| "past_check (Waiting w) = Some w"
| "past_check _ = None"

lemma past_check_waiter: "past_check t = Some w \<Longrightarrow> waiter_of t = Some w"
  by (cases t) simp_all

text \<open>The flag is set and the call that set it has cleared the table.\<close>

definition settled :: "'o connection \<Rightarrow> bool" where
  "settled s \<longleftrightarrow> cn_closed s \<and> (\<forall>c. cn_closers s c \<noteq> Clearing False)"

definition has_receiver :: "QueryInner \<Rightarrow> nat \<Rightarrow> bool" where
  "has_receiver q c \<longleftrightarrow> c < length (qi_channels q) \<and> os_receiver (qi_channels q ! c)"

definition conn_inv :: "'o connection \<Rightarrow> bool" where
  "conn_inv s \<longleftrightarrow>
     held (cn_queries s) (in_flight (cn_inbound_task s)) \<and>
     (\<forall>i w. waiter_of (cn_tasks s i) = Some w \<longrightarrow> has_receiver (cn_queries s) (qw_channel w)) \<and>
     (\<forall>i j w v. waiter_of (cn_tasks s i) = Some w \<and> waiter_of (cn_tasks s j) = Some v \<and> i \<noteq> j \<longrightarrow>
        qw_channel w \<noteq> qw_channel v) \<and>
     (settled s \<longrightarrow> (\<forall>i w. past_check (cn_tasks s i) = Some w \<longrightarrow> qw_channel w \<notin> ran (table (cn_queries s))))"

text \<open>A step touches one query at most; \<open>D\<close> is the channel whose receiver it drops.\<close>

lemma conn_invI:
  assumes inv: "conn_inv s" and h: "held (cn_queries s') (in_flight (cn_inbound_task s'))"
    and sh: "shrinks (cn_queries s) (cn_queries s')"
    and others: "\<And>j. j \<noteq> i \<Longrightarrow> cn_tasks s' j = cn_tasks s j"
    and own: "\<And>w. waiter_of (cn_tasks s' i) = Some w \<Longrightarrow> has_receiver (cn_queries s') (qw_channel w) \<and>
      (waiter_of (cn_tasks s i) = Some w \<or> length (qi_channels (cn_queries s)) \<le> qw_channel w)"
    and recv: "\<And>c. has_receiver (cn_queries s) c \<Longrightarrow> c \<notin> D \<Longrightarrow> has_receiver (cn_queries s') c"
    and D: "D \<subseteq> {c. \<exists>w. waiter_of (cn_tasks s i) = Some w \<and> c = qw_channel w}"
    and check: "\<And>w. settled s' \<Longrightarrow> past_check (cn_tasks s' i) = Some w \<Longrightarrow> past_check (cn_tasks s i) = Some w"
    and settle: "settled s' \<Longrightarrow> settled s \<or> ran (table (cn_queries s')) = {}"
  shows "conn_inv s'"
proof -
  note old = inv [unfolded conn_inv_def]
  have below: "waiter_of (cn_tasks s j) = Some w \<Longrightarrow> qw_channel w < length (qi_channels (cn_queries s))" for j w
    using old by (auto simp: has_receiver_def)
  have apart: "waiter_of (cn_tasks s j) = Some v \<Longrightarrow> j \<noteq> i \<Longrightarrow> qw_channel v \<notin> D" for j v
    using old D by blast
  have ne: "qw_channel w \<noteq> qw_channel v"
    if "waiter_of (cn_tasks s' i) = Some w" "waiter_of (cn_tasks s j) = Some v" "j \<noteq> i" for w v j
    using own [OF that(1)] below [OF that(2)] old that by fastforce
  have "has_receiver (cn_queries s') (qw_channel w)" if "waiter_of (cn_tasks s' j) = Some w" for j w
    using that own others [of j] recv [of "qw_channel w"] apart [of j w] old by (cases "j = i") auto
  moreover have "qw_channel w \<noteq> qw_channel v"
    if "waiter_of (cn_tasks s' j) = Some w" "waiter_of (cn_tasks s' k) = Some v" "j \<noteq> k" for j k w v
    using that others [of j] others [of k] ne [of w k v] ne [of v j w] old by (cases "j = i"; cases "k = i") auto
  moreover have "qw_channel w \<notin> ran (table (cn_queries s'))"
    if st: "settled s'" and p: "past_check (cn_tasks s' j) = Some w" for j w
  proof -
    have p': "past_check (cn_tasks s j) = Some w" using check st p others [of j] by (cases "j = i") auto
    then have "\<not> length (qi_channels (cn_queries s)) \<le> qw_channel w" using below [OF past_check_waiter] by (simp add: not_le)
    moreover have "settled s \<Longrightarrow> qw_channel w \<notin> ran (table (cn_queries s))" using old p' by blast
    ultimately show ?thesis using settle [OF st] sh unfolding shrinks_def by blast
  qed
  ultimately show ?thesis using h by (auto simp: conn_inv_def)
qed

text \<open>Which receivers the operations keep.\<close>

definition keeps_receivers :: "QueryInner \<Rightarrow> QueryInner \<Rightarrow> nat set \<Rightarrow> bool" where
  "keeps_receivers q q' D \<longleftrightarrow> (\<forall>c. has_receiver q c \<longrightarrow> c \<notin> D \<longrightarrow> has_receiver q' c)"

lemma has_receiver_ends [simp]:
  "has_receiver (drop_sender c q) d = has_receiver q d"
  "d \<noteq> c \<Longrightarrow> has_receiver (drop_receiver c q) d = has_receiver q d"
  "has_receiver (q\<lparr>qi_waiters := x\<rparr>) d = has_receiver q d"
  by (auto simp: has_receiver_def channel_parts)

lemma has_receiver_remove_waiter [simp]: "has_receiver (remove_waiter w q) d = has_receiver q d"
  by (simp add: remove_waiter_def split: option.split)

lemma keeps_drop_waiter: "keeps_receivers q (drop_waiter w q) {qw_channel w}"
  by (simp add: keeps_receivers_def drop_waiter_def)

lemma keeps_poll: "poll_wait w elapsed q = (r, q') \<Longrightarrow> keeps_receivers q q' {qw_channel w}"
  by (auto simp: keeps_receivers_def poll_wait_def Let_def split: option.splits if_splits)

lemma keeps_send: "keeps_receivers q (snd (resolve_send sender payload q)) {}"
  by (auto simp: keeps_receivers_def resolve_send_def has_receiver_def nth_list_update_below channel_parts split: option.splits)

lemma keeps_close: "close_pending q = (r, q') \<Longrightarrow> keeps_receivers q q' {}"
  using fold_drop_sender [of "map snd (qi_waiters q)" "q\<lparr>qi_waiters := []\<rparr>"]
  by (auto simp: keeps_receivers_def close_pending_def has_receiver_def split: option.splits)

lemma keeps_register:
  assumes "held q F" "register_with_timeout tag t q = (r, q')"
  shows "keeps_receivers q q' {} \<and> (\<forall>w. r = Inr w \<longrightarrow> has_receiver q' (qw_channel w))"
  using assms
proof (cases rule: register_cases)
  case 1
  then show ?thesis by (auto simp: keeps_receivers_def has_receiver_def nth_append oneshot_new_def)
next
  case (2 previous)
  then show ?thesis by (auto simp: keeps_receivers_def) (auto simp: has_receiver_def nth_append channel_parts)
qed

lemma connection_parts [simp]:
  "cn_queries (set_task i t s) = cn_queries s" "cn_inbound_task (set_task i t s) = cn_inbound_task s"
  "cn_tasks (set_task i t s) = (cn_tasks s)(i := t)" "cn_closed (set_task i t s) = cn_closed s"
  "cn_closers (set_task i t s) = cn_closers s" "cn_events (set_task i t s) = cn_events s"
  "cn_outbound_task (set_task i t s) = cn_outbound_task s"
  "cn_queries (set_closer c x s) = cn_queries s" "cn_inbound_task (set_closer c x s) = cn_inbound_task s"
  "cn_tasks (set_closer c x s) = cn_tasks s" "cn_closed (set_closer c x s) = cn_closed s"
  "cn_closers (set_closer c x s) = (cn_closers s)(c := x)" "cn_events (set_closer c x s) = cn_events s"
  "cn_outbound_task (set_closer c x s) = cn_outbound_task s"
  "cn_queries (emit e s) = cn_queries s" "cn_inbound_task (emit e s) = cn_inbound_task s"
  "cn_tasks (emit e s) = cn_tasks s" "cn_closed (emit e s) = cn_closed s"
  "cn_closers (emit e s) = cn_closers s" "cn_events (emit e s) = cn_events s @ [e]"
  "cn_outbound_task (emit e s) = cn_outbound_task s"
  "cn_queries (set_send k u s) = cn_queries s" "cn_inbound_task (set_send k u s) = cn_inbound_task s"
  "cn_tasks (set_send k u s) = cn_tasks s" "cn_closed (set_send k u s) = cn_closed s"
  "cn_closers (set_send k u s) = cn_closers s" "cn_events (set_send k u s) = cn_events s"
  "cn_outbound_task (set_send k u s) = cn_outbound_task s"
  by (simp_all add: set_task_def set_closer_def set_send_def emit_def)

lemma settled_cong: "cn_closed s' = cn_closed s \<Longrightarrow> cn_closers s' = cn_closers s \<Longrightarrow> settled s' = settled s"
  by (simp add: settled_def)

lemma settled_closer:
  "cn_closed s' = cn_closed s \<Longrightarrow> cn_closers s' = (cn_closers s)(c := x) \<Longrightarrow> cn_closers s c \<noteq> Clearing False \<Longrightarrow>
     settled s' \<Longrightarrow> settled s"
  by (auto simp: settled_def) metis

lemma conn_inv_held: "conn_inv s \<Longrightarrow> held (cn_queries s) (in_flight (cn_inbound_task s))"
  by (simp add: conn_inv_def)

lemma conn_inv_receiver: "conn_inv s \<Longrightarrow> waiter_of (cn_tasks s i) = Some w \<Longrightarrow> has_receiver (cn_queries s) (qw_channel w)"
  unfolding conn_inv_def by blast

text \<open>Steps that touch neither the queries nor the table.\<close>

lemma conn_inv_idle:
  assumes "conn_inv s" "cn_queries s' = cn_queries s" "in_flight (cn_inbound_task s') = in_flight (cn_inbound_task s)"
    "cn_tasks s' = cn_tasks s" "settled s' \<Longrightarrow> settled s"
  shows "conn_inv s'"
  using assms by (auto simp: conn_inv_def)

lemma conn_inv_query_start:
  assumes inv: "conn_inv s" and "cn_tasks s i = NoQuery"
  shows "conn_inv (query_start i tag frame s)"
proof -
  obtain r q where r: "register tag (cn_queries s) = (r, q)" by fastforce
  note reg = held_register [OF conn_inv_held [OF inv] r [unfolded register_def]]
    keeps_register [OF conn_inv_held [OF inv] r [unfolded register_def]]
  show ?thesis
  proof (rule conn_invI [OF inv, where i = i and D = "{}"])
    show "settled (query_start i tag frame s) \<Longrightarrow> settled s \<or> ran (table (cn_queries (query_start i tag frame s))) = {}"
      by (simp add: settled_def query_start_def r)
  qed (use reg in \<open>auto simp: query_start_def r keeps_receivers_def split: sum.splits\<close>)
qed

lemma conn_inv_next_tag:
  assumes inv: "conn_inv s" and n: "next_tag (cn_queries s) = (tag, q)"
  shows "conn_inv (s\<lparr>cn_queries := q\<rparr>)"
  using inv held_next_tag [OF conn_inv_held [OF inv] n]
  by (auto simp: conn_inv_def has_receiver_def settled_def)

lemma conn_inv_drop:
  assumes inv: "conn_inv s" and w: "waiter_of (cn_tasks s i) = Some w" and t: "waiter_of t = None"
  shows "conn_inv (set_task i t (s\<lparr>cn_queries := drop_waiter w (cn_queries s)\<rparr>))"
proof (rule conn_invI [OF inv, where i = i and D = "{qw_channel w}"])
  show "past_check (cn_tasks (set_task i t (s\<lparr>cn_queries := drop_waiter w (cn_queries s)\<rparr>)) i) = Some v \<Longrightarrow>
      past_check (cn_tasks s i) = Some v" for v
    using t past_check_waiter [of t v] by simp
qed (use assms held_drop_waiter [OF conn_inv_held [OF inv], of w] keeps_drop_waiter [of "cn_queries s" w] in
  \<open>auto simp: keeps_receivers_def settled_def\<close>)

lemma conn_inv_fail: "conn_inv s \<Longrightarrow> waiter_of (cn_tasks s i) = Some w \<Longrightarrow> conn_inv (query_fail i w e s)"
  unfolding query_fail_def by (intro conn_inv_drop) simp_all

lemma conn_inv_poll:
  assumes inv: "conn_inv s" and s': "query_poll i elapsed s = Some s'"
  shows "conn_inv s'"
proof -
  from s' obtain w r q where t: "cn_tasks s i = Waiting w" "poll_wait w elapsed (cn_queries s) = (Some r, q)"
    "s' = set_task i (Finished r) (s\<lparr>cn_queries := q\<rparr>)"
    by (auto simp: query_poll_def split: query_state.splits prod.splits option.splits)
  show ?thesis unfolding t(3)
    by (rule conn_invI [OF inv, where i = i and D = "{qw_channel w}"])
      (use t held_poll [OF conn_inv_held [OF inv] t(2)] keeps_poll [OF t(2)] in
        \<open>auto simp: keeps_receivers_def settled_def\<close>)
qed

lemma conn_inv_check:
  assumes inv: "conn_inv s" and s': "query_check i s = Some s'"
  shows "conn_inv s'"
proof (cases "\<exists>w frame. cn_tasks s i = Registered w (Inr frame) \<and> \<not> cn_closed s")
  case True
  then obtain w frame where t: "cn_tasks s i = Registered w (Inr frame)" "\<not> cn_closed s" by blast
  then have "s' = set_task i (Checked w frame) s" using s' by (simp add: query_check_def)
  then show ?thesis
    by (intro conn_invI [OF inv, where i = i and D = "{}"])
      (use t inv conn_inv_receiver [OF inv, of i w] in \<open>auto simp: conn_inv_held settled_def\<close>)
next
  case False
  then show ?thesis
    using s' by (auto simp: query_check_def split: query_state.splits sum.splits if_splits intro!: conn_inv_fail [OF inv])
qed

lemma conn_inv_enqueue:
  assumes inv: "conn_inv s" and s': "query_enqueue i s = Some s'"
  shows "conn_inv s'"
proof -
  from s' obtain w frame where t: "cn_tasks s i = Checked w frame" by (auto simp: query_enqueue_def split: query_state.splits)
  show ?thesis
  proof (cases "is_out_done (cn_outbound_task s)")
    case True
    then show ?thesis using s' t by (auto simp: query_enqueue_def intro!: conn_inv_fail [OF inv])
  next
    case False
    then show ?thesis
      using s' t by (intro conn_invI [OF inv, where i = i and D = "{}"])
        (use inv conn_inv_receiver [OF inv, of i w] in
          \<open>auto simp: query_enqueue_def enqueue_def conn_inv_held settled_def split: if_splits\<close>)
  qed
qed

lemma conn_inv_cancel:
  assumes inv: "conn_inv s" and s': "query_cancel i s = Some s'"
  shows "conn_inv s'"
  using s' by (auto simp: query_cancel_def split: query_state.splits intro!: conn_inv_drop [OF inv])

text \<open>The writing task before it ends.\<close>

fun is_writing :: "outbound_state \<Rightarrow> bool" where
  "is_writing (OutEnding _) = False"
| "is_writing (OutDone _) = False"
| "is_writing _ = True"

lemma outbound_step_parts:
  "outbound_recv s = Some s' \<or> outbound_step r s = Some s' \<or> outbound_end s = Some s' \<Longrightarrow>
     cn_queries s' = cn_queries s \<and> cn_inbound_task s' = cn_inbound_task s \<and> cn_tasks s' = cn_tasks s \<and>
     cn_closed s' = cn_closed s \<and> cn_events s' = cn_events s \<and>
     (cn_closers s' = cn_closers s \<and> (is_writing (cn_outbound_task s') \<longrightarrow> is_writing (cn_outbound_task s)) \<or>
      cn_closers s' = (cn_closers s)(ByOutbound := Swapping) \<and> is_writing (cn_outbound_task s) \<and>
        \<not> is_writing (cn_outbound_task s'))"
  by (auto simp: outbound_recv_def outbound_step_def outbound_end_def
      split: if_splits list.splits OutboundCommand.splits sum.splits outbound_state.splits)

lemma conn_inv_spawned: "conn_inv s \<Longrightarrow> spawn_end s = Some s' \<Longrightarrow> conn_inv s'"
  by (rule conn_inv_idle [of s s']) (auto simp: spawn_end_def settled_def split: if_splits)

lemma send_parts:
  "send_frame_check k frame s = Some s' \<or> send_node_check k node s = Some s' \<or> send_frame_enqueue k s = Some s' \<Longrightarrow>
     cn_queries s' = cn_queries s \<and> cn_inbound_task s' = cn_inbound_task s \<and> cn_tasks s' = cn_tasks s \<and>
     cn_closed s' = cn_closed s \<and> cn_events s' = cn_events s \<and> cn_closers s' = cn_closers s \<and>
     cn_outbound_task s' = cn_outbound_task s"
  by (auto simp: send_frame_check_def send_node_check_def send_frame_enqueue_def enqueue_def
      split: if_splits sum.splits send_state.splits)

lemma sends_cases:
  assumes "conn_step inflate a s = Some s'" "a \<in> {Send k frame, SendNode k node, SendEnqueue k}"
  shows "cn_queries s' = cn_queries s \<and> cn_inbound_task s' = cn_inbound_task s \<and> cn_tasks s' = cn_tasks s \<and>
     cn_closed s' = cn_closed s \<and> cn_events s' = cn_events s \<and> cn_closers s' = cn_closers s \<and>
     cn_outbound_task s' = cn_outbound_task s"
  using assms send_parts [of k "Ok frame" s s' node] by auto

lemma conn_inv_send: "conn_inv s \<Longrightarrow> conn_step inflate a s = Some s' \<Longrightarrow> a \<in> {Send k frame, SendNode k node, SendEnqueue k} \<Longrightarrow>
    conn_inv s'"
  using sends_cases [of inflate a s s' k frame node] settled_cong [of s' s] by (intro conn_inv_idle [of s s']) simp_all

text \<open>The tasks mark the connection closed when they end.\<close>

definition marks_idle :: "'o connection \<Rightarrow> bool" where
  "marks_idle s \<longleftrightarrow> (is_writing (cn_outbound_task s) \<longrightarrow> cn_closers s ByOutbound = NotClosing) \<and>
     ((case cn_inbound_task s of Reading \<Rightarrow> True | Sending _ _ _ \<Rightarrow> True | _ \<Rightarrow> False) \<longrightarrow> cn_closers s ByInbound = NotClosing)"

lemma conn_inv_outbound:
  assumes inv: "conn_inv s" and s': "outbound_recv s = Some s' \<or> outbound_step r s = Some s' \<or> outbound_end s = Some s'" and mark: "marks_idle s"
  shows "conn_inv s'"
proof (rule conn_inv_idle [OF inv])
  show "settled s' \<Longrightarrow> settled s"
    using outbound_step_parts [OF s'] mark settled_cong [of s' s] settled_closer [of s' s ByOutbound Swapping]
    by (auto simp: marks_idle_def)
qed (use outbound_step_parts [OF s'] in auto)

text \<open>Taking a sender out of the table, and sending with it.\<close>

lemma conn_inv_take:
  assumes inv: "conn_inv s" and "in_flight (cn_inbound_task s) = {}"
    and q: "resolve_take tag (cn_queries s) = (r, q)"
  shows "r = Inr (table (cn_queries s) tag)"
    and "conn_inv (s\<lparr>cn_queries := q, cn_inbound_task := Sending (table (cn_queries s) tag) p n\<rparr>)"
proof -
  from held_take [of "cn_queries s" tag] conn_inv_held [OF inv] assms(2) q
  have h: "r = Inr (table (cn_queries s) tag)" "held q (set_option (table (cn_queries s) tag))" "shrinks (cn_queries s) q"
    "qi_channels q = qi_channels (cn_queries s)" by auto
  show "r = Inr (table (cn_queries s) tag)" by (rule h(1))
  show "conn_inv (s\<lparr>cn_queries := q, cn_inbound_task := Sending (table (cn_queries s) tag) p n\<rparr>)"
    using h(2-4) conn_inv_receiver [OF inv]
    by (intro conn_invI [OF inv, where i = 0 and D = "{}"]) (auto simp: has_receiver_def settled_def)
qed

lemma conn_inv_decode:
  assumes inv: "conn_inv s" and "in_flight (cn_inbound_task s) = {}"
  shows "conn_inv (inbound_decode inflate payload s)"
proof -
  have idle: "conn_inv s'" if "cn_queries s' = cn_queries s" "in_flight (cn_inbound_task s') = {}" "cn_tasks s' = cn_tasks s"
    "settled s' = settled s" for s' :: "'a connection"
    using that assms by (intro conn_inv_idle [OF inv]) simp_all
  show ?thesis
  proof (cases "\<exists>inbound tag encoded. decode_inbound_binary_node inflate payload = Inr inbound \<and>
      in_response_tag inbound = Some tag \<and> inbound_encode inbound = Inr encoded")
    case True
    then obtain inbound tag encoded where d: "decode_inbound_binary_node inflate payload = Inr inbound"
      "in_response_tag inbound = Some tag" "inbound_encode inbound = Inr encoded" by blast
    obtain r q where q: "resolve_take tag (cn_queries s) = (r, q)" by fastforce
    show ?thesis
      using conn_inv_take(2) [OF assms q] conn_inv_take(1) [OF assms q] d q by (simp add: inbound_decode_def)
  next
    case False
    then show ?thesis
      by (intro idle) (auto simp: inbound_decode_def settled_def split: sum.split option.split)
  qed
qed

lemma conn_inv_sent:
  assumes inv: "conn_inv s" and s': "inbound_sent inflate s = Some s'"
  shows "conn_inv s'"
proof -
  from s' obtain sender p n where t: "cn_inbound_task s = Sending sender p n"
    by (auto simp: inbound_sent_def split: inbound_state.splits)
  obtain b q where q: "resolve_send sender p (cn_queries s) = (b, q)" by fastforce
  have h: "held q {}" "shrinks (cn_queries s) q" "keeps_receivers (cn_queries s) q {}"
    using held_send [of "cn_queries s" sender p] conn_inv_held [OF inv] t q keeps_send [of "cn_queries s" sender p] by auto
  have base: "conn_inv s1" if "cn_queries s1 = q" "in_flight (cn_inbound_task s1) = {}" "cn_tasks s1 = cn_tasks s"
    "settled s1 = settled s" for s1 :: "'a connection"
    by (rule conn_invI [OF inv, where i = 0 and D = "{}"])
      (use that h conn_inv_receiver [OF inv] in \<open>auto simp: keeps_receivers_def\<close>)
  show ?thesis
  proof (cases "\<not> b \<and> n = None")
    case True
    let ?s = "s\<lparr>cn_queries := q, cn_inbound_task := Reading\<rparr>"
    have "conn_inv ?s" by (rule base) (simp_all add: settled_def)
    then have "conn_inv (inbound_decode inflate p ?s)" by (rule conn_inv_decode) simp
    moreover have "inbound_decode inflate p ?s = inbound_decode inflate p (s\<lparr>cn_queries := q\<rparr>)"
      by (simp add: inbound_decode_def emit_def split: sum.split option.split prod.split)
    ultimately show ?thesis using s' t q True by (simp add: inbound_sent_def)
  next
    case False
    then show ?thesis
      using s' t q by (cases b) (auto simp: inbound_sent_def settled_def intro!: base)
  qed
qed

lemma conn_inv_frame:
  assumes inv: "conn_inv s" and s': "inbound_frame inflate frame s = Some s'"
  shows "conn_inv s'"
proof -
  have r: "cn_inbound_task s = Reading" "in_flight (cn_inbound_task s) = {}"
    using s' by (auto simp: inbound_frame_def split: if_splits)
  show ?thesis
  proof (cases "if_tag frame")
    case None
    then show ?thesis using s' r conn_inv_decode [OF inv r(2)] by (auto simp: inbound_frame_def)
  next
    case (Some tag)
    obtain x q where q: "resolve_take tag (cn_queries s) = (x, q)" by fastforce
    from conn_inv_take [OF inv r(2) q] show ?thesis using s' r Some q by (auto simp: inbound_frame_def)
  qed
qed

lemma conn_inv_inbound_end:
  assumes inv: "conn_inv s" and s': "inbound_stop r s = Some s' \<or> inbound_end s = Some s'" and mark: "marks_idle s"
  shows "conn_inv s'"
proof (rule conn_inv_idle [OF inv])
  show "settled s' \<Longrightarrow> settled s"
    using s' mark settled_cong [of s' s] settled_closer [of s' s ByInbound Swapping]
    by (auto simp: marks_idle_def inbound_stop_def inbound_end_def split: if_splits inbound_state.splits)
qed (use s' in \<open>auto simp: inbound_stop_def inbound_end_def split: if_splits inbound_state.splits\<close>)

lemma conn_inv_swap:
  assumes inv: "conn_inv s" and s': "close_start k s = Some s' \<or> close_swap c s = Some s'"
  shows "conn_inv s'"
proof (rule conn_inv_idle [OF inv])
  assume st: "settled s'"
  show "settled s"
  proof (cases "close_start k s = Some s'")
    case True
    then show ?thesis
      using st settled_closer [of s' s "ByClose k" Swapping] by (auto simp: close_start_def split: if_splits)
  next
    case False
    with s' have c: "cn_closers s c = Swapping"
      "s' = set_closer c (if is_mark c \<and> cn_closed s then CloseDone (Ok ()) else Clearing (cn_closed s)) (s\<lparr>cn_closed := True\<rparr>)"
      by (auto simp: close_swap_def split: if_splits)
    have "cn_closed s"
    proof (rule ccontr)
      assume "\<not> cn_closed s"
      then have "cn_closers s' c = Clearing False" by (simp add: c(2))
      with st show False by (simp add: settled_def)
    qed
    moreover have "cn_closers s d \<noteq> Clearing False" for d
      using st c by (cases "d = c") (auto simp: settled_def dest: spec [of _ d])
    ultimately show ?thesis by (simp add: settled_def)
  qed
qed (use s' in \<open>auto simp: close_start_def close_swap_def split: if_splits\<close>)

lemma conn_inv_clear:
  assumes inv: "conn_inv s" and s': "close_clear c s = Some s'"
  shows "conn_inv s'"
proof -
  obtain n q where q: "close_pending (cn_queries s) = (Inr n, q)" "held q (in_flight (cn_inbound_task s))"
    "shrinks (cn_queries s) q" "qi_waiters q = []"
    using held_close [OF conn_inv_held [OF inv]] by blast
  have "keeps_receivers (cn_queries s) q {}" using keeps_close [OF q(1)] .
  then have recv: "has_receiver (cn_queries s) d \<Longrightarrow> has_receiver q d" for d by (simp add: keeps_receivers_def)
  from s' q(1) have "cn_queries s' = q" "cn_tasks s' = cn_tasks s" "cn_inbound_task s' = cn_inbound_task s"
    by (auto simp: close_clear_def split: closer_state.splits)
  then show ?thesis
    using q(2-4) recv conn_inv_receiver [OF inv] by (intro conn_invI [OF inv, where i = 0 and D = "{}"]) simp_all
qed

lemma conn_inv_closing:
  assumes inv: "conn_inv s" and s': "close_send c s = Some s' \<or> close_join c s = Some s' \<or> close_emit c s = Some s'"
  shows "conn_inv s'"
proof (rule conn_inv_idle [OF inv])
  have "cn_closed s' = cn_closed s \<and> (\<exists>x. cn_closers s' = (cn_closers s)(c := x)) \<and> cn_closers s c \<noteq> Clearing False"
    using s' by (auto simp: close_send_def close_join_def close_emit_def enqueue_def Let_def
        split: closer_state.splits if_splits outbound_state.splits sum.splits inbound_state.splits)
  then show "settled s' \<Longrightarrow> settled s" using settled_closer [of s' s c] by blast
qed (use s' in \<open>auto simp: close_send_def close_join_def close_emit_def enqueue_def Let_def
  split: closer_state.splits if_splits outbound_state.splits sum.splits inbound_state.splits\<close>)

lemma conn_inv_step:
  assumes "conn_inv s" "marks_idle s" "conn_step inflate a s = Some s'"
  shows "conn_inv s'"
proof (cases a)
  case (Query i tag frame)
  then show ?thesis using assms conn_inv_query_start [OF assms(1)] by (auto split: if_splits)
next
  case (QueryNode i node)
  obtain tag q where q: "query_node_tag node (cn_queries s) = (tag, q)" by fastforce
  then have "conn_inv (s\<lparr>cn_queries := q\<rparr>)"
    using assms(1) conn_inv_next_tag [OF assms(1)] by (auto simp: query_node_tag_def split: option.splits)
  then show ?thesis
    using QueryNode assms(3) q conn_inv_query_start [of "s\<lparr>cn_queries := q\<rparr>" i tag]
    by (auto simp: query_node_start_def split: if_splits)
next
  case (Send k frame)
  then show ?thesis using conn_inv_send [OF assms(1,3), of k frame] by simp
next
  case (SendNode k node)
  then show ?thesis using conn_inv_send [OF assms(1,3), of k _ node] by simp
next
  case (SendEnqueue k)
  then show ?thesis using conn_inv_send [OF assms(1,3), of k] by simp
qed (use assms in \<open>fastforce dest: conn_inv_check conn_inv_enqueue conn_inv_poll conn_inv_cancel conn_inv_frame
    conn_inv_sent conn_inv_clear conn_inv_spawned conn_inv_outbound [OF _ disjI1] conn_inv_outbound [OF _ disjI2 [OF disjI1]]
    conn_inv_outbound [OF _ disjI2 [OF disjI2]]
    conn_inv_inbound_end [OF _ disjI1] conn_inv_inbound_end [OF _ disjI2] conn_inv_swap [OF _ disjI1]
    conn_inv_swap [OF _ disjI2] conn_inv_closing [OF _ disjI1] conn_inv_closing [OF _ disjI2 [OF disjI1]]
    conn_inv_closing [OF _ disjI2 [OF disjI2]]\<close>)+

end
