(* ===== verification/ConnectionClosing.thy ===== *)
theory ConnectionClosing
  imports ConnectionSafety
begin

text \<open>
  The ways a connection closes: that the closed event is emitted once, that no query is left waiting,
  and what the runs look like in which the code falls short of it.
\<close>

section \<open>The closed event\<close>

text \<open>A call that has set the flag itself and has not emitted the event yet.\<close>

fun announcing :: "closer_state \<Rightarrow> bool" where
  "announcing (Clearing was) = (\<not> was)"
| "announcing (SendingClose was) = (\<not> was)"
| "announcing (TakingOut was) = (\<not> was)"
| "announcing (JoiningOut was) = (\<not> was)"
| "announcing (TakingIn was) = (\<not> was)"
| "announcing (JoiningIn was) = (\<not> was)"
| "announcing (Emitting was) = (\<not> was)"
| "announcing _ = False"

definition closed_events :: "'o connection \<Rightarrow> nat" where
  "closed_events s = length (filter (\<lambda>e. case e of ConnectionUpdate Closed \<Rightarrow> True | _ \<Rightarrow> False) (cn_events s))"

text \<open>The writing task has ended with an error.\<close>

definition write_failed :: "'o connection \<Rightarrow> bool" where
  "write_failed s \<longleftrightarrow> (\<exists>e. cn_outbound_task s = OutDone (Inl e))"

definition announced_inv :: "'o connection \<Rightarrow> bool" where
  "announced_inv s \<longleftrightarrow>
     (\<forall>c d. announcing (cn_closers s c) \<and> announcing (cn_closers s d) \<longrightarrow> c = d) \<and>
     closed_events s \<le> 1 \<and>
     ((\<not> cn_closed s \<or> (\<exists>c. announcing (cn_closers s c))) \<longrightarrow> closed_events s = 0) \<and>
     (\<not> cn_closed s \<longrightarrow> (\<forall>c. \<not> announcing (cn_closers s c))) \<and>
     (cn_closed s \<and> closed_events s = 0 \<longrightarrow> (\<exists>c. announcing (cn_closers s c)) \<or> write_failed s)"

text \<open>What a step may do to the flag, the closing calls and the closed events.\<close>

datatype closing_effect = Nothing | Moves closer closer_state | Sets closer | Announces closer

fun effect :: "closing_effect \<Rightarrow> 'o connection \<Rightarrow> 'o connection \<Rightarrow> bool" where
  "effect Nothing s s' \<longleftrightarrow> cn_closed s' = cn_closed s \<and> cn_closers s' = cn_closers s \<and> closed_events s' = closed_events s"
| "effect (Moves c x) s s' \<longleftrightarrow> cn_closed s' = cn_closed s \<and> cn_closers s' = (cn_closers s)(c := x) \<and>
     closed_events s' = closed_events s \<and> (announcing x \<longrightarrow> announcing (cn_closers s c)) \<and>
     (announcing (cn_closers s c) \<and> \<not> announcing x \<longrightarrow> write_failed s')"
| "effect (Sets c) s s' \<longleftrightarrow> \<not> cn_closed s \<and> cn_closed s' \<and> cn_closers s' = (cn_closers s)(c := Clearing False) \<and>
     closed_events s' = closed_events s"
| "effect (Announces c) s s' \<longleftrightarrow> cn_closed s' = cn_closed s \<and> cn_closers s' = (cn_closers s)(c := CloseDone (Ok ())) \<and>
     announcing (cn_closers s c) \<and> closed_events s' = Suc (closed_events s)"

lemma announced_effect:
  "announced_inv s \<Longrightarrow> effect f s s' \<Longrightarrow> (write_failed s \<Longrightarrow> write_failed s') \<Longrightarrow> announced_inv s'"
proof (cases f)
  case (Moves c x)
  moreover assume "announced_inv s" "effect f s s'" "write_failed s \<Longrightarrow> write_failed s'"
  moreover have "\<exists>d. announcing (if d = c then x else cn_closers s d)"
    if "announcing (cn_closers s d)" "announcing (cn_closers s c) \<longrightarrow> announcing x" for d
    using that by (cases "d = c") auto
  ultimately show ?thesis by (auto simp: announced_inv_def split: if_splits) metis
qed (auto simp: announced_inv_def split: if_splits)

lemma closed_events_parts [simp]:
  "closed_events (set_task i t s) = closed_events s" "closed_events (set_closer c x s) = closed_events s"
  "closed_events (emit (Frame p) s) = closed_events s" "closed_events (emit (RawNode n) s) = closed_events s"
  "closed_events (emit (ConnectionUpdate Closed) s) = Suc (closed_events s)"
  "closed_events (emit (ConnectionUpdate Open) s) = closed_events s" "closed_events (s\<lparr>cn_spawned := b\<rparr>) = closed_events s"
  "closed_events (s\<lparr>cn_queries := q\<rparr>) = closed_events s" "closed_events (s\<lparr>cn_inbound_task := it\<rparr>) = closed_events s"
  "closed_events (s\<lparr>cn_closed := b\<rparr>) = closed_events s" "closed_events (s\<lparr>cn_outbound := os\<rparr>) = closed_events s"
  "closed_events (s\<lparr>cn_outbound_task := ot\<rparr>) = closed_events s" "closed_events (s\<lparr>cn_sent := fs\<rparr>) = closed_events s"
  "closed_events (s\<lparr>cn_outbound_handle := b\<rparr>) = closed_events s" "closed_events (s\<lparr>cn_inbound_handle := b\<rparr>) = closed_events s"
  by (simp_all add: closed_events_def)

lemma effect_nothing_queries: "effect Nothing (s\<lparr>cn_queries := q\<rparr>) s' \<Longrightarrow> effect Nothing s s'"
  by simp

lemma effect_queries:
  "effect Nothing s (query_start i tag frame s)" "effect Nothing s (query_node_start i node s)"
  "query_check i s = Some s' \<Longrightarrow> effect Nothing s s'" "query_enqueue i s = Some s' \<Longrightarrow> effect Nothing s s'"
  "query_poll i elapsed s = Some s' \<Longrightarrow> effect Nothing s s'" "query_cancel i s = Some s' \<Longrightarrow> effect Nothing s s'"
  by (auto simp: query_start_def query_node_start_def query_check_def query_enqueue_def query_poll_def query_cancel_def
      query_fail_def enqueue_def split: prod.splits query_state.splits sum.splits if_splits option.splits)

lemma decode_parts [simp]:
  "cn_closed (inbound_decode inflate p s) = cn_closed s" "cn_closers (inbound_decode inflate p s) = cn_closers s"
  "closed_events (inbound_decode inflate p s) = closed_events s"
  "cn_outbound_task (inbound_decode inflate p s) = cn_outbound_task s"
  by (auto simp: inbound_decode_def split: sum.splits option.splits prod.splits)

lemma effect_frame:
  "inbound_frame inflate frame s = Some s' \<Longrightarrow> effect Nothing s s'"
  "inbound_sent inflate s = Some s' \<Longrightarrow> effect Nothing s s'"
  by (auto simp: inbound_frame_def inbound_sent_def
      split: inbound_state.splits prod.splits bool.splits if_splits option.splits sum.splits)

lemma effect_tasks:
  "marks_idle s \<Longrightarrow> outbound_step r s = Some s' \<Longrightarrow> effect Nothing s s' \<or> effect (Moves ByOutbound Swapping) s s'"
  "marks_idle s \<Longrightarrow> inbound_stop r s = Some s' \<Longrightarrow> effect (Moves ByInbound Swapping) s s'"
  "outbound_end s = Some s' \<Longrightarrow> effect Nothing s s'" "inbound_end s = Some s' \<Longrightarrow> effect Nothing s s'"
  "outbound_recv s = Some s' \<Longrightarrow> effect Nothing s s'" "spawn_end s = Some s' \<Longrightarrow> effect Nothing s s'"
  by (auto simp: outbound_recv_def spawn_end_def outbound_step_def inbound_stop_def outbound_end_def inbound_end_def marks_idle_def
      split: if_splits list.splits OutboundCommand.splits sum.splits outbound_state.splits inbound_state.splits)

lemma effect_send_frame:
  assumes "conn_step inflate a s = Some s'" "a \<in> {Send k frame, SendNode k node, SendEnqueue k}"
  shows "effect Nothing s s'"
  using sends_cases [OF assms] by (simp add: closed_events_def)

lemma effect_start: "close_start k s = Some s' \<Longrightarrow> effect (Moves (ByClose k) Swapping) s s'"
  by (auto simp: close_start_def split: if_splits)

lemma effect_swap: "close_swap c s = Some s' \<Longrightarrow> \<exists>f. effect f s s'"
proof -
  assume s': "close_swap c s = Some s'"
  show ?thesis
  proof (cases "cn_closed s")
    case True
    with s' have "effect (Moves c (if is_mark c then CloseDone (Ok ()) else Clearing True)) s s'"
      by (auto simp: close_swap_def split: if_splits)
    then show ?thesis ..
  next
    case False
    with s' have "effect (Sets c) s s'" by (auto simp: close_swap_def split: if_splits)
    then show ?thesis ..
  qed
qed

lemma effect_move:
  assumes "cn_closers s' = (cn_closers s)(c := x)" "cn_closed s' = cn_closed s" "closed_events s' = closed_events s"
    "announcing x = announcing (cn_closers s c) \<or> \<not> announcing x \<and> write_failed s'"
  shows "\<exists>f. effect f s s'"
  using assms by (intro exI [of _ "Moves c x"]) auto

lemma effect_clear: "conn_inv s \<Longrightarrow> close_clear c s = Some s' \<Longrightarrow> \<exists>f. effect f s s'"
  using held_close [OF conn_inv_held, of s]
  by (auto simp: close_clear_def split: closer_state.splits if_splits intro!: effect_move [where c = c])

lemma effect_send: "close_send c s = Some s' \<Longrightarrow> \<exists>f. effect f s s'"
  by (auto simp: close_send_def enqueue_def split: closer_state.splits if_splits intro!: effect_move [where c = c])

lemma effect_join: "close_join c s = Some s' \<Longrightarrow> \<exists>f. effect f s s'"
proof -
  assume s': "close_join c s = Some s'"
  then obtain x where "cn_closers s' = (cn_closers s)(c := x)"
    "announcing x = announcing (cn_closers s c) \<or> \<not> announcing x \<and> write_failed s'"
    by (cases "cn_closers s c") (auto simp: close_join_def write_failed_def
        split: if_splits outbound_state.splits sum.splits inbound_state.splits)
  moreover from s' have "cn_closed s' = cn_closed s" "closed_events s' = closed_events s"
    by (cases "cn_closers s c"; auto simp: close_join_def
        split: if_splits outbound_state.splits sum.splits inbound_state.splits)+
  ultimately show ?thesis by (intro effect_move)
qed

lemma effect_emit: "close_emit c s = Some s' \<Longrightarrow> \<exists>f. effect f s s'"
proof -
  assume s': "close_emit c s = Some s'"
  then obtain was where was: "cn_closers s c = Emitting was" by (auto simp: close_emit_def split: closer_state.splits)
  show ?thesis
  proof (cases was)
    case True
    then show ?thesis using s' was by (auto simp: close_emit_def intro!: effect_move [where c = c])
  next
    case False
    then have "effect (Announces c) s s'" using s' was by (auto simp: close_emit_def)
    then show ?thesis ..
  qed
qed

lemma step_effect:
  assumes "conn_inv s" "marks_idle s" "conn_step inflate a s = Some s'"
  shows "\<exists>f. effect f s s'"
proof (cases a)
  case Spawned
  then show ?thesis using assms(3) effect_tasks(6) [of s s'] by (auto simp del: effect.simps)
next
  case OutboundRecv
  then show ?thesis using assms(3) effect_tasks(5) [of s s'] by (auto simp del: effect.simps)
next
  case (Query i tag frame)
  with assms(3) have "effect Nothing s s'" using effect_queries(1) by (auto simp del: effect.simps split: if_splits)
  then show ?thesis ..
next
  case (QueryNode i node)
  with assms(3) have "effect Nothing s s'" using effect_queries(2) by (auto simp del: effect.simps split: if_splits)
  then show ?thesis ..
next
  case (Check i)
  then show ?thesis using assms(3) effect_queries(3) [of i s s'] by (auto simp del: effect.simps)
next
  case (Enqueue i)
  then show ?thesis using assms(3) effect_queries(4) [of i s s'] by (auto simp del: effect.simps)
next
  case (Poll i elapsed)
  then show ?thesis using assms(3) effect_queries(5) [of i elapsed s s'] by (auto simp del: effect.simps)
next
  case (Cancel i)
  then show ?thesis using assms(3) effect_queries(6) [of i s s'] by (auto simp del: effect.simps)
next
  case (OutboundStep r)
  then show ?thesis using assms(3) effect_tasks(1) [OF assms(2), of r s'] by (auto simp del: effect.simps)
next
  case OutboundEnd
  then show ?thesis using assms(3) effect_tasks(3) [of s s'] by (auto simp del: effect.simps)
next
  case (InboundFrame f)
  then show ?thesis using assms(3) effect_frame(1) [of inflate f s s'] by (auto simp del: effect.simps)
next
  case InboundSent
  then show ?thesis using assms(3) effect_frame(2) [of inflate s s'] by (auto simp del: effect.simps)
next
  case (InboundStop r)
  then show ?thesis using assms(3) effect_tasks(2) [OF assms(2), of r s'] by (auto simp del: effect.simps)
next
  case InboundEnd
  then show ?thesis using assms(3) effect_tasks(4) [of s s'] by (auto simp del: effect.simps)
next
  case (Send k frame)
  then have "effect Nothing s s'" using effect_send_frame [OF assms(3), of k frame] by blast
  then show ?thesis ..
next
  case (SendNode k node)
  then have "effect Nothing s s'" using effect_send_frame [OF assms(3), of k _ node] by blast
  then show ?thesis ..
next
  case (SendEnqueue k)
  then have "effect Nothing s s'" using effect_send_frame [OF assms(3), of k] by blast
  then show ?thesis ..
next
  case (CloseStart k)
  then show ?thesis using assms(3) effect_start [of k s s'] by (auto simp del: effect.simps)
qed (use assms effect_swap effect_clear effect_send effect_join effect_emit in \<open>simp_all del: effect.simps\<close>)

lemma step_write_failed: "conn_step inflate a s = Some s' \<Longrightarrow> write_failed s \<Longrightarrow> write_failed s'"
  by (cases a) (auto simp: write_failed_def query_start_def query_node_start_def query_check_def query_enqueue_def query_poll_def
      query_cancel_def query_fail_def enqueue_def send_frame_check_def send_node_check_def send_frame_enqueue_def
      spawn_end_def outbound_recv_def outbound_step_def outbound_end_def inbound_frame_def inbound_sent_def inbound_stop_def inbound_end_def close_start_def close_swap_def close_clear_def close_send_def close_join_def
      close_emit_def split: if_splits prod.splits query_state.splits sum.splits option.splits inbound_state.splits
      bool.splits closer_state.splits outbound_state.splits send_state.splits list.splits OutboundCommand.splits)

section \<open>Reachable states\<close>

lemma query_parts:
  "cn_outbound_task (query_start i tag frame s) = cn_outbound_task s"
  "cn_inbound_task (query_start i tag frame s) = cn_inbound_task s" "cn_closers (query_start i tag frame s) = cn_closers s"
  by (simp_all add: query_start_def split: prod.split)

lemma idle_queries:
  "marks_idle s \<Longrightarrow> marks_idle (query_start i tag frame s)" "marks_idle s \<Longrightarrow> marks_idle (query_node_start i node s)"
  "marks_idle s \<Longrightarrow> query_check i s = Some s' \<Longrightarrow> marks_idle s'"
  "marks_idle s \<Longrightarrow> query_enqueue i s = Some s' \<Longrightarrow> marks_idle s'"
  "marks_idle s \<Longrightarrow> query_poll i elapsed s = Some s' \<Longrightarrow> marks_idle s'"
  "marks_idle s \<Longrightarrow> query_cancel i s = Some s' \<Longrightarrow> marks_idle s'"
  unfolding marks_idle_def
  by (simp_all add: query_parts query_node_start_def split: prod.split)
    (auto simp: query_check_def query_fail_def query_enqueue_def enqueue_def query_poll_def query_cancel_def
      split: query_state.splits sum.splits if_splits prod.splits option.splits)

lemma idle_tasks:
  "marks_idle s \<Longrightarrow> spawn_end s = Some s' \<Longrightarrow> marks_idle s'" "marks_idle s \<Longrightarrow> outbound_recv s = Some s' \<Longrightarrow> marks_idle s'"
  "marks_idle s \<Longrightarrow> outbound_step r s = Some s' \<Longrightarrow> marks_idle s'" "marks_idle s \<Longrightarrow> outbound_end s = Some s' \<Longrightarrow> marks_idle s'"
  "marks_idle s \<Longrightarrow> inbound_stop r s = Some s' \<Longrightarrow> marks_idle s'" "marks_idle s \<Longrightarrow> inbound_end s = Some s' \<Longrightarrow> marks_idle s'"
  by (auto simp: marks_idle_def spawn_end_def outbound_recv_def outbound_step_def outbound_end_def inbound_stop_def inbound_end_def
      split: if_splits list.splits OutboundCommand.splits sum.splits outbound_state.splits inbound_state.splits)

lemma idle_reading:
  "marks_idle s \<Longrightarrow> cn_closers s ByInbound = NotClosing \<Longrightarrow> cn_outbound_task s' = cn_outbound_task s \<Longrightarrow>
     cn_closers s' = cn_closers s \<Longrightarrow> marks_idle s'"
  by (simp add: marks_idle_def)

lemma frame_parts:
  "inbound_frame inflate frame s = Some s' \<Longrightarrow> cn_outbound_task s' = cn_outbound_task s \<and> cn_closers s' = cn_closers s \<and>
     cn_inbound_task s = Reading"
  by (auto simp: inbound_frame_def split: if_splits option.splits prod.splits sum.splits)

lemma sent_parts:
  "inbound_sent inflate s = Some s' \<Longrightarrow> cn_outbound_task s' = cn_outbound_task s \<and> cn_closers s' = cn_closers s \<and>
     (\<exists>c p n. cn_inbound_task s = Sending c p n)"
  by (auto simp: inbound_sent_def split: inbound_state.splits option.splits prod.splits bool.splits)

lemma idle_frame: "marks_idle s \<Longrightarrow> inbound_frame inflate frame s = Some s' \<Longrightarrow> marks_idle s'"
  using frame_parts [of inflate frame s s'] by (intro idle_reading [of s s']) (auto simp: marks_idle_def)

lemma idle_sent: "marks_idle s \<Longrightarrow> inbound_sent inflate s = Some s' \<Longrightarrow> marks_idle s'"
  using sent_parts [of inflate s s'] by (intro idle_reading [of s s']) (auto simp: marks_idle_def)

text \<open>A closing call changes its own state, which is not \<open>NotClosing\<close>, and may end the reading task.\<close>

lemma idle_closer:
  "marks_idle s \<Longrightarrow> cn_closers s c \<noteq> NotClosing \<Longrightarrow> cn_outbound_task s' = cn_outbound_task s \<Longrightarrow>
     cn_inbound_task s' = cn_inbound_task s \<or> (\<exists>r. cn_inbound_task s' = InDone r) \<Longrightarrow>
     \<exists>x. cn_closers s' = (cn_closers s)(c := x) \<Longrightarrow> marks_idle s'"
  by (auto simp: marks_idle_def)

lemma closing_parts:
  "close_swap c s = Some s' \<or> close_clear c s = Some s' \<or> close_send c s = Some s' \<or> close_join c s = Some s' \<or>
     close_emit c s = Some s' \<Longrightarrow>
   cn_closers s c \<noteq> NotClosing \<and> cn_outbound_task s' = cn_outbound_task s \<and>
   (cn_inbound_task s' = cn_inbound_task s \<or> (\<exists>r. cn_inbound_task s' = InDone r)) \<and>
   (\<exists>x. cn_closers s' = (cn_closers s)(c := x))"
  by (cases "cn_closers s c")
    (auto simp: close_swap_def close_clear_def close_send_def close_join_def close_emit_def enqueue_def
      split: if_splits outbound_state.splits sum.splits inbound_state.splits prod.splits)

lemma idle_closing:
  "marks_idle s \<Longrightarrow> close_start k s = Some s' \<Longrightarrow> marks_idle s'"
  "marks_idle s \<Longrightarrow> close_swap c s = Some s' \<Longrightarrow> marks_idle s'" "marks_idle s \<Longrightarrow> close_clear c s = Some s' \<Longrightarrow> marks_idle s'"
  "marks_idle s \<Longrightarrow> close_send c s = Some s' \<Longrightarrow> marks_idle s'" "marks_idle s \<Longrightarrow> close_join c s = Some s' \<Longrightarrow> marks_idle s'"
  "marks_idle s \<Longrightarrow> close_emit c s = Some s' \<Longrightarrow> marks_idle s'"
proof -
  show "marks_idle s \<Longrightarrow> close_start k s = Some s' \<Longrightarrow> marks_idle s'"
    by (auto simp: marks_idle_def close_start_def split: if_splits)
qed (use closing_parts [of c s s'] idle_closer [of s c s'] in blast)+

lemma idle_send:
  "marks_idle s \<Longrightarrow> send_frame_check k frame s = Some s' \<Longrightarrow> marks_idle s'"
  "marks_idle s \<Longrightarrow> send_node_check k node s = Some s' \<Longrightarrow> marks_idle s'"
  "marks_idle s \<Longrightarrow> send_frame_enqueue k s = Some s' \<Longrightarrow> marks_idle s'"
  using send_parts [of k frame s s' node] by (simp_all add: marks_idle_def)

lemma idle_step: "marks_idle s \<Longrightarrow> conn_step inflate a s = Some s' \<Longrightarrow> marks_idle s'"
  by (cases a) (auto split: if_splits intro: idle_queries idle_send idle_tasks idle_frame idle_sent idle_closing)

text \<open>
  A connection is spawned with a manager whose lock is not poisoned and that no query waits on. Then
  its tasks and callers take steps in any order.
\<close>

definition quiet :: "QueryInner \<Rightarrow> bool" where
  "quiet q \<longleftrightarrow> qi_poisoned q = None \<and> qi_waiters q = [] \<and> (\<forall>ch \<in> set (qi_channels q). \<not> os_sender ch)"

inductive reachable :: "(bytes \<Rightarrow> string + bytes) \<Rightarrow> 'o connection \<Rightarrow> bool" for inflate where
  spawn: "quiet q \<Longrightarrow> reachable inflate (connection_spawn q capacity)"
| step: "reachable inflate s \<Longrightarrow> conn_step inflate a s = Some s' \<Longrightarrow> reachable inflate s'"

lemma reachable_inv: "reachable inflate s \<Longrightarrow> conn_inv s \<and> marks_idle s \<and> announced_inv s"
proof (induction rule: reachable.induct)
  case (spawn q capacity)
  then have "senders q = {}" by (auto simp: senders_def quiet_def)
  with spawn show ?case
    by (auto simp: connection_spawn_def conn_inv_def held_def quiet_def marks_idle_def announced_inv_def closed_events_def
        settled_def)
next
  case (step s a s')
  then have old: "conn_inv s" "marks_idle s" "announced_inv s" by simp_all
  obtain f where "effect f s s'" using step_effect [OF old(1,2) step.hyps(2)] by blast
  then show ?case
    using conn_inv_step [OF old(1,2) step.hyps(2)] idle_step [OF old(2) step.hyps(2)]
      announced_effect [OF old(3)] step_write_failed [OF step.hyps(2)] by blast
qed

lemma conn_steps_append: "conn_steps inflate (as @ bs) s = Option.bind (conn_steps inflate as s) (conn_steps inflate bs)"
  by (induction as arbitrary: s) (auto split: bind_split)

lemma conn_steps_snoc: "conn_steps inflate (as @ [a]) s = Option.bind (conn_steps inflate as s) (conn_step inflate a)"
  by (simp add: conn_steps_append) (cases "conn_steps inflate as s"; cases "conn_step inflate a (the (conn_steps inflate as s))"; simp)

lemma reachable_steps: "reachable inflate s \<Longrightarrow> conn_steps inflate as s = Some s' \<Longrightarrow> reachable inflate s'"
  by (induction as arbitrary: s) (auto simp: bind_eq_Some_conv intro: reachable.step)

section \<open>When the closed event is emitted\<close>

text \<open>
  C10: the closed event is emitted once. In every reachable state it has been emitted at most once,
  and never before the flag was set. If the flag is set and the event has not been emitted, the call
  that set the flag has it still to emit, or the writing task has failed.
\<close>

theorem closed_announced_once:
  assumes "reachable inflate s"
  shows "closed_events s \<le> 1 \<and> (closed_events s = 1 \<longrightarrow> cn_closed s) \<and>
    (cn_closed s \<and> closed_events s = 0 \<longrightarrow>
       (\<exists>c. announcing (cn_closers s c)) \<or> (\<exists>e. cn_outbound_task s = OutDone (Inl e)))"
  using reachable_inv [OF assms] by (auto simp: announced_inv_def write_failed_def)

text \<open>Only its own steps change a call of \<open>close\<close>, and the writing task does not come back.\<close>

lemma other_closer:
  assumes "conn_inv s" "marks_idle s" and step: "conn_step inflate a s = Some s'"
    and a: "a \<notin> {CloseStart k, CloseSwap (ByClose k), CloseClear (ByClose k), CloseSend (ByClose k), CloseJoin (ByClose k),
      CloseEmit (ByClose k)}"
  shows "cn_closers s' (ByClose k) = cn_closers s (ByClose k)"
proof (cases "\<exists>c. a \<in> {CloseSwap c, CloseClear c, CloseSend c, CloseJoin c, CloseEmit c}")
  case True
  then obtain c where c: "a \<in> {CloseSwap c, CloseClear c, CloseSend c, CloseJoin c, CloseEmit c}" by blast
  then have "c \<noteq> ByClose k" using a by auto
  moreover obtain x where "cn_closers s' = (cn_closers s)(c := x)" using closing_parts [of c s s'] c step by auto
  ultimately show ?thesis by simp
next
  case False
  have marks: "cn_closers s' (ByClose k) = cn_closers s (ByClose k)"
    if "effect Nothing s s' \<or> effect (Moves ByOutbound x) s s' \<or> effect (Moves ByInbound x) s s'" for x
    using that by auto
  show ?thesis
  proof (cases a)
    case (OutboundStep r)
    with step effect_tasks(1) [OF assms(2), of r s'] show ?thesis by (intro marks [of Swapping]) auto
  next
    case (InboundStop r)
    with step effect_tasks(2) [OF assms(2), of r s'] show ?thesis by (intro marks [of Swapping]) auto
  next
    case (CloseStart j)
    with step a show ?thesis by (auto simp: close_start_def split: if_splits)
  next
    case (Send j f)
    then show ?thesis using effect_send_frame [OF step, of j f] by (intro marks) simp
  next
    case (SendNode j n)
    then show ?thesis using effect_send_frame [OF step, of j _ n] by (intro marks) simp
  next
    case (SendEnqueue j)
    then show ?thesis using effect_send_frame [OF step, of j] by (intro marks) simp
  qed (use False step in \<open>auto simp del: effect.simps simp: query_parts query_node_start_def split: if_splits prod.splits
    intro!: marks [OF disjI1] intro: effect_queries effect_frame effect_tasks\<close>)
qed

lemma closer_waits:
  assumes "conn_inv s" "marks_idle s" "conn_step inflate a s = Some s'" "cn_closers s (ByClose k) = JoiningOut was"
  shows "cn_closers s' (ByClose k) = JoiningOut was \<or>
    (\<exists>r. cn_outbound_task s = OutDone r \<and>
      cn_closers s' (ByClose k) = (case r of Inl e \<Rightarrow> CloseDone (Err e) | Inr _ \<Rightarrow> TakingIn was))"
proof (cases "a = CloseJoin (ByClose k)")
  case True
  with assms(3,4) show ?thesis by (auto simp: close_join_def split: outbound_state.splits sum.splits)
next
  case False
  then have "a \<notin> {CloseStart k, CloseSwap (ByClose k), CloseClear (ByClose k), CloseSend (ByClose k), CloseJoin (ByClose k),
      CloseEmit (ByClose k)}"
    using assms(3,4)
    by (auto simp: close_start_def close_swap_def close_clear_def close_send_def close_emit_def)
  from other_closer [OF assms(1-3) this] assms(4) show ?thesis by simp
qed

lemma closer_done:
  assumes "conn_inv s" "marks_idle s" "conn_step inflate a s = Some s'" "cn_closers s (ByClose k) = CloseDone r"
  shows "cn_closers s' (ByClose k) = CloseDone r"
proof -
  have "a \<notin> {CloseStart k, CloseSwap (ByClose k), CloseClear (ByClose k), CloseSend (ByClose k), CloseJoin (ByClose k),
      CloseEmit (ByClose k)}"
    using assms(3,4)
    by (auto simp: close_start_def close_swap_def close_clear_def close_send_def close_join_def close_emit_def)
  from other_closer [OF assms(1-3) this] assms(4) show ?thesis by simp
qed

definition out_ended :: "unit core_result \<Rightarrow> outbound_state \<Rightarrow> bool" where
  "out_ended r t \<longleftrightarrow> t = OutEnding r \<or> t = OutDone r"

lemma out_ended_step:
  "conn_step inflate a s = Some s' \<Longrightarrow> out_ended r (cn_outbound_task s) \<Longrightarrow> out_ended r (cn_outbound_task s')"
proof (cases a)
  case (CloseJoin c)
  then show "conn_step inflate a s = Some s' \<Longrightarrow> out_ended r (cn_outbound_task s) \<Longrightarrow> out_ended r (cn_outbound_task s')"
    using closing_parts [of c s s'] by auto
qed (auto simp: out_ended_def query_parts query_node_start_def query_check_def query_fail_def query_enqueue_def enqueue_def
    query_poll_def query_cancel_def send_frame_check_def send_node_check_def send_frame_enqueue_def spawn_end_def
    outbound_recv_def outbound_step_def outbound_end_def inbound_stop_def inbound_end_def close_start_def close_swap_def
    close_clear_def close_send_def close_emit_def
    split: if_splits prod.splits query_state.splits sum.splits option.splits send_state.splits inbound_state.splits
      closer_state.splits dest: frame_parts sent_parts)

text \<open>A call of \<open>close\<close> that has set the flag waits for a writing task that has failed.\<close>

definition doomed :: "nat \<Rightarrow> CoreError \<Rightarrow> 'o connection \<Rightarrow> bool" where
  "doomed k e s \<longleftrightarrow> cn_closed s \<and> closed_events s = 0 \<and>
     (\<forall>c. announcing (cn_closers s c) \<longrightarrow> c = ByClose k \<and> cn_closers s c = JoiningOut False) \<and>
     (cn_closers s (ByClose k) = JoiningOut False \<and> out_ended (Err e) (cn_outbound_task s) \<or>
      cn_closers s (ByClose k) = CloseDone (Err e))"

lemma doomed_step:
  assumes inv: "conn_inv s" "marks_idle s" and step: "conn_step inflate a s = Some s'" and d: "doomed k e s"
  shows "doomed k e s'"
proof -
  have own: "cn_closers s' (ByClose k) = JoiningOut False \<and> out_ended (Err e) (cn_outbound_task s') \<or>
      cn_closers s' (ByClose k) = CloseDone (Err e)"
    using d closer_waits [OF inv step, of k False] closer_done [OF inv step, of k "Err e"] out_ended_step [OF step, of "Err e"]
    by (auto simp: doomed_def out_ended_def)
  obtain f where "effect f s s'" using step_effect [OF inv step] by blast
  then have "cn_closed s' \<and> closed_events s' = 0 \<and> (\<forall>c. announcing (cn_closers s' c) \<longrightarrow> c = ByClose k)"
    using d own by (cases f) (auto simp: doomed_def split: if_splits)
  then show ?thesis using own unfolding doomed_def by (metis announcing.simps(10))
qed

lemma doomed_steps:
  "\<lbrakk>reachable inflate s; conn_steps inflate as s = Some s'; doomed k e s\<rbrakk> \<Longrightarrow> doomed k e s'"
proof (induction as arbitrary: s)
  case (Cons a as)
  then obtain s1 where s1: "conn_step inflate a s = Some s1" "conn_steps inflate as s1 = Some s'"
    by (auto simp: bind_eq_Some_conv)
  have "conn_inv s" "marks_idle s" using reachable_inv [OF Cons.prems(1)] by simp_all
  with Cons.IH [OF reachable.step [OF Cons.prems(1) s1(1)] s1(2)] doomed_step [OF _ _ s1(1) Cons.prems(3)]
  show ?case by blast
qed simp

text \<open>
  C35: a close that meets a write error is never announced. In any reachable state, when \<open>close\<close>, which
  has set the flag, waits for the writing task, and the sink then fails to write a frame that was
  queued before or to close: the writing task finds the flag set and emits nothing, and \<open>close\<close>
  returns the error, which takes three more steps that are not blocked, and never anything else. No
  closed event is ever emitted, whatever happens afterwards, also when \<open>close\<close> is called again.
\<close>

theorem failed_close_unannounced:
  assumes "reachable inflate s" and "cn_closers s (ByClose k) = JoiningOut False"
    and "conn_step inflate (OutboundStep (Inl e)) s = Some s1"
  shows "(\<exists>s2. conn_steps inflate [CloseSwap ByOutbound, OutboundEnd, CloseJoin (ByClose k)] s1 = Some s2 \<and>
      cn_closers s2 (ByClose k) = CloseDone (Err e)) \<and>
    (\<forall>as s2. conn_steps inflate as s1 = Some s2 \<longrightarrow> closed_events s2 = 0 \<and>
      (\<forall>r. cn_closers s2 (ByClose k) = CloseDone r \<longrightarrow> r = Err e))"
proof -
  have inv: "conn_inv s" "marks_idle s" "announced_inv s" using reachable_inv [OF assms(1)] by simp_all
  have ann: "announcing (cn_closers s (ByClose k))" by (simp add: assms(2))
  then have s: "cn_closed s" "closed_events s = 0" "\<And>c. announcing (cn_closers s c) \<Longrightarrow> c = ByClose k"
    using inv(3) unfolding announced_inv_def by blast+
  have s1: "cn_outbound_task s1 = OutEnding (Err e)" "cn_closers s1 = (cn_closers s)(ByOutbound := Swapping)"
    "cn_closed s1 = cn_closed s" "closed_events s1 = closed_events s"
    using assms(3) by (auto simp: outbound_step_def split: outbound_state.splits)
  have "doomed k e s1"
    using s s1 assms(2) by (auto simp: doomed_def out_ended_def)
  then have later: "closed_events s2 = 0 \<and> (\<forall>r. cn_closers s2 (ByClose k) = CloseDone r \<longrightarrow> r = Err e)"
    if "conn_steps inflate as s1 = Some s2" for as s2
  proof -
    have "doomed k e s2" by (rule doomed_steps [OF reachable.step [OF assms(1,3)] that \<open>doomed k e s1\<close>])
    then show ?thesis by (auto simp: doomed_def)
  qed
  have "\<exists>s2. conn_steps inflate [CloseSwap ByOutbound, OutboundEnd, CloseJoin (ByClose k)] s1 = Some s2 \<and>
      cn_closers s2 (ByClose k) = CloseDone (Err e)"
    using s(1) s1 assms(2) by (simp add: close_swap_def is_mark_def outbound_end_def close_join_def)
  with later show ?thesis by blast
qed

section \<open>Witnesses\<close>

lemmas run_defs = spawn_end_def outbound_recv_def query_start_def register_def register_with_timeout_def query_check_def query_enqueue_def enqueue_def
  query_poll_def poll_wait_def close_start_def close_swap_def close_clear_def close_pending_def drop_sender_def
  drop_receiver_def close_send_def outbound_step_def outbound_end_def close_join_def close_emit_def is_mark_def
  set_task_def set_closer_def emit_def Let_def

definition quiet_start :: "unit connection" where
  "quiet_start = connection_spawn (query_new None) 2"

lemma quiet_start_reachable: "reachable inflate quiet_start"
  unfolding quiet_start_def by (rule reachable.spawn) (simp add: quiet_def query_new_def query_with_prefix_def)

lemmas start_defs = quiet_start_def connection_spawn_def query_new_def query_with_prefix_def

text \<open>A call of \<open>close\<close> that succeeds, as the call numbered \<open>k\<close>.\<close>

definition good_close :: "nat \<Rightarrow> step list" where
  "good_close k = [Spawned, CloseStart k, CloseSwap (ByClose k), CloseClear (ByClose k), CloseSend (ByClose k), OutboundRecv, OutboundStep (Inr ()),
     CloseSwap ByOutbound, OutboundEnd, CloseJoin (ByClose k), CloseJoin (ByClose k), CloseJoin (ByClose k),
     CloseJoin (ByClose k), CloseEmit (ByClose k)]"

lemma good_close_run: "\<exists>s. conn_steps inflate (good_close 0) quiet_start = Some s \<and> cn_closed s \<and>
    cn_events s = [ConnectionUpdate Open, ConnectionUpdate Closed]"
  by (simp add: good_close_def start_defs run_defs)

theorem closed_announced_once_witness:
  "\<exists>s. conn_steps (\<lambda>_. Inl []) (good_close 0) quiet_start = Some s \<and> closed_events s = 1 \<and> closed_events s \<le> 1"
proof -
  obtain s where s: "conn_steps (\<lambda>_. Inl []) (good_close 0) quiet_start = Some s"
    "cn_events s = [ConnectionUpdate Open, ConnectionUpdate Closed]"
    using good_close_run by blast
  then have "closed_events s = 1" by (simp add: closed_events_def)
  then show ?thesis using closed_announced_once [OF reachable_steps [OF quiet_start_reachable s(1)]] s(1) by auto
qed

text \<open>A frame is queued, \<open>close\<close> is called, and the frame cannot be written; then \<open>close\<close> is called again.\<close>

definition close_with_frame :: "step list" where
  "close_with_frame = [Spawned, Query 0 ''q'' [], Check 0, Enqueue 0, CloseStart 0, CloseSwap (ByClose 0), CloseClear (ByClose 0),
     CloseSend (ByClose 0), CloseJoin (ByClose 0), OutboundRecv]"

lemma close_with_frame_run:
  "\<exists>s s1. conn_steps inflate close_with_frame quiet_start = Some s \<and> cn_closers s (ByClose 0) = JoiningOut False \<and>
     conn_step inflate (OutboundStep (Inl e)) s = Some s1"
  by (simp add: close_with_frame_def start_defs run_defs)

definition second_close :: "step list" where
  "second_close = [CloseSwap ByOutbound, OutboundEnd, CloseJoin (ByClose 0), CloseStart 1, CloseSwap (ByClose 1), CloseClear (ByClose 1),
     CloseSend (ByClose 1), CloseJoin (ByClose 1), CloseJoin (ByClose 1), CloseJoin (ByClose 1), CloseEmit (ByClose 1)]"

lemma second_close_run:
  "conn_steps inflate (close_with_frame @ [OutboundStep (Inl e)]) quiet_start = Some s \<Longrightarrow>
     \<exists>s'. conn_steps inflate second_close s = Some s' \<and> cn_closers s' (ByClose 1) = CloseDone (Ok ())"
  by (auto simp: close_with_frame_def second_close_def start_defs run_defs)

theorem failed_close_unannounced_witness:
  "\<exists>s s1 s2. conn_steps (\<lambda>_. Inl []) close_with_frame quiet_start = Some s \<and>
     conn_step (\<lambda>_. Inl []) (OutboundStep (Inl TimedOut)) s = Some s1 \<and>
     conn_steps (\<lambda>_. Inl []) second_close s1 = Some s2 \<and> cn_closers s2 (ByClose 1) = CloseDone (Ok ()) \<and> closed_events s2 = 0"
proof -
  obtain s s1 where s: "conn_steps (\<lambda>_. Inl []) close_with_frame quiet_start = Some s" "cn_closers s (ByClose 0) = JoiningOut False"
    "conn_step (\<lambda>_. Inl []) (OutboundStep (Inl TimedOut)) s = Some s1"
    using close_with_frame_run by blast
  then have "conn_steps (\<lambda>_. Inl []) (close_with_frame @ [OutboundStep (Inl TimedOut)]) quiet_start = Some s1"
    by (simp only: conn_steps_snoc) simp
  from second_close_run [OF this] obtain s2 where s2: "conn_steps (\<lambda>_. Inl []) second_close s1 = Some s2"
    "cn_closers s2 (ByClose 1) = CloseDone (Ok ())" by blast
  with failed_close_unannounced [OF reachable_steps [OF quiet_start_reachable s(1)] s(2,3)] s show ?thesis by blast
qed

text \<open>The reading task can end before \<open>spawn\<close> emits its event: a closed event comes first.\<close>

lemma open_after_closed:
  "\<exists>s. conn_steps inflate [InboundStop (Ok ()), CloseSwap ByInbound, CloseClear ByInbound, CloseEmit ByInbound, Spawned] quiet_start =
     Some s \<and> cn_events s = [ConnectionUpdate Closed, ConnectionUpdate Open]"
  by (simp add: start_defs run_defs inbound_stop_def)

end
