(* ===== verification/ConnectionQueries.thy ===== *)
theory ConnectionQueries
  imports ConnectionClosing
begin

text \<open>
  What becomes of a query: it is answered by the frame with its tag whatever happens in between, and
  a connection that closes leaves none waiting; a second query with the tag ends the first.
\<close>

section \<open>Polling\<close>

lemma query_poll_answer:
  "cn_tasks s i = Waiting w \<Longrightarrow> os_value (qi_channels (cn_queries s) ! qw_channel w) = Some p \<Longrightarrow>
     \<exists>s'. query_poll i elapsed s = Some s' \<and> cn_tasks s' i = Finished (Ok p)"
  by (simp add: query_poll_def poll_wait_def)

lemma query_poll_closed:
  "cn_tasks s i = Waiting w \<Longrightarrow> os_value (qi_channels (cn_queries s) ! qw_channel w) = None \<Longrightarrow>
     \<not> os_sender (qi_channels (cn_queries s) ! qw_channel w) \<Longrightarrow>
     \<exists>s'. query_poll i elapsed s = Some s' \<and> cn_tasks s' i = Finished (Err ConnectionClosed)"
  by (simp add: query_poll_def poll_wait_def)

lemma query_poll_settled:
  assumes inv: "conn_inv s" and t: "cn_tasks s i = Waiting w" and "settled s" and "qw_channel w \<notin> in_flight (cn_inbound_task s)"
  shows "\<exists>s' r. query_poll i elapsed s = Some s' \<and> cn_tasks s' i = Finished r"
proof -
  have "qw_channel w \<notin> ran (table (cn_queries s))" using inv t assms(3) unfolding conn_inv_def
    by (metis past_check.simps(2))
  moreover have "has_receiver (cn_queries s) (qw_channel w)" using conn_inv_receiver [OF inv, of i w] t by simp
  ultimately have "\<not> os_sender (qi_channels (cn_queries s) ! qw_channel w)"
    using conn_inv_held [OF inv] assms(4) by (auto simp: held_def has_receiver_def senders_def)
  then show ?thesis
    using query_poll_answer [OF t] query_poll_closed [OF t]
    by (cases "os_value (qi_channels (cn_queries s) ! qw_channel w)") blast+
qed

text \<open>The reading task sends into the channel of a query that waits.\<close>

lemma sent_delivers:
  assumes inv: "conn_inv s" and t: "cn_tasks s i = Waiting w" and task: "cn_inbound_task s = Sending (Some (qw_channel w)) p n"
  shows "\<exists>s'. inbound_sent inflate s = Some s' \<and> cn_tasks s' i = Waiting w \<and> cn_inbound_task s' = Reading \<and>
    cn_closed s' = cn_closed s \<and> cn_closers s' = cn_closers s \<and>
    os_value (qi_channels (cn_queries s') ! qw_channel w) = Some p"
  using conn_inv_receiver [OF inv, of i w] t task
  by (simp add: inbound_sent_def resolve_send_def has_receiver_def)

section \<open>No query is left waiting\<close>

text \<open>One call at most has set the flag and not yet cleared the table, and it can.\<close>

lemma clear_settles:
  assumes "reachable inflate s" and "cn_closed s" and t: "cn_tasks s i = Waiting w"
  shows "\<exists>pre s'. length pre \<le> 1 \<and> set pre \<subseteq> range CloseClear \<and> conn_steps inflate pre s = Some s' \<and>
    settled s' \<and> cn_tasks s' i = Waiting w"
proof (cases "settled s")
  case True
  with t show ?thesis by (intro exI [of _ "[]"]) simp
next
  case False
  with assms(2) obtain c where c: "cn_closers s c = Clearing False" by (auto simp: settled_def)
  have inv: "conn_inv s" "announced_inv s" using reachable_inv [OF assms(1)] by simp_all
  then have one: "cn_closers s d \<noteq> Clearing False" if "d \<noteq> c" for d
    using that c by (auto simp: announced_inv_def)
  obtain n q where q: "close_pending (cn_queries s) = (Inr n, q)" using held_close [OF conn_inv_held [OF inv(1)]] by blast
  then obtain s' where "close_clear c s = Some s'" "cn_tasks s' = cn_tasks s" "cn_closed s'"
    "cn_closers s' c \<noteq> Clearing False" "\<forall>d. d \<noteq> c \<longrightarrow> cn_closers s' d = cn_closers s d"
    using c assms(2) by (simp add: close_clear_def)
  moreover from this one have "settled s'" unfolding settled_def by metis
  ultimately show ?thesis using t by (intro exI [of _ "[CloseClear c]"] exI [of _ s']) auto
qed

text \<open>
  C9: a connection that closes leaves no query waiting. Once the flag of a connection is set,
  whoever set it and wherever the other tasks and callers are, a query that waits for its answer
  ends without its timeout: after at most two steps that are not blocked, the clearing of the table
  by the call that set the flag and the delivery of an answer on its way, its next poll returns.
\<close>

theorem closed_connection_ends_queries:
  assumes "reachable inflate s" and "cn_closed s" and "cn_tasks s i = Waiting w"
  shows "\<exists>pre s' r. length pre \<le> 2 \<and> set pre \<subseteq> {InboundSent} \<union> range CloseClear \<and>
    conn_steps inflate (pre @ [Poll i False]) s = Some s' \<and> cn_tasks s' i = Finished r"
proof -
  obtain pre s1 where pre: "length pre \<le> 1" "set pre \<subseteq> range CloseClear" "conn_steps inflate pre s = Some s1"
    "settled s1" "cn_tasks s1 i = Waiting w"
    using clear_settles [OF assms] by blast
  have inv: "conn_inv s1" using reachable_inv reachable_steps [OF assms(1) pre(3)] by blast
  show ?thesis
  proof (cases "qw_channel w \<in> in_flight (cn_inbound_task s1)")
    case False
    from query_poll_settled [OF inv pre(5,4) this, of False] pre show ?thesis
      by (intro exI [of _ pre]) (auto simp: conn_steps_snoc simp del: append_assoc)
  next
    case True
    then obtain p n where "cn_inbound_task s1 = Sending (Some (qw_channel w)) p n"
      by (cases "cn_inbound_task s1") auto
    from sent_delivers [OF inv pre(5) this] obtain s2 where s2: "inbound_sent inflate s1 = Some s2" "cn_tasks s2 i = Waiting w"
      "os_value (qi_channels (cn_queries s2) ! qw_channel w) = Some p" by blast
    from query_poll_answer [OF s2(2,3), of False] s2(1) pre show ?thesis
      by (intro exI [of _ "pre @ [InboundSent]"]) (auto simp: conn_steps_snoc simp del: append_assoc)
  qed
qed

section \<open>Answers\<close>

definition keeps_values :: "QueryInner \<Rightarrow> QueryInner \<Rightarrow> bool" where
  "keeps_values q q' \<longleftrightarrow> (\<forall>c < length (qi_channels q). os_value (qi_channels q ! c) \<noteq> None \<longrightarrow>
     os_value (qi_channels q' ! c) = os_value (qi_channels q ! c))"

lemma keeps_values_refl [simp]: "keeps_values q q"
  by (simp add: keeps_values_def)

lemma values_drop_waiter: "keeps_values q (drop_waiter w q)"
  by (auto simp: keeps_values_def drop_waiter_def remove_waiter_def channel_parts split: option.split)

lemma values_poll: "poll_wait w elapsed q = (r, q') \<Longrightarrow> keeps_values q q'"
  by (auto simp: keeps_values_def poll_wait_def remove_waiter_def channel_parts Let_def split: option.splits if_splits)

lemma values_close: "close_pending q = (r, q') \<Longrightarrow> keeps_values q q'"
  using fold_drop_sender [of "map snd (qi_waiters q)" "q\<lparr>qi_waiters := []\<rparr>"]
  by (auto simp: keeps_values_def close_pending_def split: option.splits)

lemma values_take: "resolve_take tag q = (r, q') \<Longrightarrow> keeps_values q q'"
  by (auto simp: keeps_values_def resolve_take_def split: option.splits)

lemma values_send:
  assumes "held q (set_option sender)"
  shows "keeps_values q (snd (resolve_send sender p q))"
proof (cases sender)
  case (Some c)
  then have "c \<in> senders q" using assms by (auto simp: held_def)
  then have "os_value (qi_channels q ! d) \<noteq> None \<Longrightarrow> d < length (qi_channels q) \<Longrightarrow> d \<noteq> c" for d
    using held_values [OF assms] by blast
  then show ?thesis using Some by (auto simp: keeps_values_def resolve_send_def channel_parts nth_list_update_below)
qed (simp add: resolve_send_def)

lemma values_register: "register_with_timeout tag t q = (r, q') \<Longrightarrow> keeps_values q q'"
  by (auto simp: keeps_values_def register_with_timeout_def Let_def nth_append channel_parts split: option.splits)

lemma values_queries:
  "keeps_values (cn_queries s) (cn_queries (query_start i tag frame s))"
  "keeps_values (cn_queries s) (cn_queries (query_node_start i node s))"
  "query_check i s = Some s' \<Longrightarrow> keeps_values (cn_queries s) (cn_queries s')"
  "query_enqueue i s = Some s' \<Longrightarrow> keeps_values (cn_queries s) (cn_queries s')"
  "query_poll i elapsed s = Some s' \<Longrightarrow> keeps_values (cn_queries s) (cn_queries s')"
  "query_cancel i s = Some s' \<Longrightarrow> keeps_values (cn_queries s) (cn_queries s')"
proof -
  show *: "keeps_values (cn_queries s) (cn_queries (query_start i tag frame s))" for s :: "'a connection" and tag frame
    by (auto simp: query_start_def register_def dest: values_register split: prod.split)
  obtain tag q where "query_node_tag node (cn_queries s) = (tag, q)" by fastforce
  moreover from this have "qi_channels q = qi_channels (cn_queries s)"
    by (auto simp: query_node_tag_def next_tag_def split: option.splits)
  ultimately show "keeps_values (cn_queries s) (cn_queries (query_node_start i node s))"
    using * [of "s\<lparr>cn_queries := q\<rparr>"] by (simp add: query_node_start_def keeps_values_def)
qed (auto simp: query_check_def query_enqueue_def query_poll_def query_cancel_def query_fail_def enqueue_def
    values_drop_waiter dest: values_poll split: query_state.splits sum.splits if_splits prod.splits option.splits)

lemma values_decode: "keeps_values (cn_queries s) (cn_queries (inbound_decode inflate p s))"
  by (auto simp: inbound_decode_def dest: values_take split: sum.split option.split prod.split)

lemma values_sent:
  assumes inv: "conn_inv s" and s': "inbound_sent inflate s = Some s'"
  shows "keeps_values (cn_queries s) (cn_queries s')"
proof -
  from s' obtain sender p n where t: "cn_inbound_task s = Sending sender p n"
    by (auto simp: inbound_sent_def split: inbound_state.splits)
  obtain b q where q: "resolve_send sender p (cn_queries s) = (b, q)" by fastforce
  have h: "keeps_values (cn_queries s) q" "length (qi_channels q) = length (qi_channels (cn_queries s))"
    using values_send [of "cn_queries s" sender p] conn_inv_held [OF inv] t q
    by (auto simp: resolve_send_def split: option.splits if_splits)
  have "keeps_values (cn_queries s) (cn_queries (inbound_decode inflate p (s\<lparr>cn_queries := q\<rparr>)))"
    using h values_decode [of "s\<lparr>cn_queries := q\<rparr>" inflate p] by (simp add: keeps_values_def)
  then show ?thesis using s' t q h(1) by (cases b; cases n) (auto simp: inbound_sent_def)
qed

lemma values_frame: "inbound_frame inflate frame s = Some s' \<Longrightarrow> keeps_values (cn_queries s) (cn_queries s')"
  by (auto simp: inbound_frame_def values_decode dest: values_take split: if_splits option.splits prod.splits sum.splits)

lemma values_tasks:
  "spawn_end s = Some s' \<Longrightarrow> cn_queries s' = cn_queries s" "outbound_recv s = Some s' \<Longrightarrow> cn_queries s' = cn_queries s"
  "outbound_step r s = Some s' \<Longrightarrow> cn_queries s' = cn_queries s" "outbound_end s = Some s' \<Longrightarrow> cn_queries s' = cn_queries s"
  "inbound_stop r s = Some s' \<Longrightarrow> cn_queries s' = cn_queries s" "inbound_end s = Some s' \<Longrightarrow> cn_queries s' = cn_queries s"
  "close_start k s = Some s' \<Longrightarrow> cn_queries s' = cn_queries s" "close_swap c s = Some s' \<Longrightarrow> cn_queries s' = cn_queries s"
  "close_send c s = Some s' \<Longrightarrow> cn_queries s' = cn_queries s" "close_join c s = Some s' \<Longrightarrow> cn_queries s' = cn_queries s"
  "close_emit c s = Some s' \<Longrightarrow> cn_queries s' = cn_queries s"
  by (auto simp: spawn_end_def outbound_recv_def outbound_step_def outbound_end_def inbound_stop_def inbound_end_def close_start_def close_swap_def
      close_send_def close_join_def close_emit_def enqueue_def
      split: if_splits list.splits OutboundCommand.splits sum.splits outbound_state.splits inbound_state.splits
        closer_state.splits)

lemma values_sends:
  "send_frame_check k frame s = Some s' \<Longrightarrow> cn_queries s' = cn_queries s"
  "send_node_check k node s = Some s' \<Longrightarrow> cn_queries s' = cn_queries s"
  "send_frame_enqueue k s = Some s' \<Longrightarrow> cn_queries s' = cn_queries s"
  using send_parts [of k frame s s' node] by simp_all

lemma values_clear: "close_clear c s = Some s' \<Longrightarrow> keeps_values (cn_queries s) (cn_queries s')"
  by (auto simp: close_clear_def dest: values_close split: closer_state.splits prod.splits)

lemma values_step: "conn_inv s \<Longrightarrow> conn_step inflate a s = Some s' \<Longrightarrow> keeps_values (cn_queries s) (cn_queries s')"
  by (cases a) (auto split: if_splits intro: values_queries values_sent values_frame values_clear dest: values_tasks values_sends)

text \<open>Only its own steps change a query.\<close>

lemma decode_tasks [simp]: "cn_tasks (inbound_decode inflate p s) = cn_tasks s"
  by (auto simp: inbound_decode_def split: sum.split option.split prod.split)

lemma tasks_kept:
  "spawn_end s = Some s' \<Longrightarrow> cn_tasks s' = cn_tasks s" "outbound_recv s = Some s' \<Longrightarrow> cn_tasks s' = cn_tasks s"
  "outbound_step r s = Some s' \<Longrightarrow> cn_tasks s' = cn_tasks s" "outbound_end s = Some s' \<Longrightarrow> cn_tasks s' = cn_tasks s"
  "inbound_frame inflate frame s = Some s' \<Longrightarrow> cn_tasks s' = cn_tasks s"
  "inbound_sent inflate s = Some s' \<Longrightarrow> cn_tasks s' = cn_tasks s"
  "inbound_stop r s = Some s' \<Longrightarrow> cn_tasks s' = cn_tasks s" "inbound_end s = Some s' \<Longrightarrow> cn_tasks s' = cn_tasks s"
  "close_start k s = Some s' \<Longrightarrow> cn_tasks s' = cn_tasks s" "close_swap c s = Some s' \<Longrightarrow> cn_tasks s' = cn_tasks s"
  "close_clear c s = Some s' \<Longrightarrow> cn_tasks s' = cn_tasks s" "close_send c s = Some s' \<Longrightarrow> cn_tasks s' = cn_tasks s"
  "send_frame_check k f s = Some s' \<Longrightarrow> cn_tasks s' = cn_tasks s" "send_node_check k node s = Some s' \<Longrightarrow> cn_tasks s' = cn_tasks s"
  "send_frame_enqueue k s = Some s' \<Longrightarrow> cn_tasks s' = cn_tasks s"
  "close_join c s = Some s' \<Longrightarrow> cn_tasks s' = cn_tasks s" "close_emit c s = Some s' \<Longrightarrow> cn_tasks s' = cn_tasks s"
  by (auto simp: spawn_end_def outbound_recv_def outbound_step_def outbound_end_def inbound_stop_def inbound_end_def close_start_def close_swap_def
      close_clear_def close_send_def close_join_def close_emit_def enqueue_def inbound_frame_def inbound_sent_def
      send_frame_check_def send_node_check_def send_frame_enqueue_def
      split: if_splits list.splits OutboundCommand.splits sum.splits outbound_state.splits inbound_state.splits
        closer_state.splits send_state.splits prod.splits option.splits bool.splits)

lemma other_tasks:
  assumes "conn_step inflate a s = Some s'" "cn_tasks s i = Waiting w" "a \<notin> {Poll i True, Poll i False, Cancel i}"
  shows "cn_tasks s' i = Waiting w"
  using assms
  by (cases a) (auto simp: query_start_def query_node_start_def query_check_def query_fail_def query_enqueue_def
      enqueue_def query_poll_def query_cancel_def split: if_splits prod.splits query_state.splits sum.splits option.splits
      dest: tasks_kept)

text \<open>A query is made by a caller, who has the connection only after \<open>spawn\<close>.\<close>

lemma spawned_parts [simp]:
  "cn_spawned (set_task i t s) = cn_spawned s" "cn_spawned (set_closer c x s) = cn_spawned s"
  "cn_spawned (set_send k u s) = cn_spawned s" "cn_spawned (emit e s) = cn_spawned s"
  "cn_spawned (inbound_decode inflate p s) = cn_spawned s"
  by (auto simp: set_task_def set_closer_def set_send_def emit_def inbound_decode_def split: sum.split option.split prod.split)

lemma spawned_step: "conn_step inflate a s = Some s' \<Longrightarrow> cn_spawned s \<Longrightarrow> cn_spawned s'"
  by (cases a) (auto simp: query_start_def query_node_start_def query_check_def query_enqueue_def query_poll_def
      query_cancel_def query_fail_def enqueue_def send_frame_check_def send_node_check_def send_frame_enqueue_def
      spawn_end_def outbound_recv_def outbound_step_def outbound_end_def inbound_frame_def inbound_sent_def inbound_stop_def
      inbound_end_def close_start_def close_swap_def close_clear_def close_send_def close_join_def
      close_emit_def split: if_splits prod.splits query_state.splits sum.splits option.splits inbound_state.splits
      bool.splits closer_state.splits outbound_state.splits send_state.splits list.splits OutboundCommand.splits)

lemma tasks_spawned: "reachable inflate s \<Longrightarrow> cn_tasks s i \<noteq> NoQuery \<Longrightarrow> cn_spawned s"
proof (induction arbitrary: i rule: reachable.induct)
  case (step s a s')
  show ?case
  proof (cases "cn_spawned s")
    case True
    then show ?thesis using spawned_step [OF step.hyps(2)] by simp
  next
    case False
    with step.IH have none: "cn_tasks s = (\<lambda>_. NoQuery)" by blast
    have "cn_tasks s' = cn_tasks s"
      using step.hyps(2) False none
      by (cases a) (auto simp: query_check_def query_enqueue_def query_poll_def query_cancel_def dest: tasks_kept)
    then show ?thesis using none step.prems by simp
  qed
qed (simp add: connection_spawn_def)

text \<open>While the reading task is about to send, only the sending changes it.\<close>

lemma sending_kept:
  assumes "conn_step inflate a s = Some s'" "cn_inbound_task s = Sending c p n" "a \<noteq> InboundSent"
  shows "cn_inbound_task s' = Sending c p n"
proof (cases a)
  case (CloseJoin d)
  then show ?thesis using assms by (cases "cn_closers s d") (auto simp: close_join_def split: if_splits outbound_state.splits sum.splits)
qed (use assms in \<open>auto simp: query_parts query_node_start_def query_check_def query_fail_def query_enqueue_def
      enqueue_def query_poll_def query_cancel_def send_frame_check_def send_node_check_def send_frame_enqueue_def
      spawn_end_def outbound_recv_def outbound_step_def outbound_end_def inbound_frame_def inbound_stop_def
      inbound_end_def close_start_def close_swap_def close_clear_def close_send_def close_emit_def
      split: if_splits prod.splits query_state.splits sum.splits option.splits list.splits OutboundCommand.splits
        outbound_state.splits closer_state.splits send_state.splits\<close>)

abbreviation own_steps :: "nat \<Rightarrow> step set" where
  "own_steps i \<equiv> {Poll i True, Poll i False, Cancel i}"

text \<open>The answer of a query is in its channel.\<close>

definition delivered :: "nat \<Rightarrow> QueryWaiter \<Rightarrow> bytes \<Rightarrow> 'o connection \<Rightarrow> bool" where
  "delivered i w p s \<longleftrightarrow> cn_tasks s i = Waiting w \<and> os_value (qi_channels (cn_queries s) ! qw_channel w) = Some p"

lemma delivered_step:
  assumes inv: "conn_inv s" and step: "conn_step inflate a s = Some s'" and d: "delivered i w p s" and a: "a \<notin> own_steps i"
  shows "delivered i w p s'"
  using values_step [OF inv step] other_tasks [OF step _ a, of w] conn_inv_receiver [OF inv, of i w] d
  by (simp add: delivered_def keeps_values_def has_receiver_def)

lemma delivered_steps:
  "\<lbrakk>reachable inflate s; conn_steps inflate as s = Some s'; delivered i w p s; set as \<inter> own_steps i = {}\<rbrakk> \<Longrightarrow>
     delivered i w p s'"
proof (induction as arbitrary: s)
  case (Cons a as)
  then obtain s1 where s1: "conn_step inflate a s = Some s1" "conn_steps inflate as s1 = Some s'"
    by (auto simp: bind_eq_Some_conv)
  have "conn_inv s" using reachable_inv [OF Cons.prems(1)] by simp
  with Cons.prems s1 have "delivered i w p s1" by (intro delivered_step [OF _ s1(1)]) auto
  with Cons.prems s1 show ?case by (intro Cons.IH [OF reachable.step [OF Cons.prems(1) s1(1)]]) auto
qed simp

text \<open>Once the reading task has taken the sender, the answer arrives whatever the other tasks do.\<close>

lemma sending_steps:
  "\<lbrakk>reachable inflate s; conn_steps inflate as s = Some s'; cn_tasks s i = Waiting w;
    cn_inbound_task s = Sending (Some (qw_channel w)) p n; set as \<inter> own_steps i = {}; InboundSent \<in> set as\<rbrakk> \<Longrightarrow>
     delivered i w p s'"
proof (induction as arbitrary: s)
  case (Cons a as)
  then obtain s1 where s1: "conn_step inflate a s = Some s1" "conn_steps inflate as s1 = Some s'"
    by (auto simp: bind_eq_Some_conv)
  have inv: "conn_inv s" using reachable_inv [OF Cons.prems(1)] by simp
  have r: "reachable inflate s1" using Cons.prems(1) s1(1) by (rule reachable.step)
  show ?case
  proof (cases "a = InboundSent")
    case True
    then have "delivered i w p s1" using sent_delivers [OF inv Cons.prems(3,4), of inflate] s1(1) by (auto simp: delivered_def)
    then show ?thesis using delivered_steps [OF r s1(2)] Cons.prems(5) by simp
  next
    case False
    with Cons.prems s1 show ?thesis
      using sending_kept [OF s1(1) Cons.prems(4) False] other_tasks [OF s1(1) Cons.prems(3)] by (intro Cons.IH [OF r]) auto
  qed
qed simp

text \<open>A stanza with an id starts the sending to the query under the tag.\<close>

lemma stanza_wire:
  assumes "node_fits n" and "readable_node n" and "protocol_node n"
  shows "\<exists>bs. encode_binary_node n = Inr bs \<and> decode_binary_node inflate bs = Inr n"
proof -
  obtain bs where bs: "encode_node_inner n = Inr bs" using encode_fits(1) [OF assms(1)] by blast
  with decode_encoded(1) [OF bs assms(2), of "[]"] wire_protocol(1) [of n] assms(3) show ?thesis
    by (auto simp: encode_binary_node_def decode_binary_node_def decompress_if_required_def protocol_node_def)
qed

lemma stanza_starts:
  assumes inv: "conn_inv s" and "cn_inbound_task s = Reading" and "table (cn_queries s) tag = Some c"
    and "encode_binary_node n = Inr bs" "decode_binary_node inflate bs = Inr n" and "response_tag n = Some tag"
  shows "\<exists>s'. inbound_frame inflate \<lparr>if_tag = None, if_payload = bs\<rparr> s = Some s' \<and>
    cn_inbound_task s' = Sending (Some c) bs (Some n)"
  using held_take [of "cn_queries s" tag] conn_inv_held [OF inv] assms(2-)
  by (auto simp: inbound_frame_def inbound_decode_def decode_inbound_binary_node_def inbound_from_node_def inbound_encode_def)

text \<open>
  C8: a query gets its answer. A query waits, its sender is in the table under its tag, and the
  reading task receives a stanza of the protocol whose id is the tag, as bytes. Whatever the other
  queries, the writing task, the calls that close the connection and the timer do before and after
  the reading task has sent the answer on, the next poll of the query returns it, and
  \<open>query_node\<close> decodes from it the stanza that was sent.
\<close>

theorem query_answered:
  assumes "reachable inflate s" and "cn_inbound_task s = Reading"
    and "cn_tasks s i = Waiting w" and "map_of (qi_waiters (cn_queries s)) tag = Some (qw_channel w)"
    and "node_fits n" and "readable_node n" and "protocol_node n" and "response_tag n = Some tag"
  shows "\<exists>bs s1. encode_binary_node n = Inr bs \<and>
    conn_step inflate (InboundFrame \<lparr>if_tag = None, if_payload = bs\<rparr>) s = Some s1 \<and>
    (\<forall>as s2. conn_steps inflate as s1 = Some s2 \<and> InboundSent \<in> set as \<and> set as \<inter> {Poll i True, Poll i False, Cancel i} = {} \<longrightarrow>
      (\<exists>s3 r. conn_step inflate (Poll i elapsed) s2 = Some s3 \<and> cn_tasks s3 i = Finished r \<and>
        query_node_result inflate r = Ok \<lparr>in_response_tag = Some tag, in_node = n\<rparr>))"
proof -
  obtain bs where bs: "encode_binary_node n = Inr bs" "decode_binary_node inflate bs = Inr n"
    using stanza_wire [OF assms(5-7)] by blast
  have inv: "conn_inv s" using reachable_inv [OF assms(1)] by simp
  from stanza_starts [OF inv assms(2,4) bs assms(8)] obtain s1 where
    s1: "inbound_frame inflate \<lparr>if_tag = None, if_payload = bs\<rparr> s = Some s1"
      "cn_inbound_task s1 = Sending (Some (qw_channel w)) bs (Some n)" by blast
  have r: "reachable inflate s1" using reachable.step [OF assms(1), of "InboundFrame \<lparr>if_tag = None, if_payload = bs\<rparr>" s1] s1(1) by simp
  have w: "cn_tasks s1 i = Waiting w" using tasks_kept(5) [OF s1(1)] assms(3) by simp
  have res: "query_node_result inflate (Ok bs) = Ok \<lparr>in_response_tag = Some tag, in_node = n\<rparr>"
    using bs(2) assms(8) by (simp add: query_node_result_def decode_inbound_binary_node_def inbound_from_node_def)
  have "\<exists>s3. query_poll i elapsed s2 = Some s3 \<and> cn_tasks s3 i = Finished (Ok bs)"
    if "conn_steps inflate as s1 = Some s2" "InboundSent \<in> set as" "set as \<inter> own_steps i = {}" for as s2
    using sending_steps [OF r that(1) w s1(2) that(3,2)] query_poll_answer by (auto simp: delivered_def)
  with bs(1) s1(1) res show ?thesis by (intro exI [of _ bs] exI [of _ s1]) fastforce
qed

section \<open>Two queries with one tag\<close>

text \<open>
  C36: a second query with the tag of a query that waits ends both. It is refused, as it should be,
  but only after its sender has replaced the one in the table: the first query returns that the
  connection is closed, which it is not, its answer can no longer reach it, and the tag stays taken.
\<close>

theorem duplicate_query_ends_first:
  assumes "reachable inflate s" and "cn_tasks s i = Waiting w"
    and "map_of (qi_waiters (cn_queries s)) tag = Some (qw_channel w)" and "cn_tasks s j = NoQuery"
  shows "\<exists>s'. conn_steps inflate [Query j tag frame, Poll i False] s = Some s' \<and> cn_closed s' = cn_closed s \<and>
    cn_tasks s' j = Finished (Err (DuplicateQueryTag tag)) \<and> cn_tasks s' i = Finished (Err ConnectionClosed) \<and>
    map_of (qi_waiters (cn_queries s')) tag \<noteq> None"
proof -
  have inv: "conn_inv s" using reachable_inv [OF assms(1)] by simp
  note h = conn_inv_held [OF inv]
  have "qw_channel w \<in> senders (cn_queries s)" using h assms(3) by (auto simp: held_def intro: ranI)
  then have c: "qw_channel w < length (qi_channels (cn_queries s))" "os_value (qi_channels (cn_queries s) ! qw_channel w) = None"
    using held_values [OF h, of "qw_channel w"] by (auto simp: senders_def simp del: not_None_eq)
  obtain r q where r: "register tag (cn_queries s) = (r, q)" by fastforce
  have q: "r = Inl (DuplicateQueryTag tag)" "os_value (qi_channels q ! qw_channel w) = None"
    "\<not> os_sender (qi_channels q ! qw_channel w)" "table q tag \<noteq> None"
    by (rule register_cases [OF h r [unfolded register_def]];
        use assms(3) c in \<open>auto simp: update_conv' channel_parts nth_append drop_sender_def\<close>)+
  let ?s = "query_start j tag (Ok frame) s"
  have s1: "cn_tasks ?s i = Waiting w" "cn_tasks ?s j = Finished (Err (DuplicateQueryTag tag))" "cn_queries ?s = q"
    "cn_closed ?s = cn_closed s"
    using assms(2,4) r q(1) by (auto simp: query_start_def)
  have "i \<noteq> j" "cn_spawned s" using assms(2,4) tasks_spawned [OF assms(1), of i] by auto
  then show ?thesis
    using query_poll_closed [OF s1(1), of False] q(2-4) s1 assms(4)
    by (auto simp: query_poll_def poll_wait_def)
qed

section \<open>Witnesses\<close>

text \<open>A query under the tag \<open>q\<close> that waits.\<close>

definition waiting_query :: "step list" where
  "waiting_query = [Spawned, Query 0 ''q'' [], Check 0, Enqueue 0]"

lemma waiting_query_run:
  "\<exists>s. conn_steps inflate waiting_query quiet_start = Some s \<and>
     cn_tasks s = (\<lambda>_. NoQuery)(0 := Waiting \<lparr>qw_tag = ''q'', qw_timeout = None, qw_channel = 0\<rparr>) \<and>
     qi_waiters (cn_queries s) = [(''q'', 0)] \<and> cn_inbound_task s = Reading"
  by (simp add: waiting_query_def start_defs run_defs)

lemma waiting_query_reachable: "conn_steps inflate waiting_query quiet_start = Some s \<Longrightarrow> reachable inflate s"
  using reachable_steps [OF quiet_start_reachable] .

definition sample_answer :: BinaryNode where
  "sample_answer = BinaryNode ''iq'' [(''id'', ''q''), (''type'', ''result'')] None"

lemma sample_answer_ok: "node_fits sample_answer" "readable_node sample_answer" "protocol_node sample_answer"
  "response_tag sample_answer = Some ''q''"
  by (simp_all add: sample_answer_def attrs_fit_def short_def readable_node_def readable_attrs_def readable_def
      has_server_plain str_ok_list_all protocol_node_def protocol_attrs_def protocol_string_def btree_ok_def response_tag_def)

theorem query_answered_witness:
  "\<exists>s bs s1. reachable (\<lambda>_. Inl []) s \<and> encode_binary_node sample_answer = Inr bs \<and>
     conn_step (\<lambda>_. Inl []) (InboundFrame \<lparr>if_tag = None, if_payload = bs\<rparr>) s = Some (s1 :: unit connection) \<and>
     (\<exists>s3 r. conn_steps (\<lambda>_. Inl []) [InboundSent, Poll 0 True] s1 = Some s3 \<and> cn_tasks s3 0 = Finished r \<and>
       query_node_result (\<lambda>_. Inl []) r = Ok \<lparr>in_response_tag = Some ''q'', in_node = sample_answer\<rparr>)"
proof -
  let ?w = "\<lparr>qw_tag = ''q'', qw_timeout = None, qw_channel = 0\<rparr>"
  obtain s where s: "conn_steps (\<lambda>_. Inl []) waiting_query quiet_start = Some s" "cn_tasks s 0 = Waiting ?w"
    "map_of (qi_waiters (cn_queries s)) ''q'' = Some (qw_channel ?w)" "cn_inbound_task s = Reading"
    using waiting_query_run [of "\<lambda>_. Inl []"] by auto
  note reach = waiting_query_reachable [OF s(1)]
  from query_answered [OF reach s(4,2,3) sample_answer_ok, of True] obtain bs s1 where
    s1: "encode_binary_node sample_answer = Inr bs"
      "conn_step (\<lambda>_. Inl []) (InboundFrame \<lparr>if_tag = None, if_payload = bs\<rparr>) s = Some s1"
    and ans: "\<And>as s2. conn_steps (\<lambda>_. Inl []) as s1 = Some s2 \<and> InboundSent \<in> set as \<and>
        set as \<inter> {Poll 0 True, Poll 0 False, Cancel 0} = {} \<Longrightarrow>
      \<exists>s3 r. conn_step (\<lambda>_. Inl []) (Poll 0 True) s2 = Some s3 \<and> cn_tasks s3 0 = Finished r \<and>
        query_node_result (\<lambda>_. Inl []) r = Ok \<lparr>in_response_tag = Some ''q'', in_node = sample_answer\<rparr>" by blast
  have inv: "conn_inv s" using reachable_inv [OF reach] by simp
  have "decode_binary_node (\<lambda>_. Inl []) bs = Inr sample_answer"
    using stanza_wire [OF sample_answer_ok(1-3), of "\<lambda>_. Inl []"] s1(1) by auto
  from stanza_starts [OF inv s(4,3) s1(1) this sample_answer_ok(4)] s1(2)
  have "cn_inbound_task s1 = Sending (Some 0) bs (Some sample_answer)" by auto
  moreover obtain b q where "resolve_send (Some 0) bs (cn_queries s1) = (b, q)" by fastforce
  ultimately obtain s2 where s2: "conn_step (\<lambda>_. Inl []) InboundSent s1 = Some s2"
    by (cases b) (auto simp: inbound_sent_def)
  then have "conn_steps (\<lambda>_. Inl []) [InboundSent] s1 = Some s2" by simp
  with ans [of "[InboundSent]" s2] obtain s3 r where "conn_step (\<lambda>_. Inl []) (Poll 0 True) s2 = Some s3"
    "cn_tasks s3 0 = Finished r"
    "query_node_result (\<lambda>_. Inl []) r = Ok \<lparr>in_response_tag = Some ''q'', in_node = sample_answer\<rparr>" by auto
  moreover from this(1) s2 have "conn_steps (\<lambda>_. Inl []) [InboundSent, Poll 0 True] s1 = Some s3" by simp
  ultimately show ?thesis using reach s1 by blast
qed

theorem duplicate_query_ends_first_witness:
  "\<exists>s s'. conn_steps (\<lambda>_. Inl []) waiting_query quiet_start = Some s \<and>
     conn_steps (\<lambda>_. Inl []) [Query 1 ''q'' [], Poll 0 False] s = Some s' \<and>
     cn_tasks s' 1 = Finished (Err (DuplicateQueryTag ''q'')) \<and> cn_tasks s' 0 = Finished (Err ConnectionClosed)"
proof -
  obtain s where s: "conn_steps (\<lambda>_. Inl []) waiting_query quiet_start = Some s"
    "cn_tasks s 0 = Waiting \<lparr>qw_tag = ''q'', qw_timeout = None, qw_channel = 0\<rparr>" "cn_tasks s 1 = NoQuery"
    "map_of (qi_waiters (cn_queries s)) ''q'' = Some (qw_channel \<lparr>qw_tag = ''q'', qw_timeout = None, qw_channel = 0\<rparr>)"
    using waiting_query_run [of "\<lambda>_. Inl []"] by auto
  from duplicate_query_ends_first [OF waiting_query_reachable [OF s(1)] s(2,4,3), of "[]"] s(1) show ?thesis by blast
qed

text \<open>The connection is closed while the query waits, up to the swap of the flag.\<close>

lemma closing_run:
  "\<exists>s. conn_steps inflate (waiting_query @ [CloseStart 0, CloseSwap (ByClose 0)]) quiet_start = Some s \<and> cn_closed s \<and>
     cn_tasks s 0 = Waiting \<lparr>qw_tag = ''q'', qw_timeout = None, qw_channel = 0\<rparr>"
  by (simp add: waiting_query_def start_defs run_defs)

theorem closed_connection_ends_queries_witness:
  "\<exists>s pre s' r. conn_steps (\<lambda>_. Inl []) (waiting_query @ [CloseStart 0, CloseSwap (ByClose 0)]) quiet_start = Some s \<and>
     conn_steps (\<lambda>_. Inl []) (pre @ [Poll 0 False]) s = Some s' \<and> cn_tasks s' 0 = Finished r"
proof -
  obtain s where s: "conn_steps (\<lambda>_. Inl []) (waiting_query @ [CloseStart 0, CloseSwap (ByClose 0)]) quiet_start = Some s"
    "cn_closed s" "cn_tasks s 0 = Waiting \<lparr>qw_tag = ''q'', qw_timeout = None, qw_channel = 0\<rparr>"
    using closing_run by blast
  from closed_connection_ends_queries [OF reachable_steps [OF quiet_start_reachable s(1)] s(2,3)] s(1) show ?thesis by blast
qed

end
