(* ===== verification/Spec2Isabelle.thy ===== *)
theory Spec2Isabelle
  imports SignalInvariant GroupInvariant PreKeyUploads SignalOperations SignalProvider CodecSafety AppStateDelivery EventBufferTheorems StoredEventsRoundtrip AppStateRecovery NoiseEstablished NoiseFrames MediaStreams ConnectionQueries
begin

text \<open>
  A model of the protocol core of Irminsul, a WhatsApp Web client in Rust, with the theorems that
  make it correct. The source is a workspace of crates: \<^verbatim>\<open>wa-binary\<close> (addresses and the binary
  stanza format), \<^verbatim>\<open>wa-crypto\<close> (wrappers around the cryptographic crates), \<^verbatim>\<open>wa-store\<close> (a
  transactional key-value store), \<^verbatim>\<open>wa-core\<close> (credentials, pre-keys, the Signal protocol and the
  protocol logic above it) and \<^verbatim>\<open>wa-client\<close> (the asynchronous client).

  \<^bold>\<open>How code becomes definitions.\<close> A struct is a \<open>record\<close>, an enum a \<open>datatype\<close>, \<open>Result<T, E>\<close>
  the sum \<open>'e + 'a\<close>, and \<open>?\<close> the combinator \<open>and_then\<close> of \<open>Prelude\<close>. Integers keep their width
  (\<open>u8\<close>, \<open>u16\<close>, \<open>u32\<close> are words); \<open>usize\<close> lengths are \<open>nat\<close>. A Rust string is the list of its UTF-8
  bytes as characters; \<open>StdText\<close> and \<open>Utf8\<close> hold the validation and how it splits. A \<open>BTreeMap\<close> is
  the list of its entries in key order. The memory store is a map from namespace and key to bytes
  with its poisoning flag; a transaction body is a function of the snapshot (\<open>tx\<close> in \<open>Store\<close>) that
  is committed only on success. An operation on the store returns its result and the store it
  leaves. Random values are arguments. Primitives of foreign crates (AES, HMAC, HKDF, X25519,
  XEdDSA, protobuf messages, zlib) are the fields of the record \<open>ext\<close> or plain arguments; what the
  code relies on is \<open>ext_ok\<close> in \<open>Core\<close>: the key agreement commutes, decryption inverts encryption,
  a signature made by a key verifies, the encodings round-trip, and outputs have their lengths.
  \<open>ExtInstance\<close> has an instance that meets every law; the witnesses evaluate on it.

  \<^bold>\<open>Theories and code.\<close>
  \<^item> \<open>Jid\<close>, \<open>Node\<close>, \<open>Tokens\<close>, \<open>Codec\<close>, \<open>CodecDecode\<close>: \<^verbatim>\<open>jid.rs\<close>, \<^verbatim>\<open>node.rs\<close>, \<^verbatim>\<open>tokens.rs\<close>,
    \<^verbatim>\<open>codec.rs\<close>. \<open>CodecStrings\<close> and \<open>CodecRoundtrip\<close> show that reading inverts writing, from lengths
    over packed strings and JIDs to nodes; \<open>CodecSafety\<close> that decoding ends on all input in an error
    or a well-formed node.
  \<^item> \<open>Store\<close>: \<^verbatim>\<open>traits.rs\<close> and \<^verbatim>\<open>memory.rs\<close>, with the locale of the store interface interpreted on
    the memory store.
  \<^item> \<open>Credentials\<close>, \<open>CredentialStore\<close>, \<open>CredentialProperties\<close>: \<^verbatim>\<open>auth.rs\<close>. The two families of readers
    agree, saved credentials are loaded back, initialisation never overwrites.
  \<^item> \<open>PreKeys\<close>, \<open>PreKeyProperties\<close>, \<open>PreKeyUploads\<close>: \<^verbatim>\<open>pre_keys.rs\<close> and the fixed-width fields of
    \<^verbatim>\<open>payload.rs\<close>. Uploads take contiguous ranges of ids, can be retried, and no id is reused.
  \<^item> \<open>SignalKeys\<close>, \<open>SignalRatchet\<close>, \<open>SignalWire\<close>, \<open>SignalRecord\<close>, \<open>SignalSession\<close>: the one-to-one
    sessions of \<^verbatim>\<open>signal.rs\<close>: key schedule, wire format, stored record, encryption and decryption.
    \<open>SignalAgreement\<close>, \<open>SignalDelivery\<close>, \<open>SignalOrder\<close>, \<open>SignalConversation\<close>, \<open>SignalTurns\<close> and
    \<open>SignalInvariant\<close> show that both ends derive the same keys, that messages decrypt in any order
    and once, that a conversation stays in step over every turn, and that stored records stay sound.
  \<^item> \<open>SenderKey\<close>, \<open>SenderMessage\<close>, with \<open>SenderDelivery\<close>, \<open>GroupDelivery\<close>, \<open>GroupProperties\<close>,
    \<open>GroupInvariant\<close>: the sender keys of groups in \<^verbatim>\<open>signal.rs\<close>, likewise. Both kinds of session meet
    the contracts \<open>key_chain\<close> (\<open>SignalRatchet\<close>) and \<open>delivery\<close> (\<open>Delivery\<close>), each a locale that is
    interpreted on the code's chains and records.
  \<^item> \<open>SignalStore\<close>, \<open>SignalStoreOps\<close>, \<open>SignalRepository\<close>: \<open>SignalProviderStateStore\<close>,
    \<open>StoreSignalRepository\<close> and \<open>LidPnMappingStore\<close> of \<^verbatim>\<open>signal.rs\<close>, the records in the store with the
    trust checks and the migration of sessions. \<open>SignalStoreTrust\<close> and \<open>SignalOperations\<close> show the
    trust rules over all runs of their operations.
  \<^item> \<open>SignalProvider\<close>: \<open>StoreSignalSenderKeyProvider\<close> and the facade \<open>SignalMessageCodec\<close>.
  \<^item> \<open>AppStateHash\<close>, \<open>AppStatePatch\<close>: the app-state sync of \<^verbatim>\<open>wa-crypto/src/app_state.rs\<close> and
    \<^verbatim>\<open>wa-core/src/app_state.rs\<close>. \<open>AppStateRefinement\<close> shows that a collection refines a map and that
    its incremental hash is a function of that map, \<open>AppStateDelivery\<close> that a patch is accepted by
    the other devices and brings them to the same state. \<open>AppStateEvents\<close> has the events of
    mutations, \<open>AppStateStore\<close> the store operations and the application of sync responses.
    \<open>AppStateInvariant\<close> states what a loop over patches keeps as a locale and interprets it on
    soundness and on the versions; \<open>AppStateRecovery\<close> is about failures on the way.
    \<open>AppStateInstance\<close> and \<open>SyncActionInstance\<close> are the instance of the foreign functions for the
    witnesses.
  \<^item> \<open>Account\<close>, \<open>Events\<close>, \<open>EventBuffer\<close>, \<open>StoredEvents\<close>: \<^verbatim>\<open>event.rs\<close> and the types of \<^verbatim>\<open>account.rs\<close> that
    events carry. \<open>Coalescing\<close> states the contracts of a buffer that keeps one pending item per key;
    \<open>EventBufferRefinement\<close> interprets them on every kind of event and \<open>EventBufferTheorems\<close>
    concludes that the buffer is bounded and, but for history sets, invisible to a reader. \<open>StoredEventsRoundtrip\<close> shows
    that stored records are read back.
  \<^item> \<open>Noise\<close>, \<open>Payload\<close>, \<open>NoiseConnection\<close>: \<^verbatim>\<open>wa-crypto/src/noise.rs\<close>, the payloads of \<^verbatim>\<open>payload.rs\<close> and
    \<^verbatim>\<open>config.rs\<close>, and \<^verbatim>\<open>validation.rs\<close> with the frame sink and stream of \<^verbatim>\<open>wa-core/src/noise.rs\<close>.
    \<open>NoiseTransportProperties\<close> is about frames, chunks and nonces, \<open>NoiseAgreement\<close> runs the handshake
    against the responder that the pattern XX prescribes, \<open>NoiseFrames\<close> and \<open>NoiseEstablished\<close> state
    delivery and the establishment of a connection. SHA-256, AES-GCM and the protobuf messages are
    the record \<open>noise_ext\<close> with the laws \<open>noise_ext_ok\<close>; \<open>NoiseInstance\<close> has an instance.
  \<^item> \<open>Media\<close>, \<open>MediaStreams\<close>: \<^verbatim>\<open>wa-crypto/src/media.rs\<close>. The laws \<open>media_ext_ok\<close> say that AES-CBC is the
    CBC mode of the block cipher with PKCS7 padding; from them the streams agree with the functions
    on whole files, and encryption is inverted.
  \<^item> \<open>Query\<close>, \<open>Connection\<close>: \<^verbatim>\<open>query.rs\<close>, \<^verbatim>\<open>router.rs\<close> and \<^verbatim>\<open>connection.rs\<close>. The queries, the callers that
    send or close, and the writing and the reading task are state machines of one state; the open
    event of \<open>spawn\<close> comes in a step after the tasks have started; \<open>conn_step\<close>
    is one step of one of them, from one await point or atomic access to the next, so that a list of
    steps is an interleaving. One-shot channels are numbered. \<open>ConnectionSafety\<close> has the invariant on
    the table of queries, the channels and the flag, \<open>ConnectionClosing\<close> the reachable states and the
    closed event, \<open>ConnectionQueries\<close> what becomes of a query. \<open>spawn\<close> is given a manager that no
    query waits on; the abort of tasks when the last handle is dropped is left out.
  \<^bold>\<open>Bounds.\<close> The code's own limits are constants of the model: 2000 skipped message keys per
  record, 25000 steps of a chain per message, five sender-key states, 24-bit pre-key ids on the
  wire, list sizes of at most 65535 and strings of less than 4 GiB in a stanza. The only fuel is in
  the list decoder of \<open>ExtInstance\<close>, where the length of the input is enough. Every recursion of
  the code is a total function here; \<open>read_string\<close> and \<open>decode_node_inner\<close> end because each call
  starts after a byte that was read.

  \<^bold>\<open>Not modelled.\<close> Asynchrony outside the connection: an operation on the store runs without
  interleaved writers, and the mutation locks that make this so for the Signal records are left out. Logging, timing and metrics.
  The SQLite store (SQL run by a library), sockets and HTTP, the generated protobuf
  types, and the builders and parsers of single stanzas above the codec. Secrecy is not stated:
  the primitives are functions with laws, not with an adversary.
\<close>

end
